(* ===== verification/Go_Prelude.thy ===== *)
theory Go_Prelude
  imports Main "HOL-Library.Word" "HOL-Library.Sublist" "HOL-Library.Signed_Division"
begin

text \<open>
  The part of Go and of its standard library that the modelled sources use, and the generic lemmas
  the components share.

  \<^item> A Go \<open>string\<close> that carries text is a list of runes (Unicode code points). Every such string
    reaches the modelled code through \<open>encoding/json\<close> or from a literal, so it is valid UTF-8, and
    on valid UTF-8 the byte-wise operations the sources use (\<open>HasPrefix\<close>, \<open>HasSuffix\<close>,
    \<open>Contains\<close>, equality) agree with the rune-wise ones. An ASCII literal is written
    \<open>lit ''abc''\<close>, any other literal as the list of its code points.
  \<^item> \<open>time.Duration\<close> is an \<open>int\<close> (nanoseconds) and \<open>time.Time\<close> an optional \<open>int\<close>
    (nanoseconds since an arbitrary epoch), \<open>None\<close> being the zero \<open>time.Time\<close> for which
    \<open>IsZero\<close> holds.
  \<^item> Go's \<open>int\<close> division truncates: \<open>sdiv\<close> of \<open>HOL-Library.Signed_Division\<close>; \<open>int64\<close>
    is the wrap-around of 64-bit arithmetic, written where a product can overflow.
\<close>

named_theorems text_simps \<open>equations of the text operations\<close>
named_theorems wf_intros \<open>introduction rules of the component invariants\<close>

section \<open>Integers and time\<close>

type_synonym duration = int
type_synonym gotime = "int option"

abbreviation Millisecond :: duration where
  "Millisecond \<equiv> 1000000"

abbreviation Second :: duration where
  "Second \<equiv> 1000000000"

text \<open>Two's complement wrap-around of a 64-bit signed integer.\<close>

definition int64 :: "int \<Rightarrow> int" where
  "int64 x = (x + 2 ^ 63) mod 2 ^ 64 - 2 ^ 63"

lemma int64_id: "- (2 ^ 63) \<le> x \<Longrightarrow> x < 2 ^ 63 \<Longrightarrow> int64 x = x"
  by (simp add: int64_def)

lemma int64_range: "- (2 ^ 63) \<le> int64 x \<and> int64 x < 2 ^ 63"
proof -
  have "0 \<le> (x + 2 ^ 63) mod 2 ^ 64" and "(x + 2 ^ 63) mod 2 ^ 64 < (2 ^ 64 :: int)"
    by simp_all
  then show ?thesis by (simp add: int64_def)
qed

lemma int_div_le: "0 \<le> a \<Longrightarrow> 0 < b \<Longrightarrow> 0 \<le> a div b \<and> a div b \<le> (a :: int)"
  by (metis div_by_1 pos_imp_zdiv_nonneg_iff zdiv_mono2 zero_less_one int_one_le_iff_zero_less)

lemma sdiv_nonneg: "0 \<le> a \<Longrightarrow> 0 < b \<Longrightarrow> a sdiv b = a div (b :: int)"
  by (cases "a = 0") (simp_all add: signed_divide_int_def)

section \<open>Runes and text\<close>

type_synonym rune = int
type_synonym gostring = "rune list"

definition lit :: "string \<Rightarrow> gostring" where
  "lit s = map of_char s"

lemma lit_Nil [simp]: "lit [] = []"
  by (simp add: lit_def)

lemma lit_eq_Nil_iff [simp]: "lit s = [] \<longleftrightarrow> s = []" "[] = lit s \<longleftrightarrow> s = []"
  by (auto simp: lit_def)

lemma lit_eq_iff [simp]: "lit s = lit t \<longleftrightarrow> s = t"
  by (simp add: lit_def inj_on_def)

text \<open>\<open>unicode.IsSpace\<close>: the White_Space property.\<close>

definition is_space :: "rune \<Rightarrow> bool" where
  "is_space r \<longleftrightarrow> (9 \<le> r \<and> r \<le> 13) \<or> r = 32 \<or> r = 0x85 \<or> r = 0xA0 \<or> r = 0x1680
     \<or> (0x2000 \<le> r \<and> r \<le> 0x200A) \<or> r = 0x2028 \<or> r = 0x2029 \<or> r = 0x202F \<or> r = 0x205F \<or> r = 0x3000"

text \<open>
  \<open>unicode.ToLower\<close>, exact on every rune whose lower case is ASCII (the two beyond A to Z are the
  Kelvin sign and the dotted capital I). The sources compare lower-cased text with ASCII literals
  only, and no other rune has an ASCII lower case, so leaving those runes alone is unobservable.
\<close>

definition to_lower :: "rune \<Rightarrow> rune" where
  "to_lower r = (if 65 \<le> r \<and> r \<le> 90 then r + 32
     else if r = 0x212A then 0x6B else if r = 0x130 then 0x69 else r)"

abbreviation ToLower :: "gostring \<Rightarrow> gostring" where
  "ToLower \<equiv> map to_lower"

definition is_ascii_letter :: "rune \<Rightarrow> bool" where
  "is_ascii_letter r \<longleftrightarrow> (65 \<le> r \<and> r \<le> 90) \<or> (97 \<le> r \<and> r \<le> 122)"

definition trim_left :: "(rune \<Rightarrow> bool) \<Rightarrow> gostring \<Rightarrow> gostring" where
  "trim_left P t = dropWhile P t"

definition trim_right :: "(rune \<Rightarrow> bool) \<Rightarrow> gostring \<Rightarrow> gostring" where
  "trim_right P t = rev (dropWhile P (rev t))"

definition TrimSpace :: "gostring \<Rightarrow> gostring" where
  "TrimSpace t = trim_right is_space (trim_left is_space t)"

text \<open>\<open>strings.TrimRight\<close> and \<open>strings.Trim\<close> with a cut set.\<close>

definition TrimRight :: "gostring \<Rightarrow> rune list \<Rightarrow> gostring" where
  "TrimRight t cutset = trim_right (\<lambda>r. r \<in> set cutset) t"

definition Trim :: "gostring \<Rightarrow> rune list \<Rightarrow> gostring" where
  "Trim t cutset = trim_right (\<lambda>r. r \<in> set cutset) (trim_left (\<lambda>r. r \<in> set cutset) t)"

text \<open>\<open>strings.HasPrefix\<close>, \<open>HasSuffix\<close>, \<open>Contains\<close>.\<close>

abbreviation HasPrefix :: "gostring \<Rightarrow> gostring \<Rightarrow> bool" where
  "HasPrefix t p \<equiv> prefix p t"

abbreviation HasSuffix :: "gostring \<Rightarrow> gostring \<Rightarrow> bool" where
  "HasSuffix t p \<equiv> suffix p t"

abbreviation Contains :: "gostring \<Rightarrow> gostring \<Rightarrow> bool" where
  "Contains t p \<equiv> sublist p t"

text \<open>\<open>strconv.Itoa\<close> and \<open>strconv.FormatBool\<close>; a byte slice is a list of 8-bit words.\<close>

type_synonym byte = "8 word"

fun digits :: "int \<Rightarrow> gostring" where
  "digits n = (if n < 10 then [48 + n] else digits (n div 10) @ [48 + n mod 10])"

declare digits.simps [simp del]

definition Itoa :: "int \<Rightarrow> gostring" where
  "Itoa n = (if n < 0 then 45 # digits (- n) else digits n)"

definition FormatBool :: "bool \<Rightarrow> gostring" where
  "FormatBool b = (if b then lit ''true'' else lit ''false'')"

section \<open>Lemmas on trimming\<close>

lemma trim_left_decomp: "\<exists>ws. t = ws @ trim_left P t \<and> (\<forall>r \<in> set ws. P r)"
  by (rule exI [of _ "takeWhile P t"]) (auto simp: trim_left_def dest: set_takeWhileD)

lemma trim_right_decomp: "\<exists>ws. t = trim_right P t @ ws \<and> (\<forall>r \<in> set ws. P r)"
proof (rule exI [of _ "rev (takeWhile P (rev t))"], intro conjI)
  show "t = trim_right P t @ rev (takeWhile P (rev t))"
    by (simp add: trim_right_def flip: rev_append)
  show "\<forall>r \<in> set (rev (takeWhile P (rev t))). P r"
    by (auto dest: set_takeWhileD)
qed

lemma prefix_trim_right: "prefix (trim_right P t) t"
  using trim_right_decomp [of t P] by (metis prefixI)

lemma hd_dropWhile_ne: "dropWhile P t \<noteq> [] \<Longrightarrow> \<not> P (hd (dropWhile P t))"
  by (rule hd_dropWhile)

lemma last_dropWhile_ne: "dropWhile P t \<noteq> [] \<Longrightarrow> last (dropWhile P t) = last t"
  by (induction t) auto

lemma last_trim_right: "trim_right P t \<noteq> [] \<Longrightarrow> \<not> P (last (trim_right P t))"
  by (simp add: trim_right_def last_rev hd_dropWhile)

lemma trim_right_id: "t = [] \<or> \<not> P (last t) \<Longrightarrow> trim_right P t = t"
  by (cases t rule: rev_cases) (auto simp: trim_right_def)

lemma trim_left_id: "t = [] \<or> \<not> P (hd t) \<Longrightarrow> trim_left P t = t"
  by (cases t) (auto simp: trim_left_def)

lemma hd_trim_right: "trim_right P t \<noteq> [] \<Longrightarrow> hd (trim_right P t) = hd t"
  using prefix_trim_right [of P t] by (cases "trim_right P t") (auto simp: prefix_def)

lemma trim_right_eq_Nil: "trim_right P t = [] \<longleftrightarrow> (\<forall>r \<in> set t. P r)"
  by (simp add: trim_right_def)

lemma trim_left_eq_Nil: "trim_left P t = [] \<longleftrightarrow> (\<forall>r \<in> set t. P r)"
  by (simp add: trim_left_def)

lemma TrimRight_Nil [simp]: "TrimRight [] c = []"
  by (simp add: TrimRight_def trim_right_def)

lemma Trim_Nil [simp]: "Trim [] c = []"
  by (simp add: Trim_def trim_left_def trim_right_def)

definition trimmed :: "gostring \<Rightarrow> bool" where
  "trimmed t \<longleftrightarrow> t = [] \<or> (\<not> is_space (hd t) \<and> \<not> is_space (last t))"

lemma TrimSpace_Nil [simp]: "TrimSpace [] = []"
  by (simp add: TrimSpace_def trim_left_def trim_right_def)

lemma TrimSpace_eq_Nil: "TrimSpace t = [] \<longleftrightarrow> (\<forall>r \<in> set t. is_space r)"
  by (auto simp: TrimSpace_def trim_right_eq_Nil trim_left_def
      dest: set_dropWhileD) (metis dropWhile_eq_Nil_conv hd_dropWhile hd_in_set)

lemma trimmed_TrimSpace [simp, intro]: "trimmed (TrimSpace t)"
proof (cases "TrimSpace t = []")
  case False
  let ?u = "trim_left is_space t"
  have u: "?u \<noteq> []" using False by (auto simp: TrimSpace_def trim_right_def)
  have "\<not> is_space (hd ?u)" using u by (simp add: trim_left_def hd_dropWhile)
  with False show ?thesis
    by (simp add: trimmed_def TrimSpace_def hd_trim_right last_trim_right)
qed (simp add: trimmed_def)

lemma trimmed_id: "trimmed t \<Longrightarrow> TrimSpace t = t"
  by (auto simp: trimmed_def TrimSpace_def trim_left_id trim_right_id)

lemma TrimSpace_idem [simp]: "TrimSpace (TrimSpace t) = TrimSpace t"
  by (rule trimmed_id) simp

lemma trimmed_iff: "trimmed t \<longleftrightarrow> TrimSpace t = t"
  using trimmed_id trimmed_TrimSpace by metis

lemma TrimSpace_decomp:
  "\<exists>ws us. t = ws @ TrimSpace t @ us \<and> (\<forall>r \<in> set ws. is_space r) \<and> (\<forall>r \<in> set us. is_space r)"
proof -
  obtain ws where ws: "t = ws @ trim_left is_space t" "\<forall>r \<in> set ws. is_space r"
    using trim_left_decomp by blast
  obtain us where us: "trim_left is_space t = TrimSpace t @ us" "\<forall>r \<in> set us. is_space r"
    using trim_right_decomp [of "trim_left is_space t" is_space] by (auto simp: TrimSpace_def)
  show ?thesis using ws us by metis
qed

lemma TrimSpace_nonempty_no_space: "TrimSpace t \<noteq> [] \<Longrightarrow> \<exists>r \<in> set t. \<not> is_space r"
  by (simp add: TrimSpace_eq_Nil)

text \<open>Trimming a prefix of trimmed text only cuts its right end, so a prefix remains.\<close>

lemma prefix_TrimSpace_trimmed:
  assumes "trimmed t" and "prefix p t"
  shows "prefix (TrimSpace p) t"
proof (cases "p = []")
  case False
  then have "hd p = hd t" "t \<noteq> []" using assms(2) by (auto simp: prefix_def)
  then have "trim_left is_space p = p" using assms(1) False
    by (intro trim_left_id) (simp add: trimmed_def)
  then have "prefix (TrimSpace p) p" by (simp add: TrimSpace_def prefix_trim_right)
  then show ?thesis using assms(2) by (rule prefix_order.trans)
qed simp

section \<open>Text with the spaces removed\<close>

text \<open>What is left of a text once every space is dropped: the content that trimming preserves.\<close>

definition squeeze :: "gostring \<Rightarrow> gostring" where
  "squeeze t = filter (\<lambda>r. \<not> is_space r) t"

lemma squeeze_append [simp]: "squeeze (a @ b) = squeeze a @ squeeze b"
  by (simp add: squeeze_def)

lemma squeeze_Nil [simp]: "squeeze [] = []"
  by (simp add: squeeze_def)

lemma squeeze_spaces: "\<forall>r \<in> set ws. is_space r \<Longrightarrow> squeeze ws = []"
  by (simp add: squeeze_def filter_empty_conv)

lemma squeeze_TrimSpace [simp]: "squeeze (TrimSpace t) = squeeze t"
proof -
  obtain ws us where d: "t = ws @ TrimSpace t @ us" "\<forall>r \<in> set ws. is_space r" "\<forall>r \<in> set us. is_space r"
    using TrimSpace_decomp by blast
  have "squeeze t = squeeze ws @ squeeze (TrimSpace t) @ squeeze us"
    by (subst d(1)) simp
  then show ?thesis using d by (simp add: squeeze_spaces)
qed

lemma squeeze_trim_left [simp]: "squeeze (trim_left is_space t) = squeeze t"
  using trim_left_decomp [of t is_space] by (metis append_Nil squeeze_append squeeze_spaces)

lemma squeeze_eq_Nil: "squeeze t = [] \<longleftrightarrow> TrimSpace t = []"
  by (simp add: squeeze_def filter_empty_conv TrimSpace_eq_Nil)

lemma prefix_nth: "prefix xs ys \<Longrightarrow> i < length xs \<Longrightarrow> ys ! i = xs ! i"
  by (auto simp: prefix_def nth_append)

section \<open>Shared helpers of the sources\<close>

text \<open>\<open>firstNonEmpty\<close> of package \<open>voice\<close> (http_transcriber.go): the first value that is not blank, trimmed.\<close>

fun firstNonEmpty :: "gostring list \<Rightarrow> gostring" where
  "firstNonEmpty [] = []"
| "firstNonEmpty (v # vs) = (if TrimSpace v \<noteq> [] then TrimSpace v else firstNonEmpty vs)"

lemma trimmed_firstNonEmpty [simp]: "trimmed (firstNonEmpty vs)"
  by (induction vs) (auto simp: trimmed_def [of "[]"])

lemma firstNonEmpty_eq_Nil: "firstNonEmpty vs = [] \<longleftrightarrow> (\<forall>v \<in> set vs. TrimSpace v = [])"
  by (induction vs) auto

text \<open>\<open>maxInt\<close> and \<open>clampInt\<close> of package \<open>voice\<close>.\<close>

definition maxInt :: "int \<Rightarrow> int \<Rightarrow> int" where
  "maxInt a b = (if a > b then a else b)"

definition clampInt :: "int \<Rightarrow> int \<Rightarrow> int \<Rightarrow> int" where
  "clampInt value minValue maxValue =
     (let (lo, hi) = (if minValue > maxValue then (maxValue, minValue) else (minValue, maxValue))
      in if value < lo then lo else if value > hi then hi else value)"

lemma maxInt_max [simp]: "maxInt a b = max a b"
  by (simp add: maxInt_def max_def)

lemma clampInt_bounds: "lo \<le> hi \<Longrightarrow> lo \<le> clampInt v lo hi \<and> clampInt v lo hi \<le> hi"
  by (simp add: clampInt_def)

text \<open>\<open>maxDuration\<close> of package \<open>voice\<close> (session_orchestrator.go).\<close>

definition maxDuration :: "duration \<Rightarrow> duration \<Rightarrow> duration" where
  "maxDuration a b = (if a \<ge> b then a else b)"

lemma maxDuration_max [simp]: "maxDuration a b = max a b"
  by (simp add: maxDuration_def max_def)

text \<open>A result of a fallible operation: \<open>Inl\<close> the error, \<open>Inr\<close> the value.\<close>

abbreviation is_ok :: "'e + 'a \<Rightarrow> bool" where
  "is_ok r \<equiv> \<not> isl r"

end
