(* ===== verification/Session.thy ===== *)
theory Session
  imports Go_Prelude
begin

text \<open>
  \<open>internal/session\<close>: the session state machine (types.go, realtime_session.go). The state is the
  \<open>RealtimeSession\<close> struct without its mutex: every method takes the lock for its whole body, so a
  method is one atomic step. \<open>time.Now().UTC()\<close> is the argument \<open>now\<close> of the operations. The
  string types \<open>State\<close>, \<open>InputState\<close>, \<open>OutputState\<close> are datatypes with the source's
  constants and one constructor for every other string, since \<open>SetState\<close> and the two normalising
  setters treat unknown values.

  The library part: the session invariant and that every operation keeps it, the contract of an
  operation that needs an active session as the locale \<open>session_operation\<close> with one interpretation
  per method, and the refinement of the audio buffer to its specification.
\<close>

section \<open>Data\<close>

datatype State = StateIdle | StateActive | StateThinking | StateSpeaking | StateClosing
  | StateOther string

datatype InputState = InputStateIdle | InputStateActive | InputStatePreviewing
  | InputStateCommitted | InputStateClosing | InputStateOther string

datatype OutputState = OutputStateIdle | OutputStateThinking | OutputStateSpeaking
  | OutputStateClosing | OutputStateOther string

text \<open>The close reason is a string that clients may set freely (\<open>session.end\<close>).\<close>

type_synonym CloseReason = gostring

definition CloseReasonClientStop :: CloseReason where "CloseReasonClientStop = lit ''client_stop''"
definition CloseReasonCompleted :: CloseReason where "CloseReasonCompleted = lit ''completed''"
definition CloseReasonIdle :: CloseReason where "CloseReasonIdle = lit ''idle_timeout''"
definition CloseReasonMaxDuration :: CloseReason where "CloseReasonMaxDuration = lit ''max_duration''"
definition CloseReasonError :: CloseReason where "CloseReasonError = lit ''error''"

datatype session_error = ErrSessionAlreadyActive | ErrNoActiveSession

record StartRequest =
  RequestedSessionID :: gostring
  reqDeviceID :: gostring
  reqClientType :: gostring
  reqFirmwareVersion :: gostring
  reqMode :: gostring
  reqInputCodec :: gostring
  reqInputSampleRate :: int
  reqInputChannels :: int
  reqClientCanEnd :: bool
  reqServerCanEnd :: bool

record Snapshot =
  SessionID :: gostring
  snapState :: State
  snapInputState :: InputState
  snapOutputState :: OutputState
  snapCloseReason :: CloseReason
  DeviceID :: gostring
  ClientType :: gostring
  FirmwareVersion :: gostring
  Mode :: gostring
  InputCodec :: gostring
  InputSampleRate :: int
  InputChannels :: int
  InputFrames :: int
  AudioBytes :: int
  Turns :: int
  StartedAt :: gotime
  LastActivityAt :: gotime
  ClientCanEnd :: bool
  ServerCanEnd :: bool

record CommittedTurn =
  turnSnapshot :: Snapshot
  AudioPCM :: "byte list"

record RealtimeSession =
  active :: bool
  current :: Snapshot
  turnAudioChunks :: "byte list list"

section \<open>Operations\<close>

definition zeroSnapshot :: Snapshot where
  "zeroSnapshot = \<lparr>SessionID = [], snapState = StateOther '''', snapInputState = InputStateOther '''',
     snapOutputState = OutputStateOther '''', snapCloseReason = [], DeviceID = [], ClientType = [],
     FirmwareVersion = [], Mode = [], InputCodec = [], InputSampleRate = 0, InputChannels = 0,
     InputFrames = 0, AudioBytes = 0, Turns = 0, StartedAt = None, LastActivityAt = None,
     ClientCanEnd = False, ServerCanEnd = False\<rparr>"

definition idleSnapshot :: Snapshot where
  "idleSnapshot = zeroSnapshot\<lparr>snapState := StateIdle, snapInputState := InputStateIdle,
     snapOutputState := OutputStateIdle\<rparr>"

definition NewRealtimeSession :: RealtimeSession where
  "NewRealtimeSession = \<lparr>active = False, current = idleSnapshot, turnAudioChunks = []\<rparr>"

definition deriveCompatState :: "InputState \<Rightarrow> OutputState \<Rightarrow> bool \<Rightarrow> State" where
  "deriveCompatState input output act =
     (if \<not> act then StateIdle
      else case output of
          OutputStateClosing \<Rightarrow> StateClosing
        | OutputStateSpeaking \<Rightarrow> StateSpeaking
        | OutputStateThinking \<Rightarrow> StateThinking
        | _ \<Rightarrow> StateActive)"

definition cloneSnapshot :: "Snapshot \<Rightarrow> Snapshot" where
  "cloneSnapshot snapshot = snapshot\<lparr>snapState :=
     deriveCompatState (snapInputState snapshot) (snapOutputState snapshot) (SessionID snapshot \<noteq> [])\<rparr>"

text \<open>The assignment \<open>s.current.State = deriveCompatState(...)\<close> that ends the mutating methods.\<close>

definition refreshState :: "bool \<Rightarrow> Snapshot \<Rightarrow> Snapshot" where
  "refreshState act c = c\<lparr>snapState := deriveCompatState (snapInputState c) (snapOutputState c) act\<rparr>"

definition Start :: "int \<Rightarrow> StartRequest \<Rightarrow> RealtimeSession \<Rightarrow> (session_error + Snapshot) \<times> RealtimeSession" where
  "Start now req s =
     (if active s then (Inl ErrSessionAlreadyActive, s)
      else
        let sessionID = (if RequestedSessionID req = [] then lit ''sess_'' @ Itoa now else RequestedSessionID req);
            c = zeroSnapshot\<lparr>SessionID := sessionID,
                  snapInputState := InputStateActive, snapOutputState := OutputStateIdle,
                  DeviceID := reqDeviceID req, ClientType := reqClientType req,
                  FirmwareVersion := reqFirmwareVersion req, Mode := reqMode req,
                  InputCodec := reqInputCodec req, InputSampleRate := reqInputSampleRate req,
                  InputChannels := reqInputChannels req,
                  StartedAt := Some now, LastActivityAt := Some now,
                  ClientCanEnd := reqClientCanEnd req, ServerCanEnd := reqServerCanEnd req\<rparr>;
            c' = refreshState True c
        in (Inr (cloneSnapshot c'), \<lparr>active = True, current = c', turnAudioChunks = []\<rparr>))"

definition IngestOwnedAudioFrame :: "int \<Rightarrow> byte list \<Rightarrow> RealtimeSession \<Rightarrow> (session_error + Snapshot) \<times> RealtimeSession" where
  "IngestOwnedAudioFrame now payload s =
     (if \<not> active s then (Inl ErrNoActiveSession, s)
      else
        let c = (current s)\<lparr>snapInputState := InputStateActive,
                  InputFrames := InputFrames (current s) + 1,
                  AudioBytes := AudioBytes (current s) + int (length payload),
                  LastActivityAt := Some now\<rparr>;
            c' = refreshState (active s) c
        in (Inr (cloneSnapshot c'),
            s\<lparr>current := c',
              turnAudioChunks := (if payload \<noteq> [] then turnAudioChunks s @ [payload] else turnAudioChunks s)\<rparr>))"

text \<open>\<open>IngestAudioFrame\<close> copies the payload first; on values it is the same operation.\<close>

definition IngestAudioFrame :: "int \<Rightarrow> byte list \<Rightarrow> RealtimeSession \<Rightarrow> (session_error + Snapshot) \<times> RealtimeSession" where
  "IngestAudioFrame now payload s = (let owned = payload in IngestOwnedAudioFrame now owned s)"

definition AcceptText :: "int \<Rightarrow> RealtimeSession \<Rightarrow> (session_error + Snapshot) \<times> RealtimeSession" where
  "AcceptText now s =
     (if \<not> active s then (Inl ErrNoActiveSession, s)
      else
        let c = (current s)\<lparr>snapInputState := InputStateActive, LastActivityAt := Some now\<rparr>;
            c' = refreshState (active s) c
        in (Inr (cloneSnapshot c'), s\<lparr>current := c'\<rparr>))"

text \<open>
  \<open>flattenTurnAudioChunks\<close>: the total only sizes the allocation (it is recomputed when it is not
  positive, so \<open>make\<close> never sees a negative capacity); the result is the appended chunks.
\<close>

definition flattenTurnAudioChunks :: "byte list list \<Rightarrow> int \<Rightarrow> byte list" where
  "flattenTurnAudioChunks chunks totalBytes =
     (case chunks of [] \<Rightarrow> [] | [c] \<Rightarrow> c
      | _ \<Rightarrow> fold (\<lambda>chunk audio. audio @ chunk) chunks [])"

definition CommitTurn :: "int \<Rightarrow> RealtimeSession \<Rightarrow> (session_error + CommittedTurn) \<times> RealtimeSession" where
  "CommitTurn now s =
     (if \<not> active s then (Inl ErrNoActiveSession, s)
      else
        let out = (case snapOutputState (current s) of
                     OutputStateSpeaking \<Rightarrow> OutputStateSpeaking
                   | OutputStateClosing \<Rightarrow> OutputStateClosing
                   | _ \<Rightarrow> OutputStateThinking);
            c = (current s)\<lparr>snapInputState := InputStateCommitted, snapOutputState := out,
                  Turns := Turns (current s) + 1, LastActivityAt := Some now\<rparr>;
            c' = refreshState (active s) c
        in (Inr \<lparr>turnSnapshot = cloneSnapshot c',
                 AudioPCM = flattenTurnAudioChunks (turnAudioChunks s) (AudioBytes c')\<rparr>,
            s\<lparr>current := c', turnAudioChunks := []\<rparr>))"

definition applyCompatState :: "Snapshot \<Rightarrow> State \<Rightarrow> Snapshot" where
  "applyCompatState snapshot st =
     (let committed = (if snapInputState snapshot = InputStateIdle \<or> snapInputState snapshot = InputStateClosing
                       then InputStateCommitted else snapInputState snapshot)
      in case st of
          StateIdle \<Rightarrow> snapshot\<lparr>snapInputState := InputStateIdle, snapOutputState := OutputStateIdle\<rparr>
        | StateThinking \<Rightarrow> snapshot\<lparr>snapInputState := committed, snapOutputState := OutputStateThinking\<rparr>
        | StateSpeaking \<Rightarrow> snapshot\<lparr>snapInputState := committed, snapOutputState := OutputStateSpeaking\<rparr>
        | StateClosing \<Rightarrow> snapshot\<lparr>snapInputState := InputStateClosing, snapOutputState := OutputStateClosing\<rparr>
        | _ \<Rightarrow> snapshot\<lparr>snapInputState := InputStateActive, snapOutputState := OutputStateIdle\<rparr>)"

definition SetState :: "int \<Rightarrow> State \<Rightarrow> RealtimeSession \<Rightarrow> (session_error + Snapshot) \<times> RealtimeSession" where
  "SetState now st s =
     (if \<not> active s then (Inl ErrNoActiveSession, s)
      else
        let c = (applyCompatState (current s) st)\<lparr>LastActivityAt := Some now\<rparr>;
            c' = refreshState (active s) c
        in (Inr (cloneSnapshot c'), s\<lparr>current := c'\<rparr>))"

definition normalizeInputState :: "InputState \<Rightarrow> InputState" where
  "normalizeInputState st = (case st of InputStateOther _ \<Rightarrow> InputStateActive | _ \<Rightarrow> st)"

definition normalizeOutputState :: "OutputState \<Rightarrow> OutputState" where
  "normalizeOutputState st = (case st of OutputStateOther _ \<Rightarrow> OutputStateIdle | _ \<Rightarrow> st)"

definition SetInputState :: "int \<Rightarrow> InputState \<Rightarrow> RealtimeSession \<Rightarrow> (session_error + Snapshot) \<times> RealtimeSession" where
  "SetInputState now st s =
     (if \<not> active s then (Inl ErrNoActiveSession, s)
      else
        let c = (current s)\<lparr>snapInputState := normalizeInputState st, LastActivityAt := Some now\<rparr>;
            c' = refreshState (active s) c
        in (Inr (cloneSnapshot c'), s\<lparr>current := c'\<rparr>))"

definition SetOutputState :: "int \<Rightarrow> OutputState \<Rightarrow> RealtimeSession \<Rightarrow> (session_error + Snapshot) \<times> RealtimeSession" where
  "SetOutputState now st s =
     (if \<not> active s then (Inl ErrNoActiveSession, s)
      else
        let c = (current s)\<lparr>snapOutputState := normalizeOutputState st, LastActivityAt := Some now\<rparr>;
            c' = refreshState (active s) c
        in (Inr (cloneSnapshot c'), s\<lparr>current := c'\<rparr>))"

text \<open>\<open>End\<close> (\<open>end\<close> is a keyword here) puts both lanes into closing; the session stays active until \<open>Reset\<close>.\<close>

definition EndSession :: "int \<Rightarrow> CloseReason \<Rightarrow> RealtimeSession \<Rightarrow> (session_error + Snapshot) \<times> RealtimeSession" where
  "EndSession now reason s =
     (if \<not> active s then (Inl ErrNoActiveSession, s)
      else
        let c = (current s)\<lparr>snapInputState := InputStateClosing, snapOutputState := OutputStateClosing,
                  snapCloseReason := reason, LastActivityAt := Some now\<rparr>;
            c' = refreshState (active s) c
        in (Inr (cloneSnapshot c'), s\<lparr>current := c'\<rparr>))"

definition ClearTurn :: "int \<Rightarrow> RealtimeSession \<Rightarrow> RealtimeSession" where
  "ClearTurn now s = s\<lparr>current := (current s)\<lparr>InputFrames := 0, AudioBytes := 0, LastActivityAt := Some now\<rparr>,
     turnAudioChunks := []\<rparr>"

definition Reset :: "RealtimeSession \<Rightarrow> RealtimeSession" where
  "Reset s = \<lparr>active = False, current = idleSnapshot, turnAudioChunks = []\<rparr>"

definition takeSnapshot :: "RealtimeSession \<Rightarrow> Snapshot" where
  "takeSnapshot s = cloneSnapshot (current s)"

section \<open>Calls, runs and the buffer specification\<close>

text \<open>One method call on the session, with the instant at which it takes the lock.\<close>

datatype session_call = CStart StartRequest | CIngest "byte list" | CAcceptText | CCommit
  | CSetState State | CSetInput InputState | CSetOutput OutputState | CEnd CloseReason
  | CClearTurn | CReset

fun session_step :: "int \<times> session_call \<Rightarrow> RealtimeSession \<Rightarrow> RealtimeSession" where
  "session_step (now, CStart req) s = snd (Start now req s)"
| "session_step (now, CIngest p) s = snd (IngestOwnedAudioFrame now p s)"
| "session_step (now, CAcceptText) s = snd (AcceptText now s)"
| "session_step (now, CCommit) s = snd (CommitTurn now s)"
| "session_step (now, CSetState st) s = snd (SetState now st s)"
| "session_step (now, CSetInput st) s = snd (SetInputState now st s)"
| "session_step (now, CSetOutput st) s = snd (SetOutputState now st s)"
| "session_step (now, CEnd r) s = snd (EndSession now r s)"
| "session_step (now, CClearTurn) s = ClearTurn now s"
| "session_step (now, CReset) s = Reset s"

definition session_run :: "(int \<times> session_call) list \<Rightarrow> RealtimeSession \<Rightarrow> RealtimeSession" where
  "session_run cs s = fold session_step cs s"

text \<open>The states a connection can bring its session into: any calls, in any order, at any instants.\<close>

inductive session_reachable :: "RealtimeSession \<Rightarrow> bool" where
  new: "session_reachable NewRealtimeSession"
| call: "session_reachable s \<Longrightarrow> session_reachable (session_step c s)"

text \<open>
  What the buffer promises: whether a session is open, and the audio ingested since it was opened,
  last committed or last cleared.
\<close>

type_synonym turn_buffer = "bool \<times> byte list"

fun buffer_step :: "session_call \<Rightarrow> turn_buffer \<Rightarrow> turn_buffer" where
  "buffer_step (CStart _) (opened, buf) = (True, if opened then buf else [])"
| "buffer_step (CIngest p) (opened, buf) = (opened, if opened then buf @ p else buf)"
| "buffer_step CCommit (opened, buf) = (opened, if opened then [] else buf)"
| "buffer_step CClearTurn (opened, buf) = (opened, [])"
| "buffer_step CReset (opened, buf) = (False, [])"
| "buffer_step _ (opened, buf) = (opened, buf)"

definition buffer_abs :: "RealtimeSession \<Rightarrow> turn_buffer" where
  "buffer_abs s = (active s, concat (turnAudioChunks s))"

text \<open>A start request the witnesses use.\<close>

definition example_start :: StartRequest where
  "example_start = \<lparr>RequestedSessionID = lit ''s1'', reqDeviceID = lit ''d1'', reqClientType = lit ''rtos'',
     reqFirmwareVersion = [], reqMode = [], reqInputCodec = lit ''pcm16le'', reqInputSampleRate = 16000,
     reqInputChannels = 1, reqClientCanEnd = True, reqServerCanEnd = True\<rparr>"

section \<open>Invariant\<close>

text \<open>
  The session is open exactly when it has an identifier, the compatibility state is the one derived
  from the two lanes, the lanes hold known values, a closed session is idle, and the buffered chunks
  are non-empty and no larger than the byte count.
\<close>

definition session_inv :: "RealtimeSession \<Rightarrow> bool" where
  "session_inv s \<longleftrightarrow>
     (active s \<longleftrightarrow> SessionID (current s) \<noteq> []) \<and>
     snapState (current s) = deriveCompatState (snapInputState (current s)) (snapOutputState (current s)) (active s) \<and>
     normalizeInputState (snapInputState (current s)) = snapInputState (current s) \<and>
     normalizeOutputState (snapOutputState (current s)) = snapOutputState (current s) \<and>
     (\<not> active s \<longrightarrow> snapInputState (current s) = InputStateIdle \<and> snapOutputState (current s) = OutputStateIdle \<and>
        turnAudioChunks s = []) \<and>
     [] \<notin> set (turnAudioChunks s) \<and>
     int (length (concat (turnAudioChunks s))) \<le> AudioBytes (current s) \<and>
     0 \<le> InputFrames (current s) \<and> 0 \<le> Turns (current s)"

lemmas session_defs = Start_def IngestOwnedAudioFrame_def AcceptText_def CommitTurn_def SetState_def
  SetInputState_def SetOutputState_def EndSession_def ClearTurn_def Reset_def

lemmas snapshot_defs = refreshState_def cloneSnapshot_def idleSnapshot_def zeroSnapshot_def

lemma normalizeInputState_simps [simp]:
  "normalizeInputState InputStateIdle = InputStateIdle"
  "normalizeInputState InputStateActive = InputStateActive"
  "normalizeInputState InputStatePreviewing = InputStatePreviewing"
  "normalizeInputState InputStateCommitted = InputStateCommitted"
  "normalizeInputState InputStateClosing = InputStateClosing"
  "normalizeInputState (normalizeInputState i) = normalizeInputState i"
  by (auto simp: normalizeInputState_def split: InputState.splits)

lemma normalizeOutputState_simps [simp]:
  "normalizeOutputState OutputStateIdle = OutputStateIdle"
  "normalizeOutputState OutputStateThinking = OutputStateThinking"
  "normalizeOutputState OutputStateSpeaking = OutputStateSpeaking"
  "normalizeOutputState OutputStateClosing = OutputStateClosing"
  "normalizeOutputState (normalizeOutputState out) = normalizeOutputState out"
  by (auto simp: normalizeOutputState_def split: OutputState.splits)

lemma inv_new [wf_intros]: "session_inv NewRealtimeSession"
  by (simp add: session_inv_def NewRealtimeSession_def snapshot_defs deriveCompatState_def)

lemma inv_reset [wf_intros]: "session_inv (Reset s)"
  by (simp add: session_inv_def Reset_def snapshot_defs deriveCompatState_def)

lemma inv_clear [wf_intros]: "session_inv s \<Longrightarrow> session_inv (ClearTurn now s)"
  by (simp add: session_inv_def ClearTurn_def)

lemma inv_start [wf_intros]: "session_inv s \<Longrightarrow> session_inv (snd (Start now req s))"
  by (simp add: session_inv_def Start_def Let_def snapshot_defs)

text \<open>Every other operation rewrites the snapshot and recomputes the state: one rule for all of them.\<close>

lemma inv_update:
  assumes "session_inv s" and "active s"
    and "SessionID c = SessionID (current s)"
    and "normalizeInputState (snapInputState c) = snapInputState c"
    and "normalizeOutputState (snapOutputState c) = snapOutputState c"
    and "[] \<notin> set chunks" and "int (length (concat chunks)) \<le> AudioBytes c"
    and "0 \<le> InputFrames c" and "0 \<le> Turns c"
  shows "session_inv (s\<lparr>current := refreshState True c, turnAudioChunks := chunks\<rparr>)"
  using assms by (simp add: session_inv_def refreshState_def)

lemma inv_update_same:
  assumes "session_inv s" and "active s"
    and "SessionID c = SessionID (current s)"
    and "normalizeInputState (snapInputState c) = snapInputState c"
    and "normalizeOutputState (snapOutputState c) = snapOutputState c"
    and "AudioBytes c = AudioBytes (current s)"
    and "InputFrames c = InputFrames (current s)" and "Turns c = Turns (current s)"
  shows "session_inv (s\<lparr>current := refreshState True c\<rparr>)"
  using inv_update [of s c "turnAudioChunks s"] assms by (simp add: session_inv_def)

lemma applyCompatState_frame:
  "SessionID (applyCompatState c st) = SessionID c" "AudioBytes (applyCompatState c st) = AudioBytes c"
  "InputFrames (applyCompatState c st) = InputFrames c" "Turns (applyCompatState c st) = Turns c"
  by (auto simp: applyCompatState_def Let_def split: State.splits)

lemma applyCompatState_normal:
  "normalizeInputState (snapInputState c) = snapInputState c \<Longrightarrow>
     normalizeInputState (snapInputState (applyCompatState c st)) = snapInputState (applyCompatState c st)"
  "normalizeOutputState (snapOutputState (applyCompatState c st)) = snapOutputState (applyCompatState c st)"
  by (auto simp: applyCompatState_def Let_def split: State.splits)

text \<open>Under the invariant the snapshot handed out is the stored one.\<close>

lemma clone_current: "session_inv s \<Longrightarrow> cloneSnapshot (current s) = current s"
  by (simp add: session_inv_def cloneSnapshot_def)

section \<open>The contract of a guarded operation\<close>

text \<open>
  What the seven methods that need an open session have in common: they fail without touching a
  closed session, and otherwise succeed, keep the invariant, the openness and the identifier, stamp
  the activity time, and hand out the stored snapshot.
\<close>

locale session_operation =
  fixes op :: "RealtimeSession \<Rightarrow> (session_error + 'a) \<times> RealtimeSession"
    and snap :: "'a \<Rightarrow> Snapshot"
    and stamp :: int
  assumes closed_fails: "\<not> active s \<Longrightarrow> op s = (Inl ErrNoActiveSession, s)"
    and open_succeeds: "session_inv s \<Longrightarrow> active s \<Longrightarrow>
      \<exists>r. fst (op s) = Inr r \<and> snap r = current (snd (op s))"
    and keeps_inv: "session_inv s \<Longrightarrow> active s \<Longrightarrow> session_inv (snd (op s))"
    and keeps_open: "active s \<Longrightarrow> active (snd (op s)) \<and> SessionID (current (snd (op s))) = SessionID (current s)"
    and stamps: "active s \<Longrightarrow> LastActivityAt (current (snd (op s))) = Some stamp"
begin

lemma inv_step: "session_inv s \<Longrightarrow> session_inv (snd (op s))"
  by (cases "active s") (simp_all add: closed_fails keeps_inv)

lemma active_step: "active (snd (op s)) \<longleftrightarrow> active s"
  by (cases "active s") (simp_all add: closed_fails keeps_open)

lemma fails_iff_closed: "session_inv s \<Longrightarrow> isl (fst (op s)) \<longleftrightarrow> \<not> active s"
  using open_succeeds [of s] closed_fails [of s] by (cases "active s") auto

lemma error_leaves_state: "session_inv s \<Longrightarrow> isl (fst (op s)) \<Longrightarrow>
    fst (op s) = Inl ErrNoActiveSession \<and> snd (op s) = s"
  using fails_iff_closed [of s] closed_fails [of s] by simp

lemma result_is_current: "session_inv s \<Longrightarrow> fst (op s) = Inr r \<Longrightarrow> snap r = current (snd (op s))"
  using open_succeeds [of s] closed_fails [of s] by (cases "active s") auto

end

lemma clone_refresh: "SessionID c \<noteq> [] \<Longrightarrow> cloneSnapshot (refreshState True c) = refreshState True c"
  by (simp add: cloneSnapshot_def refreshState_def)

lemmas op_simps = Let_def clone_refresh applyCompatState_frame

lemma inv_id: "session_inv s \<Longrightarrow> active s \<Longrightarrow> SessionID (current s) \<noteq> []"
  by (simp add: session_inv_def)

interpretation ingest: session_operation "IngestOwnedAudioFrame now p" "\<lambda>r. r" now for now p
proof (unfold_locales, goal_cases)
  case (3 s)
  let ?c = "(current s)\<lparr>snapInputState := InputStateActive, InputFrames := InputFrames (current s) + 1,
    AudioBytes := AudioBytes (current s) + int (length p), LastActivityAt := Some now\<rparr>"
  have "session_inv (s\<lparr>current := refreshState True ?c,
      turnAudioChunks := (if p \<noteq> [] then turnAudioChunks s @ [p] else turnAudioChunks s)\<rparr>)"
    using 3 by (intro inv_update) (auto simp: session_inv_def)
  then show ?case using 3 by (simp add: IngestOwnedAudioFrame_def Let_def)
qed (auto simp: IngestOwnedAudioFrame_def op_simps refreshState_def inv_id cloneSnapshot_def)

interpretation accept: session_operation "AcceptText now" "\<lambda>r. r" now for now
proof (unfold_locales, goal_cases)
  case (3 s)
  then show ?case by (simp add: AcceptText_def Let_def) (rule inv_update_same, auto simp: session_inv_def)
qed (auto simp: AcceptText_def op_simps refreshState_def inv_id cloneSnapshot_def)

interpretation commit: session_operation "CommitTurn now" turnSnapshot now for now
proof (unfold_locales, goal_cases)
  case (3 s)
  then show ?case by (simp add: CommitTurn_def Let_def) (rule inv_update, auto simp: session_inv_def split: OutputState.splits)
qed (auto simp: CommitTurn_def op_simps refreshState_def inv_id cloneSnapshot_def)

interpretation setstate: session_operation "SetState now st" "\<lambda>r. r" now for now st
proof (unfold_locales, goal_cases)
  case (3 s)
  then show ?case by (simp add: SetState_def Let_def) (rule inv_update_same, auto simp: session_inv_def applyCompatState_frame applyCompatState_normal)
qed (auto simp: SetState_def op_simps refreshState_def inv_id cloneSnapshot_def)

interpretation setinput: session_operation "SetInputState now st" "\<lambda>r. r" now for now st
proof (unfold_locales, goal_cases)
  case (3 s)
  then show ?case by (simp add: SetInputState_def Let_def) (rule inv_update_same, auto simp: session_inv_def)
qed (auto simp: SetInputState_def op_simps refreshState_def inv_id cloneSnapshot_def)

interpretation setoutput: session_operation "SetOutputState now st" "\<lambda>r. r" now for now st
proof (unfold_locales, goal_cases)
  case (3 s)
  then show ?case by (simp add: SetOutputState_def Let_def) (rule inv_update_same, auto simp: session_inv_def)
qed (auto simp: SetOutputState_def op_simps refreshState_def inv_id cloneSnapshot_def)

interpretation ending: session_operation "EndSession now r" "\<lambda>x. x" now for now r
proof (unfold_locales, goal_cases)
  case (3 s)
  then show ?case by (simp add: EndSession_def Let_def) (rule inv_update_same, auto simp: session_inv_def)
qed (auto simp: EndSession_def op_simps refreshState_def inv_id cloneSnapshot_def)

lemmas step_invs = ingest.inv_step accept.inv_step commit.inv_step setstate.inv_step
  setinput.inv_step setoutput.inv_step ending.inv_step inv_start inv_clear inv_reset

lemma session_step_inv: "session_inv s \<Longrightarrow> session_inv (session_step c s)"
  by (cases "(c, s)" rule: session_step.cases) (auto intro: step_invs)

lemma session_run_inv: "session_inv s \<Longrightarrow> session_inv (session_run cs s)"
  unfolding session_run_def by (induction cs arbitrary: s) (auto intro: session_step_inv)

lemma reachable_inv: "session_reachable s \<Longrightarrow> session_inv s"
  by (induction rule: session_reachable.induct) (auto intro: inv_new session_step_inv)

lemma closed_step_id: "\<not> active s \<Longrightarrow> c \<notin> {CClearTurn, CReset} \<Longrightarrow> (\<forall>q. c \<noteq> CStart q) \<Longrightarrow> session_step (now, c) s = s"
  by (cases c) (auto simp: ingest.closed_fails accept.closed_fails commit.closed_fails
      setstate.closed_fails setinput.closed_fails setoutput.closed_fails ending.closed_fails)

section \<open>The audio buffer\<close>

lemma fold_append: "fold (\<lambda>chunk audio. audio @ chunk) chunks acc = acc @ concat chunks"
  by (induction chunks arbitrary: acc) auto

lemma flatten_concat [simp]: "flattenTurnAudioChunks chunks n = concat chunks"
  by (auto simp: flattenTurnAudioChunks_def fold_append split: list.splits)

lemma buffer_step_refines: "buffer_abs (session_step c s) = buffer_step (snd c) (buffer_abs s)"
  by (cases "(c, s)" rule: session_step.cases)
    (auto simp: buffer_abs_def session_defs Let_def)

lemma buffer_run_refines: "buffer_abs (session_run cs s) = fold (\<lambda>c. buffer_step (snd c)) cs (buffer_abs s)"
  unfolding session_run_def by (induction cs arbitrary: s) (simp_all add: buffer_step_refines)

section \<open>Properties\<close>

text \<open>
  C18: in every reachable session the invariant holds: the session is open exactly when it has an
  identifier, the externally visible state is the one derived from the input and output lanes, the
  lanes never leave their known values, a closed session is idle and holds no audio, and the
  byte counter bounds the buffered audio.
\<close>
theorem session_reachable_inv: "session_reachable s \<Longrightarrow> session_inv s"
  by (rule reachable_inv)

theorem session_reachable_inv_witness:
  "session_inv (session_step (7, CCommit) (session_step (5, CIngest [1, 2]) NewRealtimeSession))"
  by (rule session_reachable_inv) (intro session_reachable.intros)

text \<open>
  C21: the session implements its audio buffer. After any calls on a new session, a successful commit
  returns exactly the bytes ingested, in order, since the session was opened, last committed or last
  cleared, and leaves the buffer empty.
\<close>
theorem commit_returns_ingested_audio:
  assumes "CommitTurn now (session_run cs NewRealtimeSession) = (Inr turn, s')"
  shows "AudioPCM turn = snd (fold (\<lambda>c. buffer_step (snd c)) cs (False, [])) \<and> turnAudioChunks s' = []"
proof -
  let ?s = "session_run cs NewRealtimeSession"
  have abs: "buffer_abs ?s = fold (\<lambda>c. buffer_step (snd c)) cs (False, [])"
    unfolding buffer_run_refines by (simp add: buffer_abs_def NewRealtimeSession_def)
  have "active ?s" using assms by (auto simp: CommitTurn_def split: if_splits)
  then have "AudioPCM turn = concat (turnAudioChunks ?s)" and "turnAudioChunks s' = []"
    using assms by (auto simp: CommitTurn_def Let_def)
  then show ?thesis by (simp add: abs [symmetric] buffer_abs_def)
qed

lemmas example_simps = example_start_def session_run_def session_defs Let_def snapshot_defs
  NewRealtimeSession_def deriveCompatState_def

theorem commit_returns_ingested_audio_witness:
  "\<exists>turn s'. CommitTurn 9 (session_run [(1, CStart example_start), (2, CIngest [1, 2]), (3, CCommit),
       (4, CIngest [3]), (5, CIngest [4, 5])] NewRealtimeSession) = (Inr turn, s')
     \<and> AudioPCM turn = [3, 4, 5]"
proof -
  let ?cs = "[(1, CStart example_start), (2, CIngest [1, 2]), (3, CCommit), (4, CIngest [3]), (5, CIngest [4, 5])]"
  obtain turn s' where c: "CommitTurn 9 (session_run ?cs NewRealtimeSession) = (Inr turn, s')"
    by (simp add: example_simps)
  have "AudioPCM turn = [3, 4, 5]" using commit_returns_ingested_audio [OF c] by simp
  with c show ?thesis by blast
qed

text \<open>
  errors of the session. In a reachable session each guarded method fails exactly when no session
  is open, \<open>Start\<close> fails exactly when one is, and a failing call changes nothing.
\<close>
theorem session_errors:
  assumes "session_reachable s"
  shows "(isl (fst (IngestOwnedAudioFrame now p s)) \<longleftrightarrow> \<not> active s) \<and>
    (isl (fst (AcceptText now s)) \<longleftrightarrow> \<not> active s) \<and>
    (isl (fst (CommitTurn now s)) \<longleftrightarrow> \<not> active s) \<and>
    (isl (fst (SetState now st s)) \<longleftrightarrow> \<not> active s) \<and>
    (isl (fst (SetInputState now ist s)) \<longleftrightarrow> \<not> active s) \<and>
    (isl (fst (SetOutputState now ost s)) \<longleftrightarrow> \<not> active s) \<and>
    (isl (fst (EndSession now r s)) \<longleftrightarrow> \<not> active s) \<and>
    (isl (fst (Start now req s)) \<longleftrightarrow> active s) \<and>
    (\<not> active s \<longrightarrow> c \<notin> {CClearTurn, CReset} \<longrightarrow> (\<forall>q. c \<noteq> CStart q) \<longrightarrow> session_step (now, c) s = s) \<and>
    (active s \<longrightarrow> Start now req s = (Inl ErrSessionAlreadyActive, s))"
proof -
  have inv: "session_inv s" using assms by (rule reachable_inv)
  show ?thesis
    by (simp add: inv ingest.fails_iff_closed accept.fails_iff_closed commit.fails_iff_closed
        setstate.fails_iff_closed setinput.fails_iff_closed setoutput.fails_iff_closed
        ending.fails_iff_closed closed_step_id Start_def Let_def)
qed

theorem session_errors_witness:
  "isl (fst (CommitTurn 3 NewRealtimeSession)) \<and>
   session_step (3, CIngest [7]) NewRealtimeSession = NewRealtimeSession \<and>
   Start 9 example_start (session_step (1, CStart example_start) NewRealtimeSession)
     = (Inl ErrSessionAlreadyActive, session_step (1, CStart example_start) NewRealtimeSession)"
proof -
  have "session_reachable (session_step (1, CStart example_start) NewRealtimeSession)"
    by (intro session_reachable.intros)
  moreover have "active (session_step (1, CStart example_start) NewRealtimeSession)"
    by (simp add: example_simps)
  moreover have "\<not> active NewRealtimeSession" by (simp add: NewRealtimeSession_def)
  ultimately show ?thesis
    using session_errors [OF session_reachable.new, of 3 "[7]" StateIdle InputStateIdle OutputStateIdle "[]" example_start "CIngest [7]"]
      session_errors [of "session_step (1, CStart example_start) NewRealtimeSession" 9 _ _ _ _ _ example_start]
    by blast
qed

text \<open>
  The visible state after a state-changing call on an open reachable session. \<open>SetState\<close> makes
  thinking, speaking and closing visible as themselves and every other request as active; committing
  a turn never hides ongoing playback or closing, and otherwise shows thinking; new audio or text
  leaves the output lane, hence the visible state, alone.
\<close>
theorem visible_state_after_call:
  assumes "session_reachable s" and "active s"
  shows "(\<forall>r. fst (SetState now st s) = Inr r \<longrightarrow>
      snapState r = (if st \<in> {StateThinking, StateSpeaking, StateClosing} then st else StateActive)) \<and>
    (\<forall>turn. fst (CommitTurn now s) = Inr turn \<longrightarrow>
      snapState (turnSnapshot turn) =
        (if snapState (current s) \<in> {StateSpeaking, StateClosing} then snapState (current s) else StateThinking)) \<and>
    (\<forall>r. fst (IngestOwnedAudioFrame now p s) = Inr r \<longrightarrow> snapState r = snapState (current s)) \<and>
    (\<forall>r. fst (AcceptText now s) = Inr r \<longrightarrow> snapState r = snapState (current s))"
proof -
  have inv: "session_inv s" using assms(1) by (rule reachable_inv)
  note st = inv [unfolded session_inv_def, THEN conjunct2, THEN conjunct1]
  note defs = cloneSnapshot_def refreshState_def deriveCompatState_def Let_def
  have id: "SessionID (current s) \<noteq> []" using inv assms(2) by (rule inv_id)
  show ?thesis
  proof (intro conjI allI impI)
    fix r assume "fst (SetState now st s) = Inr r"
    then show "snapState r = (if st \<in> {StateThinking, StateSpeaking, StateClosing} then st else StateActive)"
      using assms(2) id by (auto simp: SetState_def defs applyCompatState_def split: State.splits)
  next
    fix turn assume "fst (CommitTurn now s) = Inr turn"
    then show "snapState (turnSnapshot turn) =
        (if snapState (current s) \<in> {StateSpeaking, StateClosing} then snapState (current s) else StateThinking)"
      using assms(2) id st by (auto simp: CommitTurn_def defs split: OutputState.splits)
  qed (use assms(2) id st in \<open>auto simp: IngestOwnedAudioFrame_def AcceptText_def defs\<close>)
qed

theorem visible_state_after_call_witness:
  "\<exists>turn. fst (CommitTurn 3 (session_step (2, CSetOutput OutputStateSpeaking)
       (session_step (1, CStart example_start) NewRealtimeSession))) = Inr turn
     \<and> snapState (turnSnapshot turn) = StateSpeaking"
proof -
  let ?s = "session_step (2, CSetOutput OutputStateSpeaking) (session_step (1, CStart example_start) NewRealtimeSession)"
  have r: "session_reachable ?s" by (intro session_reachable.intros)
  have a: "active ?s" and v: "snapState (current ?s) = StateSpeaking"
    by (simp_all add: example_simps)
  obtain turn where t: "fst (CommitTurn 3 ?s) = Inr turn" using a by (auto simp: CommitTurn_def Let_def)
  show ?thesis using t visible_state_after_call [OF r a, of 3] v by auto
qed

end
