(* ===== verification/Lexical.thy ===== *)
theory Lexical
  imports Go_Prelude
begin

text \<open>
  The lexical analysis of recognised speech in \<open>internal/voice\<close>: completeness of an utterance,
  pending corrections, trailing English tokens and stable prefixes (turn_detector.go),
  acknowledgement and takeover lexicons (barge_in.go), and the lexical task family
  (semantic_task_family.go, with the intent normalisation of semantic_judge.go). Everything here is a
  pure function of text; the word lists keep the source's order and are written as code points. A
  Go \<open>map[string]bool\<close> used as a set is the list of its keys.
\<close>

section \<open>Word lists\<close>

definition chineseIncompleteSuffixes :: "gostring list" where
  "chineseIncompleteSuffixes =
     [[0x7136, 0x540E], [0x7136, 0x540E, 0x5462], [0x8FD8, 0x6709], [0x8FD8, 0x6709, 0x5462],
      [0x800C, 0x4E14], [0x6216, 0x8005], [0x4F46, 0x662F], [0x4E0D, 0x8FC7], [0x56E0, 0x4E3A],
      [0x6240, 0x4EE5], [0x5982, 0x679C], [0x5E2E, 0x6211], [0x8BF7, 0x5E2E, 0x6211],
      [0x9EBB, 0x70E6, 0x5E2E, 0x6211], [0x628A], [0x7ED9], [0x5230], [0x8C03, 0x5230],
      [0x5207, 0x5230], [0x8BBE, 0x5230], [0x5C31, 0x662F], [0x90A3, 0x4E2A], [0x8FD9, 0x4E2A],
      [0x518D], [0x5148]]"

definition chineseStandaloneHesitations :: "gostring list" where
  "chineseStandaloneHesitations =
     [[0x55EF], [0x55EF, 0x55EF], [0x5443], [0x989D], [0x554A], [0x554A, 0x554A], [0x54E6],
      [0x5662], [0x8BF6], [0x6B38], [0x5509], [0x90A3, 0x4E2A], [0x8FD9, 0x4E2A], [0x5C31, 0x662F],
      [0x7136, 0x540E], [0x8FD8, 0x6709]]"

definition englishIncompleteTokens :: "gostring list" where
  "englishIncompleteTokens =
     [lit ''and'', lit ''or'', lit ''but'', lit ''if'', lit ''when'', lit ''because'', lit ''to'',
      lit ''for'', lit ''with'', lit ''then'', lit ''please'']"

definition englishStandaloneHesitations :: "gostring list" where
  "englishStandaloneHesitations =
     [lit ''uh'', lit ''um'', lit ''hmm'', lit ''mm'', lit ''erm'']"

definition chineseCorrectionSuffixes :: "gostring list" where
  "chineseCorrectionSuffixes =
     [[0x4E0D, 0x5BF9], [0x4E0D, 0x662F], [0x6211, 0x662F, 0x8BF4],
      [0x6211, 0x6539, 0x4E00, 0x4E0B], [0x6539, 0x6210], [0x6362, 0x6210],
      [0x7B49, 0x4E00, 0x4E0B], [0x7B49, 0x7B49], [0x7B49, 0x4F1A], [0x5148, 0x522B]]"

definition englishCorrectionTokens :: "gostring list" where
  "englishCorrectionTokens =
     [lit ''wait'', lit ''sorry'', lit ''actually'', lit ''instead'']"

definition backchannelTokens :: "gostring list" where
  "backchannelTokens =
     [[0x55EF], [0x55EF, 0x55EF], [0x554A], [0x54E6], [0x5594], [0x5509], [0x6B38], [0x54CE],
      [0x597D], [0x597D, 0x7684], [0x884C], [0x884C, 0x5427], [0x53EF, 0x4EE5], [0x6536, 0x5230],
      [0x77E5, 0x9053, 0x4E86], [0x660E, 0x767D, 0x4E86], [0x5BF9], [0x662F, 0x7684],
      [0x6CA1, 0x4E8B], [0x8C22, 0x8C22], [0x54C8, 0x54C8]]"

definition bargeInTakeoverLexicon :: "gostring list" where
  "bargeInTakeoverLexicon =
     [[0x7B49, 0x4E00, 0x4E0B], [0x7B49, 0x4F1A], [0x7B49, 0x7B49], [0x505C, 0x4E00, 0x4E0B],
      [0x505C, 0x505C], [0x4E0D, 0x662F], [0x4E0D, 0x5BF9], [0x6253, 0x65AD, 0x4E00, 0x4E0B],
      [0x5148, 0x522B], [0x5148, 0x505C], [0x91CD, 0x65B0], [0x6539, 0x6210], [0x6362, 0x6210]]"

definition chineseQuestionSuffixes :: "gostring list" where
  "chineseQuestionSuffixes =
     [[0x5417], [0x5462], [0x4E48], [0x51E0], [0x591A, 0x5C11], [0x51E0, 0x70B9], [0x51E0, 0x53F7],
      [0x51E0, 0x4E2A], [0x51E0, 0x5C81], [0x54EA, 0x91CC], [0x54EA, 0x513F], [0x54EA, 0x8FB9],
      [0x4E3A, 0x4EC0, 0x4E48], [0x600E, 0x4E48, 0x56DE, 0x4E8B]]"

definition chineseStructuredCommandPrefixes :: "gostring list" where
  "chineseStructuredCommandPrefixes =
     [[0x6253, 0x5F00], [0x5173, 0x95ED], [0x5173, 0x6389], [0x542F, 0x52A8], [0x505C, 0x6B62],
      [0x6682, 0x505C], [0x7EE7, 0x7EED], [0x8BBE, 0x7F6E], [0x8BBE, 0x6210], [0x8BBE, 0x5230],
      [0x8C03, 0x6210], [0x8C03, 0x5230], [0x8C03, 0x4EAE], [0x8C03, 0x6697], [0x5207, 0x5230],
      [0x5207, 0x6362, 0x5230], [0x6362, 0x6210], [0x6539, 0x6210], [0x5E2E, 0x6211],
      [0x8BF7, 0x5E2E, 0x6211], [0x9EBB, 0x70E6, 0x5E2E, 0x6211], [0x628A], [0x7ED9]]"

definition englishStructuredCommandPrefixes :: "gostring list" where
  "englishStructuredCommandPrefixes =
     [lit ''turn '', lit ''switch '', lit ''set '', lit ''change '', lit ''open '', lit ''close '',
      lit ''pause '', lit ''resume '', lit ''start '', lit ''stop '', lit ''please '']"

definition chineseStructuredQueryPrefixes :: "gostring list" where
  "chineseStructuredQueryPrefixes =
     [[0x67E5, 0x8BE2], [0x67E5, 0x4E00, 0x4E0B], [0x67E5, 0x67E5], [0x5E2E, 0x6211, 0x67E5],
      [0x5E2E, 0x6211, 0x770B], [0x770B, 0x770B], [0x544A, 0x8BC9, 0x6211]]"

definition englishStructuredQueryPrefixes :: "gostring list" where
  "englishStructuredQueryPrefixes =
     [lit ''check '', lit ''query '', lit ''show '', lit ''tell me '',
      [119, 104, 97, 116, 39, 115, 32], lit ''whats '']"

section \<open>Generic matching\<close>

definition matchesAnySuffix :: "gostring \<Rightarrow> gostring list \<Rightarrow> bool" where
  "matchesAnySuffix t sufs = list_ex (\<lambda>s. HasSuffix t s) sufs"

definition matchesAnyValue :: "gostring \<Rightarrow> gostring list \<Rightarrow> bool" where
  "matchesAnyValue t values = list_ex (\<lambda>v. t = v) values"

definition hasAnyPrefix :: "gostring \<Rightarrow> gostring list \<Rightarrow> bool" where
  "hasAnyPrefix t pres = list_ex (\<lambda>p. HasPrefix t p) pres"

definition runeAtEnd :: "gostring \<Rightarrow> rune" where
  "runeAtEnd t = (if t = [] then 0 else last t)"

text \<open>
  \<open>trailingEnglishToken\<close> walks the text backwards. It stops at the first byte beyond ASCII, which in
  UTF-8 is the first rune beyond ASCII, so the walk is over runes. The builder holds the letters in
  the order they are met.
\<close>

definition tokenPunctuation :: "rune list" where
  "tokenPunctuation = [46, 44, 33, 63, 59, 58, 40, 41, 91, 93, 123, 125, 60, 62, 34, 39, 96]"

fun trailingScan :: "gostring \<Rightarrow> gostring \<Rightarrow> gostring" where
  "trailingScan [] builder = builder"
| "trailingScan (ch # rest) builder =
     (if ch > 127 then builder
      else if is_ascii_letter ch then trailingScan rest (builder @ [to_lower ch])
      else if builder \<noteq> [] then builder
      else if is_space ch \<or> ch \<in> set tokenPunctuation then trailingScan rest builder
      else builder)"

definition trailingEnglishToken :: "gostring \<Rightarrow> gostring" where
  "trailingEnglishToken t = (let b = trailingScan (rev t) [] in if b = [] then [] else rev b)"

fun asciiWordScan :: "gostring \<Rightarrow> gostring \<Rightarrow> gostring list \<Rightarrow> gostring list" where
  "asciiWordScan [] builder tokens = (if builder = [] then tokens else tokens @ [builder])"
| "asciiWordScan (r # rest) builder tokens =
     (if r \<le> 127 \<and> is_ascii_letter r then asciiWordScan rest (builder @ [to_lower r]) tokens
      else asciiWordScan rest [] (if builder = [] then tokens else tokens @ [builder]))"

definition asciiWordTokens :: "gostring \<Rightarrow> gostring list" where
  "asciiWordTokens t = asciiWordScan t [] []"

section \<open>Completeness of an utterance\<close>

definition sentenceEnders :: "rune list" where
  "sentenceEnders = [46, 33, 63, 0x3002, 0xFF01, 0xFF1F]"

definition clauseOpeners :: "rune list" where
  "clauseOpeners = [44, 0xFF0C, 0x3001, 59, 0xFF1B, 58, 0xFF1A, 40, 0xFF08, 91, 123, 60, 34, 39,
     0x201C, 0x2018, 45, 0x2014, 0x2026]"

definition ellipsis :: gostring where
  "ellipsis = [0x2026, 0x2026]"

definition looksLexicallyComplete :: "gostring \<Rightarrow> bool" where
  "looksLexicallyComplete t =
     (let s = TrimSpace t; tokens = asciiWordTokens s; lastRune = runeAtEnd s; token = trailingEnglishToken s
      in if s = [] then False
         else if matchesAnyValue s chineseStandaloneHesitations then False
         else if length tokens = 1 \<and> hd tokens \<in> set englishStandaloneHesitations then False
         else if HasSuffix s (lit ''...'') \<or> HasSuffix s ellipsis then False
         else if lastRune \<in> set sentenceEnders then True
         else if lastRune \<in> set clauseOpeners then False
         else if matchesAnySuffix s chineseIncompleteSuffixes then False
         else if token \<noteq> [] \<and> token \<in> set englishIncompleteTokens then False
         else True)"

text \<open>The cut set \<open>" \t\r\n,\<dots>"\<close> of punctuation that may stand before a correction.\<close>

definition correctionCutset :: "rune list" where
  "correctionCutset = [32, 9, 13, 10, 44, 0xFF0C, 0x3002, 46, 33, 63, 0xFF01, 0xFF1F, 59, 0xFF1B, 58, 0xFF1A, 0x3001]"

definition looksCorrectionPending :: "gostring \<Rightarrow> bool" where
  "looksCorrectionPending t =
     (let s = TrimSpace t; token = trailingEnglishToken s
      in if s = [] then False
         else if list_ex (\<lambda>suf. HasSuffix s suf \<and>
                   TrimRight (TrimSpace (take (length s - length suf) s)) correctionCutset \<noteq> [])
                 chineseCorrectionSuffixes then True
         else if token \<in> set englishCorrectionTokens then
           TrimRight (TrimSpace (take (length s - length token) s)) correctionCutset \<noteq> []
         else False)"

record utteranceCompletenessResult =
  Complete :: bool
  HoldReason :: gostring

definition correctionHoldServerEndpointReason :: gostring where
  "correctionHoldServerEndpointReason = lit ''server_correction_hold_timeout''"

definition lexicalHoldServerEndpointReason :: gostring where
  "lexicalHoldServerEndpointReason = lit ''server_lexical_hold_timeout''"

definition analyzeUtteranceCompleteness :: "gostring \<Rightarrow> utteranceCompletenessResult" where
  "analyzeUtteranceCompleteness t =
     (let s = TrimSpace t
      in if s = [] then \<lparr>Complete = False, HoldReason = []\<rparr>
         else if looksCorrectionPending s then
           \<lparr>Complete = False, HoldReason = correctionHoldServerEndpointReason\<rparr>
         else if \<not> looksLexicallyComplete s then
           \<lparr>Complete = False, HoldReason = lexicalHoldServerEndpointReason\<rparr>
         else \<lparr>Complete = True, HoldReason = []\<rparr>)"

definition previewUtteranceCompleteness :: "gostring \<Rightarrow> gostring \<Rightarrow> utteranceCompletenessResult" where
  "previewUtteranceCompleteness stablePrefix partialText =
     (let stableCandidate = TrimSpace (firstNonEmpty [stablePrefix, partialText])
      in if stableCandidate = [] then \<lparr>Complete = False, HoldReason = []\<rparr>
         else
           let stableCompleteness = analyzeUtteranceCompleteness stableCandidate;
               trimmedPartial = TrimSpace partialText;
               liveCompleteness = analyzeUtteranceCompleteness trimmedPartial
           in if trimmedPartial \<noteq> [] \<and> \<not> Complete liveCompleteness then liveCompleteness
              else stableCompleteness)"

definition looksQuestionClosure :: "gostring \<Rightarrow> bool" where
  "looksQuestionClosure t =
     (let s = TrimSpace t; lower = ToLower s
      in if s = [] then False
         else if HasSuffix s [0x5417] \<or> HasSuffix s [0x5462] \<or> HasSuffix s [0x4E48] then True
         else HasPrefix lower (lit ''what '') \<or> HasPrefix lower (lit ''when '')
           \<or> HasPrefix lower (lit ''where '') \<or> HasPrefix lower (lit ''why '')
           \<or> HasPrefix lower (lit ''how ''))"

section \<open>Stable prefixes\<close>

function commonPrefixLoop :: "gostring \<Rightarrow> gostring \<Rightarrow> nat \<Rightarrow> nat \<Rightarrow> nat" where
  "commonPrefixLoop a b limit idx =
     (if idx < limit \<and> a ! idx = b ! idx then commonPrefixLoop a b limit (Suc idx) else idx)"
  by pat_completeness auto
termination
  by (relation "measure (\<lambda>(a, b, limit, idx). limit - idx)") auto

declare commonPrefixLoop.simps [simp del]

definition longestCommonPrefix :: "gostring \<Rightarrow> gostring \<Rightarrow> gostring" where
  "longestCommonPrefix a b =
     (let limit = (if length b < length a then length b else length a);
          idx = commonPrefixLoop a b limit 0
      in if idx = 0 then [] else take idx a)"

definition updateStablePrefix :: "gostring \<Rightarrow> gostring \<Rightarrow> gostring \<Rightarrow> bool \<Rightarrow> gostring" where
  "updateStablePrefix previousPartial previousStable nextPartial isFinal =
     (let nxt = TrimSpace nextPartial; prev = TrimSpace previousPartial; stable = TrimSpace previousStable;
          common = TrimSpace (longestCommonPrefix prev nxt)
      in if nxt = [] then TrimSpace previousStable
         else if isFinal then nxt
         else if prev = [] then stable
         else if prev = nxt then
           (if stable \<noteq> [] \<and> HasPrefix nxt stable \<and> Complete (analyzeUtteranceCompleteness stable)
               \<and> \<not> Complete (analyzeUtteranceCompleteness nxt)
            then stable else nxt)
         else if common = [] then stable
         else if stable = [] \<or> HasPrefix common stable then common
         else stable)"

section \<open>Acknowledgements and takeovers\<close>

definition backchannelCutset :: "rune list" where
  "backchannelCutset = [32, 9, 13, 10, 44, 46, 33, 63, 59, 58, 0xFF0C, 0x3002, 0xFF01, 0xFF1F, 0xFF1B, 0xFF1A, 126, 0xFF5E]"

definition backchannelRunes :: "rune list" where
  "backchannelRunes = [0x55EF, 0x554A, 0x54E6, 0x5594, 0x5509, 0x6B38, 0x54CE, 0x597D]"

definition looksLikeBackchannel :: "gostring \<Rightarrow> bool" where
  "looksLikeBackchannel t =
     (let s = TrimSpace t; n = Trim s backchannelCutset
      in if s = [] then False
         else if n = [] then False
         else if n \<in> set backchannelTokens then True
         else if length n > 4 then False
         else if length n = 1 \<and> hd n \<in> set backchannelRunes then True
         else if length n \<le> 3 \<and> list_all (\<lambda>r. r = hd n) (tl n) then True
         else False)"

definition looksLikeTakeoverLexicon :: "gostring \<Rightarrow> bool" where
  "looksLikeTakeoverLexicon t =
     (let s = TrimSpace t
      in if s = [] then False else list_ex (\<lambda>token. Contains s token) bargeInTakeoverLexicon)"

section \<open>Task families and intents\<close>

definition SemanticTaskFamilyUnknown :: gostring where "SemanticTaskFamilyUnknown = lit ''unknown''"
definition SemanticTaskFamilyDialogue :: gostring where "SemanticTaskFamilyDialogue = lit ''dialogue''"
definition SemanticTaskFamilyKnowledgeQuery :: gostring where "SemanticTaskFamilyKnowledgeQuery = lit ''knowledge_query''"
definition SemanticTaskFamilyStructuredCommand :: gostring where "SemanticTaskFamilyStructuredCommand = lit ''structured_command''"
definition SemanticTaskFamilyStructuredQuery :: gostring where "SemanticTaskFamilyStructuredQuery = lit ''structured_query''"
definition SemanticTaskFamilyCorrection :: gostring where "SemanticTaskFamilyCorrection = lit ''correction''"
definition SemanticTaskFamilyBackchannel :: gostring where "SemanticTaskFamilyBackchannel = lit ''backchannel''"

definition normalizeSemanticTaskFamily :: "gostring \<Rightarrow> gostring" where
  "normalizeSemanticTaskFamily value =
     (let v = ToLower (TrimSpace value)
      in if v \<in> {SemanticTaskFamilyDialogue, SemanticTaskFamilyKnowledgeQuery, SemanticTaskFamilyStructuredCommand,
                 SemanticTaskFamilyStructuredQuery, SemanticTaskFamilyCorrection, SemanticTaskFamilyBackchannel}
         then v else SemanticTaskFamilyUnknown)"

definition taskFamilyRequiresSlotReadiness :: "gostring \<Rightarrow> bool" where
  "taskFamilyRequiresSlotReadiness family =
     (normalizeSemanticTaskFamily family = SemanticTaskFamilyStructuredCommand)"

definition inferLexicalTaskFamily :: "gostring \<Rightarrow> gostring" where
  "inferLexicalTaskFamily t =
     (let s = TrimSpace t
      in if s = [] then SemanticTaskFamilyUnknown
         else if looksLikeBackchannel s then SemanticTaskFamilyBackchannel
         else if looksCorrectionPending s \<or> looksLikeTakeoverLexicon s then SemanticTaskFamilyCorrection
         else if looksQuestionClosure s \<or> matchesAnySuffix s chineseQuestionSuffixes then SemanticTaskFamilyKnowledgeQuery
         else if hasAnyPrefix s chineseStructuredQueryPrefixes
             \<or> hasAnyPrefix (ToLower s) englishStructuredQueryPrefixes then SemanticTaskFamilyStructuredQuery
         else if hasAnyPrefix s chineseStructuredCommandPrefixes
             \<or> hasAnyPrefix (ToLower s) englishStructuredCommandPrefixes then SemanticTaskFamilyStructuredCommand
         else SemanticTaskFamilyDialogue)"

definition SemanticIntentUnknown :: gostring where "SemanticIntentUnknown = lit ''unknown''"
definition SemanticIntentBackchannel :: gostring where "SemanticIntentBackchannel = lit ''backchannel''"
definition SemanticIntentTakeover :: gostring where "SemanticIntentTakeover = lit ''takeover''"
definition SemanticIntentCorrection :: gostring where "SemanticIntentCorrection = lit ''correction''"
definition SemanticIntentRequest :: gostring where "SemanticIntentRequest = lit ''request''"
definition SemanticIntentQuestion :: gostring where "SemanticIntentQuestion = lit ''question''"
definition SemanticIntentContinue :: gostring where "SemanticIntentContinue = lit ''continue''"
definition SemanticIntentOther :: gostring where "SemanticIntentOther = lit ''other''"

definition normalizeSemanticIntent :: "gostring \<Rightarrow> gostring" where
  "normalizeSemanticIntent value =
     (let v = ToLower (TrimSpace value)
      in if v \<in> {SemanticIntentBackchannel, SemanticIntentTakeover, SemanticIntentCorrection, SemanticIntentRequest,
                 SemanticIntentQuestion, SemanticIntentContinue, SemanticIntentOther}
         then v else SemanticIntentUnknown)"

definition semanticIntentIsTakeover :: "gostring \<Rightarrow> bool" where
  "semanticIntentIsTakeover intent =
     (normalizeSemanticIntent intent \<in> {SemanticIntentTakeover, SemanticIntentCorrection, SemanticIntentRequest,
        SemanticIntentQuestion, SemanticIntentContinue})"

section \<open>Lemmas\<close>

lemma commonPrefixLoop_spec:
  assumes "idx \<le> limit" and "limit \<le> length a" and "limit \<le> length b" and "take idx a = take idx b"
  shows "let k = commonPrefixLoop a b limit idx in
    idx \<le> k \<and> k \<le> limit \<and> take k a = take k b \<and> (k < limit \<longrightarrow> a ! k \<noteq> b ! k)"
  using assms
proof (induction a b limit idx rule: commonPrefixLoop.induct)
  case (1 a b limit idx)
  show ?case
  proof (cases "idx < limit \<and> a ! idx = b ! idx")
    case True
    then have "take (Suc idx) a = take (Suc idx) b"
      using "1.prems" by (simp add: take_Suc_conv_app_nth)
    with True "1.prems" "1.IH" show ?thesis
      by (simp add: commonPrefixLoop.simps [of a b limit idx] Let_def)
  next
    case False
    with "1.prems" show ?thesis by (auto simp: commonPrefixLoop.simps [of a b limit idx] Let_def)
  qed
qed

text \<open>The loop computes the longest common prefix of the library.\<close>

lemma longestCommonPrefix_eq: "longestCommonPrefix a b = longest_common_prefix a b"
proof -
  let ?lim = "if length b < length a then length b else length a"
  let ?k = "commonPrefixLoop a b ?lim 0"
  have spec: "?k \<le> ?lim" "take ?k a = take ?k b" "?k < ?lim \<longrightarrow> a ! ?k \<noteq> b ! ?k"
    using commonPrefixLoop_spec [of 0 ?lim a b] by (auto simp: Let_def)
  have r: "longestCommonPrefix a b = take ?k a" by (simp add: longestCommonPrefix_def Let_def)
  have p: "prefix (take ?k a) a" "prefix (take ?k a) b"
    by (rule take_is_prefix) (subst spec(2), rule take_is_prefix)
  let ?m = "longest_common_prefix a b"
  have "prefix (take ?k a) ?m" using p by (rule longest_common_prefix_max_prefix)
  moreover have "length ?m \<le> ?k"
  proof (rule ccontr)
    assume "\<not> length ?m \<le> ?k"
    then have k: "?k < length ?m" by simp
    have m: "prefix ?m a" "prefix ?m b"
      by (rule longest_common_prefix_prefix1, rule longest_common_prefix_prefix2)
    have "length ?m \<le> ?lim" using m by (simp add: prefix_length_le)
    moreover have "a ! ?k = b ! ?k" using m k by (metis prefix_nth)
    ultimately show False using spec(3) k by simp
  qed
  moreover have "length (take ?k a) = ?k" using spec(1) by (simp split: if_splits)
  ultimately have "take ?k a = ?m" by (auto simp: prefix_def)
  then show ?thesis using r by simp
qed

lemma trimmed_updateStablePrefix: "trimmed (updateStablePrefix pp ps np f)"
  by (simp add: updateStablePrefix_def Let_def)

text \<open>The stable prefix is kept or is a prefix of the text just recognised.\<close>

lemma updateStablePrefix_cases:
  "updateStablePrefix pp ps np f = TrimSpace ps \<or> prefix (updateStablePrefix pp ps np f) (TrimSpace np)"
proof -
  let ?c = "longestCommonPrefix (TrimSpace pp) (TrimSpace np)"
  have "prefix (TrimSpace ?c) (TrimSpace np)"
    by (rule prefix_TrimSpace_trimmed) (simp_all add: longestCommonPrefix_eq longest_common_prefix_prefix2)
  then show ?thesis by (auto simp: updateStablePrefix_def Let_def)
qed

lemma analyze_trim: "analyzeUtteranceCompleteness (TrimSpace t) = analyzeUtteranceCompleteness t"
  by (simp add: analyzeUtteranceCompleteness_def)

lemma analyze_hold_reason:
  "HoldReason (analyzeUtteranceCompleteness t) = [] \<longleftrightarrow> TrimSpace t = [] \<or> Complete (analyzeUtteranceCompleteness t)"
  by (simp add: analyzeUtteranceCompleteness_def Let_def correctionHoldServerEndpointReason_def
      lexicalHoldServerEndpointReason_def)

lemma preview_complete_imp_partial_complete:
  "Complete (previewUtteranceCompleteness sp pt) \<Longrightarrow> TrimSpace pt \<noteq> [] \<Longrightarrow> Complete (analyzeUtteranceCompleteness pt)"
  by (auto simp: previewUtteranceCompleteness_def Let_def analyze_trim split: if_splits)

text \<open>After trimming its punctuation, a one-rune utterance is an acknowledgement, whatever the rune.\<close>

lemma single_rune_backchannel: "Trim (TrimSpace t) backchannelCutset = [r] \<Longrightarrow> looksLikeBackchannel t"
proof -
  assume n: "Trim (TrimSpace t) backchannelCutset = [r]"
  then have "TrimSpace t \<noteq> []" by auto
  then show ?thesis unfolding looksLikeBackchannel_def Let_def n by simp
qed

lemma normalizeSemanticIntent_idem [simp]:
  "normalizeSemanticIntent (normalizeSemanticIntent v) = normalizeSemanticIntent v"
proof -
  have "normalizeSemanticIntent x = x" if "x \<in> {SemanticIntentBackchannel, SemanticIntentTakeover,
      SemanticIntentCorrection, SemanticIntentRequest, SemanticIntentQuestion, SemanticIntentContinue,
      SemanticIntentOther, SemanticIntentUnknown}" for x
    using that by (elim insertE emptyE) (simp only:, code_simp)+
  then show ?thesis by (simp add: normalizeSemanticIntent_def Let_def)
qed

section \<open>Properties\<close>

text \<open>
  The rune loop of \<open>longestCommonPrefix\<close> computes the longest common prefix: the result is a
  prefix of both texts and every common prefix is a prefix of it.
\<close>
theorem longestCommonPrefix_correct:
  "prefix (longestCommonPrefix a b) a \<and> prefix (longestCommonPrefix a b) b \<and>
   (prefix p a \<and> prefix p b \<longrightarrow> prefix p (longestCommonPrefix a b))"
  by (simp add: longestCommonPrefix_eq longest_common_prefix_prefix1 longest_common_prefix_prefix2
      longest_common_prefix_max_prefix)

theorem longestCommonPrefix_correct_witness:
  "prefix (lit ''turn on'') (longestCommonPrefix (lit ''turn on the light'') (lit ''turn on the fan''))"
  using longestCommonPrefix_correct [of "lit ''turn on the light''" "lit ''turn on the fan''" "lit ''turn on''"]
  by (simp add: lit_def)

text \<open>
  The stable prefix only ever holds text the recogniser has produced. For an interim result it is
  either the previous stable prefix or a prefix of the new hypothesis, for a final result it is the
  new hypothesis, and it carries no surrounding space.
\<close>
theorem stable_prefix_sound:
  "trimmed (updateStablePrefix pp ps np f) \<and>
   (updateStablePrefix pp ps np f = TrimSpace ps \<or> prefix (updateStablePrefix pp ps np f) (TrimSpace np)) \<and>
   (TrimSpace np \<noteq> [] \<longrightarrow> updateStablePrefix pp ps np True = TrimSpace np)"
  using trimmed_updateStablePrefix updateStablePrefix_cases by (auto simp: updateStablePrefix_def)

theorem stable_prefix_sound_witness:
  "updateStablePrefix (lit ''turn'') [] (lit '' turn on '') True = lit ''turn on''"
proof -
  have "TrimSpace (lit '' turn on '') = lit ''turn on''" by code_simp
  then show ?thesis using stable_prefix_sound [of "lit ''turn''" "[]" "lit '' turn on ''"] by simp
qed

end
