(* ===== verification/Go_Float.thy ===== *)
theory Go_Float
  imports Complex_Main Go_Prelude
begin

text \<open>
  Go's \<open>float64\<close> arithmetic. A finite value is the rational it denotes, and an operation is the exact
  operation followed by \<open>fl\<close>, the IEEE 754 rounding to 53 significant bits, to nearest with ties to
  even. The ranges that occur in the modelled sources (ratios, gains, scores, nanosecond counts,
  16-bit samples) stay far from overflow and from the subnormal numbers, so neither is modelled, and
  no operation here produces an infinity or a NaN: every divisor is guarded by the sources. A decimal
  literal of the source is \<open>fl\<close> of its exact value. The compiler is taken not to fuse a product
  and a sum (amd64).

  The lemmas give what the components need: \<open>fl\<close> is monotone, exact on the integers up to
  \<open>2 ^ 53\<close>, keeps the unit interval, and is within half a unit in the last place.
\<close>

type_synonym float64 = rat

named_theorems float_simps \<open>unfolding of the floating-point operations\<close>

section \<open>Rounding\<close>

text \<open>Number of bits of a positive integer.\<close>

fun bits :: "int \<Rightarrow> int" where
  "bits n = (if n \<le> 0 then 0 else 1 + bits (n div 2))"

declare bits.simps [simp del]

text \<open>Binary exponent: \<open>2 powi ilog2 x \<le> x < 2 powi (ilog2 x + 1)\<close> for positive \<open>x\<close>.\<close>

definition ilog2 :: "rat \<Rightarrow> int" where
  "ilog2 x = (let (a, b) = quotient_of x; e = bits a - bits b
     in if 2 powi e \<le> x then e else e - 1)"

text \<open>Nearest integer, ties to even.\<close>

definition rne :: "rat \<Rightarrow> int" where
  "rne y = (let f = \<lfloor>y\<rfloor>; d = y - of_int f in if d < 1/2 \<or> (d = 1/2 \<and> even f) then f else f + 1)"

definition ulp :: "rat \<Rightarrow> rat" where
  "ulp x = 2 powi (ilog2 x - 52)"

definition fl_pos :: "rat \<Rightarrow> rat" where
  "fl_pos x = of_int (rne (x / ulp x)) * ulp x"

definition fl :: "rat \<Rightarrow> float64" where
  "fl x = (if x = 0 then 0 else if x > 0 then fl_pos x else - fl_pos (- x))"

definition fadd :: "float64 \<Rightarrow> float64 \<Rightarrow> float64" where
  "fadd x y = fl (x + y)"

definition fsub :: "float64 \<Rightarrow> float64 \<Rightarrow> float64" where
  "fsub x y = fl (x - y)"

definition fmul :: "float64 \<Rightarrow> float64 \<Rightarrow> float64" where
  "fmul x y = fl (x * y)"

definition fdiv :: "float64 \<Rightarrow> float64 \<Rightarrow> float64" where
  "fdiv x y = fl (x / y)"

text \<open>Conversion \<open>float64(n)\<close> of an integer.\<close>

definition float_of :: "int \<Rightarrow> float64" where
  "float_of n = fl (of_int n)"

text \<open>\<open>math.Round\<close>: to nearest, halves away from zero.\<close>

definition Round :: "float64 \<Rightarrow> int" where
  "Round x = (if x \<ge> 0 then \<lfloor>x + 1/2\<rfloor> else \<lceil>x - 1/2\<rceil>)"

text \<open>\<open>clampUnit\<close> of package \<open>voice\<close> (barge_in.go).\<close>

definition clampUnit :: "float64 \<Rightarrow> float64" where
  "clampUnit value = (if value < 0 then 0 else if value > 1 then 1 else value)"

lemma clampUnit_bounds: "0 \<le> clampUnit v \<and> clampUnit v \<le> 1"
  by (simp add: clampUnit_def)

lemma clampUnit_id: "0 \<le> v \<Longrightarrow> v \<le> 1 \<Longrightarrow> clampUnit v = v"
  by (simp add: clampUnit_def)

section \<open>The exponent\<close>

lemma bits_nonneg: "0 \<le> bits n"
  by (induction n rule: bits.induct) (simp add: bits.simps)

lemma bits_pos: "0 < n \<Longrightarrow> 0 < bits n"
  using bits_nonneg [of "n div 2"] by (simp add: bits.simps [of n])

lemma bits_bounds: "0 < n \<Longrightarrow> 2 ^ nat (bits n - 1) \<le> n \<and> n < 2 ^ nat (bits n)"
proof (induction n rule: bits.induct)
  case (1 n)
  show ?case
  proof (cases "n = 1")
    case True
    have "bits 1 = 1" by (simp add: bits.simps [of 1] bits.simps [of 0])
    with True show ?thesis by simp
  next
    case False
    let ?h = "n div 2"
    have h: "0 < ?h" using False 1(2) by auto
    with 1 have IH: "2 ^ nat (bits ?h - 1) \<le> ?h" "?h < 2 ^ nat (bits ?h)" by auto
    have b: "bits n = 1 + bits ?h" using 1(2) by (simp add: bits.simps [of n])
    have p: "0 < bits ?h" using h by (rule bits_pos)
    have e: "nat (bits n - 1) = Suc (nat (bits ?h - 1))" "nat (bits n) = Suc (nat (bits ?h))"
      using b p by auto
    show ?thesis unfolding e using IH by auto
  qed
qed

lemma bits_powi:
  assumes "0 < n"
  shows "2 powi (bits n - 1) \<le> (of_int n :: rat)" and "(of_int n :: rat) < 2 powi (bits n)"
proof -
  have b: "0 < bits n" using assms by (rule bits_pos)
  have p: "(2 powi k :: rat) = of_int (2 ^ nat k)" if "0 \<le> k" for k
    using that by (simp add: power_int_def)
  show "2 powi (bits n - 1) \<le> (of_int n :: rat)"
    using bits_bounds [OF assms] b by (simp only: p of_int_le_iff)
  show "(of_int n :: rat) < 2 powi (bits n)"
    using bits_bounds [OF assms] b by (simp only: p of_int_less_iff)
qed

lemma powi2_mono: "i \<le> j \<Longrightarrow> (2 powi i :: rat) \<le> 2 powi j"
  by (rule power_int_increasing) simp_all

lemma powi2_less_iff: "(2 powi i :: rat) < 2 powi j \<longleftrightarrow> i < j"
  using powi2_mono [of j i] power_int_strict_increasing [of i j "2::rat"] by fastforce

lemma ilog2_bounds:
  assumes "0 < x"
  shows "2 powi (ilog2 x) \<le> x" and "x < 2 powi (ilog2 x + 1)"
proof -
  obtain a b where q: "quotient_of x = (a, b)" by (cases "quotient_of x")
  have b: "0 < b" using q by (rule quotient_of_denom_pos)
  have x: "x = of_int a / of_int b" using q by (rule quotient_of_div)
  have a: "0 < a" using assms b unfolding x by (simp add: zero_less_divide_iff)
  let ?e = "bits a - bits b"
  have lo: "2 powi (?e - 1) < x"
  proof -
    have "2 powi (?e - 1) * of_int b < 2 powi (?e - 1) * (2 powi bits b :: rat)"
      using bits_powi(2) [OF b] by simp
    also have "\<dots> = 2 powi (bits a - 1)" by (simp flip: power_int_add)
    also have "\<dots> \<le> of_int a" using bits_powi(1) [OF a] .
    finally show ?thesis using b unfolding x by (simp add: less_divide_eq)
  qed
  have hi: "x < 2 powi (?e + 1)"
  proof -
    have "(of_int a :: rat) < 2 powi (?e + 1) * 2 powi (bits b - 1)"
      using bits_powi(2) [OF a] by (simp flip: power_int_add)
    also have "\<dots> \<le> 2 powi (?e + 1) * of_int b"
      using bits_powi(1) [OF b] by simp
    finally show ?thesis using b unfolding x by (simp add: divide_less_eq)
  qed
  show "2 powi (ilog2 x) \<le> x" and "x < 2 powi (ilog2 x + 1)"
    using lo hi by (auto simp: ilog2_def q Let_def)
qed

lemma ilog2_mono: "0 < x \<Longrightarrow> x \<le> y \<Longrightarrow> ilog2 x \<le> ilog2 y"
proof (rule ccontr)
  assume *: "0 < x" "x \<le> y" and "\<not> ilog2 x \<le> ilog2 y"
  then have "(2 powi (ilog2 y + 1) :: rat) \<le> 2 powi ilog2 x" by (intro powi2_mono) simp
  also have "\<dots> \<le> x" using * by (intro ilog2_bounds)
  finally show False using * ilog2_bounds(2) [of y] by simp
qed

section \<open>Rounding to the grid\<close>

lemma rne_near: "\<bar>of_int (rne y) - y\<bar> \<le> 1/2"
proof -
  have "of_int \<lfloor>y\<rfloor> \<le> y" and "y < of_int \<lfloor>y\<rfloor> + 1" by linarith+
  then show ?thesis by (auto simp: rne_def Let_def abs_le_iff)
qed

lemma rne_of_int [simp]: "rne (of_int n) = n"
  by (simp add: rne_def)

lemma rne_mono:
  assumes "x \<le> y"
  shows "rne x \<le> rne y"
proof (cases "\<lfloor>x\<rfloor> = \<lfloor>y\<rfloor>")
  case True
  with assms show ?thesis by (auto simp: rne_def Let_def)
next
  case False
  then have "\<lfloor>x\<rfloor> + 1 \<le> \<lfloor>y\<rfloor>" using floor_mono [OF assms] by simp
  then show ?thesis by (auto simp: rne_def Let_def)
qed

lemma ulp_pos: "0 < ulp x"
  by (simp add: ulp_def)

lemma powi_over_ulp: "2 powi (ilog2 x + k) / ulp x = 2 powi (52 + k)"
  by (simp add: ulp_def add.commute flip: power_int_diff)

lemma fl_pos_near: "\<bar>fl_pos x - x\<bar> \<le> ulp x / 2"
proof -
  have u: "0 < ulp x" by (rule ulp_pos)
  have "fl_pos x - x = (of_int (rne (x / ulp x)) - x / ulp x) * ulp x"
    using u by (simp add: fl_pos_def field_simps)
  then have "\<bar>fl_pos x - x\<bar> = \<bar>of_int (rne (x / ulp x)) - x / ulp x\<bar> * ulp x"
    using u by (simp add: abs_mult)
  also have "\<dots> \<le> 1/2 * ulp x" using u rne_near by (intro mult_right_mono) auto
  finally show ?thesis by simp
qed

text \<open>Rounding stays in the closed binade.\<close>

lemma fl_pos_binade:
  assumes "0 < x"
  shows "2 powi (ilog2 x) \<le> fl_pos x" and "fl_pos x \<le> 2 powi (ilog2 x + 1)"
proof -
  have u: "0 < ulp x" by (rule ulp_pos)
  have "(of_int (2 ^ 52) :: rat) = 2 powi (ilog2 x + 0) / ulp x" by (simp only: powi_over_ulp) simp
  also have "\<dots> \<le> x / ulp x" using ilog2_bounds(1) [OF assms] u by (simp add: divide_right_mono)
  finally have "rne (of_int (2 ^ 52)) \<le> rne (x / ulp x)" by (rule rne_mono)
  then have "of_int (2 ^ 52) * ulp x \<le> fl_pos x"
    using u unfolding rne_of_int fl_pos_def by (intro mult_right_mono) auto
  then show "2 powi (ilog2 x) \<le> fl_pos x"
    using powi_over_ulp [of x 0] u by (simp add: field_simps)
  have "x / ulp x \<le> 2 powi (ilog2 x + 1) / ulp x"
    using ilog2_bounds(2) [OF assms] u by (simp add: divide_right_mono)
  also have "\<dots> = of_int (2 ^ 53)" by (simp only: powi_over_ulp) simp
  finally have "rne (x / ulp x) \<le> rne (of_int (2 ^ 53))" by (rule rne_mono)
  then have "fl_pos x \<le> of_int (2 ^ 53) * ulp x"
    using u unfolding rne_of_int fl_pos_def by (intro mult_right_mono) auto
  then show "fl_pos x \<le> 2 powi (ilog2 x + 1)"
    using powi_over_ulp [of x 1] u by (simp add: field_simps)
qed

lemma fl_pos_pos: "0 < x \<Longrightarrow> 0 < fl_pos x"
  using less_le_trans [OF _ fl_pos_binade(1) [of x], of 0] by simp

lemma fl_pos_mono:
  assumes "0 < x" and "x \<le> y"
  shows "fl_pos x \<le> fl_pos y"
proof (cases "ilog2 x = ilog2 y")
  case True
  then have u: "ulp x = ulp y" by (simp add: ulp_def)
  have "x / ulp y \<le> y / ulp y" using assms ulp_pos [of y] by (simp add: divide_right_mono)
  then have "rne (x / ulp y) \<le> rne (y / ulp y)" by (rule rne_mono)
  then show ?thesis using ulp_pos [of y] by (simp add: fl_pos_def u)
next
  case False
  then have "ilog2 x + 1 \<le> ilog2 y" using ilog2_mono [OF assms] by simp
  then have "(2 powi (ilog2 x + 1) :: rat) \<le> 2 powi ilog2 y" by (rule powi2_mono)
  then show ?thesis
    using fl_pos_binade(2) [OF assms(1)] fl_pos_binade(1) [of y] assms by linarith
qed

section \<open>The rounding function\<close>

lemma fl_zero [simp]: "fl 0 = 0"
  by (simp add: fl_def)

lemma fl_minus: "fl (- x) = - fl x"
  by (auto simp: fl_def)

theorem fl_mono:
  assumes "x \<le> y"
  shows "fl x \<le> fl y"
proof -
  consider "x = y" | "0 < x" | "x < y" "y < 0" | "x \<le> 0" "0 \<le> y"
    using assms by linarith
  then show ?thesis
  proof cases
    case 2
    then show ?thesis using assms fl_pos_mono [of x y] by (simp add: fl_def)
  next
    case 3
    then show ?thesis using fl_pos_mono [of "- y" "- x"] by (simp add: fl_def)
  next
    case 4
    then show ?thesis using fl_pos_pos [of y] fl_pos_pos [of "- x"]
      by (auto simp: fl_def intro: order_trans [of _ 0])
  qed simp
qed

lemma fl_nonneg: "0 \<le> x \<Longrightarrow> 0 \<le> fl x"
  using fl_mono [of 0 x] by simp

lemma fl_pos_iff: "0 < fl x \<longleftrightarrow> 0 < x"
  using fl_pos_pos [of x] fl_mono [of x 0] by (auto simp: fl_def not_less [symmetric])

text \<open>A rational whose scaled value is an integer is representable.\<close>

lemma fl_exact:
  assumes "0 < x" and "x = of_int n * 2 powi k" and "k \<ge> ilog2 x - 52"
  shows "fl x = x"
proof -
  have "2 powi k / ulp x = (2 powi (k - (ilog2 x - 52)) :: rat)"
    by (simp add: ulp_def power_int_diff)
  also have "\<dots> = of_int (2 ^ nat (k - (ilog2 x - 52)))"
    using assms(3) by (simp add: power_int_def)
  finally have "x / ulp x = of_int (n * 2 ^ nat (k - (ilog2 x - 52)))"
    by (subst assms(2)) (simp flip: times_divide_eq_right)
  then have "fl_pos x = x"
    unfolding fl_pos_def rne_of_int using ulp_pos [of x] by (metis nonzero_divide_eq_eq less_irrefl rne_of_int)
  then show ?thesis using assms(1) by (simp add: fl_def)
qed

lemma ilog2_less: "0 < x \<Longrightarrow> x < 2 powi k \<Longrightarrow> ilog2 x < k"
  using ilog2_bounds(1) [of x] powi2_less_iff [of "ilog2 x" k] by (simp add: le_less_trans)

lemma fl_int_pos:
  assumes "0 < n" and "n < 2 ^ 53"
  shows "fl (of_int n) = of_int n"
proof -
  have "(of_int n :: rat) < of_int (2 ^ 53)" using assms(2) by (simp only: of_int_less_iff)
  then have "ilog2 (of_int n) < 53" using assms(1) by (intro ilog2_less) simp_all
  then show ?thesis using assms(1) by (intro fl_exact [where n = n and k = 0]) simp_all
qed

lemma fl_int: "\<bar>n\<bar> < 2 ^ 53 \<Longrightarrow> fl (of_int n) = of_int n"
  using fl_int_pos [of n] fl_int_pos [of "- n"] fl_minus [of "of_int n"]
  by (cases "n = 0"; cases "0 < n") auto

lemma fl_one [simp]: "fl 1 = 1"
  using fl_int [of 1] by simp

lemma fl_le_one: "x \<le> 1 \<Longrightarrow> fl x \<le> 1"
  using fl_mono [of x 1] by simp

lemma fl_ge_one: "1 \<le> x \<Longrightarrow> 1 \<le> fl x"
  using fl_mono [of 1 x] by simp

lemma fl_le_int: "x \<le> of_int n \<Longrightarrow> \<bar>n\<bar> < 2 ^ 53 \<Longrightarrow> fl x \<le> of_int n"
  using fl_mono [of x "of_int n"] by (simp add: fl_int)

lemma fl_ge_int: "of_int n \<le> x \<Longrightarrow> \<bar>n\<bar> < 2 ^ 53 \<Longrightarrow> of_int n \<le> fl x"
  using fl_mono [of "of_int n" x] by (simp add: fl_int)

lemma float_of_id: "\<bar>n\<bar> < 2 ^ 53 \<Longrightarrow> float_of n = of_int n"
  by (simp add: float_of_def fl_int)

lemma fl_near:
  assumes "0 < x" and "x < 2 powi k"
  shows "\<bar>fl x - x\<bar> \<le> 2 powi (k - 54)"
proof -
  have "ilog2 x \<le> k - 1" using ilog2_less [OF assms] by simp
  then have "ulp x / 2 \<le> 2 powi (k - 54)"
    using powi2_mono [of "ilog2 x - 52" "k - 53"] by (simp add: ulp_def power_int_diff)
  moreover have "\<bar>fl x - x\<bar> \<le> ulp x / 2" using assms(1) fl_pos_near [of x] by (simp add: fl_def)
  ultimately show ?thesis by linarith
qed


text \<open>The values that occur: a rounded number is a floating-point number.\<close>

definition is_float :: "rat \<Rightarrow> bool" where
  "is_float x \<longleftrightarrow> fl x = x"

lemma fl_fl_pos: "0 < x \<Longrightarrow> fl (fl x) = fl x"
proof -
  assume x: "0 < x"
  let ?y = "fl_pos x" and ?e = "ilog2 x"
  have y: "fl x = ?y" "0 < ?y" "?y \<le> 2 powi (?e + 1)" using x fl_pos_pos fl_pos_binade by (simp_all add: fl_def)
  have eq: "?y = of_int (rne (x / ulp x)) * 2 powi (?e - 52)" by (simp add: fl_pos_def ulp_def)
  show ?thesis
  proof (cases "?y < 2 powi (?e + 1)")
    case True
    then show ?thesis using y fl_exact [OF y(2) eq] ilog2_less [OF y(2) True] by simp
  next
    case False
    then have p: "?y = of_int 1 * 2 powi (?e + 1)" using y(3) by simp
    have "?y < 2 powi (?e + 2)" using p powi2_less_iff [of "?e + 1" "?e + 2"] by simp
    then show ?thesis using y fl_exact [OF y(2) p] ilog2_less [OF y(2)] by fastforce
  qed
qed

lemma is_float_fl [simp]: "is_float (fl x)"
  unfolding is_float_def using fl_fl_pos [of x] fl_fl_pos [of "- x"] fl_minus [of x] fl_minus [of "fl (- x)"]
  by (cases "x = 0"; cases "0 < x") auto

lemma is_float_int: "\<bar>n\<bar> < 2 ^ 53 \<Longrightarrow> is_float (of_int n)"
  by (simp add: is_float_def fl_int)

lemma is_float_0_1 [simp]: "is_float 0" "is_float 1"
  by (simp_all add: is_float_def)

end
