(* ===== verification/Turn_Detector.thy ===== *)
theory Turn_Detector
  imports Lexical Go_Float
begin

text \<open>
  The server-side endpointing of \<open>internal/voice/turn_detector.go\<close>: the silence detector with its
  transcript state, the multi-signal arbitrator and the recomputation of its stage, together with the
  preview types of contracts.go. The detector is not shared between goroutines without a lock of its
  owner, so its methods are functions from detector to detector; \<open>now\<close> is an argument in the
  source already. Ratios are \<open>float64\<close> values of \<open>Go_Float\<close>.
\<close>

section \<open>Data\<close>

datatype TurnArbitrationStage = StageUnset | PreviewOnly | PrewarmAllowed | DraftAllowed
  | AcceptCandidate | AcceptNow | WaitForMore

record TurnArbitration =
  arbStage :: TurnArbitrationStage
  arbReason :: gostring
  arbStability :: float64
  arbStableForMs :: int
  arbAudioMs :: int
  arbSilenceMs :: int
  arbMinAudioMs :: int
  arbBaseWaitMs :: int
  arbRuleAdjustMs :: int
  arbPunctuationAdjustMs :: int
  arbSemanticWaitPolicy :: gostring
  arbSemanticWaitDeltaMs :: int
  arbSlotGuardAdjustMs :: int
  arbEffectiveWaitMs :: int
  arbRequiredSilenceMs :: int
  arbCandidateReady :: bool
  arbDraftReady :: bool
  arbAcceptReady :: bool
  arbPrewarmAllowed :: bool
  arbDraftAllowed :: bool
  arbAcceptCandidate :: bool
  arbAcceptNow :: bool
  arbEndpointHinted :: bool
  arbSemanticJudgeVariant :: gostring
  arbSemanticJudgeEnabled :: bool
  arbSemanticReady :: bool
  arbSemanticComplete :: bool
  arbSemanticIntent :: gostring
  arbSemanticSlotReadiness :: gostring
  arbTaskFamily :: gostring
  arbSlotConstraintRequired :: bool
  arbSemanticReason :: gostring
  arbSemanticSource :: gostring
  arbSemanticConfidence :: float64
  arbSlotReady :: bool
  arbSlotComplete :: bool
  arbSlotGrounded :: bool
  arbSlotDomain :: gostring
  arbSlotIntent :: gostring
  arbSlotStatus :: gostring
  arbSlotActionability :: gostring
  arbSlotReason :: gostring
  arbSlotSource :: gostring
  arbSlotConfidence :: float64
  arbSlotClarifyNeeded :: bool
  arbSlotCanonicalTarget :: gostring
  arbSlotCanonicalLocation :: gostring
  arbSlotNormalizedValue :: gostring
  arbSlotNormalizedValueUnit :: gostring
  arbSlotRiskLevel :: gostring
  arbSlotRiskReason :: gostring
  arbSlotRiskConfirmRequired :: bool
  arbSlotMissing :: "gostring list"
  arbSlotAmbiguous :: "gostring list"

text \<open>The zero value of the struct.\<close>

definition zeroArbitration :: TurnArbitration where
  "zeroArbitration = \<lparr>arbStage = StageUnset, arbReason = [], arbStability = 0, arbStableForMs = 0, arbAudioMs = 0,
     arbSilenceMs = 0, arbMinAudioMs = 0, arbBaseWaitMs = 0, arbRuleAdjustMs = 0,
     arbPunctuationAdjustMs = 0, arbSemanticWaitPolicy = [], arbSemanticWaitDeltaMs = 0,
     arbSlotGuardAdjustMs = 0, arbEffectiveWaitMs = 0, arbRequiredSilenceMs = 0, arbCandidateReady =
     False, arbDraftReady = False, arbAcceptReady = False, arbPrewarmAllowed = False,
     arbDraftAllowed = False, arbAcceptCandidate = False, arbAcceptNow = False, arbEndpointHinted =
     False, arbSemanticJudgeVariant = [], arbSemanticJudgeEnabled = False, arbSemanticReady = False,
     arbSemanticComplete = False, arbSemanticIntent = [], arbSemanticSlotReadiness = [],
     arbTaskFamily = [], arbSlotConstraintRequired = False, arbSemanticReason = [],
     arbSemanticSource = [], arbSemanticConfidence = 0, arbSlotReady = False, arbSlotComplete =
     False, arbSlotGrounded = False, arbSlotDomain = [], arbSlotIntent = [], arbSlotStatus = [],
     arbSlotActionability = [], arbSlotReason = [], arbSlotSource = [], arbSlotConfidence = 0,
     arbSlotClarifyNeeded = False, arbSlotCanonicalTarget = [], arbSlotCanonicalLocation = [],
     arbSlotNormalizedValue = [], arbSlotNormalizedValueUnit = [], arbSlotRiskLevel = [],
     arbSlotRiskReason = [], arbSlotRiskConfirmRequired = False, arbSlotMissing = [],
     arbSlotAmbiguous = []\<rparr>"

record InputPreview =
  pvPartialText :: gostring
  pvStablePrefix :: gostring
  pvEndpointReason :: gostring
  pvAudioBytes :: int
  pvCommitSuggested :: bool
  pvSpeechStarted :: bool
  pvUtteranceComplete :: bool
  pvArbitration :: TurnArbitration

definition zeroPreview :: InputPreview where
  "zeroPreview = \<lparr>pvPartialText = [], pvStablePrefix = [], pvEndpointReason = [], pvAudioBytes = 0,
     pvCommitSuggested = False, pvSpeechStarted = False, pvUtteranceComplete = False,
     pvArbitration = zeroArbitration\<rparr>"

datatype TranscriptionDeltaKind = DeltaSpeechStart | DeltaPartial | DeltaSpeechEnd | DeltaFinal | DeltaOther string

record TranscriptionDelta =
  deltaKind :: TranscriptionDeltaKind
  deltaText :: gostring
  deltaEndpointReason :: gostring
  deltaAudioBytes :: int

record SilenceTurnDetectorConfig =
  cfgMinAudioMs :: int
  cfgSilenceMs :: int
  cfgLexicalEndpointMode :: gostring
  cfgIncompleteHoldMs :: int
  cfgEndpointHintSilenceMs :: int

record SilenceTurnDetector =
  detConfig :: SilenceTurnDetectorConfig
  sampleRateHz :: int
  channels :: int
  detAudioBytes :: int
  lastAudioAt :: gotime
  speechStarted :: bool
  latestPartial :: gostring
  stablePrefix :: gostring
  stablePrefixAt :: gotime
  latestEndpointHint :: gostring
  commitSuggested :: bool
  commitReason :: gostring

record turnArbitrationInput =
  inPartialText :: gostring
  inStablePrefix :: gostring
  inAudioMs :: int
  inSilence :: duration
  inBaseWait :: duration
  inStableFor :: duration
  inEndpointReason :: gostring
  inUtteranceComplete :: bool

section \<open>Configuration\<close>

definition defaultTurnDetectorSilenceMs :: int where "defaultTurnDetectorSilenceMs = 480"
definition defaultTurnDetectorMinAudioMs :: int where "defaultTurnDetectorMinAudioMs = 320"
definition defaultTurnDetectorIncompleteHoldMs :: int where "defaultTurnDetectorIncompleteHoldMs = 720"
definition defaultTurnDetectorHintSilenceMs :: int where "defaultTurnDetectorHintSilenceMs = 160"
definition defaultTurnDetectorAcceptLeadMs :: int where "defaultTurnDetectorAcceptLeadMs = 120"
definition defaultTurnDetectorMinWaitMs :: int where "defaultTurnDetectorMinWaitMs = 120"
definition defaultTurnDetectorMaxWaitMs :: int where "defaultTurnDetectorMaxWaitMs = 900"
definition defaultPrewarmStableForMs :: int where "defaultPrewarmStableForMs = 120"
definition defaultDraftStableForMs :: int where "defaultDraftStableForMs = 200"
definition turnDetectorLexicalModeOff :: gostring where "turnDetectorLexicalModeOff = lit ''off''"
definition turnDetectorLexicalModeConservative :: gostring where
  "turnDetectorLexicalModeConservative = lit ''conservative''"
definition defaultServerEndpointReason :: gostring where
  "defaultServerEndpointReason = lit ''server_silence_timeout''"
definition defaultPrewarmStableRatio :: float64 where "defaultPrewarmStableRatio = fl (6 / 10)"
definition defaultDraftStableRatio :: float64 where "defaultDraftStableRatio = fl (82 / 100)"
definition defaultQuestionClosureBonusMs :: int where "defaultQuestionClosureBonusMs = - 80"
definition defaultTerminalPunctuationBonusMs :: int where "defaultTerminalPunctuationBonusMs = - 100"
definition defaultClauseContinuationHoldMs :: int where "defaultClauseContinuationHoldMs = 120"
definition defaultSlotWaitMoreHoldMs :: int where "defaultSlotWaitMoreHoldMs = 220"
definition defaultSlotClarifyHoldMs :: int where "defaultSlotClarifyHoldMs = 80"
definition defaultSlotRiskConfirmHoldMs :: int where "defaultSlotRiskConfirmHoldMs = 120"
definition defaultSlotActCandidateBonusMs :: int where "defaultSlotActCandidateBonusMs = - 40"

definition normalizeTurnDetectorLexicalMode :: "gostring \<Rightarrow> gostring" where
  "normalizeTurnDetectorLexicalMode mode =
     (let m = ToLower (TrimSpace mode)
      in if m = [] \<or> m = turnDetectorLexicalModeConservative then turnDetectorLexicalModeConservative
         else if m = turnDetectorLexicalModeOff then turnDetectorLexicalModeOff
         else turnDetectorLexicalModeConservative)"

definition NormalizeSilenceTurnDetectorConfig :: "SilenceTurnDetectorConfig \<Rightarrow> SilenceTurnDetectorConfig" where
  "NormalizeSilenceTurnDetectorConfig cfg =
     \<lparr>cfgMinAudioMs = (if cfgMinAudioMs cfg \<le> 0 then defaultTurnDetectorMinAudioMs else cfgMinAudioMs cfg),
      cfgSilenceMs = (if cfgSilenceMs cfg \<le> 0 then defaultTurnDetectorSilenceMs else cfgSilenceMs cfg),
      cfgLexicalEndpointMode = normalizeTurnDetectorLexicalMode (cfgLexicalEndpointMode cfg),
      cfgIncompleteHoldMs = (if cfgIncompleteHoldMs cfg \<le> 0 then defaultTurnDetectorIncompleteHoldMs else cfgIncompleteHoldMs cfg),
      cfgEndpointHintSilenceMs = (if cfgEndpointHintSilenceMs cfg \<le> 0 then defaultTurnDetectorHintSilenceMs
                                  else cfgEndpointHintSilenceMs cfg)\<rparr>"

definition NewSilenceTurnDetector :: "SilenceTurnDetectorConfig \<Rightarrow> int \<Rightarrow> int \<Rightarrow> SilenceTurnDetector" where
  "NewSilenceTurnDetector cfg rate chans =
     \<lparr>detConfig = NormalizeSilenceTurnDetectorConfig cfg,
      sampleRateHz = (if rate \<le> 0 then 16000 else rate), channels = (if chans \<le> 0 then 1 else chans),
      detAudioBytes = 0, lastAudioAt = None, speechStarted = False, latestPartial = [], stablePrefix = [],
      stablePrefixAt = None, latestEndpointHint = [], commitSuggested = False, commitReason = []\<rparr>"

section \<open>Observations\<close>

definition ObserveAudio :: "int \<Rightarrow> int \<Rightarrow> SilenceTurnDetector \<Rightarrow> SilenceTurnDetector" where
  "ObserveAudio now audioBytes d =
     (if audioBytes \<le> 0 then d
      else d\<lparr>detAudioBytes := detAudioBytes d + audioBytes, lastAudioAt := Some now, speechStarted := True\<rparr>)"

definition ObserveTranscriptionDelta :: "int \<Rightarrow> TranscriptionDelta \<Rightarrow> SilenceTurnDetector \<Rightarrow> SilenceTurnDetector" where
  "ObserveTranscriptionDelta now delta d =
     (case deltaKind delta of
        DeltaSpeechStart \<Rightarrow> d\<lparr>speechStarted := True\<rparr>
      | DeltaSpeechEnd \<Rightarrow> d\<lparr>latestEndpointHint := TrimSpace (deltaEndpointReason delta)\<rparr>
      | DeltaOther _ \<Rightarrow> d
      | k \<Rightarrow>
          let t = deltaText delta;
              previousStable = TrimSpace (stablePrefix d);
              nextStable = updateStablePrefix (latestPartial d) (stablePrefix d) t (k = DeltaFinal);
              trimmedStable = TrimSpace nextStable;
              since = (if trimmedStable = [] then None
                    else if trimmedStable \<noteq> previousStable \<or> stablePrefixAt d = None then Some now
                    else stablePrefixAt d);
              d' = (if t \<noteq> [] then d\<lparr>stablePrefixAt := since, stablePrefix := nextStable, latestPartial := t\<rparr> else d)
          in d'\<lparr>latestEndpointHint := TrimSpace (deltaEndpointReason delta)\<rparr>)"

section \<open>Arbitration\<close>

definition durationMs :: "duration \<Rightarrow> int" where
  "durationMs value = (if value \<le> 0 then 0 else value sdiv Millisecond)"

text \<open>
  \<open>pcm16AudioDurationMs\<close> (barge_in.go): the product of sample count and nanoseconds is a 64-bit
  multiplication.
\<close>

definition pcm16AudioDurationMs :: "int \<Rightarrow> int \<Rightarrow> int \<Rightarrow> int" where
  "pcm16AudioDurationMs audioBytes rate chans =
     (if audioBytes \<le> 0 \<or> rate \<le> 0 \<or> chans \<le> 0 then 0
      else int64 ((audioBytes sdiv chans sdiv 2) * Second) sdiv rate sdiv Millisecond)"

definition audioDurationMs :: "SilenceTurnDetector \<Rightarrow> int" where
  "audioDurationMs d = pcm16AudioDurationMs (detAudioBytes d) (sampleRateHz d) (channels d)"

definition stablePrefixDuration :: "int \<Rightarrow> SilenceTurnDetector \<Rightarrow> duration" where
  "stablePrefixDuration now d =
     (if TrimSpace (stablePrefix d) = [] then 0
      else case stablePrefixAt d of None \<Rightarrow> 0 | Some since \<Rightarrow> if now < since then 0 else now - since)"

definition previewTextStabilityRatio :: "gostring \<Rightarrow> gostring \<Rightarrow> float64" where
  "previewTextStabilityRatio t stablePfx =
     (let textRunes = TrimSpace t; stableRunes = TrimSpace stablePfx;
          value = fdiv (float_of (int (length stableRunes))) (float_of (int (length textRunes)))
      in if textRunes = [] then 0 else if value < 0 then 0 else if value > 1 then 1 else value)"

text \<open>The required wait and the endpoint reason of the latest hypothesis.\<close>

definition baseWaitForPartial :: "SilenceTurnDetector \<Rightarrow> duration \<times> gostring" where
  "baseWaitForPartial d =
     (let required = cfgSilenceMs (detConfig d) * Millisecond;
          completeness = analyzeUtteranceCompleteness (latestPartial d);
          hint = TrimSpace (latestEndpointHint d);
          hintSilence = cfgEndpointHintSilenceMs (detConfig d) * Millisecond
      in if cfgLexicalEndpointMode (detConfig d) = turnDetectorLexicalModeOff then
           (if hint \<noteq> [] \<and> Complete completeness \<and> hintSilence > 0 \<and> hintSilence < required
            then (hintSilence, hint) else (required, defaultServerEndpointReason))
         else if hint \<noteq> [] \<and> Complete completeness then
           (if hintSilence > 0 \<and> hintSilence < required then (hintSilence, hint) else (required, hint))
         else if \<not> Complete completeness then
           (required, firstNonEmpty [TrimSpace (HoldReason completeness), lexicalHoldServerEndpointReason])
         else (required, defaultServerEndpointReason))"

definition ruleAdjustMs :: "SilenceTurnDetectorConfig \<Rightarrow> gostring \<Rightarrow> int" where
  "ruleAdjustMs cfg partialText =
     (if cfgLexicalEndpointMode cfg = turnDetectorLexicalModeOff then 0
      else if Complete (analyzeUtteranceCompleteness partialText) then 0
      else cfgIncompleteHoldMs cfg)"

definition clauseContinuations :: "rune list" where
  "clauseContinuations = [44, 0xFF0C, 0x3001, 59, 0xFF1B, 58, 0xFF1A]"

definition previewPunctuationAdjustMs :: "gostring \<Rightarrow> gostring \<Rightarrow> bool \<Rightarrow> int" where
  "previewPunctuationAdjustMs partialText stablePfx utteranceComplete =
     (let s0 = TrimSpace (firstNonEmpty [partialText, stablePfx]); lastRune = runeAtEnd s0
      in if s0 = [] then 0
         else if utteranceComplete then
           (if lastRune \<in> set sentenceEnders then defaultTerminalPunctuationBonusMs
            else if looksQuestionClosure s0 then defaultQuestionClosureBonusMs else 0)
         else if lastRune \<in> set clauseContinuations then defaultClauseContinuationHoldMs
         else if matchesAnySuffix s0 chineseIncompleteSuffixes \<or> HasSuffix s0 (lit ''...'') \<or> HasSuffix s0 ellipsis
           then defaultClauseContinuationHoldMs
         else 0)"

definition slotGuardAdjustMs :: "TurnArbitration \<Rightarrow> int" where
  "slotGuardAdjustMs arbitration =
     (if arbSlotActionability arbitration = lit ''wait_more'' then defaultSlotWaitMoreHoldMs
      else if arbSlotActionability arbitration = lit ''clarify_needed'' then defaultSlotClarifyHoldMs
      else if arbSlotActionability arbitration = lit ''act_candidate'' then defaultSlotActCandidateBonusMs
      else 0)
     + (if arbSlotRiskConfirmRequired arbitration then defaultSlotRiskConfirmHoldMs else 0)"

definition recomputeTurnArbitration :: "InputPreview \<Rightarrow> TurnArbitration \<Rightarrow> TurnArbitration" where
  "recomputeTurnArbitration snapshot arbitration =
     (let bestText = TrimSpace (firstNonEmpty [pvStablePrefix snapshot, pvPartialText snapshot]);
          minAudioMs = (if arbMinAudioMs arbitration \<le> 0 then defaultTurnDetectorMinAudioMs else arbMinAudioMs arbitration);
          baseWaitMs = (if arbBaseWaitMs arbitration \<le> 0 then defaultTurnDetectorSilenceMs else arbBaseWaitMs arbitration);
          candidateReady = (bestText \<noteq> [] \<and> arbAudioMs arbitration \<ge> minAudioMs);
          totalWait = baseWaitMs + arbRuleAdjustMs arbitration + arbPunctuationAdjustMs arbitration
            + arbSemanticWaitDeltaMs arbitration + arbSlotGuardAdjustMs arbitration;
          effectiveWaitMs = clampInt totalWait defaultTurnDetectorMinWaitMs defaultTurnDetectorMaxWaitMs;
          acceptCandidate = (candidateReady \<and> arbSilenceMs arbitration + defaultTurnDetectorAcceptLeadMs \<ge> effectiveWaitMs);
          acceptNow = (candidateReady \<and> arbSilenceMs arbitration \<ge> effectiveWaitMs)
      in arbitration\<lparr>arbBaseWaitMs := baseWaitMs, arbCandidateReady := candidateReady,
           arbDraftReady := (candidateReady \<and> arbDraftAllowed arbitration),
           arbEffectiveWaitMs := effectiveWaitMs, arbRequiredSilenceMs := effectiveWaitMs,
           arbAcceptReady := candidateReady, arbAcceptCandidate := acceptCandidate, arbAcceptNow := acceptNow,
           arbStage := (if acceptNow then AcceptNow
                        else if acceptCandidate then AcceptCandidate
                        else if arbDraftAllowed arbitration then DraftAllowed
                        else if arbPrewarmAllowed arbitration then PrewarmAllowed
                        else if candidateReady then WaitForMore
                        else PreviewOnly)\<rparr>)"

text \<open>
  \<open>Arbitrate\<close>: the arbitrator normalises its configuration once (\<open>NewMultiSignalTurnArbitrator\<close>).
  The three groups of conditions on the prewarm and draft permissions are the source's, in order.
\<close>

definition NewMultiSignalTurnArbitrator :: "SilenceTurnDetectorConfig \<Rightarrow> SilenceTurnDetectorConfig" where
  "NewMultiSignalTurnArbitrator cfg = NormalizeSilenceTurnDetectorConfig cfg"

definition Arbitrate :: "SilenceTurnDetectorConfig \<Rightarrow> turnArbitrationInput \<Rightarrow> TurnArbitration" where
  "Arbitrate cfg input =
     (let partial = inPartialText input; stable = inStablePrefix input; complete = inUtteranceComplete input;
          stability = previewTextStabilityRatio partial stable;
          bestText = TrimSpace (firstNonEmpty [partial, stable]);
          taskFamily = inferLexicalTaskFamily bestText;
          arb0 = zeroArbitration\<lparr>arbStage := PreviewOnly, arbReason := TrimSpace (inEndpointReason input),
            arbStability := stability, arbStableForMs := durationMs (inStableFor input),
            arbAudioMs := inAudioMs input, arbSilenceMs := durationMs (inSilence input),
            arbRequiredSilenceMs := durationMs (inBaseWait input),
            arbEndpointHinted := (TrimSpace (inEndpointReason input) \<noteq> []), arbTaskFamily := taskFamily\<rparr>
      in if TrimSpace partial = [] then arb0
         else
           let slotRequired = taskFamilyRequiresSlotReadiness taskFamily;
               ruleAdjust = ruleAdjustMs cfg partial;
               punctuation = (if cfgLexicalEndpointMode cfg \<noteq> turnDetectorLexicalModeOff
                              then previewPunctuationAdjustMs partial stable complete else 0);
               holdReason = TrimSpace (HoldReason (analyzeUtteranceCompleteness partial));
               reason1 = (if ruleAdjust > 0 \<and> holdReason \<noteq> [] then holdReason else arbReason arb0);
               stablePfx = TrimSpace stable;
               prewarm1 = (stablePfx \<noteq> [] \<and> Complete (analyzeUtteranceCompleteness stablePfx)
                 \<and> stability \<ge> defaultPrewarmStableRatio \<and> inStableFor input \<ge> defaultPrewarmStableForMs * Millisecond);
               group2 = (complete \<and> stability \<ge> defaultDraftStableRatio
                 \<and> inStableFor input \<ge> defaultDraftStableForMs * Millisecond);
               prewarm = (prewarm1 \<or> group2 \<or> complete);
               draft = ((group2 \<and> \<not> slotRequired) \<or> (complete \<and> \<not> slotRequired));
               reason = (if complete \<and> slotRequired \<and> TrimSpace reason1 = []
                         then lit ''lexical_structured_wait_slot_guard'' else reason1);
               arb = arb0\<lparr>arbSlotConstraintRequired := slotRequired, arbMinAudioMs := cfgMinAudioMs cfg,
                 arbBaseWaitMs := durationMs (inBaseWait input), arbRuleAdjustMs := ruleAdjust,
                 arbPunctuationAdjustMs := punctuation, arbReason := reason,
                 arbPrewarmAllowed := prewarm, arbDraftAllowed := draft\<rparr>;
               snapshot = zeroPreview\<lparr>pvPartialText := partial, pvStablePrefix := stable,
                 pvUtteranceComplete := complete, pvArbitration := arb\<rparr>
           in recomputeTurnArbitration snapshot arb)"

text \<open>The arbitration reported while there is no hypothesis or no audio yet.\<close>

definition previewOnlyArb :: "SilenceTurnDetector \<Rightarrow> TurnArbitration" where
  "previewOnlyArb d =
     zeroArbitration\<lparr>arbStage := PreviewOnly, arbAudioMs := audioDurationMs d, arbMinAudioMs := cfgMinAudioMs (detConfig d),
       arbBaseWaitMs := cfgSilenceMs (detConfig d), arbEffectiveWaitMs := cfgSilenceMs (detConfig d),
       arbStability := previewTextStabilityRatio (TrimSpace (latestPartial d)) (TrimSpace (stablePrefix d)),
       arbRequiredSilenceMs := cfgSilenceMs (detConfig d)\<rparr>"

text \<open>\<open>Snapshot\<close>: returns the preview and the detector, whose commit decision is latched.\<close>

definition DetectorSnapshot :: "int \<Rightarrow> SilenceTurnDetector \<Rightarrow> InputPreview \<times> SilenceTurnDetector" where
  "DetectorSnapshot now d =
     (let partialText = TrimSpace (latestPartial d); stable = TrimSpace (stablePrefix d);
          audioMs = audioDurationMs d;
          complete = Complete (previewUtteranceCompleteness stable partialText);
          stableFor = stablePrefixDuration now d;
          preview = \<lparr>pvPartialText = latestPartial d, pvStablePrefix = stablePrefix d, pvEndpointReason = [],
            pvAudioBytes = detAudioBytes d, pvCommitSuggested = False, pvSpeechStarted = speechStarted d,
            pvUtteranceComplete = complete, pvArbitration = zeroArbitration\<rparr>
      in case lastAudioAt d of
           None \<Rightarrow> (preview\<lparr>pvArbitration := previewOnlyArb d\<rparr>, d)
         | Some lastAt \<Rightarrow>
             if partialText = [] then (preview\<lparr>pvArbitration := previewOnlyArb d\<rparr>, d)
             else
               let (baseWait, endpointReason) = baseWaitForPartial d;
                   a0 = Arbitrate (NewMultiSignalTurnArbitrator (detConfig d))
                     \<lparr>inPartialText = partialText, inStablePrefix = stable, inAudioMs = audioMs,
                      inSilence = now - lastAt, inBaseWait = baseWait, inStableFor = stableFor,
                      inEndpointReason = TrimSpace endpointReason, inUtteranceComplete = complete\<rparr>;
                   a1 = (if commitSuggested d
                         then a0\<lparr>arbStage := AcceptNow, arbAcceptCandidate := True, arbAcceptNow := True,
                                arbReason := commitReason d\<rparr> else a0);
                   d' = (if arbAcceptNow a1
                         then d\<lparr>commitSuggested := True,
                               commitReason := firstNonEmpty [TrimSpace (arbReason a1), endpointReason]\<rparr> else d);
                   p1 = preview\<lparr>pvCommitSuggested := arbAcceptNow a1,
                     pvEndpointReason := (if arbAcceptCandidate a1
                       then firstNonEmpty [TrimSpace (arbReason a1), endpointReason] else [])\<rparr>
               in (p1\<lparr>pvArbitration := a1\<rparr>, d'))"


text \<open>The calls a preview session makes on its detector, as one step.\<close>

datatype detector_call = CallAudio int int | CallDelta int TranscriptionDelta | CallSnapshot int

fun detector_step :: "detector_call \<Rightarrow> SilenceTurnDetector \<Rightarrow> SilenceTurnDetector" where
  "detector_step (CallAudio now n) d = ObserveAudio now n d"
| "detector_step (CallDelta now x) d = ObserveTranscriptionDelta now x d"
| "detector_step (CallSnapshot now) d = snd (DetectorSnapshot now d)"

text \<open>
  The invariant of a detector: its configuration is normalised, the stable prefix is trimmed and dated
  exactly when there is one, audio has a date and implies speech, and a latched commit has a reason.
\<close>

definition detector_inv :: "SilenceTurnDetector \<Rightarrow> bool" where
  "detector_inv d \<longleftrightarrow>
     NormalizeSilenceTurnDetectorConfig (detConfig d) = detConfig d \<and> 0 < sampleRateHz d \<and> 0 < channels d \<and>
     trimmed (stablePrefix d) \<and> (stablePrefixAt d = None \<longleftrightarrow> stablePrefix d = []) \<and>
     0 \<le> detAudioBytes d \<and> (lastAudioAt d = None \<longleftrightarrow> detAudioBytes d = 0) \<and>
     (detAudioBytes d \<noteq> 0 \<longrightarrow> speechStarted d) \<and>
     (commitSuggested d \<longrightarrow> trimmed (commitReason d) \<and> commitReason d \<noteq> [] \<and> detAudioBytes d \<noteq> 0)"

section \<open>Lemmas\<close>

lemma normalizeTurnDetectorLexicalMode_idem:
  "normalizeTurnDetectorLexicalMode (normalizeTurnDetectorLexicalMode m) = normalizeTurnDetectorLexicalMode m"
proof -
  have "normalizeTurnDetectorLexicalMode turnDetectorLexicalModeOff = turnDetectorLexicalModeOff"
    and "normalizeTurnDetectorLexicalMode turnDetectorLexicalModeConservative = turnDetectorLexicalModeConservative"
    by code_simp+
  then show ?thesis by (simp add: normalizeTurnDetectorLexicalMode_def [of m] Let_def)
qed

lemma NormalizeSilenceTurnDetectorConfig_idem [simp]:
  "NormalizeSilenceTurnDetectorConfig (NormalizeSilenceTurnDetectorConfig cfg) = NormalizeSilenceTurnDetectorConfig cfg"
  by (simp add: NormalizeSilenceTurnDetectorConfig_def normalizeTurnDetectorLexicalMode_idem
      defaultTurnDetectorMinAudioMs_def defaultTurnDetectorSilenceMs_def defaultTurnDetectorIncompleteHoldMs_def
      defaultTurnDetectorHintSilenceMs_def)

lemma normalized_positive:
  assumes "NormalizeSilenceTurnDetectorConfig cfg = cfg"
  shows "0 < cfgMinAudioMs cfg" and "0 < cfgSilenceMs cfg" and "0 < cfgIncompleteHoldMs cfg"
    and "0 < cfgEndpointHintSilenceMs cfg"
  by (subst assms [symmetric], simp add: NormalizeSilenceTurnDetectorConfig_def defaultTurnDetectorMinAudioMs_def
      defaultTurnDetectorSilenceMs_def defaultTurnDetectorIncompleteHoldMs_def defaultTurnDetectorHintSilenceMs_def)+

lemma durationMs_div: "durationMs v = max 0 v div Millisecond"
  by (simp add: durationMs_def sdiv_nonneg max_def)

lemma durationMs_ge: "0 < k \<Longrightarrow> k \<le> durationMs v \<longleftrightarrow> k * Millisecond \<le> v"
  by (auto simp: durationMs_div max_def)

lemma pcm16AudioDurationMs_exact:
  assumes "0 \<le> n" and "0 < rate" and "0 < chans" and "n < 2 ^ 33"
  shows "pcm16AudioDurationMs n rate chans = n div chans div 2 * 1000 div rate"
proof (cases "n = 0")
  case True
  then show ?thesis by (simp add: pcm16AudioDurationMs_def)
next
  case False
  let ?s = "n div chans div 2"
  have s: "0 \<le> ?s" using assms by (simp add: pos_imp_zdiv_nonneg_iff)
  have "n div chans \<le> n" and "?s \<le> n div chans" using assms by (simp_all add: int_div_le)
  then have "?s * Second < 2 ^ 63" using assms(4) by simp
  then have "int64 (?s * Second) = ?s * Second" using s by (intro int64_id) simp_all
  moreover have "n sdiv chans sdiv 2 = ?s" using assms by (simp add: sdiv_nonneg pos_imp_zdiv_nonneg_iff)
  ultimately have "pcm16AudioDurationMs n rate chans = ?s * Second div rate div Millisecond"
    using assms False s by (simp add: pcm16AudioDurationMs_def sdiv_nonneg pos_imp_zdiv_nonneg_iff)
  also have "\<dots> = ?s * 1000 * Millisecond div (rate * Millisecond)"
    using assms by (simp add: zdiv_zmult2_eq mult.assoc)
  also have "\<dots> = ?s * 1000 div rate" by (subst div_mult_mult2) simp_all
  finally show ?thesis .
qed


lemma effective_wait_bounds:
  "120 \<le> arbEffectiveWaitMs (recomputeTurnArbitration sn a) \<and> arbEffectiveWaitMs (recomputeTurnArbitration sn a) \<le> 900"
  using clampInt_bounds [of 120 900]
  by (simp add: recomputeTurnArbitration_def Let_def defaultTurnDetectorMinWaitMs_def defaultTurnDetectorMaxWaitMs_def)

text \<open>
  The silence a hypothesis needs before it is accepted, as a specification independent of the order in
  which the code sums the signals.
\<close>

definition arbitration_wait :: "SilenceTurnDetectorConfig \<Rightarrow> turnArbitrationInput \<Rightarrow> int" where
  "arbitration_wait cfg input =
     clampInt ((if durationMs (inBaseWait input) \<le> 0 then defaultTurnDetectorSilenceMs else durationMs (inBaseWait input))
       + (if cfgLexicalEndpointMode cfg = turnDetectorLexicalModeOff then 0
          else ruleAdjustMs cfg (inPartialText input)
             + previewPunctuationAdjustMs (inPartialText input) (inStablePrefix input) (inUtteranceComplete input)))
       defaultTurnDetectorMinWaitMs defaultTurnDetectorMaxWaitMs"

lemma Arbitrate_blank: "TrimSpace (inPartialText i) = [] \<Longrightarrow> \<not> arbAcceptNow (Arbitrate cfg i) \<and> \<not> arbAcceptCandidate (Arbitrate cfg i)"
  by (simp add: Arbitrate_def Let_def zeroArbitration_def)

lemma Arbitrate_accept:
  assumes "TrimSpace (inPartialText i) \<noteq> []" and "0 < cfgMinAudioMs cfg"
  shows "arbAcceptNow (Arbitrate cfg i) \<longleftrightarrow>
      cfgMinAudioMs cfg \<le> inAudioMs i \<and> arbitration_wait cfg i \<le> durationMs (inSilence i)"
    and "arbAcceptCandidate (Arbitrate cfg i) \<longleftrightarrow>
      cfgMinAudioMs cfg \<le> inAudioMs i \<and> arbitration_wait cfg i \<le> durationMs (inSilence i) + 120"
    and "arbStage (Arbitrate cfg i) = AcceptNow \<longleftrightarrow> arbAcceptNow (Arbitrate cfg i)"
    and "arbEffectiveWaitMs (Arbitrate cfg i) = arbitration_wait cfg i"
proof -
  have best: "firstNonEmpty [inStablePrefix i, inPartialText i] \<noteq> []"
    using assms(1) by (simp add: firstNonEmpty_eq_Nil)
  have best': "TrimSpace (firstNonEmpty [inStablePrefix i, inPartialText i]) \<noteq> []"
    using best by (simp only: trimmed_id [OF trimmed_firstNonEmpty] not_False_eq_True)
  show "arbAcceptNow (Arbitrate cfg i) \<longleftrightarrow>
      cfgMinAudioMs cfg \<le> inAudioMs i \<and> arbitration_wait cfg i \<le> durationMs (inSilence i)"
    and "arbAcceptCandidate (Arbitrate cfg i) \<longleftrightarrow>
      cfgMinAudioMs cfg \<le> inAudioMs i \<and> arbitration_wait cfg i \<le> durationMs (inSilence i) + 120"
    and "arbStage (Arbitrate cfg i) = AcceptNow \<longleftrightarrow> arbAcceptNow (Arbitrate cfg i)"
    and "arbEffectiveWaitMs (Arbitrate cfg i) = arbitration_wait cfg i"
    using assms best'
    by (simp_all add: Arbitrate_def recomputeTurnArbitration_def Let_def zeroArbitration_def zeroPreview_def
        arbitration_wait_def defaultTurnDetectorAcceptLeadMs_def ruleAdjustMs_def
        add.assoc del: firstNonEmpty.simps)
qed

lemma Arbitrate_draft:
  "arbDraftAllowed (Arbitrate cfg i) \<Longrightarrow>
     inUtteranceComplete i \<and> \<not> taskFamilyRequiresSlotReadiness (arbTaskFamily (Arbitrate cfg i)) \<and>
     arbPrewarmAllowed (Arbitrate cfg i)"
  by (auto simp: Arbitrate_def recomputeTurnArbitration_def Let_def zeroArbitration_def
      simp del: firstNonEmpty.simps split: if_splits)

lemma Arbitrate_stage:
  "arbStage (Arbitrate cfg i) = DraftAllowed \<Longrightarrow> arbDraftAllowed (Arbitrate cfg i)"
  "arbStage (Arbitrate cfg i) = AcceptNow \<Longrightarrow> arbAcceptNow (Arbitrate cfg i)"
  by (auto simp: Arbitrate_def recomputeTurnArbitration_def Let_def zeroArbitration_def
      simp del: firstNonEmpty.simps split: if_splits)


text \<open>The input a snapshot hands to the arbitrator.\<close>

definition snapshot_input :: "int \<Rightarrow> int \<Rightarrow> SilenceTurnDetector \<Rightarrow> turnArbitrationInput" where
  "snapshot_input now lastAt d =
     \<lparr>inPartialText = TrimSpace (latestPartial d), inStablePrefix = TrimSpace (stablePrefix d),
      inAudioMs = audioDurationMs d, inSilence = now - lastAt, inBaseWait = fst (baseWaitForPartial d),
      inStableFor = stablePrefixDuration now d, inEndpointReason = TrimSpace (snd (baseWaitForPartial d)),
      inUtteranceComplete = Complete (previewUtteranceCompleteness (TrimSpace (stablePrefix d)) (TrimSpace (latestPartial d)))\<rparr>"

lemma baseWait_reason: "snd (baseWaitForPartial d) \<noteq> [] \<and> trimmed (snd (baseWaitForPartial d))"
proof -
  have "trimmed defaultServerEndpointReason" and "defaultServerEndpointReason \<noteq> []"
    by (simp_all add: defaultServerEndpointReason_def trimmed_def lit_def is_space_def)
  moreover have "firstNonEmpty [x, lexicalHoldServerEndpointReason] \<noteq> []" for x
    by (simp only: firstNonEmpty_eq_Nil, simp add: lexicalHoldServerEndpointReason_def TrimSpace_eq_Nil lit_def is_space_def)
  ultimately show ?thesis
    by (simp add: baseWaitForPartial_def Let_def del: firstNonEmpty.simps)
qed

lemma snapshot_quiet:
  "lastAudioAt d = None \<or> TrimSpace (latestPartial d) = [] \<Longrightarrow>
   snd (DetectorSnapshot now d) = d \<and> \<not> pvCommitSuggested (fst (DetectorSnapshot now d)) \<and>
   arbStage (pvArbitration (fst (DetectorSnapshot now d))) = PreviewOnly"
  by (auto simp: DetectorSnapshot_def Let_def previewOnlyArb_def split: option.splits)

lemma snapshot_committed:
  assumes "lastAudioAt d = Some l" and "TrimSpace (latestPartial d) \<noteq> []" and "commitSuggested d"
  shows "pvCommitSuggested (fst (DetectorSnapshot now d))"
    and "pvEndpointReason (fst (DetectorSnapshot now d)) = firstNonEmpty [TrimSpace (commitReason d), snd (baseWaitForPartial d)]"
    and "arbStage (pvArbitration (fst (DetectorSnapshot now d))) = AcceptNow"
    and "snd (DetectorSnapshot now d) =
      d\<lparr>commitReason := firstNonEmpty [TrimSpace (commitReason d), snd (baseWaitForPartial d)]\<rparr>"
  using assms by (simp_all add: DetectorSnapshot_def Let_def case_prod_beta del: firstNonEmpty.simps)

lemma snapshot_fresh:
  assumes "lastAudioAt d = Some l" and "TrimSpace (latestPartial d) \<noteq> []" and "\<not> commitSuggested d"
  shows "pvArbitration (fst (DetectorSnapshot now d)) = Arbitrate (NormalizeSilenceTurnDetectorConfig (detConfig d)) (snapshot_input now l d)"
    and "pvCommitSuggested (fst (DetectorSnapshot now d)) \<longleftrightarrow> arbAcceptNow (pvArbitration (fst (DetectorSnapshot now d)))"
    and "commitSuggested (snd (DetectorSnapshot now d)) \<longleftrightarrow> pvCommitSuggested (fst (DetectorSnapshot now d))"
    and "snd (DetectorSnapshot now d) = d\<lparr>commitSuggested := pvCommitSuggested (fst (DetectorSnapshot now d)),
      commitReason := (if pvCommitSuggested (fst (DetectorSnapshot now d))
        then firstNonEmpty [TrimSpace (arbReason (pvArbitration (fst (DetectorSnapshot now d)))), snd (baseWaitForPartial d)]
        else commitReason d)\<rparr>"
  using assms by (simp_all add: DetectorSnapshot_def Let_def case_prod_beta NewMultiSignalTurnArbitrator_def
      snapshot_input_def del: firstNonEmpty.simps)

lemma firstNonEmpty_first: "trimmed v \<Longrightarrow> v \<noteq> [] \<Longrightarrow> firstNonEmpty (v # vs) = v"
  by (simp add: trimmed_id)

lemma detector_inv_New: "detector_inv (NewSilenceTurnDetector cfg rate chans)"
  by (simp add: detector_inv_def NewSilenceTurnDetector_def trimmed_def)

lemma detector_inv_audio: "detector_inv d \<Longrightarrow> detector_inv (ObserveAudio now n d)"
  by (auto simp: detector_inv_def ObserveAudio_def)

lemma detector_inv_delta: "detector_inv d \<Longrightarrow> detector_inv (ObserveTranscriptionDelta now x d)"
  by (cases "deltaKind x") (auto simp: detector_inv_def ObserveTranscriptionDelta_def Let_def
      trimmed_updateStablePrefix trimmed_id)

lemma detector_inv_snapshot: 
  assumes "detector_inv d" shows "detector_inv (snd (DetectorSnapshot now d))"
proof -
  have r: "firstNonEmpty [x, snd (baseWaitForPartial d)] \<noteq> []" for x
    using baseWait_reason [of d] by (simp add: trimmed_id)
  consider "lastAudioAt d = None \<or> TrimSpace (latestPartial d) = []"
    | l where "lastAudioAt d = Some l" "TrimSpace (latestPartial d) \<noteq> []" "commitSuggested d"
    | l where "lastAudioAt d = Some l" "TrimSpace (latestPartial d) \<noteq> []" "\<not> commitSuggested d"
    by (cases "lastAudioAt d") auto
  then show ?thesis
  proof cases
    case 1
    then show ?thesis using assms snapshot_quiet by simp
  next
    case 2
    then have audio: "detAudioBytes d \<noteq> 0" using assms by (auto simp: detector_inv_def)
    have "snd (DetectorSnapshot now d) = d\<lparr>commitReason := firstNonEmpty [TrimSpace (commitReason d), snd (baseWaitForPartial d)]\<rparr>"
      using 2 by (rule snapshot_committed)
    then show ?thesis using assms r audio by (simp add: detector_inv_def del: firstNonEmpty.simps)
  next
    case 3
    then have audio: "detAudioBytes d \<noteq> 0" using assms by (auto simp: detector_inv_def)
    have "snd (DetectorSnapshot now d) = d\<lparr>commitSuggested := pvCommitSuggested (fst (DetectorSnapshot now d)),
      commitReason := (if pvCommitSuggested (fst (DetectorSnapshot now d))
        then firstNonEmpty [TrimSpace (arbReason (pvArbitration (fst (DetectorSnapshot now d)))), snd (baseWaitForPartial d)]
        else commitReason d)\<rparr>"
      using 3 by (rule snapshot_fresh)
    then show ?thesis using assms r audio by (simp add: detector_inv_def del: firstNonEmpty.simps)
  qed
qed


lemma detector_inv_step: "detector_inv d \<Longrightarrow> detector_inv (detector_step c d)"
  by (cases c) (simp_all add: detector_inv_audio detector_inv_delta detector_inv_snapshot)

lemma detector_inv_run: "detector_inv d \<Longrightarrow> detector_inv (fold detector_step cs d)"
  by (induction cs arbitrary: d) (simp_all add: detector_inv_step)

lemma latch_step:
  assumes "detector_inv d" and "commitSuggested d"
  shows "commitSuggested (detector_step c d) \<and> commitReason (detector_step c d) = commitReason d"
proof (cases c)
  case (CallSnapshot now)
  from assms obtain l where l: "lastAudioAt d = Some l" and r: "trimmed (commitReason d)" "commitReason d \<noteq> []"
    by (auto simp: detector_inv_def)
  show ?thesis
  proof (cases "TrimSpace (latestPartial d) = []")
    case True
    then show ?thesis using CallSnapshot assms snapshot_quiet by simp
  next
    case False
    with l assms(2) have "snd (DetectorSnapshot now d) =
        d\<lparr>commitReason := firstNonEmpty [TrimSpace (commitReason d), snd (baseWaitForPartial d)]\<rparr>"
      by (intro snapshot_committed)
    then show ?thesis using CallSnapshot assms r by (simp add: trimmed_id)
  qed
next
  case (CallDelta now x)
  then show ?thesis using assms
    by (cases "deltaKind x") (simp_all add: ObserveTranscriptionDelta_def Let_def)
qed (use assms in \<open>simp add: ObserveAudio_def\<close>)

lemma latch_run:
  "detector_inv d \<Longrightarrow> commitSuggested d \<Longrightarrow>
   commitSuggested (fold detector_step cs d) \<and> commitReason (fold detector_step cs d) = commitReason d"
  by (induction cs arbitrary: d) (simp_all add: latch_step detector_inv_step)

lemma fold_audio:
  assumes "\<forall>(t, n) \<in> set xs. 0 \<le> n"
  shows "detAudioBytes (fold (\<lambda>(t, n). ObserveAudio t n) xs d) = detAudioBytes d + sum_list (map snd xs) \<and>
    sampleRateHz (fold (\<lambda>(t, n). ObserveAudio t n) xs d) = sampleRateHz d \<and>
    channels (fold (\<lambda>(t, n). ObserveAudio t n) xs d) = channels d"
  using assms by (induction xs arbitrary: d) (auto simp: ObserveAudio_def)

section \<open>Properties\<close>

text \<open>
  the invariant of the detector holds after every sequence of audio chunks, recogniser deltas and
  snapshots of a detector made by \<open>NewSilenceTurnDetector\<close>.
\<close>
theorem detector_reachable_inv:
  "detector_inv (fold detector_step calls (NewSilenceTurnDetector cfg rate chans))"
  by (intro detector_inv_run detector_inv_New)

text \<open>
  a commit suggestion is latched. Once a snapshot has suggested to commit, no later audio, delta
  or snapshot withdraws it or changes its reason, and every later snapshot with a hypothesis suggests
  the commit again in stage accept_now with that reason.
\<close>
theorem commit_suggestion_latched:
  assumes "d = fold detector_step before (NewSilenceTurnDetector cfg rate chans)" and "commitSuggested d"
    and "d' = fold detector_step after d" and "TrimSpace (latestPartial d') \<noteq> []"
  shows "commitSuggested d' \<and> commitReason d' = commitReason d \<and>
    pvCommitSuggested (fst (DetectorSnapshot now d')) \<and>
    pvEndpointReason (fst (DetectorSnapshot now d')) = commitReason d \<and>
    arbStage (pvArbitration (fst (DetectorSnapshot now d'))) = AcceptNow"
proof -
  have i: "detector_inv d" "detector_inv d'"
    using assms by (auto intro!: detector_inv_run detector_inv_New)
  have l: "commitSuggested d'" "commitReason d' = commitReason d"
    using latch_run [OF i(1) assms(2)] assms(3) by auto
  with i(2) obtain t where t: "lastAudioAt d' = Some t" and r: "trimmed (commitReason d')" "commitReason d' \<noteq> []"
    by (auto simp: detector_inv_def)
  show ?thesis using snapshot_committed [OF t assms(4) l(1)] l r by (simp add: trimmed_id)
qed

theorem commit_suggestion_latched_witness:
  "\<exists>d d'. d' = fold detector_step [CallAudio 4000000000 640] d \<and> commitSuggested d \<and>
     pvCommitSuggested (fst (DetectorSnapshot 4000000000 d'))"
proof -
  let ?cfg = "\<lparr>cfgMinAudioMs = 0, cfgSilenceMs = 0, cfgLexicalEndpointMode = [], cfgIncompleteHoldMs = 0,
    cfgEndpointHintSilenceMs = 0\<rparr>"
  let ?before = "[CallAudio 1000000000 32000, CallDelta 1000000000 \<lparr>deltaKind = DeltaPartial, deltaText = lit ''open the door'',
    deltaEndpointReason = [], deltaAudioBytes = 0\<rparr>, CallSnapshot 3000000000]"
  let ?d = "fold detector_step ?before (NewSilenceTurnDetector ?cfg 16000 1)"
  have c: "commitSuggested ?d" by code_simp
  have p: "TrimSpace (latestPartial (fold detector_step [CallAudio 4000000000 640] ?d)) \<noteq> []" by code_simp
  show ?thesis using commit_suggestion_latched [OF refl c refl p, of 4000000000] c by blast
qed



text \<open>
  Speculative drafting is guarded. The arbitrator allows a draft only for a complete utterance
  whose task family needs no slots, always together with prewarming, and reports the stage
  draft_allowed only then; on a blank hypothesis nothing is accepted.
\<close>
theorem draft_guarded:
  "(arbDraftAllowed (Arbitrate cfg i) \<or> arbStage (Arbitrate cfg i) = DraftAllowed \<longrightarrow>
     inUtteranceComplete i \<and> \<not> taskFamilyRequiresSlotReadiness (arbTaskFamily (Arbitrate cfg i)) \<and>
     arbPrewarmAllowed (Arbitrate cfg i)) \<and>
   (TrimSpace (inPartialText i) = [] \<longrightarrow> \<not> arbAcceptNow (Arbitrate cfg i) \<and> arbStage (Arbitrate cfg i) \<noteq> AcceptNow)"
  using Arbitrate_draft [of cfg i] Arbitrate_stage [of cfg i] Arbitrate_blank [of i cfg] by blast

theorem draft_guarded_witness:
  "inUtteranceComplete \<lparr>inPartialText = lit ''hello there'', inStablePrefix = [], inAudioMs = 0, inSilence = 0,
     inBaseWait = 480000000, inStableFor = 0, inEndpointReason = [], inUtteranceComplete = True\<rparr>"
proof -
  let ?cfg = "\<lparr>cfgMinAudioMs = 320, cfgSilenceMs = 480, cfgLexicalEndpointMode = lit ''conservative'',
    cfgIncompleteHoldMs = 720, cfgEndpointHintSilenceMs = 160\<rparr>"
  let ?i = "\<lparr>inPartialText = lit ''hello there'', inStablePrefix = [], inAudioMs = 0, inSilence = 0,
     inBaseWait = 480000000, inStableFor = 0, inEndpointReason = [], inUtteranceComplete = True\<rparr>"
  have "arbDraftAllowed (Arbitrate ?cfg ?i)" by code_simp
  then show ?thesis using draft_guarded [of ?cfg ?i] by blast
qed

text \<open>
  The audio duration the detector reports is exact: after any sequence of chunks it is the number
  of whole sample frames of all bytes, in milliseconds rounded down, as long as fewer than 2^33 bytes
  (8 GiB) were heard, so that the 64-bit product does not wrap.
\<close>
theorem audio_duration_exact:
  assumes "\<forall>(t, n) \<in> set xs. 0 \<le> n" and "sum_list (map snd xs) < 2 ^ 33" and "0 < rate" and "0 < chans"
  shows "audioDurationMs (fold (\<lambda>(t, n). ObserveAudio t n) xs (NewSilenceTurnDetector cfg rate chans)) =
    sum_list (map snd xs) div chans div 2 * 1000 div rate"
proof -
  have "0 \<le> sum_list (map snd xs)" using assms(1) by (induction xs) auto
  then show ?thesis using fold_audio [OF assms(1)] assms
    by (simp add: audioDurationMs_def NewSilenceTurnDetector_def pcm16AudioDurationMs_exact)
qed

theorem audio_duration_exact_witness:
  "audioDurationMs (fold (\<lambda>(t, n). ObserveAudio t n) [(0, 3200), (100, 640)]
     (NewSilenceTurnDetector \<lparr>cfgMinAudioMs = 0, cfgSilenceMs = 0, cfgLexicalEndpointMode = [],
        cfgIncompleteHoldMs = 0, cfgEndpointHintSilenceMs = 0\<rparr> 16000 1)) = 120"
  using audio_duration_exact [of "[(0, 3200), (100, 640)]" 16000 1] by simp

end
