(* ===== verification/Barge_In.thy ===== *)
theory Barge_In
  imports Turn_Detector
begin

text \<open>
  The interruption policy of \<open>internal/voice/barge_in.go\<close>: what the server does with its own
  playback while the user is heard speaking. \<open>EvaluateBargeIn\<close> turns a preview into a decision and
  \<open>playbackDirectiveForDecision\<close> the decision into a directive for the output. The scores are
  \<open>float64\<close> sums and rounded after every operation.
\<close>

section \<open>Data\<close>

datatype InterruptionPolicy = PolicyUnset | PolicyIgnore | PolicyBackchannel | PolicyDuckOnly | PolicyHardInterrupt

datatype PlaybackAction = ActionNormal | ActionDuckLight | ActionDuckHold | ActionInterrupt

record PlaybackDirective =
  dirAction :: PlaybackAction
  dirPolicy :: InterruptionPolicy
  dirReason :: gostring
  dirGain :: float64
  dirAttack :: duration
  dirHold :: duration
  dirRelease :: duration
  dirKeepPreview :: bool
  dirKeepPendingAudio :: bool

record BargeInConfig =
  bargeMinAudioMs :: int
  bargeIncompleteHoldMs :: int

record BargeInDecision =
  decAccepted :: bool
  decPolicy :: InterruptionPolicy
  decReason :: gostring
  decAudioMs :: int
  decLexicallyComplete :: bool
  decMinAudioMs :: int
  decHoldAudioMs :: int
  decAcousticReady :: bool
  decSemanticReady :: bool
  decSemanticComplete :: bool
  decSemanticIntent :: gostring
  decSemanticConfidence :: float64
  decSemanticTakeover :: bool
  decAcceptCandidate :: bool
  decAcceptNow :: bool
  decEndpointHinted :: bool
  decBackchannelLikely :: bool
  decTakeoverLexicon :: bool
  decTurnStage :: TurnArbitrationStage
  decStability :: float64
  decStablePrefixRunes :: int
  decIntrusionScore :: float64
  decTakeoverScore :: float64

definition defaultBargeInMinAudioMs :: int where "defaultBargeInMinAudioMs = 120"
definition defaultBargeInIncompleteHoldMs :: int where "defaultBargeInIncompleteHoldMs = 240"
definition semanticJudgeHighConfidence :: float64 where "semanticJudgeHighConfidence = fl (78 / 100)"
definition semanticJudgeMediumConfidence :: float64 where "semanticJudgeMediumConfidence = fl (68 / 100)"

definition NormalizeBargeInConfig :: "BargeInConfig \<Rightarrow> BargeInConfig" where
  "NormalizeBargeInConfig cfg =
     \<lparr>bargeMinAudioMs = (if bargeMinAudioMs cfg \<le> 0 then defaultBargeInMinAudioMs else bargeMinAudioMs cfg),
      bargeIncompleteHoldMs = (if bargeIncompleteHoldMs cfg \<le> 0 then defaultBargeInIncompleteHoldMs
                               else bargeIncompleteHoldMs cfg)\<rparr>"

section \<open>Signals\<close>

definition bargeInBackchannelMinAudioMs :: "int \<Rightarrow> int" where
  "bargeInBackchannelMinAudioMs minAudioMs =
     (if minAudioMs \<le> 0 then 60
      else let threshold = minAudioMs sdiv 2 in if threshold < 60 then 60 else threshold)"

definition bargeInAcousticGateMinAudioMs :: "int \<Rightarrow> int" where
  "bargeInAcousticGateMinAudioMs minAudioMs =
     (if minAudioMs \<le> 0 then 60
      else let half = minAudioMs sdiv 2; threshold = (if half > minAudioMs then minAudioMs else half)
           in if threshold < 60 then (if 60 > minAudioMs then minAudioMs else 60) else threshold)"

definition normalizedBargeInTurnStage :: "InputPreview \<Rightarrow> TurnArbitrationStage" where
  "normalizedBargeInTurnStage preview =
     (if arbStage (pvArbitration preview) \<noteq> StageUnset then arbStage (pvArbitration preview)
      else if pvCommitSuggested preview then AcceptNow
      else if TrimSpace (pvEndpointReason preview) \<noteq> [] then AcceptCandidate
      else if TrimSpace (pvPartialText preview) \<noteq> [] then PreviewOnly
      else PreviewOnly)"

definition bargeInSemanticReady :: "InputPreview \<Rightarrow> gostring \<Rightarrow> gostring \<Rightarrow> BargeInDecision \<Rightarrow> bool" where
  "bargeInSemanticReady preview bestText stablePfx decision =
     (if TrimSpace bestText = [] then False
      else if arbSemanticReady (pvArbitration preview)
          \<and> arbSemanticConfidence (pvArbitration preview) \<ge> semanticJudgeMediumConfidence then True
      else if arbDraftAllowed (pvArbitration preview) \<or> arbAcceptCandidate (pvArbitration preview)
          \<or> arbAcceptNow (pvArbitration preview) then True
      else if pvUtteranceComplete preview \<or> decLexicallyComplete decision \<or> decTakeoverLexicon decision
          \<or> decSemanticTakeover decision then True
      else if stablePfx \<noteq> [] \<and> (decStability decision \<ge> defaultPrewarmStableRatio
          \<or> decStablePrefixRunes decision \<ge> 4) then True
      else False)"

text \<open>\<open>if c { score += w }\<close> with a decimal weight of so many hundredths.\<close>

definition bump :: "bool \<Rightarrow> int \<Rightarrow> float64 \<Rightarrow> float64" where
  "bump c hundredths score = (if c then fadd score (fl (of_int hundredths / 100)) else score)"

definition bargeInIntrusionScore ::
  "int \<Rightarrow> BargeInConfig \<Rightarrow> BargeInDecision \<Rightarrow> gostring \<Rightarrow> gostring \<Rightarrow> float64" where
  "bargeInIntrusionScore audioMs cfg decision partialText stablePfx =
     (let s0 = (if audioMs > 0 then
                  fadd 0 (fmul (fl (35 / 100)) (clampUnit (fdiv (float_of audioMs)
                    (float_of (maxInt (bargeInAcousticGateMinAudioMs (bargeMinAudioMs cfg)) 1)))))
                else 0);
          s1 = bump (partialText \<noteq> [] \<or> stablePfx \<noteq> []) 15 s0;
          s2 = bump (decAcousticReady decision) 10 s1;
          s3 = bump (decEndpointHinted decision) 10 s2;
          s4 = bump (decAcceptCandidate decision) 10 s3;
          s5 = bump (decAcceptNow decision) 10 s4;
          s6 = bump (decStablePrefixRunes decision \<ge> 4) 5 s5;
          s7 = bump (decSemanticConfidence decision \<ge> semanticJudgeMediumConfidence) 10 s6;
          s8 = (if decBackchannelLikely decision then fsub s7 (fl (15 / 100)) else s7)
      in clampUnit s8)"

definition bargeInTakeoverScore :: "BargeInDecision \<Rightarrow> float64" where
  "bargeInTakeoverScore decision =
     (let s0 = bump (decLexicallyComplete decision) 30 0;
          s1 = bump (decSemanticReady decision) 20 s0;
          s2 = bump (decAcceptCandidate decision) 15 s1;
          s3 = bump (decAcceptNow decision) 20 s2;
          s4 = bump (decTakeoverLexicon decision) 20 s3;
          s5 = bump (decSemanticTakeover decision) 25 s4;
          s6 = bump (decSemanticComplete decision) 10 s5;
          s7 = bump (decEndpointHinted decision) 5 s6;
          s8 = (if decBackchannelLikely decision then fsub s7 (fl (45 / 100)) else s7);
          s9 = bump (decStability decision \<ge> defaultDraftStableRatio) 10 s8
      in clampUnit s9)"

definition bargeInAcceptReason :: "BargeInDecision \<Rightarrow> gostring" where
  "bargeInAcceptReason decision =
     (if decTakeoverLexicon decision \<or> decSemanticTakeover decision then lit ''accepted_takeover_lexicon''
      else if decAcceptNow decision then lit ''accepted_accept_now''
      else if decLexicallyComplete decision then lit ''accepted_complete_preview''
      else lit ''accepted_semantic_confirmation'')"

section \<open>The decision\<close>

text \<open>
  \<open>EvaluateBargeIn\<close> in three parts: the decision before any audio is known (\<open>initialDecision\<close>), the
  assignments of the signals (\<open>bargeInSignals\<close>), and the chain of early returns
  (\<open>bargeInVerdict\<close>).
\<close>

definition initialDecision :: "BargeInConfig \<Rightarrow> BargeInDecision" where
  "initialDecision cfg =
     \<lparr>decAccepted = False, decPolicy = PolicyIgnore, decReason = [], decAudioMs = 0,
      decLexicallyComplete = False, decMinAudioMs = bargeMinAudioMs cfg, decHoldAudioMs = bargeIncompleteHoldMs cfg,
      decAcousticReady = False, decSemanticReady = False, decSemanticComplete = False, decSemanticIntent = [],
      decSemanticConfidence = 0, decSemanticTakeover = False, decAcceptCandidate = False, decAcceptNow = False,
      decEndpointHinted = False, decBackchannelLikely = False, decTakeoverLexicon = False,
      decTurnStage = StageUnset, decStability = 0, decStablePrefixRunes = 0, decIntrusionScore = 0,
      decTakeoverScore = 0\<rparr>"

definition bargeInSignals :: "InputPreview \<Rightarrow> int \<Rightarrow> int \<Rightarrow> BargeInConfig \<Rightarrow> BargeInDecision" where
  "bargeInSignals preview rate chans cfg =
     (let arb = pvArbitration preview;
          audioMs = pcm16AudioDurationMs (pvAudioBytes preview) rate chans;
          partialText = TrimSpace (pvPartialText preview);
          stablePfx = TrimSpace (pvStablePrefix preview);
          bestText = firstNonEmpty [stablePfx, partialText];
          stage = normalizedBargeInTurnStage preview;
          hinted = (arbEndpointHinted arb \<or> TrimSpace (pvEndpointReason preview) \<noteq> []);
          intent = normalizeSemanticIntent (arbSemanticIntent arb);
          confidence = clampUnit (arbSemanticConfidence arb);
          d1 = (initialDecision cfg)\<lparr>decAudioMs := audioMs, decTurnStage := stage,
            decStability := clampUnit (arbStability arb), decStablePrefixRunes := int (length stablePfx),
            decEndpointHinted := hinted,
            decAcceptCandidate := (arbAcceptCandidate arb \<or> stage = AcceptCandidate \<or> stage = AcceptNow \<or> hinted),
            decAcceptNow := (arbAcceptNow arb \<or> pvCommitSuggested preview \<or> stage = AcceptNow),
            decSemanticReady := arbSemanticReady arb, decSemanticComplete := arbSemanticComplete arb,
            decSemanticIntent := intent, decSemanticConfidence := confidence,
            decSemanticTakeover := semanticIntentIsTakeover intent,
            decBackchannelLikely := (looksLikeBackchannel bestText
              \<or> (intent = SemanticIntentBackchannel \<and> confidence \<ge> semanticJudgeMediumConfidence)),
            decTakeoverLexicon := looksLikeTakeoverLexicon bestText,
            decLexicallyComplete := looksLexicallyComplete bestText,
            decAcousticReady := (audioMs \<ge> bargeInAcousticGateMinAudioMs (bargeMinAudioMs cfg))\<rparr>;
          d2 = d1\<lparr>decSemanticReady := bargeInSemanticReady preview bestText stablePfx d1\<rparr>;
          d3 = d2\<lparr>decIntrusionScore := bargeInIntrusionScore audioMs cfg d2 partialText stablePfx\<rparr>
      in d3\<lparr>decTakeoverScore := bargeInTakeoverScore d3\<rparr>)"

definition bargeInVerdict :: "BargeInConfig \<Rightarrow> gostring \<Rightarrow> gostring \<Rightarrow> BargeInDecision \<Rightarrow> BargeInDecision" where
  "bargeInVerdict cfg partialText stablePfx d =
     (let audioMs = decAudioMs d; minMs = bargeMinAudioMs cfg;
          bestText = firstNonEmpty [stablePfx, partialText];
          accept = (\<lambda>reason. d\<lparr>decPolicy := PolicyHardInterrupt, decAccepted := True, decReason := reason\<rparr>)
      in if decSemanticIntent d = SemanticIntentBackchannel \<and> decSemanticConfidence d \<ge> semanticJudgeHighConfidence
        \<and> \<not> decAcceptCandidate d \<and> \<not> decAcceptNow d \<and> \<not> decTakeoverLexicon d then
       d\<lparr>decPolicy := PolicyBackchannel, decReason := lit ''semantic_backchannel''\<rparr>
     else if decAcousticReady d \<and> decSemanticTakeover d \<and> decSemanticConfidence d \<ge> semanticJudgeHighConfidence then
       accept (lit ''accepted_semantic_takeover'')
     else if decBackchannelLikely d \<and> \<not> decAcceptCandidate d \<and> \<not> decAcceptNow d \<and> \<not> decTakeoverLexicon d
        \<and> audioMs \<ge> bargeInBackchannelMinAudioMs minMs then
       d\<lparr>decPolicy := PolicyBackchannel, decReason := lit ''backchannel_short_ack''\<rparr>
     else if audioMs \<ge> minMs \<and> \<not> decBackchannelLikely d
        \<and> (decLexicallyComplete d \<or> decTakeoverLexicon d \<or> decSemanticTakeover d) then
       accept (if decTakeoverLexicon d \<or> decSemanticTakeover d then lit ''accepted_takeover_lexicon''
               else lit ''accepted_complete_preview'')
     else if decAcceptNow d \<and> (decLexicallyComplete d \<or> decSemanticReady d \<or> decTakeoverLexicon d
        \<or> decSemanticTakeover d) then
       accept (bargeInAcceptReason d)
     else if decAcceptCandidate d \<and> decSemanticReady d \<and> \<not> decBackchannelLikely d
        \<and> (decLexicallyComplete d \<or> decTakeoverLexicon d \<or> decSemanticTakeover d
           \<or> decTakeoverScore d \<ge> fl (68 / 100)) then
       accept (lit ''accepted_accept_candidate'')
     else if audioMs \<ge> minMs + bargeIncompleteHoldMs cfg \<and> (bestText \<noteq> [] \<or> decIntrusionScore d \<ge> fl (72 / 100))
        \<and> \<not> decBackchannelLikely d then
       accept (lit ''accepted_incomplete_after_hold'')
     else if audioMs < minMs then
       (if partialText \<noteq> [] \<or> stablePfx \<noteq> [] then
          d\<lparr>decPolicy := PolicyDuckOnly, decReason := lit ''duck_pending_min_audio''\<rparr>
        else if decAcousticReady d then
          d\<lparr>decPolicy := PolicyDuckOnly, decReason := lit ''duck_pending_audio_only''\<rparr>
        else d\<lparr>decReason := lit ''below_min_audio''\<rparr>)
     else if decBackchannelLikely d \<and> decTakeoverScore d < fl (35 / 100) \<and> \<not> decAcceptCandidate d \<and> \<not> decAcceptNow d then
       d\<lparr>decPolicy := PolicyBackchannel, decReason := lit ''backchannel_short_ack''\<rparr>
     else
       d\<lparr>decPolicy := PolicyDuckOnly,
         decReason := (if partialText = [] \<and> stablePfx = [] then lit ''duck_pending_audio_only''
                       else if decSemanticReady d then lit ''duck_pending_semantic_confirmation''
                       else lit ''duck_pending_incomplete_preview'')\<rparr>)"

definition EvaluateBargeIn :: "InputPreview \<Rightarrow> int \<Rightarrow> int \<Rightarrow> BargeInConfig \<Rightarrow> BargeInDecision" where
  "EvaluateBargeIn preview rate chans cfg0 =
     (let cfg = NormalizeBargeInConfig cfg0
      in if \<not> pvSpeechStarted preview \<or> pvAudioBytes preview \<le> 0 then
           (initialDecision cfg)\<lparr>decReason := lit ''no_speech_started''\<rparr>
         else if rate \<le> 0 \<or> chans \<le> 0 then
           (initialDecision cfg)\<lparr>decReason := lit ''invalid_audio_format''\<rparr>
         else bargeInVerdict cfg (TrimSpace (pvPartialText preview)) (TrimSpace (pvStablePrefix preview))
                (bargeInSignals preview rate chans cfg))"

definition ShouldAcceptBargeIn :: "InputPreview \<Rightarrow> int \<Rightarrow> int \<Rightarrow> BargeInConfig \<Rightarrow> bool" where
  "ShouldAcceptBargeIn preview rate chans cfg = decAccepted (EvaluateBargeIn preview rate chans cfg)"

section \<open>Directives\<close>

definition normalizeInterruptionPolicy :: "InterruptionPolicy \<Rightarrow> InterruptionPolicy" where
  "normalizeInterruptionPolicy policy =
     (if policy \<in> {PolicyBackchannel, PolicyDuckOnly, PolicyHardInterrupt} then policy else PolicyIgnore)"

definition clampDirectiveDuration :: "duration \<Rightarrow> duration \<Rightarrow> duration \<Rightarrow> duration" where
  "clampDirectiveDuration value minValue maxValue =
     (if value < minValue then minValue
      else if maxValue > 0 \<and> value > maxValue then maxValue
      else value)"

definition recommendedDuckHold :: "BargeInDecision \<Rightarrow> duration" where
  "recommendedDuckHold decision =
     (let reason = TrimSpace (decReason decision);
          remainingMs = (if reason = lit ''duck_pending_min_audio'' then
                           maxInt (decMinAudioMs decision - decAudioMs decision) 0
                         else if reason = lit ''duck_pending_audio_only'' then maxInt (decHoldAudioMs decision) 0
                         else maxInt (decMinAudioMs decision + decHoldAudioMs decision - decAudioMs decision) 0)
      in clampDirectiveDuration (remainingMs * Millisecond + 80 * Millisecond) (180 * Millisecond) (720 * Millisecond))"

fun actionName :: "PlaybackAction \<Rightarrow> gostring" where
  "actionName ActionNormal = lit ''normal''"
| "actionName ActionDuckLight = lit ''duck_light''"
| "actionName ActionDuckHold = lit ''duck_hold''"
| "actionName ActionInterrupt = lit ''interrupt''"

definition playbackDirectiveForDecision :: "BargeInDecision \<Rightarrow> PlaybackDirective" where
  "playbackDirectiveForDecision decision =
     (let policy = normalizeInterruptionPolicy (decPolicy decision);
          directive = \<lparr>dirAction = ActionNormal, dirPolicy = policy, dirReason = TrimSpace (decReason decision),
            dirGain = 1, dirAttack = 0, dirHold = 0, dirRelease = 0, dirKeepPreview = False,
            dirKeepPendingAudio = False\<rparr>;
          finish = (\<lambda>d. if dirReason d = [] then d\<lparr>dirReason := actionName (dirAction d)\<rparr> else d)
      in case policy of
           PolicyBackchannel \<Rightarrow>
             finish (directive\<lparr>dirAction := ActionDuckLight, dirGain := fl (72 / 100), dirAttack := 45 * Millisecond,
               dirHold := clampDirectiveDuration (maxInt (decAudioMs decision + 80) 180 * Millisecond)
                 (180 * Millisecond) (420 * Millisecond),
               dirRelease := 180 * Millisecond, dirKeepPreview := True, dirKeepPendingAudio := True\<rparr>)
         | PolicyDuckOnly \<Rightarrow>
             finish (directive\<lparr>dirAction := ActionDuckHold, dirGain := fl (36 / 100), dirAttack := 30 * Millisecond,
               dirHold := recommendedDuckHold decision,
               dirRelease := 220 * Millisecond, dirKeepPreview := True, dirKeepPendingAudio := True\<rparr>)
         | PolicyHardInterrupt \<Rightarrow>
             finish (directive\<lparr>dirAction := ActionInterrupt, dirGain := 0, dirKeepPreview := True,
               dirKeepPendingAudio := True\<rparr>)
         | _ \<Rightarrow> (if dirReason directive = [] then directive\<lparr>dirReason := lit ''normal''\<rparr> else directive))"

definition ShouldInterruptOutput :: "PlaybackDirective \<Rightarrow> bool" where
  "ShouldInterruptOutput d = (dirAction d = ActionInterrupt)"

definition DirectiveShouldDuckOutput :: "PlaybackDirective \<Rightarrow> bool" where
  "DirectiveShouldDuckOutput d = (dirAction d = ActionDuckLight \<or> dirAction d = ActionDuckHold)"

definition ShouldInterrupt :: "BargeInDecision \<Rightarrow> bool" where
  "ShouldInterrupt d = ShouldInterruptOutput (playbackDirectiveForDecision d)"

definition ShouldDuckOutput :: "BargeInDecision \<Rightarrow> bool" where
  "ShouldDuckOutput d = DirectiveShouldDuckOutput (playbackDirectiveForDecision d)"


section \<open>Lemmas\<close>

lemma initialDecision_idle [simp]:
  "decAccepted (initialDecision cfg) = False" "decPolicy (initialDecision cfg) = PolicyIgnore"
  "decIntrusionScore (initialDecision cfg) = 0" "decTakeoverScore (initialDecision cfg) = 0"
  "decSemanticConfidence (initialDecision cfg) = 0" "decStability (initialDecision cfg) = 0"
  by (simp_all add: initialDecision_def)

lemma signals_idle [simp]:
  "decAccepted (bargeInSignals p r c cfg) = False" "decPolicy (bargeInSignals p r c cfg) = PolicyIgnore"
  by (simp_all add: bargeInSignals_def Let_def)

lemma signals_audio: "decAudioMs (bargeInSignals p r c cfg) = pcm16AudioDurationMs (pvAudioBytes p) r c"
  by (simp add: bargeInSignals_def Let_def)


text \<open>
  The evidence that gives the user the floor, free of the order of the early returns: a confident
  takeover intent, a complete or takeover utterance that is no acknowledgement, an endpoint that was
  accepted already, an accept candidate, or speech that outlasts the hold.
\<close>

definition accept_evidence :: "BargeInConfig \<Rightarrow> gostring \<Rightarrow> BargeInDecision \<Rightarrow> bool" where
  "accept_evidence cfg bestText d \<longleftrightarrow>
     decAcousticReady d \<and> decSemanticTakeover d \<and> decSemanticConfidence d \<ge> semanticJudgeHighConfidence \<or>
     decAudioMs d \<ge> bargeMinAudioMs cfg \<and> \<not> decBackchannelLikely d \<and>
       (decLexicallyComplete d \<or> decTakeoverLexicon d \<or> decSemanticTakeover d) \<or>
     decAcceptNow d \<and> (decLexicallyComplete d \<or> decSemanticReady d \<or> decTakeoverLexicon d \<or> decSemanticTakeover d) \<or>
     decAcceptCandidate d \<and> decSemanticReady d \<and> \<not> decBackchannelLikely d \<and>
       (decLexicallyComplete d \<or> decTakeoverLexicon d \<or> decSemanticTakeover d \<or> decTakeoverScore d \<ge> fl (68 / 100)) \<or>
     decAudioMs d \<ge> bargeMinAudioMs cfg + bargeIncompleteHoldMs cfg \<and> \<not> decBackchannelLikely d \<and>
       (bestText \<noteq> [] \<or> decIntrusionScore d \<ge> fl (72 / 100))"

text \<open>A chain of early returns is taken apart one guard at a time.\<close>

lemma early_return_accepted:
  "(c \<Longrightarrow> decAccepted x \<longleftrightarrow> E) \<Longrightarrow> (\<not> c \<Longrightarrow> decAccepted y \<longleftrightarrow> E) \<Longrightarrow> decAccepted (if c then x else y) \<longleftrightarrow> E"
  by simp

lemma accepted_of_update:
  "decAccepted (d\<lparr>decPolicy := p\<rparr>) = decAccepted d"
  "decAccepted (d\<lparr>decAccepted := a\<rparr>) = a"
  "decAccepted (d\<lparr>decReason := w\<rparr>) = decAccepted d"
  by simp_all

lemma early_return: "(c \<Longrightarrow> P x) \<Longrightarrow> (\<not> c \<Longrightarrow> P y) \<Longrightarrow> P (if c then x else y)"
  by simp

lemma verdict_accept_iff:
  assumes "\<not> decAccepted d"
    and "decSemanticIntent d = SemanticIntentBackchannel \<and> decSemanticConfidence d \<ge> semanticJudgeHighConfidence
         \<longrightarrow> \<not> decSemanticTakeover d \<and> decBackchannelLikely d"
  shows "decAccepted (bargeInVerdict cfg pt sp d) \<longleftrightarrow> accept_evidence cfg (firstNonEmpty [sp, pt]) d"
  unfolding bargeInVerdict_def Let_def accept_evidence_def
  by (intro early_return_accepted) (use assms in \<open>simp_all only: accepted_of_update, satx+\<close>)

lemma verdict_policy_accepted:
  assumes "\<not> decAccepted d" and "decPolicy d = PolicyIgnore"
  shows "(\<lambda>e. decAccepted e \<longleftrightarrow> decPolicy e = PolicyHardInterrupt) (bargeInVerdict cfg pt sp d)"
  unfolding bargeInVerdict_def Let_def
  by (intro early_return [where P = "\<lambda>e. decAccepted e \<longleftrightarrow> decPolicy e = PolicyHardInterrupt"]; simp add: assms)


lemma medium_le_high: "semanticJudgeMediumConfidence \<le> semanticJudgeHighConfidence"
  by (simp add: semanticJudgeMediumConfidence_def semanticJudgeHighConfidence_def fl_mono)

lemma backchannel_no_takeover: "\<not> semanticIntentIsTakeover SemanticIntentBackchannel"
  by code_simp

lemma signals_backchannel_intent:
  assumes "decSemanticIntent (bargeInSignals p r c cfg) = SemanticIntentBackchannel"
    and "decSemanticConfidence (bargeInSignals p r c cfg) \<ge> semanticJudgeHighConfidence"
  shows "\<not> decSemanticTakeover (bargeInSignals p r c cfg) \<and> decBackchannelLikely (bargeInSignals p r c cfg)"
  using assms medium_le_high backchannel_no_takeover
  by (simp add: bargeInSignals_def Let_def del: firstNonEmpty.simps)

text \<open>The guard of \<open>EvaluateBargeIn\<close> and the signals of a decision, past the guard.\<close>

abbreviation barge_in_heard :: "InputPreview \<Rightarrow> int \<Rightarrow> int \<Rightarrow> bool" where
  "barge_in_heard p r c \<equiv> pvSpeechStarted p \<and> 0 < pvAudioBytes p \<and> 0 < r \<and> 0 < c"

lemma evaluate_heard:
  "barge_in_heard p r c \<Longrightarrow> EvaluateBargeIn p r c cfg =
     bargeInVerdict (NormalizeBargeInConfig cfg) (TrimSpace (pvPartialText p)) (TrimSpace (pvStablePrefix p))
       (bargeInSignals p r c (NormalizeBargeInConfig cfg))"
  by (simp add: EvaluateBargeIn_def Let_def)

lemma evaluate_not_heard:
  "\<not> barge_in_heard p r c \<Longrightarrow> \<not> decAccepted (EvaluateBargeIn p r c cfg) \<and> decPolicy (EvaluateBargeIn p r c cfg) = PolicyIgnore"
  by (auto simp: EvaluateBargeIn_def Let_def)

lemma evaluate_accept_iff:
  assumes "barge_in_heard p r c"
  shows "decAccepted (EvaluateBargeIn p r c cfg) \<longleftrightarrow>
    accept_evidence (NormalizeBargeInConfig cfg)
      (firstNonEmpty [TrimSpace (pvStablePrefix p), TrimSpace (pvPartialText p)])
      (bargeInSignals p r c (NormalizeBargeInConfig cfg))"
  unfolding evaluate_heard [OF assms]
  by (rule verdict_accept_iff) (use signals_backchannel_intent in auto)

lemma evaluate_policy_accepted:
  "decAccepted (EvaluateBargeIn p r c cfg) \<longleftrightarrow> decPolicy (EvaluateBargeIn p r c cfg) = PolicyHardInterrupt"
proof (cases "barge_in_heard p r c")
  case True
  show ?thesis
    unfolding evaluate_heard [OF True] using verdict_policy_accepted by simp
qed (use evaluate_not_heard in simp)

lemma directive_action:
  "dirAction (playbackDirectiveForDecision d) =
     (case decPolicy d of PolicyBackchannel \<Rightarrow> ActionDuckLight | PolicyDuckOnly \<Rightarrow> ActionDuckHold
      | PolicyHardInterrupt \<Rightarrow> ActionInterrupt | _ \<Rightarrow> ActionNormal)"
  by (cases "decPolicy d")
    (simp_all add: playbackDirectiveForDecision_def normalizeInterruptionPolicy_def Let_def)

lemma directive_gain:
  "dirGain (playbackDirectiveForDecision d) =
     (case decPolicy d of PolicyBackchannel \<Rightarrow> fl (72 / 100) | PolicyDuckOnly \<Rightarrow> fl (36 / 100)
      | PolicyHardInterrupt \<Rightarrow> 0 | _ \<Rightarrow> 1)"
  by (cases "decPolicy d")
    (simp_all add: playbackDirectiveForDecision_def normalizeInterruptionPolicy_def Let_def)

lemma directive_hold:
  "dirHold (playbackDirectiveForDecision d) =
     (case decPolicy d of PolicyBackchannel \<Rightarrow> clampDirectiveDuration (maxInt (decAudioMs d + 80) 180 * Millisecond)
                 (180 * Millisecond) (420 * Millisecond)
      | PolicyDuckOnly \<Rightarrow> recommendedDuckHold d | _ \<Rightarrow> 0)"
  by (cases "decPolicy d")
    (simp_all add: playbackDirectiveForDecision_def normalizeInterruptionPolicy_def Let_def)

lemma clampDirective_bounds:
  "0 < lo \<Longrightarrow> lo \<le> hi \<Longrightarrow> lo \<le> clampDirectiveDuration v lo hi \<and> clampDirectiveDuration v lo hi \<le> hi"
  by (simp add: clampDirectiveDuration_def)

lemma duckHold_bounds: "180 * Millisecond \<le> recommendedDuckHold d \<and> recommendedDuckHold d \<le> 720 * Millisecond"
  unfolding recommendedDuckHold_def Let_def by (rule clampDirective_bounds) simp_all

lemma signals_unit:
  "0 \<le> decIntrusionScore (bargeInSignals p r c cfg) \<and> decIntrusionScore (bargeInSignals p r c cfg) \<le> 1 \<and>
   0 \<le> decTakeoverScore (bargeInSignals p r c cfg) \<and> decTakeoverScore (bargeInSignals p r c cfg) \<le> 1"
  by (simp add: bargeInSignals_def Let_def bargeInIntrusionScore_def bargeInTakeoverScore_def clampUnit_bounds)


lemma verdict_keeps_signals:
  "decBackchannelLikely (bargeInVerdict cfg pt sp d) = decBackchannelLikely d \<and>
   decAcceptNow (bargeInVerdict cfg pt sp d) = decAcceptNow d \<and>
   decSemanticTakeover (bargeInVerdict cfg pt sp d) = decSemanticTakeover d \<and>
   decAudioMs (bargeInVerdict cfg pt sp d) = decAudioMs d \<and>
   decIntrusionScore (bargeInVerdict cfg pt sp d) = decIntrusionScore d \<and>
   decTakeoverScore (bargeInVerdict cfg pt sp d) = decTakeoverScore d"
  unfolding bargeInVerdict_def Let_def
  by (intro early_return [where P = "\<lambda>e. decBackchannelLikely e = decBackchannelLikely d \<and>
      decAcceptNow e = decAcceptNow d \<and> decSemanticTakeover e = decSemanticTakeover d \<and> decAudioMs e = decAudioMs d \<and>
      decIntrusionScore e = decIntrusionScore d \<and> decTakeoverScore e = decTakeoverScore d"]; simp)

lemma evaluate_flags:
  assumes "barge_in_heard p r c"
  shows "decBackchannelLikely (EvaluateBargeIn p r c cfg) \<longleftrightarrow>
      looksLikeBackchannel (firstNonEmpty [TrimSpace (pvStablePrefix p), TrimSpace (pvPartialText p)]) \<or>
      normalizeSemanticIntent (arbSemanticIntent (pvArbitration p)) = SemanticIntentBackchannel \<and>
      clampUnit (arbSemanticConfidence (pvArbitration p)) \<ge> semanticJudgeMediumConfidence"
    and "decAcceptNow (EvaluateBargeIn p r c cfg) \<longleftrightarrow> arbAcceptNow (pvArbitration p) \<or> pvCommitSuggested p \<or>
      normalizedBargeInTurnStage p = AcceptNow"
    and "decSemanticTakeover (EvaluateBargeIn p r c cfg) \<longleftrightarrow>
      semanticIntentIsTakeover (normalizeSemanticIntent (arbSemanticIntent (pvArbitration p)))"
    and "decAudioMs (EvaluateBargeIn p r c cfg) = pcm16AudioDurationMs (pvAudioBytes p) r c"
  unfolding evaluate_heard [OF assms]
  by (simp_all add: verdict_keeps_signals bargeInSignals_def Let_def del: firstNonEmpty.simps)

lemma backchannel_not_accepted:
  assumes "decBackchannelLikely (EvaluateBargeIn p r c cfg)" and "\<not> decAcceptNow (EvaluateBargeIn p r c cfg)"
    and "\<not> decSemanticTakeover (EvaluateBargeIn p r c cfg)"
  shows "\<not> decAccepted (EvaluateBargeIn p r c cfg)"
proof (cases "barge_in_heard p r c")
  case True
  let ?d = "bargeInSignals p r c (NormalizeBargeInConfig cfg)"
  have "decBackchannelLikely ?d" "\<not> decAcceptNow ?d" "\<not> decSemanticTakeover ?d"
    using assms unfolding evaluate_heard [OF True] by (simp_all add: verdict_keeps_signals)
  then show ?thesis unfolding evaluate_accept_iff [OF True] accept_evidence_def by blast
qed (use evaluate_not_heard in simp)

section \<open>Properties\<close>

text \<open>
  C36: the user is given the floor exactly on evidence. An interruption is accepted iff speech was
  heard in a valid audio format and one of the five kinds of evidence is present; the order of the
  early returns of \<open>EvaluateBargeIn\<close> never hides evidence, and an acknowledgement that returns early
  never had any.
\<close>
theorem barge_in_accept_iff:
  "ShouldAcceptBargeIn p r c cfg \<longleftrightarrow>
     pvSpeechStarted p \<and> 0 < pvAudioBytes p \<and> 0 < r \<and> 0 < c \<and>
     accept_evidence (NormalizeBargeInConfig cfg)
       (firstNonEmpty [TrimSpace (pvStablePrefix p), TrimSpace (pvPartialText p)])
       (bargeInSignals p r c (NormalizeBargeInConfig cfg))"
  using evaluate_accept_iff evaluate_not_heard unfolding ShouldAcceptBargeIn_def by blast

text \<open>
  decision and directive agree. For every evaluated decision the output is interrupted iff the
  decision is accepted, iff its policy is hard_interrupt; it is ducked iff the policy is backchannel
  or duck_only, so never both. The gain lies in [0,1], is 0 only for an interrupt and 1 only when
  playback is left alone, and a duck holds between 180 and 720 ms (420 ms for an acknowledgement).
\<close>
theorem directive_consistent:
  assumes "e = EvaluateBargeIn p r c cfg"
  shows "(ShouldInterrupt e \<longleftrightarrow> decAccepted e) \<and> (ShouldInterrupt e \<longleftrightarrow> decPolicy e = PolicyHardInterrupt) \<and>
    (ShouldDuckOutput e \<longleftrightarrow> decPolicy e = PolicyBackchannel \<or> decPolicy e = PolicyDuckOnly) \<and>
    0 \<le> dirGain (playbackDirectiveForDecision e) \<and> dirGain (playbackDirectiveForDecision e) \<le> 1 \<and>
    (dirGain (playbackDirectiveForDecision e) = 0 \<longleftrightarrow> ShouldInterrupt e) \<and>
    (dirGain (playbackDirectiveForDecision e) = 1 \<longleftrightarrow> \<not> ShouldInterrupt e \<and> \<not> ShouldDuckOutput e) \<and>
    (if ShouldDuckOutput e then 180 * Millisecond \<le> dirHold (playbackDirectiveForDecision e) \<and>
        dirHold (playbackDirectiveForDecision e) \<le> (if decPolicy e = PolicyBackchannel then 420 else 720) * Millisecond
     else dirHold (playbackDirectiveForDecision e) = 0)"
proof -
  have v: "fl (18 / 25) < 1" "0 < fl (18 / 25)" "fl (9 / 25) < 1" "0 < fl (9 / 25)" by code_simp+
  have b: "180 * Millisecond \<le> clampDirectiveDuration v (180 * Millisecond) (420 * Millisecond) \<and>
      clampDirectiveDuration v (180 * Millisecond) (420 * Millisecond) \<le> 420 * Millisecond" for v
    by (rule clampDirective_bounds) simp_all
  have a: "decAccepted e \<longleftrightarrow> decPolicy e = PolicyHardInterrupt"
    unfolding assms by (rule evaluate_policy_accepted)
  show ?thesis
    unfolding ShouldInterrupt_def ShouldInterruptOutput_def ShouldDuckOutput_def DirectiveShouldDuckOutput_def
      directive_action directive_gain directive_hold
    using duckHold_bounds [of e] v b [of "maxInt (decAudioMs e + 80) 180 * Millisecond"] a
    by (cases "decPolicy e") simp_all
qed

theorem directive_consistent_witness:
  "let e = EvaluateBargeIn (zeroPreview\<lparr>pvPartialText := lit ''hm'', pvAudioBytes := 0\<rparr>)
       16000 1 \<lparr>bargeMinAudioMs = 0, bargeIncompleteHoldMs = 0\<rparr>
   in \<not> ShouldInterrupt e \<and> dirHold (playbackDirectiveForDecision e) = 0"
  using directive_consistent [OF refl, of "zeroPreview\<lparr>pvPartialText := lit ''hm'', pvAudioBytes := 0\<rparr>" 16000 1
      "\<lparr>bargeMinAudioMs = 0, bargeIncompleteHoldMs = 0\<rparr>"]
    evaluate_not_heard [of "zeroPreview\<lparr>pvPartialText := lit ''hm'', pvAudioBytes := 0\<rparr>" 16000 1]
  by (simp add: Let_def)

text \<open>
  acknowledgements do not interrupt. While the user only acknowledges (\<open>BackchannelLikely\<close>), no
  endpoint was accepted and the semantic intent is no takeover, playback is never interrupted.
\<close>
theorem backchannel_protected:
  assumes "e = EvaluateBargeIn p r c cfg"
    and "decBackchannelLikely e" and "\<not> decAcceptNow e" and "\<not> decSemanticTakeover e"
  shows "\<not> decAccepted e \<and> \<not> ShouldInterrupt e"
proof -
  have "\<not> decAccepted e" using assms by (simp add: backchannel_not_accepted)
  moreover have "decAccepted e \<longleftrightarrow> decPolicy e = PolicyHardInterrupt"
    unfolding assms(1) by (rule evaluate_policy_accepted)
  ultimately show ?thesis
    by (cases "decPolicy e") (simp_all add: ShouldInterrupt_def ShouldInterruptOutput_def directive_action)
qed

theorem backchannel_protected_witness:
  "\<not> decAccepted (EvaluateBargeIn (zeroPreview\<lparr>pvPartialText := [0x55EF, 0x55EF], pvAudioBytes := 64000, pvSpeechStarted := True\<rparr>)
       16000 1 \<lparr>bargeMinAudioMs = 0, bargeIncompleteHoldMs = 0\<rparr>)"
  by (rule backchannel_protected [OF refl, THEN conjunct1]; (subst evaluate_flags)?; code_simp)

text \<open>
  whoever keeps talking gets the floor. Once speech with any recognised text that is no
  acknowledgement has lasted for the minimum plus the hold, the interruption is accepted, whatever
  the other signals say.
\<close>
theorem long_speech_accepted:
  assumes "pvSpeechStarted p" and "0 < r" and "0 < c"
    and "bargeMinAudioMs (NormalizeBargeInConfig cfg) + bargeIncompleteHoldMs (NormalizeBargeInConfig cfg)
           \<le> pcm16AudioDurationMs (pvAudioBytes p) r c"
    and "TrimSpace (pvPartialText p) \<noteq> [] \<or> TrimSpace (pvStablePrefix p) \<noteq> []"
    and "\<not> decBackchannelLikely (EvaluateBargeIn p r c cfg)"
  shows "decAccepted (EvaluateBargeIn p r c cfg)"
proof -
  have "0 < bargeMinAudioMs (NormalizeBargeInConfig cfg) + bargeIncompleteHoldMs (NormalizeBargeInConfig cfg)"
    by (simp add: NormalizeBargeInConfig_def defaultBargeInMinAudioMs_def defaultBargeInIncompleteHoldMs_def)
  then have "0 < pvAudioBytes p" using assms(4)
    by (cases "pvAudioBytes p \<le> 0") (simp_all add: pcm16AudioDurationMs_def)
  then have h: "barge_in_heard p r c" using assms by simp
  have t: "firstNonEmpty [TrimSpace (pvStablePrefix p), TrimSpace (pvPartialText p)] \<noteq> []"
    using assms(5) by (simp only: firstNonEmpty_eq_Nil) auto
  have "\<not> decBackchannelLikely (bargeInSignals p r c (NormalizeBargeInConfig cfg))"
    using assms(6) unfolding evaluate_heard [OF h] by (simp add: verdict_keeps_signals)
  then show ?thesis
    using assms(4) t unfolding evaluate_accept_iff [OF h] accept_evidence_def signals_audio by blast
qed

theorem long_speech_accepted_witness:
  "decAccepted (EvaluateBargeIn (zeroPreview\<lparr>pvPartialText := lit ''and then'', pvAudioBytes := 64000, pvSpeechStarted := True\<rparr>)
       16000 1 \<lparr>bargeMinAudioMs = 0, bargeIncompleteHoldMs = 0\<rparr>)"
  by (rule long_speech_accepted; (subst evaluate_flags)?; code_simp)

text \<open>
  A stop word of two equal characters is taken for an acknowledgement. The takeover lexicon lists
  "deng deng" (wait, U+7B49 twice), yet without an accepted endpoint and without a semantic judgement
  the utterance is never accepted as an interruption, however long the user speaks.
\<close>
theorem takeover_word_suppressed:
  assumes "TrimSpace (pvPartialText p) = [0x7B49, 0x7B49]" and "TrimSpace (pvStablePrefix p) \<in> {[], [0x7B49, 0x7B49]}"
    and "\<not> decAcceptNow (EvaluateBargeIn p r c cfg)" and "\<not> decSemanticTakeover (EvaluateBargeIn p r c cfg)"
  shows "looksLikeTakeoverLexicon (TrimSpace (pvPartialText p)) \<and> \<not> decAccepted (EvaluateBargeIn p r c cfg)"
proof -
  let ?w = "[0x7B49, 0x7B49] :: gostring"
  have w: "looksLikeTakeoverLexicon ?w" "looksLikeBackchannel ?w" "firstNonEmpty [[], ?w] = ?w" "firstNonEmpty [?w, ?w] = ?w"
    by code_simp+
  have "\<not> decAccepted (EvaluateBargeIn p r c cfg)"
  proof (cases "barge_in_heard p r c")
    case True
    have "decBackchannelLikely (bargeInSignals p r c (NormalizeBargeInConfig cfg))"
      using assms(1,2) w by (auto simp: bargeInSignals_def Let_def simp del: firstNonEmpty.simps)
    then have "decBackchannelLikely (EvaluateBargeIn p r c cfg)"
      unfolding evaluate_heard [OF True] by (simp add: verdict_keeps_signals)
    then show ?thesis using assms(3,4) by (rule backchannel_not_accepted)
  qed (use evaluate_not_heard in simp)
  then show ?thesis using assms(1) w(1) by simp
qed

theorem takeover_word_suppressed_witness:
  "\<not> decAccepted (EvaluateBargeIn (zeroPreview\<lparr>pvPartialText := [0x7B49, 0x7B49], pvAudioBytes := 640000, pvSpeechStarted := True\<rparr>)
       16000 1 \<lparr>bargeMinAudioMs = 0, bargeIncompleteHoldMs = 0\<rparr>)"
  by (rule takeover_word_suppressed [THEN conjunct2]; (subst evaluate_flags)?; code_simp)

end
