(* ===== verification/Heard_Text.thy ===== *)
theory Heard_Text
  imports Barge_In
begin

text \<open>
  What of a spoken answer the user has heard: the estimate from the played duration, the boundary, the
  missed text and the heard ratio of \<open>internal/voice/session_orchestrator.go\<close>, with the laws of an
  estimate as the locale \<open>heard_estimate\<close>.
\<close>

section \<open>Data\<close>

datatype HeardTextSource = SourceUnknown | HeuristicBytes | SourcePlaybackStarted | SegmentMark | SourcePlaybackCompleted

datatype HeardTextConfidence = ConfidenceUnknown | ConfidenceLow | ConfidenceMedium | ConfidenceHigh

datatype HeardTextPrecisionTier = TierUnknown | Tier0 | Tier1

datatype HeardTextBoundary = HeardBoundaryUnset | HeardBoundaryNone | HeardBoundaryPrefix | HeardBoundaryFull

definition approxHeardRuneDuration :: duration where "approxHeardRuneDuration = 120 * Millisecond"

fun sourceName :: "HeardTextSource \<Rightarrow> gostring" where
  "sourceName SourceUnknown = []"
| "sourceName HeuristicBytes = lit ''heuristic_bytes''"
| "sourceName SourcePlaybackStarted = lit ''playback_started''"
| "sourceName SegmentMark = lit ''segment_mark''"
| "sourceName SourcePlaybackCompleted = lit ''playback_completed''"

fun confidenceName :: "HeardTextConfidence \<Rightarrow> gostring" where
  "confidenceName ConfidenceUnknown = []"
| "confidenceName ConfidenceLow = lit ''low''"
| "confidenceName ConfidenceMedium = lit ''medium''"
| "confidenceName ConfidenceHigh = lit ''high''"

fun tierName :: "HeardTextPrecisionTier \<Rightarrow> gostring" where
  "tierName TierUnknown = []"
| "tierName Tier0 = lit ''tier0_heuristic''"
| "tierName Tier1 = lit ''tier1_segment_mark''"

fun boundaryName :: "HeardTextBoundary \<Rightarrow> gostring" where
  "boundaryName HeardBoundaryUnset = []"
| "boundaryName HeardBoundaryNone = lit ''none''"
| "boundaryName HeardBoundaryPrefix = lit ''prefix''"
| "boundaryName HeardBoundaryFull = lit ''full''"

fun policyName :: "InterruptionPolicy \<Rightarrow> gostring" where
  "policyName PolicyUnset = []"
| "policyName PolicyIgnore = lit ''ignore''"
| "policyName PolicyBackchannel = lit ''backchannel''"
| "policyName PolicyDuckOnly = lit ''duck_only''"
| "policyName PolicyHardInterrupt = lit ''hard_interrupt''"

section \<open>Operations\<close>

text \<open>A count of runes is at least one and at most all of them.\<close>

definition clampCount :: "int \<Rightarrow> int \<Rightarrow> int" where
  "clampCount n c = (let c1 = (if c \<le> 0 then 1 else c) in if c1 > n then n else c1)"

definition heardTextForPlayback :: "gostring \<Rightarrow> duration \<Rightarrow> duration \<Rightarrow> gostring" where
  "heardTextForPlayback t playedDuration plannedDuration =
     (let runes = TrimSpace t; n = int (length runes)
      in if runes = [] then []
         else if playedDuration \<le> 0 then []
         else if plannedDuration > 0 then
           let ratio = fdiv (float_of playedDuration) (float_of plannedDuration)
           in if ratio \<ge> 1 then runes
              else take (nat (clampCount n \<lceil>fmul (float_of n) ratio\<rceil>)) runes
         else take (nat (clampCount n (playedDuration sdiv approxHeardRuneDuration))) runes)"

definition heardTextBoundaryForTexts :: "gostring \<Rightarrow> gostring \<Rightarrow> HeardTextBoundary" where
  "heardTextBoundaryForTexts deliveredText heardText =
     (let delivered = TrimSpace deliveredText; heard = TrimSpace heardText
      in if heard = [] then HeardBoundaryNone
         else if delivered = [] \<or> heard = delivered then HeardBoundaryFull
         else HeardBoundaryPrefix)"

definition hasExactHeardTextPrefix :: "gostring \<Rightarrow> gostring \<Rightarrow> bool" where
  "hasExactHeardTextPrefix deliveredText heardText =
     (let h = TrimSpace heardText; d = TrimSpace deliveredText in h \<noteq> [] \<and> d \<noteq> [] \<and> HasPrefix d h)"

definition heardRatioPercent :: "gostring \<Rightarrow> gostring \<Rightarrow> int" where
  "heardRatioPercent deliveredText heardText =
     (let d = int (length (TrimSpace deliveredText)); h = int (length (TrimSpace heardText))
      in if d = 0 then -1 else if h = 0 then 0 else if h \<ge> d then 100
         else Round (fdiv (fmul (float_of h) 100) (float_of d)))"

definition resumeAnchorForTexts :: "gostring \<Rightarrow> gostring \<Rightarrow> gostring" where
  "resumeAnchorForTexts deliveredText heardText =
     (let heard = TrimSpace heardText in if heard = [] then [] else heard)"

definition missedTextForTexts :: "gostring \<Rightarrow> gostring \<Rightarrow> gostring" where
  "missedTextForTexts deliveredText heardText =
     (let delivered = TrimSpace deliveredText; heard = TrimSpace heardText
      in if delivered = [] \<or> length heard \<ge> length delivered then []
         else if heard = [] then delivered
         else if take (length heard) delivered \<noteq> heard then []
         else TrimSpace (drop (length heard) delivered))"

definition normalizeHeardTextSource :: "HeardTextSource \<Rightarrow> HeardTextSource \<Rightarrow> HeardTextSource" where
  "normalizeHeardTextSource source fallback =
     (if source \<in> {HeuristicBytes, SourcePlaybackStarted, SegmentMark, SourcePlaybackCompleted} then source else fallback)"

fun heardTextConfidenceForSource :: "HeardTextSource \<Rightarrow> HeardTextConfidence" where
  "heardTextConfidenceForSource SourcePlaybackCompleted = ConfidenceHigh"
| "heardTextConfidenceForSource SourcePlaybackStarted = ConfidenceMedium"
| "heardTextConfidenceForSource SegmentMark = ConfidenceMedium"
| "heardTextConfidenceForSource HeuristicBytes = ConfidenceLow"
| "heardTextConfidenceForSource SourceUnknown = ConfidenceUnknown"

fun heardTextPrecisionTierForSource :: "HeardTextSource \<Rightarrow> HeardTextPrecisionTier" where
  "heardTextPrecisionTierForSource SourcePlaybackStarted = Tier1"
| "heardTextPrecisionTierForSource SegmentMark = Tier1"
| "heardTextPrecisionTierForSource SourcePlaybackCompleted = Tier1"
| "heardTextPrecisionTierForSource HeuristicBytes = Tier0"
| "heardTextPrecisionTierForSource SourceUnknown = TierUnknown"

section \<open>The laws of an estimate\<close>

locale heard_estimate =
  fixes estimate :: "gostring \<Rightarrow> duration \<Rightarrow> duration \<Rightarrow> gostring"
  assumes estimate_prefix: "prefix (estimate t p q) (TrimSpace t)"
    and estimate_none: "p \<le> 0 \<Longrightarrow> estimate t p q = []"
    and estimate_mono: "p \<le> p' \<Longrightarrow> prefix (estimate t p q) (estimate t p' q)"
    and estimate_all: "0 < q \<Longrightarrow> q \<le> p \<Longrightarrow> estimate t p q = TrimSpace t"
    and estimate_some: "0 < p \<Longrightarrow> TrimSpace t \<noteq> [] \<Longrightarrow> estimate t p q \<noteq> []"
begin

text \<open>An estimate of a text begins with a rune that is heard as soon as anything was played.\<close>

lemma estimate_blank_iff: "TrimSpace t \<noteq> [] \<Longrightarrow> estimate t p q = [] \<longleftrightarrow> p \<le> 0"
  using estimate_none estimate_some not_le by blast

lemma estimate_length_mono: "p \<le> p' \<Longrightarrow> length (estimate t p q) \<le> length (estimate t p' q)"
  by (rule prefix_length_le) (rule estimate_mono)

lemma estimate_nonblank: "0 < p \<Longrightarrow> TrimSpace t \<noteq> [] \<Longrightarrow> TrimSpace (estimate t p q) \<noteq> []"
proof -
  assume a: "0 < p" "TrimSpace t \<noteq> []"
  obtain zs where z: "TrimSpace t = estimate t p q @ zs" using estimate_prefix [of t p q] by (auto simp: prefix_def)
  have ne: "estimate t p q \<noteq> []" using a by (rule estimate_some)
  then have "hd (estimate t p q) = hd (TrimSpace t)" unfolding z by simp
  moreover have "\<not> is_space (hd (TrimSpace t))" using trimmed_TrimSpace [of t] a(2) by (auto simp: trimmed_def)
  ultimately show ?thesis using ne hd_in_set unfolding TrimSpace_eq_Nil by metis
qed

end

section \<open>Lemmas\<close>

lemma take_nat_mono: "i \<le> j \<Longrightarrow> prefix (take (nat i) xs) (take (nat j) xs)"
  by (metis nat_mono take_is_prefix min.absorb1 take_take)

lemma clampCount_mono: "c \<le> c' \<Longrightarrow> clampCount n c \<le> clampCount n c'"
  by (simp add: clampCount_def)

lemma clampCount_bounds: "0 < n \<Longrightarrow> 0 < clampCount n c \<and> clampCount n c \<le> n"
  by (simp add: clampCount_def)

lemma take_clampCount: "xs \<noteq> [] \<Longrightarrow> take (nat (clampCount (int (length xs)) c)) xs \<noteq> []"
  using clampCount_bounds [of "int (length xs)" c] by auto

lemma float_of_mono: "a \<le> b \<Longrightarrow> float_of a \<le> float_of b"
  by (simp add: float_of_def fl_mono)

lemma float_of_pos: "0 < a \<Longrightarrow> 0 < float_of a"
  by (simp add: float_of_def fl_pos_iff)

lemma ratio_mono: "p \<le> p' \<Longrightarrow> 0 < q \<Longrightarrow> fdiv (float_of p) (float_of q) \<le> fdiv (float_of p') (float_of q)"
  unfolding fdiv_def by (intro fl_mono divide_right_mono float_of_mono) (simp_all add: float_of_pos less_imp_le)

lemma ratio_ge_one: "0 < q \<Longrightarrow> q \<le> p \<Longrightarrow> 1 \<le> fdiv (float_of p) (float_of q)"
  unfolding fdiv_def by (intro fl_ge_one) (simp add: float_of_pos float_of_mono le_divide_eq)

text \<open>
  The orchestrator and the gateway estimate with the same rule and different durations of a rune.
\<close>

definition estimateText :: "duration \<Rightarrow> gostring \<Rightarrow> duration \<Rightarrow> duration \<Rightarrow> gostring" where
  "estimateText d t playedDuration plannedDuration =
     (let runes = TrimSpace t; n = int (length runes)
      in if runes = [] \<or> playedDuration \<le> 0 then []
         else if plannedDuration > 0 then
           let ratio = fdiv (float_of playedDuration) (float_of plannedDuration)
           in if ratio \<ge> 1 then runes
              else take (nat (clampCount n \<lceil>fmul (float_of n) ratio\<rceil>)) runes
         else take (nat (clampCount n (playedDuration sdiv d))) runes)"

lemma estimateText_laws:
  assumes "0 < d"
  shows "heard_estimate (estimateText d)"
proof (unfold_locales, goal_cases)
  case (1 t p q)
  show ?case by (auto simp: estimateText_def Let_def take_is_prefix)
next
  case (2 p t q)
  then show ?case by (simp add: estimateText_def Let_def)
next
  case (3 p p' t q)
  show ?case
  proof (cases "TrimSpace t = [] \<or> p \<le> 0")
    case False
    then have pos: "0 < p" "0 < p'" "TrimSpace t \<noteq> []" using 3 by auto
    show ?thesis
    proof (cases "0 < q")
      case True
      let ?n = "float_of (int (length (TrimSpace t)))"
      let ?r = "\<lambda>p. fdiv (float_of p) (float_of q)"
      have r: "?r p \<le> ?r p'" using 3 True by (rule ratio_mono)
      have "0 \<le> ?n" by (simp add: float_of_def fl_nonneg)
      then have "\<lceil>fmul ?n (?r p)\<rceil> \<le> \<lceil>fmul ?n (?r p')\<rceil>"
        using r by (intro ceiling_mono) (simp add: fmul_def fl_mono mult_left_mono)
      then show ?thesis using pos True r
        by (auto simp: estimateText_def Let_def take_is_prefix intro!: take_nat_mono clampCount_mono ceiling_mono)
    next
      case False
      have "p sdiv d \<le> p' sdiv d"
        using 3 pos by (simp add: sdiv_nonneg zdiv_mono1 assms)
      then show ?thesis using pos False
        by (auto simp: estimateText_def Let_def intro!: take_nat_mono clampCount_mono)
    qed
  qed (auto simp: estimateText_def Let_def)
next
  case (4 q p t)
  then show ?case using ratio_ge_one [OF 4] by (auto simp: estimateText_def Let_def)
next
  case (5 p t q)
  then show ?case by (simp add: estimateText_def Let_def take_clampCount del: take_eq_Nil)
qed

lemma heardTextForPlayback_eq: "heardTextForPlayback = estimateText approxHeardRuneDuration"
  by (simp add: fun_eq_iff heardTextForPlayback_def estimateText_def Let_def)

interpretation orchestrator_estimate: heard_estimate heardTextForPlayback
  unfolding heardTextForPlayback_eq by (rule estimateText_laws) (simp add: approxHeardRuneDuration_def)


text \<open>
  Rounding a percentage: a half is a float, and the distance of a quotient to the next half is larger
  than the rounding error, so rounding the rounded quotient is exact.
\<close>

lemma round_quotient:
  fixes h d :: int
  assumes "0 < h" and "h < d" and "d < 2 ^ 40"
  shows "Round (fl (of_int (100 * h) / of_int d)) = (200 * h + d) div (2 * d)"
proof -
  let ?x = "of_int (100 * h) / of_int d :: rat"
  let ?k = "(200 * h + d) div (2 * d)"
  have d: "0 < d" using assms by simp
  have x: "0 < ?x" "?x < 100" using assms by (simp_all add: divide_less_eq)
  have k0: "0 \<le> ?k" using assms by (simp add: pos_imp_zdiv_nonneg_iff)
  have N: "200 * h + d = 2 * d * ?k + (200 * h + d) mod (2 * d)" by (rule mult_div_mod_eq [symmetric])
  have "0 \<le> (200 * h + d) mod (2 * d)" and "(200 * h + d) mod (2 * d) < 2 * d"
    using d by (intro pos_mod_sign pos_mod_bound, simp)+
  with N have lo: "2 * d * ?k \<le> 200 * h + d" and hi: "200 * h + d + 1 \<le> 2 * d * (?k + 1)"
    unfolding distrib_left by linarith+
  have near: "\<bar>fl ?x - ?x\<bar> \<le> 1 / 2 ^ 47"
  proof -
    have "\<bar>fl ?x - ?x\<bar> \<le> 2 powi (7 - 54)" using x by (intro fl_near) (simp_all add: power_int_def)
    also have "(2 :: rat) powi (7 - 54) = 1 / 2 ^ 47" by (simp add: power_int_def power_one_over)
    finally show ?thesis .
  qed
  have lo': "of_int (2 * ?k - 1) / 2 \<le> ?x"
  proof -
    have "(2 * ?k - 1) * d \<le> 200 * h" using lo by (simp add: algebra_simps)
    then have "(of_int ((2 * ?k - 1) * d) :: rat) \<le> of_int (200 * h)" by (simp only: of_int_le_iff)
    then show ?thesis using d by (simp add: field_simps)
  qed
  have "of_int (2 * ?k - 1) / 2 \<le> fl ?x"
  proof (cases "?k = 0")
    case True
    then show ?thesis using fl_nonneg [of ?x] x by simp
  next
    case False
    let ?y = "of_int (2 * ?k - 1) / 2 :: rat"
    have y: "0 < ?y" using False k0 by simp
    have "ilog2 ?y < 7" using y lo' x by (intro ilog2_less) (simp_all add: power_int_def)
    then have "fl ?y = ?y" using y by (intro fl_exact [of _ "2 * ?k - 1" "-1"]) (simp_all add: power_int_def)
    then show ?thesis using fl_mono [OF lo'] by simp
  qed
  then have a: "of_int ?k \<le> fl ?x + 1 / 2" by (simp add: field_simps)
  have "(of_int (200 * h + d + 1) :: rat) \<le> of_int (2 * d * (?k + 1))" using hi by (simp only: of_int_le_iff)
  then have "?x + 1 / 2 + 1 / of_int (2 * d) \<le> of_int (?k + 1)" using d by (simp add: field_simps)
  moreover have "1 / 2 ^ 47 < 1 / (of_int (2 * d) :: rat)"
  proof -
    have "2 * d < 2 ^ 47" using assms(3) by simp
    then have "(of_int (2 * d) :: rat) < of_int (2 ^ 47)" by (simp only: of_int_less_iff)
    then show ?thesis using d by (intro divide_strict_left_mono) simp_all
  qed
  ultimately have b: "fl ?x + 1 / 2 < of_int (?k + 1)" using near by linarith
  have "\<lfloor>fl ?x + 1 / 2\<rfloor> = ?k" using a b by (intro floor_unique) simp_all
  then show ?thesis using fl_nonneg [of ?x] x by (simp add: Round_def)
qed

lemma heardRatio_exact:
  assumes "length (TrimSpace dt) < 2 ^ 40" and "TrimSpace dt \<noteq> []" and "length (TrimSpace ht) \<le> length (TrimSpace dt)"
  shows "heardRatioPercent dt ht =
    (200 * int (length (TrimSpace ht)) + int (length (TrimSpace dt))) div (2 * int (length (TrimSpace dt)))"
proof -
  let ?h = "int (length (TrimSpace ht))" and ?d = "int (length (TrimSpace dt))"
  have d: "0 < ?d" "?d < 2 ^ 40" using assms(1,2) by (simp, metis of_nat_less_iff of_nat_numeral of_nat_power)
  consider "?h = 0" | "?h = ?d" | "0 < ?h" "?h < ?d" using assms(3) by linarith
  then show ?thesis
  proof cases
    case 1 then show ?thesis using d by (simp add: heardRatioPercent_def Let_def)
  next
    case 2
    have "(200 * ?d + ?d) div (2 * ?d) = 201 * ?d div (2 * ?d)" by simp
    also have "\<dots> = 100" using d by (subst div_mult_mult2) simp_all
    finally show ?thesis using 2 d by (simp add: heardRatioPercent_def Let_def)
  next
    case 3
    have "fmul (float_of ?h) 100 = of_int (100 * ?h)"
      using 3 d fl_int [of "100 * ?h"] by (simp add: fmul_def float_of_id mult.commute)
    then have "heardRatioPercent dt ht = Round (fl (of_int (100 * ?h) / of_int ?d))"
      using 3 d by (simp add: heardRatioPercent_def Let_def fdiv_def float_of_id)
    then show ?thesis using round_quotient [OF 3(1,2) d(2)] by simp
  qed
qed

text \<open>What was heard and what was missed make up what was delivered.\<close>

lemma heard_missed_split:
  assumes "prefix (TrimSpace ht) (TrimSpace dt)"
  shows "squeeze (TrimSpace ht) @ squeeze (missedTextForTexts dt ht) = squeeze dt"
proof (cases "length (TrimSpace ht) \<ge> length (TrimSpace dt)")
  case True
  with assms have "TrimSpace ht = TrimSpace dt" by (metis prefix_order.antisym prefix_length_prefix prefix_order.refl)
  then have "squeeze ht = squeeze dt" by (metis squeeze_TrimSpace)
  with True show ?thesis by (simp add: missedTextForTexts_def Let_def)
next
  case False
  obtain zs where z: "TrimSpace dt = TrimSpace ht @ zs" using assms by (auto simp: prefix_def)
  have "squeeze dt = squeeze (TrimSpace dt)" by simp
  also have "\<dots> = squeeze ht @ squeeze zs" unfolding z by simp
  finally show ?thesis using False z by (auto simp: missedTextForTexts_def Let_def)
qed


section \<open>Properties\<close>

text \<open>
  the estimate of the heard text is sound and monotone. It is a prefix of the delivered text, grows
  with the played duration, is empty exactly while nothing was played, and is the whole text once the
  planned duration has passed, in spite of the rounding of the ratio.
\<close>
theorem heard_text_estimate:
  assumes "TrimSpace t \<noteq> []"
  shows "prefix (heardTextForPlayback t p q) (TrimSpace t) \<and>
    (p \<le> p' \<longrightarrow> prefix (heardTextForPlayback t p q) (heardTextForPlayback t p' q)) \<and>
    (heardTextForPlayback t p q = [] \<longleftrightarrow> p \<le> 0) \<and>
    (0 < q \<and> q \<le> p \<longrightarrow> heardTextForPlayback t p q = TrimSpace t)"
  using orchestrator_estimate.estimate_prefix orchestrator_estimate.estimate_mono
    orchestrator_estimate.estimate_blank_iff [OF assms] orchestrator_estimate.estimate_all by blast

theorem heard_text_estimate_witness:
  "heardTextForPlayback (lit ''hello'') 2000000000 1500000000 = lit ''hello'' \<and>
   heardTextForPlayback (lit ''hello'') 0 1500000000 = []"
proof -
  have t: "TrimSpace (lit ''hello'') = lit ''hello''" by code_simp
  then have "TrimSpace (lit ''hello'') \<noteq> []" by simp
  from heard_text_estimate [OF this] show ?thesis unfolding t by auto
qed

text \<open>
  the heard percentage is exact. For a delivered text of fewer than 2^40 runes and a heard text
  that is no longer, \<open>heardRatioPercent\<close> is the percentage of heard runes, rounded half up; the two
  floating-point roundings before \<open>math.Round\<close> never change the result.
\<close>
theorem heard_ratio_exact:
  assumes "TrimSpace dt \<noteq> []" and "length (TrimSpace dt) < 2 ^ 40" and "length (TrimSpace ht) \<le> length (TrimSpace dt)"
  shows "heardRatioPercent dt ht =
    (200 * int (length (TrimSpace ht)) + int (length (TrimSpace dt))) div (2 * int (length (TrimSpace dt))) \<and>
    0 \<le> heardRatioPercent dt ht \<and> heardRatioPercent dt ht \<le> 100"
proof -
  let ?h = "int (length (TrimSpace ht))" and ?d = "int (length (TrimSpace dt))"
  have e: "heardRatioPercent dt ht = (200 * ?h + ?d) div (2 * ?d)" by (rule heardRatio_exact [OF assms(2,1,3)])
  have d: "0 < ?d" using assms(1) by simp
  have "(200 * ?h + ?d) div (2 * ?d) < 101" 
  proof -
    have "(200 * ?h + ?d) div (2 * ?d) \<le> 201 * ?d div (2 * ?d)" using assms(3) d by (intro zdiv_mono1) simp_all
    also have "\<dots> = 100" using d by (subst div_mult_mult2) simp_all
    finally show ?thesis by simp
  qed
  moreover have "0 \<le> (200 * ?h + ?d) div (2 * ?d)" using d by (simp add: pos_imp_zdiv_nonneg_iff)
  ultimately show ?thesis using e by simp
qed

theorem heard_ratio_exact_witness: "heardRatioPercent (lit ''hello wo'') (lit ''hello'') = 63"
proof -
  have "TrimSpace (lit ''hello wo'') = lit ''hello wo''" "TrimSpace (lit ''hello'') = lit ''hello''" by code_simp+
  moreover have "length (lit s) = length s" for s by (simp add: lit_def)
  ultimately show ?thesis using heard_ratio_exact [of "lit ''hello wo''" "lit ''hello''"] by simp
qed

end
