(* ===== verification/Memory_Store.thy ===== *)
theory Memory_Store
  imports Go_Prelude
begin

text \<open>
  Conversation memory: the records and scopes of \<open>internal/agent/contracts.go\<close>,
  \<open>memory_context.go\<close> and the two stores of the repository, \<open>InMemoryMemoryStore\<close>
  (runtime_backends.go) and \<open>NoopMemoryStore\<close> (hooks.go). Both implement the interface
  \<open>MemoryStore\<close>, stated here as the locale \<open>memory_store\<close>. A Go map whose missing keys read as the
  zero value is a function; cloning a map or record is the identity on values. The quoting of
  \<open>fmt.Sprintf("%q")\<close> is the argument \<open>quote\<close> of the operations that use it.
\<close>

section \<open>Data\<close>

type_synonym metadata = "gostring \<rightharpoonup> gostring"

record AudioInput =
  audPresent :: bool
  audFrames :: int
  audBytes :: int
  audCodec :: gostring
  audSampleRateHz :: int
  audChannels :: int

record ImageInput =
  imgName :: gostring
  imgURL :: gostring
  imgMIME :: gostring

record TurnInput =
  tiSessionID :: gostring
  tiTurnID :: gostring
  tiTraceID :: gostring
  tiDeviceID :: gostring
  tiClientType :: gostring
  tiUserText :: gostring
  tiAudio :: AudioInput
  tiImages :: "ImageInput list"
  tiMetadata :: metadata

record MemoryQuery =
  qSessionID :: gostring
  qDeviceID :: gostring
  qClientType :: gostring
  qUserID :: gostring
  qRoomID :: gostring
  qHouseholdID :: gostring
  qUserText :: gostring
  qMetadata :: metadata

record MemoryFact =
  factKey :: gostring
  factValue :: gostring
  factSource :: gostring

record ChatMessage =
  msgRole :: gostring
  msgContent :: gostring

record MemoryContext =
  ctxScope :: gostring
  ctxSummary :: gostring
  ctxFacts :: "MemoryFact list"
  ctxRecentMessages :: "ChatMessage list"

record MemoryRecord =
  recTurnID :: gostring
  recSessionID :: gostring
  recDeviceID :: gostring
  recClientType :: gostring
  recUserID :: gostring
  recRoomID :: gostring
  recHouseholdID :: gostring
  recUserText :: gostring
  recResponseText :: gostring
  recDeliveredText :: gostring
  recHeardText :: gostring
  recResponseInterrupted :: bool
  recResponseTruncated :: bool
  recPlaybackCompleted :: bool
  recMetadata :: metadata

record memoryScope =
  scKind :: gostring
  scID :: gostring
  scKey :: gostring
  scLabel :: gostring

record InMemoryMemoryStore =
  msMaxTurns :: int
  msRecentTurnSpan :: int
  msRecordsByScope :: "gostring \<Rightarrow> MemoryRecord list"

datatype MemoryStore = NoopMemoryStore | InMemory InMemoryMemoryStore

section \<open>Records and queries\<close>

fun memoryMetadataValue :: "metadata \<Rightarrow> gostring list \<Rightarrow> gostring" where
  "memoryMetadataValue m [] = []"
| "memoryMetadataValue m (key # keys) =
     (let value = TrimSpace (case m key of Some v \<Rightarrow> v | None \<Rightarrow> [])
      in if value \<noteq> [] then value else memoryMetadataValue m keys)"

definition userKeys :: "gostring list" where
  "userKeys = [lit ''memory.user_id'', lit ''user_id'', lit ''user.id'']"
definition roomKeys :: "gostring list" where
  "roomKeys = [lit ''memory.room_id'', lit ''room_id'', lit ''room.id'']"
definition householdKeys :: "gostring list" where
  "householdKeys = [lit ''memory.household_id'', lit ''household_id'', lit ''household.id'']"

definition buildMemoryQuery :: "TurnInput \<Rightarrow> gostring \<Rightarrow> metadata \<Rightarrow> MemoryQuery" where
  "buildMemoryQuery input trimmedText m =
     \<lparr>qSessionID = tiSessionID input, qDeviceID = tiDeviceID input, qClientType = tiClientType input,
      qUserID = memoryMetadataValue m userKeys, qRoomID = memoryMetadataValue m roomKeys,
      qHouseholdID = memoryMetadataValue m householdKeys, qUserText = trimmedText, qMetadata = m\<rparr>"

definition BuildMemoryRecord :: "TurnInput \<Rightarrow> gostring \<Rightarrow> gostring \<Rightarrow> metadata \<Rightarrow> MemoryRecord" where
  "BuildMemoryRecord input trimmedText responseText m =
     \<lparr>recTurnID = tiTurnID input, recSessionID = tiSessionID input, recDeviceID = tiDeviceID input,
      recClientType = tiClientType input, recUserID = memoryMetadataValue m userKeys,
      recRoomID = memoryMetadataValue m roomKeys, recHouseholdID = memoryMetadataValue m householdKeys,
      recUserText = trimmedText, recResponseText = responseText, recDeliveredText = [], recHeardText = [],
      recResponseInterrupted = False, recResponseTruncated = False, recPlaybackCompleted = False,
      recMetadata = m\<rparr>"

text \<open>What counts as said by the assistant: what was heard, or all of it once playback completed.\<close>

definition memoryAssistantText :: "MemoryRecord \<Rightarrow> gostring" where
  "memoryAssistantText r =
     (if TrimSpace (recHeardText r) \<noteq> [] then TrimSpace (recHeardText r)
      else if recPlaybackCompleted r \<and> TrimSpace (recDeliveredText r) \<noteq> [] then TrimSpace (recDeliveredText r)
      else if recPlaybackCompleted r \<and> TrimSpace (recResponseText r) \<noteq> [] then TrimSpace (recResponseText r)
      else [])"

section \<open>Scopes\<close>

definition appendScope :: "string \<Rightarrow> gostring \<Rightarrow> memoryScope list \<Rightarrow> memoryScope list" where
  "appendScope kind i scopes =
     (let t = TrimSpace i
      in if t = [] then scopes
         else scopes @ [\<lparr>scKind = lit kind, scID = t, scKey = lit kind @ lit '':'' @ t, scLabel = lit kind @ lit '' '' @ t\<rparr>])"

fun dedupeScan :: "gostring list \<Rightarrow> memoryScope list \<Rightarrow> memoryScope list" where
  "dedupeScan seen [] = []"
| "dedupeScan seen (s # ss) =
     (if scKey s \<in> set seen then dedupeScan seen ss else s # dedupeScan (scKey s # seen) ss)"

definition dedupeMemoryScopes :: "memoryScope list \<Rightarrow> memoryScope list" where
  "dedupeMemoryScopes scopes = (if length scopes \<le> 1 then scopes else dedupeScan [] scopes)"

definition memoryScopes :: "gostring \<Rightarrow> gostring \<Rightarrow> gostring \<Rightarrow> gostring \<Rightarrow> gostring \<Rightarrow> memoryScope list" where
  "memoryScopes sessionID deviceID userID roomID householdID =
     dedupeMemoryScopes (appendScope ''household'' householdID (appendScope ''room'' roomID
       (appendScope ''device'' deviceID (appendScope ''user'' userID (appendScope ''session'' sessionID [])))))"

definition memoryQueryScopes :: "MemoryQuery \<Rightarrow> memoryScope list" where
  "memoryQueryScopes q = memoryScopes (qSessionID q) (qDeviceID q) (qUserID q) (qRoomID q) (qHouseholdID q)"

definition memoryRecordScopes :: "MemoryRecord \<Rightarrow> memoryScope list" where
  "memoryRecordScopes r = memoryScopes (recSessionID r) (recDeviceID r) (recUserID r) (recRoomID r) (recHouseholdID r)"

section \<open>The in-memory store\<close>

definition NewInMemoryMemoryStore :: "int \<Rightarrow> InMemoryMemoryStore" where
  "NewInMemoryMemoryStore maxTurns0 =
     (let maxTurns = (if maxTurns0 \<le> 0 then 8 else maxTurns0)
      in \<lparr>msMaxTurns = maxTurns, msRecentTurnSpan = (if maxTurns < 4 then maxTurns else 4),
          msRecordsByScope = (\<lambda>_. [])\<rparr>)"

text \<open>The inner loop of \<open>SaveTurn\<close>: the first record of the turn is overwritten, if there is one.\<close>

fun overwriteTurn :: "MemoryRecord \<Rightarrow> MemoryRecord list \<Rightarrow> MemoryRecord list option" where
  "overwriteTurn r [] = None"
| "overwriteTurn r (x # xs) =
     (if recTurnID x = recTurnID r then Some (r # xs) else map_option (\<lambda>ys. x # ys) (overwriteTurn r xs))"

definition saveInScope :: "int \<Rightarrow> MemoryRecord \<Rightarrow> MemoryRecord list \<Rightarrow> MemoryRecord list" where
  "saveInScope maxTurns r existing =
     (let updated = (if recTurnID r \<noteq> [] then overwriteTurn r existing else None);
          existing' = (case updated of Some xs \<Rightarrow> xs | None \<Rightarrow> existing @ [r])
      in if int (length existing') > maxTurns then drop (length existing' - nat maxTurns) existing' else existing')"

definition SaveTurn :: "MemoryRecord \<Rightarrow> InMemoryMemoryStore \<Rightarrow> InMemoryMemoryStore" where
  "SaveTurn r s =
     fold (\<lambda>scope s. s\<lparr>msRecordsByScope := (msRecordsByScope s)
                         (scKey scope := saveInScope (msMaxTurns s) r (msRecordsByScope s (scKey scope)))\<rparr>)
       (memoryRecordScopes r) s"

definition turnMessages :: "MemoryRecord \<Rightarrow> ChatMessage list" where
  "turnMessages r =
     (if TrimSpace (recUserText r) \<noteq> [] then [\<lparr>msgRole = lit ''user'', msgContent = recUserText r\<rparr>] else [])
     @ (if memoryAssistantText r \<noteq> [] then [\<lparr>msgRole = lit ''assistant'', msgContent = memoryAssistantText r\<rparr>] else [])"

definition recentMessages :: "InMemoryMemoryStore \<Rightarrow> MemoryRecord list \<Rightarrow> ChatMessage list" where
  "recentMessages s records =
     (let start = int (length records) - msRecentTurnSpan s
      in concat (map turnMessages (drop (nat (if start < 0 then 0 else start)) records)))"

definition inMemoryFact :: "gostring \<Rightarrow> gostring \<Rightarrow> MemoryFact" where
  "inMemoryFact k v = \<lparr>factKey = k, factValue = v, factSource = lit ''in_memory''\<rparr>"

definition recentFacts :: "int \<Rightarrow> MemoryRecord \<Rightarrow> MemoryFact list" where
  "recentFacts ordinal r =
     (if TrimSpace (recUserText r) \<noteq> [] then [inMemoryFact (lit ''recent_user_'' @ Itoa ordinal) (recUserText r)] else [])
     @ (if memoryAssistantText r \<noteq> [] then [inMemoryFact (lit ''recent_response_'' @ Itoa ordinal) (memoryAssistantText r)] else [])"

definition emptyContext :: MemoryContext where
  "emptyContext = \<lparr>ctxScope = [], ctxSummary = [], ctxFacts = [], ctxRecentMessages = []\<rparr>"

definition LoadTurnContext :: "(gostring \<Rightarrow> gostring) \<Rightarrow> MemoryQuery \<Rightarrow> InMemoryMemoryStore \<Rightarrow> MemoryContext" where
  "LoadTurnContext quote q s =
     (let scoped = map (\<lambda>sc. (sc, msRecordsByScope s (scKey sc))) (memoryQueryScopes q);
          available = filter (\<lambda>(sc, rs). rs \<noteq> []) scoped
      in case available of
           [] \<Rightarrow> emptyContext
         | (primary, records) # _ \<Rightarrow>
             let latest = last records; latestAssistant = memoryAssistantText latest;
                 n = Itoa (int (length records))
             in \<lparr>ctxScope = scLabel primary,
                 ctxSummary = lit ''remembered '' @ n @ lit '' turn(s) for '' @ scLabel primary
                   @ lit ''. most recent user text: '' @ quote (recUserText latest)
                   @ lit ''. most recent heard response: '' @ quote latestAssistant @ lit ''.'',
                 ctxFacts =
                   [inMemoryFact (lit ''recent_turn_count'') n, inMemoryFact (lit ''memory_scope'') (scLabel primary),
                    inMemoryFact (lit ''memory_scope_kind'') (scKind primary)]
                   @ (if TrimSpace (recUserText latest) \<noteq> [] then [inMemoryFact (lit ''last_user_text'') (recUserText latest)] else [])
                   @ (if TrimSpace (recResponseText latest) \<noteq> []
                      then [inMemoryFact (lit ''last_response_text'') (recResponseText latest)] else [])
                   @ (if latestAssistant \<noteq> [] then [inMemoryFact (lit ''last_heard_text'') latestAssistant] else [])
                   @ map (\<lambda>(sc, rs). inMemoryFact (scKind sc @ lit ''_turn_count'') (Itoa (int (length rs)))) available
                   @ concat (map (\<lambda>(i, r). recentFacts i r) (zip [1, 2, 3] (rev records))),
                 ctxRecentMessages = recentMessages s records\<rparr>)"

section \<open>The interface\<close>

text \<open>The dynamic dispatch of the interface value.\<close>

fun storeSaveTurn :: "MemoryRecord \<Rightarrow> MemoryStore \<Rightarrow> MemoryStore" where
  "storeSaveTurn r NoopMemoryStore = NoopMemoryStore"
| "storeSaveTurn r (InMemory s) = InMemory (SaveTurn r s)"

fun storeLoadTurnContext :: "(gostring \<Rightarrow> gostring) \<Rightarrow> MemoryQuery \<Rightarrow> MemoryStore \<Rightarrow> MemoryContext" where
  "storeLoadTurnContext quote q NoopMemoryStore = emptyContext"
| "storeLoadTurnContext quote q (InMemory s) = LoadTurnContext quote q s"


section \<open>Lemmas\<close>

text \<open>The store invariant: no scope holds more than the configured number of turns.\<close>

definition store_inv :: "InMemoryMemoryStore \<Rightarrow> bool" where
  "store_inv s \<longleftrightarrow> 0 < msMaxTurns s \<and> 0 < msRecentTurnSpan s \<and> msRecentTurnSpan s \<le> msMaxTurns s \<and>
     (\<forall>k. int (length (msRecordsByScope s k)) \<le> msMaxTurns s)"

lemma dedupeScan_keys:
  "distinct (map scKey (dedupeScan seen ss)) \<and> scKey ` set (dedupeScan seen ss) \<inter> set seen = {}"
  by (induction seen ss rule: dedupeScan.induct) auto

lemma distinct_scopes: "distinct (map scKey (memoryScopes a b c d e))"
proof -
  have "distinct (map scKey (dedupeMemoryScopes ss))" for ss
    using dedupeScan_keys [of "[]" ss] by (cases ss) (auto simp: dedupeMemoryScopes_def)
  then show ?thesis by (simp add: memoryScopes_def)
qed

lemma fold_scopes:
  assumes "distinct (map scKey scs)"
  shows "msMaxTurns (fold (\<lambda>scope s. s\<lparr>msRecordsByScope := (msRecordsByScope s)
              (scKey scope := saveInScope (msMaxTurns s) r (msRecordsByScope s (scKey scope)))\<rparr>) scs s) = msMaxTurns s \<and>
    msRecentTurnSpan (fold (\<lambda>scope s. s\<lparr>msRecordsByScope := (msRecordsByScope s)
              (scKey scope := saveInScope (msMaxTurns s) r (msRecordsByScope s (scKey scope)))\<rparr>) scs s) = msRecentTurnSpan s \<and>
    (\<forall>k. msRecordsByScope (fold (\<lambda>scope s. s\<lparr>msRecordsByScope := (msRecordsByScope s)
              (scKey scope := saveInScope (msMaxTurns s) r (msRecordsByScope s (scKey scope)))\<rparr>) scs s) k =
      (if k \<in> scKey ` set scs then saveInScope (msMaxTurns s) r (msRecordsByScope s k) else msRecordsByScope s k))"
  using assms by (induction scs arbitrary: s) auto

lemma SaveTurn_fields [simp]:
  "msMaxTurns (SaveTurn r s) = msMaxTurns s" "msRecentTurnSpan (SaveTurn r s) = msRecentTurnSpan s"
  "msRecordsByScope (SaveTurn r s) k =
     (if k \<in> scKey ` set (memoryRecordScopes r) then saveInScope (msMaxTurns s) r (msRecordsByScope s k)
      else msRecordsByScope s k)"
  using fold_scopes [of "memoryRecordScopes r" r s] by (simp_all add: SaveTurn_def memoryRecordScopes_def distinct_scopes)

lemma overwriteTurn_Some:
  "overwriteTurn r xs = Some ys \<Longrightarrow> \<exists>i < length xs. ys = xs[i := r] \<and> recTurnID (xs ! i) = recTurnID r"
proof (induction xs arbitrary: ys)
  case (Cons x xs)
  show ?case
  proof (cases "recTurnID x = recTurnID r")
    case True
    then show ?thesis using Cons.prems by (intro exI [of _ 0]) simp
  next
    case False
    with Cons.prems obtain zs where "overwriteTurn r xs = Some zs" "ys = x # zs" by auto
    with Cons.IH obtain i where "i < length xs" "zs = xs[i := r]" "recTurnID (xs ! i) = recTurnID r" by blast
    then show ?thesis using \<open>ys = x # zs\<close> by (intro exI [of _ "Suc i"]) simp
  qed
qed simp

lemma overwriteTurn_None: "overwriteTurn r xs = None \<longleftrightarrow> (\<forall>x \<in> set xs. recTurnID x \<noteq> recTurnID r)"
  by (induction xs) auto

lemma overwriteTurn_twice:
  "recTurnID r' = recTurnID r \<Longrightarrow> overwriteTurn r' xs = Some ys \<Longrightarrow> overwriteTurn r ys = overwriteTurn r xs"
  by (induction xs arbitrary: ys) (auto split: if_splits)

lemma overwriteTurn_snoc:
  "overwriteTurn r xs = None \<Longrightarrow> recTurnID r' = recTurnID r \<Longrightarrow> overwriteTurn r (xs @ [r']) = Some (xs @ [r])"
  by (induction xs) (auto split: if_splits)

lemma saveInScope_cases:
  assumes "int (length xs) \<le> m" and "0 < m"
  obtains (overwrite) ys where "recTurnID r \<noteq> []" "overwriteTurn r xs = Some ys" "saveInScope m r xs = ys" "length ys = length xs"
  | (add) "recTurnID r = [] \<or> overwriteTurn r xs = None"
      "saveInScope m r xs = drop (if int (length xs) = m then 1 else 0) xs @ [r]"
proof (cases "recTurnID r \<noteq> [] \<and> overwriteTurn r xs \<noteq> None")
  case True
  then obtain ys where ys: "overwriteTurn r xs = Some ys" by blast
  then have "length ys = length xs" using overwriteTurn_Some by fastforce
  with True ys assms show thesis by (intro overwrite [of ys]) (simp_all add: saveInScope_def Let_def)
next
  case False
  have "drop (length (xs @ [r]) - nat m) (xs @ [r]) = drop (length xs + 1 - nat m) xs @ [r]"
    using assms by simp
  then have "saveInScope m r xs = drop (if int (length xs) = m then 1 else 0) xs @ [r]"
    using False assms by (auto simp: saveInScope_def Let_def split: option.splits)
  with False show thesis by (intro add) auto
qed

lemma saveInScope_length: "int (length xs) \<le> m \<Longrightarrow> 0 < m \<Longrightarrow> int (length (saveInScope m r xs)) \<le> m \<and> saveInScope m r xs \<noteq> []"
  by (cases rule: saveInScope_cases [of xs m r]) (auto dest: overwriteTurn_Some)

lemma store_inv_New: "store_inv (NewInMemoryMemoryStore n)"
  by (simp add: store_inv_def NewInMemoryMemoryStore_def Let_def)

lemma store_inv_Save: "store_inv s \<Longrightarrow> store_inv (SaveTurn r s)"
  by (simp add: store_inv_def saveInScope_length)

text \<open>Saving a turn again replaces what was saved for it.\<close>

lemma saveInScope_overwrite:
  assumes "int (length xs) \<le> m" and "0 < m" and "recTurnID r \<noteq> []" and "recTurnID r' = recTurnID r"
  shows "saveInScope m r (saveInScope m r' xs) = saveInScope m r xs"
  using assms(1,2)
proof (cases rule: saveInScope_cases [where r = r'])
  case (overwrite ys)
  have "overwriteTurn r xs \<noteq> None"
    using overwrite(2) overwriteTurn_None [of r xs] overwriteTurn_None [of r' xs] assms(4) by auto
  then obtain zs where "overwriteTurn r xs = Some zs" by blast
  then show ?thesis using overwrite overwriteTurn_twice [OF assms(4) overwrite(2)] assms(3)
    by (simp add: saveInScope_def [of m r])
next
  case add
  let ?d = "drop (if int (length xs) = m then 1 else 0) xs"
  have n: "overwriteTurn r xs = None" using add(1) assms by (auto simp: overwriteTurn_None)
  then have "overwriteTurn r ?d = None" by (auto simp: overwriteTurn_None dest: in_set_dropD)
  then have "saveInScope m r (?d @ [r']) = ?d @ [r]"
    using assms by (auto simp: saveInScope_def overwriteTurn_snoc Let_def)
  moreover have "saveInScope m r xs = ?d @ [r]"
    using assms(1,2) n by (cases rule: saveInScope_cases [where r = r]) auto
  ultimately show ?thesis by (simp add: add(2))
qed


lemma SaveTurn_overwrite:
  assumes "store_inv s" and "recTurnID r \<noteq> []" and "recTurnID r' = recTurnID r"
    and "memoryRecordScopes r' = memoryRecordScopes r"
  shows "SaveTurn r (SaveTurn r' s) = SaveTurn r s"
proof -
  have "msRecordsByScope (SaveTurn r (SaveTurn r' s)) = msRecordsByScope (SaveTurn r s)"
    using assms by (intro ext) (simp add: store_inv_def saveInScope_overwrite)
  then show ?thesis by (intro InMemoryMemoryStore.equality) simp_all
qed

text \<open>The records of the primary scope of a query, from which the recent messages are made.\<close>

fun firstRecords :: "(gostring \<Rightarrow> MemoryRecord list) \<Rightarrow> gostring list \<Rightarrow> MemoryRecord list" where
  "firstRecords f [] = []"
| "firstRecords f (k # ks) = (if f k \<noteq> [] then f k else firstRecords f ks)"

lemma firstRecords_filter:
  "firstRecords f (map scKey scs) =
     (case filter (\<lambda>(sc, rs). rs \<noteq> []) (map (\<lambda>sc. (sc, f (scKey sc))) scs) of [] \<Rightarrow> [] | (sc, rs) # _ \<Rightarrow> rs)"
  by (induction scs) auto

lemma load_messages:
  "ctxRecentMessages (LoadTurnContext quote q s) =
     recentMessages s (firstRecords (msRecordsByScope s) (map scKey (memoryQueryScopes q)))"
  unfolding LoadTurnContext_def Let_def firstRecords_filter
  by (auto simp: emptyContext_def recentMessages_def split: list.split)

lemma firstRecords_change:
  assumes "\<And>k. g k = f k \<or> g k \<noteq> []"
  shows "\<exists>k. firstRecords g ks = g k \<and> (firstRecords f ks = f k \<or> f k = []) \<or> firstRecords g ks = [] \<and> firstRecords f ks = []"
proof (induction ks)
  case (Cons k ks)
  show ?case
  proof (cases "g k = []")
    case True
    then have "f k = []" using assms [of k] by auto
    with True Cons show ?thesis by simp
  next
    case False
    then show ?thesis by (intro exI [of _ k]) auto
  qed
qed simp

definition window :: "InMemoryMemoryStore \<Rightarrow> MemoryRecord list \<Rightarrow> MemoryRecord list" where
  "window s xs = drop (length xs - nat (msRecentTurnSpan s)) xs"

lemma recentMessages_window: "0 < msRecentTurnSpan s \<Longrightarrow> recentMessages s xs = concat (map turnMessages (window s xs))"
  by (auto simp: recentMessages_def window_def Let_def nat_diff_distrib intro!: arg_cong [of _ _ concat] arg_cong [of _ _ "map turnMessages"]
      arg_cong2 [of _ _ _ _ drop])

lemma drop_set_antimono: "i \<le> j \<Longrightarrow> set (drop j xs) \<subseteq> set (drop i xs)"
  by (metis set_drop_subset_set_drop)

lemma window_save:
  assumes "store_inv s" and "int (length xs) \<le> msMaxTurns s"
  shows "set (window s (saveInScope (msMaxTurns s) r xs)) \<subseteq> insert r (set (window s xs))"
proof -
  let ?n = "nat (msRecentTurnSpan s)"
  have m: "0 < msMaxTurns s" "0 < ?n" "?n \<le> nat (msMaxTurns s)" using assms(1) by (auto simp: store_inv_def)
  show ?thesis using assms(2) m(1)
  proof (cases rule: saveInScope_cases [where r = r])
    case (overwrite ys)
    then obtain i where "ys = xs[i := r]" using overwriteTurn_Some by blast
    moreover have "set (drop k (xs[i := r])) \<subseteq> insert r (set (drop k xs))" for k
      by (cases "i < k") (auto simp: drop_update_swap dest: set_update_subset_insert [THEN subsetD])
    ultimately show ?thesis by (simp add: overwrite window_def)
  next
    case add
    let ?d = "if int (length xs) = msMaxTurns s then 1 else 0 :: nat"
    have "window s (drop ?d xs @ [r]) = drop (length xs - ?d + 1 - ?n) (drop ?d xs) @ [r]"
      using m by (simp add: window_def)
    moreover have "set (drop (length xs - ?d + 1 - ?n) (drop ?d xs)) \<subseteq> set (drop (length xs - ?n) xs)"
    proof -
      have "length xs - ?n \<le> (length xs - ?d + 1 - ?n) + ?d" by simp
      then show ?thesis unfolding drop_drop by (rule drop_set_antimono)
    qed
    ultimately show ?thesis unfolding add(2) by (auto simp: window_def)
  qed
qed

lemma load_messages_save:
  assumes "store_inv s"
  shows "set (ctxRecentMessages (LoadTurnContext quote q (SaveTurn r s))) \<subseteq>
    set (ctxRecentMessages (LoadTurnContext quote q s)) \<union> set (turnMessages r)"
proof -
  let ?f = "msRecordsByScope s" and ?g = "msRecordsByScope (SaveTurn r s)" and ?ks = "map scKey (memoryQueryScopes q)"
  have span: "0 < msRecentTurnSpan s" and len: "int (length (?f k)) \<le> msMaxTurns s" and pos: "0 < msMaxTurns s" for k
    using assms by (auto simp: store_inv_def)
  have w: "set (window s (?g k)) \<subseteq> insert r (set (window s (?f k)))" for k
    using window_save [OF assms len] by auto
  have "\<And>k. ?g k = ?f k \<or> ?g k \<noteq> []" using saveInScope_length [OF len pos] by simp
  from firstRecords_change [of ?g ?f ?ks, OF this]
  have "set (window s (firstRecords ?g ?ks)) \<subseteq> insert r (set (window s (firstRecords ?f ?ks)))"
  proof (elim exE disjE conjE)
    fix k assume "firstRecords ?g ?ks = ?g k" "?f k = []"
    then show ?thesis using w [of k] by (auto simp: window_def)
  qed (use w in \<open>auto simp: window_def\<close>)
  moreover have "window (SaveTurn r s) = window s" by (simp add: window_def fun_eq_iff)
  ultimately show ?thesis using span by (auto simp: load_messages recentMessages_window)
qed


section \<open>The contract of a memory store\<close>

text \<open>
  What the callers of \<open>MemoryStore\<close> rely on: saving keeps the store well formed, saving a turn again
  replaces the earlier version, and the messages of a context come from saved turns only.
\<close>

locale memory_store =
  fixes init :: "'s" and save :: "MemoryRecord \<Rightarrow> 's \<Rightarrow> 's" and messages :: "MemoryQuery \<Rightarrow> 's \<Rightarrow> ChatMessage list"
    and inv :: "'s \<Rightarrow> bool"
  assumes inv_init: "inv init"
    and inv_save: "inv s \<Longrightarrow> inv (save r s)"
    and messages_init: "messages q init = []"
    and save_again: "inv s \<Longrightarrow> recTurnID r \<noteq> [] \<Longrightarrow> recTurnID r' = recTurnID r \<Longrightarrow>
      memoryRecordScopes r' = memoryRecordScopes r \<Longrightarrow> save r (save r' s) = save r s"
    and messages_save: "inv s \<Longrightarrow> set (messages q (save r s)) \<subseteq> set (messages q s) \<union> set (turnMessages r)"
begin

lemma inv_saves: "inv s \<Longrightarrow> inv (fold save rs s)"
  by (induction rs arbitrary: s) (simp_all add: inv_save)

lemma messages_saves:
  "inv s \<Longrightarrow> set (messages q (fold save rs s)) \<subseteq> set (messages q s) \<union> (\<Union>r \<in> set rs. set (turnMessages r))"
proof (induction rs arbitrary: s)
  case (Cons r rs)
  have "set (messages q (fold save rs (save r s))) \<subseteq> set (messages q (save r s)) \<union> (\<Union>r \<in> set rs. set (turnMessages r))"
    using Cons.prems by (intro Cons.IH inv_save)
  then show ?case using messages_save [OF Cons.prems, of q r] by auto
qed simp

lemma messages_from_saved:
  "msg \<in> set (messages q (fold save rs init)) \<Longrightarrow> \<exists>r \<in> set rs. msg \<in> set (turnMessages r)"
  using messages_saves [OF inv_init, of q rs] messages_init by auto

lemma last_save_wins:
  assumes "inv s" and "recTurnID r \<noteq> []" and "\<forall>r' \<in> set rs. recTurnID r' = recTurnID r \<and> memoryRecordScopes r' = memoryRecordScopes r"
  shows "save r (fold save rs s) = save r s"
  using assms
proof (induction rs rule: rev_induct)
  case (snoc x xs)
  have "save r (save x (fold save xs s)) = save r (fold save xs s)"
  proof (rule save_again)
    show "inv (fold save xs s)" using snoc.prems(1) by (rule inv_saves)
    show "recTurnID x = recTurnID r" and "memoryRecordScopes x = memoryRecordScopes r"
      using snoc.prems(3) by simp_all
  qed (fact snoc.prems(2))
  also have "\<dots> = save r s"
    by (rule snoc.IH [OF snoc.prems(1,2)]) (use snoc.prems(3) in simp)
  finally show ?case by simp
qed simp

end

interpretation in_memory: memory_store "NewInMemoryMemoryStore n" SaveTurn
    "\<lambda>q s. ctxRecentMessages (LoadTurnContext quote q s)" store_inv
  for n quote
proof (unfold_locales, goal_cases)
  case 1 show ?case by (rule store_inv_New)
next
  case (2 s r) then show ?case by (rule store_inv_Save)
next
  case (3 q)
  have "firstRecords (\<lambda>_. []) ks = []" for ks by (induction ks) auto
  then show ?case by (simp add: load_messages recentMessages_def NewInMemoryMemoryStore_def Let_def)
next
  case (4 s r r') then show ?case by (rule SaveTurn_overwrite)
next
  case (5 s q r) then show ?case by (rule load_messages_save)
qed

text \<open>The no-op store satisfies the contract by forgetting, and so does the dispatching interface value.\<close>

fun dispatch_inv :: "MemoryStore \<Rightarrow> bool" where
  "dispatch_inv NoopMemoryStore = True"
| "dispatch_inv (InMemory s) = store_inv s"

interpretation noop: memory_store NoopMemoryStore storeSaveTurn
    "\<lambda>q s. ctxRecentMessages (storeLoadTurnContext quote q s)" dispatch_inv
  for quote
proof (unfold_locales, goal_cases)
  case (2 s r) then show ?case by (cases s) (simp_all add: store_inv_Save)
next
  case (4 s r r') then show ?case by (cases s) (simp_all add: SaveTurn_overwrite)
next
  case (5 s q r) then show ?case by (cases s) (simp_all add: load_messages_save emptyContext_def)
qed (simp_all add: emptyContext_def)

interpretation dispatch: memory_store "InMemory (NewInMemoryMemoryStore n)" storeSaveTurn
    "\<lambda>q s. ctxRecentMessages (storeLoadTurnContext quote q s)" dispatch_inv
  for n quote
proof (unfold_locales, goal_cases)
  case 1 show ?case by (simp add: store_inv_New)
next
  case (2 s r) then show ?case by (cases s) (simp_all add: store_inv_Save)
next
  case (3 q) show ?case using in_memory.messages_init by simp
next
  case (4 s r r') then show ?case by (cases s) (simp_all add: SaveTurn_overwrite)
next
  case (5 s q r) then show ?case by (cases s) (simp_all add: load_messages_save emptyContext_def)
qed

text \<open>A saved turn that is new to its session is the last one recalled for that session.\<close>

definition sessionKey :: "gostring \<Rightarrow> gostring" where
  "sessionKey sid = lit ''session'' @ lit '':'' @ TrimSpace sid"

lemma appendScope_Cons: "\<exists>ys. appendScope k i (x # xs) = x # ys"
  by (simp add: appendScope_def Let_def)

lemma memoryScopes_session:
  assumes "TrimSpace sid \<noteq> []"
  shows "\<exists>x rest. memoryScopes sid a b c d = x # rest \<and> scKey x = sessionKey sid"
proof -
  let ?x = "\<lparr>scKind = lit ''session'', scID = TrimSpace sid, scKey = lit ''session'' @ lit '':'' @ TrimSpace sid,
      scLabel = lit ''session'' @ lit '' '' @ TrimSpace sid\<rparr>"
  have s: "appendScope ''session'' sid [] = [?x]" using assms by (simp add: appendScope_def Let_def)
  obtain y1 where y1: "appendScope ''user'' b [?x] = ?x # y1" using appendScope_Cons by blast
  obtain y2 where y2: "appendScope ''device'' a (?x # y1) = ?x # y2" using appendScope_Cons by blast
  obtain y3 where y3: "appendScope ''room'' c (?x # y2) = ?x # y3" using appendScope_Cons by blast
  obtain ys where "appendScope ''household'' d (?x # y3) = ?x # ys" using appendScope_Cons by blast
  then have "memoryScopes sid a b c d = dedupeMemoryScopes (?x # ys)" unfolding memoryScopes_def s y1 y2 y3 by simp
  then show ?thesis by (auto simp: dedupeMemoryScopes_def sessionKey_def)
qed

lemma window_snoc: "0 < msRecentTurnSpan s \<Longrightarrow> \<exists>ys. window s (xs @ [r]) = ys @ [r]"
  by (auto simp: window_def)

lemma recall_saved_turn:
  assumes "store_inv s" and "TrimSpace (recSessionID r) \<noteq> []" and "TrimSpace (qSessionID q) = TrimSpace (recSessionID r)"
    and "\<forall>x \<in> set (msRecordsByScope s (sessionKey (recSessionID r))). recTurnID x \<noteq> recTurnID r"
  shows "suffix (turnMessages r) (ctxRecentMessages (LoadTurnContext quote q (SaveTurn r s)))"
proof -
  let ?k = "sessionKey (recSessionID r)"
  let ?xs = "msRecordsByScope s ?k"
  have inv: "0 < msRecentTurnSpan s" "0 < msMaxTurns s" "int (length ?xs) \<le> msMaxTurns s" using assms(1) by (auto simp: store_inv_def)
  obtain x rest where m: "memoryRecordScopes r = x # rest" "scKey x = ?k"
    using memoryScopes_session [OF assms(2)] unfolding memoryRecordScopes_def by metis
  have "sessionKey (qSessionID q) = ?k" using assms(3) by (simp add: sessionKey_def)
  moreover have "TrimSpace (qSessionID q) \<noteq> []" using assms(2,3) by simp
  ultimately obtain y rest' where q: "memoryQueryScopes q = y # rest'" "scKey y = ?k"
    using memoryScopes_session [of "qSessionID q"] unfolding memoryQueryScopes_def by metis
  have "overwriteTurn r ?xs = None" using assms(4) by (simp add: overwriteTurn_None)
  with inv(3,2) obtain zs where z: "saveInScope (msMaxTurns s) r ?xs = zs @ [r]"
    by (cases rule: saveInScope_cases [where r = r]) auto
  have "msRecordsByScope (SaveTurn r s) ?k = zs @ [r]" using z m by simp
  then have "ctxRecentMessages (LoadTurnContext quote q (SaveTurn r s)) = recentMessages (SaveTurn r s) (zs @ [r])"
    using q by (simp add: load_messages)
  also obtain ys where "\<dots> = concat (map turnMessages (ys @ [r]))"
    using inv(1) window_snoc [of "SaveTurn r s" zs r] by (auto simp: recentMessages_window)
  finally show ?thesis by (simp add: suffix_def)
qed

section \<open>Properties\<close>

text \<open>
  memory never invents or leaks an unheard answer. Every message of a loaded context is the user
  text of a saved turn or its assistant text, and the assistant text is what the user heard, or,
  where nothing was recorded as heard, an answer whose playback completed.
\<close>
theorem context_messages_from_saved_turns:
  assumes "msg \<in> set (ctxRecentMessages (LoadTurnContext quote q (fold SaveTurn rs (NewInMemoryMemoryStore n))))"
  shows "\<exists>r \<in> set rs. msg = \<lparr>msgRole = lit ''user'', msgContent = recUserText r\<rparr> \<or>
    msgRole msg = lit ''assistant'' \<and>
    (msgContent msg = TrimSpace (recHeardText r) \<or> recPlaybackCompleted r \<and> TrimSpace (recHeardText r) = [])"
proof -
  obtain r where "r \<in> set rs" "msg \<in> set (turnMessages r)" using in_memory.messages_from_saved [OF assms] by blast
  then show ?thesis by (intro bexI [of _ r]) (auto simp: turnMessages_def memoryAssistantText_def split: if_splits)
qed

definition sampleRecord :: MemoryRecord where
  "sampleRecord = (BuildMemoryRecord \<lparr>tiSessionID = lit ''s1'', tiTurnID = lit ''t1'', tiTraceID = [], tiDeviceID = lit ''d1'',
     tiClientType = [], tiUserText = lit ''hi'', tiAudio = \<lparr>audPresent = False, audFrames = 0, audBytes = 0, audCodec = [],
     audSampleRateHz = 0, audChannels = 0\<rparr>, tiImages = [], tiMetadata = Map.empty\<rparr> (lit ''hi'') (lit ''hello there'') Map.empty)
     \<lparr>recHeardText := lit ''hello''\<rparr>"

definition sampleQuery :: MemoryQuery where
  "sampleQuery = \<lparr>qSessionID = lit ''s1'', qDeviceID = lit ''d1'', qClientType = [], qUserID = [], qRoomID = [],
     qHouseholdID = [], qUserText = [], qMetadata = Map.empty\<rparr>"

theorem context_messages_from_saved_turns_witness:
  "\<exists>r \<in> set [sampleRecord]. \<lparr>msgRole = lit ''assistant'', msgContent = lit ''hello''\<rparr> = \<lparr>msgRole = lit ''user'', msgContent = recUserText r\<rparr> \<or>
    msgRole \<lparr>msgRole = lit ''assistant'', msgContent = lit ''hello''\<rparr> = lit ''assistant'' \<and>
    (msgContent \<lparr>msgRole = lit ''assistant'', msgContent = lit ''hello''\<rparr> = TrimSpace (recHeardText r) \<or>
     recPlaybackCompleted r \<and> TrimSpace (recHeardText r) = [])"
  by (rule context_messages_from_saved_turns [where quote = id and q = sampleQuery and n = 8]) code_simp

text \<open>
  the store is bounded and keeps the newest version of a turn: after any saves no scope holds more
  than the configured number of turns, and saving a turn again (same turn and scopes) is the same as
  having saved only the newest version.
\<close>
theorem store_bounded_and_upserts:
  assumes "s = fold SaveTurn rs (NewInMemoryMemoryStore n)"
  shows "(\<forall>k. int (length (msRecordsByScope s k)) \<le> (if n \<le> 0 then 8 else n)) \<and>
    (recTurnID r \<noteq> [] \<and> recTurnID r' = recTurnID r \<and> memoryRecordScopes r' = memoryRecordScopes r \<longrightarrow>
      SaveTurn r (SaveTurn r' s) = SaveTurn r s)"
proof -
  have i: "store_inv s" unfolding assms by (intro in_memory.inv_saves store_inv_New)
  have "msMaxTurns (fold SaveTurn rs t) = msMaxTurns t" for t by (induction rs arbitrary: t) simp_all
  then have "msMaxTurns s = (if n \<le> 0 then 8 else n)" by (simp add: assms NewInMemoryMemoryStore_def Let_def)
  then show ?thesis using i SaveTurn_overwrite [OF i] by (auto simp: store_inv_def)
qed

theorem store_bounded_and_upserts_witness:
  "SaveTurn (sampleRecord\<lparr>recHeardText := lit ''hello there''\<rparr>) (SaveTurn sampleRecord (NewInMemoryMemoryStore 2)) =
   SaveTurn (sampleRecord\<lparr>recHeardText := lit ''hello there''\<rparr>) (NewInMemoryMemoryStore 2)"
proof -
  let ?r = "sampleRecord\<lparr>recHeardText := lit ''hello there''\<rparr>"
  have "recTurnID ?r \<noteq> []" "recTurnID sampleRecord = recTurnID ?r" "memoryRecordScopes sampleRecord = memoryRecordScopes ?r"
    by (simp_all add: sampleRecord_def BuildMemoryRecord_def memoryRecordScopes_def)
  moreover have "NewInMemoryMemoryStore 2 = fold SaveTurn [] (NewInMemoryMemoryStore 2)" by simp
  ultimately show ?thesis by (intro store_bounded_and_upserts [THEN conjunct2, THEN mp] conjI)
qed

end
