(* ===== verification/Orchestrator.thy ===== *)
theory Orchestrator
  imports Heard_Text Memory_Store
begin

text \<open>
  The session orchestrator of \<open>internal/voice/session_orchestrator.go\<close>: the input preview, the turn
  being played, what of it was heard, and the record of both in memory. Every method runs under the
  mutex of the orchestrator, so it is one function on its state; a method that calls a preview session
  outside the lock takes what the session answers as an argument. A preview session is known by its
  handle, and the handles an operation closes are part of its result.
\<close>

section \<open>Data\<close>

record TranscriptionResult =
  trText :: gostring
  trSegments :: "gostring list"
  trDurationMs :: int
  trElapsedMs :: int
  trModel :: gostring
  trDevice :: gostring
  trLanguage :: gostring
  trEmotion :: gostring
  trSpeakerID :: gostring
  trAudioEvents :: "gostring list"
  trEndpointReason :: gostring
  trPartials :: "gostring list"
  trMode :: gostring

definition emptyTranscription :: TranscriptionResult where
  "emptyTranscription = \<lparr>trText = [], trSegments = [], trDurationMs = 0, trElapsedMs = 0, trModel = [], trDevice = [],
     trLanguage = [], trEmotion = [], trSpeakerID = [], trAudioEvents = [], trEndpointReason = [], trPartials = [],
     trMode = []\<rparr>"

record TurnRequest =
  rqSessionID :: gostring
  rqTurnID :: gostring
  rqTraceID :: gostring
  rqDeviceID :: gostring
  rqClientType :: gostring
  rqText :: gostring
  rqMetadata :: metadata
  rqPreviewTranscription :: "TranscriptionResult option"
  rqAudioPCM :: "byte list"
  rqAudioBytes :: int
  rqInputFrames :: int
  rqInputCodec :: gostring
  rqInputSampleRate :: int
  rqInputChannels :: int

record PlaybackOutcome =
  poTurnID :: gostring
  poDeliveredText :: gostring
  poHeardText :: gostring
  poMissedText :: gostring
  poResumeAnchor :: gostring
  poHeardTextBoundary :: HeardTextBoundary
  poHeardSource :: HeardTextSource
  poHeardConfidence :: HeardTextConfidence
  poHeardPrecisionTier :: HeardTextPrecisionTier
  poHeardRatioPercent :: int
  poPlaybackCompleted :: bool
  poResponseInterrupted :: bool
  poResponseTruncated :: bool
  poInterruptionPolicy :: InterruptionPolicy
  poInterruptionReason :: gostring
  poPlayedDuration :: duration
  poPlannedDuration :: duration

record PlaybackInterruption =
  piPolicy :: InterruptionPolicy
  piReason :: gostring
  piHeardText :: gostring
  piHeardTextBoundary :: HeardTextBoundary
  piPlayedDuration :: duration
  piPlannedDuration :: duration
  piTruncated :: bool

record softRecoverySnapshot =
  srPolicy :: InterruptionPolicy
  srReason :: gostring
  srHeardText :: gostring
  srHeardTextBoundary :: HeardTextBoundary
  srHeardSource :: HeardTextSource
  srHeardConfidence :: HeardTextConfidence
  srHeardPrecision :: HeardTextPrecisionTier
  srPlayedDuration :: duration

record orchestratedTurn =
  otRequest :: TurnRequest
  otInputText :: gostring
  otMetadata :: metadata
  otResponseText :: gostring
  otDeliveredText :: gostring
  otHeardText :: gostring
  otPlaybackActive :: bool
  otPlaybackCompleted :: bool
  otResponseInterrupted :: bool
  otResponseTruncated :: bool
  otChunkDuration :: duration
  otPlannedDuration :: duration
  otPlayedDuration :: duration
  otInterruptionPolicy :: InterruptionPolicy
  otInterruptionReason :: gostring
  otHeardTextBoundary :: HeardTextBoundary
  otHeardSource :: HeardTextSource
  otHeardConfidence :: HeardTextConfidence
  otHeardPrecisionTier :: HeardTextPrecisionTier
  otPreferClientFacts :: bool
  otSoftRecovery :: "softRecoverySnapshot option"

record inputTurnPreview =
  ipSession :: nat
  ipLast :: InputPreview
  ipLastPartialText :: gostring
  ipLastCommitLogged :: bool

record InputPreviewObservation =
  obPreview :: InputPreview
  obActive :: bool
  obPartialChanged :: bool
  obCommitSuggested :: bool

record SessionOrchestrator =
  orMemoryStore :: MemoryStore
  orPreview :: "inputTurnPreview option"
  orTurn :: "orchestratedTurn option"
  orLastPlaybackOutcome :: "PlaybackOutcome option"

definition InputPreviewPollInterval :: duration where "InputPreviewPollInterval = 80 * Millisecond"

definition NewSessionOrchestrator :: "MemoryStore option \<Rightarrow> SessionOrchestrator" where
  "NewSessionOrchestrator memoryStore =
     \<lparr>orMemoryStore = (case memoryStore of None \<Rightarrow> NoopMemoryStore | Some s \<Rightarrow> s), orPreview = None, orTurn = None,
      orLastPlaybackOutcome = None\<rparr>"

section \<open>Input preview\<close>

text \<open>
  \<open>EnsureInputPreview\<close>: \<open>started\<close> is what the responder answers, None when it is no previewer. The
  second check under the lock closes the session of the goroutine that came second.
\<close>

definition installInputPreview :: "nat \<Rightarrow> SessionOrchestrator \<Rightarrow> nat list \<times> SessionOrchestrator" where
  "installInputPreview session o1 =
     (case orPreview o1 of
        Some _ \<Rightarrow> ([session], o1)
      | None \<Rightarrow> ([], o1\<lparr>orPreview := Some \<lparr>ipSession = session, ipLast = zeroPreview, ipLastPartialText = [],
                                   ipLastCommitLogged = False\<rparr>\<rparr>))"

definition EnsureInputPreview ::
  "('e + nat) option \<Rightarrow> SessionOrchestrator \<Rightarrow> ('e + nat list) \<times> SessionOrchestrator" where
  "EnsureInputPreview started o1 =
     (if orPreview o1 \<noteq> None then (Inr [], o1)
      else case started of
             None \<Rightarrow> (Inr [], o1)
           | Some (Inl e) \<Rightarrow> (Inl e, o1)
           | Some (Inr session) \<Rightarrow> (let (closed, o2) = installInputPreview session o1 in (Inr closed, o2)))"

definition recordInputPreviewSnapshot ::
  "InputPreview \<Rightarrow> SessionOrchestrator \<Rightarrow> InputPreviewObservation \<times> SessionOrchestrator" where
  "recordInputPreviewSnapshot snapshot o1 =
     (case orPreview o1 of
        None \<Rightarrow> (\<lparr>obPreview = snapshot, obActive = False, obPartialChanged = False, obCommitSuggested = False\<rparr>, o1)
      | Some pv \<Rightarrow>
          let changed = (pvPartialText snapshot \<noteq> [] \<and> pvPartialText snapshot \<noteq> ipLastPartialText pv);
              commitNew = (pvCommitSuggested snapshot \<and> \<not> ipLastCommitLogged pv);
              pv' = pv\<lparr>ipLastPartialText := (if changed then pvPartialText snapshot else ipLastPartialText pv),
                       ipLastCommitLogged := (commitNew \<or> ipLastCommitLogged pv), ipLast := snapshot\<rparr>
          in (\<lparr>obPreview = snapshot, obActive = True, obPartialChanged = changed, obCommitSuggested = commitNew\<rparr>,
              o1\<lparr>orPreview := Some pv'\<rparr>))"

definition shouldEmitFinalPreviewObservation :: "InputPreviewObservation \<Rightarrow> InputPreviewObservation \<Rightarrow> bool" where
  "shouldEmitFinalPreviewObservation previous current =
     (pvPartialText (obPreview previous) \<noteq> pvPartialText (obPreview current)
      \<or> pvStablePrefix (obPreview previous) \<noteq> pvStablePrefix (obPreview current)
      \<or> pvEndpointReason (obPreview previous) \<noteq> pvEndpointReason (obPreview current)
      \<or> pvAudioBytes (obPreview previous) \<noteq> pvAudioBytes (obPreview current)
      \<or> pvSpeechStarted (obPreview previous) \<noteq> pvSpeechStarted (obPreview current)
      \<or> obCommitSuggested previous \<noteq> obCommitSuggested current)"

definition idleObservation :: InputPreviewObservation where
  "idleObservation = \<lparr>obPreview = zeroPreview, obActive = False, obPartialChanged = False, obCommitSuggested = False\<rparr>"

fun recordSnapshots :: "InputPreview list \<Rightarrow> SessionOrchestrator \<Rightarrow> InputPreviewObservation list \<times> SessionOrchestrator" where
  "recordSnapshots [] o1 = ([], o1)"
| "recordSnapshots (s # ss) o1 =
     (let (ob, o2) = recordInputPreviewSnapshot s o1; (obs, o3) = recordSnapshots ss o2 in (ob # obs, o3))"

text \<open>
  \<open>PushInputPreviewAudioProgressively\<close>: \<open>progressive\<close> tells whether the session implements the
  progressive interface, \<open>intermediates\<close> are the snapshots it hands to the callback and \<open>result\<close> is
  what its call returns. The result holds the observations emitted, in order, and the one returned.
\<close>

definition PushInputPreviewAudioProgressively ::
  "bool \<Rightarrow> InputPreview list \<Rightarrow> ('e + InputPreview) \<Rightarrow> SessionOrchestrator
     \<Rightarrow> ('e + InputPreviewObservation) \<times> InputPreviewObservation list \<times> SessionOrchestrator" where
  "PushInputPreviewAudioProgressively progressive intermediates result o1 =
     (if orPreview o1 = None then (Inr idleObservation, [], o1)
      else if \<not> progressive then
        (case result of
           Inl e \<Rightarrow> (Inl e, [], o1)
         | Inr snapshot \<Rightarrow> let (ob, o2) = recordInputPreviewSnapshot snapshot o1 in (Inr ob, [ob], o2))
      else
        let (obs, o2) = recordSnapshots intermediates o1
        in case result of
             Inl e \<Rightarrow> (Inl e, obs, o2)
           | Inr snapshot \<Rightarrow>
               let (final, o3) = recordInputPreviewSnapshot snapshot o2
               in if obs = [] \<or> shouldEmitFinalPreviewObservation (last obs) final
                  then (Inr final, obs @ [final], o3) else (Inr final, obs, o3))"

definition PollInputPreview :: "InputPreview \<Rightarrow> SessionOrchestrator \<Rightarrow> InputPreviewObservation \<times> SessionOrchestrator" where
  "PollInputPreview snapshot o1 =
     (if orPreview o1 = None then (idleObservation, o1) else recordInputPreviewSnapshot snapshot o1)"

definition ClearInputPreview :: "SessionOrchestrator \<Rightarrow> nat list \<times> SessionOrchestrator" where
  "ClearInputPreview o1 = (case orPreview o1 of None \<Rightarrow> [] | Some pv \<Rightarrow> [ipSession pv], o1\<lparr>orPreview := None\<rparr>)"

text \<open>\<open>FinalizeInputPreview\<close>: \<open>finished\<close> is what \<open>Finish\<close> returns (None for a session that has no
  \<open>Finish\<close>) and \<open>closeErr\<close> the error of \<open>Close\<close>; an error of \<open>Finish\<close> wins.\<close>

definition FinalizeInputPreview ::
  "(TranscriptionResult \<times> 'e option) option \<Rightarrow> 'e option \<Rightarrow> SessionOrchestrator
     \<Rightarrow> (TranscriptionResult \<times> bool \<times> 'e option) \<times> nat list \<times> SessionOrchestrator" where
  "FinalizeInputPreview finished closeErr o1 =
     (case orPreview o1 of
        None \<Rightarrow> ((emptyTranscription, False, None), [], o1\<lparr>orPreview := None\<rparr>)
      | Some pv \<Rightarrow>
          (case finished of
             None \<Rightarrow> (emptyTranscription, False, None)
           | Some (result, err) \<Rightarrow> (result, True, (if err = None then closeErr else err)),
           [ipSession pv], o1\<lparr>orPreview := None\<rparr>))"

definition PreviewReadDeadline :: "int \<Rightarrow> SessionOrchestrator \<Rightarrow> gotime" where
  "PreviewReadDeadline now o1 = (if orPreview o1 = None then None else Some (now + InputPreviewPollInterval))"

section \<open>Heard text of the turn\<close>

definition updateHeardTextLocked :: "duration \<Rightarrow> HeardTextSource \<Rightarrow> orchestratedTurn \<Rightarrow> orchestratedTurn" where
  "updateHeardTextLocked playedDuration source t =
     (let played = (if playedDuration > otPlayedDuration t then playedDuration else otPlayedDuration t);
          heard = heardTextForPlayback (otDeliveredText t) played (otPlannedDuration t);
          src = normalizeHeardTextSource source (otHeardSource t)
      in t\<lparr>otPlayedDuration := played, otHeardText := heard,
           otHeardTextBoundary := heardTextBoundaryForTexts (otDeliveredText t) heard, otHeardSource := src,
           otHeardConfidence := heardTextConfidenceForSource src,
           otHeardPrecisionTier := heardTextPrecisionTierForSource src\<rparr>)"

definition updateHeardTextExactLocked ::
  "duration \<Rightarrow> gostring \<Rightarrow> HeardTextSource \<Rightarrow> orchestratedTurn \<Rightarrow> orchestratedTurn" where
  "updateHeardTextExactLocked playedDuration heardText source t0 =
     (let t = t0\<lparr>otPlayedDuration := (if playedDuration > otPlayedDuration t0 then playedDuration else otPlayedDuration t0)\<rparr>;
          heard = TrimSpace heardText; delivered = TrimSpace (otDeliveredText t);
          src = normalizeHeardTextSource source (otHeardSource t)
      in if heard = [] \<or> delivered = [] \<or> \<not> HasPrefix delivered heard then updateHeardTextLocked playedDuration source t
         else t\<lparr>otHeardText := heard, otHeardTextBoundary := heardTextBoundaryForTexts delivered heard, otHeardSource := src,
                otHeardConfidence := heardTextConfidenceForSource src,
                otHeardPrecisionTier := heardTextPrecisionTierForSource src\<rparr>)"

fun softRecoveryPolicyRank :: "InterruptionPolicy \<Rightarrow> int" where
  "softRecoveryPolicyRank PolicyDuckOnly = 2"
| "softRecoveryPolicyRank PolicyBackchannel = 1"
| "softRecoveryPolicyRank _ = 0"

definition refreshHeardText :: "orchestratedTurn \<Rightarrow> orchestratedTurn" where
  "refreshHeardText t =
     (if otHeardSource t = SegmentMark \<and> hasExactHeardTextPrefix (otDeliveredText t) (otHeardText t) then t
      else updateHeardTextLocked (otPlayedDuration t) (otHeardSource t) t)"

definition captureSoftRecoverySnapshotLocked :: "InterruptionPolicy \<Rightarrow> gostring \<Rightarrow> orchestratedTurn \<Rightarrow> orchestratedTurn" where
  "captureSoftRecoverySnapshotLocked policy reason t0 =
     (if \<not> otPlaybackActive t0 then t0
      else
        let t = refreshHeardText t0;
            keep = (case otSoftRecovery t of
                      None \<Rightarrow> False
                    | Some existing \<Rightarrow> srPlayedDuration existing < otPlayedDuration t
                        \<or> (srPlayedDuration existing = otPlayedDuration t
                           \<and> softRecoveryPolicyRank (srPolicy existing) \<ge> softRecoveryPolicyRank policy))
        in if keep then t
           else t\<lparr>otSoftRecovery := Some
                \<lparr>srPolicy = policy, srReason = reason, srHeardText = otHeardText t, srHeardTextBoundary = otHeardTextBoundary t,
                 srHeardSource = otHeardSource t, srHeardConfidence = otHeardConfidence t,
                 srHeardPrecision = otHeardPrecisionTier t, srPlayedDuration = otPlayedDuration t\<rparr>\<rparr>)"

definition currentPlaybackBoundarySnapshotLocked :: "orchestratedTurn \<Rightarrow> softRecoverySnapshot" where
  "currentPlaybackBoundarySnapshotLocked t =
     \<lparr>srPolicy = PolicyUnset, srReason = [], srHeardText = TrimSpace (otHeardText t),
      srHeardTextBoundary = heardTextBoundaryForTexts (otDeliveredText t) (otHeardText t),
      srHeardSource = normalizeHeardTextSource (otHeardSource t) SourceUnknown,
      srHeardConfidence = heardTextConfidenceForSource (otHeardSource t),
      srHeardPrecision = heardTextPrecisionTierForSource (otHeardSource t), srPlayedDuration = otPlayedDuration t\<rparr>"

definition usableSoftRecoveryBoundary :: "gostring \<Rightarrow> softRecoverySnapshot \<Rightarrow> bool" where
  "usableSoftRecoveryBoundary deliveredText snapshot =
     (let heard = TrimSpace (srHeardText snapshot); delivered = TrimSpace deliveredText
      in if heard = [] \<or> delivered = [] then False else HasPrefix delivered heard \<and> heard \<noteq> delivered)"

definition softRecoverySourceRank :: "HeardTextSource \<Rightarrow> int" where
  "softRecoverySourceRank source =
     (case normalizeHeardTextSource source SourceUnknown of
        SegmentMark \<Rightarrow> 4 | SourcePlaybackCompleted \<Rightarrow> 3 | SourcePlaybackStarted \<Rightarrow> 2 | HeuristicBytes \<Rightarrow> 1
      | SourceUnknown \<Rightarrow> 0)"

definition betterSoftRecoveryBoundary :: "gostring \<Rightarrow> softRecoverySnapshot \<Rightarrow> softRecoverySnapshot \<Rightarrow> bool" where
  "betterSoftRecoveryBoundary deliveredText current candidate =
     (if \<not> usableSoftRecoveryBoundary deliveredText candidate then False
      else if \<not> usableSoftRecoveryBoundary deliveredText current then True
      else
        let currentLen = length (TrimSpace (srHeardText current)); candidateLen = length (TrimSpace (srHeardText candidate))
        in if candidateLen > currentLen then True
           else if candidateLen < currentLen then False
           else softRecoverySourceRank (srHeardSource candidate) > softRecoverySourceRank (srHeardSource current))"

definition preferredSoftRecoveryBoundary ::
  "gostring \<Rightarrow> softRecoverySnapshot \<Rightarrow> softRecoverySnapshot \<Rightarrow> softRecoverySnapshot" where
  "preferredSoftRecoveryBoundary deliveredText softRecovery preCompletion =
     (if betterSoftRecoveryBoundary deliveredText softRecovery preCompletion then preCompletion else softRecovery)"

definition shouldLimitCompletedPlaybackToSoftRecovery :: "orchestratedTurn \<Rightarrow> softRecoverySnapshot \<Rightarrow> bool" where
  "shouldLimitCompletedPlaybackToSoftRecovery t snapshot =
     (let delivered = TrimSpace (otDeliveredText t);
          missedTail = missedTextForTexts delivered (srHeardText snapshot);
          remainingDuration = (if otPlannedDuration t > 0 \<and> srPlayedDuration snapshot < otPlannedDuration t
                               then otPlannedDuration t - srPlayedDuration snapshot else 0);
          remainingRunes = length missedTail;
          ratio0 = heardRatioPercent delivered (srHeardText snapshot);
          remainingRatio = 100 - (if ratio0 < 0 then 0 else ratio0)
      in if delivered = [] then False
         else if missedTail = [] then False
         else if srPolicy snapshot = PolicyDuckOnly then
           remainingRunes \<ge> 2 \<or> remainingRatio \<ge> 12 \<or> remainingDuration \<ge> 260 * Millisecond
         else if srPolicy snapshot = PolicyBackchannel then
           (if remainingRunes \<ge> 8 then True
            else remainingRunes \<ge> 4 \<and> (remainingRatio \<ge> 30 \<or> remainingDuration \<ge> 650 * Millisecond))
         else False)"

definition applySoftRecoveryOutcomeLocked :: "softRecoverySnapshot \<Rightarrow> orchestratedTurn \<Rightarrow> orchestratedTurn" where
  "applySoftRecoveryOutcomeLocked preCompletion t =
     (case otSoftRecovery t of
        None \<Rightarrow> t
      | Some snapshot \<Rightarrow>
          if \<not> shouldLimitCompletedPlaybackToSoftRecovery t snapshot then t
          else
            let selected = preferredSoftRecoveryBoundary (otDeliveredText t) snapshot preCompletion;
                src = normalizeHeardTextSource (srHeardSource selected) SourceUnknown
            in t\<lparr>otHeardText := TrimSpace (srHeardText selected),
                 otHeardTextBoundary := heardTextBoundaryForTexts (otDeliveredText t) (srHeardText selected),
                 otHeardSource := src, otHeardConfidence := heardTextConfidenceForSource src,
                 otHeardPrecisionTier := heardTextPrecisionTierForSource src\<rparr>)"

definition recordInterruptionPolicyLocked ::
  "InterruptionPolicy \<Rightarrow> gostring \<Rightarrow> orchestratedTurn \<Rightarrow> InterruptionPolicy \<times> orchestratedTurn" where
  "recordInterruptionPolicyLocked policy reason t =
     (let normalized = normalizeInterruptionPolicy policy; r = TrimSpace reason
      in if normalized = PolicyIgnore then (normalized, t)
         else (normalized, t\<lparr>otInterruptionPolicy := normalized,
                            otInterruptionReason := (if r = [] then policyName normalized else r)\<rparr>))"


section \<open>Memory and outcome\<close>

definition hasTurnAudio :: "TurnRequest \<Rightarrow> bool" where
  "hasTurnAudio req = (length (rqAudioPCM req) > 0 \<or> rqAudioBytes req > 0 \<or> rqInputFrames req > 0)"

definition turnInputFromRequest :: "TurnRequest \<Rightarrow> gostring \<Rightarrow> TurnInput" where
  "turnInputFromRequest req userText =
     \<lparr>tiSessionID = rqSessionID req, tiTurnID = rqTurnID req, tiTraceID = rqTraceID req, tiDeviceID = rqDeviceID req,
      tiClientType = rqClientType req, tiUserText = userText,
      tiAudio = \<lparr>audPresent = hasTurnAudio req, audFrames = rqInputFrames req, audBytes = rqAudioBytes req,
        audCodec = rqInputCodec req, audSampleRateHz = rqInputSampleRate req, audChannels = rqInputChannels req\<rparr>,
      tiImages = [], tiMetadata = rqMetadata req\<rparr>"

definition cloneTurnRequest :: "TurnRequest \<Rightarrow> TurnRequest" where
  "cloneTurnRequest request = request\<lparr>rqAudioPCM := []\<rparr>"

definition putNonBlank :: "gostring \<Rightarrow> gostring \<Rightarrow> metadata \<Rightarrow> metadata" where
  "putNonBlank key value m = (if TrimSpace value = [] then m else m(key \<mapsto> value))"

definition formatMilliseconds :: "duration \<Rightarrow> gostring" where
  "formatMilliseconds d = Itoa (d sdiv Millisecond)"

definition enrichPlaybackMetadata :: "metadata \<Rightarrow> orchestratedTurn \<Rightarrow> metadata" where
  "enrichPlaybackMetadata m0 t =
     (let policy = normalizeInterruptionPolicy (otInterruptionPolicy t);
          done = (otResponseInterrupted t \<or> otPlaybackCompleted t);
          m1 = (if policy \<noteq> PolicyIgnore then
                  putNonBlank (lit ''voice.interruption_reason'') (otInterruptionReason t)
                    (putNonBlank (lit ''voice.interruption_policy'') (policyName policy) m0) else m0);
          m2 = (if done \<or> policy \<noteq> PolicyIgnore then
                  putNonBlank (lit ''voice.heard_text_boundary'') (boundaryName (otHeardTextBoundary t)) m1 else m1);
          m3 = (if otPlayedDuration t > 0 \<and> done then
                  putNonBlank (lit ''voice.played_duration_ms'') (formatMilliseconds (otPlayedDuration t)) m2 else m2);
          m4 = (if otPlannedDuration t > 0 \<and> done then
                  putNonBlank (lit ''voice.planned_duration_ms'') (formatMilliseconds (otPlannedDuration t)) m3 else m3);
          m5 = (if normalizeHeardTextSource (otHeardSource t) SourceUnknown \<noteq> SourceUnknown then
                  putNonBlank (lit ''voice.heard_source'') (sourceName (normalizeHeardTextSource (otHeardSource t) SourceUnknown)) m4
                else m4);
          m6 = (if heardTextConfidenceForSource (otHeardSource t) \<noteq> ConfidenceUnknown then
                  putNonBlank (lit ''voice.heard_confidence'') (confidenceName (heardTextConfidenceForSource (otHeardSource t))) m5
                else m5);
          m7 = (if heardTextPrecisionTierForSource (otHeardSource t) \<noteq> TierUnknown then
                  putNonBlank (lit ''voice.heard_precision_tier'') (tierName (heardTextPrecisionTierForSource (otHeardSource t))) m6
                else m6);
          ratio = heardRatioPercent (otDeliveredText t) (otHeardText t);
          m8 = (if ratio \<ge> 0 then putNonBlank (lit ''voice.heard_ratio_pct'') (Itoa ratio) m7 else m7);
          anchor = resumeAnchorForTexts (otDeliveredText t) (otHeardText t);
          m9 = (if anchor \<noteq> [] then putNonBlank (lit ''voice.resume_anchor'') anchor m8 else m8);
          missed = missedTextForTexts (otDeliveredText t) (otHeardText t)
      in if missed \<noteq> [] then putNonBlank (lit ''voice.missed_text'') missed m9 else m9)"

text \<open>The record \<open>persistLocked\<close> builds, and the save; its error is ignored by the source.\<close>

definition turnRecord :: "orchestratedTurn \<Rightarrow> MemoryRecord" where
  "turnRecord t =
     (BuildMemoryRecord (turnInputFromRequest (otRequest t) (otInputText t)) (otInputText t) (otResponseText t)
        (enrichPlaybackMetadata (otMetadata t) t))
       \<lparr>recDeliveredText := otDeliveredText t, recHeardText := otHeardText t,
        recResponseInterrupted := otResponseInterrupted t, recResponseTruncated := otResponseTruncated t,
        recPlaybackCompleted := otPlaybackCompleted t\<rparr>"

definition persistLocked :: "SessionOrchestrator \<Rightarrow> SessionOrchestrator" where
  "persistLocked o1 =
     (case orTurn o1 of None \<Rightarrow> o1 | Some t \<Rightarrow> o1\<lparr>orMemoryStore := storeSaveTurn (turnRecord t) (orMemoryStore o1)\<rparr>)"

definition playbackOutcomeFromTurn :: "orchestratedTurn \<Rightarrow> PlaybackOutcome" where
  "playbackOutcomeFromTurn t =
     \<lparr>poTurnID = TrimSpace (rqTurnID (otRequest t)), poDeliveredText = TrimSpace (otDeliveredText t),
      poHeardText = TrimSpace (otHeardText t), poMissedText = missedTextForTexts (otDeliveredText t) (otHeardText t),
      poResumeAnchor = resumeAnchorForTexts (otDeliveredText t) (otHeardText t),
      poHeardTextBoundary = heardTextBoundaryForTexts (otDeliveredText t) (otHeardText t),
      poHeardSource = normalizeHeardTextSource (otHeardSource t) SourceUnknown,
      poHeardConfidence = heardTextConfidenceForSource (otHeardSource t),
      poHeardPrecisionTier = heardTextPrecisionTierForSource (otHeardSource t),
      poHeardRatioPercent = heardRatioPercent (otDeliveredText t) (otHeardText t),
      poPlaybackCompleted = otPlaybackCompleted t, poResponseInterrupted = otResponseInterrupted t,
      poResponseTruncated = otResponseTruncated t,
      poInterruptionPolicy = normalizeInterruptionPolicy (otInterruptionPolicy t),
      poInterruptionReason = TrimSpace (otInterruptionReason t), poPlayedDuration = otPlayedDuration t,
      poPlannedDuration = otPlannedDuration t\<rparr>"

definition captureLastPlaybackOutcomeLocked :: "SessionOrchestrator \<Rightarrow> SessionOrchestrator" where
  "captureLastPlaybackOutcomeLocked o1 =
     (case orTurn o1 of None \<Rightarrow> o1 | Some t \<Rightarrow> o1\<lparr>orLastPlaybackOutcome := Some (playbackOutcomeFromTurn t)\<rparr>)"

definition putTrimmed :: "gostring \<Rightarrow> gostring \<Rightarrow> metadata \<Rightarrow> metadata" where
  "putTrimmed key value m = (if TrimSpace value = [] then m else m(key \<mapsto> TrimSpace value))"

definition playbackOutcomeContextMetadata :: "PlaybackOutcome \<Rightarrow> metadata" where
  "playbackOutcomeContextMetadata po =
     (let m0 = Map.empty(lit ''voice.previous.available'' \<mapsto> lit ''true'');
          m1 = putTrimmed (lit ''voice.previous.turn_id'') (poTurnID po) m0;
          m2 = putTrimmed (lit ''voice.previous.delivered_text'') (poDeliveredText po) m1;
          m3 = putTrimmed (lit ''voice.previous.heard_text'') (poHeardText po) m2;
          m4 = putTrimmed (lit ''voice.previous.missed_text'') (poMissedText po) m3;
          m5 = putTrimmed (lit ''voice.previous.resume_anchor'') (poResumeAnchor po) m4;
          m6 = putTrimmed (lit ''voice.previous.heard_boundary'') (boundaryName (poHeardTextBoundary po)) m5;
          m7 = putTrimmed (lit ''voice.previous.heard_source'') (sourceName (poHeardSource po)) m6;
          m8 = putTrimmed (lit ''voice.previous.heard_confidence'') (confidenceName (poHeardConfidence po)) m7;
          m9 = putTrimmed (lit ''voice.previous.heard_precision_tier'') (tierName (poHeardPrecisionTier po)) m8;
          m10 = (if poHeardRatioPercent po \<ge> 0
                 then m9(lit ''voice.previous.heard_ratio_pct'' \<mapsto> Itoa (poHeardRatioPercent po)) else m9);
          m11 = m10(lit ''voice.previous.playback_completed'' \<mapsto> FormatBool (poPlaybackCompleted po),
                    lit ''voice.previous.response_interrupted'' \<mapsto> FormatBool (poResponseInterrupted po),
                    lit ''voice.previous.response_truncated'' \<mapsto> FormatBool (poResponseTruncated po));
          m12 = putTrimmed (lit ''voice.previous.interruption_policy'') (policyName (poInterruptionPolicy po)) m11
      in putTrimmed (lit ''voice.previous.interruption_reason'') (poInterruptionReason po) m12)"

definition LastPlaybackOutcome :: "SessionOrchestrator \<Rightarrow> PlaybackOutcome option" where
  "LastPlaybackOutcome o1 = orLastPlaybackOutcome o1"

definition LastPlaybackContextMetadata :: "SessionOrchestrator \<Rightarrow> metadata" where
  "LastPlaybackContextMetadata o1 =
     (case orLastPlaybackOutcome o1 of None \<Rightarrow> Map.empty | Some po \<Rightarrow> playbackOutcomeContextMetadata po)"

section \<open>Turns and playback\<close>

text \<open>\<open>if o.turn == nil { return }\<close> followed by an update of the turn.\<close>

definition onTurn :: "(orchestratedTurn \<Rightarrow> orchestratedTurn) \<Rightarrow> SessionOrchestrator \<Rightarrow> SessionOrchestrator" where
  "onTurn f o1 = (case orTurn o1 of None \<Rightarrow> o1 | Some t \<Rightarrow> o1\<lparr>orTurn := Some (f t)\<rparr>)"

definition newTurn :: "TurnRequest \<Rightarrow> gostring \<Rightarrow> gostring \<Rightarrow> orchestratedTurn" where
  "newTurn request inputText responseText =
     \<lparr>otRequest = cloneTurnRequest request, otInputText = TrimSpace inputText, otMetadata = rqMetadata request,
      otResponseText = TrimSpace responseText, otDeliveredText = [], otHeardText = [], otPlaybackActive = False,
      otPlaybackCompleted = False, otResponseInterrupted = False, otResponseTruncated = False, otChunkDuration = 0,
      otPlannedDuration = 0, otPlayedDuration = 0, otInterruptionPolicy = PolicyUnset, otInterruptionReason = [],
      otHeardTextBoundary = HeardBoundaryNone, otHeardSource = SourceUnknown, otHeardConfidence = ConfidenceUnknown,
      otHeardPrecisionTier = TierUnknown, otPreferClientFacts = False, otSoftRecovery = None\<rparr>"

definition PrepareTurn :: "TurnRequest \<Rightarrow> gostring \<Rightarrow> gostring \<Rightarrow> SessionOrchestrator \<Rightarrow> SessionOrchestrator" where
  "PrepareTurn request inputText responseText o1 =
     persistLocked (o1\<lparr>orTurn := Some
       (case orTurn o1 of
          Some t \<Rightarrow>
            if rqTurnID (otRequest t) = rqTurnID request then
              t\<lparr>otRequest := cloneTurnRequest request, otMetadata := rqMetadata request,
                otInputText := (if TrimSpace inputText \<noteq> [] then TrimSpace inputText else otInputText t),
                otResponseText := (if TrimSpace responseText \<noteq> [] then TrimSpace responseText else otResponseText t)\<rparr>
            else newTurn request inputText responseText
        | None \<Rightarrow> newTurn request inputText responseText)\<rparr>)"

definition finishTurn :: "(orchestratedTurn \<Rightarrow> orchestratedTurn) \<Rightarrow> SessionOrchestrator \<Rightarrow> SessionOrchestrator" where
  "finishTurn f o1 = (captureLastPlaybackOutcomeLocked (persistLocked (onTurn f o1)))\<lparr>orTurn := None\<rparr>"

definition FinalizeTextResponse :: "gostring \<Rightarrow> SessionOrchestrator \<Rightarrow> SessionOrchestrator" where
  "FinalizeTextResponse deliveredText o1 =
     (let d = TrimSpace deliveredText
      in if orTurn o1 = None then o1
         else finishTurn (\<lambda>t. t\<lparr>otDeliveredText := d, otHeardText := d, otPlaybackCompleted := True, otPlaybackActive := False,
                               otHeardTextBoundary := heardTextBoundaryForTexts d d\<rparr>) o1)"

definition StartPlaybackWithOptions :: "gostring \<Rightarrow> duration \<Rightarrow> duration \<Rightarrow> bool \<Rightarrow> SessionOrchestrator \<Rightarrow> SessionOrchestrator" where
  "StartPlaybackWithOptions deliveredText chunkDuration plannedDuration preferClientFacts =
     onTurn (\<lambda>t. t\<lparr>otDeliveredText := TrimSpace deliveredText, otChunkDuration := chunkDuration,
       otPlannedDuration := plannedDuration, otPlayedDuration := 0, otPlaybackActive := True, otPlaybackCompleted := False,
       otResponseInterrupted := False, otResponseTruncated := False, otHeardText := [],
       otHeardTextBoundary := HeardBoundaryNone, otHeardSource := SourceUnknown, otHeardConfidence := ConfidenceUnknown,
       otHeardPrecisionTier := TierUnknown, otPreferClientFacts := preferClientFacts,
       otInterruptionPolicy := PolicyIgnore, otInterruptionReason := [], otSoftRecovery := None\<rparr>)"

definition StartPlayback :: "gostring \<Rightarrow> duration \<Rightarrow> duration \<Rightarrow> SessionOrchestrator \<Rightarrow> SessionOrchestrator" where
  "StartPlayback deliveredText chunkDuration plannedDuration =
     StartPlaybackWithOptions deliveredText chunkDuration plannedDuration False"

text \<open>The observations of a running playback, each as an update of the turn.\<close>

definition updatePlaybackTurn :: "gostring \<Rightarrow> duration \<Rightarrow> orchestratedTurn \<Rightarrow> orchestratedTurn" where
  "updatePlaybackTurn deliveredText plannedDuration t0 =
     (let t = t0\<lparr>otDeliveredText := (if TrimSpace deliveredText \<noteq> [] then TrimSpace deliveredText else otDeliveredText t0),
                 otPlannedDuration := (if plannedDuration > 0 then plannedDuration else otPlannedDuration t0)\<rparr>
      in if otPlaybackActive t then updateHeardTextLocked (otPlayedDuration t) (otHeardSource t) t else t)"

definition UpdatePlayback :: "gostring \<Rightarrow> duration \<Rightarrow> SessionOrchestrator \<Rightarrow> SessionOrchestrator" where
  "UpdatePlayback deliveredText plannedDuration o1 = persistLocked (onTurn (updatePlaybackTurn deliveredText plannedDuration) o1)"

definition chunkTurn :: "orchestratedTurn \<Rightarrow> orchestratedTurn" where
  "chunkTurn t =
     (if \<not> otPlaybackActive t \<or> otPreferClientFacts t then t
      else updateHeardTextLocked (otPlayedDuration t + otChunkDuration t) HeuristicBytes t)"

definition ObservePlaybackChunk :: "SessionOrchestrator \<Rightarrow> SessionOrchestrator" where
  "ObservePlaybackChunk = onTurn chunkTurn"

definition startedTurn :: "orchestratedTurn \<Rightarrow> orchestratedTurn" where
  "startedTurn t =
     (if \<not> otPlaybackActive t then t
      else t\<lparr>otHeardSource := SourcePlaybackStarted, otHeardConfidence := ConfidenceMedium, otHeardPrecisionTier := Tier1\<rparr>)"

definition ObservePlaybackStartedFact :: "SessionOrchestrator \<Rightarrow> SessionOrchestrator" where
  "ObservePlaybackStartedFact = onTurn startedTurn"

definition markTurn :: "duration \<Rightarrow> orchestratedTurn \<Rightarrow> orchestratedTurn" where
  "markTurn playedDuration t = (if \<not> otPlaybackActive t then t else updateHeardTextLocked playedDuration SegmentMark t)"

definition ObservePlaybackMarkFact :: "duration \<Rightarrow> SessionOrchestrator \<Rightarrow> SessionOrchestrator" where
  "ObservePlaybackMarkFact playedDuration = onTurn (markTurn playedDuration)"

definition markTextTurn :: "duration \<Rightarrow> gostring \<Rightarrow> orchestratedTurn \<Rightarrow> orchestratedTurn" where
  "markTextTurn playedDuration heardText t =
     (if \<not> otPlaybackActive t then t else updateHeardTextExactLocked playedDuration heardText SegmentMark t)"

definition ObservePlaybackMarkTextFact :: "duration \<Rightarrow> gostring \<Rightarrow> SessionOrchestrator \<Rightarrow> SessionOrchestrator" where
  "ObservePlaybackMarkTextFact playedDuration heardText = onTurn (markTextTurn playedDuration heardText)"

text \<open>The heard text of a completed playback is all of the delivered text, if there is any.\<close>

definition hearAll :: "orchestratedTurn \<Rightarrow> orchestratedTurn" where
  "hearAll t0 =
     (let t = (if TrimSpace (otDeliveredText t0) \<noteq> [] then t0\<lparr>otHeardText := otDeliveredText t0\<rparr> else t0)
      in t\<lparr>otHeardTextBoundary := heardTextBoundaryForTexts (otDeliveredText t) (otHeardText t)\<rparr>)"

definition completedFactTurn :: "orchestratedTurn \<Rightarrow> orchestratedTurn" where
  "completedFactTurn t =
     hearAll (updateHeardTextLocked (maxDuration (otPlannedDuration t) (otPlayedDuration t)) SourcePlaybackCompleted t)"

definition ObservePlaybackCompletedFact :: "SessionOrchestrator \<Rightarrow> SessionOrchestrator" where
  "ObservePlaybackCompletedFact = onTurn completedFactTurn"

definition recordPolicyTurn :: "InterruptionPolicy \<Rightarrow> gostring \<Rightarrow> orchestratedTurn \<Rightarrow> orchestratedTurn" where
  "recordPolicyTurn policy reason t =
     (let (normalized, t') = recordInterruptionPolicyLocked policy reason t
      in if normalized = PolicyBackchannel \<or> normalized = PolicyDuckOnly
         then captureSoftRecoverySnapshotLocked normalized (TrimSpace reason) t' else t')"

definition RecordInterruptionPolicy :: "InterruptionPolicy \<Rightarrow> gostring \<Rightarrow> SessionOrchestrator \<Rightarrow> SessionOrchestrator" where
  "RecordInterruptionPolicy policy reason = onTurn (recordPolicyTurn policy reason)"

definition RecordInterruptionDecision :: "BargeInDecision \<Rightarrow> SessionOrchestrator \<Rightarrow> SessionOrchestrator" where
  "RecordInterruptionDecision decision = RecordInterruptionPolicy (decPolicy decision) (decReason decision)"

definition interruptTurn :: "InterruptionPolicy \<Rightarrow> gostring \<Rightarrow> orchestratedTurn \<Rightarrow> orchestratedTurn" where
  "interruptTurn policy reason t0 =
     (let t = refreshHeardText (snd (recordInterruptionPolicyLocked policy reason t0))
      in t\<lparr>otPlaybackActive := False, otPlaybackCompleted := False, otResponseInterrupted := True,
           otResponseTruncated := (otHeardTextBoundary t = HeardBoundaryPrefix)\<rparr>)"

definition InterruptPlaybackWithPolicy ::
  "InterruptionPolicy \<Rightarrow> gostring \<Rightarrow> SessionOrchestrator \<Rightarrow> PlaybackInterruption \<times> SessionOrchestrator" where
  "InterruptPlaybackWithPolicy policy0 reason0 o1 =
     (let p = normalizeInterruptionPolicy policy0;
          policy = (if p = PolicyIgnore then PolicyHardInterrupt else p);
          reason = (if TrimSpace reason0 = [] then policyName policy else TrimSpace reason0);
          result = \<lparr>piPolicy = policy, piReason = reason, piHeardText = [], piHeardTextBoundary = HeardBoundaryUnset,
                    piPlayedDuration = 0, piPlannedDuration = 0, piTruncated = False\<rparr>
      in case orTurn o1 of
           None \<Rightarrow> (result, o1)
         | Some t0 \<Rightarrow>
             if \<not> otPlaybackActive t0 then (result, o1)
             else let t = interruptTurn policy reason t0
                  in (result\<lparr>piHeardText := otHeardText t, piHeardTextBoundary := otHeardTextBoundary t,
                        piPlayedDuration := otPlayedDuration t, piPlannedDuration := otPlannedDuration t,
                        piTruncated := otResponseTruncated t\<rparr>,
                      finishTurn (interruptTurn policy reason) o1))"

definition InterruptPlayback :: "SessionOrchestrator \<Rightarrow> SessionOrchestrator" where
  "InterruptPlayback o1 = snd (InterruptPlaybackWithPolicy PolicyHardInterrupt (lit ''hard_interrupt'') o1)"

definition InterruptPlaybackWithDecision ::
  "BargeInDecision \<Rightarrow> SessionOrchestrator \<Rightarrow> PlaybackInterruption \<times> SessionOrchestrator" where
  "InterruptPlaybackWithDecision decision = InterruptPlaybackWithPolicy (decPolicy decision) (decReason decision)"

definition completeTurn :: "HeardTextSource \<Rightarrow> orchestratedTurn \<Rightarrow> orchestratedTurn" where
  "completeTurn source t0 =
     (let pre = currentPlaybackBoundarySnapshotLocked t0;
          t1 = t0\<lparr>otPlaybackActive := False, otPlaybackCompleted := True\<rparr>;
          played = (if normalizeHeardTextSource source SourceUnknown = SourcePlaybackCompleted
                    then maxDuration (otPlannedDuration t1) (otPlayedDuration t1) else otPlayedDuration t1);
          t2 = hearAll (updateHeardTextLocked played source t1)
      in (applySoftRecoveryOutcomeLocked pre t2)\<lparr>otResponseInterrupted := False, otResponseTruncated := False\<rparr>)"

definition CompletePlaybackWithSource :: "HeardTextSource \<Rightarrow> SessionOrchestrator \<Rightarrow> SessionOrchestrator" where
  "CompletePlaybackWithSource source o1 = (if orTurn o1 = None then o1 else finishTurn (completeTurn source) o1)"

definition CompletePlayback :: "SessionOrchestrator \<Rightarrow> SessionOrchestrator" where
  "CompletePlayback = CompletePlaybackWithSource HeuristicBytes"


section \<open>Steps\<close>

datatype orchestrator_call =
    CallPrepareTurn TurnRequest gostring gostring
  | CallFinalizeTextResponse gostring
  | CallStartPlayback gostring duration duration bool
  | CallUpdatePlayback gostring duration
  | CallObserveChunk
  | CallObserveStarted
  | CallObserveMark duration
  | CallObserveMarkText duration gostring
  | CallObserveCompleted
  | CallRecordPolicy InterruptionPolicy gostring
  | CallInterrupt InterruptionPolicy gostring
  | CallComplete HeardTextSource
  | CallInstallPreview nat
  | CallPreviewSnapshot InputPreview
  | CallClearPreview

fun orchestrator_step :: "orchestrator_call \<Rightarrow> SessionOrchestrator \<Rightarrow> SessionOrchestrator" where
  "orchestrator_step (CallPrepareTurn r i x) o1 = PrepareTurn r i x o1"
| "orchestrator_step (CallFinalizeTextResponse d) o1 = FinalizeTextResponse d o1"
| "orchestrator_step (CallStartPlayback d c p b) o1 = StartPlaybackWithOptions d c p b o1"
| "orchestrator_step (CallUpdatePlayback d p) o1 = UpdatePlayback d p o1"
| "orchestrator_step CallObserveChunk o1 = ObservePlaybackChunk o1"
| "orchestrator_step CallObserveStarted o1 = ObservePlaybackStartedFact o1"
| "orchestrator_step (CallObserveMark d) o1 = ObservePlaybackMarkFact d o1"
| "orchestrator_step (CallObserveMarkText d h) o1 = ObservePlaybackMarkTextFact d h o1"
| "orchestrator_step CallObserveCompleted o1 = ObservePlaybackCompletedFact o1"
| "orchestrator_step (CallRecordPolicy p r) o1 = RecordInterruptionPolicy p r o1"
| "orchestrator_step (CallInterrupt p r) o1 = snd (InterruptPlaybackWithPolicy p r o1)"
| "orchestrator_step (CallComplete src) o1 = CompletePlaybackWithSource src o1"
| "orchestrator_step (CallInstallPreview h) o1 = snd (installInputPreview h o1)"
| "orchestrator_step (CallPreviewSnapshot pv) o1 = snd (recordInputPreviewSnapshot pv o1)"
| "orchestrator_step CallClearPreview o1 = snd (ClearInputPreview o1)"

section \<open>Invariants\<close>

definition turn_inv :: "orchestratedTurn \<Rightarrow> bool" where
  "turn_inv t \<longleftrightarrow> trimmed (otDeliveredText t) \<and> 0 \<le> otPlayedDuration t \<and>
     \<not> otResponseInterrupted t \<and> \<not> otResponseTruncated t \<and>
     (otPlaybackActive t \<longrightarrow> prefix (otHeardText t) (otDeliveredText t) \<and>
        otHeardTextBoundary t = heardTextBoundaryForTexts (otDeliveredText t) (otHeardText t) \<and>
        \<not> otPlaybackCompleted t)"

text \<open>What the recorded outcome of a playback promises.\<close>

definition outcome_ok :: "PlaybackOutcome \<Rightarrow> bool" where
  "outcome_ok po \<longleftrightarrow> prefix (poHeardText po) (poDeliveredText po) \<and>
     squeeze (poHeardText po) @ squeeze (poMissedText po) = squeeze (poDeliveredText po) \<and>
     poHeardTextBoundary po = (if poHeardText po = [] then HeardBoundaryNone
       else if poMissedText po = [] then HeardBoundaryFull else HeardBoundaryPrefix) \<and>
     poPlaybackCompleted po \<noteq> poResponseInterrupted po \<and>
     (poResponseTruncated po \<longleftrightarrow> poResponseInterrupted po \<and> poHeardTextBoundary po = HeardBoundaryPrefix)"

definition orchestrator_inv :: "SessionOrchestrator \<Rightarrow> bool" where
  "orchestrator_inv o1 \<longleftrightarrow> (\<forall>t. orTurn o1 = Some t \<longrightarrow> turn_inv t) \<and> (\<forall>po. orLastPlaybackOutcome o1 = Some po \<longrightarrow> outcome_ok po)"

lemma onTurn_fields [simp]:
  "orMemoryStore (onTurn f o1) = orMemoryStore o1" "orPreview (onTurn f o1) = orPreview o1"
  "orTurn (onTurn f o1) = map_option f (orTurn o1)" "orLastPlaybackOutcome (onTurn f o1) = orLastPlaybackOutcome o1"
  by (simp_all add: onTurn_def split: option.splits)

lemma persist_fields [simp]:
  "orPreview (persistLocked o1) = orPreview o1" "orTurn (persistLocked o1) = orTurn o1"
  "orLastPlaybackOutcome (persistLocked o1) = orLastPlaybackOutcome o1"
  "orMemoryStore (persistLocked o1) = (case orTurn o1 of None \<Rightarrow> orMemoryStore o1 | Some t \<Rightarrow> storeSaveTurn (turnRecord t) (orMemoryStore o1))"
  by (simp_all add: persistLocked_def split: option.splits)

lemma capture_fields [simp]:
  "orPreview (captureLastPlaybackOutcomeLocked o1) = orPreview o1" "orTurn (captureLastPlaybackOutcomeLocked o1) = orTurn o1"
  "orMemoryStore (captureLastPlaybackOutcomeLocked o1) = orMemoryStore o1"
  "orLastPlaybackOutcome (captureLastPlaybackOutcomeLocked o1) =
     (case orTurn o1 of None \<Rightarrow> orLastPlaybackOutcome o1 | Some t \<Rightarrow> Some (playbackOutcomeFromTurn t))"
  by (simp_all add: captureLastPlaybackOutcomeLocked_def split: option.splits)

lemma finishTurn_fields:
  "orTurn o1 = Some t \<Longrightarrow> orTurn (finishTurn f o1) = None \<and>
     orLastPlaybackOutcome (finishTurn f o1) = Some (playbackOutcomeFromTurn (f t)) \<and>
     orMemoryStore (finishTurn f o1) = storeSaveTurn (turnRecord (f t)) (orMemoryStore o1) \<and>
     orPreview (finishTurn f o1) = orPreview o1"
  by (simp add: finishTurn_def)

lemma updateHeard_fields [simp]:
  "otDeliveredText (updateHeardTextLocked d s t) = otDeliveredText t"
  "otPlaybackActive (updateHeardTextLocked d s t) = otPlaybackActive t"
  "otPlaybackCompleted (updateHeardTextLocked d s t) = otPlaybackCompleted t"
  "otResponseInterrupted (updateHeardTextLocked d s t) = otResponseInterrupted t"
  "otResponseTruncated (updateHeardTextLocked d s t) = otResponseTruncated t"
  "otPlannedDuration (updateHeardTextLocked d s t) = otPlannedDuration t"
  "otPlayedDuration (updateHeardTextLocked d s t) = max d (otPlayedDuration t)"
  "otSoftRecovery (updateHeardTextLocked d s t) = otSoftRecovery t"
  "otHeardText (updateHeardTextLocked d s t) =
     heardTextForPlayback (otDeliveredText t) (max d (otPlayedDuration t)) (otPlannedDuration t)"
  "otHeardTextBoundary (updateHeardTextLocked d s t) =
     heardTextBoundaryForTexts (otDeliveredText t) (otHeardText (updateHeardTextLocked d s t))"
  by (auto simp: updateHeardTextLocked_def Let_def max_def)

lemma estimate_prefix_trimmed: "trimmed d \<Longrightarrow> prefix (heardTextForPlayback d p q) d"
  using orchestrator_estimate.estimate_prefix [of d p q] by (simp add: trimmed_id)

lemma turn_inv_update: "turn_inv t \<Longrightarrow> turn_inv (updateHeardTextLocked d s t)"
  by (simp add: turn_inv_def estimate_prefix_trimmed le_max_iff_disj)

lemma turn_inv_exact: "turn_inv t \<Longrightarrow> turn_inv (updateHeardTextExactLocked d h s t)"
proof -
  assume t: "turn_inv t"
  let ?t = "t\<lparr>otPlayedDuration := (if d > otPlayedDuration t then d else otPlayedDuration t)\<rparr>"
  have u: "turn_inv ?t" using t by (simp add: turn_inv_def)
  then show ?thesis using turn_inv_update [OF u, of d s]
    by (auto simp: updateHeardTextExactLocked_def Let_def turn_inv_def trimmed_id)
qed

lemma turn_inv_refresh: "turn_inv t \<Longrightarrow> turn_inv (refreshHeardText t)"
  by (simp add: refreshHeardText_def turn_inv_update)

lemma turn_inv_record: "turn_inv t \<Longrightarrow> turn_inv (snd (recordInterruptionPolicyLocked p r t))"
  by (simp add: recordInterruptionPolicyLocked_def Let_def turn_inv_def)

lemma turn_inv_capture: "turn_inv t \<Longrightarrow> turn_inv (captureSoftRecoverySnapshotLocked p r t)"
proof -
  assume "turn_inv t"
  then have "turn_inv (refreshHeardText t)" by (rule turn_inv_refresh)
  moreover have "turn_inv (x\<lparr>otSoftRecovery := y\<rparr>) = turn_inv x" for x y by (simp add: turn_inv_def)
  ultimately show ?thesis using \<open>turn_inv t\<close>
    by (simp add: captureSoftRecoverySnapshotLocked_def Let_def)
qed

lemma refresh_fields [simp]:
  "otDeliveredText (refreshHeardText t) = otDeliveredText t" "otPlaybackActive (refreshHeardText t) = otPlaybackActive t"
  "otPlayedDuration (refreshHeardText t) = otPlayedDuration t" "otPlannedDuration (refreshHeardText t) = otPlannedDuration t"
  by (simp_all add: refreshHeardText_def)

lemma record_fields [simp]:
  "otDeliveredText (snd (recordInterruptionPolicyLocked p r t)) = otDeliveredText t"
  "otPlaybackActive (snd (recordInterruptionPolicyLocked p r t)) = otPlaybackActive t"
  "otPlayedDuration (snd (recordInterruptionPolicyLocked p r t)) = otPlayedDuration t"
  "otPlannedDuration (snd (recordInterruptionPolicyLocked p r t)) = otPlannedDuration t"
  by (simp_all add: recordInterruptionPolicyLocked_def Let_def)


lemma missed_empty_iff:
  assumes "prefix (TrimSpace ht) (TrimSpace dt)"
  shows "missedTextForTexts dt ht = [] \<longleftrightarrow> TrimSpace ht = TrimSpace dt"
proof (cases "TrimSpace ht = TrimSpace dt")
  case True
  then show ?thesis by (simp add: missedTextForTexts_def Let_def)
next
  case False
  obtain zs where z: "TrimSpace dt = TrimSpace ht @ zs" using assms by (auto simp: prefix_def)
  then have zs: "zs \<noteq> []" using False by auto
  have "\<not> is_space (last (TrimSpace dt))" using trimmed_TrimSpace [of dt] z zs by (auto simp: trimmed_def)
  then have "\<not> is_space (last zs)" using z zs by simp
  then have "TrimSpace zs \<noteq> []" unfolding TrimSpace_eq_Nil using zs last_in_set by blast
  then show ?thesis using z zs False by (auto simp: missedTextForTexts_def Let_def)
qed

lemma outcome_ok_turn:
  assumes "prefix (TrimSpace (otHeardText t)) (TrimSpace (otDeliveredText t))"
    and "otPlaybackCompleted t \<noteq> otResponseInterrupted t"
    and "otResponseTruncated t \<longleftrightarrow> otResponseInterrupted t \<and>
      heardTextBoundaryForTexts (otDeliveredText t) (otHeardText t) = HeardBoundaryPrefix"
  shows "outcome_ok (playbackOutcomeFromTurn t)"
proof -
  have "heardTextBoundaryForTexts (otDeliveredText t) (otHeardText t) =
      (if TrimSpace (otHeardText t) = [] then HeardBoundaryNone
       else if missedTextForTexts (otDeliveredText t) (otHeardText t) = [] then HeardBoundaryFull else HeardBoundaryPrefix)"
    using missed_empty_iff [OF assms(1)] assms(1) by (auto simp: heardTextBoundaryForTexts_def Let_def)
  then show ?thesis using assms heard_missed_split [OF assms(1)]
    by (simp add: outcome_ok_def playbackOutcomeFromTurn_def)
qed

lemma trim_prefix: "prefix h d \<Longrightarrow> trimmed d \<Longrightarrow> prefix (TrimSpace h) (TrimSpace d)"
  by (simp add: trimmed_id prefix_TrimSpace_trimmed)

lemma interrupt_outcome_ok:
  assumes "turn_inv t" and "otPlaybackActive t"
  shows "outcome_ok (playbackOutcomeFromTurn (interruptTurn p r t))"
proof -
  let ?u = "refreshHeardText (snd (recordInterruptionPolicyLocked p r t))"
  have i: "turn_inv ?u" using assms(1) by (intro turn_inv_refresh turn_inv_record)
  have a: "otPlaybackActive ?u" using assms(2) by simp
  then have "prefix (TrimSpace (otHeardText ?u)) (TrimSpace (otDeliveredText ?u))"
    using i by (intro trim_prefix) (auto simp: turn_inv_def)
  moreover have "otHeardTextBoundary ?u = heardTextBoundaryForTexts (otDeliveredText ?u) (otHeardText ?u)"
    using i a by (simp add: turn_inv_def)
  ultimately show ?thesis by (intro outcome_ok_turn) (simp_all add: interruptTurn_def Let_def)
qed

text \<open>Limiting a completed playback to a soft boundary keeps a proper prefix of the delivered text.\<close>

lemma limited_prefix:
  assumes "shouldLimitCompletedPlaybackToSoftRecovery t sr"
    and "sel = preferredSoftRecoveryBoundary (otDeliveredText t) sr pre"
  shows "prefix (TrimSpace (srHeardText sel)) (TrimSpace (otDeliveredText t)) \<and>
    TrimSpace (srHeardText sel) \<noteq> TrimSpace (otDeliveredText t)"
proof (cases "betterSoftRecoveryBoundary (otDeliveredText t) sr pre")
  case True
  then show ?thesis using assms(2)
    by (auto simp: preferredSoftRecoveryBoundary_def betterSoftRecoveryBoundary_def usableSoftRecoveryBoundary_def Let_def
        split: if_splits)
next
  case False
  let ?h = "TrimSpace (srHeardText sr)" and ?d = "TrimSpace (otDeliveredText t)"
  have "missedTextForTexts ?d (srHeardText sr) \<noteq> []"
    using assms(1) by (auto simp: shouldLimitCompletedPlaybackToSoftRecovery_def Let_def split: if_splits)
  then have "length ?h < length ?d" and "?h = [] \<or> take (length ?h) ?d = ?h"
    by (auto simp: missedTextForTexts_def Let_def split: if_splits)
  moreover from this(2) have "prefix ?h ?d" using take_is_prefix by (metis Nil_prefix)
  ultimately show ?thesis using assms(2) False by (auto simp: preferredSoftRecoveryBoundary_def)
qed

lemma hearAll_fields [simp]:
  "otDeliveredText (hearAll t) = otDeliveredText t" "otPlaybackActive (hearAll t) = otPlaybackActive t"
  "otPlaybackCompleted (hearAll t) = otPlaybackCompleted t" "otResponseInterrupted (hearAll t) = otResponseInterrupted t"
  "otResponseTruncated (hearAll t) = otResponseTruncated t" "otPlayedDuration (hearAll t) = otPlayedDuration t"
  "otPlannedDuration (hearAll t) = otPlannedDuration t" "otSoftRecovery (hearAll t) = otSoftRecovery t"
  "otHeardText (hearAll t) = (if TrimSpace (otDeliveredText t) \<noteq> [] then otDeliveredText t else otHeardText t)"
  "otHeardTextBoundary (hearAll t) = heardTextBoundaryForTexts (otDeliveredText t) (otHeardText (hearAll t))"
  by (simp_all add: hearAll_def Let_def)

lemma hearAll_update_full:
  "TrimSpace (otHeardText (hearAll (updateHeardTextLocked d s t))) = TrimSpace (otDeliveredText t)"
  by (simp add: heardTextForPlayback_def)

lemma turn_inv_hearAll: "turn_inv t \<Longrightarrow> turn_inv (hearAll t)"
  by (simp add: turn_inv_def)

lemma completeTurn_fields:
  "otPlaybackCompleted (completeTurn src t) \<and> \<not> otResponseInterrupted (completeTurn src t) \<and>
   \<not> otResponseTruncated (completeTurn src t) \<and> otDeliveredText (completeTurn src t) = otDeliveredText t"
  by (simp add: completeTurn_def applySoftRecoveryOutcomeLocked_def Let_def split: option.splits)

text \<open>The heard text of a completed turn: the soft boundary where playback is limited to it, else all.\<close>

lemma shouldLimit_cong:
  "otDeliveredText t = otDeliveredText t' \<Longrightarrow> otPlannedDuration t = otPlannedDuration t' \<Longrightarrow>
   shouldLimitCompletedPlaybackToSoftRecovery t sr = shouldLimitCompletedPlaybackToSoftRecovery t' sr"
  by (simp add: shouldLimitCompletedPlaybackToSoftRecovery_def)

lemma completeTurn_heard:
  "TrimSpace (otHeardText (completeTurn src t)) =
    (case otSoftRecovery t of
       Some sr \<Rightarrow> if shouldLimitCompletedPlaybackToSoftRecovery t sr
         then TrimSpace (srHeardText (preferredSoftRecoveryBoundary (otDeliveredText t) sr (currentPlaybackBoundarySnapshotLocked t)))
         else TrimSpace (otDeliveredText t)
     | None \<Rightarrow> TrimSpace (otDeliveredText t))"
proof -
  define t2 where "t2 = hearAll (updateHeardTextLocked
      (if normalizeHeardTextSource src SourceUnknown = SourcePlaybackCompleted
       then maxDuration (otPlannedDuration t) (otPlayedDuration t) else otPlayedDuration t)
      src (t\<lparr>otPlaybackActive := False, otPlaybackCompleted := True\<rparr>))"
  have h: "TrimSpace (otHeardText t2) = TrimSpace (otDeliveredText t)"
    unfolding t2_def by (subst hearAll_update_full) simp
  have c: "completeTurn src t = (applySoftRecoveryOutcomeLocked (currentPlaybackBoundarySnapshotLocked t) t2)
      \<lparr>otResponseInterrupted := False, otResponseTruncated := False\<rparr>"
    by (simp add: completeTurn_def t2_def Let_def)
  have f: "otSoftRecovery t2 = otSoftRecovery t" "otDeliveredText t2 = otDeliveredText t" "otPlannedDuration t2 = otPlannedDuration t"
    by (simp_all add: t2_def)
  show ?thesis unfolding c using h f shouldLimit_cong [OF f(2,3)]
    by (simp add: applySoftRecoveryOutcomeLocked_def Let_def split: option.splits)
qed

lemma complete_outcome_ok: "outcome_ok (playbackOutcomeFromTurn (completeTurn src t))"
proof (rule outcome_ok_turn)
  show "prefix (TrimSpace (otHeardText (completeTurn src t))) (TrimSpace (otDeliveredText (completeTurn src t)))"
    using limited_prefix [OF _ refl, where pre = "currentPlaybackBoundarySnapshotLocked t"]
    unfolding completeTurn_heard by (simp add: completeTurn_fields split: option.splits)
qed (use completeTurn_fields in auto)

lemma finalize_outcome_ok:
  "\<not> otResponseInterrupted t \<Longrightarrow> \<not> otResponseTruncated t \<Longrightarrow> outcome_ok (playbackOutcomeFromTurn
     (t\<lparr>otDeliveredText := d, otHeardText := d, otPlaybackCompleted := True, otPlaybackActive := False, otHeardTextBoundary := b\<rparr>))"
  by (rule outcome_ok_turn) simp_all


section \<open>The contract of an observation\<close>

text \<open>
  What every observation of a running turn promises: it keeps the invariant, never takes back played
  time, and does not touch the request, the input, the response text or the metadata of the turn.
\<close>

locale turn_update =
  fixes f :: "orchestratedTurn \<Rightarrow> orchestratedTurn"
  assumes upd_inv: "turn_inv t \<Longrightarrow> turn_inv (f t)"
    and upd_played: "otPlayedDuration t \<le> otPlayedDuration (f t)"
    and upd_identity: "otRequest (f t) = otRequest t \<and> otInputText (f t) = otInputText t \<and>
      otMetadata (f t) = otMetadata t \<and> otResponseText (f t) = otResponseText t"
begin

lemma orchestrator_inv_update: "orchestrator_inv o1 \<Longrightarrow> orchestrator_inv (onTurn f o1)"
  by (auto simp: orchestrator_inv_def upd_inv)

lemma played_update: "orTurn o1 = Some t \<Longrightarrow> \<exists>t'. orTurn (onTurn f o1) = Some t' \<and> otPlayedDuration t \<le> otPlayedDuration t'"
  by (simp add: upd_played)

end

lemma updateHeard_identity [simp]:
  "otRequest (updateHeardTextLocked d s t) = otRequest t" "otInputText (updateHeardTextLocked d s t) = otInputText t"
  "otMetadata (updateHeardTextLocked d s t) = otMetadata t" "otResponseText (updateHeardTextLocked d s t) = otResponseText t"
  by (simp_all add: updateHeardTextLocked_def Let_def)

lemma refresh_identity [simp]:
  "otRequest (refreshHeardText t) = otRequest t" "otInputText (refreshHeardText t) = otInputText t"
  "otMetadata (refreshHeardText t) = otMetadata t" "otResponseText (refreshHeardText t) = otResponseText t"
  by (simp_all add: refreshHeardText_def)

interpretation chunk: turn_update chunkTurn
  by unfold_locales (auto simp: chunkTurn_def turn_inv_update)

interpretation started: turn_update startedTurn
  by unfold_locales (auto simp: startedTurn_def turn_inv_def)

interpretation mark: turn_update "markTurn d" for d
  by unfold_locales (auto simp: markTurn_def turn_inv_update)

interpretation mark_text: turn_update "markTextTurn d h" for d h
proof (unfold_locales, goal_cases)
  case (1 t)
  then show ?case by (simp add: markTextTurn_def turn_inv_exact)
qed (auto simp: markTextTurn_def updateHeardTextExactLocked_def Let_def)

interpretation completed_fact: turn_update completedFactTurn
  by unfold_locales (auto simp: completedFactTurn_def turn_inv_update turn_inv_hearAll, auto simp: hearAll_def Let_def)

interpretation update_playback: turn_update "updatePlaybackTurn d p" for d p
proof (unfold_locales, goal_cases)
  case (1 t)
  let ?t = "t\<lparr>otDeliveredText := (if TrimSpace d \<noteq> [] then TrimSpace d else otDeliveredText t),
              otPlannedDuration := (if p > 0 then p else otPlannedDuration t)\<rparr>"
  have u: "turn_inv (updateHeardTextLocked q s ?t)" for q s
    using 1 by (auto simp: turn_inv_def estimate_prefix_trimmed le_max_iff_disj)
  show ?case using 1 u [of "otPlayedDuration ?t" "otHeardSource ?t"]
    by (auto simp: updatePlaybackTurn_def Let_def turn_inv_def)
qed (auto simp: updatePlaybackTurn_def Let_def)

interpretation record_policy: turn_update "recordPolicyTurn p r" for p r
proof (unfold_locales, goal_cases)
  case (1 t)
  then show ?case using turn_inv_record [OF 1, of p r] turn_inv_capture
    by (auto simp: recordPolicyTurn_def case_prod_beta)
next
  case (2 t)
  show ?case by (auto simp: recordPolicyTurn_def case_prod_beta captureSoftRecoverySnapshotLocked_def Let_def)
next
  case (3 t)
  show ?case by (auto simp: recordPolicyTurn_def case_prod_beta captureSoftRecoverySnapshotLocked_def Let_def
      recordInterruptionPolicyLocked_def)
qed


section \<open>Every step\<close>

lemma trimmed_empty [simp]: "trimmed []"
  by (simp add: trimmed_def)

lemma orchestrator_inv_persist: "orchestrator_inv (persistLocked o1) = orchestrator_inv o1"
  by (simp add: orchestrator_inv_def)

lemma orchestrator_inv_finish:
  "orTurn o1 = Some t \<Longrightarrow> outcome_ok (playbackOutcomeFromTurn (f t)) \<Longrightarrow> orchestrator_inv (finishTurn f o1)"
  by (simp add: orchestrator_inv_def finishTurn_fields)

lemma orchestrator_inv_prepare: "orchestrator_inv o1 \<Longrightarrow> orchestrator_inv (PrepareTurn r i x o1)"
proof -
  assume o: "orchestrator_inv o1"
  have n: "turn_inv (newTurn r i x)" by (simp add: turn_inv_def newTurn_def trimmed_def)
  show ?thesis
  proof (cases "orTurn o1")
    case None
    then show ?thesis using o n by (simp add: PrepareTurn_def orchestrator_inv_persist, simp add: orchestrator_inv_def)
  next
    case (Some t)
    then have t: "turn_inv t" using o by (simp add: orchestrator_inv_def)
    then show ?thesis using o n Some
      by (simp add: PrepareTurn_def orchestrator_inv_persist, simp add: orchestrator_inv_def turn_inv_def)
  qed
qed

lemma orchestrator_inv_step: "orchestrator_inv o1 \<Longrightarrow> orchestrator_inv (orchestrator_step c o1)"
proof (cases c)
  case (CallFinalizeTextResponse d)
  assume o: "orchestrator_inv o1"
  show ?thesis
  proof (cases "orTurn o1")
    case (Some t)
    then have "turn_inv t" using o by (simp add: orchestrator_inv_def)
    then show ?thesis using Some CallFinalizeTextResponse finalize_outcome_ok
      by (simp add: FinalizeTextResponse_def orchestrator_inv_finish turn_inv_def Let_def)
  qed (use o CallFinalizeTextResponse in \<open>simp add: FinalizeTextResponse_def\<close>)
next
  case (CallInterrupt p r)
  assume o: "orchestrator_inv o1"
  show ?thesis
  proof (cases "orTurn o1")
    case (Some t)
    then have "turn_inv t" using o by (simp add: orchestrator_inv_def)
    then show ?thesis using o Some CallInterrupt interrupt_outcome_ok
      by (simp add: InterruptPlaybackWithPolicy_def Let_def orchestrator_inv_finish)
  qed (use o CallInterrupt in \<open>simp add: InterruptPlaybackWithPolicy_def Let_def\<close>)
next
  case (CallComplete src)
  assume o: "orchestrator_inv o1"
  show ?thesis
  proof (cases "orTurn o1")
    case (Some t)
    then show ?thesis using CallComplete complete_outcome_ok
      by (simp add: CompletePlaybackWithSource_def orchestrator_inv_finish)
  qed (use o CallComplete in \<open>simp add: CompletePlaybackWithSource_def\<close>)
next
  case (CallStartPlayback d ch p b)
  assume o: "orchestrator_inv o1"
  then show ?thesis using CallStartPlayback
    by (auto simp: StartPlaybackWithOptions_def orchestrator_inv_def turn_inv_def heardTextBoundaryForTexts_def Let_def)
next
  case (CallUpdatePlayback d p)
  assume "orchestrator_inv o1"
  then show ?thesis using CallUpdatePlayback update_playback.orchestrator_inv_update
    by (simp add: UpdatePlayback_def orchestrator_inv_persist)
next
  case (CallInstallPreview h)
  assume "orchestrator_inv o1"
  then show ?thesis using CallInstallPreview
    by (simp add: installInputPreview_def orchestrator_inv_def split: option.splits)
next
  case (CallPreviewSnapshot pv)
  assume "orchestrator_inv o1"
  then show ?thesis using CallPreviewSnapshot
    by (simp add: recordInputPreviewSnapshot_def orchestrator_inv_def Let_def split: option.splits)
next
  case CallClearPreview
  assume "orchestrator_inv o1"
  then show ?thesis using CallClearPreview
    by (simp add: ClearInputPreview_def orchestrator_inv_def)
qed (simp_all add: orchestrator_inv_prepare ObservePlaybackChunk_def ObservePlaybackStartedFact_def
    ObservePlaybackMarkFact_def ObservePlaybackMarkTextFact_def ObservePlaybackCompletedFact_def RecordInterruptionPolicy_def
    chunk.orchestrator_inv_update started.orchestrator_inv_update mark.orchestrator_inv_update
    mark_text.orchestrator_inv_update completed_fact.orchestrator_inv_update record_policy.orchestrator_inv_update)

lemma orchestrator_inv_run: "orchestrator_inv o1 \<Longrightarrow> orchestrator_inv (fold orchestrator_step cs o1)"
  by (induction cs arbitrary: o1) (simp_all add: orchestrator_inv_step)

lemma orchestrator_inv_New: "orchestrator_inv (NewSessionOrchestrator ms)"
  by (simp add: orchestrator_inv_def NewSessionOrchestrator_def)

text \<open>The commit suggestion among the observations of one preview.\<close>

lemma recordSnapshots_commits:
  assumes "orPreview o1 = Some pv"
  shows "map obPreview (filter obCommitSuggested (fst (recordSnapshots ss o1))) =
    (if ipLastCommitLogged pv then [] else take 1 (filter pvCommitSuggested ss))"
  using assms
proof (induction ss arbitrary: o1 pv)
  case (Cons s ss)
  let ?o = "snd (recordInputPreviewSnapshot s o1)"
  obtain pv' where pv': "orPreview ?o = Some pv'" "ipLastCommitLogged pv' \<longleftrightarrow> pvCommitSuggested s \<or> ipLastCommitLogged pv"
    using Cons.prems by (auto simp: recordInputPreviewSnapshot_def Let_def)
  have ob: "obCommitSuggested (fst (recordInputPreviewSnapshot s o1)) \<longleftrightarrow> pvCommitSuggested s \<and> \<not> ipLastCommitLogged pv"
    "obPreview (fst (recordInputPreviewSnapshot s o1)) = s"
    using Cons.prems by (simp_all add: recordInputPreviewSnapshot_def Let_def)
  have r: "fst (recordSnapshots (s # ss) o1) = fst (recordInputPreviewSnapshot s o1) # fst (recordSnapshots ss ?o)"
    by (simp add: case_prod_beta)
  show ?case using Cons.IH [OF pv'(1)] pv'(2) ob unfolding r by auto
qed simp


section \<open>Properties\<close>

text \<open>
  C19: what the orchestrator says was heard was delivered. In every reachable orchestrator the heard
  text of the running playback is a prefix of the delivered text, and the last recorded outcome splits
  the delivered text into what was heard and what was missed, names the right boundary, is either
  completed or interrupted, and is truncated exactly when it was interrupted inside the text.
\<close>
theorem orchestrator_reachable_inv:
  assumes "o1 = fold orchestrator_step calls (NewSessionOrchestrator ms)"
  shows "(\<forall>t. orTurn o1 = Some t \<and> otPlaybackActive t \<longrightarrow> prefix (otHeardText t) (otDeliveredText t)) \<and>
    (\<forall>po. LastPlaybackOutcome o1 = Some po \<longrightarrow> outcome_ok po)"
  using orchestrator_inv_run [OF orchestrator_inv_New, of calls ms] assms
  by (auto simp: orchestrator_inv_def turn_inv_def LastPlaybackOutcome_def)

definition sampleRequest :: TurnRequest where
  "sampleRequest = \<lparr>rqSessionID = lit ''s1'', rqTurnID = lit ''t1'', rqTraceID = [], rqDeviceID = lit ''d1'', rqClientType = [],
     rqText = [], rqMetadata = Map.empty, rqPreviewTranscription = None, rqAudioPCM = [], rqAudioBytes = 0,
     rqInputFrames = 0, rqInputCodec = [], rqInputSampleRate = 16000, rqInputChannels = 1\<rparr>"

theorem orchestrator_reachable_inv_witness:
  "\<exists>po. LastPlaybackOutcome (fold orchestrator_step
      [CallPrepareTurn sampleRequest (lit ''hi'') (lit ''hello there''), CallStartPlayback (lit ''hello there'') 20000000 0 False,
       CallObserveChunk, CallInterrupt PolicyHardInterrupt []] (NewSessionOrchestrator None)) = Some po \<and> outcome_ok po"
proof -
  let ?o = "fold orchestrator_step
      [CallPrepareTurn sampleRequest (lit ''hi'') (lit ''hello there''), CallStartPlayback (lit ''hello there'') 20000000 0 False,
       CallObserveChunk, CallInterrupt PolicyHardInterrupt []] (NewSessionOrchestrator None)"
  have "LastPlaybackOutcome ?o \<noteq> None"
    by (simp add: LastPlaybackOutcome_def InterruptPlaybackWithPolicy_def Let_def ObservePlaybackChunk_def chunkTurn_def
        StartPlaybackWithOptions_def PrepareTurn_def NewSessionOrchestrator_def newTurn_def finishTurn_fields)
  then show ?thesis using orchestrator_reachable_inv [OF refl, of _ None] by blast
qed

text \<open>
  C37: interrupting ends the turn and remembers what was heard. On a running playback the call returns
  the heard text, clears the turn, saves a record of the turn with that heard text and the same
  truncation flag to memory, and the recorded outcome agrees; without a running playback it changes
  nothing.
\<close>
theorem interrupt_reports_heard_text:
  assumes "InterruptPlaybackWithPolicy p r o1 = (res, o2)"
  shows "(case orTurn o1 of
      Some t \<Rightarrow> if otPlaybackActive t then
          orTurn o2 = None \<and> piPlayedDuration res = otPlayedDuration t \<and>
          (\<exists>rec po. orMemoryStore o2 = storeSaveTurn rec (orMemoryStore o1) \<and> LastPlaybackOutcome o2 = Some po \<and>
            recTurnID rec = rqTurnID (otRequest t) \<and> recHeardText rec = piHeardText res \<and>
            recDeliveredText rec = otDeliveredText t \<and> recResponseInterrupted rec \<and> \<not> recPlaybackCompleted rec \<and>
            recResponseTruncated rec = piTruncated res \<and> poHeardText po = TrimSpace (piHeardText res) \<and>
            poResponseTruncated po = piTruncated res \<and> piTruncated res = (piHeardTextBoundary res = HeardBoundaryPrefix))
        else o2 = o1
    | None \<Rightarrow> o2 = o1) \<and> piPolicy res \<noteq> PolicyIgnore \<and> piPolicy res \<noteq> PolicyUnset"
proof -
  have pol: "piPolicy res \<noteq> PolicyIgnore \<and> piPolicy res \<noteq> PolicyUnset"
    using assms by (auto simp: InterruptPlaybackWithPolicy_def Let_def normalizeInterruptionPolicy_def split: option.splits if_splits)
  show ?thesis
  proof (cases "\<exists>t. orTurn o1 = Some t \<and> otPlaybackActive t")
    case False
    then show ?thesis using assms pol by (auto simp: InterruptPlaybackWithPolicy_def Let_def split: option.splits if_splits)
  next
    case True
    then obtain t where t: "orTurn o1 = Some t" "otPlaybackActive t" by blast
    obtain p' r' where o2: "o2 = finishTurn (interruptTurn p' r') o1" and
      res: "piHeardText res = otHeardText (interruptTurn p' r' t)" "piHeardTextBoundary res = otHeardTextBoundary (interruptTurn p' r' t)"
        "piPlayedDuration res = otPlayedDuration (interruptTurn p' r' t)" "piTruncated res = otResponseTruncated (interruptTurn p' r' t)"
      using assms t by (auto simp: InterruptPlaybackWithPolicy_def Let_def)
    let ?t = "interruptTurn p' r' t"
    have f: "otRequest ?t = otRequest t" "otDeliveredText ?t = otDeliveredText t" "otPlayedDuration ?t = otPlayedDuration t"
      "otResponseInterrupted ?t" "\<not> otPlaybackCompleted ?t" "otResponseTruncated ?t = (otHeardTextBoundary ?t = HeardBoundaryPrefix)"
      by (simp_all add: interruptTurn_def Let_def) (simp add: recordInterruptionPolicyLocked_def Let_def)
    have "orMemoryStore o2 = storeSaveTurn (turnRecord ?t) (orMemoryStore o1)" "orTurn o2 = None"
      "LastPlaybackOutcome o2 = Some (playbackOutcomeFromTurn ?t)"
      using finishTurn_fields [OF t(1)] by (simp_all add: o2 LastPlaybackOutcome_def)
    moreover have "recTurnID (turnRecord ?t) = rqTurnID (otRequest t)" "recHeardText (turnRecord ?t) = otHeardText ?t"
      "recDeliveredText (turnRecord ?t) = otDeliveredText t" "recResponseInterrupted (turnRecord ?t)"
      "\<not> recPlaybackCompleted (turnRecord ?t)" "recResponseTruncated (turnRecord ?t) = otResponseTruncated ?t"
      using f by (simp_all add: turnRecord_def BuildMemoryRecord_def turnInputFromRequest_def)
    moreover have "poHeardText (playbackOutcomeFromTurn ?t) = TrimSpace (otHeardText ?t)"
      "poResponseTruncated (playbackOutcomeFromTurn ?t) = otResponseTruncated ?t"
      by (simp_all add: playbackOutcomeFromTurn_def)
    ultimately show ?thesis using t f res pol by auto
  qed
qed

theorem interrupt_reports_heard_text_witness:
  "snd (InterruptPlaybackWithPolicy PolicyIgnore [] (NewSessionOrchestrator None)) = NewSessionOrchestrator None"
  using interrupt_reports_heard_text [OF prod.collapse [symmetric], of PolicyIgnore "[]" "NewSessionOrchestrator None"]
  by (simp add: NewSessionOrchestrator_def)

text \<open>
  a completed playback counts as heard in full unless the user was talked over. Without a soft
  interruption on record the heard text of the outcome is all of the delivered text; when the
  playback is limited to a soft boundary, the outcome keeps a proper prefix and reports the rest as
  missed. It is never reported as interrupted or truncated.
\<close>
theorem completed_playback_outcome:
  assumes "orTurn o1 = Some t"
  shows "\<exists>po. LastPlaybackOutcome (CompletePlaybackWithSource src o1) = Some po \<and>
    orTurn (CompletePlaybackWithSource src o1) = None \<and>
    poPlaybackCompleted po \<and> \<not> poResponseInterrupted po \<and> \<not> poResponseTruncated po \<and>
    poDeliveredText po = TrimSpace (otDeliveredText t) \<and>
    (if \<exists>sr. otSoftRecovery t = Some sr \<and> shouldLimitCompletedPlaybackToSoftRecovery t sr
     then prefix (poHeardText po) (poDeliveredText po) \<and> poHeardText po \<noteq> poDeliveredText po \<and> poMissedText po \<noteq> []
     else poHeardText po = poDeliveredText po \<and> poMissedText po = [])"
proof -
  let ?t = "completeTurn src t"
  let ?po = "playbackOutcomeFromTurn ?t"
  have po: "LastPlaybackOutcome (CompletePlaybackWithSource src o1) = Some ?po" "orTurn (CompletePlaybackWithSource src o1) = None"
    using assms finishTurn_fields [OF assms] by (simp_all add: CompletePlaybackWithSource_def LastPlaybackOutcome_def)
  have f: "poPlaybackCompleted ?po" "\<not> poResponseInterrupted ?po" "\<not> poResponseTruncated ?po"
    "poDeliveredText ?po = TrimSpace (otDeliveredText t)" "poHeardText ?po = TrimSpace (otHeardText ?t)"
    using completeTurn_fields [of src t] by (simp_all add: playbackOutcomeFromTurn_def)
  have h: "if \<exists>sr. otSoftRecovery t = Some sr \<and> shouldLimitCompletedPlaybackToSoftRecovery t sr
      then prefix (TrimSpace (otHeardText ?t)) (TrimSpace (otDeliveredText t)) \<and> TrimSpace (otHeardText ?t) \<noteq> TrimSpace (otDeliveredText t)
      else TrimSpace (otHeardText ?t) = TrimSpace (otDeliveredText t)"
    using limited_prefix [OF _ refl, of t _ "currentPlaybackBoundarySnapshotLocked t"]
    unfolding completeTurn_heard by (auto split: option.splits)
  have m: "poMissedText ?po = [] \<longleftrightarrow> TrimSpace (otHeardText ?t) = TrimSpace (otDeliveredText t)"
    using missed_empty_iff [of "otHeardText ?t" "otDeliveredText ?t"] h completeTurn_fields [of src t]
    by (auto simp: playbackOutcomeFromTurn_def split: if_splits)
  show ?thesis using po f h m by (intro exI [of _ ?po]) (auto split: if_splits)
qed

theorem completed_playback_outcome_witness:
  "\<exists>po. LastPlaybackOutcome (CompletePlayback (PrepareTurn sampleRequest (lit ''hi'') (lit ''hello'') (NewSessionOrchestrator None))) = Some po \<and>
     poPlaybackCompleted po"
proof -
  have "orTurn (PrepareTurn sampleRequest (lit ''hi'') (lit ''hello'') (NewSessionOrchestrator None)) =
      Some (newTurn sampleRequest (lit ''hi'') (lit ''hello''))"
    by (simp add: PrepareTurn_def NewSessionOrchestrator_def)
  from completed_playback_outcome [OF this, of HeuristicBytes] show ?thesis unfolding CompletePlayback_def by blast
qed

text \<open>
  a preview suggests to commit once. Of the observations of one preview at most one carries a new
  commit suggestion, and it belongs to the first snapshot that suggests to commit; once it was
  reported, none does.
\<close>
theorem preview_commit_suggested_once:
  assumes "orPreview o1 = Some pv"
  shows "map obPreview (filter obCommitSuggested (fst (recordSnapshots snapshots o1))) =
    (if ipLastCommitLogged pv then [] else take 1 (filter pvCommitSuggested snapshots))"
  using assms by (rule recordSnapshots_commits)

theorem preview_commit_suggested_once_witness:
  "map obPreview (filter obCommitSuggested (fst (recordSnapshots [zeroPreview, zeroPreview\<lparr>pvCommitSuggested := True\<rparr>,
      zeroPreview\<lparr>pvCommitSuggested := True\<rparr>] (snd (installInputPreview 7 (NewSessionOrchestrator None)))))) =
   [zeroPreview\<lparr>pvCommitSuggested := True\<rparr>]"
proof -
  have "orPreview (snd (installInputPreview 7 (NewSessionOrchestrator None))) =
      Some \<lparr>ipSession = 7, ipLast = zeroPreview, ipLastPartialText = [], ipLastCommitLogged = False\<rparr>"
    by (simp add: installInputPreview_def NewSessionOrchestrator_def)
  from preview_commit_suggested_once [OF this, of "[zeroPreview, zeroPreview\<lparr>pvCommitSuggested := True\<rparr>, zeroPreview\<lparr>pvCommitSuggested := True\<rparr>]"]
  show ?thesis by (simp add: zeroPreview_def)
qed

end
