(* ===== verification/Agent_Turns.thy ===== *)
theory Agent_Turns
  imports Orchestrator
begin

text \<open>
  The turn executors' common ground in \<open>internal/agent\<close>: tools (\<open>contracts.go\<close>, \<open>hooks.go\<close>), the follow-up to an answer that was cut off (\<open>playback_followup.go\<close>)
  and the executor without a model (\<open>bootstrap_executor.go\<close>). A sink takes a delta or fails; an executor returns the deltas the
  sink took, in order. Registries and invokers of tools are functions, as are
  the tables \<open>unicode.IsLetter\<close> and \<open>unicode.IsDigit\<close>. \<open>strings.EqualFold\<close> is compared in lower case.
\<close>

section \<open>Data\<close>

datatype TurnDeltaKind = TurnTextDelta | TurnToolCallDelta | TurnToolResultDelta

record TurnDelta =
  tdKind :: TurnDeltaKind
  tdText :: gostring
  tdToolCallID :: gostring
  tdToolName :: gostring
  tdToolStatus :: gostring
  tdToolInput :: gostring
  tdToolOutput :: gostring

record TurnOutput =
  toText :: gostring
  toDeltas :: "TurnDelta list"
  toEndSession :: bool
  toEndReason :: gostring
  toEndMessage :: gostring

record ToolCatalogRequest =
  tcrSessionID :: gostring
  tcrDeviceID :: gostring
  tcrClientType :: gostring

text \<open>A JSON value; the keys of an object are distinct and their order is irrelevant.\<close>

datatype JSON = JBool bool | JInt int | JString gostring | JArray "JSON list" | JNull | JObject "(gostring \<times> JSON) list"

record ToolDefinition =
  tdefName :: gostring
  tdefDescription :: gostring
  tdefParameters :: "(gostring \<times> JSON) list"
  tdefStrict :: bool

record ToolCall =
  tcCallID :: gostring
  tcSessionID :: gostring
  tcDeviceID :: gostring
  tcClientType :: gostring
  tcToolName :: gostring
  tcToolInput :: gostring

record ToolResult =
  trsCallID :: gostring
  trsToolName :: gostring
  trsToolStatus :: gostring
  trsToolOutput :: gostring

type_synonym ToolRegistry = "ToolCatalogRequest \<Rightarrow> gostring + ToolDefinition list"
type_synonym ToolInvoker = "ToolCall \<Rightarrow> gostring + ToolResult"
type_synonym TurnDeltaSink = "TurnDelta \<Rightarrow> gostring option"

definition textOutput :: "gostring \<Rightarrow> TurnOutput" where
  "textOutput t = \<lparr>toText = t, toDeltas = [], toEndSession = False, toEndReason = [], toEndMessage = []\<rparr>"

definition textTurnDelta :: "gostring \<Rightarrow> TurnDelta" where
  "textTurnDelta t = \<lparr>tdKind = TurnTextDelta, tdText = t, tdToolCallID = [], tdToolName = [], tdToolStatus = [], tdToolInput = [], tdToolOutput = []\<rparr>"

definition toolCallDelta :: "ToolCall \<Rightarrow> TurnDelta" where
  "toolCallDelta call = \<lparr>tdKind = TurnToolCallDelta, tdText = [], tdToolCallID = tcCallID call, tdToolName = tcToolName call,
     tdToolStatus = lit ''started'', tdToolInput = tcToolInput call, tdToolOutput = []\<rparr>"

definition toolResultDelta :: "ToolResult \<Rightarrow> TurnDelta" where
  "toolResultDelta result = \<lparr>tdKind = TurnToolResultDelta, tdText = [], tdToolCallID = trsCallID result, tdToolName = trsToolName result,
     tdToolStatus = trsToolStatus result, tdToolInput = [], tdToolOutput = trsToolOutput result\<rparr>"

definition NoopListTools :: ToolRegistry where "NoopListTools request = Inr []"

definition NoopInvokeTool :: ToolInvoker where
  "NoopInvokeTool call = Inr \<lparr>trsCallID = tcCallID call, trsToolName = tcToolName call, trsToolStatus = lit ''unavailable'',
     trsToolOutput = lit ''tool runtime not configured''\<rparr>"

section \<open>Deltas\<close>

fun emitTurnDeltas :: "TurnDeltaSink \<Rightarrow> TurnDelta list \<Rightarrow> gostring option \<times> TurnDelta list" where
  "emitTurnDeltas sink [] = (None, [])"
| "emitTurnDeltas sink (d # ds) =
     (case sink d of
        Some e \<Rightarrow> (Some e, [])
      | None \<Rightarrow> (let (r, taken) = emitTurnDeltas sink ds in (r, d # taken)))"

text \<open>An output after its deltas, unless the sink fails.\<close>

definition outputAfter :: "TurnDeltaSink \<Rightarrow> TurnDelta list \<Rightarrow> TurnOutput \<Rightarrow> (gostring + TurnOutput) \<times> TurnDelta list" where
  "outputAfter sink ds output =
     (case emitTurnDeltas sink ds of (Some e, taken) \<Rightarrow> (Inl e, taken) | (None, taken) \<Rightarrow> (Inr output, taken))"

section \<open>The end of a dialogue\<close>

definition shouldEndSession :: "gostring \<Rightarrow> bool" where
  "shouldEndSession t \<longleftrightarrow> ToLower (TrimSpace t) \<in> set [lit ''/end'', lit ''bye'', lit ''goodbye'', [0x7ED3, 0x675F], [0x7ED3, 0x675F, 0x5BF9, 0x8BDD]]"

definition turnOutputFromText :: "gostring \<Rightarrow> gostring \<Rightarrow> TurnOutput" where
  "turnOutputFromText inputText t =
     (if shouldEndSession inputText
      then (textOutput t)\<lparr>toEndSession := True, toEndReason := lit ''completed'', toEndMessage := lit ''dialog finished''\<rparr> else textOutput t)"

section \<open>Follow-ups to a previous answer\<close>

record previousPlaybackContext =
  ppAvailable :: bool
  ppHeardText :: gostring
  ppMissedText :: gostring
  ppResumeAnchor :: gostring
  ppInterruptionPolicy :: gostring
  ppPlaybackCompleted :: bool
  ppResponseInterrupted :: bool
  ppResponseTruncated :: bool

datatype playbackFollowUpIntent = IntentNone | IntentContinue | IntentRecallBoundary | IntentRecapTail

text \<open>A missing key of a Go map reads as the empty string.\<close>

definition metadataText :: "metadata \<Rightarrow> gostring \<Rightarrow> gostring" where
  "metadataText m key = TrimSpace (case m key of None \<Rightarrow> [] | Some v \<Rightarrow> v)"

definition metadataFlag :: "metadata \<Rightarrow> gostring \<Rightarrow> bool" where
  "metadataFlag m key \<longleftrightarrow> ToLower (metadataText m key) = lit ''true''"

definition parsePreviousPlaybackContext :: "metadata \<Rightarrow> previousPlaybackContext" where
  "parsePreviousPlaybackContext m =
     (let heard = metadataText m (lit ''voice.previous.heard_text''); missed = metadataText m (lit ''voice.previous.missed_text'');
          anchor = metadataText m (lit ''voice.previous.resume_anchor'')
      in \<lparr>ppAvailable = (metadataFlag m (lit ''voice.previous.available'') \<or> heard \<noteq> [] \<or> missed \<noteq> [] \<or> anchor \<noteq> []),
          ppHeardText = heard, ppMissedText = missed, ppResumeAnchor = anchor,
          ppInterruptionPolicy = metadataText m (lit ''voice.previous.interruption_policy''),
          ppPlaybackCompleted = metadataFlag m (lit ''voice.previous.playback_completed''),
          ppResponseInterrupted = metadataFlag m (lit ''voice.previous.response_interrupted''),
          ppResponseTruncated = metadataFlag m (lit ''voice.previous.response_truncated'')\<rparr>)"

definition actionable :: "previousPlaybackContext \<Rightarrow> bool" where
  "actionable c \<longleftrightarrow> ppAvailable c \<and> (ppHeardText c \<noteq> [] \<or> ppMissedText c \<noteq> [] \<or> ppResumeAnchor c \<noteq> [])"

definition softRecoveryContext :: "previousPlaybackContext \<Rightarrow> bool" where
  "softRecoveryContext c \<longleftrightarrow> ppPlaybackCompleted c \<and> \<not> ppResponseInterrupted c \<and> ppMissedText c \<noteq> []
     \<and> ppInterruptionPolicy c \<in> {lit ''duck_only'', lit ''backchannel''}"

definition followUpMarks :: "rune list" where
  "followUpMarks = [0xFF1F, 0x3002, 0xFF01, 0xFF0C, 44, 46, 33, 63, 0x201C, 0x201D, 0x2018, 0x2019, 39, 34, 32]"

definition normalizePlaybackFollowUpText :: "gostring \<Rightarrow> gostring" where
  "normalizePlaybackFollowUpText t = filter (\<lambda>r. r \<notin> set followUpMarks) (TrimSpace (ToLower t))"

definition isPlaybackContinueIntent :: "gostring \<Rightarrow> bool" where
  "isPlaybackContinueIntent n \<longleftrightarrow> n \<in> set [[0x7EE7, 0x7EED], [0x7EE7, 0x7EED, 0x8BF4], [0x7EE7, 0x7EED, 0x8BB2], [0x63A5, 0x7740, 0x8BF4], [0x63A5, 0x7740, 0x8BB2], [0x63A5, 0x7740], [0x540E, 0x9762, 0x5462], [0x7136, 0x540E, 0x5462], [0x7EE7, 0x7EED, 0x5427], lit ''goon'', lit ''continue'', lit ''keepgoing'']"

definition isPlaybackBoundaryRecallIntent :: "gostring \<Rightarrow> bool" where
  "isPlaybackBoundaryRecallIntent n \<longleftrightarrow> n \<in> set [[0x4F60, 0x521A, 0x521A, 0x8BF4, 0x5230, 0x54EA, 0x4E86], [0x4F60, 0x521A, 0x521A, 0x8BF4, 0x5230, 0x54EA], [0x521A, 0x521A, 0x8BF4, 0x5230, 0x54EA, 0x4E86], [0x521A, 0x521A, 0x8BF4, 0x5230, 0x54EA], [0x4F60, 0x521A, 0x624D, 0x8BF4, 0x5230, 0x54EA, 0x4E86], [0x4F60, 0x521A, 0x624D, 0x8BF4, 0x5230, 0x54EA], [0x521A, 0x624D, 0x8BF4, 0x5230, 0x54EA, 0x4E86], [0x521A, 0x624D, 0x8BF4, 0x5230, 0x54EA]]"

definition isPlaybackRecapTailIntent :: "gostring \<Rightarrow> bool" where
  "isPlaybackRecapTailIntent n \<longleftrightarrow> n \<in> set [[0x6CA1, 0x542C, 0x6E05], [0x6CA1, 0x542C, 0x6E05, 0x695A], [0x4F60, 0x521A, 0x521A, 0x6700, 0x540E, 0x4E00, 0x53E5], [0x4F60, 0x521A, 0x521A, 0x6700, 0x540E, 0x4E00, 0x53E5, 0x662F, 0x4EC0, 0x4E48], [0x521A, 0x521A, 0x6700, 0x540E, 0x4E00, 0x53E5], [0x6700, 0x540E, 0x4E00, 0x53E5], [0x4F60, 0x521A, 0x624D, 0x6700, 0x540E, 0x4E00, 0x53E5], [0x4F60, 0x521A, 0x624D, 0x6700, 0x540E, 0x4E00, 0x53E5, 0x662F, 0x4EC0, 0x4E48], [0x518D, 0x8BF4, 0x4E00, 0x904D], [0x518D, 0x8BF4, 0x4E00, 0x6B21], lit ''repeatthat'', lit ''sayitagain'']"

definition isPlaybackContinueLikeIntent :: "gostring \<Rightarrow> bool" where
  "isPlaybackContinueLikeIntent n \<longleftrightarrow> isPlaybackContinueIntent n \<or> list_ex (HasPrefix n) [[0x7EE7, 0x7EED], [0x63A5, 0x7740], [0x540E, 0x9762], [0x7136, 0x540E]]
     \<or> HasPrefix n (lit ''continue'') \<or> HasPrefix n (lit ''goon'')"

definition isPlaybackBoundaryRecallLikeIntent :: "gostring \<Rightarrow> bool" where
  "isPlaybackBoundaryRecallLikeIntent n \<longleftrightarrow> isPlaybackBoundaryRecallIntent n \<or> Contains n [0x8BF4, 0x5230, 0x54EA] \<or> Contains n [0x8BB2, 0x5230, 0x54EA]"

definition isPlaybackRecapTailLikeIntent :: "gostring \<Rightarrow> bool" where
  "isPlaybackRecapTailLikeIntent n \<longleftrightarrow> isPlaybackRecapTailIntent n \<or> list_ex (Contains n) [[0x6CA1, 0x542C, 0x6E05], [0x6700, 0x540E, 0x4E00, 0x53E5], [0x518D, 0x8BF4, 0x4E00, 0x904D], [0x518D, 0x8BF4, 0x4E00, 0x6B21], [0x518D, 0x91CD, 0x590D]]"

text \<open>The deterministic and the loose detection differ in the three tests only.\<close>

definition followUpIntent ::
    "(gostring \<Rightarrow> bool) \<Rightarrow> (gostring \<Rightarrow> bool) \<Rightarrow> (gostring \<Rightarrow> bool) \<Rightarrow> gostring \<Rightarrow> previousPlaybackContext \<Rightarrow> playbackFollowUpIntent" where
  "followUpIntent continues recalls recaps userText c =
     (let n = normalizePlaybackFollowUpText userText
      in if \<not> actionable c then IntentNone
         else if n = [] then IntentNone
         else if continues n \<and> ppMissedText c \<noteq> [] then IntentContinue
         else if recalls n \<and> (ppHeardText c \<noteq> [] \<or> ppResumeAnchor c \<noteq> []) then IntentRecallBoundary
         else if recaps n \<and> (ppMissedText c \<noteq> [] \<or> ppHeardText c \<noteq> []) then IntentRecapTail
         else if continues n \<and> ppHeardText c \<noteq> [] then IntentRecallBoundary
         else IntentNone)"

definition detectDeterministicPlaybackFollowUpIntent :: "gostring \<Rightarrow> previousPlaybackContext \<Rightarrow> playbackFollowUpIntent" where
  "detectDeterministicPlaybackFollowUpIntent =
     followUpIntent isPlaybackContinueIntent isPlaybackBoundaryRecallIntent isPlaybackRecapTailIntent"

definition detectLoosePlaybackFollowUpIntent :: "gostring \<Rightarrow> previousPlaybackContext \<Rightarrow> playbackFollowUpIntent" where
  "detectLoosePlaybackFollowUpIntent =
     followUpIntent isPlaybackContinueLikeIntent isPlaybackBoundaryRecallLikeIntent isPlaybackRecapTailLikeIntent"

definition detectPlaybackFollowUpIntent :: "gostring \<Rightarrow> previousPlaybackContext \<Rightarrow> playbackFollowUpIntent" where
  "detectPlaybackFollowUpIntent userText c =
     (let i = detectDeterministicPlaybackFollowUpIntent userText c
      in if i \<noteq> IntentNone then i else detectLoosePlaybackFollowUpIntent userText c)"

definition deterministicPlaybackFollowUpText :: "gostring \<Rightarrow> metadata \<Rightarrow> gostring option" where
  "deterministicPlaybackFollowUpText userText m =
     (let c = parsePreviousPlaybackContext m; heard = ppHeardText c; missed = ppMissedText c; anchor = ppResumeAnchor c
      in case detectDeterministicPlaybackFollowUpIntent userText c of
           IntentContinue \<Rightarrow> if missed \<noteq> [] then Some missed else None
         | IntentRecallBoundary \<Rightarrow>
             (if softRecoveryContext c \<and> heard \<noteq> [] \<and> missed \<noteq> [] then
                Some ([0x6211, 0x521A, 0x521A, 0x5927, 0x6982, 0x8BF4, 0x5230, 0xFF1A] @ heard @ [0x3002, 0x4F60, 0x8BF4, 0x8BDD, 0x90A3, 0x4F1A, 0x513F, 0x540E, 0x9762, 0x53EF, 0x80FD, 0x6CA1, 0x5B8C, 0x6574, 0x542C, 0x5230, 0x7684, 0x662F, 0xFF1A] @ missed)
              else if heard \<noteq> [] \<and> missed \<noteq> [] then Some ([0x6211, 0x521A, 0x521A, 0x8BF4, 0x5230, 0xFF1A] @ heard @ [0x3002, 0x540E, 0x9762, 0x8FD8, 0x6CA1, 0x64AD, 0x5B8C, 0x7684, 0x662F, 0xFF1A] @ missed)
              else if heard \<noteq> [] then Some ([0x6211, 0x521A, 0x521A, 0x8BF4, 0x5230, 0xFF1A] @ heard)
              else if anchor \<noteq> [] then Some ([0x6211, 0x521A, 0x521A, 0x8BF4, 0x5230, 0xFF1A] @ anchor)
              else None)
         | IntentRecapTail \<Rightarrow>
             (if softRecoveryContext c \<and> missed \<noteq> [] then Some ([0x4F60, 0x521A, 0x521A, 0x53EF, 0x80FD, 0x6CA1, 0x5B8C, 0x6574, 0x542C, 0x5230, 0x7684, 0x662F, 0xFF1A] @ missed)
              else if missed \<noteq> [] then Some ([0x540E, 0x9762, 0x90A3, 0x53E5, 0x662F, 0xFF1A] @ missed)
              else if heard \<noteq> [] then Some ([0x6211, 0x521A, 0x521A, 0x8BF4, 0x7684, 0x662F, 0xFF1A] @ heard)
              else None)
         | IntentNone \<Rightarrow> None)"

section \<open>Commands\<close>

definition parseBootstrapMemoryCommand :: "gostring \<Rightarrow> gostring option" where
  "parseBootstrapMemoryCommand t =
     (let trimmed0 = TrimSpace t; lower = ToLower trimmed0
      in if lower = lit ''/memory'' then Some []
         else if HasPrefix lower (lit ''/memory '') then Some (TrimSpace (drop 7 trimmed0))
         else None)"

record bootstrapToolCommand =
  btToolName :: gostring
  btToolInput :: gostring

definition parseBootstrapToolCommand :: "gostring \<Rightarrow> bootstrapToolCommand option" where
  "parseBootstrapToolCommand t =
     (let trimmed0 = TrimSpace t; lower = ToLower trimmed0; rest = TrimSpace (drop 5 trimmed0);
          toolName = TrimSpace (takeWhile (\<lambda>r. r \<noteq> 32) rest); found = (32 \<in> set rest); toolInput = tl (dropWhile (\<lambda>r. r \<noteq> 32) rest)
      in if lower \<noteq> lit ''/tool'' \<and> \<not> HasPrefix lower (lit ''/tool '') then None
         else if rest = [] then None
         else if toolName = [] then None
         else Some \<lparr>btToolName = toolName,
                btToolInput = (if \<not> found \<or> TrimSpace toolInput = [] then lit ''{}'' else TrimSpace toolInput)\<rparr>)"

definition shouldPersistTurn :: "gostring \<Rightarrow> bool" where
  "shouldPersistTurn t \<longleftrightarrow> parseBootstrapMemoryCommand t = None \<and> parseBootstrapToolCommand t = None"

definition executeMemoryCommand :: "TurnDeltaSink \<Rightarrow> gostring + MemoryContext \<Rightarrow> (gostring + TurnOutput) \<times> TurnDelta list" where
  "executeMemoryCommand sink loaded =
     (let t = (case loaded of
             Inl e \<Rightarrow> lit ''memory unavailable: '' @ e
           | Inr c \<Rightarrow> if TrimSpace (ctxSummary c) \<noteq> [] then lit ''memory: '' @ TrimSpace (ctxSummary c)
                      else lit ''memory: nothing remembered yet.'')
      in outputAfter sink [textTurnDelta t] (textOutput t))"

section \<open>Tools\<close>

definition toolSummaryText :: "ToolResult \<Rightarrow> gostring" where
  "toolSummaryText result =
     (let name0 = TrimSpace (trsToolName result); toolName = (if name0 = [] then lit ''tool'' else name0);
          status = TrimSpace (trsToolStatus result); out = TrimSpace (trsToolOutput result)
      in if status \<in> {[], lit ''completed'', lit ''success'', lit ''succeeded'', lit ''ok''} then
           (if out \<noteq> [] then lit ''tool '' @ toolName @ lit '' completed: '' @ out else lit ''tool '' @ toolName @ lit '' completed.'')
         else if status = lit ''unavailable'' then
           (if out \<noteq> [] then lit ''tool '' @ toolName @ lit '' is unavailable: '' @ out else lit ''tool '' @ toolName @ lit '' is unavailable.'')
         else if out \<noteq> [] then lit ''tool '' @ toolName @ lit '' '' @ status @ lit '': '' @ out
         else lit ''tool '' @ toolName @ lit '' '' @ status @ lit ''.'')"

definition toolExists :: "ToolDefinition list \<Rightarrow> gostring \<Rightarrow> bool" where
  "toolExists tools name = list_ex (\<lambda>t. ToLower (TrimSpace (tdefName t)) = ToLower (TrimSpace name)) tools"

definition bootstrapToolCallID :: "(rune \<Rightarrow> bool) \<Rightarrow> gostring \<Rightarrow> gostring" where
  "bootstrapToolCallID isAlnum name =
     (let trimmed0 = TrimSpace (ToLower name); v = Trim (map (\<lambda>r. if isAlnum r then r else 95) trimmed0) [95]
      in if trimmed0 = [] then lit ''tool_call'' else lit ''tool_'' @ (if v = [] then lit ''call'' else v))"

definition toolFailureOutput :: "TurnDeltaSink \<Rightarrow> ToolCall \<Rightarrow> gostring \<Rightarrow> gostring \<Rightarrow> TurnDelta list \<Rightarrow> (gostring + TurnOutput) \<times> TurnDelta list" where
  "toolFailureOutput sink call status out taken =
     (let result = \<lparr>trsCallID = tcCallID call, trsToolName = tcToolName call, trsToolStatus = status, trsToolOutput = TrimSpace out\<rparr>;
          t = toolSummaryText result; (r, later) = outputAfter sink [toolResultDelta result, textTurnDelta t] (textOutput t)
      in (r, taken @ later))"

text \<open>The defaults that fill the gaps of a result.\<close>

definition completeToolResult :: "ToolCall \<Rightarrow> ToolResult \<Rightarrow> ToolResult" where
  "completeToolResult call result =
     \<lparr>trsCallID = (if TrimSpace (trsCallID result) = [] then tcCallID call else trsCallID result),
      trsToolName = (if TrimSpace (trsToolName result) = [] then tcToolName call else trsToolName result),
      trsToolStatus = (if TrimSpace (trsToolStatus result) = [] then lit ''completed'' else trsToolStatus result),
      trsToolOutput = trsToolOutput result\<rparr>"

definition executeToolCommand ::
    "(rune \<Rightarrow> bool) \<Rightarrow> ToolRegistry \<Rightarrow> ToolInvoker \<Rightarrow> TurnInput \<Rightarrow> bootstrapToolCommand \<Rightarrow> TurnDeltaSink
      \<Rightarrow> (gostring + TurnOutput) \<times> TurnDelta list" where
  "executeToolCommand isAlnum registry invoker input command sink =
     (let call = \<lparr>tcCallID = bootstrapToolCallID isAlnum (btToolName command), tcSessionID = tiSessionID input, tcDeviceID = tiDeviceID input,
            tcClientType = tiClientType input, tcToolName = btToolName command, tcToolInput = btToolInput command\<rparr>
      in case registry \<lparr>tcrSessionID = tiSessionID input, tcrDeviceID = tiDeviceID input, tcrClientType = tiClientType input\<rparr> of
           Inl e \<Rightarrow> toolFailureOutput sink call (lit ''failed'') (lit ''tool registry failed: '' @ e) []
         | Inr tools \<Rightarrow>
             (if tools \<noteq> [] \<and> \<not> toolExists tools (tcToolName call) then
                toolFailureOutput sink call (lit ''unavailable'') (lit ''tool '' @ tcToolName call @ lit '' is not registered'') []
              else case emitTurnDeltas sink [toolCallDelta call] of
                (Some e, taken) \<Rightarrow> (Inl e, taken)
              | (None, taken) \<Rightarrow>
                  (case invoker call of
                     Inl e \<Rightarrow> toolFailureOutput sink call (lit ''failed'') e taken
                   | Inr result0 \<Rightarrow>
                       (let result = completeToolResult call result0; t = toolSummaryText result;
                            (r, later) = outputAfter sink [toolResultDelta result, textTurnDelta t] (textOutput t)
                        in (r, taken @ later)))))"

section \<open>The executor without a model\<close>

definition emitBootstrapTextOutput :: "TurnDeltaSink \<Rightarrow> gostring \<Rightarrow> gostring \<Rightarrow> (gostring + TurnOutput) \<times> TurnDelta list" where
  "emitBootstrapTextOutput sink inputText t = outputAfter sink [textTurnDelta t] (turnOutputFromText inputText t)"

definition bootstrapReply :: "TurnInput \<Rightarrow> gostring \<Rightarrow> gostring" where
  "bootstrapReply input trimmedText =
     (if trimmedText \<noteq> [] then lit ''agent-server received text input: '' @ trimmedText
      else if audPresent (tiAudio input) then
        lit ''agent-server received '' @ Itoa (audFrames (tiAudio input)) @ lit '' audio frames ('' @ Itoa (audBytes (tiAudio input)) @ lit '' bytes)''
      else lit ''agent-server realtime bootstrap reply'')"

definition streamBootstrapOutput ::
    "(rune \<Rightarrow> bool) \<Rightarrow> ToolRegistry \<Rightarrow> ToolInvoker \<Rightarrow> TurnInput \<Rightarrow> gostring \<Rightarrow> gostring + MemoryContext \<Rightarrow> TurnDeltaSink
      \<Rightarrow> (gostring + TurnOutput) \<times> TurnDelta list" where
  "streamBootstrapOutput isAlnum registry invoker input trimmedText loaded sink =
     (case parseBootstrapMemoryCommand trimmedText of
        Some _ \<Rightarrow> executeMemoryCommand sink loaded
      | None \<Rightarrow>
          (case parseBootstrapToolCommand trimmedText of
             Some command \<Rightarrow> executeToolCommand isAlnum registry invoker input command sink
           | None \<Rightarrow>
               (case deterministicPlaybackFollowUpText trimmedText (tiMetadata input) of
                  Some followUpText \<Rightarrow> emitBootstrapTextOutput sink trimmedText followUpText
                | None \<Rightarrow> emitBootstrapTextOutput sink trimmedText (bootstrapReply input trimmedText))))"

text \<open>The executor loads the memory of the turn, answers, and saves the turn unless it was a command. The stores never fail.\<close>

definition BootstrapStreamTurn ::
    "(gostring \<Rightarrow> gostring) \<Rightarrow> (rune \<Rightarrow> bool) \<Rightarrow> ToolRegistry \<Rightarrow> ToolInvoker \<Rightarrow> TurnInput \<Rightarrow> TurnDeltaSink \<Rightarrow> MemoryStore
      \<Rightarrow> (gostring + TurnOutput) \<times> TurnDelta list \<times> MemoryStore" where
  "BootstrapStreamTurn quote isAlnum registry invoker input sink store =
     (let trimmedText = TrimSpace (tiUserText input); m = tiMetadata input;
          loaded = Inr (storeLoadTurnContext quote (buildMemoryQuery input trimmedText m) store)
      in case streamBootstrapOutput isAlnum registry invoker input trimmedText loaded sink of
           (Inl e, taken) \<Rightarrow> (Inl e, taken, store)
         | (Inr out, taken) \<Rightarrow> (Inr out, taken,
             if shouldPersistTurn trimmedText then storeSaveTurn (BuildMemoryRecord input trimmedText (toText out) m) store else store))"

definition BootstrapExecuteTurn ::
    "(gostring \<Rightarrow> gostring) \<Rightarrow> (rune \<Rightarrow> bool) \<Rightarrow> ToolRegistry \<Rightarrow> ToolInvoker \<Rightarrow> TurnInput \<Rightarrow> MemoryStore
      \<Rightarrow> (gostring + TurnOutput) \<times> MemoryStore" where
  "BootstrapExecuteTurn quote isAlnum registry invoker input store =
     (case BootstrapStreamTurn quote isAlnum registry invoker input (\<lambda>_. None) store of
        (Inl e, taken, store') \<Rightarrow> (Inl e, store')
      | (Inr out, taken, store') \<Rightarrow> (Inr (out\<lparr>toDeltas := taken\<rparr>), store'))"



section \<open>Facts about deltas and follow-ups\<close>

lemma emit_accepting [simp]: "emitTurnDeltas (\<lambda>_. None) ds = (None, ds)"
  by (induction ds) simp_all

lemma emit_prefix: "emitTurnDeltas sink ds = (r, taken) \<Longrightarrow> prefix taken ds \<and> (r = None \<longrightarrow> taken = ds)"
proof (induction ds arbitrary: taken)
  case (Cons d ds)
  then show ?case
  proof (cases "sink d")
    case (Some e)
    then have "r = Some e" "taken = []" using Cons.prems by simp_all
    then show ?thesis by simp
  qed (auto split: prod.splits)
qed simp

lemma outputAfter_accepting [simp]: "outputAfter (\<lambda>_. None) ds out = (Inr out, ds)"
  by (simp add: outputAfter_def)

lemma outputAfter_ok: "outputAfter sink ds out = (Inr out', taken) \<Longrightarrow> out' = out \<and> taken = ds"
  using emit_prefix [of sink ds] by (auto simp: outputAfter_def split: prod.splits option.splits)

lemma textTurnDelta_simps [simp]: "tdKind (textTurnDelta t) = TurnTextDelta" "tdText (textTurnDelta t) = t"
  by (simp_all add: textTurnDelta_def)

lemma toolDelta_kinds [simp]: "tdKind (toolCallDelta c) = TurnToolCallDelta" "tdKind (toolResultDelta x) = TurnToolResultDelta"
  by (simp_all add: toolCallDelta_def toolResultDelta_def)

lemma toText_simps [simp]: "toText (textOutput t) = t" "toText (turnOutputFromText i t) = t"
  by (simp_all add: textOutput_def turnOutputFromText_def)

text \<open>What a listener was told: the text deltas in order.\<close>

definition announced :: "TurnDelta list \<Rightarrow> gostring" where
  "announced ds = concat (map tdText (filter (\<lambda>d. tdKind d = TurnTextDelta) ds))"

lemma announced_simps [simp]:
  "announced [] = []"
  "announced (d # ds) = (if tdKind d = TurnTextDelta then tdText d else []) @ announced ds"
  "announced (ds @ es) = announced ds @ announced es"
  by (simp_all add: announced_def)

lemma toolFailure_announced:
  "toolFailureOutput sink call status out taken = (Inr res, taken') \<Longrightarrow> announced taken' = announced taken @ toText res"
  by (auto simp: toolFailureOutput_def Let_def dest: outputAfter_ok split: prod.splits)

lemma executeToolCommand_announced:
  assumes "executeToolCommand al reg invoke input command sink = (Inr res, taken)"
  shows "announced taken = toText res"
  using assms
  by (auto simp: executeToolCommand_def Let_def dest!: toolFailure_announced outputAfter_ok
      dest: emit_prefix split: sum.splits if_splits prod.splits option.splits)

lemma streamBootstrapOutput_announced:
  "streamBootstrapOutput al reg invoke input t loaded sink = (Inr res, taken) \<Longrightarrow> announced taken = toText res"
  by (auto simp: streamBootstrapOutput_def executeMemoryCommand_def emitBootstrapTextOutput_def Let_def
      dest: executeToolCommand_announced outputAfter_ok split: option.splits)

lemma metadataText_put:
  "metadataText (putTrimmed k v m) k' = (if k' = k \<and> TrimSpace v \<noteq> [] then TrimSpace v else metadataText m k')"
  by (simp add: metadataText_def putTrimmed_def)

lemma metadataText_upd: "metadataText (m(k \<mapsto> v)) k' = (if k' = k then TrimSpace v else metadataText m k')"
  by (simp add: metadataText_def)

lemma metadataText_empty: "metadataText Map.empty k = []"
  by (simp add: metadataText_def)

lemma FormatBool_flag: "ToLower (TrimSpace (FormatBool b)) = [116, 114, 117, 101] \<longleftrightarrow> b"
  by (cases b; simp; code_simp)

text \<open>The agent reads back what the orchestrator wrote about the previous answer.\<close>

lemma playback_context_roundtrip:
  "parsePreviousPlaybackContext (playbackOutcomeContextMetadata po) =
     \<lparr>ppAvailable = True, ppHeardText = TrimSpace (poHeardText po), ppMissedText = TrimSpace (poMissedText po),
      ppResumeAnchor = TrimSpace (poResumeAnchor po), ppInterruptionPolicy = TrimSpace (policyName (poInterruptionPolicy po)),
      ppPlaybackCompleted = poPlaybackCompleted po, ppResponseInterrupted = poResponseInterrupted po,
      ppResponseTruncated = poResponseTruncated po\<rparr>"
proof -
  have t: "ToLower (TrimSpace (lit ''true'')) = [116, 114, 117, 101]" by code_simp
  show ?thesis
    by (simp add: parsePreviousPlaybackContext_def playbackOutcomeContextMetadata_def Let_def metadataFlag_def
        metadataText_put metadataText_upd metadataText_empty FormatBool_flag t [unfolded lit_def, simplified] lit_def)
qed

lemma continue_intent_detected:
  assumes "isPlaybackContinueIntent (normalizePlaybackFollowUpText t)" "ppAvailable c" "ppMissedText c \<noteq> []"
  shows "detectDeterministicPlaybackFollowUpIntent t c = IntentContinue"
proof -
  have "\<not> isPlaybackContinueIntent []" by code_simp
  then show ?thesis using assms
    by (auto simp: detectDeterministicPlaybackFollowUpIntent_def followUpIntent_def actionable_def Let_def)
qed

lemma continue_reply:
  assumes "isPlaybackContinueIntent (normalizePlaybackFollowUpText t)" "TrimSpace (poMissedText po) \<noteq> []"
  shows "deterministicPlaybackFollowUpText t (playbackOutcomeContextMetadata po) = Some (TrimSpace (poMissedText po))"
  using assms continue_intent_detected [OF assms(1), of "parsePreviousPlaybackContext (playbackOutcomeContextMetadata po)"]
  by (simp add: deterministicPlaybackFollowUpText_def Let_def playback_context_roundtrip)

text \<open>A slash survives the normalisation, so no follow-up is a command.\<close>

lemma slash_survives: "47 \<in> set t \<Longrightarrow> 47 \<in> set (TrimSpace t)"
proof -
  assume a: "47 \<in> set t"
  obtain u v where "t = u @ TrimSpace t @ v" "\<forall>r\<in>set u. is_space r" "\<forall>r\<in>set v. is_space r"
    using TrimSpace_decomp [of t] by blast
  moreover have "\<not> is_space 47" by code_simp
  ultimately show ?thesis using a by (metis Un_iff set_append)
qed

lemma ToLower_slash: "47 \<in> set (ToLower t) \<longleftrightarrow> 47 \<in> set t"
  by (auto simp: to_lower_def image_iff split: if_splits)

lemma set_TrimSpace: "set (TrimSpace t) \<subseteq> set t"
  using TrimSpace_decomp [of t] by (metis Un_iff set_append subsetI)

lemma command_has_slash:
  assumes "parseBootstrapMemoryCommand t \<noteq> None \<or> parseBootstrapToolCommand t \<noteq> None"
  shows "47 \<in> set t"
proof -
  have "47 \<in> set (ToLower (TrimSpace t))"
    using assms by (auto simp: parseBootstrapMemoryCommand_def parseBootstrapToolCommand_def Let_def lit_def
        elim!: prefixE split: if_splits)
  then show ?thesis using ToLower_slash set_TrimSpace by blast
qed

lemma follow_up_is_no_command:
  assumes "isPlaybackContinueIntent (normalizePlaybackFollowUpText t)"
  shows "parseBootstrapMemoryCommand t = None" "parseBootstrapToolCommand t = None"
proof -
  have "47 \<notin> set (normalizePlaybackFollowUpText t)"
    using assms by (auto simp: isPlaybackContinueIntent_def lit_def)
  moreover have "47 \<notin> set followUpMarks" by code_simp
  ultimately have "47 \<notin> set t"
    using slash_survives [of "ToLower t"] ToLower_slash [of t] by (auto simp: normalizePlaybackFollowUpText_def)
  then show "parseBootstrapMemoryCommand t = None" "parseBootstrapToolCommand t = None"
    using command_has_slash by blast+
qed

end
