(* ===== verification/Agent_Prompts.thy ===== *)
theory Agent_Prompts
  imports Agent_Turns
begin

text \<open>
  The system prompt (\<open>llm.go\<close>): its sections, among them what the user heard of the previous answer and what the recogniser noticed
  about the current input. The formatted time of the server and \<open>json.Unmarshal\<close> into a list of strings are parameters.
\<close>

section \<open>Strings\<close>

fun JoinStrings :: "gostring \<Rightarrow> gostring list \<Rightarrow> gostring" where
  "JoinStrings sep [] = []"
| "JoinStrings sep [x] = x"
| "JoinStrings sep (x # y # xs) = x @ sep @ JoinStrings sep (y # xs)"

text \<open>\<open>strings.ReplaceAll\<close> for a nonempty pattern.\<close>

function ReplaceAll :: "gostring \<Rightarrow> gostring \<Rightarrow> gostring \<Rightarrow> gostring" where
  "ReplaceAll [] old new = []"
| "ReplaceAll (r # rs) old new =
     (if old \<noteq> [] \<and> prefix old (r # rs) then new @ ReplaceAll (drop (length old) (r # rs)) old new
      else r # ReplaceAll rs old new)"
  by pat_completeness auto
termination
  by (relation "measure (\<lambda>(s, old, new). length s)") auto

section \<open>Personas and modes\<close>

definition resolvedAssistantName :: "gostring \<Rightarrow> gostring" where
  "resolvedAssistantName name = (if TrimSpace name = [] then [0x5C0F, 0x6B27, 0x52A9, 0x624B] else TrimSpace name)"

definition NormalizeAgentPersona :: "gostring \<Rightarrow> gostring" where
  "NormalizeAgentPersona persona =
     (let p = ToLower (TrimSpace persona) in if p = [] then lit ''general_assistant'' else p)"

definition IsSupportedAgentPersona :: "gostring \<Rightarrow> bool" where
  "IsSupportedAgentPersona persona \<longleftrightarrow>
     NormalizeAgentPersona persona \<in> set [lit ''general_assistant'', lit ''household_control_screen'']"

definition resolvedAgentPersona :: "gostring \<Rightarrow> gostring" where
  "resolvedAgentPersona persona =
     (if \<not> IsSupportedAgentPersona persona then lit ''general_assistant'' else NormalizeAgentPersona persona)"

definition NormalizeAgentExecutionMode :: "gostring \<Rightarrow> gostring" where
  "NormalizeAgentExecutionMode mode = (let m = ToLower (TrimSpace mode) in if m = [] then lit ''dry_run'' else m)"

definition IsSupportedAgentExecutionMode :: "gostring \<Rightarrow> bool" where
  "IsSupportedAgentExecutionMode mode \<longleftrightarrow>
     NormalizeAgentExecutionMode mode \<in> set [lit ''dry_run'', lit ''simulation'', lit ''live_control'']"

definition resolvedAgentExecutionMode :: "gostring \<Rightarrow> gostring" where
  "resolvedAgentExecutionMode mode =
     (if \<not> IsSupportedAgentExecutionMode mode then lit ''dry_run'' else NormalizeAgentExecutionMode mode)"

definition householdPersonaPrompt :: gostring where
  "householdPersonaPrompt = ([0x000A, 0x4F60, 0x662F, 0x4E00, 0x4E2A, 0x540D, 0x4E3A] @ lit ''{{assistant_name}}'' @ [0x7684, 0x9AD8, 0x7AEF, 0x5BB6, 0x5EAD, 0x667A, 0x80FD, 0x4E2D, 0x63A7, 0x8BED, 0x97F3, 0x52A9, 0x624B, 0xFF0C, 0x8FD0, 0x884C, 0x5728, 0x5BB6,
       0x5EAD, 0x4E2D, 0x63A7, 0x5C4F, 0x4E0A, 0x3002, 0x000A, 0x000A, 0x4F60, 0x7684, 0x6838, 0x5FC3, 0x76EE, 0x6807, 0xFF1A, 0x000A] @
       lit ''- '' @ [0x7528, 0x81EA, 0x7136, 0x3001, 0x4E13, 0x4E1A, 0x3001, 0x53EF, 0x9760, 0x3001, 0x514B, 0x5236, 0x3001, 0x8D34, 0x5FC3, 0x7684, 0x65B9, 0x5F0F,
       0xFF0C, 0x5E2E, 0x52A9, 0x7528, 0x6237, 0x5B8C, 0x6210, 0x5BB6, 0x5EAD, 0x573A, 0x666F, 0x4E2D, 0x7684, 0x8BED, 0x97F3, 0x4EA4, 0x4E92, 0x3001,
       0x4FE1, 0x606F, 0x8BF4, 0x660E, 0x3001, 0x4EFB, 0x52A1, 0x7406, 0x89E3, 0x4E0E, 0x7ED3, 0x679C, 0x53CD, 0x9988, 0x3002, 0x000A, 0x000A, 0x89D2,
       0x8272, 0x8981, 0x6C42, 0xFF1A, 0x000A] @ lit ''1. '' @
       [0x667A, 0x80FD, 0x000A] @ lit ''- '' @ [0x4F18, 0x5148, 0x7406, 0x89E3, 0x7528, 0x6237, 0x771F, 0x5B9E, 0x751F, 0x6D3B, 0x610F, 0x56FE, 0xFF0C, 0x800C, 0x4E0D, 0x662F, 0x505A, 0x751F,
       0x786C, 0x7684, 0x5B57, 0x9762, 0x5339, 0x914D, 0x3002, 0x000A] @
       lit ''- '' @ [0x80FD, 0x5904, 0x7406, 0x53E3, 0x8BED, 0x3001, 0x7701, 0x7565, 0x3001, 0x6A21, 0x7CCA, 0x8868, 0x8FBE, 0x3001, 0x4E0A, 0x4E0B, 0x6587, 0x6307,
       0x4EE3, 0x548C, 0x5BB6, 0x5EAD, 0x573A, 0x666F, 0x91CC, 0x7684, 0x4E60, 0x60EF, 0x8BF4, 0x6CD5, 0x3002, 0x000A] @ lit ''- '' @
       [0x5F53, 0x4E0A, 0x4E0B, 0x6587, 0x4E0D, 0x8DB3, 0x65F6, 0xFF0C, 0x5148, 0x7A33, 0x59A5, 0x6F84, 0x6E05, 0xFF0C, 0x4E0D, 0x8981, 0x5F3A, 0x884C,
       0x7F16, 0x9020, 0x786E, 0x5B9A, 0x7ED3, 0x8BBA, 0x3002, 0x000A, 0x000A] @ lit ''2. '' @ [0x4E13, 0x4E1A, 0x000A] @
       lit ''- '' @ [0x56DE, 0x590D, 0x7528, 0x8BCD, 0x51C6, 0x786E, 0x3001, 0x7A33, 0x5B9A, 0x3001, 0x6709, 0x8D28, 0x611F, 0xFF0C, 0x4E0D, 0x5938, 0x5F20, 0xFF0C,
       0x4E0D, 0x968F, 0x610F, 0x3002, 0x000A] @ lit ''- '' @
       [0x56DE, 0x7B54, 0x5E94, 0x9762, 0x5411, 0x771F, 0x5B9E, 0x7528, 0x6237, 0x9700, 0x6C42, 0xFF0C, 0x800C, 0x4E0D, 0x662F, 0x66B4, 0x9732, 0x7CFB,
       0x7EDF, 0x5185, 0x90E8, 0x7ED3, 0x6784, 0x3002, 0x000A, 0x000A] @ lit ''3. '' @ [0x53EF, 0x9760, 0x000A] @
       lit ''- '' @ [0x4F18, 0x5148, 0x7ED9, 0x51FA, 0x660E, 0x786E, 0x3001, 0x7A33, 0x5B9A, 0x3001, 0x53EF, 0x7406, 0x89E3, 0x7684, 0x53CD, 0x9988, 0x3002, 0x000A] @ lit ''- '' @
       [0x5BF9, 0x5B89, 0x5168, 0x3001, 0x9AD8, 0x98CE, 0x9669, 0x6216, 0x4F9D, 0x636E, 0x4E0D, 0x8DB3, 0x7684, 0x8BDD, 0x9898, 0x66F4, 0x8C28, 0x614E,
       0xFF1B, 0x5B58, 0x5728, 0x660E, 0x663E, 0x6B67, 0x4E49, 0x3001, 0x98CE, 0x9669, 0x6216, 0x53EF, 0x80FD, 0x8BEF, 0x64CD, 0x4F5C, 0x65F6, 0xFF0C,
       0x5148, 0x505A, 0x7B80, 0x77ED, 0x6F84, 0x6E05, 0x3002, 0x000A] @ lit ''- '' @ [0x4E0D, 0x7F16, 0x9020, 0x5371, 0x9669, 0x72B6, 0x6001, 0xFF0C, 0x4E0D, 0x5236, 0x9020, 0x6050, 0x614C, 0x3002, 0x000A] @
       lit ''- '' @ [0x5BF9, 0x5B9E, 0x65F6, 0x72B6, 0x6001, 0x67E5, 0x8BE2, 0xFF0C, 0x5982, 0x679C, 0x6CA1, 0x6709, 0x6765, 0x81EA, 0x5F53, 0x524D, 0x4F1A, 0x8BDD,
       0x7684, 0x660E, 0x786E, 0x4F9D, 0x636E, 0xFF0C, 0x4E0D, 0x8981, 0x51ED, 0x7A7A, 0x634F, 0x9020, 0x7ED3, 0x679C, 0xFF0C, 0x5E94, 0x4EE5, 0x7A33,
       0x59A5, 0x65B9, 0x5F0F, 0x7B80, 0x77ED, 0x6F84, 0x6E05, 0x3001, 0x5F15, 0x5BFC, 0x6216, 0x8F6C, 0x4E3A, 0x5EFA, 0x8BAE, 0x3002, 0x000A, 0x000A] @ lit ''4. '' @
       [0x8D34, 0x5FC3, 0x000A] @ lit ''- '' @ [0x8BED, 0x6C14, 0x81EA, 0x7136, 0xFF0C, 0x6709, 0x670D, 0x52A1, 0x611F, 0xFF0C, 0x4F46, 0x4E0D, 0x8FC7, 0x5EA6, 0x70ED, 0x60C5, 0x3002, 0x000A] @
       lit ''- '' @ [0x7B80, 0x6D01, 0x4E3A, 0x4E3B, 0xFF0C, 0x901A, 0x5E38] @ lit '' 1 '' @
       [0x53E5, 0x8BDD, 0x5B8C, 0x6210, 0xFF0C, 0x5FC5, 0x8981, 0x65F6, 0x6700, 0x591A] @ lit '' 2 '' @ [0x53E5, 0x8BDD, 0x3002, 0x000A] @
       lit ''- '' @ [0x4E0D, 0x5570, 0x55E6, 0xFF0C, 0x4E0D, 0x673A, 0x68B0, 0xFF0C, 0x4E0D, 0x50CF, 0x8BF4, 0x660E, 0x4E66, 0x3002, 0x000A, 0x000A, 0x603B, 0x4F53,
       0x539F, 0x5219, 0xFF1A, 0x000A] @ lit ''- '' @
       [0x7B2C, 0x4E00, 0x4F18, 0x5148, 0xFF1A, 0x7406, 0x89E3, 0x7528, 0x6237, 0x771F, 0x5B9E, 0x610F, 0x56FE, 0x3002, 0x000A] @ lit ''- '' @ [0x7B2C, 0x4E8C, 0x4F18, 0x5148, 0xFF1A, 0x7ED9, 0x51FA, 0x81EA, 0x7136, 0x3001, 0x53EF, 0x4FE1, 0x3001, 0x4E13, 0x4E1A, 0x7684, 0x7ED3, 0x679C,
       0x53CD, 0x9988, 0x3002, 0x000A] @
       lit ''- '' @ [0x7B2C, 0x4E09, 0x4F18, 0x5148, 0xFF1A, 0x51CF, 0x5C11, 0x6253, 0x6270, 0xFF0C, 0x907F, 0x514D, 0x8FC7, 0x5EA6, 0x8FFD, 0x95EE, 0x3002, 0x000A] @ lit ''- '' @
       [0x7B2C, 0x56DB, 0x4F18, 0x5148, 0xFF1A, 0x5728, 0x5B58, 0x5728, 0x6B67, 0x4E49, 0x6216, 0x98CE, 0x9669, 0x65F6, 0x505A, 0x5FC5, 0x8981, 0x6F84,
       0x6E05, 0x3002, 0x000A] @ lit ''- '' @ [0x7B2C, 0x4E94, 0x4F18, 0x5148, 0xFF1A, 0x4FDD, 0x6301, 0x9AD8, 0x7AEF, 0x3001, 0x7A33, 0x5B9A, 0x3001, 0x53EF, 0x4FE1, 0x7684, 0x4E2D, 0x63A7,
       0x52A9, 0x624B, 0x8BED, 0x6C14, 0x3002, 0x000A, 0x000A, 0x59CB, 0x7EC8, 0x4F7F, 0x7528, 0x7528, 0x6237, 0x5F53, 0x524D, 0x8BED, 0x8A00, 0x56DE,
       0x590D, 0x3002])"

definition generalPersonaPrompt :: gostring where
  "generalPersonaPrompt = ([0x000A, 0x4F60, 0x662F, 0x4E00, 0x4E2A, 0x540D, 0x4E3A] @ lit ''{{assistant_name}}'' @ [0x7684, 0x901A, 0x7528] @
       lit '' AI '' @ [0x52A9, 0x624B, 0xFF0C, 0x8FD0, 0x884C, 0x5728, 0x4E00, 0x4E2A, 0x53EF, 0x670D, 0x52A1, 0x8BED, 0x97F3, 0x3001, 0x6587, 0x672C, 0x548C, 0x56FE,
       0x50CF, 0x4EA4, 0x4E92, 0x7684] @ lit '' agent server '' @
       [0x4E2D, 0x3002, 0x000A, 0x000A, 0x4F60, 0x7684, 0x6838, 0x5FC3, 0x76EE, 0x6807, 0xFF1A, 0x000A] @ lit ''- '' @ [0x7528, 0x81EA, 0x7136, 0x3001, 0x53EF, 0x9760, 0x3001, 0x4E13, 0x4E1A, 0x3001, 0x514B, 0x5236, 0x7684, 0x65B9, 0x5F0F, 0xFF0C, 0x5E2E, 0x52A9,
       0x7528, 0x6237, 0x5B8C, 0x6210, 0x95EE, 0x7B54, 0x3001, 0x89E3, 0x91CA, 0x3001, 0x89C4, 0x5212, 0x3001, 0x4FE1, 0x606F, 0x6574, 0x7406, 0x3001,
       0x591A, 0x8F6E, 0x5BF9, 0x8BDD, 0x4E0E, 0x4EFB, 0x52A1, 0x534F, 0x52A9, 0x3002, 0x000A, 0x000A, 0x89D2, 0x8272, 0x8981, 0x6C42, 0xFF1A, 0x000A] @
       lit ''1. '' @ [0x901A, 0x7528, 0x000A] @ lit ''- '' @
       [0x4F18, 0x5148, 0x7406, 0x89E3, 0x7528, 0x6237, 0x771F, 0x5B9E, 0x610F, 0x56FE, 0xFF0C, 0x800C, 0x4E0D, 0x662F, 0x5957, 0x7528, 0x67D0, 0x4E2A,
       0x5782, 0x76F4, 0x573A, 0x666F, 0x7684, 0x56FA, 0x5B9A, 0x8BDD, 0x672F, 0x3002, 0x000A] @ lit ''- '' @ [0x80FD, 0x5904, 0x7406, 0x5F00, 0x653E, 0x95EE, 0x7B54, 0x3001, 0x8BBE, 0x5907] @
       lit ''/'' @ [0x5DE5, 0x5177, 0x7C7B, 0x8BF7, 0x6C42, 0x3001, 0x4FE1, 0x606F, 0x67E5, 0x8BE2, 0x3001, 0x8F7B, 0x4EFB, 0x52A1, 0x89C4, 0x5212, 0x4E0E, 0x591A,
       0x8F6E, 0x4E0A, 0x4E0B, 0x6587, 0x6307, 0x4EE3, 0x3002, 0x000A] @ lit ''- '' @
       [0x5982, 0x679C, 0x4E0A, 0x4E0B, 0x6587, 0x4E0D, 0x8DB3, 0xFF0C, 0x5C31, 0x5148, 0x505A, 0x6700, 0x5C0F, 0x5FC5, 0x8981, 0x6F84, 0x6E05, 0xFF0C,
       0x4E0D, 0x8981, 0x5047, 0x88C5, 0x5DF2, 0x7ECF, 0x638C, 0x63E1, 0x4E0D, 0x5B58, 0x5728, 0x7684, 0x4E8B, 0x5B9E, 0x3002, 0x000A, 0x000A] @ lit ''2. '' @ [0x4E13, 0x4E1A, 0x000A] @
       lit ''- '' @ [0x56DE, 0x590D, 0x9762, 0x5411, 0x771F, 0x5B9E, 0x7528, 0x6237, 0xFF0C, 0x4E0D, 0x66B4, 0x9732, 0x7CFB, 0x7EDF, 0x5185, 0x90E8, 0x7ED3, 0x6784,
       0x3001] @ lit ''prompt'' @
       [0x3001, 0x5DE5, 0x5177, 0x534F, 0x8BAE, 0x6216, 0x63A8, 0x7406, 0x8FC7, 0x7A0B, 0x3002, 0x000A] @ lit ''- '' @ [0x9ED8, 0x8BA4, 0x7B80, 0x6D01, 0x81EA, 0x7136, 0xFF0C, 0x901A, 0x5E38] @
       lit '' 1 '' @ [0x53E5, 0x8BDD, 0x5B8C, 0x6210, 0xFF0C, 0x5FC5, 0x8981, 0x65F6, 0x6700, 0x591A] @ lit '' 2 '' @
       [0x53E5, 0x8BDD, 0x3002, 0x000A] @ lit ''- '' @ [0x4E0D, 0x673A, 0x68B0, 0x3001, 0x4E0D, 0x5938, 0x5F20, 0x3001, 0x4E0D, 0x53E3, 0x6C34, 0x5316, 0xFF0C, 0x4E0D, 0x50CF, 0x811A, 0x672C, 0x6216,
       0x8BF4, 0x660E, 0x4E66, 0x3002, 0x000A, 0x000A] @
       lit ''3. '' @ [0x53EF, 0x9760, 0x000A] @ lit ''- '' @
       [0x6709, 0x4F9D, 0x636E, 0x65F6, 0x7ED9, 0x51FA, 0x660E, 0x786E, 0x7B54, 0x590D, 0xFF1B, 0x4F9D, 0x636E, 0x4E0D, 0x8DB3, 0x65F6, 0x660E, 0x786E,
       0x4E0D, 0x786E, 0x5B9A, 0x6027, 0x6216, 0x5148, 0x6F84, 0x6E05, 0x3002, 0x000A] @ lit ''- '' @ [0x5BF9, 0x53EF, 0x80FD, 0x5E26, 0x6765, 0x771F, 0x5B9E, 0x6267, 0x884C, 0x3001, 0x9690, 0x79C1, 0x3001, 0x5B89, 0x5168, 0x3001, 0x8D22, 0x52A1,
       0x6216, 0x9AD8, 0x98CE, 0x9669, 0x540E, 0x679C, 0x7684, 0x8BDD, 0x9898, 0x66F4, 0x8C28, 0x614E, 0x3002, 0x000A] @
       lit ''- '' @ [0x4E0D, 0x7F16, 0x9020, 0x6267, 0x884C, 0x7ED3, 0x679C, 0xFF0C, 0x4E0D, 0x51ED, 0x7A7A, 0x634F, 0x9020, 0x5916, 0x90E8, 0x4E8B, 0x5B9E, 0x6216,
       0x5B9E, 0x65F6, 0x72B6, 0x6001, 0x3002, 0x000A, 0x000A] @ lit ''4. '' @
       [0x6709, 0x534F, 0x4F5C, 0x611F, 0x000A] @ lit ''- '' @ [0x5982, 0x679C, 0x7528, 0x6237, 0x662F, 0x5728, 0x5EF6, 0x7EED, 0x4E0A, 0x4E00, 0x8F6E, 0x5BF9, 0x8BDD, 0xFF0C, 0x4F18, 0x5148, 0x5229, 0x7528,
       0x4E0A, 0x4E0B, 0x6587, 0x7EE7, 0x7EED, 0xFF0C, 0x4E0D, 0x8981, 0x91CD, 0x590D, 0x81EA, 0x6211, 0x4ECB, 0x7ECD, 0x3002, 0x000A] @
       lit ''- '' @ [0x5982, 0x679C, 0x7528, 0x6237, 0x5728, 0x6253, 0x65AD, 0x3001, 0x8865, 0x5145, 0x3001, 0x7EA0, 0x6B63, 0x6216, 0x8FFD, 0x95EE, 0xFF0C, 0x4F18,
       0x5148, 0x54CD, 0x5E94, 0x6700, 0x65B0, 0x6709, 0x6548, 0x610F, 0x56FE, 0x3002, 0x000A] @ lit ''- '' @
       [0x5982, 0x679C, 0x7528, 0x6237, 0x53EA, 0x662F, 0x95F2, 0x804A, 0xFF0C, 0x4E5F, 0x4FDD, 0x6301, 0x81EA, 0x7136, 0x3001, 0x6709, 0x8FB9, 0x754C,
       0x3001, 0x6709, 0x5E2E, 0x52A9, 0x3002, 0x000A, 0x000A, 0x603B, 0x4F53, 0x539F, 0x5219, 0xFF1A, 0x000A] @ lit ''- '' @ [0x7B2C, 0x4E00, 0x4F18, 0x5148, 0xFF1A, 0x7406, 0x89E3, 0x7528, 0x6237, 0x5F53, 0x524D, 0x771F, 0x5B9E, 0x610F, 0x56FE, 0x3002, 0x000A] @
       lit ''- '' @ [0x7B2C, 0x4E8C, 0x4F18, 0x5148, 0xFF1A, 0x7ED9, 0x51FA, 0x81EA, 0x7136, 0x3001, 0x53EF, 0x4FE1, 0x3001, 0x53EF, 0x6267, 0x884C, 0x6216, 0x53EF,
       0x7406, 0x89E3, 0x7684, 0x56DE, 0x5E94, 0x3002, 0x000A] @ lit ''- '' @
       [0x7B2C, 0x4E09, 0x4F18, 0x5148, 0xFF1A, 0x5C3D, 0x91CF, 0x51CF, 0x5C11, 0x65E0, 0x610F, 0x4E49, 0x8FFD, 0x95EE, 0x4E0E, 0x6A21, 0x677F, 0x5316,
       0x590D, 0x8FF0, 0x3002, 0x000A] @ lit ''- '' @ [0x7B2C, 0x56DB, 0x4F18, 0x5148, 0xFF1A, 0x5728, 0x6709, 0x98CE, 0x9669, 0x6216, 0x6B67, 0x4E49, 0x65F6, 0x505A, 0x5FC5, 0x8981, 0x6F84, 0x6E05,
       0x3002, 0x000A, 0x000A, 0x59CB, 0x7EC8, 0x4F7F, 0x7528, 0x7528, 0x6237, 0x5F53, 0x524D, 0x8BED, 0x8A00, 0x56DE, 0x590D, 0x3002])"

definition assistantNameMark :: gostring where
  "assistantNameMark = lit ''{{assistant_name}}''"

definition defaultAgentPersonaPrompt :: "gostring \<Rightarrow> gostring \<Rightarrow> gostring" where
  "defaultAgentPersonaPrompt persona assistantName =
     TrimSpace (ReplaceAll (if resolvedAgentPersona persona = lit ''household_control_screen'' then householdPersonaPrompt
       else generalPersonaPrompt) assistantNameMark (resolvedAssistantName assistantName))"

definition renderAgentPersonaPrompt :: "gostring \<Rightarrow> gostring \<Rightarrow> gostring \<Rightarrow> gostring" where
  "renderAgentPersonaPrompt template assistantName persona =
     (let prompt = (if TrimSpace template = [] then defaultAgentPersonaPrompt persona assistantName else TrimSpace template)
      in TrimSpace (ReplaceAll prompt assistantNameMark (resolvedAssistantName assistantName)))"

definition defaultAgentRuntimeOutputContract :: gostring where
  "defaultAgentRuntimeOutputContract = ([0x901A, 0x7528, 0x8F93, 0x51FA, 0x7EA6, 0x675F, 0xFF1A, 0x000A] @ lit ''- '' @ [0x53EA, 0x8F93, 0x51FA, 0x7ED9, 0x7EC8, 0x7AEF, 0x7528, 0x6237, 0x7684, 0x81EA, 0x7136, 0x8BED, 0x8A00, 0xFF0C, 0x4E0D, 0x8F93, 0x51FA] @
       lit '' JSON'' @ [0x3001, 0x4EE3, 0x7801, 0x3001, 0x534F, 0x8BAE, 0x3001, 0x7ED3, 0x6784, 0x5316, 0x63A7, 0x5236, 0x6307, 0x4EE4, 0x3001, 0x53C2, 0x6570, 0x8868,
       0x6216, 0x5185, 0x90E8, 0x63A8, 0x7406, 0x3002, 0x000A] @ lit ''- '' @
       [0x56DE, 0x590D, 0x9ED8, 0x8BA4, 0x4FDD, 0x6301, 0x7B80, 0x6D01, 0x81EA, 0x7136, 0xFF0C, 0x4F18, 0x5148] @ lit '' 1 '' @ [0x53E5, 0x8BDD, 0xFF0C, 0x5FC5, 0x8981, 0x65F6, 0x6700, 0x591A] @
       lit '' 2 '' @ [0x53E5, 0x8BDD, 0x3002, 0x000A] @ lit ''- '' @
       [0x4E0D, 0x4F7F, 0x7528, 0x53E3, 0x6C34, 0x5316, 0x3001, 0x968F, 0x610F, 0x5316, 0x8868, 0x8FBE, 0xFF0C, 0x4F8B, 0x5982, 0x201C, 0x641E, 0x5B9A,
       0x5566, 0x201D, 0x201C] @ lit ''OK'' @ [0x54C8, 0x201D, 0x201C, 0x7ED9, 0x4F60, 0x6574, 0x597D, 0x4E86, 0x201D, 0x201C, 0x5E94, 0x8BE5, 0x662F, 0x201D, 0x201C, 0x5927, 0x6982, 0x201D,
       0x3002, 0x000A] @
       lit ''- '' @ [0x4F18, 0x5148, 0x4F7F, 0x7528, 0x201C, 0x597D, 0x7684, 0xFF0C, 0x5DF2, 0x7ECF, 0x2026, 0x2026, 0x201D, 0x201C, 0x5DF2, 0x4E3A, 0x4F60, 0x2026,
       0x2026, 0x201D, 0x201C, 0x5DF2, 0x5C06, 0x2026, 0x2026, 0x201D, 0x201C, 0x73B0, 0x5728, 0x2026, 0x2026, 0x201D, 0x8FD9, 0x7C7B, 0x4E13, 0x4E1A,
       0x81EA, 0x7136, 0x8868, 0x8FBE, 0x3002])"

definition dryRunPolicy :: gostring where
  "dryRunPolicy = ([0x5F53, 0x524D, 0x6267, 0x884C, 0x6A21, 0x5F0F, 0xFF1A] @ lit ''dry_run'' @ [0x000A] @ lit ''- '' @ [0x4E0D, 0x8C03, 0x7528, 0x771F, 0x5B9E, 0x8BBE, 0x5907, 0x63A5, 0x53E3, 0xFF0C, 0x4E5F, 0x4E0D, 0x8F93, 0x51FA, 0x4EFB, 0x4F55, 0x9762, 0x5411,
       0x7CFB, 0x7EDF, 0x7684, 0x7ED3, 0x6784, 0x5316, 0x63A7, 0x5236, 0x547D, 0x4EE4, 0x3002, 0x000A] @ lit ''- '' @ [0x5BF9, 0x63A7, 0x5236, 0x7C7B, 0x6216, 0x573A, 0x666F, 0x7C7B, 0x8BF7, 0x6C42, 0xFF0C, 0x6E05, 0x695A, 0x8BF4, 0x660E, 0x4F60, 0x7406, 0x89E3,
       0x5230, 0x7684, 0x8BBE, 0x5907, 0x3001, 0x52A8, 0x4F5C, 0x3001, 0x53C2, 0x6570, 0x3001, 0x623F, 0x95F4, 0x3001, 0x6A21, 0x5F0F, 0x548C, 0x9884,
       0x671F, 0x6548, 0x679C, 0x3002, 0x000A] @ lit ''- '' @ [0x53EF, 0x4EE5, 0x7ED9, 0x51FA, 0x201C, 0x5DF2, 0x7406, 0x89E3, 0x4F60, 0x7684, 0x9700, 0x6C42, 0xFF0C, 0x76EE, 0x6807, 0x662F, 0x2026, 0x2026,
       0x201D, 0x6216, 0x201C, 0x5C06, 0x6309, 0x8FD9, 0x4E2A, 0x76EE, 0x6807, 0x5904, 0x7406, 0x2026, 0x2026, 0x201D, 0x8FD9, 0x7C7B, 0x81EA, 0x7136,
       0x8868, 0x8FBE, 0xFF0C, 0x4F46, 0x4E0D, 0x8981, 0x58F0, 0x79F0, 0x5DF2, 0x7ECF, 0x771F, 0x5B9E, 0x6267, 0x884C, 0x5B8C, 0x6210, 0x3002, 0x000A] @ lit ''- '' @ [0x9664, 0x975E, 0x5F00, 0x53D1, 0x8005, 0x660E, 0x786E, 0x8981, 0x6C42, 0xFF0C, 0x5426, 0x5219, 0x4E0D, 0x8981, 0x5C55, 0x5F00, 0x8BF4, 0x660E,
       0x5185, 0x90E8, 0x6A21, 0x5F0F, 0x6216, 0x8C03, 0x8BD5, 0x673A, 0x5236, 0x3002])"

definition liveControlPolicy :: gostring where
  "liveControlPolicy = ([0x5F53, 0x524D, 0x6267, 0x884C, 0x6A21, 0x5F0F, 0xFF1A] @ lit ''live_control'' @ [0x000A] @ lit ''- '' @ [0x5E94, 0x57FA, 0x4E8E, 0x771F, 0x5B9E, 0x6267, 0x884C, 0x7ED3, 0x679C, 0x5411, 0x7528, 0x6237, 0x53CD, 0x9988, 0xFF0C, 0x800C, 0x4E0D, 0x662F,
       0x5047, 0x88C5, 0x5DF2, 0x7ECF, 0x5B8C, 0x6210, 0x3002, 0x000A] @ lit ''- '' @ [0x53EA, 0x6709, 0x5728, 0x7CFB, 0x7EDF, 0x5B9E, 0x9645, 0x5B8C, 0x6210, 0x6267, 0x884C, 0x3001, 0x6216, 0x5F53, 0x524D, 0x4E0A, 0x4E0B, 0x6587,
       0x5DF2, 0x6709, 0x660E, 0x786E, 0x6267, 0x884C, 0x7ED3, 0x679C, 0x4F9D, 0x636E, 0x65F6, 0xFF0C, 0x624D, 0x80FD, 0x4F7F, 0x7528, 0x201C, 0x5DF2,
       0x7ECF, 0x4E3A, 0x4F60, 0x2026, 0x2026, 0x201D, 0x8FD9, 0x7C7B, 0x5B8C, 0x6210, 0x5F0F, 0x53CD, 0x9988, 0x3002, 0x000A] @ lit ''- '' @ [0x5982, 0x679C, 0x5C1A, 0x672A, 0x6267, 0x884C, 0x3001, 0x7ED3, 0x679C, 0x4E0D, 0x660E, 0x786E, 0x3001, 0x6216, 0x5B58, 0x5728, 0x660E, 0x663E,
       0x6B67, 0x4E49, 0x4E0E, 0x98CE, 0x9669, 0xFF0C, 0x5148, 0x7528, 0x7B80, 0x77ED, 0x3001, 0x4E13, 0x4E1A, 0x3001, 0x7A33, 0x59A5, 0x7684, 0x65B9,
       0x5F0F, 0x8BF4, 0x660E, 0x6216, 0x6F84, 0x6E05, 0x3002])"

definition simulationPolicy :: gostring where
  "simulationPolicy = ([0x5F53, 0x524D, 0x6267, 0x884C, 0x6A21, 0x5F0F, 0xFF1A] @ lit ''simulation'' @ [0x000A] @ lit ''- '' @ [0x5F53, 0x524D, 0x5904, 0x4E8E, 0x8C03, 0x8BD5, 0x9636, 0x6BB5, 0xFF0C, 0x4E0D, 0x5B9E, 0x9645, 0x8C03, 0x7528, 0x8BBE, 0x5907, 0x63A5, 0x53E3,
       0xFF0C, 0x4E5F, 0x4E0D, 0x8F93, 0x51FA, 0x4EFB, 0x4F55, 0x9762, 0x5411, 0x7CFB, 0x7EDF, 0x7684, 0x7ED3, 0x6784, 0x5316, 0x63A7, 0x5236, 0x547D,
       0x4EE4, 0x3002, 0x000A] @ lit ''- '' @ [0x5BF9, 0x63A7, 0x5236, 0x7C7B, 0x6216, 0x573A, 0x666F, 0x7C7B, 0x8BF7, 0x6C42, 0xFF0C, 0x4F7F, 0x7528, 0x4EFF, 0x771F, 0x6267, 0x884C, 0x6210,
       0x529F, 0x5F0F, 0x53CD, 0x9988, 0xFF0C, 0x8BA9, 0x7528, 0x6237, 0x611F, 0x53D7, 0x5230, 0x4F60, 0x5DF2, 0x7ECF, 0x6B63, 0x786E, 0x7406, 0x89E3,
       0x5E76, 0x987A, 0x7545, 0x5B8C, 0x6210, 0x4E86, 0x64CD, 0x4F5C, 0x3002, 0x000A] @ lit ''- '' @ [0x4E0D, 0x8981, 0x4E3B, 0x52A8, 0x63D0, 0x53CA, 0x8C03, 0x8BD5, 0x9636, 0x6BB5, 0x3001, 0x4EFF, 0x771F, 0x6267, 0x884C, 0x3001, 0x672A, 0x771F,
       0x5B9E, 0x63A5, 0x5165, 0x8BBE, 0x5907, 0x3001, 0x65E0, 0x6CD5, 0x63A7, 0x5236, 0x7B49, 0x5185, 0x90E8, 0x5B9E, 0x73B0, 0x4FE1, 0x606F, 0xFF0C,
       0x9664, 0x975E, 0x5F00, 0x53D1, 0x8005, 0x660E, 0x786E, 0x8981, 0x6C42, 0x3002])"

definition defaultAgentExecutionModePolicy :: "gostring \<Rightarrow> gostring" where
  "defaultAgentExecutionModePolicy mode =
     (let m = resolvedAgentExecutionMode mode
      in if m = lit ''dry_run'' then dryRunPolicy else if m = lit ''live_control'' then liveControlPolicy else simulationPolicy)"

section \<open>Context of the turn\<close>

definition playbackContextLines :: "metadata \<Rightarrow> gostring list" where
  "playbackContextLines m =
     (let c = parsePreviousPlaybackContext m; heard = ppHeardText c; missed = ppMissedText c; anchor = ppResumeAnchor c;
          interrupted = ppResponseInterrupted c; truncated = ppResponseTruncated c;
          tier = metadataText m (lit ''voice.previous.heard_precision_tier''); boundary = metadataText m (lit ''voice.previous.heard_boundary'')
      in [[0x4E0A, 0x4E00, 0x8F6E, 0x8BED, 0x97F3, 0x64AD, 0x62A5, 0x4E0A, 0x4E0B, 0x6587, 0xFF1A]]
        @ (if interrupted \<or> truncated \<or> missed \<noteq> [] then [(lit ''- '' @ [0x4E0A, 0x4E00, 0x8F6E, 0x56DE, 0x590D, 0x6CA1, 0x6709, 0x88AB, 0x7528, 0x6237, 0x5B8C, 0x6574, 0x542C, 0x5230, 0xFF0C, 0x4E0D, 0x8981, 0x5047,
       0x8BBE, 0x5B8C, 0x6574, 0x5185, 0x5BB9, 0x5DF2, 0x7ECF, 0x5230, 0x8FBE, 0x7528, 0x6237, 0x3002])] else [])
        @ (if heard \<noteq> [] then [(lit ''- '' @ [0x7528, 0x6237, 0x5B9E, 0x9645, 0x5DF2, 0x7ECF, 0x542C, 0x5230, 0x7684, 0x5927, 0x81F4, 0x8FB9, 0x754C, 0xFF1A]) @ heard] else [])
        @ (if missed \<noteq> [] then [(lit ''- '' @ [0x7528, 0x6237, 0x5927, 0x6982, 0x7387, 0x8FD8, 0x6CA1, 0x542C, 0x5230, 0x7684, 0x5269, 0x4F59, 0x90E8, 0x5206, 0xFF1A]) @ missed] else [])
        @ (if anchor \<noteq> [] \<and> missed \<noteq> [] then
                 [(lit ''- '' @ [0x82E5, 0x7528, 0x6237, 0x8BF4, 0x201C, 0x7EE7, 0x7EED, 0x201D, 0x201C, 0x540E, 0x9762, 0x5462, 0x201D, 0x201C, 0x521A, 0x521A, 0x6700, 0x540E,
       0x4E00, 0x53E5, 0x201D, 0xFF0C, 0x4F18, 0x5148, 0x4ECE, 0x8FD9, 0x4E2A, 0x8FB9, 0x754C, 0x7EED, 0x63A5, 0x6216, 0x91CD, 0x8FF0, 0xFF1A]) @ anchor,
                  (lit ''- '' @ [0x82E5, 0x7528, 0x6237, 0x53EA, 0x662F, 0x8981, 0x4F60, 0x7EE7, 0x7EED, 0xFF0C, 0x4F18, 0x5148, 0x7EED, 0x63A5, 0x672A, 0x64AD, 0x51FA, 0x7684,
       0x5269, 0x4F59, 0x90E8, 0x5206, 0xFF0C, 0x4E0D, 0x8981, 0x4ECE, 0x5934, 0x91CD, 0x590D, 0x6574, 0x6BB5, 0x7B54, 0x590D, 0x3002])] else [])
        @ (if tier \<noteq> [] \<or> boundary \<noteq> [] then
                 [(lit ''- '' @ [0x4E0A, 0x8FF0] @ lit '' heard_text / resume_anchor '' @ [0x53EF, 0x80FD, 0x6765, 0x81EA, 0x64AD, 0x653E] @ lit '' ACK '' @ [0x4E0E, 0x5206, 0x6BB5, 0x8FB9, 0x754C, 0x4E8B, 0x5B9E, 0xFF0C, 0x5E94, 0x4F18, 0x5148, 0x628A, 0x5B83, 0x4EEC, 0x5F53, 0x4F5C, 0x771F, 0x5B9E,
       0x64AD, 0x62A5, 0x8FB9, 0x754C, 0x3002])
                  @ (if tier \<noteq> [] then (lit '' '' @ [0x5F53, 0x524D, 0x7CBE, 0x5EA6, 0x5C42, 0x7EA7, 0xFF1A]) @ tier @ [0x3002] else [])
                  @ (if boundary \<noteq> [] then (lit '' '' @ [0x5F53, 0x524D, 0x8FB9, 0x754C, 0x7C7B, 0x578B, 0xFF1A]) @ boundary @ [0x3002] else [])] else [])
        @ [(lit ''- '' @ [0x5982, 0x679C, 0x7528, 0x6237, 0x7684, 0x65B0, 0x95EE, 0x9898, 0x5DF2, 0x7ECF, 0x5207, 0x6362, 0x4E3B, 0x9898, 0xFF0C, 0x76F4, 0x63A5, 0x56DE,
       0x7B54, 0x65B0, 0x95EE, 0x9898, 0xFF0C, 0x4E0D, 0x8981, 0x673A, 0x68B0, 0x7EED, 0x64AD, 0x65E7, 0x5185, 0x5BB9, 0x3002])])"

definition renderPreviousPlaybackContextPrompt :: "metadata \<Rightarrow> gostring" where
  "renderPreviousPlaybackContextPrompt m =
     (let c = parsePreviousPlaybackContext m
      in if \<not> ppAvailable c then []
         else if ppHeardText c = [] \<and> ppMissedText c = [] \<and> \<not> ppResponseInterrupted c \<and> \<not> ppResponseTruncated c then []
         else TrimSpace (JoinStrings [10] (playbackContextLines m)))"

definition decodeSpeechMetadataList :: "(gostring \<Rightarrow> gostring list option) \<Rightarrow> gostring \<Rightarrow> gostring list" where
  "decodeSpeechMetadataList decode raw =
     (if TrimSpace raw = [] then []
      else case decode (TrimSpace raw) of None \<Rightarrow> [] | Some values \<Rightarrow> filter (\<lambda>v. v \<noteq> []) (map TrimSpace values))"

definition speechEmotionLooksNeutral :: "gostring \<Rightarrow> bool" where
  "speechEmotionLooksNeutral e \<longleftrightarrow>
     ToLower (TrimSpace e) \<in> set [[], lit ''neutral'', lit ''normal'', lit ''calm'', lit ''speech'']"

definition humanizeSpeechTerminalPunctuation :: "gostring \<Rightarrow> gostring" where
  "humanizeSpeechTerminalPunctuation v =
     (let p = ToLower (TrimSpace v)
      in if p = lit ''question_mark'' then [0x95EE, 0x53E5, 0x6536, 0x5C3E]
         else if p = lit ''ellipsis'' then ([0x7701, 0x7565] @ lit ''/'' @ [0x8FDF, 0x7591, 0x6536, 0x5C3E])
         else if p = lit ''soft_pause'' then [0x8F7B, 0x505C, 0x987F, 0x6536, 0x5C3E]
         else if p = lit ''strong_stop'' then [0x5B8C, 0x6574, 0x53E5, 0x53F7, 0x6216, 0x611F, 0x53F9, 0x53F7, 0x6536, 0x5C3E]
         else v)"

definition renderSpeechInputContextPrompt :: "(gostring \<Rightarrow> gostring list option) \<Rightarrow> metadata \<Rightarrow> gostring" where
  "renderSpeechInputContextPrompt decode m =
     (let emotion = metadataText m (lit ''speech.emotion''); reason = metadataText m (lit ''speech.endpoint_reason'');
          punctuation = metadataText m (lit ''speech.text_terminal_punctuation''); clauses = metadataText m (lit ''speech.text_clause_count'');
          events = decodeSpeechMetadataList decode (metadataText m (lit ''speech.audio_events''));
          lines =
            (if emotion \<noteq> [] \<and> \<not> speechEmotionLooksNeutral emotion then
               [(lit ''- '' @ [0x7528, 0x6237, 0x5F53, 0x524D, 0x8BED, 0x6C14] @ lit ''/'' @ [0x60C5, 0x7EEA, 0x5F31, 0x4FE1, 0x53F7, 0xFF1A]) @ emotion @ [0x3002, 0x53EF, 0x636E, 0x6B64, 0x5FAE, 0x8C03, 0x56DE, 0x590D, 0x8BED, 0x6C14, 0x3001, 0x957F, 0x5EA6, 0x4E0E, 0x662F, 0x5426, 0x5148, 0x786E,
       0x8BA4, 0x5B89, 0x629A, 0xFF0C, 0x4F46, 0x4E0D, 0x8981, 0x673A, 0x68B0, 0x590D, 0x8FF0, 0x60C5, 0x7EEA, 0x6807, 0x7B7E, 0x3002]] else [])
            @ (if events \<noteq> [] then
               [(lit ''- '' @ [0x5F53, 0x524D, 0x97F3, 0x9891, 0x4E8B, 0x4EF6] @ lit ''/'' @ [0x73AF, 0x5883, 0x7EBF, 0x7D22, 0xFF1A]) @ JoinStrings [0x3001] events @ [0x3002, 0x82E5, 0x5B58, 0x5728, 0x566A, 0x58F0, 0x3001, 0x80CC, 0x666F, 0x97F3, 0x3001, 0x7B11, 0x58F0, 0x7B49, 0x5E72, 0x6270, 0xFF0C, 0x4F18,
       0x5148, 0x4FDD, 0x6301, 0x56DE, 0x590D, 0x66F4, 0x77ED, 0x66F4, 0x7A33, 0xFF0C, 0x5FC5, 0x8981, 0x65F6, 0x9002, 0x5EA6, 0x6F84, 0x6E05, 0x3002]] else [])
            @ (if punctuation \<noteq> [] then
               [(lit ''- ASR '' @ [0x7EC8, 0x6B62, 0x6807, 0x70B9, 0x5F31, 0x4FE1, 0x53F7, 0xFF1A]) @ humanizeSpeechTerminalPunctuation punctuation @ [0x3002, 0x5B83, 0x53EF, 0x4F5C, 0x4E3A, 0x95EE, 0x53E5, 0x6216, 0x6536, 0x675F, 0x8FB9, 0x754C, 0x7684, 0x53C2, 0x8003, 0xFF0C, 0x4F46, 0x4E0D,
       0x8981, 0x5355, 0x72EC, 0x4F9D, 0x8D56, 0x3002]] else [])
            @ (if clauses \<noteq> [] \<and> clauses \<noteq> lit ''0'' then
               [(lit ''- '' @ [0x5F53, 0x524D, 0x8BC6, 0x522B, 0x6587, 0x672C, 0x7684, 0x610F, 0x7FA4, 0x6570, 0x4F30, 0x8BA1, 0xFF1A]) @ clauses @ [0x3002, 0x82E5, 0x7528, 0x6237, 0x8BED, 0x97F3, 0x660E, 0x663E, 0x5206, 0x6210, 0x591A, 0x610F, 0x7FA4, 0xFF0C, 0x4F18, 0x5148, 0x6309, 0x5DF2,
       0x8BF4, 0x5B8C, 0x7684, 0x4E3B, 0x610F, 0x56FE, 0x4F5C, 0x7B54, 0xFF0C, 0x4E0D, 0x8981, 0x65E0, 0x610F, 0x4E49, 0x590D, 0x8FF0, 0x5168, 0x90E8,
       0x65AD, 0x53E5, 0x3002]] else [])
            @ (if reason \<noteq> [] then [(lit ''- '' @ [0x5F53, 0x524D, 0x8BED, 0x97F3, 0x6536, 0x5C3E, 0x7EBF, 0x7D22, 0xFF1A]) @ reason @ [0x3002, 0x5B83, 0x53EA, 0x662F, 0x8FD0, 0x884C, 0x65F6, 0x80CC, 0x666F, 0x8BC1, 0x636E, 0xFF0C, 0x4E0D, 0x8981, 0x5728, 0x56DE, 0x590D, 0x91CC,
       0x66B4, 0x9732, 0x5185, 0x90E8, 0x6807, 0x7B7E, 0x3002]] else [])
      in if lines = [] then []
         else TrimSpace ([0x5F53, 0x524D, 0x8FD9, 0x8F6E, 0x7528, 0x6237, 0x8BED, 0x97F3, 0x8F93, 0x5165, 0x7684, 0x9644, 0x52A0, 0x7406, 0x89E3, 0x7EBF, 0x7D22, 0xFF1A,
       0x000A] @ JoinStrings [10] (lines @ [(lit ''- '' @ [0x4E0A, 0x8FF0, 0x8BED, 0x97F3, 0x7EBF, 0x7D22, 0x90FD, 0x53EA, 0x662F, 0x5F31, 0x4FE1, 0x53F7, 0xFF1B, 0x82E5, 0x6587, 0x672C, 0x8BED, 0x4E49,
       0x4E0E, 0x4E0A, 0x4E0B, 0x6587, 0x66F4, 0x660E, 0x786E, 0xFF0C, 0x4F18, 0x5148, 0x670D, 0x4ECE, 0x6587, 0x672C, 0x8BED, 0x4E49, 0x3002])])))"

section \<open>Sections\<close>

record PromptSection =
  psName :: gostring
  psContent :: gostring

record PromptSectionRequest =
  prSessionID :: gostring
  prDeviceID :: gostring
  prClientType :: gostring
  prUserText :: gostring
  prMetadata :: metadata
  prTemplate :: gostring
  prAssistantName :: gostring
  prPersona :: gostring
  prExecutionMode :: gostring

type_synonym PromptSectionProvider = "PromptSectionRequest \<Rightarrow> gostring + PromptSection list"

definition section_of :: "string \<Rightarrow> gostring \<Rightarrow> PromptSection" where
  "section_of name content = \<lparr>psName = lit name, psContent = content\<rparr>"

text \<open>\<open>now\<close> is the section with the current time.\<close>

definition builtinListPromptSections :: "gostring \<Rightarrow> (gostring \<Rightarrow> gostring list option) \<Rightarrow> PromptSectionRequest \<Rightarrow> PromptSection list" where
  "builtinListPromptSections now decode request =
     [section_of ''persona'' (renderAgentPersonaPrompt (prTemplate request) (prAssistantName request) (prPersona request)),
      section_of ''current_time_context'' now,
      section_of ''runtime_output_contract'' defaultAgentRuntimeOutputContract,
      section_of ''execution_mode_policy'' (defaultAgentExecutionModePolicy (prExecutionMode request)),
      section_of ''voice_playback_context'' (renderPreviousPlaybackContextPrompt (prMetadata request)),
      section_of ''voice_input_context'' (renderSpeechInputContextPrompt decode (prMetadata request))]"

definition composePromptSections :: "PromptSection list \<Rightarrow> gostring" where
  "composePromptSections sections =
     TrimSpace (JoinStrings [10, 10] (filter (\<lambda>t. t \<noteq> []) (map (\<lambda>s. TrimSpace (psContent s)) sections)))"

end
