(* ===== verification/Agent_Tools.thy ===== *)
theory Agent_Tools
  imports Agent_Turns "HOL-Library.AList"
begin

text \<open>
  The tools an executor may invoke: the builtin ones of \<open>runtime_backends.go\<close>, the household skill of \<open>runtime_skill_household.go\<close>
  and the backend that joins them (\<open>runtime_skill.go\<close>). The JSON encoder and decoder of the standard library, the clock and its
  formats are parameters. A skill that does not handle a tool answers \<open>None\<close>.
\<close>

section \<open>Builtin tools\<close>

text \<open>
  \<open>cdEncode\<close> is \<open>json.Marshal\<close>; \<open>cdObject\<close> and \<open>cdHousehold\<close> are \<open>json.Unmarshal\<close> into a map and into the household input; \<open>cdNow\<close> holds
  the four fields of the current time.
\<close>

record householdControlToolInput =
  hcRoomName :: gostring
  hcDeviceType :: gostring
  hcAction :: gostring
  hcMode :: gostring
  hcTarget :: gostring
  hcParameter :: gostring
  hcValue :: gostring
  hcSceneName :: gostring
  hcQuery :: gostring
  hcUtteranceSummary :: gostring

record toolCodec =
  cdEncode :: "JSON \<Rightarrow> gostring"
  cdObject :: "gostring \<Rightarrow> gostring + (gostring \<rightharpoonup> JSON)"
  cdHousehold :: "gostring \<Rightarrow> gostring + householdControlToolInput"
  cdNow :: "(gostring \<times> JSON) list"

definition errorJSON :: "gostring \<Rightarrow> JSON" where
  "errorJSON e = JObject [(lit ''error'', JString e)]"

definition extractMemoryQuery :: "toolCodec \<Rightarrow> gostring \<Rightarrow> gostring + gostring" where
  "extractMemoryQuery codec raw =
     (let t = TrimSpace raw
      in if t = [] \<or> t = lit ''{}'' then Inr []
         else case cdObject codec t of
           Inl e \<Rightarrow> Inl (lit ''invalid tool input json: '' @ e)
         | Inr payload \<Rightarrow> (case payload (lit ''query'') of Some (JString q) \<Rightarrow> Inr (TrimSpace q) | _ \<Rightarrow> Inr []))"

definition toolResultOf :: "ToolCall \<Rightarrow> gostring \<Rightarrow> gostring \<Rightarrow> ToolResult" where
  "toolResultOf call status out = \<lparr>trsCallID = tcCallID call, trsToolName = tcToolName call, trsToolStatus = status, trsToolOutput = out\<rparr>"

definition invokeTimeNow :: "toolCodec \<Rightarrow> ToolInvoker" where
  "invokeTimeNow codec call = Inr (toolResultOf call (lit ''completed'') (cdEncode codec (JObject (cdNow codec))))"

definition invokeSessionDescribe :: "toolCodec \<Rightarrow> ToolInvoker" where
  "invokeSessionDescribe codec call = Inr (toolResultOf call (lit ''completed'') (cdEncode codec (JObject
     [(lit ''session_id'', JString (tcSessionID call)), (lit ''device_id'', JString (tcDeviceID call)),
      (lit ''client_type'', JString (tcClientType call))])))"

text \<open>A message of the memory has no tool calls, and a context without a scope has no list of messages; a later fact replaces an earlier one with its key.\<close>

definition messageJSON :: "ChatMessage \<Rightarrow> JSON" where
  "messageJSON m = JObject [(lit ''Role'', JString (msgRole m)), (lit ''Content'', JString (msgContent m)),
     (lit ''ToolCallID'', JString []), (lit ''ToolCalls'', JNull)]"

definition memoryJSON :: "MemoryContext \<Rightarrow> JSON" where
  "memoryJSON c = JObject
     [(lit ''scope'', JString (ctxScope c)), (lit ''summary'', JString (ctxSummary c)),
      (lit ''facts'', JObject (fold (\<lambda>f facts. AList.update (factKey f) (JString (factValue f)) facts) (ctxFacts c) [])),
      (lit ''recent_messages'', if ctxScope c = [] then JNull else JArray (map messageJSON (ctxRecentMessages c)))]"

definition invokeMemoryRecall :: "(gostring \<Rightarrow> gostring) \<Rightarrow> toolCodec \<Rightarrow> MemoryStore \<Rightarrow> ToolInvoker" where
  "invokeMemoryRecall quote codec store call =
     (case extractMemoryQuery codec (tcToolInput call) of
        Inl e \<Rightarrow> Inr (toolResultOf call (lit ''failed'') (cdEncode codec (errorJSON e)))
      | Inr q \<Rightarrow> Inr (toolResultOf call (lit ''completed'') (cdEncode codec (memoryJSON (storeLoadTurnContext quote
          \<lparr>qSessionID = tcSessionID call, qDeviceID = tcDeviceID call, qClientType = tcClientType call, qUserID = [], qRoomID = [],
           qHouseholdID = [], qUserText = q, qMetadata = Map.empty\<rparr> store)))))"

definition hasTool :: "gostring \<Rightarrow> bool" where
  "hasTool name \<longleftrightarrow> ToLower (TrimSpace name) \<in> set [lit ''time.now'', lit ''session.describe'', lit ''memory.recall'']"

definition noParameters :: "(gostring \<times> JSON) list" where
  "noParameters = [(lit ''type'', JString (lit ''object'')), (lit ''properties'', JObject []), (lit ''additionalProperties'', JBool False)]"

definition builtinListTools :: ToolRegistry where
  "builtinListTools request = Inr
     [\<lparr>tdefName = lit ''time.now'', tdefDescription = (lit ''Return the server'' @ [0x0027] @ lit ''s current local and UTC time.''),
       tdefParameters = noParameters, tdefStrict = False\<rparr>,
      \<lparr>tdefName = lit ''session.describe'', tdefDescription = lit ''Return the current session, device, and client identifiers.'',
       tdefParameters = noParameters, tdefStrict = False\<rparr>,
      \<lparr>tdefName = lit ''memory.recall'',
       tdefDescription = lit ''Return the in-memory turn summary remembered for the current device or session.'',
       tdefParameters = [(lit ''type'', JString (lit ''object'')),
         (lit ''properties'', JObject [(lit ''query'', JObject [(lit ''type'', JString (lit ''string'')),
           (lit ''description'', JString (lit ''Optional recall hint or topic to bias the memory lookup.''))])]),
         (lit ''additionalProperties'', JBool False)], tdefStrict = False\<rparr>]"

definition builtinInvokeTool :: "(gostring \<Rightarrow> gostring) \<Rightarrow> toolCodec \<Rightarrow> MemoryStore \<Rightarrow> ToolInvoker" where
  "builtinInvokeTool quote codec store call =
     (let n = ToLower (TrimSpace (tcToolName call))
      in if n = lit ''time.now'' then invokeTimeNow codec call
         else if n = lit ''session.describe'' then invokeSessionDescribe codec call
         else if n = lit ''memory.recall'' then invokeMemoryRecall quote codec store call
         else Inr (toolResultOf call (lit ''unavailable'')
           (cdEncode codec (errorJSON (lit ''tool '' @ tcToolName call @ lit '' is not available'')))))"

section \<open>The household skill\<close>

text \<open>The two switches as tables: an alias and the name it stands for.\<close>

definition deviceTypeNames :: "(gostring \<times> gostring) list" where
  "deviceTypeNames = map (\<lambda>(a, c). (lit a, lit c))
     [(''light'', ''light''), (''lights'', ''light''), (''lamp'', ''light''), (''curtain'', ''curtain''), (''curtains'', ''curtain''),
      (''aircon'', ''aircon''), (''air_conditioner'', ''aircon''), (''ac'', ''aircon''), (''tv'', ''tv''), (''television'', ''tv''),
      (''speaker'', ''speaker''), (''audio'', ''speaker''), (''soundbar'', ''speaker''), (''fan'', ''fan''),
      (''humidifier'', ''humidifier''), (''dehumidifier'', ''dehumidifier''), (''air_purifier'', ''air_purifier''),
      (''purifier'', ''air_purifier''), (''fresh_air'', ''fresh_air''), (''freshair'', ''fresh_air''),
      (''floor_heating'', ''floor_heating''), (''heating_floor'', ''floor_heating''), (''water_heater'', ''water_heater''),
      (''robot'', ''robot''), (''robot_vacuum'', ''robot''), (''vacuum'', ''robot''), (''scene'', ''scene''), (''lock'', ''lock''),
      (''door_lock'', ''lock''), (''security'', ''security''), (''alarm'', ''security''), (''gas'', ''gas'')]"

definition normalizedDeviceType :: "gostring \<Rightarrow> gostring" where
  "normalizedDeviceType d = (case map_of deviceTypeNames (ToLower (TrimSpace d)) of Some c \<Rightarrow> c | None \<Rightarrow> TrimSpace d)"

definition actionNames :: "(gostring \<times> gostring) list" where
  "actionNames = map (\<lambda>(a, c). (lit a, lit c))
     [(''turn_on'', ''on''), (''enable'', ''on''), (''start'', ''on''), (''turn_off'', ''off''), (''disable'', ''off''), (''stop'', ''off''),
      (''activate'', ''activate''), (''run'', ''activate''), (''increase'', ''increase''), (''up'', ''increase''),
      (''decrease'', ''decrease''), (''down'', ''decrease'')]"

definition normalizedHouseholdAction :: "gostring \<Rightarrow> gostring" where
  "normalizedHouseholdAction a = (let n = ToLower (TrimSpace a) in case map_of actionNames n of Some c \<Rightarrow> c | None \<Rightarrow> n)"

definition isSensitiveHouseholdDomain :: "gostring \<Rightarrow> bool" where
  "isSensitiveHouseholdDomain d \<longleftrightarrow> normalizedDeviceType d \<in> set [lit ''lock'', lit ''security'', lit ''gas'']"

definition deviceLabels :: "(gostring \<times> gostring) list" where
  "deviceLabels = [(lit ''light'', [0x706F, 0x5149]), (lit ''curtain'', [0x7A97, 0x5E18]), (lit ''aircon'', [0x7A7A, 0x8C03]), (lit ''tv'', [0x7535, 0x89C6]),
     (lit ''speaker'', [0x97F3, 0x54CD]), (lit ''fan'', [0x98CE, 0x6247]), (lit ''humidifier'', [0x52A0, 0x6E7F, 0x5668]), (lit ''dehumidifier'', [0x9664, 0x6E7F, 0x673A]),
     (lit ''air_purifier'', [0x7A7A, 0x6C14, 0x51C0, 0x5316, 0x5668]), (lit ''fresh_air'', [0x65B0, 0x98CE]), (lit ''floor_heating'', [0x5730, 0x6696]),
     (lit ''water_heater'', [0x70ED, 0x6C34, 0x5668]), (lit ''robot'', [0x626B, 0x5730, 0x673A, 0x5668, 0x4EBA]), (lit ''lock'', [0x95E8, 0x9501]), (lit ''security'', [0x5B89, 0x9632, 0x8BBE, 0x5907]),
     (lit ''gas'', [0x71C3, 0x6C14, 0x8BBE, 0x5907])]"

definition householdDeviceLabel :: "gostring \<Rightarrow> gostring" where
  "householdDeviceLabel d = (case map_of deviceLabels (normalizedDeviceType d) of Some t \<Rightarrow> t | None \<Rightarrow> TrimSpace d)"

definition householdScope :: "gostring \<Rightarrow> gostring \<Rightarrow> gostring" where
  "householdScope roomName deviceType =
     (let room = TrimSpace roomName; device = normalizedDeviceType deviceType
      in if room \<noteq> [] \<and> device \<noteq> [] then room @ householdDeviceLabel device
         else if room \<noteq> [] then room @ [0x8BBE, 0x5907]
         else if device \<noteq> [] then householdDeviceLabel device
         else [])"

definition resolvedDeviceType :: "householdControlToolInput \<Rightarrow> gostring" where
  "resolvedDeviceType i = (if hcDeviceType i = [] \<and> hcSceneName i \<noteq> [] then lit ''scene'' else hcDeviceType i)"

definition sceneGoal :: "householdControlToolInput \<Rightarrow> gostring" where
  "sceneGoal i =
     (let scene = (if hcSceneName i = [] then hcAction i else hcSceneName i)
      in if scene = [] then [0x5207, 0x6362, 0x5BB6, 0x5EAD, 0x573A, 0x666F] else [0x5207, 0x6362, 0x5230] @ scene @ [0x573A, 0x666F])"

definition settingGoal :: "gostring \<Rightarrow> householdControlToolInput \<Rightarrow> gostring" where
  "settingGoal scope i =
     (let target = firstNonEmpty [hcTarget i, hcValue i]
      in if hcParameter i \<noteq> [] \<and> target \<noteq> [] then [0x5C06] @ scope @ [0x7684] @ hcParameter i @ [0x8BBE, 0x7F6E, 0x4E3A] @ target
         else if hcMode i \<noteq> [] \<and> target \<noteq> [] then [0x5C06] @ scope @ [0x8BBE, 0x7F6E, 0x4E3A] @ hcMode i @ lit '' '' @ target
         else if hcMode i \<noteq> [] then [0x5C06] @ scope @ [0x5207, 0x6362, 0x5230] @ hcMode i @ [0x6A21, 0x5F0F]
         else if target \<noteq> [] then [0x8C03, 0x6574] @ scope @ [0x5230] @ target
         else if scope \<noteq> [] then [0x8C03, 0x6574] @ scope
         else [])"

definition householdControlGoal :: "householdControlToolInput \<Rightarrow> gostring" where
  "householdControlGoal i =
     (let deviceType = resolvedDeviceType i; action = (if hcAction i = [] then lit ''set'' else hcAction i);
          scope = householdScope (hcRoomName i) deviceType
      in if hcQuery i \<noteq> [] then
           (let s = householdScope (hcRoomName i) (hcDeviceType i)
            in if s = [] then [0x67E5, 0x8BE2, 0x5F53, 0x524D, 0x5BB6, 0x5EAD, 0x8BBE, 0x5907, 0x72B6, 0x6001] else [0x67E5, 0x8BE2] @ s @ hcQuery i)
         else if deviceType = lit ''scene'' then sceneGoal i
         else if action = lit ''on'' \<or> action = lit ''open'' then [0x6253, 0x5F00] @ scope
         else if action = lit ''off'' \<or> action = lit ''close'' then [0x5173, 0x95ED] @ scope
         else if action = lit ''increase'' then
           (if hcParameter i \<noteq> [] then [0x8C03, 0x9AD8] @ scope @ [0x7684] @ hcParameter i else [0x63D0, 0x5347] @ scope)
         else if action = lit ''decrease'' then
           (if hcParameter i \<noteq> [] then [0x8C03, 0x4F4E] @ scope @ [0x7684] @ hcParameter i else [0x964D, 0x4F4E] @ scope)
         else settingGoal scope i)"

definition householdControlToolResult :: "householdControlToolInput \<Rightarrow> (gostring \<times> JSON) list" where
  "householdControlToolResult i =
     (let deviceType = resolvedDeviceType i; goal = householdControlGoal i; sensitive = isSensitiveHouseholdDomain deviceType;
          vague = (TrimSpace goal = [])
      in [(lit ''skill'', JString (lit ''household_control'')), (lit ''room_name'', JString (hcRoomName i)),
          (lit ''device_type'', JString deviceType), (lit ''action'', JString (hcAction i)), (lit ''mode'', JString (hcMode i)),
          (lit ''target'', JString (firstNonEmpty [hcTarget i, hcValue i])), (lit ''parameter'', JString (hcParameter i)),
          (lit ''scene_name'', JString (hcSceneName i)), (lit ''query'', JString (hcQuery i)),
          (lit ''utterance_summary'', JString (hcUtteranceSummary i)), (lit ''sensitive_domain'', JBool sensitive),
          (lit ''requires_clarification'', JBool (sensitive \<or> vague)), (lit ''goal'', JString goal)]
         @ (if sensitive then [(lit ''clarification_hint'', JString [0x8FD9, 0x662F, 0x654F, 0x611F, 0x8BBE, 0x5907, 0xFF0C, 0x8BF7, 0x5148, 0x786E, 0x8BA4, 0x5177, 0x4F53, 0x8BBE, 0x5907, 0x3001, 0x4F4D, 0x7F6E,
       0x548C, 0x52A8, 0x4F5C, 0x3002])]
            else if vague then
              [(lit ''clarification_hint'', JString [0x5F53, 0x524D, 0x5BB6, 0x5C45, 0x8BF7, 0x6C42, 0x8FD8, 0x4E0D, 0x591F, 0x660E, 0x786E, 0xFF0C, 0x8BF7, 0x5148, 0x786E, 0x8BA4, 0x8BBE, 0x5907,
       0x3001, 0x52A8, 0x4F5C, 0x6216, 0x67E5, 0x8BE2, 0x76EE, 0x6807, 0x3002])]
            else []))"

definition emptyHouseholdInput :: householdControlToolInput where
  "emptyHouseholdInput = \<lparr>hcRoomName = [], hcDeviceType = [], hcAction = [], hcMode = [], hcTarget = [], hcParameter = [], hcValue = [],
     hcSceneName = [], hcQuery = [], hcUtteranceSummary = []\<rparr>"

definition trimmedHouseholdInput :: "householdControlToolInput \<Rightarrow> householdControlToolInput" where
  "trimmedHouseholdInput i = \<lparr>hcRoomName = TrimSpace (hcRoomName i), hcDeviceType = normalizedDeviceType (hcDeviceType i),
     hcAction = normalizedHouseholdAction (hcAction i), hcMode = TrimSpace (hcMode i), hcTarget = TrimSpace (hcTarget i),
     hcParameter = TrimSpace (hcParameter i), hcValue = TrimSpace (hcValue i), hcSceneName = TrimSpace (hcSceneName i),
     hcQuery = TrimSpace (hcQuery i), hcUtteranceSummary = TrimSpace (hcUtteranceSummary i)\<rparr>"

definition parseHouseholdControlToolInput :: "toolCodec \<Rightarrow> gostring \<Rightarrow> gostring + householdControlToolInput" where
  "parseHouseholdControlToolInput codec raw =
     (let t = TrimSpace raw
      in if t = [] \<or> t = lit ''{}'' then Inr emptyHouseholdInput
         else case cdHousehold codec t of
           Inl e \<Rightarrow> Inl (lit ''invalid tool input json: '' @ e)
         | Inr i \<Rightarrow> Inr (trimmedHouseholdInput i))"

definition householdInvokeTool :: "toolCodec \<Rightarrow> ToolCall \<Rightarrow> ToolResult option" where
  "householdInvokeTool codec call =
     (if TrimSpace (tcToolName call) \<noteq> lit ''home.control.simulate'' then None
      else case parseHouseholdControlToolInput codec (tcToolInput call) of
        Inl e \<Rightarrow> Some (toolResultOf call (lit ''failed'') (cdEncode codec (errorJSON e)))
      | Inr i \<Rightarrow> Some (toolResultOf call (lit ''completed'') (cdEncode codec (JObject (householdControlToolResult i)))))"

definition stringProperty :: "gostring \<Rightarrow> gostring \<Rightarrow> gostring \<times> JSON" where
  "stringProperty key description = (key, JObject [(lit ''type'', JString (lit ''string'')), (lit ''description'', JString description)])"

definition householdControlToolDefinition :: ToolDefinition where
  "householdControlToolDefinition =
     \<lparr>tdefName = lit ''home.control.simulate'',
      tdefDescription = lit ''Normalize one smart-home control, scene, or state-query request into a structured runtime result for the shared household-control skill.'',
      tdefParameters = [(lit ''type'', JString (lit ''object'')), (lit ''properties'', JObject
        [stringProperty (lit ''room_name'') (lit ''Optional room or zone, such as '' @ [0x5BA2, 0x5385] @ lit '' or '' @ [0x4E3B, 0x5367] @ lit ''.''),
         stringProperty (lit ''device_type'') (lit ''Normalized device category, such as light, curtain, aircon, tv, speaker, fan, humidifier, dehumidifier, air_purifier, robot, water_heater, lock, security, gas, or scene.''),
         stringProperty (lit ''action'') (lit ''Normalized user intent such as on, off, open, close, set, query, increase, decrease, activate.''),
         stringProperty (lit ''mode'') (lit ''Optional device mode such as cooling, heating, sleep, movie, eco, auto.''),
         stringProperty (lit ''target'') (lit ''Optional target value such as 26'' @ [0x5EA6] @ lit '', 60%, '' @ [0x6696, 0x767D] @ lit '', '' @ [0x4E2D, 0x6863] @ lit ''.''),
         stringProperty (lit ''parameter'') (lit ''Optional controlled parameter such as temperature, brightness, color_temperature, speed, humidity, volume.''),
         stringProperty (lit ''value'') (lit ''Optional parameter value when target needs a separate field.''),
         stringProperty (lit ''scene_name'') (lit ''Optional normalized scene name such as sleep, movie, away, wakeup.''),
         stringProperty (lit ''query'') (lit ''Optional query target when the user is asking for state instead of control.''),
         stringProperty (lit ''utterance_summary'') (lit ''Optional concise summary of what the user meant.'')]),
        (lit ''additionalProperties'', JBool False)], tdefStrict = False\<rparr>"

definition householdControlSkillPrompt :: gostring where
  "householdControlSkillPrompt = ([0x5DF2, 0x542F, 0x7528] @ lit '' runtime skill: household_control'' @ [0x000A, 0x000A] @
       lit ''- '' @ [0x5F53, 0x7528, 0x6237, 0x610F, 0x56FE, 0x5C5E, 0x4E8E, 0x5BB6, 0x5EAD, 0x8BBE, 0x5907, 0x63A7, 0x5236, 0x3001, 0x573A, 0x666F, 0x5207, 0x6362,
       0x6216, 0x8BBE, 0x5907, 0x72B6, 0x6001, 0x67E5, 0x8BE2, 0xFF0C, 0x5E76, 0x4E14, 0x76EE, 0x6807, 0x5DF2, 0x7ECF, 0x8DB3, 0x591F, 0x660E, 0x786E,
       0x65F6, 0xFF0C, 0x5148, 0x8C03, 0x7528, 0x5DE5, 0x5177] @ lit '' home.control.simulate'' @
       [0xFF0C, 0x518D, 0x6839, 0x636E, 0x5DE5, 0x5177, 0x7ED3, 0x679C, 0x7EC4, 0x7EC7, 0x6700, 0x7EC8, 0x56DE, 0x590D, 0x3002, 0x000A] @ lit ''- '' @ [0x8FD9, 0x4E2A] @
       lit '' skill '' @ [0x8D1F, 0x8D23, 0x5BB6, 0x5EAD, 0x63A7, 0x5236, 0x8BED, 0x4E49, 0xFF0C, 0x4E0D, 0x5E94, 0x7531] @ lit '' transport'' @
       [0x3001] @ lit ''voice responder '' @ [0x6216] @
       lit '' websocket gateway '' @ [0x76F4, 0x63A5, 0x5199, 0x6B7B, 0x89C4, 0x5219, 0x3002, 0x000A] @ lit ''- '' @
       [0x53EF, 0x4EE5, 0x6839, 0x636E, 0x81EA, 0x7136, 0x53E3, 0x8BED, 0x3001, 0x6A21, 0x7CCA, 0x8868, 0x8FBE, 0x3001, 0x53C2, 0x6570, 0x7701, 0x7565,
       0x548C, 0x4E0A, 0x4E0B, 0x6587, 0xFF0C, 0x628A, 0x8BF7, 0x6C42, 0x5F52, 0x4E00, 0x5316, 0x4E3A] @ lit '' room_name'' @ [0x3001] @
       lit ''device_type'' @ [0x3001] @ lit ''action'' @
       [0x3001] @ lit ''mode'' @ [0x3001] @
       lit ''target'' @ [0x3001] @ lit ''query '' @
       [0x7B49, 0x5B57, 0x6BB5, 0x3002, 0x000A] @ lit ''- '' @ [0x5BF9, 0x95E8, 0x9501, 0x3001, 0x71C3, 0x6C14, 0x3001, 0x5B89, 0x9632, 0x7B49, 0x654F, 0x611F, 0x57DF, 0xFF0C, 0x5982, 0x679C, 0x76EE, 0x6807,
       0x8BBE, 0x5907, 0x3001, 0x623F, 0x95F4, 0x3001, 0x52A8, 0x4F5C, 0x6216, 0x98CE, 0x9669, 0x8FB9, 0x754C, 0x4ECD, 0x4E0D, 0x6E05, 0x695A, 0xFF0C,
       0x5148, 0x505A, 0x4E00, 0x53E5, 0x7B80, 0x77ED, 0x6F84, 0x6E05, 0xFF0C, 0x4E0D, 0x8981, 0x76F4, 0x63A5, 0x5047, 0x8BBE, 0x5DF2, 0x7ECF, 0x5B8C,
       0x6210, 0x3002, 0x000A] @
       lit ''- '' @ [0x5DE5, 0x5177, 0x8FD4, 0x56DE, 0x7684, 0x662F, 0x7ED3, 0x6784, 0x5316, 0x7ED3, 0x679C, 0xFF0C, 0x4E0D, 0x8981, 0x628A, 0x5DE5, 0x5177, 0x540D,
       0x3001] @ lit ''JSON '' @
       [0x6216, 0x5185, 0x90E8, 0x5B57, 0x6BB5, 0x76F4, 0x63A5, 0x5FF5, 0x7ED9, 0x7528, 0x6237, 0xFF1B, 0x6700, 0x7EC8, 0x56DE, 0x590D, 0x5FC5, 0x987B,
       0x4ECD, 0x662F, 0x81EA, 0x7136, 0x8BED, 0x8A00, 0x3002])"

section \<open>Skills\<close>

datatype RuntimeSkill = HouseholdControlSkill

definition canonicalBuiltinSkillName :: "gostring \<Rightarrow> gostring" where
  "canonicalBuiltinSkillName name =
     (if ToLower (TrimSpace name) \<in> set [lit ''household_control'', lit ''household'', lit ''home'', lit ''home_control'']
      then lit ''household_control'' else [])"

definition newBuiltinRuntimeSkill :: "gostring \<Rightarrow> RuntimeSkill option" where
  "newBuiltinRuntimeSkill name = (if canonicalBuiltinSkillName name = lit ''household_control'' then Some HouseholdControlSkill else None)"

text \<open>A registry holds each skill once, under its name.\<close>

definition NewRuntimeSkillRegistry :: "gostring list \<Rightarrow> RuntimeSkill list" where
  "NewRuntimeSkillRegistry names = remdups (List.map_filter newBuiltinRuntimeSkill names)"

definition skillListTools :: "RuntimeSkill list \<Rightarrow> ToolDefinition list" where
  "skillListTools skills = concat (map (\<lambda>s. case s of HouseholdControlSkill \<Rightarrow> [householdControlToolDefinition]) skills)"

definition skillListPromptFragments :: "RuntimeSkill list \<Rightarrow> gostring list" where
  "skillListPromptFragments skills = concat (map (\<lambda>s. case s of HouseholdControlSkill \<Rightarrow> [householdControlSkillPrompt]) skills)"

fun skillInvokeTool :: "toolCodec \<Rightarrow> RuntimeSkill list \<Rightarrow> ToolCall \<Rightarrow> ToolResult option" where
  "skillInvokeTool codec [] call = None"
| "skillInvokeTool codec (HouseholdControlSkill # skills) call =
     (case householdInvokeTool codec call of Some result \<Rightarrow> Some result | None \<Rightarrow> skillInvokeTool codec skills call)"

section \<open>The backend\<close>

definition runtimeListTools :: "RuntimeSkill list \<Rightarrow> ToolRegistry" where
  "runtimeListTools skills request =
     (case builtinListTools request of Inl e \<Rightarrow> Inl e | Inr base \<Rightarrow> Inr (base @ skillListTools skills))"

definition runtimeInvokeTool :: "(gostring \<Rightarrow> gostring) \<Rightarrow> toolCodec \<Rightarrow> RuntimeSkill list \<Rightarrow> MemoryStore \<Rightarrow> ToolInvoker" where
  "runtimeInvokeTool quote codec skills store call =
     (if hasTool (tcToolName call) then builtinInvokeTool quote codec store call
      else case skillInvokeTool codec skills call of
        Some result \<Rightarrow> Inr result
      | None \<Rightarrow> Inr \<lparr>trsCallID = tcCallID call, trsToolName = TrimSpace (tcToolName call), trsToolStatus = lit ''unavailable'',
          trsToolOutput = cdEncode codec (errorJSON (lit ''tool '' @ TrimSpace (tcToolName call) @ lit '' is not available''))\<rparr>)"


section \<open>When the household skill asks back\<close>

lemma device_table_closed:
  "list_all (\<lambda>(a, c). map_of deviceTypeNames c = Some c \<and> TrimSpace c = c \<and> ToLower c = c \<and> c \<noteq> []) deviceTypeNames"
  by code_simp

lemma device_table_entry:
  assumes "map_of deviceTypeNames a = Some c"
  shows "map_of deviceTypeNames (ToLower c) = Some c \<and> TrimSpace c = c \<and> c \<noteq> []"
  using device_table_closed map_of_SomeD [OF assms] by (fastforce simp: list_all_iff)

lemma normalizedDeviceType_idem [simp]: "normalizedDeviceType (normalizedDeviceType d) = normalizedDeviceType d"
proof (cases "map_of deviceTypeNames (ToLower (TrimSpace d))")
  case None
  then show ?thesis by (simp add: normalizedDeviceType_def)
next
  case (Some c)
  then show ?thesis using device_table_entry [OF Some] by (simp add: normalizedDeviceType_def)
qed

lemma normalizedDeviceType_trimmed [simp]: "TrimSpace (normalizedDeviceType d) = normalizedDeviceType d"
  using device_table_entry by (simp add: normalizedDeviceType_def split: option.split)

lemma label_table: "list_all (\<lambda>(d, t). t \<noteq> []) deviceLabels"
  by code_simp

lemma householdDeviceLabel_nonempty: "normalizedDeviceType d \<noteq> [] \<Longrightarrow> householdDeviceLabel (normalizedDeviceType d) \<noteq> []"
  using label_table by (auto simp: householdDeviceLabel_def list_all_iff dest!: map_of_SomeD split: option.split)

lemma householdScope_empty [simp]: "householdScope r d = [] \<longleftrightarrow> TrimSpace r = [] \<and> normalizedDeviceType d = []"
  using householdDeviceLabel_nonempty by (auto simp: householdScope_def Let_def)

text \<open>A text that starts with a character of the answer is not blank.\<close>

lemma TrimSpace_Cons_nonblank: "\<not> is_space r \<Longrightarrow> TrimSpace (r # t) \<noteq> []"
  by (simp add: TrimSpace_eq_Nil)

lemma settingGoal_blank:
  "TrimSpace (settingGoal scope i) = [] \<longleftrightarrow> scope = [] \<and> hcMode i = [] \<and> firstNonEmpty [hcTarget i, hcValue i] = []"
  by (auto simp: settingGoal_def Let_def TrimSpace_Cons_nonblank is_space_def)

lemma sceneGoal_nonblank: "TrimSpace (sceneGoal i) \<noteq> []"
  by (simp add: sceneGoal_def Let_def TrimSpace_Cons_nonblank is_space_def)

definition switching_actions :: "gostring list" where
  "switching_actions = [lit ''on'', lit ''open'', lit ''off'', lit ''close'', lit ''increase'', lit ''decrease'']"

text \<open>Nothing in the input says what is to be done with what.\<close>

definition untargeted :: "householdControlToolInput \<Rightarrow> bool" where
  "untargeted i \<longleftrightarrow> hcQuery i = [] \<and> hcDeviceType i = [] \<and> hcSceneName i = [] \<and> hcRoomName i = [] \<and> hcMode i = []
     \<and> hcTarget i = [] \<and> hcValue i = []"

lemma normalizedDeviceType_Nil: "normalizedDeviceType [] = []"
  by code_simp

lemma goal_blank:
  assumes "i = trimmedHouseholdInput j"
  shows "TrimSpace (householdControlGoal i) = [] \<longleftrightarrow> untargeted i \<and> hcAction i \<notin> set switching_actions"
proof -
  have i: "TrimSpace (hcRoomName i) = hcRoomName i" "normalizedDeviceType (hcDeviceType i) = hcDeviceType i"
    "TrimSpace (hcTarget i) = hcTarget i" "TrimSpace (hcValue i) = hcValue i"
    by (simp_all add: assms trimmedHouseholdInput_def)
  have s: "lit ''scene'' \<noteq> []" "lit ''set'' \<notin> set switching_actions" "[] \<notin> set switching_actions" by code_simp+
  show ?thesis
    using i s sceneGoal_nonblank [of i]
    by (auto simp: householdControlGoal_def resolvedDeviceType_def untargeted_def Let_def settingGoal_blank TrimSpace_Cons_nonblank
        is_space_def switching_actions_def normalizedDeviceType_Nil)
qed

lemma household_handled:
  assumes "TrimSpace (tcToolName call) = lit ''home.control.simulate''" "HouseholdControlSkill \<in> set skills"
  shows "runtimeInvokeTool quote codec skills store call = Inr (the (householdInvokeTool codec call))"
proof -
  have "\<not> hasTool (tcToolName call)" unfolding hasTool_def assms(1) by code_simp
  moreover obtain result where "householdInvokeTool codec call = Some result"
    using assms(1)
    by (cases "parseHouseholdControlToolInput codec (tcToolInput call)") (simp_all add: householdInvokeTool_def)
  moreover obtain later where "skills = HouseholdControlSkill # later"
    using assms(2) by (cases skills) (auto intro: RuntimeSkill.exhaust)
  ultimately show ?thesis by (simp add: runtimeInvokeTool_def)
qed

lemma result_fields:
  "map_of (householdControlToolResult i) (lit ''requires_clarification'') =
     Some (JBool (isSensitiveHouseholdDomain (resolvedDeviceType i) \<or> TrimSpace (householdControlGoal i) = []))"
  by (simp add: householdControlToolResult_def Let_def lit_def)

lemma sensitive_resolved:
  "isSensitiveHouseholdDomain (resolvedDeviceType i) \<longleftrightarrow> isSensitiveHouseholdDomain (hcDeviceType i)"
proof -
  have "\<not> isSensitiveHouseholdDomain (lit ''scene'')" "\<not> isSensitiveHouseholdDomain []" by code_simp+
  then show ?thesis by (auto simp: resolvedDeviceType_def)
qed

section \<open>Properties\<close>

text \<open>
  when the household tool asks back. With the skill enabled, a call of the tool whose input decodes is answered as completed,
  under the id of the call, and the answer requires a clarification exactly when the device is a lock, a security or a gas device
  (under any of their spellings), or when the input names nothing at all: no query, device, scene, room, mode or value, and no action that
  switches, opens, closes, raises or lowers. So no other field of the input can talk the tool out of asking for a sensitive device, and
  a bare "turn on", which names no device, is passed on as clear.
\<close>
theorem household_clarification_exact:
  assumes "TrimSpace (tcToolName call) = lit ''home.control.simulate''" "HouseholdControlSkill \<in> set skills"
    and "TrimSpace (tcToolInput call) \<noteq> []" "TrimSpace (tcToolInput call) \<noteq> lit ''{}''"
    and "cdHousehold codec (TrimSpace (tcToolInput call)) = Inr j" "i = trimmedHouseholdInput j"
  shows "\<exists>fields. runtimeInvokeTool quote codec skills store call =
        Inr \<lparr>trsCallID = tcCallID call, trsToolName = tcToolName call, trsToolStatus = lit ''completed'',
             trsToolOutput = cdEncode codec (JObject fields)\<rparr> \<and>
      map_of fields (lit ''goal'') = Some (JString (householdControlGoal i)) \<and>
      map_of fields (lit ''requires_clarification'') = Some (JBool
        (hcDeviceType i \<in> {lit ''lock'', lit ''security'', lit ''gas''} \<or> untargeted i \<and> hcAction i \<notin> set switching_actions))"
proof (intro exI conjI)
  show "runtimeInvokeTool quote codec skills store call = Inr \<lparr>trsCallID = tcCallID call, trsToolName = tcToolName call,
      trsToolStatus = lit ''completed'', trsToolOutput = cdEncode codec (JObject (householdControlToolResult i))\<rparr>"
    using assms(3-6) unfolding household_handled [OF assms(1,2)]
    by (simp add: householdInvokeTool_def parseHouseholdControlToolInput_def assms(1) Let_def toolResultOf_def)
  show "map_of (householdControlToolResult i) (lit ''goal'') = Some (JString (householdControlGoal i))"
    by (simp add: householdControlToolResult_def Let_def lit_def)
  have "isSensitiveHouseholdDomain (hcDeviceType i) \<longleftrightarrow> hcDeviceType i \<in> {lit ''lock'', lit ''security'', lit ''gas''}"
    by (simp add: isSensitiveHouseholdDomain_def assms(6) trimmedHouseholdInput_def)
  then show "map_of (householdControlToolResult i) (lit ''requires_clarification'') = Some (JBool
      (hcDeviceType i \<in> {lit ''lock'', lit ''security'', lit ''gas''} \<or> untargeted i \<and> hcAction i \<notin> set switching_actions))"
    using goal_blank [OF assms(6)] by (simp add: result_fields sensitive_resolved)
qed

definition switchOnInput :: householdControlToolInput where
  "switchOnInput = emptyHouseholdInput\<lparr>hcAction := lit ''turn_on''\<rparr>"

definition sampleCodec :: toolCodec where
  "sampleCodec = \<lparr>cdEncode = (\<lambda>_. []), cdObject = (\<lambda>_. Inl []), cdHousehold = (\<lambda>_. Inr switchOnInput), cdNow = []\<rparr>"

definition sampleHouseholdCall :: ToolCall where
  "sampleHouseholdCall = \<lparr>tcCallID = lit ''c1'', tcSessionID = [], tcDeviceID = [], tcClientType = [],
     tcToolName = lit ''home.control.simulate'', tcToolInput = lit ''x''\<rparr>"

theorem household_clarification_exact_witness:
  "\<exists>fields. runtimeInvokeTool (\<lambda>x. x) sampleCodec [HouseholdControlSkill] NoopMemoryStore sampleHouseholdCall =
        Inr \<lparr>trsCallID = lit ''c1'', trsToolName = lit ''home.control.simulate'', trsToolStatus = lit ''completed'',
             trsToolOutput = cdEncode sampleCodec (JObject fields)\<rparr> \<and>
      map_of fields (lit ''goal'') = Some (JString [0x6253, 0x5F00]) \<and>
      map_of fields (lit ''requires_clarification'') = Some (JBool False)"
proof -
  have n: "TrimSpace (tcToolName sampleHouseholdCall) = lit ''home.control.simulate''" by code_simp
  have t: "TrimSpace (tcToolInput sampleHouseholdCall) = lit ''x''" "lit ''x'' \<noteq> []" "lit ''x'' \<noteq> lit ''{}''" by code_simp+
  have d: "cdHousehold sampleCodec (TrimSpace (tcToolInput sampleHouseholdCall)) = Inr switchOnInput" by (simp add: sampleCodec_def)
  have v: "householdControlGoal (trimmedHouseholdInput switchOnInput) = [0x6253, 0x5F00]"
    "hcDeviceType (trimmedHouseholdInput switchOnInput) \<notin> {lit ''lock'', lit ''security'', lit ''gas''}"
    "hcAction (trimmedHouseholdInput switchOnInput) \<in> set switching_actions" by code_simp+
  show ?thesis
    using household_clarification_exact [OF n _ _ _ d refl, of "[HouseholdControlSkill]" "\<lambda>x. x" NoopMemoryStore] t v
    by (simp add: sampleHouseholdCall_def)
qed

end
