(* ===== verification/Llm_Executor.thy ===== *)
theory Llm_Executor
  imports Agent_Prompts Agent_Tools "HOL-Library.List_Lexorder" "HOL-Library.Multiset"
begin

text \<open>
  The executor with a chat model (\<open>llm_executor.go\<close>): the names under which the model sees the tools, the work prepared while the user
  still speaks, the messages sent to the model, one step of the model, the tools it asks for and the loop over at most six steps. A model that
  completes answers a request; one that streams announces pieces of text first and stops with the error of the sink when the sink fails.
  The models, the tools and the providers of prompts are parameters, as are the clock and the tables of the runes.
\<close>

section \<open>Data\<close>

record ChatToolCall =
  ctcID :: gostring
  ctcName :: gostring
  ctcArguments :: gostring

record ModelMessage = ChatMessage +
  mmToolCallID :: gostring
  mmToolCalls :: "ChatToolCall list"

record ChatModelRequest =
  cmSessionID :: gostring
  cmDeviceID :: gostring
  cmClientType :: gostring
  cmUserText :: gostring
  cmSystemPrompt :: gostring
  cmMemoryContext :: MemoryContext
  cmMetadata :: metadata
  cmImages :: "ImageInput list"
  cmMessages :: "ModelMessage list"
  cmTools :: "ToolDefinition list"

record ChatModelResponse =
  crText :: gostring
  crFinishReason :: gostring
  crMessage :: ModelMessage

datatype ChatModel =
    CompletingModel "ChatModelRequest \<Rightarrow> gostring + ChatModelResponse"
  | StreamingModel "ChatModelRequest \<Rightarrow> gostring list \<times> (gostring + ChatModelResponse)"

record SkillPromptRequest =
  spSessionID :: gostring
  spDeviceID :: gostring
  spClientType :: gostring
  spUserText :: gostring
  spMetadata :: metadata

text \<open>
  \<open>leSkillPrompts\<close>: the registry as a \<open>SkillPromptProvider\<close>, if it is one. \<open>leBuiltinSections\<close> are the builtin sections. The sections of
  a prompt depend on the instant at which they are asked for, since one of them tells the model the time; it is their first argument.
\<close>

record LLMTurnExecutor =
  leToolRegistry :: ToolRegistry
  leToolInvoker :: ToolInvoker
  lePromptSections :: "int \<Rightarrow> PromptSectionProvider"
  leBuiltinSections :: "int \<Rightarrow> PromptSectionRequest \<Rightarrow> PromptSection list"
  leSkillPrompts :: "(SkillPromptRequest \<Rightarrow> gostring + gostring list) option"
  leModel :: "ChatModel option"
  leSystemPrompt :: gostring
  leAssistantName :: gostring
  lePersona :: gostring
  leExecutionMode :: gostring

definition plainMessage :: "gostring \<Rightarrow> gostring \<Rightarrow> ModelMessage" where
  "plainMessage role content = \<lparr>msgRole = role, msgContent = content, mmToolCallID = [], mmToolCalls = []\<rparr>"

definition remembered :: "ChatMessage \<Rightarrow> ModelMessage" where
  "remembered m = plainMessage (msgRole m) (msgContent m)"

section \<open>Names of tools\<close>

definition modelNameRune :: "rune \<Rightarrow> rune" where
  "modelNameRune r = (if (97 \<le> r \<and> r \<le> 122) \<or> (48 \<le> r \<and> r \<le> 57) \<or> r = 95 \<or> r = 45 then r else 95)"

definition makeModelToolName :: "gostring \<Rightarrow> gostring" where
  "makeModelToolName name =
     (let trimmed0 = TrimSpace (ToLower name); n = Trim (map modelNameRune trimmed0) [95, 45]
      in if trimmed0 = [] then [] else take 64 (if n = [] then lit ''tool'' else n))"

text \<open>The loop over the tools: \<open>used\<close> counts the names given so far.\<close>

fun buildModelTools ::
    "(gostring \<Rightarrow> nat) \<Rightarrow> (gostring \<rightharpoonup> gostring) \<Rightarrow> ToolDefinition list \<Rightarrow> ToolDefinition list \<times> (gostring \<rightharpoonup> gostring)" where
  "buildModelTools used aliases [] = ([], aliases)"
| "buildModelTools used aliases (tool # tools) =
     (let actualName = TrimSpace (tdefName tool); base = makeModelToolName actualName
      in if actualName = [] \<or> base = [] then buildModelTools used aliases tools
         else
           (let modelName = (if used base > 0 then base @ lit ''_'' @ Itoa (int (used base) + 1) else base);
                (modelTools, aliases') = buildModelTools (used(modelName := used modelName + 1)) (aliases(modelName \<mapsto> actualName)) tools
            in (tool\<lparr>tdefName := modelName\<rparr> # modelTools, aliases')))"

definition buildModelToolDefinitions :: "ToolDefinition list \<Rightarrow> ToolDefinition list \<times> (gostring \<rightharpoonup> gostring)" where
  "buildModelToolDefinitions = buildModelTools (\<lambda>_. 0) Map.empty"

definition actualName :: "(gostring \<rightharpoonup> gostring) \<Rightarrow> gostring \<Rightarrow> gostring" where
  "actualName aliases name =
     (let a = TrimSpace (case aliases (TrimSpace name) of None \<Rightarrow> [] | Some v \<Rightarrow> v) in if a \<noteq> [] then a else TrimSpace name)"

definition listModelTools :: "LLMTurnExecutor \<Rightarrow> TurnInput \<Rightarrow> ToolDefinition list \<times> (gostring \<rightharpoonup> gostring)" where
  "listModelTools e input =
     (case leToolRegistry e \<lparr>tcrSessionID = tiSessionID input, tcrDeviceID = tiDeviceID input, tcrClientType = tiClientType input\<rparr> of
        Inl err \<Rightarrow> ([], Map.empty)
      | Inr tools \<Rightarrow> buildModelToolDefinitions tools)"

section \<open>Messages\<close>

definition systemPrompt :: "LLMTurnExecutor \<Rightarrow> int \<Rightarrow> TurnInput \<Rightarrow> gostring" where
  "systemPrompt e now input =
     (let request = \<lparr>prSessionID = tiSessionID input, prDeviceID = tiDeviceID input, prClientType = tiClientType input,
            prUserText = tiUserText input, prMetadata = tiMetadata input, prTemplate = leSystemPrompt e,
            prAssistantName = leAssistantName e, prPersona = lePersona e, prExecutionMode = leExecutionMode e\<rparr>;
          sections = (case lePromptSections e now request of
              Inl err \<Rightarrow> leBuiltinSections e now request
            | Inr s \<Rightarrow> if s = [] then leBuiltinSections e now request else s);
          base = composePromptSections sections
      in case leSkillPrompts e of
           None \<Rightarrow> base
         | Some provider \<Rightarrow>
             (case provider \<lparr>spSessionID = tiSessionID input, spDeviceID = tiDeviceID input, spClientType = tiClientType input,
                spUserText = tiUserText input, spMetadata = tiMetadata input\<rparr> of
                Inl err \<Rightarrow> base
              | Inr fragments \<Rightarrow>
                  if fragments = [] then base
                  else TrimSpace (JoinStrings [10, 10] (TrimSpace base # filter (\<lambda>t. t \<noteq> []) (map TrimSpace fragments)))))"

definition followUpLines :: "playbackFollowUpIntent \<Rightarrow> gostring list" where
  "followUpLines intent = map lit (case intent of
       IntentContinue \<Rightarrow>
         [''- The user is asking to continue the previous spoken reply instead of starting over.'',
          ''- Treat the unheard tail as the canonical continuation whenever it is available.'',
          ''- Continue naturally from the unheard tail or resume anchor instead of restarting or fully re-summarizing the previous answer.'']
     | IntentRecallBoundary \<Rightarrow>
         [''- The user is asking what part of the previous spoken reply was actually reached.'',
          ''- Answer from the heard boundary first, then mention any unheard tail only if it helps the user resume.'']
     | IntentRecapTail \<Rightarrow>
         [''- The user is asking to repeat or clarify the previous unfinished spoken reply.'',
          ''- Prefer a concise recap of the unheard tail; avoid restarting the whole previous reply unless needed.'']
     | IntentNone \<Rightarrow> [])"

definition playbackFollowUpMessages :: "gostring \<Rightarrow> metadata \<Rightarrow> ModelMessage list" where
  "playbackFollowUpMessages userText m =
     (let c = parsePreviousPlaybackContext m; intent = detectPlaybackFollowUpIntent userText c;
          lines = [lit ''Runtime voice follow-up hint:''] @ followUpLines intent
            @ (if ppHeardText c \<noteq> [] then [lit ''- Heard boundary: '' @ ppHeardText c,
                 lit ''- Avoid repeating the heard boundary unless a tiny bridge is needed for coherence.''] else [])
            @ (if ppMissedText c \<noteq> [] then [lit ''- Unheard tail: '' @ ppMissedText c] else [])
            @ (if ppResumeAnchor c \<noteq> [] then [lit ''- Resume anchor: '' @ ppResumeAnchor c] else [])
            @ (if intent = IntentContinue \<and> ppMissedText c \<noteq> [] then [lit ''- Canonical continuation text: '' @ ppMissedText c] else [])
            @ (if ppResponseInterrupted c \<or> ppResponseTruncated c
               then [lit ''- The previous spoken reply was interrupted before full playback completion.''] else [])
            @ (if softRecoveryContext c then
                 [lit ''- The previous spoken reply reached playback completion, but the user likely talked over the remaining tail.'',
                  lit ''- Treat the unheard tail as recoverable spoken context even though the transport completed naturally.''] else [])
      in if intent = IntentNone then [] else [plainMessage (lit ''system'') (JoinStrings [10] lines)])"

definition fallbackSystemPrompt :: gostring where
  "fallbackSystemPrompt = composePromptSections
     [section_of ''persona'' (renderAgentPersonaPrompt [] [] (lit ''general_assistant'')),
      section_of ''runtime_output_contract'' defaultAgentRuntimeOutputContract,
      section_of ''execution_mode_policy'' (defaultAgentExecutionModePolicy (lit ''dry_run''))]"

definition initialChatMessages :: "gostring \<Rightarrow> MemoryContext \<Rightarrow> gostring \<Rightarrow> metadata \<Rightarrow> ModelMessage list" where
  "initialChatMessages prompt memory userText m =
     [plainMessage (lit ''system'') (if TrimSpace prompt = [] then fallbackSystemPrompt else TrimSpace prompt)]
     @ (if TrimSpace (ctxSummary memory) \<noteq> []
        then [plainMessage (lit ''system'') (lit ''Conversation memory:'' @ [10] @ TrimSpace (ctxSummary memory))] else [])
     @ map remembered (ctxRecentMessages memory)
     @ playbackFollowUpMessages userText m
     @ [plainMessage (lit ''user'') (TrimSpace userText)]"

section \<open>One step of the model\<close>

definition responseText :: "ChatModelResponse \<Rightarrow> gostring" where
  "responseText r = (if msgContent (crMessage r) \<noteq> [] then msgContent (crMessage r) else crText r)"

text \<open>The defaults of a response whose text was \<open>t\<close>.\<close>

definition filledResponse :: "gostring \<Rightarrow> gostring \<Rightarrow> ChatModelResponse \<Rightarrow> ChatModelResponse" where
  "filledResponse content textDefault r =
     (let m = crMessage r; m' = m\<lparr>msgRole := (if msgRole m = [] then lit ''assistant'' else msgRole m),
            msgContent := (if msgContent m = [] then content else msgContent m)\<rparr>
      in r\<lparr>crMessage := m', crText := (if crText r = [] then TrimSpace textDefault else crText r)\<rparr>)"

definition runModelStep ::
    "ChatModel \<Rightarrow> ChatModelRequest \<Rightarrow> TurnDeltaSink \<Rightarrow> gostring \<Rightarrow> (gostring + ChatModelResponse) \<times> TurnDelta list \<times> gostring" where
  "runModelStep model request sink outputText =
     (case model of
        StreamingModel stream \<Rightarrow>
          (let (texts0, answer) = stream request; texts = filter (\<lambda>t. t \<noteq> []) texts0
           in case emitTurnDeltas sink (map textTurnDelta texts) of
                (Some err, taken) \<Rightarrow> (Inl err, taken, outputText)
              | (None, taken) \<Rightarrow>
                  (case answer of
                     Inl err \<Rightarrow> (Inl err, taken, outputText)
                   | Inr r \<Rightarrow>
                       (let content = (if msgContent (crMessage r) = [] then concat texts else msgContent (crMessage r))
                        in (Inr (filledResponse content content r), taken, outputText @ concat texts))))
      | CompletingModel answerTo \<Rightarrow>
          (case answerTo request of
             Inl err \<Rightarrow> (Inl err, [], outputText)
           | Inr r \<Rightarrow>
               (let t = responseText r
                in if t = [] then (Inr (filledResponse t t r), [], outputText)
                   else case emitTurnDeltas sink [textTurnDelta t] of
                     (Some err, taken) \<Rightarrow> (Inl err, taken, outputText)
                   | (None, taken) \<Rightarrow> (Inr (filledResponse t t r), taken, outputText @ t))))"

definition normalizedAssistantMessage :: "ChatModelResponse \<Rightarrow> ModelMessage" where
  "normalizedAssistantMessage r =
     (let m = crMessage r
      in m\<lparr>msgRole := (if msgRole m = [] then lit ''assistant'' else msgRole m),
           msgContent := (if msgContent m = [] then responseText r else msgContent m)\<rparr>)"

definition normalizedToolArguments :: "gostring \<Rightarrow> gostring" where
  "normalizedToolArguments arguments = (if TrimSpace arguments = [] then lit ''{}'' else TrimSpace arguments)"

section \<open>Tools the model asks for\<close>

definition invokeTool :: "ToolInvoker \<Rightarrow> ToolCall \<Rightarrow> ToolResult" where
  "invokeTool invoker call =
     completeToolResult call (case invoker call of
        Inl err \<Rightarrow> \<lparr>trsCallID = tcCallID call, trsToolName = tcToolName call, trsToolStatus = lit ''failed'', trsToolOutput = err\<rparr>
      | Inr result \<Rightarrow> result)"

definition modelToolCall :: "TurnInput \<Rightarrow> (gostring \<rightharpoonup> gostring) \<Rightarrow> nat \<Rightarrow> ChatToolCall \<Rightarrow> ToolCall" where
  "modelToolCall input aliases idx toolCall =
     \<lparr>tcCallID = (if TrimSpace (ctcID toolCall) = [] then lit ''tool_call_'' @ Itoa (int idx + 1) else TrimSpace (ctcID toolCall)),
      tcSessionID = tiSessionID input, tcDeviceID = tiDeviceID input, tcClientType = tiClientType input,
      tcToolName = actualName aliases (ctcName toolCall), tcToolInput = normalizedToolArguments (ctcArguments toolCall)\<rparr>"

definition toolMessage :: "ToolResult \<Rightarrow> ModelMessage" where
  "toolMessage result = \<lparr>msgRole = lit ''tool'', msgContent = trsToolOutput result, mmToolCallID = trsCallID result, mmToolCalls = []\<rparr>"

text \<open>The loop over the calls of a message; \<open>idx\<close> counts them from zero.\<close>

fun executeToolCalls ::
    "ToolInvoker \<Rightarrow> TurnInput \<Rightarrow> (gostring \<rightharpoonup> gostring) \<Rightarrow> TurnDeltaSink \<Rightarrow> nat \<Rightarrow> ChatToolCall list
      \<Rightarrow> (gostring + ModelMessage list) \<times> TurnDelta list" where
  "executeToolCalls invoker input aliases sink idx [] = (Inr [], [])"
| "executeToolCalls invoker input aliases sink idx (toolCall # toolCalls) =
     (let call = modelToolCall input aliases idx toolCall
      in case emitTurnDeltas sink [toolCallDelta call] of
           (Some err, taken) \<Rightarrow> (Inl err, taken)
         | (None, taken) \<Rightarrow>
             (let result = invokeTool invoker call
              in case emitTurnDeltas sink [toolResultDelta result] of
                   (Some err, taken') \<Rightarrow> (Inl err, taken @ taken')
                 | (None, taken') \<Rightarrow>
                     (case executeToolCalls invoker input aliases sink (Suc idx) toolCalls of
                        (Inl err, later) \<Rightarrow> (Inl err, taken @ taken' @ later)
                      | (Inr messages, later) \<Rightarrow> (Inr (toolMessage result # messages), taken @ taken' @ later))))"

section \<open>The loop\<close>

definition defaultToolLoopMaxSteps :: nat where
  "defaultToolLoopMaxSteps = 6"

text \<open>\<open>request\<close> holds what stays the same over the steps; the messages grow.\<close>

fun modelLoop ::
    "nat \<Rightarrow> ChatModel \<Rightarrow> ToolInvoker \<Rightarrow> TurnInput \<Rightarrow> gostring \<Rightarrow> (gostring \<rightharpoonup> gostring) \<Rightarrow> ChatModelRequest \<Rightarrow> TurnDeltaSink
      \<Rightarrow> ModelMessage list \<Rightarrow> gostring \<Rightarrow> (gostring + TurnOutput) \<times> TurnDelta list" where
  "modelLoop 0 model invoker input trimmedText aliases request sink messages outputText =
     (Inl (lit ''chat model exceeded tool step budget''), [])"
| "modelLoop (Suc steps) model invoker input trimmedText aliases request sink messages outputText =
     (case runModelStep model (request\<lparr>cmMessages := messages\<rparr>) sink outputText of
        (Inl err, taken, outputText') \<Rightarrow> (Inl err, taken)
      | (Inr response, taken, outputText') \<Rightarrow>
          (let assistantMessage = normalizedAssistantMessage response
           in if mmToolCalls assistantMessage = [] then
                (if TrimSpace outputText' = [] then (Inl (lit ''chat model returned empty text''), taken)
                 else (Inr (turnOutputFromText trimmedText (TrimSpace outputText')), taken))
              else
                (case executeToolCalls invoker input aliases sink 0 (mmToolCalls assistantMessage) of
                   (Inl err, taken') \<Rightarrow> (Inl err, taken @ taken')
                 | (Inr toolMessages, taken') \<Rightarrow>
                     (let (r, later) = modelLoop steps model invoker input trimmedText aliases request sink
                            (messages @ [assistantMessage] @ toolMessages) outputText'
                      in (r, taken @ taken' @ later)))))"

section \<open>Prepared work\<close>

record llmPrewarmCandidate =
  pwSessionID :: gostring
  pwDeviceID :: gostring
  pwClientType :: gostring
  pwUserText :: gostring
  pwMetadataSig :: gostring
  pwPreparedAt :: int
  pwSystemPrompt :: gostring
  pwMemoryContext :: MemoryContext
  pwTools :: "ToolDefinition list"
  pwAliases :: "gostring \<rightharpoonup> gostring"

type_synonym llmPrewarmState = "gostring \<rightharpoonup> llmPrewarmCandidate"

definition llmPrewarmTTL :: int where
  "llmPrewarmTTL = 15 * Second"

text \<open>The entries of the metadata that count; two keys that are equal once trimmed may give the same entry twice.\<close>

definition signedKeys :: "metadata \<Rightarrow> gostring set" where
  "signedKeys m = {k \<in> dom m. TrimSpace k \<noteq> [] \<and> \<not> HasPrefix (TrimSpace k) (lit ''voice.preview.'') \<and> metadataText m k \<noteq> []}"

definition llmPrewarmMetadataSignature :: "metadata \<Rightarrow> gostring" where
  "llmPrewarmMetadataSignature m =
     JoinStrings (lit ''&'') (sorted_list_of_multiset
       (image_mset (\<lambda>k. TrimSpace k @ lit ''='' @ metadataText m k) (mset_set (signedKeys m))))"

definition storePrewarm :: "llmPrewarmCandidate \<Rightarrow> llmPrewarmState \<Rightarrow> llmPrewarmState" where
  "storePrewarm c s = (if TrimSpace (pwSessionID c) = [] then s else s(pwSessionID c \<mapsto> c))"

definition consumeMatch ::
    "int \<Rightarrow> TurnInput \<Rightarrow> gostring \<Rightarrow> metadata \<Rightarrow> llmPrewarmState \<Rightarrow> llmPrewarmCandidate option \<times> llmPrewarmState" where
  "consumeMatch now input trimmedText m s =
     (if TrimSpace (tiSessionID input) = [] then (None, s)
      else case s (tiSessionID input) of
        None \<Rightarrow> (None, s)
      | Some c \<Rightarrow>
          (let s' = s(tiSessionID input := None)
           in if now - pwPreparedAt c > llmPrewarmTTL then (None, s')
              else if TrimSpace (pwDeviceID c) \<noteq> TrimSpace (tiDeviceID input) \<or> TrimSpace (pwClientType c) \<noteq> TrimSpace (tiClientType input)
                \<or> TrimSpace (pwUserText c) \<noteq> TrimSpace trimmedText \<or> pwMetadataSig c \<noteq> llmPrewarmMetadataSignature m then (None, s')
              else (Some c, s')))"

definition PrewarmTurn ::
    "(gostring \<Rightarrow> gostring) \<Rightarrow> LLMTurnExecutor \<Rightarrow> int \<Rightarrow> TurnInput \<Rightarrow> MemoryStore \<Rightarrow> llmPrewarmState \<Rightarrow> llmPrewarmState" where
  "PrewarmTurn quote e now input store s =
     (let trimmedText = TrimSpace (tiUserText input); m = tiMetadata input; (tools, aliases) = listModelTools e input
      in if trimmedText = [] \<or> leModel e = None then s
         else storePrewarm
           \<lparr>pwSessionID = tiSessionID input, pwDeviceID = tiDeviceID input, pwClientType = tiClientType input, pwUserText = trimmedText,
            pwMetadataSig = llmPrewarmMetadataSignature m, pwPreparedAt = now, pwSystemPrompt = systemPrompt e now input,
            pwMemoryContext = storeLoadTurnContext quote (buildMemoryQuery input trimmedText m) store, pwTools = tools, pwAliases = aliases\<rparr> s)"

section \<open>Turns\<close>

text \<open>The readings of the clock within one call are one instant.\<close>

definition streamLLMOutput ::
    "(rune \<Rightarrow> bool) \<Rightarrow> LLMTurnExecutor \<Rightarrow> int \<Rightarrow> TurnInput \<Rightarrow> gostring \<Rightarrow> metadata \<Rightarrow> MemoryContext \<Rightarrow> llmPrewarmCandidate option
      \<Rightarrow> TurnDeltaSink \<Rightarrow> (gostring + TurnOutput) \<times> TurnDelta list" where
  "streamLLMOutput isAlnum e now input trimmedText m memoryContext prewarmed sink =
     (let delegate = streamBootstrapOutput isAlnum (leToolRegistry e) (leToolInvoker e) input trimmedText (Inr memoryContext) sink
      in case leModel e of
           None \<Rightarrow> delegate
         | Some model \<Rightarrow>
             (if trimmedText = [] \<or> parseBootstrapMemoryCommand trimmedText \<noteq> None \<or> parseBootstrapToolCommand trimmedText \<noteq> None then delegate
              else case deterministicPlaybackFollowUpText trimmedText m of
                Some followUpText \<Rightarrow> emitBootstrapTextOutput sink trimmedText followUpText
              | None \<Rightarrow>
                  (let prompt = (case prewarmed of Some c \<Rightarrow> pwSystemPrompt c | None \<Rightarrow> systemPrompt e now input);
                       memory = (case prewarmed of Some c \<Rightarrow> pwMemoryContext c | None \<Rightarrow> memoryContext);
                       (tools, aliases) = (case prewarmed of Some c \<Rightarrow> (pwTools c, pwAliases c) | None \<Rightarrow> listModelTools e input)
                   in modelLoop defaultToolLoopMaxSteps model (leToolInvoker e) input trimmedText aliases
                        \<lparr>cmSessionID = tiSessionID input, cmDeviceID = tiDeviceID input, cmClientType = tiClientType input,
                         cmUserText = trimmedText, cmSystemPrompt = prompt, cmMemoryContext = memory, cmMetadata = m,
                         cmImages = tiImages input, cmMessages = [], cmTools = tools\<rparr>
                        sink (initialChatMessages prompt memory trimmedText m) [])))"

definition LLMStreamTurn ::
    "(gostring \<Rightarrow> gostring) \<Rightarrow> (rune \<Rightarrow> bool) \<Rightarrow> LLMTurnExecutor \<Rightarrow> int \<Rightarrow> TurnInput \<Rightarrow> TurnDeltaSink \<Rightarrow> MemoryStore \<Rightarrow> llmPrewarmState
      \<Rightarrow> (gostring + TurnOutput) \<times> TurnDelta list \<times> MemoryStore \<times> llmPrewarmState" where
  "LLMStreamTurn quote isAlnum e now input sink store s =
     (let trimmedText = TrimSpace (tiUserText input); m = tiMetadata input; (prewarmed, s') = consumeMatch now input trimmedText m s;
          memory = (case prewarmed of Some c \<Rightarrow> pwMemoryContext c
            | None \<Rightarrow> storeLoadTurnContext quote (buildMemoryQuery input trimmedText m) store)
      in case streamLLMOutput isAlnum e now input trimmedText m memory prewarmed sink of
           (Inl err, taken) \<Rightarrow> (Inl err, taken, store, s')
         | (Inr out, taken) \<Rightarrow> (Inr out, taken,
             if shouldPersistTurn trimmedText then storeSaveTurn (BuildMemoryRecord input trimmedText (toText out) m) store else store, s'))"

definition LLMExecuteTurn ::
    "(gostring \<Rightarrow> gostring) \<Rightarrow> (rune \<Rightarrow> bool) \<Rightarrow> LLMTurnExecutor \<Rightarrow> int \<Rightarrow> TurnInput \<Rightarrow> MemoryStore \<Rightarrow> llmPrewarmState
      \<Rightarrow> (gostring + TurnOutput) \<times> MemoryStore \<times> llmPrewarmState" where
  "LLMExecuteTurn quote isAlnum e now input store s =
     (case LLMStreamTurn quote isAlnum e now input (\<lambda>_. None) store s of
        (Inl err, taken, rest) \<Rightarrow> (Inl err, rest)
      | (Inr out, taken, rest) \<Rightarrow> (Inr (out\<lparr>toDeltas := taken\<rparr>), rest))"


section \<open>What is announced\<close>

lemma announced_texts [simp]: "announced (map textTurnDelta ts) = concat ts"
  by (induction ts) simp_all

lemma runModelStep_announced:
  assumes "runModelStep model request sink t0 = (Inr response, taken, t1)"
  shows "t1 = t0 @ announced taken"
proof (cases model)
  case (CompletingModel f)
  then show ?thesis using assms emit_prefix [of sink]
    by (auto simp: runModelStep_def Let_def split: sum.splits if_splits prod.splits option.splits)
next
  case (StreamingModel f)
  obtain ts0 ans where f: "f request = (ts0, ans)" by fastforce
  let ?ts = "filter (\<lambda>t. t \<noteq> []) ts0"
  obtain r tk where tk: "emitTurnDeltas sink (map textTurnDelta ?ts) = (r, tk)" by fastforce
  have "r = None" "taken = tk" "t1 = t0 @ concat ?ts"
    using assms StreamingModel f tk by (auto simp: runModelStep_def Let_def split: sum.splits option.splits)
  then show ?thesis using emit_prefix [OF tk] by simp
qed

text \<open>The deltas of tools come in pairs, a call and its result, and say nothing.\<close>

fun tool_rounds :: "TurnDelta list \<Rightarrow> bool" where
  "tool_rounds [] \<longleftrightarrow> True"
| "tool_rounds [d] \<longleftrightarrow> False"
| "tool_rounds (c # r # ds) \<longleftrightarrow> tdKind c = TurnToolCallDelta \<and> tdKind r = TurnToolResultDelta \<and> tool_rounds ds"

definition tool_deltas :: "TurnDelta list \<Rightarrow> TurnDelta list" where
  "tool_deltas ds = filter (\<lambda>d. tdKind d \<noteq> TurnTextDelta) ds"

lemma tool_deltas_simps [simp]:
  "tool_deltas [] = []"
  "tool_deltas (d # ds) = (if tdKind d = TurnTextDelta then tool_deltas ds else d # tool_deltas ds)"
  "tool_deltas (ds @ es) = tool_deltas ds @ tool_deltas es"
  by (simp_all add: tool_deltas_def)

lemma tool_rounds_append: "tool_rounds ds \<Longrightarrow> tool_rounds es \<Longrightarrow> tool_rounds (ds @ es)"
  by (induction ds rule: tool_rounds.induct) simp_all

lemma executeToolCalls_shape:
  "executeToolCalls invoker input al sink idx calls = (Inr ms, taken) \<Longrightarrow>
     announced taken = [] \<and> tool_deltas taken = taken \<and> tool_rounds taken \<and> length taken = 2 * length calls \<and> length ms = length calls"
proof (induction calls arbitrary: idx ms taken)
  case (Cons c calls)
  let ?c = "toolCallDelta (modelToolCall input al idx c)" and ?r = "toolResultDelta (invokeTool invoker (modelToolCall input al idx c))"
  obtain ms' later where l: "executeToolCalls invoker input al sink (Suc idx) calls = (Inr ms', later)"
    and t: "taken = ?c # ?r # later" "length ms = Suc (length ms')"
    using Cons.prems by (auto simp: Let_def split: prod.splits option.splits sum.splits)
  show ?case using Cons.IH [OF l] by (simp add: t)
qed simp

lemma runModelStep_no_tools:
  assumes "runModelStep model request sink t0 = (r, taken, t1)"
  shows "tool_deltas taken = []"
proof -
  have *: "tool_deltas taken' = []" if "emitTurnDeltas sink (map textTurnDelta ts) = (x, taken')" for ts x taken'
    using emit_prefix [OF that] set_mono_prefix [of taken' "map textTurnDelta ts"]
    by (fastforce simp: tool_deltas_def filter_empty_conv)
  have **: "tool_deltas taken' = []" if "emitTurnDeltas sink [textTurnDelta t] = (x, taken')" for t x taken'
    using * [of "[t]"] that by simp
  show ?thesis using assms
    by (auto simp: runModelStep_def Let_def dest: * ** split: ChatModel.splits sum.splits if_splits prod.splits option.splits)
qed

lemma modelLoop_announced:
  assumes "modelLoop n model invoker input t al request sink ms t0 = (Inr out, taken)"
  shows "toText out = TrimSpace (t0 @ announced taken) \<and> toText out \<noteq> [] \<and> tool_rounds (tool_deltas taken)"
  using assms
proof (induction n arbitrary: ms t0 out taken)
  case (Suc n)
  obtain response tk t1 where s: "runModelStep model (request\<lparr>cmMessages := ms\<rparr>) sink t0 = (Inr response, tk, t1)"
    using Suc.prems by (auto split: prod.splits sum.splits)
  have t1: "t1 = t0 @ announced tk" using runModelStep_announced [OF s] .
  have tk: "tool_deltas tk = []" using runModelStep_no_tools [OF s] .
  let ?m = "normalizedAssistantMessage response"
  show ?case
  proof (cases "mmToolCalls ?m = []")
    case True
    then show ?thesis using Suc.prems s t1 tk by (auto simp: Let_def split: if_splits)
  next
    case False
    obtain tms tk' where x: "executeToolCalls invoker input al sink 0 (mmToolCalls ?m) = (Inr tms, tk')"
      using Suc.prems s False by (auto simp: Let_def split: prod.splits sum.splits)
    obtain later where l: "modelLoop n model invoker input t al request sink (ms @ [?m] @ tms) t1 = (Inr out, later)"
      and taken: "taken = tk @ tk' @ later"
      using Suc.prems s False x by (auto simp: Let_def split: prod.splits)
    show ?thesis using Suc.IH [OF l] executeToolCalls_shape [OF x] by (auto simp: taken t1 tk tool_rounds_append)
  qed
qed simp

section \<open>Names of tools and identities of calls\<close>

lemma buildModelTools_frame:
  assumes "n \<notin> set (map (\<lambda>t. makeModelToolName (TrimSpace (tdefName t))) tools)"
    "\<And>t. t \<in> set tools \<Longrightarrow> used (makeModelToolName (TrimSpace (tdefName t))) = 0"
    "distinct (map (\<lambda>t. makeModelToolName (TrimSpace (tdefName t))) tools)"
  shows "snd (buildModelTools used aliases tools) n = aliases n"
  using assms
proof (induction tools arbitrary: used aliases)
  case (Cons tool tools)
  let ?b = "makeModelToolName (TrimSpace (tdefName tool))"
  have u: "used ?b = 0" using Cons.prems(2) by simp
  have "snd (buildModelTools (used(?b := Suc 0)) (aliases(?b \<mapsto> TrimSpace (tdefName tool))) tools) n = (aliases(?b \<mapsto> TrimSpace (tdefName tool))) n"
    using Cons.prems by (intro Cons.IH) (fastforce simp: image_iff)+
  moreover have "snd (buildModelTools used aliases tools) n = aliases n"
    using Cons.prems by (intro Cons.IH) auto
  ultimately show ?case using Cons.prems(1) u by (auto simp: Let_def case_prod_beta)
qed simp

lemma buildModelTools_roundtrip:
  assumes "distinct (map (\<lambda>t. makeModelToolName (TrimSpace (tdefName t))) tools)"
    "\<And>t. t \<in> set tools \<Longrightarrow> used (makeModelToolName (TrimSpace (tdefName t))) = 0 \<and> TrimSpace (tdefName t) \<noteq> []
       \<and> makeModelToolName (TrimSpace (tdefName t)) \<noteq> []"
  shows "fst (buildModelTools used aliases tools) = map (\<lambda>t. t\<lparr>tdefName := makeModelToolName (TrimSpace (tdefName t))\<rparr>) tools \<and>
    (\<forall>t \<in> set tools. snd (buildModelTools used aliases tools) (makeModelToolName (TrimSpace (tdefName t))) = Some (TrimSpace (tdefName t)))"
  using assms
proof (induction tools arbitrary: used aliases)
  case (Cons tool tools)
  let ?b = "makeModelToolName (TrimSpace (tdefName tool))"
  let ?u = "used(?b := Suc 0)" and ?a = "aliases(?b \<mapsto> TrimSpace (tdefName tool))"
  have u: "used ?b = 0" "TrimSpace (tdefName tool) \<noteq> []" "?b \<noteq> []" using Cons.prems(2) by auto
  have rec: "buildModelTools used aliases (tool # tools) =
      (tool\<lparr>tdefName := ?b\<rparr> # fst (buildModelTools ?u ?a tools), snd (buildModelTools ?u ?a tools))"
    using u by (simp add: Let_def case_prod_beta)
  have ih: "fst (buildModelTools ?u ?a tools) = map (\<lambda>t. t\<lparr>tdefName := makeModelToolName (TrimSpace (tdefName t))\<rparr>) tools \<and>
    (\<forall>t \<in> set tools. snd (buildModelTools ?u ?a tools) (makeModelToolName (TrimSpace (tdefName t))) = Some (TrimSpace (tdefName t)))"
    using Cons.prems by (intro Cons.IH) (fastforce simp: image_iff)+
  have "snd (buildModelTools ?u ?a tools) ?b = ?a ?b"
    using Cons.prems by (intro buildModelTools_frame) (fastforce simp: image_iff)+
  then show ?case using ih unfolding rec by simp
qed simp

text \<open>Lower case letters, digits, underscore and hyphen.\<close>

definition legal_runes :: "rune set" where
  "legal_runes = {97..122} \<union> {48..57} \<union> {95, 45}"

lemma modelNameRune_legal: "modelNameRune r \<in> legal_runes"
  by (auto simp: modelNameRune_def legal_runes_def)

lemma set_Trim: "set (Trim t c) \<subseteq> set t"
  by (auto simp: Trim_def trim_right_def trim_left_def dest!: set_dropWhileD)

lemma makeModelToolName_legal: "set (makeModelToolName n) \<subseteq> legal_runes \<and> length (makeModelToolName n) \<le> 64"
proof -
  have t: "set (Trim (map modelNameRune t) c) \<subseteq> legal_runes" for t c
    using set_Trim modelNameRune_legal by fastforce
  have l: "set (lit ''tool'') \<subseteq> legal_runes" by (simp add: lit_def legal_runes_def)
  have *: "set (take 64 x) \<subseteq> legal_runes" if "set x \<subseteq> legal_runes" for x
    using that set_take_subset by (rule order_trans [rotated])
  show ?thesis by (simp add: makeModelToolName_def Let_def * t l)
qed

lemma TrimSpace_legal:
  assumes "set n \<subseteq> legal_runes"
  shows "TrimSpace n = n"
proof (rule trimmed_id)
  have "\<not> is_space r" if "r \<in> set n" for r using assms that by (auto simp: is_space_def legal_runes_def)
  then show "trimmed n" by (cases "n = []") (simp_all add: trimmed_def)
qed

lemma invokeTool_id: "invoker call = Inr r \<Longrightarrow> trsCallID r = tcCallID call \<Longrightarrow> trsCallID (invokeTool invoker call) = tcCallID call"
  by (simp add: invokeTool_def completeToolResult_def)

text \<open>The backend answers under the id of the call.\<close>

lemma runtime_echoes_id:
  "\<exists>r. runtimeInvokeTool quote codec skills store call = Inr r \<and> trsCallID r = tcCallID call"
proof -
  have h: "trsCallID r = tcCallID call" if "householdInvokeTool codec call = Some r" for r
    using that by (auto simp: householdInvokeTool_def toolResultOf_def split: if_splits sum.splits)
  have "trsCallID r = tcCallID call" if "skillInvokeTool codec skills call = Some r" for r
    using that
  proof (induction skills)
    case (Cons s skills)
    then show ?case by (cases s) (auto split: option.splits dest: h)
  qed simp
  moreover have "\<exists>r. builtinInvokeTool quote codec store call = Inr r \<and> trsCallID r = tcCallID call"
    by (auto simp: builtinInvokeTool_def invokeTimeNow_def invokeSessionDescribe_def invokeMemoryRecall_def toolResultOf_def Let_def
        split: sum.split)
  ultimately show ?thesis by (auto simp: runtimeInvokeTool_def split: option.split)
qed


section \<open>The previous answer in the prompt\<close>

lemma TrimSpace_around:
  assumes "x \<noteq> []" "trimmed x"
  shows "\<exists>u' v'. TrimSpace (u @ x @ v) = u' @ x @ v'"
proof -
  have h: "\<not> is_space (hd x)" "\<not> is_space (last x)" using assms by (auto simp: trimmed_def)
  have u: "trim_left is_space (u @ x @ v) = u' @ x @ v" if "u' = dropWhile is_space u" for u'
    using h(1) assms(1) that by (cases x) (auto simp: trim_left_def dropWhile_append)
  have "dropWhile is_space (rev v @ rev x @ rev u') = v' @ rev x @ rev u'" if "v' = dropWhile is_space (rev v)" for v' u'
    using h(2) assms(1) that by (cases x rule: rev_cases) (auto simp: dropWhile_append)
  then have "trim_right is_space (u' @ x @ v) = u' @ x @ rev (dropWhile is_space (rev v))" for u'
    by (simp add: trim_right_def)
  then show ?thesis using u by (auto simp: TrimSpace_def)
qed

lemma sublist_TrimSpace: "x \<noteq> [] \<Longrightarrow> trimmed x \<Longrightarrow> sublist x y \<Longrightarrow> sublist x (TrimSpace y)"
  using TrimSpace_around by (metis sublist_def)

lemma sublist_Join: "x \<in> set xs \<Longrightarrow> sublist x (JoinStrings sep xs)"
proof (induction sep xs rule: JoinStrings.induct)
  case (3 sep x1 y xs)
  show ?case
  proof (cases "x = x1")
    case True
    then show ?thesis by simp
  next
    case False
    then have "sublist x (JoinStrings sep (y # xs))" using 3 by simp
    then show ?thesis by (simp add: sublist_append)
  qed
qed simp_all

lemma sublist_compose:
  assumes "s \<in> set sections" "x \<noteq> []" "trimmed x" "sublist x (psContent s)"
  shows "sublist x (composePromptSections sections)"
proof -
  have "sublist x (TrimSpace (psContent s))" using assms(2-4) by (rule sublist_TrimSpace)
  moreover have "TrimSpace (psContent s) \<noteq> []" using calculation assms(2) by auto
  ultimately have "sublist x (JoinStrings [10, 10] (filter (\<lambda>t. t \<noteq> []) (map (\<lambda>s. TrimSpace (psContent s)) sections)))"
    using assms(1) by (intro sublist_order.order.trans [OF _ sublist_Join]) auto
  then show ?thesis unfolding composePromptSections_def using assms(2,3) by (intro sublist_TrimSpace)
qed

lemma parse_cong:
  assumes "\<And>k. HasPrefix k (lit ''voice.previous.'') \<Longrightarrow> m k = m' k"
  shows "parsePreviousPlaybackContext m = parsePreviousPlaybackContext m'"
  using assms by (simp add: parsePreviousPlaybackContext_def metadataFlag_def metadataText_def lit_def)

lemma context_line_in_prompt:
  assumes "a @ x \<in> set (playbackContextLines m)" "x \<noteq> []" "trimmed x" "c = parsePreviousPlaybackContext m"
    "ppAvailable c" "ppHeardText c \<noteq> [] \<or> ppMissedText c \<noteq> []"
  shows "sublist x (renderPreviousPlaybackContextPrompt m)"
proof -
  have "sublist x (a @ x)" by simp
  then have "sublist x (JoinStrings [10] (playbackContextLines m))"
    by (rule sublist_order.order.trans [OF _ sublist_Join [OF assms(1)]])
  then show ?thesis using assms(2-6) by (auto simp: renderPreviousPlaybackContextPrompt_def Let_def sublist_TrimSpace)
qed

lemma trimmed_playback_texts: "trimmed (ppMissedText (parsePreviousPlaybackContext m))" "trimmed (ppHeardText (parsePreviousPlaybackContext m))"
  by (simp_all add: parsePreviousPlaybackContext_def metadataText_def Let_def)

lemma playback_texts_in_prompt:
  assumes "c = parsePreviousPlaybackContext m" "ppAvailable c"
  shows "ppMissedText c \<noteq> [] \<Longrightarrow> sublist (ppMissedText c) (renderPreviousPlaybackContextPrompt m)"
    "ppHeardText c \<noteq> [] \<Longrightarrow> sublist (ppHeardText c) (renderPreviousPlaybackContextPrompt m)"
proof -
  assume x: "ppMissedText c \<noteq> []"
  have l: "(lit ''- '' @ [0x7528, 0x6237, 0x5927, 0x6982, 0x7387, 0x8FD8, 0x6CA1, 0x542C, 0x5230, 0x7684, 0x5269, 0x4F59, 0x90E8, 0x5206, 0xFF1A]) @ ppMissedText c \<in> set (playbackContextLines m)"
    using assms x by (simp add: playbackContextLines_def Let_def)
  show "sublist (ppMissedText c) (renderPreviousPlaybackContextPrompt m)"
    by (rule context_line_in_prompt [OF l]) (use assms x trimmed_playback_texts in auto)
next
  assume x: "ppHeardText c \<noteq> []"
  have l: "(lit ''- '' @ [0x7528, 0x6237, 0x5B9E, 0x9645, 0x5DF2, 0x7ECF, 0x542C, 0x5230, 0x7684, 0x5927, 0x81F4, 0x8FB9, 0x754C, 0xFF1A]) @ ppHeardText c \<in> set (playbackContextLines m)"
    using assms x by (simp add: playbackContextLines_def Let_def)
  show "sublist (ppHeardText c) (renderPreviousPlaybackContextPrompt m)"
    by (rule context_line_in_prompt [OF l]) (use assms x trimmed_playback_texts in auto)
qed

lemma sublist_systemPrompt:
  assumes "lePromptSections e = (\<lambda>t r. Inr (builtinListPromptSections (clock t) decode r))" "x \<noteq> []" "trimmed x"
    "sublist x (renderPreviousPlaybackContextPrompt (tiMetadata input))"
  shows "sublist x (systemPrompt e now input)"
proof -
  let ?r = "\<lparr>prSessionID = tiSessionID input, prDeviceID = tiDeviceID input, prClientType = tiClientType input,
            prUserText = tiUserText input, prMetadata = tiMetadata input, prTemplate = leSystemPrompt e,
            prAssistantName = leAssistantName e, prPersona = lePersona e, prExecutionMode = leExecutionMode e\<rparr>"
  let ?base = "composePromptSections (builtinListPromptSections (clock now) decode ?r)"
  have ne: "builtinListPromptSections (clock now) decode ?r \<noteq> []" by (simp add: builtinListPromptSections_def)
  have b: "sublist x ?base"
    using assms(2-4) by (intro sublist_compose [of "section_of ''voice_playback_context'' (renderPreviousPlaybackContextPrompt (tiMetadata input))"])
      (simp_all add: builtinListPromptSections_def section_of_def)
  have j: "sublist x (TrimSpace (JoinStrings [10, 10] (TrimSpace ?base # fs)))" for fs
    using assms(2,3) b by (intro sublist_TrimSpace sublist_order.order.trans [OF sublist_TrimSpace sublist_Join]) auto
  show ?thesis unfolding systemPrompt_def Let_def assms(1) using ne b j by (simp split: option.split sum.split)
qed

section \<open>Prepared turns\<close>

text \<open>What the preparation depends on.\<close>

definition same_turn :: "TurnInput \<Rightarrow> TurnInput \<Rightarrow> bool" where
  "same_turn i j \<longleftrightarrow> tiSessionID i = tiSessionID j \<and> tiDeviceID i = tiDeviceID j \<and> tiClientType i = tiClientType j
     \<and> tiUserText i = tiUserText j \<and> tiMetadata i = tiMetadata j"

lemma same_turn_context:
  assumes "same_turn i j"
  shows "systemPrompt e t0 i = systemPrompt e t0 j" "listModelTools e i = listModelTools e j" "buildMemoryQuery i t m = buildMemoryQuery j t m"
proof -
  have eqs: "tiSessionID i = tiSessionID j" "tiDeviceID i = tiDeviceID j" "tiClientType i = tiClientType j" "tiUserText i = tiUserText j"
    "tiMetadata i = tiMetadata j"
    using assms by (simp_all add: same_turn_def)
  show "systemPrompt e t0 i = systemPrompt e t0 j" unfolding systemPrompt_def eqs by (rule refl)
  show "listModelTools e i = listModelTools e j" unfolding listModelTools_def eqs by (rule refl)
  show "buildMemoryQuery i t m = buildMemoryQuery j t m" unfolding buildMemoryQuery_def eqs by (rule refl)
qed

definition preparedCandidate :: "(gostring \<Rightarrow> gostring) \<Rightarrow> LLMTurnExecutor \<Rightarrow> int \<Rightarrow> TurnInput \<Rightarrow> MemoryStore \<Rightarrow> llmPrewarmCandidate" where
  "preparedCandidate quote e now input store =
     \<lparr>pwSessionID = tiSessionID input, pwDeviceID = tiDeviceID input, pwClientType = tiClientType input,
      pwUserText = TrimSpace (tiUserText input), pwMetadataSig = llmPrewarmMetadataSignature (tiMetadata input), pwPreparedAt = now,
      pwSystemPrompt = systemPrompt e now input,
      pwMemoryContext = storeLoadTurnContext quote (buildMemoryQuery input (TrimSpace (tiUserText input)) (tiMetadata input)) store,
      pwTools = fst (listModelTools e input), pwAliases = snd (listModelTools e input)\<rparr>"

lemma PrewarmTurn_stores:
  assumes "TrimSpace (tiUserText input) \<noteq> []" "leModel e \<noteq> None" "TrimSpace (tiSessionID input) \<noteq> []"
  shows "PrewarmTurn quote e t input store s = s(tiSessionID input \<mapsto> preparedCandidate quote e t input store)"
  using assms by (auto simp: PrewarmTurn_def storePrewarm_def preparedCandidate_def case_prod_beta Let_def)

lemma consume_prepared:
  assumes "same_turn input j" "TrimSpace (tiSessionID input) \<noteq> []" "now - t \<le> llmPrewarmTTL"
  shows "consumeMatch now j (TrimSpace (tiUserText j)) (tiMetadata j) (s(tiSessionID input \<mapsto> preparedCandidate quote e t input store)) =
    (Some (preparedCandidate quote e t input store), s(tiSessionID input := None))"
  using assms by (simp add: consumeMatch_def same_turn_def preparedCandidate_def Let_def)

text \<open>The executor as it is at one instant: its prompts always tell that time.\<close>

definition clockStopped :: "int \<Rightarrow> LLMTurnExecutor \<Rightarrow> LLMTurnExecutor" where
  "clockStopped t e = e\<lparr>lePromptSections := (\<lambda>_. lePromptSections e t), leBuiltinSections := (\<lambda>_. leBuiltinSections e t)\<rparr>"

lemma clockStopped_simps [simp]:
  "leToolRegistry (clockStopped t e) = leToolRegistry e" "leToolInvoker (clockStopped t e) = leToolInvoker e"
  "leModel (clockStopped t e) = leModel e" "systemPrompt (clockStopped t e) now i = systemPrompt e t i"
  "listModelTools (clockStopped t e) i = listModelTools e i"
  by (simp_all add: clockStopped_def systemPrompt_def listModelTools_def Let_def cong: sum.case_cong if_cong)

lemma streamLLM_prepared:
  assumes "same_turn input j" "t = TrimSpace (tiUserText j)" "m = tiMetadata j"
    "memory = storeLoadTurnContext quote (buildMemoryQuery j t m) store"
  shows "streamLLMOutput al e now j t m memory (Some (preparedCandidate quote e t0 input store)) sink =
    streamLLMOutput al (clockStopped t0 e) now j t m memory None sink"
proof -
  let ?c = "preparedCandidate quote e t0 input store"
  have eqs: "pwSystemPrompt ?c = systemPrompt e t0 j" "(pwTools ?c, pwAliases ?c) = listModelTools e j" "pwMemoryContext ?c = memory"
    using assms same_turn_context [OF assms(1)] by (simp_all add: preparedCandidate_def same_turn_def)
  show ?thesis unfolding streamLLMOutput_def option.case eqs clockStopped_simps by (rule refl)
qed

lemma streamLLM_same_prompt:
  assumes "systemPrompt e t0 j = systemPrompt e now j"
  shows "streamLLMOutput al (clockStopped t0 e) now j t m memory None sink = streamLLMOutput al e now j t m memory None sink"
  unfolding streamLLMOutput_def option.case clockStopped_simps assms by (rule refl)

section \<open>Properties\<close>


definition sampleTurnInput :: "gostring \<Rightarrow> metadata \<Rightarrow> TurnInput" where
  "sampleTurnInput t m = \<lparr>tiSessionID = lit ''s1'', tiTurnID = lit ''t1'', tiTraceID = [], tiDeviceID = lit ''d1'', tiClientType = [], tiUserText = t,
     tiAudio = \<lparr>audPresent = False, audFrames = 0, audBytes = 0, audCodec = [], audSampleRateHz = 0, audChannels = 0\<rparr>,
     tiImages = [], tiMetadata = m\<rparr>"

text \<open>A model that answers every request with the number of messages it was sent.\<close>

definition countingModel :: ChatModel where
  "countingModel = CompletingModel (\<lambda>request. Inr \<lparr>crText = Itoa (int (length (cmMessages request))), crFinishReason = [],
     crMessage = plainMessage [] []\<rparr>)"

definition sampleExecutor :: LLMTurnExecutor where
  "sampleExecutor = \<lparr>leToolRegistry = runtimeListTools [HouseholdControlSkill], leToolInvoker = NoopInvokeTool,
     lePromptSections = (\<lambda>_ _. Inr []), leBuiltinSections = (\<lambda>now. builtinListPromptSections (Itoa now) (\<lambda>_. None)), leSkillPrompts = None,
     leModel = Some countingModel, leSystemPrompt = [], leAssistantName = [], lePersona = [], leExecutionMode = []\<rparr>"


text \<open>
  C11: what a turn says is what it announced and what is remembered. However the model streams its text, however often it calls tools
  in between and whenever the sink fails: a turn that succeeds returns the text of the announced deltas, up to surrounding blanks, and
  saves exactly this text as the answer unless the input was a command; a turn that fails leaves the memory as it was.
\<close>
theorem answer_is_what_was_announced:
  "case LLMStreamTurn quote al e now input sink store s of
     (Inl err, taken, store', s') \<Rightarrow> store' = store
   | (Inr out, taken, store', s') \<Rightarrow>
       TrimSpace (announced taken) = TrimSpace (toText out) \<and>
       store' = (if shouldPersistTurn (TrimSpace (tiUserText input))
         then storeSaveTurn (BuildMemoryRecord input (TrimSpace (tiUserText input)) (toText out) (tiMetadata input)) store else store)"
proof -
  have *: "TrimSpace (announced taken) = TrimSpace (toText out)"
    if "streamLLMOutput al e now input t m memory c sink = (Inr out, taken)" for t m memory c out taken
    using that
    by (auto simp: streamLLMOutput_def Let_def emitBootstrapTextOutput_def case_prod_beta dest!: modelLoop_announced streamBootstrapOutput_announced outputAfter_ok
        split: option.splits if_splits)
  show ?thesis
    by (auto simp: LLMStreamTurn_def Let_def dest!: * split: prod.split sum.split)
qed

lemma makeModelToolName_nonempty:
  assumes "TrimSpace x \<noteq> []"
  shows "makeModelToolName (TrimSpace x) \<noteq> []"
proof -
  have "is_space (to_lower r) \<longleftrightarrow> is_space r" for r by (auto simp: to_lower_def is_space_def)
  then have "TrimSpace (ToLower (TrimSpace x)) \<noteq> []"
    using assms TrimSpace_nonempty_no_space [of "TrimSpace x"] by (auto simp: TrimSpace_eq_Nil)
  moreover have "lit ''tool'' \<noteq> []" by (simp add: lit_def)
  ultimately show ?thesis by (simp add: makeModelToolName_def Let_def)
qed

text \<open>
  the names the model sees lead back to the tools. When the tools have pairwise different model names, every tool is offered under a name
  of at most 64 lower case letters, digits, underscores and hyphens, and a call by the model under this name, in any surrounding blanks,
  reaches exactly that tool.
\<close>
theorem tool_names_roundtrip:
  assumes "distinct (map (\<lambda>t. makeModelToolName (TrimSpace (tdefName t))) tools)"
    and "\<And>t. t \<in> set tools \<Longrightarrow> TrimSpace (tdefName t) \<noteq> []"
    and "buildModelToolDefinitions tools = (modelTools, aliases)"
  shows "length modelTools = length tools \<and>
    (\<forall>i < length tools. set (tdefName (modelTools ! i)) \<subseteq> legal_runes \<and> length (tdefName (modelTools ! i)) \<le> 64 \<and>
      (\<forall>n. TrimSpace n = tdefName (modelTools ! i) \<longrightarrow> actualName aliases n = TrimSpace (tdefName (tools ! i))))"
proof -
  let ?n = "\<lambda>t. makeModelToolName (TrimSpace (tdefName t))"
  have b: "fst (buildModelTools (\<lambda>_. 0) Map.empty tools) = map (\<lambda>t. t\<lparr>tdefName := ?n t\<rparr>) tools \<and>
    (\<forall>t \<in> set tools. snd (buildModelTools (\<lambda>_. 0) Map.empty tools) (?n t) = Some (TrimSpace (tdefName t)))"
    using assms(1,2) makeModelToolName_nonempty by (intro buildModelTools_roundtrip) auto
  have m: "modelTools = map (\<lambda>t. t\<lparr>tdefName := ?n t\<rparr>) tools" using assms(3) b by (simp add: buildModelToolDefinitions_def)
  have a: "aliases (?n (tools ! i)) = Some (TrimSpace (tdefName (tools ! i)))" if "i < length tools" for i
    using that assms(3) b nth_mem by (fastforce simp: buildModelToolDefinitions_def)
  show ?thesis using m a makeModelToolName_legal assms(2) by (auto simp: actualName_def)
qed

definition sampleTools :: "ToolDefinition list" where
  "sampleTools = (case runtimeListTools [HouseholdControlSkill] \<lparr>tcrSessionID = [], tcrDeviceID = [], tcrClientType = []\<rparr> of
     Inl _ \<Rightarrow> [] | Inr tools \<Rightarrow> tools)"

theorem tool_names_roundtrip_witness:
  "actualName (snd (buildModelToolDefinitions sampleTools)) (lit '' home_control_simulate'') = lit ''home.control.simulate''"
proof -
  have d: "distinct (map (\<lambda>t. makeModelToolName (TrimSpace (tdefName t))) sampleTools)" by code_simp
  have "list_all (\<lambda>t. TrimSpace (tdefName t) \<noteq> []) sampleTools" by code_simp
  then have n: "TrimSpace (tdefName t) \<noteq> []" if "t \<in> set sampleTools" for t using that by (simp add: list_all_iff)
  have l: "length sampleTools = 4" "TrimSpace (tdefName (sampleTools ! 3)) = lit ''home.control.simulate''"
    "TrimSpace (lit '' home_control_simulate'') = tdefName (fst (buildModelToolDefinitions sampleTools) ! 3)" by code_simp+
  obtain modelTools aliases where b: "buildModelToolDefinitions sampleTools = (modelTools, aliases)" by fastforce
  have "\<forall>n. TrimSpace n = tdefName (modelTools ! 3) \<longrightarrow> actualName aliases n = TrimSpace (tdefName (sampleTools ! 3))"
    using tool_names_roundtrip [OF d n b] l(1) by simp
  then show ?thesis using l unfolding b by simp
qed

text \<open>With a third tool of the same model name the second one is lost: both are offered as \<open>a_b_2\<close>.\<close>

lemma tool_name_collision:
  "let named = (\<lambda>n. \<lparr>tdefName = lit n, tdefDescription = [], tdefParameters = [], tdefStrict = False\<rparr>);
       (modelTools, aliases) = buildModelToolDefinitions [named ''a.b'', named ''a b'', named ''a/b'']
   in map tdefName modelTools = [lit ''a_b'', lit ''a_b_2'', lit ''a_b_2''] \<and> actualName aliases (lit ''a_b_2'') = lit ''a/b''"
  by code_simp

text \<open>
  C10: "continue" continues. In every reachable orchestrator whose last answer was not heard to its end, a turn that carries the recorded facts
  about this answer and whose text amounts to one of the words for going on is answered by the executor, whatever the model, the tools, the
  memory and the prepared work: the answer is announced as one delta and is exactly the part that was missed, so that what the user heard before and
  hears now is the delivered text, up to blanks.
\<close>
theorem continue_resumes_missed_text:
  assumes "o1 = fold orchestrator_step calls (NewSessionOrchestrator ms)"
    and "LastPlaybackOutcome o1 = Some po" "TrimSpace (poMissedText po) \<noteq> []"
    and "\<And>k. HasPrefix k (lit ''voice.previous.'') \<Longrightarrow> tiMetadata input k = LastPlaybackContextMetadata o1 k"
    and "isPlaybackContinueIntent (normalizePlaybackFollowUpText (TrimSpace (tiUserText input)))"
  shows "\<exists>out store' s'. LLMStreamTurn quote al e now input (\<lambda>_. None) store s = (Inr out, [textTurnDelta (toText out)], store', s') \<and>
    toText out = TrimSpace (poMissedText po) \<and> squeeze (poHeardText po) @ squeeze (toText out) = squeeze (poDeliveredText po)"
proof -
  let ?t = "TrimSpace (tiUserText input)" and ?m = "tiMetadata input"
  have o: "outcome_ok po" "LastPlaybackContextMetadata o1 = playbackOutcomeContextMetadata po"
    using orchestrator_inv_run [OF orchestrator_inv_New, of calls ms] assms(1,2)
    by (auto simp: orchestrator_inv_def LastPlaybackOutcome_def LastPlaybackContextMetadata_def)
  have "parsePreviousPlaybackContext ?m = parsePreviousPlaybackContext (playbackOutcomeContextMetadata po)"
    using assms(4) unfolding o(2) by (rule parse_cong)
  then have r: "deterministicPlaybackFollowUpText ?t ?m = Some (TrimSpace (poMissedText po))"
    using continue_reply [OF assms(5,3)] by (simp add: deterministicPlaybackFollowUpText_def)
  have "streamLLMOutput al e now input ?t ?m memory c (\<lambda>_. None) =
      (Inr (turnOutputFromText ?t (TrimSpace (poMissedText po))), [textTurnDelta (TrimSpace (poMissedText po))])" for memory c
    using follow_up_is_no_command [OF assms(5)] r
    by (auto simp: streamLLMOutput_def streamBootstrapOutput_def emitBootstrapTextOutput_def Let_def split: option.split)
  then show ?thesis using o(1) by (simp add: LLMStreamTurn_def outcome_ok_def Let_def case_prod_beta)
qed

definition interruptedCalls :: "orchestrator_call list" where
  "interruptedCalls = [CallPrepareTurn sampleRequest (lit ''hi'') (lit ''hello there''), CallStartPlayback (lit ''hello there'') 20000000 0 False,
     CallInterrupt PolicyHardInterrupt []]"

theorem continue_resumes_missed_text_witness:
  "\<exists>out store' s'. LLMStreamTurn (\<lambda>x. x) (\<lambda>_. False) sampleExecutor 0
       (sampleTurnInput (lit '' Go on! '') (LastPlaybackContextMetadata (fold orchestrator_step interruptedCalls (NewSessionOrchestrator None))))
       (\<lambda>_. None) NoopMemoryStore Map.empty = (Inr out, [textTurnDelta (toText out)], store', s') \<and> toText out = lit ''hello there''"
proof -
  let ?o = "fold orchestrator_step interruptedCalls (NewSessionOrchestrator None)"
  have "map_option poMissedText (LastPlaybackOutcome ?o) = Some (lit ''hello there'')" by code_simp
  then obtain po where po: "LastPlaybackOutcome ?o = Some po" "poMissedText po = lit ''hello there''" by auto
  have t: "TrimSpace (lit ''hello there'') = lit ''hello there''" "lit ''hello there'' \<noteq> []"
    "isPlaybackContinueIntent (normalizePlaybackFollowUpText (TrimSpace (lit '' Go on! '')))" by code_simp+
  show ?thesis
    using continue_resumes_missed_text [OF refl po(1), of "sampleTurnInput (lit '' Go on! '') (LastPlaybackContextMetadata ?o)"
        "\<lambda>x. x" "\<lambda>_. False" sampleExecutor 0 NoopMemoryStore Map.empty] po t
    by (auto simp: sampleTurnInput_def)
qed

text \<open>
  C31: the model is told what was heard and what was missed. In every reachable orchestrator whose last answer left a rest unheard, and for every
  turn that carries the recorded facts, the first message of the conversation is a system message that contains the missed rest and, if anything
  was heard, the heard text, word for word, under every persona, template, execution mode, skill and memory.
\<close>
theorem model_told_what_was_missed:
  assumes "o1 = fold orchestrator_step calls (NewSessionOrchestrator ms)"
    and "LastPlaybackOutcome o1 = Some po" "TrimSpace (poMissedText po) \<noteq> []"
    and "\<And>k. HasPrefix k (lit ''voice.previous.'') \<Longrightarrow> tiMetadata input k = LastPlaybackContextMetadata o1 k"
    and "lePromptSections e = (\<lambda>t r. Inr (builtinListPromptSections (clock t) decode r))"
  shows "\<exists>m ms. initialChatMessages (systemPrompt e now input) memory t (tiMetadata input) = m # ms \<and> msgRole m = lit ''system'' \<and>
    Contains (msgContent m) (TrimSpace (poMissedText po)) \<and>
    (TrimSpace (poHeardText po) \<noteq> [] \<longrightarrow> Contains (msgContent m) (TrimSpace (poHeardText po)))"
proof -
  let ?m = "tiMetadata input" and ?p = "systemPrompt e now input"
  have o: "LastPlaybackContextMetadata o1 = playbackOutcomeContextMetadata po"
    using assms(2) by (simp add: LastPlaybackOutcome_def LastPlaybackContextMetadata_def)
  have c: "parsePreviousPlaybackContext ?m = parsePreviousPlaybackContext (playbackOutcomeContextMetadata po)"
    using assms(4) unfolding o by (rule parse_cong)
  have p: "ppAvailable (parsePreviousPlaybackContext ?m)" "ppMissedText (parsePreviousPlaybackContext ?m) = TrimSpace (poMissedText po)"
    "ppHeardText (parsePreviousPlaybackContext ?m) = TrimSpace (poHeardText po)"
    unfolding c by (simp_all add: playback_context_roundtrip)
  have s: "sublist x ?p" if "x \<noteq> []" "trimmed x" "sublist x (renderPreviousPlaybackContextPrompt ?m)" for x
    using assms(5) that by (rule sublist_systemPrompt)
  have missed: "sublist (TrimSpace (poMissedText po)) ?p"
    using playback_texts_in_prompt(1) [OF refl p(1)] assms(3) by (intro s) (simp_all add: p)
  then have ne: "TrimSpace ?p \<noteq> []"
    using sublist_TrimSpace [OF assms(3)] assms(3) by (metis sublist_Nil_right trimmed_TrimSpace)
  have heard: "sublist (TrimSpace (poHeardText po)) ?p" if "TrimSpace (poHeardText po) \<noteq> []"
    using playback_texts_in_prompt(2) [OF refl p(1)] that by (intro s) (simp_all add: p)
  show ?thesis using missed heard ne assms(3) sublist_TrimSpace
    by (auto simp: initialChatMessages_def plainMessage_def)
qed

theorem model_told_what_was_missed_witness:
  "\<exists>m ms. initialChatMessages (systemPrompt (sampleExecutor\<lparr>lePromptSections := (\<lambda>t r. Inr (builtinListPromptSections (Itoa t) (\<lambda>_. None) r))\<rparr>) 7
       (sampleTurnInput (lit ''what?'') (LastPlaybackContextMetadata (fold orchestrator_step interruptedCalls (NewSessionOrchestrator None)))))
       emptyContext (lit ''what?'')
       (LastPlaybackContextMetadata (fold orchestrator_step interruptedCalls (NewSessionOrchestrator None))) = m # ms \<and>
     Contains (msgContent m) (lit ''hello there'')"
proof -
  let ?o = "fold orchestrator_step interruptedCalls (NewSessionOrchestrator None)"
  let ?e = "sampleExecutor\<lparr>lePromptSections := (\<lambda>t r. Inr (builtinListPromptSections (Itoa t) (\<lambda>_. None) r))\<rparr>"
  have "map_option poMissedText (LastPlaybackOutcome ?o) = Some (lit ''hello there'')" by code_simp
  then obtain po where po: "LastPlaybackOutcome ?o = Some po" "poMissedText po = lit ''hello there''" by auto
  have t: "TrimSpace (lit ''hello there'') = lit ''hello there''" "lit ''hello there'' \<noteq> []" by code_simp+
  have "tiMetadata (sampleTurnInput x m) = m" for x m by (simp add: sampleTurnInput_def)
  then show ?thesis
    using model_told_what_was_missed [OF refl po(1), of "sampleTurnInput (lit ''what?'') (LastPlaybackContextMetadata ?o)" ?e Itoa "\<lambda>_. None"
        7 emptyContext "lit ''what?''"] po t
    by auto
qed

text \<open>The id under which the call at a position is answered.\<close>

definition answeredID :: "nat \<Rightarrow> ChatToolCall \<Rightarrow> gostring" where
  "answeredID i c = (if TrimSpace (ctcID c) = [] then lit ''tool_call_'' @ Itoa (int i + 1) else TrimSpace (ctcID c))"



text \<open>A call without an id is answered under an id that the message with the call does not carry.\<close>

lemma blank_call_id_unanswered:
  "tcCallID (modelToolCall input aliases idx \<lparr>ctcID = [], ctcName = n, ctcArguments = a\<rparr>) = lit ''tool_call_'' @ Itoa (int idx + 1) \<and>
   lit ''tool_call_'' @ Itoa (int idx + 1) \<noteq> []"
  by (simp add: modelToolCall_def lit_def)

end
