(* ===== verification/Channel_Bridge.thy ===== *)
theory Channel_Bridge
  imports Llm_Executor
begin

text \<open>
  The bridge from message channels to the agent (\<open>internal/channel\<close>): \<open>contracts.go\<close> and \<open>runtime_bridge.go\<close>. An adapter normalises an
  incoming message and delivers an answer; it is a record of functions. The executor of turns works on a state of its own, such as the memory. What the
  bridge does to the outside, deliveries and reports, is returned in order.
\<close>

section \<open>Data\<close>

record Attachment =
  atName :: gostring
  atURL :: gostring
  atMIME :: gostring

record InboundMessage =
  ibChannel :: gostring
  ibMessageID :: gostring
  ibUserID :: gostring
  ibThreadID :: gostring
  ibText :: gostring
  ibSessionID :: gostring
  ibRetryAttempt :: int
  ibIdempotencyKey :: gostring
  ibFiles :: "Attachment list"
  ibMetadata :: metadata

record NormalizedInput =
  niSessionKey :: gostring
  niThreadKey :: gostring
  niMessageKey :: gostring
  niUserText :: gostring
  niAttachments :: "Attachment list"
  niMetadata :: metadata

record OutboundMessage =
  obChannel :: gostring
  obThreadID :: gostring
  obSessionID :: gostring
  obInReplyTo :: gostring
  obIdempotencyKey :: gostring
  obText :: gostring
  obMetadata :: metadata

record Adapter =
  adName :: gostring
  adNormalize :: "InboundMessage \<Rightarrow> gostring + NormalizedInput"
  adDeliver :: "OutboundMessage \<Rightarrow> gostring option"

text \<open>\<open>StateUnreported\<close> is the empty state of a status before it is set.\<close>

datatype DeliveryState = StateUnreported | DeliveryStateDelivered | DeliveryStateSkipped | DeliveryStateFailed

record DeliveryStatus =
  dsAdapterName :: gostring
  dsChannel :: gostring
  dsSessionID :: gostring
  dsThreadID :: gostring
  dsMessageID :: gostring
  dsTurnID :: gostring
  dsTraceID :: gostring
  dsAttempt :: int
  dsIdempotencyKey :: gostring
  dsState :: DeliveryState
  dsFailureStage :: gostring
  dsError :: gostring

record RuntimeHandoff =
  rhAdapterName :: gostring
  rhInbound :: "InboundMessage option"
  rhNormalized :: "NormalizedInput option"
  rhTurnInput :: "TurnInput option"
  rhTurnOutput :: "TurnOutput option"
  rhOutbound :: "OutboundMessage option"

datatype bridge_event = Deliver OutboundMessage | ReportDelivery DeliveryStatus

section \<open>Turn input\<close>

definition setIfEmpty :: "gostring \<Rightarrow> gostring \<Rightarrow> metadata \<Rightarrow> metadata" where
  "setIfEmpty key v m =
     (if TrimSpace key = [] \<or> TrimSpace v = [] then m
      else if metadataText m key \<noteq> [] then m
      else m(key \<mapsto> v))"

definition buildTurnMetadata ::
    "gostring \<Rightarrow> InboundMessage \<Rightarrow> NormalizedInput \<Rightarrow> gostring \<Rightarrow> gostring \<Rightarrow> gostring \<Rightarrow> metadata" where
  "buildTurnMetadata adapterName inbound normalized sessionID threadKey messageKey =
     (let m0 = ibMetadata inbound ++ niMetadata normalized;
          m1 = setIfEmpty (lit ''user_id'') (ibUserID inbound) m0;
          m2 = setIfEmpty (lit ''memory.user_id'') (ibUserID inbound) m1;
          m3 = setIfEmpty (lit ''channel.name'') (firstNonEmpty [ibChannel inbound, adapterName]) m2;
          m4 = setIfEmpty (lit ''channel.thread_id'') threadKey m3;
          m5 = setIfEmpty (lit ''channel.session_id'') sessionID m4;
          m6 = setIfEmpty (lit ''channel.message_id'') (firstNonEmpty [ibMessageID inbound, messageKey]) m5;
          m7 = setIfEmpty (lit ''channel.idempotency_key'') (firstNonEmpty [ibIdempotencyKey inbound, messageKey, ibMessageID inbound]) m6
      in if ibRetryAttempt inbound > 0 then setIfEmpty (lit ''channel.retry_attempt'') (Itoa (ibRetryAttempt inbound)) m7 else m7)"

definition buildTraceID :: "gostring \<Rightarrow> gostring \<Rightarrow> gostring \<Rightarrow> gostring" where
  "buildTraceID adapterName sessionID messageKey =
     JoinStrings (lit ''/'') ([lit ''channel'', TrimSpace adapterName]
       @ (if TrimSpace sessionID \<noteq> [] then [TrimSpace sessionID] else [])
       @ (if TrimSpace messageKey \<noteq> [] then [TrimSpace messageKey] else []))"

definition attachmentsToImages :: "Attachment list \<Rightarrow> ImageInput list" where
  "attachmentsToImages attachments =
     map (\<lambda>a. \<lparr>imgName = atName a, imgURL = atURL a, imgMIME = atMIME a\<rparr>)
       (filter (\<lambda>a. HasPrefix (ToLower (TrimSpace (atMIME a))) (lit ''image/'')) attachments)"

definition turnSessionID :: "InboundMessage \<Rightarrow> NormalizedInput \<Rightarrow> gostring" where
  "turnSessionID inbound normalized =
     firstNonEmpty [niSessionKey normalized, ibSessionID inbound, niThreadKey normalized, ibThreadID inbound, ibUserID inbound]"

definition turnMessageKey :: "InboundMessage \<Rightarrow> NormalizedInput \<Rightarrow> gostring" where
  "turnMessageKey inbound normalized = firstNonEmpty [niMessageKey normalized, ibMessageID inbound, ibIdempotencyKey inbound]"

definition buildTurnInput :: "gostring \<Rightarrow> InboundMessage \<Rightarrow> NormalizedInput \<Rightarrow> TurnInput" where
  "buildTurnInput adapterName inbound normalized =
     (let sessionID = turnSessionID inbound normalized; messageKey = turnMessageKey inbound normalized;
          threadKey = firstNonEmpty [niThreadKey normalized, ibThreadID inbound, sessionID]
      in \<lparr>tiSessionID = sessionID, tiTurnID = messageKey, tiTraceID = buildTraceID adapterName sessionID messageKey, tiDeviceID = [],
          tiClientType = lit ''channel:'' @ adapterName, tiUserText = TrimSpace (firstNonEmpty [niUserText normalized, ibText inbound]),
          tiAudio = \<lparr>audPresent = False, audFrames = 0, audBytes = 0, audCodec = [], audSampleRateHz = 0, audChannels = 0\<rparr>,
          tiImages = attachmentsToImages (if niAttachments normalized = [] then ibFiles inbound else niAttachments normalized),
          tiMetadata = buildTurnMetadata adapterName inbound normalized sessionID threadKey messageKey\<rparr>)"

section \<open>Answers and reports\<close>

definition buildOutboundMessage :: "gostring \<Rightarrow> InboundMessage \<Rightarrow> NormalizedInput \<Rightarrow> TurnInput \<Rightarrow> TurnOutput \<Rightarrow> OutboundMessage" where
  "buildOutboundMessage adapterName inbound normalized turnInput out =
     (let name = firstNonEmpty [ibChannel inbound, adapterName];
          thread = firstNonEmpty [niThreadKey normalized, ibThreadID inbound, tiSessionID turnInput]
      in \<lparr>obChannel = name, obThreadID = thread, obSessionID = tiSessionID turnInput,
          obInReplyTo = firstNonEmpty [ibMessageID inbound, niMessageKey normalized],
          obIdempotencyKey = firstNonEmpty [niMessageKey normalized, ibIdempotencyKey inbound, ibMessageID inbound, tiTurnID turnInput],
          obText = (if TrimSpace (toText out) = [] then TrimSpace (toEndMessage out) else TrimSpace (toText out)),
          obMetadata = [lit ''channel.name'' \<mapsto> name, lit ''channel.thread_id'' \<mapsto> thread,
            lit ''channel.turn_id'' \<mapsto> tiTurnID turnInput, lit ''channel.trace_id'' \<mapsto> tiTraceID turnInput]\<rparr>)"

definition statusFromInbound :: "gostring \<Rightarrow> InboundMessage \<Rightarrow> DeliveryStatus" where
  "statusFromInbound adapterName inbound =
     \<lparr>dsAdapterName = adapterName, dsChannel = firstNonEmpty [ibChannel inbound, adapterName],
      dsSessionID = firstNonEmpty [ibSessionID inbound, ibThreadID inbound, ibUserID inbound], dsThreadID = ibThreadID inbound,
      dsMessageID = ibMessageID inbound, dsTurnID = [], dsTraceID = [], dsAttempt = ibRetryAttempt inbound,
      dsIdempotencyKey = firstNonEmpty [ibIdempotencyKey inbound, ibMessageID inbound],
      dsState = StateUnreported, dsFailureStage = [], dsError = []\<rparr>"

definition statusFromTurnInput :: "gostring \<Rightarrow> InboundMessage \<Rightarrow> TurnInput \<Rightarrow> DeliveryStatus" where
  "statusFromTurnInput adapterName inbound turnInput =
     (let status = statusFromInbound adapterName inbound
      in status\<lparr>dsSessionID := firstNonEmpty [tiSessionID turnInput, dsSessionID status], dsTurnID := tiTurnID turnInput,
                dsTraceID := tiTraceID turnInput\<rparr>)"

definition failedStatus :: "gostring \<Rightarrow> gostring \<Rightarrow> DeliveryStatus \<Rightarrow> DeliveryStatus" where
  "failedStatus stage e status = status\<lparr>dsState := DeliveryStateFailed, dsFailureStage := stage, dsError := e\<rparr>"

section \<open>The bridge\<close>

record 'st RuntimeBridge =
  rbAdapter :: "Adapter option"
  rbExecutor :: "(TurnInput \<Rightarrow> 'st \<Rightarrow> (gostring + TurnOutput) \<times> 'st) option"

definition validateBridge :: "'st RuntimeBridge \<Rightarrow> gostring + gostring" where
  "validateBridge b =
     (case rbAdapter b of
        None \<Rightarrow> Inl (lit ''channel runtime bridge requires an adapter'')
      | Some adapter \<Rightarrow>
          (if rbExecutor b = None then Inl (lit ''channel runtime bridge requires a turn executor'')
           else if TrimSpace (adName adapter) = [] then Inl (lit ''channel runtime bridge requires adapter.Name()'')
           else Inr (TrimSpace (adName adapter))))"

definition emptyHandoff :: RuntimeHandoff where
  "emptyHandoff = \<lparr>rhAdapterName = [], rhInbound = None, rhNormalized = None, rhTurnInput = None, rhTurnOutput = None, rhOutbound = None\<rparr>"

text \<open>Delivery of a composed answer: the error, and the effects.\<close>

definition deliverOutbound :: "Adapter \<Rightarrow> DeliveryStatus \<Rightarrow> OutboundMessage \<Rightarrow> gostring option \<times> bridge_event list" where
  "deliverOutbound adapter status outbound =
     (if TrimSpace (obText outbound) = [] then (None, [ReportDelivery (status\<lparr>dsState := DeliveryStateSkipped\<rparr>)])
      else case adDeliver adapter outbound of
        Some e \<Rightarrow> (Some (lit ''deliver outbound channel message: '' @ e),
          [Deliver outbound, ReportDelivery (failedStatus (lit ''deliver'') e status)])
      | None \<Rightarrow> (None, [Deliver outbound, ReportDelivery (status\<lparr>dsState := DeliveryStateDelivered\<rparr>)]))"

definition HandleInbound ::
    "'st RuntimeBridge \<Rightarrow> InboundMessage \<Rightarrow> 'st \<Rightarrow> RuntimeHandoff \<times> gostring option \<times> bridge_event list \<times> 'st" where
  "HandleInbound b inbound st =
     (case (validateBridge b, rbAdapter b, rbExecutor b) of
        (Inr adapterName, Some adapter, Some execute) \<Rightarrow>
          (let handoff = emptyHandoff\<lparr>rhAdapterName := adapterName, rhInbound := Some inbound\<rparr>
           in case adNormalize adapter inbound of
                Inl e \<Rightarrow> (handoff, Some (lit ''normalize inbound channel message: '' @ e),
                  [ReportDelivery (failedStatus (lit ''normalize'') e (statusFromInbound adapterName inbound))], st)
              | Inr normalized \<Rightarrow>
                  (let turnInput = buildTurnInput adapterName inbound normalized;
                       handoff1 = handoff\<lparr>rhNormalized := Some normalized, rhTurnInput := Some turnInput\<rparr>;
                       status = statusFromTurnInput adapterName inbound turnInput
                   in case execute turnInput st of
                        (Inl e, st') \<Rightarrow> (handoff1, Some (lit ''execute channel turn: '' @ e),
                          [ReportDelivery (failedStatus (lit ''execute'') e status)], st')
                      | (Inr out, st') \<Rightarrow>
                          (let outbound = buildOutboundMessage adapterName inbound normalized turnInput out;
                               (err, events) = deliverOutbound adapter status outbound
                           in (handoff1\<lparr>rhTurnOutput := Some out, rhOutbound := Some outbound\<rparr>, err, events, st'))))
      | (Inl e, _, _) \<Rightarrow> (emptyHandoff, Some e, [], st)
      | (Inr _, _, _) \<Rightarrow> (emptyHandoff, None, [], st))"


section \<open>Facts\<close>

lemma validate_Inr:
  assumes "validateBridge b = Inr name"
  obtains adapter execute where "rbAdapter b = Some adapter" "rbExecutor b = Some execute" "name = TrimSpace (adName adapter)" "name \<noteq> []"
  using assms by (auto simp: validateBridge_def split: option.splits if_splits)

lemma status_simps [simp]:
  "dsState (failedStatus stage e s) = DeliveryStateFailed" "dsFailureStage (failedStatus stage e s) = stage"
  "dsAttempt (failedStatus stage e s) = dsAttempt s" "dsMessageID (failedStatus stage e s) = dsMessageID s"
  "dsFailureStage (statusFromInbound a i) = []" "dsFailureStage (statusFromTurnInput a i t) = []"
  "dsAttempt (statusFromInbound a i) = ibRetryAttempt i" "dsAttempt (statusFromTurnInput a i t) = ibRetryAttempt i"
  "dsMessageID (statusFromInbound a i) = ibMessageID i" "dsMessageID (statusFromTurnInput a i t) = ibMessageID i"
  by (simp_all add: failedStatus_def statusFromInbound_def statusFromTurnInput_def Let_def)

text \<open>The three ways through a configured bridge.\<close>

lemma HandleInbound_cases:
  assumes "validateBridge b = Inr name" "rbAdapter b = Some adapter" "rbExecutor b = Some execute"
    "HandleInbound b inbound st = (h, err, events, st')"
  obtains (normalize) e where "adNormalize adapter inbound = Inl e" "err \<noteq> None" "rhTurnInput h = None" "rhTurnOutput h = None" "rhOutbound h = None" "st' = st"
      "events = [ReportDelivery (failedStatus (lit ''normalize'') e (statusFromInbound name inbound))]"
  | (execute) n e where "adNormalize adapter inbound = Inr n" "execute (buildTurnInput name inbound n) st = (Inl e, st')" "err \<noteq> None"
      "rhTurnInput h = Some (buildTurnInput name inbound n)" "rhTurnOutput h = None" "rhOutbound h = None"
      "events = [ReportDelivery (failedStatus (lit ''execute'') e (statusFromTurnInput name inbound (buildTurnInput name inbound n)))]"
  | (answer) n out where "adNormalize adapter inbound = Inr n" "execute (buildTurnInput name inbound n) st = (Inr out, st')"
      "rhTurnInput h = Some (buildTurnInput name inbound n)" "rhTurnOutput h = Some out"
      "rhOutbound h = Some (buildOutboundMessage name inbound n (buildTurnInput name inbound n) out)"
      "(err, events) = deliverOutbound adapter (statusFromTurnInput name inbound (buildTurnInput name inbound n))
         (buildOutboundMessage name inbound n (buildTurnInput name inbound n) out)"
proof (cases "adNormalize adapter inbound")
  case (Inl e)
  then show thesis using assms by (intro normalize [of e]) (auto simp: HandleInbound_def emptyHandoff_def Let_def)
next
  case (Inr n)
  let ?i = "buildTurnInput name inbound n"
  show thesis
  proof (cases "execute ?i st")
    case (Pair r s1)
    then show thesis
    proof (cases r)
      case (Inl e)
      show thesis using assms \<open>adNormalize adapter inbound = Inr n\<close> Pair Inl
        by (intro execute [of n e]) (auto simp: HandleInbound_def emptyHandoff_def Let_def)
    next
      case (Inr out)
      show thesis using assms \<open>adNormalize adapter inbound = Inr n\<close> Pair Inr
        by (intro answer [of n out]) (auto simp: HandleInbound_def Let_def split: prod.splits)
    qed
  qed
qed

section \<open>Properties\<close>

text \<open>
  C15: one report per message. A configured bridge reports exactly once for a message it handles, after everything else: it delivers the composed
  answer at most once, and only when it is not blank; the report says failed exactly when the caller gets an error, and names the stage:
  normalising before there was a turn, executing before there was an answer, delivering otherwise. It says delivered exactly when the adapter took the
  answer, and skipped exactly when executor and end message left nothing to say. The report carries the id and the attempt of the message, and
  the executor runs only on a normalised message.
\<close>
theorem bridge_reports_once:
  assumes "validateBridge b = Inr name" "HandleInbound b inbound st = (h, err, events, st')"
  shows "\<exists>status. dsMessageID status = ibMessageID inbound \<and> dsAttempt status = ibRetryAttempt inbound \<and>
    (dsState status = DeliveryStateFailed \<longleftrightarrow> err \<noteq> None) \<and>
    (case rhOutbound h of
       None \<Rightarrow> events = [ReportDelivery status] \<and> dsState status = DeliveryStateFailed \<and>
         dsFailureStage status = (if rhTurnInput h = None then lit ''normalize'' else lit ''execute'') \<and> (rhTurnInput h = None \<longrightarrow> st' = st)
     | Some ob \<Rightarrow>
         if TrimSpace (obText ob) = [] then events = [ReportDelivery status] \<and> dsState status = DeliveryStateSkipped \<and>
           (\<exists>out. rhTurnOutput h = Some out \<and> TrimSpace (toText out) = [] \<and> TrimSpace (toEndMessage out) = [])
         else events = [Deliver ob, ReportDelivery status] \<and>
           (if adDeliver (the (rbAdapter b)) ob = None then dsState status = DeliveryStateDelivered
            else dsState status = DeliveryStateFailed \<and> dsFailureStage status = lit ''deliver''))"
proof -
  obtain adapter run where a: "rbAdapter b = Some adapter" "rbExecutor b = Some run" using validate_Inr [OF assms(1)] by blast
  show ?thesis
  proof (cases rule: HandleInbound_cases [OF assms(1) a assms(2)])
    case (1 e)
    then show ?thesis by auto
  next
    case (2 n e)
    then show ?thesis by auto
  next
    case (3 n out)
    let ?ob = "buildOutboundMessage name inbound n (buildTurnInput name inbound n) out"
    have t: "TrimSpace (obText ?ob) = [] \<longleftrightarrow> TrimSpace (toText out) = [] \<and> TrimSpace (toEndMessage out) = []"
      by (simp add: buildOutboundMessage_def Let_def)
    let ?status = "statusFromTurnInput name inbound (buildTurnInput name inbound n)"
    show ?thesis
    proof (cases "TrimSpace (obText ?ob) = []")
      case True
      then show ?thesis using 3 t
        by (intro exI [of _ "?status\<lparr>dsState := DeliveryStateSkipped\<rparr>"]) (simp add: deliverOutbound_def)
    next
      case False
      show ?thesis
      proof (cases "adDeliver adapter ?ob")
        case None
        then show ?thesis using 3 a(1) False
          by (intro exI [of _ "?status\<lparr>dsState := DeliveryStateDelivered\<rparr>"]) (simp add: deliverOutbound_def)
      next
        case (Some e)
        then show ?thesis using 3 a(1) False
          by (intro exI [of _ "failedStatus (lit ''deliver'') e ?status"]) (simp add: deliverOutbound_def)
      qed
    qed
  qed
qed

definition sampleAdapter :: Adapter where
  "sampleAdapter = \<lparr>adName = lit ''chat'', adNormalize = (\<lambda>i. Inr \<lparr>niSessionKey = [], niThreadKey = [], niMessageKey = [], niUserText = [],
     niAttachments = [], niMetadata = Map.empty\<rparr>), adDeliver = (\<lambda>_. None)\<rparr>"

definition sampleInbound :: InboundMessage where
  "sampleInbound = \<lparr>ibChannel = [], ibMessageID = lit ''m1'', ibUserID = lit ''u1'', ibThreadID = [], ibText = lit ''hello'', ibSessionID = [],
     ibRetryAttempt = 0, ibIdempotencyKey = [], ibFiles = [], ibMetadata = Map.empty\<rparr>"

definition llmBridge :: "(gostring \<Rightarrow> gostring) \<Rightarrow> (rune \<Rightarrow> bool) \<Rightarrow> LLMTurnExecutor \<Rightarrow> int \<Rightarrow> Adapter \<Rightarrow> (MemoryStore \<times> llmPrewarmState) RuntimeBridge" where
  "llmBridge quote al e now adapter = \<lparr>rbAdapter = Some adapter, rbExecutor = Some (\<lambda>input (store, s). LLMExecuteTurn quote al e now input store s)\<rparr>"

theorem bridge_reports_once_witness:
  "\<exists>h err events st' status. HandleInbound (llmBridge (\<lambda>x. x) (\<lambda>_. False) sampleExecutor 0 sampleAdapter) sampleInbound (NoopMemoryStore, Map.empty) =
     (h, err, events, st') \<and> dsMessageID status = lit ''m1'' \<and> last events = ReportDelivery status"
proof -
  let ?b = "llmBridge (\<lambda>x. x) (\<lambda>_. False) sampleExecutor 0 sampleAdapter"
  have n: "TrimSpace (lit ''chat'') = lit ''chat''" "lit ''chat'' \<noteq> []" by code_simp+
  have v: "validateBridge ?b = Inr (lit ''chat'')" by (simp add: validateBridge_def llmBridge_def sampleAdapter_def n)
  obtain h err events st' where r: "HandleInbound ?b sampleInbound (NoopMemoryStore, Map.empty) = (h, err, events, st')" by (metis surj_pair)
  have m: "ibMessageID sampleInbound = lit ''m1''" by (simp add: sampleInbound_def)
  show ?thesis using bridge_reports_once [OF v r] r unfolding m
    by (fastforce split: option.splits if_splits)
qed

section \<open>Channels and the model\<close>

lemma toolSummaryText_nonblank: "TrimSpace (toolSummaryText r) \<noteq> []"
  by (simp add: toolSummaryText_def Let_def lit_def TrimSpace_Cons_nonblank is_space_def)

lemma bootstrapReply_nonblank: "TrimSpace (bootstrapReply i t) \<noteq> []"
  by (simp add: bootstrapReply_def lit_def TrimSpace_Cons_nonblank is_space_def)

lemma followUp_nonblank:
  assumes "deterministicPlaybackFollowUpText t m = Some x"
  shows "TrimSpace x \<noteq> []"
proof -
  have "TrimSpace (ppMissedText (parsePreviousPlaybackContext m)) = ppMissedText (parsePreviousPlaybackContext m)"
    by (rule trimmed_id [OF trimmed_playback_texts(1)])
  then show ?thesis using assms
    by (auto simp: deterministicPlaybackFollowUpText_def Let_def TrimSpace_Cons_nonblank is_space_def
        split: playbackFollowUpIntent.splits if_splits)
qed

lemma memoryCommand_nonblank:
  "executeMemoryCommand sink loaded = (Inr out, taken) \<Longrightarrow> TrimSpace (toText out) \<noteq> []"
  by (auto simp: executeMemoryCommand_def Let_def lit_def TrimSpace_Cons_nonblank is_space_def dest!: outputAfter_ok split: sum.splits if_splits)

lemma toolCommand_nonblank:
  "executeToolCommand al reg invoke input command sink = (Inr out, taken) \<Longrightarrow> TrimSpace (toText out) \<noteq> []"
  by (auto simp: executeToolCommand_def toolFailureOutput_def Let_def toolSummaryText_nonblank dest!: outputAfter_ok
      split: sum.splits if_splits prod.splits option.splits)

lemma streamBootstrap_nonblank:
  "streamBootstrapOutput al reg invoke input t loaded sink = (Inr out, taken) \<Longrightarrow> TrimSpace (toText out) \<noteq> []"
  by (auto simp: streamBootstrapOutput_def emitBootstrapTextOutput_def bootstrapReply_nonblank
      dest: memoryCommand_nonblank toolCommand_nonblank followUp_nonblank dest!: outputAfter_ok split: option.splits)

lemma streamLLM_nonblank:
  assumes "streamLLMOutput al e now input t m memory c sink = (Inr out, taken)"
  shows "TrimSpace (toText out) \<noteq> []"
  using assms
  by (auto simp: streamLLMOutput_def Let_def emitBootstrapTextOutput_def case_prod_beta
      dest: streamBootstrap_nonblank followUp_nonblank dest!: modelLoop_announced outputAfter_ok split: option.splits if_splits)

text \<open>What a turn leaves behind.\<close>

lemma LLMExecute_result:
  assumes "LLMExecuteTurn quote al e now input store s = (r, store', s')"
  shows "case r of Inl err \<Rightarrow> store' = store
    | Inr out \<Rightarrow> TrimSpace (toText out) \<noteq> [] \<and> store' = (if shouldPersistTurn (TrimSpace (tiUserText input))
        then storeSaveTurn (BuildMemoryRecord input (TrimSpace (tiUserText input)) (toText out) (tiMetadata input)) store else store)"
proof -
  let ?t = "TrimSpace (tiUserText input)"
  obtain c s1 where c: "consumeMatch now input ?t (tiMetadata input) s = (c, s1)" by fastforce
  let ?m = "case c of None \<Rightarrow> storeLoadTurnContext quote (buildMemoryQuery input ?t (tiMetadata input)) store | Some c \<Rightarrow> pwMemoryContext c"
  obtain r1 tk where o: "streamLLMOutput al e now input ?t (tiMetadata input) ?m c (\<lambda>_. None) = (r1, tk)" by fastforce
  show ?thesis
  proof (cases r1)
    case (Inl err)
    then show ?thesis using assms c o by (auto simp: LLMExecuteTurn_def LLMStreamTurn_def Let_def)
  next
    case (Inr out)
    have "TrimSpace (toText out) \<noteq> []" using o Inr streamLLM_nonblank by blast
    then show ?thesis using assms c o Inr by (auto simp: LLMExecuteTurn_def LLMStreamTurn_def Let_def)
  qed
qed

lemma memoryMetadataValue_other: "key \<notin> set ks \<Longrightarrow> memoryMetadataValue (m(key \<mapsto> v)) ks = memoryMetadataValue m ks"
  by (induction ks) (auto simp: Let_def)

lemma retry_same_scopes:
  assumes "inbound' = inbound\<lparr>ibRetryAttempt := k\<rparr>" "i = buildTurnInput name inbound n" "i' = buildTurnInput name inbound' n"
  shows "memoryRecordScopes (BuildMemoryRecord i' t r (tiMetadata i')) = memoryRecordScopes (BuildMemoryRecord i t r' (tiMetadata i))"
    "tiUserText i' = tiUserText i" "tiTurnID i' = turnMessageKey inbound n" "tiTurnID i = turnMessageKey inbound n"
proof -
  have "lit ''channel.retry_attempt'' \<notin> set userKeys \<union> set roomKeys \<union> set householdKeys"
    by (simp add: userKeys_def roomKeys_def householdKeys_def lit_def)
  then have s: "memoryMetadataValue (setIfEmpty (lit ''channel.retry_attempt'') v m) ks = memoryMetadataValue m ks"
    if "ks \<in> {userKeys, roomKeys, householdKeys}" for v m ks
    using that memoryMetadataValue_other by (auto simp: setIfEmpty_def)
  show "memoryRecordScopes (BuildMemoryRecord i' t r (tiMetadata i')) = memoryRecordScopes (BuildMemoryRecord i t r' (tiMetadata i))"
    unfolding assms by (simp add: memoryRecordScopes_def BuildMemoryRecord_def buildTurnInput_def buildTurnMetadata_def turnSessionID_def
        turnMessageKey_def Let_def s)
qed (simp_all add: assms buildTurnInput_def turnMessageKey_def Let_def)


definition plainBridge :: "(MemoryStore \<times> llmPrewarmState) RuntimeBridge" where
  "plainBridge = llmBridge (\<lambda>x. x) (\<lambda>_. False) (sampleExecutor\<lparr>leModel := None\<rparr>) 0 sampleAdapter"

lemma plainExecutor_answers:
  assumes "TrimSpace (tiUserText i) = lit ''hello''"
  shows "\<exists>out st. LLMExecuteTurn quote al (sampleExecutor\<lparr>leModel := None\<rparr>) now i store Map.empty = (Inr out, st) \<and>
    toText out = lit ''agent-server received text input: hello''"
proof -
  have p: "parseBootstrapMemoryCommand (lit ''hello'') = None" "parseBootstrapToolCommand (lit ''hello'') = None" by code_simp+
  have b: "bootstrapReply i (lit ''hello'') = lit ''agent-server received text input: hello''" for i by (simp add: bootstrapReply_def lit_def)
  have f: "deterministicPlaybackFollowUpText (lit ''hello'') m = None" for m
  proof -
    have "normalizePlaybackFollowUpText (lit ''hello'') = lit ''hello''" "\<not> isPlaybackContinueIntent (lit ''hello'')"
      "\<not> isPlaybackBoundaryRecallIntent (lit ''hello'')" "\<not> isPlaybackRecapTailIntent (lit ''hello'')" by code_simp+
    then show ?thesis
      by (simp add: deterministicPlaybackFollowUpText_def detectDeterministicPlaybackFollowUpIntent_def followUpIntent_def Let_def)
  qed
  have "leModel (sampleExecutor\<lparr>leModel := None\<rparr>) = None" by (simp add: sampleExecutor_def)
  moreover have "consumeMatch now i t m Map.empty = (None, Map.empty)" for t m by (simp add: consumeMatch_def)
  ultimately show ?thesis
    by (simp add: LLMExecuteTurn_def LLMStreamTurn_def streamLLMOutput_def Let_def streamBootstrapOutput_def
        emitBootstrapTextOutput_def assms p b f)
qed

lemma plainBridge_answers:
  assumes "HandleInbound plainBridge (sampleInbound\<lparr>ibRetryAttempt := k\<rparr>) (store, Map.empty) = (h, err, events, st')"
  shows "\<exists>out. rhTurnOutput h = Some out \<and> toText out = lit ''agent-server received text input: hello''"
proof -
  have n: "TrimSpace (lit ''chat'') = lit ''chat''" "lit ''chat'' \<noteq> []"
    "TrimSpace (lit ''hello'') = lit ''hello''" by code_simp+
  have v: "validateBridge plainBridge = Inr (lit ''chat'')" by (simp add: validateBridge_def plainBridge_def llmBridge_def sampleAdapter_def n)
  have b: "rbAdapter plainBridge = Some sampleAdapter" "rbExecutor plainBridge =
      Some (\<lambda>input (store, s). LLMExecuteTurn (\<lambda>x. x) (\<lambda>_. False) (sampleExecutor\<lparr>leModel := None\<rparr>) 0 input store s)"
    by (simp_all add: plainBridge_def llmBridge_def)
  have x: "\<exists>out st. LLMExecuteTurn (\<lambda>x. x) (\<lambda>_. False) (sampleExecutor\<lparr>leModel := None\<rparr>) 0
      (buildTurnInput nm (sampleInbound\<lparr>ibRetryAttempt := k\<rparr>) ni) store Map.empty = (Inr out, st) \<and>
      toText out = lit ''agent-server received text input: hello''" if "niUserText ni = []" for nm ni
  proof (rule plainExecutor_answers)
    show "TrimSpace (tiUserText (buildTurnInput nm (sampleInbound\<lparr>ibRetryAttempt := k\<rparr>) ni)) = lit ''hello''"
      using that n(3) by (simp add: buildTurnInput_def sampleInbound_def Let_def)
  qed
  have ni: "niUserText ni = []" if "adNormalize sampleAdapter i = Inr ni" for i ni using that by (auto simp: sampleAdapter_def)
  have nl: "adNormalize sampleAdapter i \<noteq> Inl e" for i e by (simp add: sampleAdapter_def)
  show ?thesis
  proof (cases rule: HandleInbound_cases [OF v b assms])
    case (1 e) then show ?thesis using nl by blast
  next
    case (2 m e) then show ?thesis using x [OF ni [OF 2(1)], of "lit ''chat''"] by auto
  next
    case (3 m out) then show ?thesis using x [OF ni [OF 3(1)], of "lit ''chat''"] by auto
  qed
qed


end
