(* ===== verification/Semantic_Judge.thy ===== *)
theory Semantic_Judge
  imports Barge_In
begin

text \<open>
  The semantic turn judge, \<open>internal/voice/semantic_judge.go\<close> and \<open>semantic_judge_rollout.go\<close>: decoding the answer
  of the language model, the state that limits requests to one per hypothesis, the merge of a judgement into a
  preview, and the rollout to a share of the clients. The model's answer and the JSON decoder of the standard
  library are arguments; the prompts are not modelled. Labels are lower-cased with \<open>ToLower\<close>, which leaves cased
  letters beyond ASCII alone; no code compares a label with such a letter.
\<close>

section \<open>Data\<close>

definition SemanticWaitPolicyKeep :: gostring where "SemanticWaitPolicyKeep = lit ''keep''"
definition SemanticWaitPolicyShorten :: gostring where "SemanticWaitPolicyShorten = lit ''shorten''"
definition SemanticWaitPolicyExtend :: gostring where "SemanticWaitPolicyExtend = lit ''extend''"

definition SemanticUtteranceIncomplete :: gostring where "SemanticUtteranceIncomplete = lit ''incomplete''"
definition SemanticUtteranceComplete :: gostring where "SemanticUtteranceComplete = lit ''complete''"
definition SemanticUtteranceCorrection :: gostring where "SemanticUtteranceCorrection = lit ''correction''"

definition SemanticSlotReadinessUnknown :: gostring where "SemanticSlotReadinessUnknown = lit ''unknown''"
definition SemanticSlotReadinessNotApplicable :: gostring where "SemanticSlotReadinessNotApplicable = lit ''not_applicable''"
definition SemanticSlotReadinessWaitSlot :: gostring where "SemanticSlotReadinessWaitSlot = lit ''wait_slot''"
definition SemanticSlotReadinessClarify :: gostring where "SemanticSlotReadinessClarify = lit ''clarify''"
definition SemanticSlotReadinessReady :: gostring where "SemanticSlotReadinessReady = lit ''ready''"

definition defaultSemanticJudgeTimeout :: duration where "defaultSemanticJudgeTimeout = 220 * Millisecond"
definition defaultSemanticJudgeMinRunes :: int where "defaultSemanticJudgeMinRunes = 2"
definition defaultSemanticJudgeMinStableFor :: duration where "defaultSemanticJudgeMinStableFor = 120 * Millisecond"

record SemanticTurnRequest =
  tqSessionID :: gostring
  tqDeviceID :: gostring
  tqClientType :: gostring
  tqPartialText :: gostring
  tqStablePrefix :: gostring
  tqAudioMs :: int
  tqStability :: float64
  tqStableForMs :: int
  tqTurnStage :: TurnArbitrationStage
  tqEndpointHinted :: bool
  tqTaskFamilyHint :: gostring
  tqSlotConstraintRequired :: bool

record SemanticTurnJudgement =
  sjCandidateKey :: gostring
  sjPartialText :: gostring
  sjStablePrefix :: gostring
  sjUtteranceStatus :: gostring
  sjInterruptionIntent :: gostring
  sjTaskFamily :: gostring
  sjSlotReadinessHint :: gostring
  sjDynamicWaitPolicy :: gostring
  sjWaitDeltaMs :: int
  sjConfidence :: float64
  sjReason :: gostring
  sjSource :: gostring

record semanticJudgeJSON =
  jjUtteranceStatus :: gostring
  jjInterruptionIntent :: gostring
  jjTaskFamily :: gostring
  jjSlotReadinessHint :: gostring
  jjDynamicWaitPolicy :: gostring
  jjWaitDeltaMs :: int
  jjConfidence :: float64
  jjReason :: gostring

definition zeroJudgement :: SemanticTurnJudgement where
  "zeroJudgement = \<lparr>sjCandidateKey = [], sjPartialText = [], sjStablePrefix = [], sjUtteranceStatus = [], sjInterruptionIntent = [],
     sjTaskFamily = [], sjSlotReadinessHint = [], sjDynamicWaitPolicy = [], sjWaitDeltaMs = 0, sjConfidence = 0, sjReason = [], sjSource = []\<rparr>"

section \<open>Normalisation\<close>

definition normalizeSemanticSlotReadinessHint :: "gostring \<Rightarrow> gostring" where
  "normalizeSemanticSlotReadinessHint value =
     (let v = ToLower (TrimSpace value)
      in if v \<in> {SemanticSlotReadinessNotApplicable, SemanticSlotReadinessWaitSlot, SemanticSlotReadinessClarify, SemanticSlotReadinessReady}
         then v else SemanticSlotReadinessUnknown)"

definition normalizeSemanticUtteranceStatus :: "gostring \<Rightarrow> gostring" where
  "normalizeSemanticUtteranceStatus value =
     (let v = ToLower (TrimSpace value)
      in if v \<in> {SemanticUtteranceComplete, SemanticUtteranceCorrection} then v else SemanticUtteranceIncomplete)"

definition normalizeSemanticWaitPolicy :: "gostring \<Rightarrow> gostring" where
  "normalizeSemanticWaitPolicy value =
     (let v = ToLower (TrimSpace value)
      in if v \<in> {SemanticWaitPolicyShorten, SemanticWaitPolicyExtend} then v else SemanticWaitPolicyKeep)"

definition semanticUnknown :: gostring where "semanticUnknown = lit ''semantic_unknown''"

text \<open>Spaces and hyphens become underscores.\<close>

definition normalizeSemanticReason :: "gostring \<Rightarrow> gostring" where
  "normalizeSemanticReason value =
     (let v = TrimSpace (ToLower value)
      in if v = [] then semanticUnknown else map (\<lambda>r. if r = 32 \<or> r = 45 then 95 else r) v)"

definition clampSemanticWaitDeltaMs :: "int \<Rightarrow> int" where
  "clampSemanticWaitDeltaMs value = (if value > 600 then 600 else if value < -600 then -600 else value)"

definition defaultSemanticWaitDelta :: "SemanticTurnJudgement \<Rightarrow> int" where
  "defaultSemanticWaitDelta judgement =
     (let intent = normalizeSemanticIntent (sjInterruptionIntent judgement)
      in if sjUtteranceStatus judgement = SemanticUtteranceCorrection then 320
         else if sjUtteranceStatus judgement = SemanticUtteranceComplete then
           (if intent = SemanticIntentQuestion then -140
            else if intent = SemanticIntentRequest \<or> intent = SemanticIntentTakeover then -120
            else if intent = SemanticIntentBackchannel then 180
            else if intent = SemanticIntentContinue then 180
            else -80)
         else
           (if intent = SemanticIntentContinue \<or> intent = SemanticIntentCorrection then 220
            else if intent = SemanticIntentBackchannel then 120
            else 0))"

definition semanticCandidateKey :: "gostring \<Rightarrow> gostring \<Rightarrow> gostring" where
  "semanticCandidateKey stabled partial = TrimSpace stabled @ [10] @ lit ''---'' @ [10] @ TrimSpace partial"

definition firstPositiveDuration :: "duration \<Rightarrow> duration \<Rightarrow> duration" where
  "firstPositiveDuration primary fallback = (if primary > 0 then primary else fallback)"

section \<open>The answer of the model\<close>

datatype judge_error = JudgeNoModel | JudgeModelFailed gostring | JudgeEmpty | JudgeNoJson gostring | JudgeBadJson gostring

text \<open>The text from the first opening to the last closing brace.\<close>

definition jsonObject :: "gostring \<Rightarrow> gostring option" where
  "jsonObject raw =
     (let rest = dropWhile (\<lambda>r. r \<noteq> 123) raw; body = rev (dropWhile (\<lambda>r. r \<noteq> 125) (rev rest))
      in if rest = [] \<or> body = [] then None else Some body)"

definition decodeSemanticTurnJudgement ::
    "(gostring \<Rightarrow> gostring + semanticJudgeJSON) \<Rightarrow> gostring \<Rightarrow> judge_error + SemanticTurnJudgement" where
  "decodeSemanticTurnJudgement unmarshal raw0 =
     (let raw = TrimSpace raw0
      in if raw = [] then Inl JudgeEmpty
         else case jsonObject raw of
           None \<Rightarrow> Inl (JudgeNoJson raw)
         | Some object \<Rightarrow>
             (case unmarshal object of
                Inl e \<Rightarrow> Inl (JudgeBadJson e)
              | Inr d \<Rightarrow> Inr (zeroJudgement\<lparr>
                  sjUtteranceStatus := normalizeSemanticUtteranceStatus (jjUtteranceStatus d),
                  sjInterruptionIntent := normalizeSemanticIntent (jjInterruptionIntent d),
                  sjTaskFamily := normalizeSemanticTaskFamily (jjTaskFamily d),
                  sjSlotReadinessHint := normalizeSemanticSlotReadinessHint (jjSlotReadinessHint d),
                  sjDynamicWaitPolicy := normalizeSemanticWaitPolicy (jjDynamicWaitPolicy d),
                  sjWaitDeltaMs := clampSemanticWaitDeltaMs (jjWaitDeltaMs d),
                  sjConfidence := clampUnit (jjConfidence d),
                  sjReason := normalizeSemanticReason (jjReason d)\<rparr>)))"

text \<open>\<open>model\<close> is what the chat model answers to the request, \<open>None\<close> when none is configured.\<close>

definition JudgePreview ::
    "(gostring \<Rightarrow> gostring + semanticJudgeJSON) \<Rightarrow> (gostring + gostring) option \<Rightarrow> SemanticTurnRequest \<Rightarrow> judge_error + SemanticTurnJudgement" where
  "JudgePreview unmarshal model req =
     (case model of
        None \<Rightarrow> Inl JudgeNoModel
      | Some (Inl e) \<Rightarrow> Inl (JudgeModelFailed e)
      | Some (Inr t) \<Rightarrow>
          (case decodeSemanticTurnJudgement unmarshal t of
             Inl e \<Rightarrow> Inl e
           | Inr j \<Rightarrow> Inr (j\<lparr>sjCandidateKey := semanticCandidateKey (tqStablePrefix req) (tqPartialText req),
               sjPartialText := TrimSpace (tqPartialText req), sjStablePrefix := TrimSpace (tqStablePrefix req),
               sjSource := (if sjSource j = [] then lit ''llm_semantic_judge'' else sjSource j)\<rparr>)))"

section \<open>One request per hypothesis\<close>

text \<open>
  The judge and the slot parser keep the same state with results of their own type; \<open>keyOf\<close> is the candidate key of
  a result. Every method holds the mutex for its whole body.
\<close>

record 'r previewRequestState =
  rsEvaluating :: bool
  rsLastRequestedKey :: gostring
  rsLastResult :: 'r

definition shouldLaunch :: "('r \<Rightarrow> gostring) \<Rightarrow> gostring \<Rightarrow> 'r previewRequestState \<Rightarrow> bool \<times> 'r previewRequestState" where
  "shouldLaunch keyOf key s =
     (if key = [] then (False, s)
      else if rsEvaluating s \<and> rsLastRequestedKey s = key then (False, s)
      else if keyOf (rsLastResult s) = key then (False, s)
      else (True, s\<lparr>rsEvaluating := True, rsLastRequestedKey := key\<rparr>))"

definition storeResult :: "'r \<Rightarrow> 'r previewRequestState \<Rightarrow> 'r previewRequestState" where
  "storeResult result s = s\<lparr>rsEvaluating := False, rsLastResult := result\<rparr>"

definition clearRequest :: "'r previewRequestState \<Rightarrow> 'r previewRequestState" where
  "clearRequest s = s\<lparr>rsEvaluating := False\<rparr>"

definition resultFor :: "('r \<Rightarrow> gostring) \<Rightarrow> gostring \<Rightarrow> 'r previewRequestState \<Rightarrow> 'r option" where
  "resultFor keyOf key s = (if key = [] \<or> keyOf (rsLastResult s) \<noteq> key then None else Some (rsLastResult s))"

type_synonym previewSemanticJudgeState = "SemanticTurnJudgement previewRequestState"

definition newSemanticJudgeState :: previewSemanticJudgeState where
  "newSemanticJudgeState = \<lparr>rsEvaluating = False, rsLastRequestedKey = [], rsLastResult = zeroJudgement\<rparr>"

definition judgeShouldLaunch :: "gostring \<Rightarrow> previewSemanticJudgeState \<Rightarrow> bool \<times> previewSemanticJudgeState" where
  "judgeShouldLaunch = shouldLaunch sjCandidateKey"

definition judgeResultFor :: "gostring \<Rightarrow> previewSemanticJudgeState \<Rightarrow> SemanticTurnJudgement option" where
  "judgeResultFor = resultFor sjCandidateKey"

section \<open>When a judgement is asked for\<close>

definition shouldJudgeSemantic :: "InputPreview \<Rightarrow> int \<Rightarrow> duration \<Rightarrow> bool" where
  "shouldJudgeSemantic snapshot minRunes0 minStableFor =
     (let bestText = TrimSpace (firstNonEmpty [pvStablePrefix snapshot, pvPartialText snapshot]);
          minRunes = (if minRunes0 \<le> 0 then defaultSemanticJudgeMinRunes else minRunes0);
          a = pvArbitration snapshot;
          family0 = normalizeSemanticTaskFamily (arbTaskFamily a);
          family = (if family0 = SemanticTaskFamilyUnknown then inferLexicalTaskFamily bestText else family0)
      in if bestText = [] then False
         else if int (length bestText) < minRunes \<and> \<not> looksLikeTakeoverLexicon bestText \<and> \<not> looksLikeBackchannel bestText then False
         else if arbStableForMs a * Millisecond \<ge> minStableFor then True
         else if arbCandidateReady a \<and> family \<in> {SemanticTaskFamilyKnowledgeQuery, SemanticTaskFamilyStructuredCommand,
             SemanticTaskFamilyStructuredQuery, SemanticTaskFamilyCorrection} then True
         else if arbAcceptCandidate a \<or> arbAcceptNow a \<or> arbDraftAllowed a then True
         else looksLikeTakeoverLexicon bestText \<or> looksLikeBackchannel bestText)"

section \<open>Merging a judgement\<close>

definition inferSemanticTaskFamily :: "InputPreview \<Rightarrow> SemanticTurnJudgement \<Rightarrow> gostring" where
  "inferSemanticTaskFamily snapshot judgement =
     (let intent = normalizeSemanticIntent (sjInterruptionIntent judgement);
          family = inferLexicalTaskFamily (TrimSpace (firstNonEmpty [pvPartialText snapshot, pvStablePrefix snapshot]))
      in if intent = SemanticIntentBackchannel then SemanticTaskFamilyBackchannel
         else if intent = SemanticIntentCorrection then SemanticTaskFamilyCorrection
         else if intent = SemanticIntentQuestion then SemanticTaskFamilyKnowledgeQuery
         else if intent \<in> {SemanticIntentRequest, SemanticIntentTakeover, SemanticIntentContinue} then
           (if family = SemanticTaskFamilyDialogue \<or> family = SemanticTaskFamilyUnknown then SemanticTaskFamilyStructuredCommand else family)
         else family)"

text \<open>The stages that a permission to draft raises.\<close>

definition raiseToDraft :: "TurnArbitrationStage \<Rightarrow> TurnArbitrationStage" where
  "raiseToDraft st = (if st \<in> {PreviewOnly, WaitForMore, PrewarmAllowed} then DraftAllowed else st)"

text \<open>The fields taken over from a judgement whatever its confidence.\<close>

definition judgedTaskFamily :: "InputPreview \<Rightarrow> SemanticTurnJudgement \<Rightarrow> gostring" where
  "judgedTaskFamily snapshot judgement =
     (let present = arbTaskFamily (pvArbitration snapshot);
          unset = (present = [] \<or> present = SemanticTaskFamilyUnknown);
          semanticFamily = normalizeSemanticTaskFamily (sjTaskFamily judgement)
      in if semanticFamily \<noteq> SemanticTaskFamilyUnknown
           \<and> (clampUnit (sjConfidence judgement) \<ge> semanticJudgeMediumConfidence \<or> unset) then semanticFamily
         else if unset then inferSemanticTaskFamily snapshot judgement else present)"

definition judgedWaitDelta :: "SemanticTurnJudgement \<Rightarrow> int" where
  "judgedWaitDelta judgement =
     (let delta = clampSemanticWaitDeltaMs (sjWaitDeltaMs judgement)
      in if delta = 0 then defaultSemanticWaitDelta judgement else delta)"

definition annotateJudgement :: "InputPreview \<Rightarrow> SemanticTurnJudgement \<Rightarrow> TurnArbitration" where
  "annotateJudgement snapshot judgement =
     (pvArbitration snapshot)\<lparr>arbSemanticReady := True,
        arbSemanticComplete := (sjUtteranceStatus judgement = SemanticUtteranceComplete),
        arbSemanticIntent := normalizeSemanticIntent (sjInterruptionIntent judgement),
        arbSemanticSlotReadiness := normalizeSemanticSlotReadinessHint (sjSlotReadinessHint judgement),
        arbTaskFamily := judgedTaskFamily snapshot judgement,
        arbSlotConstraintRequired := taskFamilyRequiresSlotReadiness (judgedTaskFamily snapshot judgement),
        arbSemanticReason := normalizeSemanticReason (sjReason judgement), arbSemanticSource := TrimSpace (sjSource judgement),
        arbSemanticConfidence := clampUnit (sjConfidence judgement),
        arbSemanticWaitPolicy := normalizeSemanticWaitPolicy (sjDynamicWaitPolicy judgement),
        arbSemanticWaitDeltaMs := judgedWaitDelta judgement\<rparr>"

text \<open>A complete utterance that is no acknowledgement: whether it may be drafted, and the reason recorded.\<close>

definition completeDraft :: "TurnArbitration \<Rightarrow> bool" where
  "completeDraft a =
     (if arbSemanticSlotReadiness a = SemanticSlotReadinessClarify \<or> arbSemanticSlotReadiness a = SemanticSlotReadinessReady then True
      else if arbSemanticSlotReadiness a = SemanticSlotReadinessWaitSlot then False
      else if arbSemanticSlotReadiness a = SemanticSlotReadinessNotApplicable then True
      else \<not> arbSlotConstraintRequired a \<or> arbSlotReady a)"

definition completeReason :: "TurnArbitration \<Rightarrow> gostring" where
  "completeReason a =
     (if TrimSpace (arbReason a) \<noteq> [] then arbReason a
      else if completeDraft a then
        (if arbSemanticSlotReadiness a = SemanticSlotReadinessClarify then lit ''semantic_complete_clarify_ready''
         else if arbSemanticSlotReadiness a = SemanticSlotReadinessReady then lit ''semantic_complete_slot_ready''
         else lit ''semantic_complete'')
      else if arbSlotConstraintRequired a \<and> \<not> arbSlotReady a then lit ''semantic_complete_wait_slot_guard''
      else lit ''semantic_complete_hold'')"

definition clarifyActionability :: "TurnArbitration \<Rightarrow> gostring" where
  "clarifyActionability a =
     (if arbSemanticSlotReadiness a = SemanticSlotReadinessClarify
         \<and> (arbSlotActionability a = [] \<or> arbSlotActionability a = lit ''observe_only'')
      then lit ''clarify_needed'' else arbSlotActionability a)"

definition mergeComplete :: "TurnArbitration \<Rightarrow> TurnArbitration" where
  "mergeComplete a =
     a\<lparr>arbPrewarmAllowed := True, arbDraftAllowed := completeDraft a,
       arbStage := (if completeDraft a then raiseToDraft (arbStage a) else arbStage a),
       arbReason := completeReason a,
       arbSlotClarifyNeeded := (arbSemanticSlotReadiness a = SemanticSlotReadinessClarify \<or> arbSlotClarifyNeeded a),
       arbSlotActionability := clarifyActionability a\<rparr>"

definition mergeCorrection :: "TurnArbitration \<Rightarrow> TurnArbitration" where
  "mergeCorrection a = a\<lparr>arbStage := (if arbStage a = DraftAllowed then WaitForMore else arbStage a), arbDraftAllowed := False\<rparr>"

definition mergeSemanticJudgement :: "InputPreview \<Rightarrow> SemanticTurnJudgement \<Rightarrow> InputPreview" where
  "mergeSemanticJudgement snapshot judgement =
     (if sjCandidateKey judgement = [] then snapshot
      else
        let a = annotateJudgement snapshot judgement;
            trusted = (arbSemanticConfidence a \<ge> semanticJudgeMediumConfidence);
            (snap, b) =
              (if trusted \<and> sjUtteranceStatus judgement = SemanticUtteranceCorrection then
                 (snapshot\<lparr>pvUtteranceComplete := False\<rparr>, mergeCorrection a)
               else if trusted \<and> sjUtteranceStatus judgement = SemanticUtteranceComplete \<and> arbSemanticIntent a \<noteq> SemanticIntentBackchannel then
                 (snapshot\<lparr>pvUtteranceComplete := True\<rparr>, mergeComplete a)
               else (snapshot, a))
        in snap\<lparr>pvArbitration := recomputeTurnArbitration snap b\<rparr>)"

section \<open>Rollout\<close>

definition SemanticJudgeRolloutModeControl :: gostring where "SemanticJudgeRolloutModeControl = lit ''control''"
definition SemanticJudgeRolloutModeSemantic :: gostring where "SemanticJudgeRolloutModeSemantic = lit ''semantic''"
definition SemanticJudgeRolloutModeStickyPercent :: gostring where "SemanticJudgeRolloutModeStickyPercent = lit ''sticky_percent''"

record SemanticJudgeRolloutConfig =
  rcMode :: gostring
  rcPercentage :: int

datatype semanticJudgeVariant = VariantControl | VariantSemantic

record semanticJudgeRolloutDecision =
  rdVariant :: semanticJudgeVariant
  rdEnabled :: bool
  rdBucket :: int

record InputPreviewRequest =
  prSessionID :: gostring
  prDeviceID :: gostring
  prClientType :: gostring
  prCodec :: gostring
  prSampleRateHz :: int
  prChannels :: int
  prLanguage :: gostring

definition NormalizeSemanticJudgeRolloutMode :: "gostring \<Rightarrow> gostring" where
  "NormalizeSemanticJudgeRolloutMode mode =
     (let v = ToLower (TrimSpace mode)
      in if v \<in> {[], lit ''control'', lit ''off'', lit ''disabled'', lit ''false'', lit ''0''} then SemanticJudgeRolloutModeControl
         else if v \<in> {lit ''semantic'', lit ''enabled'', lit ''on'', lit ''true'', lit ''100''} then SemanticJudgeRolloutModeSemantic
         else if v \<in> {lit ''sticky_percent'', lit ''sticky'', lit ''percent'', lit ''percentage'', lit ''rollout'', lit ''ab''}
           then SemanticJudgeRolloutModeStickyPercent
         else v)"

definition NormalizeSemanticJudgeRolloutConfig :: "SemanticJudgeRolloutConfig \<Rightarrow> SemanticJudgeRolloutConfig" where
  "NormalizeSemanticJudgeRolloutConfig cfg = cfg\<lparr>rcMode := NormalizeSemanticJudgeRolloutMode (rcMode cfg)\<rparr>"

definition IsSupportedSemanticJudgeRolloutMode :: "gostring \<Rightarrow> bool" where
  "IsSupportedSemanticJudgeRolloutMode mode =
     (NormalizeSemanticJudgeRolloutMode mode \<in> {SemanticJudgeRolloutModeControl, SemanticJudgeRolloutModeSemantic, SemanticJudgeRolloutModeStickyPercent})"

definition clampSemanticJudgeRolloutPercent :: "int \<Rightarrow> int" where
  "clampSemanticJudgeRolloutPercent percent = (if percent < 0 then 0 else if percent > 100 then 100 else percent)"

definition semanticJudgeStickyKey :: "InputPreviewRequest \<Rightarrow> gostring" where
  "semanticJudgeStickyKey req =
     (let sessionID = TrimSpace (prSessionID req); deviceID = TrimSpace (prDeviceID req); clientType = TrimSpace (prClientType req)
      in if sessionID \<noteq> [] \<and> deviceID \<noteq> [] then lit ''session:'' @ sessionID @ lit ''|device:'' @ deviceID
         else if sessionID \<noteq> [] then lit ''session:'' @ sessionID
         else if deviceID \<noteq> [] then lit ''device:'' @ deviceID
         else if clientType \<noteq> [] then lit ''client:'' @ clientType
         else lit ''preview:anonymous'')"

text \<open>The bytes of a text: UTF-8, with the replacement character for what is no rune.\<close>

definition encodeRune :: "rune \<Rightarrow> byte list" where
  "encodeRune r0 =
     (let r = (if r0 < 0 \<or> r0 > 0x10FFFF \<or> 0xD800 \<le> r0 \<and> r0 \<le> 0xDFFF then 0xFFFD else r0)
      in if r < 0x80 then [of_int r]
         else if r < 0x800 then [of_int (0xC0 + r div 64), of_int (0x80 + r mod 64)]
         else if r < 0x10000 then [of_int (0xE0 + r div 4096), of_int (0x80 + r div 64 mod 64), of_int (0x80 + r mod 64)]
         else [of_int (0xF0 + r div 262144), of_int (0x80 + r div 4096 mod 64), of_int (0x80 + r div 64 mod 64), of_int (0x80 + r mod 64)])"

definition utf8 :: "gostring \<Rightarrow> byte list" where
  "utf8 t = concat (map encodeRune t)"

text \<open>The 32-bit FNV-1a hash: exclusive or with the byte, then a wrapping multiplication.\<close>

definition fnv1a :: "byte list \<Rightarrow> 32 word \<Rightarrow> 32 word" where
  "fnv1a bs h = fold (\<lambda>b h. xor h (ucast b) * 16777619) bs h"

definition semanticJudgeRolloutSalt :: gostring where "semanticJudgeRolloutSalt = lit ''voice.semantic_judge.rollout.v1''"

definition semanticJudgeRolloutBucket :: "InputPreviewRequest \<Rightarrow> int" where
  "semanticJudgeRolloutBucket req =
     uint (fnv1a (utf8 (semanticJudgeStickyKey req)) (fnv1a (utf8 (lit ''|'')) (fnv1a (utf8 semanticJudgeRolloutSalt) 2166136261)) mod 100)"

text \<open>\<open>configured\<close>: a judge is configured.\<close>

definition decideSemanticJudgeRollout :: "InputPreviewRequest \<Rightarrow> SemanticJudgeRolloutConfig \<Rightarrow> bool \<Rightarrow> semanticJudgeRolloutDecision" where
  "decideSemanticJudgeRollout req cfg0 configured =
     (let cfg = NormalizeSemanticJudgeRolloutConfig cfg0;
          sticky = (rcMode cfg = SemanticJudgeRolloutModeStickyPercent);
          bucket = (if sticky then semanticJudgeRolloutBucket req else -1);
          variant = (if rcMode cfg = SemanticJudgeRolloutModeSemantic then VariantSemantic
                     else if sticky \<and> bucket < clampSemanticJudgeRolloutPercent (rcPercentage cfg) then VariantSemantic
                     else VariantControl)
      in \<lparr>rdVariant = variant, rdEnabled = (variant = VariantSemantic \<and> configured), rdBucket = bucket\<rparr>)"

section \<open>Facts about the merge\<close>

text \<open>What a recomputation leaves alone, and what it makes of the signals.\<close>

lemma recompute_keeps [simp]:
  "arbSilenceMs (recomputeTurnArbitration sn a) = arbSilenceMs a"
  "arbAudioMs (recomputeTurnArbitration sn a) = arbAudioMs a"
  "arbMinAudioMs (recomputeTurnArbitration sn a) = arbMinAudioMs a"
  "arbRuleAdjustMs (recomputeTurnArbitration sn a) = arbRuleAdjustMs a"
  "arbPunctuationAdjustMs (recomputeTurnArbitration sn a) = arbPunctuationAdjustMs a"
  "arbSemanticWaitDeltaMs (recomputeTurnArbitration sn a) = arbSemanticWaitDeltaMs a"
  "arbSlotGuardAdjustMs (recomputeTurnArbitration sn a) = arbSlotGuardAdjustMs a"
  "arbDraftAllowed (recomputeTurnArbitration sn a) = arbDraftAllowed a"
  "arbPrewarmAllowed (recomputeTurnArbitration sn a) = arbPrewarmAllowed a"
  "arbSemanticIntent (recomputeTurnArbitration sn a) = arbSemanticIntent a"
  "arbSemanticSlotReadiness (recomputeTurnArbitration sn a) = arbSemanticSlotReadiness a"
  "arbSlotActionability (recomputeTurnArbitration sn a) = arbSlotActionability a"
  "arbSlotRiskLevel (recomputeTurnArbitration sn a) = arbSlotRiskLevel a"
  "arbSlotConstraintRequired (recomputeTurnArbitration sn a) = arbSlotConstraintRequired a"
  "arbTaskFamily (recomputeTurnArbitration sn a) = arbTaskFamily a"
  by (simp_all add: recomputeTurnArbitration_def Let_def del: firstNonEmpty.simps)

text \<open>The conditions under which a hypothesis is accepted: enough audio, some text, and the silence that the signals ask for.\<close>

definition accept_rule :: "InputPreview \<Rightarrow> TurnArbitration \<Rightarrow> bool" where
  "accept_rule snapshot a =
     (arbAcceptNow a = (arbCandidateReady a \<and> arbEffectiveWaitMs a \<le> arbSilenceMs a)
      \<and> arbCandidateReady a = (firstNonEmpty [pvStablePrefix snapshot, pvPartialText snapshot] \<noteq> []
          \<and> (if arbMinAudioMs a \<le> 0 then defaultTurnDetectorMinAudioMs else arbMinAudioMs a) \<le> arbAudioMs a)
      \<and> arbEffectiveWaitMs a = clampInt (arbBaseWaitMs a + arbRuleAdjustMs a + arbPunctuationAdjustMs a
          + arbSemanticWaitDeltaMs a + arbSlotGuardAdjustMs a) 120 900
      \<and> (arbStage a = AcceptNow \<longleftrightarrow> arbAcceptNow a)
      \<and> (arbStage a = DraftAllowed \<longrightarrow> arbDraftAllowed a))"

lemma recompute_accept_rule: "accept_rule sn (recomputeTurnArbitration sn a)"
  by (simp add: accept_rule_def recomputeTurnArbitration_def Let_def defaultTurnDetectorMinWaitMs_def
      defaultTurnDetectorMaxWaitMs_def trimmed_id [OF trimmed_firstNonEmpty] del: firstNonEmpty.simps)

lemma accept_rule_texts:
  "pvStablePrefix s = pvStablePrefix t \<Longrightarrow> pvPartialText s = pvPartialText t \<Longrightarrow> accept_rule s a = accept_rule t a"
  by (simp add: accept_rule_def del: firstNonEmpty.simps)

text \<open>The fields of a preview that no semantic signal may touch.\<close>

definition same_observation :: "InputPreview \<Rightarrow> InputPreview \<Rightarrow> bool" where
  "same_observation p q =
     (pvPartialText p = pvPartialText q \<and> pvStablePrefix p = pvStablePrefix q \<and> pvEndpointReason p = pvEndpointReason q
      \<and> pvAudioBytes p = pvAudioBytes q \<and> pvCommitSuggested p = pvCommitSuggested q \<and> pvSpeechStarted p = pvSpeechStarted q
      \<and> arbSilenceMs (pvArbitration p) = arbSilenceMs (pvArbitration q) \<and> arbAudioMs (pvArbitration p) = arbAudioMs (pvArbitration q)
      \<and> arbMinAudioMs (pvArbitration p) = arbMinAudioMs (pvArbitration q)
      \<and> arbRuleAdjustMs (pvArbitration p) = arbRuleAdjustMs (pvArbitration q)
      \<and> arbPunctuationAdjustMs (pvArbitration p) = arbPunctuationAdjustMs (pvArbitration q))"

lemma same_observation_refl [simp]: "same_observation p p"
  by (simp add: same_observation_def)

lemma same_observation_trans: "same_observation p q \<Longrightarrow> same_observation q r \<Longrightarrow> same_observation p r"
  by (simp add: same_observation_def)

lemma annotate_keeps [simp]:
  "arbSilenceMs (annotateJudgement sn j) = arbSilenceMs (pvArbitration sn)"
  "arbAudioMs (annotateJudgement sn j) = arbAudioMs (pvArbitration sn)"
  "arbMinAudioMs (annotateJudgement sn j) = arbMinAudioMs (pvArbitration sn)"
  "arbRuleAdjustMs (annotateJudgement sn j) = arbRuleAdjustMs (pvArbitration sn)"
  "arbPunctuationAdjustMs (annotateJudgement sn j) = arbPunctuationAdjustMs (pvArbitration sn)"
  "arbSlotGuardAdjustMs (annotateJudgement sn j) = arbSlotGuardAdjustMs (pvArbitration sn)"
  "arbDraftAllowed (annotateJudgement sn j) = arbDraftAllowed (pvArbitration sn)"
  "arbPrewarmAllowed (annotateJudgement sn j) = arbPrewarmAllowed (pvArbitration sn)"
  "arbSemanticConfidence (annotateJudgement sn j) = clampUnit (sjConfidence j)"
  "arbSemanticIntent (annotateJudgement sn j) = normalizeSemanticIntent (sjInterruptionIntent j)"
  "arbSemanticSlotReadiness (annotateJudgement sn j) = normalizeSemanticSlotReadinessHint (sjSlotReadinessHint j)"
  by (simp_all add: annotateJudgement_def)

lemma default_delta: "defaultSemanticWaitDelta j \<in> {-140, -120, -80, 0, 120, 180, 220, 320}"
  by (simp add: defaultSemanticWaitDelta_def Let_def)

lemma clamp_delta: "-600 \<le> clampSemanticWaitDeltaMs d \<and> clampSemanticWaitDeltaMs d \<le> 600"
  by (simp add: clampSemanticWaitDeltaMs_def)

lemma judged_delta: "-600 \<le> judgedWaitDelta j \<and> judgedWaitDelta j \<le> 600"
proof (cases "clampSemanticWaitDeltaMs (sjWaitDeltaMs j) = 0")
  case True
  then have "judgedWaitDelta j = defaultSemanticWaitDelta j" by (simp only: judgedWaitDelta_def Let_def simp_thms if_True)
  then show ?thesis using default_delta [of j] by auto
next
  case False
  then show ?thesis using clamp_delta [of "sjWaitDeltaMs j"] by (simp only: judgedWaitDelta_def Let_def if_False)
qed

lemma annotate_delta [simp]: "arbSemanticWaitDeltaMs (annotateJudgement sn j) = judgedWaitDelta j"
  by (simp add: annotateJudgement_def)

lemma mergeComplete_keeps [simp]:
  "arbSilenceMs (mergeComplete a) = arbSilenceMs a"
  "arbAudioMs (mergeComplete a) = arbAudioMs a"
  "arbMinAudioMs (mergeComplete a) = arbMinAudioMs a"
  "arbRuleAdjustMs (mergeComplete a) = arbRuleAdjustMs a"
  "arbPunctuationAdjustMs (mergeComplete a) = arbPunctuationAdjustMs a"
  "arbSlotGuardAdjustMs (mergeComplete a) = arbSlotGuardAdjustMs a"
  "arbSemanticWaitDeltaMs (mergeComplete a) = arbSemanticWaitDeltaMs a"
  "arbDraftAllowed (mergeComplete a) = completeDraft a"
  "arbPrewarmAllowed (mergeComplete a)"
  by (simp_all add: mergeComplete_def)

lemma mergeCorrection_keeps [simp]:
  "arbSilenceMs (mergeCorrection a) = arbSilenceMs a"
  "arbAudioMs (mergeCorrection a) = arbAudioMs a"
  "arbMinAudioMs (mergeCorrection a) = arbMinAudioMs a"
  "arbRuleAdjustMs (mergeCorrection a) = arbRuleAdjustMs a"
  "arbPunctuationAdjustMs (mergeCorrection a) = arbPunctuationAdjustMs a"
  "arbSemanticWaitDeltaMs (mergeCorrection a) = arbSemanticWaitDeltaMs a"
  "arbDraftAllowed (mergeCorrection a) = False"
  "arbPrewarmAllowed (mergeCorrection a) = arbPrewarmAllowed a"
  by (simp_all add: mergeCorrection_def)

text \<open>The three ways a judgement is merged.\<close>

lemma merge_judgement_cases:
  assumes "sjCandidateKey j \<noteq> []"
  obtains (plain) "mergeSemanticJudgement sn j = sn\<lparr>pvArbitration := recomputeTurnArbitration sn (annotateJudgement sn j)\<rparr>"
  | (correction) "semanticJudgeMediumConfidence \<le> clampUnit (sjConfidence j)" "sjUtteranceStatus j = SemanticUtteranceCorrection"
      "mergeSemanticJudgement sn j = sn\<lparr>pvUtteranceComplete := False, pvArbitration := recomputeTurnArbitration (sn\<lparr>pvUtteranceComplete := False\<rparr>)
         (mergeCorrection (annotateJudgement sn j))\<rparr>"
  | (complete) "semanticJudgeMediumConfidence \<le> clampUnit (sjConfidence j)" "sjUtteranceStatus j = SemanticUtteranceComplete"
      "normalizeSemanticIntent (sjInterruptionIntent j) \<noteq> SemanticIntentBackchannel"
      "mergeSemanticJudgement sn j = sn\<lparr>pvUtteranceComplete := True,
         pvArbitration := recomputeTurnArbitration (sn\<lparr>pvUtteranceComplete := True\<rparr>) (mergeComplete (annotateJudgement sn j))\<rparr>"
proof -
  let ?a = "annotateJudgement sn j"
  let ?trusted = "semanticJudgeMediumConfidence \<le> clampUnit (sjConfidence j)"
  consider (x) "?trusted" "sjUtteranceStatus j = SemanticUtteranceCorrection"
    | (y) "\<not> (?trusted \<and> sjUtteranceStatus j = SemanticUtteranceCorrection)" "?trusted"
        "sjUtteranceStatus j = SemanticUtteranceComplete" "normalizeSemanticIntent (sjInterruptionIntent j) \<noteq> SemanticIntentBackchannel"
    | (z) "\<not> (?trusted \<and> sjUtteranceStatus j = SemanticUtteranceCorrection)"
        "\<not> (?trusted \<and> sjUtteranceStatus j = SemanticUtteranceComplete \<and> normalizeSemanticIntent (sjInterruptionIntent j) \<noteq> SemanticIntentBackchannel)"
    by blast
  then show thesis
  proof cases
    case x
    from correction [OF x] x show thesis
      by (simp only: mergeSemanticJudgement_def Let_def assms annotate_keeps if_False if_True simp_thms prod.case)
  next
    case y
    from complete [OF y(2-4)] y show thesis
      by (simp only: mergeSemanticJudgement_def Let_def assms annotate_keeps if_False if_True simp_thms prod.case)
  next
    case z
    from plain z show thesis
      by (simp only: mergeSemanticJudgement_def Let_def assms annotate_keeps if_False if_True simp_thms prod.case)
  qed
qed

lemma merge_judgement_observation: "same_observation (mergeSemanticJudgement sn j) sn"
proof (cases "sjCandidateKey j = []")
  case True
  then show ?thesis by (simp add: mergeSemanticJudgement_def)
next
  case False
  show ?thesis by (rule merge_judgement_cases [OF False, of sn]) (simp_all add: same_observation_def)
qed

lemma merge_judgement_accept:
  assumes "sjCandidateKey j \<noteq> []"
  shows "accept_rule sn (pvArbitration (mergeSemanticJudgement sn j))"
proof -
  have keep: "accept_rule sn (recomputeTurnArbitration (sn\<lparr>pvUtteranceComplete := b\<rparr>) a)" for a b
    using recompute_accept_rule [of "sn\<lparr>pvUtteranceComplete := b\<rparr>" a] accept_rule_texts [of sn "sn\<lparr>pvUtteranceComplete := b\<rparr>"] by simp
  show ?thesis by (rule merge_judgement_cases [OF assms, of sn]) (simp_all add: recompute_accept_rule keep)
qed



definition sampleCorrection :: SemanticTurnJudgement where
  "sampleCorrection = zeroJudgement\<lparr>sjCandidateKey := lit ''k'', sjUtteranceStatus := SemanticUtteranceCorrection, sjConfidence := 1\<rparr>"

definition sampleDraftPreview :: InputPreview where
  "sampleDraftPreview = zeroPreview\<lparr>pvPartialText := lit ''turn on'', pvUtteranceComplete := True,
     pvArbitration := zeroArbitration\<lparr>arbDraftAllowed := True\<rparr>\<rparr>"


section \<open>Facts about the requests\<close>

text \<open>
  The key separates the hypotheses: two hypotheses without line breaks have the same key only when their trimmed
  texts agree.
\<close>

lemma dropWhile_newline: "10 \<notin> set xs \<Longrightarrow> dropWhile (\<lambda>r. r \<noteq> 10) (xs @ 10 # ys) = 10 # ys"
  by (induction xs) auto

lemma takeWhile_newline: "10 \<notin> set xs \<Longrightarrow> takeWhile (\<lambda>r. r \<noteq> 10) (xs @ 10 # ys) = xs"
  by (induction xs) auto

lemma semanticCandidateKey_inject:
  assumes "10 \<notin> set (TrimSpace s)" and "10 \<notin> set (TrimSpace s')"
    and eq: "semanticCandidateKey s t = semanticCandidateKey s' t'"
  shows "TrimSpace s = TrimSpace s' \<and> TrimSpace t = TrimSpace t'"
proof -
  have head: "TrimSpace s = TrimSpace s'"
    using arg_cong [OF eq, of "takeWhile (\<lambda>r. r \<noteq> 10)"] assms(1,2) by (simp add: semanticCandidateKey_def takeWhile_newline)
  with eq show ?thesis by (simp add: semanticCandidateKey_def)
qed

lemma semanticCandidateKey_nonempty [simp]: "semanticCandidateKey s t \<noteq> []"
  by (simp add: semanticCandidateKey_def)

text \<open>
  The steps that the poll and the answer goroutines take on the state of the requests: a poll may launch a request for
  a key, a request that was launched may be answered with a result for its key or be given up. Only requests that
  were launched and not yet settled can be settled; more than one can be under way.
\<close>

inductive request_step :: "('r \<Rightarrow> gostring) \<Rightarrow> gostring list \<times> 'r previewRequestState \<Rightarrow> gostring list \<times> 'r previewRequestState \<Rightarrow> bool"
  for keyOf where
  launch: "shouldLaunch keyOf key s = (True, s') \<Longrightarrow> request_step keyOf (pending, s) (key # pending, s')"
| refused: "shouldLaunch keyOf key s = (False, s') \<Longrightarrow> request_step keyOf (pending, s) (pending, s')"
| answer: "keyOf r \<in> set pending \<Longrightarrow> request_step keyOf (pending, s) (remove1 (keyOf r) pending, storeResult r s)"
| failed: "key \<in> set pending \<Longrightarrow> request_step keyOf (pending, s) (remove1 key pending, clearRequest s)"

lemma request_step_in_flight:
  assumes "request_step keyOf (p, s) (p', s')" and "rsEvaluating s \<Longrightarrow> rsLastRequestedKey s \<in> set p"
    and "rsEvaluating s'"
  shows "rsLastRequestedKey s' \<in> set p'"
  using assms by cases (auto simp: shouldLaunch_def storeResult_def clearRequest_def split: if_splits)

text \<open>What the answers leave behind: a request is reported in flight only while it is, and a result is a stored answer.\<close>

lemma request_steps_in_flight:
  assumes "(request_step keyOf)\<^sup>*\<^sup>* (p, s) (p', s')" and "\<not> rsEvaluating s" and "rsEvaluating s'"
  shows "rsLastRequestedKey s' \<in> set p'"
  using assms(1,3)
proof (induction rule: rtranclp_induct2)
  case refl
  with assms(2) show ?case by simp
next
  case (step p1 s1 p2 s2)
  show ?case by (rule request_step_in_flight [OF step.hyps(2) step.IH step.prems])
qed

text \<open>
  A late answer for an older hypothesis replaces the answer for the newer one: after requests for \<open>older\<close> and
  \<open>newer\<close> were launched and answered in the opposite order, the answer for the newer hypothesis is no longer found and
  the next poll asks the model for it again.
\<close>
theorem late_answer_evicts_newer:
  assumes "older \<noteq> []" "newer \<noteq> []" "older \<noteq> newer" "sjCandidateKey r1 = older" "sjCandidateKey r2 = newer"
  shows "\<exists>s1 s2. judgeShouldLaunch older newSemanticJudgeState = (True, s1) \<and> judgeShouldLaunch newer s1 = (True, s2)
    \<and> judgeResultFor newer (storeResult r2 s2) = Some r2
    \<and> fst (judgeShouldLaunch newer (storeResult r2 s2)) = False
    \<and> judgeResultFor newer (storeResult r1 (storeResult r2 s2)) = None
    \<and> fst (judgeShouldLaunch newer (storeResult r1 (storeResult r2 s2))) = True"
  using assms by (simp add: judgeShouldLaunch_def judgeResultFor_def shouldLaunch_def resultFor_def storeResult_def
      newSemanticJudgeState_def zeroJudgement_def)

theorem late_answer_evicts_newer_witness:
  "\<exists>s1 s2. judgeShouldLaunch (lit ''on'') newSemanticJudgeState = (True, s1) \<and> judgeShouldLaunch (lit ''one'') s1 = (True, s2)
    \<and> judgeResultFor (lit ''one'') (storeResult (zeroJudgement\<lparr>sjCandidateKey := lit ''on''\<rparr>)
        (storeResult (zeroJudgement\<lparr>sjCandidateKey := lit ''one''\<rparr>) s2)) = None"
  using late_answer_evicts_newer [of "lit ''on''" "lit ''one''" "zeroJudgement\<lparr>sjCandidateKey := lit ''on''\<rparr>"
      "zeroJudgement\<lparr>sjCandidateKey := lit ''one''\<rparr>"]
  by (auto simp: lit_def)

section \<open>Facts about the rollout\<close>

lemma rollout_bucket_range: "0 \<le> semanticJudgeRolloutBucket req \<and> semanticJudgeRolloutBucket req < 100"
  by (simp add: semanticJudgeRolloutBucket_def uint_mod)

definition stickyConfig :: "int \<Rightarrow> SemanticJudgeRolloutConfig" where
  "stickyConfig percent = \<lparr>rcMode = SemanticJudgeRolloutModeStickyPercent, rcPercentage = percent\<rparr>"

lemma normalize_modes [simp]:
  "NormalizeSemanticJudgeRolloutMode SemanticJudgeRolloutModeStickyPercent = SemanticJudgeRolloutModeStickyPercent"
  "NormalizeSemanticJudgeRolloutMode SemanticJudgeRolloutModeSemantic = SemanticJudgeRolloutModeSemantic"
  "NormalizeSemanticJudgeRolloutMode SemanticJudgeRolloutModeControl = SemanticJudgeRolloutModeControl"
  by code_simp+

lemma modes_distinct [simp]:
  "SemanticJudgeRolloutModeStickyPercent \<noteq> SemanticJudgeRolloutModeSemantic" "SemanticJudgeRolloutModeSemantic \<noteq> SemanticJudgeRolloutModeStickyPercent"
  by code_simp+

lemma decide_sticky:
  "rdVariant (decideSemanticJudgeRollout req (stickyConfig p) b) =
     (if semanticJudgeRolloutBucket req < clampSemanticJudgeRolloutPercent p then VariantSemantic else VariantControl)"
  by (simp add: decideSemanticJudgeRollout_def stickyConfig_def NormalizeSemanticJudgeRolloutConfig_def Let_def)

text \<open>
  The percentage rollout is sticky and monotone: the client's bucket lies in the range from 0 to 99; raising the
  percentage never takes the judge away from a client, so that the clients of a smaller share stay in the larger one;
  0 per cent reaches none and 100 per cent all of them; and without a configured judge nobody is enabled.
\<close>
theorem rollout_monotone:
  "0 \<le> semanticJudgeRolloutBucket req \<and> semanticJudgeRolloutBucket req < 100
   \<and> (p \<le> q \<and> rdVariant (decideSemanticJudgeRollout req (stickyConfig p) b) = VariantSemantic \<longrightarrow>
        rdVariant (decideSemanticJudgeRollout req (stickyConfig q) b) = VariantSemantic)
   \<and> (p \<le> 0 \<longrightarrow> rdVariant (decideSemanticJudgeRollout req (stickyConfig p) b) = VariantControl)
   \<and> (100 \<le> q \<longrightarrow> rdVariant (decideSemanticJudgeRollout req (stickyConfig q) b) = VariantSemantic)
   \<and> (rdEnabled (decideSemanticJudgeRollout req cfg b) \<longrightarrow> b)
   \<and> (\<not> IsSupportedSemanticJudgeRolloutMode (rcMode cfg) \<longrightarrow> rdVariant (decideSemanticJudgeRollout req cfg b) = VariantControl)"
proof -
  note range = rollout_bucket_range [of req]
  have enabled: "rdEnabled (decideSemanticJudgeRollout req cfg b) \<longrightarrow> b"
    by (simp add: decideSemanticJudgeRollout_def Let_def)
  have unsupported: "\<not> IsSupportedSemanticJudgeRolloutMode (rcMode cfg) \<longrightarrow> rdVariant (decideSemanticJudgeRollout req cfg b) = VariantControl"
    by (simp add: IsSupportedSemanticJudgeRolloutMode_def decideSemanticJudgeRollout_def NormalizeSemanticJudgeRolloutConfig_def Let_def)
  show ?thesis using range enabled unsupported by (auto simp: decide_sticky clampSemanticJudgeRolloutPercent_def split: if_splits)
qed

definition samplePreviewRequest :: InputPreviewRequest where
  "samplePreviewRequest = \<lparr>prSessionID = lit ''s-1'', prDeviceID = lit ''d-1'', prClientType = [], prCodec = lit ''pcm16le'',
     prSampleRateHz = 16000, prChannels = 1, prLanguage = []\<rparr>"

theorem rollout_monotone_witness:
  "rdVariant (decideSemanticJudgeRollout samplePreviewRequest (stickyConfig 0) True) = VariantControl
   \<and> rdVariant (decideSemanticJudgeRollout samplePreviewRequest (stickyConfig 100) True) = VariantSemantic"
  using rollout_monotone [of samplePreviewRequest 0 100 True "stickyConfig 0"] by simp

end
