(* ===== verification/Semantic_Slots.thy ===== *)
theory Semantic_Slots
  imports Semantic_Judge "HOL-Library.List_Lexorder"
begin

text \<open>
  The slot parser of a preview, \<open>internal/voice/semantic_slot_parser.go\<close>, \<open>semantic_slot_profiles.go\<close> and
  \<open>slot_value_normalizer.go\<close>: decoding of the model's answer, the merge into a preview, the normalisation of values
  spoken in digits or Chinese numerals, and the gate that asks for confirmation of risky targets. The prompts are not
  modelled. The two regular expressions are written as the leftmost, greedy search that Go's engine performs; a Go map
  used as a set of labels is the list of its keys, sorted where the code sorts it.
\<close>

section \<open>Data\<close>

definition defaultSemanticSlotParserTimeout :: duration where "defaultSemanticSlotParserTimeout = 280 * Millisecond"
definition defaultSemanticSlotParserMinRunes :: int where "defaultSemanticSlotParserMinRunes = 4"
definition defaultSemanticSlotParserMinStableFor :: duration where "defaultSemanticSlotParserMinStableFor = 160 * Millisecond"

definition SemanticSlotDomainUnknown :: gostring where "SemanticSlotDomainUnknown = lit ''unknown''"
definition SemanticSlotDomainSmartHome :: gostring where "SemanticSlotDomainSmartHome = lit ''smart_home''"
definition SemanticSlotDomainDesktopAssistant :: gostring where "SemanticSlotDomainDesktopAssistant = lit ''desktop_assistant''"
definition SemanticSlotDomainGeneralChat :: gostring where "SemanticSlotDomainGeneralChat = lit ''general_chat''"

definition SemanticSlotStatusUnknown :: gostring where "SemanticSlotStatusUnknown = lit ''unknown''"
definition SemanticSlotStatusPartial :: gostring where "SemanticSlotStatusPartial = lit ''partial''"
definition SemanticSlotStatusComplete :: gostring where "SemanticSlotStatusComplete = lit ''complete''"
definition SemanticSlotStatusAmbiguous :: gostring where "SemanticSlotStatusAmbiguous = lit ''ambiguous''"
definition SemanticSlotStatusNotApplicable :: gostring where "SemanticSlotStatusNotApplicable = lit ''not_applicable''"

definition SemanticSlotActionabilityObserveOnly :: gostring where "SemanticSlotActionabilityObserveOnly = lit ''observe_only''"
definition SemanticSlotActionabilityWaitMore :: gostring where "SemanticSlotActionabilityWaitMore = lit ''wait_more''"
definition SemanticSlotActionabilityDraftOK :: gostring where "SemanticSlotActionabilityDraftOK = lit ''draft_ok''"
definition SemanticSlotActionabilityClarifyNeeded :: gostring where "SemanticSlotActionabilityClarifyNeeded = lit ''clarify_needed''"
definition SemanticSlotActionabilityActCandidate :: gostring where "SemanticSlotActionabilityActCandidate = lit ''act_candidate''"

record SemanticSlotParseRequest =
  spqSessionID :: gostring
  spqDeviceID :: gostring
  spqClientType :: gostring
  spqPartialText :: gostring
  spqStablePrefix :: gostring
  spqAudioMs :: int
  spqStability :: float64
  spqStableForMs :: int
  spqTurnStage :: TurnArbitrationStage
  spqEndpointHinted :: bool
  spqSemanticIntent :: gostring
  spqPromptProfile :: gostring
  spqPromptHints :: "gostring list"

record SemanticSlotParseResult =
  slCandidateKey :: gostring
  slPartialText :: gostring
  slStablePrefix :: gostring
  slDomain :: gostring
  slTaskFamily :: gostring
  slIntent :: gostring
  slSlotStatus :: gostring
  slActionability :: gostring
  slClarifyNeeded :: bool
  slGrounded :: bool
  slCanonicalTarget :: gostring
  slCanonicalLocation :: gostring
  slNormalizedValue :: gostring
  slNormalizedValueUnit :: gostring
  slRiskLevel :: gostring
  slRiskReason :: gostring
  slRiskConfirmRequired :: bool
  slMissingSlots :: "gostring list"
  slAmbiguousSlots :: "gostring list"
  slConfidence :: float64
  slReason :: gostring
  slSource :: gostring

record semanticSlotParserJSON =
  pjDomain :: gostring
  pjTaskFamily :: gostring
  pjIntent :: gostring
  pjSlotStatus :: gostring
  pjActionability :: gostring
  pjClarifyNeeded :: bool
  pjMissingSlots :: "gostring list"
  pjAmbiguousSlots :: "gostring list"
  pjConfidence :: float64
  pjReason :: gostring

definition zeroSlotResult :: SemanticSlotParseResult where
  "zeroSlotResult = \<lparr>slCandidateKey = [], slPartialText = [], slStablePrefix = [], slDomain = [], slTaskFamily = [], slIntent = [],
     slSlotStatus = [], slActionability = [], slClarifyNeeded = False, slGrounded = False, slCanonicalTarget = [],
     slCanonicalLocation = [], slNormalizedValue = [], slNormalizedValueUnit = [], slRiskLevel = [], slRiskReason = [],
     slRiskConfirmRequired = False, slMissingSlots = [], slAmbiguousSlots = [], slConfidence = 0, slReason = [], slSource = []\<rparr>"

section \<open>Normalisation\<close>

definition normalizeSemanticSlotDomain :: "gostring \<Rightarrow> gostring" where
  "normalizeSemanticSlotDomain value =
     (let v = ToLower (TrimSpace value)
      in if v \<in> {SemanticSlotDomainSmartHome, SemanticSlotDomainDesktopAssistant, SemanticSlotDomainGeneralChat}
         then v else SemanticSlotDomainUnknown)"

definition normalizeSemanticSlotStatus :: "gostring \<Rightarrow> gostring" where
  "normalizeSemanticSlotStatus value =
     (let v = ToLower (TrimSpace value)
      in if v \<in> {SemanticSlotStatusPartial, SemanticSlotStatusComplete, SemanticSlotStatusAmbiguous, SemanticSlotStatusNotApplicable}
         then v else SemanticSlotStatusUnknown)"

definition normalizeSemanticSlotActionability :: "gostring \<Rightarrow> gostring" where
  "normalizeSemanticSlotActionability value =
     (let v = ToLower (TrimSpace value)
      in if v \<in> {SemanticSlotActionabilityWaitMore, SemanticSlotActionabilityDraftOK, SemanticSlotActionabilityClarifyNeeded,
            SemanticSlotActionabilityActCandidate}
         then v else SemanticSlotActionabilityObserveOnly)"

definition normalizeSemanticSlotLabel :: "gostring \<Rightarrow> gostring \<Rightarrow> gostring" where
  "normalizeSemanticSlotLabel value fallback =
     (let v = normalizeSemanticReason value in if v = semanticUnknown then fallback else v)"

text \<open>The loop over a list with a set of the values seen: the first occurrences, in order.\<close>

fun keepFirst :: "gostring list \<Rightarrow> gostring list \<Rightarrow> gostring list" where
  "keepFirst seen [] = []"
| "keepFirst seen (x # xs) = (if x \<in> set seen then keepFirst seen xs else x # keepFirst (x # seen) xs)"

definition normalizeSemanticSlotList :: "gostring list \<Rightarrow> gostring list" where
  "normalizeSemanticSlotList values =
     keepFirst [] (filter (\<lambda>l. l \<noteq> [] \<and> l \<noteq> semanticUnknown) (map (\<lambda>v. normalizeSemanticSlotLabel v []) values))"

text \<open>\<open>semanticSlotListSet\<close> and \<open>semanticSlotListFromSet\<close> (entity_catalog.go): the keys, and the keys in the order of \<open>sort.Strings\<close>.\<close>

definition semanticSlotListSet :: "gostring list \<Rightarrow> gostring list" where
  "semanticSlotListSet values = normalizeSemanticSlotList values"

definition semanticSlotListFromSet :: "gostring list \<Rightarrow> gostring list" where
  "semanticSlotListFromSet keys = sort keys"

definition setDelete :: "gostring \<Rightarrow> gostring list \<Rightarrow> gostring list" where
  "setDelete key keys = filter (\<lambda>k. k \<noteq> key) keys"

definition setInsert :: "gostring \<Rightarrow> gostring list \<Rightarrow> gostring list" where
  "setInsert key keys = (if key \<in> set keys then keys else keys @ [key])"

section \<open>The answer of the model\<close>

definition decodeSemanticSlotParseResult ::
    "(gostring \<Rightarrow> gostring + semanticSlotParserJSON) \<Rightarrow> gostring \<Rightarrow> judge_error + SemanticSlotParseResult" where
  "decodeSemanticSlotParseResult unmarshal raw0 =
     (let raw = TrimSpace raw0
      in if raw = [] then Inl JudgeEmpty
         else case jsonObject raw of
           None \<Rightarrow> Inl (JudgeNoJson raw)
         | Some object \<Rightarrow>
             (case unmarshal object of
                Inl e \<Rightarrow> Inl (JudgeBadJson e)
              | Inr d \<Rightarrow> Inr (zeroSlotResult\<lparr>
                  slDomain := normalizeSemanticSlotDomain (pjDomain d),
                  slTaskFamily := normalizeSemanticTaskFamily (pjTaskFamily d),
                  slIntent := normalizeSemanticSlotLabel (pjIntent d) (lit ''unknown''),
                  slSlotStatus := normalizeSemanticSlotStatus (pjSlotStatus d),
                  slActionability := normalizeSemanticSlotActionability (pjActionability d),
                  slClarifyNeeded := pjClarifyNeeded d,
                  slMissingSlots := normalizeSemanticSlotList (pjMissingSlots d),
                  slAmbiguousSlots := normalizeSemanticSlotList (pjAmbiguousSlots d),
                  slConfidence := clampUnit (pjConfidence d),
                  slReason := normalizeSemanticReason (pjReason d)\<rparr>)))"

type_synonym SemanticSlotParser = "SemanticSlotParseRequest \<Rightarrow> judge_error + SemanticSlotParseResult"

text \<open>The model may read the whole request (through the prompts); \<open>None\<close>: no model is configured.\<close>

definition ParsePreview ::
    "(gostring \<Rightarrow> gostring + semanticSlotParserJSON) \<Rightarrow> (SemanticSlotParseRequest \<Rightarrow> gostring + gostring) option \<Rightarrow> SemanticSlotParser" where
  "ParsePreview unmarshal model req =
     (case model of
        None \<Rightarrow> Inl JudgeNoModel
      | Some ask \<Rightarrow>
          (case ask req of
             Inl e \<Rightarrow> Inl (JudgeModelFailed e)
           | Inr t \<Rightarrow>
               (case decodeSemanticSlotParseResult unmarshal t of
                  Inl e \<Rightarrow> Inl e
                | Inr r \<Rightarrow> Inr (r\<lparr>slCandidateKey := semanticCandidateKey (spqStablePrefix req) (spqPartialText req),
                    slPartialText := TrimSpace (spqPartialText req), slStablePrefix := TrimSpace (spqStablePrefix req),
                    slSource := (if slSource r = [] then lit ''llm_semantic_slot_parser'' else slSource r)\<rparr>))))"

section \<open>Prompt profiles and hints\<close>

definition BuiltInEntityCatalogProfileSeedCompanion :: gostring where
  "BuiltInEntityCatalogProfileSeedCompanion = lit ''seed_companion''"

definition normalizeSemanticSlotPromptProfile :: "gostring \<Rightarrow> gostring" where
  "normalizeSemanticSlotPromptProfile profile =
     (let v = ToLower (TrimSpace profile)
      in if v \<in> {[], lit ''off'', lit ''none'', lit ''disabled''} then []
         else if v \<in> {lit ''seed'', lit ''demo'', BuiltInEntityCatalogProfileSeedCompanion} then BuiltInEntityCatalogProfileSeedCompanion
         else v)"

definition normalizeSemanticSlotPromptHints :: "gostring list \<Rightarrow> gostring list" where
  "normalizeSemanticSlotPromptHints hints = keepFirst [] (filter (\<lambda>l. l \<noteq> []) (map TrimSpace hints))"

definition mergeSemanticSlotPromptHints :: "gostring list \<Rightarrow> gostring list \<Rightarrow> gostring list" where
  "mergeSemanticSlotPromptHints base extra =
     (let merged = normalizeSemanticSlotPromptHints base
      in merged @ keepFirst merged (normalizeSemanticSlotPromptHints extra))"

definition profileAwareParsePreview :: "gostring \<Rightarrow> gostring list \<Rightarrow> SemanticSlotParser \<Rightarrow> SemanticSlotParser" where
  "profileAwareParsePreview promptProfile promptHints inner req =
     inner (req\<lparr>spqPromptProfile := (if TrimSpace (spqPromptProfile req) = [] then promptProfile else spqPromptProfile req),
                spqPromptHints := mergeSemanticSlotPromptHints (spqPromptHints req) promptHints\<rparr>)"

definition NewProfileAwareSemanticSlotParser :: "SemanticSlotParser option \<Rightarrow> gostring \<Rightarrow> gostring list \<Rightarrow> SemanticSlotParser option" where
  "NewProfileAwareSemanticSlotParser inner profile0 hints0 =
     (let profile = normalizeSemanticSlotPromptProfile profile0; hints = normalizeSemanticSlotPromptHints hints0
      in case inner of
           None \<Rightarrow> None
         | Some parser \<Rightarrow> if profile = [] \<and> hints = [] then Some parser else Some (profileAwareParsePreview profile hints parser))"

section \<open>When slots are parsed\<close>

type_synonym previewSemanticSlotParserState = "SemanticSlotParseResult previewRequestState"

definition newSemanticSlotParserState :: previewSemanticSlotParserState where
  "newSemanticSlotParserState = \<lparr>rsEvaluating = False, rsLastRequestedKey = [], rsLastResult = zeroSlotResult\<rparr>"

definition slotShouldLaunch :: "gostring \<Rightarrow> previewSemanticSlotParserState \<Rightarrow> bool \<times> previewSemanticSlotParserState" where
  "slotShouldLaunch = shouldLaunch slCandidateKey"

definition slotResultFor :: "gostring \<Rightarrow> previewSemanticSlotParserState \<Rightarrow> SemanticSlotParseResult option" where
  "slotResultFor = resultFor slCandidateKey"

definition shouldParseSemanticSlots :: "InputPreview \<Rightarrow> int \<Rightarrow> duration \<Rightarrow> bool" where
  "shouldParseSemanticSlots snapshot minRunes0 minStableFor =
     (let bestText = TrimSpace (firstNonEmpty [pvStablePrefix snapshot, pvPartialText snapshot]);
          minRunes = (if minRunes0 \<le> 0 then defaultSemanticSlotParserMinRunes else minRunes0);
          a = pvArbitration snapshot
      in if bestText = [] then False
         else if int (length bestText) < minRunes then False
         else if arbSemanticIntent a = SemanticIntentBackchannel \<and> arbSemanticConfidence a \<ge> semanticJudgeMediumConfidence then False
         else if arbSlotConstraintRequired a \<and> arbCandidateReady a then True
         else if arbStableForMs a * Millisecond \<ge> minStableFor then True
         else if inferLexicalTaskFamily bestText = SemanticTaskFamilyStructuredCommand \<and> arbCandidateReady a then True
         else if arbDraftAllowed a \<or> arbAcceptCandidate a \<or> arbAcceptNow a then True
         else if arbSemanticComplete a then True
         else pvUtteranceComplete snapshot)"

section \<open>Merging a parse\<close>

definition inferSlotTaskFamily :: "InputPreview \<Rightarrow> SemanticSlotParseResult \<Rightarrow> gostring" where
  "inferSlotTaskFamily snapshot result =
     (let family = normalizeSemanticTaskFamily (slTaskFamily result);
          domain = normalizeSemanticSlotDomain (slDomain result);
          lexical = inferLexicalTaskFamily (firstNonEmpty [pvPartialText snapshot, pvStablePrefix snapshot])
      in if family \<noteq> SemanticTaskFamilyUnknown then family
         else if domain = SemanticSlotDomainGeneralChat then
           (if lexical = SemanticTaskFamilyKnowledgeQuery then SemanticTaskFamilyKnowledgeQuery else SemanticTaskFamilyDialogue)
         else if domain = SemanticSlotDomainSmartHome \<or> domain = SemanticSlotDomainDesktopAssistant then
           (if Contains (ToLower (TrimSpace (slIntent result))) (lit ''query'') then SemanticTaskFamilyStructuredQuery
            else if normalizeSemanticSlotActionability (slActionability result) = SemanticSlotActionabilityObserveOnly
              \<and> normalizeSemanticSlotStatus (slSlotStatus result) = SemanticSlotStatusNotApplicable then SemanticTaskFamilyStructuredQuery
            else SemanticTaskFamilyStructuredCommand)
         else if arbSemanticIntent (pvArbitration snapshot) = SemanticIntentQuestion then SemanticTaskFamilyKnowledgeQuery
         else lexical)"

definition SemanticRiskLevelUnknown :: gostring where "SemanticRiskLevelUnknown = lit ''unknown''"
definition SemanticRiskLevelLow :: gostring where "SemanticRiskLevelLow = lit ''low''"
definition SemanticRiskLevelMedium :: gostring where "SemanticRiskLevelMedium = lit ''medium''"
definition SemanticRiskLevelHigh :: gostring where "SemanticRiskLevelHigh = lit ''high''"

definition normalizeSemanticRiskLevel :: "gostring \<Rightarrow> gostring" where
  "normalizeSemanticRiskLevel value =
     (let v = ToLower (TrimSpace value)
      in if v \<in> {SemanticRiskLevelLow, SemanticRiskLevelMedium, SemanticRiskLevelHigh} then v else SemanticRiskLevelUnknown)"

text \<open>The fields taken over from a parse whatever its confidence.\<close>

definition annotateSlots :: "InputPreview \<Rightarrow> SemanticSlotParseResult \<Rightarrow> TurnArbitration" where
  "annotateSlots snapshot result =
     (pvArbitration snapshot)\<lparr>arbSlotReady := True, arbSlotComplete := (slSlotStatus result = SemanticSlotStatusComplete),
        arbSlotGrounded := slGrounded result, arbSlotDomain := normalizeSemanticSlotDomain (slDomain result),
        arbTaskFamily := inferSlotTaskFamily snapshot result,
        arbSlotConstraintRequired := taskFamilyRequiresSlotReadiness (inferSlotTaskFamily snapshot result),
        arbSlotIntent := normalizeSemanticSlotLabel (slIntent result) (lit ''unknown''),
        arbSlotStatus := normalizeSemanticSlotStatus (slSlotStatus result),
        arbSlotActionability := normalizeSemanticSlotActionability (slActionability result),
        arbSlotReason := normalizeSemanticReason (slReason result), arbSlotSource := TrimSpace (slSource result),
        arbSlotConfidence := clampUnit (slConfidence result), arbSlotClarifyNeeded := slClarifyNeeded result,
        arbSlotCanonicalTarget := TrimSpace (slCanonicalTarget result), arbSlotCanonicalLocation := TrimSpace (slCanonicalLocation result),
        arbSlotNormalizedValue := TrimSpace (slNormalizedValue result), arbSlotNormalizedValueUnit := TrimSpace (slNormalizedValueUnit result),
        arbSlotRiskLevel := normalizeSemanticRiskLevel (slRiskLevel result), arbSlotRiskReason := normalizeSemanticReason (slRiskReason result),
        arbSlotRiskConfirmRequired := slRiskConfirmRequired result, arbSlotMissing := normalizeSemanticSlotList (slMissingSlots result),
        arbSlotAmbiguous := normalizeSemanticSlotList (slAmbiguousSlots result)\<rparr>"

definition allowSlotDraft :: "TurnArbitration \<Rightarrow> TurnArbitration" where
  "allowSlotDraft a =
     a\<lparr>arbPrewarmAllowed := True, arbDraftAllowed := True, arbStage := raiseToDraft (arbStage a),
       arbReason := (if TrimSpace (arbReason a) = [] then lit ''slot_'' @ arbSlotActionability a else arbReason a)\<rparr>"

definition holdForSlots :: "TurnArbitration \<Rightarrow> TurnArbitration" where
  "holdForSlots a =
     a\<lparr>arbDraftAllowed := False,
       arbStage := (if arbStage a = DraftAllowed then (if arbPrewarmAllowed a then PrewarmAllowed else WaitForMore) else arbStage a),
       arbReason := (if TrimSpace (arbReason a) = [] then lit ''slot_wait_more'' else arbReason a)\<rparr>"

definition mergeSlotActionability :: "TurnArbitration \<Rightarrow> TurnArbitration" where
  "mergeSlotActionability a =
     (if arbSlotConfidence a < semanticJudgeMediumConfidence then a
      else if arbSlotActionability a \<in> {SemanticSlotActionabilityDraftOK, SemanticSlotActionabilityClarifyNeeded,
          SemanticSlotActionabilityActCandidate} then allowSlotDraft a
      else if arbSlotActionability a = SemanticSlotActionabilityWaitMore then holdForSlots a
      else a)"

definition mergeSemanticSlotParse :: "InputPreview \<Rightarrow> SemanticSlotParseResult \<Rightarrow> InputPreview" where
  "mergeSemanticSlotParse snapshot result =
     (if slCandidateKey result = [] then snapshot
      else
        let a = mergeSlotActionability (annotateSlots snapshot result);
            b = a\<lparr>arbSlotGuardAdjustMs := slotGuardAdjustMs a\<rparr>
        in snapshot\<lparr>pvArbitration := recomputeTurnArbitration snapshot b\<rparr>)"

section \<open>Values\<close>

text \<open>\<open>strconv.Atoi\<close>.\<close>

definition is_digit :: "rune \<Rightarrow> bool" where
  "is_digit r \<longleftrightarrow> 48 \<le> r \<and> r \<le> 57"

definition Atoi :: "gostring \<Rightarrow> int option" where
  "Atoi s =
     (let signed = (s \<noteq> [] \<and> (hd s = 43 \<or> hd s = 45)); ds = (if signed then tl s else s);
          m = foldl (\<lambda>acc r. 10 * acc + (r - 48)) 0 ds; v = (if signed \<and> hd s = 45 then - m else m)
      in if ds = [] \<or> \<not> list_all is_digit ds \<or> v < - (2 ^ 63) \<or> 2 ^ 63 \<le> v then None else Some v)"

definition numeralValue :: "rune \<Rightarrow> int option" where
  "numeralValue r = map_of [(0x96F6, 0), (0x4E00, 1), (0x4E8C, 2), (0x4E24, 2), (0x4E09, 3), (0x56DB, 4), (0x4E94, 5), (0x516D, 6), (0x4E03, 7), (0x516B, 8), (0x4E5D, 9)] r"

definition runeTen :: rune where "runeTen = 0x5341"
definition runeHundred :: rune where "runeHundred = 0x767E"

text \<open>The first two parts that \<open>strings.Split\<close> makes at a rune that occurs in the text.\<close>

definition splitAt :: "rune \<Rightarrow> gostring \<Rightarrow> gostring \<times> gostring" where
  "splitAt r s = (takeWhile (\<lambda>x. x \<noteq> r) s, takeWhile (\<lambda>x. x \<noteq> r) (tl (dropWhile (\<lambda>x. x \<noteq> r) s)))"

definition leadingNumeral :: "int \<Rightarrow> gostring \<Rightarrow> int option" where
  "leadingNumeral fallback part = (if TrimSpace part = [] then Some fallback else numeralValue (hd part))"

function parseLooseChineseNumber :: "gostring \<Rightarrow> int option" where
  "parseLooseChineseNumber raw0 =
     (let raw = TrimSpace raw0
      in if raw = [] then None
         else case Atoi raw of
           Some v \<Rightarrow> Some v
         | None \<Rightarrow>
             (if raw = [runeTen] then Some 10
              else if runeHundred \<in> set raw then
                (let (before, after) = splitAt runeHundred raw
                 in case leadingNumeral 1 before of
                      None \<Rightarrow> None
                    | Some hundred \<Rightarrow>
                        (if TrimSpace after = [] then Some (hundred * 100)
                         else case parseLooseChineseNumber after of
                           None \<Rightarrow> None
                         | Some rest \<Rightarrow> Some (int64 (hundred * 100 + rest))))
              else if runeTen \<in> set raw then
                (let (before, after) = splitAt runeTen raw
                 in case leadingNumeral 1 before of
                      None \<Rightarrow> None
                    | Some tens \<Rightarrow> map_option (\<lambda>ones. tens * 10 + ones) (leadingNumeral 0 after))
              else if length raw = 1 then numeralValue (hd raw)
              else None))"
  by pat_completeness auto

lemma splitAt_shorter: "r \<in> set s \<Longrightarrow> splitAt r s = (a, b) \<Longrightarrow> length b < length s"
proof -
  assume "r \<in> set s" "splitAt r s = (a, b)"
  then have "dropWhile (\<lambda>x. x \<noteq> r) s \<noteq> []" "b = takeWhile (\<lambda>x. x \<noteq> r) (tl (dropWhile (\<lambda>x. x \<noteq> r) s))"
    by (auto simp: splitAt_def)
  moreover have "length (dropWhile (\<lambda>x. x \<noteq> r) s) \<le> length s" by (rule length_dropWhile_le)
  moreover have "length (takeWhile (\<lambda>x. x \<noteq> r) (tl (dropWhile (\<lambda>x. x \<noteq> r) s))) \<le> length (tl (dropWhile (\<lambda>x. x \<noteq> r) s))"
    by (rule length_takeWhile_le)
  ultimately show "length b < length s" by (cases "dropWhile (\<lambda>x. x \<noteq> r) s") auto
qed

lemma length_TrimSpace: "length (TrimSpace s) \<le> length s"
proof -
  have right: "length (trim_right P t) \<le> length t" for P and t :: gostring
    unfolding trim_right_def by (metis length_dropWhile_le length_rev)
  have left: "length (trim_left P t) \<le> length t" for P and t :: gostring
    unfolding trim_left_def by (rule length_dropWhile_le)
  show ?thesis unfolding TrimSpace_def by (meson left right order_trans)
qed

termination parseLooseChineseNumber
proof (relation "measure length", goal_cases)
  case 1
  then show ?case by simp
next
  case (2 raw0 x x2 xa y)
  then have "length y < length (TrimSpace raw0)" using splitAt_shorter [of runeHundred "TrimSpace raw0" xa y] by auto
  moreover have "length (TrimSpace raw0) \<le> length raw0" by (rule length_TrimSpace)
  ultimately show ?case by simp
qed

declare parseLooseChineseNumber.simps [simp del]

text \<open>
  A group \<open>[class]{1,n}\<close> followed by a pattern, tried greedily at the start of a text, and the leftmost match of such a
  search.
\<close>

definition greedyGroup :: "(rune \<Rightarrow> bool) \<Rightarrow> nat \<Rightarrow> (gostring \<Rightarrow> bool) \<Rightarrow> gostring \<Rightarrow> gostring option" where
  "greedyGroup cls n follows s =
     map_option (\<lambda>k. take k s) (find (\<lambda>k. k \<le> length (takeWhile cls s) \<and> follows (drop k s)) (rev [1..<Suc n]))"

fun leftmost :: "(gostring \<Rightarrow> gostring option) \<Rightarrow> gostring \<Rightarrow> gostring option" where
  "leftmost at0 [] = at0 []"
| "leftmost at0 (r # s) = (case at0 (r # s) of Some g \<Rightarrow> Some g | None \<Rightarrow> leftmost at0 s)"

definition re_space :: "rune \<Rightarrow> bool" where
  "re_space r \<longleftrightarrow> r \<in> {9, 10, 12, 13, 32}"

definition temperatureNumeral :: "rune \<Rightarrow> bool" where
  "temperatureNumeral r \<longleftrightarrow> numeralValue r \<noteq> None \<or> r = runeTen"

definition percentNumeral :: "rune \<Rightarrow> bool" where
  "percentNumeral r \<longleftrightarrow> temperatureNumeral r \<or> r = runeHundred"

definition degreeFollows :: "gostring \<Rightarrow> bool" where
  "degreeFollows s = (let t = dropWhile re_space s in t \<noteq> [] \<and> hd t \<in> {0x5EA6, 0x2103})"

definition temperatureAt :: "gostring \<Rightarrow> gostring option" where
  "temperatureAt s =
     (case greedyGroup is_digit 2 degreeFollows s of Some g \<Rightarrow> Some g | None \<Rightarrow> greedyGroup temperatureNumeral 4 degreeFollows s)"

definition numberAt :: "gostring \<Rightarrow> gostring option" where
  "numberAt s =
     (case greedyGroup is_digit 3 (\<lambda>_. True) s of Some g \<Rightarrow> Some g | None \<Rightarrow> greedyGroup percentNumeral 5 (\<lambda>_. True) s)"

definition percentPrefix :: gostring where "percentPrefix = [0x767E, 0x5206, 0x4E4B]"

definition percentAt :: "gostring \<Rightarrow> gostring option" where
  "percentAt s =
     (case (if HasPrefix s percentPrefix then numberAt (dropWhile re_space (drop (length percentPrefix) s)) else None) of
        Some g \<Rightarrow> Some g
      | None \<Rightarrow> numberAt s)"

record normalizedSemanticValue =
  nvValue :: gostring
  nvUnit :: gostring

definition noValue :: normalizedSemanticValue where "noValue = \<lparr>nvValue = [], nvUnit = []\<rparr>"

definition containsAny :: "gostring \<Rightarrow> gostring list \<Rightarrow> bool" where
  "containsAny t tokens = list_ex (Contains t) tokens"

definition modeTokens :: "(gostring \<times> gostring) list" where
  "modeTokens = [([0x6696, 0x767D], lit ''warm_white''),
     ([0x51B7, 0x767D], lit ''cool_white''),
     ([0x7761, 0x7720, 0x6A21, 0x5F0F], lit ''sleep''),
     ([0x89C2, 0x5F71, 0x6A21, 0x5F0F], lit ''movie''),
     ([0x81EA, 0x52A8, 0x6A21, 0x5F0F], lit ''auto''),
     ([0x9759, 0x97F3], lit ''mute'')]"

definition clampPercent :: "int \<Rightarrow> int" where
  "clampPercent v = (if v < 0 then 0 else if v > 100 then 100 else v)"

definition percentValue :: "gostring \<Rightarrow> int option" where
  "percentValue t =
     (if Contains t [37] \<or> Contains t [0xFF05] \<or> Contains t percentPrefix \<or> containsAny t [[0x4EAE, 0x5EA6], [0x97F3, 0x91CF]]
      then Option.bind (leftmost percentAt t) parseLooseChineseNumber else None)"

definition detectSmartHomeNormalizedValue :: "gostring \<Rightarrow> normalizedSemanticValue" where
  "detectSmartHomeNormalizedValue text0 =
     (let t = TrimSpace text0
      in if t = [] then noValue
         else case find (\<lambda>(token, value). Contains t token) modeTokens of
           Some (token, value) \<Rightarrow> \<lparr>nvValue = value, nvUnit = lit ''mode''\<rparr>
         | None \<Rightarrow>
             (if Contains t [0x6700, 0x4EAE] then \<lparr>nvValue = lit ''100'', nvUnit = lit ''percentage''\<rparr>
              else if Contains t [0x6700, 0x6697] \<or> Contains t [0x6700, 0x5C0F] then \<lparr>nvValue = lit ''0'', nvUnit = lit ''percentage''\<rparr>
              else case Option.bind (leftmost temperatureAt t) parseLooseChineseNumber of
                Some v \<Rightarrow> \<lparr>nvValue = Itoa v, nvUnit = lit ''temperature_celsius''\<rparr>
              | None \<Rightarrow>
                  (case percentValue t of
                     Some v \<Rightarrow> \<lparr>nvValue = Itoa (clampPercent v), nvUnit = lit ''percentage''\<rparr>
                   | None \<Rightarrow>
                       (if Contains t [0x5927, 0x4E00, 0x70B9] \<or> Contains t [0x9AD8, 0x4E00, 0x70B9] then \<lparr>nvValue = lit ''+10'', nvUnit = lit ''delta_percentage''\<rparr>
                        else if Contains t [0x5C0F, 0x4E00, 0x70B9] \<or> Contains t [0x4F4E, 0x4E00, 0x70B9] then \<lparr>nvValue = lit ''-10'', nvUnit = lit ''delta_percentage''\<rparr>
                        else noValue))))"

definition unsetReason :: "gostring \<Rightarrow> bool" where
  "unsetReason reason \<longleftrightarrow> reason = [] \<or> reason = semanticUnknown \<or> HasPrefix reason (lit ''missing_'')"

definition completeWithValue :: "SemanticSlotParseResult \<Rightarrow> SemanticSlotParseResult" where
  "completeWithValue result =
     result\<lparr>slSlotStatus := SemanticSlotStatusComplete,
       slActionability := (if slActionability result \<in> {SemanticSlotActionabilityObserveOnly, SemanticSlotActionabilityDraftOK,
           SemanticSlotActionabilityClarifyNeeded} then SemanticSlotActionabilityActCandidate else slActionability result),
       slClarifyNeeded := False,
       slReason := (if unsetReason (slReason result) then lit ''value_normalized'' else slReason result)\<rparr>"

definition normalizeSemanticSlotValue :: "SemanticSlotParseRequest \<Rightarrow> SemanticSlotParseResult \<Rightarrow> SemanticSlotParseResult" where
  "normalizeSemanticSlotValue req result =
     (let t = TrimSpace (firstNonEmpty [spqPartialText req, spqStablePrefix req]);
          v = detectSmartHomeNormalizedValue t
      in if t = [] then result
         else if normalizeSemanticSlotDomain (slDomain result) \<noteq> SemanticSlotDomainSmartHome then result
         else if nvValue v = [] then result
         else
           let r = result\<lparr>slNormalizedValue := nvValue v, slNormalizedValueUnit := nvUnit v,
                     slMissingSlots := semanticSlotListFromSet (setDelete (lit ''value'') (semanticSlotListSet (slMissingSlots result)))\<rparr>
           in if slMissingSlots r = [] \<and> slAmbiguousSlots r = []
                 \<and> (slGrounded r \<or> slCanonicalTarget r \<noteq> [] \<or> slCanonicalLocation r \<noteq> [])
              then completeWithValue r else r)"

section \<open>Risk\<close>

definition riskRank :: "gostring \<Rightarrow> int" where
  "riskRank level =
     (if level = SemanticRiskLevelLow then 1 else if level = SemanticRiskLevelMedium then 2
      else if level = SemanticRiskLevelHigh then 3 else 0)"

definition strongerSemanticRiskLevel :: "gostring \<Rightarrow> gostring \<Rightarrow> gostring" where
  "strongerSemanticRiskLevel left0 right0 =
     (let left = normalizeSemanticRiskLevel left0; right = normalizeSemanticRiskLevel right0
      in if riskRank right > riskRank left then right else left)"

definition detectSemanticRisk :: "SemanticSlotParseResult \<Rightarrow> gostring \<times> gostring" where
  "detectSemanticRisk result =
     (let level = normalizeSemanticRiskLevel (slRiskLevel result)
      in if level \<noteq> SemanticRiskLevelUnknown then
           (level, if level = SemanticRiskLevelHigh then lit ''catalog_high_risk_target''
                   else if level = SemanticRiskLevelMedium then lit ''catalog_medium_risk_target'' else lit ''catalog_low_risk_target'')
         else (SemanticRiskLevelUnknown, []))"

definition confirmHighRisk :: "gostring \<Rightarrow> SemanticSlotParseResult \<Rightarrow> SemanticSlotParseResult" where
  "confirmHighRisk riskReason result =
     (let r = result\<lparr>slRiskConfirmRequired := True\<rparr>
      in if slActionability r \<in> {SemanticSlotActionabilityActCandidate, SemanticSlotActionabilityDraftOK} then
           r\<lparr>slActionability := SemanticSlotActionabilityClarifyNeeded, slClarifyNeeded := True,
             slReason := (if slReason r \<in> {[], semanticUnknown, lit ''catalog_target_grounded'', lit ''value_normalized''}
                          then riskReason else slReason r)\<rparr>
         else r)"

definition applySemanticSlotRiskGating :: "SemanticSlotParseResult \<Rightarrow> SemanticSlotParseResult" where
  "applySemanticSlotRiskGating result =
     (let (level, riskReason) = detectSemanticRisk result
      in if level = SemanticRiskLevelUnknown then result
         else
           let r = result\<lparr>slRiskLevel := strongerSemanticRiskLevel (slRiskLevel result) level,
                     slRiskReason := (if slRiskReason result \<in> {[], semanticUnknown} then riskReason else slRiskReason result)\<rparr>
           in if level = SemanticRiskLevelHigh then confirmHighRisk riskReason r else r)"

definition postProcessSemanticSlotResult :: "SemanticSlotParseRequest \<Rightarrow> SemanticSlotParseResult \<Rightarrow> SemanticSlotParseResult" where
  "postProcessSemanticSlotResult req result = applySemanticSlotRiskGating (normalizeSemanticSlotValue req result)"

section \<open>Facts about the merge\<close>

lemma annotateSlots_keeps [simp]:
  "arbSilenceMs (annotateSlots sn r) = arbSilenceMs (pvArbitration sn)"
  "arbAudioMs (annotateSlots sn r) = arbAudioMs (pvArbitration sn)"
  "arbMinAudioMs (annotateSlots sn r) = arbMinAudioMs (pvArbitration sn)"
  "arbRuleAdjustMs (annotateSlots sn r) = arbRuleAdjustMs (pvArbitration sn)"
  "arbPunctuationAdjustMs (annotateSlots sn r) = arbPunctuationAdjustMs (pvArbitration sn)"
  "arbSemanticWaitDeltaMs (annotateSlots sn r) = arbSemanticWaitDeltaMs (pvArbitration sn)"
  "arbDraftAllowed (annotateSlots sn r) = arbDraftAllowed (pvArbitration sn)"
  "arbSlotConfidence (annotateSlots sn r) = clampUnit (slConfidence r)"
  "arbSlotActionability (annotateSlots sn r) = normalizeSemanticSlotActionability (slActionability r)"
  "arbSlotRiskConfirmRequired (annotateSlots sn r) = slRiskConfirmRequired r"
  by (simp_all add: annotateSlots_def)

lemma mergeSlotActionability_keeps [simp]:
  "arbSilenceMs (mergeSlotActionability a) = arbSilenceMs a"
  "arbAudioMs (mergeSlotActionability a) = arbAudioMs a"
  "arbMinAudioMs (mergeSlotActionability a) = arbMinAudioMs a"
  "arbRuleAdjustMs (mergeSlotActionability a) = arbRuleAdjustMs a"
  "arbPunctuationAdjustMs (mergeSlotActionability a) = arbPunctuationAdjustMs a"
  "arbSemanticWaitDeltaMs (mergeSlotActionability a) = arbSemanticWaitDeltaMs a"
  "arbSlotActionability (mergeSlotActionability a) = arbSlotActionability a"
  "arbSlotRiskConfirmRequired (mergeSlotActionability a) = arbSlotRiskConfirmRequired a"
  by (simp_all add: mergeSlotActionability_def allowSlotDraft_def holdForSlots_def)

lemma merge_slots_observation: "same_observation (mergeSemanticSlotParse sn r) sn"
  by (simp add: same_observation_def mergeSemanticSlotParse_def Let_def)

lemma merge_slots_accept:
  "slCandidateKey r \<noteq> [] \<Longrightarrow> accept_rule sn (pvArbitration (mergeSemanticSlotParse sn r))"
  by (simp add: mergeSemanticSlotParse_def Let_def recompute_accept_rule)

lemma merge_slots_complete [simp]: "pvUtteranceComplete (mergeSemanticSlotParse sn r) = pvUtteranceComplete sn"
  by (simp add: mergeSemanticSlotParse_def Let_def)

text \<open>A parse that still waits for a slot forbids drafting; one with low confidence leaves the permission as it was.\<close>

lemma merge_slots_draft:
  assumes "slCandidateKey r \<noteq> []"
  shows "arbDraftAllowed (pvArbitration (mergeSemanticSlotParse sn r)) =
    (if clampUnit (slConfidence r) < semanticJudgeMediumConfidence then arbDraftAllowed (pvArbitration sn)
     else if normalizeSemanticSlotActionability (slActionability r) \<in> {SemanticSlotActionabilityDraftOK,
         SemanticSlotActionabilityClarifyNeeded, SemanticSlotActionabilityActCandidate} then True
     else if normalizeSemanticSlotActionability (slActionability r) = SemanticSlotActionabilityWaitMore then False
     else arbDraftAllowed (pvArbitration sn))"
  using assms by (simp add: mergeSemanticSlotParse_def Let_def mergeSlotActionability_def allowSlotDraft_def holdForSlots_def)

section \<open>Facts about lists of labels\<close>

lemma keepFirst_set: "set (keepFirst seen xs) = set xs - set seen"
  by (induction seen xs rule: keepFirst.induct) auto

lemma keepFirst_distinct: "distinct (keepFirst seen xs)"
  by (induction seen xs rule: keepFirst.induct) (auto simp: keepFirst_set)

lemma keepFirst_subseq: "subseq (keepFirst seen xs) xs"
  by (induction seen xs rule: keepFirst.induct) auto

lemma slot_list_distinct [simp]: "distinct (normalizeSemanticSlotList xs)"
  by (simp add: normalizeSemanticSlotList_def keepFirst_distinct)

lemma prompt_hints_distinct: "distinct (mergeSemanticSlotPromptHints base extra)"
  by (auto simp: mergeSemanticSlotPromptHints_def normalizeSemanticSlotPromptHints_def Let_def keepFirst_distinct keepFirst_set)

text \<open>
  The request's own hints come first and unchanged in order; the profile adds the ones that are missing; nothing is lost.
\<close>

lemma prompt_hints_set:
  "set (mergeSemanticSlotPromptHints base extra) = {TrimSpace h | h. h \<in> set base \<union> set extra \<and> TrimSpace h \<noteq> []}"
  by (auto simp: mergeSemanticSlotPromptHints_def normalizeSemanticSlotPromptHints_def Let_def keepFirst_set)

section \<open>Facts about risk\<close>

lemmas slot_labels = SemanticSlotActionabilityObserveOnly_def SemanticSlotActionabilityWaitMore_def SemanticSlotActionabilityDraftOK_def
  SemanticSlotActionabilityClarifyNeeded_def SemanticSlotActionabilityActCandidate_def

lemmas risk_labels = SemanticRiskLevelUnknown_def SemanticRiskLevelLow_def SemanticRiskLevelMedium_def SemanticRiskLevelHigh_def

lemma risk_levels_distinct [simp]:
  "SemanticRiskLevelHigh \<noteq> SemanticRiskLevelUnknown" "SemanticRiskLevelMedium \<noteq> SemanticRiskLevelUnknown"
  "SemanticRiskLevelLow \<noteq> SemanticRiskLevelUnknown" "SemanticRiskLevelLow \<noteq> SemanticRiskLevelMedium"
  "SemanticRiskLevelLow \<noteq> SemanticRiskLevelHigh" "SemanticRiskLevelMedium \<noteq> SemanticRiskLevelHigh"
  by (simp_all add: risk_labels lit_def)

lemmas risk_levels_distinct' [simp] = risk_levels_distinct [symmetric]

lemma normalize_risk_cases:
  "normalizeSemanticRiskLevel v \<in> {SemanticRiskLevelUnknown, SemanticRiskLevelLow, SemanticRiskLevelMedium, SemanticRiskLevelHigh}"
  by (simp add: normalizeSemanticRiskLevel_def Let_def)

lemma normalize_risk_labels [simp]:
  "normalizeSemanticRiskLevel SemanticRiskLevelUnknown = SemanticRiskLevelUnknown"
  "normalizeSemanticRiskLevel SemanticRiskLevelLow = SemanticRiskLevelLow"
  "normalizeSemanticRiskLevel SemanticRiskLevelMedium = SemanticRiskLevelMedium"
  "normalizeSemanticRiskLevel SemanticRiskLevelHigh = SemanticRiskLevelHigh"
  by code_simp+

lemma normalize_risk_idem [simp]: "normalizeSemanticRiskLevel (normalizeSemanticRiskLevel v) = normalizeSemanticRiskLevel v"
  using normalize_risk_cases [of v] by auto

lemma risk_rank_labels [simp]:
  "riskRank SemanticRiskLevelUnknown = 0" "riskRank SemanticRiskLevelLow = 1" "riskRank SemanticRiskLevelMedium = 2"
  "riskRank SemanticRiskLevelHigh = 3"
  by code_simp+

text \<open>The stronger of two levels is their join in the order of the ranks.\<close>

lemma stronger_is_join:
  "riskRank (strongerSemanticRiskLevel a b) = max (riskRank (normalizeSemanticRiskLevel a)) (riskRank (normalizeSemanticRiskLevel b))"
  by (simp add: strongerSemanticRiskLevel_def Let_def)

lemma stronger_normal [simp]: "normalizeSemanticRiskLevel (strongerSemanticRiskLevel a b) = strongerSemanticRiskLevel a b"
  by (simp add: strongerSemanticRiskLevel_def Let_def)

lemma stronger_high: "strongerSemanticRiskLevel a b = SemanticRiskLevelHigh \<longleftrightarrow>
    normalizeSemanticRiskLevel a = SemanticRiskLevelHigh \<or> normalizeSemanticRiskLevel b = SemanticRiskLevelHigh"
  using normalize_risk_cases [of a] normalize_risk_cases [of b] by (auto simp: strongerSemanticRiskLevel_def)

text \<open>A result may be acted on, or drafted, without asking the user.\<close>

definition unguarded :: "SemanticSlotParseResult \<Rightarrow> bool" where
  "unguarded r \<longleftrightarrow> slActionability r \<in> {SemanticSlotActionabilityActCandidate, SemanticSlotActionabilityDraftOK}"

lemma risk_gate:
  assumes "normalizeSemanticRiskLevel (slRiskLevel (applySemanticSlotRiskGating r)) = SemanticRiskLevelHigh"
  shows "slRiskConfirmRequired (applySemanticSlotRiskGating r) \<and> \<not> unguarded (applySemanticSlotRiskGating r)"
proof -
  have high: "normalizeSemanticRiskLevel (slRiskLevel r) = SemanticRiskLevelHigh"
  proof (rule ccontr)
    assume "\<not> ?thesis"
    with assms show False using normalize_risk_cases [of "slRiskLevel r"]
      by (auto simp: applySemanticSlotRiskGating_def detectSemanticRisk_def Let_def stronger_high)
  qed
  then have eq: "applySemanticSlotRiskGating r = confirmHighRisk (lit ''catalog_high_risk_target'')
      (r\<lparr>slRiskLevel := strongerSemanticRiskLevel (slRiskLevel r) SemanticRiskLevelHigh,
         slRiskReason := (if slRiskReason r \<in> {[], semanticUnknown} then lit ''catalog_high_risk_target'' else slRiskReason r)\<rparr>)"
    by (simp add: applySemanticSlotRiskGating_def detectSemanticRisk_def)
  have "SemanticSlotActionabilityClarifyNeeded \<notin> {SemanticSlotActionabilityActCandidate, SemanticSlotActionabilityDraftOK}"
    by (simp add: slot_labels lit_def)
  then show ?thesis unfolding eq by (simp add: confirmHighRisk_def Let_def unguarded_def)
qed

lemma gating_level [simp]: "normalizeSemanticRiskLevel (slRiskLevel (applySemanticSlotRiskGating r)) = normalizeSemanticRiskLevel (slRiskLevel r)"
  using normalize_risk_cases [of "slRiskLevel r"]
  by (auto simp: applySemanticSlotRiskGating_def detectSemanticRisk_def confirmHighRisk_def Let_def strongerSemanticRiskLevel_def)

lemma normalizeValue_risk [simp]: "slRiskLevel (normalizeSemanticSlotValue req r) = slRiskLevel r"
  by (simp add: normalizeSemanticSlotValue_def completeWithValue_def Let_def)

section \<open>Facts about values\<close>

text \<open>Numbers below one hundred as they are written in Chinese.\<close>

definition chineseDigit :: "nat \<Rightarrow> rune" where
  "chineseDigit n = [0x96F6, 0x4E00, 0x4E8C, 0x4E09, 0x56DB, 0x4E94, 0x516D, 0x4E03, 0x516B, 0x4E5D] ! n"

definition chineseNumber :: "nat \<Rightarrow> gostring" where
  "chineseNumber n =
     (if n < 10 then [chineseDigit n]
      else (if n div 10 = 1 then [] else [chineseDigit (n div 10)]) @ [runeTen] @ (if n mod 10 = 0 then [] else [chineseDigit (n mod 10)]))"

lemma parse_chinese_numbers: "list_all (\<lambda>n. parseLooseChineseNumber (chineseNumber n) = Some (int n)) [0..<100]"
  by code_simp

lemma spoken_percentages:
  "list_all (\<lambda>n. detectSmartHomeNormalizedValue (percentPrefix @ chineseNumber n) = \<lparr>nvValue = Itoa (int n), nvUnit = lit ''percentage''\<rparr>) [0..<100]"
  by code_simp

lemma written_percentages:
  "list_all (\<lambda>n. detectSmartHomeNormalizedValue (Itoa (int n) @ [37]) = \<lparr>nvValue = Itoa (int n), nvUnit = lit ''percentage''\<rparr>) [0..<101]"
  by code_simp

lemma spoken_temperatures:
  "list_all (\<lambda>n. detectSmartHomeNormalizedValue (chineseNumber n @ [0x5EA6]) = \<lparr>nvValue = Itoa (int n), nvUnit = lit ''temperature_celsius''\<rparr>) [0..<100]"
  by code_simp

text \<open>
  Spoken and written numbers are read back exactly: every number below one hundred in Chinese numerals parses to
  itself, alone, as a percentage after the spoken prefix and as a temperature before the degree sign; every percentage
  from 0 to 100 in digits as well.
\<close>
theorem spoken_numbers_roundtrip:
  assumes "n < 100"
  shows "parseLooseChineseNumber (chineseNumber n) = Some (int n)
    \<and> detectSmartHomeNormalizedValue (percentPrefix @ chineseNumber n) = \<lparr>nvValue = Itoa (int n), nvUnit = lit ''percentage''\<rparr>
    \<and> detectSmartHomeNormalizedValue (chineseNumber n @ [0x5EA6]) = \<lparr>nvValue = Itoa (int n), nvUnit = lit ''temperature_celsius''\<rparr>
    \<and> detectSmartHomeNormalizedValue (Itoa (int n) @ [37]) = \<lparr>nvValue = Itoa (int n), nvUnit = lit ''percentage''\<rparr>"
proof -
  from assms have n: "n \<in> set [0..<100]" "n \<in> set [0..<101]" by simp_all
  show ?thesis
    using parse_chinese_numbers spoken_percentages spoken_temperatures written_percentages n unfolding list_all_iff by blast
qed

theorem spoken_numbers_roundtrip_witness:
  "parseLooseChineseNumber (chineseNumber 26) = Some 26
    \<and> detectSmartHomeNormalizedValue (chineseNumber 26 @ [0x5EA6]) = \<lparr>nvValue = Itoa 26, nvUnit = lit ''temperature_celsius''\<rparr>"
  using spoken_numbers_roundtrip [of 26] by simp

text \<open>
  A relative adjustment of brightness or volume is read as an absolute percentage: the pattern for percentages
  needs neither a percent sign nor the spoken prefix, so the numeral one in the words for \<open>a little\<close> is taken for one per cent,
  while the same words without brightness or volume mean a change by ten per cent. For the same reason the number of a
  lamp named first is taken instead of the percentage.
\<close>
theorem relative_adjustment_read_as_absolute:
  "detectSmartHomeNormalizedValue [0x4EAE, 0x5EA6, 0x8C03, 0x9AD8, 0x4E00, 0x70B9] = \<lparr>nvValue = lit ''1'', nvUnit = lit ''percentage''\<rparr>
   \<and> detectSmartHomeNormalizedValue [0x97F3, 0x91CF, 0x5C0F, 0x4E00, 0x70B9] = \<lparr>nvValue = lit ''1'', nvUnit = lit ''percentage''\<rparr>
   \<and> detectSmartHomeNormalizedValue [0x8C03, 0x9AD8, 0x4E00, 0x70B9] = \<lparr>nvValue = lit ''+10'', nvUnit = lit ''delta_percentage''\<rparr>
   \<and> detectSmartHomeNormalizedValue ([0x4E8C, 0x53F7, 0x706F, 0x4EAE, 0x5EA6, 0x8C03, 0x5230] @ lit ''50%'') = \<lparr>nvValue = lit ''2'', nvUnit = lit ''percentage''\<rparr>"
  by code_simp

end
