(* ===== verification/Entity_Catalog.thy ===== *)
theory Entity_Catalog
  imports Semantic_Slots "HOL-Library.Product_Lexorder"
begin

text \<open>
  The entity catalogue, \<open>internal/voice/entity_catalog.go\<close>: matching the names of rooms, devices and applications in a
  hypothesis, preferring what the session used recently, and grounding the slots of a parse in the catalogue. The
  store of recent entities is passed along explicitly; its mutex makes every access atomic. \<open>isMark\<close> stands for
  \<open>unicode.IsPunct\<close> or \<open>unicode.IsSymbol\<close>; every theorem holds for any such table. Where the code sorts the values of
  a map by a key that distinguishes them, the model sorts the list of its entries by the same key.
\<close>

section \<open>The catalogue\<close>

definition entityNamespaceSmartHome :: gostring where "entityNamespaceSmartHome = lit ''smart_home''"
definition entityNamespaceDesktopAssistant :: gostring where "entityNamespaceDesktopAssistant = lit ''desktop_assistant''"
definition entityTypeRoom :: gostring where "entityTypeRoom = lit ''room''"
definition entityTypeDevice :: gostring where "entityTypeDevice = lit ''device''"
definition entityTypeDeviceGroup :: gostring where "entityTypeDeviceGroup = lit ''device_group''"
definition entityTypeApp :: gostring where "entityTypeApp = lit ''app''"

record EntityCatalogItem =
  eiEntityID :: gostring
  eiNamespace :: gostring
  eiEntityType :: gostring
  eiCanonicalName :: gostring
  eiRoomID :: gostring
  eiDeviceGroup :: gostring
  eiRiskLevel :: gostring
  eiAliases :: "gostring list"
  eiCommonMisrecognitions :: "gostring list"

type_synonym EntityCatalog = "EntityCatalogItem list"

definition cloneStringSlice :: "gostring list \<Rightarrow> gostring list" where
  "cloneStringSlice values = filter (\<lambda>v. v \<noteq> []) (map TrimSpace values)"

definition trimItem :: "EntityCatalogItem \<Rightarrow> EntityCatalogItem" where
  "trimItem item =
     \<lparr>eiEntityID = TrimSpace (eiEntityID item), eiNamespace = TrimSpace (eiNamespace item), eiEntityType = TrimSpace (eiEntityType item),
      eiCanonicalName = TrimSpace (eiCanonicalName item), eiRoomID = TrimSpace (eiRoomID item), eiDeviceGroup = TrimSpace (eiDeviceGroup item),
      eiRiskLevel = normalizeSemanticRiskLevel (eiRiskLevel item), eiAliases = cloneStringSlice (eiAliases item),
      eiCommonMisrecognitions = cloneStringSlice (eiCommonMisrecognitions item)\<rparr>"

definition NewEntityCatalog :: "EntityCatalogItem list \<Rightarrow> EntityCatalog" where
  "NewEntityCatalog items =
     filter (\<lambda>i. eiEntityID i \<noteq> [] \<and> eiNamespace i \<noteq> [] \<and> eiEntityType i \<noteq> [] \<and> eiCanonicalName i \<noteq> []) (map trimItem items)"

definition itemByID :: "EntityCatalog \<Rightarrow> gostring \<Rightarrow> EntityCatalogItem option" where
  "itemByID catalog entityID0 =
     (let entityID = TrimSpace entityID0 in if entityID = [] then None else find (\<lambda>i. eiEntityID i = entityID) catalog)"

definition DefaultSeedEntityCatalog :: EntityCatalog where
  "DefaultSeedEntityCatalog = NewEntityCatalog
     [\<lparr>eiEntityID = lit ''room_living_room'', eiNamespace = entityNamespaceSmartHome, eiEntityType = entityTypeRoom, eiCanonicalName = [0x5BA2, 0x5385], eiRoomID = [], eiDeviceGroup = [], eiRiskLevel = [], eiAliases = [[0x5BA2, 0x5385], [0x5927, 0x5385]], eiCommonMisrecognitions = []\<rparr>,
      \<lparr>eiEntityID = lit ''room_study'', eiNamespace = entityNamespaceSmartHome, eiEntityType = entityTypeRoom, eiCanonicalName = [0x4E66, 0x623F], eiRoomID = [], eiDeviceGroup = [], eiRiskLevel = [], eiAliases = [[0x4E66, 0x623F]], eiCommonMisrecognitions = []\<rparr>,
      \<lparr>eiEntityID = lit ''room_bedroom'', eiNamespace = entityNamespaceSmartHome, eiEntityType = entityTypeRoom, eiCanonicalName = [0x5367, 0x5BA4], eiRoomID = [], eiDeviceGroup = [], eiRiskLevel = [], eiAliases = [[0x5367, 0x5BA4], [0x4E3B, 0x5367]], eiCommonMisrecognitions = []\<rparr>,
      \<lparr>eiEntityID = lit ''device_group_living_room_light'', eiNamespace = entityNamespaceSmartHome, eiEntityType = entityTypeDeviceGroup, eiCanonicalName = [0x5BA2, 0x5385, 0x706F], eiRoomID = lit ''room_living_room'', eiDeviceGroup = lit ''light'', eiRiskLevel = [], eiAliases = [[0x5BA2, 0x5385, 0x706F], [0x5BA2, 0x5385, 0x4E3B, 0x706F], [0x706F]], eiCommonMisrecognitions = []\<rparr>,
      \<lparr>eiEntityID = lit ''device_living_room_downlight'', eiNamespace = entityNamespaceSmartHome, eiEntityType = entityTypeDevice, eiCanonicalName = [0x5BA2, 0x5385, 0x7B52, 0x706F], eiRoomID = lit ''room_living_room'', eiDeviceGroup = lit ''light'', eiRiskLevel = [], eiAliases = [[0x5BA2, 0x5385, 0x7B52, 0x706F], [0x7B52, 0x706F]], eiCommonMisrecognitions = [[0x540C, 0x706F]]\<rparr>,
      \<lparr>eiEntityID = lit ''device_group_study_light'', eiNamespace = entityNamespaceSmartHome, eiEntityType = entityTypeDeviceGroup, eiCanonicalName = [0x4E66, 0x623F, 0x706F], eiRoomID = lit ''room_study'', eiDeviceGroup = lit ''light'', eiRiskLevel = [], eiAliases = [[0x4E66, 0x623F, 0x706F], [0x53F0, 0x706F], [0x706F]], eiCommonMisrecognitions = []\<rparr>,
      \<lparr>eiEntityID = lit ''device_group_living_room_air_conditioner'', eiNamespace = entityNamespaceSmartHome, eiEntityType = entityTypeDeviceGroup, eiCanonicalName = [0x5BA2, 0x5385, 0x7A7A, 0x8C03], eiRoomID = lit ''room_living_room'', eiDeviceGroup = lit ''air_conditioner'', eiRiskLevel = [], eiAliases = [[0x5BA2, 0x5385, 0x7A7A, 0x8C03], [0x7A7A, 0x8C03]], eiCommonMisrecognitions = []\<rparr>,
      \<lparr>eiEntityID = lit ''device_group_bedroom_air_conditioner'', eiNamespace = entityNamespaceSmartHome, eiEntityType = entityTypeDeviceGroup, eiCanonicalName = [0x5367, 0x5BA4, 0x7A7A, 0x8C03], eiRoomID = lit ''room_bedroom'', eiDeviceGroup = lit ''air_conditioner'', eiRiskLevel = [], eiAliases = [[0x5367, 0x5BA4, 0x7A7A, 0x8C03], [0x4E3B, 0x5367, 0x7A7A, 0x8C03], [0x7A7A, 0x8C03]], eiCommonMisrecognitions = []\<rparr>,
      \<lparr>eiEntityID = lit ''device_group_living_room_curtain'', eiNamespace = entityNamespaceSmartHome, eiEntityType = entityTypeDeviceGroup, eiCanonicalName = [0x5BA2, 0x5385, 0x7A97, 0x5E18], eiRoomID = lit ''room_living_room'', eiDeviceGroup = lit ''curtain'', eiRiskLevel = [], eiAliases = [[0x5BA2, 0x5385, 0x7A97, 0x5E18], [0x7A97, 0x5E18]], eiCommonMisrecognitions = []\<rparr>,
      \<lparr>eiEntityID = lit ''device_group_study_curtain'', eiNamespace = entityNamespaceSmartHome, eiEntityType = entityTypeDeviceGroup, eiCanonicalName = [0x4E66, 0x623F, 0x7A97, 0x5E18], eiRoomID = lit ''room_study'', eiDeviceGroup = lit ''curtain'', eiRiskLevel = [], eiAliases = [[0x4E66, 0x623F, 0x7A97, 0x5E18], [0x7A97, 0x5E18]], eiCommonMisrecognitions = []\<rparr>,
      \<lparr>eiEntityID = lit ''device_group_entry_door_lock'', eiNamespace = entityNamespaceSmartHome, eiEntityType = entityTypeDeviceGroup, eiCanonicalName = [0x5165, 0x6237, 0x95E8, 0x9501], eiRoomID = [], eiDeviceGroup = lit ''door_lock'', eiRiskLevel = SemanticRiskLevelHigh, eiAliases = [[0x5165, 0x6237, 0x95E8, 0x9501], [0x95E8, 0x9501], [0x5927, 0x95E8, 0x9501]], eiCommonMisrecognitions = []\<rparr>,
      \<lparr>eiEntityID = lit ''app_vscode'', eiNamespace = entityNamespaceDesktopAssistant, eiEntityType = entityTypeApp, eiCanonicalName = lit ''Visual Studio Code'', eiRoomID = [], eiDeviceGroup = [], eiRiskLevel = [], eiAliases = [lit ''vscode'', lit ''vs code'', lit ''visual studio code'', [0x4EE3, 0x7801, 0x7F16, 0x8F91, 0x5668]], eiCommonMisrecognitions = []\<rparr>,
      \<lparr>eiEntityID = lit ''app_browser'', eiNamespace = entityNamespaceDesktopAssistant, eiEntityType = entityTypeApp, eiCanonicalName = [0x6D4F, 0x89C8, 0x5668], eiRoomID = [], eiDeviceGroup = [], eiRiskLevel = [], eiAliases = [[0x6D4F, 0x89C8, 0x5668], lit ''chrome'', [0x8C37, 0x6B4C, 0x6D4F, 0x89C8, 0x5668]], eiCommonMisrecognitions = []\<rparr>,
      \<lparr>eiEntityID = lit ''app_terminal'', eiNamespace = entityNamespaceDesktopAssistant, eiEntityType = entityTypeApp, eiCanonicalName = [0x7EC8, 0x7AEF], eiRoomID = [], eiDeviceGroup = [], eiRiskLevel = [], eiAliases = [[0x7EC8, 0x7AEF], lit ''terminal'', [0x547D, 0x4EE4, 0x884C]], eiCommonMisrecognitions = []\<rparr>]"

section \<open>What a session used recently\<close>

record entityCatalogSessionContext =
  cxLastNamespace :: gostring
  cxLastRoomID :: gostring
  cxLastEntityID :: gostring
  cxLastDeviceGroup :: gostring
  cxRecentEntityIDs :: "gostring list"
  cxRecentRoomIDs :: "gostring list"

definition zeroContext :: entityCatalogSessionContext where
  "zeroContext = \<lparr>cxLastNamespace = [], cxLastRoomID = [], cxLastEntityID = [], cxLastDeviceGroup = [], cxRecentEntityIDs = [], cxRecentRoomIDs = []\<rparr>"

type_synonym entityCatalogRecentStore = "gostring \<Rightarrow> entityCatalogSessionContext option"

text \<open>The loop that copies the other values until the limit is reached.\<close>

fun appendOthers :: "gostring \<Rightarrow> nat \<Rightarrow> gostring list \<Rightarrow> gostring list \<Rightarrow> gostring list" where
  "appendOthers value maxLen nxt [] = nxt"
| "appendOthers value maxLen nxt (x # xs) =
     (if TrimSpace x = value then appendOthers value maxLen nxt xs
      else if maxLen > 0 \<and> length (nxt @ [x]) \<ge> maxLen then nxt @ [x]
      else appendOthers value maxLen (nxt @ [x]) xs)"

definition prependUniqueString :: "gostring list \<Rightarrow> gostring \<Rightarrow> nat \<Rightarrow> gostring list" where
  "prependUniqueString values value0 maxLen =
     (let value = TrimSpace value0 in if value = [] then values else appendOthers value maxLen [value] values)"

definition storeLoad :: "entityCatalogRecentStore \<Rightarrow> gostring \<Rightarrow> entityCatalogSessionContext option" where
  "storeLoad store sessionID = (if TrimSpace sessionID = [] then None else store (TrimSpace sessionID))"

definition noteTarget :: "EntityCatalogItem \<Rightarrow> entityCatalogSessionContext \<Rightarrow> entityCatalogSessionContext" where
  "noteTarget item c =
     (let d = c\<lparr>cxLastNamespace := eiNamespace item, cxLastEntityID := eiEntityID item, cxLastDeviceGroup := eiDeviceGroup item,
                cxRecentEntityIDs := prependUniqueString (cxRecentEntityIDs c) (eiEntityID item) 4\<rparr>
      in if eiRoomID item = [] then d
         else d\<lparr>cxLastRoomID := eiRoomID item, cxRecentRoomIDs := prependUniqueString (cxRecentRoomIDs d) (eiRoomID item) 4\<rparr>)"

definition noteLocation :: "EntityCatalogItem \<Rightarrow> entityCatalogSessionContext \<Rightarrow> entityCatalogSessionContext" where
  "noteLocation item c =
     c\<lparr>cxLastNamespace := eiNamespace item, cxLastRoomID := eiEntityID item,
       cxRecentRoomIDs := prependUniqueString (cxRecentRoomIDs c) (eiEntityID item) 4\<rparr>"

definition storeNote ::
    "gostring \<Rightarrow> EntityCatalogItem option \<Rightarrow> EntityCatalogItem option \<Rightarrow> entityCatalogRecentStore \<Rightarrow> entityCatalogRecentStore" where
  "storeNote sessionID locationItem targetItem store =
     (if TrimSpace sessionID = [] then store
      else
        let key = TrimSpace sessionID;
            c0 = (case store key of None \<Rightarrow> zeroContext | Some c \<Rightarrow> c);
            c1 = (case targetItem of None \<Rightarrow> c0 | Some item \<Rightarrow> noteTarget item c0);
            c2 = (case locationItem of None \<Rightarrow> c1 | Some item \<Rightarrow> noteLocation item c1)
        in store(key \<mapsto> c2))"

text \<open>A grounder; \<open>None\<close>: the zero value without a store.\<close>

record EntityCatalogGrounder =
  grCatalog :: EntityCatalog
  grRecent :: "entityCatalogRecentStore option"

definition NewEntityCatalogGrounder :: "EntityCatalog \<Rightarrow> EntityCatalogGrounder" where
  "NewEntityCatalogGrounder catalog = \<lparr>grCatalog = catalog, grRecent = Some (\<lambda>_. None)\<rparr>"

definition normalizeBuiltInEntityCatalogProfile :: "gostring \<Rightarrow> gostring" where
  "normalizeBuiltInEntityCatalogProfile profile =
     (let v = ToLower (TrimSpace profile)
      in if v \<in> {[], lit ''off'', lit ''none'', lit ''disabled''} then []
         else if v \<in> {lit ''seed'', lit ''demo'', BuiltInEntityCatalogProfileSeedCompanion} then BuiltInEntityCatalogProfileSeedCompanion
         else v)"

definition NewBuiltInEntityCatalogGrounder :: "gostring \<Rightarrow> EntityCatalogGrounder \<times> bool" where
  "NewBuiltInEntityCatalogGrounder profile =
     (if normalizeBuiltInEntityCatalogProfile profile = BuiltInEntityCatalogProfileSeedCompanion
      then (NewEntityCatalogGrounder DefaultSeedEntityCatalog, True)
      else (\<lparr>grCatalog = [], grRecent = None\<rparr>, False))"

definition noteSessionGrounding ::
    "gostring \<Rightarrow> EntityCatalogItem option \<Rightarrow> EntityCatalogItem option \<Rightarrow> EntityCatalogGrounder \<Rightarrow> EntityCatalogGrounder" where
  "noteSessionGrounding sessionID locationItem targetItem g =
     (case grRecent g of
        None \<Rightarrow> g
      | Some store \<Rightarrow> if TrimSpace sessionID = [] then g else g\<lparr>grRecent := Some (storeNote sessionID locationItem targetItem store)\<rparr>)"

section \<open>Hints for the recogniser\<close>

record TranscriptionHints =
  thHotwords :: "gostring list"
  thHintPhrases :: "gostring list"

definition noHints :: TranscriptionHints where "noHints = \<lparr>thHotwords = [], thHintPhrases = []\<rparr>"

definition appendEntityHint :: "gostring list \<Rightarrow> gostring list \<Rightarrow> gostring list" where
  "appendEntityHint values candidates = values @ filter (\<lambda>v. v \<noteq> []) (map TrimSpace candidates)"

fun limitScan :: "nat \<Rightarrow> gostring list \<Rightarrow> gostring list \<Rightarrow> gostring list" where
  "limitScan maxLen filtered [] = filtered"
| "limitScan maxLen filtered (v # vs) =
     (let trimmed0 = TrimSpace v
      in if trimmed0 = [] \<or> trimmed0 \<in> set filtered then limitScan maxLen filtered vs
         else if maxLen > 0 \<and> length (filtered @ [trimmed0]) \<ge> maxLen then filtered @ [trimmed0]
         else limitScan maxLen (filtered @ [trimmed0]) vs)"

definition limitDistinctHints :: "gostring list \<Rightarrow> nat \<Rightarrow> gostring list" where
  "limitDistinctHints values maxLen = limitScan maxLen [] values"

definition entityHints :: "EntityCatalog \<Rightarrow> gostring list \<Rightarrow> gostring list \<Rightarrow> gostring list" where
  "entityHints catalog ids hotwords =
     foldl (\<lambda>hw entityID. case itemByID catalog entityID of
              None \<Rightarrow> hw
            | Some item \<Rightarrow> appendEntityHint hw (eiCanonicalName item # eiAliases item)) hotwords ids"

definition TranscriptionHintsForSession :: "EntityCatalogGrounder \<Rightarrow> gostring \<Rightarrow> TranscriptionHints" where
  "TranscriptionHintsForSession g sessionID =
     (case grRecent g of
        None \<Rightarrow> noHints
      | Some store \<Rightarrow>
          (if TrimSpace sessionID = [] then noHints
           else case storeLoad store sessionID of
             None \<Rightarrow> noHints
           | Some c \<Rightarrow>
               (let hotwords = limitDistinctHints
                      (entityHints (grCatalog g) (cxRecentRoomIDs c) (entityHints (grCatalog g) (cxRecentEntityIDs c) [])) 8
                in if hotwords = [] then noHints else \<lparr>thHotwords = hotwords, thHintPhrases = limitDistinctHints hotwords 4\<rparr>)))"

section \<open>Matching\<close>

record entityCatalogMatch =
  mtItem :: EntityCatalogItem
  mtAlias :: gostring
  mtAliasLen :: int
  mtScore :: int

definition normalizeEntityCatalogText :: "(rune \<Rightarrow> bool) \<Rightarrow> gostring \<Rightarrow> gostring" where
  "normalizeEntityCatalogText isMark value = filter (\<lambda>r. \<not> is_space r \<and> \<not> isMark r) (TrimSpace (ToLower value))"

definition entityCatalogCandidates :: "EntityCatalogItem \<Rightarrow> gostring list" where
  "entityCatalogCandidates item = [eiCanonicalName item] @ eiAliases item @ eiCommonMisrecognitions item"

fun bestAliasScan :: "(rune \<Rightarrow> bool) \<Rightarrow> gostring \<Rightarrow> gostring list \<Rightarrow> gostring \<times> int \<Rightarrow> gostring \<times> int" where
  "bestAliasScan isMark normalizedText [] best = best"
| "bestAliasScan isMark normalizedText (candidate # rest) best =
     (let normalized = normalizeEntityCatalogText isMark candidate; len = int (length normalized)
      in if normalized = [] \<or> \<not> Contains normalizedText normalized then bestAliasScan isMark normalizedText rest best
         else bestAliasScan isMark normalizedText rest (if len > snd best then (candidate, len) else best))"

definition bestEntityCatalogAlias :: "(rune \<Rightarrow> bool) \<Rightarrow> EntityCatalogItem \<Rightarrow> gostring \<Rightarrow> gostring \<times> int" where
  "bestEntityCatalogAlias isMark item normalizedText = bestAliasScan isMark normalizedText (entityCatalogCandidates item) ([], 0)"

text \<open>The entry for an entity: replaced by a match with a longer alias, added when there is none.\<close>

fun noteBest :: "entityCatalogMatch \<Rightarrow> entityCatalogMatch list \<Rightarrow> entityCatalogMatch list" where
  "noteBest m [] = [m]"
| "noteBest m (c # cs) =
     (if eiEntityID (mtItem c) = eiEntityID (mtItem m) then (if mtAliasLen m > mtAliasLen c then m else c) # cs else c # noteBest m cs)"

definition matchOrder :: "entityCatalogMatch \<Rightarrow> int \<times> int \<times> gostring" where
  "matchOrder m = (- mtScore m, - mtAliasLen m, eiEntityID (mtItem m))"

definition dedupeCatalogMatches :: "entityCatalogMatch list \<Rightarrow> entityCatalogMatch list" where
  "dedupeCatalogMatches matches =
     (if length matches \<le> 1 then matches else sort_key matchOrder (fold noteBest matches []))"

definition matchEntities :: "(rune \<Rightarrow> bool) \<Rightarrow> EntityCatalog \<Rightarrow> gostring \<Rightarrow> gostring \<Rightarrow> gostring list \<Rightarrow> entityCatalogMatch list" where
  "matchEntities isMark catalog t namespace entityTypes =
     (let normalizedText = normalizeEntityCatalogText isMark t
      in if normalizedText = [] then []
         else dedupeCatalogMatches (map (\<lambda>item. \<lparr>mtItem = item, mtAlias = fst (bestEntityCatalogAlias isMark item normalizedText),
                mtAliasLen = snd (bestEntityCatalogAlias isMark item normalizedText), mtScore = 0\<rparr>)
              (filter (\<lambda>item. eiNamespace item = namespace \<and> eiEntityType item \<in> set (map TrimSpace entityTypes)
                  \<and> fst (bestEntityCatalogAlias isMark item normalizedText) \<noteq> []) catalog)))"

fun recentBonus :: "gostring \<Rightarrow> int \<Rightarrow> int \<Rightarrow> gostring list \<Rightarrow> int" where
  "recentBonus key bonus stepDown [] = 0"
| "recentBonus key bonus stepDown (x # xs) = (if x = key then maxInt bonus 10 else recentBonus key (bonus - stepDown) stepDown xs)"

definition scoreEntityCatalogMatch :: "entityCatalogSessionContext \<Rightarrow> entityCatalogMatch \<Rightarrow> int" where
  "scoreEntityCatalogMatch c m =
     (let item = mtItem m
      in (if eiNamespace item \<noteq> [] \<and> eiNamespace item = cxLastNamespace c then 5 else 0)
         + (if eiEntityID item \<noteq> [] then recentBonus (eiEntityID item) 60 15 (cxRecentEntityIDs c) else 0)
         + (if eiRoomID item \<noteq> [] then recentBonus (eiRoomID item) 30 10 (cxRecentRoomIDs c) else 0)
         + (if cxLastDeviceGroup c \<noteq> [] \<and> eiDeviceGroup item = cxLastDeviceGroup c then 15 else 0)
         + (if cxLastEntityID c \<noteq> [] \<and> eiEntityID item = cxLastEntityID c then 80 else 0)
         + (if cxLastRoomID c \<noteq> [] \<and> eiRoomID item = cxLastRoomID c then 20 else 0))"

text \<open>The leader alone when it is clearly ahead.\<close>

fun keepLeader :: "entityCatalogMatch list \<Rightarrow> entityCatalogMatch list" where
  "keepLeader (first # second # rest) = (if mtScore first > mtScore second \<and> mtScore first > 0 then [first] else first # second # rest)"
| "keepLeader scored = scored"

definition preferSessionContextMatches :: "EntityCatalogGrounder \<Rightarrow> gostring \<Rightarrow> entityCatalogMatch list \<Rightarrow> entityCatalogMatch list" where
  "preferSessionContextMatches g sessionID matches =
     (if length matches \<le> 1 then matches
      else case Option.bind (grRecent g) (\<lambda>store. storeLoad store sessionID) of
        None \<Rightarrow> matches
      | Some c \<Rightarrow> keepLeader (sort_key matchOrder (map (\<lambda>m. m\<lparr>mtScore := scoreEntityCatalogMatch c m\<rparr>) matches)))"

definition maxAliasLen :: "entityCatalogMatch list \<Rightarrow> int" where
  "maxAliasLen matches = foldl (\<lambda>best m. if mtAliasLen m > best then mtAliasLen m else best) 0 matches"

definition mostSpecificCatalogMatches :: "entityCatalogMatch list \<Rightarrow> entityCatalogMatch list" where
  "mostSpecificCatalogMatches matches =
     (if length matches \<le> 1 \<or> maxAliasLen matches = 0 then matches else filter (\<lambda>m. mtAliasLen m = maxAliasLen matches) matches)"

definition filterCatalogMatchesByRoom :: "entityCatalogMatch list \<Rightarrow> gostring \<Rightarrow> entityCatalogMatch list" where
  "filterCatalogMatchesByRoom matches roomID =
     (if roomID = [] \<or> matches = [] then matches else filter (\<lambda>m. TrimSpace (eiRoomID (mtItem m)) = roomID) matches)"

text \<open>The only match, and whether there are several.\<close>

definition singleCatalogMatch :: "entityCatalogMatch list \<Rightarrow> EntityCatalogItem option \<times> bool" where
  "singleCatalogMatch matches = (case matches of [] \<Rightarrow> (None, False) | [m] \<Rightarrow> (Some (mtItem m), False) | _ \<Rightarrow> (None, True))"

section \<open>Grounding\<close>

definition groundLocationIn :: "EntityCatalogItem option \<Rightarrow> SemanticSlotParseResult \<Rightarrow> SemanticSlotParseResult" where
  "groundLocationIn found r =
     (case found of
        None \<Rightarrow> r
      | Some item \<Rightarrow> r\<lparr>slGrounded := True, slCanonicalLocation := eiCanonicalName item,
          slRiskLevel := strongerSemanticRiskLevel (slRiskLevel r) (eiRiskLevel item),
          slMissingSlots := setDelete (lit ''location'') (slMissingSlots r), slAmbiguousSlots := setDelete (lit ''location'') (slAmbiguousSlots r)\<rparr>)"

definition groundTargetIn :: "EntityCatalogItem option \<Rightarrow> SemanticSlotParseResult \<Rightarrow> SemanticSlotParseResult" where
  "groundTargetIn found r =
     (case found of
        None \<Rightarrow> r
      | Some item \<Rightarrow> r\<lparr>slGrounded := True, slCanonicalTarget := eiCanonicalName item,
          slRiskLevel := strongerSemanticRiskLevel (slRiskLevel r) (eiRiskLevel item),
          slMissingSlots := setDelete (lit ''target'') (slMissingSlots r), slAmbiguousSlots := setDelete (lit ''target'') (slAmbiguousSlots r)\<rparr>)"

definition markAmbiguous :: "bool \<Rightarrow> gostring list \<Rightarrow> gostring \<Rightarrow> gostring \<Rightarrow> SemanticSlotParseResult \<Rightarrow> SemanticSlotParseResult" where
  "markAmbiguous several unmissing slot reason r =
     (if several then
        r\<lparr>slMissingSlots := fold setDelete unmissing (slMissingSlots r), slAmbiguousSlots := setInsert slot (slAmbiguousSlots r),
          slClarifyNeeded := True, slSlotStatus := SemanticSlotStatusAmbiguous,
          slActionability := SemanticSlotActionabilityClarifyNeeded, slReason := reason\<rparr>
      else r)"

text \<open>All required slots are filled.\<close>

definition completeGrounded :: "gostring \<Rightarrow> SemanticSlotParseResult \<Rightarrow> SemanticSlotParseResult" where
  "completeGrounded reason r =
     r\<lparr>slSlotStatus := SemanticSlotStatusComplete, slActionability := SemanticSlotActionabilityActCandidate, slClarifyNeeded := False,
       slReason := (if unsetReason (slReason r) then reason else slReason r)\<rparr>"

definition slotSetsOf :: "SemanticSlotParseResult \<Rightarrow> SemanticSlotParseResult" where
  "slotSetsOf r = r\<lparr>slMissingSlots := semanticSlotListSet (slMissingSlots r), slAmbiguousSlots := semanticSlotListSet (slAmbiguousSlots r)\<rparr>"

definition slotListsOf :: "SemanticSlotParseResult \<Rightarrow> SemanticSlotParseResult" where
  "slotListsOf r = r\<lparr>slMissingSlots := semanticSlotListFromSet (slMissingSlots r), slAmbiguousSlots := semanticSlotListFromSet (slAmbiguousSlots r)\<rparr>"

definition finishSmartHome :: "bool \<Rightarrow> SemanticSlotParseResult \<Rightarrow> SemanticSlotParseResult" where
  "finishSmartHome clear r =
     (if \<not> clear then r
      else if slMissingSlots r = [] then completeGrounded (lit ''catalog_target_grounded'') r
      else if slActionability r = SemanticSlotActionabilityObserveOnly then r\<lparr>slActionability := SemanticSlotActionabilityDraftOK\<rparr>
      else r)"

definition smartHomeRooms :: "(rune \<Rightarrow> bool) \<Rightarrow> EntityCatalogGrounder \<Rightarrow> gostring \<Rightarrow> entityCatalogMatch list" where
  "smartHomeRooms isMark g t = mostSpecificCatalogMatches (matchEntities isMark (grCatalog g) t entityNamespaceSmartHome [entityTypeRoom])"

definition smartHomeTargets :: "(rune \<Rightarrow> bool) \<Rightarrow> EntityCatalogGrounder \<Rightarrow> gostring \<Rightarrow> entityCatalogMatch list" where
  "smartHomeTargets isMark g t =
     (let targets = matchEntities isMark (grCatalog g) t entityNamespaceSmartHome [entityTypeDevice, entityTypeDeviceGroup]
      in case smartHomeRooms isMark g t of
           [room] \<Rightarrow> (let filtered = filterCatalogMatchesByRoom targets (eiEntityID (mtItem room)) in if filtered \<noteq> [] then filtered else targets)
         | _ \<Rightarrow> targets)"

definition groundSmartHome ::
    "(rune \<Rightarrow> bool) \<Rightarrow> EntityCatalogGrounder \<Rightarrow> gostring \<Rightarrow> gostring \<Rightarrow> SemanticSlotParseResult
      \<Rightarrow> SemanticSlotParseResult \<times> bool \<times> EntityCatalogGrounder" where
  "groundSmartHome isMark g sessionID t result =
     (let (location, locationAmbiguous) = singleCatalogMatch (preferSessionContextMatches g sessionID (smartHomeRooms isMark g t));
          (target, targetAmbiguous) =
            singleCatalogMatch (mostSpecificCatalogMatches (preferSessionContextMatches g sessionID (smartHomeTargets isMark g t)))
      in if location = None \<and> target = None \<and> \<not> locationAmbiguous \<and> \<not> targetAmbiguous then (result, False, g)
         else
           let r1 = groundTargetIn target (groundLocationIn location (slotSetsOf result));
               r2 = markAmbiguous targetAmbiguous [lit ''target''] (lit ''target'') (lit ''catalog_target_ambiguous'')
                      (markAmbiguous locationAmbiguous [lit ''location''] (lit ''location'') (lit ''catalog_location_ambiguous'') r1);
               r3 = finishSmartHome (target \<noteq> None \<and> \<not> locationAmbiguous \<and> \<not> targetAmbiguous) (slotListsOf r2)
           in (r3, True, if location \<noteq> None \<or> target \<noteq> None then noteSessionGrounding sessionID location target g else g))"

definition groundAppIn :: "EntityCatalogItem option \<Rightarrow> SemanticSlotParseResult \<Rightarrow> SemanticSlotParseResult" where
  "groundAppIn found r =
     (case found of
        None \<Rightarrow> r
      | Some item \<Rightarrow>
          (let r1 = r\<lparr>slGrounded := True, slCanonicalTarget := eiCanonicalName item,
                 slRiskLevel := strongerSemanticRiskLevel (slRiskLevel r) (eiRiskLevel item),
                 slMissingSlots := setDelete (lit ''target'') (setDelete (lit ''target_app'') (slMissingSlots r)),
                 slAmbiguousSlots := setDelete (lit ''target'') (setDelete (lit ''target_app'') (slAmbiguousSlots r))\<rparr>
           in if slMissingSlots r1 = [] then completeGrounded (lit ''catalog_app_grounded'') r1 else r1))"

definition groundDesktopAssistant ::
    "(rune \<Rightarrow> bool) \<Rightarrow> EntityCatalogGrounder \<Rightarrow> gostring \<Rightarrow> gostring \<Rightarrow> SemanticSlotParseResult
      \<Rightarrow> SemanticSlotParseResult \<times> bool \<times> EntityCatalogGrounder" where
  "groundDesktopAssistant isMark g sessionID t result =
     (let (app, appAmbiguous) = singleCatalogMatch (preferSessionContextMatches g sessionID
            (mostSpecificCatalogMatches (matchEntities isMark (grCatalog g) t entityNamespaceDesktopAssistant [entityTypeApp])))
      in if app = None \<and> \<not> appAmbiguous then (result, False, g)
         else
           (slotListsOf (markAmbiguous appAmbiguous [lit ''target_app'', lit ''target''] (lit ''target_app'') (lit ''catalog_target_app_ambiguous'')
              (groundAppIn app (slotSetsOf result))),
            True, if app \<noteq> None then noteSessionGrounding sessionID None app g else g))"

definition appendSemanticSource :: "gostring \<Rightarrow> gostring \<Rightarrow> gostring" where
  "appendSemanticSource current0 suffix0 =
     (let present = TrimSpace current0; suffix = TrimSpace suffix0
      in if present = [] then suffix
         else if suffix = [] \<or> Contains present suffix then present
         else present @ lit ''+'' @ suffix)"

definition GroundPreview ::
    "(rune \<Rightarrow> bool) \<Rightarrow> EntityCatalogGrounder \<Rightarrow> SemanticSlotParseRequest \<Rightarrow> SemanticSlotParseResult
      \<Rightarrow> SemanticSlotParseResult \<times> EntityCatalogGrounder" where
  "GroundPreview isMark g req result =
     (let bestText = firstNonEmpty [spqStablePrefix req, spqPartialText req]; domain = normalizeSemanticSlotDomain (slDomain result)
      in if grCatalog g = [] then (result, g)
         else if TrimSpace bestText = [] then (result, g)
         else if domain \<noteq> SemanticSlotDomainSmartHome \<and> domain \<noteq> SemanticSlotDomainDesktopAssistant then (result, g)
         else
           let (grounded, changed, g') =
                 (if domain = SemanticSlotDomainSmartHome then groundSmartHome isMark g (spqSessionID req) bestText result
                  else groundDesktopAssistant isMark g (spqSessionID req) bestText result);
               processed = postProcessSemanticSlotResult req grounded
           in (if changed then processed\<lparr>slSource := appendSemanticSource (slSource processed) (lit ''entity_catalog_grounder'')\<rparr> else processed, g'))"

text \<open>The parser with a grounder behind it; the answer of the inner parser is grounded when there is one.\<close>

definition groundedParsePreview ::
    "(rune \<Rightarrow> bool) \<Rightarrow> SemanticSlotParser \<Rightarrow> EntityCatalogGrounder \<Rightarrow> SemanticSlotParseRequest
      \<Rightarrow> (judge_error + SemanticSlotParseResult) \<times> EntityCatalogGrounder" where
  "groundedParsePreview isMark inner g req =
     (case inner req of
        Inl e \<Rightarrow> (Inl e, g)
      | Inr r \<Rightarrow> (let (r', g') = GroundPreview isMark g req r in (Inr r', g')))"

section \<open>Where matches come from\<close>

text \<open>A name of the item occurs in the text, both without spaces, marks and case.\<close>

definition mentions :: "(rune \<Rightarrow> bool) \<Rightarrow> gostring \<Rightarrow> EntityCatalogItem \<Rightarrow> bool" where
  "mentions isMark t item =
     list_ex (\<lambda>c. normalizeEntityCatalogText isMark c \<noteq> []
       \<and> Contains (normalizeEntityCatalogText isMark t) (normalizeEntityCatalogText isMark c)) (entityCatalogCandidates item)"

lemma bestAliasScan_mention:
  "fst (bestAliasScan isMark nt cs best) \<noteq> [] \<Longrightarrow>
     fst best \<noteq> [] \<or> (\<exists>c\<in>set cs. normalizeEntityCatalogText isMark c \<noteq> [] \<and> Contains nt (normalizeEntityCatalogText isMark c))"
proof (induction isMark nt cs best rule: bestAliasScan.induct)
  case (2 isMark nt candidate rest best)
  show ?case
  proof (cases "normalizeEntityCatalogText isMark candidate = [] \<or> \<not> Contains nt (normalizeEntityCatalogText isMark candidate)")
    case True
    with 2 show ?thesis by (auto simp: Let_def)
  next
    case False
    then show ?thesis by auto
  qed
qed simp

lemma noteBest_set: "set (noteBest m ms) \<subseteq> insert m (set ms)"
  by (induction m ms rule: noteBest.induct) auto

lemma fold_noteBest_set: "set (fold noteBest ms acc) \<subseteq> set ms \<union> set acc"
proof (induction ms arbitrary: acc)
  case (Cons m ms)
  show ?case using Cons.IH [of "noteBest m acc"] noteBest_set [of m acc] by auto
qed simp

text \<open>Each entity appears once, and sorting by the key of the code is therefore independent of the order of the map.\<close>

lemma noteBest_ids: "distinct (map (eiEntityID \<circ> mtItem) ms) \<Longrightarrow>
    distinct (map (eiEntityID \<circ> mtItem) (noteBest m ms)) \<and>
    set (map (eiEntityID \<circ> mtItem) (noteBest m ms)) = insert (eiEntityID (mtItem m)) (set (map (eiEntityID \<circ> mtItem) ms))"
proof (induction ms)
  case (Cons c cs)
  then show ?case by (cases "eiEntityID (mtItem c) = eiEntityID (mtItem m)") auto
qed simp

lemma fold_noteBest_distinct: "distinct (map (eiEntityID \<circ> mtItem) acc) \<Longrightarrow> distinct (map (eiEntityID \<circ> mtItem) (fold noteBest ms acc))"
  by (induction ms arbitrary: acc) (use noteBest_ids in auto)

lemma dedupe_distinct: "distinct (map (eiEntityID \<circ> mtItem) (dedupeCatalogMatches ms))"
proof (cases "length ms \<le> 1")
  case True
  then have "ms = [] \<or> (\<exists>m. ms = [m])" by (cases ms) auto
  then show ?thesis by (auto simp: dedupeCatalogMatches_def)
next
  case False
  have "distinct (fold noteBest ms [])"
    using fold_noteBest_distinct [of "[]" ms] by (simp add: distinct_map)
  moreover have "inj_on (eiEntityID \<circ> mtItem) (set (fold noteBest ms []))"
    using fold_noteBest_distinct [of "[]" ms] by (simp add: distinct_map)
  ultimately show ?thesis using False by (simp add: dedupeCatalogMatches_def distinct_map)
qed

lemma dedupe_set: "set (dedupeCatalogMatches ms) \<subseteq> set ms"
  using fold_noteBest_set [of ms "[]"] by (auto simp: dedupeCatalogMatches_def)

text \<open>What a match of the catalogue stands for.\<close>

definition catalog_match :: "(rune \<Rightarrow> bool) \<Rightarrow> EntityCatalog \<Rightarrow> gostring \<Rightarrow> gostring \<Rightarrow> EntityCatalogItem \<Rightarrow> bool" where
  "catalog_match isMark catalog t namespace item \<longleftrightarrow>
     item \<in> set catalog \<and> eiNamespace item = namespace \<and> mentions isMark t item"

lemma matchEntities_sound:
  "m \<in> set (matchEntities isMark catalog t ns types) \<Longrightarrow> catalog_match isMark catalog t ns (mtItem m)"
proof -
  assume m: "m \<in> set (matchEntities isMark catalog t ns types)"
  let ?nt = "normalizeEntityCatalogText isMark t"
  from m have "?nt \<noteq> []" by (auto simp: matchEntities_def Let_def split: if_splits)
  with m obtain item where "item \<in> set catalog" "eiNamespace item = ns" "mtItem m = item"
      and best: "fst (bestEntityCatalogAlias isMark item ?nt) \<noteq> []"
    unfolding matchEntities_def Let_def using dedupe_set by fastforce
  moreover have "mentions isMark t item"
    using bestAliasScan_mention [OF best [unfolded bestEntityCatalogAlias_def]] by (simp add: mentions_def list_ex_iff)
  ultimately show ?thesis by (simp add: catalog_match_def)
qed

lemma mostSpecific_set: "set (mostSpecificCatalogMatches ms) \<subseteq> set ms"
  by (auto simp: mostSpecificCatalogMatches_def)

lemma filterRoom_set: "set (filterCatalogMatchesByRoom ms room) \<subseteq> set ms"
  by (auto simp: filterCatalogMatchesByRoom_def)

lemma keepLeader_set: "set (keepLeader ms) \<subseteq> set ms"
  by (cases ms rule: keepLeader.cases) auto

lemma prefer_items: "mtItem ` set (preferSessionContextMatches g sid ms) \<subseteq> mtItem ` set ms"
proof -
  have "mtItem ` set (keepLeader (sort_key matchOrder (map (\<lambda>m. m\<lparr>mtScore := scoreEntityCatalogMatch c m\<rparr>) ms))) \<subseteq> mtItem ` set ms" for c
  proof -
    have "mtItem ` set (sort_key matchOrder (map (\<lambda>m. m\<lparr>mtScore := scoreEntityCatalogMatch c m\<rparr>) ms)) = mtItem ` set ms"
      by (simp add: image_image)
    then show ?thesis using image_mono [OF keepLeader_set, of mtItem] by metis
  qed
  then show ?thesis by (simp add: preferSessionContextMatches_def split: option.split)
qed

lemma single_match: "singleCatalogMatch ms = (Some item, several) \<Longrightarrow> item \<in> mtItem ` set ms \<and> \<not> several"
  by (auto simp: singleCatalogMatch_def split: list.splits)

lemma single_none: "singleCatalogMatch ms = (None, several) \<Longrightarrow> several \<longleftrightarrow> ms \<noteq> []"
  by (auto simp: singleCatalogMatch_def split: list.splits)

lemma rooms_sound: "m \<in> set (smartHomeRooms isMark g t) \<Longrightarrow> catalog_match isMark (grCatalog g) t entityNamespaceSmartHome (mtItem m)"
  using mostSpecific_set matchEntities_sound unfolding smartHomeRooms_def by blast

lemma targets_sound: "m \<in> set (smartHomeTargets isMark g t) \<Longrightarrow> catalog_match isMark (grCatalog g) t entityNamespaceSmartHome (mtItem m)"
proof -
  assume "m \<in> set (smartHomeTargets isMark g t)"
  then have "m \<in> set (matchEntities isMark (grCatalog g) t entityNamespaceSmartHome [entityTypeDevice, entityTypeDeviceGroup])"
    unfolding smartHomeTargets_def Let_def using filterRoom_set by (auto split: list.splits if_splits)
  then show ?thesis by (rule matchEntities_sound)
qed

lemma preferred_sound:
  assumes "singleCatalogMatch (preferSessionContextMatches g sid ms) = (Some item, several)"
    and "\<And>m. m \<in> set ms \<Longrightarrow> P (mtItem m)"
  shows "P item"
proof -
  have "item \<in> mtItem ` set ms" using single_match [OF assms(1)] prefer_items [of g sid ms] by (meson subsetD)
  with assms(2) show ?thesis by (auto simp only: image_iff)
qed

lemma preferred_specific_sound:
  assumes "singleCatalogMatch (mostSpecificCatalogMatches (preferSessionContextMatches g sid ms)) = (Some item, several)"
    and "\<And>m. m \<in> set ms \<Longrightarrow> P (mtItem m)"
  shows "P item"
proof -
  have "item \<in> mtItem ` set (preferSessionContextMatches g sid ms)"
    using single_match [OF assms(1)] image_mono [OF mostSpecific_set] by (meson subsetD)
  then have "item \<in> mtItem ` set ms" using prefer_items [of g sid ms] by (meson subsetD)
  with assms(2) show ?thesis by (auto simp only: image_iff)
qed

section \<open>What grounding changes\<close>

lemma ground_projections [simp]:
  "slCanonicalTarget (markAmbiguous b u s why r) = slCanonicalTarget r"
  "slCanonicalLocation (markAmbiguous b u s why r) = slCanonicalLocation r"
  "slRiskLevel (markAmbiguous b u s why r) = slRiskLevel r"
  "slCanonicalTarget (slotListsOf r) = slCanonicalTarget r"
  "slCanonicalLocation (slotListsOf r) = slCanonicalLocation r"
  "slRiskLevel (slotListsOf r) = slRiskLevel r"
  "slCanonicalTarget (slotSetsOf r) = slCanonicalTarget r"
  "slCanonicalLocation (slotSetsOf r) = slCanonicalLocation r"
  "slRiskLevel (slotSetsOf r) = slRiskLevel r"
  "slCanonicalTarget (finishSmartHome c r) = slCanonicalTarget r"
  "slCanonicalLocation (finishSmartHome c r) = slCanonicalLocation r"
  "slRiskLevel (finishSmartHome c r) = slRiskLevel r"
  "slCanonicalTarget (groundLocationIn f r) = slCanonicalTarget r"
  "slCanonicalLocation (groundTargetIn f r) = slCanonicalLocation r"
  "slCanonicalLocation (groundAppIn f r) = slCanonicalLocation r"
  by (simp_all add: markAmbiguous_def slotListsOf_def slotSetsOf_def finishSmartHome_def completeGrounded_def groundLocationIn_def
      groundTargetIn_def groundAppIn_def Let_def split: option.split)

lemma ground_names [simp]:
  "slCanonicalTarget (groundTargetIn f r) = (case f of None \<Rightarrow> slCanonicalTarget r | Some i \<Rightarrow> eiCanonicalName i)"
  "slCanonicalLocation (groundLocationIn f r) = (case f of None \<Rightarrow> slCanonicalLocation r | Some i \<Rightarrow> eiCanonicalName i)"
  "slCanonicalTarget (groundAppIn f r) = (case f of None \<Rightarrow> slCanonicalTarget r | Some i \<Rightarrow> eiCanonicalName i)"
  by (simp_all add: groundLocationIn_def groundTargetIn_def groundAppIn_def completeGrounded_def Let_def split: option.split)

lemma ground_risks [simp]:
  "slRiskLevel (groundTargetIn f r) = (case f of None \<Rightarrow> slRiskLevel r | Some i \<Rightarrow> strongerSemanticRiskLevel (slRiskLevel r) (eiRiskLevel i))"
  "slRiskLevel (groundLocationIn f r) = (case f of None \<Rightarrow> slRiskLevel r | Some i \<Rightarrow> strongerSemanticRiskLevel (slRiskLevel r) (eiRiskLevel i))"
  "slRiskLevel (groundAppIn f r) = (case f of None \<Rightarrow> slRiskLevel r | Some i \<Rightarrow> strongerSemanticRiskLevel (slRiskLevel r) (eiRiskLevel i))"
  by (simp_all add: groundLocationIn_def groundTargetIn_def groundAppIn_def completeGrounded_def Let_def split: option.split)

abbreviation level_rank :: "gostring \<Rightarrow> int" where
  "level_rank l \<equiv> riskRank (normalizeSemanticRiskLevel l)"

lemma riskRank_nonneg: "0 \<le> riskRank l"
  by (simp add: riskRank_def)

declare stronger_is_join [simp]

text \<open>\<open>name\<close> is the canonical name of an item that the text mentions, and \<open>level\<close> is at least as high as the item's risk.\<close>

definition named_in_catalog :: "(rune \<Rightarrow> bool) \<Rightarrow> EntityCatalog \<Rightarrow> gostring \<Rightarrow> gostring \<Rightarrow> gostring \<Rightarrow> gostring \<Rightarrow> bool" where
  "named_in_catalog isMark catalog t namespace name level \<longleftrightarrow>
     (\<exists>item. catalog_match isMark catalog t namespace item \<and> eiCanonicalName item = name \<and> level_rank (eiRiskLevel item) \<le> level_rank level)"

lemma named_in_catalogI:
  "catalog_match isMark catalog t ns item \<Longrightarrow> eiCanonicalName item = name \<Longrightarrow> level_rank (eiRiskLevel item) \<le> level_rank level
    \<Longrightarrow> named_in_catalog isMark catalog t ns name level"
  unfolding named_in_catalog_def by blast

lemma groundSmartHome_names:
  assumes "groundSmartHome isMark g sid t r = (r', changed, g')"
  shows "(slCanonicalTarget r' \<noteq> slCanonicalTarget r \<longrightarrow>
            named_in_catalog isMark (grCatalog g) t entityNamespaceSmartHome (slCanonicalTarget r') (slRiskLevel r'))
    \<and> (slCanonicalLocation r' \<noteq> slCanonicalLocation r \<longrightarrow>
            named_in_catalog isMark (grCatalog g) t entityNamespaceSmartHome (slCanonicalLocation r') (slRiskLevel r'))"
proof -
  obtain location la where loc: "singleCatalogMatch (preferSessionContextMatches g sid (smartHomeRooms isMark g t)) = (location, la)"
    by fastforce
  obtain target ta where tgt: "singleCatalogMatch (mostSpecificCatalogMatches (preferSessionContextMatches g sid (smartHomeTargets isMark g t))) = (target, ta)"
    by fastforce
  show ?thesis
  proof (cases "location = None \<and> target = None \<and> \<not> la \<and> \<not> ta")
    case True
    with assms loc tgt have "r' = r" by (simp add: groundSmartHome_def)
    then show ?thesis by simp
  next
    case False
    with assms loc tgt have names: "slCanonicalTarget r' = (case target of None \<Rightarrow> slCanonicalTarget r | Some i \<Rightarrow> eiCanonicalName i)"
        "slCanonicalLocation r' = (case location of None \<Rightarrow> slCanonicalLocation r | Some i \<Rightarrow> eiCanonicalName i)"
        "level_rank (slRiskLevel r') = max (max (level_rank (slRiskLevel r)) (case location of None \<Rightarrow> 0 | Some i \<Rightarrow> level_rank (eiRiskLevel i)))
           (case target of None \<Rightarrow> 0 | Some i \<Rightarrow> level_rank (eiRiskLevel i))"
      using riskRank_nonneg [of "normalizeSemanticRiskLevel (slRiskLevel r)"]
      by (auto simp: groundSmartHome_def Let_def split: option.split)
    have "named_in_catalog isMark (grCatalog g) t entityNamespaceSmartHome (slCanonicalTarget r') (slRiskLevel r')" if "target = Some i" for i
      using preferred_specific_sound [OF tgt [unfolded that], of "catalog_match isMark (grCatalog g) t entityNamespaceSmartHome", OF targets_sound]
        names that by (intro named_in_catalogI [of _ _ _ _ i]) simp_all
    moreover have "named_in_catalog isMark (grCatalog g) t entityNamespaceSmartHome (slCanonicalLocation r') (slRiskLevel r')" if "location = Some i" for i
      using preferred_sound [OF loc [unfolded that], of "catalog_match isMark (grCatalog g) t entityNamespaceSmartHome", OF rooms_sound]
        names that by (intro named_in_catalogI [of _ _ _ _ i]) simp_all
    ultimately show ?thesis using names(1,2) by (cases target; cases location) simp_all
  qed
qed

lemma groundDesktop_names:
  assumes "groundDesktopAssistant isMark g sid t r = (r', changed, g')"
  shows "(slCanonicalTarget r' \<noteq> slCanonicalTarget r \<longrightarrow>
            named_in_catalog isMark (grCatalog g) t entityNamespaceDesktopAssistant (slCanonicalTarget r') (slRiskLevel r'))
    \<and> slCanonicalLocation r' = slCanonicalLocation r"
proof -
  let ?ms = "mostSpecificCatalogMatches (matchEntities isMark (grCatalog g) t entityNamespaceDesktopAssistant [entityTypeApp])"
  obtain app aa where app: "singleCatalogMatch (preferSessionContextMatches g sid ?ms) = (app, aa)" by fastforce
  have sound: "catalog_match isMark (grCatalog g) t entityNamespaceDesktopAssistant (mtItem m)" if "m \<in> set ?ms" for m
    using that mostSpecific_set matchEntities_sound by blast
  show ?thesis
  proof (cases "app = None \<and> \<not> aa")
    case True
    with assms app have "r' = r" by (simp add: groundDesktopAssistant_def)
    then show ?thesis by simp
  next
    case False
    with assms app have r': "r' = slotListsOf (markAmbiguous aa [lit ''target_app'', lit ''target''] (lit ''target_app'') (lit ''catalog_target_app_ambiguous'')
        (groundAppIn app (slotSetsOf r)))"
      by (auto simp: groundDesktopAssistant_def)
    have "named_in_catalog isMark (grCatalog g) t entityNamespaceDesktopAssistant (slCanonicalTarget r') (slRiskLevel r')" if "app = Some i" for i
      using preferred_sound [OF app [unfolded that], of "catalog_match isMark (grCatalog g) t entityNamespaceDesktopAssistant", OF sound]
      by (intro named_in_catalogI [of _ _ _ _ i]) (simp_all add: r' that)
    then show ?thesis by (cases app) (simp_all add: r')
  qed
qed

lemma postProcess_names [simp]:
  "slCanonicalTarget (postProcessSemanticSlotResult req r) = slCanonicalTarget r"
  "slCanonicalLocation (postProcessSemanticSlotResult req r) = slCanonicalLocation r"
proof -
  have gate: "slCanonicalTarget (applySemanticSlotRiskGating x) = slCanonicalTarget x"
    "slCanonicalLocation (applySemanticSlotRiskGating x) = slCanonicalLocation x" for x
    by (simp_all add: applySemanticSlotRiskGating_def confirmHighRisk_def Let_def split: prod.split)
  show "slCanonicalTarget (postProcessSemanticSlotResult req r) = slCanonicalTarget r"
    "slCanonicalLocation (postProcessSemanticSlotResult req r) = slCanonicalLocation r"
    by (simp_all add: postProcessSemanticSlotResult_def gate normalizeSemanticSlotValue_def completeWithValue_def Let_def)
qed

lemma postProcess_level: "level_rank (slRiskLevel (postProcessSemanticSlotResult req r)) = level_rank (slRiskLevel r)"
  by (simp add: postProcessSemanticSlotResult_def)

text \<open>The request is grounded at all: there is a catalogue, a text, and the domain is one that the catalogue covers.\<close>

definition grounding_namespace :: "SemanticSlotParseResult \<Rightarrow> gostring option" where
  "grounding_namespace r =
     (let domain = normalizeSemanticSlotDomain (slDomain r)
      in if domain = SemanticSlotDomainSmartHome then Some entityNamespaceSmartHome
         else if domain = SemanticSlotDomainDesktopAssistant then Some entityNamespaceDesktopAssistant else None)"

lemma GroundPreview_cases:
  assumes "GroundPreview isMark g req r = (r', g')"
  obtains (untouched) "r' = r" "g' = g" "grCatalog g = [] \<or> TrimSpace (firstNonEmpty [spqStablePrefix req, spqPartialText req]) = [] \<or> grounding_namespace r = None"
  | (smartHome) m changed s where "grounding_namespace r = Some entityNamespaceSmartHome"
      "groundSmartHome isMark g (spqSessionID req) (firstNonEmpty [spqStablePrefix req, spqPartialText req]) r = (m, changed, g')"
      "r' = (postProcessSemanticSlotResult req m)\<lparr>slSource := s\<rparr>"
  | (desktop) m changed s where "grounding_namespace r = Some entityNamespaceDesktopAssistant"
      "groundDesktopAssistant isMark g (spqSessionID req) (firstNonEmpty [spqStablePrefix req, spqPartialText req]) r = (m, changed, g')"
      "r' = (postProcessSemanticSlotResult req m)\<lparr>slSource := s\<rparr>"
proof -
  let ?t = "firstNonEmpty [spqStablePrefix req, spqPartialText req]"
  let ?d = "normalizeSemanticSlotDomain (slDomain r)"
  have source: "\<exists>s. (if c then x\<lparr>slSource := a\<rparr> else x) = x\<lparr>slSource := s\<rparr>" for c a and x :: SemanticSlotParseResult
  proof (cases c)
    case False
    then show ?thesis by (intro exI [of _ "slSource x"]) simp
  qed auto
  consider (none) "grCatalog g = [] \<or> TrimSpace ?t = [] \<or> ?d \<noteq> SemanticSlotDomainSmartHome \<and> ?d \<noteq> SemanticSlotDomainDesktopAssistant"
    | (home) "grCatalog g \<noteq> []" "TrimSpace ?t \<noteq> []" "?d = SemanticSlotDomainSmartHome"
    | (desk) "grCatalog g \<noteq> []" "TrimSpace ?t \<noteq> []" "?d \<noteq> SemanticSlotDomainSmartHome" "?d = SemanticSlotDomainDesktopAssistant"
    by blast
  then show thesis
  proof cases
    case none
    with assms have "r' = r \<and> g' = g" by (auto simp: GroundPreview_def Let_def simp del: firstNonEmpty.simps split: if_splits)
    with none show thesis by (intro untouched) (auto simp: grounding_namespace_def Let_def simp del: firstNonEmpty.simps)
  next
    case home
    obtain m changed h where m: "groundSmartHome isMark g (spqSessionID req) ?t r = (m, changed, h)" by (metis prod_cases3)
    from assms home m have "g' = h \<and> r' = (if changed then (postProcessSemanticSlotResult req m)\<lparr>slSource :=
        appendSemanticSource (slSource (postProcessSemanticSlotResult req m)) (lit ''entity_catalog_grounder'')\<rparr> else postProcessSemanticSlotResult req m)"
      by (simp add: GroundPreview_def Let_def del: firstNonEmpty.simps)
    then have g': "g' = h" and "\<exists>s. r' = (postProcessSemanticSlotResult req m)\<lparr>slSource := s\<rparr>" using source by simp_all
    then obtain s where s: "r' = (postProcessSemanticSlotResult req m)\<lparr>slSource := s\<rparr>" by blast
    have ns: "grounding_namespace r = Some entityNamespaceSmartHome" using home by (simp add: grounding_namespace_def)
    show thesis by (rule smartHome [OF ns m [folded g'] s])
  next
    case desk
    obtain m changed h where m: "groundDesktopAssistant isMark g (spqSessionID req) ?t r = (m, changed, h)" by (metis prod_cases3)
    from assms desk m have "g' = h \<and> r' = (if changed then (postProcessSemanticSlotResult req m)\<lparr>slSource :=
        appendSemanticSource (slSource (postProcessSemanticSlotResult req m)) (lit ''entity_catalog_grounder'')\<rparr> else postProcessSemanticSlotResult req m)"
      by (simp add: GroundPreview_def Let_def del: firstNonEmpty.simps)
    then have g': "g' = h" and "\<exists>s. r' = (postProcessSemanticSlotResult req m)\<lparr>slSource := s\<rparr>" using source by simp_all
    then obtain s where s: "r' = (postProcessSemanticSlotResult req m)\<lparr>slSource := s\<rparr>" by blast
    have ns: "grounding_namespace r = Some entityNamespaceDesktopAssistant" using desk by (simp add: grounding_namespace_def)
    show thesis by (rule desktop [OF ns m [folded g'] s])
  qed
qed

text \<open>
  C9: Grounding is based on evidence and never hides a risk: when it changes the target or the location of a parse, the
  new name is the canonical name of an item of the catalogue, in the namespace of the domain, of which a name or alias
  occurs in the hypothesis, and the risk level of the result is at least that of the item; a grounded result with high risk
  always requires confirmation and is neither a candidate for action nor for drafting.
\<close>
theorem grounding_is_evidence_based:
  assumes run: "GroundPreview isMark g req r = (r', g')"
  shows "(slCanonicalTarget r' \<noteq> slCanonicalTarget r \<longrightarrow>
       (\<exists>ns. grounding_namespace r = Some ns
         \<and> named_in_catalog isMark (grCatalog g) (firstNonEmpty [spqStablePrefix req, spqPartialText req]) ns (slCanonicalTarget r') (slRiskLevel r')))
    \<and> (slCanonicalLocation r' \<noteq> slCanonicalLocation r \<longrightarrow>
         named_in_catalog isMark (grCatalog g) (firstNonEmpty [spqStablePrefix req, spqPartialText req]) entityNamespaceSmartHome
           (slCanonicalLocation r') (slRiskLevel r'))
    \<and> (grCatalog g \<noteq> [] \<and> TrimSpace (firstNonEmpty [spqStablePrefix req, spqPartialText req]) \<noteq> [] \<and> grounding_namespace r \<noteq> None
         \<and> normalizeSemanticRiskLevel (slRiskLevel r') = SemanticRiskLevelHigh \<longrightarrow> slRiskConfirmRequired r' \<and> \<not> unguarded r')"
proof -
  have gate: "slRiskConfirmRequired x \<and> \<not> unguarded x"
    if "normalizeSemanticRiskLevel (slRiskLevel x) = SemanticRiskLevelHigh" "x = (postProcessSemanticSlotResult req m)\<lparr>slSource := s\<rparr>" for x m s
    using that risk_gate [of "normalizeSemanticSlotValue req m"] by (simp add: postProcessSemanticSlotResult_def unguarded_def)
  have keep: "named_in_catalog isMark c t ns n (slRiskLevel ((postProcessSemanticSlotResult req m)\<lparr>slSource := s\<rparr>))
      = named_in_catalog isMark c t ns n (slRiskLevel m)" for c t ns n m s
    by (simp add: named_in_catalog_def postProcess_level)
  from run show ?thesis
  proof (cases rule: GroundPreview_cases)
    case untouched
    then show ?thesis by auto
  next
    case (smartHome m changed s)
    note names = groundSmartHome_names [OF smartHome(2)]
    from smartHome(3) have eqs: "slCanonicalTarget r' = slCanonicalTarget m" "slCanonicalLocation r' = slCanonicalLocation m" by simp_all
    show ?thesis unfolding eqs using names smartHome(1) gate [OF _ smartHome(3)] keep unfolding smartHome(3) by blast
  next
    case (desktop m changed s)
    note names = groundDesktop_names [OF desktop(2)]
    from desktop(3) have eqs: "slCanonicalTarget r' = slCanonicalTarget m" "slCanonicalLocation r' = slCanonicalLocation m" by simp_all
    show ?thesis unfolding eqs using names desktop(1) gate [OF _ desktop(3)] keep unfolding desktop(3) by blast
  qed
qed

definition sampleSlotRequest :: "gostring \<Rightarrow> SemanticSlotParseRequest" where
  "sampleSlotRequest t = \<lparr>spqSessionID = lit ''s-1'', spqDeviceID = [], spqClientType = [], spqPartialText = t, spqStablePrefix = [], spqAudioMs = 900,
     spqStability = 1, spqStableForMs = 200, spqTurnStage = PreviewOnly, spqEndpointHinted = False, spqSemanticIntent = [],
     spqPromptProfile = [], spqPromptHints = []\<rparr>"

definition sampleHomeParse :: SemanticSlotParseResult where
  "sampleHomeParse = zeroSlotResult\<lparr>slCandidateKey := lit ''k'', slDomain := SemanticSlotDomainSmartHome, slMissingSlots := [lit ''target''], slConfidence := 1\<rparr>"

definition noMarks :: "rune \<Rightarrow> bool" where "noMarks r = False"

definition seedGrounder :: EntityCatalogGrounder where "seedGrounder = NewEntityCatalogGrounder DefaultSeedEntityCatalog"

lemma door_lock_run:
  "slCanonicalTarget (fst (GroundPreview noMarks seedGrounder (sampleSlotRequest [0x6253, 0x5F00, 0x95E8, 0x9501]) sampleHomeParse)) = [0x5165, 0x6237, 0x95E8, 0x9501]
   \<and> normalizeSemanticRiskLevel (slRiskLevel (fst (GroundPreview noMarks seedGrounder (sampleSlotRequest [0x6253, 0x5F00, 0x95E8, 0x9501]) sampleHomeParse))) = SemanticRiskLevelHigh
   \<and> grCatalog seedGrounder \<noteq> [] \<and> TrimSpace (firstNonEmpty [spqStablePrefix (sampleSlotRequest [0x6253, 0x5F00, 0x95E8, 0x9501]), spqPartialText (sampleSlotRequest [0x6253, 0x5F00, 0x95E8, 0x9501])]) \<noteq> []
   \<and> grounding_namespace sampleHomeParse = Some entityNamespaceSmartHome"
  by code_simp

theorem grounding_is_evidence_based_witness:
  "slCanonicalTarget (fst (GroundPreview noMarks seedGrounder (sampleSlotRequest [0x6253, 0x5F00, 0x95E8, 0x9501]) sampleHomeParse)) = [0x5165, 0x6237, 0x95E8, 0x9501]
   \<and> slRiskConfirmRequired (fst (GroundPreview noMarks seedGrounder (sampleSlotRequest [0x6253, 0x5F00, 0x95E8, 0x9501]) sampleHomeParse))
   \<and> \<not> unguarded (fst (GroundPreview noMarks seedGrounder (sampleSlotRequest [0x6253, 0x5F00, 0x95E8, 0x9501]) sampleHomeParse))"
  using grounding_is_evidence_based [OF prod.collapse [symmetric], of noMarks seedGrounder "sampleSlotRequest [0x6253, 0x5F00, 0x95E8, 0x9501]" sampleHomeParse] door_lock_run
  by simp

text \<open>
  The context of the session overrides a name that was spoken in full: after the living-room light was used, a request
  that names the living-room downlight is grounded to the living-room light, which the text mentions only by the single
  rune for lamp; a session without that context grounds it to the downlight. The code for applications compares the length of
  the names first.
\<close>
theorem context_overrides_spoken_name:
  "slCanonicalTarget (fst (GroundPreview noMarks seedGrounder (sampleSlotRequest [0x6253, 0x5F00, 0x5BA2, 0x5385, 0x7B52, 0x706F]) sampleHomeParse)) = [0x5BA2, 0x5385, 0x7B52, 0x706F]
   \<and> slCanonicalTarget (fst (GroundPreview noMarks
        (snd (GroundPreview noMarks seedGrounder (sampleSlotRequest [0x6253, 0x5F00, 0x5BA2, 0x5385, 0x706F]) sampleHomeParse)) (sampleSlotRequest [0x6253, 0x5F00, 0x5BA2, 0x5385, 0x7B52, 0x706F]) sampleHomeParse)) = [0x5BA2, 0x5385, 0x706F]"
  by code_simp

section \<open>The store of recent entities\<close>

lemma appendOthers_eq:
  "length nxt < maxLen \<Longrightarrow> appendOthers v maxLen nxt xs = take maxLen (nxt @ filter (\<lambda>x. TrimSpace x \<noteq> v) xs)"
proof (induction v maxLen nxt xs rule: appendOthers.induct)
  case (2 v maxLen nxt x xs)
  then show ?case by (cases "Suc (length nxt) = maxLen") auto
qed simp

definition recent_ids :: "gostring list \<Rightarrow> bool" where
  "recent_ids ids \<longleftrightarrow> length ids \<le> 4 \<and> distinct ids \<and> list_all (\<lambda>x. TrimSpace x = x \<and> x \<noteq> []) ids"

lemma recent_ids_take: "distinct ids \<Longrightarrow> \<forall>x\<in>set ids. TrimSpace x = x \<and> x \<noteq> [] \<Longrightarrow> recent_ids (take 4 ids)"
  by (simp add: recent_ids_def list_all_iff) (meson in_set_takeD)

lemma prepend_recent:
  assumes ok: "recent_ids ids"
  shows "recent_ids (prependUniqueString ids v 4)"
proof (cases "TrimSpace v = []")
  case True
  with ok show ?thesis by (simp add: prependUniqueString_def)
next
  case False
  let ?l = "TrimSpace v # filter (\<lambda>x. TrimSpace x \<noteq> TrimSpace v) ids"
  have eq: "prependUniqueString ids v 4 = take 4 ?l" using False by (simp add: prependUniqueString_def appendOthers_eq Let_def)
  have fixed: "TrimSpace x = x \<and> x \<noteq> []" if "x \<in> set ids" for x using ok that by (simp add: recent_ids_def list_all_iff)
  have "TrimSpace v \<notin> set (filter (\<lambda>x. TrimSpace x \<noteq> TrimSpace v) ids)" using fixed by force
  then have "distinct ?l" using ok by (simp add: recent_ids_def)
  moreover have "\<forall>x\<in>set ?l. TrimSpace x = x \<and> x \<noteq> []" using fixed False by simp
  ultimately show ?thesis unfolding eq by (rule recent_ids_take)
qed

definition recent_context :: "entityCatalogSessionContext \<Rightarrow> bool" where
  "recent_context c \<longleftrightarrow> recent_ids (cxRecentEntityIDs c) \<and> recent_ids (cxRecentRoomIDs c)"

lemma note_recent: "recent_context c \<Longrightarrow> recent_context (noteTarget i c)" "recent_context c \<Longrightarrow> recent_context (noteLocation i c)"
  by (simp_all add: recent_context_def noteTarget_def noteLocation_def Let_def prepend_recent)

definition recent_store :: "EntityCatalogGrounder \<Rightarrow> bool" where
  "recent_store g \<longleftrightarrow> (\<forall>store sid c. grRecent g = Some store \<longrightarrow> store sid = Some c \<longrightarrow> recent_context c)"

lemma zero_context_recent: "recent_context zeroContext"
  by (simp add: recent_context_def zeroContext_def recent_ids_def)

lemma noteSessionGrounding_recent: "recent_store g \<Longrightarrow> recent_store (noteSessionGrounding sid loc tgt g)"
  using zero_context_recent by (auto simp: recent_store_def noteSessionGrounding_def storeNote_def Let_def note_recent split: option.splits)

lemma noteSessionGrounding_catalog [simp]: "grCatalog (noteSessionGrounding sid loc tgt g) = grCatalog g"
  by (simp add: noteSessionGrounding_def split: option.split)

lemma ground_steps:
  assumes "GroundPreview isMark g req r = (r', g')"
  shows "g' = g \<or> (\<exists>loc tgt. g' = noteSessionGrounding (spqSessionID req) loc tgt g)"
  using assms
proof (cases rule: GroundPreview_cases)
  case (smartHome m changed s)
  then show ?thesis by (auto simp: groundSmartHome_def Let_def split: prod.splits if_splits)
next
  case (desktop m changed s)
  then show ?thesis by (auto simp: groundDesktopAssistant_def split: prod.splits if_splits)
qed simp

inductive grounder_reachable :: "(rune \<Rightarrow> bool) \<Rightarrow> EntityCatalog \<Rightarrow> EntityCatalogGrounder \<Rightarrow> bool" for isMark catalog where
  start: "grounder_reachable isMark catalog (NewEntityCatalogGrounder catalog)"
| ground: "grounder_reachable isMark catalog g \<Longrightarrow> GroundPreview isMark g req r = (r', g') \<Longrightarrow> grounder_reachable isMark catalog g'"

lemma grounder_reachable_store: "grounder_reachable isMark catalog g \<Longrightarrow> recent_store g \<and> grCatalog g = catalog"
proof (induction rule: grounder_reachable.induct)
  case start
  show ?case by (simp add: recent_store_def NewEntityCatalogGrounder_def)
next
  case (ground g req r r' g')
  then show ?case using ground_steps [OF ground(2)] noteSessionGrounding_recent by auto
qed

section \<open>Hints\<close>

lemma limitScan_props:
  "distinct acc \<Longrightarrow> length acc < n \<Longrightarrow> distinct (limitScan n acc vs) \<and> length (limitScan n acc vs) \<le> n
     \<and> set (limitScan n acc vs) \<subseteq> set acc \<union> {TrimSpace v | v. v \<in> set vs \<and> TrimSpace v \<noteq> []}"
proof (induction n acc vs rule: limitScan.induct)
  case (2 n acc v vs)
  show ?case
  proof (cases "TrimSpace v = [] \<or> TrimSpace v \<in> set acc")
    case True
    with 2 show ?thesis by (fastforce simp: Let_def)
  next
    case new: False
    show ?thesis
    proof (cases "n \<le> Suc (length acc)")
      case True
      with new 2 show ?thesis by (auto simp: Let_def)
    next
      case False
      with new 2 show ?thesis by (fastforce simp: Let_def)
    qed
  qed
qed simp

lemma limitScan_clean:
  "distinct (acc @ vs) \<Longrightarrow> list_all (\<lambda>v. TrimSpace v = v \<and> v \<noteq> []) vs \<Longrightarrow> length acc < n \<Longrightarrow> limitScan n acc vs = take n (acc @ vs)"
proof (induction n acc vs rule: limitScan.induct)
  case (2 n acc v vs)
  show ?case
  proof (cases "n \<le> Suc (length acc)")
    case True
    with 2 have "n = Suc (length acc)" by simp
    with 2 show ?thesis by (simp add: Let_def)
  next
    case False
    with 2 show ?thesis by (simp add: Let_def)
  qed
qed simp

lemma itemByID_sound: "itemByID catalog i = Some item \<Longrightarrow> item \<in> set catalog"
  by (auto simp: itemByID_def Let_def find_Some_iff split: if_splits)

lemma entityHints_from:
  "h \<in> set (entityHints catalog ids acc) \<Longrightarrow> h \<in> set acc \<or> (\<exists>item\<in>set catalog. h \<in> TrimSpace ` set (eiCanonicalName item # eiAliases item))"
proof (induction ids arbitrary: acc)
  case (Cons i ids)
  show ?case
  proof (cases "itemByID catalog i")
    case None
    then show ?thesis using Cons by (simp add: entityHints_def)
  next
    case (Some item)
    then have "h \<in> set (entityHints catalog ids (appendEntityHint acc (eiCanonicalName item # eiAliases item)))"
      using Cons.prems by (simp add: entityHints_def)
    from Cons.IH [OF this] show ?thesis
    proof
      assume "h \<in> set (appendEntityHint acc (eiCanonicalName item # eiAliases item))"
      then have "h \<in> set acc \<or> h \<in> TrimSpace ` set (eiCanonicalName item # eiAliases item)" by (simp add: appendEntityHint_def split: if_splits) blast+
      with itemByID_sound [OF Some] show ?thesis by (elim disjE) blast+
    qed (rule disjI2)
  qed
qed (simp add: entityHints_def)

text \<open>The hints of a session are computed from names of items of the catalogue.\<close>

definition catalog_name :: "EntityCatalog \<Rightarrow> gostring \<Rightarrow> bool" where
  "catalog_name catalog h \<longleftrightarrow> (\<exists>item\<in>set catalog. h \<in> TrimSpace ` set (eiCanonicalName item # eiAliases item))"

lemma hints_shape:
  "TranscriptionHintsForSession g sid = noHints \<or>
   (\<exists>vs. TranscriptionHintsForSession g sid = \<lparr>thHotwords = limitScan 8 [] vs, thHintPhrases = limitScan 4 [] (limitScan 8 [] vs)\<rparr>
      \<and> (\<forall>h\<in>set vs. catalog_name (grCatalog g) h))"
proof (cases "TranscriptionHintsForSession g sid = noHints")
  case False
  then obtain store where store: "grRecent g = Some store"
    by (cases "grRecent g") (simp_all add: TranscriptionHintsForSession_def)
  with False obtain c where c: "storeLoad store sid = Some c"
    by (cases "storeLoad store sid") (simp_all add: TranscriptionHintsForSession_def)
  let ?vs = "entityHints (grCatalog g) (cxRecentRoomIDs c) (entityHints (grCatalog g) (cxRecentEntityIDs c) [])"
  from False store c have "TranscriptionHintsForSession g sid = \<lparr>thHotwords = limitScan 8 [] ?vs, thHintPhrases = limitScan 4 [] (limitScan 8 [] ?vs)\<rparr>"
    by (simp add: TranscriptionHintsForSession_def limitDistinctHints_def Let_def split: if_splits)
  moreover have "catalog_name (grCatalog g) h" if "h \<in> set ?vs" for h
    using entityHints_from [OF that] entityHints_from [of h "grCatalog g" "cxRecentEntityIDs c" "[]"]
    unfolding catalog_name_def by (simp only: list.set empty_iff simp_thms) metis
  ultimately show ?thesis by (intro disjI2) blast
qed simp

lemma hints_bounded:
  fixes g sid
  defines "hints \<equiv> TranscriptionHintsForSession g sid"
  shows "length (thHotwords hints) \<le> 8 \<and> distinct (thHotwords hints) \<and> thHintPhrases hints = take 4 (thHotwords hints)
    \<and> (\<forall>h\<in>set (thHotwords hints). catalog_name (grCatalog g) h)"
  using hints_shape [of g sid, folded hints_def]
proof (elim disjE exE conjE)
  assume "hints = noHints"
  then show ?thesis by (simp add: noHints_def)
next
  fix vs assume eq: "hints = \<lparr>thHotwords = limitScan 8 [] vs, thHintPhrases = limitScan 4 [] (limitScan 8 [] vs)\<rparr>"
    and names: "\<forall>h\<in>set vs. catalog_name (grCatalog g) h"
  have d: "distinct (limitScan 8 [] vs)" and l: "length (limitScan 8 [] vs) \<le> 8"
      and s: "set (limitScan 8 [] vs) \<subseteq> {TrimSpace v |v. v \<in> set vs \<and> TrimSpace v \<noteq> []}"
    using limitScan_props [of "[]" 8 vs] by simp_all
  have "list_all (\<lambda>v. TrimSpace v = v \<and> v \<noteq> []) (limitScan 8 [] vs)" using s by (force simp: list_all_iff)
  then have phrases: "limitScan 4 [] (limitScan 8 [] vs) = take 4 (limitScan 8 [] vs)" using d limitScan_clean [of "[]" "limitScan 8 [] vs" 4] by simp
  have "catalog_name (grCatalog g) h" if "h \<in> set (limitScan 8 [] vs)" for h
  proof -
    from s that obtain v where v: "v \<in> set vs" "h = TrimSpace v" by blast
    with names obtain item where item: "item \<in> set (grCatalog g)" "v \<in> TrimSpace ` set (eiCanonicalName item # eiAliases item)"
      unfolding catalog_name_def by blast
    then have "h \<in> TrimSpace ` set (eiCanonicalName item # eiAliases item)" using v(2) by (auto simp only: image_iff TrimSpace_idem)
    with item(1) show ?thesis unfolding catalog_name_def by blast
  qed
  then show ?thesis using d l phrases by (simp add: eq)
qed

lemma hints_other_session:
  assumes "TrimSpace sid \<noteq> TrimSpace (spqSessionID req)"
  shows "TranscriptionHintsForSession (snd (GroundPreview isMark g req r)) sid = TranscriptionHintsForSession g sid"
proof -
  have "TranscriptionHintsForSession (noteSessionGrounding (spqSessionID req) loc tgt g) sid = TranscriptionHintsForSession g sid" for loc tgt
    using assms by (simp add: TranscriptionHintsForSession_def noteSessionGrounding_def storeNote_def storeLoad_def Let_def split: option.split)
  then show ?thesis using ground_steps [OF prod.collapse [symmetric], of isMark g req r] by metis
qed

text \<open>
  In every state the grounder reaches, the store of each session holds at most four recent entities and four
  recent rooms without repetition, and the hints for the recogniser are at most eight distinct names or aliases of items of the
  catalogue, of which the first four are the hint phrases; grounding a request changes the context of its own session only.
\<close>
theorem recent_entities_bounded:
  assumes reach: "grounder_reachable isMark catalog g"
  shows "recent_store g
    \<and> length (thHotwords (TranscriptionHintsForSession g sid)) \<le> 8
    \<and> distinct (thHotwords (TranscriptionHintsForSession g sid))
    \<and> thHintPhrases (TranscriptionHintsForSession g sid) = take 4 (thHotwords (TranscriptionHintsForSession g sid))
    \<and> (\<forall>h\<in>set (thHotwords (TranscriptionHintsForSession g sid)). catalog_name catalog h)
    \<and> (TrimSpace sid \<noteq> TrimSpace (spqSessionID req) \<longrightarrow>
         TranscriptionHintsForSession (snd (GroundPreview isMark g req r)) sid = TranscriptionHintsForSession g sid)"
  using grounder_reachable_store [OF reach] hints_bounded [of g sid] hints_other_session [of sid req isMark g r] by simp

theorem recent_entities_bounded_witness:
  "thHotwords (TranscriptionHintsForSession (snd (GroundPreview noMarks seedGrounder (sampleSlotRequest [0x6253, 0x5F00, 0x95E8, 0x9501]) sampleHomeParse)) (lit ''s-1'')) \<noteq> []
   \<and> length (thHotwords (TranscriptionHintsForSession (snd (GroundPreview noMarks seedGrounder (sampleSlotRequest [0x6253, 0x5F00, 0x95E8, 0x9501]) sampleHomeParse)) (lit ''s-1''))) \<le> 8"
proof -
  have "grounder_reachable noMarks DefaultSeedEntityCatalog (snd (GroundPreview noMarks seedGrounder (sampleSlotRequest [0x6253, 0x5F00, 0x95E8, 0x9501]) sampleHomeParse))"
    unfolding seedGrounder_def by (rule ground [OF start prod.collapse [symmetric]])
  moreover have "thHotwords (TranscriptionHintsForSession (snd (GroundPreview noMarks seedGrounder (sampleSlotRequest [0x6253, 0x5F00, 0x95E8, 0x9501]) sampleHomeParse)) (lit ''s-1'')) \<noteq> []"
    by code_simp
  ultimately show ?thesis
    using recent_entities_bounded [of noMarks DefaultSeedEntityCatalog _ "lit ''s-1''"] by blast
qed

end
