(* ===== verification/Pcm_Audio.thy ===== *)
theory Pcm_Audio
  imports Go_Float
begin

text \<open>
  PCM16 audio as bytes: the cut into playout frames, the WAV reader and the resampler of
  \<open>internal/voice/audio_output.go\<close> and the frame helpers of \<open>internal/voice/audio_stream.go\<close>. Offsets into
  slices are natural numbers; a slice of a payload is \<open>take\<close> of \<open>drop\<close>. Sizes read from a header are below
  \<open>2 ^ 32\<close>, so that the 64-bit offsets of the source do not wrap.
\<close>

section \<open>Samples\<close>

text \<open>\<open>binary.LittleEndian\<close>: reading an unsigned number, and the conversion \<open>int16\<close>.\<close>

fun leUint :: "byte list \<Rightarrow> int" where
  "leUint [] = 0"
| "leUint (b # bs) = uint b + 256 * leUint bs"

definition int16 :: "int \<Rightarrow> int" where
  "int16 x = (x + 2 ^ 15) mod 2 ^ 16 - 2 ^ 15"

definition putUint16 :: "int \<Rightarrow> byte list" where
  "putUint16 v = [word_of_int v, word_of_int (v div 256)]"

text \<open>The signed samples of a payload; an odd last byte belongs to no sample.\<close>

fun pcmSamples :: "byte list \<Rightarrow> int list" where
  "pcmSamples (lo # hi # rest) = int16 (leUint [lo, hi]) # pcmSamples rest"
| "pcmSamples _ = []"

definition pcmBytes :: "int list \<Rightarrow> byte list" where
  "pcmBytes vs = concat (map putUint16 vs)"

section \<open>Frames\<close>

function chunkLoop :: "byte list \<Rightarrow> int \<Rightarrow> int \<Rightarrow> byte list list" where
  "chunkLoop audioPCM chunkBytes offset =
     (if 0 < chunkBytes \<and> offset < int (length audioPCM)
      then take (nat chunkBytes) (drop (nat offset) audioPCM) # chunkLoop audioPCM chunkBytes (offset + chunkBytes)
      else [])"
  by pat_completeness auto
termination
  by (relation "measure (\<lambda>(a, c, i). nat (int (length a) - i))") auto

declare chunkLoop.simps [simp del]

definition samplesPerChunk :: "int \<Rightarrow> int \<Rightarrow> int" where
  "samplesPerChunk sampleRateHz frameMs =
     (let ms = (if frameMs \<le> 0 then 20 else frameMs); n = (sampleRateHz * ms) sdiv 1000
      in if n \<le> 0 then sampleRateHz sdiv 50 else n)"

definition chunkPCM16 :: "byte list \<Rightarrow> int \<Rightarrow> int \<Rightarrow> int \<Rightarrow> byte list list" where
  "chunkPCM16 audioPCM sampleRateHz channels frameMs =
     (if audioPCM = [] \<or> sampleRateHz \<le> 0 \<or> channels \<le> 0 then []
      else let chunkBytes = samplesPerChunk sampleRateHz frameMs * (channels * 2)
           in if chunkBytes \<le> 0 then [] else chunkLoop audioPCM chunkBytes 0)"

definition pcm16FrameBytes :: "int \<Rightarrow> int \<Rightarrow> int" where
  "pcm16FrameBytes sampleRateHz channels =
     (if sampleRateHz \<le> 0 \<or> channels \<le> 0 then 0 else sampleRateHz sdiv 50 * channels * 2)"

definition nextPCMChunk :: "byte list \<Rightarrow> int \<Rightarrow> byte list \<times> byte list" where
  "nextPCMChunk pending frameBytes =
     (if int (length pending) \<le> frameBytes \<or> frameBytes \<le> 0 then (pending, [])
      else (take (nat frameBytes) pending, drop (nat frameBytes) pending))"

section \<open>WAV files\<close>

datatype wav_error = WavTooShort | WavHeaderInvalid | WavChunkExceedsPayload | WavFmtTooShort
  | WavUnsupportedFormat int | WavUnsupportedBitDepth int | WavMetadataIncomplete | WavDataEmpty

record wavFields =
  wvSampleRateHz :: int
  wvChannels :: int
  wvAudioFormat :: int
  wvBitsPerSample :: int
  wvDataChunk :: "byte list"

definition ascii :: "string \<Rightarrow> byte list" where
  "ascii s = map of_char s"

definition slice :: "nat \<Rightarrow> nat \<Rightarrow> byte list \<Rightarrow> byte list" where
  "slice i j xs = take (j - i) (drop i xs)"

definition readWAVChunk :: "byte list \<Rightarrow> byte list \<Rightarrow> wavFields \<Rightarrow> wav_error + wavFields" where
  "readWAVChunk chunkID chunkData w =
     (if chunkID = ascii ''fmt '' then
        (if length chunkData < 16 then Inl WavFmtTooShort
         else Inr (w\<lparr>wvAudioFormat := leUint (slice 0 2 chunkData), wvChannels := leUint (slice 2 4 chunkData),
           wvSampleRateHz := leUint (slice 4 8 chunkData), wvBitsPerSample := leUint (slice 14 16 chunkData)\<rparr>))
      else if chunkID = ascii ''data'' then Inr (w\<lparr>wvDataChunk := chunkData\<rparr>)
      else Inr w)"

function wavLoop :: "byte list \<Rightarrow> nat \<Rightarrow> wavFields \<Rightarrow> wav_error + wavFields" where
  "wavLoop payload offset w =
     (if offset + 8 \<le> length payload then
        (let chunkID = slice offset (offset + 4) payload;
             chunkSize = nat (leUint (slice (offset + 4) (offset + 8) payload));
             start = offset + 8
         in if start + chunkSize > length payload then Inl WavChunkExceedsPayload
            else case readWAVChunk chunkID (slice start (start + chunkSize) payload) w of
                Inl e \<Rightarrow> Inl e
              | Inr w' \<Rightarrow> wavLoop payload (if chunkSize mod 2 = 1 then start + chunkSize + 1 else start + chunkSize) w')
      else Inr w)"
  by pat_completeness auto
termination
  by (relation "measure (\<lambda>(p, i, w). length p - i)") (auto split: if_splits)

declare wavLoop.simps [simp del]

definition wavResult :: "wavFields \<Rightarrow> wav_error + (byte list \<times> int \<times> int)" where
  "wavResult w =
     (if wvAudioFormat w \<noteq> 1 then Inl (WavUnsupportedFormat (wvAudioFormat w))
      else if wvBitsPerSample w \<noteq> 16 then Inl (WavUnsupportedBitDepth (wvBitsPerSample w))
      else if wvChannels w \<le> 0 \<or> wvSampleRateHz w \<le> 0 then Inl WavMetadataIncomplete
      else if wvDataChunk w = [] then Inl WavDataEmpty
      else Inr (wvDataChunk w, wvSampleRateHz w, wvChannels w))"

definition noFields :: wavFields where
  "noFields = \<lparr>wvSampleRateHz = 0, wvChannels = 0, wvAudioFormat = 0, wvBitsPerSample = 0, wvDataChunk = []\<rparr>"

definition decodeWAVPCM16 :: "byte list \<Rightarrow> wav_error + (byte list \<times> int \<times> int)" where
  "decodeWAVPCM16 payload =
     (if length payload < 12 then Inl WavTooShort
      else if slice 0 4 payload \<noteq> ascii ''RIFF'' \<or> slice 8 12 payload \<noteq> ascii ''WAVE'' then Inl WavHeaderInvalid
      else case wavLoop payload 12 noFields of Inl e \<Rightarrow> Inl e | Inr w \<Rightarrow> wavResult w)"

section \<open>Resampling\<close>

datatype adapt_error = AdaptChannels int int | AdaptOnlyMono int | AdaptInvalidRate | AdaptOddLength | AdaptInvalidCount

definition interpolateSample :: "int list \<Rightarrow> float64 \<Rightarrow> nat \<Rightarrow> int" where
  "interpolateSample values ratio index =
     (let position = fmul (float_of (int index)) ratio; base = \<lfloor>position\<rfloor>
      in if base \<ge> int (length values) - 1 then values ! (length values - 1)
         else let fraction = fsub position (float_of base);
                  left = float_of (values ! nat base);
                  right = float_of (values ! (nat base + 1))
              in int16 (Round (fadd left (fmul (fsub right left) fraction))))"

definition targetSampleCount :: "int \<Rightarrow> int \<Rightarrow> int \<Rightarrow> int" where
  "targetSampleCount sourceSamples sourceRateHz targetRateHz =
     Round (fdiv (fmul (float_of sourceSamples) (float_of targetRateHz)) (float_of sourceRateHz))"

definition adaptPCM16 :: "byte list \<Rightarrow> int \<Rightarrow> int \<Rightarrow> int \<Rightarrow> int \<Rightarrow> adapt_error + byte list" where
  "adaptPCM16 audioPCM sourceRateHz sourceChannels targetRateHz targetChannels =
     (if targetChannels \<noteq> sourceChannels then Inl (AdaptChannels sourceChannels targetChannels)
      else if sourceChannels \<noteq> 1 then Inl (AdaptOnlyMono sourceChannels)
      else if targetRateHz \<le> 0 \<or> sourceRateHz \<le> 0 then Inl AdaptInvalidRate
      else if sourceRateHz = targetRateHz then Inr audioPCM
      else if length audioPCM mod 2 \<noteq> 0 then Inl AdaptOddLength
      else let sourceSamples = length audioPCM div 2
           in if sourceSamples = 0 then Inr []
              else let targetSamples = targetSampleCount (int sourceSamples) sourceRateHz targetRateHz
                   in if targetSamples \<le> 0 then Inl AdaptInvalidCount
                      else let values = pcmSamples audioPCM
                           in if targetSamples = 1 then Inr (putUint16 (values ! 0))
                              else let ratio = fdiv (float_of (int sourceSamples - 1)) (float_of (targetSamples - 1))
                                   in Inr (pcmBytes (map (interpolateSample values ratio) [0..<nat targetSamples])))"


section \<open>Lemmas on samples\<close>

lemma leUint_bounds: "0 \<le> leUint bs \<and> leUint bs < 256 ^ length bs"
proof (induction bs)
  case (Cons b bs)
  have "0 \<le> uint b" "uint b < 256" using uint_bounded [of b] by simp_all
  then show ?case using Cons by simp
qed simp

lemma int16_bounds: "- (2 ^ 15) \<le> int16 x \<and> int16 x < 2 ^ 15"
  by (simp add: int16_def)

lemma int16_id: "- (2 ^ 15) \<le> x \<Longrightarrow> x < 2 ^ 15 \<Longrightarrow> int16 x = x"
  by (simp add: int16_def)

lemma int16_mod: "int16 (x mod 2 ^ 16) = int16 x"
  by (simp add: int16_def mod_simps)

lemma leUint_putUint16: "leUint (putUint16 v) = v mod 2 ^ 16"
proof -
  have "v mod 65536 = v mod 256 + 256 * ((v div 256) mod 256)"
    using zmod_zmult2_eq [of 256 v 256] by simp
  then show ?thesis by (simp add: putUint16_def uint_word_of_int)
qed

lemma pcmSamples_put: "pcmSamples (putUint16 v @ rest) = int16 v # pcmSamples rest"
proof -
  obtain a b where ab: "putUint16 v = [a, b]" by (simp add: putUint16_def)
  have "int16 (leUint [a, b]) = int16 v" using leUint_putUint16 [of v] int16_mod [of v] by (simp add: ab)
  then show ?thesis by (simp add: ab)
qed

lemma pcmSamples_pcmBytes: "pcmSamples (pcmBytes vs) = map int16 vs"
  by (induction vs) (simp_all add: pcmBytes_def pcmSamples_put)

lemma length_pcmSamples: "length (pcmSamples p) = length p div 2"
  by (induction p rule: pcmSamples.induct) simp_all

lemma length_pcmBytes: "length (pcmBytes vs) = 2 * length vs"
  by (induction vs) (simp_all add: pcmBytes_def putUint16_def)

lemma pcmSamples_bounds: "v \<in> set (pcmSamples p) \<Longrightarrow> - (2 ^ 15) \<le> v \<and> v < 2 ^ 15"
  by (induction p rule: pcmSamples.induct) (auto simp del: leUint.simps simp: int16_bounds [simplified])

section \<open>Lemmas on frames\<close>

lemma chunkLoop_concat:
  assumes "0 < c" and "0 \<le> i"
  shows "concat (chunkLoop a c i) = drop (nat i) a"
  using assms
proof (induction a c i rule: chunkLoop.induct)
  case (1 a c i)
  show ?case
  proof (cases "i < int (length a)")
    case True
    have "concat (chunkLoop a c (i + c)) = drop (nat (i + c)) a" using 1 True by simp
    moreover have "nat (i + c) = nat i + nat c" using 1 by (simp add: nat_add_distrib)
    ultimately show ?thesis using True 1(2) append_take_drop_id [of "nat c" "drop (nat i) a"]
      by (simp add: chunkLoop.simps [of a c i] add.commute)
  next
    case False
    then show ?thesis by (subst chunkLoop.simps) simp
  qed
qed

lemma chunkLoop_lengths:
  assumes "0 < c" and "0 \<le> i" and "x \<in> set (chunkLoop a c i)"
  shows "0 < length x \<and> int (length x) \<le> c"
  using assms
proof (induction a c i rule: chunkLoop.induct)
  case (1 a c i)
  have i: "i < int (length a)" using 1(4) by (cases "i < int (length a)") (simp_all add: chunkLoop.simps [of a c i])
  then have eq: "chunkLoop a c i = take (nat c) (drop (nat i) a) # chunkLoop a c (i + c)" using 1(2) by (simp add: chunkLoop.simps [of a c i])
  then consider "x = take (nat c) (drop (nat i) a)" | "x \<in> set (chunkLoop a c (i + c))" using 1(4) by auto
  then show ?case
  proof cases
    case 1
    then show ?thesis using i \<open>0 < c\<close> \<open>0 \<le> i\<close> by auto
  next
    case 2
    then show ?thesis using "1.IH" i "1.prems" by simp
  qed
qed

lemma chunkLoop_butlast:
  assumes "0 < c" and "0 \<le> i" and "x \<in> set (butlast (chunkLoop a c i))"
  shows "int (length x) = c"
  using assms
proof (induction a c i rule: chunkLoop.induct)
  case (1 a c i)
  have i: "i < int (length a)" using 1(4) by (cases "i < int (length a)") (simp_all add: chunkLoop.simps [of a c i])
  then have eq: "chunkLoop a c i = take (nat c) (drop (nat i) a) # chunkLoop a c (i + c)" using 1(2) by (simp add: chunkLoop.simps [of a c i])
  have ne: "chunkLoop a c (i + c) \<noteq> []" using 1(4) by (auto simp: eq)
  then have "i + c < int (length a)" by (cases "i + c < int (length a)") (simp_all add: chunkLoop.simps [of a c "i + c"])
  then have "int (length (take (nat c) (drop (nat i) a))) = c" using 1(2,3) by simp
  then show ?case using 1(4) "1.IH" i 1(2,3) ne by (auto simp: eq)
qed

lemma samplesPerChunk_pos: "50 \<le> r \<Longrightarrow> 0 < samplesPerChunk r ms"
  by (auto simp: samplesPerChunk_def Let_def sdiv_nonneg)


lemma chunkPCM16_frames:
  assumes "a \<noteq> []" and "50 \<le> r" and "0 < ch"
  shows "concat (chunkPCM16 a r ch ms) = a"
    and "x \<in> set (chunkPCM16 a r ch ms) \<Longrightarrow> 0 < length x \<and> int (length x) \<le> samplesPerChunk r ms * (ch * 2)"
    and "x \<in> set (butlast (chunkPCM16 a r ch ms)) \<Longrightarrow> int (length x) = samplesPerChunk r ms * (ch * 2)"
proof -
  have pos: "0 < samplesPerChunk r ms * (ch * 2)" using samplesPerChunk_pos [OF assms(2)] assms(3) by simp
  have eq: "chunkPCM16 a r ch ms = chunkLoop a (samplesPerChunk r ms * (ch * 2)) 0"
    using assms pos by (auto simp: chunkPCM16_def Let_def)
  show "concat (chunkPCM16 a r ch ms) = a" unfolding eq using chunkLoop_concat [OF pos, of 0] by simp
  show "x \<in> set (chunkPCM16 a r ch ms) \<Longrightarrow> 0 < length x \<and> int (length x) \<le> samplesPerChunk r ms * (ch * 2)"
    unfolding eq by (rule chunkLoop_lengths [OF pos order_refl])
  show "x \<in> set (butlast (chunkPCM16 a r ch ms)) \<Longrightarrow> int (length x) = samplesPerChunk r ms * (ch * 2)"
    unfolding eq by (rule chunkLoop_butlast [OF pos order_refl])
qed

section \<open>The WAV format\<close>

text \<open>The layout of a RIFF file, as a reference writer: a chunk is its id, its size, its data and a pad byte.\<close>

fun putLE :: "nat \<Rightarrow> int \<Rightarrow> byte list" where
  "putLE 0 v = []"
| "putLE (Suc k) v = word_of_int v # putLE k (v div 256)"

definition wavChunk :: "byte list \<times> byte list \<Rightarrow> byte list" where
  "wavChunk c = fst c @ putLE 4 (int (length (snd c))) @ snd c @ (if odd (length (snd c)) then [0] else [])"

definition wavFile :: "int \<Rightarrow> (byte list \<times> byte list) list \<Rightarrow> byte list" where
  "wavFile n cs = ascii ''RIFF'' @ putLE 4 n @ ascii ''WAVE'' @ concat (map wavChunk cs)"

definition fmtChunk :: "int \<Rightarrow> int \<Rightarrow> byte list \<Rightarrow> byte list \<Rightarrow> byte list \<times> byte list" where
  "fmtChunk channels rate other extra =
     (ascii ''fmt '', putLE 2 1 @ putLE 2 channels @ putLE 4 rate @ other @ putLE 2 16 @ extra)"

definition wavChunkOk :: "byte list \<times> byte list \<Rightarrow> bool" where
  "wavChunkOk c \<longleftrightarrow> length (fst c) = 4 \<and> length (snd c) < 2 ^ 32"

definition otherChunk :: "byte list \<times> byte list \<Rightarrow> bool" where
  "otherChunk c \<longleftrightarrow> wavChunkOk c \<and> fst c \<noteq> ascii ''fmt '' \<and> fst c \<noteq> ascii ''data''"

fun readChunks :: "(byte list \<times> byte list) list \<Rightarrow> wavFields \<Rightarrow> wav_error + wavFields" where
  "readChunks [] w = Inr w"
| "readChunks (c # cs) w = (case readWAVChunk (fst c) (snd c) w of Inl e \<Rightarrow> Inl e | Inr w' \<Rightarrow> readChunks cs w')"

lemma length_putLE [simp]: "length (putLE k v) = k"
  by (induction k arbitrary: v) simp_all

lemma leUint_putLE: "0 \<le> v \<Longrightarrow> v < 256 ^ k \<Longrightarrow> leUint (putLE k v) = v"
proof (induction k arbitrary: v)
  case (Suc k)
  have "v div 256 < 256 ^ k" using Suc.prems by (simp add: div_less_iff_less_mult mult.commute)
  then have "leUint (putLE k (v div 256)) = v div 256" using Suc by simp
  then show ?case by (simp add: uint_word_of_int)
qed simp

lemma length_ascii [simp]: "length (ascii s) = length s"
  by (simp add: ascii_def)

lemma slice_append:
  "slice (length pre) (length pre + length xs) (pre @ xs @ rest) = xs"
  by (simp add: slice_def)

lemma wavLoop_chunk:
  assumes ok: "wavChunkOk c" and p: "p = pre @ wavChunk c @ rest"
  shows "wavLoop p (length pre) w =
    (case readWAVChunk (fst c) (snd c) w of Inl e \<Rightarrow> Inl e | Inr w' \<Rightarrow> wavLoop p (length (pre @ wavChunk c)) w')"
proof -
  let ?sz = "putLE 4 (int (length (snd c)))" and ?pad = "if odd (length (snd c)) then [0] else []"
  have l4: "length (fst c) = 4" using ok by (simp add: wavChunkOk_def)
  have size: "leUint ?sz = int (length (snd c))" using ok by (intro leUint_putLE) (simp_all add: wavChunkOk_def)
  have s1: "slice (length pre) (length pre + 4) p = fst c"
    using slice_append [of pre "fst c" "?sz @ snd c @ ?pad @ rest"] by (simp add: p wavChunk_def l4)
  have s2: "slice (length pre + 4) (length pre + 8) p = ?sz"
    using slice_append [of "pre @ fst c" ?sz "snd c @ ?pad @ rest"] by (simp add: p wavChunk_def l4 add.assoc)
  have s3: "slice (length pre + 8) (length pre + 8 + length (snd c)) p = snd c"
    using slice_append [of "pre @ fst c @ ?sz" "snd c" "?pad @ rest"] by (simp add: p wavChunk_def l4 add.assoc)
  have len: "length (pre @ wavChunk c) = (if length (snd c) mod 2 = 1 then length pre + 8 + length (snd c) + 1 else length pre + 8 + length (snd c))"
    by (simp add: wavChunk_def l4 odd_iff_mod_2_eq_one)
  have "length pre + 8 \<le> length p" and "\<not> length pre + 8 + length (snd c) > length p"
    by (simp_all add: p wavChunk_def l4)
  then show ?thesis unfolding len by (subst wavLoop.simps) (simp only: Let_def s1 s2 s3 size nat_int if_True if_False)
qed

lemma wavLoop_chunks:
  assumes "list_all wavChunkOk cs"
  shows "wavLoop (pre @ concat (map wavChunk cs)) (length pre) w = readChunks cs w"
  using assms
proof (induction cs arbitrary: pre w)
  case Nil
  then show ?case by (subst wavLoop.simps) simp
next
  case (Cons c cs)
  have "wavLoop (pre @ concat (map wavChunk (c # cs))) (length (pre @ wavChunk c)) w' = readChunks cs w'" for w'
    using Cons.IH [of "pre @ wavChunk c" w'] Cons.prems by simp
  then show ?case using Cons.prems by (subst wavLoop_chunk [of c _ pre "concat (map wavChunk cs)"]) (simp_all split: sum.split)
qed

lemma decode_wavFile: "list_all wavChunkOk cs \<Longrightarrow>
    decodeWAVPCM16 (wavFile n cs) = (case readChunks cs noFields of Inl e \<Rightarrow> Inl e | Inr w \<Rightarrow> wavResult w)"
  using wavLoop_chunks [of cs "ascii ''RIFF'' @ putLE 4 n @ ascii ''WAVE''" noFields]
  by (simp add: decodeWAVPCM16_def wavFile_def slice_def)

lemma readChunks_append: "readChunks (xs @ ys) w = (case readChunks xs w of Inl e \<Rightarrow> Inl e | Inr w' \<Rightarrow> readChunks ys w')"
  by (induction xs arbitrary: w) (simp_all split: sum.split)

lemma readChunks_other: "list_all otherChunk cs \<Longrightarrow> readChunks cs w = Inr w"
  by (induction cs arbitrary: w) (simp_all add: readWAVChunk_def otherChunk_def)

lemma readChunk_fmt:
  assumes "0 \<le> ch" "ch < 2 ^ 16" "0 \<le> r" "r < 2 ^ 32" "length other = 6"
  shows "readWAVChunk (fst (fmtChunk ch r other extra)) (snd (fmtChunk ch r other extra)) w =
    Inr (w\<lparr>wvAudioFormat := 1, wvChannels := ch, wvSampleRateHz := r, wvBitsPerSample := 16\<rparr>)"
  using assms by (simp add: readWAVChunk_def fmtChunk_def slice_def leUint_putLE del: putLE.simps)


section \<open>Interpolation stays between its neighbours\<close>

lemma Round_between: "of_int a \<le> x \<Longrightarrow> x \<le> of_int b \<Longrightarrow> a \<le> Round x \<and> Round x \<le> b"
  by (auto simp: Round_def) linarith+

lemma lerp_up:
  assumes "a \<le> b" and "0 \<le> f" and "f \<le> 1" and "\<bar>a\<bar> \<le> 2 ^ 15" and "\<bar>b\<bar> \<le> 2 ^ 15"
  shows "of_int a \<le> fadd (of_int a) (fmul (fsub (of_int b) (of_int a)) f) \<and>
    fadd (of_int a) (fmul (fsub (of_int b) (of_int a)) f) \<le> of_int b"
proof -
  have d: "fsub (of_int b) (of_int a) = of_int (b - a)" using fl_int [of "b - a"] assms by (simp add: fsub_def)
  have "0 \<le> of_int (b - a) * f" using assms by simp
  moreover have "of_int (b - a) * f \<le> of_int (b - a)" using assms by (simp add: mult_left_le)
  ultimately have m: "0 \<le> fmul (of_int (b - a)) f" "fmul (of_int (b - a)) f \<le> of_int (b - a)"
    unfolding fmul_def using assms by (intro fl_nonneg, simp, intro fl_le_int, simp_all)
  then have "of_int a \<le> of_int a + fmul (of_int (b - a)) f" "of_int a + fmul (of_int (b - a)) f \<le> of_int b" by simp_all
  then show ?thesis unfolding d using assms by (auto simp: fadd_def intro!: fl_ge_int fl_le_int)
qed

lemma lerp_down:
  assumes "b \<le> a" and "0 \<le> f" and "f \<le> 1" and "\<bar>a\<bar> \<le> 2 ^ 15" and "\<bar>b\<bar> \<le> 2 ^ 15"
  shows "of_int b \<le> fadd (of_int a) (fmul (fsub (of_int b) (of_int a)) f) \<and>
    fadd (of_int a) (fmul (fsub (of_int b) (of_int a)) f) \<le> of_int a"
proof -
  have "fadd (of_int a) (fmul (fsub (of_int b) (of_int a)) f) =
      - fadd (of_int (- a)) (fmul (fsub (of_int (- b)) (of_int (- a))) f)"
    using fl_minus [of "of_int b - of_int a"] fl_minus [of "fl (of_int b - of_int a) * f"]
      fl_minus [of "of_int a + fl (fl (of_int b - of_int a) * f)"]
    by (simp add: fadd_def fmul_def fsub_def)
  then show ?thesis using lerp_up [of "- a" "- b" f] assms by simp
qed

lemma lerp_between:
  assumes "lo \<le> a" "a \<le> hi" "lo \<le> b" "b \<le> hi" and "0 \<le> f" "f \<le> 1" and "\<bar>a\<bar> \<le> 2 ^ 15" "\<bar>b\<bar> \<le> 2 ^ 15"
  shows "lo \<le> Round (fadd (float_of a) (fmul (fsub (float_of b) (float_of a)) f)) \<and>
    Round (fadd (float_of a) (fmul (fsub (float_of b) (float_of a)) f)) \<le> hi"
proof -
  have fa: "float_of a = of_int a" "float_of b = of_int b" using assms by (simp_all add: float_of_id)
  show ?thesis
  proof (cases "a \<le> b")
    case True
    then show ?thesis unfolding fa using Round_between lerp_up [OF True assms(5-8)] assms(1-4) by fastforce
  next
    case False
    then have "b \<le> a" by simp
    then show ?thesis unfolding fa using Round_between lerp_down [OF _ assms(5-8)] assms(1-4) by fastforce
  qed
qed

lemma fraction_bounds:
  assumes "0 \<le> \<lfloor>x\<rfloor>" and "\<lfloor>x\<rfloor> < 2 ^ 53"
  shows "0 \<le> fsub x (float_of \<lfloor>x\<rfloor>) \<and> fsub x (float_of \<lfloor>x\<rfloor>) \<le> 1"
proof -
  have "float_of \<lfloor>x\<rfloor> = of_int \<lfloor>x\<rfloor>" using assms by (intro float_of_id) simp
  moreover have "0 \<le> x - of_int \<lfloor>x\<rfloor>" "x - of_int \<lfloor>x\<rfloor> \<le> 1" by linarith+
  ultimately show ?thesis by (simp add: fsub_def fl_nonneg fl_le_one)
qed

lemma interpolateSample_between:
  assumes "vs \<noteq> []" and "0 \<le> ratio" and "length vs < 2 ^ 53" and "\<forall>v \<in> set vs. lo \<le> v \<and> v \<le> hi"
    and "- (2 ^ 15) \<le> lo" and "hi < 2 ^ 15"
  shows "lo \<le> interpolateSample vs ratio i \<and> interpolateSample vs ratio i \<le> hi"
proof -
  let ?x = "fmul (float_of (int i)) ratio"
  have "0 \<le> ?x" using assms(2) by (simp add: fmul_def float_of_def fl_nonneg)
  then have b0: "0 \<le> \<lfloor>?x\<rfloor>" by simp
  show ?thesis
  proof (cases "\<lfloor>?x\<rfloor> \<ge> int (length vs) - 1")
    case True
    then show ?thesis using assms(1,4) by (simp add: interpolateSample_def Let_def)
  next
    case False
    let ?n = "nat \<lfloor>?x\<rfloor>" and ?f = "fsub ?x (float_of \<lfloor>?x\<rfloor>)"
    have n: "?n + 1 < length vs" using False b0 by linarith
    then have v: "lo \<le> vs ! ?n" "vs ! ?n \<le> hi" "lo \<le> vs ! (?n + 1)" "vs ! (?n + 1) \<le> hi" using assms(4) by simp_all
    have "int (length vs) < 2 ^ 53" using assms(3) by simp
    then have "\<lfloor>?x\<rfloor> < 2 ^ 53" using False by linarith
    then have f: "0 \<le> ?f" "?f \<le> 1" using fraction_bounds b0 by blast+
    have r: "lo \<le> Round (fadd (float_of (vs ! ?n)) (fmul (fsub (float_of (vs ! (?n + 1))) (float_of (vs ! ?n))) ?f)) \<and>
        Round (fadd (float_of (vs ! ?n)) (fmul (fsub (float_of (vs ! (?n + 1))) (float_of (vs ! ?n))) ?f)) \<le> hi" (is "lo \<le> ?r \<and> _")
      using v f assms(5,6) by (intro lerp_between) (simp_all add: abs_le_iff)
    have "interpolateSample vs ratio i = int16 ?r" using False by (simp add: interpolateSample_def Let_def)
    also have "\<dots> = ?r" using r assms(5,6) by (intro int16_id) linarith+
    finally show ?thesis using r by simp
  qed
qed

lemma Round_of_int: "Round (of_int n) = n"
  using Round_between [of n "of_int n" n] by simp

lemma interpolateSample_first:
  assumes "\<forall>v \<in> set vs. - (2 ^ 15) \<le> v \<and> v < 2 ^ 15" and "vs \<noteq> []"
  shows "interpolateSample vs ratio 0 = vs ! 0"
proof (cases "length vs = 1")
  case True
  then show ?thesis by (simp add: interpolateSample_def float_of_def fmul_def)
next
  case False
  have v: "- (2 ^ 15) \<le> vs ! 0" "vs ! 0 < 2 ^ 15" using assms by simp_all
  then have "fl (of_int (vs ! 0)) = of_int (vs ! 0)" by (intro fl_int) (simp add: abs_less_iff)
  then show ?thesis using False assms v
    by (cases "length vs") (simp_all add: interpolateSample_def Let_def fmul_def fadd_def fsub_def float_of_def Round_of_int int16_id)
qed


lemma adaptPCM16_samples:
  assumes "even (length pcm)" and "pcm \<noteq> []" and "length pcm < 2 ^ 53" and "sr \<noteq> tr" and "adaptPCM16 pcm sr 1 tr 1 = Inr out"
  obtains ratio where "0 \<le> ratio" "0 < targetSampleCount (int (length pcm div 2)) sr tr"
    "out = pcmBytes (map (interpolateSample (pcmSamples pcm) ratio) [0..<nat (targetSampleCount (int (length pcm div 2)) sr tr)])"
proof -
  let ?n = "int (length pcm div 2)" let ?t = "targetSampleCount ?n sr tr"
  have n: "0 < ?n" using assms(1,2) by (cases pcm; cases "tl pcm") auto
  have t: "0 < ?t" using assms n by (auto simp: adaptPCM16_def Let_def split: if_splits)
  show thesis
  proof (cases "?t = 1")
    case True
    have "out = putUint16 (pcmSamples pcm ! 0)" using assms n True by (auto simp: adaptPCM16_def Let_def split: if_splits)
    moreover have "interpolateSample (pcmSamples pcm) 0 0 = pcmSamples pcm ! 0"
      using pcmSamples_bounds n length_pcmSamples [of pcm] by (intro interpolateSample_first) auto
    ultimately show thesis using that [of 0] True by (simp add: pcmBytes_def)
  next
    case False
    have "0 \<le> fdiv (float_of (?n - 1)) (float_of (?t - 1))"
      unfolding fdiv_def float_of_def using n t by (intro fl_nonneg divide_nonneg_nonneg) simp_all
    moreover have "out = pcmBytes (map (interpolateSample (pcmSamples pcm) (fdiv (float_of (?n - 1)) (float_of (?t - 1)))) [0..<nat ?t])"
      using assms n t False by (auto simp: adaptPCM16_def Let_def split: if_splits)
    ultimately show thesis using that t by blast
  qed
qed

section \<open>Properties\<close>

text \<open>
  reading a WAV file gives back what was written. For any file made of a PCM16 format chunk and a data
  chunk, with any other chunks before, between and after them, decodeWAVPCM16 returns exactly the data,
  the sample rate and the number of channels.
\<close>
theorem wav_roundtrip:
  assumes "list_all otherChunk (xs @ ys @ zs)"
    and "0 < channels" and "channels < 2 ^ 16" and "0 < rate" and "rate < 2 ^ 32"
    and "length other = 6" and "length extra < 2 ^ 31" and "pcm \<noteq> []" and "length pcm < 2 ^ 32"
  shows "decodeWAVPCM16 (wavFile n (xs @ [fmtChunk channels rate other extra] @ ys @ [(ascii ''data'', pcm)] @ zs)) =
    Inr (pcm, rate, channels)"
proof -
  have data: "readWAVChunk (ascii ''data'') d w = Inr (w\<lparr>wvDataChunk := d\<rparr>)" for d w
    by (simp add: readWAVChunk_def ascii_def)
  have oks: "list_all wavChunkOk (xs @ ys @ zs)" using assms(1) by (simp add: list_all_iff otherChunk_def)
  then have "list_all wavChunkOk (xs @ [fmtChunk channels rate other extra] @ ys @ [(ascii ''data'', pcm)] @ zs)"
    using assms by (simp add: wavChunkOk_def fmtChunk_def)
  then show ?thesis using assms
    by (simp add: decode_wavFile readChunks_append readChunks_other readChunk_fmt data wavResult_def del: append.simps)
qed

theorem wav_roundtrip_witness:
  "decodeWAVPCM16 (wavFile 40 ([(ascii ''LIST'', [1, 2, 3])] @ [fmtChunk 1 16000 [0, 125, 0, 0, 2, 0] []] @ [] @
     [(ascii ''data'', [1, 0, 255, 127])] @ [])) = Inr ([1, 0, 255, 127], 16000, 1)"
  by (rule wav_roundtrip) (simp_all add: otherChunk_def wavChunkOk_def ascii_def)

text \<open>
  resampling never clips or wraps. The output has the rounded number of samples, starts
  with the first input sample, and every output sample lies between the smallest and the largest input
  sample, although it is computed in float64 and stored by an unchecked conversion to int16.
\<close>
theorem resampled_within_range:
  assumes "even (length pcm)" and "pcm \<noteq> []" and "length pcm < 2 ^ 53" and "sr \<noteq> tr"
    and "adaptPCM16 pcm sr 1 tr 1 = Inr out"
  shows "int (length out) = 2 * targetSampleCount (int (length pcm div 2)) sr tr \<and>
    pcmSamples out ! 0 = pcmSamples pcm ! 0 \<and>
    (\<forall>v \<in> set (pcmSamples out). Min (set (pcmSamples pcm)) \<le> v \<and> v \<le> Max (set (pcmSamples pcm)))"
proof -
  let ?t = "targetSampleCount (int (length pcm div 2)) sr tr" and ?vs = "pcmSamples pcm"
  let ?lo = "Min (set ?vs)" and ?hi = "Max (set ?vs)"
  from adaptPCM16_samples [OF assms] obtain ratio
    where r: "0 \<le> ratio" "0 < ?t" "out = pcmBytes (map (interpolateSample ?vs ratio) [0..<nat ?t])" .
  have ne: "?vs \<noteq> []" using assms(1,2) by (cases pcm; cases "tl pcm") auto
  have "?lo \<in> set ?vs" "?hi \<in> set ?vs" using ne by simp_all
  then have lohi: "- (2 ^ 15) \<le> ?lo" "?hi < 2 ^ 15" using pcmSamples_bounds by blast+
  have between: "?lo \<le> interpolateSample ?vs ratio i \<and> interpolateSample ?vs ratio i \<le> ?hi" for i
    using ne r(1) assms(3) lohi by (intro interpolateSample_between) (simp_all add: length_pcmSamples)
  have "int16 (interpolateSample ?vs ratio i) = interpolateSample ?vs ratio i" for i
    using between [of i] lohi by (intro int16_id) linarith+
  then have out: "pcmSamples out = map (interpolateSample ?vs ratio) [0..<nat ?t]"
    by (simp add: r(3) pcmSamples_pcmBytes o_def)
  have first: "interpolateSample ?vs ratio 0 = ?vs ! 0" using ne pcmSamples_bounds by (intro interpolateSample_first) blast
  have "int (length out) = 2 * ?t" using r(2,3) by (simp add: length_pcmBytes)
  then show ?thesis using between first r(2) unfolding out by simp
qed

theorem resampled_within_range_witness:
  "let pcm = [0, 0, 50, 0, 100, 0]; out = [0, 0, 100, 0] in
   int (length out) = 2 * targetSampleCount (int (length pcm div 2)) 3 2 \<and>
    pcmSamples out ! 0 = pcmSamples pcm ! 0 \<and>
    (\<forall>v \<in> set (pcmSamples out). Min (set (pcmSamples pcm)) \<le> v \<and> v \<le> Max (set (pcmSamples pcm)))"
proof -
  have f: "fl 2 = 2" "fl 3 = 3" "fl 6 = 6" using fl_int [of 2] fl_int [of 3] fl_int [of 6] by simp_all
  have t: "targetSampleCount 3 3 2 = 2" by (simp add: targetSampleCount_def float_of_def fmul_def fdiv_def f Round_def floor_eq_iff)
  have v: "pcmSamples [0, 0, 50, 0, 100, 0] = [0, 50, 100]" by (simp add: int16_def)
  have i: "interpolateSample [0, 50, 100] 2 0 = 0" "interpolateSample [0, 50, 100] 2 1 = 100"
    using interpolateSample_first [of "[0, 50, 100]" 2] by (simp_all add: interpolateSample_def float_of_def fmul_def f)
  have "adaptPCM16 [0, 0, 50, 0, 100, 0] 3 1 2 1 = Inr (pcmBytes (map (interpolateSample [0, 50, 100] 2) [0..<2]))"
    by (simp add: adaptPCM16_def Let_def t v float_of_def fdiv_def f del: pcmSamples.simps upt.simps)
  also have "[0..<2] = [0, 1 :: nat]" by (simp add: numeral_2_eq_2)
  also have "pcmBytes (map (interpolateSample [0, 50, 100] 2) [0, 1]) = [0, 0, 100, 0]"
    unfolding list.map i by (simp add: pcmBytes_def putUint16_def)
  finally have "adaptPCM16 [0, 0, 50, 0, 100, 0] 3 1 2 1 = Inr [0, 0, 100, 0]" .
  from resampled_within_range [OF _ _ _ _ this] show ?thesis unfolding Let_def by simp
qed

end
