(* ===== verification/Input_Preview.thy ===== *)
theory Input_Preview
  imports Entity_Catalog Orchestrator Pcm_Audio
begin

text \<open>
  The input preview of \<open>internal/voice/asr_responder.go\<close>, and the recognition of a turn's audio with the buffering
  recogniser of \<open>streaming_transcriber.go\<close>. A preview session cuts the audio into pieces of 40 ms, asks the detector for a
  snapshot after each of them and on every poll, and merges the judgement and the slots found for the hypothesis. The
  recogniser's stream is outside the repository: the deltas it reports and whether a push fails are arguments. Requests to the
  judge, the slot parser and the prewarmer run in goroutines; a call returns the ones it launches, and their answers are steps
  of their own. \<open>formatFixed3\<close> is \<open>strconv.FormatFloat\<close> with three decimals, \<open>encodeList\<close> the JSON of a list of labels.
\<close>

section \<open>Pieces of audio\<close>

definition defaultASRStreamingChunkMs :: int where "defaultASRStreamingChunkMs = 40"
definition defaultBufferedStreamingChunkBytes :: int where "defaultBufferedStreamingChunkBytes = 1280"

definition pcmFrameBytes :: "int \<Rightarrow> int \<Rightarrow> int \<Rightarrow> int" where
  "pcmFrameBytes rate chans frameMs =
     (if rate \<le> 0 \<or> chans \<le> 0 \<or> frameMs \<le> 0 then defaultBufferedStreamingChunkBytes
      else let samplesPerChannel = int64 (rate * frameMs) sdiv 1000
           in if samplesPerChannel \<le> 0 then defaultBufferedStreamingChunkBytes else int64 (samplesPerChannel * chans * 2))"

definition splitPCMForStreaming :: "byte list \<Rightarrow> int \<Rightarrow> int \<Rightarrow> int \<Rightarrow> byte list list" where
  "splitPCMForStreaming audioPCM rate chans frameMs =
     (let frameBytes = pcmFrameBytes rate chans frameMs
      in if audioPCM = [] then []
         else if frameBytes \<le> 0 \<or> int (length audioPCM) \<le> frameBytes then [audioPCM]
         else chunkLoop audioPCM frameBytes 0)"

section \<open>Recognition of a turn\<close>

record TranscriptionRequest =
  trqSessionID :: gostring
  trqTurnID :: gostring
  trqTraceID :: gostring
  trqDeviceID :: gostring
  trqAudioPCM :: "byte list"
  trqCodec :: gostring
  trqSampleRateHz :: int
  trqChannels :: int
  trqLanguage :: gostring
  trqHotwords :: "gostring list"
  trqHintPhrases :: "gostring list"

type_synonym Transcriber = "TranscriptionRequest \<Rightarrow> gostring + TranscriptionResult"

text \<open>A recogniser that takes the audio in pieces, with the state \<open>'s\<close> of a stream.\<close>

record 's StreamingTranscriber =
  stStartStream :: "TranscriptionRequest \<Rightarrow> gostring + 's"
  stPushAudio :: "'s \<Rightarrow> byte list \<Rightarrow> gostring + 's"
  stFinish :: "'s \<Rightarrow> gostring + TranscriptionResult"

fun pushChunks :: "'s StreamingTranscriber \<Rightarrow> 's \<Rightarrow> byte list list \<Rightarrow> gostring + 's" where
  "pushChunks st s [] = Inr s"
| "pushChunks st s (c # cs) = (case stPushAudio st s c of Inl e \<Rightarrow> Inl e | Inr s' \<Rightarrow> pushChunks st s' cs)"

definition transcriptionRequest :: "TranscriptionHints \<Rightarrow> gostring \<Rightarrow> TurnRequest \<Rightarrow> TranscriptionRequest" where
  "transcriptionRequest hints language req =
     \<lparr>trqSessionID = rqSessionID req, trqTurnID = rqTurnID req, trqTraceID = rqTraceID req, trqDeviceID = rqDeviceID req,
      trqAudioPCM = rqAudioPCM req, trqCodec = rqInputCodec req, trqSampleRateHz = rqInputSampleRate req,
      trqChannels = rqInputChannels req, trqLanguage = language, trqHotwords = thHotwords hints, trqHintPhrases = thHintPhrases hints\<rparr>"

definition transcribeAudio ::
    "Transcriber \<Rightarrow> 's StreamingTranscriber option \<Rightarrow> TranscriptionHints \<Rightarrow> gostring \<Rightarrow> TurnRequest \<Rightarrow> gostring + TranscriptionResult" where
  "transcribeAudio transcribe streaming hints language req =
     (let request = transcriptionRequest hints language req
      in case streaming of
           None \<Rightarrow> transcribe request
         | Some st \<Rightarrow>
             (case stStartStream st request of
                Inl e \<Rightarrow> transcribe request
              | Inr s \<Rightarrow>
                  (case pushChunks st s (splitPCMForStreaming (rqAudioPCM req) (rqInputSampleRate req) (rqInputChannels req) defaultASRStreamingChunkMs) of
                     Inl e \<Rightarrow> Inl e
                   | Inr s' \<Rightarrow> stFinish st s')))"

definition transcriptionForTurn ::
    "Transcriber \<Rightarrow> 's StreamingTranscriber option \<Rightarrow> TranscriptionHints \<Rightarrow> gostring \<Rightarrow> TurnRequest \<Rightarrow> gostring + TranscriptionResult" where
  "transcriptionForTurn transcribe streaming hints language req =
     (case rqPreviewTranscription req of
        Some r \<Rightarrow> if TrimSpace (trText r) \<noteq> [] then Inr r else transcribeAudio transcribe streaming hints language req
      | None \<Rightarrow> transcribeAudio transcribe streaming hints language req)"

section \<open>The buffering recogniser\<close>

text \<open>
  A session collects the audio and recognises it at the end. Deltas go to a sink, which may fail; every operation returns
  its error, the new state and the deltas that the sink accepted.
\<close>

record bufferedStreamingSession =
  bsReq :: TranscriptionRequest
  bsBuffer :: "byte list"
  bsStarted :: bool
  bsClosed :: bool

definition batchTranscribe :: "Transcriber option \<Rightarrow> Transcriber" where
  "batchTranscribe inner req =
     (case inner of
        None \<Rightarrow> Inl (lit ''streaming transcriber inner is nil'')
      | Some transcribe \<Rightarrow>
          (case transcribe req of
             Inl e \<Rightarrow> Inl e
           | Inr r \<Rightarrow> Inr (if TrimSpace (trMode r) = [] then r\<lparr>trMode := lit ''batch''\<rparr> else r)))"

definition bufferedStartStream :: "Transcriber option \<Rightarrow> TranscriptionRequest \<Rightarrow> gostring + bufferedStreamingSession" where
  "bufferedStartStream inner req =
     (case inner of
        None \<Rightarrow> Inl (lit ''streaming transcriber inner is nil'')
      | Some transcribe \<Rightarrow> Inr \<lparr>bsReq = req\<lparr>trqAudioPCM := []\<rparr>, bsBuffer = [], bsStarted = False, bsClosed = False\<rparr>)"

type_synonym deltaSink = "TranscriptionDelta \<Rightarrow> gostring option"

definition bufferedPushAudio ::
    "deltaSink \<Rightarrow> bufferedStreamingSession \<Rightarrow> byte list \<Rightarrow> gostring option \<times> bufferedStreamingSession \<times> TranscriptionDelta list" where
  "bufferedPushAudio sink s chunk =
     (if bsClosed s then (Some (lit ''streaming transcription session is closed''), s, [])
      else if chunk = [] then (None, s, [])
      else if \<not> bsStarted s then
        (let delta = \<lparr>deltaKind = DeltaSpeechStart, deltaText = [], deltaEndpointReason = [], deltaAudioBytes = int (length chunk)\<rparr>
         in case sink delta of
              Some e \<Rightarrow> (Some e, s, [])
            | None \<Rightarrow> (None, s\<lparr>bsStarted := True, bsBuffer := bsBuffer s @ chunk\<rparr>, [delta]))
      else (None, s\<lparr>bsBuffer := bsBuffer s @ chunk\<rparr>, []))"

text \<open>The recognition and the final delta of \<open>Finish\<close>; \<open>emitted\<close> holds the end of speech.\<close>

definition recogniseBuffer ::
    "Transcriber \<Rightarrow> deltaSink \<Rightarrow> bufferedStreamingSession \<Rightarrow> TranscriptionDelta list
      \<Rightarrow> (gostring + TranscriptionResult) \<times> bufferedStreamingSession \<times> TranscriptionDelta list" where
  "recogniseBuffer transcribe sink s emitted =
     (case transcribe ((bsReq s)\<lparr>trqAudioPCM := bsBuffer s\<rparr>) of
        Inl e \<Rightarrow> (Inl e, s\<lparr>bsClosed := True\<rparr>, emitted)
      | Inr r0 \<Rightarrow>
          (let r = (if TrimSpace (trMode r0) = [] then r0\<lparr>trMode := lit ''buffered_stream''\<rparr> else r0);
               delta = \<lparr>deltaKind = DeltaFinal, deltaText = trText r, deltaEndpointReason = trEndpointReason r, deltaAudioBytes = int (length (bsBuffer s))\<rparr>
           in if TrimSpace (trText r) = [] then (Inr r, s\<lparr>bsClosed := True\<rparr>, emitted)
              else case sink delta of
                Some e \<Rightarrow> (Inl e, s\<lparr>bsClosed := True\<rparr>, emitted)
              | None \<Rightarrow> (Inr r, s\<lparr>bsClosed := True\<rparr>, emitted @ [delta])))"

definition bufferedFinish ::
    "Transcriber \<Rightarrow> deltaSink \<Rightarrow> bufferedStreamingSession
      \<Rightarrow> (gostring + TranscriptionResult) \<times> bufferedStreamingSession \<times> TranscriptionDelta list" where
  "bufferedFinish transcribe sink s =
     (let delta = \<lparr>deltaKind = DeltaSpeechEnd, deltaText = [], deltaEndpointReason = [], deltaAudioBytes = int (length (bsBuffer s))\<rparr>
      in if bsClosed s then (Inl (lit ''streaming transcription session is closed''), s, [])
         else if bsStarted s then
           (case sink delta of
              Some e \<Rightarrow> (Inl e, s, [])
            | None \<Rightarrow> recogniseBuffer transcribe sink s [delta])
         else recogniseBuffer transcribe sink s [])"

definition bufferedClose :: "bufferedStreamingSession \<Rightarrow> bufferedStreamingSession" where
  "bufferedClose s = s\<lparr>bsClosed := True, bsBuffer := []\<rparr>"

text \<open>The interface of the recogniser, without a sink, as \<open>transcribeAudio\<close> uses it.\<close>

definition NewBufferedStreamingTranscriber :: "Transcriber \<Rightarrow> bufferedStreamingSession StreamingTranscriber" where
  "NewBufferedStreamingTranscriber transcribe =
     \<lparr>stStartStream = bufferedStartStream (Some transcribe),
      stPushAudio = (\<lambda>s c. case bufferedPushAudio (\<lambda>_. None) s c of (Some e, _, _) \<Rightarrow> Inl e | (None, s', _) \<Rightarrow> Inr s'),
      stFinish = (\<lambda>s. fst (bufferedFinish transcribe (\<lambda>_. None) s))\<rparr>"

section \<open>Data of a preview session\<close>

definition defaultPreviewPrewarmMinRunes :: int where "defaultPreviewPrewarmMinRunes = 4"

record asrInputPreviewSession =
  apDetector :: SilenceTurnDetector
  apPrewarmer :: bool
  apSemanticJudge :: bool
  apSemanticDecision :: semanticJudgeRolloutDecision
  apSemanticState :: previewSemanticJudgeState
  apSemanticMinRunes :: int
  apSemanticMinStableFor :: duration
  apSlotParser :: bool
  apSlotState :: previewSemanticSlotParserState
  apSlotParserMinRunes :: int
  apSlotParserStableFor :: duration
  apPreviewRequest :: InputPreviewRequest
  apMinPrewarmRunes :: int
  apLastPrewarmText :: gostring
  apFinished :: "(gostring + TranscriptionResult) option"

text \<open>What a responder is configured with, as far as a preview needs it.\<close>

record previewConfig =
  pcJudge :: bool
  pcRollout :: SemanticJudgeRolloutConfig
  pcJudgeMinRunes :: int
  pcJudgeMinStableFor :: duration
  pcSlotParser :: bool
  pcSlotMinRunes :: int
  pcSlotMinStableFor :: duration
  pcPrewarmer :: bool
  pcDetection :: SilenceTurnDetectorConfig

text \<open>\<open>stream\<close>: the error of the recogniser when it cannot start; \<open>None\<close>: the recogniser has no streaming interface.\<close>

datatype preview_error = NoTranscriber | NoStreaming | StreamFailed gostring

definition StartInputPreview :: "previewConfig \<Rightarrow> bool \<Rightarrow> gostring option option \<Rightarrow> InputPreviewRequest \<Rightarrow> preview_error + asrInputPreviewSession" where
  "StartInputPreview cfg hasTranscriber stream req =
     (if \<not> hasTranscriber then Inl NoTranscriber
      else case stream of
        None \<Rightarrow> Inl NoStreaming
      | Some (Some e) \<Rightarrow> Inl (StreamFailed e)
      | Some None \<Rightarrow> Inr
          \<lparr>apDetector = NewSilenceTurnDetector (pcDetection cfg) (prSampleRateHz req) (prChannels req), apPrewarmer = pcPrewarmer cfg,
           apSemanticJudge = pcJudge cfg, apSemanticDecision = decideSemanticJudgeRollout req (pcRollout cfg) (pcJudge cfg),
           apSemanticState = newSemanticJudgeState, apSemanticMinRunes = maxInt (pcJudgeMinRunes cfg) defaultSemanticJudgeMinRunes,
           apSemanticMinStableFor = firstPositiveDuration (pcJudgeMinStableFor cfg) defaultSemanticJudgeMinStableFor,
           apSlotParser = pcSlotParser cfg, apSlotState = newSemanticSlotParserState,
           apSlotParserMinRunes = maxInt (pcSlotMinRunes cfg) defaultSemanticSlotParserMinRunes,
           apSlotParserStableFor = firstPositiveDuration (pcSlotMinStableFor cfg) defaultSemanticSlotParserMinStableFor,
           apPreviewRequest = req, apMinPrewarmRunes = defaultPreviewPrewarmMinRunes, apLastPrewarmText = [], apFinished = None\<rparr>)"

section \<open>Requests\<close>

definition semanticTurnRequest :: "asrInputPreviewSession \<Rightarrow> InputPreview \<Rightarrow> SemanticTurnRequest option" where
  "semanticTurnRequest s snapshot =
     (let partialText = TrimSpace (pvPartialText snapshot); stablePfx = TrimSpace (pvStablePrefix snapshot);
          a = pvArbitration snapshot; r = apPreviewRequest s
      in if partialText = [] \<and> stablePfx = [] then None
         else Some \<lparr>tqSessionID = prSessionID r, tqDeviceID = prDeviceID r, tqClientType = prClientType r, tqPartialText = partialText,
                tqStablePrefix = stablePfx, tqAudioMs = arbAudioMs a, tqStability = arbStability a, tqStableForMs = arbStableForMs a,
                tqTurnStage = arbStage a, tqEndpointHinted = arbEndpointHinted a, tqTaskFamilyHint = arbTaskFamily a,
                tqSlotConstraintRequired = arbSlotConstraintRequired a\<rparr>)"

definition semanticSlotParseRequest :: "asrInputPreviewSession \<Rightarrow> InputPreview \<Rightarrow> SemanticSlotParseRequest option" where
  "semanticSlotParseRequest s snapshot =
     (let partialText = TrimSpace (pvPartialText snapshot); stablePfx = TrimSpace (pvStablePrefix snapshot);
          a = pvArbitration snapshot; r = apPreviewRequest s
      in if partialText = [] \<and> stablePfx = [] then None
         else Some \<lparr>spqSessionID = prSessionID r, spqDeviceID = prDeviceID r, spqClientType = prClientType r, spqPartialText = partialText,
                spqStablePrefix = stablePfx, spqAudioMs = arbAudioMs a, spqStability = arbStability a, spqStableForMs = arbStableForMs a,
                spqTurnStage = arbStage a, spqEndpointHinted = arbEndpointHinted a, spqSemanticIntent = arbSemanticIntent a,
                spqPromptProfile = [], spqPromptHints = []\<rparr>)"

definition snapshotKey :: "InputPreview \<Rightarrow> gostring" where
  "snapshotKey snapshot = semanticCandidateKey (pvStablePrefix snapshot) (pvPartialText snapshot)"

definition maybeLaunchSemanticJudge ::
    "InputPreview \<Rightarrow> asrInputPreviewSession \<Rightarrow> SemanticTurnRequest option \<times> asrInputPreviewSession" where
  "maybeLaunchSemanticJudge snapshot s =
     (if \<not> apSemanticJudge s \<or> \<not> rdEnabled (apSemanticDecision s) then (None, s)
      else if \<not> shouldJudgeSemantic snapshot (apSemanticMinRunes s) (apSemanticMinStableFor s) then (None, s)
      else case semanticTurnRequest s snapshot of
        None \<Rightarrow> (None, s)
      | Some request \<Rightarrow>
          (let (launch, st) = judgeShouldLaunch (semanticCandidateKey (tqStablePrefix request) (tqPartialText request)) (apSemanticState s)
           in if launch then (Some request, s\<lparr>apSemanticState := st\<rparr>) else (None, s)))"

definition maybeLaunchSlotParser ::
    "InputPreview \<Rightarrow> asrInputPreviewSession \<Rightarrow> SemanticSlotParseRequest option \<times> asrInputPreviewSession" where
  "maybeLaunchSlotParser snapshot s =
     (if \<not> apSlotParser s then (None, s)
      else if \<not> shouldParseSemanticSlots snapshot (apSlotParserMinRunes s) (apSlotParserStableFor s) then (None, s)
      else case semanticSlotParseRequest s snapshot of
        None \<Rightarrow> (None, s)
      | Some request \<Rightarrow>
          (let (launch, st) = slotShouldLaunch (semanticCandidateKey (spqStablePrefix request) (spqPartialText request)) (apSlotState s)
           in if launch then (Some request, s\<lparr>apSlotState := st\<rparr>) else (None, s)))"

definition mergedSemanticSnapshot :: "asrInputPreviewSession \<Rightarrow> InputPreview \<Rightarrow> InputPreview" where
  "mergedSemanticSnapshot s snapshot =
     (case judgeResultFor (snapshotKey snapshot) (apSemanticState s) of None \<Rightarrow> snapshot | Some r \<Rightarrow> mergeSemanticJudgement snapshot r)"

definition mergedSlotSnapshot :: "asrInputPreviewSession \<Rightarrow> InputPreview \<Rightarrow> InputPreview" where
  "mergedSlotSnapshot s snapshot =
     (case slotResultFor (snapshotKey snapshot) (apSlotState s) of None \<Rightarrow> snapshot | Some r \<Rightarrow> mergeSemanticSlotParse snapshot r)"

definition variantText :: "semanticJudgeVariant \<Rightarrow> gostring" where
  "variantText v = (case v of VariantControl \<Rightarrow> lit ''control'' | VariantSemantic \<Rightarrow> lit ''semantic'')"

definition annotateSemanticJudgeTracing :: "asrInputPreviewSession \<Rightarrow> InputPreview \<Rightarrow> InputPreview" where
  "annotateSemanticJudgeTracing s snapshot =
     snapshot\<lparr>pvArbitration := (pvArbitration snapshot)\<lparr>arbSemanticJudgeVariant := TrimSpace (variantText (rdVariant (apSemanticDecision s))),
       arbSemanticJudgeEnabled := rdEnabled (apSemanticDecision s)\<rparr>\<rparr>"

section \<open>Prewarming\<close>

definition stageText :: "TurnArbitrationStage \<Rightarrow> gostring" where
  "stageText st = (case st of StageUnset \<Rightarrow> [] | PreviewOnly \<Rightarrow> lit ''preview_only'' | PrewarmAllowed \<Rightarrow> lit ''prewarm_allowed''
     | DraftAllowed \<Rightarrow> lit ''draft_allowed'' | AcceptCandidate \<Rightarrow> lit ''accept_candidate'' | AcceptNow \<Rightarrow> lit ''accept_now''
     | WaitForMore \<Rightarrow> lit ''wait_for_more'')"

text \<open>The conversion of a nonnegative float to an integer.\<close>

definition truncate :: "float64 \<Rightarrow> int" where
  "truncate x = (if x < 0 then - \<lfloor>- x\<rfloor> else \<lfloor>x\<rfloor>)"

definition prewarmMetadata ::
    "(float64 \<Rightarrow> gostring) \<Rightarrow> (gostring list \<Rightarrow> gostring) \<Rightarrow> gostring \<Rightarrow> InputPreview \<Rightarrow> metadata" where
  "prewarmMetadata formatFixed3 encodeList candidate snapshot =
     (let a = pvArbitration snapshot
      in map_of
       [(lit ''voice.preview.prewarm'', lit ''true''),
        (lit ''voice.preview.partial_text'', TrimSpace (pvPartialText snapshot)),
        (lit ''voice.preview.stable_prefix'', candidate),
        (lit ''voice.preview.utterance_complete'', FormatBool (pvUtteranceComplete snapshot)),
        (lit ''voice.preview.turn_stage'', stageText (arbStage a)),
        (lit ''voice.preview.candidate_ready'', FormatBool (arbCandidateReady a)),
        (lit ''voice.preview.draft_ready'', FormatBool (arbDraftReady a)),
        (lit ''voice.preview.accept_ready'', FormatBool (arbAcceptReady a)),
        (lit ''voice.preview.stable_for_ms'', Itoa (arbStableForMs a)),
        (lit ''voice.preview.stability_percent'', Itoa (truncate (fmul (arbStability a) 100))),
        (lit ''voice.preview.base_wait_ms'', Itoa (arbBaseWaitMs a)),
        (lit ''voice.preview.rule_adjust_ms'', Itoa (arbRuleAdjustMs a)),
        (lit ''voice.preview.punctuation_adjust_ms'', Itoa (arbPunctuationAdjustMs a)),
        (lit ''voice.preview.semantic_wait_delta_ms'', Itoa (arbSemanticWaitDeltaMs a)),
        (lit ''voice.preview.semantic_variant'', TrimSpace (arbSemanticJudgeVariant a)),
        (lit ''voice.preview.semantic_enabled'', FormatBool (arbSemanticJudgeEnabled a)),
        (lit ''voice.preview.slot_guard_adjust_ms'', Itoa (arbSlotGuardAdjustMs a)),
        (lit ''voice.preview.effective_wait_ms'', Itoa (arbEffectiveWaitMs a)),
        (lit ''voice.preview.commit_suggested'', FormatBool (pvCommitSuggested snapshot)),
        (lit ''voice.preview.endpoint_candidate'', FormatBool (arbAcceptCandidate a)),
        (lit ''voice.preview.endpoint_reason'', TrimSpace (pvEndpointReason snapshot)),
        (lit ''voice.preview.semantic_ready'', FormatBool (arbSemanticReady a)),
        (lit ''voice.preview.semantic_complete'', FormatBool (arbSemanticComplete a)),
        (lit ''voice.preview.semantic_intent'', TrimSpace (arbSemanticIntent a)),
        (lit ''voice.preview.semantic_slot_readiness'', TrimSpace (arbSemanticSlotReadiness a)),
        (lit ''voice.preview.task_family'', TrimSpace (arbTaskFamily a)),
        (lit ''voice.preview.slot_constraint_required'', FormatBool (arbSlotConstraintRequired a)),
        (lit ''voice.preview.semantic_confidence'', formatFixed3 (arbSemanticConfidence a)),
        (lit ''voice.preview.slot_ready'', FormatBool (arbSlotReady a)),
        (lit ''voice.preview.slot_complete'', FormatBool (arbSlotComplete a)),
        (lit ''voice.preview.slot_grounded'', FormatBool (arbSlotGrounded a)),
        (lit ''voice.preview.slot_domain'', TrimSpace (arbSlotDomain a)),
        (lit ''voice.preview.slot_intent'', TrimSpace (arbSlotIntent a)),
        (lit ''voice.preview.slot_status'', TrimSpace (arbSlotStatus a)),
        (lit ''voice.preview.slot_actionability'', TrimSpace (arbSlotActionability a)),
        (lit ''voice.preview.slot_clarify_needed'', FormatBool (arbSlotClarifyNeeded a)),
        (lit ''voice.preview.slot_canonical_target'', TrimSpace (arbSlotCanonicalTarget a)),
        (lit ''voice.preview.slot_canonical_location'', TrimSpace (arbSlotCanonicalLocation a)),
        (lit ''voice.preview.slot_normalized_value'', TrimSpace (arbSlotNormalizedValue a)),
        (lit ''voice.preview.slot_normalized_unit'', TrimSpace (arbSlotNormalizedValueUnit a)),
        (lit ''voice.preview.slot_risk_level'', TrimSpace (arbSlotRiskLevel a)),
        (lit ''voice.preview.slot_risk_reason'', TrimSpace (arbSlotRiskReason a)),
        (lit ''voice.preview.slot_risk_confirm_required'', FormatBool (arbSlotRiskConfirmRequired a)),
        (lit ''voice.preview.slot_missing'', encodeList (arbSlotMissing a)),
        (lit ''voice.preview.slot_ambiguous'', encodeList (arbSlotAmbiguous a))])"

definition prewarmCandidate :: "InputPreview \<Rightarrow> gostring" where
  "prewarmCandidate snapshot =
     (let stablePfx = TrimSpace (pvStablePrefix snapshot)
      in if stablePfx = [] \<and> pvCommitSuggested snapshot \<and> pvUtteranceComplete snapshot then TrimSpace (pvPartialText snapshot) else stablePfx)"

definition maybePrewarm ::
    "(float64 \<Rightarrow> gostring) \<Rightarrow> (gostring list \<Rightarrow> gostring) \<Rightarrow> InputPreview \<Rightarrow> asrInputPreviewSession
      \<Rightarrow> TurnInput option \<times> asrInputPreviewSession" where
  "maybePrewarm formatFixed3 encodeList snapshot s =
     (let candidate = prewarmCandidate snapshot; r = apPreviewRequest s
      in if \<not> apPrewarmer s then (None, s)
         else if \<not> arbPrewarmAllowed (pvArbitration snapshot) then (None, s)
         else if candidate = [] \<or> candidate = apLastPrewarmText s then (None, s)
         else if int (length candidate) < apMinPrewarmRunes s then (None, s)
         else (Some \<lparr>tiSessionID = prSessionID r, tiTurnID = [], tiTraceID = [], tiDeviceID = prDeviceID r, tiClientType = prClientType r,
                 tiUserText = candidate,
                 tiAudio = \<lparr>audPresent = False, audFrames = 0, audBytes = 0, audCodec = [], audSampleRateHz = 0, audChannels = 0\<rparr>,
                 tiImages = [], tiMetadata = prewarmMetadata formatFixed3 encodeList candidate snapshot\<rparr>,
               s\<lparr>apLastPrewarmText := candidate\<rparr>))"

section \<open>Polling and pushing\<close>

text \<open>The goroutines that a call starts.\<close>

record launches =
  lnJudge :: "SemanticTurnRequest option"
  lnSlots :: "SemanticSlotParseRequest option"
  lnPrewarm :: "TurnInput option"

definition noLaunches :: launches where "noLaunches = \<lparr>lnJudge = None, lnSlots = None, lnPrewarm = None\<rparr>"

definition Poll ::
    "(float64 \<Rightarrow> gostring) \<Rightarrow> (gostring list \<Rightarrow> gostring) \<Rightarrow> int \<Rightarrow> asrInputPreviewSession
      \<Rightarrow> InputPreview \<times> launches \<times> asrInputPreviewSession" where
  "Poll formatFixed3 encodeList now s0 =
     (let (snap0, d) = DetectorSnapshot now (apDetector s0);
          (judge, s1) = maybeLaunchSemanticJudge snap0 (s0\<lparr>apDetector := d\<rparr>);
          snap1 = annotateSemanticJudgeTracing s1 (mergedSemanticSnapshot s1 snap0);
          (slots, s2) = maybeLaunchSlotParser snap1 s1;
          snap2 = mergedSlotSnapshot s2 snap1;
          (prewarm, s3) = maybePrewarm formatFixed3 encodeList snap2 s2
      in (snap2, \<lparr>lnJudge = judge, lnSlots = slots, lnPrewarm = prewarm\<rparr>, s3))"

text \<open>
  One piece of audio: it is noted, handed to the recogniser, which reports \<open>deltas\<close> at their times and may fail, and
  the preview is computed as by a poll.
\<close>

definition pushPreviewChunk ::
    "(float64 \<Rightarrow> gostring) \<Rightarrow> (gostring list \<Rightarrow> gostring) \<Rightarrow> int \<Rightarrow> (int \<times> TranscriptionDelta) list \<Rightarrow> gostring option \<Rightarrow> int \<Rightarrow> byte list
      \<Rightarrow> asrInputPreviewSession \<Rightarrow> (gostring + InputPreview) \<times> launches \<times> asrInputPreviewSession" where
  "pushPreviewChunk formatFixed3 encodeList pushedAt deltas failure now chunk s0 =
     (let d = fold (\<lambda>(at0, delta). ObserveTranscriptionDelta at0 delta) deltas (ObserveAudio pushedAt (int (length chunk)) (apDetector s0));
          s1 = s0\<lparr>apDetector := d\<rparr>
      in case failure of
           Some e \<Rightarrow> (Inl e, noLaunches, s1)
         | None \<Rightarrow> (let (snap, lau, s2) = Poll formatFixed3 encodeList now s1 in (Inr snap, lau, s2)))"

text \<open>The answers of the recogniser to one piece: when it was pushed, the deltas, the failure, and when the preview was taken.\<close>

type_synonym pieceAnswer = "int \<times> (int \<times> TranscriptionDelta) list \<times> gostring option \<times> int"

text \<open>The pieces of a frame; the previews handed to \<open>emit\<close> are returned in order. \<open>answers\<close> holds an answer for every piece.\<close>

fun pushPieces ::
    "(float64 \<Rightarrow> gostring) \<Rightarrow> (gostring list \<Rightarrow> gostring) \<Rightarrow> byte list list \<Rightarrow> pieceAnswer list \<Rightarrow> InputPreview list \<Rightarrow> launches list
      \<Rightarrow> asrInputPreviewSession \<Rightarrow> (gostring + InputPreview list) \<times> launches list \<times> asrInputPreviewSession" where
  "pushPieces formatFixed3 encodeList (piece # pieces) ((pushedAt, deltas, failure, now) # answers) emitted launched s =
     (case pushPreviewChunk formatFixed3 encodeList pushedAt deltas failure now piece s of
        (Inl e, lau, s') \<Rightarrow> (Inl e, launched @ [lau], s')
      | (Inr snap, lau, s') \<Rightarrow> pushPieces formatFixed3 encodeList pieces answers (emitted @ [snap]) (launched @ [lau]) s')"
| "pushPieces formatFixed3 encodeList _ _ emitted launched s = (Inr emitted, launched, s)"

text \<open>\<open>PushAudioProgressively\<close>: the last preview is returned as well; the zero preview when there is no audio.\<close>

definition PushAudioProgressively ::
    "(float64 \<Rightarrow> gostring) \<Rightarrow> (gostring list \<Rightarrow> gostring) \<Rightarrow> byte list \<Rightarrow> pieceAnswer list
      \<Rightarrow> asrInputPreviewSession \<Rightarrow> (gostring + InputPreview \<times> InputPreview list) \<times> launches list \<times> asrInputPreviewSession" where
  "PushAudioProgressively formatFixed3 encodeList chunk answers s =
     (let r = apPreviewRequest s; pieces = splitPCMForStreaming chunk (prSampleRateHz r) (prChannels r) defaultASRStreamingChunkMs
      in if pieces = [] then (Inr (zeroPreview, []), [], s)
         else case pushPieces formatFixed3 encodeList pieces answers [] [] s of
           (Inl e, lau, s') \<Rightarrow> (Inl e, lau, s')
         | (Inr snaps, lau, s') \<Rightarrow> (Inr (last snaps, snaps), lau, s'))"

text \<open>The answers of the goroutines; the key is the one the request was launched with.\<close>

definition judgeAnswered :: "gostring \<Rightarrow> judge_error + SemanticTurnJudgement \<Rightarrow> asrInputPreviewSession \<Rightarrow> asrInputPreviewSession" where
  "judgeAnswered key answer s =
     s\<lparr>apSemanticState := (case answer of Inl e \<Rightarrow> clearRequest (apSemanticState s)
        | Inr r \<Rightarrow> storeResult (r\<lparr>sjCandidateKey := key\<rparr>) (apSemanticState s))\<rparr>"

definition slotsAnswered :: "gostring \<Rightarrow> judge_error + SemanticSlotParseResult \<Rightarrow> asrInputPreviewSession \<Rightarrow> asrInputPreviewSession" where
  "slotsAnswered key answer s =
     s\<lparr>apSlotState := (case answer of Inl e \<Rightarrow> clearRequest (apSlotState s)
        | Inr r \<Rightarrow> storeResult (r\<lparr>slCandidateKey := key\<rparr>) (apSlotState s))\<rparr>"

text \<open>\<open>Finish\<close> asks the recogniser once; later calls repeat its answer.\<close>

definition FinishPreview :: "(gostring + TranscriptionResult) \<Rightarrow> asrInputPreviewSession \<Rightarrow> (gostring + TranscriptionResult) \<times> asrInputPreviewSession" where
  "FinishPreview answer s =
     (case apFinished s of Some r \<Rightarrow> (r, s) | None \<Rightarrow> (answer, s\<lparr>apFinished := Some answer\<rparr>))"

section \<open>Pieces\<close>

lemma split_concat [simp]: "concat (splitPCMForStreaming a rate chans ms) = a"
  using chunkLoop_concat [of "pcmFrameBytes rate chans ms" 0 a] by (simp add: splitPCMForStreaming_def Let_def)

lemma split_nonempty: "x \<in> set (splitPCMForStreaming a rate chans ms) \<Longrightarrow> x \<noteq> []"
  using chunkLoop_lengths [of "pcmFrameBytes rate chans ms" 0 x a] by (auto simp: splitPCMForStreaming_def Let_def split: if_splits)

lemma split_bounded:
  assumes "0 < pcmFrameBytes rate chans ms" and "x \<in> set (splitPCMForStreaming a rate chans ms)"
  shows "int (length x) \<le> pcmFrameBytes rate chans ms"
  using assms chunkLoop_lengths [of "pcmFrameBytes rate chans ms" 0 x a] by (auto simp: splitPCMForStreaming_def Let_def split: if_splits)

lemma split_eq_Nil [simp]: "splitPCMForStreaming a rate chans ms = [] \<longleftrightarrow> a = []"
proof
  assume "splitPCMForStreaming a rate chans ms = []"
  then have "concat (splitPCMForStreaming a rate chans ms) = []" by simp
  then show "a = []" by (simp only: split_concat)
qed (simp add: splitPCMForStreaming_def)

section \<open>Streaming and batch recognition\<close>

text \<open>
  What a recogniser promises that takes the audio in pieces: a stream holds what was pushed into it, in order, and recognises
  that at the end.
\<close>

locale streaming_recogniser =
  fixes st :: "'s StreamingTranscriber"
    and heard :: "'s \<Rightarrow> byte list"
    and serves :: "TranscriptionRequest \<Rightarrow> 's \<Rightarrow> bool"
    and recognise :: Transcriber
  assumes start: "\<exists>s. stStartStream st req = Inr s \<and> serves req s \<and> heard s = []"
    and push: "serves req s \<Longrightarrow> \<exists>s'. stPushAudio st s c = Inr s' \<and> serves req s' \<and> heard s' = heard s @ c"
    and finish: "serves req s \<Longrightarrow> stFinish st s = recognise (req\<lparr>trqAudioPCM := heard s\<rparr>)"
begin

lemma push_all: "serves req s \<Longrightarrow> \<exists>s'. pushChunks st s cs = Inr s' \<and> serves req s' \<and> heard s' = heard s @ concat cs"
proof (induction cs arbitrary: s)
  case (Cons c cs)
  from push [OF Cons.prems, of c] obtain s1 where s1: "stPushAudio st s c = Inr s1" "serves req s1" "heard s1 = heard s @ c" by blast
  from Cons.IH [OF s1(2)] s1 show ?case by auto
qed simp

lemma whole_turn: "transcribeAudio transcribe (Some st) hints language req = recognise (transcriptionRequest hints language req)"
proof -
  let ?request = "transcriptionRequest hints language req"
  obtain s where s: "stStartStream st ?request = Inr s" "serves ?request s" "heard s = []" using start by blast
  from push_all [OF s(2)] s(3) obtain s' where s': "serves ?request s'" "heard s' = rqAudioPCM req"
      "pushChunks st s (splitPCMForStreaming (rqAudioPCM req) (rqInputSampleRate req) (rqInputChannels req) defaultASRStreamingChunkMs) = Inr s'"
    by (metis append_Nil split_concat)
  have "?request\<lparr>trqAudioPCM := rqAudioPCM req\<rparr> = ?request" by (simp add: transcriptionRequest_def)
  then show ?thesis using s s' finish [OF s'(1)] by (simp add: transcribeAudio_def Let_def)
qed

end

text \<open>The buffering recogniser keeps the promise: the audio is in its buffer.\<close>

definition bufferServes :: "TranscriptionRequest \<Rightarrow> bufferedStreamingSession \<Rightarrow> bool" where
  "bufferServes req s \<longleftrightarrow> \<not> bsClosed s \<and> bsReq s = req\<lparr>trqAudioPCM := []\<rparr>"

definition bufferedResult :: "TranscriptionResult \<Rightarrow> TranscriptionResult" where
  "bufferedResult r = (if TrimSpace (trMode r) = [] then r\<lparr>trMode := lit ''buffered_stream''\<rparr> else r)"

interpretation buffered: streaming_recogniser "NewBufferedStreamingTranscriber transcribe" bsBuffer bufferServes
  "\<lambda>req. case transcribe req of Inl e \<Rightarrow> Inl e | Inr r \<Rightarrow> Inr (bufferedResult r)" for transcribe
proof (unfold_locales, goal_cases)
  case (1 req)
  show ?case by (simp add: NewBufferedStreamingTranscriber_def bufferedStartStream_def bufferServes_def)
next
  case (2 req s c)
  then show ?case
    by (auto simp: NewBufferedStreamingTranscriber_def bufferedPushAudio_def bufferServes_def Let_def)
next
  case (3 req s)
  then show ?case
    by (simp add: NewBufferedStreamingTranscriber_def bufferedFinish_def recogniseBuffer_def bufferServes_def bufferedResult_def Let_def split: sum.split)
qed

text \<open>
  C22: Recognising a turn through the buffering recogniser, which receives the audio in pieces of 40 ms, gives exactly the result
  of recognising the whole audio at once, errors included, up to the mode noted when the recogniser reports none.
\<close>
theorem streaming_equals_batch:
  "transcribeAudio transcribe (Some (NewBufferedStreamingTranscriber transcribe)) hints language req =
     (case transcribeAudio transcribe None hints language req of Inl e \<Rightarrow> Inl e | Inr r \<Rightarrow> Inr (bufferedResult r))"
  by (simp add: buffered.whole_turn transcribeAudio_def [of _ None] Let_def)

section \<open>What a poll returns\<close>

lemma annotate_tracing_observation [simp]: "same_observation (annotateSemanticJudgeTracing s p) q = same_observation p q"
  by (simp add: annotateSemanticJudgeTracing_def same_observation_def)

lemma annotate_tracing_accept: "accept_rule p (pvArbitration (annotateSemanticJudgeTracing s q)) = accept_rule p (pvArbitration q)"
  by (simp add: annotateSemanticJudgeTracing_def accept_rule_def)

lemma merged_semantic_observation: "same_observation (mergedSemanticSnapshot s p) p"
  by (simp add: mergedSemanticSnapshot_def merge_judgement_observation split: option.split)

lemma merged_slot_observation: "same_observation (mergedSlotSnapshot s p) p"
  by (simp add: mergedSlotSnapshot_def merge_slots_observation split: option.split)

lemma launch_judge_keeps:
  "maybeLaunchSemanticJudge p s = (j, s') \<Longrightarrow>
     apDetector s' = apDetector s \<and> apSlotState s' = apSlotState s \<and> apSemanticDecision s' = apSemanticDecision s
     \<and> apPreviewRequest s' = apPreviewRequest s \<and> apMinPrewarmRunes s' = apMinPrewarmRunes s \<and> rsLastResult (apSemanticState s') = rsLastResult (apSemanticState s)"
  by (auto simp: maybeLaunchSemanticJudge_def judgeShouldLaunch_def shouldLaunch_def split: if_splits option.splits prod.splits)

lemma launch_slots_keeps:
  "maybeLaunchSlotParser p s = (j, s') \<Longrightarrow>
     apDetector s' = apDetector s \<and> apSemanticState s' = apSemanticState s \<and> apSemanticDecision s' = apSemanticDecision s
     \<and> apPreviewRequest s' = apPreviewRequest s \<and> apMinPrewarmRunes s' = apMinPrewarmRunes s \<and> rsLastResult (apSlotState s') = rsLastResult (apSlotState s)"
  by (auto simp: maybeLaunchSlotParser_def slotShouldLaunch_def shouldLaunch_def split: if_splits option.splits prod.splits)

lemma prewarm_keeps:
  "maybePrewarm f e p s = (i, s') \<Longrightarrow>
     apDetector s' = apDetector s \<and> apSemanticState s' = apSemanticState s \<and> apSlotState s' = apSlotState s
     \<and> apSemanticDecision s' = apSemanticDecision s \<and> apPreviewRequest s' = apPreviewRequest s \<and> apMinPrewarmRunes s' = apMinPrewarmRunes s"
  by (auto simp: maybePrewarm_def Let_def split: if_splits)

text \<open>The stages of a poll.\<close>

lemma Poll_stages:
  assumes "Poll f e now s = (snap, lau, s')"
  obtains raw d j s1 sl s2 where "DetectorSnapshot now (apDetector s) = (raw, d)"
    "maybeLaunchSemanticJudge raw (s\<lparr>apDetector := d\<rparr>) = (j, s1)"
    "maybeLaunchSlotParser (annotateSemanticJudgeTracing s1 (mergedSemanticSnapshot s1 raw)) s1 = (sl, s2)"
    "snap = mergedSlotSnapshot s2 (annotateSemanticJudgeTracing s1 (mergedSemanticSnapshot s1 raw))"
    "maybePrewarm f e snap s2 = (lnPrewarm lau, s')" "lnJudge lau = j" "lnSlots lau = sl"
proof -
  obtain raw d where raw: "DetectorSnapshot now (apDetector s) = (raw, d)" by fastforce
  obtain j s1 where j: "maybeLaunchSemanticJudge raw (s\<lparr>apDetector := d\<rparr>) = (j, s1)" by fastforce
  obtain sl s2 where sl: "maybeLaunchSlotParser (annotateSemanticJudgeTracing s1 (mergedSemanticSnapshot s1 raw)) s1 = (sl, s2)" by fastforce
  obtain i s3 where i: "maybePrewarm f e (mergedSlotSnapshot s2 (annotateSemanticJudgeTracing s1 (mergedSemanticSnapshot s1 raw))) s2 = (i, s3)" by fastforce
  from assms have "snap = mergedSlotSnapshot s2 (annotateSemanticJudgeTracing s1 (mergedSemanticSnapshot s1 raw))"
    "lau = \<lparr>lnJudge = j, lnSlots = sl, lnPrewarm = i\<rparr>" "s' = s3"
    using raw j sl i by (simp_all add: Poll_def)
  with raw j sl i show thesis by (intro that) simp_all
qed

lemma Poll_detector: "Poll f e now s = (snap, lau, s') \<Longrightarrow> apDetector s' = snd (DetectorSnapshot now (apDetector s))"
  by (erule Poll_stages) (auto dest!: launch_judge_keeps launch_slots_keeps prewarm_keeps)

text \<open>
  C8: What a poll returns is the detector's observation: the texts, the audio, the silence, the endpoint reason and the commit
  suggestion are those of the detector, whatever judgement and slots are merged; only when one was merged does the acceptance
  follow the sum of all signals. So a judgement that asks for more time does not take back a commit suggestion, and one that shortens the
  wait does not cause it.
\<close>
theorem preview_is_acoustic:
  assumes "Poll f e now s = (snap, lau, s')"
  shows "same_observation snap (fst (DetectorSnapshot now (apDetector s)))
    \<and> pvCommitSuggested snap = pvCommitSuggested (fst (DetectorSnapshot now (apDetector s)))
    \<and> (rsLastResult (apSemanticState s) = zeroJudgement \<and> rsLastResult (apSlotState s) = zeroSlotResult \<longrightarrow>
         snap = annotateSemanticJudgeTracing s (fst (DetectorSnapshot now (apDetector s))))
    \<and> (judgeResultFor (snapshotKey snap) (apSemanticState s) \<noteq> None \<or> slotResultFor (snapshotKey snap) (apSlotState s) \<noteq> None \<longrightarrow>
         accept_rule snap (pvArbitration snap))"
  using assms
proof (rule Poll_stages)
  fix raw d j s1 sl s2
  let ?m = "annotateSemanticJudgeTracing s1 (mergedSemanticSnapshot s1 raw)"
  assume raw: "DetectorSnapshot now (apDetector s) = (raw, d)"
    and j: "maybeLaunchSemanticJudge raw (s\<lparr>apDetector := d\<rparr>) = (j, s1)"
    and sl: "maybeLaunchSlotParser ?m s1 = (sl, s2)"
    and snap: "snap = mergedSlotSnapshot s2 ?m"
  have s1: "rsLastResult (apSemanticState s1) = rsLastResult (apSemanticState s)" "apSemanticDecision s1 = apSemanticDecision s"
      "apSlotState s1 = apSlotState s"
    using launch_judge_keeps [OF j] by simp_all
  have s2: "rsLastResult (apSlotState s2) = rsLastResult (apSlotState s)" using launch_slots_keeps [OF sl] s1 by simp
  have obs: "same_observation snap raw" "same_observation ?m raw"
    using merged_slot_observation [of s2 ?m] merged_semantic_observation [of s1 raw] same_observation_trans unfolding snap by auto
  then have texts: "pvStablePrefix snap = pvStablePrefix raw" "pvPartialText snap = pvPartialText raw"
      "pvStablePrefix ?m = pvStablePrefix raw" "pvPartialText ?m = pvPartialText raw"
    by (simp_all add: same_observation_def)
  have key: "snapshotKey snap = snapshotKey raw" "snapshotKey ?m = snapshotKey raw" "snapshotKey raw \<noteq> []" by (simp_all add: snapshotKey_def texts)
  have idle: "snap = annotateSemanticJudgeTracing s raw"
    if "rsLastResult (apSemanticState s) = zeroJudgement" "rsLastResult (apSlotState s) = zeroSlotResult"
  proof -
    have "judgeResultFor (snapshotKey raw) (apSemanticState s1) = None" "slotResultFor (snapshotKey ?m) (apSlotState s2) = None"
      using that s1(1) s2 key by (simp_all add: judgeResultFor_def slotResultFor_def resultFor_def zeroJudgement_def zeroSlotResult_def)
    then show ?thesis unfolding snap by (simp add: mergedSlotSnapshot_def mergedSemanticSnapshot_def annotateSemanticJudgeTracing_def s1)
  qed
  have slot_rule: "accept_rule snap (pvArbitration snap)" if r: "slotResultFor (snapshotKey raw) (apSlotState s) = Some r" for r
  proof -
    have "slotResultFor (snapshotKey ?m) (apSlotState s2) = Some r" "slCandidateKey r \<noteq> []"
      using r key s2 by (auto simp: slotResultFor_def resultFor_def split: if_splits)
    then have "accept_rule ?m (pvArbitration snap)" unfolding snap by (simp add: mergedSlotSnapshot_def merge_slots_accept)
    then show ?thesis using accept_rule_texts texts by metis
  qed
  have judge_rule: "accept_rule snap (pvArbitration snap)"
    if r: "judgeResultFor (snapshotKey raw) (apSemanticState s) = Some r" and none: "slotResultFor (snapshotKey raw) (apSlotState s) = None" for r
  proof -
    have "slotResultFor (snapshotKey ?m) (apSlotState s2) = None"
      using none key s2 by (auto simp: slotResultFor_def resultFor_def split: if_splits)
    then have eq: "snap = ?m" unfolding snap by (simp add: mergedSlotSnapshot_def)
    have "judgeResultFor (snapshotKey raw) (apSemanticState s1) = Some r" "sjCandidateKey r \<noteq> []"
      using r key s1(1) by (auto simp: judgeResultFor_def resultFor_def split: if_splits)
    then have "accept_rule raw (pvArbitration ?m)"
      by (simp add: annotate_tracing_accept mergedSemanticSnapshot_def merge_judgement_accept)
    then show ?thesis using accept_rule_texts texts unfolding eq by metis
  qed
  show ?thesis
    using obs(1) idle slot_rule judge_rule key(1) raw
    by (cases "slotResultFor (snapshotKey raw) (apSlotState s)"; cases "judgeResultFor (snapshotKey raw) (apSemanticState s)")
      (auto simp: same_observation_def)
qed

text \<open>
  A detector that has suggested to commit and hears audio again 50 ms before the poll, and a stored correction that asks for more
  time: the preview still suggests the commit although it is not accepted now.
\<close>

definition sampleDetector :: SilenceTurnDetector where
  "sampleDetector = (NewSilenceTurnDetector \<lparr>cfgMinAudioMs = 0, cfgSilenceMs = 0, cfgLexicalEndpointMode = [], cfgIncompleteHoldMs = 0,
     cfgEndpointHintSilenceMs = 0\<rparr> 16000 1)\<lparr>detAudioBytes := 32000, lastAudioAt := Some 1000000000, speechStarted := True,
     latestPartial := lit ''open the door'', commitSuggested := True, commitReason := lit ''server_vad''\<rparr>"

definition samplePreviewConfig :: previewConfig where
  "samplePreviewConfig = \<lparr>pcJudge = True, pcRollout = \<lparr>rcMode = SemanticJudgeRolloutModeSemantic, rcPercentage = 0\<rparr>, pcJudgeMinRunes = 0,
     pcJudgeMinStableFor = 0, pcSlotParser = False, pcSlotMinRunes = 0, pcSlotMinStableFor = 0, pcPrewarmer = False,
     pcDetection = \<lparr>cfgMinAudioMs = 0, cfgSilenceMs = 0, cfgLexicalEndpointMode = [], cfgIncompleteHoldMs = 0, cfgEndpointHintSilenceMs = 0\<rparr>\<rparr>"

definition sampleSession :: asrInputPreviewSession where
  "sampleSession = (case StartInputPreview samplePreviewConfig True (Some None) samplePreviewRequest of
     Inr s \<Rightarrow> s\<lparr>apDetector := sampleDetector, apSemanticState := \<lparr>rsEvaluating = False, rsLastRequestedKey = [],
       rsLastResult = sampleCorrection\<lparr>sjCandidateKey := semanticCandidateKey [] (lit ''open the door''), sjWaitDeltaMs := 600\<rparr>\<rparr>\<rparr>)"

lemma sample_session_fields:
  "apDetector sampleSession = sampleDetector" "apSlotState sampleSession = newSemanticSlotParserState"
  "apSemanticState sampleSession = \<lparr>rsEvaluating = False, rsLastRequestedKey = [],
       rsLastResult = sampleCorrection\<lparr>sjCandidateKey := semanticCandidateKey [] (lit ''open the door''), sjWaitDeltaMs := 600\<rparr>\<rparr>"
  by (simp_all add: sampleSession_def StartInputPreview_def)

lemma Arbitrate_silence: "arbSilenceMs (Arbitrate cfg i) = durationMs (inSilence i)"
  by (simp add: Arbitrate_def Let_def del: firstNonEmpty.simps)

lemma snapshot_after_commit:
  assumes "lastAudioAt d = Some l" and "TrimSpace (latestPartial d) \<noteq> []" and "commitSuggested d"
  shows "pvCommitSuggested (fst (DetectorSnapshot now d)) \<and> arbSilenceMs (pvArbitration (fst (DetectorSnapshot now d))) = durationMs (now - l)
    \<and> pvPartialText (fst (DetectorSnapshot now d)) = latestPartial d \<and> pvStablePrefix (fst (DetectorSnapshot now d)) = stablePrefix d"
  using assms by (simp add: DetectorSnapshot_def Let_def Arbitrate_silence del: firstNonEmpty.simps split: prod.split)

lemma accept_rule_wait:
  assumes "accept_rule p a" and "arbSilenceMs a < 120"
  shows "\<not> arbAcceptNow a"
proof -
  have "120 \<le> arbEffectiveWaitMs a" using assms(1) clampInt_bounds [of 120 900] by (simp add: accept_rule_def del: firstNonEmpty.simps)
  then show ?thesis using assms by (simp add: accept_rule_def del: firstNonEmpty.simps)
qed

theorem preview_is_acoustic_witness:
  "pvCommitSuggested (fst (Poll (\<lambda>_. []) (\<lambda>_. []) 1050000000 sampleSession))
   \<and> \<not> arbAcceptNow (pvArbitration (fst (Poll (\<lambda>_. []) (\<lambda>_. []) 1050000000 sampleSession)))"
proof -
  obtain snap lau s' where poll: "Poll (\<lambda>_. []) (\<lambda>_. []) 1050000000 sampleSession = (snap, lau, s')" by (metis prod_cases3)
  have d: "lastAudioAt sampleDetector = Some 1000000000" "TrimSpace (latestPartial sampleDetector) \<noteq> []" "commitSuggested sampleDetector"
      "latestPartial sampleDetector = lit ''open the door''" "stablePrefix sampleDetector = []"
    by code_simp+
  note raw = snapshot_after_commit [OF d(1-3), of 1050000000]
  note acoustic = preview_is_acoustic [OF poll]
  have obs: "same_observation snap (fst (DetectorSnapshot 1050000000 sampleDetector))" using acoustic by (simp add: sample_session_fields)
  have key: "snapshotKey snap = semanticCandidateKey [] (lit ''open the door'')" using obs raw d by (simp add: same_observation_def snapshotKey_def)
  have "judgeResultFor (snapshotKey snap) (apSemanticState sampleSession) \<noteq> None"
    unfolding key by (simp add: sample_session_fields judgeResultFor_def resultFor_def)
  then have rule: "accept_rule snap (pvArbitration snap)" using acoustic by blast
  have "arbSilenceMs (pvArbitration snap) = durationMs 50000000" using obs raw by (simp add: same_observation_def)
  also have "durationMs 50000000 = 50" by code_simp
  finally have "\<not> arbAcceptNow (pvArbitration snap)" using accept_rule_wait [OF rule] by simp
  then show ?thesis using poll obs raw by (simp add: same_observation_def)
qed

section \<open>Runs of a preview session\<close>

text \<open>
  A run notes the requests launched to the judge and not yet answered, and the answers. The slot parser's goroutines and the
  recogniser's deltas interleave freely with the polls.
\<close>

record previewRun =
  rnSession :: asrInputPreviewSession
  rnPending :: "SemanticTurnRequest list"
  rnAnswers :: "(SemanticTurnRequest \<times> SemanticTurnJudgement) list"

definition requestKey :: "SemanticTurnRequest \<Rightarrow> gostring" where
  "requestKey q = semanticCandidateKey (tqStablePrefix q) (tqPartialText q)"

inductive preview_step :: "previewRun \<Rightarrow> previewRun \<Rightarrow> bool" where
  poll: "Poll f e now (rnSession c) = (snap, lau, s') \<Longrightarrow>
     preview_step c (c\<lparr>rnSession := s', rnPending := (case lnJudge lau of None \<Rightarrow> [] | Some q \<Rightarrow> [q]) @ rnPending c\<rparr>)"
| piece: "pushPreviewChunk f e pushedAt deltas failure now chunk (rnSession c) = (r, lau, s') \<Longrightarrow>
     preview_step c (c\<lparr>rnSession := s', rnPending := (case lnJudge lau of None \<Rightarrow> [] | Some q \<Rightarrow> [q]) @ rnPending c\<rparr>)"
| judged: "q \<in> set (rnPending c) \<Longrightarrow>
     preview_step c (c\<lparr>rnSession := judgeAnswered (requestKey q) (Inr r) (rnSession c), rnPending := remove1 q (rnPending c),
       rnAnswers := (q, r) # rnAnswers c\<rparr>)"
| judgeFailed: "q \<in> set (rnPending c) \<Longrightarrow>
     preview_step c (c\<lparr>rnSession := judgeAnswered (requestKey q) (Inl err) (rnSession c), rnPending := remove1 q (rnPending c)\<rparr>)"
| slots: "preview_step c (c\<lparr>rnSession := slotsAnswered key answer (rnSession c)\<rparr>)"
| delta: "preview_step c (c\<lparr>rnSession := (rnSession c)\<lparr>apDetector := ObserveTranscriptionDelta now x (apDetector (rnSession c))\<rparr>\<rparr>)"
| finished: "preview_step c (c\<lparr>rnSession := snd (FinishPreview r (rnSession c))\<rparr>)"

definition preview_run_inv :: "previewRun \<Rightarrow> bool" where
  "preview_run_inv c \<longleftrightarrow>
     (\<not> rdEnabled (apSemanticDecision (rnSession c)) \<longrightarrow> rnPending c = [] \<and> rnAnswers c = [])
     \<and> (rsLastResult (apSemanticState (rnSession c)) = zeroJudgement \<and> rnAnswers c = []
        \<or> (\<exists>q r rest. rnAnswers c = (q, r) # rest \<and> rsLastResult (apSemanticState (rnSession c)) = r\<lparr>sjCandidateKey := requestKey q\<rparr>))"

text \<open>What a call may change of the judge's side of the session.\<close>

definition judge_side :: "asrInputPreviewSession \<Rightarrow> launches \<Rightarrow> asrInputPreviewSession \<Rightarrow> bool" where
  "judge_side s lau s' \<longleftrightarrow> apSemanticDecision s' = apSemanticDecision s
     \<and> rsLastResult (apSemanticState s') = rsLastResult (apSemanticState s) \<and> (\<not> rdEnabled (apSemanticDecision s) \<longrightarrow> lnJudge lau = None)"

lemma launch_judge_enabled: "maybeLaunchSemanticJudge p s = (Some q, s') \<Longrightarrow> rdEnabled (apSemanticDecision s)"
  by (auto simp: maybeLaunchSemanticJudge_def split: if_splits)

lemma Poll_judge_side: "Poll f e now s = (snap, lau, s') \<Longrightarrow> judge_side s lau s'"
proof (erule Poll_stages)
  fix raw d j s1 sl s2
  let ?m = "annotateSemanticJudgeTracing s1 (mergedSemanticSnapshot s1 raw)"
  assume j: "maybeLaunchSemanticJudge raw (s\<lparr>apDetector := d\<rparr>) = (j, s1)" and sl: "maybeLaunchSlotParser ?m s1 = (sl, s2)"
    and p: "maybePrewarm f e snap s2 = (lnPrewarm lau, s')" and lau: "lnJudge lau = j"
  show ?thesis using launch_judge_keeps [OF j] launch_slots_keeps [OF sl] prewarm_keeps [OF p] launch_judge_enabled [of raw "s\<lparr>apDetector := d\<rparr>"] j lau
    by (cases j) (auto simp: judge_side_def)
qed

lemma piece_judge_side: "pushPreviewChunk f e t ds failure now chunk s = (r, lau, s') \<Longrightarrow> judge_side s lau s'"
proof (cases failure)
  case None
  assume "pushPreviewChunk f e t ds failure now chunk s = (r, lau, s')"
  with None obtain snap where "Poll f e now (s\<lparr>apDetector :=
      fold (\<lambda>(at0, delta). ObserveTranscriptionDelta at0 delta) ds (ObserveAudio t (int (length chunk)) (apDetector s))\<rparr>) = (snap, lau, s')"
    by (auto simp: pushPreviewChunk_def Let_def split: prod.splits)
  from Poll_judge_side [OF this] show ?thesis by (simp add: judge_side_def)
qed (auto simp: pushPreviewChunk_def Let_def judge_side_def noLaunches_def)

lemma preview_step_inv:
  assumes "preview_step c c'" and "preview_run_inv c"
  shows "preview_run_inv c'"
  using assms
proof (cases rule: preview_step.cases)
  case (poll f e now snap lau s')
  then show ?thesis using assms(2) Poll_judge_side [OF poll(2)] by (auto simp: preview_run_inv_def judge_side_def)
next
  case (piece f e pushedAt deltas failure now chunk r lau s')
  then show ?thesis using assms(2) piece_judge_side [OF piece(2)] by (auto simp: preview_run_inv_def judge_side_def)
next
  case (judged q r)
  then show ?thesis using assms(2) by (auto simp: preview_run_inv_def judgeAnswered_def storeResult_def)
next
  case (judgeFailed q err)
  then show ?thesis using assms(2) by (auto simp: preview_run_inv_def judgeAnswered_def clearRequest_def)
next
  case (slots key answer)
  then show ?thesis using assms(2) by (simp add: preview_run_inv_def slotsAnswered_def)
next
  case (delta now x)
  then show ?thesis using assms(2) by (simp add: preview_run_inv_def)
next
  case (finished r)
  then show ?thesis using assms(2) by (simp add: preview_run_inv_def FinishPreview_def split: option.split)
qed

definition startRun :: "asrInputPreviewSession \<Rightarrow> previewRun" where
  "startRun s = \<lparr>rnSession = s, rnPending = [], rnAnswers = []\<rparr>"

lemma preview_runs_inv:
  assumes "preview_step\<^sup>*\<^sup>* (startRun s) c" and "rsLastResult (apSemanticState s) = zeroJudgement"
  shows "preview_run_inv c"
  using assms(1)
proof (induction rule: rtranclp_induct)
  case base
  show ?case using assms(2) by (simp add: preview_run_inv_def startRun_def)
next
  case (step c c')
  from step.hyps(2) step.IH show ?case by (rule preview_step_inv)
qed

lemma preview_decision_kept:
  assumes "preview_step c c'"
  shows "apSemanticDecision (rnSession c') = apSemanticDecision (rnSession c)"
  using assms
proof (cases rule: preview_step.cases)
  case (poll f e now snap lau s')
  then show ?thesis using Poll_judge_side [OF poll(2)] by (simp add: judge_side_def)
next
  case (piece f e pushedAt deltas failure now chunk r lau s')
  then show ?thesis using piece_judge_side [OF piece(2)] by (simp add: judge_side_def)
qed (simp_all add: judgeAnswered_def slotsAnswered_def FinishPreview_def split: option.split)

lemma preview_decision_kept_run:
  "preview_step\<^sup>*\<^sup>* (startRun s) c \<Longrightarrow> apSemanticDecision (rnSession c) = apSemanticDecision s"
  by (induction rule: rtranclp_induct) (simp_all add: startRun_def preview_decision_kept)

text \<open>
  In every run of a preview session, in any interleaving of audio, polls, recogniser and goroutines: a judgement that a poll merges is
  the most recent answer of the judge, given for a request about exactly the merged hypothesis (texts without line breaks); and a
  client outside the rollout never sends a request to the judge, so that its previews carry no judgement at all.
\<close>
theorem judgement_matches_hypothesis:
  assumes start: "StartInputPreview cfg True (Some None) req = Inr s" and run: "preview_step\<^sup>*\<^sup>* (startRun s) c"
  shows "(judgeResultFor (snapshotKey snap) (apSemanticState (rnSession c)) = Some r
        \<and> 10 \<notin> set (TrimSpace (pvStablePrefix snap))
        \<and> list_all (\<lambda>(q, a). 10 \<notin> set (TrimSpace (tqStablePrefix q))) (rnAnswers c) \<longrightarrow>
       (\<exists>q a rest. rnAnswers c = (q, a) # rest \<and> r = a\<lparr>sjCandidateKey := requestKey q\<rparr>
          \<and> TrimSpace (tqStablePrefix q) = TrimSpace (pvStablePrefix snap) \<and> TrimSpace (tqPartialText q) = TrimSpace (pvPartialText snap)))
    \<and> (\<not> rdEnabled (decideSemanticJudgeRollout req (pcRollout cfg) (pcJudge cfg)) \<longrightarrow>
         rnPending c = [] \<and> rnAnswers c = [] \<and> mergedSemanticSnapshot (rnSession c) snap = snap)"
proof -
  have s: "rsLastResult (apSemanticState s) = zeroJudgement"
      "apSemanticDecision s = decideSemanticJudgeRollout req (pcRollout cfg) (pcJudge cfg)"
    using start by (auto simp: StartInputPreview_def newSemanticJudgeState_def)
  note inv = preview_runs_inv [OF run s(1)]
  have zero: "judgeResultFor (snapshotKey snap) (apSemanticState (rnSession c)) = None" if "rnAnswers c = []"
  proof -
    have "rsLastResult (apSemanticState (rnSession c)) = zeroJudgement" using inv that by (auto simp: preview_run_inv_def)
    then have "sjCandidateKey (rsLastResult (apSemanticState (rnSession c))) = []" by (simp add: zeroJudgement_def)
    then show ?thesis by (simp add: judgeResultFor_def resultFor_def snapshotKey_def semanticCandidateKey_nonempty [symmetric])
  qed
  have control: "rnPending c = [] \<and> rnAnswers c = []"
    if "\<not> rdEnabled (decideSemanticJudgeRollout req (pcRollout cfg) (pcJudge cfg))"
    using inv that preview_decision_kept_run [OF run] s(2) by (simp add: preview_run_inv_def)
  have matched: "\<exists>q a rest. rnAnswers c = (q, a) # rest \<and> r = a\<lparr>sjCandidateKey := requestKey q\<rparr>
      \<and> TrimSpace (tqStablePrefix q) = TrimSpace (pvStablePrefix snap) \<and> TrimSpace (tqPartialText q) = TrimSpace (pvPartialText snap)"
    if r: "judgeResultFor (snapshotKey snap) (apSemanticState (rnSession c)) = Some r" and line: "10 \<notin> set (TrimSpace (pvStablePrefix snap))"
      and lines: "list_all (\<lambda>(q, a). 10 \<notin> set (TrimSpace (tqStablePrefix q))) (rnAnswers c)"
  proof -
    from inv zero r obtain q a rest where ans: "rnAnswers c = (q, a) # rest"
        "rsLastResult (apSemanticState (rnSession c)) = a\<lparr>sjCandidateKey := requestKey q\<rparr>"
      by (auto simp: preview_run_inv_def)
    with r have r': "r = a\<lparr>sjCandidateKey := requestKey q\<rparr>" "requestKey q = snapshotKey snap"
      by (auto simp: judgeResultFor_def resultFor_def split: if_splits)
    have "TrimSpace (tqStablePrefix q) = TrimSpace (pvStablePrefix snap) \<and> TrimSpace (tqPartialText q) = TrimSpace (pvPartialText snap)"
      using r'(2) lines line ans(1) by (intro semanticCandidateKey_inject) (simp_all add: requestKey_def snapshotKey_def)
    with ans r' show ?thesis by blast
  qed
  show ?thesis using matched control zero by (auto simp: mergedSemanticSnapshot_def)
qed

theorem judgement_matches_hypothesis_witness:
  "\<exists>s. StartInputPreview (samplePreviewConfig\<lparr>pcJudge := False\<rparr>) True (Some None) samplePreviewRequest = Inr s
     \<and> mergedSemanticSnapshot s zeroPreview = zeroPreview"
proof -
  obtain s where s: "StartInputPreview (samplePreviewConfig\<lparr>pcJudge := False\<rparr>) True (Some None) samplePreviewRequest = Inr s"
    by (simp add: StartInputPreview_def)
  have "\<not> rdEnabled (decideSemanticJudgeRollout samplePreviewRequest (pcRollout (samplePreviewConfig\<lparr>pcJudge := False\<rparr>)) (pcJudge (samplePreviewConfig\<lparr>pcJudge := False\<rparr>)))"
    by (simp add: decideSemanticJudgeRollout_def Let_def)
  with s judgement_matches_hypothesis [OF s rtranclp.rtrancl_refl, of zeroPreview] show ?thesis by (auto simp: startRun_def)
qed

section \<open>Audio of a frame\<close>

lemma delta_keeps_audio [simp]: "detAudioBytes (ObserveTranscriptionDelta t x d) = detAudioBytes d"
  by (simp add: ObserveTranscriptionDelta_def Let_def split: TranscriptionDeltaKind.split)

lemma deltas_keep_audio [simp]: "detAudioBytes (fold (\<lambda>(at0, delta). ObserveTranscriptionDelta at0 delta) ds d) = detAudioBytes d"
  by (induction ds arbitrary: d) (auto split: prod.split)

lemma snapshot_keeps_audio [simp]: "detAudioBytes (snd (DetectorSnapshot now d)) = detAudioBytes d"
  by (simp add: DetectorSnapshot_def Let_def split: prod.split option.split)

lemma snapshot_audio: "pvAudioBytes (fst (DetectorSnapshot now d)) = detAudioBytes d"
  by (simp add: DetectorSnapshot_def Let_def split: prod.split option.split)

lemma Poll_observation:
  assumes "Poll f e now s = (snap, lau, s')"
  shows "same_observation snap (fst (DetectorSnapshot now (apDetector s)))"
proof (rule Poll_stages [OF assms])
  fix raw d j s1 sl s2
  let ?m = "annotateSemanticJudgeTracing s1 (mergedSemanticSnapshot s1 raw)"
  assume raw: "DetectorSnapshot now (apDetector s) = (raw, d)" and snap: "snap = mergedSlotSnapshot s2 ?m"
  have "same_observation ?m raw" by (simp add: merged_semantic_observation)
  then have "same_observation snap raw" unfolding snap by (rule same_observation_trans [OF merged_slot_observation])
  then show ?thesis by (simp add: raw)
qed

lemma piece_audio:
  assumes "pushPreviewChunk f e t ds None now chunk s = (r, lau, s')"
  shows "detAudioBytes (apDetector s') = detAudioBytes (apDetector s) + int (length chunk)
    \<and> (\<exists>snap. r = Inr snap \<and> pvAudioBytes snap = detAudioBytes (apDetector s'))"
proof -
  let ?d = "fold (\<lambda>(at0, delta). ObserveTranscriptionDelta at0 delta) ds (ObserveAudio t (int (length chunk)) (apDetector s))"
  have d: "detAudioBytes ?d = detAudioBytes (apDetector s) + int (length chunk)" by (simp add: ObserveAudio_def)
  from assms obtain snap where p: "Poll f e now (s\<lparr>apDetector := ?d\<rparr>) = (snap, lau, s')" and r: "r = Inr snap"
    by (auto simp: pushPreviewChunk_def Let_def split: prod.splits)
  have obs: "same_observation snap (fst (DetectorSnapshot now ?d))" using Poll_observation [OF p] by simp
  show ?thesis using d r obs Poll_detector [OF p] by (simp add: same_observation_def snapshot_audio)
qed

lemma pieces_audio:
  "length answers = length pieces \<Longrightarrow> list_all (\<lambda>(t, ds, failure, now). failure = None) answers \<Longrightarrow>
     \<exists>snaps launched' s'. pushPieces f e pieces answers emitted launched s = (Inr (emitted @ snaps), launched', s')
       \<and> length snaps = length pieces \<and> detAudioBytes (apDetector s') = detAudioBytes (apDetector s) + int (length (concat pieces))
       \<and> (pieces \<noteq> [] \<longrightarrow> pvAudioBytes (last snaps) = detAudioBytes (apDetector s'))"
proof (induction pieces arbitrary: answers emitted launched s)
  case (Cons p ps)
  then obtain t ds now rest where a: "answers = (t, ds, None, now) # rest" by (cases answers) auto
  obtain r lau s1 where r: "pushPreviewChunk f e t ds None now p s = (r, lau, s1)" by (metis prod_cases3)
  from piece_audio [OF r] obtain snap where snap: "r = Inr snap" "pvAudioBytes snap = detAudioBytes (apDetector s1)"
      "detAudioBytes (apDetector s1) = detAudioBytes (apDetector s) + int (length p)" by blast
  from Cons.IH [of rest "emitted @ [snap]" "launched @ [lau]" s1] Cons.prems a obtain snaps launched' s'
    where "pushPieces f e ps rest (emitted @ [snap]) (launched @ [lau]) s1 = (Inr (emitted @ [snap] @ snaps), launched', s')"
      "length snaps = length ps" "detAudioBytes (apDetector s') = detAudioBytes (apDetector s1) + int (length (concat ps))"
      "ps \<noteq> [] \<longrightarrow> pvAudioBytes (last snaps) = detAudioBytes (apDetector s')"
    by auto
  then show ?case using a r snap by (intro exI [of _ "snap # snaps"] exI [of _ launched'] exI [of _ s']) auto
qed simp

text \<open>
  A frame of audio is previewed completely: when the recogniser accepts its pieces, one preview is emitted per piece, the
  detector has then counted exactly the bytes of the frame, and the preview that is returned reports all of them; without audio nothing happens.
\<close>
theorem frame_previewed_completely:
  assumes "chunk \<noteq> []" and "length answers = length (splitPCMForStreaming chunk (prSampleRateHz (apPreviewRequest s)) (prChannels (apPreviewRequest s)) 40)"
    and "list_all (\<lambda>(t, ds, failure, now). failure = None) answers"
  shows "\<exists>final snaps launched s'. PushAudioProgressively f e chunk answers s = (Inr (final, snaps), launched, s')
    \<and> length snaps = length (splitPCMForStreaming chunk (prSampleRateHz (apPreviewRequest s)) (prChannels (apPreviewRequest s)) 40)
    \<and> detAudioBytes (apDetector s') = detAudioBytes (apDetector s) + int (length chunk)
    \<and> final = last snaps \<and> pvAudioBytes final = detAudioBytes (apDetector s')"
  using pieces_audio [OF assms(2,3), of f e "[]" "[]" s] assms(1)
  by (auto simp: PushAudioProgressively_def defaultASRStreamingChunkMs_def Let_def)

theorem frame_previewed_completely_witness:
  "\<exists>final snaps launched s'. PushAudioProgressively (\<lambda>_. []) (\<lambda>_. []) (replicate 1280 0) [(0, [], None, 0)] sampleSession = (Inr (final, snaps), launched, s')
    \<and> pvAudioBytes final = 33280"
proof -
  have r: "apPreviewRequest sampleSession = samplePreviewRequest" by (simp add: sampleSession_def StartInputPreview_def)
  have one: "length (splitPCMForStreaming (replicate 1280 0) (prSampleRateHz (apPreviewRequest sampleSession)) (prChannels (apPreviewRequest sampleSession)) 40) = 1"
    unfolding r by code_simp
  have "detAudioBytes (apDetector sampleSession) = 32000" by (simp add: sample_session_fields sampleDetector_def)
  then show ?thesis
    using frame_previewed_completely [of "replicate 1280 0" "[(0, [], None, 0)]" sampleSession "\<lambda>_. []" "\<lambda>_. []"] one by auto
qed

end
