(* ===== verification/Speech_Planner.thy ===== *)
theory Speech_Planner
  imports Lexical
begin

text \<open>
  The speech planner of \<open>internal/voice/speech_planner.go\<close>: it cuts the text an agent streams into
  clauses that are synthesised while the rest of the answer is still being generated. The planner is
  a state passed through its methods; strings.Builder values are the texts they hold.
\<close>

section \<open>Data\<close>

datatype SpeechClauseBoundaryKind = BoundaryUnset | StrongStop | SoftContinue | ForcedBreath | FinalFlush

datatype SpeechClauseProsodyHint = ProsodyUnset | ProsodyNeutral | ContinuationHold | FinalFall | AckLead

record PlannedSpeechClause =
  clIndex :: int
  clText :: gostring
  clBoundaryKind :: SpeechClauseBoundaryKind
  clProsodyHint :: SpeechClauseProsodyHint
  clCanStartBeforeFinalized :: bool
  clEstimatedDuration :: duration

record SpeechPlannerConfig =
  plEnabled :: bool
  plMinChunkRunes :: int
  plTargetChunkRunes :: int

record SpeechPlanner =
  plCfg :: SpeechPlannerConfig
  plObserved :: gostring
  plPending :: gostring
  plNextClauseIndex :: int

record PlaybackSegment =
  segIndex :: int
  segText :: gostring
  segExpectedDuration :: duration
  segIsLastSegment :: bool

definition defaultSpeechPlannerMinChunkRunes :: int where "defaultSpeechPlannerMinChunkRunes = 6"
definition defaultSpeechPlannerTargetChunkRunes :: int where "defaultSpeechPlannerTargetChunkRunes = 24"
definition defaultSpeechPlannerMaxChunkRunes :: int where "defaultSpeechPlannerMaxChunkRunes = 42"

definition NormalizeSpeechPlannerConfig :: "SpeechPlannerConfig \<Rightarrow> SpeechPlannerConfig" where
  "NormalizeSpeechPlannerConfig cfg =
     (let minRunes = (if plMinChunkRunes cfg \<le> 0 then defaultSpeechPlannerMinChunkRunes else plMinChunkRunes cfg);
          target = (if plTargetChunkRunes cfg \<le> 0 then defaultSpeechPlannerTargetChunkRunes else plTargetChunkRunes cfg)
      in cfg\<lparr>plMinChunkRunes := minRunes, plTargetChunkRunes := (if target < minRunes then minRunes else target)\<rparr>)"

definition NewSpeechPlanner :: "SpeechPlannerConfig \<Rightarrow> SpeechPlanner" where
  "NewSpeechPlanner cfg =
     \<lparr>plCfg = NormalizeSpeechPlannerConfig cfg, plObserved = [], plPending = [], plNextClauseIndex = 0\<rparr>"

section \<open>Boundaries\<close>

definition isStrongSpeechBoundary :: "rune \<Rightarrow> bool" where
  "isStrongSpeechBoundary r =
     (r \<in> set [46, 33, 63, 59, 10, 0x3002, 0xFF01, 0xFF1F, 0xFF1B, 0x2026])"

definition isSoftSpeechBoundary :: "rune \<Rightarrow> bool" where
  "isSoftSpeechBoundary r = (r \<in> set [44, 58, 0xFF0C, 0x3001, 0xFF1A])"

record boundaryScan =
  lastStrong :: int
  lastSoft :: int
  lastSpace :: int
  firstStrong :: int
  firstSoft :: int

text \<open>The \<open>for i, r := range runes\<close> loop of \<open>plannedSpeechBoundary\<close>, from index \<open>i\<close> on.\<close>

primrec scanBoundaries :: "int \<Rightarrow> rune list \<Rightarrow> int \<Rightarrow> boundaryScan \<Rightarrow> boundaryScan" where
  "scanBoundaries minRunes [] i acc = acc"
| "scanBoundaries minRunes (r # rs) i acc =
     scanBoundaries minRunes rs (i + 1)
       (if isStrongSpeechBoundary r then
          acc\<lparr>lastStrong := i + 1,
              firstStrong := (if firstStrong acc = 0 \<and> i + 1 \<ge> minRunes then i + 1 else firstStrong acc)\<rparr>
        else if isSoftSpeechBoundary r then
          acc\<lparr>lastSoft := i + 1,
              firstSoft := (if firstSoft acc = 0 \<and> i + 1 \<ge> minRunes then i + 1 else firstSoft acc)\<rparr>
        else if is_space r then acc\<lparr>lastSpace := i + 1\<rparr>
        else acc)"

definition maxChunkRunes :: "SpeechPlannerConfig \<Rightarrow> int" where
  "maxChunkRunes cfg =
     (let m = plTargetChunkRunes cfg + maxInt (plTargetChunkRunes cfg sdiv 2) 8
      in if m < defaultSpeechPlannerMaxChunkRunes then defaultSpeechPlannerMaxChunkRunes else m)"

definition plannedSpeechBoundary :: "rune list \<Rightarrow> SpeechPlannerConfig \<Rightarrow> bool \<Rightarrow> int" where
  "plannedSpeechBoundary runes cfg flush =
     (let total = int (length runes); minRunes = plMinChunkRunes cfg; target = plTargetChunkRunes cfg;
          s = scanBoundaries minRunes runes 0
                \<lparr>lastStrong = 0, lastSoft = 0, lastSpace = 0, firstStrong = 0, firstSoft = 0\<rparr>
      in if total = 0 then 0
         else if firstStrong s > 0 \<and> firstStrong s < total then firstStrong s
         else if lastStrong s \<ge> minRunes then lastStrong s
         else if lastSoft s \<ge> minRunes \<and> lastSoft s = total then lastSoft s
         else if total \<ge> target \<and> firstSoft s > 0 \<and> firstSoft s < total then firstSoft s
         else if total \<ge> target \<and> lastSoft s \<ge> minRunes then lastSoft s
         else if total \<ge> target \<and> lastSpace s \<ge> minRunes then lastSpace s
         else if total \<ge> target \<and> \<not> flush then target
         else if total \<ge> maxChunkRunes cfg then
           (if lastSoft s \<ge> minRunes then lastSoft s
            else if lastSpace s \<ge> minRunes then lastSpace s
            else if target < total then target
            else total)
         else if flush then
           (if firstSoft s > 0 \<and> firstSoft s < total then firstSoft s
            else if lastSoft s \<ge> minRunes then lastSoft s
            else if lastSpace s \<ge> minRunes then lastSpace s
            else total)
         else 0)"

section \<open>Clauses\<close>

definition nextPlannedSpeechSegment :: "gostring \<Rightarrow> SpeechPlannerConfig \<Rightarrow> bool \<Rightarrow> gostring \<times> gostring" where
  "nextPlannedSpeechSegment t cfg0 flush =
     (let runes = TrimSpace t; cfg = NormalizeSpeechPlannerConfig cfg0
      in if runes = [] then ([], [])
         else
           let c = plannedSpeechBoundary runes cfg flush
           in if c \<le> 0 then ([], runes)
              else let c' = (if c > int (length runes) then int (length runes) else c)
                   in (TrimSpace (take (nat c') runes), trim_left is_space (drop (nat c') runes)))"

definition classifySpeechClauseBoundary :: "gostring \<Rightarrow> gostring \<Rightarrow> bool \<Rightarrow> SpeechClauseBoundaryKind" where
  "classifySpeechClauseBoundary segment rest flush =
     (let s = TrimSpace segment; l = runeAtEnd s
      in if s = [] then FinalFlush
         else if flush \<and> TrimSpace rest = [] then FinalFlush
         else if isStrongSpeechBoundary l then StrongStop
         else if isSoftSpeechBoundary l then SoftContinue
         else if TrimSpace rest \<noteq> [] then ForcedBreath
         else FinalFlush)"

definition speechPlannerAckLeadTokens :: "gostring list" where
  "speechPlannerAckLeadTokens = [
     [0x597D, 0xFF0C],
     [0x597D, 0x7684, 0xFF0C],
     [0x5F53, 0x7136, 0x53EF, 0x4EE5, 0xFF0C],
     [0x6CA1, 0x95EE, 0x9898, 0xFF0C],
     [0x53EF, 0x4EE5, 0xFF0C],
     [0x6536, 0x5230, 0xFF0C],
     [0x660E, 0x767D, 0xFF0C]]"

definition looksLikeAckLeadClause :: "gostring \<Rightarrow> SpeechClauseBoundaryKind \<Rightarrow> bool" where
  "looksLikeAckLeadClause t boundary =
     (let s = TrimSpace t
      in if s = [] \<or> boundary \<noteq> SoftContinue then False
         else if length s > 8 then False
         else list_ex (\<lambda>token. HasPrefix s token) speechPlannerAckLeadTokens)"

definition pauseRunes :: "rune list" where "pauseRunes = [0xFF0C, 44, 0x3001]"
definition stopRunes :: "rune list" where
  "stopRunes = [0x3002, 46, 0xFF01, 33, 0xFF1F, 63, 59, 0xFF1B, 58, 0xFF1A]"

definition runePause :: "rune \<Rightarrow> duration" where
  "runePause r = (if r \<in> set pauseRunes then 120 * Millisecond
                  else if r \<in> set stopRunes then 220 * Millisecond else 0)"

definition estimatePlannedSpeechDuration :: "gostring \<Rightarrow> duration" where
  "estimatePlannedSpeechDuration t =
     (let runes = TrimSpace t
      in if runes = [] then 0
         else fold (\<lambda>r d. d + runePause r) runes (int (length runes) * 110 * Millisecond))"

definition classifyPlannedSpeechClause :: "gostring \<Rightarrow> SpeechClauseBoundaryKind \<Rightarrow> bool \<Rightarrow> PlannedSpeechClause" where
  "classifyPlannedSpeechClause t boundary canStart =
     (let s = TrimSpace t
      in \<lparr>clIndex = 0, clText = s, clBoundaryKind = boundary,
          clProsodyHint =
            (if looksLikeAckLeadClause s boundary then AckLead
             else if boundary = SoftContinue \<or> boundary = ForcedBreath then ContinuationHold
             else if boundary = StrongStop \<or> boundary = FinalFlush then FinalFall
             else ProsodyNeutral),
          clCanStartBeforeFinalized = canStart,
          clEstimatedDuration = estimatePlannedSpeechDuration s\<rparr>)"

definition emptyClause :: PlannedSpeechClause where
  "emptyClause = \<lparr>clIndex = 0, clText = [], clBoundaryKind = BoundaryUnset, clProsodyHint = ProsodyUnset,
     clCanStartBeforeFinalized = False, clEstimatedDuration = 0\<rparr>"

definition nextPlannedSpeechClause ::
  "gostring \<Rightarrow> SpeechPlannerConfig \<Rightarrow> bool \<Rightarrow> bool \<Rightarrow> int \<Rightarrow> PlannedSpeechClause \<times> gostring" where
  "nextPlannedSpeechClause t cfg flush canStart clauseIndex =
     (let (segment, rest) = nextPlannedSpeechSegment t cfg flush
      in if TrimSpace segment = [] then (emptyClause, rest)
         else ((classifyPlannedSpeechClause segment (classifySpeechClauseBoundary segment rest flush) canStart)
                 \<lparr>clIndex := clauseIndex\<rparr>, rest))"

text \<open>A cut leaves a shorter text, so the loop of \<open>drainClauses\<close> ends.\<close>

lemma nextPlannedSpeechClause_shorter:
  assumes "nextPlannedSpeechClause t cfg flush canStart i = (c, rest)" and "TrimSpace (clText c) \<noteq> []"
  shows "length rest < length t"
proof -
  have le: "length (TrimSpace t) \<le> length t"
    using TrimSpace_decomp [of t] by (metis le_add1 le_add2 length_append order.trans)
  have tl: "length (trim_left is_space xs) \<le> length xs" for xs
    by (simp add: trim_left_def length_dropWhile_le)
  from assms show ?thesis
    using tl [of "drop k (TrimSpace t)" for k] le
    by (auto simp: nextPlannedSpeechClause_def nextPlannedSpeechSegment_def Let_def emptyClause_def trim_left_def
        split: if_splits intro!: le_less_trans [OF length_dropWhile_le])
qed

function drainLoop :: "SpeechPlannerConfig \<Rightarrow> bool \<Rightarrow> gostring \<Rightarrow> int \<Rightarrow> PlannedSpeechClause list \<times> gostring \<times> int" where
  "drainLoop cfg flush pending idx =
     (let (clause, rest) = nextPlannedSpeechClause pending cfg flush (\<not> flush) idx
      in if TrimSpace (clText clause) = [] then ([], pending, idx)
         else if rest = [] then ([clause], rest, idx + 1)
         else let (cs, pending', idx') = drainLoop cfg flush rest (idx + 1) in (clause # cs, pending', idx'))"
  by pat_completeness auto
termination
  by (relation "measure (\<lambda>(cfg, flush, pending, idx). length pending)")
    (auto dest: nextPlannedSpeechClause_shorter [OF sym])

declare drainLoop.simps [simp del]

definition drainClauses :: "bool \<Rightarrow> SpeechPlanner \<Rightarrow> PlannedSpeechClause list \<times> SpeechPlanner" where
  "drainClauses flush p =
     (let pending = TrimSpace (plPending p)
      in if pending = [] then ([], p\<lparr>plPending := []\<rparr>)
         else let (clauses, pending', idx) = drainLoop (plCfg p) flush pending (plNextClauseIndex p)
              in (clauses, p\<lparr>plPending := pending', plNextClauseIndex := idx\<rparr>))"

definition ObserveTextDeltaClauses :: "gostring \<Rightarrow> SpeechPlanner \<Rightarrow> PlannedSpeechClause list \<times> SpeechPlanner" where
  "ObserveTextDeltaClauses t p =
     (if TrimSpace t = [] then ([], p)
      else drainClauses False (p\<lparr>plObserved := plObserved p @ t, plPending := plPending p @ t\<rparr>))"

text \<open>The matching loop of \<open>plannerRemainingTail\<close> returns what is left of the final text.\<close>

fun unmatchedTail :: "gostring \<Rightarrow> gostring \<Rightarrow> gostring" where
  "unmatchedTail (x # xs) (y # ys) = (if x \<noteq> y then y # ys else unmatchedTail xs ys)"
| "unmatchedTail _ ys = ys"

definition plannerRemainingTail :: "gostring \<Rightarrow> gostring \<Rightarrow> gostring" where
  "plannerRemainingTail observed final =
     (if TrimSpace final = [] then []
      else if observed = [] then final
      else unmatchedTail observed final)"

definition nextClause :: "gostring \<Rightarrow> SpeechClauseBoundaryKind \<Rightarrow> bool \<Rightarrow> SpeechPlanner \<Rightarrow> PlannedSpeechClause \<times> SpeechPlanner" where
  "nextClause t boundary canStart p =
     ((classifyPlannedSpeechClause t boundary canStart)\<lparr>clIndex := plNextClauseIndex p\<rparr>,
      p\<lparr>plNextClauseIndex := plNextClauseIndex p + 1\<rparr>)"

definition FinalizeTextClauses :: "gostring \<Rightarrow> SpeechPlanner \<Rightarrow> PlannedSpeechClause list \<times> SpeechPlanner" where
  "FinalizeTextClauses t p =
     (let tail = plannerRemainingTail (plObserved p) t;
          p1 = (if TrimSpace tail \<noteq> [] then p\<lparr>plObserved := plObserved p @ tail, plPending := plPending p @ tail\<rparr> else p);
          (clauses, p2) = drainClauses True p1;
          remaining = TrimSpace (plPending p2);
          (clauses', p3) = (if remaining \<noteq> [] then let (c, p') = nextClause remaining FinalFlush False p2 in (clauses @ [c], p')
                            else (clauses, p2))
      in (clauses', p3\<lparr>plPending := []\<rparr>))"

definition plannedSpeechClauseTexts :: "PlannedSpeechClause list \<Rightarrow> gostring list" where
  "plannedSpeechClauseTexts clauses = filter (\<lambda>t. t \<noteq> []) (map (\<lambda>c. TrimSpace (clText c)) clauses)"

definition ObserveTextDelta :: "gostring \<Rightarrow> SpeechPlanner \<Rightarrow> gostring list \<times> SpeechPlanner" where
  "ObserveTextDelta t p = (let (cs, p') = ObserveTextDeltaClauses t p in (plannedSpeechClauseTexts cs, p'))"

definition FinalizeText :: "gostring \<Rightarrow> SpeechPlanner \<Rightarrow> gostring list \<times> SpeechPlanner" where
  "FinalizeText t p = (let (cs, p') = FinalizeTextClauses t p in (plannedSpeechClauseTexts cs, p'))"

definition estimateClausePlaybackDuration :: "PlannedSpeechClause \<Rightarrow> duration" where
  "estimateClausePlaybackDuration clause =
     (if clEstimatedDuration clause > 0 then clEstimatedDuration clause
      else estimatePlannedSpeechDuration (clText clause))"

definition playbackSegmentForClause :: "PlannedSpeechClause \<Rightarrow> PlaybackSegment" where
  "playbackSegmentForClause clause =
     \<lparr>segIndex = clIndex clause, segText = TrimSpace (clText clause),
      segExpectedDuration = estimateClausePlaybackDuration clause,
      segIsLastSegment = (clBoundaryKind clause = FinalFlush)\<rparr>"


section \<open>Lemmas\<close>

definition scan_within :: "int \<Rightarrow> boundaryScan \<Rightarrow> bool" where
  "scan_within n s \<longleftrightarrow> 0 \<le> lastStrong s \<and> lastStrong s \<le> n \<and> 0 \<le> lastSoft s \<and> lastSoft s \<le> n \<and>
     0 \<le> lastSpace s \<and> lastSpace s \<le> n \<and> 0 \<le> firstStrong s \<and> firstStrong s \<le> n \<and> 0 \<le> firstSoft s \<and> firstSoft s \<le> n"

lemma scan_bounds: "0 \<le> i \<Longrightarrow> scan_within i acc \<Longrightarrow> scan_within (i + int (length rs)) (scanBoundaries m rs i acc)"
proof (induction rs arbitrary: i acc)
  case (Cons r rs)
  have "scan_within (i + 1) (if isStrongSpeechBoundary r then
          acc\<lparr>lastStrong := i + 1, firstStrong := (if firstStrong acc = 0 \<and> i + 1 \<ge> m then i + 1 else firstStrong acc)\<rparr>
        else if isSoftSpeechBoundary r then
          acc\<lparr>lastSoft := i + 1, firstSoft := (if firstSoft acc = 0 \<and> i + 1 \<ge> m then i + 1 else firstSoft acc)\<rparr>
        else if is_space r then acc\<lparr>lastSpace := i + 1\<rparr> else acc)"
    using Cons.prems by (auto simp: scan_within_def)
  from Cons.IH [OF _ this] Cons.prems show ?case by (simp add: algebra_simps)
qed (simp add: scan_within_def)

lemma normalized_planner:
  "0 < plMinChunkRunes (NormalizeSpeechPlannerConfig cfg)"
  "plMinChunkRunes (NormalizeSpeechPlannerConfig cfg) \<le> plTargetChunkRunes (NormalizeSpeechPlannerConfig cfg)"
  by (simp_all add: NormalizeSpeechPlannerConfig_def Let_def defaultSpeechPlannerMinChunkRunes_def
      defaultSpeechPlannerTargetChunkRunes_def)

lemma boundary_bounds:
  assumes "0 < plMinChunkRunes cfg" and "plMinChunkRunes cfg \<le> plTargetChunkRunes cfg"
  shows "0 \<le> plannedSpeechBoundary runes cfg flush \<and> plannedSpeechBoundary runes cfg flush \<le> int (length runes)"
    and "runes \<noteq> [] \<Longrightarrow> flush \<or> plTargetChunkRunes cfg \<le> int (length runes) \<Longrightarrow> 0 < plannedSpeechBoundary runes cfg flush"
proof -
  have "scan_within (0 + int (length runes)) (scanBoundaries (plMinChunkRunes cfg) runes 0
      \<lparr>lastStrong = 0, lastSoft = 0, lastSpace = 0, firstStrong = 0, firstSoft = 0\<rparr>)"
    by (rule scan_bounds) (simp_all add: scan_within_def)
  then show "0 \<le> plannedSpeechBoundary runes cfg flush \<and> plannedSpeechBoundary runes cfg flush \<le> int (length runes)"
    and "runes \<noteq> [] \<Longrightarrow> flush \<or> plTargetChunkRunes cfg \<le> int (length runes) \<Longrightarrow> 0 < plannedSpeechBoundary runes cfg flush"
    using assms by (auto simp: plannedSpeechBoundary_def Let_def scan_within_def)
qed

lemma take_trimmed_nonblank: "trimmed t \<Longrightarrow> t \<noteq> [] \<Longrightarrow> 0 < n \<Longrightarrow> TrimSpace (take n t) \<noteq> []"
  by (cases t; cases n) (auto simp: trimmed_def TrimSpace_eq_Nil)

lemma drop_trimmed: "trimmed t \<Longrightarrow> trim_left is_space (drop n t) = [] \<Longrightarrow> drop n t = []"
  by (metis drop_eq_Nil last_drop last_in_set not_less trim_left_eq_Nil trimmed_def drop_Nil)

lemma trimmed_trim_left_drop: "trimmed t \<Longrightarrow> trimmed (trim_left is_space (drop n t))"
proof -
  assume t: "trimmed t"
  have "last (trim_left is_space (drop n t)) = last t" if "trim_left is_space (drop n t) \<noteq> []"
  proof -
    have "drop n t \<noteq> []" using that by (auto simp: trim_left_def)
    then show ?thesis using that by (simp add: trim_left_def last_dropWhile_ne)
  qed
  then show ?thesis using t hd_dropWhile_ne [of is_space "drop n t"]
    by (simp only: trimmed_def trim_left_def) force
qed


lemma nextClause_spec:
  assumes "nextPlannedSpeechClause t cfg flush canStart i = (c, rest)" and "trimmed t" and "TrimSpace (clText c) \<noteq> []"
  shows "squeeze (clText c) @ squeeze rest = squeeze t"
    and "trimmed (clText c)" and "trimmed rest" and "clIndex c = i" and "clCanStartBeforeFinalized c = canStart"
    and "clEstimatedDuration c = estimatePlannedSpeechDuration (clText c)"
    and "clBoundaryKind c = classifySpeechClauseBoundary (clText c) rest flush"
proof -
  let ?cfg = "NormalizeSpeechPlannerConfig cfg"
  let ?b = "plannedSpeechBoundary t ?cfg flush"
  have t: "TrimSpace t = t" using assms(2) by (rule trimmed_id)
  have b: "0 \<le> ?b" "?b \<le> int (length t)"
    using boundary_bounds(1) [OF normalized_planner] by blast+
  from assms(1,3) have ne: "t \<noteq> []" and pos: "0 < ?b"
    by (auto simp: nextPlannedSpeechClause_def nextPlannedSpeechSegment_def t Let_def emptyClause_def split: if_splits)
  have seg: "nextPlannedSpeechSegment t cfg flush = (TrimSpace (take (nat ?b) t), trim_left is_space (drop (nat ?b) t))"
    using ne pos b by (simp add: nextPlannedSpeechSegment_def t Let_def)
  have s: "TrimSpace (take (nat ?b) t) \<noteq> []"
    using take_trimmed_nonblank [OF assms(2) ne] pos by simp
  have c: "c = (classifyPlannedSpeechClause (TrimSpace (take (nat ?b) t))
      (classifySpeechClauseBoundary (TrimSpace (take (nat ?b) t)) rest flush) canStart)\<lparr>clIndex := i\<rparr>"
    and r: "rest = trim_left is_space (drop (nat ?b) t)"
    using assms(1) s by (auto simp: nextPlannedSpeechClause_def seg)
  have "squeeze (take (nat ?b) t) @ squeeze (drop (nat ?b) t) = squeeze t"
    by (simp flip: squeeze_append)
  then show "squeeze (clText c) @ squeeze rest = squeeze t"
    by (simp add: c r classifyPlannedSpeechClause_def Let_def)
  show "trimmed rest" unfolding r using assms(2) by (rule trimmed_trim_left_drop)
  show "trimmed (clText c)" and "clIndex c = i" and "clCanStartBeforeFinalized c = canStart"
    and "clEstimatedDuration c = estimatePlannedSpeechDuration (clText c)"
    and "clBoundaryKind c = classifySpeechClauseBoundary (clText c) rest flush"
    by (simp_all add: c classifyPlannedSpeechClause_def Let_def)
qed

text \<open>With \<open>flush\<close> set there is always a next clause.\<close>

lemma nextClause_flush:
  assumes "nextPlannedSpeechClause t cfg True canStart i = (c, rest)" and "trimmed t" and "t \<noteq> []"
  shows "TrimSpace (clText c) \<noteq> []"
proof -
  let ?b = "plannedSpeechBoundary t (NormalizeSpeechPlannerConfig cfg) True"
  have t: "TrimSpace t = t" using assms(2) by (rule trimmed_id)
  have "0 < ?b" and b: "?b \<le> int (length t)"
    using boundary_bounds [OF normalized_planner] assms(3) by auto
  then have "TrimSpace (take (nat ?b) t) \<noteq> []" using take_trimmed_nonblank [OF assms(2,3)] by simp
  with assms(1,3) \<open>0 < ?b\<close> b show ?thesis
    by (auto simp: nextPlannedSpeechClause_def nextPlannedSpeechSegment_def t Let_def classifyPlannedSpeechClause_def)
qed

text \<open>What the loop of \<open>drainClauses\<close> keeps.\<close>

definition clause_ok :: "bool \<Rightarrow> PlannedSpeechClause \<Rightarrow> bool" where
  "clause_ok canStart c \<longleftrightarrow> trimmed (clText c) \<and> clText c \<noteq> [] \<and> clCanStartBeforeFinalized c = canStart \<and>
     clEstimatedDuration c = estimatePlannedSpeechDuration (clText c)"

definition clauses_text :: "PlannedSpeechClause list \<Rightarrow> gostring" where
  "clauses_text cs = squeeze (concat (map clText cs))"

lemma clauses_text_simps [simp]:
  "clauses_text [] = []" "clauses_text (c # cs) = squeeze (clText c) @ clauses_text cs"
  "clauses_text (cs @ ds) = clauses_text cs @ clauses_text ds"
  by (simp_all add: clauses_text_def)

lemma drainLoop_spec:
  assumes "drainLoop cfg flush pending idx = (cs, pending', idx')" and "trimmed pending"
  shows "clauses_text cs @ squeeze pending' = squeeze pending \<and> trimmed pending' \<and>
    map clIndex cs = [idx..idx' - 1] \<and> idx' = idx + int (length cs) \<and> (\<forall>c \<in> set cs. clause_ok (\<not> flush) c)"
  using assms
proof (induction cfg flush pending idx arbitrary: cs pending' idx' rule: drainLoop.induct)
  case (1 cfg flush pending idx)
  obtain c rest where n: "nextPlannedSpeechClause pending cfg flush (\<not> flush) idx = (c, rest)" by fastforce
  show ?case
  proof (cases "TrimSpace (clText c) = []")
    case True
    then show ?thesis using "1.prems" n by (simp add: drainLoop.simps [of cfg flush pending])
  next
    case False
    note sp = nextClause_spec [OF n "1.prems"(2) False]
    have ok: "clause_ok (\<not> flush) c" using sp False by (auto simp: clause_ok_def)
    show ?thesis
    proof (cases "rest = []")
      case True
      then have eq: "cs = [c]" "pending' = []" "idx' = idx + 1"
        using "1.prems"(1) n False by (simp_all add: drainLoop.simps [of cfg flush pending])
      show ?thesis using sp ok True unfolding eq by simp
    next
      case ne: False
      obtain ds p' i' where d: "drainLoop cfg flush rest (idx + 1) = (ds, p', i')" by (metis prod_cases3)
      have IH: "clauses_text ds @ squeeze p' = squeeze rest \<and> trimmed p' \<and> map clIndex ds = [idx + 1..i' - 1] \<and>
          i' = idx + 1 + int (length ds) \<and> (\<forall>c \<in> set ds. clause_ok (\<not> flush) c)"
        using "1.IH" [OF refl n [symmetric] False ne d sp(3)] n by simp
      have eq: "cs = c # ds" "pending' = p'" "idx' = i'"
        using "1.prems"(1) n d False ne by (simp_all add: drainLoop.simps [of cfg flush pending])
      have "[idx..i' - 1] = idx # [idx + 1..i' - 1]" using IH by (subst upto_rec1) auto
      then show ?thesis using IH sp ok eq by auto
    qed
  qed
qed


text \<open>Draining with \<open>flush\<close> leaves nothing and marks exactly the last clause as the final one.\<close>

lemma drainLoop_flush:
  assumes "drainLoop cfg True pending idx = (cs, pending', idx')" and "trimmed pending" and "pending \<noteq> []"
  shows "pending' = [] \<and> cs \<noteq> [] \<and> clBoundaryKind (last cs) = FinalFlush \<and>
    (\<forall>c \<in> set (butlast cs). clBoundaryKind c \<noteq> FinalFlush)"
  using assms
proof (induction cfg True pending idx arbitrary: cs pending' idx' rule: drainLoop.induct)
  case (1 cfg pending idx)
  obtain c rest where n: "nextPlannedSpeechClause pending cfg True False idx = (c, rest)" by fastforce
  have ne: "TrimSpace (clText c) \<noteq> []" using nextClause_flush [OF n "1.prems"(2,3)] .
  note sp = nextClause_spec [OF n "1.prems"(2) ne]
  have k: "clBoundaryKind c = FinalFlush \<longleftrightarrow> rest = []"
    using ne trimmed_id [OF sp(3)] by (simp add: sp(7) classifySpeechClauseBoundary_def Let_def)
  show ?case
  proof (cases "rest = []")
    case True
    then show ?thesis using "1.prems"(1) n ne k by (auto simp: drainLoop.simps [of cfg True pending])
  next
    case False
    have n': "(c, rest) = nextPlannedSpeechClause pending cfg True (\<not> True) idx" using n by simp
    obtain ds p' i' where d: "drainLoop cfg True rest (idx + 1) = (ds, p', i')" by (metis prod_cases3)
    have IH: "p' = [] \<and> ds \<noteq> [] \<and> clBoundaryKind (last ds) = FinalFlush \<and> (\<forall>c \<in> set (butlast ds). clBoundaryKind c \<noteq> FinalFlush)"
      using "1.hyps" [OF refl n' ne False d sp(3) False] .
    have "cs = c # ds" "pending' = p'"
      using "1.prems"(1) n d ne False by (simp_all add: drainLoop.simps [of cfg True pending])
    then show ?thesis using IH k False by simp
  qed
qed

lemma drainClauses_spec:
  assumes "drainClauses flush p = (cs, p')"
  shows "clauses_text cs @ squeeze (plPending p') = squeeze (plPending p) \<and> trimmed (plPending p') \<and>
    map clIndex cs = [plNextClauseIndex p..plNextClauseIndex p' - 1] \<and>
    plNextClauseIndex p' = plNextClauseIndex p + int (length cs) \<and>
    plObserved p' = plObserved p \<and> plCfg p' = plCfg p \<and> (\<forall>c \<in> set cs. clause_ok (\<not> flush) c)"
proof (cases "TrimSpace (plPending p) = []")
  case True
  then show ?thesis using assms squeeze_TrimSpace [of "plPending p"] by (auto simp: drainClauses_def trimmed_def)
next
  case False
  obtain ds q i where d: "drainLoop (plCfg p) flush (TrimSpace (plPending p)) (plNextClauseIndex p) = (ds, q, i)"
    by (metis prod_cases3)
  then have "cs = ds" and p': "p' = p\<lparr>plPending := q, plNextClauseIndex := i\<rparr>"
    using assms False by (auto simp: drainClauses_def Let_def)
  then show ?thesis using drainLoop_spec [OF d] by simp
qed

lemma drainClauses_flush:
  assumes "drainClauses True p = (cs, p')"
  shows "plPending p' = [] \<and> (TrimSpace (plPending p) \<noteq> [] \<longrightarrow> cs \<noteq> [] \<and> clBoundaryKind (last cs) = FinalFlush) \<and>
    (\<forall>c \<in> set (butlast cs). clBoundaryKind c \<noteq> FinalFlush)"
proof (cases "TrimSpace (plPending p) = []")
  case False
  obtain ds q i where d: "drainLoop (plCfg p) True (TrimSpace (plPending p)) (plNextClauseIndex p) = (ds, q, i)"
    by (metis prod_cases3)
  then have "cs = ds" and "p' = p\<lparr>plPending := q, plNextClauseIndex := i\<rparr>"
    using assms False by (auto simp: drainClauses_def Let_def)
  then show ?thesis using drainLoop_flush [OF d trimmed_TrimSpace False] by simp
qed (use assms in \<open>auto simp: drainClauses_def\<close>)

text \<open>A run of the planner: the deltas, then the final text.\<close>

fun observe_all :: "gostring list \<Rightarrow> SpeechPlanner \<Rightarrow> PlannedSpeechClause list \<times> SpeechPlanner" where
  "observe_all [] p = ([], p)"
| "observe_all (t # ts) p =
     (let (cs, p') = ObserveTextDeltaClauses t p; (ds, p'') = observe_all ts p' in (cs @ ds, p''))"

definition plan_speech :: "SpeechPlannerConfig \<Rightarrow> gostring list \<Rightarrow> gostring \<Rightarrow> PlannedSpeechClause list" where
  "plan_speech cfg deltas final =
     (let (cs, p) = observe_all deltas (NewSpeechPlanner cfg); (ds, q) = FinalizeTextClauses final p in cs @ ds)"

lemma upto_append: "a \<le> b \<Longrightarrow> b \<le> c \<Longrightarrow> [a..b - 1] @ [b..c - 1] = [a..c - (1::int)]"
  using upto_split2 [of a "b - 1" "c - 1"] by (cases "b = c") (auto simp: upto_split1)

lemma ObserveTextDelta_spec:
  assumes "ObserveTextDeltaClauses t p = (cs, p')"
  shows "clauses_text cs @ squeeze (plPending p') = squeeze (plPending p) @ squeeze t \<and>
    map clIndex cs = [plNextClauseIndex p..plNextClauseIndex p' - 1] \<and>
    plNextClauseIndex p \<le> plNextClauseIndex p' \<and>
    plObserved p' = plObserved p @ (if TrimSpace t = [] then [] else t) \<and> (\<forall>c \<in> set cs. clause_ok True c)"
proof (cases "TrimSpace t = []")
  case True
  then show ?thesis using assms squeeze_eq_Nil [of t] by (auto simp: ObserveTextDeltaClauses_def)
next
  case False
  then have "drainClauses False (p\<lparr>plObserved := plObserved p @ t, plPending := plPending p @ t\<rparr>) = (cs, p')"
    using assms by (simp add: ObserveTextDeltaClauses_def)
  from drainClauses_spec [OF this] show ?thesis using False by simp
qed

lemma observe_all_spec:
  assumes "observe_all ts p = (cs, p')"
  shows "clauses_text cs @ squeeze (plPending p') = squeeze (plPending p) @ squeeze (concat ts) \<and>
    map clIndex cs = [plNextClauseIndex p..plNextClauseIndex p' - 1] \<and>
    plNextClauseIndex p \<le> plNextClauseIndex p' \<and>
    plObserved p' = plObserved p @ concat (filter (\<lambda>t. TrimSpace t \<noteq> []) ts) \<and> (\<forall>c \<in> set cs. clause_ok True c)"
  using assms
proof (induction ts arbitrary: p cs)
  case (Cons t ts)
  obtain as q where a: "ObserveTextDeltaClauses t p = (as, q)" by fastforce
  obtain bs q' where b: "observe_all ts q = (bs, q')" by fastforce
  have eq: "cs = as @ bs" "p' = q'" using Cons.prems a b by auto
  note A = ObserveTextDelta_spec [OF a] and B = Cons.IH [OF b [folded eq(2)]]
  have "clauses_text cs @ squeeze (plPending p') = (clauses_text as @ squeeze (plPending q)) @ squeeze (concat ts)"
    using B unfolding eq(1) by simp
  then have "clauses_text cs @ squeeze (plPending p') = squeeze (plPending p) @ squeeze (concat (t # ts))"
    using A by simp
  moreover have "map clIndex cs = [plNextClauseIndex p..plNextClauseIndex p' - 1]"
    using A B unfolding eq(1) by (simp add: upto_append)
  ultimately show ?case using A B unfolding eq(1) by auto
qed auto


lemma Finalize_spec:
  assumes "FinalizeTextClauses t p = (cs, p')"
  shows "clauses_text cs = squeeze (plPending p) @ squeeze (plannerRemainingTail (plObserved p) t) \<and>
    map clIndex cs = [plNextClauseIndex p..plNextClauseIndex p + int (length cs) - 1] \<and>
    plPending p' = [] \<and> (\<forall>c \<in> set cs. clause_ok False c) \<and>
    (cs \<noteq> [] \<longrightarrow> clBoundaryKind (last cs) = FinalFlush) \<and> (\<forall>c \<in> set (butlast cs). clBoundaryKind c \<noteq> FinalFlush)"
proof -
  let ?tail = "plannerRemainingTail (plObserved p) t"
  define p1 where "p1 = (if TrimSpace ?tail \<noteq> [] then p\<lparr>plObserved := plObserved p @ ?tail, plPending := plPending p @ ?tail\<rparr> else p)"
  obtain ds q where d: "drainClauses True p1 = (ds, q)" by fastforce
  note f = drainClauses_flush [OF d] and s = drainClauses_spec [OF d]
  have eq: "cs = ds" "p' = q\<lparr>plPending := []\<rparr>"
    using assms d f by (auto simp: FinalizeTextClauses_def Let_def simp flip: p1_def)
  have t: "squeeze (plPending p1) = squeeze (plPending p) @ squeeze ?tail" and i: "plNextClauseIndex p1 = plNextClauseIndex p"
    using squeeze_eq_Nil [of ?tail] by (simp_all add: p1_def)
  have "cs \<noteq> [] \<longrightarrow> TrimSpace (plPending p1) \<noteq> []"
    using d eq(1) by (auto simp: drainClauses_def)
  then show ?thesis using f s t i unfolding eq by auto
qed

lemma unmatchedTail_prefix: "unmatchedTail xs (xs @ ys) = ys"
  by (induction xs) simp_all

lemma unmatchedTail_split: "x \<noteq> y \<Longrightarrow> unmatchedTail (as @ x # xs) (as @ y # ys) = y # ys"
  by (induction as) simp_all

lemma remainingTail_prefix:
  "prefix observed final \<Longrightarrow> squeeze observed @ squeeze (plannerRemainingTail observed final) = squeeze final"
  by (auto simp: plannerRemainingTail_def prefix_def unmatchedTail_prefix simp flip: squeeze_eq_Nil)

text \<open>Every clause of a run, whatever is streamed.\<close>

lemma plan_speech_spec:
  shows "clauses_text (plan_speech cfg deltas final) = squeeze (concat deltas) @
      squeeze (plannerRemainingTail (concat (filter (\<lambda>t. TrimSpace t \<noteq> []) deltas)) final)"
    and "map clIndex (plan_speech cfg deltas final) = [0..int (length (plan_speech cfg deltas final)) - 1]"
    and "c \<in> set (plan_speech cfg deltas final) \<Longrightarrow> clause_ok True c \<or> clause_ok False c"
proof -
  obtain cs p where o: "observe_all deltas (NewSpeechPlanner cfg) = (cs, p)" by fastforce
  obtain ds q where f: "FinalizeTextClauses final p = (ds, q)" by fastforce
  note O = observe_all_spec [OF o] and F = Finalize_spec [OF f]
  have pl: "plan_speech cfg deltas final = cs @ ds" by (simp add: plan_speech_def o f)
  have z: "plPending (NewSpeechPlanner cfg) = []" "plObserved (NewSpeechPlanner cfg) = []" "plNextClauseIndex (NewSpeechPlanner cfg) = 0"
    by (simp_all add: NewSpeechPlanner_def)
  have "clauses_text cs @ squeeze (plPending p) = squeeze (concat deltas)" using O z by simp
  then show "clauses_text (plan_speech cfg deltas final) = squeeze (concat deltas) @
      squeeze (plannerRemainingTail (concat (filter (\<lambda>t. TrimSpace t \<noteq> []) deltas)) final)"
    using O F z unfolding pl by (simp flip: append_assoc)
  have n: "plNextClauseIndex p = int (length cs)"
  proof -
    have "map clIndex cs = [0..plNextClauseIndex p - 1]" and "0 \<le> plNextClauseIndex p" using O z by simp_all
    then show ?thesis by (metis length_map length_upto diff_add_cancel diff_zero nat_0_le)
  qed
  show "map clIndex (plan_speech cfg deltas final) = [0..int (length (plan_speech cfg deltas final)) - 1]"
    using O F z n unfolding pl by (simp add: upto_append)
  show "c \<in> set (plan_speech cfg deltas final) \<Longrightarrow> clause_ok True c \<or> clause_ok False c"
    using O F unfolding pl by auto
qed


lemma scan_plain:
  "\<forall>r \<in> set rs. \<not> isStrongSpeechBoundary r \<and> \<not> isSoftSpeechBoundary r \<and> \<not> is_space r \<Longrightarrow> scanBoundaries m rs i acc = acc"
  by (induction rs arbitrary: i) simp_all

lemma estimate_fold: "fold (\<lambda>r d. d + runePause r) rs d = d + sum_list (map runePause rs)"
  by (induction rs arbitrary: d) simp_all

lemma estimate_lower: "int (length (TrimSpace t)) * 110 * Millisecond \<le> estimatePlannedSpeechDuration t"
proof -
  have "0 \<le> sum_list (map runePause rs)" for rs by (induction rs) (simp_all add: runePause_def)
  then show ?thesis by (simp add: estimatePlannedSpeechDuration_def Let_def estimate_fold)
qed

section \<open>Properties\<close>

lemma unmatchedTail_lcp: "unmatchedTail xs ys = drop (length (longest_common_prefix xs ys)) ys"
  by (induction xs ys rule: unmatchedTail.induct) auto

lemma blank_squeeze: "TrimSpace t = [] \<Longrightarrow> squeeze (drop n t) = []"
  using set_drop_subset [of n t] by (auto simp: TrimSpace_eq_Nil squeeze_eq_Nil)

lemma squeeze_remaining:
  "squeeze (plannerRemainingTail observed final) = squeeze (drop (length (longest_common_prefix observed final)) final)"
  by (simp add: plannerRemainingTail_def unmatchedTail_lcp blank_squeeze)

lemma length_lcp: "length (longest_common_prefix xs ys) \<le> length xs"
  by (induction xs ys rule: longest_common_prefix.induct) auto

lemma length_nonblank: "length (concat (filter P ts)) \<le> length (concat ts)"
  by (induction ts) auto

text \<open>What the planner records of the streamed text: a delta of pure white space is not recorded.\<close>

definition recorded :: "gostring list \<Rightarrow> gostring" where
  "recorded deltas = concat (filter (\<lambda>t. TrimSpace t \<noteq> []) deltas)"

lemma recorded_all: "\<forall>d \<in> set deltas. TrimSpace d = [] \<longrightarrow> d = [] \<Longrightarrow> recorded deltas = concat deltas"
  by (induction deltas) (auto simp: recorded_def)



text \<open>
  C40: the clauses of every run are well formed: numbered 0, 1, 2, \<dots> without gaps over all deltas and
  the final text, never blank, without surrounding space, and with an estimated duration of at least
  110 ms per rune.
\<close>
theorem planner_clauses_well_formed:
  "map clIndex (plan_speech cfg deltas final) = [0..int (length (plan_speech cfg deltas final)) - 1] \<and>
   (\<forall>c \<in> set (plan_speech cfg deltas final). clText c \<noteq> [] \<and> trimmed (clText c) \<and>
      int (length (clText c)) * 110 * Millisecond \<le> clEstimatedDuration c)"
  using plan_speech_spec(2) [of cfg deltas final] plan_speech_spec(3) [of _ cfg deltas final] estimate_lower
  by (auto simp: clause_ok_def) (metis trimmed_id)+

theorem planner_clauses_well_formed_witness:
  "map clIndex (plan_speech \<lparr>plEnabled = True, plMinChunkRunes = 2, plTargetChunkRunes = 4\<rparr> [lit ''a, b. c''] (lit ''a, b. c'')) =
   [0..int (length (plan_speech \<lparr>plEnabled = True, plMinChunkRunes = 2, plTargetChunkRunes = 4\<rparr> [lit ''a, b. c''] (lit ''a, b. c''))) - 1]"
  using planner_clauses_well_formed by blast

text \<open>
  finalising empties the planner and marks the end once. \<open>FinalizeTextClauses\<close> emits everything
  still pending together with the unseen tail of the final text, leaves nothing pending, and of its
  clauses exactly the last one is a final flush, that is the last segment of the playback.
\<close>
theorem finalize_marks_last_segment:
  assumes "FinalizeTextClauses t p = (cs, p')"
  shows "plPending p' = [] \<and>
    clauses_text cs = squeeze (plPending p) @ squeeze (plannerRemainingTail (plObserved p) t) \<and>
    (cs \<noteq> [] \<longrightarrow> segIsLastSegment (playbackSegmentForClause (last cs))) \<and>
    (\<forall>c \<in> set (butlast cs). \<not> segIsLastSegment (playbackSegmentForClause c))"
  using Finalize_spec [OF assms] by (simp add: playbackSegmentForClause_def)

theorem finalize_marks_last_segment_witness:
  "plPending (snd (FinalizeTextClauses (lit ''Yes. No.'') (NewSpeechPlanner \<lparr>plEnabled = True, plMinChunkRunes = 2, plTargetChunkRunes = 4\<rparr>))) = []"
  using finalize_marks_last_segment [OF prod.collapse [symmetric]] by blast

text \<open>
  Cuts make progress. On non-empty text the boundary lies within the text; it is positive as soon
  as the target length is reached or the text is final, so a clause is started then.
\<close>
theorem planner_cut_progress:
  assumes "cfg = NormalizeSpeechPlannerConfig cfg0" and "runes \<noteq> []"
  shows "0 \<le> plannedSpeechBoundary runes cfg flush \<and> plannedSpeechBoundary runes cfg flush \<le> int (length runes) \<and>
    (flush \<or> plTargetChunkRunes cfg \<le> int (length runes) \<longrightarrow> 0 < plannedSpeechBoundary runes cfg flush)"
  using boundary_bounds [OF normalized_planner, where runes = runes and flush = flush] assms by blast

theorem planner_cut_progress_witness:
  "0 < plannedSpeechBoundary (lit ''no punctuation at all in here'')
     (NormalizeSpeechPlannerConfig \<lparr>plEnabled = True, plMinChunkRunes = 0, plTargetChunkRunes = 0\<rparr>) True"
  using planner_cut_progress [OF refl, of "lit ''no punctuation at all in here''"] by simp

text \<open>
  a white-space delta makes the planner repeat itself. Such a delta is not recorded as observed, so
  when the model streams a text, a space and another word, the final text no longer matches at the
  space and the last word is spoken a second time.
\<close>
theorem whitespace_delta_respoken:
  assumes "TrimSpace a \<noteq> []" and "TrimSpace ws = []" and "ws \<noteq> []" and "b \<noteq> []" and "\<not> is_space (hd b)"
  shows "clauses_text (plan_speech cfg [a, ws, b] (a @ ws @ b)) = squeeze a @ squeeze b @ squeeze b"
proof -
  obtain w ws' x xs where e: "ws = w # ws'" "b = x # xs" using assms(3,4) by (meson list.exhaust)
  have wx: "is_space w" "\<not> is_space x" using assms(2,5) e by (auto simp: TrimSpace_eq_Nil)
  then have "TrimSpace b \<noteq> []" using e by (auto simp: TrimSpace_eq_Nil)
  moreover have "unmatchedTail (a @ b) (a @ ws @ b) = ws @ b"
    using unmatchedTail_split [of x w a xs "ws' @ b"] wx e by auto
  moreover have "TrimSpace (a @ ws @ b) \<noteq> []" using assms(1) by (auto simp: TrimSpace_eq_Nil)
  moreover have "squeeze ws = []" using assms(2) by (simp add: squeeze_eq_Nil)
  ultimately show ?thesis using assms(1,2,4) by (simp add: plan_speech_spec plannerRemainingTail_def)
qed

theorem whitespace_delta_respoken_witness:
  "clauses_text (plan_speech \<lparr>plEnabled = True, plMinChunkRunes = 0, plTargetChunkRunes = 0\<rparr>
     [lit ''Hello'', lit '' '', lit ''world''] (lit ''Hello'' @ lit '' '' @ lit ''world'')) =
   squeeze (lit ''Hello'') @ squeeze (lit ''world'') @ squeeze (lit ''world'')"
  by (rule whitespace_delta_respoken; code_simp)

text \<open>
  A clause can be marked as the last segment before the answer ends. When the streamed text reaches
  the target length without punctuation or space, the forced cut takes all of it, and the clause is
  classified as a final flush although the text is not final.
\<close>
theorem premature_last_segment:
  assumes "\<forall>r \<in> set t. \<not> isStrongSpeechBoundary r \<and> \<not> isSoftSpeechBoundary r \<and> \<not> is_space r"
    and "int (length t) = plTargetChunkRunes (NormalizeSpeechPlannerConfig cfg)"
  shows "\<exists>c. fst (ObserveTextDeltaClauses t (NewSpeechPlanner cfg)) = [c] \<and> clText c = t \<and>
    clCanStartBeforeFinalized c \<and> segIsLastSegment (playbackSegmentForClause c)"
proof -
  let ?n = "NormalizeSpeechPlannerConfig cfg"
  have nn: "NormalizeSpeechPlannerConfig ?n = ?n"
    by (simp add: NormalizeSpeechPlannerConfig_def Let_def defaultSpeechPlannerMinChunkRunes_def
        defaultSpeechPlannerTargetChunkRunes_def)
  have pos: "0 < plMinChunkRunes ?n" "plMinChunkRunes ?n \<le> plTargetChunkRunes ?n" by (rule normalized_planner)+
  then have ne: "t \<noteq> []" using assms(2) by auto
  have tr: "TrimSpace t = t" using assms(1) ne by (intro trimmed_id) (auto simp: trimmed_def)
  have b: "plannedSpeechBoundary t ?n False = int (length t)"
    using pos ne assms(2) by (simp add: plannedSpeechBoundary_def Let_def scan_plain [OF assms(1)])
  have l: "\<not> isStrongSpeechBoundary (runeAtEnd t)" "\<not> isSoftSpeechBoundary (runeAtEnd t)"
    using assms(1) ne by (simp_all add: runeAtEnd_def)
  have "nextPlannedSpeechClause t ?n False True 0 = ((classifyPlannedSpeechClause t FinalFlush True)\<lparr>clIndex := 0\<rparr>, [])"
    using ne l by (simp add: nextPlannedSpeechClause_def nextPlannedSpeechSegment_def tr nn b Let_def
        trim_left_def classifySpeechClauseBoundary_def)
  then have "drainLoop ?n False t 0 = ([(classifyPlannedSpeechClause t FinalFlush True)\<lparr>clIndex := 0\<rparr>], [], 1)"
    using ne tr by (simp add: drainLoop.simps [of ?n False t] classifyPlannedSpeechClause_def Let_def)
  then show ?thesis using ne tr
    by (simp add: ObserveTextDeltaClauses_def NewSpeechPlanner_def drainClauses_def classifyPlannedSpeechClause_def
        playbackSegmentForClause_def Let_def)
qed

theorem premature_last_segment_witness:
  "\<exists>c. fst (ObserveTextDeltaClauses (lit ''abcdefghijklmnopqrstuvwx'')
      (NewSpeechPlanner \<lparr>plEnabled = True, plMinChunkRunes = 0, plTargetChunkRunes = 0\<rparr>)) = [c] \<and>
    clText c = lit ''abcdefghijklmnopqrstuvwx'' \<and> clCanStartBeforeFinalized c \<and> segIsLastSegment (playbackSegmentForClause c)"
  by (rule premature_last_segment; code_simp)

end
