(* ===== verification/Audio_Stream.thy ===== *)
theory Audio_Stream
  imports Pcm_Audio
begin

text \<open>
  Audio streams and speech synthesis: \<open>internal/voice/audio_stream.go\<close> and
  \<open>internal/voice/synthesis_audio.go\<close>. The interface AudioStream is a datatype with the two streams of this
  package and \<open>ExternalStream\<close>, the stream of a speech service, given by the answers its Next returns in turn
  (then io.EOF). A synthesiser is a parameter: a record of the functions the interface has.
\<close>

section \<open>Streams\<close>

datatype audio_error = EOF | Canceled | StreamError gostring

datatype AudioStream =
    StaticStream "byte list list" nat
  | FallbackStream "byte list" "AudioStream option"
  | ExternalStream "(audio_error + byte list) list"

definition NewStaticAudioStream :: "byte list list \<Rightarrow> AudioStream" where
  "NewStaticAudioStream chunks = StaticStream chunks 0"

fun streamNext :: "AudioStream \<Rightarrow> (audio_error + byte list) \<times> AudioStream" where
  "streamNext (StaticStream chunks index) =
     (if index \<ge> length chunks then (Inl EOF, StaticStream chunks index)
      else (Inr (chunks ! index), StaticStream chunks (index + 1)))"
| "streamNext (FallbackStream firstChunk rest) =
     (if firstChunk \<noteq> [] then (Inr firstChunk, FallbackStream [] rest)
      else case rest of
          None \<Rightarrow> (Inl EOF, FallbackStream firstChunk None)
        | Some s \<Rightarrow> (case streamNext s of (r, s') \<Rightarrow> (r, FallbackStream firstChunk (Some s'))))"
| "streamNext (ExternalStream answers) =
     (case answers of [] \<Rightarrow> (Inl EOF, ExternalStream []) | a # as \<Rightarrow> (a, ExternalStream as))"

definition staticPlaybackDuration :: "byte list list \<Rightarrow> duration \<Rightarrow> duration" where
  "staticPlaybackDuration chunks frameDuration =
     (if frameDuration \<le> 0 then 0 else int (length chunks) * frameDuration)"

text \<open>The number of chunks and errors a stream still has before it answers io.EOF for ever.\<close>

fun streamRest :: "AudioStream \<Rightarrow> nat" where
  "streamRest (StaticStream chunks index) = length chunks - index"
| "streamRest (FallbackStream firstChunk rest) =
     (if firstChunk \<noteq> [] then 1 else 0) + (case rest of None \<Rightarrow> 0 | Some s \<Rightarrow> streamRest s)"
| "streamRest (ExternalStream answers) = length answers"

lemma streamNext_rest: "streamNext s = (r, s') \<Longrightarrow> r \<noteq> Inl EOF \<Longrightarrow> streamRest s' < streamRest s"
  by (induction s arbitrary: r s' rule: streamNext.induct)
    (auto split: if_splits option.splits list.splits prod.splits)

section \<open>Reading a stream\<close>

function collectLoop :: "byte list \<Rightarrow> AudioStream \<Rightarrow> audio_error + byte list" where
  "collectLoop collected stream =
     (case streamNext stream of
        (Inl e, _) \<Rightarrow> if e = EOF then Inr collected else Inl e
      | (Inr chunk, stream') \<Rightarrow> collectLoop (collected @ chunk) stream')"
  by pat_completeness auto
termination
  by (relation "measure (\<lambda>(c, s). streamRest s)") (auto dest!: streamNext_rest [OF sym])

declare collectLoop.simps [simp del]

definition collectAudioStream :: "AudioStream \<Rightarrow> audio_error + byte list" where
  "collectAudioStream stream = collectLoop [] stream"

function nextNonEmptyChunk :: "AudioStream \<Rightarrow> (audio_error + byte list) \<times> AudioStream" where
  "nextNonEmptyChunk stream =
     (case streamNext stream of
        (Inl e, stream') \<Rightarrow> (Inl e, stream')
      | (Inr chunk, stream') \<Rightarrow> if chunk = [] then nextNonEmptyChunk stream' else (Inr chunk, stream'))"
  by pat_completeness auto
termination
  by (relation "measure streamRest") (auto dest!: streamNext_rest [OF sym])

declare nextNonEmptyChunk.simps [simp del]

section \<open>Synthesis\<close>

record SynthesisRequest =
  syrSessionID :: gostring
  syrTurnID :: gostring
  syrTraceID :: gostring
  syrDeviceID :: gostring
  syrUserText :: gostring
  syrText :: gostring

record SynthesisResult =
  sysAudioPCM :: "byte list"
  sysSampleRateHz :: int
  sysChannels :: int

text \<open>A Synthesizer; \<open>synStream\<close> is None when it is not a StreamingSynthesizer.\<close>

record Synthesizer =
  synSynthesize :: "SynthesisRequest \<Rightarrow> audio_error + SynthesisResult"
  synStream :: "(SynthesisRequest \<Rightarrow> audio_error + AudioStream option) option"

definition bufferedSynthesisAudio :: "Synthesizer \<Rightarrow> SynthesisRequest \<Rightarrow> AudioStream option" where
  "bufferedSynthesisAudio synthesizer req =
     (case synSynthesize synthesizer req of
        Inl _ \<Rightarrow> None
      | Inr result \<Rightarrow>
          if sysAudioPCM result = [] then None
          else Some (NewStaticAudioStream (chunkPCM16 (sysAudioPCM result) (sysSampleRateHz result) (sysChannels result) 20)))"

definition prepareStreamingAudio :: "AudioStream \<Rightarrow> Synthesizer \<Rightarrow> SynthesisRequest \<Rightarrow> AudioStream option" where
  "prepareStreamingAudio stream synthesizer req =
     (case nextNonEmptyChunk stream of
        (Inr firstChunk, rest) \<Rightarrow> Some (FallbackStream firstChunk (Some rest))
      | (Inl e, _) \<Rightarrow> if e = Canceled then None else bufferedSynthesisAudio synthesizer req)"

definition synthesizedAudioStream :: "Synthesizer option \<Rightarrow> SynthesisRequest \<Rightarrow> AudioStream option" where
  "synthesizedAudioStream synthesizer req =
     (case synthesizer of
        None \<Rightarrow> None
      | Some syn \<Rightarrow>
          (case synStream syn of
             Some streaming \<Rightarrow>
               (case streaming req of
                  Inr (Some stream) \<Rightarrow>
                    (case prepareStreamingAudio stream syn req of
                       Some prepared \<Rightarrow> Some prepared
                     | None \<Rightarrow> bufferedSynthesisAudio syn req)
                | _ \<Rightarrow> bufferedSynthesisAudio syn req)
           | None \<Rightarrow> bufferedSynthesisAudio syn req))"

section \<open>Lemmas\<close>

text \<open>The bytes a stream still delivers when nothing fails, and whether something fails.\<close>

fun remaining :: "AudioStream \<Rightarrow> byte list" where
  "remaining (StaticStream chunks index) = concat (drop index chunks)"
| "remaining (FallbackStream firstChunk rest) = firstChunk @ (case rest of None \<Rightarrow> [] | Some s \<Rightarrow> remaining s)"
| "remaining (ExternalStream answers) = concat (map projr answers)"

fun sound :: "AudioStream \<Rightarrow> bool" where
  "sound (StaticStream chunks index) = True"
| "sound (FallbackStream firstChunk rest) = (case rest of None \<Rightarrow> True | Some s \<Rightarrow> sound s)"
| "sound (ExternalStream answers) = list_all (\<lambda>a. \<not> isl a) answers"

lemma streamNext_chunk: "streamNext s = (Inr c, s') \<Longrightarrow> sound s \<Longrightarrow> sound s' \<and> remaining s = c @ remaining s'"
proof (induction s arbitrary: c s' rule: streamNext.induct)
  case (1 chunks i)
  then show ?case by (auto split: if_splits simp: Cons_nth_drop_Suc [symmetric])
qed (auto split: if_splits option.splits list.splits prod.splits)

lemma streamNext_end: "streamNext s = (Inl e, s') \<Longrightarrow> sound s \<Longrightarrow> e = EOF \<and> remaining s = []"
  by (induction s arbitrary: e s' rule: streamNext.induct)
    (auto split: if_splits option.splits list.splits prod.splits)

lemma collectLoop_sound: "sound s \<Longrightarrow> collectLoop acc s = Inr (acc @ remaining s)"
proof (induction acc s rule: collectLoop.induct)
  case (1 acc s)
  show ?case
  proof (cases "streamNext s")
    case (Pair r s')
    then show ?thesis using 1 streamNext_end [of s _ s'] streamNext_chunk [of s _ s']
      by (cases r) (auto simp: collectLoop.simps [of acc s])
  qed
qed

lemma collectAudioStream_sound: "sound s \<Longrightarrow> collectAudioStream s = Inr (remaining s)"
  by (simp add: collectAudioStream_def collectLoop_sound)

lemma nextNonEmptyChunk_sound:
  "sound s \<Longrightarrow> (remaining s = [] \<longrightarrow> fst (nextNonEmptyChunk s) = Inl EOF) \<and>
     (remaining s \<noteq> [] \<longrightarrow> (\<exists>c s'. nextNonEmptyChunk s = (Inr c, s') \<and> c \<noteq> [] \<and> sound s' \<and> remaining s = c @ remaining s'))"
proof (induction s rule: nextNonEmptyChunk.induct)
  case (1 s)
  show ?case
  proof (cases "streamNext s")
    case (Pair r s')
    then show ?thesis using 1 streamNext_end [of s _ s'] streamNext_chunk [of s _ s']
      by (cases r) (auto simp: nextNonEmptyChunk.simps [of s])
  qed
qed

lemma buffered_sound: "bufferedSynthesisAudio syn req = Some s \<Longrightarrow> sound s"
  by (auto simp: bufferedSynthesisAudio_def NewStaticAudioStream_def split: sum.splits if_splits)

lemma buffered_complete:
  assumes "synSynthesize syn req = Inr r" and "sysAudioPCM r \<noteq> []" and "50 \<le> sysSampleRateHz r" and "0 < sysChannels r"
  shows "\<exists>s. bufferedSynthesisAudio syn req = Some s \<and> sound s \<and> remaining s = sysAudioPCM r"
  using assms chunkPCM16_frames(1) [OF assms(2,3,4)]
  by (simp add: bufferedSynthesisAudio_def NewStaticAudioStream_def)

lemma prepare_complete:
  assumes "sound st" and "remaining st \<noteq> []"
  shows "\<exists>s. prepareStreamingAudio st syn req = Some s \<and> sound s \<and> remaining s = remaining st"
  using nextNonEmptyChunk_sound [OF assms(1)] assms(2) by (auto simp: prepareStreamingAudio_def)

section \<open>Properties\<close>

text \<open>
  speech is synthesised completely, by streaming or by the fallback. If the streaming service delivers
  audio without an error, reading the prepared stream to its end returns exactly that audio, with the chunk
  that was read ahead in its place. If there is no streaming, or it ends or fails before its first byte, the
  buffered result is played out completely in frames. The second clause holds for every failure: the early
  return of prepareStreamingAudio on cancellation does not keep its caller from asking for the buffered result.
\<close>
theorem synthesis_complete:
  assumes "synSynthesize syn req = Inr r" and "sysAudioPCM r \<noteq> []" and "50 \<le> sysSampleRateHz r" and "0 < sysChannels r"
  shows "case synStream syn of
      None \<Rightarrow> \<exists>s. synthesizedAudioStream (Some syn) req = Some s \<and> collectAudioStream s = Inr (sysAudioPCM r)
    | Some streaming \<Rightarrow>
        (case streaming req of
           Inr (Some st) \<Rightarrow>
             (sound st \<and> remaining st \<noteq> [] \<longrightarrow>
                (\<exists>s. synthesizedAudioStream (Some syn) req = Some s \<and> collectAudioStream s = Inr (remaining st))) \<and>
             (\<forall>e. fst (nextNonEmptyChunk st) = Inl e \<longrightarrow>
                (\<exists>s. synthesizedAudioStream (Some syn) req = Some s \<and> collectAudioStream s = Inr (sysAudioPCM r)))
         | _ \<Rightarrow> \<exists>s. synthesizedAudioStream (Some syn) req = Some s \<and> collectAudioStream s = Inr (sysAudioPCM r))"
proof -
  from buffered_complete [OF assms] obtain b where b: "bufferedSynthesisAudio syn req = Some b" "collectAudioStream b = Inr (sysAudioPCM r)"
    using collectAudioStream_sound by metis
  have stream: "\<exists>s. synthesizedAudioStream (Some syn) req = Some s \<and> collectAudioStream s = Inr (remaining st)"
    if "synStream syn = Some streaming" "streaming req = Inr (Some st)" "sound st" "remaining st \<noteq> []" for streaming st
    using prepare_complete [OF that(3,4), of syn req] that collectAudioStream_sound
    by (fastforce simp: synthesizedAudioStream_def)
  have failed: "synthesizedAudioStream (Some syn) req = Some b"
    if "synStream syn = Some streaming" "streaming req = Inr (Some st)" "fst (nextNonEmptyChunk st) = Inl e" for streaming st e
    using that b by (cases "nextNonEmptyChunk st") (auto simp: synthesizedAudioStream_def prepareStreamingAudio_def split: option.split)
  show ?thesis using stream failed b by (auto simp: synthesizedAudioStream_def split: option.split sum.split)
qed


theorem synthesis_complete_witness:
  "let r = \<lparr>sysAudioPCM = [1, 2], sysSampleRateHz = 16000, sysChannels = 1\<rparr>; st = ExternalStream [Inr [], Inr [7], Inr [8, 9]];
       syn = \<lparr>synSynthesize = (\<lambda>_. Inr r), synStream = Some (\<lambda>_. Inr (Some st))\<rparr>;
       req = \<lparr>syrSessionID = [], syrTurnID = [], syrTraceID = [], syrDeviceID = [], syrUserText = [], syrText = lit ''hi''\<rparr>
   in \<exists>s. synthesizedAudioStream (Some syn) req = Some s \<and> collectAudioStream s = Inr [7, 8, 9]"
proof -
  let ?r = "\<lparr>sysAudioPCM = [1, 2], sysSampleRateHz = 16000, sysChannels = 1\<rparr>"
  let ?st = "ExternalStream [Inr [], Inr [7], Inr [8, 9]]"
  let ?syn = "\<lparr>synSynthesize = (\<lambda>_. Inr ?r), synStream = Some (\<lambda>_. Inr (Some ?st))\<rparr>"
  let ?req = "\<lparr>syrSessionID = [], syrTurnID = [], syrTraceID = [], syrDeviceID = [], syrUserText = [], syrText = lit ''hi''\<rparr>"
  from synthesis_complete [of ?syn ?req ?r] show ?thesis by (simp add: Let_def)
qed

end
