(* ===== verification/Speech_Synthesis.thy ===== *)
theory Speech_Synthesis
  imports Speech_Planner Audio_Stream
begin

text \<open>
  The concurrent half of \<open>internal/voice/speech_planner.go\<close>: the turn's goroutine plans clauses and sends
  them into a channel of four, a worker goroutine synthesises them and sends the streams into a channel of
  one, and the playing goroutine reads the queued stream. Goroutines meet only at channels, the cancelled
  context and closed channels, so that each goroutine is a program counter and the pipeline a step function:
  an action names who moves, and \<open>None\<close> says that it is blocked. Every interleaving is a run. NextSegment is
  \<open>BeginSegment\<close>, followed by \<open>LoadNext\<close> or \<open>ReadEnd\<close> when no stream is current; Next is \<open>ReadChunk\<close>, and \<open>LoadNext\<close> or
  \<open>ReadEnd\<close> when no stream is current. A reader whose own context ends changes nothing. The stream reaches its player in one of
  two ways: as early audio, when WaitAudioStart has answered (\<open>TakeEarly\<close>), or with the finished response, after
  Finalize has returned it (\<open>TakeFinal\<close>). Before that nobody reads it.
\<close>

section \<open>Data\<close>

definition defaultSpeechPlannerQueueSize :: nat where "defaultSpeechPlannerQueueSize = 4"
definition resultsSize :: nat where "resultsSize = 1"

datatype ResponseDeltaKind = ResponseDeltaText | ResponseDeltaToolCall | ResponseDeltaToolResult

text \<open>Where the turn's goroutine is: between calls, in the loop over clauses of ObserveDelta or of Finalize
  (flag), at the select of enqueueClause, or past Finalize or Close.\<close>

datatype producer = Between | Enqueueing bool "PlannedSpeechClause list"
  | Sending bool PlannedSpeechClause "PlannedSpeechClause list" | Returned

text \<open>Where the worker is: at its first select, at its second select with a stream, or returned.\<close>

datatype worker = Receiving | Delivering AudioStream PlaybackSegment | Exited

record queuedSpeechAudioStream =
  qsResults :: "(AudioStream \<times> PlaybackSegment) list"
  qsResultsClosed :: bool
  qsCurrent :: "AudioStream option"
  qsPlanned :: duration
  qsSegmented :: bool
  qsCloseOnce :: bool

record plannedSpeechSynthesis =
  psQueue :: "PlannedSpeechClause list"
  psQueueClosed :: bool
  psStream :: queuedSpeechAudioStream
  psCancelled :: bool
  psPlanner :: SpeechPlanner
  psBaseReq :: SynthesisRequest
  psSynthesizer :: Synthesizer
  psEnqueued :: bool
  psStartReady :: bool
  psStartText :: gostring
  psStarted :: bool
  psProducer :: producer
  psWorker :: worker
  psTaken :: bool

section \<open>Operations\<close>

definition newQueuedSpeechAudioStream :: queuedSpeechAudioStream where
  "newQueuedSpeechAudioStream = \<lparr>qsResults = [], qsResultsClosed = False, qsCurrent = None, qsPlanned = 0,
     qsSegmented = False, qsCloseOnce = False\<rparr>"

definition newPlannedSpeechSynthesis ::
    "Synthesizer option \<Rightarrow> SynthesisRequest \<Rightarrow> SpeechPlannerConfig \<Rightarrow> plannedSpeechSynthesis option" where
  "newPlannedSpeechSynthesis synthesizer req cfg =
     (case synthesizer of
        None \<Rightarrow> None
      | Some syn \<Rightarrow>
          if \<not> plEnabled (NormalizeSpeechPlannerConfig cfg) then None
          else Some \<lparr>psQueue = [], psQueueClosed = False, psStream = newQueuedSpeechAudioStream, psCancelled = False,
            psPlanner = NewSpeechPlanner (NormalizeSpeechPlannerConfig cfg), psBaseReq = req, psSynthesizer = syn,
            psEnqueued = False, psStartReady = False, psStartText = [], psStarted = False,
            psProducer = Between, psWorker = Receiving, psTaken = False\<rparr>)"

definition synthesizedPlannedClauseStream :: "Synthesizer option \<Rightarrow> SynthesisRequest \<Rightarrow> PlannedSpeechClause \<Rightarrow> AudioStream option" where
  "synthesizedPlannedClauseStream synthesizer baseReq clause =
     (if synthesizer = None then None else synthesizedAudioStream synthesizer (baseReq\<lparr>syrText := clText clause\<rparr>))"

definition addPlannedClause :: "PlannedSpeechClause \<Rightarrow> queuedSpeechAudioStream \<Rightarrow> queuedSpeechAudioStream" where
  "addPlannedClause clause s =
     (if TrimSpace (clText clause) = [] then s
      else s\<lparr>qsPlanned := qsPlanned s + (if clEstimatedDuration clause \<le> 0 then estimateClausePlaybackDuration clause
                                           else clEstimatedDuration clause)\<rparr>)"

definition resolveStart :: "gostring \<Rightarrow> plannedSpeechSynthesis \<Rightarrow> plannedSpeechSynthesis" where
  "resolveStart t p =
     (if psStartReady p then p
      else p\<lparr>psStartReady := True, psStartText := TrimSpace t, psStarted := (TrimSpace t \<noteq> [])\<rparr>)"

definition closeQueue :: "plannedSpeechSynthesis \<Rightarrow> plannedSpeechSynthesis" where
  "closeQueue p = p\<lparr>psQueueClosed := True\<rparr>"

text \<open>Close of the stream cancels the worker's context and drains what is in the channel at that moment.\<close>

definition closeStream :: "plannedSpeechSynthesis \<Rightarrow> plannedSpeechSynthesis" where
  "closeStream p =
     (if qsCloseOnce (psStream p) then p
      else p\<lparr>psCancelled := True, psStream := (psStream p)\<lparr>qsCloseOnce := True, qsCurrent := None, qsResults := []\<rparr>\<rparr>)"

text \<open>enqueueClause up to its select.\<close>

definition preparedClause :: "PlannedSpeechClause \<Rightarrow> PlannedSpeechClause" where
  "preparedClause clause =
     (let c = clause\<lparr>clText := TrimSpace (clText clause)\<rparr>
      in if clEstimatedDuration c \<le> 0 then c\<lparr>clEstimatedDuration := estimateClausePlaybackDuration c\<rparr> else c)"

definition enqueueClause :: "bool \<Rightarrow> PlannedSpeechClause \<Rightarrow> PlannedSpeechClause list \<Rightarrow> plannedSpeechSynthesis \<Rightarrow> plannedSpeechSynthesis" where
  "enqueueClause final clause rest p =
     (if TrimSpace (clText clause) = [] then p\<lparr>psProducer := Enqueueing final rest\<rparr>
      else let c = preparedClause clause
           in (resolveStart (clText c) (p\<lparr>psEnqueued := True, psStream := addPlannedClause c (psStream p)\<rparr>))
                \<lparr>psProducer := Sending final c rest\<rparr>)"

text \<open>ObserveDelta and Finalize plan their clauses first and then send them one by one.\<close>

definition observeDelta :: "ResponseDeltaKind \<Rightarrow> gostring \<Rightarrow> plannedSpeechSynthesis \<Rightarrow> plannedSpeechSynthesis" where
  "observeDelta kind t p =
     (if kind \<noteq> ResponseDeltaText then p
      else let (cs, pl) = ObserveTextDeltaClauses t (psPlanner p) in p\<lparr>psPlanner := pl, psProducer := Enqueueing False cs\<rparr>)"

definition startFinalize :: "gostring \<Rightarrow> plannedSpeechSynthesis \<Rightarrow> plannedSpeechSynthesis" where
  "startFinalize t p = (let (cs, pl) = FinalizeTextClauses t (psPlanner p) in p\<lparr>psPlanner := pl, psProducer := Enqueueing True cs\<rparr>)"

definition finishFinalize :: "plannedSpeechSynthesis \<Rightarrow> plannedSpeechSynthesis" where
  "finishFinalize p =
     (let q = closeQueue p
      in (if \<not> psEnqueued q then closeStream (resolveStart [] q) else q)\<lparr>psProducer := Returned\<rparr>)"

definition closeSynthesis :: "plannedSpeechSynthesis \<Rightarrow> plannedSpeechSynthesis" where
  "closeSynthesis p = (closeStream (resolveStart [] (closeQueue p)))\<lparr>psProducer := Returned\<rparr>"

text \<open>The answer of WaitAudioStart once the start is resolved: the text of a started playback.\<close>

definition WaitAudioStart :: "plannedSpeechSynthesis \<Rightarrow> gostring option option" where
  "WaitAudioStart p = (if \<not> psStartReady p then None else Some (if psStarted p then Some (psStartText p) else None))"

definition PlaybackDuration :: "plannedSpeechSynthesis \<Rightarrow> duration" where
  "PlaybackDuration p = qsPlanned (psStream p)"

section \<open>Steps\<close>

datatype pipeline_action =
    ObserveDelta ResponseDeltaKind gostring | Finalize gostring | CloseSynthesis | EnqueueNext | SendClause | GiveUpSend | LoopEnd
  | WorkerCancelled | WorkerReceive | WorkerQueueClosed | WorkerDeliver | WorkerGiveUp
  | TakeEarly | TakeFinal | ReadChunk | BeginSegment | LoadNext | ReadEnd | CloseStream | CancelContext

text \<open>What happened: a delta or the final text arrived, a clause was planned, a stream was loaded, a chunk or an error was returned to the player,
  Next answered io.EOF at the end of a segment, or the closed channel was seen.\<close>

datatype pipeline_event = Streamed gostring | Final gostring | Planned PlannedSpeechClause
  | Loaded AudioStream PlaybackSegment | Chunk "byte list" | ReadError audio_error | SegmentEnd | StreamEnd

text \<open>One iteration of the loop of Next on the current stream.\<close>

definition readCurrent :: "AudioStream \<Rightarrow> plannedSpeechSynthesis \<Rightarrow> pipeline_event list \<times> plannedSpeechSynthesis" where
  "readCurrent s p =
     (case streamNext s of
        (Inr chunk, s') \<Rightarrow> ([Chunk chunk], p\<lparr>psStream := (psStream p)\<lparr>qsCurrent := Some s'\<rparr>\<rparr>)
      | (Inl e, s') \<Rightarrow>
          if e \<noteq> EOF then ([ReadError e], p\<lparr>psStream := (psStream p)\<lparr>qsCurrent := Some s'\<rparr>\<rparr>)
          else (if qsSegmented (psStream p) then [SegmentEnd] else [], p\<lparr>psStream := (psStream p)\<lparr>qsCurrent := None\<rparr>\<rparr>))"

text \<open>NextSegment up to its call of loadNextResult, and the answer of loadNextResult when a result is there.\<close>

definition nextSegment :: "plannedSpeechSynthesis \<Rightarrow> plannedSpeechSynthesis" where
  "nextSegment p = p\<lparr>psStream := (psStream p)\<lparr>qsSegmented := True\<rparr>\<rparr>"

definition loadNextResult :: "plannedSpeechSynthesis \<Rightarrow> (pipeline_event list \<times> plannedSpeechSynthesis) option" where
  "loadNextResult p =
     (case qsResults (psStream p) of
        [] \<Rightarrow> None
      | (s, seg) # rs \<Rightarrow> Some ([Loaded s seg], p\<lparr>psStream := (psStream p)\<lparr>qsCurrent := Some s, qsResults := rs\<rparr>\<rparr>))"

definition workerReceive :: "plannedSpeechSynthesis \<Rightarrow> plannedSpeechSynthesis" where
  "workerReceive p =
     (let c = hd (psQueue p); q = p\<lparr>psQueue := tl (psQueue p)\<rparr>
      in case synthesizedPlannedClauseStream (Some (psSynthesizer p)) (psBaseReq p) c of
           None \<Rightarrow> q
         | Some s \<Rightarrow> q\<lparr>psWorker := Delivering s (playbackSegmentForClause c)\<rparr>)"

definition workerExit :: "plannedSpeechSynthesis \<Rightarrow> plannedSpeechSynthesis" where
  "workerExit p = p\<lparr>psWorker := Exited, psStream := (psStream p)\<lparr>qsResultsClosed := True\<rparr>\<rparr>"

fun pipeline_step :: "pipeline_action \<Rightarrow> plannedSpeechSynthesis \<Rightarrow> (pipeline_event list \<times> plannedSpeechSynthesis) option" where
  "pipeline_step (ObserveDelta kind t) p =
     (if psProducer p \<noteq> Between then None
      else Some (if kind = ResponseDeltaText then [Streamed t] else [], observeDelta kind t p))"
| "pipeline_step (Finalize t) p =
     (if psProducer p \<noteq> Between then None else Some ([Final t], startFinalize t p))"
| "pipeline_step CloseSynthesis p = (if psProducer p = Between then Some ([], closeSynthesis p) else None)"
| "pipeline_step EnqueueNext p =
     (case psProducer p of
        Enqueueing final (c # cs) \<Rightarrow>
          Some (if TrimSpace (clText c) = [] then [] else [Planned (preparedClause c)], enqueueClause final c cs p)
      | _ \<Rightarrow> None)"
| "pipeline_step SendClause p =
     (case psProducer p of
        Sending final c cs \<Rightarrow>
          if length (psQueue p) < defaultSpeechPlannerQueueSize
          then Some ([], p\<lparr>psQueue := psQueue p @ [c], psProducer := Enqueueing final cs\<rparr>) else None
      | _ \<Rightarrow> None)"
| "pipeline_step GiveUpSend p =
     (case psProducer p of
        Sending final c cs \<Rightarrow> if psCancelled p then Some ([], p\<lparr>psProducer := Enqueueing final cs\<rparr>) else None
      | _ \<Rightarrow> None)"
| "pipeline_step LoopEnd p =
     (case psProducer p of
        Enqueueing final [] \<Rightarrow> Some ([], if final then finishFinalize p else p\<lparr>psProducer := Between\<rparr>)
      | _ \<Rightarrow> None)"
| "pipeline_step WorkerCancelled p =
     (if psWorker p = Receiving \<and> psCancelled p then Some ([], workerExit p) else None)"
| "pipeline_step WorkerReceive p =
     (if psWorker p = Receiving \<and> psQueue p \<noteq> [] then Some ([], workerReceive p) else None)"
| "pipeline_step WorkerQueueClosed p =
     (if psWorker p = Receiving \<and> psQueue p = [] \<and> psQueueClosed p then Some ([], workerExit p) else None)"
| "pipeline_step WorkerDeliver p =
     (case psWorker p of
        Delivering s seg \<Rightarrow>
          if length (qsResults (psStream p)) < resultsSize
          then Some ([], p\<lparr>psWorker := Receiving, psStream := (psStream p)\<lparr>qsResults := qsResults (psStream p) @ [(s, seg)]\<rparr>\<rparr>)
          else None
      | _ \<Rightarrow> None)"
| "pipeline_step WorkerGiveUp p =
     (case psWorker p of Delivering s seg \<Rightarrow> if psCancelled p then Some ([], workerExit p) else None | _ \<Rightarrow> None)"
| "pipeline_step TakeEarly p =
     (if \<not> psTaken p \<and> psStartReady p \<and> psStarted p then Some ([], p\<lparr>psTaken := True\<rparr>) else None)"
| "pipeline_step TakeFinal p =
     (if \<not> psTaken p \<and> psProducer p = Returned \<and> psEnqueued p \<and> \<not> qsCloseOnce (psStream p)
      then Some ([], p\<lparr>psTaken := True\<rparr>) else None)"
| "pipeline_step ReadChunk p =
     (if \<not> psTaken p then None
      else case qsCurrent (psStream p) of Some s \<Rightarrow> Some (readCurrent s p) | None \<Rightarrow> None)"
| "pipeline_step BeginSegment p = (if \<not> psTaken p then None else Some ([], nextSegment p))"
| "pipeline_step LoadNext p =
     (if psTaken p \<and> qsCurrent (psStream p) = None then loadNextResult p else None)"
| "pipeline_step ReadEnd p =
     (if psTaken p \<and> qsCurrent (psStream p) = None \<and> qsResults (psStream p) = [] \<and> qsResultsClosed (psStream p)
      then Some ([StreamEnd], p) else None)"
| "pipeline_step CloseStream p = (if \<not> psTaken p then None else Some ([], closeStream p))"
| "pipeline_step CancelContext p = Some ([], p\<lparr>psCancelled := True\<rparr>)"

inductive pipeline_run :: "plannedSpeechSynthesis \<Rightarrow> pipeline_event list \<Rightarrow> plannedSpeechSynthesis \<Rightarrow> bool" where
  pipeline_start: "pipeline_run p [] p"
| pipeline_more: "pipeline_run p es q \<Longrightarrow> pipeline_step a q = Some (ev, r) \<Longrightarrow> pipeline_run p (es @ ev) r"


section \<open>What a run has done\<close>

definition planned :: "pipeline_event list \<Rightarrow> PlannedSpeechClause list" where
  "planned es = concat (map (\<lambda>e. case e of Planned c \<Rightarrow> [c] | _ \<Rightarrow> []) es)"

definition loaded :: "pipeline_event list \<Rightarrow> (AudioStream \<times> PlaybackSegment) list" where
  "loaded es = concat (map (\<lambda>e. case e of Loaded s seg \<Rightarrow> [(s, seg)] | _ \<Rightarrow> []) es)"

definition played :: "pipeline_event list \<Rightarrow> byte list" where
  "played es = concat (map (\<lambda>e. case e of Chunk c \<Rightarrow> c | _ \<Rightarrow> []) es)"

definition streamed :: "pipeline_event list \<Rightarrow> gostring list" where
  "streamed es = concat (map (\<lambda>e. case e of Streamed t \<Rightarrow> [t] | _ \<Rightarrow> []) es)"

definition finals :: "pipeline_event list \<Rightarrow> gostring list" where
  "finals es = concat (map (\<lambda>e. case e of Final t \<Rightarrow> [t] | _ \<Rightarrow> []) es)"

lemmas history_defs = planned_def loaded_def played_def streamed_def finals_def

lemma history_append [simp]:
  "planned (es @ fs) = planned es @ planned fs" "loaded (es @ fs) = loaded es @ loaded fs"
  "played (es @ fs) = played es @ played fs" "streamed (es @ fs) = streamed es @ streamed fs"
  "finals (es @ fs) = finals es @ finals fs"
  by (simp_all add: history_defs)

lemma history_single [simp]:
  "planned [] = []" "loaded [] = []" "played [] = []" "streamed [] = []" "finals [] = []"
  "planned [e] = (case e of Planned c \<Rightarrow> [c] | _ \<Rightarrow> [])"
  "loaded [e] = (case e of Loaded s seg \<Rightarrow> [(s, seg)] | _ \<Rightarrow> [])"
  "played [e] = (case e of Chunk c \<Rightarrow> c | _ \<Rightarrow> [])"
  "streamed [e] = (case e of Streamed t \<Rightarrow> [t] | _ \<Rightarrow> [])"
  "finals [e] = (case e of Final t \<Rightarrow> [t] | _ \<Rightarrow> [])"
  by (simp_all add: history_defs)

section \<open>The order of segments\<close>

text \<open>The stream and segment of a clause, if its synthesis gives audio, and what is under way in the pipeline.\<close>

definition clauseStream :: "plannedSpeechSynthesis \<Rightarrow> PlannedSpeechClause \<Rightarrow> AudioStream option" where
  "clauseStream p c = synthesizedPlannedClauseStream (Some (psSynthesizer p)) (psBaseReq p) c"

definition items :: "plannedSpeechSynthesis \<Rightarrow> PlannedSpeechClause list \<Rightarrow> (AudioStream \<times> PlaybackSegment) list" where
  "items p cs = concat (map (\<lambda>c. case clauseStream p c of None \<Rightarrow> [] | Some s \<Rightarrow> [(s, playbackSegmentForClause c)]) cs)"

definition under_way :: "plannedSpeechSynthesis \<Rightarrow> (AudioStream \<times> PlaybackSegment) list" where
  "under_way p = qsResults (psStream p) @ (case psWorker p of Delivering s seg \<Rightarrow> [(s, seg)] | _ \<Rightarrow> []) @
     items p (psQueue p) @ (case psProducer p of Sending f c cs \<Rightarrow> items p [c] | _ \<Rightarrow> [])"

definition order_inv :: "pipeline_event list \<Rightarrow> plannedSpeechSynthesis \<Rightarrow> bool" where
  "order_inv es p \<longleftrightarrow> subseq (loaded es @ under_way p) (items p (planned es)) \<and>
     (\<not> psCancelled p \<longrightarrow> loaded es @ under_way p = items p (planned es))"

lemma items_simps [simp]:
  "items p [] = []" "items p (cs @ ds) = items p cs @ items p ds"
  "items p (c # cs) = (case clauseStream p c of None \<Rightarrow> [] | Some s \<Rightarrow> [(s, playbackSegmentForClause c)]) @ items p cs"
  by (simp_all add: items_def)

lemma items_cong: "psSynthesizer q = psSynthesizer p \<Longrightarrow> psBaseReq q = psBaseReq p \<Longrightarrow> items q = items p \<and> clauseStream q = clauseStream p"
  by (simp add: items_def clauseStream_def fun_eq_iff)


lemmas pipeline_defs = enqueueClause_def finishFinalize_def closeSynthesis_def closeStream_def closeQueue_def
  resolveStart_def workerReceive_def workerExit_def readCurrent_def observeDelta_def startFinalize_def
  nextSegment_def loadNextResult_def Let_def

lemma step_frame:
  assumes "pipeline_step a p = Some (ev, q)"
  shows "psSynthesizer q = psSynthesizer p" and "psBaseReq q = psBaseReq p"
  using assms by (cases a; auto simp: pipeline_defs split: if_splits producer.splits worker.splits list.splits option.splits prod.splits sum.splits)+

lemma step_cancelled: "pipeline_step a p = Some (ev, q) \<Longrightarrow> psCancelled p \<Longrightarrow> psCancelled q"
  by (cases a; auto simp: pipeline_defs split: if_splits producer.splits worker.splits list.splits option.splits prod.splits sum.splits)


text \<open>What a step does to the segments: it hands on what is under way, in order, and adds what it plans.\<close>

definition worker_items :: "worker \<Rightarrow> (AudioStream \<times> PlaybackSegment) list" where
  "worker_items w = (case w of Delivering s seg \<Rightarrow> [(s, seg)] | _ \<Rightarrow> [])"

definition producer_items :: "plannedSpeechSynthesis \<Rightarrow> producer \<Rightarrow> (AudioStream \<times> PlaybackSegment) list" where
  "producer_items p x = (case x of Sending f c cs \<Rightarrow> items p [c] | _ \<Rightarrow> [])"

lemma under_way_eq: "under_way p = qsResults (psStream p) @ worker_items (psWorker p) @ items p (psQueue p) @ producer_items p (psProducer p)"
  by (simp add: under_way_def worker_items_def producer_items_def)

lemma contribution_simps [simp]:
  "worker_items Receiving = []" "worker_items Exited = []" "worker_items (Delivering s seg) = [(s, seg)]"
  "producer_items p Between = []" "producer_items p Returned = []" "producer_items p (Enqueueing f cs) = []"
  "producer_items p (Sending f c cs) = items p [c]"
  by (simp_all add: worker_items_def producer_items_def)

lemma under_way_cong:
  assumes "psSynthesizer q = psSynthesizer p" and "psBaseReq q = psBaseReq p"
  shows "under_way q = qsResults (psStream q) @ worker_items (psWorker q) @ items p (psQueue q) @ producer_items p (psProducer q)"
  using items_cong [OF assms] by (simp add: under_way_eq producer_items_def cong: producer.case_cong)

text \<open>The fields the pipeline's content depends on, after the compound operations.\<close>

lemma closeStream_fields [simp]:
  "psTaken (closeStream p) = psTaken p" "psQueue (closeStream p) = psQueue p" "psWorker (closeStream p) = psWorker p" "psProducer (closeStream p) = psProducer p"
  "psSynthesizer (closeStream p) = psSynthesizer p" "psBaseReq (closeStream p) = psBaseReq p"
  "psQueueClosed (closeStream p) = psQueueClosed p" "psPlanner (closeStream p) = psPlanner p"
  "psEnqueued (closeStream p) = psEnqueued p" "psStartReady (closeStream p) = psStartReady p"
  "psStartText (closeStream p) = psStartText p" "psStarted (closeStream p) = psStarted p"
  "qsResults (psStream (closeStream p)) = (if qsCloseOnce (psStream p) then qsResults (psStream p) else [])"
  "qsCurrent (psStream (closeStream p)) = (if qsCloseOnce (psStream p) then qsCurrent (psStream p) else None)"
  "psCancelled (closeStream p) \<longleftrightarrow> psCancelled p \<or> \<not> qsCloseOnce (psStream p)"
  "qsPlanned (psStream (closeStream p)) = qsPlanned (psStream p)"
  "qsResultsClosed (psStream (closeStream p)) = qsResultsClosed (psStream p)"
  "qsSegmented (psStream (closeStream p)) = qsSegmented (psStream p)"
  "qsCloseOnce (psStream (closeStream p))"
  by (simp_all add: closeStream_def)

lemma resolveStart_fields [simp]:
  "psTaken (resolveStart t p) = psTaken p" "psQueue (resolveStart t p) = psQueue p" "psWorker (resolveStart t p) = psWorker p" "psProducer (resolveStart t p) = psProducer p"
  "psSynthesizer (resolveStart t p) = psSynthesizer p" "psBaseReq (resolveStart t p) = psBaseReq p"
  "psQueueClosed (resolveStart t p) = psQueueClosed p" "psPlanner (resolveStart t p) = psPlanner p"
  "psEnqueued (resolveStart t p) = psEnqueued p" "psStream (resolveStart t p) = psStream p"
  "psCancelled (resolveStart t p) = psCancelled p" "psStartReady (resolveStart t p)"
  "psStartText (resolveStart t p) = (if psStartReady p then psStartText p else TrimSpace t)"
  "psStarted (resolveStart t p) = (if psStartReady p then psStarted p else TrimSpace t \<noteq> [])"
  by (simp_all add: resolveStart_def)

lemma closeQueue_fields [simp]:
  "psTaken (closeQueue p) = psTaken p" "psQueue (closeQueue p) = psQueue p" "psWorker (closeQueue p) = psWorker p" "psProducer (closeQueue p) = psProducer p"
  "psSynthesizer (closeQueue p) = psSynthesizer p" "psBaseReq (closeQueue p) = psBaseReq p"
  "psQueueClosed (closeQueue p)" "psPlanner (closeQueue p) = psPlanner p"
  "psEnqueued (closeQueue p) = psEnqueued p" "psStream (closeQueue p) = psStream p"
  "psCancelled (closeQueue p) = psCancelled p" "psStartReady (closeQueue p) = psStartReady p"
  "psStartText (closeQueue p) = psStartText p" "psStarted (closeQueue p) = psStarted p"
  by (simp_all add: closeQueue_def)

lemma addPlannedClause_fields [simp]:
  "qsResults (addPlannedClause c s) = qsResults s" "qsCurrent (addPlannedClause c s) = qsCurrent s"
  "qsResultsClosed (addPlannedClause c s) = qsResultsClosed s" "qsSegmented (addPlannedClause c s) = qsSegmented s"
  "qsCloseOnce (addPlannedClause c s) = qsCloseOnce s"
  by (simp_all add: addPlannedClause_def)

text \<open>A step of the pipeline as one of its rules, with the guards and effects spelled out.\<close>

lemma step_cases [consumes 1]:
  assumes "pipeline_step a p = Some (ev, q)"
  obtains (delta) t cs pl where "psProducer p = Between" "ObserveTextDeltaClauses t (psPlanner p) = (cs, pl)"
      "ev = [Streamed t]" "q = p\<lparr>psPlanner := pl, psProducer := Enqueueing False cs\<rparr>"
  | (ignored) "ev = []" "q = p"
  | (final) t cs pl where "psProducer p = Between" "FinalizeTextClauses t (psPlanner p) = (cs, pl)"
      "ev = [Final t]" "q = p\<lparr>psPlanner := pl, psProducer := Enqueueing True cs\<rparr>"
  | (close) "psProducer p = Between" "ev = []" "q = closeSynthesis p"
  | (blank) f c cs where "psProducer p = Enqueueing f (c # cs)" "TrimSpace (clText c) = []" "ev = []"
      "q = p\<lparr>psProducer := Enqueueing f cs\<rparr>"
  | (enqueue) f c cs where "psProducer p = Enqueueing f (c # cs)" "TrimSpace (clText c) \<noteq> []" "ev = [Planned (preparedClause c)]"
      "q = (resolveStart (clText (preparedClause c)) (p\<lparr>psEnqueued := True, psStream := addPlannedClause (preparedClause c) (psStream p)\<rparr>))
             \<lparr>psProducer := Sending f (preparedClause c) cs\<rparr>"
  | (send) f c cs where "psProducer p = Sending f c cs" "length (psQueue p) < defaultSpeechPlannerQueueSize" "ev = []"
      "q = p\<lparr>psQueue := psQueue p @ [c], psProducer := Enqueueing f cs\<rparr>"
  | (giveup) f c cs where "psProducer p = Sending f c cs" "psCancelled p" "ev = []" "q = p\<lparr>psProducer := Enqueueing f cs\<rparr>"
  | (looped) "psProducer p = Enqueueing False []" "ev = []" "q = p\<lparr>psProducer := Between\<rparr>"
  | (finalized) "psProducer p = Enqueueing True []" "ev = []" "q = finishFinalize p"
  | (exit) "psWorker p = Receiving" "psCancelled p \<or> psQueue p = [] \<and> psQueueClosed p" "ev = []" "q = workerExit p"
  | (silent) c cs where "psWorker p = Receiving" "psQueue p = c # cs" "clauseStream p c = None" "ev = []" "q = p\<lparr>psQueue := cs\<rparr>"
  | (receive) c cs s where "psWorker p = Receiving" "psQueue p = c # cs" "clauseStream p c = Some s" "ev = []"
      "q = p\<lparr>psQueue := cs, psWorker := Delivering s (playbackSegmentForClause c)\<rparr>"
  | (deliver) s seg where "psWorker p = Delivering s seg" "length (qsResults (psStream p)) < resultsSize" "ev = []"
      "q = p\<lparr>psWorker := Receiving, psStream := (psStream p)\<lparr>qsResults := qsResults (psStream p) @ [(s, seg)]\<rparr>\<rparr>"
  | (abandon) s seg where "psWorker p = Delivering s seg" "psCancelled p" "ev = []" "q = workerExit p"
  | (chunk) s c s' where "qsCurrent (psStream p) = Some s" "streamNext s = (Inr c, s')" "ev = [Chunk c]"
      "q = p\<lparr>psStream := (psStream p)\<lparr>qsCurrent := Some s'\<rparr>\<rparr>"
  | (error) s e s' where "qsCurrent (psStream p) = Some s" "streamNext s = (Inl e, s')" "e \<noteq> EOF" "ev = [ReadError e]"
      "q = p\<lparr>psStream := (psStream p)\<lparr>qsCurrent := Some s'\<rparr>\<rparr>"
  | (eof) s s' where "qsCurrent (psStream p) = Some s" "streamNext s = (Inl EOF, s')" "ev = [] \<or> ev = [SegmentEnd]"
      "q = p\<lparr>psStream := (psStream p)\<lparr>qsCurrent := None\<rparr>\<rparr>"
  | (segment) "ev = []" "q = p\<lparr>psStream := (psStream p)\<lparr>qsSegmented := True\<rparr>\<rparr>"
  | (load) s seg rs where "qsCurrent (psStream p) = None" "qsResults (psStream p) = (s, seg) # rs" "ev = [Loaded s seg]"
      "q = p\<lparr>psStream := (psStream p)\<lparr>qsCurrent := Some s, qsResults := rs\<rparr>\<rparr>"
  | (ended) "qsCurrent (psStream p) = None" "qsResults (psStream p) = []" "qsResultsClosed (psStream p)" "ev = [StreamEnd]" "q = p"
  | (shut) "ev = []" "q = closeStream p"
  | (cancel) "ev = []" "q = p\<lparr>psCancelled := True\<rparr>"
  | (take) "\<not> psTaken p" "ev = []" "q = p\<lparr>psTaken := True\<rparr>"
proof (cases a)
  case ReadChunk
  with assms that(16-18) show ?thesis by (auto simp: readCurrent_def split: option.splits prod.splits sum.splits if_splits)
next
  case EnqueueNext
  with assms that(5,6) show ?thesis by (auto simp: enqueueClause_def Let_def split: producer.splits list.splits if_splits)
next
  case LoadNext
  with assms that(20) show ?thesis by (auto simp: loadNextResult_def split: if_splits list.splits)
next
  case WorkerReceive
  with assms that(12,13) show ?thesis
    by (cases "psQueue p") (auto simp: workerReceive_def Let_def clauseStream_def split: if_splits option.splits)
next
  case LoopEnd
  with assms that(9,10) show ?thesis by (auto split: producer.splits list.splits if_splits)
next
  case WorkerCancelled
  with assms that(11) show ?thesis by (auto split: if_splits)
next
  case WorkerQueueClosed
  with assms that(11) show ?thesis by (auto split: if_splits)
next
  case (ObserveDelta kind t)
  show ?thesis
  proof (cases "kind = ResponseDeltaText")
    case True
    with assms ObserveDelta that(1) show ?thesis by (auto simp: observeDelta_def split: prod.splits if_splits)
  next
    case False
    with assms ObserveDelta that(2) show ?thesis by (auto simp: observeDelta_def split: if_splits)
  qed
next
  case (Finalize t)
  with assms that(3) show ?thesis by (auto simp: startFinalize_def split: prod.splits if_splits)
next
  case CloseSynthesis
  with assms that(4) show ?thesis by (auto split: if_splits)
next
  case SendClause
  with assms that(7) show ?thesis by (auto split: producer.splits if_splits)
next
  case GiveUpSend
  with assms that(8) show ?thesis by (auto split: producer.splits if_splits)
next
  case WorkerDeliver
  with assms that(14) show ?thesis by (auto split: worker.splits if_splits)
next
  case WorkerGiveUp
  with assms that(15) show ?thesis by (auto split: worker.splits if_splits)
next
  case BeginSegment
  with assms that(19) show ?thesis by (auto simp: nextSegment_def split: if_splits)
next
  case TakeEarly
  with assms that(24) show ?thesis by (auto split: if_splits)
next
  case TakeFinal
  with assms that(24) show ?thesis by (auto split: if_splits)
next
  case ReadEnd
  with assms that(21) show ?thesis by (auto split: if_splits)
next
  case CloseStream
  with assms that(22) show ?thesis by (auto split: if_splits)
next
  case CancelContext
  with assms that(23) show ?thesis by (auto)
qed


section \<open>Invariants\<close>

lemma step_order:
  assumes "pipeline_step a p = Some (ev, q)"
  shows "subseq (loaded ev @ under_way q) (under_way p @ items p (planned ev))" (is ?sub)
    and "\<not> psCancelled q \<Longrightarrow> loaded ev @ under_way q = under_way p @ items p (planned ev)" (is "_ \<Longrightarrow> ?eq")
proof -
  note uq = under_way_cong [OF step_frame [OF assms]] and up = under_way_eq [of p]
  have drop: "subseq ys (xs @ ys)" "subseq xs (xs @ ys)" for xs ys :: "(AudioStream \<times> PlaybackSegment) list"
    by (simp_all add: prefix_imp_subseq list_emb_append2)
  have mid: "subseq (xs @ zs) (xs @ ys @ zs)" for xs ys zs :: "(AudioStream \<times> PlaybackSegment) list"
    by (simp add: subseq_append' drop)
  show ?sub unfolding uq up using assms
    by (cases rule: step_cases) (auto simp: workerExit_def finishFinalize_def closeSynthesis_def drop mid Let_def
        prefix_imp_subseq subseq_append' list_emb_Cons)
  show "\<not> psCancelled q \<Longrightarrow> ?eq" unfolding uq up using assms
    by (cases rule: step_cases) (auto simp: workerExit_def finishFinalize_def closeSynthesis_def Let_def split: if_splits)
qed

lemma run_order:
  assumes "pipeline_run p0 es p"
  shows "psSynthesizer p = psSynthesizer p0 \<and> psBaseReq p = psBaseReq p0 \<and>
    (under_way p0 = [] \<longrightarrow> order_inv es p)"
  using assms
proof (induction rule: pipeline_run.induct)
  case (pipeline_start p)
  then show ?case by (simp add: order_inv_def)
next
  case (pipeline_more p0 es q a ev r)
  note f = step_frame [OF pipeline_more.hyps(2)] and o = step_order [OF pipeline_more.hyps(2)]
  have i: "items r = items q" using items_cong [OF f] by blast
  show ?case
  proof (intro conjI impI)
    assume "under_way p0 = []"
    then have q: "order_inv es q" using pipeline_more.IH by simp
    have "subseq (loaded es @ loaded ev @ under_way r) (loaded es @ under_way q @ items q (planned ev))" using o(1) by (simp add: subseq_append')
    also have "subseq (loaded es @ under_way q @ items q (planned ev)) (items q (planned es) @ items q (planned ev))"
      using q by (metis order_inv_def append_assoc list_emb_append_mono subseq_order.refl)
    finally have "subseq (loaded (es @ ev) @ under_way r) (items r (planned (es @ ev)))" by (simp add: i)
    moreover have "loaded (es @ ev) @ under_way r = items r (planned (es @ ev))" if "\<not> psCancelled r"
    proof -
      have "\<not> psCancelled q" using step_cancelled [OF pipeline_more.hyps(2)] that by blast
      then have "loaded es @ under_way q = items q (planned es)" using q by (simp add: order_inv_def)
      then show ?thesis using o(2) [OF that] unfolding i by (metis append_assoc history_append(1,2) items_simps(2))
    qed
    ultimately show "order_inv (es @ ev) r" by (simp add: order_inv_def)
  qed (use pipeline_more.IH f in simp_all)
qed

text \<open>
  Control: no goroutine sends into a closed channel, channels keep their capacity, the start is resolved by the
  first planned clause or without text, and the planned duration is the sum over the planned clauses.
\<close>

definition control_inv :: "pipeline_event list \<Rightarrow> plannedSpeechSynthesis \<Rightarrow> bool" where
  "control_inv es p \<longleftrightarrow>
     length (psQueue p) \<le> defaultSpeechPlannerQueueSize \<and> length (qsResults (psStream p)) \<le> resultsSize \<and>
     (psQueueClosed p \<longleftrightarrow> psProducer p = Returned) \<and>
     (qsResultsClosed (psStream p) \<longleftrightarrow> psWorker p = Exited) \<and>
     (psWorker p = Exited \<and> \<not> psCancelled p \<longrightarrow> psQueue p = [] \<and> psQueueClosed p) \<and>
     (qsCloseOnce (psStream p) \<longrightarrow> psCancelled p) \<and>
     (psEnqueued p \<longleftrightarrow> planned es \<noteq> []) \<and>
     (psStartReady p \<longleftrightarrow> planned es \<noteq> [] \<or> psProducer p = Returned) \<and>
     (psStarted p \<longleftrightarrow> planned es \<noteq> []) \<and> (psStarted p \<longrightarrow> psStartText p = clText (hd (planned es))) \<and>
     qsPlanned (psStream p) = sum_list (map clEstimatedDuration (planned es))"

lemma preparedClause_text [simp]: "clText (preparedClause c) = TrimSpace (clText c)"
  by (simp add: preparedClause_def Let_def)

lemma sum_pause_nonneg: "0 \<le> sum_list (map runePause rs)"
  by (induction rs) (simp_all add: runePause_def)

lemma estimate_pos: "TrimSpace t \<noteq> [] \<Longrightarrow> 0 < estimatePlannedSpeechDuration t"
  using estimate_lower [of t] by (smt (verit) length_greater_0_conv of_nat_0_less_iff zero_less_mult_iff zero_less_numeral)

lemma preparedClause_duration: "TrimSpace (clText c) \<noteq> [] \<Longrightarrow> 0 < clEstimatedDuration (preparedClause c)"
  using estimate_pos [of "TrimSpace (clText c)"]
  by (simp add: preparedClause_def Let_def estimateClausePlaybackDuration_def)

lemma addPlannedClause_prepared:
  "TrimSpace (clText c) \<noteq> [] \<Longrightarrow>
     qsPlanned (addPlannedClause (preparedClause c) s) = qsPlanned s + clEstimatedDuration (preparedClause c)"
  using preparedClause_duration [of c] by (simp add: addPlannedClause_def)

lemma control_step:
  assumes "control_inv es p" and "pipeline_step a p = Some (ev, q)"
  shows "control_inv (es @ ev) q"
  using assms(2,1)
proof (cases rule: step_cases)
  case (enqueue f c cs)
  then show ?thesis using assms(1) addPlannedClause_prepared [of c "psStream p"]
    by (cases "planned es") (auto simp: control_inv_def)
qed (auto simp: control_inv_def workerExit_def finishFinalize_def closeSynthesis_def Let_def)


lemma run_control:
  assumes "pipeline_run p0 es p" and "newPlannedSpeechSynthesis syn req cfg = Some p0"
  shows "control_inv es p"
  using assms
proof (induction rule: pipeline_run.induct)
  case (pipeline_start p)
  then show ?case
    by (auto simp: newPlannedSpeechSynthesis_def control_inv_def newQueuedSpeechAudioStream_def split: option.splits if_splits)
next
  case (pipeline_more p0 es q a ev r)
  then show ?case using control_step by blast
qed

text \<open>Audio: what was played, followed by the rest of the current stream, is the audio of the loaded streams.\<close>

definition audio_inv :: "pipeline_event list \<Rightarrow> plannedSpeechSynthesis \<Rightarrow> bool" where
  "audio_inv es p \<longleftrightarrow>
     (\<not> psCancelled p \<longrightarrow> played es @ (case qsCurrent (psStream p) of None \<Rightarrow> [] | Some s \<Rightarrow> remaining s) =
        concat (map (\<lambda>x. remaining (fst x)) (loaded es))) \<and>
     (\<forall>s. qsCurrent (psStream p) = Some s \<longrightarrow> sound s) \<and> (\<forall>x \<in> set (under_way p). sound (fst x))"

definition sound_synthesis :: "plannedSpeechSynthesis \<Rightarrow> bool" where
  "sound_synthesis p \<longleftrightarrow> (\<forall>c s. clauseStream p c = Some s \<longrightarrow> sound s)"

lemma items_sound: "sound_synthesis p \<Longrightarrow> x \<in> set (items p cs) \<Longrightarrow> sound (fst x)"
  by (induction cs) (auto simp: sound_synthesis_def split: option.splits)

lemma subseq_set_mono: "subseq xs ys \<Longrightarrow> set xs \<subseteq> set ys"
  by (induction rule: list_emb.induct) auto

lemma audio_step:
  assumes "audio_inv es p" and "sound_synthesis p" and "control_inv es p" and "pipeline_step a p = Some (ev, q)"
  shows "audio_inv (es @ ev) q"
proof -
  have "set (under_way q) \<subseteq> set (under_way p) \<union> set (items p (planned ev))"
    using subseq_set_mono [OF step_order(1) [OF assms(4)]] by simp
  then have w: "\<forall>x \<in> set (under_way q). sound (fst x)"
    using assms(1) items_sound [OF assms(2)] by (auto simp: audio_inv_def)
  have p: "\<not> psCancelled q \<longrightarrow> \<not> psCancelled p" using step_cancelled [OF assms(4)] by blast
  have o: "qsCloseOnce (psStream p) \<longrightarrow> psCancelled p" using assms(3) by (simp add: control_inv_def)
  have l: "sound s" if "qsResults (psStream p) = (s, seg) # rs" for s seg rs
    using assms(1) that by (auto simp: audio_inv_def under_way_eq)
  from assms(4) show ?thesis
  proof (cases rule: step_cases)
    case (chunk s c s')
    then show ?thesis using assms(1) w p streamNext_chunk [of s c s'] by (auto simp: audio_inv_def)
  next
    case (error s e s')
    then show ?thesis using assms(1) streamNext_end [of s e s'] by (auto simp: audio_inv_def)
  next
    case (eof s s')
    then show ?thesis using assms(1) w p streamNext_end [of s EOF s'] by (auto simp: audio_inv_def)
  next
    case (load s seg rs)
    then show ?thesis using assms(1) w p l by (auto simp: audio_inv_def)
  qed (use assms(1) w p o in \<open>auto simp: audio_inv_def workerExit_def finishFinalize_def closeSynthesis_def Let_def\<close>)
qed


lemma sound_synthesis_cong:
  "psSynthesizer q = psSynthesizer p \<Longrightarrow> psBaseReq q = psBaseReq p \<Longrightarrow> sound_synthesis q = sound_synthesis p"
  by (drule (1) items_cong) (simp add: sound_synthesis_def)

lemma run_audio:
  assumes "pipeline_run p0 es p" and "newPlannedSpeechSynthesis syn req cfg = Some p0" and "sound_synthesis p0"
  shows "audio_inv es p"
  using assms
proof (induction rule: pipeline_run.induct)
  case (pipeline_start p)
  then show ?case
    by (auto simp: newPlannedSpeechSynthesis_def audio_inv_def newQueuedSpeechAudioStream_def under_way_eq split: option.splits if_splits)
next
  case (pipeline_more p0 es q a ev r)
  then have "sound_synthesis q" using run_order [OF pipeline_more.hyps(1)] sound_synthesis_cong by blast
  then show ?case using pipeline_more audio_step run_control by blast
qed

text \<open>Text: what was planned, with the rest of the running loop, is what the planner made of the deltas so far.\<close>

definition todo :: "producer \<Rightarrow> PlannedSpeechClause list" where
  "todo x = (case x of Enqueueing f cs \<Rightarrow> cs | Sending f c cs \<Rightarrow> cs | _ \<Rightarrow> [])"

definition speakable :: "PlannedSpeechClause \<Rightarrow> bool" where
  "speakable c \<longleftrightarrow> TrimSpace (clText c) \<noteq> [] \<and> preparedClause c = c"

definition finalizing :: "producer \<Rightarrow> bool" where
  "finalizing x = (case x of Enqueueing f cs \<Rightarrow> f | Sending f c cs \<Rightarrow> f | Returned \<Rightarrow> True | Between \<Rightarrow> False)"

definition planner_inv :: "SpeechPlannerConfig \<Rightarrow> pipeline_event list \<Rightarrow> plannedSpeechSynthesis \<Rightarrow> bool" where
  "planner_inv cfg es p \<longleftrightarrow>
     (\<forall>c \<in> set (todo (psProducer p)). speakable c) \<and>
     (finals es = [] \<longrightarrow> observe_all (streamed es) (NewSpeechPlanner cfg) = (planned es @ todo (psProducer p), psPlanner p)) \<and>
     (finals es \<noteq> [] \<longrightarrow> (\<exists>t. finals es = [t] \<and> planned es @ todo (psProducer p) = plan_speech cfg (streamed es) t)) \<and>
     (finalizing (psProducer p) \<longleftrightarrow> finals es \<noteq> [] \<or> psProducer p = Returned) \<and>
     (psProducer p = Returned \<and> finals es = [] \<longrightarrow> psCancelled p)"

lemma observe_all_snoc:
  "observe_all (ts @ [t]) p = (let (cs, q) = observe_all ts p; (ds, r) = ObserveTextDeltaClauses t q in (cs @ ds, r))"
  by (induction ts arbitrary: p) (simp_all add: Let_def split: prod.split)

lemma clause_ok_speakable: "clause_ok b c \<Longrightarrow> speakable c"
  using estimate_pos [of "clText c"]
  by (cases c) (auto simp: clause_ok_def speakable_def preparedClause_def trimmed_id Let_def)

lemma todo_simps [simp]:
  "todo Between = []" "todo Returned = []" "todo (Enqueueing f cs) = cs" "todo (Sending f c cs) = cs"
  "finalizing Returned" "\<not> finalizing Between" "finalizing (Enqueueing f cs) = f" "finalizing (Sending f c cs) = f"
  by (simp_all add: todo_def finalizing_def)

lemma planner_step:
  assumes "planner_inv cfg es p" and "control_inv es p" and "pipeline_step a p = Some (ev, q)"
  shows "planner_inv cfg (es @ ev) q"
  using assms(3)
proof (cases rule: step_cases)
  case (delta t cs pl)
  have "\<forall>c \<in> set cs. speakable c" using ObserveTextDelta_spec [OF delta(2)] clause_ok_speakable by blast
  then show ?thesis using assms(1) delta by (auto simp: planner_inv_def observe_all_snoc)
next
  case (final t cs pl)
  have "\<forall>c \<in> set cs. speakable c" using Finalize_spec [OF final(2)] clause_ok_speakable by blast
  then show ?thesis using assms(1) final by (auto simp: planner_inv_def plan_speech_def)
next
  case close
  have "psCancelled (closeSynthesis p)" using assms(2) by (auto simp: closeSynthesis_def control_inv_def)
  then show ?thesis using assms(1) close by (auto simp: planner_inv_def closeSynthesis_def)
next
  case (blank f c cs)
  then show ?thesis using assms(1) by (auto simp: planner_inv_def speakable_def)
next
  case (enqueue f c cs)
  then show ?thesis using assms(1) by (auto simp: planner_inv_def speakable_def)
next
  case finalized
  then show ?thesis using assms(1) by (auto simp: planner_inv_def finishFinalize_def Let_def)
qed (use assms(1) in \<open>auto simp: planner_inv_def workerExit_def\<close>)

lemma run_planner:
  assumes "pipeline_run p0 es p" and "newPlannedSpeechSynthesis syn req cfg = Some p0"
  shows "planner_inv (NormalizeSpeechPlannerConfig cfg) es p"
  using assms
proof (induction rule: pipeline_run.induct)
  case (pipeline_start p)
  then show ?case by (auto simp: newPlannedSpeechSynthesis_def planner_inv_def split: option.splits if_splits)
next
  case (pipeline_more p0 es q a ev r)
  then show ?case using planner_step run_control by blast
qed


section \<open>Termination\<close>

text \<open>
  The steps of the three goroutines that nobody outside has to ask for, and the work that is left. Whether the transport
  starts early audio is the flag: the handler of the realtime protocol does, the one of the xiaozhi protocol does not.
\<close>

definition internal_actions :: "bool \<Rightarrow> pipeline_action list" where
  "internal_actions early = (if early then [TakeEarly] else []) @
     [EnqueueNext, SendClause, GiveUpSend, LoopEnd, WorkerCancelled, WorkerReceive, WorkerQueueClosed,
     WorkerDeliver, WorkerGiveUp, TakeFinal, ReadChunk, LoadNext]"

definition clause_work :: "plannedSpeechSynthesis \<Rightarrow> PlannedSpeechClause \<Rightarrow> nat" where
  "clause_work p c = (case clauseStream p c of None \<Rightarrow> 1 | Some s \<Rightarrow> streamRest s + 4)"

definition producer_work :: "plannedSpeechSynthesis \<Rightarrow> producer \<Rightarrow> nat" where
  "producer_work p x = (case x of
      Enqueueing f cs \<Rightarrow> sum_list (map (\<lambda>c. clause_work p (preparedClause c) + 2) cs) + 1
    | Sending f c cs \<Rightarrow> clause_work p c + 1 + sum_list (map (\<lambda>c. clause_work p (preparedClause c) + 2) cs) + 1
    | _ \<Rightarrow> 0)"

definition worker_work :: "worker \<Rightarrow> nat" where
  "worker_work w = (case w of Receiving \<Rightarrow> 1 | Delivering s seg \<Rightarrow> streamRest s + 4 | Exited \<Rightarrow> 0)"

definition stream_work :: "queuedSpeechAudioStream \<Rightarrow> nat" where
  "stream_work s = sum_list (map (\<lambda>x. streamRest (fst x) + 2) (qsResults s)) +
     (case qsCurrent s of None \<Rightarrow> 0 | Some c \<Rightarrow> streamRest c + 1)"

definition work :: "plannedSpeechSynthesis \<Rightarrow> nat" where
  "work p = producer_work p (psProducer p) + sum_list (map (clause_work p) (psQueue p)) + worker_work (psWorker p) + stream_work (psStream p) +
     (if psTaken p then 0 else 1)"

lemma work_simps [simp]:
  "producer_work p Between = 0" "producer_work p Returned = 0"
  "producer_work p (Enqueueing f []) = 1"
  "producer_work p (Enqueueing f (c # cs)) = clause_work p (preparedClause c) + 2 + producer_work p (Enqueueing f cs)"
  "producer_work p (Sending f c cs) = clause_work p c + 1 + producer_work p (Enqueueing f cs)"
  "worker_work Receiving = 1" "worker_work Exited = 0" "worker_work (Delivering s seg) = streamRest s + 4"
  by (simp_all add: producer_work_def worker_work_def)

lemma work_cong:
  assumes "psSynthesizer q = psSynthesizer p" and "psBaseReq q = psBaseReq p"
  shows "work q = producer_work p (psProducer q) + sum_list (map (clause_work p) (psQueue q)) + worker_work (psWorker q) + stream_work (psStream q) +
    (if psTaken q then 0 else 1)"
proof -
  have "clause_work q = clause_work p" using items_cong [OF assms] by (simp add: clause_work_def fun_eq_iff)
  then show ?thesis by (simp add: work_def producer_work_def cong: producer.case_cong)
qed

lemma stream_work_fields:
  "stream_work (addPlannedClause c s) = stream_work s" "stream_work (s\<lparr>qsResultsClosed := b\<rparr>) = stream_work s"
  "stream_work (psStream (closeStream p)) \<le> stream_work (psStream p)"
  "stream_work (s\<lparr>qsResults := qsResults s @ [(x, seg)]\<rparr>) = stream_work s + streamRest x + 2"
  by (simp_all add: stream_work_def closeStream_def)

lemma internal_step_decreases:
  assumes "pipeline_step a p = Some (ev, q)" and "a \<in> set (internal_actions early)"
  shows "work q < work p"
proof -
  note wq = work_cong [OF step_frame [OF assms(1)]]
  have d: "clauseStream p c = Some s \<Longrightarrow> clause_work p c = streamRest s + 4" "0 < clause_work p c" for c s
    by (auto simp: clause_work_def split: option.split)
  show ?thesis
  proof (cases a)
    case ReadChunk
    then obtain s where s: "qsCurrent (psStream p) = Some s" "(ev, q) = readCurrent s p"
      using assms(1) by (auto split: option.splits if_splits)
    obtain r s' where n: "streamNext s = (r, s')" by fastforce
    show ?thesis using s n streamNext_rest [OF n] unfolding wq work_def [of p]
      by (cases r) (auto simp: readCurrent_def stream_work_def split: if_splits)
  next
    case LoadNext
    then show ?thesis using assms(1) unfolding wq work_def [of p]
      by (auto simp: loadNextResult_def stream_work_def split: if_splits list.splits)
  next
    case EnqueueNext
    then show ?thesis using assms(1) unfolding wq work_def [of p]
      by (auto simp: enqueueClause_def Let_def stream_work_fields split: producer.splits list.splits if_splits)
  next
    case LoopEnd
    then show ?thesis using assms(1) stream_work_fields(3) [of "resolveStart [] (closeQueue p)"] unfolding wq work_def [of p]
      by (auto simp: finishFinalize_def Let_def split: producer.splits list.splits if_splits)
  next
    case WorkerReceive
    then show ?thesis using assms(1) d unfolding wq work_def [of p]
      by (cases "psQueue p") (auto simp: workerReceive_def Let_def clauseStream_def [symmetric] split: if_splits option.splits)
  next
    case WorkerDeliver
    then show ?thesis using assms(1) unfolding wq work_def [of p] by (auto simp: stream_work_fields split: worker.splits if_splits)
  next
    case SendClause
    then show ?thesis using assms(1) unfolding wq work_def [of p] by (auto split: producer.splits if_splits)
  next
    case GiveUpSend
    then show ?thesis using assms(1) unfolding wq work_def [of p] by (auto split: producer.splits if_splits)
  qed (use assms in \<open>auto simp: wq work_def [of p] workerExit_def stream_work_fields internal_actions_def split: worker.splits if_splits\<close>)
qed

lemma internal_progress:
  assumes "control_inv es p" and "order_inv es p" and "psProducer p \<noteq> Between"
  shows "(\<exists>a \<in> set (internal_actions True). pipeline_step a p \<noteq> None) \<or>
    (psProducer p = Returned \<and> psWorker p = Exited \<and> (planned es = [] \<or> pipeline_step ReadEnd p \<noteq> None))"
proof (rule ccontr)
  assume "\<not> ?thesis"
  then have stuck: "a \<in> set (internal_actions True) \<Longrightarrow> pipeline_step a p = None"
    and notdone: "\<not> (psProducer p = Returned \<and> psWorker p = Exited \<and> (planned es = [] \<or> pipeline_step ReadEnd p \<noteq> None))" for a by blast+
  have taken: "psTaken p \<or> planned es = []"
    using stuck [of TakeEarly] assms(1) by (auto simp: internal_actions_def control_inv_def split: if_splits)
  have current: "qsCurrent (psStream p) = None" if "psTaken p"
    using stuck [of ReadChunk] that by (auto simp: internal_actions_def split: option.splits)
  have results: "qsResults (psStream p) = []"
  proof (cases "psTaken p")
    case True
    then show ?thesis
      using stuck [of LoadNext] current by (auto simp: internal_actions_def loadNextResult_def split: if_splits list.splits)
  next
    case False
    then show ?thesis using taken assms(2) by (auto simp: order_inv_def under_way_eq)
  qed
  have worker: "psWorker p = Exited \<or> psWorker p = Receiving \<and> \<not> psCancelled p \<and> psQueue p = []"
    using stuck [of WorkerCancelled] stuck [of WorkerReceive] stuck [of WorkerDeliver] results
    by (cases "psWorker p") (auto simp: internal_actions_def resultsSize_def split: if_splits)
  have producer: "psProducer p = Returned"
  proof (cases "psProducer p")
    case (Enqueueing f cs)
    then show ?thesis using stuck [of EnqueueNext] stuck [of LoopEnd] by (cases cs) (auto simp: internal_actions_def)
  next
    case (Sending f c cs)
    then have "\<not> psCancelled p" "\<not> length (psQueue p) < 4" using stuck [of GiveUpSend] stuck [of SendClause]
      by (auto simp: internal_actions_def defaultSpeechPlannerQueueSize_def split: if_splits)
    then have "psQueueClosed p" using worker assms(1) by (auto simp: control_inv_def)
    then show ?thesis using assms(1) by (simp add: control_inv_def)
  qed (use assms(3) in auto)
  then have closed: "psQueueClosed p" using assms(1) by (simp add: control_inv_def)
  then have "psWorker p = Exited" using worker stuck [of WorkerQueueClosed] by (auto simp: internal_actions_def split: if_splits)
  then show False using notdone producer current results taken assms(1) by (auto simp: control_inv_def)
qed

text \<open>As long as no player has the stream, nothing is loaded from it.\<close>

lemma untaken_step:
  assumes "pipeline_step a p = Some (ev, q)" and "\<not> psTaken q"
  shows "\<not> psTaken p" and "loaded ev = []"
  using assms by (cases a; auto simp: pipeline_defs split: if_splits producer.splits worker.splits list.splits option.splits prod.splits sum.splits)+

lemma untaken_run: "pipeline_run p0 es p \<Longrightarrow> \<not> psTaken p \<Longrightarrow> loaded es = []"
proof (induction rule: pipeline_run.induct)
  case (pipeline_more p0 es q a ev r)
  then show ?case using untaken_step [OF pipeline_more.hyps(2)] by simp
qed simp

lemma length_items_one: "length (items p [c]) \<le> 1"
  by (simp split: option.split)

lemma length_items: "length (items p cs) \<le> length cs"
  by (induction cs) (auto split: option.split)

lemma full_pipeline_stuck:
  assumes "control_inv es p" and "\<not> psTaken p" and "\<not> psCancelled p" and "7 \<le> length (under_way p)"
  shows "\<forall>a \<in> set (internal_actions False). pipeline_step a p = None"
proof -
  have l: "length (qsResults (psStream p)) \<le> 1" "length (psQueue p) \<le> 4"
    using assms(1) by (simp_all add: control_inv_def resultsSize_def defaultSpeechPlannerQueueSize_def)
  have w: "length (worker_items (psWorker p)) \<le> 1" by (cases "psWorker p") simp_all
  have r: "length (producer_items p (psProducer p)) \<le> 1" using length_items_one by (cases "psProducer p") simp_all
  have u: "7 \<le> length (qsResults (psStream p)) + length (worker_items (psWorker p)) + length (items p (psQueue p))
      + length (producer_items p (psProducer p))" using assms(4) by (simp add: under_way_eq)
  have "length (items p (psQueue p)) \<le> 4" using l(2) length_items [of p "psQueue p"] by linarith
  then have "length (qsResults (psStream p)) = 1" "length (worker_items (psWorker p)) = 1" "length (items p (psQueue p)) = 4"
    "length (producer_items p (psProducer p)) = 1" using u l w r by linarith+
  moreover from this have "\<exists>s seg. psWorker p = Delivering s seg" by (cases "psWorker p") simp_all
  moreover from calculation have "\<exists>f c cs. psProducer p = Sending f c cs" by (cases "psProducer p") simp_all
  moreover have "length (psQueue p) = 4"
    using \<open>length (items p (psQueue p)) = 4\<close> l(2) length_items [of p "psQueue p"] by linarith
  ultimately show ?thesis using assms(2,3) by (auto simp: internal_actions_def resultsSize_def defaultSpeechPlannerQueueSize_def)
qed

lemma new_under_way: "newPlannedSpeechSynthesis syn req cfg = Some p0 \<Longrightarrow> under_way p0 = []"
  by (auto simp: newPlannedSpeechSynthesis_def newQueuedSpeechAudioStream_def under_way_eq split: option.splits if_splits)

lemma drained:
  assumes "control_inv es p" and "\<not> psCancelled p" and "pipeline_step ReadEnd p \<noteq> None"
  shows "psProducer p = Returned" and "under_way p = []" and "qsCurrent (psStream p) = None"
  using assms by (auto simp: control_inv_def under_way_eq split: if_splits)

lemma concat_items: "concat (map (\<lambda>x. remaining (fst x)) (items p cs)) =
    concat (map (\<lambda>c. case clauseStream p c of None \<Rightarrow> [] | Some s \<Rightarrow> remaining s) cs)"
  by (induction cs) (simp_all split: option.split)

section \<open>Properties\<close>

definition quietRequest :: SynthesisRequest where
  "quietRequest = \<lparr>syrSessionID = [], syrTurnID = [], syrTraceID = [], syrDeviceID = [], syrUserText = [], syrText = []\<rparr>"

definition tinySynthesizer :: Synthesizer where
  "tinySynthesizer = \<lparr>synSynthesize = (\<lambda>req. Inr \<lparr>sysAudioPCM = map word_of_int (syrText req), sysSampleRateHz = 50, sysChannels = 1\<rparr>),
     synStream = None\<rparr>"

definition tinyPipeline :: plannedSpeechSynthesis where
  "tinyPipeline = the (newPlannedSpeechSynthesis (Some tinySynthesizer) quietRequest \<lparr>plEnabled = True, plMinChunkRunes = 1, plTargetChunkRunes = 2\<rparr>)"

text \<open>A schedule of a short answer, and its run.\<close>

fun run_actions :: "pipeline_action list \<Rightarrow> pipeline_event list \<Rightarrow> plannedSpeechSynthesis \<Rightarrow> (pipeline_event list \<times> plannedSpeechSynthesis) option" where
  "run_actions [] es p = Some (es, p)"
| "run_actions (a # as) es p = (case pipeline_step a p of None \<Rightarrow> None | Some (ev, q) \<Rightarrow> run_actions as (es @ ev) q)"

lemma run_actions_run: "pipeline_run p0 es p \<Longrightarrow> run_actions as es p = Some (fs, q) \<Longrightarrow> pipeline_run p0 fs q"
  by (induction as arbitrary: es p) (auto split: option.splits intro: pipeline_run.intros)

definition tinySchedule :: "pipeline_action list" where
  "tinySchedule = [Finalize (lit ''ok''), EnqueueNext, SendClause, WorkerReceive, WorkerDeliver, LoopEnd, WorkerQueueClosed,
     TakeFinal, LoadNext, ReadChunk, ReadChunk]"

definition tinyRun :: "pipeline_event list \<times> plannedSpeechSynthesis" where
  "tinyRun = the (run_actions tinySchedule [] tinyPipeline)"

lemma tiny_new: "newPlannedSpeechSynthesis (Some tinySynthesizer) quietRequest \<lparr>plEnabled = True, plMinChunkRunes = 1, plTargetChunkRunes = 2\<rparr> = Some tinyPipeline"
  by (simp add: tinyPipeline_def newPlannedSpeechSynthesis_def NormalizeSpeechPlannerConfig_def Let_def)

lemma tiny_sound: "sound_synthesis tinyPipeline"
  using buffered_sound
  by (auto simp: sound_synthesis_def clauseStream_def synthesizedPlannedClauseStream_def synthesizedAudioStream_def
      tinyPipeline_def newPlannedSpeechSynthesis_def NormalizeSpeechPlannerConfig_def tinySynthesizer_def Let_def)

lemma tiny_facts:
  "case run_actions tinySchedule [] tinyPipeline of None \<Rightarrow> False
   | Some (es, p) \<Rightarrow> \<not> psCancelled p \<and> Option.is_none (qsCurrent (psStream p)) \<and> qsResults (psStream p) = [] \<and>
       psTaken p \<and> qsResultsClosed (psStream p) \<and> played es = [111, 107] \<and> streamed es = []"
  by code_simp

lemma tiny_run: "pipeline_run tinyPipeline (fst tinyRun) (snd tinyRun)"
proof -
  obtain r where "run_actions tinySchedule [] tinyPipeline = Some r" using tiny_facts by (auto split: option.splits)
  then have "run_actions tinySchedule [] tinyPipeline = Some (fst tinyRun, snd tinyRun)" by (simp add: tinyRun_def)
  then show ?thesis by (rule run_actions_run [OF pipeline_start])
qed

text \<open>
  C2: an answer that is streamed while it is generated is spoken completely and in order. In every
  interleaving of the turn, the synthesis worker and the player, if the player reaches the end of the stream and
  nothing was cancelled, the clauses planned are those the planner makes of the whole answer, the segments played
  are those of the clauses that have audio, in their order, and the bytes played are their audio, provided
  that the speech service does not fail in the middle of a stream.
\<close>
theorem speech_played_completely:
  assumes "newPlannedSpeechSynthesis (Some syn) req cfg = Some p0" and "sound_synthesis p0"
    and "pipeline_run p0 es p" and "\<not> psCancelled p" and "pipeline_step ReadEnd p \<noteq> None"
  shows "\<exists>t. finals es = [t] \<and>
    (let cs = plan_speech (NormalizeSpeechPlannerConfig cfg) (streamed es) t
     in planned es = cs \<and> loaded es = items p0 cs \<and>
        played es = concat (map (\<lambda>c. case clauseStream p0 c of None \<Rightarrow> [] | Some s \<Rightarrow> remaining s) cs))"
proof -
  note d = drained [OF run_control [OF assms(3,1)] assms(4,5)]
  have f: "items p = items p0" using run_order [OF assms(3)] items_cong by blast
  have "order_inv es p" using run_order [OF assms(3)] new_under_way [OF assms(1)] by blast
  then have l: "loaded es = items p0 (planned es)" using d(2) assms(4) f by (simp add: order_inv_def)
  have "played es = concat (map (\<lambda>x. remaining (fst x)) (loaded es))"
    using run_audio [OF assms(3,1,2)] d(3) assms(4) by (simp add: audio_inv_def)
  moreover obtain t where "finals es = [t]" "planned es = plan_speech (NormalizeSpeechPlannerConfig cfg) (streamed es) t"
    using run_planner [OF assms(3,1)] d(1) assms(4) by (auto simp: planner_inv_def)
  ultimately show ?thesis using l concat_items by (auto simp: Let_def)
qed

theorem speech_played_completely_witness:
  "\<exists>t. finals (fst tinyRun) = [t] \<and> (let cs = plan_speech
       (NormalizeSpeechPlannerConfig \<lparr>plEnabled = True, plMinChunkRunes = 1, plTargetChunkRunes = 2\<rparr>) [] t
     in [111, 107] = concat (map (\<lambda>c. case clauseStream tinyPipeline c of None \<Rightarrow> [] | Some s \<Rightarrow> remaining s) cs))"
proof -
  have "\<not> psCancelled (snd tinyRun)" "pipeline_step ReadEnd (snd tinyRun) \<noteq> None" "streamed (fst tinyRun) = []" "played (fst tinyRun) = [111, 107]"
    using tiny_facts by (auto simp: tinyRun_def Option.is_none_def split: option.splits)
  with speech_played_completely [OF tiny_new tiny_sound tiny_run] show ?thesis by (auto simp: Let_def)
qed

text \<open>
  C33: the pipeline is safe under every interleaving, cancellation and early close included: no goroutine sends
  into a closed channel, both channels keep their capacity, segments are never reordered or duplicated, the text
  that starts the playback is that of the first clause, and the planned duration is the sum over all clauses.
\<close>
theorem pipeline_safe:
  assumes "newPlannedSpeechSynthesis syn req cfg = Some p0" and "pipeline_run p0 es p"
  shows "length (psQueue p) \<le> 4 \<and> length (qsResults (psStream p)) \<le> 1 \<and>
    (psProducer p \<noteq> Returned \<longrightarrow> \<not> psQueueClosed p) \<and> (psWorker p \<noteq> Exited \<longrightarrow> \<not> qsResultsClosed (psStream p)) \<and>
    subseq (loaded es) (items p0 (planned es)) \<and>
    (\<forall>t. WaitAudioStart p = Some (Some t) \<longrightarrow> planned es \<noteq> [] \<and> t = clText (hd (planned es))) \<and>
    PlaybackDuration p = sum_list (map clEstimatedDuration (planned es))"
proof -
  have "items p = items p0" using run_order [OF assms(2)] items_cong by blast
  moreover have "order_inv es p" using run_order [OF assms(2)] new_under_way [OF assms(1)] by blast
  ultimately have "subseq (loaded es) (items p0 (planned es))"
    by (metis order_inv_def prefix_imp_subseq prefixI subseq_order.trans)
  then show ?thesis using run_control [OF assms(2,1)]
    by (auto simp: control_inv_def defaultSpeechPlannerQueueSize_def resultsSize_def WaitAudioStart_def PlaybackDuration_def split: if_splits)
qed

theorem pipeline_safe_witness:
  "PlaybackDuration (snd tinyRun) = sum_list (map clEstimatedDuration (planned (fst tinyRun)))"
  using pipeline_safe [OF tiny_new tiny_run] by blast



text \<open>
  C41: without early audio a long answer hangs. A handler that hands the stream to a player only with the finished response,
  as the xiaozhi handler does, never gets that response when more than six clauses of it have audio: while no player has the
  stream and nothing is cancelled, at most seven clauses with audio are planned; with seven of them no goroutine of the pipeline
  can move any more, the queue of four, the worker and the stream's buffer being full and the turn's goroutine blocked inside
  enqueueClause; and Finalize returns only for an answer with at most six.
\<close>
theorem unread_answer_hangs:
  assumes "newPlannedSpeechSynthesis syn req cfg = Some p0" and "pipeline_run p0 es p" and "\<not> psTaken p" and "\<not> psCancelled p"
  shows "length (items p0 (planned es)) \<le> 7 \<and>
    (length (items p0 (planned es)) = 7 \<longrightarrow> (\<forall>a \<in> set (internal_actions False). pipeline_step a p = None)) \<and>
    (psProducer p = Returned \<longrightarrow> length (items p0 (planned es)) \<le> 6)"
proof -
  note c = run_control [OF assms(2,1)]
  have "items p = items p0" using run_order [OF assms(2)] items_cong by blast
  moreover have "order_inv es p" using run_order [OF assms(2)] new_under_way [OF assms(1)] by blast
  ultimately have u: "under_way p = items p0 (planned es)"
    using assms(4) untaken_run [OF assms(2,3)] by (simp add: order_inv_def)
  have l: "length (qsResults (psStream p)) \<le> 1" "length (psQueue p) \<le> 4"
    using c by (simp_all add: control_inv_def resultsSize_def defaultSpeechPlannerQueueSize_def)
  have w: "length (worker_items (psWorker p)) \<le> 1" by (cases "psWorker p") simp_all
  have r: "length (producer_items p (psProducer p)) \<le> (if psProducer p = Returned then 0 else 1)"
    using length_items_one by (cases "psProducer p") simp_all
  have "length (under_way p) \<le> (if psProducer p = Returned then 6 else 7)"
    using l w r length_items [of p "psQueue p"] unfolding under_way_eq length_append by (auto split: if_splits)
  then show ?thesis using full_pipeline_stuck [OF c assms(3,4)] u by (auto split: if_splits)
qed

definition longSchedule :: "pipeline_action list" where
  "longSchedule = [Finalize (lit ''a. b. c. d. e. f. g. h.''), EnqueueNext, SendClause, WorkerReceive, WorkerDeliver,
     EnqueueNext, SendClause, WorkerReceive] @ concat (replicate 4 [EnqueueNext, SendClause]) @ [EnqueueNext]"

definition longRun :: "pipeline_event list \<times> plannedSpeechSynthesis" where
  "longRun = the (run_actions longSchedule [] tinyPipeline)"

lemma long_facts:
  "case run_actions longSchedule [] tinyPipeline of None \<Rightarrow> False
   | Some (es, p) \<Rightarrow> \<not> psCancelled p \<and> \<not> psTaken p \<and> length (items tinyPipeline (planned es)) = 7"
  by code_simp

theorem unread_answer_hangs_witness:
  "length (items tinyPipeline (planned (fst longRun))) = 7 \<and>
   (\<forall>a \<in> set (internal_actions False). pipeline_step a (snd longRun) = None)"
proof -
  obtain r where "run_actions longSchedule [] tinyPipeline = Some r" using long_facts by (auto split: option.splits)
  then have "run_actions longSchedule [] tinyPipeline = Some (fst longRun, snd longRun)" by (simp add: longRun_def)
  then have "pipeline_run tinyPipeline (fst longRun) (snd longRun)" by (rule run_actions_run [OF pipeline_start])
  moreover have "\<not> psTaken (snd longRun)" "\<not> psCancelled (snd longRun)" "length (items tinyPipeline (planned (fst longRun))) = 7"
    using long_facts by (auto simp: longRun_def split: option.splits)
  ultimately show ?thesis using unread_answer_hangs [OF tiny_new] by blast
qed

end
