(* ===== verification/Output_Effects.thy ===== *)
theory Output_Effects
  imports Barge_In Audio_Stream
begin

text \<open>
  Gain ramps on the audio that is played: \<open>internal/gateway/output_effects.go\<close>. The methods hold the mutex for
  their whole body, so that they are functions on the state; the zero time is \<open>None\<close>. CurrentGain resets a
  finished ramp, so it returns the state too.
\<close>

section \<open>State\<close>

record outputEffectState =
  oeAppliedAt :: gotime
  oeAttackUntil :: gotime
  oeHoldUntil :: gotime
  oeReleaseUntil :: gotime
  oeFromGain :: float64
  oeTargetGain :: float64

definition newOutputEffects :: outputEffectState where
  "newOutputEffects = \<lparr>oeAppliedAt = None, oeAttackUntil = None, oeHoldUntil = None, oeReleaseUntil = None, oeFromGain = 0, oeTargetGain = 0\<rparr>"

text \<open>\<open>time.After\<close>, \<open>time.Sub\<close>: the zero time is before every instant that occurs.\<close>

definition timeAfter :: "gotime \<Rightarrow> gotime \<Rightarrow> bool" where
  "timeAfter a b = (case a of None \<Rightarrow> False | Some x \<Rightarrow> (case b of None \<Rightarrow> True | Some y \<Rightarrow> x > y))"

definition timeSub :: "gotime \<Rightarrow> gotime \<Rightarrow> duration" where
  "timeSub a b = (case (a, b) of (Some x, Some y) \<Rightarrow> x - y | _ \<Rightarrow> 0)"

section \<open>Operations\<close>

definition clampGain :: "float64 \<Rightarrow> float64" where
  "clampGain gain = (if gain \<le> 0 then 0 else if gain \<ge> 1 then 1 else gain)"

definition interpolateGain :: "float64 \<Rightarrow> float64 \<Rightarrow> duration \<Rightarrow> duration \<Rightarrow> float64" where
  "interpolateGain from to elapsed whole =
     (if whole \<le> 0 then to
      else let ratio = fdiv (float_of elapsed) (float_of whole)
           in if ratio \<le> 0 then from else if ratio \<ge> 1 then to
              else fadd from (fmul (fsub to from) ratio))"

definition currentGainLocked :: "int \<Rightarrow> outputEffectState \<Rightarrow> float64 \<times> outputEffectState" where
  "currentGainLocked now s =
     (if oeAppliedAt s = None then (1, s)
      else if timeAfter (oeAttackUntil s) (oeAppliedAt s) \<and> timeAfter (oeAttackUntil s) (Some now)
        then (interpolateGain (oeFromGain s) (oeTargetGain s) (timeSub (Some now) (oeAppliedAt s))
                (timeSub (oeAttackUntil s) (oeAppliedAt s)), s)
      else if timeAfter (oeHoldUntil s) (Some now) \<or> oeHoldUntil s = Some now then (oeTargetGain s, s)
      else let releaseStart = (if oeHoldUntil s = None then oeAttackUntil s else oeHoldUntil s)
           in if timeAfter (oeReleaseUntil s) releaseStart \<and> timeAfter (oeReleaseUntil s) (Some now)
              then (interpolateGain (oeTargetGain s) 1 (timeSub (Some now) releaseStart) (timeSub (oeReleaseUntil s) releaseStart), s)
              else (1, \<lparr>oeAppliedAt = None, oeAttackUntil = None, oeHoldUntil = None, oeReleaseUntil = None,
                        oeFromGain = 1, oeTargetGain = 1\<rparr>))"

definition CurrentGain :: "int \<Rightarrow> outputEffectState \<Rightarrow> float64 \<times> outputEffectState" where
  "CurrentGain now s = currentGainLocked now s"

definition ApplyDirective :: "PlaybackDirective \<Rightarrow> int \<Rightarrow> outputEffectState \<Rightarrow> bool \<times> outputEffectState" where
  "ApplyDirective d now s =
     (if \<not> DirectiveShouldDuckOutput d then (False, s)
      else let targetGain = clampGain (dirGain d);
               (cur, s1) = currentGainLocked now s;
               attackUntil = now + maxDuration (dirAttack d) 0;
               holdUntil = attackUntil + maxDuration (dirHold d) 0
           in (True, s1\<lparr>oeAppliedAt := Some now, oeFromGain := cur, oeTargetGain := targetGain, oeAttackUntil := Some attackUntil,
                oeHoldUntil := Some holdUntil, oeReleaseUntil := Some (holdUntil + maxDuration (dirRelease d) 0)\<rparr>))"

definition scaleSample :: "float64 \<Rightarrow> int \<Rightarrow> int" where
  "scaleSample gain sample =
     (let value = Round (fmul (float_of sample) gain)
      in int16 (if value > 32767 then 32767 else if value < - 32768 then - 32768 else value))"

fun scalePCM :: "float64 \<Rightarrow> byte list \<Rightarrow> byte list" where
  "scalePCM gain (lo # hi # rest) = putUint16 (scaleSample gain (int16 (leUint [lo, hi]))) @ scalePCM gain rest"
| "scalePCM gain xs = xs"

definition ApplyPCM16 :: "byte list \<Rightarrow> int \<Rightarrow> outputEffectState \<Rightarrow> byte list \<times> outputEffectState" where
  "ApplyPCM16 chunk now s =
     (let (gain, s') = CurrentGain now s
      in (if gain \<ge> fl (999 / 1000) \<or> length chunk < 2 then chunk else scalePCM gain chunk, s'))"

text \<open>pcm16EffectAudioStream.Next, on the answer of the wrapped stream.\<close>

definition effectStreamNext ::
    "audio_error + byte list \<Rightarrow> int \<Rightarrow> outputEffectState \<Rightarrow> (audio_error + byte list) \<times> outputEffectState" where
  "effectStreamNext answer now s =
     (case answer of
        Inl e \<Rightarrow> (Inl e, s)
      | Inr chunk \<Rightarrow> if chunk = [] then (Inr chunk, s) else let (out, s') = ApplyPCM16 chunk now s in (Inr out, s'))"

inductive effects_reachable :: "outputEffectState \<Rightarrow> bool" where
  effects_new: "effects_reachable newOutputEffects"
| effects_directive: "effects_reachable s \<Longrightarrow> is_float (dirGain d) \<Longrightarrow> effects_reachable (snd (ApplyDirective d now s))"
| effects_play: "effects_reachable s \<Longrightarrow> effects_reachable (snd (effectStreamNext answer now s))"

section \<open>Gains\<close>

definition gain_ok :: "float64 \<Rightarrow> bool" where
  "gain_ok g \<longleftrightarrow> 0 \<le> g \<and> g \<le> 1 \<and> is_float g"

lemma gain_ok_simps [simp]: "gain_ok 0" "gain_ok 1" "is_float g \<Longrightarrow> gain_ok (clampGain g)"
  by (simp_all add: gain_ok_def clampGain_def)

text \<open>Rounding the span of a rising ramp errs by at most half a unit, which the last rounding absorbs at 1.\<close>

lemma fl_just_above_one: "x \<le> 1 + 2 powi (- 54) \<Longrightarrow> fl x \<le> 1"
proof -
  assume x: "x \<le> 1 + 2 powi (- 54)"
  have "fl (1 + 2 powi (- 54)) = 1" by code_simp
  then show ?thesis using fl_mono [OF x] by simp
qed

lemma fl_unit_error: "0 \<le> x \<Longrightarrow> x \<le> 1 \<Longrightarrow> fl x \<le> x + 2 powi (- 54)"
proof (cases "x = 0 \<or> x = 1")
  case False
  moreover assume "0 \<le> x" "x \<le> 1"
  ultimately have "\<bar>fl x - x\<bar> \<le> 2 powi (0 - 54)" by (intro fl_near) simp_all
  then have "fl x - x \<le> 2 powi (- 54)" unfolding abs_le_iff by simp
  then show ?thesis by (simp only: diff_le_eq add.commute)
qed auto

lemma interpolateGain_ok:
  assumes "gain_ok from" and "gain_ok to"
  shows "gain_ok (interpolateGain from to elapsed whole)"
proof -
  let ?r = "fdiv (float_of elapsed) (float_of whole)"
  have "0 \<le> fadd from (fmul (fsub to from) ?r)" "fadd from (fmul (fsub to from) ?r) \<le> 1" if r: "0 < ?r" "?r < 1"
  proof -
    have d0: "- from \<le> fsub to from"
      using fl_mono [of "- from" "to - from"] assms by (simp add: fsub_def gain_ok_def is_float_def fl_minus)
    then have "- from * ?r \<le> fsub to from * ?r" using r by (intro mult_right_mono) simp_all
    moreover have "from * ?r \<le> from" using assms(1) r by (simp add: gain_ok_def mult_left_le)
    ultimately have "- from \<le> fsub to from * ?r" by simp
    then have "fl (- from) \<le> fmul (fsub to from) ?r" using fl_mono [of "- from" "fsub to from * ?r"] by (simp add: fmul_def)
    then show "0 \<le> fadd from (fmul (fsub to from) ?r)"
      using assms(1) by (simp add: fadd_def gain_ok_def is_float_def fl_minus fl_nonneg)
    have "fmul (fsub to from) ?r \<le> max 0 (fsub to from)"
    proof (cases "0 \<le> fsub to from")
      case True
      then have "fsub to from * ?r \<le> fsub to from" using r by (simp add: mult_left_le)
      then show ?thesis using fl_mono [of "fsub to from * ?r" "fsub to from"] is_float_fl [of "to - from"]
        by (simp add: fmul_def fsub_def is_float_def)
    next
      case False
      then have "fsub to from * ?r \<le> 0" using r by (simp add: mult_nonpos_nonneg)
      then show ?thesis using fl_mono [of "fsub to from * ?r" 0] by (simp add: fmul_def)
    qed
    moreover have "from + max 0 (fsub to from) \<le> 1 + 2 powi (- 54)"
    proof (cases "from \<le> to")
      case True
      then have "fsub to from \<le> to - from + 2 powi (- 54)"
        using fl_unit_error [of "to - from"] assms by (simp add: fsub_def gain_ok_def)
      then show ?thesis using assms by (auto simp: gain_ok_def max_def)
    next
      case False
      then have "fsub to from \<le> 0" using fl_mono [of "to - from" 0] by (simp add: fsub_def)
      then show ?thesis using assms by (auto simp: gain_ok_def max_def)
    qed
    ultimately show "fadd from (fmul (fsub to from) ?r) \<le> 1"
      unfolding fadd_def by (intro fl_just_above_one) linarith
  qed
  then show ?thesis using assms by (auto simp: interpolateGain_def Let_def gain_ok_def fadd_def)
qed


definition effects_inv :: "outputEffectState \<Rightarrow> bool" where
  "effects_inv s \<longleftrightarrow> oeAppliedAt s = None \<or>
     (\<exists>a b c d. oeAppliedAt s = Some a \<and> oeAttackUntil s = Some b \<and> oeHoldUntil s = Some c \<and> oeReleaseUntil s = Some d \<and>
        a \<le> b \<and> b \<le> c \<and> c \<le> d \<and> gain_ok (oeFromGain s) \<and> gain_ok (oeTargetGain s))"

lemma current_gain_ok:
  assumes "effects_inv s"
  shows "gain_ok (fst (currentGainLocked now s)) \<and> effects_inv (snd (currentGainLocked now s))"
  using assms interpolateGain_ok [of "oeFromGain s" "oeTargetGain s"] interpolateGain_ok [of "oeTargetGain s" 1]
  by (auto simp: currentGainLocked_def effects_inv_def Let_def)

lemma directive_inv: "effects_inv s \<Longrightarrow> is_float (dirGain d) \<Longrightarrow> effects_inv (snd (ApplyDirective d now s))"
  using current_gain_ok [of s now]
  by (auto simp: ApplyDirective_def effects_inv_def Let_def split: prod.splits)

lemma effect_next_inv: "effects_inv s \<Longrightarrow> effects_inv (snd (effectStreamNext answer now s))"
  using current_gain_ok [of s now]
  by (auto simp: effectStreamNext_def ApplyPCM16_def CurrentGain_def Let_def split: sum.split prod.splits)

lemma effects_reachable_inv: "effects_reachable s \<Longrightarrow> effects_inv s"
  by (induction rule: effects_reachable.induct)
    (simp_all add: directive_inv effect_next_inv, simp add: effects_inv_def newOutputEffects_def)

text \<open>After the release nothing is left of the ramp.\<close>

lemma gain_after_release:
  assumes "effects_inv s" and "\<forall>r. oeReleaseUntil s = Some r \<longrightarrow> r < now"
  shows "fst (currentGainLocked now s) = 1"
  using assms by (auto simp: effects_inv_def currentGainLocked_def timeAfter_def Let_def)

section \<open>Samples\<close>

text \<open>A sample keeps its sign and does not grow.\<close>

definition damped :: "int \<Rightarrow> int \<Rightarrow> bool" where
  "damped a b \<longleftrightarrow> (0 \<le> a \<longrightarrow> 0 \<le> b \<and> b \<le> a) \<and> (a \<le> 0 \<longrightarrow> a \<le> b \<and> b \<le> 0)"

lemma damped_scale:
  assumes "0 \<le> g" and "g \<le> 1" and "- (2 ^ 15) \<le> a" and "a < 2 ^ 15"
  shows "damped a (scaleSample g a)"
proof -
  let ?v = "Round (fmul (float_of a) g)"
  have f: "float_of a = of_int a" using assms by (intro float_of_id) (simp add: abs_less_iff)
  have v: "damped a ?v"
  proof (cases "0 \<le> a")
    case True
    then have "0 \<le> of_int a * g" "of_int a * g \<le> of_int a" using assms by (simp_all add: mult_left_le)
    then have "of_int 0 \<le> fmul (of_int a) g" "fmul (of_int a) g \<le> of_int a"
      unfolding fmul_def using assms True by (simp add: fl_nonneg, intro fl_le_int, simp_all)
    then have "0 \<le> ?v \<and> ?v \<le> a" unfolding f by (rule Round_between)
    then show ?thesis using True by (auto simp: damped_def)
  next
    case False
    then have "of_int a * g \<le> 0" "of_int a \<le> of_int a * g" using assms by (simp_all add: mult_nonpos_nonneg mult_le_cancel_left1)
    then have "of_int a \<le> fmul (of_int a) g" "fmul (of_int a) g \<le> of_int 0"
      unfolding fmul_def using assms False fl_mono [of "of_int a * g" 0] by (intro fl_ge_int, simp_all)
    then have "a \<le> ?v \<and> ?v \<le> 0" unfolding f by (rule Round_between)
    then show ?thesis using False by (auto simp: damped_def)
  qed
  then have "- (2 ^ 15) \<le> ?v" "?v < 2 ^ 15" using assms by (auto simp: damped_def)
  then have "scaleSample g a = ?v" by (simp add: scaleSample_def Let_def int16_id)
  then show ?thesis using v by simp
qed

lemma scalePCM_length: "length (scalePCM g xs) = length xs"
  by (induction g xs rule: scalePCM.induct) (simp_all add: putUint16_def)

lemma scaleSample_int16: "int16 (scaleSample g a) = scaleSample g a"
  using int16_bounds by (auto simp: scaleSample_def Let_def intro!: int16_id)

lemma scalePCM_samples: "pcmSamples (scalePCM g xs) = map (scaleSample g) (pcmSamples xs)"
  by (induction g xs rule: scalePCM.induct) (simp_all add: pcmSamples_put scaleSample_int16 del: leUint.simps)

lemma damped_refl: "damped a a"
  by (simp add: damped_def)

section \<open>Properties\<close>

text \<open>
  C39: ducking never amplifies, clips or wraps, and it ends. After any sequence of directives and played chunks, the
  gain lies between 0 and 1 although its ramp is computed in float64; a chunk keeps its length, every
  sample keeps its sign and does not grow in size, and once the release is over chunks are played unchanged.
\<close>
theorem ducking_safe:
  assumes "effects_reachable s"
  shows "0 \<le> fst (CurrentGain now s) \<and> fst (CurrentGain now s) \<le> 1 \<and>
    length (fst (ApplyPCM16 chunk now s)) = length chunk \<and>
    list_all2 damped (pcmSamples chunk) (pcmSamples (fst (ApplyPCM16 chunk now s))) \<and>
    ((\<forall>r. oeReleaseUntil s = Some r \<longrightarrow> r < now) \<longrightarrow> fst (ApplyPCM16 chunk now s) = chunk)"
proof -
  let ?g = "fst (CurrentGain now s)" and ?out = "fst (ApplyPCM16 chunk now s)"
  note inv = effects_reachable_inv [OF assms]
  have g: "0 \<le> ?g" "?g \<le> 1" using current_gain_ok [OF inv, of now] by (simp_all add: CurrentGain_def gain_ok_def)
  have out: "?out = chunk \<or> ?out = scalePCM ?g chunk" by (simp add: ApplyPCM16_def case_prod_beta Let_def)
  have "list_all2 damped (pcmSamples chunk) (map (scaleSample ?g) (pcmSamples chunk))"
    using damped_scale [OF g] pcmSamples_bounds [OF nth_mem, of _ chunk] by (simp add: list_all2_conv_all_nth)
  moreover have "list_all2 damped (pcmSamples chunk) (pcmSamples chunk)" by (simp add: list_all2_refl damped_refl)
  moreover have "?out = chunk" if "\<forall>r. oeReleaseUntil s = Some r \<longrightarrow> r < now"
  proof -
    have "?g = 1" using gain_after_release [OF inv that] by (simp add: CurrentGain_def)
    moreover have "fl (999 / 1000) \<le> 1" by (simp add: fl_le_one)
    ultimately show ?thesis by (simp add: ApplyPCM16_def case_prod_beta Let_def)
  qed
  ultimately show ?thesis using g out by (auto simp: scalePCM_length scalePCM_samples)
qed

theorem ducking_safe_witness:
  "let d = \<lparr>dirAction = ActionDuckHold, dirPolicy = PolicyDuckOnly, dirReason = [], dirGain = fl (36 / 100), dirAttack = 30,
      dirHold = 200, dirRelease = 220, dirKeepPreview = True, dirKeepPendingAudio = True\<rparr>;
     s = snd (ApplyDirective d 10 newOutputEffects)
   in 0 \<le> fst (CurrentGain 25 s) \<and> fst (CurrentGain 25 s) \<le> 1 \<and> length (fst (ApplyPCM16 [0, 64, 0, 192, 7] 25 s)) = 5 \<and>
      fst (ApplyPCM16 [0, 64, 0, 192, 7] 1000 s) = [0, 64, 0, 192, 7]"
proof -
  let ?d = "\<lparr>dirAction = ActionDuckHold, dirPolicy = PolicyDuckOnly, dirReason = [], dirGain = fl (36 / 100), dirAttack = 30,
      dirHold = 200, dirRelease = 220, dirKeepPreview = True, dirKeepPendingAudio = True\<rparr>"
  let ?s = "snd (ApplyDirective ?d 10 newOutputEffects)"
  have r: "effects_reachable ?s" by (intro effects_directive effects_new) simp
  moreover have "\<forall>r. oeReleaseUntil ?s = Some r \<longrightarrow> r < 1000"
    by (simp add: ApplyDirective_def DirectiveShouldDuckOutput_def currentGainLocked_def newOutputEffects_def)
  ultimately show ?thesis using ducking_safe [OF r, of 25 "[0, 64, 0, 192, 7]"] ducking_safe [OF r, of 1000 "[0, 64, 0, 192, 7]"]
    by (simp add: Let_def)
qed

end
