(* ===== verification/Playback_Ack.thy ===== *)
theory Playback_Ack
  imports Orchestrator "HOL-Library.AList"
begin

text \<open>
  Playback collaboration with the client: \<open>internal/gateway/voice_collaboration.go\<close>. The server announces the
  segments of an answer, the client acknowledges how far it has played them, and the acknowledgement is turned
  into the text that was heard. Methods hold the mutex of playbackAckState for their whole body. The map of
  segments is an association list; a nil map is the empty one. The channel waitCh is \<open>None\<close> when nil, else
  whether it is closed.
\<close>

section \<open>Negotiation\<close>

record RealtimeProfile =
  prProtocolVersion :: gostring
  prServerEndpointEnabled :: bool
  prBargeInMinAudioMs :: int
  prBargeInHoldAudioMs :: int
  prIdleTimeoutMs :: int
  prMaxSessionMs :: int
  prMaxFrameBytes :: int
  prInputCodec :: gostring
  prInputSampleRate :: int
  prInputChannels :: int
  prAllowOpus :: bool
  prAllowTextInput :: bool

record previewEventsProfile =
  ppEnabled :: bool
  ppSpeechStart :: bool
  ppPartial :: bool
  ppEndpointCandidate :: bool
  ppMode :: gostring

record playbackAckProfile =
  pkEnabled :: bool
  pkStarted :: bool
  pkMark :: bool
  pkCleared :: bool
  pkCompleted :: bool
  pkMode :: gostring

record voiceCollaborationProfile =
  vcPreviewEvents :: previewEventsProfile
  vcPlaybackAck :: playbackAckProfile

text \<open>\<open>capPlaybackAck\<close> is the mode of the optional playback_ack capability.\<close>

record sessionStartCapabilities =
  capPreviewEvents :: bool
  capPlaybackAck :: "gostring option"

record collaborationNegotiation =
  cnPreviewEvents :: bool
  cnPlaybackAckMode :: gostring

definition previewEventModePreviewV1 :: gostring where "previewEventModePreviewV1 = lit ''preview_v1''"
definition playbackAckModeSegmentMarkV1 :: gostring where "playbackAckModeSegmentMarkV1 = lit ''segment_mark_v1''"

definition voiceCollaborationProfileOf :: "RealtimeProfile \<Rightarrow> voiceCollaborationProfile" where
  "voiceCollaborationProfileOf p =
     \<lparr>vcPreviewEvents = \<lparr>ppEnabled = prServerEndpointEnabled p, ppSpeechStart = prServerEndpointEnabled p,
        ppPartial = prServerEndpointEnabled p, ppEndpointCandidate = prServerEndpointEnabled p, ppMode = previewEventModePreviewV1\<rparr>,
      vcPlaybackAck = \<lparr>pkEnabled = True, pkStarted = True, pkMark = True, pkCleared = True, pkCompleted = True,
        pkMode = playbackAckModeSegmentMarkV1\<rparr>\<rparr>"

definition negotiateVoiceCollaboration :: "RealtimeProfile \<Rightarrow> sessionStartCapabilities \<Rightarrow> collaborationNegotiation" where
  "negotiateVoiceCollaboration profile caps =
     (let c = voiceCollaborationProfileOf profile
      in \<lparr>cnPreviewEvents = (ppEnabled (vcPreviewEvents c) \<and> capPreviewEvents caps),
          cnPlaybackAckMode = (case capPlaybackAck caps of
             None \<Rightarrow> []
           | Some mode \<Rightarrow> if pkEnabled (vcPlaybackAck c) \<and> TrimSpace mode = playbackAckModeSegmentMarkV1 then mode else [])\<rparr>)"

definition noCollaboration :: collaborationNegotiation where
  "noCollaboration = \<lparr>cnPreviewEvents = False, cnPlaybackAckMode = []\<rparr>"

definition PlaybackAckEnabled :: "collaborationNegotiation \<Rightarrow> bool" where
  "PlaybackAckEnabled n \<longleftrightarrow> TrimSpace (cnPlaybackAckMode n) \<noteq> []"

definition playbackAckMode :: "sessionStartCapabilities \<Rightarrow> gostring" where
  "playbackAckMode c = (case capPlaybackAck c of None \<Rightarrow> [] | Some mode \<Rightarrow> TrimSpace mode)"

definition validatePlaybackAckMode :: "gostring \<Rightarrow> gostring option" where
  "validatePlaybackAckMode mode =
     (let m = TrimSpace mode
      in if m = [] \<or> m = playbackAckModeSegmentMarkV1 then None else Some (lit ''unsupported playback_ack.mode '' @ m))"

section \<open>Segments\<close>

text \<open>\<open>maxInt\<close> of package \<open>gateway\<close>.\<close>

definition gatewayMaxInt :: "int \<Rightarrow> int \<Rightarrow> int" where
  "gatewayMaxInt value fallback = (if value > 0 then value else fallback)"

record audioPlaybackMeta =
  amResponseID :: gostring
  amPlaybackID :: gostring
  amSegmentID :: gostring
  amText :: gostring
  amExpectedDuration :: duration
  amIsLastSegment :: bool
  amSegmentIndex :: int
  amTextBefore :: gostring
  amTextAfter :: gostring
  amDurationBefore :: duration
  amDurationAfter :: duration

definition cursorMeta :: "gostring \<Rightarrow> gostring \<Rightarrow> audioPlaybackMeta" where
  "cursorMeta responseID playbackID =
     \<lparr>amResponseID = responseID, amPlaybackID = playbackID, amSegmentID = [], amText = [], amExpectedDuration = 0,
      amIsLastSegment = False, amSegmentIndex = 0, amTextBefore = [], amTextAfter = [], amDurationBefore = 0, amDurationAfter = 0\<rparr>"

text \<open>Formatting with \<open>%04d\<close>.\<close>

definition pad4 :: "int \<Rightarrow> gostring" where
  "pad4 n = replicate (4 - length (Itoa n)) 48 @ Itoa n"

definition audioPlaybackSegmentID :: "gostring \<Rightarrow> int \<Rightarrow> gostring" where
  "audioPlaybackSegmentID responseID segmentIndex =
     lit ''segment_'' @ responseID @ lit ''_'' @ pad4 (if segmentIndex \<le> 0 then 1 else segmentIndex)"

text \<open>\<open>nowNano\<close> is the clock reading used for a missing response id.\<close>

definition newAudioPlaybackMeta :: "int \<Rightarrow> gostring \<Rightarrow> gostring \<Rightarrow> duration \<Rightarrow> audioPlaybackMeta" where
  "newAudioPlaybackMeta nowNano responseID t expectedDuration =
     (let r = TrimSpace responseID; rid = (if r = [] then lit ''resp_'' @ Itoa nowNano else r); trimmedText = TrimSpace t
      in \<lparr>amResponseID = rid, amPlaybackID = lit ''playback_'' @ rid, amSegmentID = audioPlaybackSegmentID rid 1,
          amText = trimmedText, amExpectedDuration = expectedDuration, amIsLastSegment = True, amSegmentIndex = 1,
          amTextBefore = [], amTextAfter = trimmedText, amDurationBefore = 0, amDurationAfter = expectedDuration\<rparr>)"

definition nextSegmentAudioPlaybackMeta :: "audioPlaybackMeta \<Rightarrow> gostring \<Rightarrow> duration \<Rightarrow> bool \<Rightarrow> audioPlaybackMeta" where
  "nextSegmentAudioPlaybackMeta base segmentText expectedDuration isLast =
     (let t = TrimSpace segmentText;
          index = (if amSegmentIndex base + 1 \<le> 0 then 1 else amSegmentIndex base + 1);
          textBefore = amTextAfter base;
          durationBefore = amDurationAfter base
      in \<lparr>amResponseID = amResponseID base, amPlaybackID = amPlaybackID base,
          amSegmentID = audioPlaybackSegmentID (amResponseID base) index,
          amText = t, amExpectedDuration = expectedDuration, amIsLastSegment = isLast, amSegmentIndex = index,
          amTextBefore = textBefore, amTextAfter = TrimSpace (textBefore @ t),
          amDurationBefore = durationBefore, amDurationAfter = durationBefore + expectedDuration\<rparr>)"

definition previewAudioOffsetMs :: "int \<Rightarrow> int \<Rightarrow> int \<Rightarrow> int" where
  "previewAudioOffsetMs nbytes rate chans =
     (if nbytes \<le> 0 \<or> rate \<le> 0 \<or> chans \<le> 0 then 0
      else let bytesPerMillisecond = fdiv (float_of (rate * chans * 2)) 1000
           in if bytesPerMillisecond \<le> 0 then 0 else \<lfloor>fdiv (float_of nbytes) bytesPerMillisecond\<rfloor>)"

text \<open>\<open>audioDurationMs\<close> of package \<open>gateway\<close>.\<close>

definition playbackDurationMs :: "duration \<Rightarrow> int" where
  "playbackDurationMs d = (if d \<le> 0 then 0 else d sdiv Millisecond)"

definition clampPlaybackMarkDuration :: "duration \<Rightarrow> duration \<Rightarrow> duration" where
  "clampPlaybackMarkDuration value maxValue =
     (if value < 0 then 0 else if maxValue > 0 \<and> value > maxValue then maxValue else value)"

definition voiceHeardTextForPlayback :: "gostring \<Rightarrow> duration \<Rightarrow> duration \<Rightarrow> gostring" where
  "voiceHeardTextForPlayback t playedDuration plannedDuration =
     (let runes = TrimSpace t; n = int (length runes)
      in if runes = [] \<or> playedDuration \<le> 0 then []
         else if plannedDuration > 0 then
           let ratio = fdiv (float_of playedDuration) (float_of plannedDuration)
           in if ratio \<ge> 1 then runes
              else take (nat (clampCount n \<lceil>fmul (float_of n) ratio\<rceil>)) runes
         else take (nat (clampCount n (playedDuration sdiv (110 * Millisecond)))) runes)"

definition heardTextForPlaybackSegment :: "audioPlaybackMeta \<Rightarrow> duration \<Rightarrow> gostring" where
  "heardTextForPlaybackSegment meta localPlayed =
     (let loc = TrimSpace (amText meta)
      in if loc = [] then TrimSpace (amTextBefore meta)
         else TrimSpace (TrimSpace (amTextBefore meta) @ voiceHeardTextForPlayback loc localPlayed (amExpectedDuration meta)))"

definition previewTextStability :: "gostring \<Rightarrow> gostring \<Rightarrow> float64 option" where
  "previewTextStability t stableText =
     (let n = length (TrimSpace t)
      in if n = 0 then None
         else let v = fdiv (float_of (int (length (TrimSpace stableText)))) (float_of (int n))
              in Some (if v < 0 then 0 else if v > 1 then 1 else v))"

section \<open>Acknowledgement state\<close>

datatype playbackAckTerminal = AckNone | AckCleared | AckCompleted

record playbackAckState =
  paMeta :: audioPlaybackMeta
  paSegments :: "(gostring \<times> audioPlaybackMeta) list"
  paStartedAt :: gotime
  paLastMarkMs :: int
  paClearedAt :: gotime
  paClearedReason :: gostring
  paCompletedAt :: gotime
  paCompleted :: bool
  paTerminal :: playbackAckTerminal
  paWaitCh :: "bool option"

definition noPlaybackAck :: playbackAckState where
  "noPlaybackAck = \<lparr>paMeta = cursorMeta [] [], paSegments = [], paStartedAt = None, paLastMarkMs = 0, paClearedAt = None,
     paClearedReason = [], paCompletedAt = None, paCompleted = False, paTerminal = AckNone, paWaitCh = None\<rparr>"

definition installPlaybackAckMeta :: "audioPlaybackMeta \<Rightarrow> playbackAckState \<Rightarrow> playbackAckState" where
  "installPlaybackAckMeta meta s = noPlaybackAck\<lparr>paMeta := cursorMeta (amResponseID meta) (amPlaybackID meta), paWaitCh := Some False\<rparr>"

definition clearPlaybackAckState :: "playbackAckState \<Rightarrow> playbackAckState" where
  "clearPlaybackAckState s = noPlaybackAck"

definition playbackAckMetaForSegmentLocked :: "playbackAckState \<Rightarrow> gostring \<Rightarrow> audioPlaybackMeta" where
  "playbackAckMetaForSegmentLocked s segmentID =
     (let t = TrimSpace segmentID
      in if t = [] then paMeta s else case map_of (paSegments s) t of Some meta \<Rightarrow> meta | None \<Rightarrow> paMeta s)"

definition activatePlaybackAckSegment :: "audioPlaybackMeta \<Rightarrow> playbackAckState \<Rightarrow> playbackAckState" where
  "activatePlaybackAckSegment meta s =
     (if TrimSpace (amSegmentID meta) \<noteq> [] then s\<lparr>paSegments := AList.update (amSegmentID meta) meta (paSegments s)\<rparr> else s)
       \<lparr>paMeta := meta\<rparr>"

definition startedOnce :: "int \<Rightarrow> playbackAckState \<Rightarrow> playbackAckState" where
  "startedOnce now s = (if paStartedAt s = None then s\<lparr>paStartedAt := Some now\<rparr> else s)"

definition raiseLastMark :: "duration \<Rightarrow> playbackAckState \<Rightarrow> playbackAckState" where
  "raiseLastMark played s =
     (let ms = playbackDurationMs played in if ms > paLastMarkMs s then s\<lparr>paLastMarkMs := ms\<rparr> else s)"

definition recordPlaybackStarted :: "int \<Rightarrow> playbackAckState \<Rightarrow> audioPlaybackMeta \<times> playbackAckState" where
  "recordPlaybackStarted now s = (let s' = startedOnce now s in (paMeta s', s'))"

definition recordPlaybackMark ::
    "int \<Rightarrow> gostring \<Rightarrow> int \<Rightarrow> playbackAckState \<Rightarrow> (audioPlaybackMeta \<times> duration \<times> gostring) \<times> playbackAckState" where
  "recordPlaybackMark now segmentID playedDurationMs s =
     (let meta = playbackAckMetaForSegmentLocked s segmentID;
          localPlayed = clampPlaybackMarkDuration (int64 (gatewayMaxInt playedDurationMs 0 * Millisecond)) (amExpectedDuration meta);
          totalPlayed = amDurationBefore meta + localPlayed
      in ((meta, totalPlayed, heardTextForPlaybackSegment meta localPlayed), startedOnce now (raiseLastMark totalPlayed s)))"

definition finishLocked :: "playbackAckTerminal \<Rightarrow> playbackAckState \<Rightarrow> playbackAckState" where
  "finishLocked terminal s =
     (if paTerminal s \<noteq> AckNone then s
      else s\<lparr>paTerminal := terminal, paWaitCh := (case paWaitCh s of None \<Rightarrow> None | Some _ \<Rightarrow> Some True)\<rparr>)"

definition recordPlaybackCleared ::
    "int \<Rightarrow> gostring \<Rightarrow> gostring \<Rightarrow> playbackAckState \<Rightarrow> (audioPlaybackMeta \<times> duration \<times> gostring) \<times> playbackAckState" where
  "recordPlaybackCleared now segmentID reason s =
     (let meta = playbackAckMetaForSegmentLocked s segmentID;
          s1 = (raiseLastMark (amDurationAfter meta) s)\<lparr>paClearedAt := Some now, paClearedReason := TrimSpace reason\<rparr>
      in ((meta, amDurationAfter meta, TrimSpace (amTextAfter meta)), finishLocked AckCleared s1))"

definition recordPlaybackCompleted :: "int \<Rightarrow> playbackAckState \<Rightarrow> audioPlaybackMeta \<times> playbackAckState" where
  "recordPlaybackCompleted now s =
     (let s' = finishLocked AckCompleted (s\<lparr>paCompletedAt := Some now, paCompleted := True\<rparr>) in (paMeta s', s'))"

text \<open>waitForPlaybackAckTerminal: the answer it gives at once, or \<open>None\<close> when it has to wait for the channel.\<close>

definition waitForPlaybackAckTerminal :: "playbackAckState \<Rightarrow> (playbackAckTerminal \<times> gostring \<times> bool) option" where
  "waitForPlaybackAckTerminal s =
     (if paTerminal s \<noteq> AckNone then Some (paTerminal s, paClearedReason s, True)
      else if paWaitCh s = None then Some (AckNone, [], False) else None)"

definition playbackAckTerminalWaitTimeout :: "audioPlaybackMeta \<Rightarrow> duration" where
  "playbackAckTerminalWaitTimeout meta =
     (if amExpectedDuration meta \<ge> 1500 * Millisecond then 1200 * Millisecond
      else if amExpectedDuration meta \<ge> 600 * Millisecond then 900 * Millisecond else 600 * Millisecond)"

definition validatePlaybackAckIdentity :: "audioPlaybackMeta \<Rightarrow> gostring \<Rightarrow> gostring \<Rightarrow> bool" where
  "validatePlaybackAckIdentity meta responseID playbackID \<longleftrightarrow>
     TrimSpace responseID \<noteq> [] \<and> TrimSpace playbackID \<noteq> [] \<and> amResponseID meta \<noteq> [] \<and> amPlaybackID meta \<noteq> [] \<and>
     amResponseID meta = responseID \<and> amPlaybackID meta = playbackID"

text \<open>syncAnnouncedPlaybackContext hands the announced text and duration to the orchestrator.\<close>

definition syncAnnouncedPlaybackContext :: "playbackAckState \<Rightarrow> SessionOrchestrator \<Rightarrow> SessionOrchestrator" where
  "syncAnnouncedPlaybackContext s o1 =
     (let meta = paMeta s;
          deliveredText = (if TrimSpace (amTextAfter meta) = [] then TrimSpace (amText meta) else TrimSpace (amTextAfter meta));
          plannedDuration = (if amDurationAfter meta \<le> 0 then amExpectedDuration meta else amDurationAfter meta)
      in if deliveredText = [] \<and> plannedDuration \<le> 0 then o1 else UpdatePlayback deliveredText plannedDuration o1)"


section \<open>The gateway's estimate\<close>

lemma voiceHeardTextForPlayback_eq: "voiceHeardTextForPlayback = estimateText (110 * Millisecond)"
  by (simp add: fun_eq_iff voiceHeardTextForPlayback_def estimateText_def Let_def)

interpretation gateway_estimate: heard_estimate voiceHeardTextForPlayback
  unfolding voiceHeardTextForPlayback_eq by (rule estimateText_laws) simp

section \<open>Invariant\<close>

text \<open>A segment continues the text and the duration announced before it.\<close>

definition meta_ok :: "audioPlaybackMeta \<Rightarrow> bool" where
  "meta_ok m \<longleftrightarrow> trimmed (amTextBefore m) \<and> trimmed (amText m) \<and> amTextAfter m = TrimSpace (amTextBefore m @ amText m) \<and>
     0 \<le> amExpectedDuration m \<and> 0 \<le> amDurationBefore m \<and> amDurationAfter m = amDurationBefore m + amExpectedDuration m"

text \<open>
  \<open>c\<close> is the segment the playback goroutine announced last: every recorded segment is part of what was
  announced up to it. The wait channel is closed exactly when a terminal acknowledgement was recorded.
\<close>

definition announced :: "audioPlaybackMeta \<Rightarrow> audioPlaybackMeta \<Rightarrow> bool" where
  "announced c m \<longleftrightarrow> meta_ok m \<and> prefix (amTextAfter m) (amTextAfter c) \<and> amDurationAfter m \<le> amDurationAfter c"

definition ack_inv :: "audioPlaybackMeta \<Rightarrow> playbackAckState \<Rightarrow> bool" where
  "ack_inv c s \<longleftrightarrow> meta_ok c \<and> announced c (paMeta s) \<and> (\<forall>m \<in> set (map snd (paSegments s)). announced c m) \<and>
     0 \<le> paLastMarkMs s \<and> (paWaitCh s \<noteq> None \<longrightarrow> paWaitCh s = Some (paTerminal s \<noteq> AckNone))"

lemma trimmed_append: "trimmed a \<Longrightarrow> trimmed b \<Longrightarrow> trimmed (a @ b)"
  by (auto simp: trimmed_def hd_append last_append)

lemma prefix_TrimSpace_append:
  assumes "trimmed a"
  shows "prefix a (TrimSpace (a @ b))"
proof (cases "a = []")
  case False
  then have "\<not> is_space (hd a)" "dropWhile is_space (rev a) = rev a"
    using assms by (cases a rule: rev_cases; simp add: trimmed_def)+
  then show ?thesis using False
    by (cases a) (auto simp: TrimSpace_def trim_left_def trim_right_def dropWhile_append)
qed simp

lemma meta_text_after: "meta_ok m \<Longrightarrow> amTextAfter m = amTextBefore m @ amText m"
  by (simp add: meta_ok_def trimmed_append trimmed_id)

lemma meta_ok_new: "0 \<le> d \<Longrightarrow> meta_ok (newAudioPlaybackMeta n r t d)"
  by (simp add: meta_ok_def newAudioPlaybackMeta_def Let_def trimmed_def [of "[]"])

lemma meta_ok_cursor: "meta_ok (cursorMeta r p)"
  by (simp add: meta_ok_def cursorMeta_def trimmed_def)

lemma meta_ok_next: "meta_ok m \<Longrightarrow> 0 \<le> d \<Longrightarrow> meta_ok (nextSegmentAudioPlaybackMeta m t d l)"
  by (auto simp: meta_ok_def nextSegmentAudioPlaybackMeta_def Let_def)

lemma playbackDurationMs_mono: "a \<le> b \<Longrightarrow> playbackDurationMs a \<le> playbackDurationMs b"
  by (auto simp: playbackDurationMs_def sdiv_nonneg zdiv_mono1 pos_imp_zdiv_nonneg_iff)

lemma playbackDurationMs_nonneg: "0 \<le> playbackDurationMs a"
  by (simp add: playbackDurationMs_def sdiv_nonneg pos_imp_zdiv_nonneg_iff)

lemma announced_refl: "meta_ok c \<Longrightarrow> announced c c"
  by (simp add: announced_def)

lemma announced_next:
  assumes "announced c m" and "meta_ok c" and "0 \<le> d"
  shows "announced (nextSegmentAudioPlaybackMeta c t d l) m"
proof -
  have "amTextAfter (nextSegmentAudioPlaybackMeta c t d l) = amTextAfter c @ TrimSpace t"
    using meta_text_after [OF meta_ok_next [OF assms(2,3), of t l]] by (simp add: nextSegmentAudioPlaybackMeta_def Let_def)
  then show ?thesis using assms
    by (auto simp: announced_def nextSegmentAudioPlaybackMeta_def Let_def prefix_def)
qed

lemma announced_cursor: "meta_ok c \<Longrightarrow> announced c (cursorMeta r p)"
  by (auto simp: announced_def meta_ok_cursor) (auto simp: cursorMeta_def meta_ok_def)

text \<open>The segment a client names is one of those announced.\<close>

lemma announced_for_segment:
  assumes "ack_inv c s"
  shows "announced c (playbackAckMetaForSegmentLocked s i)"
  using assms map_of_SomeD [of "paSegments s" "TrimSpace i"]
  by (force simp: ack_inv_def playbackAckMetaForSegmentLocked_def Let_def split: option.split)

lemma heard_segment_prefix:
  assumes "meta_ok m"
  shows "prefix (heardTextForPlaybackSegment m d) (amTextAfter m)"
    and "prefix (amTextBefore m) (heardTextForPlaybackSegment m d)"
proof -
  have t: "TrimSpace (amTextBefore m) = amTextBefore m" "TrimSpace (amText m) = amText m"
    using assms by (simp_all add: meta_ok_def trimmed_id)
  let ?h = "voiceHeardTextForPlayback (amText m) d (amExpectedDuration m)"
  have h: "prefix ?h (amText m)" using gateway_estimate.estimate_prefix [of "amText m"] t(2) by simp
  have "prefix (amTextBefore m @ ?h) (amTextBefore m @ amText m)" using h by simp
  then have p: "prefix (TrimSpace (amTextBefore m @ ?h)) (amTextBefore m @ amText m)"
    using assms by (intro prefix_TrimSpace_trimmed trimmed_append) (simp_all add: meta_ok_def)
  have q: "prefix (amTextBefore m) (TrimSpace (amTextBefore m @ ?h))"
    using assms by (intro prefix_TrimSpace_append) (simp add: meta_ok_def)
  show "prefix (heardTextForPlaybackSegment m d) (amTextAfter m)" "prefix (amTextBefore m) (heardTextForPlaybackSegment m d)"
    using p q meta_text_after [OF assms] by (auto simp: heardTextForPlaybackSegment_def t Let_def)
qed


section \<open>Playback of one answer\<close>

text \<open>
  The calls on the acknowledgement state, with the cursor of the goroutine of startAudioStream: a new output
  installs its identifiers, its goroutine announces either the whole answer as one segment or one segment after
  the other, the client acknowledges at any time, and the end of the output, of the session and a new session
  clear the state. Only one output is announced at a time.
\<close>

inductive ack_step :: "audioPlaybackMeta \<times> playbackAckState \<Rightarrow> audioPlaybackMeta \<times> playbackAckState \<Rightarrow> bool" where
  install: "ack_step (c, s) (cursorMeta (amResponseID m) (amPlaybackID m), installPlaybackAckMeta m s)"
| single: "0 \<le> d \<Longrightarrow> c = cursorMeta r p \<Longrightarrow> m = newAudioPlaybackMeta n rid t d \<Longrightarrow>
    paSegments s = [] \<Longrightarrow> ack_step (c, s) (m, activatePlaybackAckSegment m s)"
| segment: "0 \<le> d \<Longrightarrow> m = nextSegmentAudioPlaybackMeta c t d l \<Longrightarrow> ack_step (c, s) (m, activatePlaybackAckSegment m s)"
| started: "ack_step (c, s) (c, snd (recordPlaybackStarted now s))"
| mark: "ack_step (c, s) (c, snd (recordPlaybackMark now i ms s))"
| cleared: "ack_step (c, s) (c, snd (recordPlaybackCleared now i r s))"
| completed: "ack_step (c, s) (c, snd (recordPlaybackCompleted now s))"
| clear: "ack_step (c, s) (c, clearPlaybackAckState s)"

abbreviation ack_reachable :: "audioPlaybackMeta \<times> playbackAckState \<Rightarrow> bool" where
  "ack_reachable cs \<equiv> ack_step\<^sup>*\<^sup>* (cursorMeta [] [], noPlaybackAck) cs"

lemmas ack_defs = installPlaybackAckMeta_def clearPlaybackAckState_def noPlaybackAck_def recordPlaybackStarted_def
  startedOnce_def recordPlaybackMark_def raiseLastMark_def recordPlaybackCleared_def finishLocked_def
  recordPlaybackCompleted_def Let_def

lemma ack_inv_initial: "meta_ok c \<Longrightarrow> ack_inv c noPlaybackAck"
  by (simp add: ack_inv_def noPlaybackAck_def announced_cursor)

lemma ack_inv_activate:
  assumes "ack_inv c s" and "meta_ok m" and "\<And>x. x = paMeta s \<or> x \<in> snd ` set (paSegments s) \<Longrightarrow> announced m x"
  shows "ack_inv m (activatePlaybackAckSegment m s)"
proof -
  have "set (AList.update k v xs) \<subseteq> insert (k, v) (set xs)" for k :: gostring and v :: audioPlaybackMeta and xs
    by (induction xs) auto
  then have "snd ` set (AList.update (amSegmentID m) m (paSegments s)) \<subseteq> insert m (snd ` set (paSegments s))"
    by fastforce
  then have "\<forall>x \<in> snd ` set (AList.update (amSegmentID m) m (paSegments s)). announced m x"
    using assms(3) announced_refl [OF assms(2)] by blast
  moreover have "\<forall>x \<in> snd ` set (paSegments s). announced m x" using assms(3) by blast
  ultimately show ?thesis using assms(1) announced_refl [OF assms(2)] assms(2)
    by (simp add: ack_inv_def activatePlaybackAckSegment_def)
qed

lemma ack_inv_step: "ack_step cs cs' \<Longrightarrow> ack_inv (fst cs) (snd cs) \<Longrightarrow> ack_inv (fst cs') (snd cs')"
proof (induction rule: ack_step.induct)
  case (install c s m)
  then show ?case by (simp add: ack_inv_def ack_defs announced_cursor meta_ok_cursor)
next
  case (single d c r p m n rid t s)
  have "prefix (amTextAfter (paMeta s)) [] \<and> amDurationAfter (paMeta s) \<le> 0 \<and> meta_ok (paMeta s)"
    using single(2,5) by (simp add: ack_inv_def announced_def cursorMeta_def)
  then have "announced m (paMeta s)" using single(1,3) by (simp add: announced_def newAudioPlaybackMeta_def Let_def)
  then have "ack_inv m (activatePlaybackAckSegment m s)"
    using single meta_ok_new [OF single(1)] by (intro ack_inv_activate [of c s]) auto
  then show ?case by simp
next
  case (segment d m c t l s)
  have "ack_inv m (activatePlaybackAckSegment m s)"
    using segment by (intro ack_inv_activate [of c s]) (auto simp: ack_inv_def intro: meta_ok_next announced_next)
  then show ?case by simp
next
  case (clear c s)
  then show ?case using ack_inv_initial [of c] by (simp add: clearPlaybackAckState_def ack_inv_def)
qed (auto simp: ack_inv_def ack_defs playbackDurationMs_nonneg split: option.splits)

lemma ack_inv_reachable: "ack_reachable cs \<Longrightarrow> ack_inv (fst cs) (snd cs)"
  by (induction rule: rtranclp_induct) (auto simp: ack_inv_initial meta_ok_cursor intro: ack_inv_step)

lemma clampPlaybackMarkDuration_range:
  "0 \<le> clampPlaybackMarkDuration v e \<and> (0 < e \<longrightarrow> clampPlaybackMarkDuration v e \<le> e)"
  by (auto simp: clampPlaybackMarkDuration_def)

text \<open>
  C38: Whatever the client acknowledges, the text the gateway takes as heard is bracketed by what was announced:
  a mark of a segment yields at least all the text before that segment, at most the text up to its end, and this
  is a prefix of the text announced so far; the playing time counted lies between the start of the segment and,
  when its duration is known, its end. The last mark never moves back, a mark records no terminal state, and the
  wait channel is closed only together with one.
\<close>

theorem mark_heard_announced:
  assumes "ack_reachable (c, s)" and "recordPlaybackMark now i ms s = ((m, played, heard), s')"
  shows "prefix (amTextBefore m) heard \<and> prefix heard (amTextAfter m) \<and> prefix (amTextAfter m) (amTextAfter c) \<and>
    amDurationBefore m \<le> played \<and> (0 < amExpectedDuration m \<longrightarrow> played \<le> amDurationAfter m \<and> amDurationAfter m \<le> amDurationAfter c) \<and>
    paLastMarkMs s \<le> paLastMarkMs s' \<and> paTerminal s' = paTerminal s \<and>
    (paWaitCh s' = Some True \<longrightarrow> paTerminal s' \<noteq> AckNone)"
proof -
  have inv: "ack_inv c s" using ack_inv_reachable [OF assms(1)] by simp
  have m: "m = playbackAckMetaForSegmentLocked s i" and heard: "\<exists>d. heard = heardTextForPlaybackSegment m d"
    and played: "played = amDurationBefore m + clampPlaybackMarkDuration (int64 (gatewayMaxInt ms 0 * Millisecond)) (amExpectedDuration m)"
    and s': "s' = startedOnce now (raiseLastMark played s)"
    using assms(2) by (auto simp: recordPlaybackMark_def Let_def)
  have a: "announced c m" using announced_for_segment [OF inv] m by simp
  have "prefix (amTextBefore m) heard" "prefix heard (amTextAfter m)"
    using heard heard_segment_prefix a by (auto simp: announced_def)
  moreover have "amDurationAfter m = amDurationBefore m + amExpectedDuration m" using a by (simp add: announced_def meta_ok_def)
  moreover have "paLastMarkMs s \<le> paLastMarkMs s' \<and> paTerminal s' = paTerminal s \<and> paWaitCh s' = paWaitCh s"
    by (simp add: s' startedOnce_def raiseLastMark_def Let_def)
  ultimately show ?thesis
    using a inv clampPlaybackMarkDuration_range [of _ "amExpectedDuration m"] by (auto simp: played announced_def ack_inv_def)
qed

definition demo_base :: audioPlaybackMeta where
  "demo_base = newAudioPlaybackMeta 0 (lit ''r'') [] 0"

definition demo_first :: audioPlaybackMeta where
  "demo_first = nextSegmentAudioPlaybackMeta (cursorMeta (amResponseID demo_base) (amPlaybackID demo_base)) (lit ''One.'') (400 * Millisecond) False"

definition demo_second :: audioPlaybackMeta where
  "demo_second = nextSegmentAudioPlaybackMeta demo_first (lit ''Two.'') (700 * Millisecond) True"

definition demo_ack :: playbackAckState where
  "demo_ack = activatePlaybackAckSegment demo_second (activatePlaybackAckSegment demo_first (installPlaybackAckMeta demo_base noPlaybackAck))"

lemma demo_reachable: "ack_reachable (demo_second, demo_ack)"
proof -
  have "ack_step (cursorMeta [] [], noPlaybackAck)
      (cursorMeta (amResponseID demo_base) (amPlaybackID demo_base), installPlaybackAckMeta demo_base noPlaybackAck)"
    by (rule install)
  moreover have "ack_step (cursorMeta (amResponseID demo_base) (amPlaybackID demo_base), installPlaybackAckMeta demo_base noPlaybackAck)
      (demo_first, activatePlaybackAckSegment demo_first (installPlaybackAckMeta demo_base noPlaybackAck))"
    by (rule segment) (simp_all add: demo_first_def)
  moreover have "ack_step (demo_first, activatePlaybackAckSegment demo_first (installPlaybackAckMeta demo_base noPlaybackAck)) (demo_second, demo_ack)"
    unfolding demo_ack_def by (rule segment [of "700 * Millisecond"]) (simp_all add: demo_second_def)
  ultimately show ?thesis by (metis (no_types, lifting) converse_rtranclp_into_rtranclp rtranclp.rtrancl_refl)
qed

lemma demo_mark:
  "recordPlaybackMark 5 (lit ''segment_r_0002'') 0 demo_ack = ((demo_second, 400 * Millisecond, lit ''One.''), demo_ack\<lparr>paLastMarkMs := 400, paStartedAt := Some 5\<rparr>)"
  by code_simp

theorem mark_heard_announced_witness:
  "ack_reachable (demo_second, demo_ack) \<and> prefix (lit ''One.'') (amTextAfter demo_second) \<and> amDurationBefore demo_second \<le> 400 * Millisecond"
  using mark_heard_announced [OF demo_reachable demo_mark] demo_reachable by blast

end
