(* ===== verification/Playback_Memory.thy ===== *)
theory Playback_Memory
  imports Orchestrator
begin

text \<open>
  Orchestrator and memory together: what the in-memory store recalls of a turn that was played and
  interrupted. The orchestrator saves the same turn many times while it plays; the contract of the
  store (the last save of a turn wins) makes the store after the interruption equal to a store that
  saw only the final record.
\<close>

section \<open>The scopes of a turn\<close>

lemma putNonBlank_other: "k \<noteq> key \<Longrightarrow> putNonBlank key v m k = m k"
  by (simp add: putNonBlank_def)

text \<open>Playback metadata only uses keys that start with \<open>voice.\<close>, so it never changes a scope.\<close>

lemma enrich_other:
  assumes "\<not> prefix (lit ''voice.'') k"
  shows "enrichPlaybackMetadata m t k = m k"
proof -
  have ne: "k \<noteq> lit (''voice.'' @ x)" for x using assms by (auto simp: lit_def)
  have "k \<noteq> lit ''voice.interruption_reason''" "k \<noteq> lit ''voice.interruption_policy''" "k \<noteq> lit ''voice.heard_text_boundary''"
    "k \<noteq> lit ''voice.played_duration_ms''" "k \<noteq> lit ''voice.planned_duration_ms''" "k \<noteq> lit ''voice.heard_source''"
    "k \<noteq> lit ''voice.heard_confidence''" "k \<noteq> lit ''voice.heard_precision_tier''" "k \<noteq> lit ''voice.heard_ratio_pct''"
    "k \<noteq> lit ''voice.resume_anchor''" "k \<noteq> lit ''voice.missed_text''"
    using ne [of "''interruption_reason''"] ne [of "''interruption_policy''"] ne [of "''heard_text_boundary''"]
      ne [of "''played_duration_ms''"] ne [of "''planned_duration_ms''"] ne [of "''heard_source''"]
      ne [of "''heard_confidence''"] ne [of "''heard_precision_tier''"] ne [of "''heard_ratio_pct''"]
      ne [of "''resume_anchor''"] ne [of "''missed_text''"] by simp_all
  then show ?thesis
    unfolding enrichPlaybackMetadata_def Let_def
    by (simp add: putNonBlank_other)
qed

lemma metadataValue_cong: "(\<And>k. k \<in> set ks \<Longrightarrow> m k = m' k) \<Longrightarrow> memoryMetadataValue m ks = memoryMetadataValue m' ks"
  by (induction ks) (simp_all add: Let_def)

lemma enrich_values:
  "list_all (\<lambda>k. \<not> prefix (lit ''voice.'') k) ks \<Longrightarrow> memoryMetadataValue (enrichPlaybackMetadata m t) ks = memoryMetadataValue m ks"
  by (intro metadataValue_cong enrich_other) (simp add: list_all_iff)

lemma enrich_scope_keys [simp]:
  "memoryMetadataValue (enrichPlaybackMetadata m t) userKeys = memoryMetadataValue m userKeys"
  "memoryMetadataValue (enrichPlaybackMetadata m t) roomKeys = memoryMetadataValue m roomKeys"
  "memoryMetadataValue (enrichPlaybackMetadata m t) householdKeys = memoryMetadataValue m householdKeys"
  by (rule enrich_values, code_simp)+

text \<open>A record belongs to a turn: it has its turn id, session and scopes.\<close>

definition record_of :: "TurnRequest \<Rightarrow> MemoryRecord \<Rightarrow> bool" where
  "record_of req r \<longleftrightarrow> recTurnID r = rqTurnID req \<and> recSessionID r = rqSessionID req \<and>
     memoryRecordScopes r = memoryScopes (rqSessionID req) (rqDeviceID req)
       (memoryMetadataValue (rqMetadata req) userKeys) (memoryMetadataValue (rqMetadata req) roomKeys)
       (memoryMetadataValue (rqMetadata req) householdKeys)"

definition turn_of :: "TurnRequest \<Rightarrow> orchestratedTurn \<Rightarrow> bool" where
  "turn_of req t \<longleftrightarrow> otRequest t = cloneTurnRequest req \<and> otMetadata t = rqMetadata req"

lemma record_of_turn: "turn_of req t \<Longrightarrow> record_of req (turnRecord t)"
  by (simp add: turn_of_def record_of_def turnRecord_def BuildMemoryRecord_def turnInputFromRequest_def
      cloneTurnRequest_def memoryRecordScopes_def)

section \<open>A turn while it plays\<close>

fun is_observation :: "orchestrator_call \<Rightarrow> bool" where
  "is_observation (CallStartPlayback _ _ _ _) = True"
| "is_observation (CallUpdatePlayback _ _) = True"
| "is_observation CallObserveChunk = True"
| "is_observation CallObserveStarted = True"
| "is_observation (CallObserveMark _) = True"
| "is_observation (CallObserveMarkText _ _) = True"
| "is_observation CallObserveCompleted = True"
| "is_observation (CallRecordPolicy _ _) = True"
| "is_observation _ = False"

text \<open>The store after some calls on the turn is the store before them with records of the turn saved.\<close>

definition playing :: "TurnRequest \<Rightarrow> MemoryStore \<Rightarrow> SessionOrchestrator \<Rightarrow> bool" where
  "playing req ms o1 \<longleftrightarrow> (\<exists>t. orTurn o1 = Some t \<and> turn_of req t) \<and>
     (\<exists>rs. orMemoryStore o1 = fold storeSaveTurn rs ms \<and> (\<forall>r \<in> set rs. record_of req r))"

lemma playing_onTurn:
  assumes "playing req ms o1" and "\<And>t. otRequest (f t) = otRequest t \<and> otMetadata (f t) = otMetadata t"
  shows "playing req ms (onTurn f o1)"
  using assms by (auto simp: playing_def turn_of_def)

lemma playing_persist:
  assumes "playing req ms o1" shows "playing req ms (persistLocked o1)"
proof -
  obtain t rs where "orTurn o1 = Some t" "turn_of req t" "orMemoryStore o1 = fold storeSaveTurn rs ms" "\<forall>r \<in> set rs. record_of req r"
    using assms by (auto simp: playing_def)
  then have "orMemoryStore (persistLocked o1) = fold storeSaveTurn (rs @ [turnRecord t]) ms"
    and "\<forall>r \<in> set (rs @ [turnRecord t]). record_of req r" by (simp_all add: record_of_turn)
  then show ?thesis using \<open>orTurn o1 = Some t\<close> \<open>turn_of req t\<close> unfolding playing_def persist_fields by blast
qed

lemma playing_step:
  assumes "playing req ms o1" and "is_observation c"
  shows "playing req ms (orchestrator_step c o1)"
  using assms
proof (cases c)
  case (CallUpdatePlayback d p)
  then show ?thesis using assms update_playback.upd_identity
    by (simp add: UpdatePlayback_def playing_persist playing_onTurn)
next
  case (CallStartPlayback d ch p b)
  then show ?thesis using assms by (simp add: StartPlaybackWithOptions_def playing_onTurn)
qed (simp_all add: ObservePlaybackChunk_def ObservePlaybackStartedFact_def ObservePlaybackMarkFact_def
    ObservePlaybackMarkTextFact_def ObservePlaybackCompletedFact_def RecordInterruptionPolicy_def playing_onTurn
    chunk.upd_identity started.upd_identity mark.upd_identity mark_text.upd_identity completed_fact.upd_identity
    record_policy.upd_identity)

lemma playing_run:
  "playing req ms o1 \<Longrightarrow> list_all is_observation cs \<Longrightarrow> playing req ms (fold orchestrator_step cs o1)"
  by (induction cs arbitrary: o1) (simp_all add: playing_step)

lemma playing_prepare:
  assumes "\<And>t. orTurn o1 = Some t \<Longrightarrow> rqTurnID (otRequest t) \<noteq> rqTurnID req"
  shows "playing req (orMemoryStore o1) (PrepareTurn req i x o1)"
proof -
  have t: "turn_of req (newTurn req i x)" by (simp add: turn_of_def newTurn_def)
  have p: "PrepareTurn req i x o1 = persistLocked (o1\<lparr>orTurn := Some (newTurn req i x)\<rparr>)"
    using assms by (auto simp: PrepareTurn_def split: option.splits)
  have "playing req (orMemoryStore o1) (o1\<lparr>orTurn := Some (newTurn req i x)\<rparr>)"
    using t by (auto simp: playing_def intro!: exI [of _ "[]"])
  then show ?thesis unfolding p by (rule playing_persist)
qed

text \<open>Interrupting a playing turn leaves the store as if only the final record had been saved.\<close>

lemma interrupted_store:
  assumes "playing req ms o1" and "dispatch_inv ms" and "rqTurnID req \<noteq> []"
    and "orTurn o1 = Some t" and "otPlaybackActive t"
    and "InterruptPlaybackWithPolicy p r o1 = (res, o2)"
  shows "\<exists>rec. orMemoryStore o2 = storeSaveTurn rec ms \<and> record_of req rec \<and> recHeardText rec = piHeardText res \<and>
    \<not> recPlaybackCompleted rec \<and> recUserText rec = otInputText t"
proof -
  obtain p' r' where o2: "o2 = finishTurn (interruptTurn p' r') o1" and h: "piHeardText res = otHeardText (interruptTurn p' r' t)"
    using assms(4-6) by (auto simp: InterruptPlaybackWithPolicy_def Let_def)
  let ?rec = "turnRecord (interruptTurn p' r' t)"
  have tt: "turn_of req t" using assms(1,4) by (auto simp: playing_def)
  have "turn_of req (interruptTurn p' r' t)" using tt
    by (simp add: turn_of_def interruptTurn_def Let_def recordInterruptionPolicyLocked_def)
  then have rec: "record_of req ?rec" by (rule record_of_turn)
  obtain rs where rs: "orMemoryStore o1 = fold storeSaveTurn rs ms" "\<forall>r \<in> set rs. record_of req r"
    using assms(1) by (auto simp: playing_def)
  have "storeSaveTurn ?rec (fold storeSaveTurn rs ms) = storeSaveTurn ?rec ms"
  proof (rule noop.last_save_wins [OF assms(2)])
    show "recTurnID ?rec \<noteq> []" using rec assms(3) by (simp add: record_of_def)
    show "\<forall>r \<in> set rs. recTurnID r = recTurnID ?rec \<and> memoryRecordScopes r = memoryRecordScopes ?rec"
      using rs(2) rec by (simp add: record_of_def)
  qed
  then have "orMemoryStore o2 = storeSaveTurn ?rec ms"
    using finishTurn_fields [OF assms(4), of "interruptTurn p' r'"] rs(1) by (simp add: o2)
  moreover have "recHeardText ?rec = piHeardText res" "\<not> recPlaybackCompleted ?rec" "recUserText ?rec = otInputText t"
    by (simp_all add: turnRecord_def BuildMemoryRecord_def h, simp_all add: interruptTurn_def Let_def recordInterruptionPolicyLocked_def)
  ultimately show ?thesis using rec by blast
qed

end
