(* ===== verification/Turn_Response.thy ===== *)
theory Turn_Response
  imports Speech_Synthesis
begin

text \<open>
  The answer of a turn and how the gateway receives it: the data of \<open>internal/voice/contracts.go\<close>, the future of
  \<open>internal/voice/orchestrated_response.go\<close> that hands out the audio early, and the outcome future of
  \<open>internal/gateway/output_outcome.go\<close>. Audio streams are known by their handle, since who owns a stream is what
  matters here. A ready channel of a future is closed exactly when the flag guarding it is set, in the same
  critical section, so the flag stands for the channel; a wait that would block has no answer.
\<close>

section \<open>Data\<close>

record ResponseDelta =
  rdKind :: ResponseDeltaKind
  rdText :: gostring
  rdToolCallID :: gostring
  rdToolName :: gostring
  rdToolStatus :: gostring
  rdToolInput :: gostring
  rdToolOutput :: gostring

record TurnResponse =
  tpInputText :: gostring
  tpText :: gostring
  tpDeltas :: "ResponseDelta list"
  tpAudioChunks :: "byte list list"
  tpAudioStream :: "nat option"
  tpAudioStreamTransferred :: bool
  tpEndSession :: bool
  tpEndReason :: gostring
  tpEndMessage :: gostring

definition emptyResponse :: TurnResponse where
  "emptyResponse = \<lparr>tpInputText = [], tpText = [], tpDeltas = [], tpAudioChunks = [], tpAudioStream = None,
     tpAudioStreamTransferred = False, tpEndSession = False, tpEndReason = [], tpEndMessage = []\<rparr>"

text \<open>A stream to play: one handed over by its handle, or a static stream over chunks.\<close>

datatype audioSource = StreamSource nat | ChunkSource "byte list list"

datatype ResponseAudioStartSource = SourceSpeechPlanner | SourceFinalResponse

record ResponseAudioStart =
  asStream :: "audioSource option"
  asText :: gostring
  asIncremental :: bool
  asSource :: ResponseAudioStartSource

definition textDelta :: "gostring \<Rightarrow> ResponseDelta" where
  "textDelta t = \<lparr>rdKind = ResponseDeltaText, rdText = t, rdToolCallID = [], rdToolName = [], rdToolStatus = [],
     rdToolInput = [], rdToolOutput = []\<rparr>"

section \<open>The future of a response\<close>

definition responseAudioStartFromTurnResponse :: "TurnResponse \<Rightarrow> ResponseAudioStart option" where
  "responseAudioStartFromTurnResponse response =
     (case tpAudioStream response of
        Some h \<Rightarrow> Some \<lparr>asStream = Some (StreamSource h), asText = tpText response, asIncremental = False, asSource = SourceFinalResponse\<rparr>
      | None \<Rightarrow>
          if tpAudioChunks response \<noteq> [] then
            Some \<lparr>asStream = Some (ChunkSource (tpAudioChunks response)), asText = tpText response, asIncremental = False,
                  asSource = SourceFinalResponse\<rparr>
          else None)"

definition turnResponseHasAudio :: "TurnResponse \<Rightarrow> bool" where
  "turnResponseHasAudio response \<longleftrightarrow>
     tpAudioStream response \<noteq> None \<or> tpAudioChunks response \<noteq> [] \<or> tpAudioStreamTransferred response"

definition detachTurnResponseAudio :: "TurnResponse \<Rightarrow> TurnResponse" where
  "detachTurnResponseAudio response =
     (if tpAudioStream response = None \<and> tpAudioChunks response = [] then response
      else response\<lparr>tpAudioStream := None, tpAudioChunks := [], tpAudioStreamTransferred := True\<rparr>)"

record asyncTurnResponseFuture =
  fuResolved :: bool
  fuResponse :: TurnResponse
  fuErr :: "gostring option"
  fuAudioResolved :: bool
  fuAudioAvailable :: bool
  fuAudioStart :: "ResponseAudioStart option"
  fuAudioClaimed :: bool
  fuResponseDelivered :: bool

definition newAsyncTurnResponseFuture :: asyncTurnResponseFuture where
  "newAsyncTurnResponseFuture = \<lparr>fuResolved = False, fuResponse = emptyResponse, fuErr = None, fuAudioResolved = False,
     fuAudioAvailable = False, fuAudioStart = None, fuAudioClaimed = False, fuResponseDelivered = False\<rparr>"

definition PublishAudioStart :: "ResponseAudioStart \<Rightarrow> asyncTurnResponseFuture \<Rightarrow> asyncTurnResponseFuture" where
  "PublishAudioStart start f =
     (if asStream start = None then f
      else if fuAudioResolved f \<or> fuResponseDelivered f then f
      else f\<lparr>fuAudioResolved := True, fuAudioAvailable := True, fuAudioStart := Some start\<rparr>)"

definition ResolveResponse :: "TurnResponse \<Rightarrow> gostring option \<Rightarrow> asyncTurnResponseFuture \<Rightarrow> asyncTurnResponseFuture" where
  "ResolveResponse response err f =
     (if fuResolved f then f
      else
        let f1 = f\<lparr>fuResolved := True, fuResponse := response, fuErr := err\<rparr>
        in if \<not> fuAudioResolved f1 then
             (case responseAudioStartFromTurnResponse response of
                Some start \<Rightarrow> f1\<lparr>fuAudioResolved := True, fuAudioAvailable := True, fuAudioStart := Some start\<rparr>
              | None \<Rightarrow> f1\<lparr>fuAudioResolved := True, fuAudioAvailable := False\<rparr>)
           else f1)"

text \<open>What a call answers.\<close>

datatype future_answer = GotResponse TurnResponse | GotAudio ResponseAudioStart | NoAudio | GotError gostring

definition WaitResponse :: "asyncTurnResponseFuture \<Rightarrow> (future_answer \<times> asyncTurnResponseFuture) option" where
  "WaitResponse f =
     (if \<not> fuResolved f then None
      else case fuErr f of
        Some e \<Rightarrow> Some (GotError e, f)
      | None \<Rightarrow>
          Some (if fuAudioClaimed f then (GotResponse (detachTurnResponseAudio (fuResponse f)), f)
                else if \<not> fuResponseDelivered f then (GotResponse (fuResponse f), f\<lparr>fuResponseDelivered := True\<rparr>)
                else if turnResponseHasAudio (fuResponse f) then (GotResponse (detachTurnResponseAudio (fuResponse f)), f)
                else (GotResponse (fuResponse f), f)))"

definition WaitResponseAudio :: "asyncTurnResponseFuture \<Rightarrow> (future_answer \<times> asyncTurnResponseFuture) option" where
  "WaitResponseAudio f =
     (if \<not> fuAudioResolved f then None
      else case fuErr f of
        Some e \<Rightarrow> Some (GotError e, f)
      | None \<Rightarrow>
          if \<not> fuAudioAvailable f \<or> fuAudioClaimed f \<or> fuResponseDelivered f then Some (NoAudio, f)
          else Some (case fuAudioStart f of
                 None \<Rightarrow> (NoAudio, f\<lparr>fuAudioClaimed := True\<rparr>)
               | Some start \<Rightarrow> (GotAudio start, f\<lparr>fuAudioClaimed := True\<rparr>)))"

text \<open>A cancelled context makes either wait return without touching the future.\<close>

datatype future_call = CallPublish ResponseAudioStart | CallResolve TurnResponse "gostring option" | CallWait | CallWaitAudio

fun future_step :: "future_call \<Rightarrow> future_answer list \<times> asyncTurnResponseFuture \<Rightarrow> future_answer list \<times> asyncTurnResponseFuture" where
  "future_step (CallPublish start) (as, f) = (as, PublishAudioStart start f)"
| "future_step (CallResolve r e) (as, f) = (as, ResolveResponse r e f)"
| "future_step CallWait (as, f) = (case WaitResponse f of None \<Rightarrow> (as, f) | Some (a, f') \<Rightarrow> (as @ [a], f'))"
| "future_step CallWaitAudio (as, f) = (case WaitResponseAudio f of None \<Rightarrow> (as, f) | Some (a, f') \<Rightarrow> (as @ [a], f'))"

definition future_run :: "future_call list \<Rightarrow> future_answer list \<times> asyncTurnResponseFuture" where
  "future_run cs = fold future_step cs ([], newAsyncTurnResponseFuture)"

section \<open>The outcome of the output\<close>

record turnOutputOutcome =
  ooEndSession :: bool
  ooEndReason :: gostring
  ooEndMessage :: gostring

text \<open>\<open>None\<close> until the outcome is resolved; only the first outcome counts.\<close>

type_synonym turnOutputOutcomeFuture = "turnOutputOutcome option"

definition newTurnOutputOutcomeFuture :: turnOutputOutcomeFuture where
  "newTurnOutputOutcomeFuture = None"

definition ResolveOutcome :: "turnOutputOutcome \<Rightarrow> turnOutputOutcomeFuture \<Rightarrow> turnOutputOutcomeFuture" where
  "ResolveOutcome outcome f = (case f of Some x \<Rightarrow> Some x | None \<Rightarrow> Some outcome)"

definition resolvedTurnOutputOutcome :: "turnOutputOutcome \<Rightarrow> turnOutputOutcomeFuture" where
  "resolvedTurnOutputOutcome outcome = ResolveOutcome outcome newTurnOutputOutcomeFuture"

definition outcomeOf :: "TurnResponse \<Rightarrow> turnOutputOutcome" where
  "outcomeOf response = \<lparr>ooEndSession = tpEndSession response, ooEndReason = tpEndReason response, ooEndMessage = tpEndMessage response\<rparr>"

section \<open>Audio is handed out once\<close>

text \<open>Answers that pass a stream or chunks to the caller.\<close>

definition carriesAudio :: "TurnResponse \<Rightarrow> bool" where
  "carriesAudio r \<longleftrightarrow> tpAudioStream r \<noteq> None \<or> tpAudioChunks r \<noteq> []"

fun hands_audio :: "future_answer \<Rightarrow> bool" where
  "hands_audio (GotResponse r) = carriesAudio r"
| "hands_audio (GotAudio _) = True"
| "hands_audio _ = False"

fun is_error :: "future_answer \<Rightarrow> bool" where
  "is_error (GotError _) = True"
| "is_error _ = False"

definition handouts :: "future_answer list \<Rightarrow> nat" where
  "handouts as = length (filter hands_audio as)"

lemma handouts_simps [simp]: "handouts [] = 0" "handouts (as @ [a]) = handouts as + (if hands_audio a then 1 else 0)"
  by (simp_all add: handouts_def)

text \<open>A wait was answered, and every answered response is the resolved one up to its audio.\<close>

definition answered :: "future_answer list \<Rightarrow> bool" where
  "answered as \<longleftrightarrow> (\<exists>a \<in> set as. \<not> is_error a)"

fun answer_matches :: "asyncTurnResponseFuture \<Rightarrow> future_answer \<Rightarrow> bool" where
  "answer_matches f (GotResponse r) = (fuResolved f \<and> detachTurnResponseAudio r = detachTurnResponseAudio (fuResponse f))"
| "answer_matches f _ = True"

lemma answered_simps [simp]: "\<not> answered []" "answered (as @ [a]) \<longleftrightarrow> answered as \<or> \<not> is_error a"
  by (auto simp: answered_def)

lemma answer_matches_cong:
  "fuResolved f' = fuResolved f \<Longrightarrow> fuResponse f' = fuResponse f \<Longrightarrow> answer_matches f' = answer_matches f"
  by (rule ext, rename_tac a, case_tac a) auto

definition future_ok :: "bool \<Rightarrow> nat \<Rightarrow> asyncTurnResponseFuture \<Rightarrow> bool" where
  "future_ok ans n f \<longleftrightarrow>
     n = (if fuAudioClaimed f \<or> (fuResponseDelivered f \<and> carriesAudio (fuResponse f)) then 1 else 0) \<and>
     (fuAudioClaimed f \<longrightarrow> \<not> fuResponseDelivered f) \<and> (fuResolved f \<longrightarrow> fuAudioResolved f) \<and>
     (fuAudioAvailable f \<longrightarrow> fuAudioResolved f \<and> fuAudioStart f \<noteq> None) \<and>
     (fuAudioResolved f \<and> \<not> fuResolved f \<longrightarrow> fuAudioAvailable f) \<and>
     (fuAudioClaimed f \<longrightarrow> fuAudioAvailable f) \<and> (fuResponseDelivered f \<longrightarrow> fuResolved f) \<and>
     (fuResolved f \<and> carriesAudio (fuResponse f) \<longrightarrow> fuAudioAvailable f) \<and>
     (\<not> fuResolved f \<longrightarrow> fuErr f = None) \<and>
     (ans \<longrightarrow> fuAudioClaimed f \<or> fuResponseDelivered f \<or> (fuResolved f \<and> \<not> fuAudioAvailable f))"

definition future_inv :: "future_answer list \<times> asyncTurnResponseFuture \<Rightarrow> bool" where
  "future_inv af \<longleftrightarrow> future_ok (answered (fst af)) (handouts (fst af)) (snd af) \<and> list_all (answer_matches (snd af)) (fst af)"

lemma carriesAudio_detach [simp]: "\<not> carriesAudio (detachTurnResponseAudio r)"
  by (simp add: carriesAudio_def detachTurnResponseAudio_def)

lemma detach_idem [simp]: "detachTurnResponseAudio (detachTurnResponseAudio r) = detachTurnResponseAudio r"
  by (simp add: detachTurnResponseAudio_def)

lemma audio_start_iff: "responseAudioStartFromTurnResponse r = None \<longleftrightarrow> \<not> carriesAudio r"
  by (auto simp: responseAudioStartFromTurnResponse_def carriesAudio_def split: option.splits)

lemma future_ok_publish: "future_ok b n f \<Longrightarrow> future_ok b n (PublishAudioStart start f)"
  by (auto simp: future_ok_def PublishAudioStart_def)

lemma future_ok_resolve:
  assumes "future_ok b n f"
  shows "future_ok b n (ResolveResponse r e f)"
proof (cases "fuResolved f")
  case False
  then have "\<not> fuResponseDelivered f" using assms by (simp add: future_ok_def)
  then show ?thesis using assms False audio_start_iff [of r]
    by (cases "fuAudioResolved f"; cases "responseAudioStartFromTurnResponse r"; cases b)
      (simp_all add: future_ok_def ResolveResponse_def)
qed (simp add: ResolveResponse_def assms)

lemma WaitResponse_cases:
  assumes "WaitResponse f = Some (a, f')"
  obtains (error) e where "fuErr f = Some e" "a = GotError e" "f' = f"
  | (detached) r where "fuErr f = None" "fuResolved f" "fuAudioClaimed f \<or> fuResponseDelivered f" "a = GotResponse r" "\<not> carriesAudio r"
      "detachTurnResponseAudio r = detachTurnResponseAudio (fuResponse f)" "f' = f"
  | (first) "fuErr f = None" "fuResolved f" "\<not> fuAudioClaimed f" "\<not> fuResponseDelivered f" "a = GotResponse (fuResponse f)"
      "f' = f\<lparr>fuResponseDelivered := True\<rparr>"
proof -
  have r: "fuResolved f" using assms by (simp add: WaitResponse_def split: if_splits)
  show thesis
  proof (cases "fuErr f")
    case (Some e)
    then have "WaitResponse f = Some (GotError e, f)" using r by (simp add: WaitResponse_def)
    then show thesis using error [OF Some] assms by simp
  next
    case None
    show thesis
    proof (cases "\<not> fuAudioClaimed f \<and> \<not> fuResponseDelivered f")
      case True
      then have "WaitResponse f = Some (GotResponse (fuResponse f), f\<lparr>fuResponseDelivered := True\<rparr>)"
        using r None by (simp add: WaitResponse_def)
      then show thesis using first [OF None r] True assms by simp
    next
      case False
      define d where "d = (if fuAudioClaimed f \<or> turnResponseHasAudio (fuResponse f) then detachTurnResponseAudio (fuResponse f) else fuResponse f)"
      have "WaitResponse f = Some (GotResponse d, f)" using r None False by (cases "fuAudioClaimed f"; cases "fuResponseDelivered f") (simp_all add: WaitResponse_def d_def)
      moreover have "\<not> carriesAudio d" by (simp add: d_def) (simp add: turnResponseHasAudio_def carriesAudio_def)
      ultimately show thesis using detached [OF None r, of d] False assms by (simp add: d_def split: if_splits)
    qed
  qed
qed

lemma WaitResponseAudio_cases:
  assumes "WaitResponseAudio f = Some (a, f')" and "fuAudioAvailable f \<longrightarrow> fuAudioStart f \<noteq> None"
  obtains (error) e where "fuErr f = Some e" "a = GotError e" "f' = f"
  | (none) "fuErr f = None" "fuAudioResolved f" "\<not> fuAudioAvailable f \<or> fuAudioClaimed f \<or> fuResponseDelivered f" "a = NoAudio" "f' = f"
  | (give) start where "fuErr f = None" "fuAudioAvailable f" "\<not> fuAudioClaimed f" "\<not> fuResponseDelivered f" "a = GotAudio start"
      "f' = f\<lparr>fuAudioClaimed := True\<rparr>"
proof -
  have r: "fuAudioResolved f" using assms(1) by (simp add: WaitResponseAudio_def split: if_splits)
  show thesis
  proof (cases "fuErr f")
    case (Some e)
    then have "WaitResponseAudio f = Some (GotError e, f)" using r by (simp add: WaitResponseAudio_def)
    then show thesis using error [OF Some] assms(1) by simp
  next
    case None
    show thesis
    proof (cases "\<not> fuAudioAvailable f \<or> fuAudioClaimed f \<or> fuResponseDelivered f")
      case True
      then have "WaitResponseAudio f = Some (NoAudio, f)" using r None by (simp add: WaitResponseAudio_def)
      then show thesis using none [OF None r True] assms(1) by simp
    next
      case False
      then obtain start where "fuAudioStart f = Some start" using assms(2) by auto
      then have "WaitResponseAudio f = Some (GotAudio start, f\<lparr>fuAudioClaimed := True\<rparr>)"
        using r None False by (simp add: WaitResponseAudio_def)
      then show thesis using give [OF None, of start] False assms(1) by simp
    qed
  qed
qed

lemma future_ok_wait:
  assumes "future_ok b n f" and "WaitResponse f = Some (a, f')"
  shows "future_ok (b \<or> \<not> is_error a) (n + (if hands_audio a then 1 else 0)) f'"
  using assms(2)
proof (cases rule: WaitResponse_cases)
  case error
  then show ?thesis using assms(1) by simp
next
  case detached
  then show ?thesis using assms(1) by (simp add: future_ok_def) blast
next
  case first
  then show ?thesis using assms(1) by (simp add: future_ok_def)
qed

lemma future_ok_wait_audio:
  assumes "future_ok b n f" and "WaitResponseAudio f = Some (a, f')"
  shows "future_ok (b \<or> \<not> is_error a) (n + (if hands_audio a then 1 else 0)) f'"
proof -
  have "fuAudioAvailable f \<longrightarrow> fuAudioStart f \<noteq> None" using assms(1) by (simp add: future_ok_def)
  with assms(2) show ?thesis
  proof (cases rule: WaitResponseAudio_cases)
    case error
    then show ?thesis using assms(1) by simp
  next
    case none
    then show ?thesis using assms(1) by (simp add: future_ok_def) blast
  next
    case give
    then show ?thesis using assms(1) by (simp add: future_ok_def)
  qed
qed

lemma wait_matches:
  assumes "list_all (answer_matches f) as" and "WaitResponse f = Some (a, f')"
  shows "list_all (answer_matches f') (as @ [a])"
proof -
  have "answer_matches f a \<and> fuResolved f' = fuResolved f \<and> fuResponse f' = fuResponse f"
    using assms(2) by (cases rule: WaitResponse_cases) simp_all
  then show ?thesis using assms(1) answer_matches_cong [of f' f] by simp
qed

lemma wait_audio_matches:
  assumes "list_all (answer_matches f) as" and "WaitResponseAudio f = Some (a, f')" and "future_ok b n f"
  shows "list_all (answer_matches f') (as @ [a])"
proof -
  have "fuAudioAvailable f \<longrightarrow> fuAudioStart f \<noteq> None" using assms(3) by (simp add: future_ok_def)
  with assms(2) have "answer_matches f a \<and> fuResolved f' = fuResolved f \<and> fuResponse f' = fuResponse f"
    by (cases rule: WaitResponseAudio_cases) simp_all
  then show ?thesis using assms(1) answer_matches_cong [of f' f] by simp
qed

lemma publish_matches: "list_all (answer_matches f) as \<Longrightarrow> list_all (answer_matches (PublishAudioStart start f)) as"
  using answer_matches_cong [of "PublishAudioStart start f" f] by (simp add: PublishAudioStart_def)

lemma resolve_matches:
  assumes "list_all (answer_matches f) as"
  shows "list_all (answer_matches (ResolveResponse r e f)) as"
proof (cases "fuResolved f")
  case False
  have "answer_matches f a \<Longrightarrow> answer_matches (ResolveResponse r e f) a" for a by (cases a) (simp_all add: False)
  then show ?thesis using assms by (auto simp: list_all_iff)
qed (simp add: ResolveResponse_def assms)

lemma future_inv_step:
  assumes "future_inv (as, f)"
  shows "future_inv (future_step c (as, f))"
proof (cases c)
  case CallWait
  then show ?thesis using assms future_ok_wait wait_matches
    by (cases "WaitResponse f") (fastforce simp: future_inv_def simp del: list_all_append)+
next
  case CallWaitAudio
  then show ?thesis using assms future_ok_wait_audio wait_audio_matches
    by (cases "WaitResponseAudio f") (fastforce simp: future_inv_def simp del: list_all_append)+
qed (use assms in \<open>simp_all add: future_inv_def future_ok_publish future_ok_resolve publish_matches resolve_matches\<close>)

lemma future_inv_run: "future_inv (future_run cs)"
  unfolding future_run_def
proof (rule fold_invariant [where Q = "\<lambda>_. True"])
  show "future_inv ([], newAsyncTurnResponseFuture)"
    by (simp add: future_inv_def future_ok_def newAsyncTurnResponseFuture_def)
  show "future_inv (future_step c af)" if "future_inv af" for c af
    using future_inv_step [of "fst af" "snd af"] that by simp
qed simp

text \<open>
  Whatever the order of publishing an early start, resolving the response and the two waits, the audio of a
  turn is handed out at most once, so it is never played twice; and once a turn was resolved without error to a
  response with audio, the first wait that is answered hands it out, so it is never lost. Every response handed
  out is the resolved one, up to its audio.
\<close>

theorem audio_handed_out_once:
  assumes "future_run cs = (as, f)"
  shows "handouts as \<le> 1 \<and>
    (fuResolved f \<and> carriesAudio (fuResponse f) \<and> answered as \<longrightarrow> handouts as = 1) \<and>
    (\<forall>r. GotResponse r \<in> set as \<longrightarrow> fuResolved f \<and> detachTurnResponseAudio r = detachTurnResponseAudio (fuResponse f))"
  using future_inv_run [of cs] assms by (auto simp: future_inv_def future_ok_def list_all_iff)

definition spokenResponse :: TurnResponse where
  "spokenResponse = emptyResponse\<lparr>tpText := lit ''Hi.'', tpAudioStream := Some 7\<rparr>"

theorem audio_handed_out_once_witness:
  "let (as, f) = future_run [CallWait, CallResolve spokenResponse None, CallWaitAudio, CallWait, CallWaitAudio] in handouts as = 1"
proof -
  let ?cs = "[CallWait, CallResolve spokenResponse None, CallWaitAudio, CallWait, CallWaitAudio]"
  have "fuResolved (snd (future_run ?cs)) \<and> carriesAudio (fuResponse (snd (future_run ?cs))) \<and> answered (fst (future_run ?cs))"
    by code_simp
  then show ?thesis using audio_handed_out_once [of ?cs "fst (future_run ?cs)" "snd (future_run ?cs)"] by (simp add: Let_def case_prod_beta)
qed

end
