(* ===== verification/Turn_Flow.thy ===== *)
theory Turn_Flow
  imports Turn_Response
begin

text \<open>
  Executing a turn, \<open>internal/gateway/turn_flow.go\<close>: response start, deltas, early audio and the final response
  are received from three channels and passed on to the hooks of the transport. The loop takes its messages in
  the order in which \<open>select\<close> chooses them, which is an argument here: every order the channels allow is a list
  of messages. The hooks are functions on the state of the transport; a hook the transport does not set is one
  that does nothing.
\<close>

section \<open>Collected text\<close>

type_synonym collectedTurnText = "gostring list"

definition addDelta :: "ResponseDelta \<Rightarrow> collectedTurnText \<Rightarrow> collectedTurnText" where
  "addDelta delta c = (if rdKind delta \<noteq> ResponseDeltaText \<or> TrimSpace (rdText delta) = [] then c else c @ [rdText delta])"

definition addAllDeltas :: "ResponseDelta list \<Rightarrow> collectedTurnText \<Rightarrow> collectedTurnText" where
  "addAllDeltas deltas c = fold addDelta deltas c"

definition joinedText :: "collectedTurnText \<Rightarrow> gostring" where
  "joinedText c = TrimSpace (concat c)"

section \<open>Response data\<close>

definition responseDeltasForEmission :: "TurnResponse \<Rightarrow> bool \<Rightarrow> ResponseDelta list" where
  "responseDeltasForEmission response allowTextFallback =
     (if tpDeltas response \<noteq> [] then tpDeltas response
      else if allowTextFallback \<and> TrimSpace (tpText response) \<noteq> [] then [textDelta (tpText response)]
      else [])"

definition responseModalities :: "ResponseDelta list \<Rightarrow> TurnResponse \<Rightarrow> gostring list" where
  "responseModalities deltas response =
     (let m1 = (if deltas \<noteq> [] then [lit ''text''] else []);
          m2 = (if tpAudioChunks response \<noteq> [] \<or> tpAudioStream response \<noteq> None then m1 @ [lit ''audio''] else m1)
      in if m2 = [] then [lit ''text''] else m2)"

definition modalitiesForAudioStart :: "ResponseAudioStart \<Rightarrow> bool \<Rightarrow> gostring list" where
  "modalitiesForAudioStart start seenAnyDelta =
     (if seenAnyDelta \<or> TrimSpace (asText start) \<noteq> [] then [lit ''text'', lit ''audio''] else [lit ''audio''])"

definition aggregatedTextForAudioStart :: "collectedTurnText \<Rightarrow> ResponseAudioStart \<Rightarrow> gostring" where
  "aggregatedTextForAudioStart collector start =
     (let joined = TrimSpace (joinedText collector); audioHint = TrimSpace (asText start)
      in if joined = [] then audioHint
         else if audioHint = [] then joined
         else if HasPrefix audioHint joined then audioHint else joined)"

definition markResponseAudioTransferred :: "TurnResponse \<Rightarrow> TurnResponse" where
  "markResponseAudioTransferred response =
     (if tpAudioStream response = None \<and> tpAudioChunks response = [] then response
      else response\<lparr>tpAudioStream := None, tpAudioChunks := [], tpAudioStreamTransferred := True\<rparr>)"

section \<open>Hooks\<close>

text \<open>
  \<open>hkResponseStart\<close> is markTurnResponseStart followed by EmitResponseStart, \<open>hkFirstTextDelta\<close> is
  markTurnFirstTextDelta, \<open>hkResolve\<close> resolves the completion given to StartResponseAudio.
\<close>

record ('e, 's) turnExecutionOptions =
  hkResponseStart :: "gostring list \<Rightarrow> TurnResponse \<Rightarrow> 's \<Rightarrow> 'e option \<times> 's"
  hkFirstTextDelta :: "gostring \<Rightarrow> 's \<Rightarrow> 's"
  hkResponseDelta :: "ResponseDelta \<Rightarrow> 's \<Rightarrow> 'e option \<times> 's"
  hkTextCollected :: "gostring \<Rightarrow> 's \<Rightarrow> 's"
  hkStartAudio :: "(ResponseAudioStart \<Rightarrow> gostring \<Rightarrow> 's \<Rightarrow> 'e option \<times> 's) option"
  hkResolve :: "turnOutputOutcome \<Rightarrow> 's \<Rightarrow> 's"

definition emitTurnResponseDelta :: "('e, 's) turnExecutionOptions \<Rightarrow> ResponseDelta \<Rightarrow> 's \<Rightarrow> 'e option \<times> 's" where
  "emitTurnResponseDelta opts delta s =
     hkResponseDelta opts delta (if rdKind delta = ResponseDeltaText then hkFirstTextDelta opts (rdText delta) s else s)"

fun emitTurnResponseDeltas :: "('e, 's) turnExecutionOptions \<Rightarrow> ResponseDelta list \<Rightarrow> 's \<Rightarrow> 'e option \<times> 's" where
  "emitTurnResponseDeltas opts [] s = (None, s)"
| "emitTurnResponseDeltas opts (delta # deltas) s =
     (case emitTurnResponseDelta opts delta s of
        (Some e, s1) \<Rightarrow> (Some e, s1)
      | (None, s1) \<Rightarrow> emitTurnResponseDeltas opts deltas s1)"

text \<open>A complete response without streaming: the start, its deltas, the collected text.\<close>

definition emitWholeResponse ::
    "('e, 's) turnExecutionOptions \<Rightarrow> TurnResponse \<Rightarrow> collectedTurnText \<Rightarrow> 's \<Rightarrow> 'e option \<times> collectedTurnText \<times> 's" where
  "emitWholeResponse opts response collector s =
     (let deltas = responseDeltasForEmission response True
      in case hkResponseStart opts (responseModalities deltas response) response s of
           (Some e, s1) \<Rightarrow> (Some e, collector, s1)
         | (None, s1) \<Rightarrow>
             (case emitTurnResponseDeltas opts deltas s1 of
               (Some e, s2) \<Rightarrow> (Some e, collector, s2)
             | (None, s2) \<Rightarrow>
                 (let c = addAllDeltas deltas collector
                  in (None, c, if TrimSpace (joinedText c) \<noteq> [] then hkTextCollected opts (joinedText c) s2 else s2))))"

record turnExecutionResult =
  teResponse :: TurnResponse
  teAggregatedText :: gostring

text \<open>A responder that only answers: \<open>answer\<close> is what Respond returns.\<close>

definition executePlainTurnResponse ::
    "('e, 's) turnExecutionOptions \<Rightarrow> ('e + TurnResponse) \<Rightarrow> 's \<Rightarrow> ('e + turnExecutionResult) \<times> 's" where
  "executePlainTurnResponse opts answer s =
     (case answer of
        Inl e \<Rightarrow> (Inl e, s)
      | Inr response \<Rightarrow>
          (case emitWholeResponse opts response [] s of
             (Some e, _, s1) \<Rightarrow> (Inl e, s1)
           | (None, c, s1) \<Rightarrow> (Inr \<lparr>teResponse = response, teAggregatedText = joinedText c\<rparr>, s1)))"

section \<open>The select loop\<close>

datatype 'e flow_message =
    MsgDelta ResponseDelta
  | MsgDeltasClosed
  | MsgAudio "'e + ResponseAudioStart option"
  | MsgResponse "'e + TurnResponse"

text \<open>The local variables of the loop; \<open>flError\<close> is the error with which the function returned.\<close>

record ('e, 's) flow =
  flCollector :: collectedTurnText
  flResponse :: TurnResponse
  flReady :: bool
  flSentStart :: bool
  flSeenDelta :: bool
  flCompletion :: bool
  flDeltasOpen :: bool
  flResponsePending :: bool
  flAudioPending :: bool
  flError :: "'e option"
  flTransport :: 's

definition newFlow :: "bool \<Rightarrow> 's \<Rightarrow> ('e, 's) flow" where
  "newFlow audio s = \<lparr>flCollector = [], flResponse = emptyResponse, flReady = False, flSentStart = False, flSeenDelta = False,
     flCompletion = False, flDeltasOpen = True, flResponsePending = True, flAudioPending = audio, flError = None, flTransport = s\<rparr>"

definition flowDone :: "('e, 's) flow \<Rightarrow> bool" where
  "flowDone lp \<longleftrightarrow> \<not> flResponsePending lp \<and> \<not> flDeltasOpen lp \<and> \<not> flAudioPending lp"

definition resolveCompletion :: "('e, 's) turnExecutionOptions \<Rightarrow> ('e, 's) flow \<Rightarrow> ('e, 's) flow" where
  "resolveCompletion opts lp =
     (if \<not> flCompletion lp \<or> \<not> flReady lp then lp
      else lp\<lparr>flTransport := hkResolve opts (outcomeOf (flResponse lp)) (flTransport lp)\<rparr>)"

text \<open>Sending the response start once.\<close>

definition ensureStart :: "('e, 's) turnExecutionOptions \<Rightarrow> gostring list \<Rightarrow> ('e, 's) flow \<Rightarrow> ('e, 's) flow" where
  "ensureStart opts modalities lp =
     (if flSentStart lp then lp
      else case hkResponseStart opts modalities (flResponse lp) (flTransport lp) of
             (Some e, s) \<Rightarrow> lp\<lparr>flError := Some e, flTransport := s\<rparr>
           | (None, s) \<Rightarrow> lp\<lparr>flSentStart := True, flTransport := s\<rparr>)"

text \<open>\<open>mayAudio\<close>: early audio can be started and the responder hints that it may stream audio.\<close>

definition onDelta :: "('e, 's) turnExecutionOptions \<Rightarrow> bool \<Rightarrow> ResponseDelta \<Rightarrow> ('e, 's) flow \<Rightarrow> ('e, 's) flow" where
  "onDelta opts mayAudio delta lp =
     (let fl1 = ensureStart opts (if mayAudio then [lit ''text'', lit ''audio''] else [lit ''text''])
                  (lp\<lparr>flSeenDelta := True, flCollector := addDelta delta (flCollector lp)\<rparr>)
      in if flError fl1 \<noteq> None then fl1
         else case emitTurnResponseDelta opts delta (flTransport fl1) of
                (Some e, s) \<Rightarrow> fl1\<lparr>flError := Some e, flTransport := s\<rparr>
              | (None, s) \<Rightarrow> fl1\<lparr>flTransport := if rdKind delta = ResponseDeltaText
                                          then hkTextCollected opts (joinedText (flCollector fl1)) s else s\<rparr>)"

definition onAudio ::
    "('e, 's) turnExecutionOptions \<Rightarrow> ('e + ResponseAudioStart option) \<Rightarrow> ('e, 's) flow \<Rightarrow> ('e, 's) flow" where
  "onAudio opts result fl0 =
     (let lp = fl0\<lparr>flAudioPending := False\<rparr>
      in case result of
           Inl e \<Rightarrow> lp\<lparr>flError := Some e\<rparr>
         | Inr None \<Rightarrow> resolveCompletion opts lp
         | Inr (Some start) \<Rightarrow>
             let fl1 = ensureStart opts (modalitiesForAudioStart start (flSeenDelta lp)) lp
             in if flError fl1 \<noteq> None then fl1
                else (case hkStartAudio opts of
                  None \<Rightarrow> fl1
                | Some startAudio \<Rightarrow>
                    (let fl2 = fl1\<lparr>flCompletion := True\<rparr>
                     in case startAudio start (aggregatedTextForAudioStart (flCollector fl2) start) (flTransport fl2) of
                          (Some e, s) \<Rightarrow> fl2\<lparr>flError := Some e, flTransport := s\<rparr>
                        | (None, s) \<Rightarrow> resolveCompletion opts
                            (fl2\<lparr>flTransport := s, flResponse := markResponseAudioTransferred (flResponse fl2)\<rparr>))))"

definition onResponse :: "('e, 's) turnExecutionOptions \<Rightarrow> ('e + TurnResponse) \<Rightarrow> ('e, 's) flow \<Rightarrow> ('e, 's) flow" where
  "onResponse opts result fl0 =
     (let lp = fl0\<lparr>flResponsePending := False\<rparr>
      in case result of
           Inl e \<Rightarrow> lp\<lparr>flError := Some e\<rparr>
         | Inr response \<Rightarrow>
             let fl1 = resolveCompletion opts
                   (lp\<lparr>flReady := True, flResponse := if flCompletion lp then markResponseAudioTransferred response else response\<rparr>)
             in if flSentStart fl1 then fl1
                else (case emitWholeResponse opts (flResponse fl1) (flCollector fl1) (flTransport fl1) of
                       (Some e, c, s) \<Rightarrow> fl1\<lparr>flError := Some e, flCollector := c, flTransport := s\<rparr>
                     | (None, c, s) \<Rightarrow> fl1\<lparr>flSentStart := True, flCollector := c, flTransport := s\<rparr>))"

text \<open>A message of a channel that is no longer read is never received.\<close>

fun flowStep :: "('e, 's) turnExecutionOptions \<Rightarrow> bool \<Rightarrow> 'e flow_message \<Rightarrow> ('e, 's) flow \<Rightarrow> ('e, 's) flow" where
  "flowStep opts mayAudio (MsgDelta delta) lp =
     (if flError lp = None \<and> flDeltasOpen lp then onDelta opts mayAudio delta lp else lp)"
| "flowStep opts mayAudio MsgDeltasClosed lp =
     (if flError lp = None \<and> flDeltasOpen lp then lp\<lparr>flDeltasOpen := False\<rparr> else lp)"
| "flowStep opts mayAudio (MsgAudio result) lp =
     (if flError lp = None \<and> flAudioPending lp then onAudio opts result lp else lp)"
| "flowStep opts mayAudio (MsgResponse result) lp =
     (if flError lp = None \<and> flResponsePending lp then onResponse opts result lp else lp)"

text \<open>The function returns when an error occurred or all channels are done; \<open>None\<close> while it waits.\<close>

definition flowResult :: "('e, 's) flow \<Rightarrow> ('e + turnExecutionResult) option" where
  "flowResult lp =
     (case flError lp of
        Some e \<Rightarrow> Some (Inl e)
      | None \<Rightarrow> if flowDone lp then Some (Inr \<lparr>teResponse = flResponse lp, teAggregatedText = joinedText (flCollector lp)\<rparr>) else None)"

definition executeOrchestratedTurnResponse ::
    "('e, 's) turnExecutionOptions \<Rightarrow> bool \<Rightarrow> 'e flow_message list \<Rightarrow> 's \<Rightarrow> ('e + turnExecutionResult) option \<times> 's" where
  "executeOrchestratedTurnResponse opts hinted msgs s =
     (let audio = (hkStartAudio opts \<noteq> None);
          lp = fold (flowStep opts (audio \<and> hinted)) msgs (newFlow audio s)
      in (flowResult lp, flTransport lp))"

text \<open>A streaming responder has no early audio.\<close>

definition executeStreamingTurnResponse ::
    "('e, 's) turnExecutionOptions \<Rightarrow> 'e flow_message list \<Rightarrow> 's \<Rightarrow> ('e + turnExecutionResult) option \<times> 's" where
  "executeStreamingTurnResponse opts msgs s =
     (let lp = fold (flowStep opts False) msgs (newFlow False s) in (flowResult lp, flTransport lp))"

text \<open>The responder decides which of the three is used.\<close>

datatype 'e responder_run =
    RunOrchestrated "'e option" bool "'e flow_message list"
  | RunStreaming "'e flow_message list"
  | RunPlain "'e + TurnResponse"

fun executeTurnResponse :: "('e, 's) turnExecutionOptions \<Rightarrow> 'e responder_run \<Rightarrow> 's \<Rightarrow> ('e + turnExecutionResult) option \<times> 's" where
  "executeTurnResponse opts (RunOrchestrated (Some e) hinted msgs) s = (Some (Inl e), s)"
| "executeTurnResponse opts (RunOrchestrated None hinted msgs) s = executeOrchestratedTurnResponse opts hinted msgs s"
| "executeTurnResponse opts (RunStreaming msgs) s = executeStreamingTurnResponse opts msgs s"
| "executeTurnResponse opts (RunPlain answer) s = (case executePlainTurnResponse opts answer s of (r, s1) \<Rightarrow> (Some r, s1))"


section \<open>What a turn emits\<close>

text \<open>Hooks that never fail and write down what they are asked to do.\<close>

datatype flow_action = ActStart "gostring list" | ActDelta ResponseDelta | ActCollected gostring
  | ActAudio ResponseAudioStart gostring | ActOutcome turnOutputOutcome

definition logHooks :: "bool \<Rightarrow> ('e, flow_action list) turnExecutionOptions" where
  "logHooks audio =
     \<lparr>hkResponseStart = (\<lambda>m r s. (None, s @ [ActStart m])), hkFirstTextDelta = (\<lambda>t s. s),
      hkResponseDelta = (\<lambda>d s. (None, s @ [ActDelta d])), hkTextCollected = (\<lambda>t s. s @ [ActCollected t]),
      hkStartAudio = (if audio then Some (\<lambda>st t s. (None, s @ [ActAudio st t])) else None),
      hkResolve = (\<lambda>o1 s. s @ [ActOutcome o1])\<rparr>"

fun deltaOf :: "flow_action \<Rightarrow> ResponseDelta list" where
  "deltaOf (ActDelta d) = [d]" | "deltaOf _ = []"

fun outcomeIn :: "flow_action \<Rightarrow> turnOutputOutcome list" where
  "outcomeIn (ActOutcome r) = [r]" | "outcomeIn _ = []"

fun audioOf :: "flow_action \<Rightarrow> ResponseAudioStart list" where
  "audioOf (ActAudio st _) = [st]" | "audioOf _ = []"

fun startOf :: "flow_action \<Rightarrow> unit list" where
  "startOf (ActStart _) = [()]" | "startOf _ = []"

text \<open>The deltas and the early audio among the messages, and the deltas of the response when it is the first to arrive.\<close>

fun msgDelta :: "'e flow_message \<Rightarrow> ResponseDelta list" where
  "msgDelta (MsgDelta d) = [d]" | "msgDelta _ = []"

fun msgAudio :: "'e flow_message \<Rightarrow> ResponseAudioStart list" where
  "msgAudio (MsgAudio (Inr (Some st))) = [st]" | "msgAudio _ = []"

fun msgResponse :: "'e flow_message \<Rightarrow> TurnResponse list" where
  "msgResponse (MsgResponse (Inr r)) = [r]" | "msgResponse _ = []"

fun wholeResponse :: "'e flow_message list \<Rightarrow> ResponseDelta list" where
  "wholeResponse [] = []"
| "wholeResponse (m # ms) =
     (if msgDelta m \<noteq> [] \<or> msgAudio m \<noteq> [] then []
      else case msgResponse m of r # _ \<Rightarrow> responseDeltasForEmission r True | [] \<Rightarrow> wholeResponse ms)"

text \<open>
  The orders \<open>select\<close> can produce when no channel delivers an error, given which channels are still read: deltas
  until their channel is closed, one response, one answer about early audio.
\<close>

fun select_order :: "bool \<Rightarrow> bool \<Rightarrow> bool \<Rightarrow> 'e flow_message list \<Rightarrow> bool" where
  "select_order d r a [] = (\<not> d \<and> \<not> r \<and> \<not> a)"
| "select_order d r a (MsgDelta _ # ms) = (d \<and> select_order d r a ms)"
| "select_order d r a (MsgDeltasClosed # ms) = (d \<and> select_order False r a ms)"
| "select_order d r a (MsgResponse (Inr _) # ms) = (r \<and> select_order d False a ms)"
| "select_order d r a (MsgAudio (Inr _) # ms) = (a \<and> select_order d r False ms)"
| "select_order d r a _ = False"

lemma logHooks_simps [simp]:
  "hkResponseStart (logHooks a) m r s = (None, s @ [ActStart m])" "hkFirstTextDelta (logHooks a) t s = s"
  "hkResponseDelta (logHooks a) d s = (None, s @ [ActDelta d])" "hkTextCollected (logHooks a) t s = s @ [ActCollected t]"
  "hkStartAudio (logHooks a) = (if a then Some (\<lambda>st t s. (None, s @ [ActAudio st t])) else None)"
  "hkResolve (logHooks a) o1 s = s @ [ActOutcome o1]"
  by (simp_all add: logHooks_def)

lemma emitDeltas_log: "emitTurnResponseDeltas (logHooks a) ds s = (None, s @ map ActDelta ds)"
  by (induction ds arbitrary: s) (auto simp: emitTurnResponseDelta_def)

lemma addAllDeltas_append: "addAllDeltas (ds @ es) c = addAllDeltas es (addAllDeltas ds c)"
  by (simp add: addAllDeltas_def)

lemma addAllDeltas_Cons: "addAllDeltas (d # ds) c = addAllDeltas ds (addDelta d c)" "addAllDeltas [] c = c"
  by (simp_all add: addAllDeltas_def)

lemma concat_map_ActDelta [simp]:
  "concat (map (deltaOf \<circ> ActDelta) ds) = ds" "concat (map (outcomeIn \<circ> ActDelta) ds) = []" "concat (map (audioOf \<circ> ActDelta) ds) = []"
  "concat (map (startOf \<circ> ActDelta) ds) = []"
  by (induction ds) auto

lemma outcome_transferred [simp]: "outcomeOf (markResponseAudioTransferred r) = outcomeOf r"
  by (simp add: outcomeOf_def markResponseAudioTransferred_def)

text \<open>The loop between two messages.\<close>

definition flow_inv :: "('e, flow_action list) flow \<Rightarrow> bool" where
  "flow_inv lp \<longleftrightarrow> flError lp = None \<and>
     concat (map startOf (flTransport lp)) = (if flSentStart lp then [()] else []) \<and>
     (flSentStart lp \<longrightarrow> (\<exists>m rest. flTransport lp = ActStart m # rest)) \<and> (\<not> flSentStart lp \<longrightarrow> flTransport lp = []) \<and>
     flCollector lp = addAllDeltas (concat (map deltaOf (flTransport lp))) [] \<and>
     (flCompletion lp \<longleftrightarrow> concat (map audioOf (flTransport lp)) \<noteq> []) \<and> (flCompletion lp \<longrightarrow> \<not> flAudioPending lp) \<and>
     (flReady lp \<longleftrightarrow> \<not> flResponsePending lp) \<and> (flReady lp \<longrightarrow> flSentStart lp) \<and>
     concat (map outcomeIn (flTransport lp)) = (if flCompletion lp \<and> flReady lp then [outcomeOf (flResponse lp)] else [])"

lemma flow_inv_delta:
  assumes "flow_inv lp"
  shows "flow_inv (onDelta (logHooks a) h d lp)"
    and "concat (map deltaOf (flTransport (onDelta (logHooks a) h d lp))) = concat (map deltaOf (flTransport lp)) @ [d]"
    and "concat (map audioOf (flTransport (onDelta (logHooks a) h d lp))) = concat (map audioOf (flTransport lp))"
    and "flSentStart (onDelta (logHooks a) h d lp)"
    and "flDeltasOpen (onDelta (logHooks a) h d lp) = flDeltasOpen lp \<and> flResponsePending (onDelta (logHooks a) h d lp) = flResponsePending lp \<and>
      flAudioPending (onDelta (logHooks a) h d lp) = flAudioPending lp \<and> flResponse (onDelta (logHooks a) h d lp) = flResponse lp"
  using assms
  by (cases "flSentStart lp";
      auto simp: flow_inv_def onDelta_def ensureStart_def emitTurnResponseDelta_def addAllDeltas_append addAllDeltas_Cons Let_def)+


lemmas log_defs = ensureStart_def resolveCompletion_def Let_def

lemma flow_inv_audio:
  assumes "flow_inv lp" and "flAudioPending lp"
  shows "flow_inv (onAudio (logHooks True) (Inr st) lp)"
    and "concat (map deltaOf (flTransport (onAudio (logHooks True) (Inr st) lp))) = concat (map deltaOf (flTransport lp))"
    and "concat (map audioOf (flTransport (onAudio (logHooks True) (Inr st) lp))) = concat (map audioOf (flTransport lp)) @ msgAudio (MsgAudio (Inr st))"
    and "flSentStart (onAudio (logHooks True) (Inr st) lp) \<longleftrightarrow> flSentStart lp \<or> st \<noteq> None"
    and "flDeltasOpen (onAudio (logHooks True) (Inr st) lp) = flDeltasOpen lp \<and>
      flResponsePending (onAudio (logHooks True) (Inr st) lp) = flResponsePending lp \<and> \<not> flAudioPending (onAudio (logHooks True) (Inr st) lp)"
    and "outcomeOf (flResponse (onAudio (logHooks True) (Inr st) lp)) = outcomeOf (flResponse lp)"
  using assms
  by (cases st; cases "flSentStart lp"; auto simp: flow_inv_def onAudio_def log_defs)+

lemma flow_inv_response:
  fixes lp :: "('e, flow_action list) flow"
  assumes "flow_inv lp" and "flResponsePending lp" and on: "on1 = onResponse (logHooks a) (Inr r) lp"
  shows "flow_inv on1 \<and>
    concat (map deltaOf (flTransport on1)) =
      concat (map deltaOf (flTransport lp)) @ (if flSentStart lp then [] else responseDeltasForEmission r True) \<and>
    concat (map audioOf (flTransport on1)) = concat (map audioOf (flTransport lp)) \<and> flSentStart on1 \<and>
    flDeltasOpen on1 = flDeltasOpen lp \<and> \<not> flResponsePending on1 \<and> flAudioPending on1 = flAudioPending lp \<and>
    outcomeOf (flResponse on1) = outcomeOf r"
proof (cases "flSentStart lp")
  case True
  then show ?thesis using assms by (auto simp: flow_inv_def onResponse_def resolveCompletion_def Let_def)
next
  case False
  let ?ds = "responseDeltasForEmission r True"
  have w: "emitWholeResponse (logHooks a :: ('e, flow_action list) turnExecutionOptions) r [] [] =
      (None, addAllDeltas ?ds [], ActStart (responseModalities ?ds r) # map ActDelta ?ds @
        (if TrimSpace (joinedText (addAllDeltas ?ds [])) \<noteq> [] then [ActCollected (joinedText (addAllDeltas ?ds []))] else []))"
    by (simp add: emitWholeResponse_def Let_def emitDeltas_log)
  have z: "flTransport lp = []" "flCollector lp = []" "\<not> flCompletion lp"
    using False assms by (auto simp: flow_inv_def addAllDeltas_Cons)
  have "on1 = lp\<lparr>flResponsePending := False, flReady := True, flResponse := r, flSentStart := True, flCollector := addAllDeltas ?ds [],
      flTransport := snd (snd (emitWholeResponse (logHooks a :: ('e, flow_action list) turnExecutionOptions) r [] []))\<rparr>"
    using False z w by (simp add: on onResponse_def resolveCompletion_def Let_def)
  then show ?thesis using False z assms(1,2) by (simp add: w flow_inv_def)
qed

lemma select_order_response:
  "select_order d r a ms \<Longrightarrow> if r then \<exists>x. concat (map msgResponse ms) = [x] else concat (map msgResponse ms) = []"
  by (induction d r a ms rule: select_order.induct) auto

text \<open>What the rest of the messages adds to a loop state.\<close>

definition flow_runs :: "bool \<Rightarrow> bool \<Rightarrow> 'e flow_message list \<Rightarrow> ('e, flow_action list) flow \<Rightarrow> bool" where
  "flow_runs a h ms lp \<longleftrightarrow> (let lp' = fold (flowStep (logHooks a) h) ms lp in
     flow_inv lp' \<and> flowDone lp' \<and> (\<forall>r \<in> set (concat (map msgResponse ms)). outcomeOf (flResponse lp') = outcomeOf r) \<and>
     (\<not> flResponsePending lp \<longrightarrow> outcomeOf (flResponse lp') = outcomeOf (flResponse lp)) \<and>
     concat (map audioOf (flTransport lp')) = concat (map audioOf (flTransport lp)) @ concat (map msgAudio ms) \<and>
     concat (map deltaOf (flTransport lp')) =
       concat (map deltaOf (flTransport lp)) @ (if flSentStart lp then [] else wholeResponse ms) @ concat (map msgDelta ms))"

lemma flow_runs_all:
  assumes "flow_inv lp" and "select_order (flDeltasOpen lp) (flResponsePending lp) (flAudioPending lp) ms"
    and "flAudioPending lp \<longrightarrow> a"
  shows "flow_runs a h ms lp"
  using assms
proof (induction ms arbitrary: lp)
  case (Cons m ms)
  have e: "flError lp = None" using Cons.prems(1) by (simp add: flow_inv_def)
  show ?case
  proof (cases m)
    case (MsgDelta d)
    let ?n = "onDelta (logHooks a) h d lp"
    note n = flow_inv_delta [OF Cons.prems(1), of a h d]
    have "flowStep (logHooks a) h m lp = ?n" using Cons.prems(2) e by (simp add: MsgDelta)
    moreover have "flow_runs a h ms ?n" by (rule Cons.IH) (use n Cons.prems in \<open>auto simp: MsgDelta\<close>)
    ultimately show ?thesis using n by (simp add: flow_runs_def MsgDelta Let_def)
  next
    case MsgDeltasClosed
    let ?n = "lp\<lparr>flDeltasOpen := False\<rparr>"
    have "flowStep (logHooks a) h m lp = ?n" using Cons.prems(2) e by (simp add: MsgDeltasClosed)
    moreover have "flow_runs a h ms ?n" by (rule Cons.IH) (use Cons.prems in \<open>auto simp: MsgDeltasClosed flow_inv_def\<close>)
    ultimately show ?thesis by (simp add: flow_runs_def MsgDeltasClosed Let_def)
  next
    case (MsgAudio x)
    then obtain st where m: "m = MsgAudio (Inr st)" and p: "flAudioPending lp" "a"
      using Cons.prems(2,3) by (cases x) auto
    let ?n = "onAudio (logHooks True) (Inr st) lp"
    note n = flow_inv_audio [OF Cons.prems(1) p(1), of st]
    have "flowStep (logHooks a) h m lp = ?n" using e p by (simp add: m)
    moreover have "flow_runs a h ms ?n" by (rule Cons.IH) (use n Cons.prems in \<open>auto simp: m\<close>)
    ultimately show ?thesis using n by (cases st) (simp_all add: flow_runs_def m Let_def)
  next
    case (MsgResponse x)
    then obtain r where m: "m = MsgResponse (Inr r)" and p: "flResponsePending lp"
      using Cons.prems(2) by (cases x) auto
    let ?n = "onResponse (logHooks a) (Inr r) lp"
    note n = flow_inv_response [OF Cons.prems(1) p refl, of a r]
    have "flowStep (logHooks a) h m lp = ?n" using e p by (simp add: m)
    moreover have "flow_runs a h ms ?n" by (rule Cons.IH) (use n Cons.prems in \<open>auto simp: m\<close>)
    moreover have "concat (map msgResponse ms) = []" using Cons.prems(2) select_order_response [of _ False _ ms] m by auto
    ultimately show ?thesis using n p by (simp add: flow_runs_def m Let_def)
  qed
qed (simp add: flow_runs_def flowDone_def Let_def)

text \<open>
  C17: In whatever order the channels deliver, a turn without errors returns, sends its response start exactly once
  and before everything else, starts early audio exactly when it was offered, and then resolves its outcome
  exactly once, with that of the response. The deltas emitted are those streamed, in order, preceded by the
  deltas of the response itself exactly when the response was received before any delta and before early audio;
  the aggregated text is collected from just these deltas. So text is emitted once when the first delta is
  received before the response, and twice when \<open>select\<close> takes the response first while deltas wait in their buffer.
\<close>

theorem turn_emission:
  assumes "select_order True True audio ms"
  shows "\<exists>res log m rest r. executeOrchestratedTurnResponse (logHooks audio) hinted ms [] = (Some (Inr res), log) \<and>
    log = ActStart m # rest \<and> concat (map startOf rest) = [] \<and>
    concat (map deltaOf log) = wholeResponse ms @ concat (map msgDelta ms) \<and>
    teAggregatedText res = joinedText (addAllDeltas (wholeResponse ms @ concat (map msgDelta ms)) []) \<and>
    concat (map msgResponse ms) = [r] \<and> concat (map audioOf log) = concat (map msgAudio ms) \<and>
    concat (map outcomeIn log) = (if concat (map msgAudio ms) = [] then [] else [outcomeOf r])"
proof -
  let ?n = "newFlow audio [] :: ('a, flow_action list) flow"
  let ?h = "audio \<and> hinted"
  define lp where "lp = fold (flowStep (logHooks audio) ?h) ms ?n"
  have "flow_inv ?n" by (simp add: flow_inv_def newFlow_def addAllDeltas_Cons)
  then have "flow_runs audio ?h ms ?n" using assms by (intro flow_runs_all) (simp_all add: newFlow_def)
  then have run: "flow_inv lp" "flowDone lp" "\<forall>r \<in> set (concat (map msgResponse ms)). outcomeOf (flResponse lp) = outcomeOf r"
    "concat (map audioOf (flTransport lp)) = concat (map msgAudio ms)"
    "concat (map deltaOf (flTransport lp)) = wholeResponse ms @ concat (map msgDelta ms)"
    by (simp_all add: flow_runs_def lp_def newFlow_def Let_def)
  obtain r where r: "concat (map msgResponse ms) = [r]" using select_order_response [OF assms] by auto
  have sent: "flSentStart lp" "flReady lp" "flError lp = None" using run(1,2) by (auto simp: flow_inv_def flowDone_def)
  then obtain m rest where log: "flTransport lp = ActStart m # rest" using run(1) by (auto simp: flow_inv_def)
  have "concat (map startOf (flTransport lp)) = [()]" using run(1) sent by (simp add: flow_inv_def)
  then have rest: "concat (map startOf rest) = []" by (simp add: log)
  have out: "concat (map outcomeIn (flTransport lp)) = (if concat (map msgAudio ms) = [] then [] else [outcomeOf r])"
    using run(1,3,4) r sent by (simp add: flow_inv_def)
  have ex: "executeOrchestratedTurnResponse (logHooks audio) hinted ms [] =
      (Some (Inr \<lparr>teResponse = flResponse lp, teAggregatedText = joinedText (flCollector lp)\<rparr>), flTransport lp)"
  proof -
    have "(hkStartAudio (logHooks audio :: ('a, flow_action list) turnExecutionOptions) \<noteq> None) = audio" by simp
    then have "executeOrchestratedTurnResponse (logHooks audio) hinted ms [] = (flowResult lp, flTransport lp)"
      unfolding executeOrchestratedTurnResponse_def Let_def lp_def by (simp only:)
    then show ?thesis using sent run(2) by (simp add: flowResult_def)
  qed
  have "flCollector lp = addAllDeltas (wholeResponse ms @ concat (map msgDelta ms)) []"
    using run(1,5) by (simp add: flow_inv_def)
  then show ?thesis using ex log rest out r run(4,5) by auto
qed

definition helloResponse :: TurnResponse where
  "helloResponse = emptyResponse\<lparr>tpText := lit ''Hi.''\<rparr>"

theorem turn_emission_witness:
  "(\<exists>log. executeOrchestratedTurnResponse (logHooks False :: (gostring, flow_action list) turnExecutionOptions) False
      [MsgDelta (textDelta (lit ''Hi.'')), MsgDeltasClosed, MsgResponse (Inr helloResponse)] [] =
      (Some (Inr \<lparr>teResponse = helloResponse, teAggregatedText = lit ''Hi.''\<rparr>), log)) \<and>
   (\<exists>res log. executeOrchestratedTurnResponse (logHooks False :: (gostring, flow_action list) turnExecutionOptions) False
      [MsgResponse (Inr helloResponse), MsgDelta (textDelta (lit ''Hi.'')), MsgDeltasClosed] [] = (Some (Inr res), log) \<and>
      concat (map deltaOf log) = [textDelta (lit ''Hi.''), textDelta (lit ''Hi.'')] \<and> teAggregatedText res = lit ''Hi.Hi.'')"
proof -
  let ?late = "[MsgResponse (Inr helloResponse), MsgDelta (textDelta (lit ''Hi.'')), MsgDeltasClosed] :: gostring flow_message list"
  have a: "select_order True True False ?late" by simp
  have b: "wholeResponse ?late @ concat (map msgDelta ?late) = [textDelta (lit ''Hi.''), textDelta (lit ''Hi.'')]" by code_simp
  have c: "joinedText (addAllDeltas [textDelta (lit ''Hi.''), textDelta (lit ''Hi.'')] []) = lit ''Hi.Hi.''" by code_simp
  have d: "executeOrchestratedTurnResponse (logHooks False :: (gostring, flow_action list) turnExecutionOptions) False
      [MsgDelta (textDelta (lit ''Hi.'')), MsgDeltasClosed, MsgResponse (Inr helloResponse)] [] =
      (Some (Inr \<lparr>teResponse = helloResponse, teAggregatedText = lit ''Hi.''\<rparr>),
       [ActStart [lit ''text''], ActDelta (textDelta (lit ''Hi.'')), ActCollected (lit ''Hi.'')])" by code_simp
  show ?thesis using turn_emission [OF a, of False] d unfolding b c by blast
qed

end
