(* ===== verification/Gateway_Traces.thy ===== *)
theory Gateway_Traces
  imports Turn_Detector
begin

text \<open>
  The traces a connection keeps of its turn and of its input preview: \<open>internal/gateway/turn_trace.go\<close> and
  \<open>internal/gateway/preview_trace.go\<close>. The preview trace is not only logged: what it observes for the first time
  decides which preview events the client is sent.
\<close>

section \<open>Turn trace\<close>

record turnTrace =
  ttTurnID :: gostring
  ttTraceID :: gostring
  ttSource :: gostring
  ttAcceptedAt :: gotime
  ttResponseStartedAt :: gotime
  ttFirstTextDeltaAt :: gotime
  ttSpeakingAt :: gotime
  ttFirstAudioChunkAt :: gotime
  ttActiveAt :: gotime
  ttInterruptedAt :: gotime
  ttCompletedAt :: gotime

record turnTraceState =
  tsCounter :: int
  tsCurrent :: turnTrace

definition noTurnTrace :: turnTrace where
  "noTurnTrace = \<lparr>ttTurnID = [], ttTraceID = [], ttSource = [], ttAcceptedAt = None, ttResponseStartedAt = None,
     ttFirstTextDeltaAt = None, ttSpeakingAt = None, ttFirstAudioChunkAt = None, ttActiveAt = None, ttInterruptedAt = None,
     ttCompletedAt = None\<rparr>"

definition newTurnTraceState :: turnTraceState where
  "newTurnTraceState = \<lparr>tsCounter = 0, tsCurrent = noTurnTrace\<rparr>"

definition BeginTrace :: "int \<Rightarrow> gostring \<Rightarrow> gostring \<Rightarrow> turnTraceState \<Rightarrow> turnTrace \<times> turnTraceState" where
  "BeginTrace now sessionID source s =
     (let counter = int64 (tsCounter s + 1);
          turn = noTurnTrace\<lparr>ttTurnID := lit ''turn_'' @ Itoa now @ lit ''_'' @ Itoa counter,
                   ttTraceID := lit ''trace_'' @ sessionID @ lit ''_'' @ Itoa now @ lit ''_'' @ Itoa counter,
                   ttSource := source, ttAcceptedAt := Some now\<rparr>
      in (turn, \<lparr>tsCounter = counter, tsCurrent = turn\<rparr>))"

text \<open>The marks: nothing is recorded when no turn is running.\<close>

definition markTrace :: "(turnTrace \<Rightarrow> turnTrace) \<Rightarrow> turnTraceState \<Rightarrow> turnTrace \<times> turnTraceState" where
  "markTrace f s =
     (if ttTurnID (tsCurrent s) = [] then (noTurnTrace, s)
      else (f (tsCurrent s), s\<lparr>tsCurrent := f (tsCurrent s)\<rparr>))"

definition MarkResponseStart :: "int \<Rightarrow> turnTraceState \<Rightarrow> turnTrace \<times> turnTraceState" where
  "MarkResponseStart now = markTrace (\<lambda>t. t\<lparr>ttResponseStartedAt := Some now\<rparr>)"

definition MarkSpeaking :: "int \<Rightarrow> turnTraceState \<Rightarrow> turnTrace \<times> turnTraceState" where
  "MarkSpeaking now = markTrace (\<lambda>t. t\<lparr>ttSpeakingAt := Some now\<rparr>)"

definition MarkActive :: "int \<Rightarrow> turnTraceState \<Rightarrow> turnTrace \<times> turnTraceState" where
  "MarkActive now = markTrace (\<lambda>t. t\<lparr>ttActiveAt := Some now\<rparr>)"

definition MarkInterrupted :: "int \<Rightarrow> turnTraceState \<Rightarrow> turnTrace \<times> turnTraceState" where
  "MarkInterrupted now = markTrace (\<lambda>t. t\<lparr>ttInterruptedAt := Some now\<rparr>)"

definition MarkCompleted :: "int \<Rightarrow> turnTraceState \<Rightarrow> turnTrace \<times> turnTraceState" where
  "MarkCompleted now = markTrace (\<lambda>t. t\<lparr>ttCompletedAt := Some now\<rparr>)"

definition MarkFirstTextDelta :: "int \<Rightarrow> turnTraceState \<Rightarrow> (turnTrace \<times> bool) \<times> turnTraceState" where
  "MarkFirstTextDelta now s =
     (if ttTurnID (tsCurrent s) = [] then ((noTurnTrace, False), s)
      else if ttFirstTextDeltaAt (tsCurrent s) \<noteq> None then ((tsCurrent s, False), s)
      else let t = (tsCurrent s)\<lparr>ttFirstTextDeltaAt := Some now\<rparr> in ((t, True), s\<lparr>tsCurrent := t\<rparr>))"

definition MarkFirstAudioChunk :: "int \<Rightarrow> turnTraceState \<Rightarrow> (turnTrace \<times> bool) \<times> turnTraceState" where
  "MarkFirstAudioChunk now s =
     (if ttTurnID (tsCurrent s) = [] then ((noTurnTrace, False), s)
      else if ttFirstAudioChunkAt (tsCurrent s) \<noteq> None then ((tsCurrent s, False), s)
      else let t = (tsCurrent s)\<lparr>ttFirstAudioChunkAt := Some now\<rparr> in ((t, True), s\<lparr>tsCurrent := t\<rparr>))"

definition ClearTrace :: "turnTraceState \<Rightarrow> turnTraceState" where
  "ClearTrace s = s\<lparr>tsCurrent := noTurnTrace\<rparr>"

definition AcceptedElapsedMs :: "turnTrace \<Rightarrow> gotime \<Rightarrow> int" where
  "AcceptedElapsedMs t instant =
     (case (ttAcceptedAt t, instant) of (Some a, Some b) \<Rightarrow> (b - a) sdiv Millisecond | _ \<Rightarrow> 0)"

definition markTurnFirstTextDelta :: "int \<Rightarrow> gostring \<Rightarrow> turnTraceState \<Rightarrow> turnTraceState" where
  "markTurnFirstTextDelta now t s = (if TrimSpace t = [] then s else snd (MarkFirstTextDelta now s))"

definition markTurnFirstAudioChunk :: "int \<Rightarrow> int \<Rightarrow> turnTraceState \<Rightarrow> turnTraceState" where
  "markTurnFirstAudioChunk now chunkBytes s = (if chunkBytes \<le> 0 then s else snd (MarkFirstAudioChunk now s))"

section \<open>Preview trace\<close>

record inputPreviewTrace =
  itPreviewID :: gostring
  itSessionID :: gostring
  itStartedAt :: gotime
  itSpeechStartedAt :: gotime
  itFirstPartialAt :: gotime
  itCandidateReadyAt :: gotime
  itDraftReadyAt :: gotime
  itAcceptReadyAt :: gotime
  itSemanticReadyAt :: gotime
  itSlotReadyAt :: gotime
  itEndpointCandidateAt :: gotime
  itCommitSuggestedAt :: gotime
  itAudioBytes :: int
  itLastPartialText :: gostring
  itEndpointReason :: gostring
  itTurnStage :: TurnArbitrationStage
  itArbitration :: TurnArbitration
  itHoldReason :: gostring
  itAcceptReason :: gostring

record inputPreviewTraceUpdate =
  iuFirstPartialObserved :: bool
  iuSpeechStartedObserved :: bool
  iuCandidateReadyObserved :: bool
  iuDraftReadyObserved :: bool
  iuAcceptReadyObserved :: bool
  iuSemanticReadyObserved :: bool
  iuSlotReadyObserved :: bool
  iuEndpointCandidateObserved :: bool
  iuCommitSuggestedObserved :: bool

record inputPreviewTraceState =
  isCounter :: int
  isCurrent :: inputPreviewTrace

text \<open>
  The arbitration fields a trace copies (readiness flags, semantic and slot fields, waits) are kept as the copied
  arbitration, with its texts trimmed as the source trims them.
\<close>

definition noPreviewTrace :: inputPreviewTrace where
  "noPreviewTrace = \<lparr>itPreviewID = [], itSessionID = [], itStartedAt = None, itSpeechStartedAt = None, itFirstPartialAt = None,
     itCandidateReadyAt = None, itDraftReadyAt = None, itAcceptReadyAt = None, itSemanticReadyAt = None, itSlotReadyAt = None,
     itEndpointCandidateAt = None, itCommitSuggestedAt = None, itAudioBytes = 0, itLastPartialText = [], itEndpointReason = [],
     itTurnStage = StageUnset, itArbitration = zeroArbitration, itHoldReason = [], itAcceptReason = []\<rparr>"

definition newInputPreviewTraceState :: inputPreviewTraceState where
  "newInputPreviewTraceState = \<lparr>isCounter = 0, isCurrent = noPreviewTrace\<rparr>"

definition copiedArbitration :: "TurnArbitration \<Rightarrow> TurnArbitration" where
  "copiedArbitration a =
     zeroArbitration\<lparr>arbCandidateReady := arbCandidateReady a, arbDraftReady := arbDraftReady a, arbAcceptReady := arbAcceptReady a,
       arbSemanticReady := arbSemanticReady a, arbSemanticComplete := arbSemanticComplete a,
       arbSemanticIntent := TrimSpace (arbSemanticIntent a), arbSemanticSlotReadiness := TrimSpace (arbSemanticSlotReadiness a),
       arbTaskFamily := TrimSpace (arbTaskFamily a), arbSemanticConfidence := arbSemanticConfidence a,
       arbSlotConstraintRequired := arbSlotConstraintRequired a, arbSlotReady := arbSlotReady a, arbSlotComplete := arbSlotComplete a,
       arbSlotDomain := TrimSpace (arbSlotDomain a), arbSlotStatus := TrimSpace (arbSlotStatus a),
       arbSlotActionability := TrimSpace (arbSlotActionability a), arbSlotConfidence := arbSlotConfidence a,
       arbSlotMissing := arbSlotMissing a, arbSlotAmbiguous := arbSlotAmbiguous a, arbBaseWaitMs := arbBaseWaitMs a,
       arbRuleAdjustMs := arbRuleAdjustMs a, arbPunctuationAdjustMs := arbPunctuationAdjustMs a,
       arbSemanticWaitDeltaMs := arbSemanticWaitDeltaMs a, arbSlotGuardAdjustMs := arbSlotGuardAdjustMs a,
       arbEffectiveWaitMs := arbEffectiveWaitMs a\<rparr>"

definition freshPreviewTrace :: "int \<Rightarrow> gostring \<Rightarrow> inputPreviewTraceState \<Rightarrow> inputPreviewTraceState" where
  "freshPreviewTrace now sessionID s =
     (let counter = int64 (isCounter s + 1)
      in \<lparr>isCounter = counter,
          isCurrent = noPreviewTrace\<lparr>itPreviewID := lit ''preview_'' @ sessionID @ lit ''_'' @ Itoa now @ lit ''_'' @ Itoa counter,
            itSessionID := TrimSpace sessionID, itStartedAt := Some now\<rparr>\<rparr>)"

definition fillSessionID :: "gostring \<Rightarrow> inputPreviewTrace \<Rightarrow> inputPreviewTrace" where
  "fillSessionID sessionID t = (if itSessionID t = [] then t\<lparr>itSessionID := TrimSpace sessionID\<rparr> else t)"

definition ObserveTraceAudio :: "gostring \<Rightarrow> int \<Rightarrow> int \<Rightarrow> inputPreviewTraceState \<Rightarrow> inputPreviewTrace \<times> inputPreviewTraceState" where
  "ObserveTraceAudio sessionID payloadBytes now s =
     (if payloadBytes \<le> 0 then (isCurrent s, s)
      else
        let s1 = (if itPreviewID (isCurrent s) = [] then freshPreviewTrace now sessionID s else s);
            t = fillSessionID sessionID (isCurrent s1);
            t' = t\<lparr>itAudioBytes := itAudioBytes t + payloadBytes\<rparr>
        in (t', s1\<lparr>isCurrent := t'\<rparr>))"

text \<open>A time that is set when a condition first holds: the new time, and whether it was set now.\<close>

definition latch :: "bool \<Rightarrow> int \<Rightarrow> gotime \<Rightarrow> gotime \<times> bool" where
  "latch cond now t = (if cond \<and> t = None then (Some now, True) else (t, False))"

text \<open>\<open>firstNonEmpty\<close> of package \<open>gateway\<close>: the first value that is not blank, as it is.\<close>

fun gatewayFirstNonEmpty :: "gostring list \<Rightarrow> gostring" where
  "gatewayFirstNonEmpty [] = []"
| "gatewayFirstNonEmpty (v # vs) = (if TrimSpace v \<noteq> [] then v else gatewayFirstNonEmpty vs)"

definition ObservePreview ::
    "gostring \<Rightarrow> InputPreview \<Rightarrow> int \<Rightarrow> inputPreviewTraceState
       \<Rightarrow> (inputPreviewTrace \<times> inputPreviewTraceUpdate) \<times> inputPreviewTraceState" where
  "ObservePreview sessionID preview now s =
     (let s1 = (if itPreviewID (isCurrent s) = [] \<and> pvAudioBytes preview > 0 then freshPreviewTrace now sessionID s else s);
          t0 = fillSessionID sessionID (isCurrent s1);
          a = pvArbitration preview;
          partialText = TrimSpace (pvPartialText preview);
          endpointReason = TrimSpace (pvEndpointReason preview);
          speech = latch (pvSpeechStarted preview) now (itSpeechStartedAt t0);
          firstPartial = latch (partialText \<noteq> []) now (itFirstPartialAt t0);
          candidate = latch (arbCandidateReady a) now (itCandidateReadyAt t0);
          draft = latch (arbDraftReady a) now (itDraftReadyAt t0);
          accept = latch (arbAcceptReady a) now (itAcceptReadyAt t0);
          semantic = latch (arbSemanticReady a) now (itSemanticReadyAt t0);
          slot = latch (arbSlotReady a) now (itSlotReadyAt t0);
          endpoint = latch (endpointReason \<noteq> []) now (itEndpointCandidateAt t0);
          commit = latch (pvCommitSuggested preview) now (itCommitSuggestedAt t0);
          accepting = (pvCommitSuggested preview \<or> arbAcceptCandidate a \<or> arbAcceptNow a);
          t1 = t0\<lparr>itAudioBytes := (if pvAudioBytes preview > itAudioBytes t0 then pvAudioBytes preview else itAudioBytes t0),
                  itSpeechStartedAt := fst speech, itFirstPartialAt := fst firstPartial,
                  itLastPartialText := (if partialText \<noteq> [] then partialText else itLastPartialText t0),
                  itArbitration := copiedArbitration a,
                  itCandidateReadyAt := fst candidate, itDraftReadyAt := fst draft, itAcceptReadyAt := fst accept,
                  itSemanticReadyAt := fst semantic, itSlotReadyAt := fst slot,
                  itEndpointReason := (if endpointReason \<noteq> [] then endpointReason else itEndpointReason t0),
                  itTurnStage := (if arbStage a \<noteq> StageUnset then arbStage a else itTurnStage t0),
                  itEndpointCandidateAt := fst endpoint, itCommitSuggestedAt := fst commit,
                  itAcceptReason := (if accepting then gatewayFirstNonEmpty [endpointReason, TrimSpace (arbReason a)] else []),
                  itHoldReason := (if accepting then [] else TrimSpace (arbReason a))\<rparr>
      in ((t1, \<lparr>iuFirstPartialObserved = snd firstPartial, iuSpeechStartedObserved = snd speech, iuCandidateReadyObserved = snd candidate,
                iuDraftReadyObserved = snd draft, iuAcceptReadyObserved = snd accept, iuSemanticReadyObserved = snd semantic,
                iuSlotReadyObserved = snd slot, iuEndpointCandidateObserved = snd endpoint, iuCommitSuggestedObserved = snd commit\<rparr>),
          s1\<lparr>isCurrent := t1\<rparr>))"

definition ClearPreviewTrace :: "inputPreviewTraceState \<Rightarrow> inputPreviewTrace \<times> inputPreviewTraceState" where
  "ClearPreviewTrace s = (isCurrent s, s\<lparr>isCurrent := noPreviewTrace\<rparr>)"

text \<open>The latencies of a trace, each between the start and a recorded time.\<close>

definition traceLatencyMs :: "gotime \<Rightarrow> gotime \<Rightarrow> int" where
  "traceLatencyMs started instant = (case (started, instant) of (Some a, Some b) \<Rightarrow> (b - a) sdiv Millisecond | _ \<Rightarrow> 0)"

definition ElapsedMs :: "inputPreviewTrace \<Rightarrow> gotime \<Rightarrow> int" where
  "ElapsedMs t now = traceLatencyMs (itStartedAt t) now"

definition FirstPartialLatencyMs :: "inputPreviewTrace \<Rightarrow> int" where
  "FirstPartialLatencyMs t = traceLatencyMs (itStartedAt t) (itFirstPartialAt t)"

definition SpeechStartLatencyMs :: "inputPreviewTrace \<Rightarrow> int" where
  "SpeechStartLatencyMs t = traceLatencyMs (itStartedAt t) (itSpeechStartedAt t)"

definition EndpointCandidateLatencyMs :: "inputPreviewTrace \<Rightarrow> int" where
  "EndpointCandidateLatencyMs t = traceLatencyMs (itStartedAt t) (itEndpointCandidateAt t)"

definition CommitSuggestedLatencyMs :: "inputPreviewTrace \<Rightarrow> int" where
  "CommitSuggestedLatencyMs t = traceLatencyMs (itStartedAt t) (itCommitSuggestedAt t)"

section \<open>Lemmas\<close>

lemma latch_simps [simp]: "snd (latch c now t) \<longleftrightarrow> c \<and> t = None" "fst (latch c now t) = None \<longleftrightarrow> t = None \<and> \<not> c"
  by (auto simp: latch_def)

lemma fillSessionID_simps [simp]:
  "itSpeechStartedAt (fillSessionID sid t) = itSpeechStartedAt t" "itEndpointCandidateAt (fillSessionID sid t) = itEndpointCandidateAt t"
  by (simp_all add: fillSessionID_def)

text \<open>Within one preview a speech start and an endpoint candidate are observed at most once, and only with their cause.\<close>

lemma ObservePreview_latched:
  "isCurrent (snd (ObservePreview sid p now s)) = fst (fst (ObservePreview sid p now s))"
  "iuSpeechStartedObserved (snd (fst (ObservePreview sid p now s))) \<Longrightarrow>
     pvSpeechStarted p \<and> itSpeechStartedAt (fst (fst (ObservePreview sid p now s))) \<noteq> None"
  "itSpeechStartedAt (isCurrent s) \<noteq> None \<Longrightarrow> itPreviewID (isCurrent s) \<noteq> [] \<Longrightarrow>
     \<not> iuSpeechStartedObserved (snd (fst (ObservePreview sid p now s)))"
  "itEndpointCandidateAt (isCurrent s) \<noteq> None \<Longrightarrow> itPreviewID (isCurrent s) \<noteq> [] \<Longrightarrow>
     \<not> iuEndpointCandidateObserved (snd (fst (ObservePreview sid p now s)))"
  by (simp_all add: ObservePreview_def Let_def)

end
