(* ===== verification/Input_Audio.thy ===== *)
theory Input_Audio
  imports Pcm_Audio
begin

text \<open>
  Normalising the audio a client sends, \<open>internal/voice/input_audio.go\<close>: PCM passes through, an Opus packet is
  checked by its table of contents byte and decoded by the third-party decoder. The decoder is a parameter: given
  the length of the output buffer it answers an error or what it wrote, the sample rate of the bandwidth and
  whether the packet is stereo. It writes into a slice, so the buffer keeps its length.
\<close>

section \<open>Opus packets\<close>

datatype opusConfigurationMode = SilkOnly | Hybrid | CeltOnly

datatype opus_error = OpusEmpty | OpusConfiguration int | OpusNoFrameCount | OpusZeroFrames | OpusFrameCode int | OpusTooLong
  | OpusNoSamples | OpusUnsupportedMode opusConfigurationMode | OpusDecoder gostring | OpusChannelMismatch int int
  | OpusTargetChannels int int | OpusInvalidRate | OpusAdapt adapt_error | OpusCodec gostring

record opusPacketInfo =
  oiMode :: opusConfigurationMode
  oiSampleRateHz :: int
  oiChannels :: int
  oiFrameCount :: int
  oiSampleCount :: int

definition silkFrames :: "int list" where "silkFrames = [10000000, 20000000, 40000000, 60000000]"
definition hybridFrames :: "int list" where "hybridFrames = [10000000, 20000000]"
definition celtFrames :: "int list" where "celtFrames = [2500000, 5000000, 10000000, 20000000]"

definition opusConfigurationInfo :: "nat \<Rightarrow> opus_error + (opusConfigurationMode \<times> int \<times> int)" where
  "opusConfigurationInfo config =
     (if config \<le> 3 then Inr (SilkOnly, 8000, silkFrames ! config)
      else if config \<le> 7 then Inr (SilkOnly, 12000, silkFrames ! (config - 4))
      else if config \<le> 11 then Inr (SilkOnly, 16000, silkFrames ! (config - 8))
      else if config \<le> 13 then Inr (Hybrid, 24000, hybridFrames ! (config - 12))
      else if config \<le> 15 then Inr (Hybrid, 48000, hybridFrames ! (config - 14))
      else if config \<le> 19 then Inr (CeltOnly, 8000, celtFrames ! (config - 16))
      else if config \<le> 23 then Inr (CeltOnly, 16000, celtFrames ! (config - 20))
      else if config \<le> 27 then Inr (CeltOnly, 24000, celtFrames ! (config - 24))
      else if config \<le> 31 then Inr (CeltOnly, 48000, celtFrames ! (config - 28))
      else Inl (OpusConfiguration (int config)))"

definition opusFrameCount :: "byte list \<Rightarrow> nat \<Rightarrow> opus_error + int" where
  "opusFrameCount payload frameCode =
     (if frameCode = 0 then Inr 1
      else if frameCode = 1 \<or> frameCode = 2 then Inr 2
      else if frameCode = 3 then
        (if length payload < 2 then Inl OpusNoFrameCount
         else let frameCount = uint (and (payload ! 1) 63) in if frameCount = 0 then Inl OpusZeroFrames else Inr frameCount)
      else Inl (OpusFrameCode (int frameCode)))"

definition parseOpusPacketInfo :: "byte list \<Rightarrow> opus_error + opusPacketInfo" where
  "parseOpusPacketInfo payload =
     (case payload of
        [] \<Rightarrow> Inl OpusEmpty
      | toc # _ \<Rightarrow>
          (case opusConfigurationInfo (unat (drop_bit 3 toc)) of
             Inl e \<Rightarrow> Inl e
           | Inr (mode, rate, frameDurationNs) \<Rightarrow>
               (case opusFrameCount payload (unat (and toc 3)) of
                  Inl e \<Rightarrow> Inl e
                | Inr frameCount \<Rightarrow>
                    if frameDurationNs * frameCount > 120000000 then Inl OpusTooLong
                    else let sampleCount = (rate * frameDurationNs * frameCount) sdiv 1000000000
                         in if sampleCount \<le> 0 then Inl OpusNoSamples
                            else Inr \<lparr>oiMode = mode, oiSampleRateHz = rate, oiChannels = (if and toc 4 \<noteq> 0 then 2 else 1),
                                   oiFrameCount = frameCount, oiSampleCount = sampleCount\<rparr>)))"

section \<open>Normalisers\<close>

datatype InputNormalizer = PCM16InputNormalizer int int | OpusInputNormalizer int int

text \<open>What \<open>pionopus\<close> answers for a buffer of the given length.\<close>

type_synonym opus_decoder = "nat \<Rightarrow> gostring + (byte list \<times> int \<times> bool)"

definition writtenBuffer :: "nat \<Rightarrow> byte list \<Rightarrow> byte list" where
  "writtenBuffer n written = take n (written @ replicate n 0)"

text \<open>A slice expression \<open>out[:n]\<close>: \<open>None\<close> when it panics.\<close>

definition sliceTo :: "int \<Rightarrow> byte list \<Rightarrow> byte list option" where
  "sliceTo n out = (if 0 \<le> n \<and> n \<le> int (length out) then Some (take (nat n) out) else None)"

text \<open>The checks on what the decoder answered, and the adaptation to the target rate.\<close>

definition opusFinish ::
    "int \<Rightarrow> int \<Rightarrow> opusPacketInfo \<Rightarrow> byte list \<Rightarrow> int \<Rightarrow> bool \<Rightarrow> (opus_error + byte list) option" where
  "opusFinish targetSampleRateHz targetChannels info out bandwidthRate isStereo =
     (let decodedChannels = (if isStereo then 2 else 1); decodedRateHz = bandwidthRate * 3
      in if decodedChannels \<noteq> oiChannels info then Some (Inl (OpusChannelMismatch decodedChannels (oiChannels info)))
         else if decodedChannels \<noteq> targetChannels then Some (Inl (OpusTargetChannels decodedChannels targetChannels))
         else if decodedRateHz \<le> 0 then Some (Inl OpusInvalidRate)
         else (case sliceTo (oiSampleCount info * decodedChannels * 2 * 3) out of
             None \<Rightarrow> None
           | Some payloadPCM \<Rightarrow>
               Some (if decodedRateHz = targetSampleRateHz then Inr payloadPCM
                     else (case adaptPCM16 payloadPCM decodedRateHz decodedChannels targetSampleRateHz targetChannels of
                             Inl e \<Rightarrow> Inl (OpusAdapt e) | Inr adapted \<Rightarrow> Inr adapted))))"

definition opusDecode :: "opus_decoder \<Rightarrow> int \<Rightarrow> int \<Rightarrow> byte list \<Rightarrow> (opus_error + byte list) option" where
  "opusDecode pion targetSampleRateHz targetChannels payload =
     (if payload = [] then Some (Inr [])
      else case parseOpusPacketInfo payload of
        Inl e \<Rightarrow> Some (Inl e)
      | Inr info \<Rightarrow>
          (if oiMode info \<noteq> SilkOnly then Some (Inl (OpusUnsupportedMode (oiMode info)))
           else
             (let n = nat (oiSampleCount info * oiChannels info * 2 * 3)
              in case pion n of
                   Inl e \<Rightarrow> Some (Inl (OpusDecoder e))
                 | Inr (written, bandwidthRate, isStereo) \<Rightarrow>
                     opusFinish targetSampleRateHz targetChannels info (writtenBuffer n written) bandwidthRate isStereo)))"

fun normalizerDecode :: "opus_decoder \<Rightarrow> InputNormalizer \<Rightarrow> byte list \<Rightarrow> (opus_error + byte list) option" where
  "normalizerDecode pion (PCM16InputNormalizer _ _) payload = Some (Inr payload)"
| "normalizerDecode pion (OpusInputNormalizer rate chans) payload = opusDecode pion rate chans payload"

definition OutputCodec :: "InputNormalizer \<Rightarrow> gostring" where
  "OutputCodec n = lit ''pcm16le''"

fun OutputSampleRate :: "InputNormalizer \<Rightarrow> int" where
  "OutputSampleRate (PCM16InputNormalizer rate _) = rate"
| "OutputSampleRate (OpusInputNormalizer rate _) = rate"

fun OutputChannels :: "InputNormalizer \<Rightarrow> int" where
  "OutputChannels (PCM16InputNormalizer _ chans) = chans"
| "OutputChannels (OpusInputNormalizer _ chans) = chans"

definition NewInputNormalizer :: "gostring \<Rightarrow> int \<Rightarrow> int \<Rightarrow> opus_error + InputNormalizer" where
  "NewInputNormalizer codec rate chans =
     (let c = ToLower (TrimSpace codec)
      in if c = [] \<or> c = lit ''pcm16le'' then Inr (PCM16InputNormalizer rate chans)
         else if c = lit ''opus'' then Inr (OpusInputNormalizer rate chans)
         else Inl (OpusCodec codec))"

section \<open>Lemmas\<close>

lemma frame_count_bound: "uint (and (b :: byte) 63) \<le> 63"
  by (simp add: unsigned_and_eq)

text \<open>The frame durations of every configuration make a whole number of samples.\<close>

lemma configuration_samples:
  assumes "opusConfigurationInfo config = Inr (mode, rate, ns)"
  shows "rate \<in> {8000, 12000, 16000, 24000, 48000} \<and> 2500000 \<le> ns \<and> 1000000000 dvd rate * ns"
proof -
  have "config \<in> set [0..<32]" using assms by (auto simp: opusConfigurationInfo_def split: if_splits)
  moreover have "\<forall>c \<in> set [0..<32]. \<forall>m r n. opusConfigurationInfo c = Inr (m, r, n) \<longrightarrow>
      r \<in> {8000, 12000, 16000, 24000, 48000} \<and> 2500000 \<le> n \<and> 1000000000 dvd r * n"
    unfolding upt_conv_Cons_Cons by (simp add: upt_rec opusConfigurationInfo_def silkFrames_def hybridFrames_def celtFrames_def)
  ultimately show ?thesis using assms by blast
qed

lemma frame_count_range: "opusFrameCount payload code = Inr n \<Longrightarrow> 1 \<le> n \<and> n \<le> 63"
proof -
  have "uint (and (payload ! 1) 63) \<noteq> 0 \<Longrightarrow> 1 \<le> uint (and (payload ! 1) 63)"
    using unsigned_greater_eq [of "and (payload ! 1) 63", where 'a = int] by linarith
  then show "opusFrameCount payload code = Inr n \<Longrightarrow> 1 \<le> n \<and> n \<le> 63"
    using frame_count_bound [of "payload ! 1"] by (auto simp: opusFrameCount_def Let_def split: if_splits)
qed

lemma parse_info:
  assumes "parseOpusPacketInfo payload = Inr info"
  obtains ns where "2500000 \<le> ns" "oiSampleRateHz info \<in> {8000, 12000, 16000, 24000, 48000}"
    "ns * oiFrameCount info \<le> 120000000" "1 \<le> oiFrameCount info" "oiChannels info \<in> {1, 2}"
    "oiSampleCount info * 1000000000 = oiSampleRateHz info * ns * oiFrameCount info" "0 < oiSampleCount info"
proof -
  obtain toc rest where p: "payload = toc # rest" using assms by (cases payload) (auto simp: parseOpusPacketInfo_def)
  obtain mode rate ns where c: "opusConfigurationInfo (unat (drop_bit 3 toc)) = Inr (mode, rate, ns)"
    using assms by (cases "opusConfigurationInfo (unat (drop_bit 3 toc))") (auto simp: parseOpusPacketInfo_def p)
  obtain n where f: "opusFrameCount payload (unat (and toc 3)) = Inr n"
    using assms c by (cases "opusFrameCount payload (unat (and toc 3))") (auto simp: parseOpusPacketInfo_def p)
  have info: "oiSampleRateHz info = rate" "oiFrameCount info = n" "oiChannels info \<in> {1, 2}" "ns * n \<le> 120000000"
      "oiSampleCount info = (rate * ns * n) sdiv 1000000000" "0 < oiSampleCount info"
    using assms c f by (auto simp: parseOpusPacketInfo_def p Let_def split: if_splits)
  have cs: "rate \<in> {8000, 12000, 16000, 24000, 48000}" "2500000 \<le> ns" "1000000000 dvd rate * ns"
    using configuration_samples [OF c] by simp_all
  have n: "1 \<le> n" using frame_count_range [OF f] by simp
  have "0 \<le> rate * ns * n" using cs(1,2) n by auto
  moreover have "1000000000 dvd rate * ns * n" using cs(3) by simp
  ultimately have "oiSampleCount info * 1000000000 = rate * ns * n" using info(5) by (simp add: sdiv_nonneg)
  then show thesis using that [of ns] info cs n by simp
qed

text \<open>
  Decoding an Opus packet never panics, whatever the packet and whatever the decoder answers: the slice of the
  output buffer is within the buffer. An accepted packet has one or two channels, at most 120 milliseconds of audio
  and at most 5760 samples per channel, the sample count is exact (no rounding for any configuration), so the
  buffer has between 1 and 69120 bytes; and when no resampling is needed the result is exactly the decoded samples.
\<close>

theorem opus_decode_safe:
  assumes "parseOpusPacketInfo payload = Inr info"
  shows "opusDecode pion rate chans payload \<noteq> None \<and> oiChannels info \<in> {1, 2} \<and>
    (\<exists>ns. oiSampleCount info * 1000000000 = oiSampleRateHz info * ns * oiFrameCount info \<and> ns * oiFrameCount info \<le> 120000000) \<and>
    0 < oiSampleCount info \<and> oiSampleCount info \<le> 5760 \<and> oiSampleCount info * oiChannels info * 2 * 3 \<le> 69120 \<and>
    (\<forall>written bw stereo pcm. pion (nat (oiSampleCount info * oiChannels info * 2 * 3)) = Inr (written, bw, stereo) \<and> bw * 3 = rate \<and>
       opusDecode pion rate chans payload = Some (Inr pcm) \<longrightarrow> int (length pcm) = oiSampleCount info * oiChannels info * 2 * 3)"
proof -
  obtain ns where ns: "2500000 \<le> ns" "oiSampleRateHz info \<in> {8000, 12000, 16000, 24000, 48000}"
    "ns * oiFrameCount info \<le> 120000000" "1 \<le> oiFrameCount info" "oiChannels info \<in> {1, 2}"
    "oiSampleCount info * 1000000000 = oiSampleRateHz info * ns * oiFrameCount info" "0 < oiSampleCount info"
    using parse_info [OF assms] .
  have "oiSampleRateHz info * (ns * oiFrameCount info) \<le> 48000 * 120000000"
    using ns by (intro mult_mono) auto
  then have sc: "oiSampleCount info \<le> 5760" using ns(6) by (simp add: mult.assoc)
  then have b: "oiSampleCount info * oiChannels info * 2 * 3 \<le> 69120" using ns(5,7) by auto
  let ?n = "oiSampleCount info * oiChannels info * 2 * 3"
  have len: "int (length (writtenBuffer (nat ?n) w)) = ?n" for w using ns(5,7) by (auto simp: writtenBuffer_def)
  have ne: "payload \<noteq> []" using assms by (auto simp: parseOpusPacketInfo_def)
  have slice: "sliceTo ?n (writtenBuffer (nat ?n) w) = Some (writtenBuffer (nat ?n) w)" for w
    using len [of w] ns(5,7) by (auto simp: sliceTo_def)
  have fin: "opusFinish rate chans info (writtenBuffer (nat ?n) w) bw st \<noteq> None" for w bw st
    using slice [of w] by (auto simp: opusFinish_def Let_def split: option.splits)
  have "opusDecode pion rate chans payload \<noteq> None"
    using assms fin ne by (auto simp: opusDecode_def Let_def split: sum.splits prod.splits)
  moreover have "int (length pcm) = ?n"
    if "pion (nat ?n) = Inr (w, bw, st)" "bw * 3 = rate" "opusDecode pion rate chans payload = Some (Inr pcm)" for w bw st pcm
  proof -
    have "opusFinish rate chans info (writtenBuffer (nat ?n) w) bw st = Some (Inr pcm)"
      using that assms ne by (auto simp: opusDecode_def Let_def split: if_splits)
    then have "pcm = writtenBuffer (nat ?n) w"
      using slice [of w] that(2) by (auto simp: opusFinish_def Let_def split: if_splits option.splits)
    then show ?thesis using len by simp
  qed
  ultimately show ?thesis using ns sc b by blast
qed

theorem opus_decode_safe_witness:
  "opusDecode (\<lambda>n. Inr ([1, 2], 16000, False)) 48000 1 [0x48] \<noteq> None"
proof -
  have "parseOpusPacketInfo [0x48] = Inr \<lparr>oiMode = SilkOnly, oiSampleRateHz = 16000, oiChannels = 1, oiFrameCount = 1, oiSampleCount = 320\<rparr>"
    by code_simp
  then show ?thesis using opus_decode_safe [of "[0x48]" _ "\<lambda>n. Inr ([1, 2], 16000, False)" 48000 1] by blast
qed

end
