(* ===== verification/Gateway_Runtime.thy ===== *)
theory Gateway_Runtime
  imports Session Output_Effects Playback_Ack Turn_Flow Gateway_Traces Input_Audio
begin

text \<open>
  The state of a connection and the operations its handlers share: \<open>internal/gateway/realtime_runtime.go\<close>,
  \<open>barge_in_runtime.go\<close>, \<open>turn_input_preview.go\<close> and \<open>output_flow.go\<close>.

  An operation that can fail is a function from the connection to a result and the connection, \<open>gop\<close>, composed
  with \<open>gbind\<close>, which returns at the first error as the source does. The outside world is an oracle: the n-th
  request to it (a clock reading, a write, a read deadline) is answered by \<open>envClock\<close> or \<open>envConnOk\<close> at n. The
  answers of recogniser previews are arguments. The voice session of a connection is never nil
  (NewSessionOrchestratorFromResponder), so its nil checks are left out.
\<close>

section \<open>Events\<close>

text \<open>The payloads a server sends, by the type of their event. The text of an error is the error it is made from.\<close>

datatype errorText = TextOf gostring | TextOfOpus opus_error | TextOfSession session_error | NoText

text \<open>The messages of the xiaozhi compatibility protocol.\<close>

record xiaozhiAudioParams =
  xaFormat :: gostring
  xaSampleRate :: int
  xaChannels :: int
  xaFrameDuration :: int

datatype xiaozhiMessage =
    XHello int gostring gostring xiaozhiAudioParams
  | XTTS gostring gostring gostring
  | XText gostring gostring gostring
  | XServer gostring errorText gostring

text \<open>What is sent on a connection: events, binary frames, compatibility messages, and its close.\<close>

datatype serverPayload =
    PError gostring errorText bool
  | PSessionUpdate State InputState OutputState bool gostring gostring
  | PSessionEnd gostring errorText
  | PResponseStart gostring "gostring list" gostring gostring
  | PResponseChunk gostring ResponseDelta
  | PAudioOutMeta gostring gostring gostring gostring int bool
  | PInputSpeechStart gostring int gostring
  | PInputPreview gostring gostring gostring bool "float64 option" int
  | PInputEndpoint gostring bool gostring int
  | PBinary "byte list"
  | PCompat xiaozhiMessage
  | PConnClosed

record wsPeer =
  peServerSeq :: int
  peSent :: "(int \<times> gostring \<times> serverPayload) list"

record connEnv =
  envClock :: "nat \<Rightarrow> int"
  envConnOk :: "nat \<Rightarrow> bool"

text \<open>\<open>StillWaiting\<close> is no error of the source: the operation has not returned yet.\<close>

datatype gateway_error = ErrSession session_error | ErrConnection | ErrResponder gostring | StillWaiting

section \<open>State\<close>

text \<open>
  An output that is played, with what its goroutine holds: \<open>osStage\<close> is where the goroutine is (before its loop, at the loop's check of
  the context, reading the stream, waiting for acknowledgements, waiting for the outcome), \<open>osCancelled\<close> is the state of its context,
  \<open>osCursor\<close> the segment announced last.
\<close>

datatype playbackStage = AtStart | AtCheck | AtRead | AtAckWait | AtOutcome

record outputStream =
  osStage :: playbackStage
  osCancelled :: bool
  osCompletion :: turnOutputOutcomeFuture
  osEffects :: outputEffectState
  osSessionID :: gostring
  osMeta :: audioPlaybackMeta
  osSource :: audioSource
  osCursor :: audioPlaybackMeta

record pendingBargeInAudio =
  pbChunks :: "byte list list"
  pbAudioBytes :: int

definition noPendingAudio :: pendingBargeInAudio where
  "noPendingAudio = \<lparr>pbChunks = [], pbAudioBytes = 0\<rparr>"

record connectionRuntime =
  crEnv :: connEnv
  crTick :: nat
  crPeer :: wsPeer
  crDeadline :: gotime
  crSession :: RealtimeSession
  crNormalizer :: "InputNormalizer option"
  crVoice :: SessionOrchestrator
  crClosedPreviews :: "nat list"
  crTurnTrace :: turnTraceState
  crPreviewTrace :: inputPreviewTraceState
  crCollaboration :: collaborationNegotiation
  crAck :: playbackAckState
  crOutput :: "outputStream option"
  crPending :: pendingBargeInAudio

definition newConnectionRuntime :: "connEnv \<Rightarrow> MemoryStore option \<Rightarrow> connectionRuntime" where
  "newConnectionRuntime env memory =
     \<lparr>crEnv = env, crTick = 0, crPeer = \<lparr>peServerSeq = 0, peSent = []\<rparr>, crDeadline = None, crSession = NewRealtimeSession,
      crNormalizer = None, crVoice = NewSessionOrchestrator memory, crClosedPreviews = [], crTurnTrace = newTurnTraceState,
      crPreviewTrace = newInputPreviewTraceState, crCollaboration = noCollaboration, crAck = noPlaybackAck, crOutput = None,
      crPending = noPendingAudio\<rparr>"

section \<open>Operations with errors\<close>

type_synonym 'a gop = "connectionRuntime \<Rightarrow> (gateway_error + 'a) \<times> connectionRuntime"

definition gret :: "'a \<Rightarrow> 'a gop" where
  "gret x r = (Inr x, r)"

definition gfail :: "gateway_error \<Rightarrow> 'a gop" where
  "gfail e r = (Inl e, r)"

definition gbind :: "'a gop \<Rightarrow> ('a \<Rightarrow> 'b gop) \<Rightarrow> 'b gop" where
  "gbind m f r = (case m r of (Inl e, r1) \<Rightarrow> (Inl e, r1) | (Inr x, r1) \<Rightarrow> f x r1)"

definition gthen :: "'a gop \<Rightarrow> 'b gop \<Rightarrow> 'b gop" where
  "gthen m k = gbind m (\<lambda>_. k)"

definition gget :: "(connectionRuntime \<Rightarrow> 'a) \<Rightarrow> 'a gop" where
  "gget f r = (Inr (f r), r)"

definition gmod :: "(connectionRuntime \<Rightarrow> connectionRuntime) \<Rightarrow> unit gop" where
  "gmod f r = (Inr (), f r)"

text \<open>An operation whose error is looked at by the caller.\<close>

definition gtry :: "'a gop \<Rightarrow> (gateway_error + 'a) gop" where
  "gtry m r = (case m r of (x, r1) \<Rightarrow> (Inr x, r1))"

definition gnow :: "int gop" where
  "gnow r = (Inr (envClock (crEnv r) (crTick r)), r\<lparr>crTick := crTick r + 1\<rparr>)"

text \<open>A method of the session, at the present instant.\<close>

definition onSession :: "(int \<Rightarrow> RealtimeSession \<Rightarrow> (session_error + 'a) \<times> RealtimeSession) \<Rightarrow> 'a gop" where
  "onSession f = gbind gnow (\<lambda>now r.
     case f now (crSession r) of
       (Inl e, s) \<Rightarrow> (Inl (ErrSession e), r\<lparr>crSession := s\<rparr>)
     | (Inr x, s) \<Rightarrow> (Inr x, r\<lparr>crSession := s\<rparr>))"

definition onVoice :: "(SessionOrchestrator \<Rightarrow> SessionOrchestrator) \<Rightarrow> unit gop" where
  "onVoice f = gmod (\<lambda>r. r\<lparr>crVoice := f (crVoice r)\<rparr>)"

definition onTurnTrace :: "(int \<Rightarrow> turnTraceState \<Rightarrow> turnTrace \<times> turnTraceState) \<Rightarrow> turnTrace gop" where
  "onTurnTrace f = gbind gnow (\<lambda>now r. case f now (crTurnTrace r) of (t, s) \<Rightarrow> (Inr t, r\<lparr>crTurnTrace := s\<rparr>))"

abbreviation snapshotOp :: "Snapshot gop" where
  "snapshotOp \<equiv> gget (\<lambda>r. takeSnapshot (crSession r))"

text \<open>Writing takes the next sequence number even when the connection refuses the write.\<close>

definition WriteEvent :: "gostring \<Rightarrow> serverPayload \<Rightarrow> unit gop" where
  "WriteEvent sessionID payload r =
     (let p = crPeer r; ok = envConnOk (crEnv r) (crTick r);
          r1 = r\<lparr>crTick := crTick r + 1, crPeer := p\<lparr>peServerSeq := peServerSeq p + 1,
                 peSent := (if ok then peSent p @ [(peServerSeq p + 1, sessionID, payload)] else peSent p)\<rparr>\<rparr>
      in (if ok then Inr () else Inl ErrConnection, r1))"

definition WriteBinary :: "byte list \<Rightarrow> unit gop" where
  "WriteBinary payload r =
     (let p = crPeer r; ok = envConnOk (crEnv r) (crTick r);
          r1 = r\<lparr>crTick := crTick r + 1,
                 crPeer := p\<lparr>peSent := (if ok then peSent p @ [(peServerSeq p, [], PBinary payload)] else peSent p)\<rparr>\<rparr>
      in (if ok then Inr () else Inl ErrConnection, r1))"

section \<open>Deadlines\<close>

definition timeAdd :: "gotime \<Rightarrow> duration \<Rightarrow> gotime" where
  "timeAdd t d = (case t of None \<Rightarrow> None | Some x \<Rightarrow> Some (x + d))"

definition readDeadlineForSnapshot :: "Snapshot \<Rightarrow> RealtimeProfile \<Rightarrow> gotime" where
  "readDeadlineForSnapshot snapshot profile =
     (if SessionID snapshot = [] then None
      else
        let deadline = (if prMaxSessionMs profile > 0 then timeAdd (StartedAt snapshot) (prMaxSessionMs profile * Millisecond) else None)
        in case (snapState snapshot = StateActive \<and> prIdleTimeoutMs profile > 0, LastActivityAt snapshot) of
             (True, Some t) \<Rightarrow>
               (let idleDeadline = t + prIdleTimeoutMs profile * Millisecond
                in case deadline of None \<Rightarrow> Some idleDeadline | Some d \<Rightarrow> if idleDeadline < d then Some idleDeadline else Some d)
           | _ \<Rightarrow> deadline)"

definition deadlineCloseReason :: "Snapshot \<Rightarrow> RealtimeProfile \<Rightarrow> int \<Rightarrow> CloseReason option" where
  "deadlineCloseReason snapshot profile now =
     (if SessionID snapshot = [] then None
      else
        let expired = (\<lambda>ms t. case t of None \<Rightarrow> False | Some x \<Rightarrow> ms > 0 \<and> x + ms * Millisecond \<le> now)
        in if expired (prMaxSessionMs profile) (StartedAt snapshot) then Some CloseReasonMaxDuration
           else if snapState snapshot = StateActive \<and> expired (prIdleTimeoutMs profile) (LastActivityAt snapshot) then Some CloseReasonIdle
           else None)"

definition closeMessageForReason :: "CloseReason \<Rightarrow> gostring" where
  "closeMessageForReason reason =
     (if reason = CloseReasonIdle then lit ''session closed after idle timeout''
      else if reason = CloseReasonMaxDuration then lit ''session reached max duration''
      else if reason = CloseReasonCompleted then lit ''server ended the dialog''
      else if reason = CloseReasonError then lit ''session closed because of a server error''
      else reason)"

definition applyReadDeadline :: "RealtimeProfile \<Rightarrow> Snapshot \<Rightarrow> unit gop" where
  "applyReadDeadline profile snapshot r =
     (let ok = envConnOk (crEnv r) (crTick r); r1 = r\<lparr>crTick := crTick r + 1\<rparr>
      in if ok then (Inr (), r1\<lparr>crDeadline := readDeadlineForSnapshot snapshot profile\<rparr>) else (Inl ErrConnection, r1))"

section \<open>Output\<close>

definition zeroDecision :: BargeInDecision where
  "zeroDecision = \<lparr>decAccepted = False, decPolicy = PolicyUnset, decReason = [], decAudioMs = 0, decLexicallyComplete = False,
     decMinAudioMs = 0, decHoldAudioMs = 0, decAcousticReady = False, decSemanticReady = False, decSemanticComplete = False,
     decSemanticIntent = [], decSemanticConfidence = 0, decSemanticTakeover = False, decAcceptCandidate = False,
     decAcceptNow = False, decEndpointHinted = False, decBackchannelLikely = False, decTakeoverLexicon = False,
     decTurnStage = StageUnset, decStability = 0, decStablePrefixRunes = 0, decIntrusionScore = 0, decTakeoverScore = 0\<rparr>"

text \<open>The goroutine of the output ends on its own once its context is cancelled; waiting for it changes nothing here.\<close>

definition interruptOutputWithPolicy :: "InterruptionPolicy \<Rightarrow> gostring \<Rightarrow> bool gop" where
  "interruptOutputWithPolicy policy reason r =
     (case crOutput r of
        None \<Rightarrow> (Inr False, r)
      | Some stream \<Rightarrow>
          if \<not> ShouldInterruptOutput (playbackDirectiveForDecision (zeroDecision\<lparr>decPolicy := policy, decReason := reason\<rparr>))
          then (Inr False, r)
          else (Inr True, r\<lparr>crOutput := Some (stream\<lparr>osCancelled := True\<rparr>),
                            crVoice := (if policy \<noteq> PolicyUnset then snd (InterruptPlaybackWithPolicy policy reason (crVoice r))
                                        else InterruptPlayback (crVoice r))\<rparr>))"

definition interruptOutput :: "bool gop" where
  "interruptOutput = interruptOutputWithPolicy PolicyHardInterrupt (lit ''hard_interrupt'')"

definition interruptOutputWithDecision :: "BargeInDecision \<Rightarrow> bool gop" where
  "interruptOutputWithDecision decision = interruptOutputWithPolicy (decPolicy decision) (decReason decision)"

definition applyOutputDirective :: "PlaybackDirective \<Rightarrow> bool gop" where
  "applyOutputDirective directive = gbind gnow (\<lambda>now r.
     case crOutput r of
       None \<Rightarrow> (Inr False, r)
     | Some stream \<Rightarrow>
         (case ApplyDirective directive now (osEffects stream) of
            (False, e) \<Rightarrow> (Inr False, r\<lparr>crOutput := Some (stream\<lparr>osEffects := e\<rparr>)\<rparr>)
          | (True, e) \<Rightarrow> (Inr True, r\<lparr>crOutput := Some (stream\<lparr>osEffects := e\<rparr>),
                                  crVoice := RecordInterruptionPolicy (dirPolicy directive) (dirReason directive) (crVoice r)\<rparr>)))"

section \<open>Audio received while the answer is played\<close>

definition stagePendingBargeInAudio :: "byte list \<Rightarrow> unit gop" where
  "stagePendingBargeInAudio payload =
     gmod (\<lambda>r. if payload = [] then r
       else r\<lparr>crPending := \<lparr>pbChunks = pbChunks (crPending r) @ [payload], pbAudioBytes = pbAudioBytes (crPending r) + int (length payload)\<rparr>\<rparr>)"

definition hasPendingBargeInAudio :: "connectionRuntime \<Rightarrow> bool" where
  "hasPendingBargeInAudio r \<longleftrightarrow> pbChunks (crPending r) \<noteq> []"

definition resetPendingBargeInAudio :: "unit gop" where
  "resetPendingBargeInAudio = gmod (\<lambda>r. r\<lparr>crPending := noPendingAudio\<rparr>)"

definition pendingBargeInPreview :: "connectionRuntime \<Rightarrow> InputPreview \<Rightarrow> InputPreview" where
  "pendingBargeInPreview r base =
     (let b = pbAudioBytes (crPending r);
          p = (if b > pvAudioBytes base then base\<lparr>pvAudioBytes := b\<rparr> else base)
      in if b > 0 then p\<lparr>pvSpeechStarted := True\<rparr> else p)"

fun ingestChunks :: "byte list list \<Rightarrow> Snapshot \<Rightarrow> Snapshot gop" where
  "ingestChunks [] snapshot = gret snapshot"
| "ingestChunks (chunk # chunks) snapshot =
     gbind (onSession (\<lambda>now. IngestOwnedAudioFrame now chunk)) (\<lambda>s. ingestChunks chunks s)"

definition flushPendingBargeInAudio :: "Snapshot gop" where
  "flushPendingBargeInAudio r = ingestChunks (pbChunks (crPending r)) zeroSnapshot (r\<lparr>crPending := noPendingAudio\<rparr>)"

section \<open>Input preview\<close>

text \<open>What the preview session of the recogniser answers to the calls of one message.\<close>

record previewAnswers =
  pwStarted :: "(gostring + nat) option"
  pwProgressive :: bool
  pwIntermediates :: "InputPreview list"
  pwResult :: "gostring + InputPreview"
  pwPolled :: InputPreview
  pwFinished :: "(TranscriptionResult \<times> gostring option) option"
  pwCloseErr :: "gostring option"

record inputPreviewObservation =
  goPreview :: InputPreview
  goActive :: bool
  goPartialChanged :: bool
  goUpdate :: inputPreviewTraceUpdate
  goCommitSuggested :: bool
  goTrace :: inputPreviewTrace

definition noUpdate :: inputPreviewTraceUpdate where
  "noUpdate = \<lparr>iuFirstPartialObserved = False, iuSpeechStartedObserved = False, iuCandidateReadyObserved = False,
     iuDraftReadyObserved = False, iuAcceptReadyObserved = False, iuSemanticReadyObserved = False, iuSlotReadyObserved = False,
     iuEndpointCandidateObserved = False, iuCommitSuggestedObserved = False\<rparr>"

definition noObservation :: inputPreviewObservation where
  "noObservation = \<lparr>goPreview = zeroPreview, goActive = False, goPartialChanged = False, goUpdate = noUpdate,
     goCommitSuggested = False, goTrace = noPreviewTrace\<rparr>"

definition ensureInputPreview :: "previewAnswers \<Rightarrow> unit gop" where
  "ensureInputPreview pw r =
     (case EnsureInputPreview (pwStarted pw) (crVoice r) of
        (Inl e, v) \<Rightarrow> (Inl (ErrResponder e), r\<lparr>crVoice := v\<rparr>)
      | (Inr handles, v) \<Rightarrow> (Inr (), r\<lparr>crVoice := v, crClosedPreviews := crClosedPreviews r @ handles\<rparr>))"

text \<open>One observation of the voice runtime: the input lane, the trace, and what the gateway passes on.\<close>

definition observePreview :: "gostring \<Rightarrow> int option \<Rightarrow> InputPreviewObservation \<Rightarrow> inputPreviewObservation gop" where
  "observePreview sessionID instant ob =
     gbind (case instant of None \<Rightarrow> gnow | Some now \<Rightarrow> gret now) (\<lambda>now.
     gthen (if obActive ob then gthen (gtry (onSession (\<lambda>t. SetInputState t InputStatePreviewing))) (gret ()) else gret ()) (\<lambda>r.
       case ObservePreview sessionID (obPreview ob) now (crPreviewTrace r) of
         ((trace, update), s) \<Rightarrow>
           (Inr \<lparr>goPreview = obPreview ob, goActive = obActive ob, goPartialChanged = obPartialChanged ob, goUpdate = update,
                 goCommitSuggested = obCommitSuggested ob, goTrace = trace\<rparr>,
            r\<lparr>crPreviewTrace := s\<rparr>)))"

fun observePreviews :: "gostring \<Rightarrow> InputPreviewObservation list \<Rightarrow> inputPreviewObservation list gop" where
  "observePreviews sessionID [] = gret []"
| "observePreviews sessionID (ob # obs) =
     gbind (observePreview sessionID None ob) (\<lambda>g. gbind (observePreviews sessionID obs) (\<lambda>gs. gret (g # gs)))"

definition pushVoicePreview ::
    "previewAnswers \<Rightarrow> ((gostring + InputPreviewObservation) \<times> InputPreviewObservation list) gop" where
  "pushVoicePreview pw r =
     (case PushInputPreviewAudioProgressively (pwProgressive pw) (pwIntermediates pw) (pwResult pw) (crVoice r) of
        (result, emitted, v) \<Rightarrow> (Inr (result, emitted), r\<lparr>crVoice := v\<rparr>))"

definition pushInputPreviewAudio :: "previewAnswers \<Rightarrow> byte list \<Rightarrow> inputPreviewObservation list gop" where
  "pushInputPreviewAudio pw payload =
     gbind snapshotOp (\<lambda>snap.
     gbind gnow (\<lambda>now.
     gthen (gmod (\<lambda>r. r\<lparr>crPreviewTrace := snd (ObserveTraceAudio (SessionID snap) (int (length payload)) now (crPreviewTrace r))\<rparr>)) (
     gbind (pushVoicePreview pw) (\<lambda>(result, emitted).
     gbind (observePreviews (SessionID snap) emitted) (\<lambda>gs.
       case result of
         Inl e \<Rightarrow> gfail (ErrResponder e)
       | Inr ob \<Rightarrow> if gs = [] \<and> obActive ob then gbind (observePreview (SessionID snap) None ob) (\<lambda>g. gret [g]) else gret gs)))))"

definition pollInputPreview :: "previewAnswers \<Rightarrow> int \<Rightarrow> inputPreviewObservation gop" where
  "pollInputPreview pw now =
     gbind (\<lambda>r. case PollInputPreview (pwPolled pw) (crVoice r) of (ob, v) \<Rightarrow> (Inr ob, r\<lparr>crVoice := v\<rparr>)) (\<lambda>ob.
     gbind snapshotOp (\<lambda>snap. observePreview (SessionID snap) (Some now) ob))"

text \<open>Leaving the previewing lane once the preview is gone.\<close>

definition leavePreviewing :: "unit gop" where
  "leavePreviewing = gbind snapshotOp (\<lambda>snap.
     if SessionID snap \<noteq> [] \<and> snapInputState snap = InputStatePreviewing
     then gthen (gtry (onSession (\<lambda>t. SetInputState t InputStateActive))) (gret ()) else gret ())"

definition clearPreviewTrace :: "inputPreviewTrace gop" where
  "clearPreviewTrace r = (case ClearPreviewTrace (crPreviewTrace r) of (t, s) \<Rightarrow> (Inr t, r\<lparr>crPreviewTrace := s\<rparr>))"

definition clearInputPreview :: "inputPreviewTrace gop" where
  "clearInputPreview =
     gbind clearPreviewTrace (\<lambda>trace.
     gthen (gmod (\<lambda>r. case ClearInputPreview (crVoice r) of (handles, v) \<Rightarrow> r\<lparr>crVoice := v, crClosedPreviews := crClosedPreviews r @ handles\<rparr>)) (
     gthen leavePreviewing (gret trace)))"

definition finalizeVoicePreview :: "previewAnswers \<Rightarrow> (TranscriptionResult \<times> bool \<times> gostring option) gop" where
  "finalizeVoicePreview pw r =
     (case FinalizeInputPreview (pwFinished pw) (pwCloseErr pw) (crVoice r) of
        (result, handles, v) \<Rightarrow> (Inr result, r\<lparr>crVoice := v, crClosedPreviews := crClosedPreviews r @ handles\<rparr>))"

definition consumeInputPreview :: "previewAnswers \<Rightarrow> (inputPreviewTrace \<times> TranscriptionResult \<times> bool \<times> gostring option) gop" where
  "consumeInputPreview pw =
     gbind clearPreviewTrace (\<lambda>trace.
     gbind (finalizeVoicePreview pw) (\<lambda>result.
     gthen leavePreviewing (gret (trace, result))))"

definition previewForBargeIn :: "previewAnswers \<Rightarrow> Snapshot \<Rightarrow> byte list \<Rightarrow> inputPreviewObservation gop" where
  "previewForBargeIn pw snapshot payload =
     gbind (gtry (gthen (ensureInputPreview pw) (pushInputPreviewAudio pw payload))) (\<lambda>pushed.
     gbind gnow (\<lambda>now r.
       let ob = (case pushed of Inl _ \<Rightarrow> noObservation | Inr gs \<Rightarrow> if gs = [] then noObservation else last gs);
           preview = pendingBargeInPreview r (goPreview ob)
       in case ObservePreview (SessionID snapshot) preview now (crPreviewTrace r) of
            ((trace, _), s) \<Rightarrow> (Inr (ob\<lparr>goPreview := preview, goTrace := trace\<rparr>), r\<lparr>crPreviewTrace := s\<rparr>)))"

definition resolvePostPlaybackActiveSnapshot :: "(Snapshot \<times> bool) gop" where
  "resolvePostPlaybackActiveSnapshot =
     gbind snapshotOp (\<lambda>snapshot.
     if SessionID snapshot = [] then gret (zeroSnapshot, False)
     else
       gbind (gget hasPendingBargeInAudio) (\<lambda>keepPending.
       let keepPreview = (snapInputState snapshot = InputStatePreviewing)
       in if \<not> keepPreview \<and> \<not> keepPending then
            gthen resetPendingBargeInAudio (gthen clearInputPreview (gret (zeroSnapshot, False)))
          else
            gbind (onSession (\<lambda>t. SetOutputState t OutputStateIdle)) (\<lambda>active1.
            gbind (if keepPending then
                     gbind flushPendingBargeInAudio (\<lambda>flushed. gret (if SessionID flushed \<noteq> [] then flushed else active1))
                   else gret active1) (\<lambda>current1.
            if keepPreview then gbind (onSession (\<lambda>t. SetInputState t InputStatePreviewing)) (\<lambda>previewing. gret (previewing, True))
            else gret (current1, True)))))"

section \<open>Interrupting and finishing the output\<close>

record interruptSpeakingOptions =
  isoClearPreview :: bool
  isoClearPending :: bool
  isoDecision :: "BargeInDecision option"
  isoPolicy :: InterruptionPolicy
  isoReason :: gostring

definition interruptSpeakingFlowWithOptions ::
    "RealtimeProfile \<Rightarrow> interruptSpeakingOptions \<Rightarrow> unit gop option \<Rightarrow> (turnTrace \<Rightarrow> Snapshot \<Rightarrow> unit gop) option \<Rightarrow> unit gop" where
  "interruptSpeakingFlowWithOptions profile opts onInterrupted onReturnActive =
     gbind snapshotOp (\<lambda>snapshot.
     gbind (gget crOutput) (\<lambda>output.
     if snapState snapshot \<noteq> StateSpeaking \<and> output = None then gret ()
     else
       gbind (case isoDecision opts of
                Some decision \<Rightarrow> interruptOutputWithDecision decision
              | None \<Rightarrow> if isoPolicy opts \<noteq> PolicyUnset then interruptOutputWithPolicy (isoPolicy opts) (isoReason opts) else interruptOutput) (\<lambda>interrupted.
       gthen (case onInterrupted of Some f \<Rightarrow> if interrupted then f else gret () | None \<Rightarrow> gret ()) (
       if SessionID snapshot = [] \<or> snapState snapshot \<noteq> StateSpeaking then gret ()
       else
         gbind (onSession (\<lambda>t. SetOutputState t OutputStateIdle)) (\<lambda>active1.
         gthen (onTurnTrace MarkInterrupted) (
         gbind (onTurnTrace MarkActive) (\<lambda>trace.
         gthen (if isoClearPreview opts then gthen clearInputPreview (gret ()) else gret ()) (
         gthen (if isoClearPending opts then resetPendingBargeInAudio else gret ()) (
         gthen (applyReadDeadline profile active1) (
         case onReturnActive of None \<Rightarrow> gret () | Some f \<Rightarrow> f trace active1)))))))))) "

definition defaultCloseReason :: "gostring \<Rightarrow> gostring \<Rightarrow> gostring" where
  "defaultCloseReason reason fallback = (if TrimSpace reason = [] then fallback else reason)"

record turnCompletionHooks =
  tcResolveReturnActive :: "(Snapshot \<times> bool) gop option"
  tcOnReturnActive :: "(turnTrace \<Rightarrow> Snapshot \<Rightarrow> unit gop) option"
  tcOnEndSession :: "(CloseReason \<Rightarrow> gostring \<Rightarrow> unit gop) option"

definition clearTurnTrace :: "unit gop" where
  "clearTurnTrace = gmod (\<lambda>r. r\<lparr>crTurnTrace := ClearTrace (crTurnTrace r)\<rparr>)"

definition completeTurnReturnOrClose :: "RealtimeProfile \<Rightarrow> turnOutputOutcome \<Rightarrow> turnCompletionHooks \<Rightarrow> unit gop" where
  "completeTurnReturnOrClose profile outcome hooks =
     (if ooEndSession outcome then
        (let reason = defaultCloseReason (ooEndReason outcome) CloseReasonCompleted;
             message = (if TrimSpace (ooEndMessage outcome) = [] then closeMessageForReason reason else TrimSpace (ooEndMessage outcome))
         in gthen (onTurnTrace MarkCompleted) (gthen clearTurnTrace (
            case tcOnEndSession hooks of None \<Rightarrow> gret () | Some f \<Rightarrow> f reason message)))
      else
        gbind (case tcResolveReturnActive hooks of
                 Some resolve \<Rightarrow> gbind resolve (\<lambda>(snap, resolved).
                   if resolved then gret snap else onSession (\<lambda>t. SetState t StateActive))
               | None \<Rightarrow> onSession (\<lambda>t. SetState t StateActive)) (\<lambda>active1.
        gthen (applyReadDeadline profile active1) (
        gthen (onTurnTrace MarkActive) (
        gbind (onTurnTrace MarkCompleted) (\<lambda>trace.
        gthen clearTurnTrace (
        case tcOnReturnActive hooks of None \<Rightarrow> gret () | Some f \<Rightarrow> f trace active1))))))"

definition audioStreamForTurnResponse :: "TurnResponse \<Rightarrow> audioSource option" where
  "audioStreamForTurnResponse response =
     (case tpAudioStream response of
        Some h \<Rightarrow> Some (StreamSource h)
      | None \<Rightarrow> if tpAudioChunks response \<noteq> [] then Some (ChunkSource (tpAudioChunks response)) else None)"

text \<open>\<open>streamDuration\<close> is what a stream that knows its duration answers, 0 for the others.\<close>

definition plannedPlaybackDurationForAudioStream :: "(nat \<Rightarrow> duration) \<Rightarrow> audioSource option \<Rightarrow> duration \<Rightarrow> duration" where
  "plannedPlaybackDurationForAudioStream streamDuration source chunkDuration =
     (if chunkDuration \<le> 0 then 0
      else case source of
        None \<Rightarrow> 0
      | Some (StreamSource h) \<Rightarrow> streamDuration h
      | Some (ChunkSource chunks) \<Rightarrow> staticPlaybackDuration chunks chunkDuration)"

definition plannedPlaybackDurationForResponse :: "(nat \<Rightarrow> duration) \<Rightarrow> TurnResponse \<Rightarrow> duration \<Rightarrow> duration" where
  "plannedPlaybackDurationForResponse streamDuration response chunkDuration =
     (if chunkDuration \<le> 0 then 0
      else if tpAudioChunks response \<noteq> [] then int (length (tpAudioChunks response)) * chunkDuration
      else plannedPlaybackDurationForAudioStream streamDuration
             (case tpAudioStream response of None \<Rightarrow> None | Some h \<Rightarrow> Some (StreamSource h)) chunkDuration)"

definition finalizeTurnLifecycle ::
    "RealtimeProfile \<Rightarrow> TurnResponse \<Rightarrow> turnCompletionHooks \<Rightarrow> unit gop \<Rightarrow> (turnTrace \<Rightarrow> unit gop) option \<Rightarrow> (audioSource \<Rightarrow> unit gop) \<Rightarrow> unit gop" where
  "finalizeTurnLifecycle profile response completion beforeNoAudio beforeSpeaking startAudioStream =
     gbind gnow (\<lambda>now.
     gthen (gmod (\<lambda>r. r\<lparr>crSession := ClearTurn now (crSession r)\<rparr>)) (
     case audioStreamForTurnResponse response of
       Some source \<Rightarrow>
         gbind (onSession (\<lambda>t. SetOutputState t OutputStateSpeaking)) (\<lambda>speaking.
         gbind (onTurnTrace MarkSpeaking) (\<lambda>trace.
         gthen (applyReadDeadline profile speaking) (
         gthen (case beforeSpeaking of None \<Rightarrow> gret () | Some f \<Rightarrow> f trace) (startAudioStream source))))
     | None \<Rightarrow> gthen beforeNoAudio (completeTurnReturnOrClose profile (outcomeOf response) completion)))"

end
