(* ===== verification/Gateway_Handlers.thy ===== *)
theory Gateway_Handlers
  imports Gateway_Runtime
begin

text \<open>
  The handlers of the realtime protocol, \<open>internal/gateway/realtime_ws.go\<close>: each takes a decoded message and the
  answers of the outside world and is an operation on the connection. A handler and a step of the playback
  goroutine are atomic with respect to each other. JSON is decoded by the standard library, so a payload is given
  decoded, or with the text of its error. Logging is left out.
\<close>

section \<open>Messages\<close>

record sessionStartPayload =
  spProtocolVersion :: gostring
  spDeviceID :: gostring
  spClientType :: gostring
  spFirmwareVersion :: gostring
  spCodec :: gostring
  spSampleRateHz :: int
  spChannels :: int
  spMode :: gostring
  spClientCanEnd :: bool
  spServerCanEnd :: bool
  spCapabilities :: sessionStartCapabilities

record audioOutPayload =
  aoResponseID :: gostring
  aoPlaybackID :: gostring
  aoSegmentID :: gostring
  aoPlayedDurationMs :: int
  aoReason :: gostring

text \<open>A decoded control message; \<open>Inl\<close> carries the error of decoding the payload.\<close>

datatype controlMessage =
    SessionStart "gostring + sessionStartPayload"
  | AudioInCommit "gostring + gostring"
  | TextIn "gostring + gostring"
  | SessionEnd "gostring + gostring \<times> gostring"
  | SessionUpdate "(gostring + bool) option"
  | AudioOutStarted "gostring + audioOutPayload"
  | AudioOutMark "gostring + audioOutPayload"
  | AudioOutCleared "gostring + audioOutPayload"
  | AudioOutCompleted "gostring + audioOutPayload"
  | UnsupportedControl gostring

text \<open>
  What a handler is created with: the profile, the responder (what it delivers for a request, in the order in
  which it is received), and the duration a stream reports.
\<close>

record realtimeWSHandler =
  hProfile :: RealtimeProfile
  hResponder :: "TurnRequest \<Rightarrow> gateway_error responder_run"
  hStreamDuration :: "nat \<Rightarrow> duration"

definition outputFrameInterval :: duration where "outputFrameInterval = 20 * Millisecond"

section \<open>Writing\<close>

definition sessionUpdateFromSnapshot :: "Snapshot \<Rightarrow> gostring \<Rightarrow> gostring \<Rightarrow> serverPayload" where
  "sessionUpdateFromSnapshot snapshot turnID acceptReason =
     PSessionUpdate (snapState snapshot) (snapInputState snapshot) (snapOutputState snapshot) True turnID (TrimSpace acceptReason)"

definition writeSessionUpdate :: "Snapshot \<Rightarrow> gostring \<Rightarrow> gostring \<Rightarrow> unit gop" where
  "writeSessionUpdate snapshot turnID acceptReason =
     WriteEvent (SessionID snapshot) (sessionUpdateFromSnapshot snapshot turnID acceptReason)"

definition writeError :: "gostring \<Rightarrow> gostring \<Rightarrow> errorText \<Rightarrow> bool \<Rightarrow> unit gop" where
  "writeError sessionID code message recoverable = WriteEvent sessionID (PError code message recoverable)"

definition onActive :: "turnTrace \<Rightarrow> Snapshot \<Rightarrow> unit gop" where
  "onActive trace active1 = writeSessionUpdate active1 (ttTurnID trace) []"

definition emitResponseDelta :: "gostring \<Rightarrow> gostring \<Rightarrow> ResponseDelta \<Rightarrow> unit gop" where
  "emitResponseDelta sessionID responseID delta = WriteEvent sessionID (PResponseChunk responseID delta)"

definition modAck :: "(playbackAckState \<Rightarrow> playbackAckState) \<Rightarrow> unit gop" where
  "modAck f = gmod (\<lambda>r. r\<lparr>crAck := f (crAck r)\<rparr>)"

definition syncAnnounced :: "unit gop" where
  "syncAnnounced = gmod (\<lambda>r. r\<lparr>crVoice := syncAnnouncedPlaybackContext (crAck r) (crVoice r)\<rparr>)"

definition emitAudioOutMeta :: "gostring \<Rightarrow> audioPlaybackMeta \<Rightarrow> unit gop" where
  "emitAudioOutMeta sessionID meta =
     gthen (modAck (activatePlaybackAckSegment meta)) (
     gbind (gget (\<lambda>r. PlaybackAckEnabled (crCollaboration r))) (\<lambda>enabled.
     if \<not> enabled then syncAnnounced
     else gthen (WriteEvent sessionID (PAudioOutMeta (amResponseID meta) (amPlaybackID meta) (amSegmentID meta) (amText meta)
                   (playbackDurationMs (amExpectedDuration meta)) (amIsLastSegment meta)))
            syncAnnounced))"

text \<open>The preview events a client that asked for them is sent for one observation.\<close>

definition emitPreviewObservationEvents :: "Snapshot \<Rightarrow> inputPreviewObservation \<Rightarrow> unit gop" where
  "emitPreviewObservationEvents snapshot ob =
     gbind (gget (\<lambda>r. cnPreviewEvents (crCollaboration r))) (\<lambda>enabled.
     let previewID = TrimSpace (itPreviewID (goTrace ob));
         offset = previewAudioOffsetMs (pvAudioBytes (goPreview ob)) (InputSampleRate snapshot) (InputChannels snapshot);
         t = TrimSpace (pvPartialText (goPreview ob));
         stableText = (if TrimSpace (pvStablePrefix (goPreview ob)) = [] then t else TrimSpace (pvStablePrefix (goPreview ob)))
     in if \<not> enabled \<or> previewID = [] then gret ()
        else
          gthen (if iuSpeechStartedObserved (goUpdate ob)
                 then WriteEvent (SessionID snapshot) (PInputSpeechStart previewID offset (lit ''server_preview'')) else gret ()) (
          gthen (if goPartialChanged ob
                 then WriteEvent (SessionID snapshot) (PInputPreview previewID t stableText False (previewTextStability t stableText) offset)
                 else gret ()) (
          if iuEndpointCandidateObserved (goUpdate ob)
          then WriteEvent (SessionID snapshot) (PInputEndpoint previewID True
                 (gatewayFirstNonEmpty [TrimSpace (pvEndpointReason (goPreview ob)), lit ''server_endpoint_candidate'']) offset)
          else gret ())))"

fun emitObservations :: "Snapshot \<Rightarrow> inputPreviewObservation list \<Rightarrow> unit gop" where
  "emitObservations snapshot [] = gret ()"
| "emitObservations snapshot (ob # obs) = gthen (emitPreviewObservationEvents snapshot ob) (emitObservations snapshot obs)"

text \<open>The text of an error that a handler reports.\<close>

definition gatewayErrorText :: "gateway_error \<Rightarrow> errorText" where
  "gatewayErrorText e =
     (case e of ErrResponder t \<Rightarrow> TextOf t | ErrSession s \<Rightarrow> TextOfSession s | _ \<Rightarrow> NoText)"

section \<open>Ending a session\<close>

definition endSession :: "RealtimeProfile \<Rightarrow> CloseReason \<Rightarrow> errorText \<Rightarrow> unit gop" where
  "endSession profile reason message =
     gbind (onSession (\<lambda>now. EndSession now reason)) (\<lambda>snapshot.
     gthen (WriteEvent (SessionID snapshot) (PSessionEnd reason message)) (
     gthen (gmod (\<lambda>r. r\<lparr>crSession := Reset (crSession r), crNormalizer := None\<rparr>)) (
     gthen clearInputPreview (
     gthen (modAck clearPlaybackAckState) (
     gthen (gmod (\<lambda>r. r\<lparr>crCollaboration := noCollaboration\<rparr>)) (
     gthen clearTurnTrace (
     gbind snapshotOp (\<lambda>snap. applyReadDeadline profile snap))))))))"

definition terminateWithError :: "RealtimeProfile \<Rightarrow> gostring \<Rightarrow> errorText \<Rightarrow> unit gop" where
  "terminateWithError profile code message =
     gbind snapshotOp (\<lambda>snapshot.
     gthen (writeError (SessionID snapshot) code message False) (
     if SessionID snapshot \<noteq> [] then gthen interruptOutput (endSession profile CloseReasonError message) else gret ()))"

section \<open>Starting a session\<close>

definition validateStartPayload :: "RealtimeProfile \<Rightarrow> sessionStartPayload \<Rightarrow> gostring option" where
  "validateStartPayload profile payload =
     (if spProtocolVersion payload \<noteq> prProtocolVersion profile then Some (lit ''protocol_version must be '' @ prProtocolVersion profile)
      else if spDeviceID payload = [] then Some (lit ''device.device_id is required'')
      else if spClientType payload = [] then Some (lit ''device.client_type is required'')
      else if spCodec payload = [] then Some (lit ''audio.codec is required'')
      else if spCodec payload \<noteq> prInputCodec profile \<and> \<not> (prAllowOpus profile \<and> spCodec payload = lit ''opus'')
        then Some (lit ''unsupported codec '' @ spCodec payload)
      else if spSampleRateHz payload \<noteq> prInputSampleRate profile then Some (lit ''unsupported sample_rate_hz '' @ Itoa (spSampleRateHz payload))
      else if spChannels payload \<noteq> prInputChannels profile then Some (lit ''unsupported channels '' @ Itoa (spChannels payload))
      else if spMode payload = [] then Some (lit ''session.mode is required'')
      else validatePlaybackAckMode (playbackAckMode (spCapabilities payload)))"

definition startRequest :: "gostring \<Rightarrow> sessionStartPayload \<Rightarrow> StartRequest" where
  "startRequest sessionID payload =
     \<lparr>RequestedSessionID = sessionID, reqDeviceID = spDeviceID payload, reqClientType = spClientType payload,
      reqFirmwareVersion = spFirmwareVersion payload, reqMode = spMode payload, reqInputCodec = spCodec payload,
      reqInputSampleRate = spSampleRateHz payload, reqInputChannels = spChannels payload,
      reqClientCanEnd = spClientCanEnd payload, reqServerCanEnd = spServerCanEnd payload\<rparr>"

definition handleSessionStart :: "RealtimeProfile \<Rightarrow> gostring \<Rightarrow> gostring + sessionStartPayload \<Rightarrow> unit gop" where
  "handleSessionStart profile envelopeID decoded =
     (case decoded of
        Inl e \<Rightarrow> writeError envelopeID (lit ''invalid_session_start'') (TextOf e) False
      | Inr payload \<Rightarrow>
          (case validateStartPayload profile payload of
             Some e \<Rightarrow> writeError envelopeID (lit ''unsupported_session_start'') (TextOf e) False
           | None \<Rightarrow>
               (case NewInputNormalizer (spCodec payload) (prInputSampleRate profile) (prInputChannels profile) of
                  Inl e \<Rightarrow> writeError envelopeID (lit ''unsupported_session_start'') (TextOfOpus e) False
                | Inr normalizer \<Rightarrow>
                    gbind (gtry (onSession (\<lambda>now. Start now (startRequest envelopeID payload)))) (\<lambda>started.
                      case started of
                        Inl e \<Rightarrow> writeError envelopeID (lit ''session_already_active'') (gatewayErrorText e) False
                      | Inr snapshot \<Rightarrow>
                          gthen (gmod (\<lambda>r. r\<lparr>crNormalizer := Some normalizer,
                                   crCollaboration := negotiateVoiceCollaboration profile (spCapabilities payload)\<rparr>)) (
                          gthen (modAck clearPlaybackAckState) (
                          gthen (applyReadDeadline profile snapshot) (
                          writeSessionUpdate snapshot [] [])))))))"

section \<open>Answering a turn\<close>

definition clonePreviewTranscription :: "TranscriptionResult option \<Rightarrow> TranscriptionResult option" where
  "clonePreviewTranscription result = result"

definition buildTurnRequest ::
    "CommittedTurn \<Rightarrow> turnTrace \<Rightarrow> gostring \<Rightarrow> TranscriptionResult option \<Rightarrow> connectionRuntime \<Rightarrow> TurnRequest" where
  "buildTurnRequest turn trace t previewTranscription r =
     (let snap = turnSnapshot turn
      in \<lparr>rqSessionID = SessionID snap, rqTurnID = ttTurnID trace, rqTraceID = ttTraceID trace, rqDeviceID = DeviceID snap,
          rqClientType = ClientType snap, rqText = t, rqMetadata = LastPlaybackContextMetadata (crVoice r),
          rqPreviewTranscription = clonePreviewTranscription previewTranscription, rqAudioPCM = AudioPCM turn,
          rqAudioBytes = AudioBytes snap, rqInputFrames = InputFrames snap,
          rqInputCodec = (case crNormalizer r of None \<Rightarrow> InputCodec snap | Some n \<Rightarrow> OutputCodec n),
          rqInputSampleRate = (case crNormalizer r of None \<Rightarrow> InputSampleRate snap | Some n \<Rightarrow> OutputSampleRate n),
          rqInputChannels = (case crNormalizer r of None \<Rightarrow> InputChannels snap | Some n \<Rightarrow> OutputChannels n)\<rparr>)"

text \<open>Installing an output and its goroutine; an earlier output is replaced.\<close>

definition startAudioStream :: "gostring \<Rightarrow> audioPlaybackMeta \<Rightarrow> audioSource \<Rightarrow> turnOutputOutcomeFuture \<Rightarrow> unit gop" where
  "startAudioStream sessionID meta source completion =
     gthen (gmod (\<lambda>r. r\<lparr>crOutput := Some \<lparr>osStage = AtStart, osCancelled = False, osCompletion = completion, osEffects = newOutputEffects,
        osSessionID = sessionID, osMeta = meta, osSource = source, osCursor = cursorMeta (amResponseID meta) (amPlaybackID meta)\<rparr>\<rparr>))
       (modAck (installPlaybackAckMeta meta))"

text \<open>The hooks of emitTurnResponse, as functions on the connection.\<close>

definition asHook :: "unit gop \<Rightarrow> connectionRuntime \<Rightarrow> gateway_error option \<times> connectionRuntime" where
  "asHook m r = (case m r of (Inl e, r1) \<Rightarrow> (Some e, r1) | (Inr _, r1) \<Rightarrow> (None, r1))"

definition startResponseAudio ::
    "realtimeWSHandler \<Rightarrow> gostring \<Rightarrow> gostring \<Rightarrow> ResponseAudioStart \<Rightarrow> gostring \<Rightarrow> unit gop" where
  "startResponseAudio h sessionID responseID start aggregatedText =
     (let planned = plannedPlaybackDurationForAudioStream (hStreamDuration h) (asStream start) outputFrameInterval
      in gbind (onSession (\<lambda>now. SetOutputState now OutputStateSpeaking)) (\<lambda>speaking.
         gbind (onTurnTrace MarkSpeaking) (\<lambda>trace.
         gbind (gget (\<lambda>r. PlaybackAckEnabled (crCollaboration r))) (\<lambda>prefer.
         gthen (onVoice (StartPlaybackWithOptions aggregatedText outputFrameInterval planned prefer)) (
         gthen (applyReadDeadline (hProfile h) speaking) (
         gthen (WriteEvent sessionID (sessionUpdateFromSnapshot speaking (ttTurnID trace) [])) (
         gbind gnow (\<lambda>now.
         startAudioStream sessionID (newAudioPlaybackMeta now responseID aggregatedText planned)
           (case asStream start of Some s \<Rightarrow> s | None \<Rightarrow> ChunkSource []) newTurnOutputOutcomeFuture))))))))"

definition realtimeHooks :: "realtimeWSHandler \<Rightarrow> gostring \<Rightarrow> gostring \<Rightarrow> (gateway_error, connectionRuntime) turnExecutionOptions" where
  "realtimeHooks h sessionID responseID =
     \<lparr>hkResponseStart = (\<lambda>modalities _. asHook (gbind (onTurnTrace MarkResponseStart) (\<lambda>trace.
        WriteEvent sessionID (PResponseStart responseID modalities (ttTurnID trace) (ttTraceID trace))))),
      hkFirstTextDelta = (\<lambda>t r. if TrimSpace t = [] then r
        else snd (gbind gnow (\<lambda>now. gmod (\<lambda>r. r\<lparr>crTurnTrace := markTurnFirstTextDelta now t (crTurnTrace r)\<rparr>)) r)),
      hkResponseDelta = (\<lambda>delta. asHook (emitResponseDelta sessionID responseID delta)),
      hkTextCollected = (\<lambda>t r. if TrimSpace t = [] \<or> snapOutputState (takeSnapshot (crSession r)) \<noteq> OutputStateSpeaking then r
        else r\<lparr>crVoice := UpdatePlayback t 0 (crVoice r)\<rparr>),
      hkStartAudio = Some (\<lambda>start aggregated. asHook (startResponseAudio h sessionID responseID start aggregated)),
      hkResolve = (\<lambda>outcome r. r\<lparr>crOutput := map_option (\<lambda>st. st\<lparr>osCompletion := ResolveOutcome outcome (osCompletion st)\<rparr>) (crOutput r)\<rparr>)\<rparr>"

definition finalizeTurnResponse :: "realtimeWSHandler \<Rightarrow> gostring \<Rightarrow> gostring \<Rightarrow> TurnResponse \<Rightarrow> gostring \<Rightarrow> unit gop" where
  "finalizeTurnResponse h sessionID responseID response delivered =
     (let planned = plannedPlaybackDurationForResponse (hStreamDuration h) response outputFrameInterval
      in finalizeTurnLifecycle (hProfile h) response
           \<lparr>tcResolveReturnActive = None, tcOnReturnActive = Some onActive,
            tcOnEndSession = Some (\<lambda>reason message. endSession (hProfile h) reason (TextOf message))\<rparr>
           (onVoice (FinalizeTextResponse delivered))
           (Some (\<lambda>trace.
              gbind (gget (\<lambda>r. PlaybackAckEnabled (crCollaboration r))) (\<lambda>prefer.
              gthen (onVoice (StartPlaybackWithOptions delivered outputFrameInterval planned prefer)) (
              gbind snapshotOp (\<lambda>speaking.
              WriteEvent sessionID (sessionUpdateFromSnapshot speaking (ttTurnID trace) []))))))
           (\<lambda>source. gbind gnow (\<lambda>now.
              startAudioStream sessionID (newAudioPlaybackMeta now responseID delivered planned) source
                (resolvedTurnOutputOutcome (outcomeOf response)))))"

text \<open>Running the responder; its failure ends the session.\<close>

definition runResponder :: "realtimeWSHandler \<Rightarrow> gostring \<Rightarrow> gostring \<Rightarrow> TurnRequest \<Rightarrow> (gateway_error + turnExecutionResult) gop" where
  "runResponder h sessionID responseID request r =
     (case executeTurnResponse (realtimeHooks h sessionID responseID) (hResponder h request) r of
        (None, r1) \<Rightarrow> (Inl StillWaiting, r1)
      | (Some result, r1) \<Rightarrow> (Inr result, r1))"

definition emitTurnResponse :: "realtimeWSHandler \<Rightarrow> CommittedTurn \<Rightarrow> turnTrace \<Rightarrow> gostring \<Rightarrow> TranscriptionResult option \<Rightarrow> unit gop" where
  "emitTurnResponse h turn trace t previewTranscription =
     (let sessionID = SessionID (turnSnapshot turn)
      in gbind (gget (buildTurnRequest turn trace t previewTranscription)) (\<lambda>request.
         let provisional = (if TrimSpace (rqText request) = []
               then (case rqPreviewTranscription request of None \<Rightarrow> [] | Some p \<Rightarrow> TrimSpace (trText p)) else TrimSpace (rqText request))
         in gthen (onVoice (PrepareTurn request provisional [])) (
            gbind gnow (\<lambda>now.
            let responseID = lit ''resp_'' @ Itoa now
            in gbind (runResponder h sessionID responseID request) (\<lambda>result.
               case result of
                 Inl e \<Rightarrow> gthen interruptOutput (terminateWithError (hProfile h) (lit ''response_generation_failed'') (gatewayErrorText e))
               | Inr te \<Rightarrow>
                   let response = teResponse te;
                       inputText = (if TrimSpace (tpInputText response) = [] then TrimSpace t else TrimSpace (tpInputText response));
                       delivered = (if TrimSpace (teAggregatedText te) = [] then TrimSpace (tpText response) else TrimSpace (teAggregatedText te))
                   in gthen (onVoice (PrepareTurn request inputText (TrimSpace (tpText response)))) (
                      if tpAudioStreamTransferred response then onVoice (UpdatePlayback delivered 0)
                      else finalizeTurnResponse h sessionID responseID response delivered))))))"

section \<open>Turns\<close>

definition interruptOptions :: "bool \<Rightarrow> gostring \<Rightarrow> interruptSpeakingOptions" where
  "interruptOptions clear reason =
     \<lparr>isoClearPreview = clear, isoClearPending = clear, isoDecision = None, isoPolicy = PolicyHardInterrupt, isoReason = reason\<rparr>"

definition acceptedTranscription :: "TranscriptionResult \<times> bool \<times> gostring option \<Rightarrow> TranscriptionResult option" where
  "acceptedTranscription result = (case result of (r, ok, err) \<Rightarrow> if ok \<and> err = None then Some r else None)"

text \<open>An accepted turn: the deadline, its trace, the update to the client, the answer.\<close>

definition answerTurn ::
    "realtimeWSHandler \<Rightarrow> CommittedTurn \<Rightarrow> gostring \<Rightarrow> gostring \<Rightarrow> gostring \<Rightarrow> TranscriptionResult option \<Rightarrow> unit gop" where
  "answerTurn h turn source acceptReason t previewTranscription =
     gthen (applyReadDeadline (hProfile h) (turnSnapshot turn)) (
     gbind (onTurnTrace (\<lambda>now. BeginTrace now (SessionID (turnSnapshot turn)) source)) (\<lambda>trace.
     gthen (writeSessionUpdate (turnSnapshot turn) (ttTurnID trace) acceptReason) (
     emitTurnResponse h turn trace t previewTranscription)))"

definition handleServerEndpointTick :: "realtimeWSHandler \<Rightarrow> previewAnswers \<Rightarrow> int \<Rightarrow> unit gop" where
  "handleServerEndpointTick h pw now =
     gbind snapshotOp (\<lambda>snapshot.
     if \<not> prServerEndpointEnabled (hProfile h) \<or> SessionID snapshot = [] \<or> snapState snapshot \<noteq> StateActive then gret ()
     else
       gbind (pollInputPreview pw now) (\<lambda>ob.
       if \<not> goActive ob then gret ()
       else
         gthen (emitPreviewObservationEvents snapshot ob) (
         if goCommitSuggested ob \<and> AudioBytes snapshot > 0 then
           gbind (consumeInputPreview pw) (\<lambda>(_, result).
           gbind (onSession CommitTurn) (\<lambda>turn.
           answerTurn h turn (lit ''server_endpoint'') (lit ''server_endpoint'') [] (acceptedTranscription result)))
         else gret ())))"

definition handleCommit :: "realtimeWSHandler \<Rightarrow> previewAnswers \<Rightarrow> gostring \<Rightarrow> gostring + gostring \<Rightarrow> unit gop" where
  "handleCommit h pw envelopeID decoded =
     (case decoded of
        Inl e \<Rightarrow> writeError envelopeID (lit ''invalid_commit'') (TextOf e) True
      | Inr reason \<Rightarrow>
          gbind snapshotOp (\<lambda>snapshot0.
          gbind (gget hasPendingBargeInAudio) (\<lambda>pending.
          gbind (if snapState snapshot0 = StateSpeaking \<and> pending then
                   gthen (interruptSpeakingFlowWithOptions (hProfile h)
                            (interruptOptions False (gatewayFirstNonEmpty [TrimSpace reason, lit ''explicit_commit_during_speaking'']))
                            None (Some onActive))
                     flushPendingBargeInAudio
                 else gret snapshot0) (\<lambda>snapshot.
          if snapState snapshot \<noteq> StateActive then
            writeError envelopeID (lit ''turn_not_ready'') (TextOf (lit ''audio.in.commit is accepted only while the session is active'')) True
          else
            gbind (consumeInputPreview pw) (\<lambda>(_, result).
            gbind (gtry (onSession CommitTurn)) (\<lambda>committed.
              case committed of
                Inl _ \<Rightarrow> writeError envelopeID (lit ''session_not_started'') (TextOf (lit ''cannot commit audio before session.start'')) True
              | Inr turn \<Rightarrow>
                  gthen resetPendingBargeInAudio (
                  answerTurn h turn (lit ''audio_commit'') (gatewayFirstNonEmpty [TrimSpace reason, lit ''audio_commit'']) []
                    (acceptedTranscription result))))))))"

definition handleText :: "realtimeWSHandler \<Rightarrow> gostring \<Rightarrow> gostring + gostring \<Rightarrow> unit gop" where
  "handleText h envelopeID decoded =
     (let notStarted = writeError envelopeID (lit ''session_not_started'') (TextOf (lit ''cannot send text before session.start'')) True
      in if \<not> prAllowTextInput (hProfile h) then
           writeError envelopeID (lit ''text_input_disabled'') (TextOf (lit ''text input is disabled on this server'')) True
         else case decoded of
           Inl e \<Rightarrow> writeError envelopeID (lit ''invalid_text_input'') (TextOf e) True
         | Inr t \<Rightarrow>
             gbind snapshotOp (\<lambda>snapshot.
             gthen (if snapState snapshot = StateSpeaking then
                      interruptSpeakingFlowWithOptions (hProfile h) (interruptOptions True (lit ''text_input_during_speaking'')) None (Some onActive)
                    else gret ()) (
             gbind (gtry (onSession AcceptText)) (\<lambda>accepted.
               case accepted of
                 Inl _ \<Rightarrow> notStarted
               | Inr _ \<Rightarrow>
                   gthen clearInputPreview (
                   gbind (gtry (onSession CommitTurn)) (\<lambda>committed.
                     case committed of
                       Inl _ \<Rightarrow> notStarted
                     | Inr turn \<Rightarrow> answerTurn h turn (lit ''text_input'') (lit ''text_input'') t None))))))"

section \<open>Other control messages\<close>

definition handleClientEnd :: "realtimeWSHandler \<Rightarrow> gostring \<Rightarrow> gostring + gostring \<times> gostring \<Rightarrow> unit gop" where
  "handleClientEnd h envelopeID decoded =
     (case decoded of
        Inl e \<Rightarrow> writeError envelopeID (lit ''invalid_session_end'') (TextOf e) True
      | Inr (reason, message) \<Rightarrow>
          gthen interruptOutput (
          gbind (gtry (endSession (hProfile h) (defaultCloseReason reason CloseReasonClientStop) (TextOf message))) (\<lambda>ended.
            case ended of
              Inr _ \<Rightarrow> gret ()
            | Inl e \<Rightarrow> if e = ErrSession ErrNoActiveSession
                then writeError envelopeID (lit ''session_not_started'') (TextOf (lit ''cannot end a session that is not active'')) True
                else gfail e)))"

definition handleSessionUpdate :: "realtimeWSHandler \<Rightarrow> gostring \<Rightarrow> (gostring + bool) option \<Rightarrow> unit gop" where
  "handleSessionUpdate h envelopeID decoded =
     (case decoded of
        Some (Inl e) \<Rightarrow> writeError envelopeID (lit ''invalid_session_update'') (TextOf e) True
      | _ \<Rightarrow>
          gbind snapshotOp (\<lambda>snapshot.
          if SessionID snapshot = [] then
            writeError envelopeID (lit ''session_not_started'') (TextOf (lit ''session.update cannot be processed before session.start'')) True
          else if decoded = Some (Inr True) \<and> snapState snapshot = StateSpeaking then
            interruptSpeakingFlowWithOptions (hProfile h) (interruptOptions True (lit ''client_interrupt_hint'')) None (Some onActive)
          else writeSessionUpdate snapshot [] []))"

text \<open>An acknowledgement counts only within a session that negotiated them, and for the output being played.\<close>

definition acknowledged :: "audioOutPayload \<Rightarrow> unit gop \<Rightarrow> unit gop" where
  "acknowledged payload m =
     gbind (gget (\<lambda>r. SessionID (takeSnapshot (crSession r)) \<noteq> [] \<and> PlaybackAckEnabled (crCollaboration r) \<and>
              validatePlaybackAckIdentity (paMeta (crAck r)) (TrimSpace (aoResponseID payload)) (TrimSpace (aoPlaybackID payload)))) (\<lambda>ok.
     if ok then m else gret ())"

definition recordPlaybackAckStarted :: "audioOutPayload \<Rightarrow> unit gop" where
  "recordPlaybackAckStarted payload = acknowledged payload (
     gbind gnow (\<lambda>now.
     gthen (modAck (\<lambda>s. snd (recordPlaybackStarted now s))) (
     gthen syncAnnounced (onVoice ObservePlaybackStartedFact))))"

text \<open>What a mark or a clear says was heard goes to the orchestrator.\<close>

definition observeHeard :: "duration \<Rightarrow> gostring \<Rightarrow> unit gop" where
  "observeHeard playedTime heard =
     (if TrimSpace heard \<noteq> [] then onVoice (ObservePlaybackMarkTextFact playedTime heard)
      else if playedTime > 0 then onVoice (ObservePlaybackMarkFact playedTime)
      else gret ())"

definition ackResult :: "(playbackAckState \<Rightarrow> 'a \<times> playbackAckState) \<Rightarrow> 'a gop" where
  "ackResult f r = (case f (crAck r) of (x, s) \<Rightarrow> (Inr x, r\<lparr>crAck := s\<rparr>))"

definition recordPlaybackAckMark :: "audioOutPayload \<Rightarrow> unit gop" where
  "recordPlaybackAckMark payload = acknowledged payload (
     gthen syncAnnounced (
     gbind gnow (\<lambda>now.
     gbind (ackResult (recordPlaybackMark now (TrimSpace (aoSegmentID payload)) (aoPlayedDurationMs payload))) (\<lambda>(_, playedTime, heard).
     observeHeard playedTime heard))))"

definition recordPlaybackAckCleared :: "realtimeWSHandler \<Rightarrow> audioOutPayload \<Rightarrow> unit gop" where
  "recordPlaybackAckCleared h payload = acknowledged payload (
     gthen syncAnnounced (
     gbind gnow (\<lambda>now.
     gbind (ackResult (recordPlaybackCleared now (TrimSpace (aoSegmentID payload)) (aoReason payload))) (\<lambda>(_, playedTime, heard).
     gthen (observeHeard playedTime heard) (
     gbind snapshotOp (\<lambda>snapshot.
     if snapState snapshot = StateSpeaking then
       interruptSpeakingFlowWithOptions (hProfile h)
         (interruptOptions False (gatewayFirstNonEmpty [TrimSpace (aoReason payload), lit ''client_playback_cleared''])) None (Some onActive)
     else gret ()))))))"

definition recordPlaybackAckCompleted :: "audioOutPayload \<Rightarrow> unit gop" where
  "recordPlaybackAckCompleted payload = acknowledged payload (
     gthen syncAnnounced (
     gbind gnow (\<lambda>now.
     gthen (modAck (\<lambda>s. snd (recordPlaybackCompleted now s))) (onVoice ObservePlaybackCompletedFact))))"

definition handleAudioOut :: "gostring \<Rightarrow> gostring \<Rightarrow> (audioOutPayload \<Rightarrow> unit gop) \<Rightarrow> gostring + audioOutPayload \<Rightarrow> unit gop" where
  "handleAudioOut envelopeID code f decoded =
     (case decoded of Inl e \<Rightarrow> writeError envelopeID code (TextOf e) True | Inr payload \<Rightarrow> f payload)"

text \<open>\<open>None\<close>: the frame is not valid JSON.\<close>

definition handleControl :: "realtimeWSHandler \<Rightarrow> previewAnswers \<Rightarrow> (gostring \<times> controlMessage) option \<Rightarrow> unit gop" where
  "handleControl h pw frame =
     (case frame of
        None \<Rightarrow> writeError [] (lit ''invalid_json'') (TextOf (lit ''control frame is not valid json'')) True
      | Some (envelopeID, message) \<Rightarrow>
          (case message of
             SessionStart p \<Rightarrow> handleSessionStart (hProfile h) envelopeID p
           | AudioInCommit p \<Rightarrow> handleCommit h pw envelopeID p
           | TextIn p \<Rightarrow> handleText h envelopeID p
           | SessionEnd p \<Rightarrow> handleClientEnd h envelopeID p
           | SessionUpdate p \<Rightarrow> handleSessionUpdate h envelopeID p
           | AudioOutStarted p \<Rightarrow> handleAudioOut envelopeID (lit ''invalid_audio_out_started'') recordPlaybackAckStarted p
           | AudioOutMark p \<Rightarrow> handleAudioOut envelopeID (lit ''invalid_audio_out_mark'') recordPlaybackAckMark p
           | AudioOutCleared p \<Rightarrow> handleAudioOut envelopeID (lit ''invalid_audio_out_cleared'') (recordPlaybackAckCleared h) p
           | AudioOutCompleted p \<Rightarrow> handleAudioOut envelopeID (lit ''invalid_audio_out_completed'') recordPlaybackAckCompleted p
           | UnsupportedControl t \<Rightarrow> writeError envelopeID (lit ''unsupported_event'')
               (TextOf (lit ''event '' @ t @ lit '' is not implemented in bootstrap handler'')) True))"


section \<open>Audio frames\<close>

text \<open>A frame received while the answer is played: staged, previewed, and perhaps interrupting the answer.\<close>

definition bargeInFrame :: "realtimeWSHandler \<Rightarrow> previewAnswers \<Rightarrow> Snapshot \<Rightarrow> byte list \<Rightarrow> unit gop" where
  "bargeInFrame h pw previous payload =
     gthen (stagePendingBargeInAudio payload) (
     gbind (previewForBargeIn pw previous payload) (\<lambda>ob.
     gthen (emitPreviewObservationEvents previous ob) (
     gthen (if iuSpeechStartedObserved (goUpdate ob) \<or> iuEndpointCandidateObserved (goUpdate ob) then
              gbind (gtry (onSession (\<lambda>t. SetInputState t InputStatePreviewing))) (\<lambda>previewing.
                case previewing of
                  Inl _ \<Rightarrow> gret ()
                | Inr snap \<Rightarrow> gbind (gget (\<lambda>r. ttTurnID (tsCurrent (crTurnTrace r)))) (\<lambda>turnID.
                    gthen (gtry (writeSessionUpdate snap turnID [])) (gret ())))
            else gret ()) (
     let decision = EvaluateBargeIn (goPreview ob) (InputSampleRate previous) (InputChannels previous)
           \<lparr>bargeMinAudioMs = prBargeInMinAudioMs (hProfile h), bargeIncompleteHoldMs = prBargeInHoldAudioMs (hProfile h)\<rparr>;
         directive = playbackDirectiveForDecision decision
     in gthen (onVoice (RecordInterruptionDecision decision)) (
        gthen (if DirectiveShouldDuckOutput directive then gthen (applyOutputDirective directive) (gret ()) else gret ()) (
        if \<not> ShouldInterruptOutput directive then applyReadDeadline (hProfile h) previous
        else
          gthen (interruptSpeakingFlowWithOptions (hProfile h)
                   \<lparr>isoClearPreview = False, isoClearPending = False, isoDecision = Some decision, isoPolicy = PolicyUnset, isoReason = []\<rparr>
                   None (Some onActive)) (
          gthen flushPendingBargeInAudio (gret ()))))))))"

text \<open>\<open>pion\<close> is the answer of the Opus decoder; its slicing never panics (theory \<open>Input_Audio\<close>).\<close>

definition decodeFrame :: "opus_decoder \<Rightarrow> byte list \<Rightarrow> (opus_error + byte list) gop" where
  "decodeFrame pion payload =
     gget (\<lambda>r. case crNormalizer r of
       None \<Rightarrow> Inr payload
     | Some n \<Rightarrow> (case normalizerDecode pion n payload of Some x \<Rightarrow> x | None \<Rightarrow> Inr []))"

definition handleBinary :: "realtimeWSHandler \<Rightarrow> previewAnswers \<Rightarrow> opus_decoder \<Rightarrow> byte list \<Rightarrow> unit gop" where
  "handleBinary h pw pion payload =
     (if int (length payload) > prMaxFrameBytes (hProfile h) then
        terminateWithError (hProfile h) (lit ''frame_too_large'')
          (TextOf (lit ''binary frame exceeds '' @ Itoa (prMaxFrameBytes (hProfile h)) @ lit '' bytes''))
      else
        gbind snapshotOp (\<lambda>previous.
        gbind (decodeFrame pion payload) (\<lambda>decoded.
        case decoded of
          Inl e \<Rightarrow> terminateWithError (hProfile h) (lit ''audio_decode_failed'') (TextOfOpus e)
        | Inr normalized \<Rightarrow>
            (if snapState previous = StateSpeaking then bargeInFrame h pw previous normalized
             else
               gbind (gtry (onSession (\<lambda>now. IngestOwnedAudioFrame now normalized))) (\<lambda>ingested.
               case ingested of
                 Inl e \<Rightarrow>
                   (if e = ErrSession ErrNoActiveSession then
                      writeError [] (lit ''session_not_started'') (TextOf (lit ''session.start must be sent before binary audio frames'')) True
                    else gfail e)
               | Inr current1 \<Rightarrow>
                   gthen (if prServerEndpointEnabled (hProfile h) \<and> snapState previous = StateActive then
                            gbind (gtry (gthen (ensureInputPreview pw) (pushInputPreviewAudio pw normalized))) (\<lambda>pushed.
                            case pushed of Inl _ \<Rightarrow> gret () | Inr obs \<Rightarrow> emitObservations current1 obs)
                          else gret ()) (
                   applyReadDeadline (hProfile h) current1))))))"

section \<open>Inbound messages\<close>

datatype inboundMessage =
    ReadTimeout
  | ReadError
  | ControlFrame "(gostring \<times> controlMessage) option"
  | BinaryFrame "byte list"
  | OtherFrame

text \<open>\<open>False\<close>: the error is not a timeout and is left to the caller.\<close>

definition handleReadTimeout :: "realtimeWSHandler \<Rightarrow> unit gop" where
  "handleReadTimeout h =
     gbind snapshotOp (\<lambda>snapshot.
     gbind gnow (\<lambda>now.
     case deadlineCloseReason snapshot (hProfile h) now of
       None \<Rightarrow>
         (if SessionID snapshot = [] then gret ()
          else gthen interruptOutput (endSession (hProfile h) CloseReasonError (TextOf (closeMessageForReason CloseReasonError))))
     | Some reason \<Rightarrow> gthen interruptOutput (endSession (hProfile h) reason (TextOf (closeMessageForReason reason)))))"

definition handleInboundMessage :: "realtimeWSHandler \<Rightarrow> previewAnswers \<Rightarrow> opus_decoder \<Rightarrow> inboundMessage \<Rightarrow> unit gop" where
  "handleInboundMessage h pw pion inbound =
     (case inbound of
        ReadTimeout \<Rightarrow> handleReadTimeout h
      | ReadError \<Rightarrow> gfail ErrConnection
      | ControlFrame frame \<Rightarrow>
          gbind (gtry (handleControl h pw frame)) (\<lambda>result.
            case result of
              Inr _ \<Rightarrow> gret ()
            | Inl e \<Rightarrow> if e = ErrSession ErrNoActiveSession \<or> e = ErrSession ErrSessionAlreadyActive then gret () else gfail e)
      | BinaryFrame payload \<Rightarrow> handleBinary h pw pion payload
      | OtherFrame \<Rightarrow> gbind snapshotOp (\<lambda>snap. writeError (SessionID snap) (lit ''unsupported_message_type'')
          (TextOf (lit ''only text and binary websocket frames are supported'')) True))"

section \<open>The playback goroutine\<close>

text \<open>
  The goroutine announces the whole answer (a stream without segments) or goes straight into its loop. At the head of the loop it looks at
  its context, and then reads: the next segment, its failure or its end, a chunk, a failure, or the end of the audio. A read blocks, and what it
  delivers is sent without another look at the context. After the audio the goroutine waits for the terminal acknowledgement, if there are any, and
  for the outcome of the turn; a cancelled context ends a wait, but not if what it waits for is there, when either can happen. An event
  that the goroutine is not ready for changes nothing.
\<close>

datatype playback_event =
    PlayWhole | PlaySegmented | PlayCheck | PlaySegment PlaybackSegment | PlaySegmentFailed | PlaySegmentDone
  | PlayChunk "byte list" | PlayFailed gostring | PlayEnd | PlayAcknowledged | PlayOutcome | PlayGiveUp

definition moveTo :: "playbackStage \<Rightarrow> unit gop" where
  "moveTo stage = gmod (\<lambda>r. r\<lparr>crOutput := map_option (\<lambda>st. st\<lparr>osStage := stage\<rparr>) (crOutput r)\<rparr>)"

definition playbackExit :: "unit gop" where
  "playbackExit = gmod (\<lambda>r. r\<lparr>crAck := clearPlaybackAckState (crAck r), crOutput := None\<rparr>)"

text \<open>An error of the goroutine ends it.\<close>

definition orExit :: "unit gop \<Rightarrow> unit gop" where
  "orExit m = gbind (gtry m) (\<lambda>x. case x of Inr _ \<Rightarrow> gret () | Inl _ \<Rightarrow> playbackExit)"

definition playChunk :: "byte list \<Rightarrow> unit gop" where
  "playChunk chunk =
     gbind gnow (\<lambda>now r. case crOutput r of
         None \<Rightarrow> (Inr (), r)
       | Some st \<Rightarrow>
           (let (out, e) = ApplyPCM16 chunk now (osEffects st)
            in gthen (WriteBinary out) (
               gthen (gmod (\<lambda>r. r\<lparr>crTurnTrace := markTurnFirstAudioChunk now (int (length out)) (crTurnTrace r)\<rparr>)) (
               gmod (\<lambda>r. if PlaybackAckEnabled (crCollaboration r) then r else r\<lparr>crVoice := ObservePlaybackChunk (crVoice r)\<rparr>)))
               (r\<lparr>crOutput := Some (st\<lparr>osEffects := e\<rparr>)\<rparr>)))"

definition completeVoicePlayback :: "connectionRuntime \<Rightarrow> connectionRuntime" where
  "completeVoicePlayback r =
     r\<lparr>crVoice :=
       (if PlaybackAckEnabled (crCollaboration r) then
          (case paTerminal (crAck r) of
             AckCompleted \<Rightarrow> CompletePlaybackWithSource SourcePlaybackCompleted (crVoice r)
           | AckCleared \<Rightarrow> snd (InterruptPlaybackWithPolicy PolicyHardInterrupt
               (gatewayFirstNonEmpty [TrimSpace (paClearedReason (crAck r)), lit ''client_playback_cleared'']) (crVoice r))
           | AckNone \<Rightarrow> CompletePlaybackWithSource HeuristicBytes (crVoice r))
        else CompletePlayback (crVoice r))\<rparr>"

definition playbackEvent :: "realtimeWSHandler \<Rightarrow> playback_event \<Rightarrow> unit gop" where
  "playbackEvent h ev r =
     (case crOutput r of
        None \<Rightarrow> (Inr (), r)
      | Some st \<Rightarrow>
          (let snap = takeSnapshot (crSession r);
               playing = (SessionID snap = osSessionID st \<and> snapState snap = StateSpeaking)
           in case (osStage st, ev) of
                (AtStart, PlayWhole) \<Rightarrow> orExit (gthen (emitAudioOutMeta (osSessionID st) (osMeta st)) (moveTo AtCheck)) r
              | (AtStart, PlaySegmented) \<Rightarrow> moveTo AtCheck r
              | (AtCheck, PlayCheck) \<Rightarrow> if osCancelled st then playbackExit r else moveTo AtRead r
              | (AtRead, PlaySegment seg) \<Rightarrow>
                  (let cursor = nextSegmentAudioPlaybackMeta (osCursor st) (segText seg) (segExpectedDuration seg) (segIsLastSegment seg)
                   in orExit (emitAudioOutMeta (osSessionID st) cursor) (r\<lparr>crOutput := Some (st\<lparr>osCursor := cursor\<rparr>)\<rparr>))
              | (AtRead, PlaySegmentFailed) \<Rightarrow> playbackExit r
              | (AtRead, PlaySegmentDone) \<Rightarrow> moveTo AtCheck r
              | (AtRead, PlayChunk chunk) \<Rightarrow>
                  orExit (gthen (if chunk = [] then gret () else playChunk chunk) (moveTo AtCheck)) r
              | (AtRead, PlayFailed e) \<Rightarrow>
                  (if \<not> osCancelled st \<and> playing then
                     gthen (onVoice InterruptPlayback) (
                     gthen (gtry (writeError (osSessionID st) (lit ''audio_stream_failed'') (TextOf e) False)) (
                     gthen (gtry (endSession (hProfile h) CloseReasonError (TextOf e))) playbackExit)) r
                   else playbackExit r)
              | (AtRead, PlayEnd) \<Rightarrow>
                  (if osCancelled st then playbackExit r
                   else if \<not> playing then gthen resetPendingBargeInAudio (gthen clearInputPreview playbackExit) r
                   else if PlaybackAckEnabled (crCollaboration r) then moveTo AtAckWait r
                   else gthen (gmod completeVoicePlayback) (moveTo AtOutcome) r)
              | (AtAckWait, PlayAcknowledged) \<Rightarrow> gthen (gmod completeVoicePlayback) (moveTo AtOutcome) r
              | (AtOutcome, PlayOutcome) \<Rightarrow>
                  (case osCompletion st of
                     None \<Rightarrow> (Inl StillWaiting, r)
                   | Some outcome \<Rightarrow>
                       gthen (gtry (completeTurnReturnOrClose (hProfile h) outcome
                         (if ooEndSession outcome
                          then \<lparr>tcResolveReturnActive = None, tcOnReturnActive = None,
                                tcOnEndSession = Some (\<lambda>reason message. endSession (hProfile h) reason (TextOf message))\<rparr>
                          else \<lparr>tcResolveReturnActive = Some resolvePostPlaybackActiveSnapshot, tcOnReturnActive = Some onActive,
                                tcOnEndSession = None\<rparr>))) playbackExit r)
              | (AtOutcome, PlayGiveUp) \<Rightarrow> if osCancelled st then playbackExit r else (Inr (), r)
              | _ \<Rightarrow> (Inr (), r)))"

section \<open>A connection\<close>

text \<open>One message, one tick of the preview timer or one step of the playback goroutine.\<close>

datatype conn_event =
    Inbound inboundMessage previewAnswers opus_decoder
  | PreviewTick previewAnswers int
  | Playback playback_event

fun connection_step :: "realtimeWSHandler \<Rightarrow> conn_event \<Rightarrow> unit gop" where
  "connection_step h (Inbound m pw pion) = handleInboundMessage h pw pion m"
| "connection_step h (PreviewTick pw now) = handleServerEndpointTick h pw now"
| "connection_step h (Playback ev) = playbackEvent h ev"

end
