(* ===== verification/Gateway_Connection.thy ===== *)
theory Gateway_Connection
  imports Gateway_Handlers
begin

text \<open>
  What holds on a connection at all times. The locale \<open>connection_invariant\<close> is the contract of a predicate that
  every primitive operation keeps (a method of the session, of the orchestrator or of the acknowledgement state, a
  write, the audio staged for an interruption); inside it, every handler and every step of the playback goroutine
  is shown to keep it too. It is interpreted for the invariants of the components and for the sequence numbers of
  the events.
\<close>

section \<open>Operations that keep a predicate\<close>

definition keeps :: "(connectionRuntime \<Rightarrow> bool) \<Rightarrow> 'a gop \<Rightarrow> bool" where
  "keeps P m \<longleftrightarrow> (\<forall>r. P r \<longrightarrow> P (snd (m r)))"

lemma keepsD: "keeps P m \<Longrightarrow> P r \<Longrightarrow> P (snd (m r))"
  by (simp add: keeps_def)

lemma keeps_ret: "keeps P (gret x)"
  by (simp add: keeps_def gret_def)

lemma keeps_fail: "keeps P (gfail e)"
  by (simp add: keeps_def gfail_def)

lemma keeps_get: "keeps P (gget f)"
  by (simp add: keeps_def gget_def)

lemma keeps_bind:
  assumes "keeps P m" and "\<And>x. keeps P (f x)"
  shows "keeps P (gbind m f)"
  unfolding keeps_def gbind_def
proof (intro allI impI)
  fix r assume "P r"
  then have "P (snd (m r))" using assms(1) by (simp add: keeps_def)
  then show "P (snd (case m r of (Inl e, r1) \<Rightarrow> (Inl e, r1) | (Inr x, r1) \<Rightarrow> f x r1))"
    using assms(2) by (cases "m r"; cases "fst (m r)") (auto simp: keeps_def)
qed

lemma keeps_then: "keeps P m \<Longrightarrow> keeps P k \<Longrightarrow> keeps P (gthen m k)"
  by (simp add: gthen_def keeps_bind)

lemma keeps_try: "keeps P m \<Longrightarrow> keeps P (gtry m)"
  by (simp add: keeps_def gtry_def case_prod_beta)

lemma keeps_mod: "(\<And>r. P r \<Longrightarrow> P (f r)) \<Longrightarrow> keeps P (gmod f)"
  by (simp add: keeps_def gmod_def)

lemma keeps_if: "(b \<Longrightarrow> keeps P m) \<Longrightarrow> (\<not> b \<Longrightarrow> keeps P k) \<Longrightarrow> keeps P (if b then m else k)"
  by simp

lemma keeps_let: "(\<And>x. keeps P (f x)) \<Longrightarrow> keeps P (Let t f)"
  by (simp add: Let_def)

lemma keeps_sum: "(\<And>x. keeps P (f x)) \<Longrightarrow> (\<And>y. keeps P (g y)) \<Longrightarrow> keeps P (case s of Inl x \<Rightarrow> f x | Inr y \<Rightarrow> g y)"
  by (cases s) auto

lemma keeps_option: "keeps P m \<Longrightarrow> (\<And>x. keeps P (f x)) \<Longrightarrow> keeps P (case v of None \<Rightarrow> m | Some x \<Rightarrow> f x)"
  by (cases v) auto

lemma keeps_prod: "(\<And>x y. keeps P (f x y)) \<Longrightarrow> keeps P (case p of (x, y) \<Rightarrow> f x y)"
  by (cases p) auto

lemmas keeps_rules = keeps_ret keeps_fail keeps_get keeps_bind keeps_then keeps_try keeps_if keeps_let keeps_sum keeps_option keeps_prod

text \<open>The wait channel of the acknowledgements is closed exactly with a terminal one.\<close>

definition ack_channel :: "playbackAckState \<Rightarrow> bool" where
  "ack_channel s \<longleftrightarrow> 0 \<le> paLastMarkMs s \<and> (paWaitCh s \<noteq> None \<longrightarrow> paWaitCh s = Some (paTerminal s \<noteq> AckNone))"

section \<open>The contract\<close>

locale connection_frame =
  fixes P :: "connectionRuntime \<Rightarrow> bool"
  assumes tick: "P r \<Longrightarrow> P (r\<lparr>crTick := n\<rparr>)"
    and deadline: "P r \<Longrightarrow> P (r\<lparr>crDeadline := d\<rparr>)"
    and normalizer: "P r \<Longrightarrow> P (r\<lparr>crNormalizer := nm\<rparr>)"
    and collaboration: "P r \<Longrightarrow> P (r\<lparr>crCollaboration := co\<rparr>)"
    and closedPreviews: "P r \<Longrightarrow> P (r\<lparr>crClosedPreviews := hs\<rparr>)"
    and turnTraces: "P r \<Longrightarrow> P (r\<lparr>crTurnTrace := tt\<rparr>)"
    and previewTraces: "P r \<Longrightarrow> P (r\<lparr>crPreviewTrace := pt\<rparr>)"
    and outputs: "P r \<Longrightarrow> P (r\<lparr>crOutput := st\<rparr>)"
    and session: "P r \<Longrightarrow> P (r\<lparr>crSession := session_step c (crSession r)\<rparr>)"
    and voice: "P r \<Longrightarrow> P (r\<lparr>crVoice := orchestrator_step k (crVoice r)\<rparr>)"
    and ack: "P r \<Longrightarrow> (\<And>s. ack_channel s \<Longrightarrow> ack_channel (f s)) \<Longrightarrow> P (r\<lparr>crAck := f (crAck r)\<rparr>)"
    and event: "P r \<Longrightarrow> P (snd (WriteEvent sid pl r))"
    and binary: "P r \<Longrightarrow> P (snd (WriteBinary b r))"
begin

lemma keeps_now: "keeps P gnow"
  by (simp add: keeps_def gnow_def tick)

lemma keeps_event: "keeps P (WriteEvent sid pl)"
  by (simp add: keeps_def event)

lemma keeps_binary: "keeps P (WriteBinary b)"
  by (simp add: keeps_def binary)

lemma keeps_deadline: "keeps P (applyReadDeadline profile snap)"
  by (simp add: keeps_def applyReadDeadline_def Let_def tick deadline)

lemma keeps_session:
  assumes "\<And>now s. snd (f now s) = session_step (now, c) s"
  shows "keeps P (onSession f)"
  unfolding onSession_def
proof (rule keeps_bind [OF keeps_now])
  fix now
  have "P (r\<lparr>crSession := snd (f now (crSession r))\<rparr>)" if "P r" for r
    using session [OF that] by (simp add: assms)
  then show "keeps P (\<lambda>r. case f now (crSession r) of (Inl e, s) \<Rightarrow> (Inl (ErrSession e), r\<lparr>crSession := s\<rparr>)
      | (Inr x, s) \<Rightarrow> (Inr x, r\<lparr>crSession := s\<rparr>))"
    by (auto simp: keeps_def split: prod.splits sum.splits) (metis snd_conv)+
qed

lemma keeps_start: "keeps P (onSession (\<lambda>now. Start now req))"
  by (rule keeps_session [where c = "CStart req"]) simp

lemma keeps_ingest: "keeps P (onSession (\<lambda>now. IngestOwnedAudioFrame now p))"
  by (rule keeps_session [where c = "CIngest p"]) simp

lemma keeps_accept: "keeps P (onSession AcceptText)"
  by (rule keeps_session [where c = CAcceptText]) simp

lemma keeps_commit: "keeps P (onSession CommitTurn)"
  by (rule keeps_session [where c = CCommit]) simp

lemma keeps_set_state: "keeps P (onSession (\<lambda>now. SetState now st))"
  by (rule keeps_session [where c = "CSetState st"]) simp

lemma keeps_set_input: "keeps P (onSession (\<lambda>now. SetInputState now st))"
  by (rule keeps_session [where c = "CSetInput st"]) simp

lemma keeps_set_output: "keeps P (onSession (\<lambda>now. SetOutputState now st))"
  by (rule keeps_session [where c = "CSetOutput st"]) simp

lemma keeps_end: "keeps P (onSession (\<lambda>now. EndSession now reason))"
  by (rule keeps_session [where c = "CEnd reason"]) simp

lemma keeps_trace: "keeps P (onTurnTrace f)"
  unfolding onTurnTrace_def
  by (rule keeps_bind [OF keeps_now]) (auto simp: keeps_def turnTraces split: prod.splits)

lemma voice_calls:
  assumes "P r"
  shows "P (r\<lparr>crVoice := PrepareTurn q i t (crVoice r)\<rparr>)" "P (r\<lparr>crVoice := FinalizeTextResponse d (crVoice r)\<rparr>)"
    "P (r\<lparr>crVoice := StartPlaybackWithOptions d n m b (crVoice r)\<rparr>)" "P (r\<lparr>crVoice := UpdatePlayback d n (crVoice r)\<rparr>)"
    "P (r\<lparr>crVoice := ObservePlaybackChunk (crVoice r)\<rparr>)" "P (r\<lparr>crVoice := ObservePlaybackStartedFact (crVoice r)\<rparr>)"
    "P (r\<lparr>crVoice := ObservePlaybackMarkFact n (crVoice r)\<rparr>)" "P (r\<lparr>crVoice := ObservePlaybackMarkTextFact n d (crVoice r)\<rparr>)"
    "P (r\<lparr>crVoice := ObservePlaybackCompletedFact (crVoice r)\<rparr>)" "P (r\<lparr>crVoice := RecordInterruptionPolicy p d (crVoice r)\<rparr>)"
    "P (r\<lparr>crVoice := snd (InterruptPlaybackWithPolicy p d (crVoice r))\<rparr>)" "P (r\<lparr>crVoice := CompletePlaybackWithSource src (crVoice r)\<rparr>)"
    "P (r\<lparr>crVoice := snd (installInputPreview h (crVoice r))\<rparr>)" "P (r\<lparr>crVoice := snd (recordInputPreviewSnapshot pv (crVoice r))\<rparr>)"
    "P (r\<lparr>crVoice := snd (ClearInputPreview (crVoice r))\<rparr>)"
  using voice [OF assms, of "CallPrepareTurn q i t"] voice [OF assms, of "CallFinalizeTextResponse d"]
    voice [OF assms, of "CallStartPlayback d n m b"] voice [OF assms, of "CallUpdatePlayback d n"] voice [OF assms, of CallObserveChunk]
    voice [OF assms, of CallObserveStarted] voice [OF assms, of "CallObserveMark n"] voice [OF assms, of "CallObserveMarkText n d"]
    voice [OF assms, of CallObserveCompleted] voice [OF assms, of "CallRecordPolicy p d"] voice [OF assms, of "CallInterrupt p d"]
    voice [OF assms, of "CallComplete src"] voice [OF assms, of "CallInstallPreview h"] voice [OF assms, of "CallPreviewSnapshot pv"]
    voice [OF assms, of CallClearPreview]
  by simp_all

lemma interrupt_voice: "P r \<Longrightarrow> P (r\<lparr>crVoice := InterruptPlayback (crVoice r)\<rparr>)"
  by (simp add: InterruptPlayback_def voice_calls)

lemma keeps_on_voice: "(\<And>r. P r \<Longrightarrow> P (r\<lparr>crVoice := f (crVoice r)\<rparr>)) \<Longrightarrow> keeps P (onVoice f)"
  by (simp add: onVoice_def keeps_mod)

lemma ack_channel_calls:
  assumes "ack_channel s"
  shows "ack_channel (installPlaybackAckMeta m s)" "ack_channel (clearPlaybackAckState s)" "ack_channel (activatePlaybackAckSegment m s)"
    "ack_channel (snd (recordPlaybackStarted now s))" "ack_channel (snd (recordPlaybackMark now i ms s))"
    "ack_channel (snd (recordPlaybackCleared now i x s))" "ack_channel (snd (recordPlaybackCompleted now s))"
  using assms playbackDurationMs_nonneg
  by (auto simp: ack_channel_def ack_defs activatePlaybackAckSegment_def split: option.splits)

lemma keeps_ack: "(\<And>s. ack_channel s \<Longrightarrow> ack_channel (f s)) \<Longrightarrow> keeps P (modAck f)"
  unfolding modAck_def by (rule keeps_mod) (rule ack)

lemma keeps_ack_result:
  assumes "\<And>s. ack_channel s \<Longrightarrow> ack_channel (snd (f s))"
  shows "keeps P (ackResult f)"
  using ack [of _ "\<lambda>s. snd (f s)"] assms by (auto simp: keeps_def ackResult_def split: prod.splits) (metis snd_conv)

lemma keeps_sync: "keeps P syncAnnounced"
  unfolding syncAnnounced_def
proof (rule keeps_mod)
  fix r assume "P r"
  then show "P (r\<lparr>crVoice := syncAnnouncedPlaybackContext (crAck r) (crVoice r)\<rparr>)"
    using voice_calls(4) by (simp add: syncAnnouncedPlaybackContext_def Let_def)
qed


lemmas keeps_basics = keeps_rules keeps_now keeps_event keeps_binary keeps_deadline keeps_start keeps_ingest keeps_accept keeps_commit
  keeps_set_state keeps_set_input keeps_set_output keeps_end keeps_trace keeps_sync

subsection \<open>Shared operations\<close>

lemma keeps_interrupt_output: "keeps P (interruptOutputWithPolicy policy reason)"
proof -
  have "P (r\<lparr>crOutput := st, crVoice := snd (InterruptPlaybackWithPolicy policy reason (crVoice r))\<rparr>)"
    "P (r\<lparr>crOutput := st, crVoice := InterruptPlayback (crVoice r)\<rparr>)" if "P r" for r st
    using voice_calls(11) [OF outputs [OF that, of st]] interrupt_voice [OF outputs [OF that, of st]] by simp_all
  then show ?thesis by (auto simp: keeps_def interruptOutputWithPolicy_def split: option.splits)
qed

lemma keeps_interrupts: "keeps P interruptOutput" "keeps P (interruptOutputWithDecision decision)"
  by (simp_all add: interruptOutput_def interruptOutputWithDecision_def keeps_interrupt_output)

lemma keeps_directive: "keeps P (applyOutputDirective directive)"
  unfolding applyOutputDirective_def
proof (rule keeps_bind [OF keeps_now])
  fix now
  have "P (r\<lparr>crOutput := st, crVoice := RecordInterruptionPolicy p d (crVoice r)\<rparr>)" if "P r" for r st p d
    using voice_calls(10) [OF outputs [OF that, of st], of p d] by simp
  then show "keeps P (\<lambda>r. case crOutput r of None \<Rightarrow> (Inr False, r) | Some stream \<Rightarrow>
      (case ApplyDirective directive now (osEffects stream) of
         (False, e) \<Rightarrow> (Inr False, r\<lparr>crOutput := Some (stream\<lparr>osEffects := e\<rparr>)\<rparr>)
       | (True, e) \<Rightarrow> (Inr True, r\<lparr>crOutput := Some (stream\<lparr>osEffects := e\<rparr>),
           crVoice := RecordInterruptionPolicy (dirPolicy directive) (dirReason directive) (crVoice r)\<rparr>)))"
    by (auto simp: keeps_def outputs split: option.splits prod.splits bool.splits)
qed

lemma keeps_ingest_chunks: "keeps P (ingestChunks chunks snap)"
  by (induction chunks arbitrary: snap) (simp_all add: keeps_ret keeps_bind keeps_ingest)

lemma keeps_ensure: "keeps P (ensureInputPreview pw)"
proof -
  have "P (r\<lparr>crVoice := snd (installInputPreview h (crVoice r)), crClosedPreviews := hs\<rparr>)" if "P r" for r h hs
    using closedPreviews [OF voice_calls(13) [OF that]] by simp
  moreover have "P (r\<lparr>crVoice := crVoice r, crClosedPreviews := hs\<rparr>)" "P (r\<lparr>crVoice := crVoice r\<rparr>)" if "P r" for r hs
    using closedPreviews [OF that, of hs] that by simp_all
  ultimately show ?thesis
    by (auto simp: keeps_def ensureInputPreview_def EnsureInputPreview_def case_prod_beta split: option.splits sum.splits)
qed

lemma keeps_observe: "keeps P (observePreview sid t ob)"
proof -
  have "keeps P (\<lambda>r. case ObservePreview sid pv now (crPreviewTrace r) of ((trace, update), s) \<Rightarrow>
      (Inr (f trace update), r\<lparr>crPreviewTrace := s\<rparr>))" for pv now and f :: "inputPreviewTrace \<Rightarrow> inputPreviewTraceUpdate \<Rightarrow> inputPreviewObservation"
    by (auto simp: keeps_def previewTraces split: prod.splits)
  then show ?thesis unfolding observePreview_def by (intro keeps_basics)
qed

lemma keeps_observes: "keeps P (observePreviews sid obs)"
  by (induction obs) (simp_all add: keeps_ret keeps_bind keeps_observe)

lemma keeps_record_snapshots: "P r \<Longrightarrow> P (r\<lparr>crVoice := snd (recordSnapshots ss (crVoice r))\<rparr>)"
proof (induction ss arbitrary: r)
  case (Cons s ss)
  show ?case using Cons.IH [OF voice_calls(14) [OF Cons.prems, of s]] by (simp add: case_prod_beta)
qed simp

lemma keeps_push_voice: "keeps P (pushVoicePreview pw)"
proof -
  have s: "P (r\<lparr>crVoice := snd (recordInputPreviewSnapshot pv (snd (recordSnapshots ss (crVoice r))))\<rparr>)" if "P r" for r pv ss
    using voice_calls(14) [OF keeps_record_snapshots [OF that, of ss], of pv] by simp
  have "P (r\<lparr>crVoice := snd (snd (PushInputPreviewAudioProgressively b ss res (crVoice r)))\<rparr>)" if "P r" for r b ss and res :: "gostring + InputPreview"
    using that s [OF that] voice_calls(14) [OF that] keeps_record_snapshots [OF that]
    by (auto simp: PushInputPreviewAudioProgressively_def Let_def case_prod_beta split: sum.splits)
  then show ?thesis by (simp add: keeps_def pushVoicePreview_def case_prod_beta)
qed

lemma keeps_push: "keeps P (pushInputPreviewAudio pw payload)"
  unfolding pushInputPreviewAudio_def
  by (intro keeps_basics keeps_mod keeps_push_voice keeps_observes keeps_observe) (simp add: previewTraces)

lemma keeps_poll: "keeps P (pollInputPreview pw now)"
proof -
  have "keeps P (\<lambda>r. case PollInputPreview (pwPolled pw) (crVoice r) of (ob, v) \<Rightarrow> (Inr ob, r\<lparr>crVoice := v\<rparr>))"
    using voice_calls(14) by (auto simp: keeps_def PollInputPreview_def case_prod_beta)
  then show ?thesis unfolding pollInputPreview_def by (intro keeps_basics keeps_observe)
qed

lemma keeps_leave: "keeps P leavePreviewing"
  unfolding leavePreviewing_def by (intro keeps_basics)

lemma keeps_clear_trace: "keeps P clearPreviewTrace"
  by (simp add: keeps_def clearPreviewTrace_def ClearPreviewTrace_def previewTraces)

lemma keeps_clear_preview: "keeps P clearInputPreview"
proof -
  have "P (case ClearInputPreview (crVoice r) of (handles, v) \<Rightarrow> r\<lparr>crVoice := v, crClosedPreviews := crClosedPreviews r @ handles\<rparr>)"
    if "P r" for r
    using closedPreviews [OF voice_calls(15) [OF that], of "crClosedPreviews r @ fst (ClearInputPreview (crVoice r))"] by (simp add: case_prod_beta)
  then show ?thesis unfolding clearInputPreview_def by (intro keeps_basics keeps_clear_trace keeps_leave keeps_mod)
qed

lemma keeps_consume: "keeps P (consumeInputPreview pw)"
proof -
  have v: "snd (snd (FinalizeInputPreview a b o1)) = snd (ClearInputPreview o1)" for a and b :: "gostring option" and o1
    by (simp add: FinalizeInputPreview_def ClearInputPreview_def split: option.splits)
  have "P (r\<lparr>crVoice := snd (ClearInputPreview (crVoice r)), crClosedPreviews := hs\<rparr>)" if "P r" for r hs
    using closedPreviews [OF voice_calls(15) [OF that]] by simp
  then have "keeps P (finalizeVoicePreview pw)" by (simp add: keeps_def finalizeVoicePreview_def case_prod_beta v)
  then show ?thesis unfolding consumeInputPreview_def by (intro keeps_basics keeps_clear_trace keeps_leave)
qed

lemma keeps_barge_preview: "keeps P (previewForBargeIn pw snap payload)"
proof -
  have "keeps P (\<lambda>r. let ob = f r; pv = g r ob in case ObservePreview sid pv now (crPreviewTrace r) of ((trace, _), s) \<Rightarrow>
      (Inr (ob\<lparr>goPreview := pv, goTrace := trace\<rparr>), r\<lparr>crPreviewTrace := s\<rparr>))" for f :: "connectionRuntime \<Rightarrow> inputPreviewObservation" and g sid now
    by (simp add: keeps_def Let_def case_prod_beta previewTraces)
  then show ?thesis unfolding previewForBargeIn_def by (intro keeps_bind keeps_try keeps_then keeps_ensure keeps_push keeps_now)
qed

lemma keeps_clear_turn_trace: "keeps P clearTurnTrace"
  unfolding clearTurnTrace_def by (rule keeps_mod) (rule turnTraces)

lemma keeps_complete_turn:
  assumes "\<And>f. tcResolveReturnActive hooks = Some f \<Longrightarrow> keeps P f" and "\<And>f t s. tcOnReturnActive hooks = Some f \<Longrightarrow> keeps P (f t s)"
    and "\<And>f c m. tcOnEndSession hooks = Some f \<Longrightarrow> keeps P (f c m)"
  shows "keeps P (completeTurnReturnOrClose profile outcome hooks)"
proof -
  have "keeps P (case tcResolveReturnActive hooks of
      Some resolve \<Rightarrow> gbind resolve (\<lambda>(snap, resolved). if resolved then gret snap else onSession (\<lambda>t. SetState t StateActive))
    | None \<Rightarrow> onSession (\<lambda>t. SetState t StateActive))"
    "keeps P (case tcOnReturnActive hooks of None \<Rightarrow> gret () | Some f \<Rightarrow> f t s)"
    "keeps P (case tcOnEndSession hooks of None \<Rightarrow> gret () | Some f \<Rightarrow> f c m)" for t s c m
    using assms by (auto split: option.splits intro!: keeps_bind keeps_prod keeps_if keeps_set_state keeps_ret)
  then show ?thesis unfolding completeTurnReturnOrClose_def
    by (intro keeps_bind keeps_then keeps_if keeps_let keeps_trace keeps_clear_turn_trace keeps_deadline)
qed

end

section \<open>Hooks that keep a predicate\<close>

text \<open>A turn run with hooks that keep a predicate of the transport keeps it, whatever the responder delivers.\<close>

locale keeping_hooks =
  fixes Q :: "'s \<Rightarrow> bool" and opts :: "('e, 's) turnExecutionOptions"
  assumes start: "Q s \<Longrightarrow> Q (snd (hkResponseStart opts ms resp s))"
    and firstText: "Q s \<Longrightarrow> Q (hkFirstTextDelta opts t s)"
    and delta: "Q s \<Longrightarrow> Q (snd (hkResponseDelta opts d s))"
    and collected: "Q s \<Longrightarrow> Q (hkTextCollected opts t s)"
    and audio: "hkStartAudio opts = Some f \<Longrightarrow> Q s \<Longrightarrow> Q (snd (f st t s))"
    and resolve: "Q s \<Longrightarrow> Q (hkResolve opts out s)"
begin

lemma one_delta: "Q s \<Longrightarrow> Q (snd (emitTurnResponseDelta opts d s))"
  by (simp add: emitTurnResponseDelta_def delta firstText)

lemma deltas: "Q s \<Longrightarrow> Q (snd (emitTurnResponseDeltas opts ds s))"
proof (induction ds arbitrary: s)
  case (Cons d ds)
  show ?case using one_delta [OF Cons.prems, of d] Cons.IH
    by (cases "emitTurnResponseDelta opts d s"; cases "fst (emitTurnResponseDelta opts d s)") auto
qed simp

lemma whole: "Q s \<Longrightarrow> Q (snd (snd (emitWholeResponse opts resp c s)))"
proof -
  assume q: "Q s"
  let ?ds = "responseDeltasForEmission resp True"
  obtain e s1 where s1: "hkResponseStart opts (responseModalities ?ds resp) resp s = (e, s1)" by (cases rule: prod.exhaust)
  obtain e2 s2 where s2: "emitTurnResponseDeltas opts ?ds s1 = (e2, s2)" by (cases rule: prod.exhaust)
  have "Q s1" using start [OF q, of "responseModalities ?ds resp" resp] s1 by simp
  moreover from this have "Q s2" using deltas [of s1 ?ds] s2 by simp
  ultimately show ?thesis using collected [of s2] s1 s2
    by (simp add: emitWholeResponse_def Let_def split: option.splits)
qed

lemma resolving: "Q (flTransport lp) \<Longrightarrow> Q (flTransport (resolveCompletion opts lp))"
  by (simp add: resolveCompletion_def resolve)

lemma starting: "Q (flTransport lp) \<Longrightarrow> Q (flTransport (ensureStart opts ms lp))"
  using start [of "flTransport lp" ms "flResponse lp"] by (auto simp: ensureStart_def split: prod.splits option.splits)

lemma on_delta: "Q (flTransport lp) \<Longrightarrow> Q (flTransport (onDelta opts b d lp))"
proof -
  assume q: "Q (flTransport lp)"
  define l1 where "l1 = ensureStart opts (if b then [lit ''text'', lit ''audio''] else [lit ''text''])
    (lp\<lparr>flSeenDelta := True, flCollector := addDelta d (flCollector lp)\<rparr>)"
  have l1: "Q (flTransport l1)" unfolding l1_def by (rule starting) (simp add: q)
  obtain e s where es: "emitTurnResponseDelta opts d (flTransport l1) = (e, s)" by (cases rule: prod.exhaust)
  have "Q s" using one_delta [OF l1, of d] es by simp
  then show ?thesis using l1 collected es unfolding onDelta_def Let_def l1_def [symmetric]
    by (cases e) auto
qed

lemma on_audio: "Q (flTransport lp) \<Longrightarrow> Q (flTransport (onAudio opts result lp))"
proof -
  assume q: "Q (flTransport lp)"
  have "Q (flTransport (onAudio opts (Inr (Some st)) lp))" for st
  proof -
    define l1 where "l1 = ensureStart opts (modalitiesForAudioStart st (flSeenDelta (lp\<lparr>flAudioPending := False\<rparr>))) (lp\<lparr>flAudioPending := False\<rparr>)"
    have l1: "Q (flTransport l1)" unfolding l1_def by (rule starting) (simp add: q)
    show ?thesis
    proof (cases "hkStartAudio opts")
      case None
      then show ?thesis using l1 by (simp add: onAudio_def Let_def l1_def)
    next
      case (Some f)
      obtain e s where es: "f st (aggregatedTextForAudioStart (flCollector l1) st) (flTransport l1) = (e, s)" by (cases rule: prod.exhaust)
      have "Q s" using audio [OF Some l1] es by (metis snd_conv)
      then show ?thesis using l1 Some es resolving unfolding onAudio_def Let_def sum.case option.case l1_def [symmetric]
        by (cases e) auto
    qed
  qed
  then show ?thesis using q resolving by (cases result; cases "projr result") (auto simp: onAudio_def Let_def)
qed

lemma on_response: "Q (flTransport lp) \<Longrightarrow> Q (flTransport (onResponse opts result lp))"
proof (cases result)
  case (Inr resp)
  assume q: "Q (flTransport lp)"
  define l1 where "l1 = resolveCompletion opts (lp\<lparr>flResponsePending := False, flReady := True,
    flResponse := if flCompletion (lp\<lparr>flResponsePending := False\<rparr>) then markResponseAudioTransferred resp else resp\<rparr>)"
  have l1: "Q (flTransport l1)" unfolding l1_def by (rule resolving) (simp add: q)
  obtain e c s where es: "emitWholeResponse opts (flResponse l1) (flCollector l1) (flTransport l1) = (e, c, s)"
    by (cases rule: prod_cases3)
  have "Q s" using whole [OF l1, of "flResponse l1" "flCollector l1"] es by simp
  moreover have "onResponse opts result lp = (if flSentStart l1 then l1
      else (case (e, c, s) of (Some e, c, s) \<Rightarrow> l1\<lparr>flError := Some e, flCollector := c, flTransport := s\<rparr>
             | (None, c, s) \<Rightarrow> l1\<lparr>flSentStart := True, flCollector := c, flTransport := s\<rparr>))"
    unfolding es [symmetric] onResponse_def Let_def Inr sum.case l1_def by (rule refl)
  ultimately show ?thesis using l1 by (cases e) auto
qed (simp add: onResponse_def)

lemma flow_step: "Q (flTransport lp) \<Longrightarrow> Q (flTransport (flowStep opts b m lp))"
  by (cases m) (auto simp: on_delta on_audio on_response)

lemma flow_steps: "Q (flTransport lp) \<Longrightarrow> Q (flTransport (fold (flowStep opts b) msgs lp))"
  by (induction msgs arbitrary: lp) (auto simp: flow_step)

lemma plain: "Q s \<Longrightarrow> Q (snd (executePlainTurnResponse opts answer s))"
proof (cases answer)
  case (Inr resp)
  assume "Q s"
  then show ?thesis using whole [of s resp "[]"] Inr
    by (auto simp: executePlainTurnResponse_def split: prod.splits option.splits)
qed (simp add: executePlainTurnResponse_def)

lemma execute: "Q s \<Longrightarrow> Q (snd (executeTurnResponse opts run s))"
proof -
  assume q: "Q s"
  have "Q (flTransport (fold (flowStep opts b) msgs (newFlow a s)))" for a b msgs
    by (rule flow_steps) (simp add: newFlow_def q)
  then have "Q (snd (executeOrchestratedTurnResponse opts b msgs s))" "Q (snd (executeStreamingTurnResponse opts msgs s))" for b msgs
    by (simp_all add: executeOrchestratedTurnResponse_def executeStreamingTurnResponse_def Let_def)
  moreover have "Q (snd (executePlainTurnResponse opts answer s))" for answer using plain [OF q] .
  ultimately show ?thesis using q
    by (cases run; cases "case run of RunOrchestrated e _ _ \<Rightarrow> e | _ \<Rightarrow> None") (auto simp: case_prod_beta)
qed

end

section \<open>Handlers\<close>

context connection_frame
begin

lemma keeps_write: "keeps P (writeSessionUpdate snap i a)" "keeps P (writeError sid code m b)" "keeps P (emitResponseDelta sid rid d)"
  "keeps P (onActive t snap)"
  by (simp_all add: writeSessionUpdate_def writeError_def emitResponseDelta_def onActive_def keeps_event)

lemma keeps_meta: "keeps P (emitAudioOutMeta sid meta)"
  unfolding emitAudioOutMeta_def by (intro keeps_basics keeps_ack ack_channel_calls)

lemma keeps_preview_events: "keeps P (emitPreviewObservationEvents snap ob)"
  unfolding emitPreviewObservationEvents_def by (intro keeps_basics)

lemma keeps_observations: "keeps P (emitObservations snap obs)"
  by (induction obs) (simp_all add: keeps_ret keeps_then keeps_preview_events)

lemma reset_session: "P r \<Longrightarrow> P (r\<lparr>crSession := Reset (crSession r), crNormalizer := n\<rparr>)"
  using normalizer [OF session [of r "(0, CReset)"]] by simp

lemma keeps_end_session: "keeps P (endSession profile reason message)"
  unfolding endSession_def
  by (intro keeps_basics keeps_mod reset_session collaboration keeps_clear_preview keeps_ack ack_channel_calls keeps_clear_turn_trace)

lemma keeps_terminate: "keeps P (terminateWithError profile code message)"
  unfolding terminateWithError_def by (intro keeps_basics keeps_write keeps_interrupts keeps_end_session)

lemma keeps_session_start: "keeps P (handleSessionStart profile i decoded)"
proof -
  have "P (r\<lparr>crNormalizer := n, crCollaboration := co\<rparr>)" if "P r" for r n co
    using collaboration [OF normalizer [OF that]] by simp
  then show ?thesis unfolding handleSessionStart_def by (intro keeps_basics keeps_write keeps_mod keeps_ack ack_channel_calls)
qed

lemma keeps_start_stream: "keeps P (startAudioStream sid meta source completion)"
  unfolding startAudioStream_def by (intro keeps_basics keeps_mod outputs keeps_ack ack_channel_calls)

lemma keeps_response_audio: "keeps P (startResponseAudio h sid rid st t)"
  unfolding startResponseAudio_def Let_def
  by (intro keeps_basics keeps_on_voice voice_calls keeps_start_stream)

lemma hook_keeps: "keeps P m \<Longrightarrow> P r \<Longrightarrow> P (snd (asHook m r))"
  using keepsD [of P m r] by (auto simp: asHook_def split: prod.splits sum.splits)

lemma realtime_hooks_keep: "keeping_hooks P (realtimeHooks h sid rid)"
proof
  fix s :: connectionRuntime and ms resp t d st out f
  assume s: "P s"
  show "P (snd (hkResponseStart (realtimeHooks h sid rid) ms resp s))"
    using s by (simp add: realtimeHooks_def hook_keeps keeps_bind keeps_trace keeps_event)
  show "P (snd (hkResponseDelta (realtimeHooks h sid rid) d s))"
    using s by (simp add: realtimeHooks_def hook_keeps keeps_write)
  have "keeps P (gbind gnow (\<lambda>now. gmod (\<lambda>r. r\<lparr>crTurnTrace := markTurnFirstTextDelta now t (crTurnTrace r)\<rparr>)))"
    by (intro keeps_bind keeps_now keeps_mod turnTraces)
  then show "P (hkFirstTextDelta (realtimeHooks h sid rid) t s)" using s by (simp add: realtimeHooks_def keepsD)
  show "P (hkTextCollected (realtimeHooks h sid rid) t s)" using s voice_calls(4) by (simp add: realtimeHooks_def)
  show "P (hkResolve (realtimeHooks h sid rid) out s)" using s outputs by (simp add: realtimeHooks_def)
  assume "hkStartAudio (realtimeHooks h sid rid) = Some f"
  then show "P (snd (f st t s))" using s by (auto simp: realtimeHooks_def hook_keeps keeps_response_audio)
qed

end

sublocale connection_frame \<subseteq> hooks: keeping_hooks P "realtimeHooks h sid rid" for h sid rid
  by (rule realtime_hooks_keep)

context connection_frame
begin

lemma keeps_responder: "keeps P (runResponder h sid rid request)"
  unfolding keeps_def
proof (intro allI impI)
  fix r assume "P r"
  then show "P (snd (runResponder h sid rid request r))"
    using hooks.execute [of r h sid rid "hResponder h request"] by (auto simp: runResponder_def split: prod.splits option.splits)
qed

lemma clear_turn: "P r \<Longrightarrow> P (r\<lparr>crSession := ClearTurn now (crSession r)\<rparr>)"
  using session [of r "(now, CClearTurn)"] by simp

lemma keeps_lifecycle:
  assumes "\<And>f. tcResolveReturnActive completion = Some f \<Longrightarrow> keeps P f" and "\<And>f t s. tcOnReturnActive completion = Some f \<Longrightarrow> keeps P (f t s)"
    and "\<And>f c m. tcOnEndSession completion = Some f \<Longrightarrow> keeps P (f c m)"
    and "keeps P beforeNoAudio" and "\<And>f t. beforeSpeaking = Some f \<Longrightarrow> keeps P (f t)" and "\<And>x. keeps P (play x)"
  shows "keeps P (finalizeTurnLifecycle profile response completion beforeNoAudio beforeSpeaking play)"
proof -
  have "keeps P (case beforeSpeaking of None \<Rightarrow> gret () | Some f \<Rightarrow> f t)" for t
    using assms(5) by (auto split: option.splits simp: keeps_ret)
  then have spoken: "keeps P (gbind (onSession (\<lambda>t. SetOutputState t OutputStateSpeaking)) (\<lambda>speaking.
      gbind (onTurnTrace MarkSpeaking) (\<lambda>trace. gthen (applyReadDeadline profile speaking) (
      gthen (case beforeSpeaking of None \<Rightarrow> gret () | Some f \<Rightarrow> f trace) (play x)))))" for x
    by (intro keeps_bind keeps_then keeps_set_output keeps_trace keeps_deadline assms(6))
  show ?thesis unfolding finalizeTurnLifecycle_def
    by (intro keeps_bind keeps_then keeps_now keeps_mod clear_turn keeps_option spoken assms(4) keeps_complete_turn) (auto intro: assms(1-3))
qed

lemma keeps_finalize: "keeps P (finalizeTurnResponse h sid rid response delivered)"
proof -
  have "keeps P (gbind (gget (\<lambda>r. PlaybackAckEnabled (crCollaboration r))) (\<lambda>prefer.
      gthen (onVoice (StartPlaybackWithOptions delivered n m prefer)) (gbind snapshotOp (\<lambda>speaking. WriteEvent sid (f speaking)))))" for n m f
    by (intro keeps_basics keeps_on_voice voice_calls)
  moreover have "keeps P (gbind gnow (\<lambda>now. startAudioStream sid (f now) x c))" for f x c
    by (intro keeps_basics keeps_start_stream)
  ultimately show ?thesis unfolding finalizeTurnResponse_def Let_def
    by (intro keeps_lifecycle) (auto simp: keeps_write keeps_end_session intro: keeps_on_voice voice_calls)
qed

lemma keeps_emit_response: "keeps P (emitTurnResponse h turn trace t pt)"
  unfolding emitTurnResponse_def Let_def
  by (intro keeps_basics keeps_on_voice voice_calls keeps_responder keeps_interrupts keeps_terminate keeps_finalize)

lemma keeps_answer: "keeps P (answerTurn h turn source reason t pt)"
  unfolding answerTurn_def by (intro keeps_basics keeps_write keeps_emit_response)

lemma keeps_endpoint_tick: "keeps P (handleServerEndpointTick h pw now)"
  unfolding handleServerEndpointTick_def
  by (intro keeps_basics keeps_poll keeps_preview_events keeps_consume keeps_answer)

end

text \<open>The same with the audio staged for an interruption.\<close>

locale connection_invariant = connection_frame +
  assumes stage: "P r \<Longrightarrow> payload \<noteq> [] \<Longrightarrow> P (r\<lparr>crPending := \<lparr>pbChunks = pbChunks (crPending r) @ [payload],
      pbAudioBytes = pbAudioBytes (crPending r) + int (length payload)\<rparr>\<rparr>)"
    and unstage: "P r \<Longrightarrow> P (r\<lparr>crPending := noPendingAudio\<rparr>)"
begin

lemma keeps_stage: "keeps P (stagePendingBargeInAudio payload)"
  unfolding stagePendingBargeInAudio_def by (rule keeps_mod) (simp add: stage)

lemma keeps_unstage: "keeps P resetPendingBargeInAudio"
  unfolding resetPendingBargeInAudio_def by (rule keeps_mod) (simp add: unstage)

lemma keeps_flush: "keeps P flushPendingBargeInAudio"
  using keeps_ingest_chunks unstage by (simp add: keeps_def flushPendingBargeInAudio_def)

lemma keeps_resolve_active: "keeps P resolvePostPlaybackActiveSnapshot"
  unfolding resolvePostPlaybackActiveSnapshot_def
  by (intro keeps_basics keeps_unstage keeps_clear_preview keeps_flush)

lemma keeps_interrupt_flow:
  assumes "\<And>f. onInterrupted = Some f \<Longrightarrow> keeps P f" and "\<And>f t s. onReturnActive = Some f \<Longrightarrow> keeps P (f t s)"
  shows "keeps P (interruptSpeakingFlowWithOptions profile opts onInterrupted onReturnActive)"
proof -
  have hooks: "keeps P (case onInterrupted of Some f \<Rightarrow> if b then f else gret () | None \<Rightarrow> gret ())"
    "keeps P (case onReturnActive of None \<Rightarrow> gret () | Some f \<Rightarrow> f t s)" for b t s
    using assms by (auto split: option.splits simp: keeps_ret)
  have decided: "keeps P (case isoDecision opts of Some decision \<Rightarrow> interruptOutputWithDecision decision
      | None \<Rightarrow> if b then interruptOutputWithPolicy pol d else interruptOutput)" for b pol d
    by (auto split: option.splits simp: keeps_interrupts keeps_interrupt_output)
  show ?thesis unfolding interruptSpeakingFlowWithOptions_def
    by (intro keeps_bind keeps_then keeps_if keeps_get keeps_ret hooks decided keeps_set_output
        keeps_trace keeps_clear_preview keeps_unstage keeps_deadline)
qed

lemma keeps_interrupt_active: "keeps P (interruptSpeakingFlowWithOptions profile opts None (Some onActive))"
  by (rule keeps_interrupt_flow) (auto simp: keeps_write)

lemma keeps_handle_commit: "keeps P (handleCommit h pw i decoded)"
  unfolding handleCommit_def
  by (intro keeps_basics keeps_write keeps_interrupt_active keeps_flush keeps_consume keeps_unstage keeps_answer)

lemma keeps_handle_text: "keeps P (handleText h i decoded)"
  unfolding handleText_def Let_def
  by (intro keeps_basics keeps_write keeps_interrupt_active keeps_clear_preview keeps_answer)

lemma keeps_client_end: "keeps P (handleClientEnd h i decoded)"
  unfolding handleClientEnd_def by (intro keeps_basics keeps_write keeps_interrupts keeps_end_session)

lemma keeps_update: "keeps P (handleSessionUpdate h i decoded)"
  unfolding handleSessionUpdate_def by (intro keeps_basics keeps_write keeps_interrupt_active)

lemma keeps_heard: "keeps P (observeHeard n heard)"
  unfolding observeHeard_def by (intro keeps_basics keeps_on_voice voice_calls)

lemma keeps_acknowledged: "keeps P m \<Longrightarrow> keeps P (acknowledged payload m)"
  unfolding acknowledged_def by (intro keeps_basics)

lemma keeps_ack_started: "keeps P (recordPlaybackAckStarted a)"
  unfolding recordPlaybackAckStarted_def
  by (intro keeps_acknowledged keeps_basics keeps_ack ack_channel_calls keeps_on_voice voice_calls)

lemma keeps_ack_mark: "keeps P (recordPlaybackAckMark a)"
  unfolding recordPlaybackAckMark_def
  by (intro keeps_acknowledged keeps_basics keeps_ack_result ack_channel_calls keeps_heard)

lemma keeps_ack_cleared: "keeps P (recordPlaybackAckCleared h a)"
  unfolding recordPlaybackAckCleared_def
  by (intro keeps_acknowledged keeps_basics keeps_ack_result ack_channel_calls keeps_heard keeps_interrupt_active)

lemma keeps_ack_completed: "keeps P (recordPlaybackAckCompleted a)"
  unfolding recordPlaybackAckCompleted_def
  by (intro keeps_acknowledged keeps_basics keeps_ack ack_channel_calls keeps_on_voice voice_calls)

lemmas keeps_acks = keeps_ack_started keeps_ack_mark keeps_ack_cleared keeps_ack_completed

lemma keeps_audio_out: "(\<And>a. keeps P (f a)) \<Longrightarrow> keeps P (handleAudioOut i code f decoded)"
  unfolding handleAudioOut_def by (intro keeps_basics keeps_write)

lemma keeps_control: "keeps P (handleControl h pw frame)"
proof -
  have "keeps P (handleControl h pw (Some (i, m)))" for i m
    by (cases m) (simp_all add: handleControl_def keeps_session_start keeps_handle_commit keeps_handle_text keeps_client_end keeps_update
        keeps_audio_out keeps_acks keeps_write)
  then show ?thesis by (cases frame) (auto simp: handleControl_def keeps_write)
qed

lemma keeps_barge_in: "keeps P (bargeInFrame h pw previous payload)"
proof -
  have "keeps P (onVoice (RecordInterruptionDecision d))" for d
    by (simp add: RecordInterruptionDecision_def keeps_on_voice voice_calls)
  then show ?thesis unfolding bargeInFrame_def Let_def
    by (intro keeps_basics keeps_stage keeps_barge_preview keeps_preview_events keeps_write keeps_directive keeps_interrupt_active keeps_flush)
qed

lemma keeps_handle_binary: "keeps P (handleBinary h pw pion payload)"
  unfolding handleBinary_def decodeFrame_def
  by (intro keeps_basics keeps_terminate keeps_barge_in keeps_write keeps_ensure keeps_push keeps_observations)

lemma keeps_read_timeout: "keeps P (handleReadTimeout h)"
  unfolding handleReadTimeout_def by (intro keeps_basics keeps_interrupts keeps_end_session)

lemma keeps_inbound: "keeps P (handleInboundMessage h pw pion m)"
proof (cases m)
  case (ControlFrame frame)
  show ?thesis unfolding handleInboundMessage_def ControlFrame inboundMessage.case by (intro keeps_basics keeps_control)
qed (simp_all add: handleInboundMessage_def keeps_read_timeout keeps_fail keeps_handle_binary keeps_bind keeps_get keeps_write)

subsection \<open>The playback goroutine\<close>

lemma keeps_exit: "keeps P playbackExit"
proof -
  have "P (r\<lparr>crAck := clearPlaybackAckState (crAck r), crOutput := None\<rparr>)" if "P r" for r
    using outputs [OF ack [OF that, of clearPlaybackAckState], of None] ack_channel_calls(2) by simp
  then show ?thesis unfolding playbackExit_def by (rule keeps_mod)
qed

lemma keeps_or_exit: "keeps P m \<Longrightarrow> keeps P (orExit m)"
  unfolding orExit_def by (intro keeps_basics keeps_exit)

lemma keeps_chunk: "keeps P (playChunk chunk)"
proof -
  have written: "keeps P (gthen (WriteBinary out) (
      gthen (gmod (\<lambda>r. r\<lparr>crTurnTrace := markTurnFirstAudioChunk now (int (length out)) (crTurnTrace r)\<rparr>)) (
      gmod (\<lambda>r. if PlaybackAckEnabled (crCollaboration r) then r else r\<lparr>crVoice := ObservePlaybackChunk (crVoice r)\<rparr>))))" for out now
    by (intro keeps_then keeps_binary keeps_mod) (simp_all add: turnTraces voice_calls)
  have "P (snd (case crOutput r of None \<Rightarrow> (Inr (), r)
       | Some st \<Rightarrow> (let (out, e) = ApplyPCM16 chunk now (osEffects st)
            in gthen (WriteBinary out) (
               gthen (gmod (\<lambda>r. r\<lparr>crTurnTrace := markTurnFirstAudioChunk now (int (length out)) (crTurnTrace r)\<rparr>)) (
               gmod (\<lambda>r. if PlaybackAckEnabled (crCollaboration r) then r else r\<lparr>crVoice := ObservePlaybackChunk (crVoice r)\<rparr>)))
               (r\<lparr>crOutput := Some (st\<lparr>osEffects := e\<rparr>)\<rparr>))))" if "P r" for r now
    using that keepsD [OF written outputs [OF that]] by (simp add: case_prod_beta split: option.splits)
  then show ?thesis unfolding playChunk_def by (intro keeps_bind keeps_now) (simp add: keeps_def)
qed

lemma complete_voice: "P r \<Longrightarrow> P (completeVoicePlayback r)"
  by (auto simp: completeVoicePlayback_def CompletePlayback_def voice_calls split: playbackAckTerminal.splits)

lemma keeps_move: "keeps P (moveTo stage)"
  unfolding moveTo_def by (intro keeps_mod outputs)

lemma keeps_complete_voice: "keeps P (gthen (gmod completeVoicePlayback) (moveTo stage))"
  by (intro keeps_then keeps_mod keeps_move complete_voice)

lemma keeps_playback: "keeps P (playbackEvent h ev)"
proof -
  have failed: "keeps P (gthen (onVoice InterruptPlayback) (gthen (gtry (writeError s c t False)) (gthen (gtry (endSession p q m)) playbackExit)))" for s c t p q m
    by (intro keeps_then keeps_try keeps_on_voice interrupt_voice keeps_write keeps_end_session keeps_exit)
  have stale: "keeps P (gthen resetPendingBargeInAudio (gthen clearInputPreview playbackExit))"
    by (intro keeps_then keeps_unstage keeps_clear_preview keeps_exit)
  have whole: "keeps P (orExit (gthen (emitAudioOutMeta sid meta) (moveTo stage)))" for sid meta stage
    by (intro keeps_or_exit keeps_then keeps_meta keeps_move)
  have chunk: "keeps P (orExit (gthen (if c = [] then gret () else playChunk c) (moveTo stage)))" for c stage
    by (intro keeps_or_exit keeps_then keeps_if keeps_ret keeps_chunk keeps_move)
  have done1: "keeps P (gthen (gtry (completeTurnReturnOrClose p out
      (if b then \<lparr>tcResolveReturnActive = None, tcOnReturnActive = None, tcOnEndSession = Some (\<lambda>reason message. endSession p reason (TextOf message))\<rparr>
       else \<lparr>tcResolveReturnActive = Some resolvePostPlaybackActiveSnapshot, tcOnReturnActive = Some onActive, tcOnEndSession = None\<rparr>))) playbackExit)" for p out b
    by (intro keeps_then keeps_try keeps_exit keeps_complete_turn) (auto simp: keeps_end_session keeps_resolve_active keeps_write split: if_splits)
  have "P (snd (playbackEvent h ev r))" if r: "P r" and st: "crOutput r = Some st" for r st
  proof (cases ev)
    case (PlayOutcome)
    show ?thesis using r st keepsD [OF done1 r]
      by (cases "osStage st"; cases "osCompletion st") (simp_all add: playbackEvent_def PlayOutcome Let_def split del: if_split)
  qed (use r st keepsD [OF failed r] keepsD [OF stale r] keepsD [OF keeps_exit r] keepsD [OF whole r] keepsD [OF chunk r] keepsD [OF keeps_move r]
      keepsD [OF keeps_or_exit [OF keeps_meta] outputs [OF r]] keepsD [OF keeps_complete_voice r]
    in \<open>simp_all add: playbackEvent_def Let_def split: playbackStage.splits\<close>)
  moreover have "snd (playbackEvent h ev r) = r" if "crOutput r = None" for r using that by (simp add: playbackEvent_def)
  ultimately show ?thesis unfolding keeps_def by (metis option.exhaust)
qed

theorem keeps_step: "keeps P (connection_step h ev)"
  by (cases ev) (simp_all add: keeps_inbound keeps_endpoint_tick keeps_playback)

lemma run_keeps: "P r \<Longrightarrow> P (fold (\<lambda>ev r. snd (connection_step h ev r)) evs r)"
  by (induction evs arbitrary: r) (auto intro: keepsD [OF keeps_step])

end

section \<open>Instances\<close>

text \<open>The invariants of the parts: the staged byte count is the size of the staged frames, none of which is empty.\<close>

definition pending_ok :: "pendingBargeInAudio \<Rightarrow> bool" where
  "pending_ok p \<longleftrightarrow> pbAudioBytes p = int (length (concat (pbChunks p))) \<and> [] \<notin> set (pbChunks p)"

definition conn_inv :: "connectionRuntime \<Rightarrow> bool" where
  "conn_inv r \<longleftrightarrow> session_inv (crSession r) \<and> orchestrator_inv (crVoice r) \<and> ack_channel (crAck r) \<and> pending_ok (crPending r)"

interpretation parts: connection_invariant conn_inv
  by unfold_locales
    (auto simp: conn_inv_def pending_ok_def noPendingAudio_def WriteEvent_def WriteBinary_def Let_def session_step_inv orchestrator_inv_step)

lemma conn_inv_new: "conn_inv (newConnectionRuntime env memory)"
  by (simp add: conn_inv_def newConnectionRuntime_def pending_ok_def noPendingAudio_def inv_new orchestrator_inv_New ack_channel_def noPlaybackAck_def)

text \<open>The events of a connection, and that their numbers increase.\<close>

fun isEvent :: "int \<times> gostring \<times> serverPayload \<Rightarrow> bool" where
  "isEvent (_, _, PBinary _) = False"
| "isEvent (_, _, PCompat _) = False"
| "isEvent (_, _, PConnClosed) = False"
| "isEvent _ = True"

definition eventNumbers :: "connectionRuntime \<Rightarrow> int list" where
  "eventNumbers r = map fst (filter isEvent (peSent (crPeer r)))"

definition numbered :: "connectionRuntime \<Rightarrow> bool" where
  "numbered r \<longleftrightarrow> sorted_wrt (<) (0 # eventNumbers r @ [peServerSeq (crPeer r) + 1])"

text \<open>Audio frames carry no number.\<close>

lemma increasing_snoc:
  assumes "sorted_wrt (<) (0 # ns @ [n + 1 :: int])"
  shows "sorted_wrt (<) (0 # ns @ [n + 2])" "sorted_wrt (<) (0 # ns @ [n + 1, n + 2])"
  using assms by (force simp: sorted_wrt_append)+

lemma eventNumbers_write:
  "eventNumbers (snd (WriteEvent sid pl r)) \<in> {eventNumbers r, eventNumbers r @ [peServerSeq (crPeer r) + 1]}"
  "peServerSeq (crPeer (snd (WriteEvent sid pl r))) = peServerSeq (crPeer r) + 1"
  "eventNumbers (snd (WriteBinary b r)) = eventNumbers r" "peServerSeq (crPeer (snd (WriteBinary b r))) = peServerSeq (crPeer r)"
  by (simp_all add: eventNumbers_def WriteEvent_def WriteBinary_def Let_def)

interpretation numbers: connection_invariant numbered
proof unfold_locales
  fix r sid pl b
  assume n: "numbered r"
  show "numbered (snd (WriteEvent sid pl r))"
    using increasing_snoc [OF n [unfolded numbered_def]] eventNumbers_write(1) [of sid pl r]
    by (auto simp: numbered_def eventNumbers_write(2) add.assoc)
  show "numbered (snd (WriteBinary b r))" using n by (simp add: numbered_def eventNumbers_write)
qed (simp_all add: numbered_def eventNumbers_def)

text \<open>The staged audio is untouched by everything but staging, flushing and resetting it.\<close>

interpretation staged: connection_frame "\<lambda>r. crPending r = p" for p
  by unfold_locales (simp_all add: WriteEvent_def WriteBinary_def Let_def)

definition connection_run :: "realtimeWSHandler \<Rightarrow> conn_event list \<Rightarrow> connectionRuntime \<Rightarrow> connectionRuntime" where
  "connection_run h evs r = fold (\<lambda>ev r. snd (connection_step h ev r)) evs r"

section \<open>Properties\<close>


text \<open>
  the events of a connection carry strictly increasing positive numbers, no larger than the counter, also when
  writes fail in between.
\<close>
theorem event_numbers_increase:
  "sorted_wrt (<) (0 # eventNumbers (connection_run h evs (newConnectionRuntime env memory)) @
     [peServerSeq (crPeer (connection_run h evs (newConnectionRuntime env memory))) + 1])"
proof -
  have "numbered (newConnectionRuntime env memory)" by (simp add: numbered_def eventNumbers_def newConnectionRuntime_def)
  from numbers.run_keeps [OF this, of h evs] show ?thesis by (simp add: numbered_def connection_run_def)
qed

end
