(* ===== verification/Gateway_Turns.thy ===== *)
theory Gateway_Turns
  imports Gateway_Connection
begin

text \<open>
  Audio a user speaks over an answer, and the deadlines of a connection. The calculus \<open>returns\<close> is the total one:
  the operation comes back without an error and its result and the connection satisfy the postcondition. It needs a
  connection that accepts every write.
\<close>

section \<open>Operations that return\<close>

definition returns :: "(connectionRuntime \<Rightarrow> bool) \<Rightarrow> 'a gop \<Rightarrow> ('a \<Rightarrow> connectionRuntime \<Rightarrow> bool) \<Rightarrow> bool" where
  "returns A m Q \<longleftrightarrow> (\<forall>r. A r \<longrightarrow> (\<exists>x r1. m r = (Inr x, r1) \<and> Q x r1))"

lemma returnsE:
  assumes "returns A m Q" and "A r"
  obtains x r1 where "m r = (Inr x, r1)" and "Q x r1"
  using assms by (auto simp: returns_def)

lemma returns_ret: "(\<And>r. A r \<Longrightarrow> Q x r) \<Longrightarrow> returns A (gret x) Q"
  by (simp add: returns_def gret_def)

lemma returns_get: "(\<And>r. A r \<Longrightarrow> Q (f r) r) \<Longrightarrow> returns A (gget f) Q"
  by (simp add: returns_def gget_def)

lemma returns_mod: "(\<And>r. A r \<Longrightarrow> Q () (f r)) \<Longrightarrow> returns A (gmod f) Q"
  by (simp add: returns_def gmod_def)

lemma gbind_run: "m r = (Inr x, r1) \<Longrightarrow> gbind m f r = f x r1"
  by (simp add: gbind_def)

lemma returns_bind:
  assumes "returns A m R" and "\<And>x. returns (R x) (f x) Q"
  shows "returns A (gbind m f) Q"
  unfolding returns_def
proof (intro allI impI)
  fix r assume "A r"
  then obtain x r1 where m: "m r = (Inr x, r1)" and R: "R x r1" by (rule returnsE [OF assms(1)])
  show "\<exists>y r2. gbind m f r = (Inr y, r2) \<and> Q y r2"
    using assms(2) [of x] R by (simp add: gbind_run [of m, OF m] returns_def)
qed

lemma returns_then: "returns A m (\<lambda>_. R) \<Longrightarrow> returns R k Q \<Longrightarrow> returns A (gthen m k) Q"
  unfolding gthen_def by (rule returns_bind)

lemma returns_try: "returns A m Q \<Longrightarrow> returns A (gtry m) (\<lambda>x r. case x of Inl _ \<Rightarrow> False | Inr y \<Rightarrow> Q y r)"
  by (force simp: returns_def gtry_def)

lemma returns_skip: "returns A k Q \<Longrightarrow> returns A (gthen (gret x) k) Q"
  by (simp add: returns_def gthen_def gbind_def gret_def)

lemma returns_read: "(\<And>x. returns A (f x) Q) \<Longrightarrow> returns A (gbind (gget g) f) Q"
  by (simp add: returns_def gbind_def gget_def)

lemma returns_if: "(b \<Longrightarrow> returns A m Q) \<Longrightarrow> (\<not> b \<Longrightarrow> returns A k Q) \<Longrightarrow> returns A (if b then m else k) Q"
  by simp

lemma returns_weaken: "returns A m R \<Longrightarrow> (\<And>x r. R x r \<Longrightarrow> Q x r) \<Longrightarrow> returns A m Q"
  by (force simp: returns_def)

lemma returns_pure: "(b \<Longrightarrow> returns A m Q) \<Longrightarrow> returns (\<lambda>r. A r \<and> b) m Q"
  by (auto simp: returns_def)

section \<open>A session with audio under way\<close>

text \<open>An open session over a working connection, with its buffered audio, the staged frames and the output lane.\<close>

definition carrying :: "byte list \<Rightarrow> byte list list \<Rightarrow> OutputState \<Rightarrow> connectionRuntime \<Rightarrow> bool" where
  "carrying buf staged lane r \<longleftrightarrow> (\<forall>n. envConnOk (crEnv r) n) \<and> session_inv (crSession r) \<and>
     buffer_abs (crSession r) = (True, buf) \<and> pbChunks (crPending r) = staged \<and> snapOutputState (current (crSession r)) = lane"

abbreviation stays :: "byte list \<Rightarrow> byte list list \<Rightarrow> OutputState \<Rightarrow> 'a gop \<Rightarrow> bool" where
  "stays buf staged lane m \<equiv> returns (carrying buf staged lane) m (\<lambda>_. carrying buf staged lane)"

lemma carrying_fields [simp]:
  "carrying b p l (r\<lparr>crTick := n\<rparr>) = carrying b p l r" "carrying b p l (r\<lparr>crDeadline := d\<rparr>) = carrying b p l r"
  "carrying b p l (r\<lparr>crVoice := v\<rparr>) = carrying b p l r" "carrying b p l (r\<lparr>crClosedPreviews := hs\<rparr>) = carrying b p l r"
  "carrying b p l (r\<lparr>crTurnTrace := tt\<rparr>) = carrying b p l r" "carrying b p l (r\<lparr>crPreviewTrace := pt\<rparr>) = carrying b p l r"
  "carrying b p l (r\<lparr>crOutput := out\<rparr>) = carrying b p l r" "carrying b p l (r\<lparr>crPeer := pe\<rparr>) = carrying b p l r"
  by (simp_all add: carrying_def)

lemma stays_now: "stays b p l gnow"
  by (simp add: returns_def gnow_def)

lemma stays_event: "stays b p l (WriteEvent sid pl)"
  unfolding returns_def
proof (intro allI impI)
  fix r assume c: "carrying b p l r"
  then have "envConnOk (crEnv r) (crTick r)" by (simp add: carrying_def)
  then show "\<exists>x r1. WriteEvent sid pl r = (Inr x, r1) \<and> carrying b p l r1"
    using c by (simp add: WriteEvent_def Let_def)
qed

lemma stays_deadline: "stays b p l (applyReadDeadline profile snap)"
  unfolding returns_def
proof (intro allI impI)
  fix r assume c: "carrying b p l r"
  then have "envConnOk (crEnv r) (crTick r)" by (simp add: carrying_def)
  then show "\<exists>x r1. applyReadDeadline profile snap r = (Inr x, r1) \<and> carrying b p l r1"
    using c by (simp add: applyReadDeadline_def Let_def)
qed

lemma stays_trace: "stays b p l (onTurnTrace f)"
  unfolding onTurnTrace_def by (rule returns_bind [OF stays_now]) (auto simp: returns_def split: prod.splits)

lemma stays_clear_turn_trace: "stays b p l clearTurnTrace"
  unfolding clearTurnTrace_def by (rule returns_mod) simp

text \<open>A call of the session that cannot fail while it is open, by what it does to the buffer and the lane.\<close>

lemma returns_session:
  assumes "\<And>now s. session_inv s \<Longrightarrow> active s \<Longrightarrow> snapOutputState (current s) = l \<Longrightarrow>
      \<exists>x s1. f now s = (Inr x, s1) \<and> s1 = session_step (now, c) s \<and> snapOutputState (current s1) = laneAfter \<and> (buffer_abs s = (True, b) \<longrightarrow> Q x s1)"
    and "buffer_step c (True, b) = (True, bufAfter)"
  shows "returns (carrying b p l) (onSession f) (\<lambda>x r. carrying bufAfter p laneAfter r \<and> Q x (crSession r))"
  unfolding onSession_def
proof (rule returns_bind [OF stays_now])
  fix now
  show "returns (carrying b p l) (\<lambda>r. case f now (crSession r) of (Inl e, s) \<Rightarrow> (Inl (ErrSession e), r\<lparr>crSession := s\<rparr>)
      | (Inr x, s) \<Rightarrow> (Inr x, r\<lparr>crSession := s\<rparr>)) (\<lambda>x r. carrying bufAfter p laneAfter r \<and> Q x (crSession r))"
    unfolding returns_def
  proof (intro allI impI)
    fix r assume c: "carrying b p l r"
    then have "session_inv (crSession r)" "active (crSession r)" "snapOutputState (current (crSession r)) = l"
      by (simp_all add: carrying_def buffer_abs_def)
    from assms(1) [OF this, of now] obtain x s1 where s1: "f now (crSession r) = (Inr x, s1)" "s1 = session_step (now, c) (crSession r)"
      "snapOutputState (current s1) = laneAfter" "buffer_abs (crSession r) = (True, b) \<longrightarrow> Q x s1" by blast
    have "buffer_abs s1 = (True, bufAfter)"
      using c assms(2) by (simp add: s1(2) buffer_step_refines carrying_def)
    then show "\<exists>x r1. (case f now (crSession r) of (Inl e, s) \<Rightarrow> (Inl (ErrSession e), r\<lparr>crSession := s\<rparr>)
        | (Inr x, s) \<Rightarrow> (Inr x, r\<lparr>crSession := s\<rparr>)) = (Inr x, r1) \<and> carrying bufAfter p laneAfter r1 \<and> Q x (crSession r1)"
      using c s1 session_step_inv [of "crSession r" "(now, c)"] by (auto simp: carrying_def)
  qed
qed

lemma set_output_idle:
  "returns (carrying b p l) (onSession (\<lambda>t. SetOutputState t OutputStateIdle)) (\<lambda>_. carrying b p OutputStateIdle)"
  by (rule returns_weaken [OF returns_session [where c = "CSetOutput OutputStateIdle" and Q = "\<lambda>_ _. True" and bufAfter = b and laneAfter = OutputStateIdle]])
    (auto simp: SetOutputState_def Let_def refreshState_def)

lemma set_input: "returns (carrying b p l) (onSession (\<lambda>t. SetInputState t st)) (\<lambda>_. carrying b p l)"
  by (rule returns_weaken [OF returns_session [where c = "CSetInput st" and Q = "\<lambda>_ _. True" and bufAfter = b and laneAfter = l]])
    (auto simp: SetInputState_def Let_def refreshState_def)

lemma ingest_frame:
  "returns (carrying b p OutputStateIdle) (onSession (\<lambda>t. IngestOwnedAudioFrame t x))
     (\<lambda>snap r. carrying (b @ x) p OutputStateIdle r \<and> snapState snap = StateActive \<and> SessionID snap \<noteq> [])"
  by (rule returns_weaken [OF returns_session [where c = "CIngest x" and bufAfter = "b @ x" and laneAfter = OutputStateIdle
        and Q = "\<lambda>snap _. snapState snap = StateActive \<and> SessionID snap \<noteq> []"]])
    (auto simp: IngestOwnedAudioFrame_def Let_def refreshState_def cloneSnapshot_def deriveCompatState_def inv_id)

lemma commit_audio:
  "returns (carrying b p OutputStateIdle) (onSession CommitTurn)
     (\<lambda>turn r. carrying [] p OutputStateThinking r \<and> AudioPCM turn = b)"
  by (rule returns_weaken [OF returns_session [where c = CCommit and bufAfter = "[]" and laneAfter = OutputStateThinking and Q = "\<lambda>turn _. AudioPCM turn = b"]])
    (auto simp: CommitTurn_def Let_def refreshState_def buffer_abs_def)

section \<open>Flushing the staged audio\<close>

lemma stays_interrupt: "stays b p l (interruptOutputWithPolicy policy reason)"
  by (auto simp: returns_def interruptOutputWithPolicy_def split: option.splits)

lemma stays_clear_trace: "stays b p l clearPreviewTrace"
  by (auto simp: returns_def clearPreviewTrace_def split: prod.splits)

lemma stays_finalize: "stays b p l (finalizeVoicePreview pw)"
  by (auto simp: returns_def finalizeVoicePreview_def split: prod.splits)

lemma stays_leave: "stays b p l leavePreviewing"
  unfolding leavePreviewing_def
  by (intro returns_bind returns_get returns_if returns_ret returns_then)
    (auto intro: returns_weaken [OF returns_try [OF set_input]] returns_ret split: sum.splits)

lemma stays_consume: "stays b p l (consumeInputPreview pw)"
  unfolding consumeInputPreview_def
  by (intro returns_bind [OF stays_clear_trace] returns_bind [OF stays_finalize] returns_then [OF stays_leave] returns_ret)

lemma stays_on_active: "stays b p l (onActive t snap)"
  by (simp add: onActive_def writeSessionUpdate_def stays_event)

lemma interrupt_flow_idle:
  assumes "isoClearPreview opts = False" "isoClearPending opts = False" "isoDecision opts = None" "isoPolicy opts \<noteq> PolicyUnset"
  shows "returns (carrying b p OutputStateSpeaking) (interruptSpeakingFlowWithOptions profile opts None (Some onActive)) (\<lambda>_. carrying b p OutputStateIdle)"
proof -
  have "returns (carrying b p OutputStateSpeaking) snapshotOp (\<lambda>snap r. carrying b p OutputStateSpeaking r \<and> snapState snap = StateSpeaking \<and> SessionID snap \<noteq> [])"
    by (rule returns_get) (auto simp: carrying_def takeSnapshot_def cloneSnapshot_def deriveCompatState_def buffer_abs_def inv_id)
  note snap = this
  have rest: "returns (carrying b p OutputStateIdle) (gthen (onTurnTrace MarkInterrupted) (
      gbind (onTurnTrace MarkActive) (\<lambda>trace. gthen (gret ()) (gthen (gret ()) (gthen (applyReadDeadline profile active1) (onActive trace active1))))))
      (\<lambda>_. carrying b p OutputStateIdle)" for active1
    by (intro returns_then [OF stays_trace] returns_bind [OF stays_trace] returns_then [OF stays_deadline] stays_on_active
        returns_skip)
  have "returns (carrying b p OutputStateSpeaking) (gbind (gget crOutput) (\<lambda>_. gbind (interruptOutputWithPolicy pol why)
      (\<lambda>_. gthen (gret ()) (gbind (onSession (\<lambda>t. SetOutputState t OutputStateIdle)) (\<lambda>active1. f active1)))))
      (\<lambda>_. carrying b p OutputStateIdle)"
    if "\<And>a. returns (carrying b p OutputStateIdle) (f a) (\<lambda>_. carrying b p OutputStateIdle)" for pol why and f :: "Snapshot \<Rightarrow> unit gop"
    by (intro returns_read returns_bind [OF stays_interrupt] returns_skip
        returns_bind [OF set_output_idle] that)
  note head = this
  show ?thesis unfolding interruptSpeakingFlowWithOptions_def
    by (rule returns_bind [OF snap], rule returns_pure) (simp add: assms, rule head, rule rest)
qed

lemma ingest_chunks:
  "cs \<noteq> [] \<Longrightarrow> returns (carrying b p OutputStateIdle) (ingestChunks cs snap)
     (\<lambda>s r. carrying (b @ concat cs) p OutputStateIdle r \<and> snapState s = StateActive \<and> SessionID s \<noteq> [])"
proof (induction cs arbitrary: b snap)
  case (Cons c cs)
  show ?case
  proof (cases "cs = []")
    case True
    then show ?thesis by (simp add: returns_bind [OF ingest_frame] returns_ret)
  next
    case False
    have "returns (\<lambda>r. carrying (b @ c) p OutputStateIdle r \<and> snapState s = StateActive \<and> SessionID s \<noteq> []) (ingestChunks cs s)
        (\<lambda>s r. carrying (b @ concat (c # cs)) p OutputStateIdle r \<and> snapState s = StateActive \<and> SessionID s \<noteq> [])" for s
      using Cons.IH [OF False, of "b @ c" s] by (auto simp: returns_def)
    then show ?thesis by (simp, intro returns_bind [OF ingest_frame]) auto
  qed
qed simp

lemma flush_staged:
  "p \<noteq> [] \<Longrightarrow> returns (carrying b p OutputStateIdle) flushPendingBargeInAudio
     (\<lambda>s r. carrying (b @ concat p) [] OutputStateIdle r \<and> snapState s = StateActive \<and> SessionID s \<noteq> [])"
  unfolding returns_def
proof (intro allI impI)
  fix r assume p: "p \<noteq> []" and c: "carrying b p OutputStateIdle r"
  have "carrying b [] OutputStateIdle (r\<lparr>crPending := noPendingAudio\<rparr>)" and "pbChunks (crPending r) = p"
    using c by (simp_all add: carrying_def noPendingAudio_def)
  then show "\<exists>s r1. flushPendingBargeInAudio r = (Inr s, r1) \<and> carrying (b @ concat p) [] OutputStateIdle r1 \<and> snapState s = StateActive \<and> SessionID s \<noteq> []"
    using ingest_chunks [OF p, of b "[]" zeroSnapshot] unfolding flushPendingBargeInAudio_def returns_def by blast
qed

lemma interrupt_and_flush:
  "p \<noteq> [] \<Longrightarrow> returns (carrying b p OutputStateSpeaking)
     (gthen (interruptSpeakingFlowWithOptions profile (interruptOptions False reason) None (Some onActive)) flushPendingBargeInAudio)
     (\<lambda>s r. carrying (b @ concat p) [] OutputStateIdle r \<and> snapState s = StateActive \<and> SessionID s \<noteq> [])"
  by (rule returns_then [OF interrupt_flow_idle flush_staged]) (simp_all add: interruptOptions_def)

lemma carrying_speaking:
  assumes "conn_inv r" and "\<forall>n. envConnOk (crEnv r) n" and "snapState (takeSnapshot (crSession r)) = StateSpeaking"
  shows "carrying (concat (turnAudioChunks (crSession r))) (pbChunks (crPending r)) OutputStateSpeaking r"
  using assms
  by (auto simp: carrying_def conn_inv_def buffer_abs_def takeSnapshot_def cloneSnapshot_def deriveCompatState_def session_inv_def
      split: if_splits OutputState.splits)

text \<open>A commit while the answer is played and audio is staged.\<close>

lemma commit_while_speaking:
  assumes r: "carrying b p OutputStateSpeaking r" and p: "p \<noteq> []"
  obtains turn pt r1 where
    "handleCommit h pw i (Inr reason) r = answerTurn h turn (lit ''audio_commit'') (gatewayFirstNonEmpty [TrimSpace reason, lit ''audio_commit'']) [] pt r1"
    "AudioPCM turn = b @ concat p" "crPending r1 = noPendingAudio" "turnAudioChunks (crSession r1) = []" "session_inv (crSession r1)"
proof -
  let ?why = "gatewayFirstNonEmpty [TrimSpace reason, lit ''explicit_commit_during_speaking'']"
  obtain snap r2 where f: "gthen (interruptSpeakingFlowWithOptions (hProfile h) (interruptOptions False ?why) None (Some onActive)) flushPendingBargeInAudio r = (Inr snap, r2)"
    and c2: "carrying (b @ concat p) [] OutputStateIdle r2" and snap: "snapState snap = StateActive"
    using interrupt_and_flush [OF p] r by (rule returnsE) blast
  obtain x r3 where c: "consumeInputPreview pw r2 = (Inr x, r3)" and c3: "carrying (b @ concat p) [] OutputStateIdle r3"
    using stays_consume c2 by (rule returnsE)
  obtain turn r4 where m: "onSession CommitTurn r3 = (Inr turn, r4)" and c4: "carrying [] [] OutputStateThinking r4" and turn: "AudioPCM turn = b @ concat p"
    using commit_audio c3 by (rule returnsE) blast
  have s: "snapState (takeSnapshot (crSession r)) = StateSpeaking" "hasPendingBargeInAudio r"
    using r p by (auto simp: carrying_def takeSnapshot_def cloneSnapshot_def deriveCompatState_def buffer_abs_def inv_id hasPendingBargeInAudio_def)
  have "handleCommit h pw i (Inr reason) r = answerTurn h turn (lit ''audio_commit'') (gatewayFirstNonEmpty [TrimSpace reason, lit ''audio_commit'']) []
      (acceptedTranscription (snd x)) (r4\<lparr>crPending := noPendingAudio\<rparr>)"
    using s f c m snap
    by (simp add: handleCommit_def gbind_def gget_def gthen_def gtry_def resetPendingBargeInAudio_def gmod_def case_prod_beta)
  moreover have "turnAudioChunks (crSession r4) = []" using c4
    by (cases "turnAudioChunks (crSession r4)") (auto simp: carrying_def buffer_abs_def session_inv_def)
  moreover have "session_inv (crSession r4)" using c4 by (simp add: carrying_def)
  ultimately show thesis using turn by (intro that [of turn _ "r4\<lparr>crPending := noPendingAudio\<rparr>"]) simp_all
qed

text \<open>The end of the playback with audio staged.\<close>

lemma resolve_flushes:
  assumes r: "carrying b p OutputStateSpeaking r" and p: "p \<noteq> []"
  obtains snap r1 where "resolvePostPlaybackActiveSnapshot r = (Inr (snap, True), r1)" "carrying (b @ concat p) [] OutputStateIdle r1"
proof -
  obtain a r2 where so: "onSession (\<lambda>t. SetOutputState t OutputStateIdle) r = (Inr a, r2)" and c2: "carrying b p OutputStateIdle r2"
    using set_output_idle r by (rule returnsE)
  obtain fl r3 where f: "flushPendingBargeInAudio r2 = (Inr fl, r3)" and c3: "carrying (b @ concat p) [] OutputStateIdle r3"
    using flush_staged [OF p] c2 by (rule returnsE) blast
  obtain pr r4 where i: "onSession (\<lambda>t. SetInputState t InputStatePreviewing) r3 = (Inr pr, r4)" and c4: "carrying (b @ concat p) [] OutputStateIdle r4"
    using set_input c3 by (rule returnsE)
  have s: "SessionID (takeSnapshot (crSession r)) \<noteq> []" "hasPendingBargeInAudio r"
    using r p by (auto simp: carrying_def takeSnapshot_def cloneSnapshot_def buffer_abs_def inv_id hasPendingBargeInAudio_def)
  show ?thesis
  proof (cases "snapInputState (takeSnapshot (crSession r)) = InputStatePreviewing")
    case True
    then have "resolvePostPlaybackActiveSnapshot r = (Inr (pr, True), r4)"
      using s so f i by (simp add: resolvePostPlaybackActiveSnapshot_def gbind_def gget_def gret_def Let_def)
    then show ?thesis using c4 by (rule that)
  next
    case False
    then have "\<exists>cur. resolvePostPlaybackActiveSnapshot r = (Inr (cur, True), r3)"
      using s so f by (simp add: resolvePostPlaybackActiveSnapshot_def gbind_def gget_def gret_def Let_def)
    then show ?thesis using c3 that by blast
  qed
qed

section \<open>Properties\<close>

text \<open>A connection that plays an answer in its first session and has two frames staged.\<close>

definition example_speaking :: connectionRuntime where
  "example_speaking = (newConnectionRuntime \<lparr>envClock = int, envConnOk = (\<lambda>_. True)\<rparr> None)\<lparr>
     crSession := session_step (2, CSetOutput OutputStateSpeaking) (session_step (1, CStart example_start) NewRealtimeSession),
     crPending := \<lparr>pbChunks = [[1, 2], [3]], pbAudioBytes = 3\<rparr>\<rparr>"

lemma example_speaking_ok:
  "conn_inv example_speaking" "\<forall>n. envConnOk (crEnv example_speaking) n" "snapState (takeSnapshot (crSession example_speaking)) = StateSpeaking"
  "pbChunks (crPending example_speaking) = [[1, 2], [3]]" "turnAudioChunks (crSession example_speaking) = []"
proof -
  show "conn_inv example_speaking"
    using conn_inv_new [of "\<lparr>envClock = int, envConnOk = (\<lambda>_. True)\<rparr>" None] session_step_inv [OF session_step_inv [OF inv_new]]
    unfolding conn_inv_def example_speaking_def by (simp add: pending_ok_def del: session_step.simps)
qed (simp_all add: example_speaking_def newConnectionRuntime_def example_simps takeSnapshot_def)

text \<open>
  C4: audio spoken over an answer is not lost. On a working connection that is playing an answer with audio
  staged, an explicit commit interrupts the answer and answers a turn whose audio is what the session had buffered
  followed by the staged frames in order; and when the playback ends by itself, that audio is in the buffer of the
  next turn. Nothing stays staged.
\<close>
theorem staged_audio_reaches_turn:
  assumes "conn_inv r" and "\<forall>n. envConnOk (crEnv r) n" and "snapState (takeSnapshot (crSession r)) = StateSpeaking"
    and "pbChunks (crPending r) \<noteq> []"
  shows "(\<exists>turn pt r1. handleCommit h pw i (Inr reason) r =
            answerTurn h turn (lit ''audio_commit'') (gatewayFirstNonEmpty [TrimSpace reason, lit ''audio_commit'']) [] pt r1 \<and>
          AudioPCM turn = concat (turnAudioChunks (crSession r)) @ concat (pbChunks (crPending r)) \<and>
          crPending r1 = noPendingAudio \<and> turnAudioChunks (crSession r1) = []) \<and>
    (\<exists>snap r1. resolvePostPlaybackActiveSnapshot r = (Inr (snap, True), r1) \<and>
          concat (turnAudioChunks (crSession r1)) = concat (turnAudioChunks (crSession r)) @ concat (pbChunks (crPending r)) \<and>
          pbChunks (crPending r1) = [] \<and> active (crSession r1))"
proof -
  note c = carrying_speaking [OF assms(1-3)]
  obtain turn pt r1 where "handleCommit h pw i (Inr reason) r =
      answerTurn h turn (lit ''audio_commit'') (gatewayFirstNonEmpty [TrimSpace reason, lit ''audio_commit'']) [] pt r1"
    "AudioPCM turn = concat (turnAudioChunks (crSession r)) @ concat (pbChunks (crPending r))" "crPending r1 = noPendingAudio" "turnAudioChunks (crSession r1) = []"
    using commit_while_speaking [OF c assms(4)] by metis
  moreover obtain snap r2 where "resolvePostPlaybackActiveSnapshot r = (Inr (snap, True), r2)"
    "carrying (concat (turnAudioChunks (crSession r)) @ concat (pbChunks (crPending r))) [] OutputStateIdle r2"
    using resolve_flushes [OF c assms(4)] .
  ultimately show ?thesis by (auto simp: carrying_def buffer_abs_def)
qed

theorem staged_audio_reaches_turn_witness:
  "\<forall>h pw i reason. (\<exists>turn pt r1. handleCommit h pw i (Inr reason) example_speaking =
       answerTurn h turn (lit ''audio_commit'') (gatewayFirstNonEmpty [TrimSpace reason, lit ''audio_commit'']) [] pt r1 \<and>
     AudioPCM turn = [1, 2, 3] \<and> crPending r1 = noPendingAudio) \<and>
   (\<exists>snap r1. resolvePostPlaybackActiveSnapshot example_speaking = (Inr (snap, True), r1) \<and> concat (turnAudioChunks (crSession r1)) = [1, 2, 3])"
  (is "\<forall>h pw i reason. ?P h pw i reason")
proof (intro allI)
  fix h pw i reason
  show "?P h pw i reason"
    using staged_audio_reaches_turn [OF example_speaking_ok(1-3), of h pw i reason]
    unfolding example_speaking_ok(4,5) by (simp only: concat.simps append.simps list.distinct not_False_eq_True) blast
qed

text \<open>
  audio staged in one session is still staged when the session has ended and another one has started on the
  same connection: neither clears it, whatever the messages and the connection do, so it becomes part of a turn of
  the new session once an answer is played in it.
\<close>
theorem staged_audio_outlives_session:
  "crPending (snd (handleSessionStart profile i start (snd (endSession profile reason message r)))) = crPending r"
  using staged.keeps_end_session [of "crPending r"] staged.keeps_session_start [of "crPending r"] by (simp add: keeps_def)

text \<open>
  the read deadline and the reason found when it passes agree. A session is ended for its age or for being
  idle exactly at the instants at or after the deadline that was set for the same snapshot, and for its age when
  both have passed.
\<close>
theorem deadline_agrees:
  "(deadlineCloseReason snap profile now \<noteq> None) = (case readDeadlineForSnapshot snap profile of None \<Rightarrow> False | Some d \<Rightarrow> d \<le> now) \<and>
   (deadlineCloseReason snap profile now = Some CloseReasonMaxDuration) =
     (SessionID snap \<noteq> [] \<and> prMaxSessionMs profile > 0 \<and>
      (case StartedAt snap of None \<Rightarrow> False | Some t \<Rightarrow> t + prMaxSessionMs profile * Millisecond \<le> now))"
proof -
  have "CloseReasonMaxDuration \<noteq> CloseReasonIdle" by (simp add: CloseReasonMaxDuration_def CloseReasonIdle_def)
  then show ?thesis
    by (cases "StartedAt snap"; cases "LastActivityAt snap"; cases "snapState snap = StateActive \<and> prIdleTimeoutMs profile > 0")
      (auto simp: deadlineCloseReason_def readDeadlineForSnapshot_def timeAdd_def Let_def)
qed

text \<open>Once a frame is staged, the preview of an interruption has audio and speech.\<close>

lemma pending_preview:
  assumes "pbAudioBytes (crPending r) > 0"
  shows "pvSpeechStarted (pendingBargeInPreview r base)" "pvAudioBytes (pendingBargeInPreview r base) > 0"
  using assms by (auto simp: pendingBargeInPreview_def Let_def)

lemma observed_speech_latched:
  assumes "pvSpeechStarted p" "pvAudioBytes p > 0"
  shows "\<not> iuSpeechStartedObserved (snd (fst (ObservePreview sid2 p2 now2 (snd (ObservePreview sid p now s)))))"
proof (rule ObservePreview_latched(3))
  show "itSpeechStartedAt (isCurrent (snd (ObservePreview sid p now s))) \<noteq> None"
    using assms by (auto simp: ObservePreview_def Let_def latch_def)
  show "itPreviewID (isCurrent (snd (ObservePreview sid p now s))) \<noteq> []"
    using assms by (auto simp: ObservePreview_def Let_def freshPreviewTrace_def fillSessionID_def)
qed

lemma push_keeps_staged: "crPending (snd (gthen (ensureInputPreview pw) (pushInputPreviewAudio pw payload) r)) = crPending r"
  using keepsD [OF keeps_then [OF staged.keeps_ensure staged.keeps_push], of r "crPending r" pw pw payload] by simp

text \<open>
  with audio staged, a frame for which the recogniser does not itself report the start of speech makes the
  gateway treat speech as started and note its start, but the observation does not report it, and neither does any
  later one for the same input.
\<close>
theorem barge_in_speech_start_unreported:
  assumes "pbAudioBytes (crPending r) > 0"
    and "\<forall>obs. fst (gthen (ensureInputPreview pw) (pushInputPreviewAudio pw payload) r) = Inr obs \<longrightarrow>
      obs = [] \<or> \<not> iuSpeechStartedObserved (goUpdate (last obs))"
  shows "\<exists>ob r1. previewForBargeIn pw snap payload r = (Inr ob, r1) \<and> pvSpeechStarted (goPreview ob) \<and>
    \<not> iuSpeechStartedObserved (goUpdate ob) \<and>
    (\<forall>sid p now. \<not> iuSpeechStartedObserved (snd (fst (ObservePreview sid p now (crPreviewTrace r1)))))"
proof -
  obtain x r2 where x: "gthen (ensureInputPreview pw) (pushInputPreviewAudio pw payload) r = (x, r2)" by (cases rule: prod.exhaust)
  define ob where "ob = (case x of Inl _ \<Rightarrow> noObservation | Inr gs \<Rightarrow> if gs = [] then noObservation else last gs)"
  have "crPending r2 = crPending r" using push_keeps_staged [of pw payload r] x by simp
  then have b: "pbAudioBytes (crPending (r2\<lparr>crTick := n\<rparr>)) > 0" for n using assms(1) by simp
  have quiet: "\<not> iuSpeechStartedObserved (goUpdate ob)"
    using assms(2) x by (cases x) (auto simp: ob_def noObservation_def noUpdate_def)
  show ?thesis
    using quiet pending_preview [OF b] observed_speech_latched [OF pending_preview [OF b]]
    by (simp add: previewForBargeIn_def gbind_def gtry_def gnow_def x Let_def case_prod_beta ob_def [symmetric])
qed

definition example_answers :: previewAnswers where
  "example_answers = \<lparr>pwStarted = Some (Inl (lit ''unavailable'')), pwProgressive = False, pwIntermediates = [], pwResult = Inr zeroPreview,
     pwPolled = zeroPreview, pwFinished = None, pwCloseErr = None\<rparr>"

theorem barge_in_speech_start_unreported_witness:
  "\<exists>ob r1. previewForBargeIn example_answers (takeSnapshot (crSession example_speaking)) [3] example_speaking = (Inr ob, r1) \<and>
    pvSpeechStarted (goPreview ob) \<and> \<not> iuSpeechStartedObserved (goUpdate ob)"
proof -
  have "pbAudioBytes (crPending example_speaking) > 0" by (simp add: example_speaking_def)
  moreover have "fst (gthen (ensureInputPreview example_answers) (pushInputPreviewAudio example_answers [3]) example_speaking) = Inl (ErrResponder (lit ''unavailable''))"
    by (simp add: gthen_def gbind_def ensureInputPreview_def EnsureInputPreview_def example_answers_def example_speaking_def
        newConnectionRuntime_def NewSessionOrchestrator_def)
  ultimately show ?thesis
    using barge_in_speech_start_unreported [of example_speaking example_answers "[3]" "takeSnapshot (crSession example_speaking)"] by auto
qed

end
