(* ===== verification/App_Config.thy ===== *)
theory App_Config
  imports Llm_Executor Entity_Catalog
begin

text \<open>
  The configuration of the process, \<open>internal/app/config.go\<close> and the files of its sections: reading it from the environment, the
  defaults and the validation. The environment is a map; \<open>parse\<close> is \<open>strconv.ParseFloat\<close>, with its answer as a
  \<open>float64\<close>. The order of the fields is that of the structs.
\<close>

section \<open>Sections\<close>

record RealtimeConfig =
  rtcWSPath :: gostring
  rtcProtocolVersion :: gostring
  rtcSubprotocol :: gostring
  rtcAuthMode :: gostring
  rtcTurnMode :: gostring
  rtcIdleTimeoutMs :: int
  rtcMaxSessionMs :: int
  rtcMaxFrameBytes :: int
  rtcInputCodec :: gostring
  rtcInputSampleRate :: int
  rtcInputChannels :: int
  rtcOutputCodec :: gostring
  rtcOutputSampleRate :: int
  rtcOutputChannels :: int
  rtcAllowOpus :: bool
  rtcAllowTextInput :: bool
  rtcAllowImageInput :: bool

record XiaozhiCompatConfig =
  xzcEnabled :: bool
  xzcWSPath :: gostring
  xzcOTAPath :: gostring
  xzcWelcomeVersion :: int
  xzcWelcomeTransport :: gostring
  xzcInputCodec :: gostring
  xzcInputSampleRate :: int
  xzcInputChannels :: int
  xzcInputFrameDurationMs :: int
  xzcMaxFrameBytes :: int
  xzcIdleTimeoutMs :: int
  xzcMaxSessionMs :: int
  xzcOutputCodec :: gostring
  xzcOutputSampleRate :: int
  xzcOutputChannels :: int
  xzcOutputFrameDurationMs :: int

record DeepSeekChatConfig =
  dkcBaseURL :: gostring
  dkcAPIKey :: gostring
  dkcModel :: gostring
  dkcTemperature :: float64
  dkcMaxTokens :: int

record AgentConfig =
  agcMemoryProvider :: gostring
  agcMemoryMaxTurns :: int
  agcToolProvider :: gostring
  agcSkills :: gostring
  agcLLMProvider :: gostring
  agcLLMTimeoutMs :: int
  agcPersona :: gostring
  agcExecutionMode :: gostring
  agcAssistantName :: gostring
  agcLLMSystemPrompt :: gostring
  agcDeepSeek :: DeepSeekChatConfig

record IflytekRTASRProviderConfig =
  ircAppID :: gostring
  ircAccessKeyID :: gostring
  ircAccessKeySecret :: gostring
  ircScheme :: gostring
  ircHost :: gostring
  ircPort :: int
  ircPath :: gostring
  ircAudioEncode :: gostring
  ircLanguage :: gostring
  ircSampleRateHz :: int
  ircFrameBytes :: int
  ircFrameIntervalMs :: int

record VoiceLLMProviderConfig =
  vlcProvider :: gostring
  vlcBaseURL :: gostring
  vlcAPIKey :: gostring
  vlcModel :: gostring
  vlcTemperature :: float64
  vlcMaxTokens :: int

record VoiceConfig =
  vcfProvider :: gostring
  vcfASRURL :: gostring
  vcfASRTimeoutMs :: int
  vcfASRLanguage :: gostring
  vcfServerEndpointEnabled :: bool
  vcfServerEndpointMinAudioMs :: int
  vcfServerEndpointSilenceMs :: int
  vcfServerEndpointLexicalMode :: gostring
  vcfServerEndpointIncompleteHoldMs :: int
  vcfServerEndpointHintSilenceMs :: int
  vcfBargeInMinAudioMs :: int
  vcfBargeInHoldAudioMs :: int
  vcfLLMSemanticJudgeEnabled :: bool
  vcfLLMSemanticJudgeLLM :: VoiceLLMProviderConfig
  vcfLLMSemanticJudgeRolloutMode :: gostring
  vcfLLMSemanticJudgeRolloutPercent :: int
  vcfLLMSemanticJudgeTimeoutMs :: int
  vcfLLMSemanticJudgeMinRunes :: int
  vcfLLMSemanticJudgeMinStableForMs :: int
  vcfLLMSlotParserEnabled :: bool
  vcfLLMSlotParserLLM :: VoiceLLMProviderConfig
  vcfLLMSlotParserTimeoutMs :: int
  vcfLLMSlotParserMinRunes :: int
  vcfLLMSlotParserMinStableForMs :: int
  vcfEntityCatalogProfile :: gostring
  vcfSpeechPlannerEnabled :: bool
  vcfSpeechPlannerMinChunkRunes :: int
  vcfSpeechPlannerTargetChunkRunes :: int
  vcfEmitPlaceholderAudio :: bool
  vcfIflytekRTASR :: IflytekRTASRProviderConfig

record CosyVoiceTTSProviderConfig =
  cvcBaseURL :: gostring
  cvcMode :: gostring
  cvcSpeakerID :: gostring
  cvcInstructText :: gostring
  cvcSourceSampleRateHz :: int

record IflytekTTSProviderConfig =
  itcAppID :: gostring
  itcAPIKey :: gostring
  itcAPISecret :: gostring
  itcScheme :: gostring
  itcHost :: gostring
  itcPort :: int
  itcPath :: gostring
  itcVoice :: gostring
  itcAUE :: gostring
  itcAUF :: gostring
  itcTextEncoding :: gostring
  itcSpeed :: int
  itcVolume :: int
  itcPitch :: int

record VolcengineTTSProviderConfig =
  vtcBaseURL :: gostring
  vtcAccessToken :: gostring
  vtcAppID :: gostring
  vtcResourceID :: gostring
  vtcVoiceType :: gostring
  vtcSpeechRate :: int
  vtcLoudnessRate :: int
  vtcEmotion :: gostring
  vtcEmotionScale :: int
  vtcModel :: gostring

record TTSConfig =
  ttcProvider :: gostring
  ttcMimoBaseURL :: gostring
  ttcMimoAPIKey :: gostring
  ttcMimoModel :: gostring
  ttcMimoVoice :: gostring
  ttcMimoStyle :: gostring
  ttcTimeoutMs :: int
  ttcCosyVoice :: CosyVoiceTTSProviderConfig
  ttcIflytek :: IflytekTTSProviderConfig
  ttcVolcengine :: VolcengineTTSProviderConfig

record Config =
  cfListenAddr :: gostring
  cfServiceName :: gostring
  cfEnvironment :: gostring
  cfVersion :: gostring
  cfRealtime :: RealtimeConfig
  cfXiaozhi :: XiaozhiCompatConfig
  cfAgent :: AgentConfig
  cfVoice :: VoiceConfig
  cfTTS :: TTSConfig

section \<open>The environment\<close>

type_synonym environment = "gostring \<rightharpoonup> gostring"

definition getenv :: "environment \<Rightarrow> gostring \<Rightarrow> gostring \<Rightarrow> gostring" where
  "getenv env key fallback = (case env key of Some v \<Rightarrow> if v \<noteq> [] then v else fallback | None \<Rightarrow> fallback)"

definition getenvInt :: "environment \<Rightarrow> gostring \<Rightarrow> int \<Rightarrow> int" where
  "getenvInt env key fallback =
     (case env key of
        None \<Rightarrow> fallback
      | Some v \<Rightarrow> if v = [] then fallback else (case Atoi v of None \<Rightarrow> fallback | Some parsed \<Rightarrow> parsed))"

definition getenvBool :: "environment \<Rightarrow> gostring \<Rightarrow> bool \<Rightarrow> bool" where
  "getenvBool env key fallback =
     (case env key of
        None \<Rightarrow> fallback
      | Some v \<Rightarrow>
          if v = [] then fallback
          else if ToLower v \<in> set [lit ''1'', lit ''true'', lit ''yes'', lit ''on''] then True
          else if ToLower v \<in> set [lit ''0'', lit ''false'', lit ''no'', lit ''off''] then False
          else fallback)"

definition getenvFloat64 :: "(gostring \<Rightarrow> float64 option) \<Rightarrow> environment \<Rightarrow> gostring \<Rightarrow> float64 \<Rightarrow> float64" where
  "getenvFloat64 parse env key fallback =
     (case env key of
        None \<Rightarrow> fallback
      | Some v \<Rightarrow> if v = [] then fallback else (case parse v of None \<Rightarrow> fallback | Some parsed \<Rightarrow> parsed))"

section \<open>Loading\<close>

definition loadRealtimeConfig :: "environment \<Rightarrow> RealtimeConfig" where
  "loadRealtimeConfig env =
     \<lparr>rtcWSPath = getenv env (lit ''AGENT_SERVER_REALTIME_WS_PATH'') (lit ''/v1/realtime/ws''),
      rtcProtocolVersion = getenv env (lit ''AGENT_SERVER_REALTIME_PROTOCOL_VERSION'') (lit ''rtos-ws-v0''),
      rtcSubprotocol = getenv env (lit ''AGENT_SERVER_REALTIME_SUBPROTOCOL'') (lit ''agent-server.realtime.v0''),
      rtcAuthMode = getenv env (lit ''AGENT_SERVER_REALTIME_AUTH_MODE'') (lit ''disabled''),
      rtcTurnMode = getenv env (lit ''AGENT_SERVER_REALTIME_TURN_MODE'') (lit ''client_wakeup_client_commit''),
      rtcIdleTimeoutMs = getenvInt env (lit ''AGENT_SERVER_REALTIME_IDLE_TIMEOUT_MS'') 15000,
      rtcMaxSessionMs = getenvInt env (lit ''AGENT_SERVER_REALTIME_MAX_SESSION_MS'') 300000,
      rtcMaxFrameBytes = getenvInt env (lit ''AGENT_SERVER_REALTIME_MAX_FRAME_BYTES'') 16384,
      rtcInputCodec = getenv env (lit ''AGENT_SERVER_REALTIME_INPUT_CODEC'') (lit ''pcm16le''),
      rtcInputSampleRate = getenvInt env (lit ''AGENT_SERVER_REALTIME_INPUT_SAMPLE_RATE'') 16000,
      rtcInputChannels = getenvInt env (lit ''AGENT_SERVER_REALTIME_INPUT_CHANNELS'') 1,
      rtcOutputCodec = getenv env (lit ''AGENT_SERVER_REALTIME_OUTPUT_CODEC'') (lit ''pcm16le''),
      rtcOutputSampleRate = getenvInt env (lit ''AGENT_SERVER_REALTIME_OUTPUT_SAMPLE_RATE'') 16000,
      rtcOutputChannels = getenvInt env (lit ''AGENT_SERVER_REALTIME_OUTPUT_CHANNELS'') 1,
      rtcAllowOpus = getenvBool env (lit ''AGENT_SERVER_REALTIME_ALLOW_OPUS'') True,
      rtcAllowTextInput = getenvBool env (lit ''AGENT_SERVER_REALTIME_ALLOW_TEXT_INPUT'') True,
      rtcAllowImageInput = getenvBool env (lit ''AGENT_SERVER_REALTIME_ALLOW_IMAGE_INPUT'') False\<rparr>"

definition loadXiaozhiConfig :: "environment \<Rightarrow> XiaozhiCompatConfig" where
  "loadXiaozhiConfig env =
     \<lparr>xzcEnabled = getenvBool env (lit ''AGENT_SERVER_XIAOZHI_ENABLED'') False,
      xzcWSPath = getenv env (lit ''AGENT_SERVER_XIAOZHI_WS_PATH'') (lit ''/xiaozhi/v1/''),
      xzcOTAPath = getenv env (lit ''AGENT_SERVER_XIAOZHI_OTA_PATH'') (lit ''/xiaozhi/ota/''),
      xzcWelcomeVersion = getenvInt env (lit ''AGENT_SERVER_XIAOZHI_WELCOME_VERSION'') 1,
      xzcWelcomeTransport = getenv env (lit ''AGENT_SERVER_XIAOZHI_WELCOME_TRANSPORT'') (lit ''websocket''),
      xzcInputCodec = getenv env (lit ''AGENT_SERVER_XIAOZHI_INPUT_CODEC'') (lit ''opus''),
      xzcInputSampleRate = getenvInt env (lit ''AGENT_SERVER_XIAOZHI_INPUT_SAMPLE_RATE'') 16000,
      xzcInputChannels = getenvInt env (lit ''AGENT_SERVER_XIAOZHI_INPUT_CHANNELS'') 1,
      xzcInputFrameDurationMs = getenvInt env (lit ''AGENT_SERVER_XIAOZHI_INPUT_FRAME_DURATION_MS'') 60,
      xzcMaxFrameBytes = getenvInt env (lit ''AGENT_SERVER_XIAOZHI_MAX_FRAME_BYTES'') 0,
      xzcIdleTimeoutMs = getenvInt env (lit ''AGENT_SERVER_XIAOZHI_IDLE_TIMEOUT_MS'') 0,
      xzcMaxSessionMs = getenvInt env (lit ''AGENT_SERVER_XIAOZHI_MAX_SESSION_MS'') 0,
      xzcOutputCodec = getenv env (lit ''AGENT_SERVER_XIAOZHI_OUTPUT_CODEC'') (lit ''opus''),
      xzcOutputSampleRate = getenvInt env (lit ''AGENT_SERVER_XIAOZHI_OUTPUT_SAMPLE_RATE'') 24000,
      xzcOutputChannels = getenvInt env (lit ''AGENT_SERVER_XIAOZHI_OUTPUT_CHANNELS'') 1,
      xzcOutputFrameDurationMs = getenvInt env (lit ''AGENT_SERVER_XIAOZHI_OUTPUT_FRAME_DURATION_MS'') 60\<rparr>"

definition loadAgentConfig :: "(gostring \<Rightarrow> float64 option) \<Rightarrow> environment \<Rightarrow> AgentConfig" where
  "loadAgentConfig parse env =
     \<lparr>agcMemoryProvider = getenv env (lit ''AGENT_SERVER_AGENT_MEMORY_PROVIDER'') (lit ''in_memory''),
      agcMemoryMaxTurns = getenvInt env (lit ''AGENT_SERVER_AGENT_MEMORY_MAX_TURNS'') 8,
      agcToolProvider = getenv env (lit ''AGENT_SERVER_AGENT_TOOL_PROVIDER'') (lit ''builtin''),
      agcSkills = getenv env (lit ''AGENT_SERVER_AGENT_SKILLS'') [],
      agcLLMProvider = getenv env (lit ''AGENT_SERVER_AGENT_LLM_PROVIDER'') (lit ''auto''),
      agcLLMTimeoutMs = getenvInt env (lit ''AGENT_SERVER_AGENT_LLM_TIMEOUT_MS'') 30000,
      agcPersona = getenv env (lit ''AGENT_SERVER_AGENT_PERSONA'') (lit ''general_assistant''),
      agcExecutionMode = getenv env (lit ''AGENT_SERVER_AGENT_EXECUTION_MODE'') (lit ''dry_run''),
      agcAssistantName = getenv env (lit ''AGENT_SERVER_AGENT_ASSISTANT_NAME'') (resolvedAssistantName []),
      agcLLMSystemPrompt = getenv env (lit ''AGENT_SERVER_AGENT_LLM_SYSTEM_PROMPT'') [],
      agcDeepSeek = \<lparr>dkcBaseURL = getenv env (lit ''AGENT_SERVER_AGENT_DEEPSEEK_BASE_URL'') (lit ''https://api.deepseek.com''),
        dkcAPIKey = getenv env (lit ''AGENT_SERVER_AGENT_DEEPSEEK_API_KEY'') (getenv env (lit ''DEEPSEEK_API_KEY'') []),
        dkcModel = getenv env (lit ''AGENT_SERVER_AGENT_DEEPSEEK_MODEL'') (lit ''deepseek-chat''),
        dkcTemperature = getenvFloat64 parse env (lit ''AGENT_SERVER_AGENT_DEEPSEEK_TEMPERATURE'') (fl (1 / 5)),
        dkcMaxTokens = getenvInt env (lit ''AGENT_SERVER_AGENT_DEEPSEEK_MAX_TOKENS'') 0\<rparr>\<rparr>"

text \<open>The provider of the semantic judge, chosen when none is configured.\<close>

definition semanticJudgeProviderOf :: "environment \<Rightarrow> gostring \<Rightarrow> gostring \<Rightarrow> gostring" where
  "semanticJudgeProviderOf env configured apiKey =
     (if TrimSpace configured \<noteq> [] then configured
      else if ToLower (TrimSpace (getenv env (lit ''AGENT_SERVER_AGENT_LLM_PROVIDER'') (lit ''auto'')))
              \<in> set [[], lit ''auto'', lit ''deepseek'', lit ''deepseek_chat'']
        \<and> (TrimSpace apiKey \<noteq> [] \<or> TrimSpace (getenv env (lit ''AGENT_SERVER_VOICE_SEMANTIC_JUDGE_BASE_URL'') []) \<noteq> [])
      then lit ''deepseek_chat'' else configured)"

definition loadVoiceConfig :: "(gostring \<Rightarrow> float64 option) \<Rightarrow> environment \<Rightarrow> VoiceConfig" where
  "loadVoiceConfig parse env =
     (let semanticJudgeBaseURL = getenv env (lit ''AGENT_SERVER_VOICE_SEMANTIC_JUDGE_BASE_URL'') (getenv env (lit ''AGENT_SERVER_AGENT_DEEPSEEK_BASE_URL'') (lit ''https://api.deepseek.com''));
          semanticJudgeAPIKey = getenv env (lit ''AGENT_SERVER_VOICE_SEMANTIC_JUDGE_API_KEY'') (getenv env (lit ''AGENT_SERVER_AGENT_DEEPSEEK_API_KEY'') (getenv env (lit ''DEEPSEEK_API_KEY'') []));
          semanticJudgeModel = getenv env (lit ''AGENT_SERVER_VOICE_SEMANTIC_JUDGE_MODEL'') (getenv env (lit ''AGENT_SERVER_AGENT_DEEPSEEK_MODEL'') (lit ''deepseek-chat''));
          semanticJudgeProvider = semanticJudgeProviderOf env (getenv env (lit ''AGENT_SERVER_VOICE_SEMANTIC_JUDGE_PROVIDER'') []) semanticJudgeAPIKey;
          slotParserProvider = getenv env (lit ''AGENT_SERVER_VOICE_LLM_SLOT_PARSER_PROVIDER'') semanticJudgeProvider;
          slotParserBaseURL = getenv env (lit ''AGENT_SERVER_VOICE_LLM_SLOT_PARSER_BASE_URL'') semanticJudgeBaseURL;
          slotParserAPIKey = getenv env (lit ''AGENT_SERVER_VOICE_LLM_SLOT_PARSER_API_KEY'') semanticJudgeAPIKey;
          slotParserModel = getenv env (lit ''AGENT_SERVER_VOICE_LLM_SLOT_PARSER_MODEL'') semanticJudgeModel
      in \<lparr>vcfProvider = getenv env (lit ''AGENT_SERVER_VOICE_PROVIDER'') (lit ''bootstrap''),
      vcfASRURL = getenv env (lit ''AGENT_SERVER_VOICE_ASR_URL'') (lit ''http://127.0.0.1:8091/v1/asr/transcribe''),
      vcfASRTimeoutMs = getenvInt env (lit ''AGENT_SERVER_VOICE_ASR_TIMEOUT_MS'') 30000,
      vcfASRLanguage = getenv env (lit ''AGENT_SERVER_VOICE_ASR_LANGUAGE'') (lit ''auto''),
      vcfServerEndpointEnabled = getenvBool env (lit ''AGENT_SERVER_VOICE_SERVER_ENDPOINT_ENABLED'') False,
      vcfServerEndpointMinAudioMs = getenvInt env (lit ''AGENT_SERVER_VOICE_SERVER_ENDPOINT_MIN_AUDIO_MS'') 320,
      vcfServerEndpointSilenceMs = getenvInt env (lit ''AGENT_SERVER_VOICE_SERVER_ENDPOINT_SILENCE_MS'') 480,
      vcfServerEndpointLexicalMode = getenv env (lit ''AGENT_SERVER_VOICE_SERVER_ENDPOINT_LEXICAL_MODE'') (lit ''conservative''),
      vcfServerEndpointIncompleteHoldMs = getenvInt env (lit ''AGENT_SERVER_VOICE_SERVER_ENDPOINT_INCOMPLETE_HOLD_MS'') 720,
      vcfServerEndpointHintSilenceMs = getenvInt env (lit ''AGENT_SERVER_VOICE_SERVER_ENDPOINT_HINT_SILENCE_MS'') 160,
      vcfBargeInMinAudioMs = getenvInt env (lit ''AGENT_SERVER_VOICE_BARGE_IN_MIN_AUDIO_MS'') 120,
      vcfBargeInHoldAudioMs = getenvInt env (lit ''AGENT_SERVER_VOICE_BARGE_IN_HOLD_AUDIO_MS'') 240,
      vcfLLMSemanticJudgeEnabled = getenvBool env (lit ''AGENT_SERVER_VOICE_LLM_SEMANTIC_JUDGE_ENABLED'') True,
      vcfLLMSemanticJudgeLLM = \<lparr>vlcProvider = semanticJudgeProvider,
        vlcBaseURL = semanticJudgeBaseURL,
        vlcAPIKey = semanticJudgeAPIKey,
        vlcModel = semanticJudgeModel,
        vlcTemperature = getenvFloat64 parse env (lit ''AGENT_SERVER_VOICE_SEMANTIC_JUDGE_TEMPERATURE'') (fl (1 / 10)),
        vlcMaxTokens = getenvInt env (lit ''AGENT_SERVER_VOICE_SEMANTIC_JUDGE_MAX_TOKENS'') 128\<rparr>,
      vcfLLMSemanticJudgeRolloutMode = getenv env (lit ''AGENT_SERVER_VOICE_LLM_SEMANTIC_JUDGE_ROLLOUT_MODE'') SemanticJudgeRolloutModeControl,
      vcfLLMSemanticJudgeRolloutPercent = getenvInt env (lit ''AGENT_SERVER_VOICE_LLM_SEMANTIC_JUDGE_ROLLOUT_PERCENT'') 0,
      vcfLLMSemanticJudgeTimeoutMs = getenvInt env (lit ''AGENT_SERVER_VOICE_LLM_SEMANTIC_JUDGE_TIMEOUT_MS'') 220,
      vcfLLMSemanticJudgeMinRunes = getenvInt env (lit ''AGENT_SERVER_VOICE_LLM_SEMANTIC_JUDGE_MIN_RUNES'') 2,
      vcfLLMSemanticJudgeMinStableForMs = getenvInt env (lit ''AGENT_SERVER_VOICE_LLM_SEMANTIC_JUDGE_MIN_STABLE_FOR_MS'') 120,
      vcfLLMSlotParserEnabled = getenvBool env (lit ''AGENT_SERVER_VOICE_LLM_SLOT_PARSER_ENABLED'') True,
      vcfLLMSlotParserLLM = \<lparr>vlcProvider = slotParserProvider,
        vlcBaseURL = slotParserBaseURL,
        vlcAPIKey = slotParserAPIKey,
        vlcModel = slotParserModel,
        vlcTemperature = getenvFloat64 parse env (lit ''AGENT_SERVER_VOICE_LLM_SLOT_PARSER_TEMPERATURE'') (fl (1 / 10)),
        vlcMaxTokens = getenvInt env (lit ''AGENT_SERVER_VOICE_LLM_SLOT_PARSER_MAX_TOKENS'') 256\<rparr>,
      vcfLLMSlotParserTimeoutMs = getenvInt env (lit ''AGENT_SERVER_VOICE_LLM_SLOT_PARSER_TIMEOUT_MS'') 280,
      vcfLLMSlotParserMinRunes = getenvInt env (lit ''AGENT_SERVER_VOICE_LLM_SLOT_PARSER_MIN_RUNES'') 4,
      vcfLLMSlotParserMinStableForMs = getenvInt env (lit ''AGENT_SERVER_VOICE_LLM_SLOT_PARSER_MIN_STABLE_FOR_MS'') 160,
      vcfEntityCatalogProfile = getenv env (lit ''AGENT_SERVER_VOICE_ENTITY_CATALOG_PROFILE'') [],
      vcfSpeechPlannerEnabled = getenvBool env (lit ''AGENT_SERVER_VOICE_SPEECH_PLANNER_ENABLED'') True,
      vcfSpeechPlannerMinChunkRunes = getenvInt env (lit ''AGENT_SERVER_VOICE_SPEECH_PLANNER_MIN_CHUNK_RUNES'') 6,
      vcfSpeechPlannerTargetChunkRunes = getenvInt env (lit ''AGENT_SERVER_VOICE_SPEECH_PLANNER_TARGET_CHUNK_RUNES'') 24,
      vcfEmitPlaceholderAudio = getenvBool env (lit ''AGENT_SERVER_VOICE_EMIT_PLACEHOLDER_AUDIO'') True,
      vcfIflytekRTASR = \<lparr>ircAppID = getenv env (lit ''AGENT_SERVER_VOICE_IFLYTEK_RTASR_APP_ID'') [],
        ircAccessKeyID = getenv env (lit ''AGENT_SERVER_VOICE_IFLYTEK_RTASR_ACCESS_KEY_ID'') [],
        ircAccessKeySecret = getenv env (lit ''AGENT_SERVER_VOICE_IFLYTEK_RTASR_ACCESS_KEY_SECRET'') [],
        ircScheme = getenv env (lit ''AGENT_SERVER_VOICE_IFLYTEK_RTASR_SCHEME'') (lit ''ws''),
        ircHost = getenv env (lit ''AGENT_SERVER_VOICE_IFLYTEK_RTASR_HOST'') (lit ''office-api-ast-dx.iflyaisol.com''),
        ircPort = getenvInt env (lit ''AGENT_SERVER_VOICE_IFLYTEK_RTASR_PORT'') 80,
        ircPath = getenv env (lit ''AGENT_SERVER_VOICE_IFLYTEK_RTASR_PATH'') (lit ''/ast/communicate/v1''),
        ircAudioEncode = getenv env (lit ''AGENT_SERVER_VOICE_IFLYTEK_RTASR_AUDIO_ENCODE'') (lit ''pcm_s16le''),
        ircLanguage = getenv env (lit ''AGENT_SERVER_VOICE_IFLYTEK_RTASR_LANGUAGE'') (lit ''autodialect''),
        ircSampleRateHz = getenvInt env (lit ''AGENT_SERVER_VOICE_IFLYTEK_RTASR_SAMPLE_RATE'') 16000,
        ircFrameBytes = getenvInt env (lit ''AGENT_SERVER_VOICE_IFLYTEK_RTASR_FRAME_BYTES'') 1280,
        ircFrameIntervalMs = getenvInt env (lit ''AGENT_SERVER_VOICE_IFLYTEK_RTASR_FRAME_INTERVAL_MS'') 40\<rparr>\<rparr>)"

definition loadTTSConfig :: "environment \<Rightarrow> TTSConfig" where
  "loadTTSConfig env =
     \<lparr>ttcProvider = getenv env (lit ''AGENT_SERVER_TTS_PROVIDER'') (lit ''none''),
      ttcMimoBaseURL = getenv env (lit ''AGENT_SERVER_TTS_MIMO_BASE_URL'') (lit ''https://api.xiaomimimo.com/v1''),
      ttcMimoAPIKey = getenv env (lit ''MIMO_API_KEY'') [],
      ttcMimoModel = getenv env (lit ''AGENT_SERVER_TTS_MIMO_MODEL'') (lit ''mimo-v2-tts''),
      ttcMimoVoice = getenv env (lit ''AGENT_SERVER_TTS_MIMO_VOICE'') (lit ''mimo_default''),
      ttcMimoStyle = getenv env (lit ''AGENT_SERVER_TTS_MIMO_STYLE'') [],
      ttcTimeoutMs = getenvInt env (lit ''AGENT_SERVER_TTS_TIMEOUT_MS'') 30000,
      ttcCosyVoice = \<lparr>cvcBaseURL = getenv env (lit ''AGENT_SERVER_TTS_COSYVOICE_BASE_URL'') (lit ''http://127.0.0.1:50000''),
        cvcMode = getenv env (lit ''AGENT_SERVER_TTS_COSYVOICE_MODE'') (lit ''sft''),
        cvcSpeakerID = getenv env (lit ''AGENT_SERVER_TTS_COSYVOICE_SPK_ID'') [0x4E2D, 0x6587, 0x5973],
        cvcInstructText = getenv env (lit ''AGENT_SERVER_TTS_COSYVOICE_INSTRUCT_TEXT'') [],
        cvcSourceSampleRateHz = getenvInt env (lit ''AGENT_SERVER_TTS_COSYVOICE_SOURCE_SAMPLE_RATE'') 22050\<rparr>,
      ttcIflytek = \<lparr>itcAppID = getenv env (lit ''AGENT_SERVER_TTS_IFLYTEK_APP_ID'') (getenv env (lit ''IFLYTEK_TTS_APP_ID'') []),
        itcAPIKey = getenv env (lit ''AGENT_SERVER_TTS_IFLYTEK_API_KEY'') (getenv env (lit ''IFLYTEK_TTS_API_KEY'') []),
        itcAPISecret = getenv env (lit ''AGENT_SERVER_TTS_IFLYTEK_API_SECRET'') (getenv env (lit ''IFLYTEK_TTS_API_SECRET'') []),
        itcScheme = getenv env (lit ''AGENT_SERVER_TTS_IFLYTEK_SCHEME'') (lit ''ws''),
        itcHost = getenv env (lit ''AGENT_SERVER_TTS_IFLYTEK_HOST'') (lit ''tts-api.xfyun.cn''),
        itcPort = getenvInt env (lit ''AGENT_SERVER_TTS_IFLYTEK_PORT'') 80,
        itcPath = getenv env (lit ''AGENT_SERVER_TTS_IFLYTEK_PATH'') (lit ''/v2/tts''),
        itcVoice = getenv env (lit ''AGENT_SERVER_TTS_IFLYTEK_VOICE'') (lit ''xiaoyan''),
        itcAUE = getenv env (lit ''AGENT_SERVER_TTS_IFLYTEK_AUE'') (lit ''raw''),
        itcAUF = getenv env (lit ''AGENT_SERVER_TTS_IFLYTEK_AUF'') [],
        itcTextEncoding = getenv env (lit ''AGENT_SERVER_TTS_IFLYTEK_TEXT_ENCODING'') (lit ''UTF8''),
        itcSpeed = getenvInt env (lit ''AGENT_SERVER_TTS_IFLYTEK_SPEED'') 50,
        itcVolume = getenvInt env (lit ''AGENT_SERVER_TTS_IFLYTEK_VOLUME'') 50,
        itcPitch = getenvInt env (lit ''AGENT_SERVER_TTS_IFLYTEK_PITCH'') 50\<rparr>,
      ttcVolcengine = \<lparr>vtcBaseURL = getenv env (lit ''AGENT_SERVER_TTS_VOLCENGINE_BASE_URL'') (lit ''https://openspeech.bytedance.com''),
        vtcAccessToken = getenv env (lit ''AGENT_SERVER_TTS_VOLCENGINE_ACCESS_TOKEN'') (getenv env (lit ''VOLCENGINE_TTS_ACCESS_TOKEN'') []),
        vtcAppID = getenv env (lit ''AGENT_SERVER_TTS_VOLCENGINE_APP_ID'') (getenv env (lit ''VOLCENGINE_TTS_APPID'') []),
        vtcResourceID = getenv env (lit ''AGENT_SERVER_TTS_VOLCENGINE_RESOURCE_ID'') (getenv env (lit ''VOLCENGINE_TTS_RESOURCE_ID'') (lit ''seed-tts-2.0'')),
        vtcVoiceType = getenv env (lit ''AGENT_SERVER_TTS_VOLCENGINE_VOICE_TYPE'') (getenv env (lit ''VOLCENGINE_TTS_DEFAULT_VOICE_TYPE'') (lit ''zh_female_vv_uranus_bigtts'')),
        vtcSpeechRate = getenvInt env (lit ''AGENT_SERVER_TTS_VOLCENGINE_SPEECH_RATE'') 0,
        vtcLoudnessRate = getenvInt env (lit ''AGENT_SERVER_TTS_VOLCENGINE_LOUDNESS_RATE'') 0,
        vtcEmotion = getenv env (lit ''AGENT_SERVER_TTS_VOLCENGINE_EMOTION'') [],
        vtcEmotionScale = getenvInt env (lit ''AGENT_SERVER_TTS_VOLCENGINE_EMOTION_SCALE'') 4,
        vtcModel = getenv env (lit ''AGENT_SERVER_TTS_VOLCENGINE_MODEL'') []\<rparr>\<rparr>"

section \<open>Defaults\<close>

definition orText :: "gostring \<Rightarrow> gostring \<Rightarrow> gostring" where
  "orText v d = (if v = [] then d else v)"

definition orBlank :: "gostring \<Rightarrow> gostring \<Rightarrow> gostring" where
  "orBlank v d = (if TrimSpace v = [] then d else v)"

definition orPositive :: "int \<Rightarrow> int \<Rightarrow> int" where
  "orPositive v d = (if v \<le> 0 then d else v)"

definition normalizeVoiceLLMProvider :: "gostring \<Rightarrow> gostring" where
  "normalizeVoiceLLMProvider provider =
     (let p = ToLower (TrimSpace provider)
      in if p \<in> set [[], lit ''none'', lit ''disabled'', lit ''off''] then []
         else if p \<in> set [lit ''deepseek'', lit ''deepseek_chat''] then lit ''deepseek_chat''
         else if p \<in> set [lit ''openai'', lit ''openai_compat'', lit ''local_openai''] then lit ''openai_compat''
         else p)"

definition normalizeVoiceEntityCatalogProfile :: "gostring \<Rightarrow> gostring" where
  "normalizeVoiceEntityCatalogProfile profile =
     (let p = ToLower (TrimSpace profile)
      in if p \<in> set [[], lit ''auto''] then []
         else if p \<in> set [lit ''off'', lit ''none'', lit ''disabled''] then lit ''off''
         else if p \<in> set [lit ''seed'', lit ''demo'', BuiltInEntityCatalogProfileSeedCompanion] then BuiltInEntityCatalogProfileSeedCompanion
         else p)"

definition applyRealtimeDefaults :: "Config \<Rightarrow> Config" where
  "applyRealtimeDefaults c =
     (let v = cfRealtime c
      in c\<lparr>cfRealtime := v\<lparr>rtcWSPath := orText (rtcWSPath v) (lit ''/v1/realtime/ws''),
        rtcProtocolVersion := orText (rtcProtocolVersion v) (lit ''rtos-ws-v0''),
        rtcSubprotocol := orText (rtcSubprotocol v) (lit ''agent-server.realtime.v0''),
        rtcAuthMode := orText (rtcAuthMode v) (lit ''disabled''),
        rtcTurnMode := orText (rtcTurnMode v) (lit ''client_wakeup_client_commit''),
        rtcIdleTimeoutMs := orPositive (rtcIdleTimeoutMs v) 15000,
        rtcMaxSessionMs := orPositive (rtcMaxSessionMs v) 300000,
        rtcMaxFrameBytes := orPositive (rtcMaxFrameBytes v) 16384,
        rtcInputCodec := orText (rtcInputCodec v) (lit ''pcm16le''),
        rtcInputSampleRate := orPositive (rtcInputSampleRate v) 16000,
        rtcInputChannels := orPositive (rtcInputChannels v) 1,
        rtcOutputCodec := orText (rtcOutputCodec v) (lit ''pcm16le''),
        rtcOutputSampleRate := orPositive (rtcOutputSampleRate v) 16000,
        rtcOutputChannels := orPositive (rtcOutputChannels v) 1\<rparr>\<rparr>)"

definition applyXiaozhiDefaults :: "Config \<Rightarrow> Config" where
  "applyXiaozhiDefaults c =
     (let v = cfXiaozhi c
      in c\<lparr>cfXiaozhi := v\<lparr>xzcWSPath := orText (xzcWSPath v) (lit ''/xiaozhi/v1/''),
        xzcOTAPath := orText (xzcOTAPath v) (lit ''/xiaozhi/ota/''),
        xzcWelcomeVersion := orPositive (xzcWelcomeVersion v) 1,
        xzcWelcomeTransport := orText (xzcWelcomeTransport v) (lit ''websocket''),
        xzcInputCodec := orText (xzcInputCodec v) (lit ''opus''),
        xzcInputSampleRate := orPositive (xzcInputSampleRate v) 16000,
        xzcInputChannels := orPositive (xzcInputChannels v) 1,
        xzcInputFrameDurationMs := orPositive (xzcInputFrameDurationMs v) 60,
        xzcMaxFrameBytes := orPositive (xzcMaxFrameBytes v) (rtcMaxFrameBytes (cfRealtime c)),
        xzcIdleTimeoutMs := orPositive (xzcIdleTimeoutMs v) (rtcIdleTimeoutMs (cfRealtime c)),
        xzcMaxSessionMs := orPositive (xzcMaxSessionMs v) (rtcMaxSessionMs (cfRealtime c)),
        xzcOutputCodec := orText (xzcOutputCodec v) (lit ''opus''),
        xzcOutputSampleRate := orPositive (xzcOutputSampleRate v) 24000,
        xzcOutputChannels := orPositive (xzcOutputChannels v) 1,
        xzcOutputFrameDurationMs := orPositive (xzcOutputFrameDurationMs v) 60\<rparr>\<rparr>)"

definition applyAgentDefaults :: "Config \<Rightarrow> Config" where
  "applyAgentDefaults c =
     (let v = cfAgent c
      in c\<lparr>cfAgent := v\<lparr>agcMemoryProvider := orText (agcMemoryProvider v) (lit ''in_memory''),
        agcMemoryMaxTurns := orPositive (agcMemoryMaxTurns v) 8,
        agcToolProvider := orText (agcToolProvider v) (lit ''builtin''),
        agcLLMProvider := orBlank (agcLLMProvider v) (lit ''auto''),
        agcLLMTimeoutMs := orPositive (agcLLMTimeoutMs v) 30000,
        agcAssistantName := orBlank (agcAssistantName v) (resolvedAssistantName []),
        agcPersona := (if TrimSpace (agcPersona v) = [] then lit ''general_assistant'' else NormalizeAgentPersona (agcPersona v)),
        agcExecutionMode := (if TrimSpace (agcExecutionMode v) = [] then lit ''dry_run'' else NormalizeAgentExecutionMode (agcExecutionMode v)),
        agcDeepSeek := (agcDeepSeek v)\<lparr>dkcBaseURL := orBlank (dkcBaseURL (agcDeepSeek v)) (lit ''https://api.deepseek.com''),
          dkcModel := orBlank (dkcModel (agcDeepSeek v)) (lit ''deepseek-chat'')\<rparr>\<rparr>\<rparr>)"

definition voiceLLMDefaults :: "VoiceLLMProviderConfig \<Rightarrow> VoiceLLMProviderConfig" where
  "voiceLLMDefaults v =
     (let provider = normalizeVoiceLLMProvider (vlcProvider v)
      in v\<lparr>vlcProvider := provider,
           vlcBaseURL := (if provider = lit ''deepseek_chat'' then orBlank (vlcBaseURL v) (lit ''https://api.deepseek.com'') else vlcBaseURL v),
           vlcModel := (if provider = lit ''deepseek_chat'' then orBlank (vlcModel v) (lit ''deepseek-chat'') else vlcModel v)\<rparr>)"

definition applyVoiceDefaults :: "Config \<Rightarrow> Config" where
  "applyVoiceDefaults c =
     (let v = cfVoice c; minChunk = orPositive (vcfSpeechPlannerMinChunkRunes v) 6; target = orPositive (vcfSpeechPlannerTargetChunkRunes v) 24
      in c\<lparr>cfVoice := v\<lparr>vcfProvider := orText (vcfProvider v) (lit ''bootstrap''),
        vcfASRURL := orText (vcfASRURL v) (lit ''http://127.0.0.1:8091/v1/asr/transcribe''),
        vcfASRTimeoutMs := orPositive (vcfASRTimeoutMs v) 30000,
        vcfASRLanguage := orText (vcfASRLanguage v) (lit ''auto''),
        vcfServerEndpointMinAudioMs := orPositive (vcfServerEndpointMinAudioMs v) 320,
        vcfServerEndpointSilenceMs := orPositive (vcfServerEndpointSilenceMs v) 480,
        vcfServerEndpointLexicalMode := orBlank (vcfServerEndpointLexicalMode v) (lit ''conservative''),
        vcfServerEndpointIncompleteHoldMs := orPositive (vcfServerEndpointIncompleteHoldMs v) 720,
        vcfServerEndpointHintSilenceMs := orPositive (vcfServerEndpointHintSilenceMs v) 160,
        vcfBargeInMinAudioMs := orPositive (vcfBargeInMinAudioMs v) 120,
        vcfBargeInHoldAudioMs := orPositive (vcfBargeInHoldAudioMs v) 240,
        vcfLLMSemanticJudgeTimeoutMs := orPositive (vcfLLMSemanticJudgeTimeoutMs v) 220,
        vcfLLMSemanticJudgeMinRunes := orPositive (vcfLLMSemanticJudgeMinRunes v) 2,
        vcfLLMSemanticJudgeMinStableForMs := orPositive (vcfLLMSemanticJudgeMinStableForMs v) 120,
        vcfLLMSlotParserTimeoutMs := orPositive (vcfLLMSlotParserTimeoutMs v) 280,
        vcfLLMSlotParserMinRunes := orPositive (vcfLLMSlotParserMinRunes v) 4,
        vcfLLMSlotParserMinStableForMs := orPositive (vcfLLMSlotParserMinStableForMs v) 160,
        vcfLLMSemanticJudgeRolloutMode := NormalizeSemanticJudgeRolloutMode (vcfLLMSemanticJudgeRolloutMode v),
        vcfLLMSemanticJudgeLLM := voiceLLMDefaults (vcfLLMSemanticJudgeLLM v),
        vcfLLMSlotParserLLM := voiceLLMDefaults (vcfLLMSlotParserLLM v),
        vcfEntityCatalogProfile := orText (normalizeVoiceEntityCatalogProfile (vcfEntityCatalogProfile v)) (lit ''off''),
        vcfSpeechPlannerMinChunkRunes := minChunk,
        vcfSpeechPlannerTargetChunkRunes := (if target < minChunk then minChunk else target)\<rparr>\<rparr>)"

definition applyTTSDefaults :: "Config \<Rightarrow> Config" where
  "applyTTSDefaults c =
     (let v = cfTTS c
      in c\<lparr>cfTTS := v\<lparr>ttcProvider := orText (ttcProvider v) (lit ''none''),
        ttcMimoBaseURL := orText (ttcMimoBaseURL v) (lit ''https://api.xiaomimimo.com/v1''),
        ttcMimoModel := orText (ttcMimoModel v) (lit ''mimo-v2-tts''),
        ttcMimoVoice := orText (ttcMimoVoice v) (lit ''mimo_default''),
        ttcTimeoutMs := orPositive (ttcTimeoutMs v) 30000,
        ttcCosyVoice := (ttcCosyVoice v)\<lparr>cvcBaseURL := orText (cvcBaseURL (ttcCosyVoice v)) (lit ''http://127.0.0.1:50000''),
          cvcMode := orText (cvcMode (ttcCosyVoice v)) (lit ''sft''),
          cvcSpeakerID := orText (cvcSpeakerID (ttcCosyVoice v)) [0x4E2D, 0x6587, 0x5973],
          cvcSourceSampleRateHz := orPositive (cvcSourceSampleRateHz (ttcCosyVoice v)) 22050\<rparr>\<rparr>\<rparr>)"

definition withRealtimeDefaults :: "Config \<Rightarrow> Config" where
  "withRealtimeDefaults c =
     applyTTSDefaults (applyVoiceDefaults (applyAgentDefaults (applyXiaozhiDefaults (applyRealtimeDefaults c))))"

definition LoadConfig :: "(gostring \<Rightarrow> float64 option) \<Rightarrow> environment \<Rightarrow> Config" where
  "LoadConfig parse env = withRealtimeDefaults
     \<lparr>cfListenAddr = getenv env (lit ''AGENT_SERVER_ADDR'') (lit '':8080''),
      cfServiceName = getenv env (lit ''AGENT_SERVER_NAME'') (lit ''agent-server''),
      cfEnvironment = getenv env (lit ''AGENT_SERVER_ENV'') (lit ''dev''),
      cfVersion = getenv env (lit ''AGENT_SERVER_VERSION'') (lit ''0.1.0-dev''),
      cfRealtime = loadRealtimeConfig env, cfXiaozhi = loadXiaozhiConfig env, cfAgent = loadAgentConfig parse env,
      cfVoice = loadVoiceConfig parse env, cfTTS = loadTTSConfig env\<rparr>"

section \<open>Validation\<close>

text \<open>The problems of a section; \<open>splitAgentSkills\<close> is that of \<open>internal/app/app.go\<close>, over \<open>strings.Split\<close> at a comma.\<close>

fun splitComma :: "gostring \<Rightarrow> gostring list" where
  "splitComma [] = [[]]"
| "splitComma (r # rs) =
     (if r = 44 then [] # splitComma rs
      else case splitComma rs of [] \<Rightarrow> [[r]] | p # ps \<Rightarrow> (r # p) # ps)"

definition splitAgentSkills :: "gostring \<Rightarrow> gostring list" where
  "splitAgentSkills raw = filter (\<lambda>t. t \<noteq> []) (map TrimSpace (splitComma raw))"

definition problem :: "bool \<Rightarrow> gostring \<Rightarrow> gostring list" where
  "problem bad msg = (if bad then [msg] else [])"

definition joinProblems :: "gostring list \<Rightarrow> gostring option" where
  "joinProblems problems = (if problems = [] then None else Some (JoinStrings (lit ''; '') problems))"

definition validateRealtimeConfig :: "Config \<Rightarrow> gostring option" where
  "validateRealtimeConfig c =
     (let r = cfRealtime c
      in joinProblems
       (problem (TrimSpace (rtcWSPath r) = []) (lit ''realtime.ws_path must not be empty'')
        @ problem (TrimSpace (rtcProtocolVersion r) = []) (lit ''realtime.protocol_version must not be empty'')
        @ problem (TrimSpace (rtcSubprotocol r) = []) (lit ''realtime.subprotocol must not be empty'')
        @ problem (rtcMaxFrameBytes r \<le> 0) (lit ''realtime.max_frame_bytes must be positive'')
        @ problem (rtcInputSampleRate r \<le> 0 \<or> rtcInputChannels r \<le> 0) (lit ''realtime input audio shape must be positive'')
        @ problem (rtcOutputSampleRate r \<le> 0 \<or> rtcOutputChannels r \<le> 0) (lit ''realtime output audio shape must be positive'')))"

definition validateXiaozhiConfig :: "Config \<Rightarrow> gostring option" where
  "validateXiaozhiConfig c =
     (let x = cfXiaozhi c
      in if \<not> xzcEnabled x then None
         else joinProblems
          (problem (TrimSpace (xzcWSPath x) = [] \<or> TrimSpace (xzcOTAPath x) = [])
             (lit ''xiaozhi ws_path and ota_path must not be empty when xiaozhi is enabled'')
           @ problem (xzcInputChannels x \<noteq> 1 \<or> xzcOutputChannels x \<noteq> 1) (lit ''xiaozhi currently requires mono input and output'')
           @ problem (ToLower (TrimSpace (rtcOutputCodec (cfRealtime c))) \<noteq> lit ''pcm16le'')
             (lit ''xiaozhi requires realtime.output_codec=pcm16le so compat encoding has a pcm16le source'')))"

definition validateAgentConfig :: "Config \<Rightarrow> gostring option" where
  "validateAgentConfig c =
     (let a = cfAgent c; toolProvider = ToLower (TrimSpace (agcToolProvider a)); provider = ToLower (TrimSpace (agcLLMProvider a))
      in joinProblems
       (problem (ToLower (TrimSpace (agcMemoryProvider a)) \<notin> set [lit ''in_memory'', lit ''noop''])
          (lit ''agent.memory_provider must be in_memory or noop'')
        @ problem (toolProvider \<notin> set [lit ''builtin'', lit ''noop'']) (lit ''agent.tool_provider must be builtin or noop'')
        @ problem (\<not> IsSupportedAgentExecutionMode (agcExecutionMode a)) (lit ''agent.execution_mode must be simulation, dry_run, or live_control'')
        @ problem (\<not> IsSupportedAgentPersona (agcPersona a)) (lit ''agent.persona must be general_assistant or household_control_screen'')
        @ (if toolProvider = lit ''builtin''
           then map (\<lambda>skill. lit ''agent.skills contains unsupported builtin skill: '' @ TrimSpace skill)
             (filter (\<lambda>skill. canonicalBuiltinSkillName skill = []) (splitAgentSkills (agcSkills a)))
           else [])
        @ (if provider \<in> set [[], lit ''auto'', lit ''bootstrap''] then []
           else if provider \<in> set [lit ''deepseek'', lit ''deepseek_chat'']
           then problem (TrimSpace (dkcAPIKey (agcDeepSeek a)) = []) (lit ''agent.deepseek api key is required when deepseek_chat is selected'')
           else [lit ''agent.llm_provider must be auto, bootstrap, or deepseek_chat''])
        @ problem (agcMemoryMaxTurns a \<le> 0) (lit ''agent.memory_max_turns must be positive'')))"

definition voiceProviderSupportsStreamingPreview :: "gostring \<Rightarrow> bool" where
  "voiceProviderSupportsStreamingPreview provider \<longleftrightarrow> ToLower (TrimSpace provider) \<in> set [lit ''funasr_http'', lit ''iflytek_rtasr'']"

definition isSupportedVoiceEntityCatalogProfile :: "gostring \<Rightarrow> bool" where
  "isSupportedVoiceEntityCatalogProfile profile \<longleftrightarrow>
     normalizeVoiceEntityCatalogProfile profile \<in> set [[], lit ''off'', BuiltInEntityCatalogProfileSeedCompanion]"

definition validateVoiceLLMProvider :: "gostring \<Rightarrow> VoiceLLMProviderConfig \<Rightarrow> gostring list" where
  "validateVoiceLLMProvider name v =
     (let p = normalizeVoiceLLMProvider (vlcProvider v)
      in if p \<in> set [[], lit ''disabled''] then []
         else if p = lit ''deepseek_chat''
         then problem (TrimSpace (vlcAPIKey v) = []) (name @ lit '' api key is required when provider is deepseek_chat'')
         else if p = lit ''openai_compat''
         then problem (TrimSpace (vlcBaseURL v) = []) (name @ lit '' base_url is required when provider is openai_compat'')
         else [name @ lit '' provider must be disabled, deepseek_chat, or openai_compat''])"

definition iflytekRTASRIncomplete :: "IflytekRTASRProviderConfig \<Rightarrow> bool" where
  "iflytekRTASRIncomplete i \<longleftrightarrow> TrimSpace (ircAppID i) = [] \<or> TrimSpace (ircAccessKeyID i) = [] \<or> TrimSpace (ircAccessKeySecret i) = []"

definition validateVoiceConfig :: "Config \<Rightarrow> gostring option" where
  "validateVoiceConfig c =
     (let v = cfVoice c; provider = ToLower (TrimSpace (vcfProvider v))
      in joinProblems
       ((if provider = lit ''bootstrap'' then []
         else if provider = lit ''funasr_http''
         then problem (TrimSpace (vcfASRURL v) = []) (lit ''voice.asr_url is required when voice provider is funasr_http'')
         else if provider = lit ''iflytek_rtasr''
         then problem (iflytekRTASRIncomplete (vcfIflytekRTASR v))
                (lit ''voice.iflytek_rtasr credentials are required when voice provider is iflytek_rtasr'')
         else [lit ''voice.provider must be bootstrap, funasr_http, or iflytek_rtasr''])
        @ problem (vcfServerEndpointEnabled v \<and> \<not> voiceProviderSupportsStreamingPreview (vcfProvider v))
            (lit ''voice.server_endpoint_enabled requires a streaming preview-capable transcriber'')
        @ (if vcfLLMSemanticJudgeEnabled v then validateVoiceLLMProvider (lit ''voice.llm_semantic_judge'') (vcfLLMSemanticJudgeLLM v) else [])
        @ problem (\<not> IsSupportedSemanticJudgeRolloutMode (vcfLLMSemanticJudgeRolloutMode v))
            (lit ''voice.llm_semantic_judge_rollout_mode must be control, semantic, or sticky_percent'')
        @ problem (vcfLLMSemanticJudgeRolloutPercent v < 0 \<or> vcfLLMSemanticJudgeRolloutPercent v > 100)
            (lit ''voice.llm_semantic_judge_rollout_percent must be between 0 and 100'')
        @ (if vcfLLMSlotParserEnabled v then validateVoiceLLMProvider (lit ''voice.llm_slot_parser'') (vcfLLMSlotParserLLM v) else [])
        @ problem (\<not> isSupportedVoiceEntityCatalogProfile (vcfEntityCatalogProfile v))
            (lit ''voice.entity_catalog_profile must be off or seed_companion'')))"

definition iflytekTTSIncomplete :: "IflytekTTSProviderConfig \<Rightarrow> bool" where
  "iflytekTTSIncomplete i \<longleftrightarrow> TrimSpace (itcAppID i) = [] \<or> TrimSpace (itcAPIKey i) = [] \<or> TrimSpace (itcAPISecret i) = []"

definition volcengineIncomplete :: "VolcengineTTSProviderConfig \<Rightarrow> bool" where
  "volcengineIncomplete v \<longleftrightarrow> TrimSpace (vtcAccessToken v) = [] \<or> TrimSpace (vtcAppID v) = []"

definition cosyVoiceProblems :: "CosyVoiceTTSProviderConfig \<Rightarrow> gostring list" where
  "cosyVoiceProblems v =
     (let mode = ToLower (TrimSpace (cvcMode v))
      in problem (TrimSpace (cvcBaseURL v) = []) (lit ''tts.cosyvoice base url is required when tts provider is cosyvoice_http'')
       @ (if mode \<in> set [[], lit ''sft'']
          then problem (TrimSpace (cvcSpeakerID v) = []) (lit ''tts.cosyvoice spk_id is required when cosyvoice mode is sft'')
          else if mode = lit ''instruct''
          then problem (TrimSpace (cvcSpeakerID v) = []) (lit ''tts.cosyvoice spk_id is required when cosyvoice mode is instruct'')
             @ problem (TrimSpace (cvcInstructText v) = []) (lit ''tts.cosyvoice instruct_text is required when cosyvoice mode is instruct'')
          else [lit ''tts.cosyvoice mode must be sft or instruct''])
       @ problem (cvcSourceSampleRateHz v \<le> 0) (lit ''tts.cosyvoice source sample rate must be positive''))"

definition validateTTSConfig :: "Config \<Rightarrow> gostring option" where
  "validateTTSConfig c =
     (let t = cfTTS c; provider = ToLower (TrimSpace (ttcProvider t))
      in joinProblems
       (if provider \<in> set [[], lit ''none''] then []
        else if provider = lit ''mimo_v2_tts''
        then problem (TrimSpace (ttcMimoAPIKey t) = []) (lit ''tts.mimo api key is required when tts provider is mimo_v2_tts'')
        else if provider = lit ''cosyvoice_http'' then cosyVoiceProblems (ttcCosyVoice t)
        else if provider = lit ''iflytek_tts_ws''
        then problem (iflytekTTSIncomplete (ttcIflytek t)) (lit ''tts.iflytek credentials are required when tts provider is iflytek_tts_ws'')
        else if provider = lit ''volcengine_tts''
        then problem (volcengineIncomplete (ttcVolcengine t))
               (lit ''tts.volcengine access token and app id are required when tts provider is volcengine_tts'')
        else [lit ''tts.provider must be none, mimo_v2_tts, cosyvoice_http, iflytek_tts_ws, or volcengine_tts'']))"

text \<open>\<open>errors.Join\<close>: the errors that are there, a line each.\<close>

definition Validate :: "Config \<Rightarrow> gostring option" where
  "Validate c0 =
     (let c = withRealtimeDefaults c0;
          errs = List.map_filter id [validateRealtimeConfig c, validateXiaozhiConfig c, validateAgentConfig c, validateVoiceConfig c, validateTTSConfig c]
      in if errs = [] then None else Some (JoinStrings [10] errs))"

definition effectiveLLMProvider :: "AgentConfig \<Rightarrow> gostring" where
  "effectiveLLMProvider a =
     (let p = ToLower (TrimSpace (agcLLMProvider a)); keyed = (TrimSpace (dkcAPIKey (agcDeepSeek a)) \<noteq> [])
      in if p \<in> set [[], lit ''auto''] then (if keyed then lit ''deepseek_chat'' else lit ''bootstrap'')
         else if p = lit ''bootstrap'' then lit ''bootstrap''
         else if p \<in> set [lit ''deepseek'', lit ''deepseek_chat''] then (if keyed then lit ''deepseek_chat'' else lit ''bootstrap'')
         else lit ''bootstrap'')"

section \<open>Defaults\<close>

lemma or_defaults [simp]:
  "orText (orText t d) d = orText t d" "orBlank (orBlank t d) d = orBlank t d" "orPositive (orPositive n m) m = orPositive n m"
  by (simp_all add: orText_def orBlank_def orPositive_def)

lemma orPositive_positive [simp, intro]: "0 < d \<Longrightarrow> 0 < orPositive v d"
  by (simp add: orPositive_def)

lemma orText_nonempty [simp]: "d \<noteq> [] \<Longrightarrow> orText v d \<noteq> []"
  by (simp add: orText_def)

lemma orBlank_nonblank [simp]: "TrimSpace d \<noteq> [] \<Longrightarrow> TrimSpace (orBlank v d) \<noteq> []"
  by (simp add: orBlank_def)

lemma to_lower_idem [simp]: "to_lower (to_lower r) = to_lower r"
  by (auto simp: to_lower_def)

lemma is_space_to_lower [simp]: "is_space (to_lower r) \<longleftrightarrow> is_space r"
  by (auto simp: to_lower_def is_space_def)

lemma ToLower_idem [simp]: "ToLower (ToLower t) = ToLower t"
  by (simp add: comp_def)

lemma TrimSpace_ToLower [simp]: "TrimSpace (ToLower t) = ToLower (TrimSpace t)"
proof -
  have d: "dropWhile is_space (ToLower u) = ToLower (dropWhile is_space u)" for u
    by (simp add: dropWhile_map comp_def)
  show ?thesis by (simp add: TrimSpace_def trim_left_def trim_right_def d rev_map)
qed

lemma folded_again [simp]: "ToLower (TrimSpace (ToLower (TrimSpace p))) = ToLower (TrimSpace p)"
  by (simp only: TrimSpace_ToLower ToLower_idem TrimSpace_idem)

text \<open>The normal forms depend on the folded text only, and are folded texts or constants that are normal.\<close>

lemma normal_form_again:
  assumes "\<And>p. f (ToLower (TrimSpace p)) = f p" and "\<And>p. f p = ToLower (TrimSpace p) \<or> f p \<in> set cs" and "\<forall>c\<in>set cs. f c = c"
  shows "f (f p) = f p"
  using assms(1) [of p] assms(2) [of p] assms(3) by auto

lemma normalized_providers [simp]: "normalizeVoiceLLMProvider (normalizeVoiceLLMProvider p) = normalizeVoiceLLMProvider p"
proof (rule normal_form_again [where f = normalizeVoiceLLMProvider and cs = "[[], lit ''deepseek_chat'', lit ''openai_compat'']"])
  show "normalizeVoiceLLMProvider (ToLower (TrimSpace p)) = normalizeVoiceLLMProvider p" for p
    by (simp only: normalizeVoiceLLMProvider_def folded_again)
  show "normalizeVoiceLLMProvider p = ToLower (TrimSpace p) \<or> normalizeVoiceLLMProvider p \<in> set [[], lit ''deepseek_chat'', lit ''openai_compat'']" for p
    unfolding normalizeVoiceLLMProvider_def Let_def by simp
  show "\<forall>c\<in>set [[], lit ''deepseek_chat'', lit ''openai_compat'']. normalizeVoiceLLMProvider c = c" by code_simp
qed

lemma catalog_profile_again:
  "normalizeVoiceEntityCatalogProfile (normalizeVoiceEntityCatalogProfile p) = normalizeVoiceEntityCatalogProfile p"
proof (rule normal_form_again [where f = normalizeVoiceEntityCatalogProfile and cs = "[[], lit ''off'', BuiltInEntityCatalogProfileSeedCompanion]"])
  show "normalizeVoiceEntityCatalogProfile (ToLower (TrimSpace p)) = normalizeVoiceEntityCatalogProfile p" for p
    by (simp only: normalizeVoiceEntityCatalogProfile_def folded_again)
  show "normalizeVoiceEntityCatalogProfile p = ToLower (TrimSpace p)
      \<or> normalizeVoiceEntityCatalogProfile p \<in> set [[], lit ''off'', BuiltInEntityCatalogProfileSeedCompanion]" for p
    unfolding normalizeVoiceEntityCatalogProfile_def Let_def by simp
  show "\<forall>c\<in>set [[], lit ''off'', BuiltInEntityCatalogProfileSeedCompanion]. normalizeVoiceEntityCatalogProfile c = c" by code_simp
qed

lemma normalized_catalog [simp]:
  "orText (normalizeVoiceEntityCatalogProfile (orText (normalizeVoiceEntityCatalogProfile p) (lit ''off''))) (lit ''off'')
     = orText (normalizeVoiceEntityCatalogProfile p) (lit ''off'')"
proof -
  have "normalizeVoiceEntityCatalogProfile (lit ''off'') = lit ''off''" "lit ''off'' \<noteq> []" by code_simp+
  then show ?thesis by (simp add: orText_def catalog_profile_again)
qed

lemma rollout_mode_again [simp]: "NormalizeSemanticJudgeRolloutMode (NormalizeSemanticJudgeRolloutMode m) = NormalizeSemanticJudgeRolloutMode m"
proof (rule normal_form_again [where f = NormalizeSemanticJudgeRolloutMode
      and cs = "[SemanticJudgeRolloutModeControl, SemanticJudgeRolloutModeSemantic, SemanticJudgeRolloutModeStickyPercent]"])
  show "NormalizeSemanticJudgeRolloutMode (ToLower (TrimSpace p)) = NormalizeSemanticJudgeRolloutMode p" for p
    by (simp only: NormalizeSemanticJudgeRolloutMode_def folded_again)
  show "NormalizeSemanticJudgeRolloutMode p = ToLower (TrimSpace p) \<or> NormalizeSemanticJudgeRolloutMode p
      \<in> set [SemanticJudgeRolloutModeControl, SemanticJudgeRolloutModeSemantic, SemanticJudgeRolloutModeStickyPercent]" for p
    unfolding NormalizeSemanticJudgeRolloutMode_def Let_def by simp
  show "\<forall>c\<in>set [SemanticJudgeRolloutModeControl, SemanticJudgeRolloutModeSemantic, SemanticJudgeRolloutModeStickyPercent].
      NormalizeSemanticJudgeRolloutMode c = c" by code_simp
qed

lemma normalized_persona [simp]: "NormalizeAgentPersona (NormalizeAgentPersona p) = NormalizeAgentPersona p"
proof (rule normal_form_again [where f = NormalizeAgentPersona and cs = "[lit ''general_assistant'']"])
  show "NormalizeAgentPersona (ToLower (TrimSpace p)) = NormalizeAgentPersona p" for p by (simp only: NormalizeAgentPersona_def folded_again)
  show "NormalizeAgentPersona p = ToLower (TrimSpace p) \<or> NormalizeAgentPersona p \<in> set [lit ''general_assistant'']" for p
    unfolding NormalizeAgentPersona_def Let_def by simp
  show "\<forall>c\<in>set [lit ''general_assistant'']. NormalizeAgentPersona c = c" by code_simp
qed

lemma normalized_mode [simp]: "NormalizeAgentExecutionMode (NormalizeAgentExecutionMode m) = NormalizeAgentExecutionMode m"
proof (rule normal_form_again [where f = NormalizeAgentExecutionMode and cs = "[lit ''dry_run'']"])
  show "NormalizeAgentExecutionMode (ToLower (TrimSpace p)) = NormalizeAgentExecutionMode p" for p
    by (simp only: NormalizeAgentExecutionMode_def folded_again)
  show "NormalizeAgentExecutionMode p = ToLower (TrimSpace p) \<or> NormalizeAgentExecutionMode p \<in> set [lit ''dry_run'']" for p
    unfolding NormalizeAgentExecutionMode_def Let_def by simp
  show "\<forall>c\<in>set [lit ''dry_run'']. NormalizeAgentExecutionMode c = c" by code_simp
qed

text \<open>What the defaults establish, section by section.\<close>

definition realtime_ok :: "RealtimeConfig \<Rightarrow> bool" where
  "realtime_ok r \<longleftrightarrow> rtcWSPath r \<noteq> [] \<and> rtcProtocolVersion r \<noteq> [] \<and> rtcSubprotocol r \<noteq> [] \<and> rtcInputCodec r \<noteq> [] \<and> rtcOutputCodec r \<noteq> []
     \<and> 0 < rtcIdleTimeoutMs r \<and> 0 < rtcMaxSessionMs r \<and> 0 < rtcMaxFrameBytes r
     \<and> 0 < rtcInputSampleRate r \<and> 0 < rtcInputChannels r \<and> 0 < rtcOutputSampleRate r \<and> 0 < rtcOutputChannels r"

definition xiaozhi_ok :: "XiaozhiCompatConfig \<Rightarrow> bool" where
  "xiaozhi_ok x \<longleftrightarrow> xzcWSPath x \<noteq> [] \<and> xzcOTAPath x \<noteq> [] \<and> xzcInputCodec x \<noteq> [] \<and> xzcOutputCodec x \<noteq> [] \<and> 0 < xzcWelcomeVersion x
     \<and> 0 < xzcInputSampleRate x \<and> 0 < xzcInputChannels x \<and> 0 < xzcInputFrameDurationMs x \<and> 0 < xzcMaxFrameBytes x
     \<and> 0 < xzcIdleTimeoutMs x \<and> 0 < xzcMaxSessionMs x \<and> 0 < xzcOutputSampleRate x \<and> 0 < xzcOutputChannels x \<and> 0 < xzcOutputFrameDurationMs x"

definition agent_ok :: "AgentConfig \<Rightarrow> bool" where
  "agent_ok a \<longleftrightarrow> 0 < agcMemoryMaxTurns a \<and> 0 < agcLLMTimeoutMs a \<and> TrimSpace (agcLLMProvider a) \<noteq> []
     \<and> NormalizeAgentPersona (agcPersona a) = agcPersona a \<and> NormalizeAgentExecutionMode (agcExecutionMode a) = agcExecutionMode a"

definition voice_ok :: "VoiceConfig \<Rightarrow> bool" where
  "voice_ok v \<longleftrightarrow> 0 < vcfServerEndpointMinAudioMs v \<and> 0 < vcfServerEndpointSilenceMs v \<and> 0 < vcfServerEndpointIncompleteHoldMs v
     \<and> 0 < vcfServerEndpointHintSilenceMs v \<and> 0 < vcfBargeInMinAudioMs v \<and> 0 < vcfBargeInHoldAudioMs v
     \<and> 0 < vcfLLMSemanticJudgeTimeoutMs v \<and> 0 < vcfLLMSemanticJudgeMinRunes v \<and> 0 < vcfLLMSlotParserTimeoutMs v \<and> 0 < vcfLLMSlotParserMinRunes v
     \<and> 0 < vcfSpeechPlannerMinChunkRunes v \<and> vcfSpeechPlannerMinChunkRunes v \<le> vcfSpeechPlannerTargetChunkRunes v
     \<and> vcfEntityCatalogProfile v \<noteq> [] \<and> normalizeVoiceLLMProvider (vlcProvider (vcfLLMSemanticJudgeLLM v)) = vlcProvider (vcfLLMSemanticJudgeLLM v)
     \<and> normalizeVoiceLLMProvider (vlcProvider (vcfLLMSlotParserLLM v)) = vlcProvider (vcfLLMSlotParserLLM v)"

definition config_ok :: "Config \<Rightarrow> bool" where
  "config_ok c \<longleftrightarrow> realtime_ok (cfRealtime c) \<and> xiaozhi_ok (cfXiaozhi c) \<and> agent_ok (cfAgent c) \<and> voice_ok (cfVoice c)
     \<and> 0 < ttcTimeoutMs (cfTTS c) \<and> 0 < cvcSourceSampleRateHz (ttcCosyVoice (cfTTS c))"

lemma sections [simp]:
  "cfXiaozhi (applyRealtimeDefaults c) = cfXiaozhi c" "cfAgent (applyRealtimeDefaults c) = cfAgent c"
  "cfVoice (applyRealtimeDefaults c) = cfVoice c" "cfTTS (applyRealtimeDefaults c) = cfTTS c"
  "cfRealtime (applyXiaozhiDefaults c) = cfRealtime c" "cfAgent (applyXiaozhiDefaults c) = cfAgent c"
  "cfVoice (applyXiaozhiDefaults c) = cfVoice c" "cfTTS (applyXiaozhiDefaults c) = cfTTS c"
  "cfRealtime (applyAgentDefaults c) = cfRealtime c" "cfXiaozhi (applyAgentDefaults c) = cfXiaozhi c"
  "cfVoice (applyAgentDefaults c) = cfVoice c" "cfTTS (applyAgentDefaults c) = cfTTS c"
  "cfRealtime (applyVoiceDefaults c) = cfRealtime c" "cfXiaozhi (applyVoiceDefaults c) = cfXiaozhi c"
  "cfAgent (applyVoiceDefaults c) = cfAgent c" "cfTTS (applyVoiceDefaults c) = cfTTS c"
  "cfRealtime (applyTTSDefaults c) = cfRealtime c" "cfXiaozhi (applyTTSDefaults c) = cfXiaozhi c"
  "cfAgent (applyTTSDefaults c) = cfAgent c" "cfVoice (applyTTSDefaults c) = cfVoice c"
  by (simp_all add: applyRealtimeDefaults_def applyXiaozhiDefaults_def applyAgentDefaults_def applyVoiceDefaults_def applyTTSDefaults_def Let_def)

lemma realtime_defaults_ok: "realtime_ok (cfRealtime (applyRealtimeDefaults c))"
  by (simp add: realtime_ok_def applyRealtimeDefaults_def Let_def)

lemma xiaozhi_defaults_ok: "realtime_ok (cfRealtime c) \<Longrightarrow> xiaozhi_ok (cfXiaozhi (applyXiaozhiDefaults c))"
  by (simp add: xiaozhi_ok_def realtime_ok_def applyXiaozhiDefaults_def Let_def)

lemma agent_defaults_ok: "agent_ok (cfAgent (applyAgentDefaults c))"
proof -
  have c: "TrimSpace (lit ''auto'') \<noteq> []" "NormalizeAgentPersona (lit ''general_assistant'') = lit ''general_assistant''"
    "NormalizeAgentExecutionMode (lit ''dry_run'') = lit ''dry_run''" by code_simp+
  show ?thesis using c by (simp add: agent_ok_def applyAgentDefaults_def Let_def)
qed

lemma voice_defaults_ok: "voice_ok (cfVoice (applyVoiceDefaults c))"
proof -
  have c: "lit ''off'' \<noteq> []" by code_simp
  show ?thesis using c by (simp add: voice_ok_def applyVoiceDefaults_def voiceLLMDefaults_def Let_def)
qed

lemma defaults_ok: "config_ok (withRealtimeDefaults c)"
  using realtime_defaults_ok xiaozhi_defaults_ok [OF realtime_defaults_ok] agent_defaults_ok voice_defaults_ok
  by (simp add: config_ok_def withRealtimeDefaults_def) (simp add: applyTTSDefaults_def Let_def)

text \<open>Filling in the defaults a second time changes nothing: the validation, which fills them in again, sees what runs.\<close>

lemma persona_default [simp]: "(if TrimSpace p = [] then lit ''general_assistant'' else NormalizeAgentPersona p) = NormalizeAgentPersona p"
  by (simp add: NormalizeAgentPersona_def Let_def)

lemma mode_default [simp]: "(if TrimSpace m = [] then lit ''dry_run'' else NormalizeAgentExecutionMode m) = NormalizeAgentExecutionMode m"
  by (simp add: NormalizeAgentExecutionMode_def Let_def)

lemma voice_llm_again [simp]: "voiceLLMDefaults (voiceLLMDefaults v) = voiceLLMDefaults v"
  by (cases v) (simp add: voiceLLMDefaults_def Let_def del: or_defaults(1))

lemma positive_again [simp]: "0 < a \<Longrightarrow> orPositive (orPositive m a) b = orPositive m a"
  by (simp add: orPositive_def)

lemma realtime_again [simp]: "applyRealtimeDefaults (applyRealtimeDefaults c) = applyRealtimeDefaults c"
  by (cases "cfRealtime c") (simp add: applyRealtimeDefaults_def Let_def)

lemma xiaozhi_again [simp]: "applyXiaozhiDefaults (applyXiaozhiDefaults c) = applyXiaozhiDefaults c"
  by (cases "cfXiaozhi c") (simp add: applyXiaozhiDefaults_def Let_def)

lemma agent_again [simp]: "applyAgentDefaults (applyAgentDefaults c) = applyAgentDefaults c"
  by (cases "cfAgent c", cases "agcDeepSeek (cfAgent c)") (simp add: applyAgentDefaults_def Let_def)

lemma voice_again [simp]: "applyVoiceDefaults (applyVoiceDefaults c) = applyVoiceDefaults c"
  by (cases "cfVoice c") (simp add: applyVoiceDefaults_def Let_def)

lemma tts_again [simp]: "applyTTSDefaults (applyTTSDefaults c) = applyTTSDefaults c"
  by (cases "cfTTS c", cases "ttcCosyVoice (cfTTS c)") (simp add: applyTTSDefaults_def Let_def)

lemma section_cong:
  "cfRealtime c = cfRealtime d \<Longrightarrow> cfRealtime (applyRealtimeDefaults c) = cfRealtime (applyRealtimeDefaults d)"
  "cfRealtime c = cfRealtime d \<Longrightarrow> cfXiaozhi c = cfXiaozhi d \<Longrightarrow> cfXiaozhi (applyXiaozhiDefaults c) = cfXiaozhi (applyXiaozhiDefaults d)"
  "cfAgent c = cfAgent d \<Longrightarrow> cfAgent (applyAgentDefaults c) = cfAgent (applyAgentDefaults d)"
  "cfVoice c = cfVoice d \<Longrightarrow> cfVoice (applyVoiceDefaults c) = cfVoice (applyVoiceDefaults d)"
  "cfTTS c = cfTTS d \<Longrightarrow> cfTTS (applyTTSDefaults c) = cfTTS (applyTTSDefaults d)"
  by (simp_all add: applyRealtimeDefaults_def applyXiaozhiDefaults_def applyAgentDefaults_def applyVoiceDefaults_def applyTTSDefaults_def Let_def)

lemma service_kept [simp]:
  "cfListenAddr (withRealtimeDefaults c) = cfListenAddr c" "cfServiceName (withRealtimeDefaults c) = cfServiceName c"
  "cfEnvironment (withRealtimeDefaults c) = cfEnvironment c" "cfVersion (withRealtimeDefaults c) = cfVersion c"
  by (simp_all add: withRealtimeDefaults_def applyRealtimeDefaults_def applyXiaozhiDefaults_def applyAgentDefaults_def
      applyVoiceDefaults_def applyTTSDefaults_def Let_def)

lemma defaulted_sections:
  "cfRealtime (withRealtimeDefaults c) = cfRealtime (applyRealtimeDefaults c)"
  "cfXiaozhi (withRealtimeDefaults c) = cfXiaozhi (applyXiaozhiDefaults (applyRealtimeDefaults c))"
  "cfAgent (withRealtimeDefaults c) = cfAgent (applyAgentDefaults c)"
  "cfVoice (withRealtimeDefaults c) = cfVoice (applyVoiceDefaults c)"
  "cfTTS (withRealtimeDefaults c) = cfTTS (applyTTSDefaults c)"
proof -
  show "cfRealtime (withRealtimeDefaults c) = cfRealtime (applyRealtimeDefaults c)" by (simp add: withRealtimeDefaults_def)
  show "cfXiaozhi (withRealtimeDefaults c) = cfXiaozhi (applyXiaozhiDefaults (applyRealtimeDefaults c))" by (simp add: withRealtimeDefaults_def)
  show "cfAgent (withRealtimeDefaults c) = cfAgent (applyAgentDefaults c)"
    by (simp add: withRealtimeDefaults_def) (rule section_cong(3), simp)
  show "cfVoice (withRealtimeDefaults c) = cfVoice (applyVoiceDefaults c)"
    by (simp add: withRealtimeDefaults_def) (rule section_cong(4), simp)
  show "cfTTS (withRealtimeDefaults c) = cfTTS (applyTTSDefaults c)"
    by (simp add: withRealtimeDefaults_def) (rule section_cong(5), simp)
qed

lemma defaults_again [simp]: "withRealtimeDefaults (withRealtimeDefaults c) = withRealtimeDefaults c"
proof (rule Config.equality)
  let ?w = "withRealtimeDefaults c" and ?r = "applyRealtimeDefaults c"
  have r: "cfRealtime (applyRealtimeDefaults ?w) = cfRealtime ?r"
    by (subst section_cong(1) [of ?w ?r]) (simp_all add: defaulted_sections)
  show "cfRealtime (withRealtimeDefaults ?w) = cfRealtime ?w" using r by (simp add: defaulted_sections)
  have "cfXiaozhi (applyXiaozhiDefaults (applyRealtimeDefaults ?w)) = cfXiaozhi (applyXiaozhiDefaults (applyXiaozhiDefaults ?r))"
    by (rule section_cong(2)) (simp_all add: r defaulted_sections)
  then show "cfXiaozhi (withRealtimeDefaults ?w) = cfXiaozhi ?w" by (simp add: defaulted_sections)
  have "cfAgent (applyAgentDefaults ?w) = cfAgent (applyAgentDefaults (applyAgentDefaults c))"
    by (rule section_cong(3)) (simp add: defaulted_sections)
  then show "cfAgent (withRealtimeDefaults ?w) = cfAgent ?w" by (simp add: defaulted_sections)
  have "cfVoice (applyVoiceDefaults ?w) = cfVoice (applyVoiceDefaults (applyVoiceDefaults c))"
    by (rule section_cong(4)) (simp add: defaulted_sections)
  then show "cfVoice (withRealtimeDefaults ?w) = cfVoice ?w" by (simp add: defaulted_sections)
  have "cfTTS (applyTTSDefaults ?w) = cfTTS (applyTTSDefaults (applyTTSDefaults c))"
    by (rule section_cong(5)) (simp add: defaulted_sections)
  then show "cfTTS (withRealtimeDefaults ?w) = cfTTS ?w" by (simp add: defaulted_sections)
qed simp_all

section \<open>An address without a key\<close>

text \<open>
  An address for the semantic judge, and nothing else about models, selects the provider \<open>deepseek_chat\<close>, whose key is then missing: the
  server refuses to start, although judge and model are optional.
\<close>

definition judgeAddress :: gostring where "judgeAddress = lit ''AGENT_SERVER_VOICE_SEMANTIC_JUDGE_BASE_URL''"

definition modelKeys :: "gostring list" where
  "modelKeys = [lit ''AGENT_SERVER_VOICE_SEMANTIC_JUDGE_PROVIDER'', lit ''AGENT_SERVER_VOICE_SEMANTIC_JUDGE_API_KEY'',
     lit ''AGENT_SERVER_AGENT_DEEPSEEK_API_KEY'', lit ''DEEPSEEK_API_KEY'', lit ''AGENT_SERVER_AGENT_LLM_PROVIDER'',
     lit ''AGENT_SERVER_VOICE_LLM_SEMANTIC_JUDGE_ENABLED'']"

lemma judge_of_address:
  assumes "env judgeAddress = Some u" and "TrimSpace u \<noteq> []" and "\<forall>k\<in>set modelKeys. env k = None"
  shows "vlcProvider (vcfLLMSemanticJudgeLLM (loadVoiceConfig parse env)) = lit ''deepseek_chat''"
    and "vlcAPIKey (vcfLLMSemanticJudgeLLM (loadVoiceConfig parse env)) = []"
    and "vcfLLMSemanticJudgeEnabled (loadVoiceConfig parse env)"
proof -
  have auto: "ToLower (TrimSpace (lit ''auto'')) = lit ''auto''" by code_simp
  have u: "u \<noteq> []" using assms(2) by auto
  note keys = assms(3) [unfolded modelKeys_def, simplified]
  have "semanticJudgeProviderOf env [] [] = lit ''deepseek_chat''"
    unfolding semanticJudgeProviderOf_def using assms(1,2) keys auto u by (simp add: getenv_def judgeAddress_def)
  then show "vlcProvider (vcfLLMSemanticJudgeLLM (loadVoiceConfig parse env)) = lit ''deepseek_chat''"
    using keys by (simp add: loadVoiceConfig_def Let_def getenv_def)
  show "vlcAPIKey (vcfLLMSemanticJudgeLLM (loadVoiceConfig parse env)) = []"
    using keys by (simp add: loadVoiceConfig_def Let_def getenv_def)
  show "vcfLLMSemanticJudgeEnabled (loadVoiceConfig parse env)"
    using keys by (simp add: loadVoiceConfig_def Let_def getenvBool_def)
qed

lemma voice_section_defaults:
  "vcfLLMSemanticJudgeLLM (cfVoice (applyVoiceDefaults c)) = voiceLLMDefaults (vcfLLMSemanticJudgeLLM (cfVoice c))"
  "vcfLLMSemanticJudgeEnabled (cfVoice (applyVoiceDefaults c)) = vcfLLMSemanticJudgeEnabled (cfVoice c)"
  by (simp_all add: applyVoiceDefaults_def Let_def)

lemma joinProblems_None_iff: "joinProblems ps = None \<longleftrightarrow> ps = []"
  by (simp add: joinProblems_def)

lemma Validate_None:
  "Validate c = None \<longleftrightarrow> validateRealtimeConfig (withRealtimeDefaults c) = None \<and> validateXiaozhiConfig (withRealtimeDefaults c) = None
     \<and> validateAgentConfig (withRealtimeDefaults c) = None \<and> validateVoiceConfig (withRealtimeDefaults c) = None
     \<and> validateTTSConfig (withRealtimeDefaults c) = None"
  by (simp add: Validate_def Let_def List.map_filter_def split: option.split)

lemma judge_address_alone_refused:
  assumes "env judgeAddress = Some u" and "TrimSpace u \<noteq> []" and "\<forall>k\<in>set modelKeys. env k = None"
  shows "Validate (LoadConfig parse env) \<noteq> None"
proof -
  let ?v = "cfVoice (LoadConfig parse env)"
  have deepseek: "normalizeVoiceLLMProvider (lit ''deepseek_chat'') = lit ''deepseek_chat''" by code_simp
  have v: "?v = cfVoice (applyVoiceDefaults \<lparr>cfListenAddr = getenv env (lit ''AGENT_SERVER_ADDR'') (lit '':8080''),
      cfServiceName = getenv env (lit ''AGENT_SERVER_NAME'') (lit ''agent-server''), cfEnvironment = getenv env (lit ''AGENT_SERVER_ENV'') (lit ''dev''),
      cfVersion = getenv env (lit ''AGENT_SERVER_VERSION'') (lit ''0.1.0-dev''), cfRealtime = loadRealtimeConfig env, cfXiaozhi = loadXiaozhiConfig env,
      cfAgent = loadAgentConfig parse env, cfVoice = loadVoiceConfig parse env, cfTTS = loadTTSConfig env\<rparr>)"
    unfolding LoadConfig_def by (rule defaulted_sections)
  have on: "vcfLLMSemanticJudgeEnabled ?v" unfolding v voice_section_defaults by (simp add: judge_of_address [OF assms])
  have llm: "validateVoiceLLMProvider name (vcfLLMSemanticJudgeLLM ?v) \<noteq> []" for name
    unfolding v voice_section_defaults validateVoiceLLMProvider_def voiceLLMDefaults_def Let_def
    by (simp add: judge_of_address [OF assms] deepseek problem_def)
  have "validateVoiceConfig (LoadConfig parse env) \<noteq> None"
    unfolding validateVoiceConfig_def Let_def joinProblems_None_iff using on llm by simp
  moreover have "withRealtimeDefaults (LoadConfig parse env) = LoadConfig parse env" by (simp add: LoadConfig_def)
  ultimately show ?thesis by (simp add: Validate_None)
qed

end
