(* ===== verification/Deepseek_Chat.thy ===== *)
theory Deepseek_Chat
  imports Llm_Executor
begin

text \<open>
  The client of the chat model (\<open>deepseek_chat.go\<close>): the request, the completion that answers it, and the event stream that announces the
  same completion in chunks. Posting a request is a parameter: it gives an error or the reply, with its body as text, the lines that the scanner
  reads from it and the error it ends with. So is the decoding of JSON: of the body of a completion, of the payload of an event and of an error.
\<close>

section \<open>Data\<close>

definition defaultDeepSeekBaseURL :: gostring where
  "defaultDeepSeekBaseURL = lit ''https://api.deepseek.com''"

definition defaultDeepSeekModel :: gostring where
  "defaultDeepSeekModel = lit ''deepseek-chat''"

record DeepSeekChatModelConfig =
  dcBaseURL :: gostring
  dcAPIKey :: gostring
  dcModel :: gostring
  dcTemperature :: float64
  dcMaxTokens :: int

record DeepSeekChatModel =
  dsBaseURL :: gostring
  dsAPIKey :: gostring
  dsModel :: gostring
  dsTemperature :: float64
  dsMaxTokens :: int

record deepseekToolCall =
  dtID :: gostring
  dtType :: gostring
  dtName :: gostring
  dtArguments :: gostring

text \<open>The content of a message is \<open>any\<close>; nil is \<open>JNull\<close>.\<close>

record deepseekChatMessage =
  dmRole :: gostring
  dmContent :: JSON
  dmToolCallID :: gostring
  dmToolCalls :: "deepseekToolCall list"

record deepseekToolDefinition =
  dfType :: gostring
  dfFunction :: ToolDefinition

record deepseekChatCompletionRequest =
  drModel :: gostring
  drMessages :: "deepseekChatMessage list"
  drStream :: bool
  drTemperature :: float64
  drMaxTokens :: int
  drTools :: "deepseekToolDefinition list"
  drToolChoice :: "gostring option"

text \<open>A choice of a completion.\<close>

record deepseekChoice =
  chFinishReason :: gostring
  chRole :: gostring
  chContent :: JSON
  chToolCalls :: "deepseekToolCall list"

record deepseekToolCallChunk =
  tkIndex :: int
  tkID :: gostring
  tkType :: gostring
  tkName :: gostring
  tkArguments :: gostring

text \<open>A choice of a chunk.\<close>

record deepseekDelta =
  ckFinishReason :: gostring
  ckRole :: gostring
  ckContent :: gostring
  ckToolCalls :: "deepseekToolCallChunk list"

record deepseekReply =
  dyStatusCode :: int
  dyStatus :: gostring
  dyBody :: "gostring + gostring"
  dyLines :: "gostring list"
  dyScanErr :: "gostring option"

record deepseekJSON =
  djCompletion :: "gostring \<Rightarrow> gostring + deepseekChoice list"
  djChunk :: "gostring \<Rightarrow> gostring + deepseekDelta list"
  djError :: "gostring \<Rightarrow> gostring option"

section \<open>Configuration\<close>

definition normalizeDeepSeekBaseURL :: "gostring \<Rightarrow> gostring" where
  "normalizeDeepSeekBaseURL raw =
     (let baseURL = TrimRight (TrimSpace raw) [47]
      in if baseURL = [] then defaultDeepSeekBaseURL else baseURL)"

definition NewDeepSeekChatModel :: "DeepSeekChatModelConfig \<Rightarrow> DeepSeekChatModel" where
  "NewDeepSeekChatModel cfg =
     \<lparr>dsBaseURL = normalizeDeepSeekBaseURL (dcBaseURL cfg), dsAPIKey = TrimSpace (dcAPIKey cfg),
      dsModel = (if TrimSpace (dcModel cfg) = [] then defaultDeepSeekModel else TrimSpace (dcModel cfg)),
      dsTemperature = dcTemperature cfg, dsMaxTokens = dcMaxTokens cfg\<rparr>"

section \<open>The request\<close>

definition deepseekMessageContent :: "ModelMessage \<Rightarrow> JSON" where
  "deepseekMessageContent m =
     (if msgRole m = lit ''assistant'' \<and> msgContent m = [] \<and> mmToolCalls m \<noteq> [] then JNull else JString (msgContent m))"

definition deepseekToolCallsFromChat :: "ChatToolCall list \<Rightarrow> deepseekToolCall list" where
  "deepseekToolCallsFromChat toolCalls =
     map (\<lambda>c. \<lparr>dtID = ctcID c, dtType = lit ''function'', dtName = ctcName c, dtArguments = normalizedToolArguments (ctcArguments c)\<rparr>) toolCalls"

definition chatToolCallsFromDeepSeek :: "deepseekToolCall list \<Rightarrow> ChatToolCall list" where
  "chatToolCallsFromDeepSeek toolCalls =
     map (\<lambda>c. \<lparr>ctcID = TrimSpace (dtID c), ctcName = TrimSpace (dtName c), ctcArguments = normalizedToolArguments (dtArguments c)\<rparr>) toolCalls"

definition buildRequest :: "DeepSeekChatModel \<Rightarrow> ChatModelRequest \<Rightarrow> bool \<Rightarrow> deepseekChatCompletionRequest" where
  "buildRequest m request stream =
     (let messages = (if cmMessages request = []
            then initialChatMessages (cmSystemPrompt request) (cmMemoryContext request) (cmUserText request) (cmMetadata request)
            else cmMessages request);
          tools = map (\<lambda>t. \<lparr>dfType = lit ''function'', dfFunction = t\<rparr>) (filter (\<lambda>t. TrimSpace (tdefName t) \<noteq> []) (cmTools request))
      in \<lparr>drModel = dsModel m,
          drMessages = map (\<lambda>msg. \<lparr>dmRole = msgRole msg, dmContent = deepseekMessageContent msg, dmToolCallID = mmToolCallID msg,
             dmToolCalls = deepseekToolCallsFromChat (mmToolCalls msg)\<rparr>) messages,
          drStream = stream, drTemperature = dsTemperature m, drMaxTokens = (if dsMaxTokens m > 0 then dsMaxTokens m else 0),
          drTools = tools, drToolChoice = (if tools \<noteq> [] then Some (lit ''auto'') else None)\<rparr>)"

section \<open>A completion\<close>

definition contentParts :: "JSON \<Rightarrow> gostring list" where
  "contentParts item =
     (case item of
        JObject entries \<Rightarrow>
          (let t = (case map_of entries (lit ''text'') of Some (JString s) \<Rightarrow> s | _ \<Rightarrow> []) in if TrimSpace t = [] then [] else [t])
      | _ \<Rightarrow> [])"

definition renderDeepSeekContent :: "JSON \<Rightarrow> gostring" where
  "renderDeepSeekContent content =
     (case content of JString t \<Rightarrow> t | JArray items \<Rightarrow> concat (concat (map contentParts items)) | _ \<Rightarrow> [])"

definition chatResponse :: "gostring \<Rightarrow> gostring \<Rightarrow> gostring \<Rightarrow> ChatToolCall list \<Rightarrow> gostring + ChatModelResponse" where
  "chatResponse finishReason role content toolCalls =
     (if TrimSpace content = [] \<and> toolCalls = [] then Inl (lit ''deepseek chat completion returned empty content'')
      else Inr \<lparr>crText = TrimSpace content, crFinishReason = finishReason,
             crMessage = \<lparr>msgRole = role, msgContent = content, mmToolCallID = [], mmToolCalls = toolCalls\<rparr>\<rparr>)"

definition decodeDeepSeekResponse :: "deepseekChoice list \<Rightarrow> gostring + ChatModelResponse" where
  "decodeDeepSeekResponse choices =
     (case choices of
        [] \<Rightarrow> Inl (lit ''deepseek chat completion returned no choices'')
      | choice # _ \<Rightarrow>
          (let role = TrimSpace (chRole choice)
           in chatResponse (TrimSpace (chFinishReason choice)) (if role = [] then lit ''assistant'' else role)
                (renderDeepSeekContent (chContent choice)) (chatToolCallsFromDeepSeek (chToolCalls choice))))"

definition deepseekErrorMessage :: "deepseekJSON \<Rightarrow> deepseekReply \<Rightarrow> gostring" where
  "deepseekErrorMessage j reply =
     (case dyBody reply of
        Inl _ \<Rightarrow> dyStatus reply
      | Inr body \<Rightarrow>
          (case djError j body of
             Some msg \<Rightarrow> if TrimSpace msg \<noteq> [] then msg else if TrimSpace body = [] then dyStatus reply else TrimSpace body
           | None \<Rightarrow> if TrimSpace body = [] then dyStatus reply else TrimSpace body))"

text \<open>\<open>post\<close> sends a request to a URL under a key.\<close>

type_synonym deepseekTransport = "gostring \<Rightarrow> gostring \<Rightarrow> deepseekChatCompletionRequest \<Rightarrow> gostring + deepseekReply"

definition sendRequest ::
    "deepseekJSON \<Rightarrow> deepseekTransport \<Rightarrow> DeepSeekChatModel \<Rightarrow> ChatModelRequest \<Rightarrow> bool \<Rightarrow> gostring + deepseekReply" where
  "sendRequest j post m request stream =
     (case post (dsBaseURL m @ lit ''/chat/completions'') (lit ''Bearer '' @ dsAPIKey m) (buildRequest m request stream) of
        Inl e \<Rightarrow> Inl e
      | Inr reply \<Rightarrow>
          (if dyStatusCode reply < 200 \<or> dyStatusCode reply \<ge> 300
           then Inl (lit ''deepseek chat completion failed: '' @ deepseekErrorMessage j reply) else Inr reply))"

definition deepseekComplete ::
    "deepseekJSON \<Rightarrow> deepseekTransport \<Rightarrow> DeepSeekChatModel \<Rightarrow> ChatModelRequest \<Rightarrow> gostring + ChatModelResponse" where
  "deepseekComplete j post m request =
     (case sendRequest j post m request False of
        Inl e \<Rightarrow> Inl e
      | Inr reply \<Rightarrow>
          (case dyBody reply of
             Inl e \<Rightarrow> Inl e
           | Inr body \<Rightarrow> (case djCompletion j body of Inl e \<Rightarrow> Inl e | Inr choices \<Rightarrow> decodeDeepSeekResponse choices)))"

section \<open>A stream\<close>

text \<open>The indexed calls of the map \<open>toolCalls\<close>; an index occurs once.\<close>

definition mergeToolCall :: "deepseekToolCallChunk \<Rightarrow> (int \<times> ChatToolCall) list \<Rightarrow> (int \<times> ChatToolCall) list" where
  "mergeToolCall c calls =
     (let merged = (case map_of calls (tkIndex c) of None \<Rightarrow> \<lparr>ctcID = [], ctcName = [], ctcArguments = []\<rparr> | Some m \<Rightarrow> m)
      in AList.update (tkIndex c)
           \<lparr>ctcID = (if TrimSpace (tkID c) \<noteq> [] then TrimSpace (tkID c) else ctcID merged),
            ctcName = (if TrimSpace (tkName c) \<noteq> [] then TrimSpace (tkName c) else ctcName merged),
            ctcArguments = ctcArguments merged @ tkArguments c\<rparr> calls)"

definition flattenIndexedToolCalls :: "(int \<times> ChatToolCall) list \<Rightarrow> ChatToolCall list" where
  "flattenIndexedToolCalls indexed =
     map (\<lambda>idx. let c = the (map_of indexed idx) in c\<lparr>ctcArguments := normalizedToolArguments (ctcArguments c)\<rparr>) (sort (map fst indexed))"

record deepseekStreamState =
  dxContent :: gostring
  dxFinishReason :: gostring
  dxRole :: gostring
  dxToolCalls :: "(int \<times> ChatToolCall) list"

definition applyDelta :: "deepseekDelta \<Rightarrow> deepseekStreamState \<Rightarrow> deepseekStreamState" where
  "applyDelta d s =
     \<lparr>dxContent = dxContent s @ ckContent d,
      dxFinishReason = (if TrimSpace (ckFinishReason d) \<noteq> [] then TrimSpace (ckFinishReason d) else dxFinishReason s),
      dxRole = (if TrimSpace (ckRole d) \<noteq> [] then TrimSpace (ckRole d) else dxRole s),
      dxToolCalls = fold mergeToolCall (ckToolCalls d) (dxToolCalls s)\<rparr>"

text \<open>The loop over the lines: an error, or the state at its end, and the texts that the sink took.\<close>

fun streamLines ::
    "(gostring \<Rightarrow> gostring + deepseekDelta list) \<Rightarrow> (gostring \<Rightarrow> gostring option) \<Rightarrow> gostring list \<Rightarrow> deepseekStreamState
      \<Rightarrow> (gostring + deepseekStreamState) \<times> gostring list" where
  "streamLines decode sink [] s = (Inr s, [])"
| "streamLines decode sink (raw # rest) s =
     (let line = TrimSpace raw; payload = TrimSpace (drop 5 line)
      in if line = [] \<or> \<not> HasPrefix line (lit ''data:'') \<or> payload = [] then streamLines decode sink rest s
         else if payload = lit ''[DONE]'' then (Inr s, [])
         else case decode payload of
           Inl e \<Rightarrow> (Inl e, [])
         | Inr [] \<Rightarrow> streamLines decode sink rest s
         | Inr (d # _) \<Rightarrow>
             (case (if ckContent d = [] then None else sink (ckContent d)) of
                Some e \<Rightarrow> (Inl e, [])
              | None \<Rightarrow>
                  (let (r, taken) = streamLines decode sink rest (applyDelta d s)
                   in (r, if ckContent d = [] then taken else ckContent d # taken))))"

definition initialStream :: deepseekStreamState where
  "initialStream = \<lparr>dxContent = [], dxFinishReason = [], dxRole = lit ''assistant'', dxToolCalls = []\<rparr>"

definition readStream ::
    "(gostring \<Rightarrow> gostring + deepseekDelta list) \<Rightarrow> (gostring \<Rightarrow> gostring option) \<Rightarrow> deepseekReply
      \<Rightarrow> (gostring + ChatModelResponse) \<times> gostring list" where
  "readStream decode sink reply =
     (case streamLines decode sink (dyLines reply) initialStream of
        (Inl e, taken) \<Rightarrow> (Inl e, taken)
      | (Inr s, taken) \<Rightarrow>
          (case dyScanErr reply of
             Some e \<Rightarrow> (Inl e, taken)
           | None \<Rightarrow> (chatResponse (dxFinishReason s) (dxRole s) (dxContent s) (flattenIndexedToolCalls (dxToolCalls s)), taken)))"

definition deepseekStream ::
    "deepseekJSON \<Rightarrow> deepseekTransport \<Rightarrow> DeepSeekChatModel \<Rightarrow> ChatModelRequest \<Rightarrow> (gostring \<Rightarrow> gostring option)
      \<Rightarrow> (gostring + ChatModelResponse) \<times> gostring list" where
  "deepseekStream j post m request sink =
     (case sendRequest j post m request True of
        Inl e \<Rightarrow> (Inl e, [])
      | Inr reply \<Rightarrow> readStream (djChunk j) sink reply)"

text \<open>The model as the executor uses it.\<close>

definition deepseekModel :: "deepseekJSON \<Rightarrow> deepseekTransport \<Rightarrow> DeepSeekChatModelConfig \<Rightarrow> ChatModel" where
  "deepseekModel j post cfg =
     StreamingModel (\<lambda>request. let (r, texts) = deepseekStream j post (NewDeepSeekChatModel cfg) request (\<lambda>_. None) in (texts, r))"

section \<open>What a stream announces\<close>

text \<open>The payloads of the events before the end of the stream, and the choices of those that decode.\<close>

definition dataPayloads :: "gostring list \<Rightarrow> gostring list" where
  "dataPayloads rows =
     takeWhile (\<lambda>p. p \<noteq> lit ''[DONE]'') (filter (\<lambda>p. p \<noteq> [])
       (map (\<lambda>l. TrimSpace (drop 5 (TrimSpace l))) (filter (\<lambda>l. HasPrefix (TrimSpace l) (lit ''data:'')) rows)))"

definition firstChoices :: "(gostring \<Rightarrow> gostring + deepseekDelta list) \<Rightarrow> gostring list \<Rightarrow> deepseekDelta list" where
  "firstChoices decode ps = concat (map (\<lambda>p. case decode p of Inr (d # _) \<Rightarrow> [d] | _ \<Rightarrow> []) ps)"

definition decodable :: "(gostring \<Rightarrow> gostring + deepseekDelta list) \<Rightarrow> gostring list \<Rightarrow> gostring list" where
  "decodable decode ps = takeWhile (\<lambda>p. \<not> isl (decode p)) ps"

text \<open>The last value that is not blank.\<close>

definition lastNonBlank :: "gostring list \<Rightarrow> gostring" where
  "lastNonBlank xs = (case filter (\<lambda>x. TrimSpace x \<noteq> []) xs of [] \<Rightarrow> [] | ys \<Rightarrow> TrimSpace (last ys))"

text \<open>The completion that the chunks stand for: every field assembled from the chunks that mention it.\<close>

definition assembledCall :: "deepseekToolCallChunk list \<Rightarrow> int \<Rightarrow> deepseekToolCall" where
  "assembledCall cs idx =
     (let mine = filter (\<lambda>c. tkIndex c = idx) cs
      in \<lparr>dtID = lastNonBlank (map tkID mine), dtType = lastNonBlank (map tkType mine), dtName = lastNonBlank (map tkName mine),
          dtArguments = concat (map tkArguments mine)\<rparr>)"

definition assembled :: "deepseekDelta list \<Rightarrow> deepseekChoice" where
  "assembled ds =
     (let cs = concat (map ckToolCalls ds)
      in \<lparr>chFinishReason = lastNonBlank (map ckFinishReason ds), chRole = lastNonBlank (map ckRole ds),
          chContent = JString (concat (map ckContent ds)), chToolCalls = map (assembledCall cs) (sort (remdups (map tkIndex cs)))\<rparr>)"

lemma lastNonBlank_Nil [simp]: "lastNonBlank [] = []"
  by (simp add: lastNonBlank_def)

lemma lastNonBlank_snoc [simp]: "lastNonBlank (xs @ [x]) = (if TrimSpace x \<noteq> [] then TrimSpace x else lastNonBlank xs)"
  by (cases "filter (\<lambda>y. TrimSpace y \<noteq> []) xs = []") (auto simp: lastNonBlank_def neq_Nil_conv)

lemma TrimSpace_lastNonBlank [simp]: "TrimSpace (lastNonBlank xs) = lastNonBlank xs"
  by (auto simp: lastNonBlank_def split: list.splits)

lemma no_data_prefix: "\<not> HasPrefix [] (lit ''data:'')"
  by (simp add: lit_def)

text \<open>The loop runs over the payloads.\<close>

lemma streamLines_payloads:
  "streamLines decode (\<lambda>_. None) rows s =
     (let ps = dataPayloads rows; good = decodable decode ps; ds = firstChoices decode good
      in (if length good < length ps then Inl (projl (decode (ps ! length good))) else Inr (fold applyDelta ds s),
          filter (\<lambda>t. t \<noteq> []) (map ckContent ds)))"
proof (induction rows arbitrary: s)
  case Nil
  then show ?case by (simp add: dataPayloads_def decodable_def firstChoices_def)
next
  case (Cons raw rest)
  let ?line = "TrimSpace raw" and ?p = "TrimSpace (drop 5 (TrimSpace raw))"
  consider (skip) "?line = [] \<or> \<not> HasPrefix ?line (lit ''data:'') \<or> ?p = []"
    | (stop) "HasPrefix ?line (lit ''data:'')" "?line \<noteq> []" "?p = lit ''[DONE]''" "?p \<noteq> []"
    | (data) "HasPrefix ?line (lit ''data:'')" "?line \<noteq> []" "?p \<noteq> lit ''[DONE]''" "?p \<noteq> []" by blast
  then show ?case
  proof cases
    case skip
    then have d: "dataPayloads (raw # rest) = dataPayloads rest" by (auto simp: dataPayloads_def no_data_prefix)
    show ?thesis using skip Cons.IH unfolding d by simp
  next
    case stop
    then have d: "dataPayloads (raw # rest) = []" by (simp add: dataPayloads_def)
    show ?thesis unfolding d using stop by (simp add: decodable_def firstChoices_def)
  next
    case data
    then have d: "dataPayloads (raw # rest) = ?p # dataPayloads rest" by (simp add: dataPayloads_def)
    show ?thesis
    proof (cases "decode ?p")
      case (Inl e)
      then show ?thesis unfolding d using data by (simp add: decodable_def firstChoices_def)
    next
      case (Inr choices)
      show ?thesis
      proof (cases choices)
        case Nil
        then show ?thesis unfolding d using data Inr Cons.IH [of s] by (simp add: decodable_def firstChoices_def Let_def)
      next
        case (Cons c cs)
        then show ?thesis unfolding d using data Inr Cons.IH [of "applyDelta c s"]
          by (simp add: decodable_def firstChoices_def Let_def)
      qed
    qed
  qed
qed

text \<open>Merging the chunks of the calls, in whatever order their indexes come.\<close>

lemma mergeToolCall_lookup:
  "map_of (mergeToolCall c calls) idx =
     (if idx = tkIndex c then
        (let merged = (case map_of calls idx of None \<Rightarrow> \<lparr>ctcID = [], ctcName = [], ctcArguments = []\<rparr> | Some m \<Rightarrow> m)
         in Some \<lparr>ctcID = (if TrimSpace (tkID c) \<noteq> [] then TrimSpace (tkID c) else ctcID merged),
             ctcName = (if TrimSpace (tkName c) \<noteq> [] then TrimSpace (tkName c) else ctcName merged),
             ctcArguments = ctcArguments merged @ tkArguments c\<rparr>)
      else map_of calls idx)"
  by (simp add: mergeToolCall_def Let_def update_conv)

lemma assembledCall_snoc:
  "assembledCall (cs @ [c]) idx =
     (let old = assembledCall cs idx
      in if tkIndex c \<noteq> idx then old
         else old\<lparr>dtID := (if TrimSpace (tkID c) \<noteq> [] then TrimSpace (tkID c) else dtID old),
                  dtType := (if TrimSpace (tkType c) \<noteq> [] then TrimSpace (tkType c) else dtType old),
                  dtName := (if TrimSpace (tkName c) \<noteq> [] then TrimSpace (tkName c) else dtName old),
                  dtArguments := dtArguments old @ tkArguments c\<rparr>)"
  by (simp add: assembledCall_def Let_def)

lemma assembledCall_absent: "idx \<notin> tkIndex ` set cs \<Longrightarrow> assembledCall cs idx = \<lparr>dtID = [], dtType = [], dtName = [], dtArguments = []\<rparr>"
proof -
  assume "idx \<notin> tkIndex ` set cs"
  then have "filter (\<lambda>c. tkIndex c = idx) cs = []" by (auto simp: filter_empty_conv)
  then show ?thesis by (simp add: assembledCall_def)
qed

lemma merged_call_fields:
  "map_of (fold mergeToolCall cs []) idx =
     (if idx \<in> tkIndex ` set cs then
        Some \<lparr>ctcID = dtID (assembledCall cs idx), ctcName = dtName (assembledCall cs idx), ctcArguments = dtArguments (assembledCall cs idx)\<rparr>
      else None)"
proof (induction cs rule: rev_induct)
  case (snoc c cs)
  have f: "fold mergeToolCall (cs @ [c]) [] = mergeToolCall c (fold mergeToolCall cs [])" by simp
  show ?case
  proof (cases "tkIndex c = idx")
    case True
    show ?thesis unfolding f mergeToolCall_lookup snoc.IH assembledCall_snoc
      using True by (cases "idx \<in> tkIndex ` set cs") (simp_all add: assembledCall_absent Let_def)
  next
    case False
    show ?thesis unfolding f mergeToolCall_lookup snoc.IH assembledCall_snoc using False by (auto simp: Let_def)
  qed
qed simp

lemma merged_call_indexes: "distinct (map fst (fold mergeToolCall cs [])) \<and> fst ` set (fold mergeToolCall cs []) = tkIndex ` set cs"
proof (induction cs rule: rev_induct)
  case (snoc c cs)
  then show ?case by (auto simp: mergeToolCall_def Let_def distinct_update dom_update)
qed simp

lemma flatten_merged:
  "flattenIndexedToolCalls (fold mergeToolCall cs []) = chatToolCallsFromDeepSeek (map (assembledCall cs) (sort (remdups (map tkIndex cs))))"
proof -
  let ?m = "fold mergeToolCall cs []"
  have "sort (map fst ?m) = sorted_list_of_set (tkIndex ` set cs)"
    using merged_call_indexes [of cs] sorted_list_of_set_sort_remdups [of "map fst ?m"] by (simp add: distinct_remdups_id)
  also have "\<dots> = sort (remdups (map tkIndex cs))" using sorted_list_of_set_sort_remdups [of "map tkIndex cs"] by simp
  finally have s: "sort (map fst ?m) = sort (remdups (map tkIndex cs))" .
  show ?thesis unfolding flattenIndexedToolCalls_def s chatToolCallsFromDeepSeek_def map_map
    by (rule map_cong) (auto simp: merged_call_fields assembledCall_def Let_def)
qed

lemma fold_applyDelta:
  "fold applyDelta ds initialStream =
     \<lparr>dxContent = concat (map ckContent ds), dxFinishReason = lastNonBlank (map ckFinishReason ds),
      dxRole = (if lastNonBlank (map ckRole ds) = [] then lit ''assistant'' else lastNonBlank (map ckRole ds)),
      dxToolCalls = fold mergeToolCall (concat (map ckToolCalls ds)) []\<rparr>"
  by (induction ds rule: rev_induct) (simp_all add: initialStream_def applyDelta_def)

text \<open>
  C29: A stream gives what the completion gives. Whatever lines the server sends, the response of a stream is that of the completion whose
  content is the concatenation of the announced pieces, whose tool calls are, by increasing index, assembled from the chunks of their index, and whose
  role and finish reason are the last ones announced; the pieces are handed on in order, each one once; a payload that does not decode is the error, after
  the pieces before it, and otherwise the error of the connection is.
\<close>
theorem stream_equals_completion:
  "readStream decode (\<lambda>_. None) reply =
     (let payloads = dataPayloads (dyLines reply); good = decodable decode payloads; ds = firstChoices decode good
      in (if length good < length payloads then Inl (projl (decode (payloads ! length good)))
          else case dyScanErr reply of Some e \<Rightarrow> Inl e | None \<Rightarrow> decodeDeepSeekResponse [assembled ds],
          filter (\<lambda>t. t \<noteq> []) (map ckContent ds)))"
  unfolding readStream_def streamLines_payloads Let_def prod.case
  by (auto simp: fold_applyDelta decodeDeepSeekResponse_def assembled_def flatten_merged renderDeepSeekContent_def Let_def split: option.splits)

end
