(* ===== verification/Recognizers.thy ===== *)
theory Recognizers
  imports Input_Preview Agent_Prompts "HOL-Library.AList" "HOL-Library.List_Lexorder"
begin

text \<open>
  The two recognisers, \<open>http_transcriber.go\<close> and \<open>iflytek_rtasr.go\<close>. The recognition service is outside the repository: it has a state
  \<open>'w\<close> of its own, and posting a request gives an error or the status and the body of the reply. Decoding a body, parsing and rendering a URL,
  escaping and signing are parameters. Audio is kept as bytes in a payload, which Base64 writes as text. A numeric field of a decoded frame is read
  by \<open>asInt\<close> only, so \<open>JInt\<close> holds its integer part.
\<close>

section \<open>The HTTP recogniser\<close>

record HTTPTranscriber =
  htEndpoint :: gostring
  htTimeout :: duration
  htLanguage :: gostring

record httpTranscriptionRequest =
  hqTurnID :: gostring
  hqTraceID :: gostring
  hqSessionID :: gostring
  hqDeviceID :: gostring
  hqCodec :: gostring
  hqSampleRateHz :: int
  hqChannels :: int
  hqLanguage :: gostring
  hqHotwords :: "gostring list"
  hqHintPhrases :: "gostring list"

text \<open>What is posted: a whole turn, the start of a stream, a piece of it, or its identifier alone.\<close>

datatype httpPayload =
    TranscribePayload httpTranscriptionRequest "byte list"
  | StartPayload httpTranscriptionRequest
  | PushPayload gostring "byte list"
  | StreamPayload gostring

record httpTranscriptionResponse =
  hrStreamID :: gostring
  hrText :: gostring
  hrPreviewText :: gostring
  hrSegments :: "gostring list"
  hrDurationMs :: int
  hrElapsedMs :: int
  hrModel :: gostring
  hrDevice :: gostring
  hrLanguage :: gostring
  hrEmotion :: gostring
  hrSpeakerID :: gostring
  hrAudioEvents :: "gostring list"
  hrEndpointReason :: gostring
  hrPartials :: "gostring list"
  hrLatestPartial :: gostring
  hrPreviewChanged :: bool
  hrPreviewEndpointReason :: gostring
  hrMode :: gostring
  hrError :: gostring

record parsedURL =
  urlOrigin :: gostring
  urlPath :: gostring
  urlRawQuery :: gostring
  urlFragment :: gostring

record 'w asrService =
  svPost :: "gostring \<Rightarrow> httpPayload \<Rightarrow> 'w \<Rightarrow> (gostring + int \<times> gostring) \<times> 'w"
  svDecode :: "gostring \<Rightarrow> gostring + httpTranscriptionResponse"
  svParseURL :: "gostring \<Rightarrow> gostring + parsedURL"
  svRender :: "parsedURL \<Rightarrow> gostring"

definition NewHTTPTranscriber :: "gostring \<Rightarrow> duration \<Rightarrow> gostring \<Rightarrow> HTTPTranscriber" where
  "NewHTTPTranscriber endpoint timeout language =
     \<lparr>htEndpoint = TrimSpace endpoint, htTimeout = (if timeout \<le> 0 then 30000 * Millisecond else timeout), htLanguage = TrimSpace language\<rparr>"

definition normalizedHintValues :: "gostring list \<Rightarrow> gostring list" where
  "normalizedHintValues values = filter (\<lambda>v. v \<noteq> []) (map TrimSpace values)"

definition transcribeSuffix :: gostring where "transcribeSuffix = lit ''/v1/asr/transcribe''"

definition streamEndpoint :: "'w asrService \<Rightarrow> HTTPTranscriber \<Rightarrow> gostring \<Rightarrow> gostring + gostring" where
  "streamEndpoint sv t route =
     (if TrimSpace (htEndpoint t) = [] then Inl (lit ''http transcriber endpoint is empty'')
      else case svParseURL sv (TrimSpace (htEndpoint t)) of
        Inl e \<Rightarrow> Inl (lit ''parse transcriber endpoint: '' @ e)
      | Inr parsed \<Rightarrow>
          (let path = TrimSpace (urlPath parsed)
           in Inr (svRender sv (parsed\<lparr>
                urlPath := (if HasSuffix path transcribeSuffix then take (length path - length transcribeSuffix) path @ route
                            else if path = [] then route
                            else TrimRight path [47] @ route),
                urlRawQuery := [], urlFragment := []\<rparr>))))"

text \<open>\<open>postJSON\<close> into a \<open>httpTranscriptionResponse\<close>; an error named in the reply is one.\<close>

definition postJSON :: "'w asrService \<Rightarrow> gostring \<Rightarrow> httpPayload \<Rightarrow> 'w \<Rightarrow> (gostring + httpTranscriptionResponse) \<times> 'w" where
  "postJSON sv endpoint payload w =
     (case svPost sv endpoint payload w of
        (Inl e, w') \<Rightarrow> (Inl e, w')
      | (Inr (status, body), w') \<Rightarrow>
          (if status \<noteq> 200 then Inl (lit ''transcriber returned '' @ Itoa status @ lit '': '' @ TrimSpace body)
           else case svDecode sv body of
             Inl e \<Rightarrow> Inl e
           | Inr r \<Rightarrow> if TrimSpace (hrError r) \<noteq> [] then Inl (hrError r) else Inr r, w'))"

definition toResult :: "gostring \<Rightarrow> httpTranscriptionResponse \<Rightarrow> TranscriptionResult" where
  "toResult defaultMode r =
     \<lparr>trText = TrimSpace (hrText r), trSegments = hrSegments r, trDurationMs = hrDurationMs r, trElapsedMs = hrElapsedMs r,
      trModel = hrModel r, trDevice = hrDevice r, trLanguage = TrimSpace (hrLanguage r), trEmotion = TrimSpace (hrEmotion r),
      trSpeakerID = TrimSpace (hrSpeakerID r), trAudioEvents = hrAudioEvents r, trEndpointReason = TrimSpace (hrEndpointReason r),
      trPartials = hrPartials r, trMode = (if TrimSpace (hrMode r) = [] then defaultMode else TrimSpace (hrMode r))\<rparr>"

text \<open>The fields a whole turn and a stream have in common; only a stream is told its turn and its trace.\<close>

definition httpRequest :: "HTTPTranscriber \<Rightarrow> TranscriptionRequest \<Rightarrow> httpTranscriptionRequest" where
  "httpRequest t req =
     \<lparr>hqTurnID = trqTurnID req, hqTraceID = trqTraceID req, hqSessionID = trqSessionID req, hqDeviceID = trqDeviceID req,
      hqCodec = trqCodec req, hqSampleRateHz = trqSampleRateHz req, hqChannels = trqChannels req,
      hqLanguage = firstNonEmpty [trqLanguage req, htLanguage t, lit ''auto''],
      hqHotwords = normalizedHintValues (trqHotwords req), hqHintPhrases = normalizedHintValues (trqHintPhrases req)\<rparr>"

definition httpTranscribe :: "'w asrService \<Rightarrow> HTTPTranscriber \<Rightarrow> TranscriptionRequest \<Rightarrow> 'w \<Rightarrow> (gostring + TranscriptionResult) \<times> 'w" where
  "httpTranscribe sv t req w =
     (if TrimSpace (htEndpoint t) = [] then (Inl (lit ''http transcriber endpoint is empty''), w)
      else case postJSON sv (htEndpoint t)
             (TranscribePayload ((httpRequest t req)\<lparr>hqTurnID := [], hqTraceID := []\<rparr>) (trqAudioPCM req)) w of
        (Inl e, w') \<Rightarrow> (Inl e, w')
      | (Inr decoded, w') \<Rightarrow> (Inr (toResult (lit ''batch'') decoded), w'))"

section \<open>Its streams\<close>

record httpStreamingSession =
  hsStreamID :: gostring
  hsStarted :: bool
  hsClosed :: bool
  hsTotalAudioBytes :: int
  hsLastPartial :: gostring
  hsLastEndpointReason :: gostring

definition httpStartStream :: "'w asrService \<Rightarrow> HTTPTranscriber \<Rightarrow> TranscriptionRequest \<Rightarrow> 'w \<Rightarrow> (gostring + httpStreamingSession) \<times> 'w" where
  "httpStartStream sv t req w =
     (if TrimSpace (htEndpoint t) = [] then (Inl (lit ''http transcriber endpoint is empty''), w)
      else case streamEndpoint sv t (lit ''/v1/asr/stream/start'') of
        Inl e \<Rightarrow> (Inl e, w)
      | Inr startURL \<Rightarrow>
          (case postJSON sv startURL (StartPayload (httpRequest t req)) w of
             (Inl e, w') \<Rightarrow> (Inl e, w')
           | (Inr decoded, w') \<Rightarrow>
               (if TrimSpace (hrStreamID decoded) = [] then Inl (lit ''http streaming transcriber returned empty stream_id'')
                else Inr \<lparr>hsStreamID = TrimSpace (hrStreamID decoded), hsStarted = False, hsClosed = False, hsTotalAudioBytes = 0,
                          hsLastPartial = [], hsLastEndpointReason = []\<rparr>, w')))"

text \<open>The hypothesis a reply to a piece of audio carries, and what is announced of it.\<close>

definition previewOf :: "httpTranscriptionResponse \<Rightarrow> gostring" where
  "previewOf r =
     (let p = TrimSpace (hrPreviewText r);
          q = (if p = [] then TrimSpace (hrText r) else p)
      in if q = [] \<and> hrPreviewChanged r then TrimSpace (hrLatestPartial r) else q)"

definition observePush ::
    "deltaSink \<Rightarrow> httpTranscriptionResponse \<Rightarrow> httpStreamingSession \<Rightarrow> gostring option \<times> httpStreamingSession \<times> TranscriptionDelta list" where
  "observePush sink decoded s =
     (let preview = previewOf decoded; reason = TrimSpace (hrPreviewEndpointReason decoded);
          delta = \<lparr>deltaKind = DeltaPartial, deltaText = preview, deltaEndpointReason = reason, deltaAudioBytes = hsTotalAudioBytes s\<rparr>
      in if preview \<noteq> [] \<and> (preview \<noteq> hsLastPartial s \<or> reason \<noteq> hsLastEndpointReason s) then
           (case sink delta of
              Some e \<Rightarrow> (Some e, s, [])
            | None \<Rightarrow> (None, s\<lparr>hsLastPartial := preview, hsLastEndpointReason := reason\<rparr>, [delta]))
         else (None, s, []))"

definition postChunk ::
    "'w asrService \<Rightarrow> HTTPTranscriber \<Rightarrow> deltaSink \<Rightarrow> byte list \<Rightarrow> httpStreamingSession \<Rightarrow> 'w
      \<Rightarrow> (gostring option \<times> httpStreamingSession \<times> TranscriptionDelta list) \<times> 'w" where
  "postChunk sv t sink chunk s w =
     (case streamEndpoint sv t (lit ''/v1/asr/stream/push'') of
        Inl e \<Rightarrow> ((Some e, s, []), w)
      | Inr pushURL \<Rightarrow>
          (case postJSON sv pushURL (PushPayload (hsStreamID s) chunk) w of
             (Inl e, w') \<Rightarrow> ((Some e, s, []), w')
           | (Inr decoded, w') \<Rightarrow>
               (observePush sink decoded (s\<lparr>hsTotalAudioBytes := hsTotalAudioBytes s + int (length chunk)\<rparr>), w')))"

definition httpPushAudio ::
    "'w asrService \<Rightarrow> HTTPTranscriber \<Rightarrow> deltaSink \<Rightarrow> byte list \<Rightarrow> httpStreamingSession \<Rightarrow> 'w
      \<Rightarrow> (gostring option \<times> httpStreamingSession \<times> TranscriptionDelta list) \<times> 'w" where
  "httpPushAudio sv t sink chunk s w =
     (let delta = \<lparr>deltaKind = DeltaSpeechStart, deltaText = [], deltaEndpointReason = [], deltaAudioBytes = int (length chunk)\<rparr>
      in if hsClosed s then ((Some (lit ''streaming transcription session is closed''), s, []), w)
         else if chunk = [] then ((None, s, []), w)
         else if hsStarted s then postChunk sv t sink chunk s w
         else case sink delta of
           Some e \<Rightarrow> ((Some e, s, []), w)
         | None \<Rightarrow>
             (case postChunk sv t sink chunk (s\<lparr>hsStarted := True\<rparr>) w of
                ((e, s', ds), w') \<Rightarrow> ((e, s', delta # ds), w')))"

text \<open>The end of speech and the final text; the session is closed whatever the sink says.\<close>

definition finishDeltas ::
    "deltaSink \<Rightarrow> httpTranscriptionResponse \<Rightarrow> httpStreamingSession \<Rightarrow> (gostring + TranscriptionResult) \<times> TranscriptionDelta list" where
  "finishDeltas sink decoded s =
     (let result = toResult (lit ''stream'') decoded;
          ended = \<lparr>deltaKind = DeltaSpeechEnd, deltaText = [], deltaEndpointReason = TrimSpace (hrEndpointReason decoded), deltaAudioBytes = hsTotalAudioBytes s\<rparr>;
          final = \<lparr>deltaKind = DeltaFinal, deltaText = trText result, deltaEndpointReason = trEndpointReason result, deltaAudioBytes = hsTotalAudioBytes s\<rparr>;
          announced = (if hsStarted s then [ended] else [])
      in case (if hsStarted s then sink ended else None) of
           Some e \<Rightarrow> (Inl e, [])
         | None \<Rightarrow>
             (if TrimSpace (trText result) = [] then (Inr result, announced)
              else case sink final of
                Some e \<Rightarrow> (Inl e, announced)
              | None \<Rightarrow> (Inr result, announced @ [final])))"

definition httpFinish ::
    "'w asrService \<Rightarrow> HTTPTranscriber \<Rightarrow> deltaSink \<Rightarrow> httpStreamingSession \<Rightarrow> 'w
      \<Rightarrow> ((gostring + TranscriptionResult) \<times> httpStreamingSession \<times> TranscriptionDelta list) \<times> 'w" where
  "httpFinish sv t sink s w =
     (if hsClosed s then ((Inl (lit ''streaming transcription session is closed''), s, []), w)
      else case streamEndpoint sv t (lit ''/v1/asr/stream/finish'') of
        Inl e \<Rightarrow> ((Inl e, s, []), w)
      | Inr finishURL \<Rightarrow>
          (case postJSON sv finishURL (StreamPayload (hsStreamID s)) w of
             (Inl e, w') \<Rightarrow> ((Inl e, s\<lparr>hsClosed := True\<rparr>, []), w')
           | (Inr decoded, w') \<Rightarrow>
               (case finishDeltas sink decoded s of (r, ds) \<Rightarrow> ((r, s\<lparr>hsClosed := True\<rparr>, ds), w'))))"

definition httpClose ::
    "'w asrService \<Rightarrow> HTTPTranscriber \<Rightarrow> httpStreamingSession \<Rightarrow> 'w \<Rightarrow> (gostring option \<times> httpStreamingSession) \<times> 'w" where
  "httpClose sv t s w =
     (if hsClosed s then ((None, s), w)
      else case streamEndpoint sv t (lit ''/v1/asr/stream/close'') of
        Inl e \<Rightarrow> ((Some e, s), w)
      | Inr closeURL \<Rightarrow>
          (case postJSON sv closeURL (StreamPayload (hsStreamID s)) w of
             (Inl e, w') \<Rightarrow> ((Some e, s\<lparr>hsClosed := True\<rparr>), w')
           | (Inr _, w') \<Rightarrow> ((None, s\<lparr>hsClosed := True\<rparr>), w')))"

section \<open>The iFlytek recogniser\<close>

definition defaultIflytekRTASRScheme :: gostring where "defaultIflytekRTASRScheme = lit ''ws''"
definition defaultIflytekRTASRHost :: gostring where "defaultIflytekRTASRHost = lit ''office-api-ast-dx.iflyaisol.com''"
definition defaultIflytekRTASRPath :: gostring where "defaultIflytekRTASRPath = lit ''/ast/communicate/v1''"
definition defaultIflytekRTASRAudioEncode :: gostring where "defaultIflytekRTASRAudioEncode = lit ''pcm_s16le''"
definition defaultIflytekRTASRLanguage :: gostring where "defaultIflytekRTASRLanguage = lit ''autodialect''"
definition defaultIflytekRTASRSampleRateHz :: int where "defaultIflytekRTASRSampleRateHz = 16000"
definition defaultIflytekRTASRFrameBytes :: int where "defaultIflytekRTASRFrameBytes = 1280"
definition defaultIflytekRTASRFrameInterval :: duration where "defaultIflytekRTASRFrameInterval = 40 * Millisecond"
definition defaultIflytekRTASRTimeout :: duration where "defaultIflytekRTASRTimeout = 30000 * Millisecond"

text \<open>The configuration; \<open>IflytekRTASRTranscriber\<close> has the same fields.\<close>

record IflytekRTASRConfig =
  irAppID :: gostring
  irAccessKeyID :: gostring
  irAccessKeySecret :: gostring
  irScheme :: gostring
  irHost :: gostring
  irPort :: int
  irPath :: gostring
  irAudioEncode :: gostring
  irLanguage :: gostring
  irSampleRateHz :: int
  irTimeout :: duration
  irFrameBytes :: int
  irFrameInterval :: duration

definition NewIflytekRTASRTranscriber :: "IflytekRTASRConfig \<Rightarrow> IflytekRTASRConfig" where
  "NewIflytekRTASRTranscriber cfg =
     (let scheme = (if ToLower (TrimSpace (irScheme cfg)) = [] then defaultIflytekRTASRScheme else ToLower (TrimSpace (irScheme cfg)))
      in \<lparr>irAppID = TrimSpace (irAppID cfg), irAccessKeyID = TrimSpace (irAccessKeyID cfg), irAccessKeySecret = TrimSpace (irAccessKeySecret cfg),
          irScheme = scheme, irHost = TrimSpace (irHost cfg),
          irPort = (if irPort cfg \<le> 0 then if scheme = lit ''wss'' then 443 else 80 else irPort cfg),
          irPath = TrimSpace (irPath cfg),
          irAudioEncode = firstNonEmpty [TrimSpace (irAudioEncode cfg), defaultIflytekRTASRAudioEncode],
          irLanguage = firstNonEmpty [TrimSpace (irLanguage cfg), defaultIflytekRTASRLanguage],
          irSampleRateHz = (if irSampleRateHz cfg \<le> 0 then defaultIflytekRTASRSampleRateHz else irSampleRateHz cfg),
          irTimeout = (if irTimeout cfg \<le> 0 then defaultIflytekRTASRTimeout else irTimeout cfg),
          irFrameBytes = (if irFrameBytes cfg \<le> 0 then defaultIflytekRTASRFrameBytes else irFrameBytes cfg),
          irFrameInterval = (if irFrameInterval cfg \<le> 0 then defaultIflytekRTASRFrameInterval else irFrameInterval cfg)\<rparr>)"

text \<open>The address and what is signed; \<open>utc\<close> and \<open>uuid\<close> are read off the clock. \<open>queryEncode\<close> is \<open>url.Values.Encode\<close>.\<close>

record rtasrCodec =
  rcEscape :: "gostring \<Rightarrow> gostring"
  rcSign :: "gostring \<Rightarrow> gostring \<Rightarrow> gostring"
  rcQueryEncode :: "(gostring \<times> gostring) list \<Rightarrow> gostring"
  rcRender :: "gostring \<Rightarrow> gostring \<Rightarrow> gostring \<Rightarrow> gostring \<Rightarrow> gostring"

definition rtasrParams :: "IflytekRTASRConfig \<Rightarrow> gostring \<Rightarrow> gostring \<Rightarrow> (gostring \<times> gostring) list" where
  "rtasrParams t utc uuid =
     [(lit ''accessKeyId'', irAccessKeyID t), (lit ''appId'', irAppID t), (lit ''audio_encode'', irAudioEncode t), (lit ''lang'', irLanguage t),
      (lit ''samplerate'', Itoa (irSampleRateHz t)), (lit ''utc'', utc), (lit ''uuid'', uuid)]"

definition buildIflytekRTASRQuery :: "rtasrCodec \<Rightarrow> IflytekRTASRConfig \<Rightarrow> gostring \<Rightarrow> gostring \<Rightarrow> gostring" where
  "buildIflytekRTASRQuery cd t utc uuid =
     (let params = sort_key fst (rtasrParams t utc uuid);
          encodedPairs = map (\<lambda>(k, v). rcEscape cd k @ [61] @ rcEscape cd v) params;
          signature = rcSign cd (irAccessKeySecret t) (JoinStrings [38] encodedPairs)
      in rcQueryEncode cd (params @ [(lit ''signature'', signature)]))"

definition buildIflytekRTASRURL :: "rtasrCodec \<Rightarrow> gostring \<Rightarrow> gostring \<Rightarrow> int \<Rightarrow> gostring \<Rightarrow> gostring \<Rightarrow> gostring" where
  "buildIflytekRTASRURL cd scheme0 host0 port0 path0 rawQuery =
     (let host = firstNonEmpty [TrimSpace host0, defaultIflytekRTASRHost];
          path = firstNonEmpty [TrimSpace path0, defaultIflytekRTASRPath];
          port = (if port0 \<le> 0 then if scheme0 = lit ''wss'' then 443 else 80 else port0);
          scheme = firstNonEmpty [TrimSpace scheme0, defaultIflytekRTASRScheme]
      in rcRender cd scheme
           (if scheme = lit ''ws'' \<and> port \<noteq> 80 \<or> scheme = lit ''wss'' \<and> port \<noteq> 443 then host @ [58] @ Itoa port else host)
           path rawQuery)"

definition rtasrValidate :: "IflytekRTASRConfig \<Rightarrow> TranscriptionRequest \<Rightarrow> gostring option" where
  "rtasrValidate t req =
     (if TrimSpace (irAppID t) = [] \<or> TrimSpace (irAccessKeyID t) = [] \<or> TrimSpace (irAccessKeySecret t) = []
      then Some (lit ''iflytek rtasr credentials are incomplete'')
      else if TrimSpace (trqCodec req) \<noteq> [] \<and> ToLower (TrimSpace (trqCodec req)) \<noteq> lit ''pcm16le''
      then Some (lit ''iflytek rtasr expects pcm16le input, got '' @ trqCodec req)
      else if trqChannels req > 0 \<and> trqChannels req \<noteq> 1
      then Some (lit ''iflytek rtasr expects mono input, got '' @ Itoa (trqChannels req) @ lit '' channels'')
      else if trqSampleRateHz req > 0 \<and> trqSampleRateHz req \<noteq> irSampleRateHz t
      then Some (lit ''iflytek rtasr expects '' @ Itoa (irSampleRateHz t) @ lit '' Hz input, got '' @ Itoa (trqSampleRateHz req))
      else if trqAudioPCM req = [] then Some (lit ''iflytek rtasr audio payload is empty'')
      else None)"

section \<open>Its frames\<close>

type_synonym jsonFields = "(gostring \<times> JSON) list"

fun asMap :: "JSON option \<Rightarrow> jsonFields" where
  "asMap (Some (JObject fs)) = fs"
| "asMap _ = []"

fun asInt :: "JSON option \<Rightarrow> int option" where
  "asInt (Some (JInt n)) = Some n"
| "asInt _ = None"

fun asText :: "JSON option \<Rightarrow> gostring" where
  "asText (Some (JString t)) = t"
| "asText _ = []"

fun asList :: "JSON option \<Rightarrow> JSON list" where
  "asList (Some (JArray xs)) = xs"
| "asList _ = []"

definition frameData :: "jsonFields \<Rightarrow> jsonFields" where
  "frameData message = asMap (map_of message (lit ''data''))"

text \<open>The candidates of a word: the first that is not blank.\<close>

fun firstToken :: "JSON list \<Rightarrow> gostring list" where
  "firstToken [] = []"
| "firstToken (c # cs) =
     (let token = asText (map_of (asMap (Some c)) (lit ''w'')) in if TrimSpace token \<noteq> [] then [token] else firstToken cs)"

definition extractIflytekRTASRText :: "jsonFields \<Rightarrow> gostring" where
  "extractIflytekRTASRText message =
     (let data = frameData message; directText = asText (map_of data (lit ''text''))
      in if TrimSpace directText \<noteq> [] then TrimSpace directText
         else concat (concat (map (\<lambda>rt.
                concat (map (\<lambda>ws. firstToken (asList (map_of (asMap (Some ws)) (lit ''cw'')))) (asList (map_of (asMap (Some rt)) (lit ''ws'')))))
              (asList (map_of (asMap (map_of (asMap (map_of data (lit ''cn''))) (lit ''st''))) (lit ''rt''))))))"

definition extractIflytekRTASRSegmentID :: "jsonFields \<Rightarrow> int option" where
  "extractIflytekRTASRSegmentID message = asInt (map_of (frameData message) (lit ''seg_id''))"

definition extractIflytekRTASRLastSegment :: "jsonFields \<Rightarrow> bool" where
  "extractIflytekRTASRLastSegment message \<longleftrightarrow> map_of (frameData message) (lit ''ls'') = Some (JBool True)"

text \<open>A frame that is read: an error, or its type and its payload decoded. When none is left the deadline passes.\<close>

type_synonym rtasrFrame = "gostring + int \<times> (gostring + jsonFields)"

definition readJSONWebsocketMessage :: "rtasrFrame \<Rightarrow> gostring + jsonFields" where
  "readJSONWebsocketMessage f =
     (case f of
        Inl e \<Rightarrow> Inl e
      | Inr (messageType, decoded) \<Rightarrow>
          if messageType \<noteq> 1 \<and> messageType \<noteq> 2 then Inl (lit ''unsupported websocket message type '' @ Itoa messageType) else decoded)"

definition readTimeout :: gostring where "readTimeout = lit ''i/o timeout''"

record rtasrTranscript =
  rtSegmentsByID :: "(int \<times> gostring) list"
  rtTrailing :: "gostring list"
  rtPartials :: "gostring list"

definition noteFrameText :: "jsonFields \<Rightarrow> rtasrTranscript \<Rightarrow> rtasrTranscript" where
  "noteFrameText message r =
     (let t = TrimSpace (extractIflytekRTASRText message)
      in if t = [] then r
         else let r' = r\<lparr>rtPartials := rtPartials r @ [t]\<rparr>
           in case extractIflytekRTASRSegmentID message of
                Some segID \<Rightarrow> r'\<lparr>rtSegmentsByID := AList.update segID t (rtSegmentsByID r')\<rparr>
              | None \<Rightarrow> r'\<lparr>rtTrailing := rtTrailing r' @ [t]\<rparr>)"

definition frameError :: "jsonFields \<Rightarrow> gostring option" where
  "frameError message =
     (if ToLower (asText (map_of message (lit ''action''))) = lit ''error'' then Some (lit ''iflytek rtasr returned action=error'')
      else case asInt (map_of message (lit ''code'')) of
        Some code \<Rightarrow> if code \<noteq> 0 then Some (lit ''iflytek rtasr returned code='' @ Itoa code) else None
      | None \<Rightarrow> None)"

fun readSegments :: "rtasrFrame list \<Rightarrow> rtasrTranscript \<Rightarrow> gostring + rtasrTranscript" where
  "readSegments [] r = Inl readTimeout"
| "readSegments (f # fs) r =
     (case readJSONWebsocketMessage f of
        Inl e \<Rightarrow> Inl e
      | Inr message \<Rightarrow>
          (case frameError message of
             Some e \<Rightarrow> Inl e
           | None \<Rightarrow>
               (if extractIflytekRTASRLastSegment message then Inr (noteFrameText message r)
                else readSegments fs (noteFrameText message r))))"

definition rtasrSegments :: "rtasrTranscript \<Rightarrow> gostring list" where
  "rtasrSegments r =
     filter (\<lambda>s. s \<noteq> []) (map (\<lambda>i. TrimSpace (the (map_of (rtSegmentsByID r) i))) (sort (map fst (rtSegmentsByID r)))) @ rtTrailing r"

definition pcm16DurationMs :: "byte list \<Rightarrow> int \<Rightarrow> int \<Rightarrow> int" where
  "pcm16DurationMs audioPCM rate chans =
     (if rate \<le> 0 \<or> chans \<le> 0 \<or> audioPCM = [] then 0
      else let samples = int (length audioPCM) div 2 div chans in if samples \<le> 0 then 0 else int64 (samples * 1000) sdiv rate)"

definition rtasrResult :: "IflytekRTASRConfig \<Rightarrow> TranscriptionRequest \<Rightarrow> rtasrTranscript \<Rightarrow> TranscriptionResult" where
  "rtasrResult t req r =
     emptyTranscription\<lparr>trText := concat (rtasrSegments r), trSegments := rtasrSegments r,
       trDurationMs := pcm16DurationMs (trqAudioPCM req) (irSampleRateHz t) 1, trModel := lit ''iflytek_rtasr'', trDevice := lit ''cloud'',
       trLanguage := firstNonEmpty [TrimSpace (trqLanguage req), TrimSpace (irLanguage t)], trEndpointReason := lit ''last_segment'',
       trPartials := rtPartials r\<rparr>"

text \<open>What is written, and the error of a write or of the context before it.\<close>

datatype rtasrMessage = AudioMessage "byte list" | EndMessage gostring

fun writeMessages :: "(rtasrMessage \<Rightarrow> gostring option) \<Rightarrow> rtasrMessage list \<Rightarrow> gostring option \<times> rtasrMessage list" where
  "writeMessages write [] = (None, [])"
| "writeMessages write (m # ms) =
     (case write m of
        Some e \<Rightarrow> (Some e, [])
      | None \<Rightarrow> (case writeMessages write ms of (r, sent) \<Rightarrow> (r, m # sent)))"

definition audioMessages :: "byte list \<Rightarrow> int \<Rightarrow> rtasrMessage list" where
  "audioMessages audioPCM frameBytes0 =
     (let frameBytes = (if frameBytes0 \<le> 0 then defaultIflytekRTASRFrameBytes else frameBytes0)
      in map AudioMessage (chunkLoop audioPCM frameBytes 0))"

text \<open>The conversation: greeting, audio, end, segments up to the last.\<close>

definition rtasrConversation ::
    "IflytekRTASRConfig \<Rightarrow> (rtasrMessage \<Rightarrow> gostring option) \<Rightarrow> rtasrFrame list \<Rightarrow> TranscriptionRequest
      \<Rightarrow> (gostring + TranscriptionResult) \<times> rtasrMessage list" where
  "rtasrConversation t write frames req =
     (case frames of
        [] \<Rightarrow> (Inl readTimeout, [])
      | f # fs \<Rightarrow>
          (case readJSONWebsocketMessage f of
             Inl e \<Rightarrow> (Inl e, [])
           | Inr started \<Rightarrow>
               (let sessionID = asText (map_of (frameData started) (lit ''sessionId''))
                in case writeMessages write (audioMessages (trqAudioPCM req) (irFrameBytes t) @ [EndMessage sessionID]) of
                     (Some e, sent) \<Rightarrow> (Inl e, sent)
                   | (None, sent) \<Rightarrow>
                       (case readSegments fs \<lparr>rtSegmentsByID = [], rtTrailing = [], rtPartials = []\<rparr> of
                          Inl e \<Rightarrow> (Inl e, sent)
                        | Inr r \<Rightarrow> (Inr (rtasrResult t req r), sent)))))"

text \<open>\<open>dial\<close> gives the error of the handshake, or how writes to the connection fare and the frames it delivers.\<close>

definition iflytekTranscribe ::
    "rtasrCodec \<Rightarrow> (gostring \<Rightarrow> gostring + (rtasrMessage \<Rightarrow> gostring option) \<times> rtasrFrame list) \<Rightarrow> gostring \<Rightarrow> gostring
      \<Rightarrow> IflytekRTASRConfig \<Rightarrow> TranscriptionRequest \<Rightarrow> (gostring + TranscriptionResult) \<times> rtasrMessage list" where
  "iflytekTranscribe cd dial utc uuid t req =
     (case rtasrValidate t req of
        Some e \<Rightarrow> (Inl e, [])
      | None \<Rightarrow>
          (case dial (buildIflytekRTASRURL cd (irScheme t) (irHost t) (irPort t) (irPath t) (buildIflytekRTASRQuery cd t utc uuid)) of
             Inl e \<Rightarrow> (Inl e, [])
           | Inr (write, frames) \<Rightarrow> rtasrConversation t write frames req))"

section \<open>The deltas of a stream\<close>

text \<open>
  What a stream may announce: at most one start of speech, before the hypotheses; hypotheses that are not blank, differ from the one before and
  cover more audio; then at most the end of speech, of speech that has started, and the final text, which cover no less.
\<close>

definition speech_order :: "TranscriptionDelta list \<Rightarrow> TranscriptionDelta list \<Rightarrow> TranscriptionDelta list \<Rightarrow> bool" where
  "speech_order beginning partials ending \<longleftrightarrow>
     map deltaKind beginning \<in> {[], [DeltaSpeechStart]} \<and> (partials \<noteq> [] \<longrightarrow> beginning \<noteq> [])
     \<and> (\<forall>p\<in>set partials. deltaKind p = DeltaPartial \<and> deltaText p \<noteq> [])
     \<and> successively (\<lambda>p q. deltaAudioBytes p < deltaAudioBytes q
          \<and> (deltaText p \<noteq> deltaText q \<or> deltaEndpointReason p \<noteq> deltaEndpointReason q)) partials
     \<and> map deltaKind ending \<in> {[], [DeltaSpeechEnd], [DeltaFinal], [DeltaSpeechEnd, DeltaFinal]}
     \<and> (DeltaSpeechEnd \<in> set (map deltaKind ending) \<longrightarrow> beginning \<noteq> [])
     \<and> (\<forall>p\<in>set partials. \<forall>q\<in>set ending. deltaAudioBytes p \<le> deltaAudioBytes q)"

lemma speech_order_snoc:
  assumes "speech_order beginning partials []" and "beginning \<noteq> []" and "deltaKind d = DeltaPartial" and "deltaText d \<noteq> []"
    and "partials \<noteq> [] \<Longrightarrow> deltaAudioBytes (last partials) < deltaAudioBytes d
      \<and> (deltaText (last partials) \<noteq> deltaText d \<or> deltaEndpointReason (last partials) \<noteq> deltaEndpointReason d)"
  shows "speech_order beginning (partials @ [d]) []"
  using assms by (auto simp: speech_order_def successively_append_iff)

text \<open>A stream in the middle of its life, with what it has announced so far.\<close>

definition stream_inv :: "httpStreamingSession \<Rightarrow> TranscriptionDelta list \<Rightarrow> bool" where
  "stream_inv s ds \<longleftrightarrow> (\<exists>beginning partials ending. ds = beginning @ partials @ ending \<and> speech_order beginning partials ending
     \<and> (hsStarted s \<longleftrightarrow> beginning \<noteq> []) \<and> (\<not> hsClosed s \<longrightarrow> ending = [])
     \<and> (partials \<noteq> [] \<longrightarrow> deltaText (last partials) = hsLastPartial s \<and> deltaEndpointReason (last partials) = hsLastEndpointReason s)
     \<and> (\<forall>p\<in>set partials. deltaAudioBytes p \<le> hsTotalAudioBytes s))"

lemma stream_inv_cong:
  assumes "stream_inv s ds" and "hsStarted s' = hsStarted s" and "hsClosed s \<Longrightarrow> hsClosed s'"
    and "hsLastPartial s' = hsLastPartial s" "hsLastEndpointReason s' = hsLastEndpointReason s" "hsTotalAudioBytes s \<le> hsTotalAudioBytes s'"
  shows "stream_inv s' ds"
proof -
  from assms(1) obtain beginning partials ending where a: "ds = beginning @ partials @ ending" "speech_order beginning partials ending"
      "hsStarted s \<longleftrightarrow> beginning \<noteq> []" "\<not> hsClosed s \<longrightarrow> ending = []"
      "partials \<noteq> [] \<longrightarrow> deltaText (last partials) = hsLastPartial s \<and> deltaEndpointReason (last partials) = hsLastEndpointReason s"
      "\<forall>p\<in>set partials. deltaAudioBytes p \<le> hsTotalAudioBytes s"
    unfolding stream_inv_def by blast
  have bytes: "\<forall>p\<in>set partials. deltaAudioBytes p \<le> hsTotalAudioBytes s'" using a(6) assms(6) by (meson order_trans)
  have open_: "\<not> hsClosed s' \<longrightarrow> ending = []" using a(4) assms(3) by blast
  have s': "hsStarted s' \<longleftrightarrow> beginning \<noteq> []"
      "partials \<noteq> [] \<longrightarrow> deltaText (last partials) = hsLastPartial s' \<and> deltaEndpointReason (last partials) = hsLastEndpointReason s'"
    unfolding assms(2,4,5) by (fact a(3), fact a(5))
  show ?thesis unfolding stream_inv_def
    by (intro exI [of _ beginning] exI [of _ partials] exI [of _ ending] conjI) (fact a(1) a(2) s' open_ bytes)+
qed

lemma start_inv:
  assumes "stream_inv s ds" and "\<not> hsStarted s" and "\<not> hsClosed s" and "deltaKind d = DeltaSpeechStart"
  shows "stream_inv (s\<lparr>hsStarted := True\<rparr>) (ds @ [d])"
proof -
  from assms(1-3) have "ds = []" by (auto simp: stream_inv_def speech_order_def)
  then have "ds @ [d] = [d] @ [] @ [] \<and> speech_order [d] [] []" using assms(4) by (simp add: speech_order_def)
  then show ?thesis unfolding stream_inv_def by (intro exI [of _ "[d]"] exI [of _ "[]"]) simp
qed

lemma observe_inv:
  assumes "stream_inv s ds" and "hsStarted s" and "\<not> hsClosed s" and "0 < n"
    and "observePush sink decoded (s\<lparr>hsTotalAudioBytes := hsTotalAudioBytes s + n\<rparr>) = (e, s', ds')"
  shows "stream_inv s' (ds @ ds')"
proof -
  let ?s = "s\<lparr>hsTotalAudioBytes := hsTotalAudioBytes s + n\<rparr>" and ?p = "previewOf decoded" and ?r = "TrimSpace (hrPreviewEndpointReason decoded)"
  let ?d = "\<lparr>deltaKind = DeltaPartial, deltaText = ?p, deltaEndpointReason = ?r, deltaAudioBytes = hsTotalAudioBytes s + n\<rparr>"
  have kept: "stream_inv ?s ds" by (rule stream_inv_cong [OF assms(1)]) (use assms(4) in simp_all)
  from assms(1,3) obtain beginning partials where a: "ds = beginning @ partials" "speech_order beginning partials []"
      "hsStarted s \<longleftrightarrow> beginning \<noteq> []" 
      "partials \<noteq> [] \<longrightarrow> deltaText (last partials) = hsLastPartial s \<and> deltaEndpointReason (last partials) = hsLastEndpointReason s"
      "\<forall>p\<in>set partials. deltaAudioBytes p \<le> hsTotalAudioBytes s"
    unfolding stream_inv_def by auto
  have cases: "(s', ds') = (?s, []) \<or> (?p \<noteq> [] \<and> (?p \<noteq> hsLastPartial s \<or> ?r \<noteq> hsLastEndpointReason s)
      \<and> (s', ds') = (?s\<lparr>hsLastPartial := ?p, hsLastEndpointReason := ?r\<rparr>, [?d]))"
    using assms(5) unfolding observePush_def Let_def by (cases "sink ?d") (simp_all split: if_split_asm)
  show ?thesis
  proof (cases "ds' = []")
    case True
    with cases have "s' = ?s" by simp
    with True kept show ?thesis by simp
  next
    case False
    with cases have new: "?p \<noteq> []" "?p \<noteq> hsLastPartial s \<or> ?r \<noteq> hsLastEndpointReason s" "ds' = [?d]"
      and s': "s' = ?s\<lparr>hsLastPartial := ?p, hsLastEndpointReason := ?r\<rparr>" by simp_all
    have "speech_order beginning (partials @ [?d]) []"
    proof (rule speech_order_snoc [OF a(2)])
      show "beginning \<noteq> []" using a(3) assms(2) by simp
      assume ne: "partials \<noteq> []"
      with a(5) have "deltaAudioBytes (last partials) \<le> hsTotalAudioBytes s" by simp
      then show "deltaAudioBytes (last partials) < deltaAudioBytes ?d
          \<and> (deltaText (last partials) \<noteq> deltaText ?d \<or> deltaEndpointReason (last partials) \<noteq> deltaEndpointReason ?d)"
        using a(4) ne new(2) assms(4) by auto
    qed (simp_all add: new(1))
    then show ?thesis unfolding stream_inv_def new(3) s' using a assms(2,4)
      by (intro exI [of _ beginning] exI [of _ "partials @ [?d]"] exI [of _ "[]"]) fastforce
  qed
qed

lemma post_inv:
  assumes "stream_inv s ds" and "hsStarted s" and "\<not> hsClosed s" and "chunk \<noteq> []" and "postChunk sv t sink chunk s w = ((e, s', ds'), w')"
  shows "stream_inv s' (ds @ ds')"
  using assms observe_inv [OF assms(1-3), of "int (length chunk)"] by (auto simp: postChunk_def split: sum.splits prod.splits)

lemma push_inv:
  assumes "stream_inv s ds" and "httpPushAudio sv t sink chunk s w = ((e, s', ds'), w')"
  shows "stream_inv s' (ds @ ds')"
proof (cases "hsClosed s \<or> chunk = []")
  case True
  with assms show ?thesis by (auto simp: httpPushAudio_def Let_def split: if_splits)
next
  case False
  let ?d = "\<lparr>deltaKind = DeltaSpeechStart, deltaText = [], deltaEndpointReason = [], deltaAudioBytes = int (length chunk)\<rparr>"
  show ?thesis
  proof (cases "hsStarted s")
    case True
    with assms False post_inv [OF assms(1) True] show ?thesis by (auto simp: httpPushAudio_def Let_def)
  next
    case unstarted: False
    show ?thesis
    proof (cases "sink ?d")
      case (Some x)
      with assms False unstarted show ?thesis by (simp add: httpPushAudio_def Let_def)
    next
      case None
      from False unstarted have "stream_inv (s\<lparr>hsStarted := True\<rparr>) (ds @ [?d])" by (intro start_inv [OF assms(1)]) simp_all
      moreover obtain ds'' where "postChunk sv t sink chunk (s\<lparr>hsStarted := True\<rparr>) w = ((e, s', ds''), w')" "ds' = ?d # ds''"
        using assms(2) False unstarted None by (auto simp: httpPushAudio_def Let_def split: prod.splits)
      ultimately show ?thesis using post_inv [of "s\<lparr>hsStarted := True\<rparr>" "ds @ [?d]" chunk] False by simp
    qed
  qed
qed

lemma finish_inv:
  assumes "stream_inv s ds" and "\<not> hsClosed s" and "finishDeltas sink decoded s = (r, ds')"
  shows "stream_inv (s\<lparr>hsClosed := True\<rparr>) (ds @ ds')"
proof -
  from assms(1,2) obtain beginning partials where a: "ds = beginning @ partials" "speech_order beginning partials []"
      "hsStarted s \<longleftrightarrow> beginning \<noteq> []"
      "partials \<noteq> [] \<longrightarrow> deltaText (last partials) = hsLastPartial s \<and> deltaEndpointReason (last partials) = hsLastEndpointReason s"
      "\<forall>p\<in>set partials. deltaAudioBytes p \<le> hsTotalAudioBytes s"
    unfolding stream_inv_def by auto
  have k: "map deltaKind ds' \<in> {[], [DeltaSpeechEnd], [DeltaFinal], [DeltaSpeechEnd, DeltaFinal]}"
    "DeltaSpeechEnd \<in> set (map deltaKind ds') \<Longrightarrow> hsStarted s" "\<forall>q\<in>set ds'. deltaAudioBytes q = hsTotalAudioBytes s"
    using assms(3) by (auto simp: finishDeltas_def Let_def split: if_splits option.splits)
  then have "speech_order beginning partials ds'" using a unfolding speech_order_def by simp
  then show ?thesis unfolding stream_inv_def using a
    by (intro exI [of _ beginning] exI [of _ partials] exI [of _ ds']) simp
qed

datatype httpCall = PushCall "byte list" | FinishCall | CloseCall

text \<open>The calls of a caller, each with what its sink answers; the deltas it has been given and the state of the service.\<close>

fun httpStep ::
    "'w asrService \<Rightarrow> HTTPTranscriber \<Rightarrow> httpCall \<times> deltaSink \<Rightarrow> httpStreamingSession \<times> TranscriptionDelta list \<times> 'w
      \<Rightarrow> httpStreamingSession \<times> TranscriptionDelta list \<times> 'w" where
  "httpStep sv t (PushCall chunk, sink) (s, ds, w) = (case httpPushAudio sv t sink chunk s w of ((_, s', ds'), w') \<Rightarrow> (s', ds @ ds', w'))"
| "httpStep sv t (FinishCall, sink) (s, ds, w) = (case httpFinish sv t sink s w of ((_, s', ds'), w') \<Rightarrow> (s', ds @ ds', w'))"
| "httpStep sv t (CloseCall, sink) (s, ds, w) = (case httpClose sv t s w of ((_, s'), w') \<Rightarrow> (s', ds, w'))"

lemma step_inv:
  assumes "stream_inv s ds" and "httpStep sv t call (s, ds, w) = (s', ds', w')"
  shows "stream_inv s' ds'"
proof -
  obtain c sink where call: "call = (c, sink)" by (cases call)
  show ?thesis
  proof (cases c)
    case (PushCall chunk)
    with assms push_inv [OF assms(1)] show ?thesis by (auto simp: call split: prod.splits)
  next
    case FinishCall
    have closed: "stream_inv (s\<lparr>hsClosed := True\<rparr>) ds" by (rule stream_inv_cong [OF assms(1)]) simp_all
    from assms FinishCall closed finish_inv [OF assms(1)] show ?thesis
      by (auto simp: call httpFinish_def split: prod.splits sum.splits if_splits)
  next
    case CloseCall
    have closed: "stream_inv (s\<lparr>hsClosed := True\<rparr>) ds" by (rule stream_inv_cong [OF assms(1)]) simp_all
    from assms CloseCall closed show ?thesis by (auto simp: call httpClose_def split: prod.splits sum.splits if_splits)
  qed
qed

lemma calls_inv: "stream_inv s ds \<Longrightarrow> fold (httpStep sv t) calls (s, ds, w) = (s', ds', w') \<Longrightarrow> stream_inv s' ds'"
proof (induction calls arbitrary: s ds w)
  case (Cons call calls)
  obtain s1 ds1 w1 where one: "httpStep sv t call (s, ds, w) = (s1, ds1, w1)" by (metis surj_pair)
  from Cons.IH [OF step_inv [OF Cons.prems(1) one]] Cons.prems(2) show ?case by (simp add: one)
qed simp

lemma new_stream_inv: "httpStartStream sv t req w0 = (Inr s, w) \<Longrightarrow> stream_inv s []"
  by (auto simp: httpStartStream_def stream_inv_def speech_order_def split: if_splits sum.splits prod.splits)

text \<open>
  C23: whatever the recognition service replies, whatever the sinks refuse and in whatever order a stream is pushed to, finished and closed,
  its deltas come in the order of speech: one start, hypotheses that each change something and cover more audio than the one before, and, once,
  the end of speech and the final text, which cover all of it. After that nothing is announced.
\<close>
theorem stream_announces_in_order:
  assumes "httpStartStream sv t req w0 = (Inr s, w)"
  shows "\<exists>beginning partials ending. fst (snd (fold (httpStep sv t) calls (s, [], w))) = beginning @ partials @ ending
     \<and> speech_order beginning partials ending"
proof -
  obtain s' ds' w' where f: "fold (httpStep sv t) calls (s, [], w) = (s', ds', w')" by (metis surj_pair)
  from calls_inv [OF new_stream_inv [OF assms] f] show ?thesis unfolding f stream_inv_def by auto
qed

definition emptyReply :: httpTranscriptionResponse where
  "emptyReply = \<lparr>hrStreamID = lit ''s1'', hrText = [], hrPreviewText = [], hrSegments = [], hrDurationMs = 0, hrElapsedMs = 0, hrModel = [], hrDevice = [],
     hrLanguage = [], hrEmotion = [], hrSpeakerID = [], hrAudioEvents = [], hrEndpointReason = [], hrPartials = [], hrLatestPartial = [],
     hrPreviewChanged = False, hrPreviewEndpointReason = [], hrMode = [], hrError = []\<rparr>"

text \<open>A service that counts its requests and reports the count as what it has heard.\<close>

definition countingService :: "int asrService" where
  "countingService = \<lparr>svPost = (\<lambda>_ _ w. (Inr (200, Itoa w), w + 1)), svDecode = (\<lambda>body. Inr (emptyReply\<lparr>hrText := body\<rparr>)),
     svParseURL = (\<lambda>u. Inr \<lparr>urlOrigin = u, urlPath = [], urlRawQuery = [], urlFragment = []\<rparr>), svRender = (\<lambda>u. urlOrigin u @ urlPath u)\<rparr>"

definition sampleTranscriber :: HTTPTranscriber where
  "sampleTranscriber = NewHTTPTranscriber (lit ''http://asr'') 0 []"

definition sampleSpeech :: TranscriptionRequest where
  "sampleSpeech = \<lparr>trqSessionID = lit ''s'', trqTurnID = [], trqTraceID = [], trqDeviceID = [], trqAudioPCM = [1, 2, 3, 4], trqCodec = lit ''pcm16le'',
     trqSampleRateHz = 16000, trqChannels = 1, trqLanguage = [], trqHotwords = [], trqHintPhrases = []\<rparr>"

definition sampleStream :: httpStreamingSession where
  "sampleStream = \<lparr>hsStreamID = lit ''s1'', hsStarted = False, hsClosed = False, hsTotalAudioBytes = 0, hsLastPartial = [], hsLastEndpointReason = []\<rparr>"

theorem stream_announces_in_order_witness:
  "\<exists>beginning partials ending.
     fst (snd (fold (httpStep countingService sampleTranscriber)
       [(PushCall [1, 2], \<lambda>_. None), (PushCall [3], \<lambda>_. None), (FinishCall, \<lambda>_. None), (PushCall [4], \<lambda>_. None)] (sampleStream, [], 1)))
     = beginning @ partials @ ending \<and> speech_order beginning partials ending"
proof (rule stream_announces_in_order)
  show "httpStartStream countingService sampleTranscriber sampleSpeech 0 = (Inr sampleStream, 1)" by code_simp
qed

section \<open>The segments of a turn\<close>

text \<open>A frame that carries a message, its text, and the last text of every segment, in the order of the segments.\<close>

definition messageFrame :: "jsonFields \<Rightarrow> rtasrFrame" where
  "messageFrame m = Inr (1, Inr m)"

definition frame_text :: "jsonFields \<Rightarrow> gostring" where
  "frame_text m = TrimSpace (extractIflytekRTASRText m)"

definition says :: "int \<Rightarrow> jsonFields \<Rightarrow> bool" where
  "says i m \<longleftrightarrow> extractIflytekRTASRSegmentID m = Some i \<and> frame_text m \<noteq> []"

definition spoken_ids :: "jsonFields list \<Rightarrow> int set" where
  "spoken_ids ms = set (List.map_filter extractIflytekRTASRSegmentID (filter (\<lambda>m. frame_text m \<noteq> []) ms))"

definition final_texts :: "jsonFields list \<Rightarrow> gostring list" where
  "final_texts ms = map (\<lambda>i. frame_text (last (filter (says i) ms))) (sorted_list_of_set (spoken_ids ms))"

definition noTranscript :: rtasrTranscript where
  "noTranscript = \<lparr>rtSegmentsByID = [], rtTrailing = [], rtPartials = []\<rparr>"

lemma spoken_ids_iff: "i \<in> spoken_ids ms \<longleftrightarrow> filter (says i) ms \<noteq> []"
  by (auto simp: spoken_ids_def says_def map_filter_def filter_empty_conv image_iff)

lemma frame_text_trimmed [simp]: "TrimSpace (frame_text m) = frame_text m"
  by (simp add: frame_text_def)

lemma readSegments_ok:
  assumes "\<forall>m\<in>set ms. frameError m = None \<and> \<not> extractIflytekRTASRLastSegment m" and "frameError z = None" and "extractIflytekRTASRLastSegment z"
  shows "readSegments (map messageFrame (ms @ [z]) @ rest) r = Inr (fold noteFrameText (ms @ [z]) r)"
  using assms by (induction ms arbitrary: r) (simp_all add: messageFrame_def readJSONWebsocketMessage_def)

lemma noted_segments:
  assumes "\<forall>m\<in>set ms. frame_text m \<noteq> [] \<longrightarrow> extractIflytekRTASRSegmentID m \<noteq> None"
  shows "map_of (rtSegmentsByID (fold noteFrameText ms noTranscript)) i =
           (if filter (says i) ms = [] then None else Some (frame_text (last (filter (says i) ms))))
     \<and> distinct (map fst (rtSegmentsByID (fold noteFrameText ms noTranscript))) \<and> rtTrailing (fold noteFrameText ms noTranscript) = []"
  using assms
proof (induction ms arbitrary: i rule: rev_induct)
  case Nil
  show ?case by (simp add: noTranscript_def)
next
  case (snoc m ms)
  let ?r = "fold noteFrameText ms noTranscript"
  have IH: "map_of (rtSegmentsByID ?r) j = (if filter (says j) ms = [] then None else Some (frame_text (last (filter (says j) ms))))"
    "distinct (map fst (rtSegmentsByID ?r))" "rtTrailing ?r = []" for j
    using snoc.IH [of j] snoc.prems by simp_all
  show ?case
  proof (cases "frame_text m = []")
    case True
    then have "noteFrameText m ?r = ?r" by (simp add: noteFrameText_def frame_text_def [symmetric])
    moreover from True have "\<not> says i m" by (simp add: says_def)
    ultimately show ?thesis using IH by simp
  next
    case False
    with snoc.prems obtain k where k: "extractIflytekRTASRSegmentID m = Some k" by auto
    have n: "rtSegmentsByID (noteFrameText m ?r) = AList.update k (frame_text m) (rtSegmentsByID ?r)" "rtTrailing (noteFrameText m ?r) = rtTrailing ?r"
      using False k by (simp_all add: noteFrameText_def frame_text_def [symmetric] Let_def)
    have says: "says i m \<longleftrightarrow> i = k" using False k by (auto simp: says_def)
    show ?thesis using IH distinct_update [OF IH(2)] by (simp add: n says update_conv' fun_upd_def)
  qed
qed

lemma assembled:
  assumes "\<forall>m\<in>set ms. frame_text m \<noteq> [] \<longrightarrow> extractIflytekRTASRSegmentID m \<noteq> None"
  shows "rtasrSegments (fold noteFrameText ms noTranscript) = final_texts ms"
proof -
  let ?r = "fold noteFrameText ms noTranscript"
  note noted = noted_segments [OF assms]
  have keys: "set (map fst (rtSegmentsByID ?r)) = spoken_ids ms"
  proof -
    have "i \<in> set (map fst (rtSegmentsByID ?r)) \<longleftrightarrow> i \<in> spoken_ids ms" for i
      using noted [of i] map_of_eq_None_iff [of "rtSegmentsByID ?r" i] by (simp only: spoken_ids_iff set_map) (simp split: if_splits)
    then show ?thesis by blast
  qed
  have "sort (map fst (rtSegmentsByID ?r)) = sorted_list_of_set (spoken_ids ms)"
    using noted unfolding keys [symmetric] by (metis distinct_remdups_id sorted_list_of_set_sort_remdups)
  moreover have "TrimSpace (the (map_of (rtSegmentsByID ?r) i)) = frame_text (last (filter (says i) ms))
      \<and> frame_text (last (filter (says i) ms)) \<noteq> []" if "i \<in> spoken_ids ms" for i
  proof -
    from that have ne: "filter (says i) ms \<noteq> []" by (simp add: spoken_ids_iff)
    then have "says i (last (filter (says i) ms))" using last_in_set by fastforce
    with ne noted [of i] show ?thesis by (simp add: says_def)
  qed
  moreover have "finite (spoken_ids ms)" by (simp add: spoken_ids_def)
  ultimately show ?thesis using noted by (simp add: rtasrSegments_def final_texts_def filter_map comp_def cong: map_cong filter_cong)
qed

lemma all_written: "\<forall>m. write m = None \<Longrightarrow> writeMessages write ms = (None, ms)"
  by (induction ms) simp_all

text \<open>The audio of a message.\<close>

fun audio_of :: "rtasrMessage \<Rightarrow> byte list" where
  "audio_of (AudioMessage a) = a"
| "audio_of (EndMessage _) = []"

lemma audio_sent: "concat (map audio_of (audioMessages a n)) = a"
proof -
  have "map audio_of (audioMessages a n) = chunkLoop a (if n \<le> 0 then defaultIflytekRTASRFrameBytes else n) 0"
    by (simp add: audioMessages_def comp_def Let_def)
  moreover have "0 < (if n \<le> 0 then defaultIflytekRTASRFrameBytes else n)" by (simp add: defaultIflytekRTASRFrameBytes_def)
  ultimately show ?thesis by (simp only: chunkLoop_concat) simp
qed

text \<open>
  C24: the cloud recogniser is sent the whole audio of a turn and then the end, and its segments make up the answer by their numbers: in whatever
  order they arrive and however often one is revised, the text of the turn is, segment by segment, what was last said of it.
\<close>
theorem segments_assembled:
  assumes "rtasrValidate t req = None" and "\<forall>url. dial url = Inr (write, messageFrame greeting # map messageFrame (ms @ [z]) @ rest)"
    and "\<forall>m. write m = None"
    and "\<forall>m\<in>set (ms @ [z]). frameError m = None \<and> (frame_text m \<noteq> [] \<longrightarrow> extractIflytekRTASRSegmentID m \<noteq> None)"
    and "\<forall>m\<in>set ms. \<not> extractIflytekRTASRLastSegment m" and "extractIflytekRTASRLastSegment z"
  shows "\<exists>r sent. iflytekTranscribe cd dial utc uuid t req = (Inr r, sent @ [EndMessage (asText (map_of (frameData greeting) (lit ''sessionId'')))])
     \<and> concat (map audio_of sent) = trqAudioPCM req \<and> trSegments r = final_texts (ms @ [z]) \<and> trText r = concat (final_texts (ms @ [z]))"
proof -
  let ?sent = "audioMessages (trqAudioPCM req) (irFrameBytes t)" and ?closing = "EndMessage (asText (map_of (frameData greeting) (lit ''sessionId'')))"
  let ?r = "fold noteFrameText (ms @ [z]) noTranscript"
  have "readSegments (map messageFrame (ms @ [z]) @ rest) noTranscript = Inr ?r"
    by (rule readSegments_ok) (use assms(4-6) in auto)
  then have "rtasrConversation t write (messageFrame greeting # map messageFrame (ms @ [z]) @ rest) req = (Inr (rtasrResult t req ?r), ?sent @ [?closing])"
    using all_written [OF assms(3)]
    by (simp add: rtasrConversation_def readJSONWebsocketMessage_def messageFrame_def [of greeting] noTranscript_def [symmetric] Let_def)
  then have "iflytekTranscribe cd dial utc uuid t req = (Inr (rtasrResult t req ?r), ?sent @ [?closing])"
    using assms(1,2) by (simp add: iflytekTranscribe_def)
  moreover have "rtasrSegments ?r = final_texts (ms @ [z])" by (rule assembled) (use assms(4) in blast)
  then have "trSegments (rtasrResult t req ?r) = final_texts (ms @ [z]) \<and> trText (rtasrResult t req ?r) = concat (final_texts (ms @ [z]))"
    by (simp add: rtasrResult_def)
  ultimately show ?thesis using audio_sent by blast
qed

definition segmentFrame :: "int \<Rightarrow> string \<Rightarrow> bool \<Rightarrow> jsonFields" where
  "segmentFrame i said final = [(lit ''data'', JObject [(lit ''text'', JString (lit said)), (lit ''seg_id'', JInt i), (lit ''ls'', JBool final)])]"

lemma segment_frame [simp]:
  "frameError (segmentFrame i said final) = None" "extractIflytekRTASRSegmentID (segmentFrame i said final) = Some i"
  "extractIflytekRTASRLastSegment (segmentFrame i said final) = final"
  by (simp_all add: segmentFrame_def frameError_def extractIflytekRTASRSegmentID_def extractIflytekRTASRLastSegment_def frameData_def)

definition sampleCloud :: IflytekRTASRConfig where
  "sampleCloud = NewIflytekRTASRTranscriber \<lparr>irAppID = lit ''a'', irAccessKeyID = lit ''k'', irAccessKeySecret = lit ''s'', irScheme = [], irHost = [],
     irPort = 0, irPath = [], irAudioEncode = [], irLanguage = [], irSampleRateHz = 0, irTimeout = 0, irFrameBytes = 0, irFrameInterval = 0\<rparr>"

definition sampleCodec :: rtasrCodec where
  "sampleCodec = \<lparr>rcEscape = (\<lambda>x. x), rcSign = (\<lambda>_ x. x), rcQueryEncode = (\<lambda>ps. concat (map snd ps)), rcRender = (\<lambda>s h p q. h)\<rparr>"

theorem segments_assembled_witness:
  "\<exists>r sent. iflytekTranscribe sampleCodec (\<lambda>_. Inr (\<lambda>_. None, messageFrame [] # map messageFrame
         ([segmentFrame 1 ''lamp'' False, segmentFrame 0 ''tern of the'' False, segmentFrame 0 ''turn on the '' False] @ [segmentFrame 2 '' please'' True]) @ []))
       [] [] sampleCloud sampleSpeech = (Inr r, sent @ [EndMessage (asText (map_of (frameData []) (lit ''sessionId'')))])
     \<and> concat (map audio_of sent) = trqAudioPCM sampleSpeech
     \<and> trSegments r = final_texts ([segmentFrame 1 ''lamp'' False, segmentFrame 0 ''tern of the'' False, segmentFrame 0 ''turn on the '' False] @ [segmentFrame 2 '' please'' True])
     \<and> trText r = concat (final_texts ([segmentFrame 1 ''lamp'' False, segmentFrame 0 ''tern of the'' False, segmentFrame 0 ''turn on the '' False] @ [segmentFrame 2 '' please'' True]))"
proof (rule segments_assembled)
  show "rtasrValidate sampleCloud sampleSpeech = None" by code_simp
  show "\<forall>m :: rtasrMessage. (None :: gostring option) = None" by (rule allI, rule refl)
qed simp_all

text \<open>Every text loses the blanks around it and the texts are joined without one: words of English run together.\<close>

lemma english_segments_run_together:
  "rtasrSegments (fold noteFrameText [segmentFrame 0 ''turn on the '' False, segmentFrame 1 ''lamp'' True] noTranscript)
     = [lit ''turn on the'', lit ''lamp'']"
  "concat [lit ''turn on the'', lit ''lamp''] = lit ''turn on thelamp''"
  by code_simp+

end
