(* ===== verification/Spoken_Turns.thy ===== *)
theory Spoken_Turns
  imports Input_Preview Llm_Executor Speech_Synthesis Turn_Response
begin

text \<open>
  How a turn is answered: what the recogniser heard goes into the metadata of the turn (\<open>internal/voice/speech_metadata.go\<close>), the
  turn executor runs on it (\<open>turn_executor.go\<close>), and the responders make text and audio of its output (\<open>asr_responder.go\<close>,
  \<open>bootstrap_responder.go\<close>).

  An executor is a function of its input and the sink of its deltas. The memory it keeps between turns is inside it. A sink
  that may be nil is an option. The speech of an answer is the list of clauses that the planner hands to the pipeline of theory \<open>Speech_Synthesis\<close>;
  without a planner it is the synthesised stream or the placeholder. The JSON of a list of labels is \<open>encodeList\<close>.
\<close>

section \<open>What the recogniser heard\<close>

definition nonEmptySpeechStrings :: "gostring list \<Rightarrow> gostring list" where
  "nonEmptySpeechStrings values = filter (\<lambda>v. v \<noteq> []) (map TrimSpace values)"

definition encodeSpeechStringList :: "(gostring list \<Rightarrow> gostring) \<Rightarrow> gostring list \<Rightarrow> gostring" where
  "encodeSpeechStringList encodeList values =
     (let filtered = filter (\<lambda>v. v \<noteq> []) (map TrimSpace values) in if filtered = [] then [] else encodeList filtered)"

definition hasAnySuffix :: "gostring \<Rightarrow> gostring list \<Rightarrow> bool" where
  "hasAnySuffix t ss \<longleftrightarrow> list_ex (\<lambda>s. HasSuffix t s) ss"

definition detectSpeechTerminalPunctuation :: "gostring \<Rightarrow> gostring" where
  "detectSpeechTerminalPunctuation raw =
     (let t = TrimSpace raw
      in if t = [] then []
         else if hasAnySuffix t [lit ''?'', [0xFF1F]] then lit ''question_mark''
         else if hasAnySuffix t [lit ''...'', [0x2026, 0x2026], [0x2026]] then lit ''ellipsis''
         else if hasAnySuffix t [lit ''.'', [0x3002], lit ''!'', [0xFF01]] then lit ''strong_stop''
         else if hasAnySuffix t [lit '','', [0xFF0C], lit '';'', [0xFF1B]] then lit ''soft_pause''
         else [])"

definition clauseMarks :: "rune list" where
  "clauseMarks = [0x3002, 46, 0xFF01, 33, 0xFF1F, 63, 0xFF1B, 59]"

definition estimateSpeechClauseCount :: "gostring \<Rightarrow> gostring list \<Rightarrow> int" where
  "estimateSpeechClauseCount raw segments =
     (let n = int (length (nonEmptySpeechStrings segments)); t = TrimSpace raw
      in if n > 0 then n
         else if t = [] then 0
         else fold (\<lambda>r count. if r \<in> set clauseMarks then count + 1 else count) t 1)"

text \<open>The entries in the order in which they are put; the keys are distinct.\<close>

definition putEntry :: "gostring \<Rightarrow> gostring \<Rightarrow> (gostring \<times> gostring) list" where
  "putEntry key v = (if TrimSpace v = [] then [] else [(key, TrimSpace v)])"

definition setEntry :: "bool \<Rightarrow> gostring \<Rightarrow> gostring \<Rightarrow> (gostring \<times> gostring) list" where
  "setEntry b key v = (if b then [(key, v)] else [])"

definition transcriptionEntries :: "(gostring list \<Rightarrow> gostring) \<Rightarrow> TranscriptionResult \<Rightarrow> (gostring \<times> gostring) list" where
  "transcriptionEntries encodeList result =
     (let punctuation = detectSpeechTerminalPunctuation (trText result);
          clauseCount = estimateSpeechClauseCount (trText result) (trSegments result);
          events = encodeSpeechStringList encodeList (trAudioEvents result);
          partials = encodeSpeechStringList encodeList (trPartials result);
          segments = encodeSpeechStringList encodeList (trSegments result)
      in putEntry (lit ''speech.source'') (lit ''asr'')
       @ putEntry (lit ''speech.language'') (trLanguage result)
       @ putEntry (lit ''speech.emotion'') (trEmotion result)
       @ putEntry (lit ''speech.speaker_id'') (trSpeakerID result)
       @ putEntry (lit ''speech.endpoint_reason'') (trEndpointReason result)
       @ putEntry (lit ''speech.model'') (trModel result)
       @ putEntry (lit ''speech.device'') (trDevice result)
       @ putEntry (lit ''speech.transcriber_mode'') (trMode result)
       @ setEntry (trDurationMs result > 0) (lit ''speech.duration_ms'') (Itoa (trDurationMs result))
       @ setEntry (trElapsedMs result > 0) (lit ''speech.elapsed_ms'') (Itoa (trElapsedMs result))
       @ setEntry (punctuation \<noteq> []) (lit ''speech.text_terminal_punctuation'') punctuation
       @ setEntry (clauseCount > 0) (lit ''speech.text_clause_count'') (Itoa clauseCount)
       @ setEntry (events \<noteq> []) (lit ''speech.audio_events'') events
       @ setEntry (partials \<noteq> []) (lit ''speech.partials'') partials
       @ setEntry (partials \<noteq> []) (lit ''speech.partial_count'') (Itoa (int (length (trPartials result))))
       @ setEntry (segments \<noteq> []) (lit ''speech.segments'') segments)"

definition buildTranscriptionMetadata :: "(gostring list \<Rightarrow> gostring) \<Rightarrow> TranscriptionResult \<Rightarrow> metadata" where
  "buildTranscriptionMetadata encodeList result =
     (let entries = transcriptionEntries encodeList result
      in if length entries = 1 then Map.empty else map_of entries)"

definition turnMetadataWithTranscription :: "(gostring list \<Rightarrow> gostring) \<Rightarrow> metadata \<Rightarrow> TranscriptionResult \<Rightarrow> metadata" where
  "turnMetadataWithTranscription encodeList base result = base ++ buildTranscriptionMetadata encodeList result"

section \<open>Running the executor\<close>

datatype TurnExecutor =
    StreamingTurnExecutor "TurnInput \<Rightarrow> TurnDeltaSink \<Rightarrow> (gostring + TurnOutput) \<times> TurnDelta list"
  | PlainTurnExecutor "TurnInput \<Rightarrow> gostring + TurnOutput"

type_synonym responseSink = "(ResponseDelta \<Rightarrow> gostring option) option"

definition responseKind :: "TurnDeltaKind \<Rightarrow> ResponseDeltaKind" where
  "responseKind k =
     (case k of TurnTextDelta \<Rightarrow> ResponseDeltaText | TurnToolCallDelta \<Rightarrow> ResponseDeltaToolCall | TurnToolResultDelta \<Rightarrow> ResponseDeltaToolResult)"

definition responseDeltaFromTurnDelta :: "TurnDelta \<Rightarrow> ResponseDelta" where
  "responseDeltaFromTurnDelta d =
     \<lparr>rdKind = responseKind (tdKind d), rdText = tdText d, rdToolCallID = tdToolCallID d, rdToolName = tdToolName d,
      rdToolStatus = tdToolStatus d, rdToolInput = tdToolInput d, rdToolOutput = tdToolOutput d\<rparr>"

definition textResponseDelta :: "gostring \<Rightarrow> ResponseDelta" where
  "textResponseDelta t = \<lparr>rdKind = ResponseDeltaText, rdText = t, rdToolCallID = [], rdToolName = [], rdToolStatus = [],
     rdToolInput = [], rdToolOutput = []\<rparr>"

definition responseDeltasFromTurn :: "TurnOutput \<Rightarrow> ResponseDelta list" where
  "responseDeltasFromTurn out =
     (if toDeltas out = [] then (if TrimSpace (toText out) = [] then [] else [textResponseDelta (toText out)])
      else map responseDeltaFromTurnDelta (toDeltas out))"

definition emitDeltaTo :: "responseSink \<Rightarrow> ResponseDelta \<Rightarrow> gostring option" where
  "emitDeltaTo sink d = (case sink of None \<Rightarrow> None | Some f \<Rightarrow> f d)"

text \<open>The error of the first delta that is refused, and the deltas before it.\<close>

fun emitResponseDeltas :: "responseSink \<Rightarrow> ResponseDelta list \<Rightarrow> gostring option \<times> ResponseDelta list" where
  "emitResponseDeltas sink [] = (None, [])"
| "emitResponseDeltas sink (d # ds) =
     (case emitDeltaTo sink d of
        Some e \<Rightarrow> (Some e, [])
      | None \<Rightarrow> (let (r, taken) = emitResponseDeltas sink ds in (r, d # taken)))"

text \<open>\<open>defaultExecutor\<close> runs for a nil executor: \<open>NewBootstrapTurnExecutor\<close>, without tools and memory.\<close>

definition defaultExecutor :: "(gostring \<Rightarrow> gostring) \<Rightarrow> (rune \<Rightarrow> bool) \<Rightarrow> TurnExecutor" where
  "defaultExecutor quote isAlnum = StreamingTurnExecutor (\<lambda>input sink.
     case BootstrapStreamTurn quote isAlnum NoopListTools NoopInvokeTool input sink NoopMemoryStore of (r, taken, _) \<Rightarrow> (r, taken))"

definition executeTurnStream ::
    "TurnExecutor \<Rightarrow> TurnRequest \<Rightarrow> gostring \<Rightarrow> responseSink \<Rightarrow> (gostring + TurnOutput) \<times> ResponseDelta list" where
  "executeTurnStream executor req userText sink =
     (let input = turnInputFromRequest req userText
      in case executor of
           StreamingTurnExecutor stream \<Rightarrow>
             (case stream input (\<lambda>d. emitDeltaTo sink (responseDeltaFromTurnDelta d)) of
                (r, taken) \<Rightarrow> (r, map responseDeltaFromTurnDelta taken))
         | PlainTurnExecutor execute \<Rightarrow>
             (case execute input of
                Inl e \<Rightarrow> (Inl e, [])
              | Inr out \<Rightarrow>
                  (case emitResponseDeltas sink (responseDeltasFromTurn out) of
                     (Some e, taken) \<Rightarrow> (Inl e, taken)
                   | (None, taken) \<Rightarrow> (Inr out, taken))))"

section \<open>Answers\<close>

datatype responseAudio =
    PlannedSpeech "PlannedSpeechClause list"
  | SynthesizedSpeech AudioStream
  | ChunkedSpeech "byte list list"
  | NoSpeech

record spokenResponse =
  srInputText :: gostring
  srText :: gostring
  srAudio :: responseAudio
  srDeltas :: "ResponseDelta list"
  srEndSession :: bool
  srEndReason :: gostring
  srEndMessage :: gostring

record responder =
  rsExecutor :: "TurnExecutor option"
  rsSynthesizer :: "Synthesizer option"
  rsPlanner :: SpeechPlannerConfig
  rsOutputCodec :: gostring
  rsOutputSampleRate :: int
  rsOutputChannels :: int
  rsEmitPlaceholderAudio :: bool

definition NewBootstrapResponder :: "gostring \<Rightarrow> int \<Rightarrow> int \<Rightarrow> responder" where
  "NewBootstrapResponder codec rate chans =
     \<lparr>rsExecutor = None, rsSynthesizer = None,
      rsPlanner = \<lparr>plEnabled = True, plMinChunkRunes = defaultSpeechPlannerMinChunkRunes, plTargetChunkRunes = defaultSpeechPlannerTargetChunkRunes\<rparr>,
      rsOutputCodec = codec, rsOutputSampleRate = rate, rsOutputChannels = chans, rsEmitPlaceholderAudio = True\<rparr>"

definition bootstrapAudio :: "gostring \<Rightarrow> int \<Rightarrow> int \<Rightarrow> byte list list" where
  "bootstrapAudio codec rate chans =
     (if codec \<noteq> lit ''pcm16le'' \<or> rate \<le> 0 \<or> chans \<le> 0 then []
      else
        let per20ms = rate sdiv 50; samples = (if per20ms \<le> 0 then 320 else per20ms); frameSize = samples * chans * 2
        in if frameSize \<le> 0 then [] else replicate 2 (replicate (nat frameSize) 0))"

definition baseSynthesisRequest :: "TurnRequest \<Rightarrow> gostring \<Rightarrow> gostring \<Rightarrow> SynthesisRequest" where
  "baseSynthesisRequest req userText t =
     \<lparr>syrSessionID = rqSessionID req, syrTurnID = rqTurnID req, syrTraceID = rqTraceID req, syrDeviceID = rqDeviceID req,
      syrUserText = userText, syrText = t\<rparr>"

definition synthesizedAudio :: "Synthesizer option \<Rightarrow> TurnRequest \<Rightarrow> gostring \<Rightarrow> gostring \<Rightarrow> AudioStream option" where
  "synthesizedAudio synthesizer req userText responseTxt =
     (if synthesizer = None then None else synthesizedAudioStream synthesizer (baseSynthesisRequest req userText responseTxt))"

definition audioOutput :: "responder \<Rightarrow> TurnRequest \<Rightarrow> gostring \<Rightarrow> gostring \<Rightarrow> responseAudio" where
  "audioOutput r req userText responseTxt =
     (case synthesizedAudio (rsSynthesizer r) req userText responseTxt of
        Some stream \<Rightarrow> SynthesizedSpeech stream
      | None \<Rightarrow>
          if \<not> rsEmitPlaceholderAudio r then NoSpeech
          else (let chunks = bootstrapAudio (rsOutputCodec r) (rsOutputSampleRate r) (rsOutputChannels r)
                in if chunks = [] then NoSpeech else ChunkedSpeech chunks))"

text \<open>What the planner is shown: the text deltas that the sink took.\<close>

definition spokenTexts :: "ResponseDelta list \<Rightarrow> gostring list" where
  "spokenTexts ds = map rdText (filter (\<lambda>d. rdKind d = ResponseDeltaText) ds)"

definition plannerFor :: "responder \<Rightarrow> TurnRequest \<Rightarrow> gostring \<Rightarrow> plannedSpeechSynthesis option" where
  "plannerFor r req userText =
     newPlannedSpeechSynthesis (rsSynthesizer r) (baseSynthesisRequest req (TrimSpace userText) []) (NormalizeSpeechPlannerConfig (rsPlanner r))"

text \<open>A planner that was shown nothing to say gives up its stream, and the whole text is synthesised.\<close>

definition plannedClauses :: "responder \<Rightarrow> ResponseDelta list \<Rightarrow> gostring \<Rightarrow> PlannedSpeechClause list" where
  "plannedClauses r ds responseTxt =
     filter (\<lambda>c. TrimSpace (clText c) \<noteq> []) (plan_speech (NormalizeSpeechPlannerConfig (rsPlanner r)) (spokenTexts ds) responseTxt)"

definition executeTurnWithPlannedSpeech ::
    "TurnExecutor \<Rightarrow> responder \<Rightarrow> TurnRequest \<Rightarrow> gostring \<Rightarrow> gostring \<Rightarrow> responseSink
      \<Rightarrow> (gostring + TurnOutput \<times> responseAudio) \<times> ResponseDelta list" where
  "executeTurnWithPlannedSpeech fallback r req userText audioText sink =
     (case executeTurnStream (case rsExecutor r of None \<Rightarrow> fallback | Some e \<Rightarrow> e) req userText sink of
        (Inl e, taken) \<Rightarrow> (Inl e, taken)
      | (Inr turn, taken) \<Rightarrow>
          (let clauses = (if plannerFor r req userText = None then [] else plannedClauses r taken (toText turn))
           in (Inr (turn, if clauses \<noteq> [] then PlannedSpeech clauses else audioOutput r req audioText (toText turn)), taken)))"

definition responseOf :: "gostring \<Rightarrow> TurnOutput \<Rightarrow> responseAudio \<Rightarrow> responseSink \<Rightarrow> spokenResponse" where
  "responseOf userText turn audio sink =
     \<lparr>srInputText = userText, srText = toText turn, srAudio = audio,
      srDeltas = (if sink = None then responseDeltasFromTurn turn else []),
      srEndSession = toEndSession turn, srEndReason = toEndReason turn, srEndMessage = toEndMessage turn\<rparr>"

definition respondWithSpeechPlanner ::
    "TurnExecutor \<Rightarrow> responder \<Rightarrow> TurnRequest \<Rightarrow> responseSink \<Rightarrow> (gostring + spokenResponse) \<times> ResponseDelta list" where
  "respondWithSpeechPlanner fallback r req sink =
     (case executeTurnWithPlannedSpeech fallback r req (rqText req) (TrimSpace (rqText req)) sink of
        (Inl e, taken) \<Rightarrow> (Inl e, taken)
      | (Inr (turn, audio), taken) \<Rightarrow> (Inr (responseOf (TrimSpace (rqText req)) turn audio sink), taken))"

definition singleTextResponse ::
    "responder \<Rightarrow> TurnRequest \<Rightarrow> gostring \<Rightarrow> gostring \<Rightarrow> responseSink \<Rightarrow> (gostring + spokenResponse) \<times> ResponseDelta list" where
  "singleTextResponse r req userText t sink =
     (let delta = textResponseDelta t
      in case emitDeltaTo sink delta of
           Some e \<Rightarrow> (Inl e, [])
         | None \<Rightarrow>
             (Inr \<lparr>srInputText = TrimSpace userText, srText = t, srAudio = audioOutput r req userText t,
                srDeltas = (if sink = None then [delta] else []), srEndSession = False, srEndReason = [], srEndMessage = []\<rparr>, [delta]))"

text \<open>\<open>transcription\<close> is \<open>transcriptionForTurn\<close> of theory \<open>Input_Preview\<close> on the responder's recogniser, if it has one.\<close>

definition respondWithOptionalPlanning ::
    "(gostring list \<Rightarrow> gostring) \<Rightarrow> (TurnRequest \<Rightarrow> gostring + TranscriptionResult) option \<Rightarrow> TurnExecutor \<Rightarrow> responder \<Rightarrow> TurnRequest
      \<Rightarrow> responseSink \<Rightarrow> (gostring + spokenResponse) \<times> ResponseDelta list" where
  "respondWithOptionalPlanning encodeList transcription fallback r req sink =
     (let answer = (\<lambda>rq userText.
            case executeTurnWithPlannedSpeech fallback r rq userText userText sink of
              (Inl e, taken) \<Rightarrow> (Inl e, taken)
            | (Inr (turn, audio), taken) \<Rightarrow> (Inr (responseOf userText turn audio sink), taken))
      in if TrimSpace (rqText req) \<noteq> [] then answer req (TrimSpace (rqText req))
         else if rqAudioPCM req = [] then singleTextResponse r req (rqText req) [0x672A, 0x6536, 0x5230, 0x6709, 0x6548, 0x97F3, 0x9891, 0x8F93, 0x5165, 0x3002] sink
         else case transcription of
           None \<Rightarrow> (Inl (lit ''asr transcriber is not configured''), [])
         | Some transcribe \<Rightarrow>
             (case transcribe req of
                Inl e \<Rightarrow> (Inl e, [])
              | Inr result \<Rightarrow>
                  (let userText = TrimSpace (trText result)
                   in if userText = [] then singleTextResponse r req (rqText req) [0x672A, 0x8BC6, 0x522B, 0x5230, 0x6709, 0x6548, 0x8BED, 0x97F3, 0x3002] sink
                      else answer (req\<lparr>rqMetadata := turnMetadataWithTranscription encodeList (rqMetadata req) result\<rparr>) userText)))"

definition collectTurnResponse ::
    "(responseSink \<Rightarrow> (gostring + spokenResponse) \<times> ResponseDelta list) \<Rightarrow> gostring + spokenResponse" where
  "collectTurnResponse streamer =
     (case streamer (Some (\<lambda>_. None)) of
        (Inl e, _) \<Rightarrow> Inl e
      | (Inr response, taken) \<Rightarrow>
          (let ds = (if srDeltas response = [] then taken else srDeltas response);
               ds1 = (if ds = [] \<and> TrimSpace (srText response) \<noteq> [] then [textResponseDelta (srText response)] else ds)
           in Inr (response\<lparr>srDeltas := ds1\<rparr>)))"

definition MayStreamAudioResponse :: "responder \<Rightarrow> bool" where
  "MayStreamAudioResponse r \<longleftrightarrow> rsSynthesizer r \<noteq> None \<or> rsEmitPlaceholderAudio r"

text \<open>The hints that a recogniser is given: those of a slot parser that provides them, within a session.\<close>

definition transcriptionHints :: "(gostring \<Rightarrow> TranscriptionHints) option \<Rightarrow> gostring \<Rightarrow> TranscriptionHints" where
  "transcriptionHints provider sessionID =
     (case provider of None \<Rightarrow> noHints | Some f \<Rightarrow> if TrimSpace sessionID = [] then noHints else f sessionID)"

section \<open>Lemmas\<close>

lemma emitResponseDeltas_ok: "emitResponseDeltas sink ds = (None, taken) \<Longrightarrow> taken = ds"
  by (induction ds arbitrary: taken) (auto split: option.splits prod.splits)

lemma spokenTexts_turn [simp]: "concat (spokenTexts (map responseDeltaFromTurnDelta ds)) = announced ds"
  by (induction ds) (auto simp: spokenTexts_def announced_def responseDeltaFromTurnDelta_def responseKind_def split: TurnDeltaKind.splits)

lemma unmatched_refl [simp]: "unmatchedTail xs xs = []"
  by (induction xs) simp_all

lemma unmatched_longer: "prefix ys xs \<Longrightarrow> unmatchedTail xs ys = []"
  by (induction xs ys rule: unmatchedTail.induct) auto

lemma unmatched_other: "xs \<noteq> [] \<Longrightarrow> ys \<noteq> [] \<Longrightarrow> hd xs \<noteq> hd ys \<Longrightarrow> unmatchedTail xs ys = ys"
  by (cases xs; cases ys) auto

lemma clauses_text_nonblank:
  "clauses_text (filter (\<lambda>c. TrimSpace (clText c) \<noteq> []) cs) = clauses_text cs"
proof (induction cs)
  case (Cons c cs)
  have "squeeze (clText c) = []" if "TrimSpace (clText c) = []"
    using that squeeze_eq_Nil by simp
  then show ?case using Cons by simp
qed simp

lemma no_blank_deltas: "\<forall>t\<in>set ts. TrimSpace t = [] \<longrightarrow> t = [] \<Longrightarrow> concat (filter (\<lambda>t. TrimSpace t \<noteq> []) ts) = concat ts"
  by (induction ts) auto

text \<open>The tail that is still planned when the final text comes: everything once more after a leading blank, otherwise nothing.\<close>

definition leadingBlank :: "gostring \<Rightarrow> bool" where
  "leadingBlank t \<longleftrightarrow> t \<noteq> [] \<and> is_space (hd t)"

lemma trim_of_unblank:
  assumes "\<not> leadingBlank t"
  shows "prefix (TrimSpace t) t"
proof -
  have "trim_left is_space t = t" using assms trim_left_id by (cases t) (auto simp: leadingBlank_def trim_left_def)
  then show ?thesis using prefix_trim_right by (simp add: TrimSpace_def)
qed

lemma remaining_after_trim:
  assumes "TrimSpace t \<noteq> []"
  shows "plannerRemainingTail t (TrimSpace t) = (if leadingBlank t then TrimSpace t else [])"
proof -
  have ne: "t \<noteq> []" using assms by auto
  have "TrimSpace (TrimSpace t) = TrimSpace t" by simp
  show ?thesis
  proof (cases "leadingBlank t")
    case True
    have "\<not> is_space (hd (TrimSpace t))" using trimmed_TrimSpace [of t] assms by (auto simp: trimmed_def)
    then have "hd t \<noteq> hd (TrimSpace t)" using True by (auto simp: leadingBlank_def)
    then show ?thesis using True ne assms by (simp add: plannerRemainingTail_def unmatched_other)
  next
    case False
    then show ?thesis using ne assms trim_of_unblank [OF False] by (simp add: plannerRemainingTail_def unmatched_longer)
  qed
qed

lemma streamLLM_text:
  assumes "streamLLMOutput al e now input t m memory c sink = (Inr out, taken)"
  shows "toText out = announced taken \<or> toText out = TrimSpace (announced taken)"
  using assms
  by (auto simp: streamLLMOutput_def Let_def emitBootstrapTextOutput_def case_prod_beta dest!: modelLoop_announced streamBootstrapOutput_announced outputAfter_ok
      split: option.splits if_splits)

text \<open>The executor of the server, in a state of its memory and of its prepared work.\<close>

definition llmTurnExecutor ::
    "(gostring \<Rightarrow> gostring) \<Rightarrow> (rune \<Rightarrow> bool) \<Rightarrow> LLMTurnExecutor \<Rightarrow> int \<Rightarrow> MemoryStore \<Rightarrow> llmPrewarmState \<Rightarrow> TurnExecutor" where
  "llmTurnExecutor quote isAlnum e now store s = StreamingTurnExecutor (\<lambda>input sink.
     case LLMStreamTurn quote isAlnum e now input sink store s of (r, taken, _) \<Rightarrow> (r, taken))"

lemma LLMStream_text:
  assumes "LLMStreamTurn quote al e now input sink store s = (Inr out, taken, store', s')"
  shows "toText out = announced taken \<or> toText out = TrimSpace (announced taken)"
proof -
  let ?t = "TrimSpace (tiUserText input)" and ?m = "tiMetadata input"
  obtain c s1 where c: "consumeMatch now input ?t ?m s = (c, s1)" by (cases "consumeMatch now input ?t ?m s")
  define memory where "memory = (case c of Some c \<Rightarrow> pwMemoryContext c | None \<Rightarrow> storeLoadTurnContext quote (buildMemoryQuery input ?t ?m) store)"
  obtain r tk where x: "streamLLMOutput al e now input ?t ?m memory c sink = (r, tk)" by (cases "streamLLMOutput al e now input ?t ?m memory c sink")
  have "r = Inr out \<and> tk = taken" using assms
    unfolding LLMStreamTurn_def Let_def c prod.case memory_def [symmetric] x by (cases r) simp_all
  then show ?thesis using streamLLM_text x by blast
qed

lemma llm_turn_text:
  assumes "executeTurnStream (llmTurnExecutor quote al e now store s) req userText sink = (Inr turn, taken)"
  shows "toText turn = concat (spokenTexts taken) \<or> toText turn = TrimSpace (concat (spokenTexts taken))"
proof -
  obtain r tk st s' where x: "LLMStreamTurn quote al e now (turnInputFromRequest req userText)
      (\<lambda>d. emitDeltaTo sink (responseDeltaFromTurnDelta d)) store s = (r, tk, st, s')" by (metis surj_pair)
  have "r = Inr turn \<and> taken = map responseDeltaFromTurnDelta tk" using assms
    unfolding executeTurnStream_def llmTurnExecutor_def Let_def TurnExecutor.case x prod.case by simp
  then show ?thesis using LLMStream_text x by fastforce
qed

lemma remaining_self: "plannerRemainingTail u u = []"
  by (simp add: plannerRemainingTail_def)

lemma planned_text:
  assumes "final = concat (spokenTexts ds) \<or> final = TrimSpace (concat (spokenTexts ds))"
  shows "clauses_text (plannedClauses r ds final) =
    squeeze final @ squeeze (drop (length (longest_common_prefix (recorded (spokenTexts ds)) final)) final)"
proof -
  have "squeeze (concat (spokenTexts ds)) = squeeze final" using assms squeeze_TrimSpace by auto
  then show ?thesis unfolding plannedClauses_def clauses_text_nonblank plan_speech_spec(1) by (simp add: squeeze_remaining recorded_def)
qed

lemma repeated_text:
  assumes "\<forall>t\<in>set (spokenTexts ds). TrimSpace t = [] \<longrightarrow> t = []"
    and "final = concat (spokenTexts ds) \<or> final = TrimSpace (concat (spokenTexts ds))"
  shows "squeeze (drop (length (longest_common_prefix (recorded (spokenTexts ds)) final)) final) =
    (if leadingBlank (concat (spokenTexts ds)) \<and> \<not> leadingBlank final then squeeze final else [])"
proof -
  let ?u = "concat (spokenTexts ds)"
  have t: "squeeze (drop (length (longest_common_prefix (recorded (spokenTexts ds)) final)) final) = squeeze (plannerRemainingTail ?u final)"
    using recorded_all [OF assms(1)] by (simp add: squeeze_remaining)
  show ?thesis
  proof (cases "final = ?u")
    case True
    then show ?thesis unfolding t using remaining_self [of ?u] by simp
  next
    case False
    then have f: "final = TrimSpace ?u" using assms(2) by blast
    show ?thesis
    proof (cases "TrimSpace ?u = []")
      case True
      then show ?thesis unfolding t by (simp add: f plannerRemainingTail_def)
    next
      case ne: False
      then have "\<not> leadingBlank final" using f trimmed_TrimSpace [of ?u] by (auto simp: leadingBlank_def trimmed_def)
      then show ?thesis unfolding t using remaining_after_trim [OF ne] f by simp
    qed
  qed
qed

text \<open>Every response is made by one of the four ways of answering.\<close>

lemma planned_answer:
  assumes "executeTurnWithPlannedSpeech fallback r req userText audioText sink = (Inr (turn, PlannedSpeech clauses), taken)"
  shows "executeTurnStream (case rsExecutor r of None \<Rightarrow> fallback | Some e \<Rightarrow> e) req userText sink = (Inr turn, taken) \<and>
    clauses = plannedClauses r taken (toText turn) \<and> clauses \<noteq> []"
  using assms
  by (auto simp: executeTurnWithPlannedSpeech_def Let_def audioOutput_def split: prod.splits sum.splits if_splits option.splits)

lemma planned_response:
  assumes "respondWithOptionalPlanning encodeList transcription fallback r req sink = (Inr response, taken)"
    and "srAudio response = PlannedSpeech clauses"
  obtains rq userText turn where "executeTurnStream (case rsExecutor r of None \<Rightarrow> fallback | Some e \<Rightarrow> e) rq userText sink = (Inr turn, taken)"
    "clauses = plannedClauses r taken (toText turn)" "clauses \<noteq> []" "srText response = toText turn"
proof -
  have audio: "audioOutput r q u t \<noteq> PlannedSpeech cs" for q u t cs
    by (auto simp: audioOutput_def Let_def split: option.splits)
  have single: "singleTextResponse r q u t sink \<noteq> (Inr response, taken)" for q u t
    using assms(2) audio by (auto simp: singleTextResponse_def Let_def split: option.splits)
  obtain rq userText turn where "executeTurnWithPlannedSpeech fallback r rq userText userText sink = (Inr (turn, PlannedSpeech clauses), taken)"
    "srText response = toText turn"
  proof -
    have "\<exists>rq userText turn audio. executeTurnWithPlannedSpeech fallback r rq userText userText sink = (Inr (turn, audio), taken) \<and>
        response = responseOf userText turn audio sink"
      using assms(1) single
      by (fastforce simp: respondWithOptionalPlanning_def Let_def split: if_splits option.splits sum.splits prod.splits)
    then show ?thesis using that assms(2) by (auto simp: responseOf_def)
  qed
  then show ?thesis using planned_answer that by blast
qed

section \<open>Properties\<close>


definition blankLeadModel :: ChatModel where
  "blankLeadModel = StreamingModel (\<lambda>_. ([[10] @ lit ''Hello there.'', lit '' How are you?''],
     Inr \<lparr>crText = [], crFinishReason = [], crMessage = plainMessage (lit ''assistant'') []\<rparr>))"

definition sampleSpeaker :: responder where
  "sampleSpeaker = (NewBootstrapResponder (lit ''pcm16le'') 16000 1)\<lparr>
     rsExecutor := Some (llmTurnExecutor (\<lambda>x. x) (\<lambda>_. False) (sampleExecutor\<lparr>leModel := Some blankLeadModel\<rparr>) 5 NoopMemoryStore Map.empty),
     rsSynthesizer := Some \<lparr>synSynthesize = (\<lambda>_. Inr \<lparr>sysAudioPCM = [], sysSampleRateHz = 0, sysChannels = 0\<rparr>), synStream = None\<rparr>\<rparr>"

definition sampleSpokenRequest :: TurnRequest where
  "sampleSpokenRequest = \<lparr>rqSessionID = lit ''s'', rqTurnID = [], rqTraceID = [], rqDeviceID = [], rqClientType = [], rqText = lit ''hi'',
     rqMetadata = Map.empty, rqPreviewTranscription = None, rqAudioPCM = [], rqAudioBytes = 0, rqInputFrames = 0, rqInputCodec = [],
     rqInputSampleRate = 0, rqInputChannels = 0\<rparr>"

definition sampleTexts :: "gostring list" where
  "sampleTexts = [[10] @ lit ''Hello there.'', lit '' How are you?'']"

definition sampleAnswerText :: gostring where
  "sampleAnswerText = lit ''Hello there. How are you?''"

lemma sample_input:
  "turnInputFromRequest sampleSpokenRequest (lit ''hi'') =
     \<lparr>tiSessionID = lit ''s'', tiTurnID = [], tiTraceID = [], tiDeviceID = [], tiClientType = [], tiUserText = lit ''hi'',
      tiAudio = \<lparr>audPresent = False, audFrames = 0, audBytes = 0, audCodec = [], audSampleRateHz = 0, audChannels = 0\<rparr>,
      tiImages = [], tiMetadata = Map.empty\<rparr>"
  by (simp add: turnInputFromRequest_def sampleSpokenRequest_def hasTurnAudio_def)

lemma blank_lead_answer:
  "modelLoop (Suc n) blankLeadModel invoker input (lit ''hi'') aliases request (\<lambda>_. None) messages [] =
     (Inr (textOutput sampleAnswerText), map textTurnDelta sampleTexts)"
proof -
  obtain response where r: "runModelStep blankLeadModel (request\<lparr>cmMessages := messages\<rparr>) (\<lambda>_. None) [] = (Inr response, map textTurnDelta sampleTexts, concat sampleTexts)"
    "mmToolCalls (normalizedAssistantMessage response) = []"
    by (simp add: runModelStep_def blankLeadModel_def sampleTexts_def textTurnDelta_def normalizedAssistantMessage_def filledResponse_def Let_def plainMessage_def)
  have t: "TrimSpace (concat sampleTexts) = sampleAnswerText" "sampleAnswerText \<noteq> []"
    "turnOutputFromText (lit ''hi'') sampleAnswerText = textOutput sampleAnswerText" by code_simp+
  show ?thesis unfolding modelLoop.simps r(1) prod.case sum.case Let_def r(2) t(1,3) using t(2) by simp
qed

lemma sample_streamed:
  "streamLLMOutput (\<lambda>_. False) (sampleExecutor\<lparr>leModel := Some blankLeadModel\<rparr>) now input (lit ''hi'') Map.empty memory None (\<lambda>_. None) =
     (Inr (textOutput sampleAnswerText), map textTurnDelta sampleTexts)"
proof -
  have c: "(lit ''hi'' = [] \<or> parseBootstrapMemoryCommand (lit ''hi'') \<noteq> None \<or> parseBootstrapToolCommand (lit ''hi'') \<noteq> None) = False"
    "deterministicPlaybackFollowUpText (lit ''hi'') Map.empty = None" by code_simp+
  have m: "leModel (sampleExecutor\<lparr>leModel := Some blankLeadModel\<rparr>) = Some blankLeadModel" by simp
  have n: "defaultToolLoopMaxSteps = Suc 5" by (simp add: defaultToolLoopMaxSteps_def)
  obtain tools aliases where l: "listModelTools (sampleExecutor\<lparr>leModel := Some blankLeadModel\<rparr>) input = (tools, aliases)" by (cases "listModelTools (sampleExecutor\<lparr>leModel := Some blankLeadModel\<rparr>) input")
  show ?thesis unfolding streamLLMOutput_def Let_def m option.case c if_False l prod.case n blank_lead_answer ..
qed

lemma LLMStream_value:
  assumes "consumeMatch now input (TrimSpace (tiUserText input)) (tiMetadata input) s = (None, s')"
    and "streamLLMOutput al e now input (TrimSpace (tiUserText input)) (tiMetadata input)
      (storeLoadTurnContext quote (buildMemoryQuery input (TrimSpace (tiUserText input)) (tiMetadata input)) store) None sink = (Inr out, taken)"
  shows "\<exists>st. LLMStreamTurn quote al e now input sink store s = (Inr out, taken, st, s')"
  apply (subst LLMStreamTurn_def)
  apply (simp only: Let_def assms(1) prod.case option.case)
  apply (simp only: assms(2) prod.case sum.case)
  apply (rule exI, rule refl)
  done

lemma sample_turn:
  "executeTurnStream (llmTurnExecutor (\<lambda>x. x) (\<lambda>_. False) (sampleExecutor\<lparr>leModel := Some blankLeadModel\<rparr>) 5 NoopMemoryStore Map.empty)
     sampleSpokenRequest (lit ''hi'') None = (Inr (textOutput sampleAnswerText), map (responseDeltaFromTurnDelta \<circ> textTurnDelta) sampleTexts)"
proof -
  define i where "i = turnInputFromRequest sampleSpokenRequest (lit ''hi'')"
  have t: "TrimSpace (lit ''hi'') = lit ''hi''" by code_simp
  have f: "TrimSpace (tiUserText i) = lit ''hi''" "tiMetadata i = Map.empty" by (simp_all add: i_def sample_input t)
  have "\<exists>st. LLMStreamTurn (\<lambda>x. x) (\<lambda>_. False) (sampleExecutor\<lparr>leModel := Some blankLeadModel\<rparr>) 5 i (\<lambda>_. None) NoopMemoryStore Map.empty
      = (Inr (textOutput sampleAnswerText), map textTurnDelta sampleTexts, st, Map.empty)"
    by (rule LLMStream_value) (simp add: consumeMatch_def, simp only: f sample_streamed)
  then obtain st where x: "LLMStreamTurn (\<lambda>x. x) (\<lambda>_. False) (sampleExecutor\<lparr>leModel := Some blankLeadModel\<rparr>) 5 i (\<lambda>_. None) NoopMemoryStore Map.empty
      = (Inr (textOutput sampleAnswerText), map textTurnDelta sampleTexts, st, Map.empty)" ..
  have n: "(\<lambda>d. emitDeltaTo None (responseDeltaFromTurnDelta d)) = (\<lambda>_. None)" by (simp add: emitDeltaTo_def)
  show ?thesis unfolding executeTurnStream_def llmTurnExecutor_def Let_def TurnExecutor.case n i_def [symmetric] x prod.case by simp
qed

lemma sample_response:
  "\<exists>response. respondWithOptionalPlanning concat None (defaultExecutor (\<lambda>x. x) (\<lambda>_. False)) sampleSpeaker sampleSpokenRequest None =
     (Inr response, map (responseDeltaFromTurnDelta \<circ> textTurnDelta) sampleTexts) \<and> srText response = sampleAnswerText \<and>
     (\<exists>clauses. srAudio response = PlannedSpeech clauses)"
proof -
  have t: "TrimSpace (rqText sampleSpokenRequest) = lit ''hi''" "lit ''hi'' \<noteq> []" by code_simp+
  have p: "plannerFor sampleSpeaker sampleSpokenRequest (lit ''hi'') \<noteq> None"
    by (simp add: plannerFor_def sampleSpeaker_def NewBootstrapResponder_def newPlannedSpeechSynthesis_def NormalizeSpeechPlannerConfig_def Let_def)
  have "filter (\<lambda>c. TrimSpace (clText c) \<noteq> []) (plan_speech (NormalizeSpeechPlannerConfig (rsPlanner sampleSpeaker))
      (spokenTexts (map (responseDeltaFromTurnDelta \<circ> textTurnDelta) sampleTexts)) sampleAnswerText) \<noteq> []"
    unfolding sampleSpeaker_def by simp code_simp
  then have c: "plannedClauses sampleSpeaker (map (responseDeltaFromTurnDelta \<circ> textTurnDelta) sampleTexts) sampleAnswerText \<noteq> []"
    by (simp add: plannedClauses_def)
  have e: "rsExecutor sampleSpeaker = Some (llmTurnExecutor (\<lambda>x. x) (\<lambda>_. False) (sampleExecutor\<lparr>leModel := Some blankLeadModel\<rparr>) 5 NoopMemoryStore Map.empty)"
    by (simp add: sampleSpeaker_def)
  obtain pl where p': "plannerFor sampleSpeaker sampleSpokenRequest (lit ''hi'') = Some pl" using p by auto
  show ?thesis
    using c by (simp add: respondWithOptionalPlanning_def executeTurnWithPlannedSpeech_def t e p' sample_turn responseOf_def textOutput_def)
qed


section \<open>Work prepared for a spoken turn\<close>

lemma map_of_unsigned:
  assumes "list_all (\<lambda>k. HasPrefix (TrimSpace k) (lit ''voice.preview.'')) (map fst xs)"
  shows "signedKeys (map_of xs) = {}"
proof -
  have "HasPrefix (TrimSpace k) (lit ''voice.preview.'')" if "map_of xs k = Some v" for k v
    using assms map_of_SomeD [OF that] by (force simp: list_all_iff)
  then show ?thesis by (auto simp: signedKeys_def dom_def)
qed

lemma preview_keys_unsigned: "signedKeys (prewarmMetadata formatFixed3 encodeLabels candidate snapshot) = {}"
  unfolding prewarmMetadata_def Let_def
  apply (rule map_of_unsigned)
  apply (simp only: list.map fst_conv)
  apply code_simp
  done

lemma unsigned_signature: "signedKeys m = {} \<Longrightarrow> llmPrewarmMetadataSignature m = []"
  by (simp add: llmPrewarmMetadataSignature_def)

lemma JoinStrings_nonempty: "xs \<noteq> [] \<Longrightarrow> [] \<notin> set xs \<Longrightarrow> JoinStrings sep xs \<noteq> []"
  by (cases "(sep, xs)" rule: JoinStrings.cases) auto

lemma signed_signature:
  assumes "k \<in> signedKeys m" "finite (dom m)"
  shows "llmPrewarmMetadataSignature m \<noteq> []"
proof -
  let ?M = "image_mset (\<lambda>k. TrimSpace k @ lit ''='' @ metadataText m k) (mset_set (signedKeys m))"
  have fin: "finite (signedKeys m)" using assms(2) by (auto simp: signedKeys_def)
  have "?M \<noteq> {#}" using assms(1) fin by (metis empty_iff image_mset_is_empty_iff mset_set_empty_iff)
  then have "sorted_list_of_multiset ?M \<noteq> []" by (metis mset.simps(1) mset_sorted_list_of_multiset)
  moreover have "[] \<notin> set (sorted_list_of_multiset ?M)" by (auto simp: lit_def)
  ultimately show ?thesis unfolding llmPrewarmMetadataSignature_def by (rule JoinStrings_nonempty)
qed

lemma clause_count_positive: "1 \<le> fold (\<lambda>r count. if r \<in> set clauseMarks then count + 1 else count) t (n :: int)" if "1 \<le> n"
  using that by (induction t arbitrary: n) auto

lemma speech_source_signed:
  assumes "TrimSpace (trText result) \<noteq> []"
  shows "lit ''speech.source'' \<in> signedKeys (turnMetadataWithTranscription encodeLabels base result)"
proof -
  have s: "putEntry (lit ''speech.source'') (lit ''asr'') = [(lit ''speech.source'', lit ''asr'')]" by code_simp
  have p: "TrimSpace (lit ''speech.source'') \<noteq> []" "\<not> HasPrefix (TrimSpace (lit ''speech.source'')) (lit ''voice.preview.'')"
    "TrimSpace (lit ''asr'') \<noteq> []" by code_simp+
  have "estimateSpeechClauseCount (trText result) (trSegments result) > 0"
    using assms clause_count_positive [of 1 "TrimSpace (trText result)"]
    by (cases "nonEmptySpeechStrings (trSegments result) = []") (simp_all add: estimateSpeechClauseCount_def Let_def)
  then have c: "setEntry (estimateSpeechClauseCount (trText result) (trSegments result) > 0) (lit ''speech.text_clause_count'') v
      = [(lit ''speech.text_clause_count'', v)]" for v by (simp add: setEntry_def)
  have "\<exists>es. transcriptionEntries encodeLabels result = (lit ''speech.source'', lit ''asr'') # es \<and> es \<noteq> []"
    unfolding transcriptionEntries_def Let_def s c by simp
  then have "turnMetadataWithTranscription encodeLabels base result (lit ''speech.source'') = Some (lit ''asr'')"
    by (auto simp: turnMetadataWithTranscription_def buildTranscriptionMetadata_def Let_def)
  then show ?thesis using p by (auto simp: signedKeys_def metadataText_def)
qed

lemma transcription_metadata_finite: "finite (dom base) \<Longrightarrow> finite (dom (turnMetadataWithTranscription encodeLabels base result))"
  by (simp add: turnMetadataWithTranscription_def buildTranscriptionMetadata_def Let_def finite_dom_map_of)

text \<open>Everything a preview has the executor prepare is signed with the empty signature.\<close>

lemma prewarmed_unsigned:
  assumes "\<forall>c\<in>ran s. pwMetadataSig c = []" "signedKeys (tiMetadata input) = {}"
  shows "\<forall>c\<in>ran (PrewarmTurn quote e now input store s). pwMetadataSig c = []"
proof -
  obtain tools aliases where l: "listModelTools e input = (tools, aliases)" by (cases "listModelTools e input")
  have "PrewarmTurn quote e now input store s = s \<or> (\<exists>c. pwMetadataSig c = [] \<and> PrewarmTurn quote e now input store s = storePrewarm c s)"
    unfolding PrewarmTurn_def Let_def l prod.case unsigned_signature [OF assms(2)]
    by (cases "TrimSpace (tiUserText input) = [] \<or> leModel e = None") (simp, simp only: if_False, rule disjI2, rule exI, rule conjI [rotated], rule refl, simp)
  moreover have "\<forall>d\<in>ran (storePrewarm c s). pwMetadataSig d = []" if "pwMetadataSig c = []" for c
    using assms(1) that by (auto simp: storePrewarm_def ran_def)
  ultimately show ?thesis using assms(1) by metis
qed

definition prewarmAll ::
    "(gostring \<Rightarrow> gostring) \<Rightarrow> LLMTurnExecutor \<Rightarrow> (int \<times> TurnInput \<times> MemoryStore) list \<Rightarrow> llmPrewarmState" where
  "prewarmAll quote e launched = fold (\<lambda>(now, input, store). PrewarmTurn quote e now input store) launched Map.empty"

lemma prewarmAll_unsigned:
  assumes "\<forall>(now, input, store)\<in>set launched. signedKeys (tiMetadata input) = {}"
  shows "\<forall>c\<in>ran (prewarmAll quote e launched). pwMetadataSig c = []"
proof -
  have "\<forall>c\<in>ran (fold (\<lambda>(now, input, store). PrewarmTurn quote e now input store) launched s). pwMetadataSig c = []"
    if "\<forall>c\<in>ran s. pwMetadataSig c = []" for s
    using assms that
  proof (induction launched arbitrary: s)
    case Nil
    then show ?case by simp
  next
    case (Cons l ls)
    obtain now input store where l: "l = (now, input, store)" by (cases l)
    have "signedKeys (tiMetadata input) = {}" using Cons.prems(1) unfolding l by simp
    then have "\<forall>c\<in>ran (PrewarmTurn quote e now input store s). pwMetadataSig c = []" using prewarmed_unsigned [OF Cons.prems(2)] by blast
    moreover have "\<forall>(now, input, store)\<in>set ls. signedKeys (tiMetadata input) = {}" using Cons.prems(1) by simp
    ultimately show ?case unfolding l fold.simps o_apply prod.case by (rule Cons.IH [rotated])
  qed
  from this [of Map.empty] show ?thesis unfolding prewarmAll_def by simp
qed

lemma maybePrewarm_metadata:
  assumes "maybePrewarm formatFixed3 encodeLabels snapshot p = (Some input, p')"
  shows "signedKeys (tiMetadata input) = {}"
  using assms by (auto simp: maybePrewarm_def Let_def preview_keys_unsigned split: if_splits)

text \<open>
  C13: What the preview has prepared is never used by the spoken turn it was prepared for. Whatever a preview session launched
  (\<open>maybePrewarm\<close>) and whenever, a turn whose words the recogniser heard carries \<open>speech.source\<close> and the clause count in its metadata,
  which the metadata of the prewarm does not, so the signatures differ and \<open>consumeMatch\<close> drops the candidate, also when the text is the
  very same. The architecture overview says the accepted turn reuses the work when the text matches exactly.
\<close>

theorem spoken_turn_misses_prewarm:
  assumes "\<forall>(now, input, store)\<in>set launched. \<exists>snapshot p p'. maybePrewarm formatFixed3 encodeLabels snapshot p = (Some input, p')"
    and "TrimSpace (trText result) \<noteq> []" and "finite (dom (rqMetadata req))"
  shows "fst (consumeMatch later (turnInputFromRequest req' userText) userText
    (turnMetadataWithTranscription encodeLabels (rqMetadata req) result) (prewarmAll quote e launched)) = None"
proof -
  let ?m = "turnMetadataWithTranscription encodeLabels (rqMetadata req) result"
  have "llmPrewarmMetadataSignature ?m \<noteq> []"
    using signed_signature speech_source_signed [OF assms(2)] transcription_metadata_finite [OF assms(3)] by blast
  moreover have "\<forall>c\<in>ran (prewarmAll quote e launched). pwMetadataSig c = []"
    using assms(1) maybePrewarm_metadata by (intro prewarmAll_unsigned) fast
  then have "pwMetadataSig c = []" if "prewarmAll quote e launched sid = Some c" for sid c using that by (auto simp: ran_def)
  ultimately show ?thesis by (auto simp: consumeMatch_def Let_def split: option.splits)
qed

definition samplePrewarmPreview :: InputPreview where
  "samplePrewarmPreview = zeroPreview\<lparr>pvStablePrefix := lit ''turn on the light'', pvArbitration := zeroArbitration\<lparr>arbPrewarmAllowed := True\<rparr>\<rparr>"

definition sampleHeard :: TranscriptionResult where
  "sampleHeard = emptyTranscription\<lparr>trText := lit ''turn on the light''\<rparr>"

definition samplePrewarmInput :: TurnInput where
  "samplePrewarmInput = (case maybePrewarm (\<lambda>_. []) concat samplePrewarmPreview (sampleSession\<lparr>apPrewarmer := True\<rparr>) of
     (Some input, _) \<Rightarrow> input)"

lemma sample_words: "TrimSpace (lit ''turn on the light'') = lit ''turn on the light''" "length (lit ''turn on the light'') = 17"
  "lit ''turn on the light'' \<noteq> []"
  by code_simp+

theorem spoken_turn_misses_prewarm_witness:
  "fst (consumeMatch 5 (turnInputFromRequest (sampleSpokenRequest\<lparr>rqMetadata := turnMetadataWithTranscription concat Map.empty sampleHeard\<rparr>)
       (lit ''turn on the light'')) (lit ''turn on the light'') (turnMetadataWithTranscription concat Map.empty sampleHeard)
     (prewarmAll (\<lambda>x. x) sampleExecutor [(1, samplePrewarmInput, NoopMemoryStore)])) = None"
proof -
  have "fst (maybePrewarm (\<lambda>_. []) concat samplePrewarmPreview (sampleSession\<lparr>apPrewarmer := True\<rparr>)) \<noteq> None"
    by (simp add: maybePrewarm_def Let_def samplePrewarmPreview_def prewarmCandidate_def sample_words sampleSession_def StartInputPreview_def
          defaultPreviewPrewarmMinRunes_def zeroPreview_def)
  then have "\<exists>p'. maybePrewarm (\<lambda>_. []) concat samplePrewarmPreview (sampleSession\<lparr>apPrewarmer := True\<rparr>) = (Some samplePrewarmInput, p')"
    by (auto simp: samplePrewarmInput_def split: prod.splits option.splits)
  then have l: "\<forall>(now, input, store)\<in>set [(1 :: int, samplePrewarmInput, NoopMemoryStore)].
      \<exists>snapshot p p'. maybePrewarm (\<lambda>_. []) concat snapshot p = (Some input, p')" by auto
  have "TrimSpace (trText sampleHeard) \<noteq> []" by (simp add: sampleHeard_def sample_words)
  moreover have "finite (dom (rqMetadata sampleSpokenRequest))" "rqMetadata sampleSpokenRequest = Map.empty" by (simp_all add: sampleSpokenRequest_def)
  ultimately show ?thesis using spoken_turn_misses_prewarm [OF l, of sampleHeard sampleSpokenRequest] by simp
qed

end
