(* ===== verification/Gateway_Endings.thy ===== *)
theory Gateway_Endings
  imports Gateway_Turns
begin

text \<open>
  How a session ends on a connection of the realtime protocol: what \<open>endSession\<close> of \<open>internal/gateway/realtime_ws.go\<close>
  leaves behind, and that nothing brings the session back but another \<open>session.start\<close>: whatever arrives, whatever the
  preview timer and the goroutine of the cancelled output still do.
\<close>

section \<open>What a connection was sent\<close>

definition payloads :: "connectionRuntime \<Rightarrow> serverPayload list" where
  "payloads r = map (snd \<circ> snd) (peSent (crPeer r))"

lemma payloads_fields [simp]:
  "payloads (r\<lparr>crTick := n\<rparr>) = payloads r" "payloads (r\<lparr>crDeadline := d\<rparr>) = payloads r"
  "payloads (r\<lparr>crVoice := v\<rparr>) = payloads r" "payloads (r\<lparr>crClosedPreviews := hs\<rparr>) = payloads r"
  "payloads (r\<lparr>crTurnTrace := tt\<rparr>) = payloads r" "payloads (r\<lparr>crPreviewTrace := pt\<rparr>) = payloads r"
  "payloads (r\<lparr>crPending := pe\<rparr>) = payloads r" "payloads (r\<lparr>crSession := se\<rparr>) = payloads r"
  "payloads (r\<lparr>crOutput := st\<rparr>) = payloads r" "payloads (r\<lparr>crAck := ak\<rparr>) = payloads r"
  "payloads (r\<lparr>crNormalizer := nm\<rparr>) = payloads r" "payloads (r\<lparr>crCollaboration := co\<rparr>) = payloads r"
  by (simp_all add: payloads_def)

lemma payloads_event:
  "payloads (snd (WriteEvent sid pl r)) = payloads r @ (if envConnOk (crEnv r) (crTick r) then [pl] else [])"
  "payloads (snd (WriteBinary b r)) = payloads r @ (if envConnOk (crEnv r) (crTick r) then [PBinary b] else [])"
  by (simp_all add: payloads_def WriteEvent_def WriteBinary_def Let_def)

lemma interrupt_output_run:
  "interruptOutput r =
     (case crOutput r of None \<Rightarrow> (Inr False, r)
      | Some s \<Rightarrow> (Inr True, r\<lparr>crOutput := Some (s\<lparr>osCancelled := True\<rparr>),
          crVoice := snd (InterruptPlaybackWithPolicy PolicyHardInterrupt (lit ''hard_interrupt'') (crVoice r))\<rparr>))"
proof -
  have "ShouldInterruptOutput (playbackDirectiveForDecision (zeroDecision\<lparr>decPolicy := PolicyHardInterrupt, decReason := lit ''hard_interrupt''\<rparr>))"
    by code_simp
  then show ?thesis by (simp add: interruptOutput_def interruptOutputWithPolicy_def split: option.splits)
qed

fun isError :: "serverPayload \<Rightarrow> bool" where
  "isError (PError code message recoverable) = True"
| "isError _ = False"

fun isAudio :: "serverPayload \<Rightarrow> bool" where
  "isAudio (PBinary frame) = True"
| "isAudio _ = False"

definition reading :: "connectionRuntime \<Rightarrow> bool" where
  "reading r \<longleftrightarrow> (case crOutput r of None \<Rightarrow> False | Some s \<Rightarrow> osStage s = AtRead)"

section \<open>After the end\<close>

text \<open>
  No session, what is still playing is cancelled, and since then only errors were sent and at most \<open>n\<close> frames of audio,
  counting the one that a read of the stream can still deliver.
\<close>

definition after_end :: "nat \<Rightarrow> serverPayload list \<Rightarrow> connectionRuntime \<Rightarrow> bool" where
  "after_end n base r \<longleftrightarrow> crSession r = NewRealtimeSession \<and> crCollaboration r = noCollaboration \<and>
     (\<forall>s. crOutput r = Some s \<longrightarrow> osCancelled s) \<and>
     (\<exists>late. payloads r = base @ late \<and> list_all (\<lambda>p. isError p \<or> isAudio p) late \<and>
        length (filter isAudio late) + (if reading r then 1 else 0) \<le> n)"

lemma after_end_fields [simp]:
  "after_end n base (r\<lparr>crTick := i\<rparr>) = after_end n base r" "after_end n base (r\<lparr>crDeadline := d\<rparr>) = after_end n base r"
  "after_end n base (r\<lparr>crVoice := v\<rparr>) = after_end n base r" "after_end n base (r\<lparr>crClosedPreviews := hs\<rparr>) = after_end n base r"
  "after_end n base (r\<lparr>crTurnTrace := tt\<rparr>) = after_end n base r" "after_end n base (r\<lparr>crPreviewTrace := pt\<rparr>) = after_end n base r"
  "after_end n base (r\<lparr>crPending := pe\<rparr>) = after_end n base r" "after_end n base (r\<lparr>crAck := ak\<rparr>) = after_end n base r"
  "after_end n base (r\<lparr>crNormalizer := nm\<rparr>) = after_end n base r"
  by (simp_all add: after_end_def reading_def)

lemma after_end_output:
  assumes "after_end n base r" and "crOutput r = Some s"
  shows "after_end n base (r\<lparr>crOutput := Some (s\<lparr>osCursor := c\<rparr>)\<rparr>)" "after_end n base (r\<lparr>crOutput := Some (s\<lparr>osEffects := e\<rparr>)\<rparr>)"
    "after_end n base (r\<lparr>crOutput := Some (s\<lparr>osCancelled := True\<rparr>)\<rparr>)" "stage \<noteq> AtRead \<Longrightarrow> after_end n base (r\<lparr>crOutput := Some (s\<lparr>osStage := stage\<rparr>)\<rparr>)"
    "after_end n base (r\<lparr>crOutput := None\<rparr>)"
proof -
  have keep: "after_end n base (r\<lparr>crOutput := st\<rparr>)" if "\<And>s. st = Some s \<Longrightarrow> osCancelled s \<and> (osStage s = AtRead \<longrightarrow> reading r)" for st
  proof -
    obtain late where "payloads r = base @ late" "list_all (\<lambda>p. isError p \<or> isAudio p) late"
      "length (filter isAudio late) + (if reading r then 1 else 0) \<le> n" using assms(1) by (auto simp: after_end_def)
    moreover from this(3) have "length (filter isAudio late) + (if reading (r\<lparr>crOutput := st\<rparr>) then 1 else 0) \<le> n"
      using that by (cases st) (auto simp: reading_def split: if_splits)
    ultimately show ?thesis using assms(1) that unfolding after_end_def by simp
  qed
  have "osCancelled s" "osStage s = AtRead \<longleftrightarrow> reading r" using assms by (simp_all add: after_end_def reading_def)
  then show "after_end n base (r\<lparr>crOutput := Some (s\<lparr>osCursor := c\<rparr>)\<rparr>)" "after_end n base (r\<lparr>crOutput := Some (s\<lparr>osEffects := e\<rparr>)\<rparr>)"
    "after_end n base (r\<lparr>crOutput := Some (s\<lparr>osCancelled := True\<rparr>)\<rparr>)" "stage \<noteq> AtRead \<Longrightarrow> after_end n base (r\<lparr>crOutput := Some (s\<lparr>osStage := stage\<rparr>)\<rparr>)"
    "after_end n base (r\<lparr>crOutput := None\<rparr>)"
    by (auto intro!: keep)
qed

abbreviation noSession :: Snapshot where
  "noSession \<equiv> takeSnapshot NewRealtimeSession"

lemma no_session [simp]: "SessionID noSession = []" "snapState noSession = StateIdle"
  by (simp_all add: takeSnapshot_def cloneSnapshot_def NewRealtimeSession_def idleSnapshot_def zeroSnapshot_def deriveCompatState_def)

lemma silent_snapshot: "keeps (after_end n base) (f noSession) \<Longrightarrow> keeps (after_end n base) (gbind snapshotOp f)"
  unfolding keeps_def
proof (intro allI impI)
  fix r assume f: "\<forall>r. after_end n base r \<longrightarrow> after_end n base (snd (f noSession r))" and r: "after_end n base r"
  have "crSession r = NewRealtimeSession" using r by (simp only: after_end_def)
  then have "gbind snapshotOp f r = f noSession r" by (simp only: gbind_def gget_def prod.case sum.case)
  then show "after_end n base (snd (gbind snapshotOp f r))" using f r by metis
qed

lemma silent_now: "keeps (after_end n base) gnow"
  by (simp add: keeps_def gnow_def)

lemma silent_deadline: "keeps (after_end n base) (applyReadDeadline profile snap)"
  by (simp add: keeps_def applyReadDeadline_def Let_def)

lemma silent_trace: "keeps (after_end n base) (onTurnTrace f)"
  unfolding onTurnTrace_def by (rule keeps_bind [OF silent_now]) (auto simp: keeps_def split: prod.splits)

lemma silent_error: "keeps (after_end n base) (writeError sid code message recoverable)"
proof -
  have "after_end n base (snd (WriteEvent sid (PError code message recoverable) r))" if r: "after_end n base r" for r
  proof -
    obtain late where late: "payloads r = base @ late" "list_all (\<lambda>p. isError p \<or> isAudio p) late"
      "length (filter isAudio late) + (if reading r then 1 else 0) \<le> n" using r by (auto simp: after_end_def)
    let ?r1 = "snd (WriteEvent sid (PError code message recoverable) r)"
    have f: "crSession ?r1 = crSession r" "crCollaboration ?r1 = crCollaboration r" "crOutput ?r1 = crOutput r" "reading ?r1 = reading r"
      by (simp_all add: WriteEvent_def Let_def reading_def)
    let ?more = "if envConnOk (crEnv r) (crTick r) then [PError code message recoverable] else []"
    have "payloads ?r1 = base @ late @ ?more" using late(1) by (simp add: payloads_event)
    moreover have "list_all (\<lambda>p. isError p \<or> isAudio p) (late @ ?more)" "filter isAudio (late @ ?more) = filter isAudio late"
      using late(2) by simp_all
    ultimately show ?thesis using r late(3) unfolding after_end_def f by metis
  qed
  then show ?thesis by (simp add: keeps_def writeError_def)
qed

text \<open>A method of the session that is refused without one.\<close>

lemma refused_run:
  assumes "\<And>now. f now NewRealtimeSession = (Inl e, NewRealtimeSession)" and "after_end n base r"
  shows "onSession f r = (Inl (ErrSession e), r\<lparr>crTick := crTick r + 1\<rparr>)"
  using assms by (simp add: onSession_def gbind_def gnow_def after_end_def)

lemma refused:
  "after_end n base r \<Longrightarrow> onSession AcceptText r = (Inl (ErrSession ErrNoActiveSession), r\<lparr>crTick := crTick r + 1\<rparr>)"
  "after_end n base r \<Longrightarrow> onSession CommitTurn r = (Inl (ErrSession ErrNoActiveSession), r\<lparr>crTick := crTick r + 1\<rparr>)"
  "after_end n base r \<Longrightarrow> onSession (\<lambda>t. IngestOwnedAudioFrame t p) r = (Inl (ErrSession ErrNoActiveSession), r\<lparr>crTick := crTick r + 1\<rparr>)"
  "after_end n base r \<Longrightarrow> onSession (\<lambda>t. EndSession t reason) r = (Inl (ErrSession ErrNoActiveSession), r\<lparr>crTick := crTick r + 1\<rparr>)"
  "after_end n base r \<Longrightarrow> onSession (\<lambda>t. SetState t st) r = (Inl (ErrSession ErrNoActiveSession), r\<lparr>crTick := crTick r + 1\<rparr>)"
  by (rule refused_run; simp add: session_defs NewRealtimeSession_def)+

lemma silent_refused:
  assumes "\<And>r. after_end n base r \<Longrightarrow> m r = (Inl e, r\<lparr>crTick := crTick r + 1\<rparr>)"
  shows "keeps (after_end n base) (gbind m f)" "keeps (after_end n base) (g (Inl e)) \<Longrightarrow> keeps (after_end n base) (gbind (gtry m) g)"
  using assms by (simp_all add: keeps_def gbind_def gtry_def)

lemma silent_end: "keeps (after_end n base) (endSession profile reason message)"
  unfolding endSession_def by (rule silent_refused(1) [where e = "ErrSession ErrNoActiveSession"]) (simp add: refused)

lemma silent_interrupt: "keeps (after_end n base) interruptOutput"
  using after_end_output(3) by (auto simp: keeps_def interruptOutput_def interruptOutputWithPolicy_def split: option.splits)

lemma silent_terminate: "keeps (after_end n base) (terminateWithError profile code message)"
  unfolding terminateWithError_def by (rule silent_snapshot) (simp add: keeps_then silent_error keeps_ret)

section \<open>The messages\<close>

fun startsSession :: "conn_event \<Rightarrow> bool" where
  "startsSession (Inbound (ControlFrame (Some (i, SessionStart p))) pw pion) = True"
| "startsSession _ = False"

lemma silent_commit: "keeps (after_end n base) (handleCommit h pw i decoded)"
proof (cases decoded)
  case (Inr reason)
  have skip: "keeps P (gbind (gget g) (\<lambda>x. gbind (gret y) f))" if "keeps P (f y)" for P y and f :: "'a \<Rightarrow> unit gop" and g :: "connectionRuntime \<Rightarrow> 'b"
    using that by (simp add: keeps_def gbind_def gget_def gret_def)
  show ?thesis unfolding handleCommit_def Inr sum.case
    by (rule silent_snapshot) (simp add: skip silent_error)
qed (simp add: handleCommit_def silent_error)

lemma silent_text: "keeps (after_end n base) (handleText h i decoded)"
proof (cases decoded)
  case (Inr t)
  have "keeps (after_end n base) (gbind (gtry (onSession AcceptText)) g)" if "keeps (after_end n base) (g (Inl (ErrSession ErrNoActiveSession)))"
    for g :: "gateway_error + Snapshot \<Rightarrow> unit gop"
    by (rule silent_refused(2) [where e = "ErrSession ErrNoActiveSession"]) (simp_all add: refused that)
  note accept = this
  show ?thesis unfolding handleText_def Let_def Inr sum.case
    by (intro keeps_if silent_error silent_snapshot keeps_then keeps_ret accept) (simp_all add: silent_error)
qed (simp add: handleText_def Let_def silent_error)

lemma silent_client_end: "keeps (after_end n base) (handleClientEnd h i decoded)"
  unfolding handleClientEnd_def
  by (intro keeps_sum keeps_prod keeps_then keeps_bind keeps_try silent_error silent_interrupt silent_end keeps_ret keeps_if keeps_fail)

lemma silent_update: "keeps (after_end n base) (handleSessionUpdate h i decoded)"
proof -
  have "keeps (after_end n base) (gbind snapshotOp (\<lambda>s. if SessionID s = [] then writeError i c t b else k s))" for c t b k
    by (rule silent_snapshot) (simp add: silent_error)
  then show ?thesis by (auto simp: handleSessionUpdate_def silent_error split: option.split sum.split)
qed

lemma silent_acknowledged: "keeps (after_end n base) (acknowledged payload m)"
  by (simp add: keeps_def acknowledged_def gbind_def gget_def gret_def after_end_def)

lemma silent_audio_out:
  "keeps (after_end n base) (handleAudioOut i code recordPlaybackAckStarted decoded)"
  "keeps (after_end n base) (handleAudioOut i code recordPlaybackAckMark decoded)"
  "keeps (after_end n base) (handleAudioOut i code (recordPlaybackAckCleared h) decoded)"
  "keeps (after_end n base) (handleAudioOut i code recordPlaybackAckCompleted decoded)"
  by (auto simp: handleAudioOut_def recordPlaybackAckStarted_def recordPlaybackAckMark_def recordPlaybackAckCleared_def
      recordPlaybackAckCompleted_def silent_error silent_acknowledged split: sum.split)

lemma silent_binary: "keeps (after_end n base) (handleBinary h pw pion payload)"
proof -
  have "keeps (after_end n base) (gbind (gtry (onSession (\<lambda>now. IngestOwnedAudioFrame now p))) g)"
    if "keeps (after_end n base) (g (Inl (ErrSession ErrNoActiveSession)))" for p and g :: "gateway_error + Snapshot \<Rightarrow> unit gop"
    by (rule silent_refused(2) [where e = "ErrSession ErrNoActiveSession"]) (simp_all add: refused that)
  note ingest = this
  have decode: "keeps (after_end n base) (decodeFrame pion payload)" by (simp add: decodeFrame_def keeps_get)
  show ?thesis unfolding handleBinary_def
    by (intro keeps_if silent_terminate silent_snapshot keeps_bind [OF decode] keeps_sum ingest)
      (simp_all add: silent_error silent_deadline keeps_fail keeps_ret keeps_then)
qed

lemma silent_message:
  assumes "\<not> startsSession (Inbound m pw pion)"
  shows "keeps (after_end n base) (handleInboundMessage h pw pion m)"
proof (cases m)
  case ReadTimeout
  have "keeps (after_end n base) (handleReadTimeout h)" unfolding handleReadTimeout_def
    by (rule silent_snapshot) (simp add: deadlineCloseReason_def keeps_bind silent_now keeps_ret)
  then show ?thesis by (simp add: ReadTimeout handleInboundMessage_def)
next
  case (ControlFrame frame)
  have "keeps (after_end n base) (handleControl h pw frame)"
  proof (cases frame)
    case (Some a)
    then show ?thesis using assms ControlFrame
      by (cases a; cases "snd a") (auto simp: handleControl_def silent_commit silent_text silent_client_end silent_update silent_audio_out silent_error)
  qed (simp add: handleControl_def silent_error)
  then show ?thesis unfolding ControlFrame handleInboundMessage_def inboundMessage.case
    by (intro keeps_bind keeps_try keeps_sum keeps_ret keeps_if keeps_fail)
qed (simp_all add: handleInboundMessage_def keeps_fail silent_binary silent_snapshot silent_error)

lemma silent_tick: "keeps (after_end n base) (handleServerEndpointTick h pw now)"
  unfolding handleServerEndpointTick_def by (rule silent_snapshot) (simp add: keeps_ret)

section \<open>The goroutine of the cancelled output\<close>

lemma silent_exit: "keeps (after_end n base) playbackExit"
  unfolding playbackExit_def keeps_def gmod_def snd_conv
proof (intro allI impI)
  fix r assume r: "after_end n base r"
  have "after_end n base (r\<lparr>crOutput := None\<rparr>)"
  proof (cases "crOutput r")
    case None
    then have "r\<lparr>crOutput := None\<rparr> = r" by simp
    then show ?thesis using r by simp
  qed (rule after_end_output(5) [OF r])
  moreover have "r\<lparr>crAck := clearPlaybackAckState (crAck r), crOutput := None\<rparr> = (r\<lparr>crOutput := None\<rparr>)\<lparr>crAck := clearPlaybackAckState (crAck r)\<rparr>" by simp
  ultimately show "after_end n base (r\<lparr>crAck := clearPlaybackAckState (crAck r), crOutput := None\<rparr>)" by (simp only: after_end_fields)
qed

lemma silent_move: "stage \<noteq> AtRead \<Longrightarrow> keeps (after_end n base) (moveTo stage)"
  unfolding moveTo_def keeps_def gmod_def snd_conv
proof (intro allI impI)
  fix r assume "stage \<noteq> AtRead" and r: "after_end n base r"
  then show "after_end n base (r\<lparr>crOutput := map_option (\<lambda>st. st\<lparr>osStage := stage\<rparr>) (crOutput r)\<rparr>)"
  proof (cases "crOutput r")
    case None
    then have "r\<lparr>crOutput := map_option (\<lambda>st. st\<lparr>osStage := stage\<rparr>) (crOutput r)\<rparr> = r" by simp
    then show ?thesis using r by simp
  qed (use after_end_output(4) [OF r] \<open>stage \<noteq> AtRead\<close> in simp)
qed

lemma silent_meta: "keeps (after_end n base) (emitAudioOutMeta sid meta)"
  unfolding keeps_def
proof (intro allI impI)
  fix r assume r: "after_end n base r"
  then have "\<not> PlaybackAckEnabled (crCollaboration r)" by (simp add: after_end_def noCollaboration_def PlaybackAckEnabled_def)
  then have "snd (emitAudioOutMeta sid meta r) = (let a = activatePlaybackAckSegment meta (crAck r)
      in r\<lparr>crAck := a, crVoice := syncAnnouncedPlaybackContext a (crVoice r)\<rparr>)"
    by (simp add: emitAudioOutMeta_def modAck_def syncAnnounced_def gthen_def gbind_def gget_def gmod_def Let_def)
  then show "after_end n base (snd (emitAudioOutMeta sid meta r))" using r by (simp add: Let_def)
qed

lemma silent_or_exit: "keeps (after_end n base) m \<Longrightarrow> keeps (after_end n base) (orExit m)"
  unfolding orExit_def by (intro keeps_bind keeps_try keeps_sum keeps_ret silent_exit)

text \<open>The frame that a read still delivers is the one that was counted.\<close>

lemma last_frame:
  assumes "after_end n base r" and "crOutput r = Some s" and "osStage s = AtRead"
  shows "after_end (Suc n) base (snd (playChunk chunk r)) \<and> reading (snd (playChunk chunk r))"
proof -
  obtain late where late: "payloads r = base @ late" "list_all (\<lambda>p. isError p \<or> isAudio p) late" "length (filter isAudio late) + 1 \<le> n"
    using assms by (auto simp: after_end_def reading_def)
  define now where "now = envClock (crEnv r) (crTick r)"
  obtain out e where ap: "ApplyPCM16 chunk now (osEffects s) = (out, e)" by (cases "ApplyPCM16 chunk now (osEffects s)")
  define r1 where "r1 = r\<lparr>crTick := crTick r + 1, crOutput := Some (s\<lparr>osEffects := e\<rparr>)\<rparr>"
  define w where "w = snd (WriteBinary out r1)"
  have w: "crSession w = NewRealtimeSession" "crCollaboration w = noCollaboration" "crOutput w = Some (s\<lparr>osEffects := e\<rparr>)" "osCancelled s"
    using assms by (simp_all add: w_def r1_def WriteBinary_def Let_def after_end_def)
  have "\<exists>more. payloads w = base @ late @ more \<and> length more \<le> 1 \<and> list_all isAudio more"
    using late(1) by (auto simp: w_def payloads_event r1_def)
  then obtain more where more: "payloads w = base @ late @ more" "length more \<le> 1" "list_all isAudio more" by blast
  have "length (filter isAudio more) \<le> 1" using length_filter_le [of isAudio more] more(2) by linarith
  then have "length (filter isAudio (late @ more)) + 1 \<le> Suc n" using late(3) by simp
  moreover have "list_all (\<lambda>p. isError p \<or> isAudio p) (late @ more)" using late(2) more(3) by (auto simp: list_all_iff)
  ultimately have aw: "after_end (Suc n) base w" "reading w"
    using w more(1) assms(3) by (auto simp: after_end_def reading_def)
  define rest where "rest = gthen (gmod (\<lambda>r. r\<lparr>crTurnTrace := markTurnFirstAudioChunk now (int (length out)) (crTurnTrace r)\<rparr>))
      (gmod (\<lambda>r. if PlaybackAckEnabled (crCollaboration r) then r else r\<lparr>crVoice := ObservePlaybackChunk (crVoice r)\<rparr>))"
  have run: "playChunk chunk r = gthen (WriteBinary out) rest r1"
    using assms(2) ap by (simp add: playChunk_def gbind_def [of gnow] gnow_def now_def rest_def r1_def)
  have "keeps (\<lambda>r. after_end (Suc n) base r \<and> reading r) rest"
    unfolding rest_def by (intro keeps_then keeps_mod) (simp_all add: reading_def)
  from keepsD [OF this, of w] aw show ?thesis unfolding run
    by (cases "WriteBinary out r1"; cases "fst (WriteBinary out r1)") (simp_all add: gthen_def gbind_def w_def)
qed

lemma after_frame:
  assumes "after_end (Suc n) base r" and "reading r"
  shows "after_end n base (snd (moveTo AtCheck r))" "after_end n base (snd (playbackExit r))"
  using assms by (auto simp: after_end_def reading_def moveTo_def playbackExit_def gmod_def split: option.splits)

lemma silent_complete:
  assumes "hooks = (if ooEndSession out
      then \<lparr>tcResolveReturnActive = None, tcOnReturnActive = None, tcOnEndSession = Some (\<lambda>reason message. endSession p reason (TextOf message))\<rparr>
      else \<lparr>tcResolveReturnActive = Some resolvePostPlaybackActiveSnapshot, tcOnReturnActive = Some onActive, tcOnEndSession = None\<rparr>)"
  shows "keeps (after_end n base) (completeTurnReturnOrClose q out hooks)"
proof (cases "ooEndSession out")
  case True
  have "keeps (after_end n base) clearTurnTrace" by (simp add: clearTurnTrace_def keeps_mod)
  then show ?thesis using True unfolding completeTurnReturnOrClose_def assms Let_def
    by (simp add: keeps_then silent_trace silent_end)
next
  case False
  show ?thesis unfolding keeps_def
  proof (intro allI impI)
    fix r assume r: "after_end n base r"
    then have "crSession r = NewRealtimeSession" by (simp add: after_end_def)
    then have "resolvePostPlaybackActiveSnapshot r = (Inr (zeroSnapshot, False), r)"
      by (simp add: resolvePostPlaybackActiveSnapshot_def gbind_def gget_def gret_def)
    then have "completeTurnReturnOrClose q out hooks r = (Inl (ErrSession ErrNoActiveSession), r\<lparr>crTick := crTick r + 1\<rparr>)"
      using False by (simp add: completeTurnReturnOrClose_def assms gbind_def refused(5) [OF r])
    then show "after_end n base (snd (completeTurnReturnOrClose q out hooks r))" using r by simp
  qed
qed

lemma silent_playback: "keeps (after_end n base) (playbackEvent h ev)"
  unfolding keeps_def
proof (intro allI impI)
  fix r assume r: "after_end n base r"
  show "after_end n base (snd (playbackEvent h ev r))"
  proof (cases "crOutput r")
    case None
    then show ?thesis using r by (simp add: playbackEvent_def)
  next
    case (Some s)
    have c: "osCancelled s" using r Some by (simp add: after_end_def)
    have chunk: "after_end n base (snd (orExit (gthen (if b = [] then gret () else playChunk b) (moveTo AtCheck)) r))" if "osStage s = AtRead" for b
    proof (cases "b = []")
      case True
      then show ?thesis using keepsD [OF silent_or_exit [OF silent_move [of AtCheck]] r]
        by (simp add: gthen_def gbind_def [of "gret ()"] gret_def orExit_def gtry_def moveTo_def gmod_def gbind_def)
    next
      case False
      note l = last_frame [OF r Some that, of b]
      obtain x r1 where w: "playChunk b r = (x, r1)" by (cases "playChunk b r")
      show ?thesis using l after_frame [of n base r1] False
        by (cases x) (simp_all add: w orExit_def gthen_def gbind_def gtry_def gret_def moveTo_def gmod_def)
    qed
    have done1: "after_end n base (snd (gthen (gtry (completeTurnReturnOrClose q out (if ooEndSession out
      then \<lparr>tcResolveReturnActive = None, tcOnReturnActive = None, tcOnEndSession = Some (\<lambda>reason message. endSession p reason (TextOf message))\<rparr>
      else \<lparr>tcResolveReturnActive = Some resolvePostPlaybackActiveSnapshot, tcOnReturnActive = Some onActive, tcOnEndSession = None\<rparr>))) playbackExit r))" for p q out
      by (rule keepsD [OF keeps_then [OF keeps_try [OF silent_complete [OF refl]] silent_exit] r])
    have voiced: "after_end n base (snd (gthen (gmod completeVoicePlayback) (moveTo AtOutcome) r))"
      by (rule keepsD [OF keeps_then [OF keeps_mod silent_move] r]) (simp_all add: completeVoicePlayback_def)
    note whole = keepsD [OF silent_or_exit [OF keeps_then [OF silent_meta silent_move [of AtCheck]]] r]
      and seg = keepsD [OF silent_or_exit [OF silent_meta] after_end_output(1) [OF r Some]]
    show ?thesis
    proof (cases ev)
      case PlayOutcome
      show ?thesis using Some r done1
        by (cases "osStage s"; cases "osCompletion s") (simp_all add: playbackEvent_def PlayOutcome Let_def split del: if_split)
    qed (use Some r c whole seg chunk voiced keepsD [OF silent_exit r] keepsD [OF silent_move [of AtCheck] r]
      in \<open>simp_all add: playbackEvent_def Let_def split: playbackStage.splits\<close>)
  qed
qed

lemma silent_step: "\<not> startsSession ev \<Longrightarrow> keeps (after_end n base) (connection_step h ev)"
  by (cases ev) (simp_all add: silent_message silent_tick silent_playback)

lemma silent_run: "after_end n base r \<Longrightarrow> list_all (\<lambda>ev. \<not> startsSession ev) evs \<Longrightarrow> after_end n base (connection_run h evs r)"
  unfolding connection_run_def by (induction evs arbitrary: r) (auto intro: keepsD [OF silent_step])

section \<open>Ending the session\<close>

text \<open>What is left of a session that was ended.\<close>

definition session_gone :: "connectionRuntime \<Rightarrow> bool" where
  "session_gone r \<longleftrightarrow> crSession r = NewRealtimeSession \<and> crNormalizer r = None \<and> orPreview (crVoice r) = None \<and> crAck r = noPlaybackAck \<and>
     crCollaboration r = noCollaboration \<and> tsCurrent (crTurnTrace r) = noTurnTrace \<and> isCurrent (crPreviewTrace r) = noPreviewTrace \<and>
     crDeadline r = None"

lemma end_session_run:
  assumes "active (crSession r)" and "fst (endSession profile reason message r) = Inr ()"
  shows "session_gone (snd (endSession profile reason message r)) \<and> crOutput (snd (endSession profile reason message r)) = crOutput r \<and>
     payloads (snd (endSession profile reason message r)) = payloads r @ [PSessionEnd reason message]"
proof -
  obtain snap se where ended: "onSession (\<lambda>t. EndSession t reason) r = (Inr snap, r\<lparr>crTick := crTick r + 1, crSession := se\<rparr>)"
    using assms(1) by (simp add: onSession_def gbind_def gnow_def EndSession_def Let_def)
  define r1 where "r1 = r\<lparr>crTick := crTick r + 1, crSession := se\<rparr>"
  define r2 where "r2 = snd (WriteEvent (SessionID snap) (PSessionEnd reason message) r1)"
  define r3 where "r3 = r2\<lparr>crSession := NewRealtimeSession, crNormalizer := None\<rparr>"
  obtain e where w: "WriteEvent (SessionID snap) (PSessionEnd reason message) r1 = (e, r2)" by (metis r2_def prod.collapse)
  define rest where "rest = gbind snapshotOp (\<lambda>snap. applyReadDeadline profile snap)"
  obtain t hs where cleared: "clearInputPreview r3 = (Inr t, r3\<lparr>crPreviewTrace := (crPreviewTrace r3)\<lparr>isCurrent := noPreviewTrace\<rparr>,
      crVoice := (crVoice r3)\<lparr>orPreview := None\<rparr>, crClosedPreviews := hs\<rparr>)"
    by (simp add: clearInputPreview_def clearPreviewTrace_def ClearPreviewTrace_def ClearInputPreview_def leavePreviewing_def gthen_def gbind_def
        gmod_def gget_def gret_def r3_def)
  define r4 where "r4 = r3\<lparr>crPreviewTrace := (crPreviewTrace r3)\<lparr>isCurrent := noPreviewTrace\<rparr>, crVoice := (crVoice r3)\<lparr>orPreview := None\<rparr>,
      crClosedPreviews := hs, crAck := noPlaybackAck, crCollaboration := noCollaboration, crTurnTrace := ClearTrace (crTurnTrace r3)\<rparr>"
  have ok: "e = Inr ()" using assms(2) ended w by (cases e) (auto simp: endSession_def gbind_def gthen_def r1_def)
  have run: "endSession profile reason message r = applyReadDeadline profile noSession r4"
    using ended cleared w ok
    by (simp add: endSession_def gbind_def gthen_def gmod_def gget_def modAck_def clearPlaybackAckState_def clearTurnTrace_def Reset_def
        NewRealtimeSession_def [symmetric] r1_def r3_def r4_def)
  have sent: "payloads r2 = payloads r @ [PSessionEnd reason message]" "crOutput r2 = crOutput r"
    using w ok by (auto simp: WriteEvent_def Let_def payloads_def r1_def split: if_splits)
  have dead: "fst (applyReadDeadline profile noSession r4) = Inr ()" using assms(2) run by simp
  then have last: "snd (applyReadDeadline profile noSession r4) = r4\<lparr>crTick := crTick r4 + 1, crDeadline := None\<rparr>"
    by (simp add: applyReadDeadline_def readDeadlineForSnapshot_def Let_def split: if_splits)
  show ?thesis unfolding run last using sent by (simp add: session_gone_def r4_def r3_def ClearTrace_def)
qed

text \<open>The three ways in which a message or the clock ends a session.\<close>

datatype ending = ClientEnds gostring gostring gostring | DeadlinePasses | ServerFails gostring errorText

fun end_by :: "realtimeWSHandler \<Rightarrow> ending \<Rightarrow> unit gop" where
  "end_by h (ClientEnds i reason message) = handleClientEnd h i (Inr (reason, message))"
| "end_by h DeadlinePasses = handleReadTimeout h"
| "end_by h (ServerFails code message) = terminateWithError (hProfile h) code message"

lemma interrupt_and_end:
  assumes "active (crSession r)" and "fst (gthen interruptOutput (endSession profile reason message) r) = Inr ()"
  shows "let r1 = snd (gthen interruptOutput (endSession profile reason message) r)
    in session_gone r1 \<and> crOutput r1 = map_option (\<lambda>s. s\<lparr>osCancelled := True\<rparr>) (crOutput r) \<and> payloads r1 = payloads r @ [PSessionEnd reason message]"
proof -
  define r0 where "r0 = snd (interruptOutput r)"
  have r0: "gthen interruptOutput (endSession profile reason message) r = endSession profile reason message r0" "crSession r0 = crSession r"
    "crOutput r0 = map_option (\<lambda>s. s\<lparr>osCancelled := True\<rparr>) (crOutput r)" "payloads r0 = payloads r"
    by (simp_all add: r0_def interrupt_output_run gthen_def gbind_def split: option.split)
  show ?thesis using end_session_run [of r0 profile reason message] assms unfolding r0(1) Let_def by (simp add: r0(2-4))
qed

lemma end_by_run:
  assumes "session_inv (crSession r)" and "active (crSession r)" and "fst (end_by h e r) = Inr ()"
  obtains errors reason message where "session_gone (snd (end_by h e r))" "crOutput (snd (end_by h e r)) = map_option (\<lambda>s. s\<lparr>osCancelled := True\<rparr>) (crOutput r)"
    "payloads (snd (end_by h e r)) = payloads r @ errors @ [PSessionEnd reason message]" "list_all isError errors"
proof -
  have sid: "SessionID (takeSnapshot (crSession r)) \<noteq> []" using assms(1,2) by (simp add: session_inv_def takeSnapshot_def cloneSnapshot_def)
  show thesis
  proof (cases e)
    case (ClientEnds i why t)
    define reason where "reason = defaultCloseReason why CloseReasonClientStop"
    let ?m = "gthen interruptOutput (endSession (hProfile h) reason (TextOf t))"
    obtain r0 where r0: "gthen interruptOutput k r = k r0" "crSession r0 = crSession r" for k :: "unit gop"
      by (rule that [of "snd (interruptOutput r)"]) (simp_all add: interrupt_output_run gthen_def gbind_def split: option.split)
    obtain x r1 where m: "?m r = (x, r1)" by (cases "?m r")
    have "x \<noteq> Inl (ErrSession ErrNoActiveSession)"
    proof
      assume "x = Inl (ErrSession ErrNoActiveSession)"
      then show False using m assms(2) unfolding r0
        by (auto simp: endSession_def gbind_def gthen_def onSession_def gnow_def EndSession_def r0(2) Let_def WriteEvent_def gmod_def modAck_def
            clearInputPreview_def clearPreviewTrace_def leavePreviewing_def gget_def gret_def clearTurnTrace_def applyReadDeadline_def Reset_def
            NewRealtimeSession_def [symmetric] case_prod_beta split: if_splits)
    qed
    then have "end_by h e r = ?m r" and "x = Inr ()"
      using m assms(3) unfolding ClientEnds r0
      by (cases x; simp add: handleClientEnd_def r0 gbind_def gtry_def gret_def gfail_def reason_def; fail)+
    then show ?thesis using interrupt_and_end [OF assms(2), of "hProfile h" reason "TextOf t"] m
      by (intro that [of "[]" reason "TextOf t"]) (simp_all add: Let_def)
  next
    case DeadlinePasses
    define r0 where "r0 = r\<lparr>crTick := crTick r + 1\<rparr>"
    define why where "why = deadlineCloseReason (takeSnapshot (crSession r)) (hProfile h) (envClock (crEnv r) (crTick r))"
    define reason where "reason = (case why of None \<Rightarrow> CloseReasonError | Some c \<Rightarrow> c)"
    define t where "t = closeMessageForReason reason"
    have "end_by h e r = gthen interruptOutput (endSession (hProfile h) reason (TextOf t)) r0"
      using sid by (cases why) (simp_all add: DeadlinePasses handleReadTimeout_def gbind_def gget_def gnow_def r0_def why_def [symmetric] reason_def t_def)
    then show ?thesis using interrupt_and_end [of r0 "hProfile h" reason "TextOf t"] assms(2,3)
      by (intro that [of "[]" reason "TextOf t"]) (simp_all add: Let_def r0_def)
  next
    case (ServerFails code t)
    obtain y r0 where w: "writeError (SessionID (takeSnapshot (crSession r))) code t False r = (y, r0)" by (cases rule: prod.exhaust)
    have y: "y = Inr ()" using assms(3) w by (cases y) (simp_all add: ServerFails terminateWithError_def gbind_def gget_def gthen_def)
    then have r0: "crSession r0 = crSession r" "crOutput r0 = crOutput r" "payloads r0 = payloads r @ [PError code t False]"
      using w by (auto simp: writeError_def WriteEvent_def Let_def payloads_def split: if_splits)
    have "end_by h e r = gthen interruptOutput (endSession (hProfile h) CloseReasonError t) r0"
      using w y sid by (simp add: ServerFails terminateWithError_def gbind_def gget_def gthen_def)
    then show ?thesis using interrupt_and_end [of r0 "hProfile h" CloseReasonError t] assms(2,3) r0
      by (intro that [of "[PError code t False]" CloseReasonError t]) (simp_all add: Let_def)
  qed
qed

text \<open>
  C3: The end of a session is final. When a client, a deadline or an error of the server ends the session of a connection
  (and the connection takes the writes), the client is sent the end as the last message, after at most the error; the
  connection holds nothing of the session any more: no audio, no preview, no acknowledgements, no negotiated collaboration, no
  traces, no deadline, and an output that was playing is cancelled. Whatever then arrives, ticks or is still done by the goroutine
  of that output, nothing brings the session back or answers anything before another \<open>session.start\<close>: the client is sent
  errors only, and one more frame of audio at most, if the goroutine was inside a read of its stream.
\<close>
theorem session_end_is_final:
  assumes "session_inv (crSession r)" and "active (crSession r)" and "fst (end_by h e r) = Inr ()"
    and "list_all (\<lambda>ev. \<not> startsSession ev) evs"
  shows "let r1 = snd (end_by h e r); r2 = connection_run h evs r1
    in session_gone r1 \<and> crOutput r1 = map_option (\<lambda>s. s\<lparr>osCancelled := True\<rparr>) (crOutput r) \<and>
       (\<exists>errors reason message. payloads r1 = payloads r @ errors @ [PSessionEnd reason message] \<and> list_all isError errors) \<and>
       crSession r2 = NewRealtimeSession \<and> crCollaboration r2 = noCollaboration \<and>
       (\<exists>late. payloads r2 = payloads r1 @ late \<and> list_all (\<lambda>p. isError p \<or> isAudio p) late \<and>
          length (filter isAudio late) \<le> (if reading r then 1 else 0))"
proof -
  obtain errors reason message where e: "session_gone (snd (end_by h e r))"
    "crOutput (snd (end_by h e r)) = map_option (\<lambda>s. s\<lparr>osCancelled := True\<rparr>) (crOutput r)"
    "payloads (snd (end_by h e r)) = payloads r @ errors @ [PSessionEnd reason message]" "list_all isError errors"
    using assms(1-3) by (rule end_by_run)
  have "after_end (if reading r then 1 else 0) (payloads (snd (end_by h e r))) (snd (end_by h e r))"
    using e(1,2) by (auto simp: after_end_def session_gone_def reading_def split: option.splits)
  from silent_run [OF this assms(4)] show ?thesis using e unfolding after_end_def Let_def by fastforce
qed

definition example_handler :: realtimeWSHandler where
  "example_handler =
     \<lparr>hProfile = \<lparr>prProtocolVersion = lit ''rtos-ws-v0'', prServerEndpointEnabled = True, prBargeInMinAudioMs = 120, prBargeInHoldAudioMs = 240,
        prIdleTimeoutMs = 15000, prMaxSessionMs = 300000, prMaxFrameBytes = 4096, prInputCodec = lit ''pcm16le'', prInputSampleRate = 16000,
        prInputChannels = 1, prAllowOpus = True, prAllowTextInput = True\<rparr>,
      hResponder = (\<lambda>_. RunPlain (Inl (ErrResponder (lit ''unavailable'')))), hStreamDuration = (\<lambda>_. 0)\<rparr>"

definition example_playing :: connectionRuntime where
  "example_playing = example_speaking\<lparr>crOutput := Some \<lparr>osStage = AtRead, osCancelled = False, osCompletion = None, osEffects = newOutputEffects,
     osSessionID = lit ''s'', osMeta = cursorMeta [] [], osSource = ChunkSource [[1, 2]], osCursor = cursorMeta [] []\<rparr>\<rparr>"

text \<open>The client ends the session while the goroutine reads; the frame is delivered, then text and audio arrive.\<close>

theorem session_end_is_final_witness:
  "\<forall>pw pion. crSession (connection_run example_handler
       [Playback (PlayChunk [1, 2]), Inbound (ControlFrame (Some ([], TextIn (Inr (lit ''hello''))))) pw pion, Inbound (BinaryFrame [1, 2]) pw pion]
       (snd (end_by example_handler (ClientEnds [] [] []) example_playing))) = NewRealtimeSession"
proof (intro allI)
  fix pw pion
  have "session_inv (crSession example_playing)" "active (crSession example_playing)"
    using example_speaking_ok(1) by (simp_all add: example_playing_def conn_inv_def) (simp add: example_speaking_def example_simps)
  moreover have "fst (end_by example_handler (ClientEnds [] [] []) example_playing) = Inr ()" by code_simp
  ultimately show "crSession (connection_run example_handler
       [Playback (PlayChunk [1, 2]), Inbound (ControlFrame (Some ([], TextIn (Inr (lit ''hello''))))) pw pion, Inbound (BinaryFrame [1, 2]) pw pion]
       (snd (end_by example_handler (ClientEnds [] [] []) example_playing))) = NewRealtimeSession"
    using session_end_is_final [of example_playing example_handler "ClientEnds [] [] []"
      "[Playback (PlayChunk [1, 2]), Inbound (ControlFrame (Some ([], TextIn (Inr (lit ''hello''))))) pw pion, Inbound (BinaryFrame [1, 2]) pw pion]"]
    by (simp add: Let_def)
qed

end
