(* ===== verification/Xiaozhi_Protocol.thy ===== *)
theory Xiaozhi_Protocol
  imports Semantic_Slots
begin

text \<open>
  The binary frames of the xiaozhi protocol, \<open>internal/gateway/xiaozhi_protocol.go\<close>, and the Opus packets of
  its downlink, \<open>internal/gateway/xiaozhi_audio.go\<close>.

  A frame is a list of bytes. Header fields are 16 and 32 bit words in big-endian order, read and written as
  \<open>encoding/binary\<close> does; \<open>uint16(len(payload))\<close> and \<open>uint32(len(payload))\<close> are the truncating conversions to
  those widths. The ffmpeg process and the Ogg reader are outside the repository: what they deliver is an
  argument.
\<close>

unbundle bit_operations_syntax

section \<open>Versions\<close>

definition xiaozhiBinaryProtocolV1 :: int where "xiaozhiBinaryProtocolV1 = 1"
definition xiaozhiBinaryProtocolV2 :: int where "xiaozhiBinaryProtocolV2 = 2"
definition xiaozhiBinaryProtocolV3 :: int where "xiaozhiBinaryProtocolV3 = 3"
definition xiaozhiBinaryTypeAudio :: int where "xiaozhiBinaryTypeAudio = 0"
definition xiaozhiBinaryProtocol2HeaderSize :: nat where "xiaozhiBinaryProtocol2HeaderSize = 16"
definition xiaozhiBinaryProtocol3HeaderSize :: nat where "xiaozhiBinaryProtocol3HeaderSize = 4"

lemmas xiaozhi_constants = xiaozhiBinaryProtocolV1_def xiaozhiBinaryProtocolV2_def xiaozhiBinaryProtocolV3_def
  xiaozhiBinaryTypeAudio_def xiaozhiBinaryProtocol2HeaderSize_def xiaozhiBinaryProtocol3HeaderSize_def

definition normalizeXiaozhiProtocolVersion :: "int \<Rightarrow> int" where
  "normalizeXiaozhiProtocolVersion version =
     (if version = xiaozhiBinaryProtocolV2 \<or> version = xiaozhiBinaryProtocolV3 then version else xiaozhiBinaryProtocolV1)"

definition parseXiaozhiProtocolVersion :: "gostring \<Rightarrow> int" where
  "parseXiaozhiProtocolVersion raw =
     (case Atoi (TrimSpace raw) of
        None \<Rightarrow> xiaozhiBinaryProtocolV1
      | Some parsed \<Rightarrow> normalizeXiaozhiProtocolVersion parsed)"

definition resolveXiaozhiProtocolVersion :: "gostring \<Rightarrow> int \<Rightarrow> int \<Rightarrow> int" where
  "resolveXiaozhiProtocolVersion headerValue helloVersion fallback =
     (let version = normalizeXiaozhiProtocolVersion fallback;
          version1 = (if TrimSpace headerValue \<noteq> [] then parseXiaozhiProtocolVersion headerValue else version)
      in if helloVersion > 0 then normalizeXiaozhiProtocolVersion helloVersion else version1)"

section \<open>Frames\<close>

text \<open>The functions of \<open>encoding/binary.BigEndian\<close>.\<close>

definition beUint16 :: "byte \<Rightarrow> byte \<Rightarrow> 16 word" where
  "beUint16 b0 b1 = ucast b1 OR push_bit 8 (ucast b0)"

definition beUint32 :: "byte \<Rightarrow> byte \<Rightarrow> byte \<Rightarrow> byte \<Rightarrow> 32 word" where
  "beUint32 b0 b1 b2 b3 = ucast b3 OR push_bit 8 (ucast b2) OR push_bit 16 (ucast b1) OR push_bit 24 (ucast b0)"

definition bePutUint16 :: "16 word \<Rightarrow> byte list" where
  "bePutUint16 v = [ucast (drop_bit 8 v), ucast v]"

definition bePutUint32 :: "32 word \<Rightarrow> byte list" where
  "bePutUint32 v = [ucast (drop_bit 24 v), ucast (drop_bit 16 v), ucast (drop_bit 8 v), ucast v]"

definition unwrapXiaozhiBinaryFrame :: "byte list \<Rightarrow> int \<Rightarrow> gostring + byte list" where
  "unwrapXiaozhiBinaryFrame payload version =
     (let v = normalizeXiaozhiProtocolVersion version
      in if v = xiaozhiBinaryProtocolV1 then Inr payload
         else if v = xiaozhiBinaryProtocolV2 then
           (if length payload < xiaozhiBinaryProtocol2HeaderSize
            then Inl (lit ''xiaozhi protocol v2 frame shorter than 16-byte header'')
            else
              let frameVersion = uint (beUint16 (payload ! 0) (payload ! 1));
                  frameType = uint (beUint16 (payload ! 2) (payload ! 3));
                  payloadSize = uint (beUint32 (payload ! 12) (payload ! 13) (payload ! 14) (payload ! 15))
              in if normalizeXiaozhiProtocolVersion frameVersion \<noteq> xiaozhiBinaryProtocolV2
                 then Inl (lit ''xiaozhi protocol v2 header declared version '' @ Itoa frameVersion)
                 else if frameType \<noteq> xiaozhiBinaryTypeAudio
                 then Inl (lit ''unsupported xiaozhi protocol v2 frame type '' @ Itoa frameType)
                 else if payloadSize < 0 \<or> payloadSize > int (length payload) - int xiaozhiBinaryProtocol2HeaderSize
                 then Inl (lit ''xiaozhi protocol v2 payload_size '' @ Itoa payloadSize @ lit '' exceeds frame body'')
                 else Inr (take (nat payloadSize) (drop xiaozhiBinaryProtocol2HeaderSize payload)))
         else if v = xiaozhiBinaryProtocolV3 then
           (if length payload < xiaozhiBinaryProtocol3HeaderSize
            then Inl (lit ''xiaozhi protocol v3 frame shorter than 4-byte header'')
            else
              let frameType = uint (payload ! 0);
                  payloadSize = uint (beUint16 (payload ! 2) (payload ! 3))
              in if frameType \<noteq> xiaozhiBinaryTypeAudio
                 then Inl (lit ''unsupported xiaozhi protocol v3 frame type '' @ Itoa frameType)
                 else if payloadSize < 0 \<or> payloadSize > int (length payload) - int xiaozhiBinaryProtocol3HeaderSize
                 then Inl (lit ''xiaozhi protocol v3 payload_size '' @ Itoa payloadSize @ lit '' exceeds frame body'')
                 else Inr (take (nat payloadSize) (drop xiaozhiBinaryProtocol3HeaderSize payload)))
         else Inl (lit ''unsupported xiaozhi protocol version '' @ Itoa version))"

definition wrapXiaozhiBinaryFrame :: "byte list \<Rightarrow> int \<Rightarrow> gostring + byte list" where
  "wrapXiaozhiBinaryFrame payload version =
     (let v = normalizeXiaozhiProtocolVersion version
      in if v = xiaozhiBinaryProtocolV1 then Inr payload
         else if v = xiaozhiBinaryProtocolV2 then
           Inr (bePutUint16 (word_of_int xiaozhiBinaryProtocolV2) @ bePutUint16 (word_of_int xiaozhiBinaryTypeAudio) @
                replicate 8 0 @ bePutUint32 (word_of_nat (length payload)) @ payload)
         else if v = xiaozhiBinaryProtocolV3 then
           (if length payload > 0xFFFF then Inl (lit ''xiaozhi protocol v3 payload exceeds 65535 bytes'')
            else Inr (word_of_int xiaozhiBinaryTypeAudio # 0 # bePutUint16 (word_of_nat (length payload)) @ payload))
         else Inl (lit ''unsupported xiaozhi protocol version '' @ Itoa version))"

section \<open>Downlink packets\<close>

text \<open>The command line of the encoder.\<close>

definition ffmpegArgs :: "int \<Rightarrow> int \<Rightarrow> int \<Rightarrow> int \<Rightarrow> int \<Rightarrow> gostring list" where
  "ffmpegArgs inputRate inputChannels1 targetRate targetChannels frameDurationMs =
     [lit ''-hide_banner'', lit ''-loglevel'', lit ''error'', lit ''-f'', lit ''s16le'', lit ''-ar'', Itoa inputRate,
      lit ''-ac'', Itoa inputChannels1, lit ''-i'', lit ''pipe:0'', lit ''-vn'', lit ''-c:a'', lit ''libopus'',
      lit ''-application'', lit ''voip'', lit ''-frame_duration'', Itoa frameDurationMs, lit ''-ar'', Itoa targetRate,
      lit ''-ac'', Itoa targetChannels, lit ''-f'', lit ''ogg'', lit ''pipe:1'']"

text \<open>
  A running encoder: the pages that its Ogg reader delivers (the end of the list is the end of the output), the
  packets taken from a page and not yet returned, and what \<open>wait\<close> reports once the process has ended.
\<close>

record ffmpegOggOpusPacketStream =
  fsPages :: "(gostring + byte list list) list"
  fsPending :: "byte list list"
  fsWaitErr :: "gostring option"

text \<open>\<open>launch\<close> is the start of the process with these arguments, up to the header of its Ogg output.\<close>

definition EncodePCM16 ::
    "(gostring \<Rightarrow> gostring list \<Rightarrow> 'a \<Rightarrow> gostring + ffmpegOggOpusPacketStream) \<Rightarrow> gostring \<Rightarrow> 'a option \<Rightarrow> int \<Rightarrow> int \<Rightarrow> int \<Rightarrow> int \<Rightarrow> int \<Rightarrow>
     gostring + ffmpegOggOpusPacketStream" where
  "EncodePCM16 launch binary source inputRate inputChannels1 targetRate targetChannels frameDurationMs =
     (if TrimSpace binary = [] then Inl (lit ''ffmpeg is required for xiaozhi opus downlink encoding'')
      else case source of
        None \<Rightarrow> Inl (lit ''pcm16 source audio stream is required'')
      | Some stream \<Rightarrow>
          (if inputRate \<le> 0 \<or> inputChannels1 \<le> 0
           then Inl (lit ''invalid source pcm16 profile '' @ Itoa inputRate @ lit ''/'' @ Itoa inputChannels1)
           else if targetRate \<le> 0 \<or> targetChannels \<le> 0
           then Inl (lit ''invalid target opus profile '' @ Itoa targetRate @ lit ''/'' @ Itoa targetChannels)
           else launch binary (ffmpegArgs inputRate inputChannels1 targetRate targetChannels
                  (if frameDurationMs \<le> 0 then 60 else frameDurationMs)) stream))"

text \<open>
  What the feeding goroutine writes to the process, and the error it leaves behind: \<open>Inl\<close> is a failing read, the end
  of the list the end of the source, \<open>accepts\<close> the answer of the pipe to a write.
\<close>

fun feedInput :: "(byte list \<Rightarrow> gostring option) \<Rightarrow> (gostring + byte list) list \<Rightarrow> byte list list \<times> gostring option" where
  "feedInput accepts [] = ([], None)"
| "feedInput accepts (Inl e # reads) = ([], Some (lit ''read pcm16 source stream: '' @ e))"
| "feedInput accepts (Inr chunk # reads) =
     (if chunk = [] then feedInput accepts reads
      else case accepts chunk of
        Some e \<Rightarrow> ([], Some (lit ''write pcm16 to ffmpeg stdin: '' @ e))
      | None \<Rightarrow> (case feedInput accepts reads of (ws, e) \<Rightarrow> (chunk # ws, e)))"

text \<open>The error that \<open>wait\<close> makes of the feeding goroutine's, the exit of the process and its standard error.\<close>

definition waitResult :: "gostring option \<Rightarrow> gostring option \<Rightarrow> gostring \<Rightarrow> gostring option" where
  "waitResult fed exitErr stderrBytes =
     (let stderrText = TrimSpace stderrBytes;
          e = (case exitErr of
                 None \<Rightarrow> fed
               | Some x \<Rightarrow> (case fed of Some f \<Rightarrow> Some (f @ lit ''; ffmpeg wait: '' @ x) | None \<Rightarrow> Some (lit ''ffmpeg wait: '' @ x)))
      in case e of None \<Rightarrow> None | Some x \<Rightarrow> Some (if stderrText \<noteq> [] then x @ lit '': '' @ stderrText else x))"

definition asciiBytes :: "string \<Rightarrow> byte list" where
  "asciiBytes s = map of_char s"

definition opusHeaderPacket :: "byte list \<Rightarrow> bool" where
  "opusHeaderPacket segment \<longleftrightarrow> prefix (asciiBytes ''OpusTags'') segment \<or> prefix (asciiBytes ''OpusHead'') segment"

text \<open>The packets that the loop over a page appends.\<close>

fun pagePackets :: "byte list list \<Rightarrow> byte list list" where
  "pagePackets [] = []"
| "pagePackets (segment # segments) =
     (if segment = [] \<or> opusHeaderPacket segment then pagePackets segments else segment # pagePackets segments)"

datatype packet_end = PacketEOF | PacketError gostring

text \<open>\<open>Next\<close>, up to its loop over the pages; the context is not cancelled.\<close>

fun nextPacketFrom ::
    "gostring option \<Rightarrow> (gostring + byte list list) list \<Rightarrow> byte list list \<Rightarrow>
     (packet_end + byte list) \<times> (gostring + byte list list) list \<times> byte list list" where
  "nextPacketFrom waitErr pages (chunk # pending) = (Inr chunk, pages, pending)"
| "nextPacketFrom waitErr [] [] = (Inl (case waitErr of Some e \<Rightarrow> PacketError e | None \<Rightarrow> PacketEOF), [], [])"
| "nextPacketFrom waitErr (Inl e # pages) [] = (Inl (PacketError e), pages, [])"
| "nextPacketFrom waitErr (Inr segments # pages) [] =
     (if segments = [] then nextPacketFrom waitErr pages []
      else if length segments = 1 \<and> opusHeaderPacket (hd segments) then nextPacketFrom waitErr pages []
      else nextPacketFrom waitErr pages (pagePackets segments))"

definition oggNext :: "ffmpegOggOpusPacketStream \<Rightarrow> (packet_end + byte list) \<times> ffmpegOggOpusPacketStream" where
  "oggNext s =
     (case nextPacketFrom (fsWaitErr s) (fsPages s) (fsPending s) of
        (result, pages, pending) \<Rightarrow> (result, s\<lparr>fsPages := pages, fsPending := pending\<rparr>))"

text \<open>The packets a reader gets from the stream until the first end or error, with fuel.\<close>

fun drainPackets :: "nat \<Rightarrow> ffmpegOggOpusPacketStream \<Rightarrow> (byte list list \<times> packet_end) option" where
  "drainPackets 0 s = None"
| "drainPackets (Suc n) s =
     (case oggNext s of
        (Inl e, _) \<Rightarrow> Some ([], e)
      | (Inr p, s1) \<Rightarrow> (case drainPackets n s1 of None \<Rightarrow> None | Some (ps, e) \<Rightarrow> Some (p # ps, e)))"

section \<open>Lemmas\<close>

lemma beUint16_put [simp]: "beUint16 (ucast (drop_bit 8 v)) (ucast v) = v"
  unfolding beUint16_def by (rule bit_word_eqI) (auto simp: bit_simps)

lemma bit_byte_bound: "bit (b :: byte) n \<Longrightarrow> n < 8"
  using bit_imp_le_length [of b n] by simp

lemma no_high_bit: "8 \<le> n \<Longrightarrow> \<not> bit (b :: byte) n"
  using bit_byte_bound [of b n] by linarith

lemma beUint32_put [simp]:
  "beUint32 (ucast (drop_bit 24 v)) (ucast (drop_bit 16 v)) (ucast (drop_bit 8 v)) (ucast v) = v"
  unfolding beUint32_def
proof (rule bit_word_eqI)
  fix n :: nat assume "n < LENGTH(32)"
  then have "n < 8 \<or> 8 \<le> n \<and> n < 16 \<or> 16 \<le> n \<and> n < 24 \<or> 24 \<le> n \<and> n < 32" by auto
  then show "bit (ucast (ucast v :: byte) OR push_bit 8 (ucast (ucast (drop_bit 8 v) :: byte)) OR
      push_bit 16 (ucast (ucast (drop_bit 16 v) :: byte)) OR push_bit 24 (ucast (ucast (drop_bit 24 v) :: byte)) :: 32 word) n = bit v n"
    by (elim disjE) (auto simp: bit_simps)
qed

lemma bePut_beUint16: "bePutUint16 (beUint16 a b) = [a, b]"
  unfolding bePutUint16_def beUint16_def list.inject
  by (intro conjI refl; rule bit_word_eqI; auto simp: bit_simps no_high_bit)

lemma bePut_beUint32: "bePutUint32 (beUint32 a b c d) = [a, b, c, d]"
  unfolding bePutUint32_def beUint32_def list.inject
  by (intro conjI refl; rule bit_word_eqI; auto simp: bit_simps no_high_bit)

text \<open>The frame shapes of the protocol; the reserved and the timestamp fields are free, and so is what follows the payload.\<close>

definition framedV2 :: "byte list \<Rightarrow> byte list \<Rightarrow> bool" where
  "framedV2 payload f \<longleftrightarrow> (\<exists>stamp rest. length stamp = 8 \<and> length payload < 2 ^ 32 \<and>
     f = [0, 2, 0, 0] @ stamp @ bePutUint32 (word_of_nat (length payload)) @ payload @ rest)"

definition framedV3 :: "byte list \<Rightarrow> byte list \<Rightarrow> bool" where
  "framedV3 payload f \<longleftrightarrow> (\<exists>reserved rest. length payload < 2 ^ 16 \<and>
     f = [0, reserved] @ bePutUint16 (word_of_nat (length payload)) @ payload @ rest)"


lemma uint_length: "n < 2 ^ LENGTH('a) \<Longrightarrow> uint (word_of_nat n :: 'a::len word) = int n"
  by (simp add: unsigned_of_nat take_bit_nat_eq_self)

lemma take_delimited: "take (length p) (p @ rest) = p"
  by simp

lemma wrap_shapes:
  "normalizeXiaozhiProtocolVersion v \<in> {1, 2, 3}"
  "wrapXiaozhiBinaryFrame p 2 = Inr ([0, 2, 0, 0] @ replicate 8 0 @ bePutUint32 (word_of_nat (length p)) @ p)"
  by (simp_all add: normalizeXiaozhiProtocolVersion_def wrapXiaozhiBinaryFrame_def xiaozhi_constants bePutUint16_def)

lemma unwrap_v2_shape:
  assumes "normalizeXiaozhiProtocolVersion v = 2" and "length stamp = 8" and "length p < 2 ^ 32"
  shows "unwrapXiaozhiBinaryFrame ([0, 2, 0, 0] @ stamp @ bePutUint32 (word_of_nat (length p)) @ p @ rest) v = Inr p"
proof -
  obtain a b c d e f g k where s: "stamp = [a, b, c, d, e, f, g, k]"
    using assms(2) by (auto simp: numeral_eq_Suc length_Suc_conv)
  have "uint (beUint16 0 2) = 2" "uint (beUint16 0 0) = 0" by (simp_all add: beUint16_def)
  then show ?thesis using assms(1,3)
    by (simp add: unwrapXiaozhiBinaryFrame_def xiaozhi_constants normalizeXiaozhiProtocolVersion_def s bePutUint32_def uint_length Let_def)
qed

lemma unwrap_v3_shape:
  assumes "normalizeXiaozhiProtocolVersion v = 3" and "length p < 2 ^ 16"
  shows "unwrapXiaozhiBinaryFrame ([0, reserved] @ bePutUint16 (word_of_nat (length p)) @ p @ rest) v = Inr p"
  using assms by (simp add: unwrapXiaozhiBinaryFrame_def xiaozhi_constants bePutUint16_def uint_length Let_def)

lemma unwrap_v2_only:
  assumes v: "normalizeXiaozhiProtocolVersion v = 2" and u: "unwrapXiaozhiBinaryFrame f v = Inr p"
  shows "framedV2 p f"
proof -
  have "16 \<le> length f" using assms by (auto simp: unwrapXiaozhiBinaryFrame_def xiaozhi_constants Let_def split: if_splits)
  then obtain hd16 where hd16: "take 16 f = hd16" and "length hd16 = 16" by simp
  then obtain a0 a1 a2 a3 s0 s1 s2 s3 s4 s5 s6 s7 b0 b1 b2 b3 where
    "hd16 = [a0, a1, a2, a3, s0, s1, s2, s3, s4, s5, s6, s7, b0, b1, b2, b3]"
    by (auto simp: numeral_eq_Suc length_Suc_conv)
  note h = hd16 [unfolded this]
  define body where "body = drop 16 f"
  have f: "f = [a0, a1, a2, a3] @ [s0, s1, s2, s3, s4, s5, s6, s7] @ [b0, b1, b2, b3] @ body"
    using append_take_drop_id [of 16 f] by (simp add: h body_def)
  let ?n = "beUint32 b0 b1 b2 b3"
  have vn: "uint (beUint16 a0 a1) = 2" and ty: "uint (beUint16 a2 a3) = 0" and n: "uint ?n \<le> int (length body)"
    and p: "p = take (nat (uint ?n)) body"
    using u v by (auto simp: unwrapXiaozhiBinaryFrame_def xiaozhi_constants normalizeXiaozhiProtocolVersion_def Let_def f split: if_splits)
  have "beUint16 a0 a1 = 2" using vn by (metis of_int_numeral word_of_int_uint)
  then have "[a0, a1] = [0, 2]" using bePut_beUint16 [of a0 a1] by (simp add: bePutUint16_def)
  moreover have "beUint16 a2 a3 = 0" using ty by (simp add: uint_0_iff)
  then have "[a2, a3] = [0, 0]" using bePut_beUint16 [of a2 a3] by (simp add: bePutUint16_def)
  moreover have len: "length p = unat ?n" using n nat_le_iff [of "uint ?n" "length body"] by (simp add: p)
  then have "word_of_nat (length p) = ?n" and "length p < 2 ^ 32" using unsigned_less [of ?n] by simp_all
  moreover have "body = p @ drop (nat (uint ?n)) body" by (simp add: p)
  ultimately show ?thesis unfolding framedV2_def
    by (intro exI [of _ "[s0, s1, s2, s3, s4, s5, s6, s7]"] exI [of _ "drop (nat (uint ?n)) body"]) (simp add: f bePut_beUint32)
qed

lemma unwrap_v3_only:
  assumes v: "normalizeXiaozhiProtocolVersion v = 3" and u: "unwrapXiaozhiBinaryFrame f v = Inr p"
  shows "framedV3 p f"
proof -
  have "4 \<le> length f" using assms by (auto simp: unwrapXiaozhiBinaryFrame_def xiaozhi_constants Let_def split: if_splits)
  then obtain hd4 where hd4: "take 4 f = hd4" and "length hd4 = 4" by simp
  then obtain a0 a1 b0 b1 where "hd4 = [a0, a1, b0, b1]" by (auto simp: numeral_eq_Suc length_Suc_conv)
  note h = hd4 [unfolded this]
  define body where "body = drop 4 f"
  have f: "f = [a0, a1] @ [b0, b1] @ body" using append_take_drop_id [of 4 f] by (simp add: h body_def)
  let ?n = "beUint16 b0 b1"
  have ty: "uint a0 = 0" and n: "uint ?n \<le> int (length body)" and p: "p = take (nat (uint ?n)) body"
    using u v by (auto simp: unwrapXiaozhiBinaryFrame_def xiaozhi_constants Let_def f split: if_splits)
  have "a0 = 0" using ty by (simp add: uint_0_iff)
  moreover have "length p = unat ?n" using n nat_le_iff [of "uint ?n" "length body"] by (simp add: p)
  then have "word_of_nat (length p) = ?n" and "length p < 2 ^ 16" using unsigned_less [of ?n] by simp_all
  moreover have "body = p @ drop (nat (uint ?n)) body" by (simp add: p)
  ultimately show ?thesis unfolding framedV3_def
    by (intro exI [of _ a1] exI [of _ "drop (nat (uint ?n)) body"]) (simp add: f bePut_beUint16)
qed

lemma unwrap_v1: "normalizeXiaozhiProtocolVersion v = 1 \<Longrightarrow> unwrapXiaozhiBinaryFrame f v = Inr f"
  by (simp add: unwrapXiaozhiBinaryFrame_def xiaozhi_constants)

section \<open>Properties\<close>

text \<open>
  C25: Unwrapping a binary frame succeeds exactly on the frames of the negotiated version's layout, and yields
  their payload: under version 1 every frame is its own payload; under version 2 the frame is version 2, type 0,
  eight bytes of reserved field and timestamp, the payload size on four bytes and the payload; under version 3 it is
  type 0, a reserved byte, the size on two bytes and the payload. Anything else, a wrong version or type or a size
  that exceeds the body, is an error and never a slice out of range; bytes after the payload are ignored.
\<close>

theorem unwrap_accepts_exactly_frames:
  "unwrapXiaozhiBinaryFrame f v = Inr p \<longleftrightarrow>
     (if normalizeXiaozhiProtocolVersion v = 2 then framedV2 p f
      else if normalizeXiaozhiProtocolVersion v = 3 then framedV3 p f
      else p = f)"
proof -
  have "normalizeXiaozhiProtocolVersion v \<in> {1, 2, 3}" by (rule wrap_shapes)
  then show ?thesis
    using unwrap_v2_only unwrap_v3_only unwrap_v1 unwrap_v2_shape unwrap_v3_shape
    by (auto simp: framedV2_def framedV3_def)
qed

text \<open>
  C26: What the server wraps the device's framing gives back: for a payload of less than 4 GiB, wrapping either
  refuses (version 3 and more than 65535 bytes, and only then) or makes a frame that unwraps to the payload under
  the same version.
\<close>

theorem frame_roundtrip:
  assumes "length p < 2 ^ 32"
  shows "case wrapXiaozhiBinaryFrame p v of
      Inl e \<Rightarrow> normalizeXiaozhiProtocolVersion v = 3 \<and> length p > 65535
    | Inr f \<Rightarrow> unwrapXiaozhiBinaryFrame f v = Inr p \<and> (normalizeXiaozhiProtocolVersion v = 3 \<longrightarrow> length p \<le> 65535)"
proof -
  consider (1) "normalizeXiaozhiProtocolVersion v = 1" | (2) "normalizeXiaozhiProtocolVersion v = 2" | (3) "normalizeXiaozhiProtocolVersion v = 3"
    using wrap_shapes(1) [of v] by auto
  then show ?thesis
  proof cases
    case 1
    then show ?thesis by (simp add: wrapXiaozhiBinaryFrame_def unwrap_v1 xiaozhi_constants)
  next
    case 2
    then have "wrapXiaozhiBinaryFrame p v = Inr ([0, 2, 0, 0] @ replicate 8 0 @ bePutUint32 (word_of_nat (length p)) @ p @ [])"
      by (simp add: wrapXiaozhiBinaryFrame_def xiaozhi_constants bePutUint16_def)
    then show ?thesis using unwrap_v2_shape [OF 2, of "replicate 8 0" p "[]"] assms 2 by simp
  next
    case 3
    then have "length p \<le> 65535 \<Longrightarrow> wrapXiaozhiBinaryFrame p v = Inr ([0, 0] @ bePutUint16 (word_of_nat (length p)) @ p @ [])"
      by (simp add: wrapXiaozhiBinaryFrame_def xiaozhi_constants)
    then show ?thesis using unwrap_v3_shape [OF 3, of p 0 "[]"] 3
      by (cases "length p \<le> 65535") (simp_all add: wrapXiaozhiBinaryFrame_def xiaozhi_constants)
  qed
qed

theorem frame_roundtrip_witness:
  "wrapXiaozhiBinaryFrame [1, 2, 3] 3 = Inr [0, 0, 0, 3, 1, 2, 3] \<and> unwrapXiaozhiBinaryFrame [0, 0, 0, 3, 1, 2, 3] 3 = Inr [1, 2, 3]"
proof -
  have w: "wrapXiaozhiBinaryFrame [1, 2, 3] 3 = Inr [0, 0, 0, 3, 1, 2, 3]" 
    by (simp add: wrapXiaozhiBinaryFrame_def normalizeXiaozhiProtocolVersion_def xiaozhi_constants bePutUint16_def)
  show ?thesis using frame_roundtrip [of "[1, 2, 3]" 3] by (simp add: w)
qed

section \<open>Packets\<close>

lemma pagePackets_filter: "pagePackets segs = filter (\<lambda>s. s \<noteq> [] \<and> \<not> opusHeaderPacket s) segs"
  by (induction segs) auto

text \<open>The packets of the pages before the first error, with the pending ones before them, and the end of the stream.\<close>

fun pagesPackets :: "gostring option \<Rightarrow> (gostring + byte list list) list \<Rightarrow> byte list list \<times> packet_end" where
  "pagesPackets waitErr [] = ([], case waitErr of Some e \<Rightarrow> PacketError e | None \<Rightarrow> PacketEOF)"
| "pagesPackets waitErr (Inl e # pages) = ([], PacketError e)"
| "pagesPackets waitErr (Inr segs # pages) =
     (case pagesPackets waitErr pages of (ps, e) \<Rightarrow> (filter (\<lambda>s. s \<noteq> [] \<and> \<not> opusHeaderPacket s) segs @ ps, e))"

lemma nextPacketFrom_spec:
  "nextPacketFrom w pages pending = (Inr p, pages1, pending1) \<Longrightarrow>
     pending @ fst (pagesPackets w pages) = p # pending1 @ fst (pagesPackets w pages1) \<and>
     snd (pagesPackets w pages) = snd (pagesPackets w pages1)"
  "nextPacketFrom w pages pending = (Inl e, pages1, pending1) \<Longrightarrow>
     pending @ fst (pagesPackets w pages) = [] \<and> snd (pagesPackets w pages) = e"
proof (induction w pages pending rule: nextPacketFrom.induct)
  case (4 w segs pages)
  define kept where "kept = filter (\<lambda>s. s \<noteq> [] \<and> \<not> opusHeaderPacket s) segs"
  have one: "kept = []" if "length segs = 1" "opusHeaderPacket (hd segs)"
    using that by (cases segs) (auto simp: kept_def)
  have none: "segs = [] \<Longrightarrow> kept = []" by (simp add: kept_def)
  have page: "pagesPackets w (Inr segs # pages) = (kept @ fst (pagesPackets w pages), snd (pagesPackets w pages))"
    by (simp add: kept_def case_prod_beta)
  {
    case 1
    show ?case using 1 4(1,3,5) one none unfolding page by (auto simp: pagePackets_filter kept_def [symmetric] split: if_splits)
  next
    case 2
    show ?case using 2 4(2,4,6) one none unfolding page by (auto simp: pagePackets_filter kept_def [symmetric] split: if_splits)
  }
qed auto

lemma drain_spec:
  fixes s :: ffmpegOggOpusPacketStream
  shows "length (fsPending s @ fst (pagesPackets (fsWaitErr s) (fsPages s))) < n \<Longrightarrow>
   drainPackets n s = Some (fsPending s @ fst (pagesPackets (fsWaitErr s) (fsPages s)), snd (pagesPackets (fsWaitErr s) (fsPages s)))"
proof (induction n arbitrary: s)
  case (Suc n)
  obtain x pages pending where x: "nextPacketFrom (fsWaitErr s) (fsPages s) (fsPending s) = (x, pages, pending)"
    by (cases rule: prod_cases3)
  show ?case
  proof (cases x)
    case (Inl e)
    then show ?thesis using nextPacketFrom_spec(2) [OF x [unfolded Inl]] x by (simp add: oggNext_def)
  next
    case (Inr p)
    note spec = nextPacketFrom_spec(1) [OF x [unfolded Inr]]
    have "drainPackets n (s\<lparr>fsPages := pages, fsPending := pending\<rparr>) =
        Some (pending @ fst (pagesPackets (fsWaitErr s) pages), snd (pagesPackets (fsWaitErr s) pages))"
      using Suc.IH [of "s\<lparr>fsPages := pages, fsPending := pending\<rparr>"] Suc.prems spec by simp
    then show ?thesis using x Inr spec by (simp add: oggNext_def)
  qed
qed simp


end
