(* ===== verification/Xiaozhi_Handlers.thy ===== *)
theory Xiaozhi_Handlers
  imports Gateway_Endings Xiaozhi_Protocol
begin

text \<open>
  The compatibility handler for xiaozhi devices, \<open>internal/gateway/xiaozhi_ws.go\<close>, and its discovery endpoint,
  \<open>xiaozhi_ota.go\<close>. It drives the same connection runtime as the realtime handler (theories \<open>Gateway_Runtime\<close> and
  \<open>Gateway_Handlers\<close>) with its own messages, and keeps a record of what the device negotiated.

  An operation that changes that record is a function on the pair of the record and the runtime, \<open>xop\<close>; the
  operations of the runtime are lifted to it. JSON is decoded by the standard library: a control frame is given with
  its type and what decoding it as each message answers. Logging is left out, and so is the check of the websocket
  upgrade.
\<close>

section \<open>Profile and state\<close>

record XiaozhiCompatProfile =
  xpWSPath :: gostring
  xpWelcomeVersion :: int
  xpWelcomeTransport :: gostring
  xpInputCodec :: gostring
  xpInputSampleRate :: int
  xpInputChannels :: int
  xpInputFrameDurationMs :: int
  xpMaxFrameBytes :: int
  xpIdleTimeoutMs :: int
  xpMaxSessionMs :: int
  xpServerEndpointEnabled :: bool
  xpSourceOutputCodec :: gostring
  xpSourceOutputRate :: int
  xpSourceOutputChannels :: int
  xpOutputCodec :: gostring
  xpOutputSampleRate :: int
  xpOutputChannels :: int
  xpOutputFrameDurationMs :: int

record xiaozhiCompatState =
  xsSessionID :: gostring
  xsDeviceID :: gostring
  xsClientID :: gostring
  xsBinaryProtocolVersion :: int
  xsHelloReceived :: bool
  xsInputCodec :: gostring
  xsInputSampleRate :: int
  xsInputChannels :: int
  xsInputFrameDurationMs :: int
  xsListenMode :: gostring
  xsAudioTurnOpen :: bool

record xiaozhiHelloMessage =
  hmVersion :: int
  hmDeviceID :: gostring
  hmDeviceMAC :: gostring
  hmAudio :: xiaozhiAudioParams

record xiaozhiListenMessage =
  lmState :: gostring
  lmMode :: gostring
  lmText :: gostring

text \<open>
  What a handler is created with: the profile, the responder and the stream durations as for the realtime handler,
  and the encoder of the downlink.
\<close>

record xiaozhiWSHandler =
  xhProfile :: XiaozhiCompatProfile
  xhResponder :: "TurnRequest \<Rightarrow> gateway_error responder_run"
  xhStreamDuration :: "nat \<Rightarrow> duration"
  xhEncoder :: "audioSource \<Rightarrow> int \<Rightarrow> int \<Rightarrow> int \<Rightarrow> int \<Rightarrow> int \<Rightarrow> gostring + audioSource"

definition firstNonEmptyInt :: "int list \<Rightarrow> int" where
  "firstNonEmptyInt values = (case find (\<lambda>v. v > 0) values of None \<Rightarrow> 0 | Some v \<Rightarrow> v)"

definition runtimeProfile :: "xiaozhiWSHandler \<Rightarrow> RealtimeProfile" where
  "runtimeProfile h =
     \<lparr>prProtocolVersion = [], prServerEndpointEnabled = False, prBargeInMinAudioMs = 0, prBargeInHoldAudioMs = 0,
      prIdleTimeoutMs = xpIdleTimeoutMs (xhProfile h), prMaxSessionMs = xpMaxSessionMs (xhProfile h), prMaxFrameBytes = 0,
      prInputCodec = [], prInputSampleRate = 0, prInputChannels = 0, prAllowOpus = False, prAllowTextInput = False\<rparr>"

section \<open>Writing\<close>

text \<open>A message without a sequence number, and the close of the connection; both are in the record of what was sent.\<close>

definition writeCompat :: "serverPayload \<Rightarrow> unit gop" where
  "writeCompat payload r =
     (let p = crPeer r; ok = envConnOk (crEnv r) (crTick r);
          r1 = r\<lparr>crTick := crTick r + 1,
                 crPeer := p\<lparr>peSent := (if ok then peSent p @ [(peServerSeq p, [], payload)] else peSent p)\<rparr>\<rparr>
      in (if ok then Inr () else Inl ErrConnection, r1))"

definition WriteJSON :: "xiaozhiMessage \<Rightarrow> unit gop" where
  "WriteJSON m = writeCompat (PCompat m)"

definition closeConn :: "unit gop" where
  "closeConn = writeCompat PConnClosed"

definition WriteCompatBinary :: "byte list \<Rightarrow> int \<Rightarrow> unit gop" where
  "WriteCompatBinary payload protocolVersion =
     (case wrapXiaozhiBinaryFrame payload protocolVersion of
        Inl e \<Rightarrow> gfail (ErrResponder e)
      | Inr wrapped \<Rightarrow> WriteBinary wrapped)"

text \<open>The text of an error that is not one of the handler's own is that of the error, which is not blank.\<close>

definition emitServerError :: "gostring \<Rightarrow> gostring \<Rightarrow> errorText \<Rightarrow> unit gop" where
  "emitServerError sessionID code message =
     WriteJSON (XServer (lit ''error'')
       (case message of TextOf t \<Rightarrow> TextOf (if TrimSpace t = [] then code else TrimSpace t) | other \<Rightarrow> other) sessionID)"

definition ttsMessage :: "gostring \<Rightarrow> gostring \<Rightarrow> unit gop" where
  "ttsMessage st sessionID = WriteJSON (XTTS st sessionID [])"

definition interruptSpeaking :: "xiaozhiWSHandler \<Rightarrow> gostring \<Rightarrow> unit gop" where
  "interruptSpeaking h sessionID =
     interruptSpeakingFlowWithOptions (runtimeProfile h)
       \<lparr>isoClearPreview = True, isoClearPending = True, isoDecision = None, isoPolicy = PolicyUnset, isoReason = []\<rparr>
       (Some (ttsMessage (lit ''stop'') sessionID)) None"

section \<open>Operations on the pair\<close>

record xiaozhiConnection =
  xcState :: xiaozhiCompatState
  xcRuntime :: connectionRuntime

type_synonym 'a xop = "xiaozhiConnection \<Rightarrow> (gateway_error + 'a) \<times> xiaozhiConnection"

definition xlift :: "(xiaozhiCompatState \<Rightarrow> 'a gop) \<Rightarrow> 'a xop" where
  "xlift m c = (case m (xcState c) (xcRuntime c) of (x, r) \<Rightarrow> (x, c\<lparr>xcRuntime := r\<rparr>))"

definition xbind :: "'a xop \<Rightarrow> ('a \<Rightarrow> 'b xop) \<Rightarrow> 'b xop" where
  "xbind m f c = (case m c of (Inl e, c1) \<Rightarrow> (Inl e, c1) | (Inr x, c1) \<Rightarrow> f x c1)"

definition xthen :: "'a xop \<Rightarrow> 'b xop \<Rightarrow> 'b xop" where
  "xthen m k = xbind m (\<lambda>_. k)"

definition xset :: "(xiaozhiCompatState \<Rightarrow> xiaozhiCompatState) \<Rightarrow> unit xop" where
  "xset f c = (Inr (), c\<lparr>xcState := f (xcState c)\<rparr>)"

section \<open>Hello\<close>

definition resolvedHelloAudio :: "xiaozhiWSHandler \<Rightarrow> xiaozhiHelloMessage \<Rightarrow> xiaozhiAudioParams" where
  "resolvedHelloAudio h msg =
     (let p = xhProfile h; a = hmAudio msg
      in \<lparr>xaFormat = gatewayFirstNonEmpty [ToLower (TrimSpace (xaFormat a)), ToLower (TrimSpace (xpInputCodec p)), lit ''opus''],
          xaSampleRate = gatewayMaxInt (xaSampleRate a) (gatewayMaxInt (xpInputSampleRate p) 16000),
          xaChannels = gatewayMaxInt (xaChannels a) (gatewayMaxInt (xpInputChannels p) 1),
          xaFrameDuration = gatewayMaxInt (xaFrameDuration a) (gatewayMaxInt (xpInputFrameDurationMs p) 60)\<rparr>)"

definition validateHello :: "xiaozhiWSHandler \<Rightarrow> xiaozhiAudioParams \<Rightarrow> gostring option" where
  "validateHello h audio =
     (let format = ToLower (TrimSpace (xaFormat audio))
      in if format \<noteq> lit ''opus'' \<and> format \<noteq> lit ''pcm16le'' then Some (lit ''unsupported xiaozhi input format '' @ format)
         else if xaSampleRate audio \<le> 0 then Some (lit ''audio_params.sample_rate must be positive'')
         else if xaChannels audio \<noteq> 1 then Some (lit ''only mono xiaozhi input is currently supported'')
         else if format = lit ''pcm16le'' \<and> xaSampleRate audio \<noteq> xpInputSampleRate (xhProfile h)
         then Some (lit ''pcm16le input sample_rate must be '' @ Itoa (xpInputSampleRate (xhProfile h)))
         else None)"

definition helloResponse :: "xiaozhiWSHandler \<Rightarrow> xiaozhiCompatState \<Rightarrow> xiaozhiMessage" where
  "helloResponse h st =
     (let p = xhProfile h
      in XHello (firstNonEmptyInt [xsBinaryProtocolVersion st, normalizeXiaozhiProtocolVersion (xpWelcomeVersion p)])
           (gatewayFirstNonEmpty [TrimSpace (xpWelcomeTransport p), lit ''websocket'']) (xsSessionID st)
           \<lparr>xaFormat = gatewayFirstNonEmpty [TrimSpace (xpOutputCodec p), lit ''opus''],
            xaSampleRate = gatewayMaxInt (xpOutputSampleRate p) 24000, xaChannels = gatewayMaxInt (xpOutputChannels p) 1,
            xaFrameDuration = gatewayMaxInt (xpOutputFrameDurationMs p) 60\<rparr>)"

definition negotiatedState :: "xiaozhiHelloMessage \<Rightarrow> xiaozhiAudioParams \<Rightarrow> xiaozhiCompatState \<Rightarrow> xiaozhiCompatState" where
  "negotiatedState msg audio st =
     st\<lparr>xsBinaryProtocolVersion := resolveXiaozhiProtocolVersion [] (hmVersion msg) (xsBinaryProtocolVersion st),
        xsHelloReceived := True, xsInputCodec := ToLower (TrimSpace (xaFormat audio)),
        xsInputSampleRate := xaSampleRate audio, xsInputChannels := xaChannels audio,
        xsInputFrameDurationMs := xaFrameDuration audio,
        xsDeviceID := gatewayFirstNonEmpty [TrimSpace (hmDeviceID msg), TrimSpace (hmDeviceMAC msg), xsDeviceID st]\<rparr>"

definition handleHello :: "xiaozhiWSHandler \<Rightarrow> xiaozhiHelloMessage \<Rightarrow> unit xop" where
  "handleHello h msg =
     (let audio = resolvedHelloAudio h msg
      in case validateHello h audio of
           Some e \<Rightarrow> xlift (\<lambda>st. emitServerError (xsSessionID st) (lit ''invalid_hello'') (TextOf e))
         | None \<Rightarrow>
             (case NewInputNormalizer (xaFormat audio) (xpInputSampleRate (xhProfile h)) (xpInputChannels (xhProfile h)) of
                Inl e \<Rightarrow> xlift (\<lambda>st. emitServerError (xsSessionID st) (lit ''unsupported_audio_format'') (TextOfOpus e))
              | Inr normalizer \<Rightarrow>
                  xthen (xlift (\<lambda>_. gmod (\<lambda>r. r\<lparr>crNormalizer := Some normalizer\<rparr>))) (
                  xthen (xset (negotiatedState msg audio)) (
                  xlift (\<lambda>st. WriteJSON (helloResponse h st))))))"

section \<open>Answering a turn\<close>

definition compatStartRequest :: "xiaozhiCompatState \<Rightarrow> StartRequest" where
  "compatStartRequest st =
     \<lparr>RequestedSessionID = xsSessionID st, reqDeviceID = xsDeviceID st, reqClientType = lit ''xiaozhi-compat'',
      reqFirmwareVersion = [], reqMode = lit ''voice'', reqInputCodec = xsInputCodec st, reqInputSampleRate = xsInputSampleRate st,
      reqInputChannels = xsInputChannels st, reqClientCanEnd = True, reqServerCanEnd = True\<rparr>"

definition ensureSessionStarted :: "xiaozhiWSHandler \<Rightarrow> xiaozhiCompatState \<Rightarrow> Snapshot gop" where
  "ensureSessionStarted h st =
     gbind snapshotOp (\<lambda>snapshot.
     if SessionID snapshot \<noteq> [] then gret snapshot
     else
       gbind (onSession (\<lambda>now. Start now (compatStartRequest st))) (\<lambda>started.
       gthen (applyReadDeadline (runtimeProfile h) started) (gret started)))"

definition responseTextForXiaozhi :: "TurnResponse \<Rightarrow> gostring" where
  "responseTextForXiaozhi response =
     (let parts = map rdText (filter (\<lambda>d. rdKind d = ResponseDeltaText \<and> TrimSpace (rdText d) \<noteq> []) (responseDeltasForEmission response True));
          parts1 = (if parts = [] \<and> TrimSpace (tpText response) \<noteq> [] then [tpText response] else parts)
      in TrimSpace (concat parts1))"

definition encodeAudioStream :: "xiaozhiWSHandler \<Rightarrow> audioSource \<Rightarrow> gostring + audioSource" where
  "encodeAudioStream h source =
     (let p = xhProfile h
      in if ToLower (TrimSpace (xpSourceOutputCodec p)) \<noteq> lit ''pcm16le''
         then Inl (lit ''xiaozhi adapter currently requires pcm16le source audio, got '' @ xpSourceOutputCodec p)
         else xhEncoder h source (xpSourceOutputRate p) (xpSourceOutputChannels p) (xpOutputSampleRate p) (xpOutputChannels p)
                (xpOutputFrameDurationMs p))"

definition resetSession :: "unit gop" where
  "resetSession = gmod (\<lambda>r. r\<lparr>crSession := Reset (crSession r)\<rparr>)"

text \<open>Installing the output; the text that its goroutine announces is kept in the meta record of the stream.\<close>

definition startCompatStream :: "gostring \<Rightarrow> gostring \<Rightarrow> audioSource \<Rightarrow> turnOutputOutcomeFuture \<Rightarrow> unit gop" where
  "startCompatStream sessionID t source completion =
     gmod (\<lambda>r. r\<lparr>crOutput := Some \<lparr>osStage = AtStart, osCancelled = False, osCompletion = completion, osEffects = newOutputEffects,
       osSessionID = sessionID, osMeta = (cursorMeta [] [])\<lparr>amText := t\<rparr>, osSource = source, osCursor = cursorMeta [] []\<rparr>\<rparr>)"

text \<open>The audio of an answer: encoded and played, or reported as failed.\<close>

definition playAnswer :: "xiaozhiWSHandler \<Rightarrow> gostring \<Rightarrow> TurnResponse \<Rightarrow> gostring \<Rightarrow> audioSource \<Rightarrow> unit gop" where
  "playAnswer h sessionID response aggregatedText source =
     (case encodeAudioStream h source of
        Inl e \<Rightarrow>
          gthen (onVoice InterruptPlayback) (
          if tpEndSession response then gthen resetSession closeConn
          else
            gbind (gtry (onSession (\<lambda>now. SetState now StateActive))) (\<lambda>set.
            gthen (case set of
                     Inr active1 \<Rightarrow> gthen (gtry (applyReadDeadline (runtimeProfile h) active1)) (gret ())
                   | Inl _ \<Rightarrow> gret ()) (
            emitServerError sessionID (lit ''tts_encode_failed'') (TextOf e))))
      | Inr encoded \<Rightarrow>
          gthen (onVoice (StartPlaybackWithOptions aggregatedText
                   (gatewayMaxInt (xpOutputFrameDurationMs (xhProfile h)) 60 * Millisecond)
                   (plannedPlaybackDurationForResponse (xhStreamDuration h) response outputFrameInterval) False)) (
          startCompatStream sessionID aggregatedText encoded (resolvedTurnOutputOutcome (outcomeOf response))))"

definition finalizeCompatResponse :: "xiaozhiWSHandler \<Rightarrow> gostring \<Rightarrow> TurnResponse \<Rightarrow> gostring \<Rightarrow> unit gop" where
  "finalizeCompatResponse h sessionID response aggregatedText0 =
     gthen clearInputPreview (
     let aggregatedText = (if aggregatedText0 = [] then responseTextForXiaozhi response else aggregatedText0)
     in finalizeTurnLifecycle (runtimeProfile h) response
          \<lparr>tcResolveReturnActive = None, tcOnReturnActive = None,
           tcOnEndSession = Some (\<lambda>_ _. gthen resetPendingBargeInAudio (gthen clearInputPreview (gthen resetSession closeConn)))\<rparr>
          (gthen (onVoice (FinalizeTextResponse aggregatedText)) (
           if TrimSpace aggregatedText = [] then gret () else WriteJSON (XText (lit ''llm'') sessionID aggregatedText)))
          None
          (playAnswer h sessionID response aggregatedText))"

text \<open>The handler passes no hooks of its own to the turn flow; the flow marks its traces.\<close>

definition compatHooks :: "(gateway_error, connectionRuntime) turnExecutionOptions" where
  "compatHooks =
     \<lparr>hkResponseStart = (\<lambda>_ _. asHook (gthen (onTurnTrace MarkResponseStart) (gret ()))),
      hkFirstTextDelta = (\<lambda>t r. if TrimSpace t = [] then r
        else snd (gbind gnow (\<lambda>now. gmod (\<lambda>r. r\<lparr>crTurnTrace := markTurnFirstTextDelta now t (crTurnTrace r)\<rparr>)) r)),
      hkResponseDelta = (\<lambda>_ r. (None, r)), hkTextCollected = (\<lambda>_ r. r), hkStartAudio = None, hkResolve = (\<lambda>_ r. r)\<rparr>"

definition runCompatResponder :: "xiaozhiWSHandler \<Rightarrow> TurnRequest \<Rightarrow> (gateway_error + turnExecutionResult) gop" where
  "runCompatResponder h request r =
     (case executeTurnResponse compatHooks (xhResponder h request) r of
        (None, r1) \<Rightarrow> (Inl StillWaiting, r1)
      | (Some result, r1) \<Rightarrow> (Inr result, r1))"

definition emitCompatResponse ::
    "xiaozhiWSHandler \<Rightarrow> gostring \<Rightarrow> CommittedTurn \<Rightarrow> turnTrace \<Rightarrow> gostring \<Rightarrow> TranscriptionResult option \<Rightarrow> unit gop" where
  "emitCompatResponse h sessionID turn trace t previewTranscription =
     gbind (gget (buildTurnRequest turn trace t previewTranscription)) (\<lambda>request.
     gbind (runCompatResponder h request) (\<lambda>result.
       case result of
         Inl e \<Rightarrow> emitServerError sessionID (lit ''response_generation_failed'') (gatewayErrorText e)
       | Inr te \<Rightarrow>
           let response = teResponse te;
               delivered = (if TrimSpace (teAggregatedText te) = [] then responseTextForXiaozhi response else TrimSpace (teAggregatedText te));
               inputText = (if TrimSpace (tpInputText response) = [] then TrimSpace t else TrimSpace (tpInputText response))
           in gthen (if TrimSpace t = [] \<and> TrimSpace (tpInputText response) \<noteq> []
                     then WriteJSON (XText (lit ''stt'') sessionID (tpInputText response)) else gret ()) (
              gthen (onVoice (PrepareTurn request inputText delivered)) (
              finalizeCompatResponse h sessionID response delivered))))"

text \<open>A committed turn: the deadline, its trace, the answer.\<close>

definition answerCompatTurn ::
    "xiaozhiWSHandler \<Rightarrow> gostring \<Rightarrow> gostring \<Rightarrow> CommittedTurn \<Rightarrow> TranscriptionResult option \<Rightarrow> unit gop" where
  "answerCompatTurn h sessionID source turn previewTranscription =
     gthen (applyReadDeadline (runtimeProfile h) (turnSnapshot turn)) (
     gbind (onTurnTrace (\<lambda>now. BeginTrace now (SessionID (turnSnapshot turn)) source)) (\<lambda>trace.
     emitCompatResponse h sessionID turn trace [] previewTranscription))"

section \<open>Listening\<close>

definition listenStart :: "xiaozhiWSHandler \<Rightarrow> unit xop" where
  "listenStart h =
     xthen (xlift (\<lambda>st. interruptSpeaking h (xsSessionID st))) (
     xthen (xlift (ensureSessionStarted h)) (
     xset (\<lambda>st. st\<lparr>xsAudioTurnOpen := True\<rparr>)))"

definition listenStop :: "xiaozhiWSHandler \<Rightarrow> previewAnswers \<Rightarrow> unit xop" where
  "listenStop h pw =
     xthen (xset (\<lambda>st. st\<lparr>xsAudioTurnOpen := False\<rparr>)) (
     xlift (\<lambda>st.
       gbind snapshotOp (\<lambda>snapshot.
       if SessionID snapshot = [] \<or> AudioBytes snapshot = 0 \<or> snapState snapshot \<noteq> StateActive then gret ()
       else
         gbind (consumeInputPreview pw) (\<lambda>(_, result).
         gbind (gtry (onSession CommitTurn)) (\<lambda>committed.
           case committed of
             Inl e \<Rightarrow> emitServerError (xsSessionID st) (lit ''commit_failed'') (gatewayErrorText e)
           | Inr turn \<Rightarrow> answerCompatTurn h (xsSessionID st) (lit ''listen_stop'') turn (acceptedTranscription result))))))"

definition listenDetect :: "xiaozhiWSHandler \<Rightarrow> gostring \<Rightarrow> unit xop" where
  "listenDetect h rawText =
     (let t = TrimSpace rawText
      in if t = [] then xlift (\<lambda>_. gret ())
         else xlift (\<lambda>st.
           let failed = (\<lambda>e. emitServerError (xsSessionID st) (lit ''text_input_failed'') (gatewayErrorText e))
           in gthen (interruptSpeaking h (xsSessionID st)) (
              gthen (ensureSessionStarted h st) (
              gbind (gtry (onSession AcceptText)) (\<lambda>accepted.
                case accepted of
                  Inl e \<Rightarrow> failed e
                | Inr _ \<Rightarrow>
                    gbind (gtry (onSession CommitTurn)) (\<lambda>committed.
                      case committed of
                        Inl e \<Rightarrow> failed e
                      | Inr turn \<Rightarrow>
                          gthen clearInputPreview (
                          gthen (applyReadDeadline (runtimeProfile h) (turnSnapshot turn)) (
                          gthen (WriteJSON (XText (lit ''stt'') (xsSessionID st) t)) (
                          gbind (onTurnTrace (\<lambda>now. BeginTrace now (SessionID (turnSnapshot turn)) (lit ''detect_text''))) (\<lambda>trace.
                          emitCompatResponse h (xsSessionID st) turn trace t None))))))))))"

definition handleListen :: "xiaozhiWSHandler \<Rightarrow> previewAnswers \<Rightarrow> xiaozhiListenMessage \<Rightarrow> unit xop" where
  "handleListen h pw msg =
     xthen (xset (\<lambda>st. st\<lparr>xsListenMode := gatewayFirstNonEmpty [TrimSpace (lmMode msg), xsListenMode st]\<rparr>)) (
     let s = ToLower (TrimSpace (lmState msg))
     in if s = lit ''start'' then listenStart h
        else if s = lit ''stop'' then listenStop h pw
        else if s = lit ''detect'' then listenDetect h (lmText msg)
        else xlift (\<lambda>_. gret ()))"

definition handleAbort :: "xiaozhiWSHandler \<Rightarrow> unit xop" where
  "handleAbort h = xlift (\<lambda>st. interruptSpeaking h (xsSessionID st))"

section \<open>Audio\<close>

definition ensureNormalizer :: "xiaozhiWSHandler \<Rightarrow> xiaozhiCompatState \<Rightarrow> opus_error option gop" where
  "ensureNormalizer h st r =
     (case crNormalizer r of
        Some _ \<Rightarrow> (Inr None, r)
      | None \<Rightarrow>
          (case NewInputNormalizer (xsInputCodec st) (xpInputSampleRate (xhProfile h)) (xpInputChannels (xhProfile h)) of
             Inl e \<Rightarrow> (Inr (Some e), r)
           | Inr normalizer \<Rightarrow> (Inr None, r\<lparr>crNormalizer := Some normalizer\<rparr>)))"

definition ingestCompatFrame :: "xiaozhiWSHandler \<Rightarrow> previewAnswers \<Rightarrow> opus_decoder \<Rightarrow> byte list \<Rightarrow> xiaozhiCompatState \<Rightarrow> unit gop" where
  "ingestCompatFrame h pw pion payload st =
     gbind (decodeFrame pion payload) (\<lambda>decoded.
     case decoded of
       Inl e \<Rightarrow> emitServerError (xsSessionID st) (lit ''audio_decode_failed'') (TextOfOpus e)
     | Inr normalized \<Rightarrow>
         (if normalized = [] then gret ()
          else
            gbind (gtry (onSession (\<lambda>now. IngestOwnedAudioFrame now normalized))) (\<lambda>ingested.
              case ingested of
                Inl e \<Rightarrow> emitServerError (xsSessionID st) (lit ''audio_ingest_failed'') (gatewayErrorText e)
              | Inr snapshot \<Rightarrow>
                  gthen (if xpServerEndpointEnabled (xhProfile h) \<and> xsAudioTurnOpen st then
                           gthen (gtry (gthen (ensureInputPreview pw) (pushInputPreviewAudio pw normalized))) (gret ())
                         else gret ()) (
                  applyReadDeadline (runtimeProfile h) snapshot))))"

definition handleCompatBinary :: "xiaozhiWSHandler \<Rightarrow> previewAnswers \<Rightarrow> opus_decoder \<Rightarrow> byte list \<Rightarrow> unit xop" where
  "handleCompatBinary h pw pion payload = xlift (\<lambda>st.
     if payload = [] then gret ()
     else case unwrapXiaozhiBinaryFrame payload (xsBinaryProtocolVersion st) of
       Inl e \<Rightarrow> emitServerError (xsSessionID st) (lit ''invalid_audio_frame'') (TextOf e)
     | Inr unwrapped \<Rightarrow>
         (if xpMaxFrameBytes (xhProfile h) > 0 \<and> int (length unwrapped) > xpMaxFrameBytes (xhProfile h)
          then emitServerError (xsSessionID st) (lit ''frame_too_large'')
                 (TextOf (lit ''binary frame exceeds '' @ Itoa (xpMaxFrameBytes (xhProfile h)) @ lit '' bytes''))
          else
            gbind snapshotOp (\<lambda>snapshot.
            if \<not> xsAudioTurnOpen st \<and> SessionID snapshot = [] then gret ()
            else
              gthen (interruptSpeaking h (xsSessionID st)) (
              gbind (ensureNormalizer h st) (\<lambda>failed.
              case failed of
                Some e \<Rightarrow> emitServerError (xsSessionID st) (lit ''unsupported_audio_format'') (TextOfOpus e)
              | None \<Rightarrow> gthen (ensureSessionStarted h st) (ingestCompatFrame h pw pion unwrapped st))))))"

section \<open>Endpointing\<close>

definition handleCompatTick :: "xiaozhiWSHandler \<Rightarrow> previewAnswers \<Rightarrow> int \<Rightarrow> unit xop" where
  "handleCompatTick h pw now =
     xbind (xlift (\<lambda>st. gbind snapshotOp (\<lambda>snapshot.
        if \<not> xpServerEndpointEnabled (xhProfile h) \<or> SessionID snapshot = [] \<or> snapState snapshot \<noteq> StateActive \<or> \<not> xsAudioTurnOpen st
        then gret False
        else gbind (pollInputPreview pw now) (\<lambda>ob.
          gret (goActive ob \<and> goCommitSuggested ob \<and> AudioBytes snapshot > 0))))) (\<lambda>commit.
     if \<not> commit then xlift (\<lambda>_. gret ())
     else
       xthen (xset (\<lambda>st. st\<lparr>xsAudioTurnOpen := False\<rparr>)) (
       xlift (\<lambda>st.
         gbind (consumeInputPreview pw) (\<lambda>(_, result).
         gbind (onSession CommitTurn) (\<lambda>turn.
         answerCompatTurn h (xsSessionID st) (lit ''server_endpoint'') turn (acceptedTranscription result))))))"

section \<open>Inbound messages\<close>

record compatFrame =
  cfType :: gostring
  cfHello :: "gostring + xiaozhiHelloMessage"
  cfListen :: "gostring + xiaozhiListenMessage"
  cfAbort :: "gostring option"

text \<open>\<open>None\<close>: the frame is not valid JSON.\<close>

definition handleCompatControl :: "xiaozhiWSHandler \<Rightarrow> previewAnswers \<Rightarrow> compatFrame option \<Rightarrow> unit xop" where
  "handleCompatControl h pw frame =
     (let report = (\<lambda>code e. xlift (\<lambda>st. emitServerError (xsSessionID st) code (TextOf e)))
      in case frame of
           None \<Rightarrow> report (lit ''invalid_json'') (lit ''control frame is not valid json'')
         | Some f \<Rightarrow>
             let ty = ToLower (TrimSpace (cfType f))
             in if ty = lit ''hello'' then (case cfHello f of Inl e \<Rightarrow> report (lit ''invalid_hello'') e | Inr msg \<Rightarrow> handleHello h msg)
                else if ty = lit ''listen'' then (case cfListen f of Inl e \<Rightarrow> report (lit ''invalid_listen'') e | Inr msg \<Rightarrow> handleListen h pw msg)
                else if ty = lit ''abort'' then (case cfAbort f of Some e \<Rightarrow> report (lit ''invalid_abort'') e | None \<Rightarrow> handleAbort h)
                else if ty = lit ''mcp'' then xlift (\<lambda>_. gret ())
                else report (lit ''unsupported_event'')
                       (lit ''event '' @ cfType f @ lit '' is not implemented in xiaozhi compatibility mode''))"

text \<open>A read timeout; any other read error is left to the caller.\<close>

definition handleCompatTimeout :: "xiaozhiWSHandler \<Rightarrow> unit xop" where
  "handleCompatTimeout h = xlift (\<lambda>st.
     gbind snapshotOp (\<lambda>snapshot.
     gbind gnow (\<lambda>now.
     let reason = (case deadlineCloseReason snapshot (runtimeProfile h) now of
                     Some c \<Rightarrow> c | None \<Rightarrow> if SessionID snapshot \<noteq> [] then CloseReasonError else [])
     in gthen interruptOutput (
        gthen (gtry (ttsMessage (lit ''stop'') (xsSessionID st))) (
        gthen (if SessionID snapshot \<noteq> []
               then gthen (gtry (onSession (\<lambda>t. EndSession t reason))) (gthen clearInputPreview resetSession) else gret ())
        closeConn)))))"

datatype compatInbound =
    CompatTimeout
  | CompatReadError
  | CompatText "compatFrame option"
  | CompatBinary "byte list"
  | CompatOther

definition handleCompatInbound :: "xiaozhiWSHandler \<Rightarrow> previewAnswers \<Rightarrow> opus_decoder \<Rightarrow> compatInbound \<Rightarrow> unit xop" where
  "handleCompatInbound h pw pion inbound =
     (case inbound of
        CompatTimeout \<Rightarrow> handleCompatTimeout h
      | CompatReadError \<Rightarrow> xlift (\<lambda>_. gfail ErrConnection)
      | CompatText frame \<Rightarrow> handleCompatControl h pw frame
      | CompatBinary payload \<Rightarrow> handleCompatBinary h pw pion payload
      | CompatOther \<Rightarrow> xlift (\<lambda>st. emitServerError (xsSessionID st) (lit ''unsupported_message_type'')
          (TextOf (lit ''only text and binary websocket frames are supported''))))"

section \<open>The playback goroutine\<close>

text \<open>
  The goroutine announces the answer and enters its loop. At the head of the loop it looks at its context, and then reads the encoded stream; the read
  blocks, and the chunk or the error that it delivers is sent without another look at the context, while after the end of the audio the context is looked
  at once more. Then it waits for the outcome of the turn; if it is there and the context is cancelled, either can win. An event that
  the goroutine is not ready for changes nothing.
\<close>

datatype compatPlayback =
    CompatBegin | CompatCheck | CompatChunk "byte list" | CompatFailed gostring | CompatEnd | CompatOutcome | CompatGiveUp

definition compatExit :: "unit gop" where
  "compatExit = gmod (\<lambda>r. r\<lparr>crOutput := None\<rparr>)"

definition orCompatExit :: "unit gop \<Rightarrow> unit gop" where
  "orCompatExit m = gbind (gtry m) (\<lambda>x. case x of Inr _ \<Rightarrow> gret () | Inl _ \<Rightarrow> compatExit)"

definition announceSpeech :: "gostring \<Rightarrow> gostring \<Rightarrow> unit gop" where
  "announceSpeech sessionID t =
     gthen (ttsMessage (lit ''start'') sessionID) (
     if TrimSpace t \<noteq> [] then WriteJSON (XTTS (lit ''sentence_start'') sessionID t) else gret ())"

definition playCompatChunk :: "int \<Rightarrow> byte list \<Rightarrow> unit gop" where
  "playCompatChunk version chunk =
     gthen (WriteCompatBinary chunk version) (
     gbind gnow (\<lambda>now.
     gthen (gmod (\<lambda>r. r\<lparr>crTurnTrace := markTurnFirstAudioChunk now (int (length chunk)) (crTurnTrace r)\<rparr>)) (
     onVoice ObservePlaybackChunk)))"

definition compatPlaybackEvent :: "xiaozhiWSHandler \<Rightarrow> compatPlayback \<Rightarrow> xiaozhiCompatState \<Rightarrow> unit gop" where
  "compatPlaybackEvent h ev st r =
     (case crOutput r of
        None \<Rightarrow> (Inr (), r)
      | Some s \<Rightarrow>
          (case (osStage s, ev) of
             (AtStart, CompatBegin) \<Rightarrow> orCompatExit (gthen (announceSpeech (osSessionID s) (amText (osMeta s))) (moveTo AtCheck)) r
           | (AtCheck, CompatCheck) \<Rightarrow> if osCancelled s then compatExit r else moveTo AtRead r
           | (AtRead, CompatChunk chunk) \<Rightarrow>
               orCompatExit (gthen (if chunk = [] then gret () else playCompatChunk (xsBinaryProtocolVersion st) chunk) (moveTo AtCheck)) r
           | (AtRead, CompatFailed e) \<Rightarrow>
               gthen (gtry (emitServerError (osSessionID s) (lit ''audio_stream_failed'') (TextOf e))) compatExit r
           | (AtRead, CompatEnd) \<Rightarrow>
               if osCancelled s then compatExit r
               else gthen (gtry (ttsMessage (lit ''stop'') (osSessionID s))) (gthen (onVoice CompletePlayback) (moveTo AtOutcome)) r
           | (AtOutcome, CompatOutcome) \<Rightarrow>
               (case osCompletion s of
                  None \<Rightarrow> (Inl StillWaiting, r)
                | Some outcome \<Rightarrow>
                    gthen (gtry (completeTurnReturnOrClose (runtimeProfile h) outcome
                      \<lparr>tcResolveReturnActive = Some resolvePostPlaybackActiveSnapshot, tcOnReturnActive = None,
                       tcOnEndSession = Some (\<lambda>_ _. gthen resetSession closeConn)\<rparr>)) compatExit r)
           | (AtOutcome, CompatGiveUp) \<Rightarrow> if osCancelled s then compatExit r else (Inr (), r)
           | _ \<Rightarrow> (Inr (), r)))"

section \<open>A connection\<close>

text \<open>The values of the upgrade request that the handler reads: the header, and the query parameter for want of it.\<close>

record upgradeRequest =
  urProtocolVersion :: "gostring \<times> gostring"
  urDeviceID :: "gostring \<times> gostring"
  urClientID :: "gostring \<times> gostring"

definition headerOrQuery :: "gostring \<times> gostring \<Rightarrow> gostring list" where
  "headerOrQuery v = [TrimSpace (fst v), TrimSpace (snd v)]"

definition newXiaozhiCompatState :: "xiaozhiWSHandler \<Rightarrow> upgradeRequest \<Rightarrow> int \<Rightarrow> xiaozhiCompatState" where
  "newXiaozhiCompatState h req now =
     (let p = xhProfile h
      in \<lparr>xsSessionID = lit ''sess_xiaozhi_'' @ Itoa now,
          xsDeviceID = gatewayFirstNonEmpty (headerOrQuery (urDeviceID req) @ [lit ''xiaozhi-device'']),
          xsClientID = gatewayFirstNonEmpty (headerOrQuery (urClientID req)),
          xsBinaryProtocolVersion = resolveXiaozhiProtocolVersion (gatewayFirstNonEmpty (headerOrQuery (urProtocolVersion req))) 0 (xpWelcomeVersion p),
          xsHelloReceived = False,
          xsInputCodec = gatewayFirstNonEmpty [ToLower (TrimSpace (xpInputCodec p)), lit ''opus''],
          xsInputSampleRate = gatewayMaxInt (xpInputSampleRate p) 16000, xsInputChannels = gatewayMaxInt (xpInputChannels p) 1,
          xsInputFrameDurationMs = gatewayMaxInt (xpInputFrameDurationMs p) 60, xsListenMode = lit ''auto'', xsAudioTurnOpen = False\<rparr>)"

definition newXiaozhiConnection :: "xiaozhiWSHandler \<Rightarrow> upgradeRequest \<Rightarrow> int \<Rightarrow> connEnv \<Rightarrow> MemoryStore option \<Rightarrow> xiaozhiConnection" where
  "newXiaozhiConnection h req now env memory =
     \<lparr>xcState = newXiaozhiCompatState h req now, xcRuntime = newConnectionRuntime env memory\<rparr>"

text \<open>
  One message, one tick of the preview timer (which the loop runs only when no message is waiting), one step of the
  playback goroutine, or the return of the handler, which interrupts the output.
\<close>

datatype compat_event =
    CompatInbound compatInbound previewAnswers opus_decoder
  | CompatTick previewAnswers int
  | CompatPlay compatPlayback
  | CompatReturn

fun compat_step :: "xiaozhiWSHandler \<Rightarrow> compat_event \<Rightarrow> unit xop" where
  "compat_step h (CompatInbound m pw pion) = handleCompatInbound h pw pion m"
| "compat_step h (CompatTick pw now) = handleCompatTick h pw now"
| "compat_step h (CompatPlay ev) = xlift (compatPlaybackEvent h ev)"
| "compat_step h CompatReturn = xlift (\<lambda>_. gthen interruptOutput (gret ()))"

fun compat_run :: "xiaozhiWSHandler \<Rightarrow> compat_event list \<Rightarrow> xiaozhiConnection \<Rightarrow> xiaozhiConnection" where
  "compat_run h [] c = c"
| "compat_run h (ev # evs) c = compat_run h evs (snd (compat_step h ev c))"

section \<open>Discovery\<close>

record otaRequest =
  oqForwardedHost :: gostring
  oqHost :: gostring
  oqForwardedProto :: gostring
  oqTLS :: bool

definition websocketURLForRequest :: "otaRequest \<Rightarrow> gostring \<Rightarrow> gostring" where
  "websocketURLForRequest req wsPath =
     (let host = (if TrimSpace (oqForwardedHost req) = [] then TrimSpace (oqHost req) else TrimSpace (oqForwardedHost req));
          forwarded = ToLower (TrimSpace (oqForwardedProto req));
          proto = (if forwarded = [] then (if oqTLS req then lit ''https'' else lit ''http'') else forwarded);
          wsScheme = (if proto = lit ''https'' then lit ''wss'' else lit ''ws'')
      in wsScheme @ lit ''://'' @ host @ wsPath)"

datatype otaResponse =
    OTANoContent
  | OTAHint gostring
  | OTADiscovery int int gostring gostring
  | OTAMethodNotAllowed

text \<open>The body that does not decode leaves the version empty.\<close>

definition serveOTA :: "XiaozhiCompatProfile \<Rightarrow> gostring \<Rightarrow> otaRequest \<Rightarrow> gostring \<Rightarrow> int \<Rightarrow> int \<Rightarrow> otaResponse" where
  "serveOTA profile httpMethod req version nowMilli offsetSeconds =
     (if httpMethod = lit ''OPTIONS'' then OTANoContent
      else if httpMethod = lit ''GET'' then
        OTAHint ((lit ''OTA'' @ [0x63A5, 0x53E3, 0x8FD0, 0x884C, 0x6B63, 0x5E38, 0xFF0C, 0x5411, 0x8BBE, 0x5907, 0x53D1, 0x9001, 0x7684] @ lit ''websocket'' @ [0x5730, 0x5740, 0x662F, 0xFF1A]) @ websocketURLForRequest req (xpWSPath profile))
      else if httpMethod = lit ''POST'' then
        OTADiscovery nowMilli (offsetSeconds sdiv 60) (TrimSpace version) (websocketURLForRequest req (xpWSPath profile))
      else OTAMethodNotAllowed)"

section \<open>What every step keeps\<close>

text \<open>A predicate of the negotiated state and one of the runtime, kept by an operation on the pair.\<close>

definition xkeeps :: "(xiaozhiCompatState \<Rightarrow> bool) \<Rightarrow> (connectionRuntime \<Rightarrow> bool) \<Rightarrow> 'a xop \<Rightarrow> bool" where
  "xkeeps Q P m \<longleftrightarrow> (\<forall>c. Q (xcState c) \<and> P (xcRuntime c) \<longrightarrow> Q (xcState (snd (m c))) \<and> P (xcRuntime (snd (m c))))"

lemma xkeeps_lift: "(\<And>st. keeps P (m st)) \<Longrightarrow> xkeeps Q P (xlift m)"
  by (simp add: xkeeps_def xlift_def case_prod_beta keeps_def)

lemma xkeeps_lift_state: "(\<And>st. Q st \<Longrightarrow> keeps P (m st)) \<Longrightarrow> xkeeps Q P (xlift m)"
  by (simp add: xkeeps_def xlift_def case_prod_beta keeps_def)

lemma xkeeps_set: "(\<And>st. Q st \<Longrightarrow> Q (f st)) \<Longrightarrow> xkeeps Q P (xset f)"
  by (simp add: xkeeps_def xset_def)

lemma xkeeps_bind:
  assumes "xkeeps Q P m" and "\<And>x. xkeeps Q P (f x)"
  shows "xkeeps Q P (xbind m f)"
  unfolding xkeeps_def xbind_def
proof (intro allI impI)
  fix c :: xiaozhiConnection assume c: "Q (xcState c) \<and> P (xcRuntime c)"
  obtain x c1 where m: "m c = (x, c1)" by (cases "m c")
  have c1: "Q (xcState c1) \<and> P (xcRuntime c1)" using assms(1) c m by (metis snd_conv xkeeps_def)
  show "Q (xcState (snd (case m c of (Inl e, c1) \<Rightarrow> (Inl e, c1) | (Inr x, c1) \<Rightarrow> f x c1))) \<and>
      P (xcRuntime (snd (case m c of (Inl e, c1) \<Rightarrow> (Inl e, c1) | (Inr x, c1) \<Rightarrow> f x c1)))"
    using c1 assms(2) by (cases x) (auto simp: m xkeeps_def)
qed

lemma xkeeps_then: "xkeeps Q P m \<Longrightarrow> xkeeps Q P k \<Longrightarrow> xkeeps Q P (xthen m k)"
  unfolding xthen_def by (rule xkeeps_bind)

lemma xkeeps_if: "(b \<Longrightarrow> xkeeps Q P m) \<Longrightarrow> (\<not> b \<Longrightarrow> xkeeps Q P k) \<Longrightarrow> xkeeps Q P (if b then m else k)"
  by simp

lemma xkeeps_run:
  assumes "\<And>ev. ev \<in> set evs \<Longrightarrow> xkeeps Q P (compat_step h ev)" and "Q (xcState c)" and "P (xcRuntime c)"
  shows "Q (xcState (compat_run h evs c)) \<and> P (xcRuntime (compat_run h evs c))"
  using assms
proof (induction evs arbitrary: c)
  case (Cons ev evs)
  have "Q (xcState (snd (compat_step h ev c))) \<and> P (xcRuntime (snd (compat_step h ev c)))"
    using Cons.prems(1) [of ev] Cons.prems(2,3) by (simp add: xkeeps_def)
  then show ?case using Cons.IH [of "snd (compat_step h ev c)"] Cons.prems(1) by simp
qed simp

text \<open>The contract: a predicate of the runtime that the writes of this handler keep too, and one of the negotiated state.\<close>

locale compat_contract = connection_invariant +
  fixes h :: xiaozhiWSHandler and Q :: "xiaozhiCompatState \<Rightarrow> bool"
  assumes compat: "P r \<Longrightarrow> P (snd (writeCompat pl r))"
    and listenMode: "Q st \<Longrightarrow> Q (st\<lparr>xsListenMode := mode\<rparr>)"
    and audioTurn: "Q st \<Longrightarrow> Q (st\<lparr>xsAudioTurnOpen := b\<rparr>)"
    and negotiated: "Q st \<Longrightarrow> validateHello h (resolvedHelloAudio h msg) = None \<Longrightarrow> Q (negotiatedState msg (resolvedHelloAudio h msg) st)"
begin

lemma keeps_json: "keeps P (WriteJSON m)" "keeps P closeConn" "keeps P (emitServerError sid code t)" "keeps P (ttsMessage s sid)"
  by (simp_all add: keeps_def WriteJSON_def closeConn_def emitServerError_def ttsMessage_def compat)

lemma keeps_interrupt_speaking: "keeps P (interruptSpeaking hd1 sid)"
  unfolding interruptSpeaking_def by (rule keeps_interrupt_flow) (auto simp: keeps_json)

lemma keeps_ensure_session: "keeps P (ensureSessionStarted hd1 st)"
  unfolding ensureSessionStarted_def by (intro keeps_basics)

lemma keeps_reset: "keeps P resetSession"
  unfolding resetSession_def using session [of _ "(0, CReset)"] by (intro keeps_mod) simp

lemma keeps_compat_stream: "keeps P (startCompatStream sid t source completion)"
  unfolding startCompatStream_def by (intro keeps_mod outputs)

lemma keeps_play_answer: "keeps P (playAnswer hd1 sid response t source)"
  unfolding playAnswer_def
  by (intro keeps_basics keeps_on_voice voice_calls interrupt_voice keeps_reset keeps_json keeps_compat_stream)

lemma keeps_finalize_compat: "keeps P (finalizeCompatResponse hd1 sid response t)"
proof -
  have "keeps P (gthen resetPendingBargeInAudio (gthen clearInputPreview (gthen resetSession closeConn)))"
    by (intro keeps_then keeps_unstage keeps_clear_preview keeps_reset keeps_json)
  moreover have "keeps P (gthen (onVoice (FinalizeTextResponse u)) (if b then gret () else WriteJSON m))" for u b m
    by (intro keeps_basics keeps_on_voice voice_calls keeps_json)
  ultimately show ?thesis unfolding finalizeCompatResponse_def Let_def
    by (intro keeps_then keeps_clear_preview keeps_lifecycle)
      (auto simp: keeps_play_answer keeps_ret keeps_json intro: keeps_on_voice voice_calls)
qed

lemma compat_hooks_keep: "keeping_hooks P compatHooks"
proof
  fix s :: connectionRuntime and ms resp t d st out f
  assume s: "P s"
  show "P (snd (hkResponseStart compatHooks ms resp s))"
    using s by (simp add: compatHooks_def hook_keeps keeps_then keeps_ret keeps_trace)
  have "keeps P (gbind gnow (\<lambda>now. gmod (\<lambda>r. r\<lparr>crTurnTrace := markTurnFirstTextDelta now t (crTurnTrace r)\<rparr>)))"
    by (intro keeps_bind keeps_now keeps_mod turnTraces)
  then show "P (hkFirstTextDelta compatHooks t s)" using s by (simp add: compatHooks_def keepsD)
qed (simp_all add: compatHooks_def)

end

sublocale compat_contract \<subseteq> flow: keeping_hooks P compatHooks
  by (rule compat_hooks_keep)

context compat_contract
begin

lemma keeps_compat_responder: "keeps P (runCompatResponder hd1 request)"
  unfolding keeps_def
proof (intro allI impI)
  fix r assume "P r"
  then show "P (snd (runCompatResponder hd1 request r))"
    using flow.execute [of r "xhResponder hd1 request"] by (auto simp: runCompatResponder_def split: prod.splits option.splits)
qed

lemma keeps_emit_compat: "keeps P (emitCompatResponse hd1 sid turn trace t pt)"
  unfolding emitCompatResponse_def Let_def
  by (intro keeps_basics keeps_on_voice voice_calls keeps_compat_responder keeps_json keeps_finalize_compat)

lemma keeps_answer_compat: "keeps P (answerCompatTurn hd1 sid source turn pt)"
  unfolding answerCompatTurn_def by (intro keeps_basics keeps_emit_compat)

lemma xkeeps_hello: "xkeeps Q P (handleHello h msg)"
proof (cases "validateHello h (resolvedHelloAudio h msg)")
  case None
  then have "xkeeps Q P (xset (negotiatedState msg (resolvedHelloAudio h msg)))" by (intro xkeeps_set negotiated)
  then show ?thesis using None unfolding handleHello_def Let_def
    by (auto split: sum.splits intro!: xkeeps_then xkeeps_lift keeps_json keeps_mod normalizer)
qed (simp add: handleHello_def Let_def xkeeps_lift keeps_json)

lemma xkeeps_listen: "xkeeps Q P (handleListen h pw msg)"
proof -
  have start: "xkeeps Q P (listenStart h)" unfolding listenStart_def
    by (intro xkeeps_then xkeeps_lift xkeeps_set audioTurn keeps_interrupt_speaking keeps_ensure_session)
  have stop: "xkeeps Q P (listenStop h pw)" unfolding listenStop_def
    by (intro xkeeps_then xkeeps_set xkeeps_lift audioTurn keeps_basics keeps_consume keeps_json keeps_answer_compat)
  have detect: "xkeeps Q P (listenDetect h t)" for t unfolding listenDetect_def Let_def
    by (intro xkeeps_if xkeeps_lift keeps_basics keeps_interrupt_speaking keeps_ensure_session keeps_json keeps_clear_preview keeps_emit_compat)
  show ?thesis unfolding handleListen_def Let_def
    by (intro xkeeps_then xkeeps_set listenMode xkeeps_if start stop detect xkeeps_lift keeps_ret)
qed

lemma xkeeps_binary: "xkeeps Q P (handleCompatBinary h pw pion payload)"
proof -
  have "keeps P (ensureNormalizer h st)" for st
    by (auto simp: keeps_def ensureNormalizer_def normalizer split: option.splits sum.splits)
  moreover have "keeps P (ingestCompatFrame h pw pion p st)" for p st unfolding ingestCompatFrame_def decodeFrame_def
    by (intro keeps_basics keeps_json keeps_ensure keeps_push)
  ultimately show ?thesis unfolding handleCompatBinary_def
    by (intro xkeeps_lift keeps_basics keeps_json keeps_interrupt_speaking keeps_ensure_session)
qed

lemma xkeeps_tick: "xkeeps Q P (handleCompatTick h pw now)"
  unfolding handleCompatTick_def
  by (intro xkeeps_bind xkeeps_then xkeeps_if xkeeps_lift xkeeps_set audioTurn keeps_basics keeps_poll keeps_consume keeps_answer_compat)

lemma xkeeps_control: "xkeeps Q P (handleCompatControl h pw frame)"
proof -
  have "xkeeps Q P (handleAbort h)" unfolding handleAbort_def by (intro xkeeps_lift keeps_interrupt_speaking)
  then show ?thesis unfolding handleCompatControl_def Let_def
    by (auto split: option.splits sum.splits intro!: xkeeps_hello xkeeps_listen xkeeps_lift keeps_json keeps_ret)
qed

lemma xkeeps_timeout: "xkeeps Q P (handleCompatTimeout h)"
  unfolding handleCompatTimeout_def
  by (intro xkeeps_lift keeps_basics keeps_interrupts keeps_json keeps_clear_preview keeps_reset)

lemma keeps_compat_exit: "keeps P compatExit"
  unfolding compatExit_def by (intro keeps_mod outputs)

lemma keeps_or_compat_exit: "keeps P m \<Longrightarrow> keeps P (orCompatExit m)"
  unfolding orCompatExit_def by (intro keeps_basics keeps_compat_exit)

lemma keeps_compat_playback: "keeps P (compatPlaybackEvent h ev st)"
proof -
  have begin1: "keeps P (orCompatExit (gthen (announceSpeech sid t) (moveTo stage)))" for sid t stage
    unfolding announceSpeech_def by (intro keeps_or_compat_exit keeps_basics keeps_json keeps_move)
  have chunk: "keeps P (orCompatExit (gthen (if b = [] then gret () else playCompatChunk v b) (moveTo stage)))" for v b stage
    unfolding playCompatChunk_def WriteCompatBinary_def
    by (intro keeps_or_compat_exit keeps_basics keeps_mod turnTraces keeps_on_voice voice_calls keeps_move)
  have failed: "keeps P (gthen (gtry (emitServerError sid code t)) compatExit)" for sid code t
    by (intro keeps_basics keeps_json keeps_compat_exit)
  have "keeps P (onVoice CompletePlayback)"
    by (intro keeps_on_voice) (simp add: CompletePlayback_def voice_calls)
  then have ended: "keeps P (gthen (gtry (ttsMessage s sid)) (gthen (onVoice CompletePlayback) (moveTo stage)))" for s sid stage
    by (intro keeps_then keeps_try keeps_json keeps_move)
  have "keeps P (gthen resetSession closeConn)" by (intro keeps_then keeps_reset keeps_json)
  then have done1: "keeps P (gthen (gtry (completeTurnReturnOrClose p out
      \<lparr>tcResolveReturnActive = Some resolvePostPlaybackActiveSnapshot, tcOnReturnActive = None,
       tcOnEndSession = Some (\<lambda>_ _. gthen resetSession closeConn)\<rparr>)) compatExit)" for p out
    by (intro keeps_then keeps_try keeps_compat_exit keeps_complete_turn) (auto simp: keeps_resolve_active)
  have "P (snd (compatPlaybackEvent h ev st r))" if r: "P r" for r
    using r keepsD [OF begin1 r] keepsD [OF chunk r] keepsD [OF failed r] keepsD [OF ended r] keepsD [OF done1 r] keepsD [OF keeps_compat_exit r]
      keepsD [OF keeps_move r]
    by (cases ev) (simp_all add: compatPlaybackEvent_def split: option.splits playbackStage.splits)
  then show ?thesis by (simp add: keeps_def)
qed

lemma xkeeps_step: "xkeeps Q P (compat_step h ev)"
proof (cases ev)
  case (CompatInbound m pw pion)
  then show ?thesis
    by (cases m) (simp_all add: handleCompatInbound_def xkeeps_timeout xkeeps_control xkeeps_binary xkeeps_lift keeps_fail keeps_json)
next
  case (CompatPlay ev)
  then show ?thesis by (simp add: xkeeps_lift keeps_compat_playback)
qed (simp_all add: xkeeps_tick xkeeps_lift keeps_then keeps_interrupts keeps_ret)

end

section \<open>Negotiation\<close>

text \<open>What is negotiated is always usable: a version with a framing, a positive audio profile, names that are not blank.\<close>

definition compat_state_ok :: "xiaozhiCompatState \<Rightarrow> bool" where
  "compat_state_ok st \<longleftrightarrow> xsBinaryProtocolVersion st \<in> {1, 2, 3} \<and> 0 < xsInputSampleRate st \<and> 0 < xsInputChannels st \<and>
     0 < xsInputFrameDurationMs st \<and> xsSessionID st \<noteq> [] \<and> TrimSpace (xsDeviceID st) \<noteq> []"

lemma firstNonEmpty_nonblank: "(\<exists>v\<in>set vs. TrimSpace v \<noteq> []) \<Longrightarrow> TrimSpace (gatewayFirstNonEmpty vs) \<noteq> []"
  by (induction vs) auto

lemma resolve_version: "resolveXiaozhiProtocolVersion s v w \<in> {1, 2, 3}"
  unfolding resolveXiaozhiProtocolVersion_def parseXiaozhiProtocolVersion_def normalizeXiaozhiProtocolVersion_def xiaozhi_constants Let_def
  by (auto split: option.splits)

lemma compat_state_ok_new: "compat_state_ok (newXiaozhiCompatState h req now)"
proof -
  have "TrimSpace (gatewayFirstNonEmpty (headerOrQuery v @ [lit ''xiaozhi-device''])) \<noteq> []" for v
    by (rule firstNonEmpty_nonblank) (auto simp: lit_def is_space_def TrimSpace_eq_Nil)
  then show ?thesis using resolve_version
    by (simp add: compat_state_ok_def newXiaozhiCompatState_def gatewayMaxInt_def Let_def lit_def)
qed

interpretation compat: compat_contract conn_inv h compat_state_ok for h
proof unfold_locales
  fix r pl assume "conn_inv r"
  then show "conn_inv (snd (writeCompat pl r))" by (simp add: conn_inv_def writeCompat_def Let_def)
next
  fix st msg assume st: "compat_state_ok st" and v: "validateHello h (resolvedHelloAudio h msg) = None"
  have "TrimSpace (gatewayFirstNonEmpty [TrimSpace (hmDeviceID msg), TrimSpace (hmDeviceMAC msg), xsDeviceID st]) \<noteq> []"
    using st by (intro firstNonEmpty_nonblank) (simp add: compat_state_ok_def)
  moreover have "0 < xaSampleRate (resolvedHelloAudio h msg)" "0 < xaChannels (resolvedHelloAudio h msg)"
    using v by (auto simp: validateHello_def Let_def split: if_splits)
  moreover have "0 < xaFrameDuration (resolvedHelloAudio h msg)" by (simp add: resolvedHelloAudio_def gatewayMaxInt_def Let_def)
  ultimately show "compat_state_ok (negotiatedState msg (resolvedHelloAudio h msg) st)"
    using st resolve_version [of "[]" "hmVersion msg" "xsBinaryProtocolVersion st"]
    unfolding compat_state_ok_def negotiatedState_def by simp
qed (simp_all add: compat_state_ok_def)


section \<open>Interrupting the answer\<close>

definition stopSent :: "gostring \<Rightarrow> connectionRuntime \<Rightarrow> (int \<times> gostring \<times> serverPayload) list" where
  "stopSent sid r = [(peServerSeq (crPeer r), [], PCompat (XTTS (lit ''stop'') sid []))]"

text \<open>The part of the interruption after the output lane is idle leaves the output, the lane and what was sent alone.\<close>

definition quiet :: "outputStream option \<Rightarrow> (int \<times> gostring \<times> serverPayload) list \<Rightarrow> connectionRuntime \<Rightarrow> bool" where
  "quiet out sent r \<longleftrightarrow> crOutput r = out \<and> peSent (crPeer r) = sent \<and> snapState (takeSnapshot (crSession r)) \<noteq> StateSpeaking"

lemma quiet_fields [simp]:
  "quiet out sent (r\<lparr>crTick := n\<rparr>) = quiet out sent r" "quiet out sent (r\<lparr>crDeadline := d\<rparr>) = quiet out sent r"
  "quiet out sent (r\<lparr>crVoice := v\<rparr>) = quiet out sent r" "quiet out sent (r\<lparr>crClosedPreviews := hs\<rparr>) = quiet out sent r"
  "quiet out sent (r\<lparr>crTurnTrace := tt\<rparr>) = quiet out sent r" "quiet out sent (r\<lparr>crPreviewTrace := pt\<rparr>) = quiet out sent r"
  "quiet out sent (r\<lparr>crPending := pe\<rparr>) = quiet out sent r"
  by (simp_all add: quiet_def)

lemma quiet_ops:
  "keeps (quiet out sent) gnow" "keeps (quiet out sent) (onTurnTrace f)" "keeps (quiet out sent) (applyReadDeadline p snap)"
  "keeps (quiet out sent) resetPendingBargeInAudio" "keeps (quiet out sent) clearPreviewTrace"
  by (simp_all add: keeps_def gnow_def onTurnTrace_def gbind_def applyReadDeadline_def resetPendingBargeInAudio_def gmod_def
      clearPreviewTrace_def case_prod_beta Let_def)

lemma not_speaking_input: "snapState (takeSnapshot s) \<noteq> StateSpeaking \<Longrightarrow> snapState (takeSnapshot (snd (SetInputState t i s))) \<noteq> StateSpeaking"
  by (auto simp: SetInputState_def takeSnapshot_def cloneSnapshot_def refreshState_def deriveCompatState_def Let_def split: if_splits OutputState.splits)

lemma quiet_clear: "keeps (quiet out sent) clearInputPreview"
proof -
  have set: "keeps (quiet out sent) (onSession (\<lambda>t. SetInputState t i))" for i
    using not_speaking_input
    by (auto simp: keeps_def onSession_def gbind_def gnow_def quiet_def split: prod.splits sum.splits) (metis snd_conv)+
  have "keeps (quiet out sent) (gmod (\<lambda>r. case ClearInputPreview (crVoice r) of (handles, v) \<Rightarrow>
      r\<lparr>crVoice := v, crClosedPreviews := crClosedPreviews r @ handles\<rparr>))"
    by (intro keeps_mod) (simp add: case_prod_beta)
  then show ?thesis unfolding clearInputPreview_def leavePreviewing_def by (intro keeps_rules quiet_ops set)
qed

lemma output_idle:
  "active s \<Longrightarrow> \<exists>snap s1. SetOutputState t OutputStateIdle s = (Inr snap, s1) \<and> snapState (takeSnapshot s1) \<noteq> StateSpeaking"
  by (simp add: SetOutputState_def takeSnapshot_def cloneSnapshot_def refreshState_def deriveCompatState_def normalizeOutputState_def Let_def)

lemma quiet_after_idle:
  assumes "active (crSession r)"
  shows "\<exists>snap r1. onSession (\<lambda>t. SetOutputState t OutputStateIdle) r = (Inr snap, r1) \<and> quiet (crOutput r) (peSent (crPeer r)) r1"
proof -
  obtain snap s1 where "SetOutputState (envClock (crEnv r) (crTick r)) OutputStateIdle (crSession r) = (Inr snap, s1)"
    "snapState (takeSnapshot s1) \<noteq> StateSpeaking" using output_idle [OF assms] by blast
  then show ?thesis by (simp add: onSession_def gbind_def gnow_def quiet_def)
qed

lemma interrupt_rest:
  "keeps (quiet out sent) (gthen (onTurnTrace MarkInterrupted) (gbind (onTurnTrace MarkActive) (\<lambda>trace.
     gthen (gthen clearInputPreview (gret ())) (gthen resetPendingBargeInAudio (gthen (applyReadDeadline p snap) (gret ()))))))"
  by (intro keeps_rules quiet_ops quiet_clear)

lemma interrupt_speaking_quiet:
  assumes inv: "session_inv (crSession r)" and ok: "fst (interruptSpeaking h sid r) = Inr ()"
  shows "quiet (map_option (\<lambda>s. s\<lparr>osCancelled := True\<rparr>) (crOutput r))
     (peSent (crPeer r) @ (if crOutput r = None then [] else stopSent sid r)) (snd (interruptSpeaking h sid r))"
proof -
  let ?out = "map_option (\<lambda>s. s\<lparr>osCancelled := True\<rparr>) (crOutput r)"
  let ?sent = "peSent (crPeer r) @ (if crOutput r = None then [] else stopSent sid r)"
  let ?speaking = "snapState (takeSnapshot (crSession r)) = StateSpeaking"
  have act: "active (crSession r)" "SessionID (takeSnapshot (crSession r)) \<noteq> []" if ?speaking
    using inv that by (auto simp: session_inv_def takeSnapshot_def cloneSnapshot_def deriveCompatState_def split: if_splits)
  define rest where "rest = (\<lambda>active1. gthen (onTurnTrace MarkInterrupted) (gbind (onTurnTrace MarkActive) (\<lambda>trace.
     gthen (gthen clearInputPreview (gret ())) (gthen resetPendingBargeInAudio (gthen (applyReadDeadline (runtimeProfile h) active1) (gret ()))))))"
  define finish where "finish = (if SessionID (takeSnapshot (crSession r)) = [] \<or> \<not> ?speaking then gret ()
     else gbind (onSession (\<lambda>t. SetOutputState t OutputStateIdle)) rest)"
  have fin: "quiet (crOutput r1) (peSent (crPeer r1)) (snd (finish r1))" if "crSession r1 = crSession r" for r1
  proof (cases ?speaking)
    case True
    have "active (crSession r1)" using act(1) [OF True] that by simp
    from quiet_after_idle [OF this] obtain snap r2 where
      "onSession (\<lambda>t. SetOutputState t OutputStateIdle) r1 = (Inr snap, r2)" "quiet (crOutput r1) (peSent (crPeer r1)) r2" by blast
    then show ?thesis using keepsD [OF interrupt_rest] act(2) [OF True] True by (simp add: finish_def rest_def gbind_def)
  next
    case False
    then show ?thesis using that by (simp add: finish_def gret_def quiet_def)
  qed
  have run: "interruptSpeaking h sid r =
      (if \<not> ?speaking \<and> crOutput r = None then (Inr (), r)
       else gbind interruptOutput (\<lambda>interrupted. gthen (if interrupted then ttsMessage (lit ''stop'') sid else gret ()) finish) r)"
    unfolding interruptSpeaking_def interruptSpeakingFlowWithOptions_def finish_def rest_def
      interruptSpeakingOptions.select_convs option.case if_True
    by (simp add: gbind_def gget_def gret_def)
  show ?thesis
  proof (cases "crOutput r")
    case None
    then have "?speaking \<Longrightarrow> interruptSpeaking h sid r = finish r"
      by (simp add: run gbind_def interrupt_output_run gthen_def gret_def)
    then show ?thesis using fin [of r] None by (cases ?speaking) (auto simp: run quiet_def)
  next
    case (Some s)
    define r1 where "r1 = r\<lparr>crOutput := Some (s\<lparr>osCancelled := True\<rparr>),
      crVoice := snd (InterruptPlaybackWithPolicy PolicyHardInterrupt (lit ''hard_interrupt'') (crVoice r))\<rparr>"
    have r: "interruptSpeaking h sid r = gthen (ttsMessage (lit ''stop'') sid) finish r1"
      by (simp add: run Some gbind_def [of interruptOutput] interrupt_output_run r1_def)
    obtain e r2 where w: "ttsMessage (lit ''stop'') sid r1 = (e, r2)" by (cases "ttsMessage (lit ''stop'') sid r1")
    have e: "e = Inr ()" using ok w by (cases e) (auto simp: r gthen_def gbind_def)
    have "crSession r2 = crSession r" "crOutput r2 = ?out" "peSent (crPeer r2) = ?sent"
      using w e Some by (auto simp: ttsMessage_def WriteJSON_def writeCompat_def Let_def r1_def stopSent_def split: if_splits)
    then show ?thesis using fin [of r2] w e by (simp add: r gthen_def gbind_def)
  qed
qed

text \<open>What a connection was sent, and what the goroutine of a cancelled output can still send, by where it is.\<close>

definition lateMessages :: "outputStream option \<Rightarrow> serverPayload list \<Rightarrow> bool" where
  "lateMessages out late \<longleftrightarrow>
     (case out of None \<Rightarrow> late = []
      | Some s \<Rightarrow>
          (case osStage s of
             AtStart \<Rightarrow> prefix late [PCompat (XTTS (lit ''start'') (osSessionID s) []),
               PCompat (XTTS (lit ''sentence_start'') (osSessionID s) (amText (osMeta s)))]
           | AtRead \<Rightarrow> late = [] \<or> (\<exists>frame. late = [PBinary frame]) \<or> (\<exists>e. late = [PCompat (XServer (lit ''error'') e (osSessionID s))])
           | AtOutcome \<Rightarrow> late = [] \<or> late = [PConnClosed]
           | _ \<Rightarrow> late = []))"

text \<open>The completion of a turn sends nothing but the close of the connection.\<close>

lemma silent_ops:
  "keeps (\<lambda>r. payloads r = x) gnow" "keeps (\<lambda>r. payloads r = x) (onTurnTrace f)" "keeps (\<lambda>r. payloads r = x) (applyReadDeadline p snap)"
  "keeps (\<lambda>r. payloads r = x) clearPreviewTrace" "keeps (\<lambda>r. payloads r = x) (onSession g)" "keeps (\<lambda>r. payloads r = x) clearTurnTrace"
  "keeps (\<lambda>r. payloads r = x) resetPendingBargeInAudio" "keeps (\<lambda>r. payloads r = x) compatExit" "keeps (\<lambda>r. payloads r = x) resetSession"
  "keeps (\<lambda>r. payloads r = x) (moveTo stage)" "keeps (\<lambda>r. payloads r = x) (onVoice k)"
  by (auto simp: keeps_def gnow_def onTurnTrace_def onSession_def gbind_def applyReadDeadline_def resetPendingBargeInAudio_def gmod_def
      clearPreviewTrace_def clearTurnTrace_def compatExit_def resetSession_def moveTo_def onVoice_def case_prod_beta Let_def split: sum.splits prod.splits)

lemma silent_clear: "keeps (\<lambda>r. payloads r = x) clearInputPreview"
  unfolding clearInputPreview_def leavePreviewing_def
  by (intro keeps_rules silent_ops keeps_mod) (simp add: case_prod_beta)

lemma silent_flush: "keeps (\<lambda>r. payloads r = x) flushPendingBargeInAudio"
proof -
  have "keeps (\<lambda>r. payloads r = x) (ingestChunks cs s)" for cs s
    by (induction cs arbitrary: s) (auto intro!: keeps_rules silent_ops)
  then show ?thesis by (simp add: keeps_def flushPendingBargeInAudio_def)
qed

lemma silent_resolve: "keeps (\<lambda>r. payloads r = x) resolvePostPlaybackActiveSnapshot"
  unfolding resolvePostPlaybackActiveSnapshot_def Let_def by (intro keeps_rules silent_ops silent_clear silent_flush)

lemma close_payloads: "payloads (snd (closeConn r)) \<in> {payloads r, payloads r @ [PConnClosed]}"
  by (simp add: closeConn_def writeCompat_def payloads_def Let_def)

lemma completion_payloads:
  assumes "hooks = \<lparr>tcResolveReturnActive = Some resolvePostPlaybackActiveSnapshot, tcOnReturnActive = None,
      tcOnEndSession = Some (\<lambda>_ _. gthen resetSession closeConn)\<rparr>"
  shows "payloads (snd (gthen (gtry (completeTurnReturnOrClose p out hooks)) compatExit r)) \<in> {payloads r, payloads r @ [PConnClosed]}"
proof -
  have tail: "payloads (snd (gthen (gtry m) compatExit r)) = payloads (snd (m r))" for m :: "unit gop"
    by (simp add: gthen_def gbind_def gtry_def compatExit_def gmod_def case_prod_beta)
  show ?thesis
  proof (cases "ooEndSession out")
    case True
    define pre where "pre = gthen (onTurnTrace MarkCompleted) (gthen clearTurnTrace resetSession)"
    have "keeps (\<lambda>r'. payloads r' = payloads r) pre" unfolding pre_def by (intro keeps_rules silent_ops)
    from keepsD [OF this refl] have pre: "payloads (snd (pre r)) = payloads r" .
    have eq: "completeTurnReturnOrClose p out hooks = gthen pre closeConn"
      using True by (simp add: completeTurnReturnOrClose_def assms pre_def gthen_def gbind_def fun_eq_iff Let_def split: sum.splits prod.splits)
    show ?thesis unfolding tail eq using pre close_payloads [of "snd (pre r)"]
      by (cases "fst (pre r)") (auto simp: gthen_def gbind_def split: prod.splits)
  next
    case False
    have "keeps (\<lambda>r'. payloads r' = payloads r) (completeTurnReturnOrClose p out hooks)"
      using False unfolding completeTurnReturnOrClose_def assms turnCompletionHooks.select_convs option.case if_False
      by (simp only: if_False) (intro keeps_rules silent_ops silent_resolve)
    from keepsD [OF this refl] show ?thesis unfolding tail by simp
  qed
qed

text \<open>A step of a cancelled goroutine does nothing, or sends late messages and leaves the goroutine gone or at its check.\<close>

lemma cancelled_step:
  fixes h :: xiaozhiWSHandler and ev :: compatPlayback and st :: xiaozhiCompatState and r :: connectionRuntime
  assumes "crOutput r = Some s" and "osCancelled s"
  defines "r1 \<equiv> snd (compatPlaybackEvent h ev st r)"
  shows "(payloads r1 = payloads r \<and> crOutput r1 = Some s) \<or>
    (\<exists>late. payloads r1 = payloads r @ late \<and> lateMessages (Some s) late \<and>
       (crOutput r1 = None \<or> crOutput r1 = Some (s\<lparr>osStage := AtCheck\<rparr>)))"
proof -
  have announce: "\<exists>late. payloads r1 = payloads r @ late \<and> lateMessages (Some s) late \<and>
       (crOutput r1 = None \<or> crOutput r1 = Some (s\<lparr>osStage := AtCheck\<rparr>))" if "osStage s = AtStart" "ev = CompatBegin"
    using assms(1) that
    by (simp add: r1_def compatPlaybackEvent_def announceSpeech_def orCompatExit_def ttsMessage_def WriteJSON_def writeCompat_def moveTo_def
        compatExit_def gthen_def gbind_def gtry_def gret_def gmod_def payloads_def lateMessages_def Let_def)
  have chunk: "\<exists>late. payloads r1 = payloads r @ late \<and> lateMessages (Some s) late \<and>
       (crOutput r1 = None \<or> crOutput r1 = Some (s\<lparr>osStage := AtCheck\<rparr>))" if "osStage s = AtRead" "ev = CompatChunk b" for b
    using assms(1) that
    by (simp add: r1_def compatPlaybackEvent_def playCompatChunk_def WriteCompatBinary_def WriteBinary_def orCompatExit_def moveTo_def gnow_def onVoice_def
        gfail_def compatExit_def gthen_def gbind_def gtry_def gret_def gmod_def payloads_def lateMessages_def Let_def split: sum.split)
  have failed: "\<exists>late. payloads r1 = payloads r @ late \<and> lateMessages (Some s) late \<and>
       (crOutput r1 = None \<or> crOutput r1 = Some (s\<lparr>osStage := AtCheck\<rparr>))" if "osStage s = AtRead" "ev = CompatFailed e" for e
    using assms(1) that
    by (simp add: r1_def compatPlaybackEvent_def emitServerError_def WriteJSON_def writeCompat_def
        compatExit_def gthen_def gbind_def gtry_def gret_def gmod_def payloads_def lateMessages_def Let_def)
  have gone: "crOutput (snd (gthen m compatExit r)) = None" if "fst (m r) = Inr x" for m :: "(gateway_error + unit) gop" and x
    using that by (cases "m r") (simp add: gthen_def gbind_def compatExit_def gmod_def)
  have outcome: "\<exists>late. payloads r1 = payloads r @ late \<and> lateMessages (Some s) late \<and>
       (crOutput r1 = None \<or> crOutput r1 = Some (s\<lparr>osStage := AtCheck\<rparr>))" if "osStage s = AtOutcome" "ev = CompatOutcome" "osCompletion s = Some out" for out
  proof -
    define m where "m = gtry (completeTurnReturnOrClose (runtimeProfile h) out
      \<lparr>tcResolveReturnActive = Some resolvePostPlaybackActiveSnapshot, tcOnReturnActive = None,
       tcOnEndSession = Some (\<lambda>_ _. gthen resetSession closeConn)\<rparr>)"
    have r1: "r1 = snd (gthen m compatExit r)" using assms(1) that by (simp add: r1_def compatPlaybackEvent_def m_def)
    have "\<exists>x. fst (m r) = Inr x" by (simp add: m_def gtry_def case_prod_beta)
    then have "crOutput r1 = None" unfolding r1 by (elim exE) (rule gone)
    moreover have "payloads r1 \<in> {payloads r, payloads r @ [PConnClosed]}" unfolding r1 m_def by (rule completion_payloads [OF refl])
    ultimately show ?thesis using that(1) by (auto simp: lateMessages_def)
  qed
  have exit: "payloads (snd (compatExit r)) = payloads r" "crOutput (snd (compatExit r)) = None" by (simp_all add: compatExit_def gmod_def)
  have none: "lateMessages (Some s) []" by (simp add: lateMessages_def split: playbackStage.split)
  show ?thesis
  proof (cases "osStage s")
    case AtStart
    then show ?thesis using announce assms(1) by (cases "ev = CompatBegin") (auto simp: r1_def compatPlaybackEvent_def split: compatPlayback.splits)
  next
    case AtRead
    then show ?thesis using chunk failed exit none assms(1,2) by (cases ev) (auto simp: r1_def compatPlaybackEvent_def)
  next
    case AtOutcome
    then show ?thesis using outcome exit none assms(1,2)
      by (cases ev; cases "osCompletion s") (auto simp: r1_def compatPlaybackEvent_def)
  qed (use exit none assms(1,2) in \<open>auto simp: r1_def compatPlaybackEvent_def split: compatPlayback.splits\<close>)
qed

lemma cancelled_playback:
  assumes "\<And>s. crOutput (xcRuntime c) = Some s \<Longrightarrow> osCancelled s"
  shows "\<exists>late. payloads (xcRuntime (compat_run h (map CompatPlay evs) c)) = payloads (xcRuntime c) @ late \<and> lateMessages (crOutput (xcRuntime c)) late"
  using assms
proof (induction evs arbitrary: c)
  case Nil
  have "lateMessages out []" for out by (simp add: lateMessages_def split: option.split playbackStage.split)
  then show ?case by simp
next
  case (Cons ev evs)
  define c1 where "c1 = snd (compat_step h (CompatPlay ev) c)"
  have c1: "xcRuntime c1 = snd (compatPlaybackEvent h ev (xcState c) (xcRuntime c))" by (simp add: c1_def xlift_def case_prod_beta)
  have run: "compat_run h (map CompatPlay (ev # evs)) c = compat_run h (map CompatPlay evs) c1" by (simp add: c1_def)
  show ?case
  proof (cases "crOutput (xcRuntime c)")
    case None
    then have "xcRuntime c1 = xcRuntime c" unfolding c1 by (simp add: compatPlaybackEvent_def)
    then show ?thesis using Cons.IH [of c1] None unfolding run by simp
  next
    case (Some s)
    have can: "osCancelled s" using Cons.prems Some by blast
    from cancelled_step [OF Some can, of h ev "xcState c", folded c1]
    consider (same) "payloads (xcRuntime c1) = payloads (xcRuntime c)" "crOutput (xcRuntime c1) = Some s"
      | (late) late where "payloads (xcRuntime c1) = payloads (xcRuntime c) @ late" "lateMessages (Some s) late"
          "crOutput (xcRuntime c1) = None \<or> crOutput (xcRuntime c1) = Some (s\<lparr>osStage := AtCheck\<rparr>)" by blast
    then show ?thesis
    proof cases
      case same
      then show ?thesis using Cons.IH [of c1] can Some unfolding run by simp
    next
      case late
      obtain more where "payloads (xcRuntime (compat_run h (map CompatPlay evs) c1)) = payloads (xcRuntime c1) @ more"
        "lateMessages (crOutput (xcRuntime c1)) more" using Cons.IH [of c1] late(3) can by fastforce
      moreover from this late(3) have "more = []" by (auto simp: lateMessages_def)
      ultimately show ?thesis using late(1,2) Some unfolding run by auto
    qed
  qed
qed


definition helloDelta :: ResponseDelta where
  "helloDelta = \<lparr>rdKind = ResponseDeltaText, rdText = lit ''Hello'', rdToolCallID = [], rdToolName = [], rdToolStatus = [], rdToolInput = [],
     rdToolOutput = []\<rparr>"

definition sampleCompatHandler :: xiaozhiWSHandler where
  "sampleCompatHandler =
     \<lparr>xhProfile = \<lparr>xpWSPath = lit ''/xiaozhi/v1/'', xpWelcomeVersion = 1, xpWelcomeTransport = [], xpInputCodec = lit ''pcm16le'',
        xpInputSampleRate = 16000, xpInputChannels = 1, xpInputFrameDurationMs = 60, xpMaxFrameBytes = 4096, xpIdleTimeoutMs = 60000,
        xpMaxSessionMs = 0, xpServerEndpointEnabled = False, xpSourceOutputCodec = lit ''pcm16le'', xpSourceOutputRate = 16000,
        xpSourceOutputChannels = 1, xpOutputCodec = [], xpOutputSampleRate = 24000, xpOutputChannels = 1, xpOutputFrameDurationMs = 60\<rparr>,
      xhResponder = (\<lambda>_. RunOrchestrated None True [MsgDelta helloDelta,
        MsgResponse (Inl (ErrResponder (lit ''unavailable''))), MsgDeltasClosed]), xhStreamDuration = (\<lambda>_. 0),
      xhEncoder = (\<lambda>source _ _ _ _ _. Inr source)\<rparr>"

definition sampleUpgrade :: upgradeRequest where
  "sampleUpgrade = \<lparr>urProtocolVersion = ([], []), urDeviceID = ([], []), urClientID = ([], [])\<rparr>"

definition sampleSpeakingCompat :: xiaozhiConnection where
  "sampleSpeakingCompat = (newXiaozhiConnection sampleCompatHandler sampleUpgrade 7 \<lparr>envClock = int, envConnOk = (\<lambda>_. True)\<rparr> None)\<lparr>
     xcRuntime := snd (startCompatStream (lit ''s'') (lit ''hi'') (ChunkSource [[1]]) None
       ((newConnectionRuntime \<lparr>envClock = int, envConnOk = (\<lambda>_. True)\<rparr> None)\<lparr>
          crSession := session_step (2, CSetOutput OutputStateSpeaking)
            (session_step (1, CStart (compatStartRequest (newXiaozhiCompatState sampleCompatHandler sampleUpgrade 7))) NewRealtimeSession)\<rparr>))\<rparr>"


section \<open>A turn whose answer fails\<close>

text \<open>A session in the middle of a turn, with n turns accepted and nothing being played.\<close>

definition thinking_session :: "int \<Rightarrow> RealtimeSession \<Rightarrow> bool" where
  "thinking_session n s \<longleftrightarrow> active s \<and> SessionID (current s) \<noteq> [] \<and> snapOutputState (current s) = OutputStateThinking \<and> Turns (current s) = n"

definition thinking :: "int \<Rightarrow> connectionRuntime \<Rightarrow> bool" where
  "thinking n r \<longleftrightarrow> thinking_session n (crSession r) \<and> crOutput r = None"

lemma thinking_fields [simp]:
  "thinking k (r\<lparr>crTick := n\<rparr>) = thinking k r" "thinking k (r\<lparr>crDeadline := d\<rparr>) = thinking k r"
  "thinking k (r\<lparr>crVoice := v\<rparr>) = thinking k r" "thinking k (r\<lparr>crClosedPreviews := hs\<rparr>) = thinking k r"
  "thinking k (r\<lparr>crTurnTrace := tt\<rparr>) = thinking k r" "thinking k (r\<lparr>crPreviewTrace := pt\<rparr>) = thinking k r"
  "thinking k (r\<lparr>crPeer := pe\<rparr>) = thinking k r" "thinking k (r\<lparr>crNormalizer := nm\<rparr>) = thinking k r"
  by (simp_all add: thinking_def)

lemma thinking_state: "thinking n r \<Longrightarrow> snapState (takeSnapshot (crSession r)) = StateThinking \<and> SessionID (takeSnapshot (crSession r)) \<noteq> [] \<and>
    crOutput r = None"
  by (simp add: thinking_def thinking_session_def takeSnapshot_def cloneSnapshot_def deriveCompatState_def)

lemma thinking_ops:
  "keeps (thinking n) gnow" "keeps (thinking n) (applyReadDeadline p snap)" "keeps (thinking n) (writeCompat pl)"
  "keeps (thinking n) (ensureInputPreview pw)" "keeps (thinking n) (pushVoicePreview pw)" "keeps (thinking n) (ensureNormalizer h st)"
  by (auto simp: keeps_def gnow_def applyReadDeadline_def writeCompat_def ensureInputPreview_def pushVoicePreview_def ensureNormalizer_def
      Let_def split: prod.splits sum.splits option.splits)

lemma thinking_json: "keeps (thinking n) (WriteJSON m)" "keeps (thinking n) (emitServerError sid code t)"
  by (simp_all add: WriteJSON_def emitServerError_def thinking_ops)

lemma thinking_on_session:
  assumes "\<And>t s. thinking_session n s \<Longrightarrow> thinking_session n (snd (f t s))"
  shows "keeps (thinking n) (onSession f)"
  using assms by (auto simp: keeps_def onSession_def gbind_def gnow_def thinking_def split: prod.splits sum.splits) (metis snd_conv)+

lemma thinking_calls:
  "keeps (thinking n) (onSession (\<lambda>t. SetInputState t i))" "keeps (thinking n) (onSession (\<lambda>t. IngestOwnedAudioFrame t p))"
  by (auto intro!: thinking_on_session simp: thinking_session_def SetInputState_def IngestOwnedAudioFrame_def refreshState_def Let_def)

lemma thinking_observe: "keeps (thinking n) (observePreview sid t ob)"
proof -
  have "keeps (thinking n) (\<lambda>r. case ObservePreview sid pv now (crPreviewTrace r) of ((trace, update), s) \<Rightarrow>
      (Inr (f trace update), r\<lparr>crPreviewTrace := s\<rparr>))" for pv now and f :: "inputPreviewTrace \<Rightarrow> inputPreviewTraceUpdate \<Rightarrow> inputPreviewObservation"
    by (auto simp: keeps_def split: prod.splits)
  then show ?thesis unfolding observePreview_def by (intro keeps_rules thinking_ops thinking_calls)
qed

lemma thinking_push: "keeps (thinking n) (pushInputPreviewAudio pw payload)"
proof -
  have "keeps (thinking n) (observePreviews sid obs)" for sid obs
    by (induction obs) (simp_all add: keeps_ret keeps_bind thinking_observe)
  then show ?thesis unfolding pushInputPreviewAudio_def by (intro keeps_rules thinking_ops keeps_mod thinking_observe) simp
qed

lemma thinking_interrupt: "keeps (thinking n) (interruptSpeaking h sid)"
proof -
  have "interruptSpeaking h sid r = (Inr (), r)" if "thinking n r" for r
    using thinking_state [OF that] by (simp add: interruptSpeaking_def interruptSpeakingFlowWithOptions_def gbind_def gget_def gret_def)
  then show ?thesis by (simp add: keeps_def)
qed

lemma thinking_ensure: "keeps (thinking n) (ensureSessionStarted h st)"
proof -
  have "ensureSessionStarted h st r = (Inr (takeSnapshot (crSession r)), r)" if "thinking n r" for r
    using thinking_state [OF that] by (simp add: ensureSessionStarted_def gbind_def gget_def gret_def)
  then show ?thesis by (simp add: keeps_def)
qed

lemma thinking_binary: "xkeeps (\<lambda>_. True) (thinking n) (handleCompatBinary h pw pion payload)"
proof -
  have "keeps (thinking n) (ingestCompatFrame h pw pion p st)" for p st unfolding ingestCompatFrame_def decodeFrame_def
    by (intro keeps_rules thinking_json thinking_calls thinking_ops thinking_push)
  then show ?thesis unfolding handleCompatBinary_def
    by (intro xkeeps_lift keeps_rules thinking_json thinking_interrupt thinking_ensure thinking_ops)
qed

lemma thinking_idle:
  assumes "\<And>r. thinking n r \<Longrightarrow> m r = (Inr x, r)"
  shows "keeps (thinking n) m"
  using assms by (simp add: keeps_def)

lemma thinking_stop: "xkeeps (\<lambda>_. True) (thinking n) (listenStop h pw)"
  unfolding listenStop_def
  by (intro xkeeps_then xkeeps_set xkeeps_lift thinking_idle [where x = "()"])
    (auto dest!: thinking_state simp: gbind_def gget_def gret_def)

lemma thinking_tick: "xkeeps (\<lambda>_. True) (thinking n) (handleCompatTick h pw now)"
proof -
  have "handleCompatTick h pw now c = (Inr (), c)" if "thinking n (xcRuntime c)" for c
    using thinking_state [OF that] by (simp add: handleCompatTick_def xbind_def xlift_def gbind_def gget_def gret_def)
  then show ?thesis by (simp add: xkeeps_def)
qed

text \<open>The messages of a device that only speaks: everything but a text turn.\<close>

fun spoken_event :: "compat_event \<Rightarrow> bool" where
  "spoken_event (CompatInbound CompatTimeout pw pion) = False"
| "spoken_event (CompatInbound (CompatText (Some f)) pw pion) =
     (case cfListen f of Inl _ \<Rightarrow> True | Inr msg \<Rightarrow> ToLower (TrimSpace (lmState msg)) \<noteq> lit ''detect'')"
| "spoken_event _ = True"

lemma thinking_listen:
  assumes "ToLower (TrimSpace (lmState msg)) \<noteq> lit ''detect''"
  shows "xkeeps (\<lambda>_. True) (thinking n) (handleListen h pw msg)"
proof -
  have "xkeeps (\<lambda>_. True) (thinking n) (listenStart h)" unfolding listenStart_def
    by (intro xkeeps_then xkeeps_lift xkeeps_set thinking_interrupt thinking_ensure TrueI)
  then show ?thesis using assms thinking_stop unfolding handleListen_def Let_def
    by (auto intro!: xkeeps_then xkeeps_set xkeeps_lift keeps_ret)
qed

lemma thinking_hello: "xkeeps (\<lambda>_. True) (thinking n) (handleHello h msg)"
proof -
  have "keeps (thinking n) (gmod (\<lambda>r. r\<lparr>crNormalizer := nm\<rparr>))" for nm by (intro keeps_mod) simp
  then show ?thesis unfolding handleHello_def Let_def
    by (auto split: option.splits sum.splits intro!: xkeeps_then xkeeps_set xkeeps_lift thinking_json)
qed

lemma thinking_step:
  assumes "spoken_event ev"
  shows "xkeeps (\<lambda>_. True) (thinking n) (compat_step h ev)"
proof (cases ev)
  case (CompatInbound m pw pion)
  have "xkeeps (\<lambda>_. True) (thinking n) (handleAbort h)" unfolding handleAbort_def by (intro xkeeps_lift thinking_interrupt)
  then have "xkeeps (\<lambda>_. True) (thinking n) (handleCompatControl h pw frame)" if "m = CompatText frame" for frame
    using assms that CompatInbound unfolding handleCompatControl_def Let_def
    by (auto split: option.splits sum.splits intro!: thinking_hello thinking_listen xkeeps_lift thinking_json keeps_ret)
  then show ?thesis using assms CompatInbound thinking_binary
    by (cases m) (auto simp: handleCompatInbound_def intro!: xkeeps_lift thinking_json keeps_fail)
next
  case (CompatTick pw now)
  then show ?thesis using thinking_tick by simp
next
  case (CompatPlay pev)
  have "keeps (thinking n) (compatPlaybackEvent h pev st)" for st
    by (rule thinking_idle [where x = "()"]) (simp add: compatPlaybackEvent_def thinking_def)
  then show ?thesis using CompatPlay by (simp add: xkeeps_lift)
next
  case CompatReturn
  have "keeps (thinking n) (gthen interruptOutput (gret ()))"
    by (rule thinking_idle [where x = "()"]) (simp add: thinking_def gthen_def gbind_def gret_def interrupt_output_run)
  then show ?thesis using CompatReturn by (simp add: xkeeps_lift)
qed

text \<open>A session that listens, with n turns accepted and nothing being played.\<close>

definition listening_session :: "int \<Rightarrow> RealtimeSession \<Rightarrow> bool" where
  "listening_session n s \<longleftrightarrow> active s \<and> SessionID (current s) \<noteq> [] \<and> Turns (current s) = n \<and>
     snapOutputState (current s) \<notin> {OutputStateSpeaking, OutputStateClosing}"

definition listening :: "int \<Rightarrow> connectionRuntime \<Rightarrow> bool" where
  "listening n r \<longleftrightarrow> listening_session n (crSession r) \<and> crOutput r = None"

lemma listening_consume:
  assumes "listening n r"
  shows "\<exists>x r1. consumeInputPreview pw r = (Inr x, r1) \<and> listening n r1"
proof -
  have input: "listening n (snd (onSession (\<lambda>t. SetInputState t i) r0))" if "listening n r0" for i r0
    using that by (auto simp: onSession_def gbind_def gnow_def listening_def listening_session_def SetInputState_def refreshState_def Let_def)
  have leave: "fst (leavePreviewing r0) = Inr () \<and> listening n (snd (leavePreviewing r0))" if "listening n r0" for r0
    using that input [OF that] by (simp add: leavePreviewing_def gbind_def gget_def gthen_def gtry_def gret_def case_prod_beta)
  obtain a t0 where a: "clearPreviewTrace r = (Inr a, r\<lparr>crPreviewTrace := t0\<rparr>)"
    by (rule that [of "fst (ClearPreviewTrace (crPreviewTrace r))" "snd (ClearPreviewTrace (crPreviewTrace r))"])
      (simp add: clearPreviewTrace_def case_prod_beta)
  obtain b v hs where b: "finalizeVoicePreview pw (r\<lparr>crPreviewTrace := t0\<rparr>) = (Inr b, r\<lparr>crPreviewTrace := t0, crVoice := v, crClosedPreviews := hs\<rparr>)"
    by (auto simp: finalizeVoicePreview_def case_prod_beta)
  have "listening n (r\<lparr>crPreviewTrace := t0, crVoice := v, crClosedPreviews := hs\<rparr>)" using assms by (simp add: listening_def)
  from leave [OF this] obtain r2 where "leavePreviewing (r\<lparr>crPreviewTrace := t0, crVoice := v, crClosedPreviews := hs\<rparr>) = (Inr (), r2)" "listening n r2"
    by (metis prod.collapse)
  then show ?thesis using a b by (cases b) (simp add: consumeInputPreview_def gbind_def gthen_def gret_def)
qed

lemma listening_commit:
  assumes "listening n r"
  shows "\<exists>turn r1. onSession CommitTurn r = (Inr turn, r1) \<and> thinking (n + 1) r1"
  using assms
  by (auto simp: onSession_def gbind_def gnow_def listening_def listening_session_def thinking_def thinking_session_def CommitTurn_def
      refreshState_def Let_def split: OutputState.splits)

lemma thinking_hooks: "keeping_hooks (thinking n) compatHooks"
proof
  fix s :: connectionRuntime and ms resp t d st out f
  assume s: "thinking n s"
  show "thinking n (snd (hkResponseStart compatHooks ms resp s))"
    using s by (auto simp: compatHooks_def asHook_def gthen_def gbind_def gret_def onTurnTrace_def gnow_def split: prod.splits)
  show "thinking n (hkFirstTextDelta compatHooks t s)"
    using s by (simp add: compatHooks_def gbind_def gnow_def gmod_def)
qed (simp_all add: compatHooks_def)

lemma thinking_failed_answer:
  assumes "\<forall>req r. \<exists>e. fst (executeTurnResponse compatHooks (xhResponder h req) r) = Some (Inl e)"
  shows "keeps (thinking n) (answerCompatTurn h sid source turn pt)"
proof -
  have "keeps (thinking n) (onTurnTrace f)" for f
    by (auto simp: keeps_def onTurnTrace_def gbind_def gnow_def split: prod.splits)
  moreover have run: "keeps (thinking n) (gbind (runCompatResponder h req) f)" if f: "\<And>e. keeps (thinking n) (f (Inl e))"
    for req and f :: "gateway_error + turnExecutionResult \<Rightarrow> unit gop"
    unfolding keeps_def
  proof (intro allI impI)
    fix r assume r: "thinking n r"
    obtain e r1 where e: "executeTurnResponse compatHooks (xhResponder h req) r = (Some (Inl e), r1)"
      using assms by (metis prod.collapse)
    have "thinking n r1" using keeping_hooks.execute [OF thinking_hooks r, of "xhResponder h req"] e by simp
    then show "thinking n (snd (gbind (runCompatResponder h req) f r))"
      using keepsD [OF f] e by (simp add: gbind_def runCompatResponder_def)
  qed
  have "keeps (thinking n) (emitCompatResponse h sid turn trace t pt)" for trace t
    unfolding emitCompatResponse_def by (rule keeps_bind [OF keeps_get], rule run, simp add: thinking_json)
  ultimately show ?thesis unfolding answerCompatTurn_def by (intro keeps_rules thinking_ops)
qed

text \<open>
  C7: A failed answer leaves the compatibility session deaf. When the answer to the turn that a \<open>listen stop\<close> commits fails,
  whichever way the responder is run (the responders of the server are orchestrated ones) and whatever was announced before, the session is
  left thinking, and it stays so, without another turn being accepted, through whatever
  a device that only speaks does next: \<open>listen start\<close>, audio, \<open>listen stop\<close>, \<open>abort\<close>, \<open>hello\<close>, and the ticks of
  the server's own endpointing. (Only a text turn or the end of the connection gets it out of there; an idle timeout
  does not apply to a session that thinks.)
\<close>

theorem failed_answer_leaves_session_deaf:
  assumes "\<forall>req r. \<exists>e. fst (executeTurnResponse compatHooks (xhResponder h req) r) = Some (Inl e)"
    and "session_inv (crSession (xcRuntime c))" and "snapState (takeSnapshot (crSession (xcRuntime c))) = StateActive"
    and "AudioBytes (current (crSession (xcRuntime c))) \<noteq> 0" and "crOutput (xcRuntime c) = None" and "list_all spoken_event evs"
  shows "let c1 = compat_run h evs (snd (listenStop h pw c)); snap = takeSnapshot (crSession (xcRuntime c1))
     in snapState snap = StateThinking \<and> Turns snap = Turns (current (crSession (xcRuntime c))) + 1"
proof -
  let ?n = "Turns (current (crSession (xcRuntime c)))"
  have s: "SessionID (current (crSession (xcRuntime c))) \<noteq> []" "listening ?n (xcRuntime c)"
    using assms(2,3,5)
    by (auto simp: listening_def listening_session_def takeSnapshot_def cloneSnapshot_def deriveCompatState_def session_inv_def split: if_splits)
  obtain x r1 where consume: "consumeInputPreview pw (xcRuntime c) = (Inr x, r1)" and l: "listening ?n r1"
    using listening_consume [OF s(2)] by blast
  obtain turn r2 where commit: "onSession CommitTurn r1 = (Inr turn, r2)" and t: "thinking (?n + 1) r2"
    using listening_commit [OF l] by blast
  obtain tr res where x: "x = (tr, res)" by (cases x)
  have "xcRuntime (snd (listenStop h pw c)) =
      snd (answerCompatTurn h (xsSessionID (xcState c)) (lit ''listen_stop'') turn (acceptedTranscription res) r2)"
    using s(1) assms(3,4) consume commit
    by (simp add: listenStop_def xthen_def xbind_def xset_def xlift_def gbind_def gget_def gtry_def takeSnapshot_def cloneSnapshot_def x case_prod_beta)
  then have "thinking (?n + 1) (xcRuntime (snd (listenStop h pw c)))"
    using keepsD [OF thinking_failed_answer [OF assms(1)] t] by simp
  then have "thinking (?n + 1) (xcRuntime (compat_run h evs (snd (listenStop h pw c))))"
    using xkeeps_run [where Q = "\<lambda>_. True" and P = "thinking (?n + 1)"] thinking_step assms(6) by (auto simp: list_all_iff)
  then show ?thesis using thinking_state by (simp add: thinking_def thinking_session_def takeSnapshot_def cloneSnapshot_def deriveCompatState_def)
qed

text \<open>The responder of the sample announces a piece of text and then fails.\<close>

lemma failing_responder:
  "fst (executeTurnResponse compatHooks (RunOrchestrated None True [MsgDelta helloDelta,
     MsgResponse (Inl e), MsgDeltasClosed]) r) = Some (Inl e)"
  by (simp add: executeOrchestratedTurnResponse_def newFlow_def onDelta_def ensureStart_def onResponse_def flowResult_def emitTurnResponseDelta_def
      compatHooks_def asHook_def gthen_def gbind_def gret_def onTurnTrace_def gnow_def case_prod_beta Let_def)

definition sampleListeningCompat :: xiaozhiConnection where
  "sampleListeningCompat = (newXiaozhiConnection sampleCompatHandler sampleUpgrade 7 \<lparr>envClock = int, envConnOk = (\<lambda>_. True)\<rparr> None)\<lparr>
     xcRuntime := (newConnectionRuntime \<lparr>envClock = int, envConnOk = (\<lambda>_. True)\<rparr> None)\<lparr>
       crSession := session_step (2, CIngest [1, 2])
         (session_step (1, CStart (compatStartRequest (newXiaozhiCompatState sampleCompatHandler sampleUpgrade 7))) NewRealtimeSession)\<rparr>\<rparr>"

theorem failed_answer_leaves_session_deaf_witness:
  "\<forall>pw pion. snapState (takeSnapshot (crSession (xcRuntime (compat_run sampleCompatHandler
       [CompatInbound (CompatBinary [1, 2]) pw pion, CompatTick pw 9] (snd (listenStop sampleCompatHandler pw sampleListeningCompat)))))) = StateThinking"
proof (intro allI)
  fix pw pion
  have inv: "session_inv (crSession (xcRuntime sampleListeningCompat))"
    using session_step_inv [OF session_step_inv [OF inv_new]]
    unfolding sampleListeningCompat_def by (simp del: session_step.simps)
  have a: "\<forall>req r. \<exists>e. fst (executeTurnResponse compatHooks (xhResponder sampleCompatHandler req) r) = Some (Inl e)"
    unfolding sampleCompatHandler_def xiaozhiWSHandler.select_convs using failing_responder by blast
  have b: "snapState (takeSnapshot (crSession (xcRuntime sampleListeningCompat))) = StateActive"
    "AudioBytes (current (crSession (xcRuntime sampleListeningCompat))) \<noteq> 0" "crOutput (xcRuntime sampleListeningCompat) = None"
    by code_simp+
  show "snapState (takeSnapshot (crSession (xcRuntime (compat_run sampleCompatHandler
       [CompatInbound (CompatBinary [1, 2]) pw pion, CompatTick pw 9] (snd (listenStop sampleCompatHandler pw sampleListeningCompat)))))) = StateThinking"
    using failed_answer_leaves_session_deaf [OF a inv b, of "[CompatInbound (CompatBinary [1, 2]) pw pion, CompatTick pw 9]" pw]
    by (simp add: Let_def)
qed

text \<open>
  When the stream of an answer fails, the goroutine reports it and goes, and leaves the session speaking with nothing being played
  and with the read deadline of a speaking session, which has no idle timeout.
\<close>

lemma failed_stream_leaves_session_speaking:
  assumes "crOutput r = Some s" and "osStage s = AtRead"
  shows "let r1 = snd (compatPlaybackEvent h (CompatFailed e) st r)
     in crOutput r1 = None \<and> crSession r1 = crSession r \<and> crDeadline r1 = crDeadline r"
  using assms
  by (simp add: compatPlaybackEvent_def gthen_def gbind_def gtry_def emitServerError_def WriteJSON_def writeCompat_def compatExit_def gmod_def Let_def)

end
