(* ===== verification/App_Wiring.thy ===== *)
theory App_Wiring
  imports App_Config Deepseek_Chat Recognizers Spoken_Turns Xiaozhi_Handlers
begin

text \<open>
  How the server is put together: \<open>internal/app/app.go\<close>, with the documents that describe it to a client (\<open>internal/gateway/realtime.go\<close>,
  \<open>internal/control/info.go\<close>). What a builder returns is described by the arguments it was built with. The log lines, and the wrappers that write
  them around an executor, a recogniser, a judge or a synthesiser, are left out. Of the request multiplexer of \<open>net/http\<close> the source uses that
  registering a pattern panics when it is empty or conflicts with a registered one; which patterns do is the parameter \<open>conflicts\<close>.
\<close>

section \<open>The agent\<close>

datatype toolBackend = RuntimeToolBackend MemoryStore "RuntimeSkill list" | NoopToolBackend

record chatClient =
  ccModel :: DeepSeekChatModel
  ccTimeout :: duration

record llmExecutorSetup =
  lsModel :: chatClient
  lsMemoryStore :: MemoryStore
  lsTools :: toolBackend
  lsPersona :: gostring
  lsExecutionMode :: gostring
  lsAssistantName :: gostring
  lsSystemPrompt :: gostring

datatype builtExecutor = BootstrapExecutor MemoryStore toolBackend | LLMExecutor llmExecutorSetup

record agentRuntime =
  arExecutor :: builtExecutor
  arMemoryStore :: MemoryStore
  arTools :: toolBackend

text \<open>The fields of \<open>NewDeepSeekChatModel\<close> and of its HTTP client.\<close>

definition newChatClient :: "DeepSeekChatModelConfig \<Rightarrow> duration \<Rightarrow> chatClient" where
  "newChatClient cfg timeout =
     \<lparr>ccModel = NewDeepSeekChatModel cfg, ccTimeout = (if timeout \<le> 0 then 30000 * Millisecond else timeout)\<rparr>"

definition buildMemoryStore :: "AgentConfig \<Rightarrow> MemoryStore" where
  "buildMemoryStore a =
     (let p = ToLower (TrimSpace (agcMemoryProvider a)); maxTurns = (if agcMemoryMaxTurns a \<le> 0 then 8 else agcMemoryMaxTurns a)
      in if p \<in> set [[], lit ''in_memory''] then InMemory (NewInMemoryMemoryStore maxTurns)
         else if p = lit ''noop'' then NoopMemoryStore
         else InMemory (NewInMemoryMemoryStore maxTurns))"

definition buildToolBackend :: "AgentConfig \<Rightarrow> MemoryStore \<Rightarrow> toolBackend" where
  "buildToolBackend a store =
     (let p = ToLower (TrimSpace (agcToolProvider a)); skills = NewRuntimeSkillRegistry (splitAgentSkills (agcSkills a))
      in if p \<in> set [[], lit ''builtin''] then RuntimeToolBackend store skills
         else if p = lit ''noop'' then NoopToolBackend
         else RuntimeToolBackend store skills)"

definition deepseekConfigOf :: "AgentConfig \<Rightarrow> DeepSeekChatModelConfig" where
  "deepseekConfigOf a =
     (let d = agcDeepSeek a
      in \<lparr>dcBaseURL = dkcBaseURL d, dcAPIKey = dkcAPIKey d, dcModel = dkcModel d, dcTemperature = dkcTemperature d, dcMaxTokens = dkcMaxTokens d\<rparr>)"

definition llmExecutor :: "AgentConfig \<Rightarrow> MemoryStore \<Rightarrow> toolBackend \<Rightarrow> builtExecutor" where
  "llmExecutor a store tools = LLMExecutor
     \<lparr>lsModel = newChatClient (deepseekConfigOf a) (agcLLMTimeoutMs a * Millisecond), lsMemoryStore = store, lsTools = tools,
      lsPersona = TrimSpace (agcPersona a), lsExecutionMode = TrimSpace (agcExecutionMode a),
      lsAssistantName = TrimSpace (agcAssistantName a), lsSystemPrompt = TrimSpace (agcLLMSystemPrompt a)\<rparr>"

text \<open>With \<open>auto\<close> and a key the source runs once more, as if \<open>deepseek_chat\<close> had been asked for.\<close>

definition buildAgentRuntime :: "AgentConfig \<Rightarrow> agentRuntime" where
  "buildAgentRuntime a =
     (let store = buildMemoryStore a; tools = buildToolBackend a store; bootstrap = BootstrapExecutor store tools;
          p = ToLower (TrimSpace (agcLLMProvider a)); keyed = (TrimSpace (dkcAPIKey (agcDeepSeek a)) \<noteq> []);
          executor =
            (if p \<in> set [[], lit ''auto''] then (if keyed then llmExecutor a store tools else bootstrap)
             else if p = lit ''bootstrap'' then bootstrap
             else if p \<in> set [lit ''deepseek'', lit ''deepseek_chat''] then (if keyed then llmExecutor a store tools else bootstrap)
             else bootstrap)
      in \<lparr>arExecutor = executor, arMemoryStore = store, arTools = tools\<rparr>)"

section \<open>Judge and slots\<close>

definition buildVoiceChatModel :: "VoiceLLMProviderConfig \<Rightarrow> duration \<Rightarrow> chatClient option \<times> gostring" where
  "buildVoiceChatModel v timeout =
     (let provider = normalizeVoiceLLMProvider (vlcProvider v)
      in if provider \<in> set [[], lit ''disabled''] then (None, [])
         else if provider \<in> set [lit ''deepseek_chat'', lit ''openai_compat''] then
           (Some (newChatClient \<lparr>dcBaseURL = vlcBaseURL v, dcAPIKey = vlcAPIKey v, dcModel = vlcModel v, dcTemperature = vlcTemperature v,
              dcMaxTokens = vlcMaxTokens v\<rparr> timeout), provider)
         else (None, provider))"

text \<open>The model of a helper that is enabled, with the check of the key; its timeout and thresholds are returned in any case.\<close>

definition voiceHelperModel :: "bool \<Rightarrow> VoiceLLMProviderConfig \<Rightarrow> duration \<Rightarrow> chatClient option" where
  "voiceHelperModel enabled v timeout =
     (if \<not> enabled then None
      else case buildVoiceChatModel v timeout of
        (None, _) \<Rightarrow> None
      | (Some model, provider) \<Rightarrow> if provider = lit ''deepseek_chat'' \<and> TrimSpace (vlcAPIKey v) = [] then None else Some model)"

definition buildVoiceSemanticJudge :: "VoiceConfig \<Rightarrow> chatClient option \<times> duration \<times> int \<times> duration" where
  "buildVoiceSemanticJudge v =
     (let timeout = vcfLLMSemanticJudgeTimeoutMs v * Millisecond
      in (voiceHelperModel (vcfLLMSemanticJudgeEnabled v) (vcfLLMSemanticJudgeLLM v) timeout, timeout,
          vcfLLMSemanticJudgeMinRunes v, vcfLLMSemanticJudgeMinStableForMs v * Millisecond))"

definition buildVoiceSemanticJudgeRollout :: "VoiceConfig \<Rightarrow> SemanticJudgeRolloutConfig" where
  "buildVoiceSemanticJudgeRollout v = NormalizeSemanticJudgeRolloutConfig
     \<lparr>rcMode = vcfLLMSemanticJudgeRolloutMode v, rcPercentage = vcfLLMSemanticJudgeRolloutPercent v\<rparr>"

record builtSlotParser =
  bsModel :: chatClient
  bsPromptProfile :: gostring
  bsGrounder :: "EntityCatalogGrounder option"

definition buildVoiceSemanticSlotParser :: "VoiceConfig \<Rightarrow> builtSlotParser option \<times> duration \<times> int \<times> duration" where
  "buildVoiceSemanticSlotParser v =
     (let timeout = vcfLLMSlotParserTimeoutMs v * Millisecond; profile = vcfEntityCatalogProfile v;
          grounder = (case NewBuiltInEntityCatalogGrounder profile of (g, ok) \<Rightarrow> if ok then Some g else None)
      in (map_option (\<lambda>model. \<lparr>bsModel = model, bsPromptProfile = profile, bsGrounder = grounder\<rparr>)
            (voiceHelperModel (vcfLLMSlotParserEnabled v) (vcfLLMSlotParserLLM v) timeout),
          timeout, vcfLLMSlotParserMinRunes v, vcfLLMSlotParserMinStableForMs v * Millisecond))"

section \<open>The synthesiser\<close>

record MimoTTSConfig =
  mtAPIKey :: gostring
  mtBaseURL :: gostring
  mtModel :: gostring
  mtVoice :: gostring
  mtStyle :: gostring
  mtTimeout :: duration
  mtTargetCodec :: gostring
  mtTargetRateHz :: int
  mtTargetChannels :: int

record CosyVoiceHTTPConfig =
  cyBaseURL :: gostring
  cyMode :: gostring
  cySpeakerID :: gostring
  cyInstructText :: gostring
  cySourceSampleRateHz :: int
  cyTargetCodec :: gostring
  cyTargetRateHz :: int
  cyTargetChannels :: int
  cyTimeout :: duration

record IflytekTTSConfig =
  itAppID :: gostring
  itAPIKey :: gostring
  itAPISecret :: gostring
  itScheme :: gostring
  itHost :: gostring
  itPort :: int
  itPath :: gostring
  itVoice :: gostring
  itAUE :: gostring
  itAUF :: gostring
  itTextEncoding :: gostring
  itSpeed :: int
  itVolume :: int
  itPitch :: int
  itTargetCodec :: gostring
  itTargetRateHz :: int
  itTargetChannels :: int
  itTimeout :: duration

record VolcengineTTSConfig =
  veBaseURL :: gostring
  veAccessToken :: gostring
  veAppID :: gostring
  veResourceID :: gostring
  veVoiceType :: gostring
  veSpeechRate :: int
  veLoudnessRate :: int
  veEmotion :: gostring
  veEmotionScale :: int
  veModel :: gostring
  veTargetCodec :: gostring
  veTargetRateHz :: int
  veTargetChannels :: int
  veTimeout :: duration

datatype builtSynthesizer =
    MimoTTSSynthesizer MimoTTSConfig
  | CosyVoiceHTTPSynthesizer CosyVoiceHTTPConfig
  | IflytekTTSSynthesizer IflytekTTSConfig
  | VolcengineTTSSynthesizer VolcengineTTSConfig

definition mimoSynthesizer :: "TTSConfig \<Rightarrow> RealtimeConfig \<Rightarrow> builtSynthesizer" where
  "mimoSynthesizer t r = MimoTTSSynthesizer
     \<lparr>mtAPIKey = ttcMimoAPIKey t, mtBaseURL = ttcMimoBaseURL t, mtModel = ttcMimoModel t, mtVoice = ttcMimoVoice t, mtStyle = ttcMimoStyle t,
      mtTimeout = ttcTimeoutMs t * Millisecond, mtTargetCodec = rtcOutputCodec r, mtTargetRateHz = rtcOutputSampleRate r,
      mtTargetChannels = rtcOutputChannels r\<rparr>"

definition cosyVoiceSynthesizer :: "TTSConfig \<Rightarrow> RealtimeConfig \<Rightarrow> builtSynthesizer" where
  "cosyVoiceSynthesizer t r =
     (let c = ttcCosyVoice t
      in CosyVoiceHTTPSynthesizer
     \<lparr>cyBaseURL = cvcBaseURL c, cyMode = cvcMode c, cySpeakerID = cvcSpeakerID c, cyInstructText = cvcInstructText c,
      cySourceSampleRateHz = cvcSourceSampleRateHz c, cyTargetCodec = rtcOutputCodec r, cyTargetRateHz = rtcOutputSampleRate r,
      cyTargetChannels = rtcOutputChannels r, cyTimeout = ttcTimeoutMs t * Millisecond\<rparr>)"

definition iflytekSynthesizer :: "TTSConfig \<Rightarrow> RealtimeConfig \<Rightarrow> builtSynthesizer" where
  "iflytekSynthesizer t r =
     (let c = ttcIflytek t
      in IflytekTTSSynthesizer
     \<lparr>itAppID = itcAppID c, itAPIKey = itcAPIKey c, itAPISecret = itcAPISecret c, itScheme = itcScheme c, itHost = itcHost c, itPort = itcPort c,
      itPath = itcPath c, itVoice = itcVoice c, itAUE = itcAUE c, itAUF = itcAUF c, itTextEncoding = itcTextEncoding c, itSpeed = itcSpeed c,
      itVolume = itcVolume c, itPitch = itcPitch c, itTargetCodec = rtcOutputCodec r, itTargetRateHz = rtcOutputSampleRate r,
      itTargetChannels = rtcOutputChannels r, itTimeout = ttcTimeoutMs t * Millisecond\<rparr>)"

definition volcengineSynthesizer :: "TTSConfig \<Rightarrow> RealtimeConfig \<Rightarrow> builtSynthesizer" where
  "volcengineSynthesizer t r =
     (let c = ttcVolcengine t
      in VolcengineTTSSynthesizer
     \<lparr>veBaseURL = vtcBaseURL c, veAccessToken = vtcAccessToken c, veAppID = vtcAppID c, veResourceID = vtcResourceID c,
      veVoiceType = vtcVoiceType c, veSpeechRate = vtcSpeechRate c, veLoudnessRate = vtcLoudnessRate c, veEmotion = vtcEmotion c,
      veEmotionScale = vtcEmotionScale c, veModel = vtcModel c, veTargetCodec = rtcOutputCodec r, veTargetRateHz = rtcOutputSampleRate r,
      veTargetChannels = rtcOutputChannels r, veTimeout = ttcTimeoutMs t * Millisecond\<rparr>)"

definition buildSynthesizer :: "Config \<Rightarrow> builtSynthesizer option" where
  "buildSynthesizer c =
     (let t = cfTTS c; r = cfRealtime c; p = ToLower (TrimSpace (ttcProvider t))
      in if p \<in> set [[], lit ''none''] then None
         else if p = lit ''mimo_v2_tts'' then (if TrimSpace (ttcMimoAPIKey t) = [] then None else Some (mimoSynthesizer t r))
         else if p = lit ''cosyvoice_http'' then (if TrimSpace (cvcBaseURL (ttcCosyVoice t)) = [] then None else Some (cosyVoiceSynthesizer t r))
         else if p = lit ''iflytek_tts_ws'' then (if iflytekTTSIncomplete (ttcIflytek t) then None else Some (iflytekSynthesizer t r))
         else if p = lit ''volcengine_tts'' then (if volcengineIncomplete (ttcVolcengine t) then None else Some (volcengineSynthesizer t r))
         else None)"

section \<open>The responder\<close>

definition buildTurnDetectionConfig :: "VoiceConfig \<Rightarrow> SilenceTurnDetectorConfig" where
  "buildTurnDetectionConfig v =
     \<lparr>cfgMinAudioMs = vcfServerEndpointMinAudioMs v, cfgSilenceMs = vcfServerEndpointSilenceMs v,
      cfgLexicalEndpointMode = vcfServerEndpointLexicalMode v, cfgIncompleteHoldMs = vcfServerEndpointIncompleteHoldMs v,
      cfgEndpointHintSilenceMs = vcfServerEndpointHintSilenceMs v\<rparr>"

definition buildSpeechPlannerConfig :: "VoiceConfig \<Rightarrow> SpeechPlannerConfig" where
  "buildSpeechPlannerConfig v =
     \<lparr>plEnabled = vcfSpeechPlannerEnabled v, plMinChunkRunes = vcfSpeechPlannerMinChunkRunes v, plTargetChunkRunes = vcfSpeechPlannerTargetChunkRunes v\<rparr>"

text \<open>A recogniser; the cloud recogniser is wrapped in the buffering one.\<close>

datatype builtTranscriber = HTTPRecogniser HTTPTranscriber | BufferedIflytekRecogniser IflytekRTASRConfig

record ASRResponder =
  asTranscriber :: builtTranscriber
  asExecutor :: "builtExecutor option"
  asSemanticJudge :: "chatClient option"
  asSlotParser :: "builtSlotParser option"
  asSynthesizer :: "builtSynthesizer option"
  asMemoryStore :: "MemoryStore option"
  asLanguage :: gostring
  asTurnDetection :: SilenceTurnDetectorConfig
  asSemanticJudgeTimeout :: duration
  asSemanticJudgeMinRunes :: int
  asSemanticJudgeMinStableFor :: duration
  asSemanticJudgeRollout :: SemanticJudgeRolloutConfig
  asSlotParserTimeout :: duration
  asSlotParserMinRunes :: int
  asSlotParserMinStableFor :: duration
  asOutputCodec :: gostring
  asOutputSampleRate :: int
  asOutputChannels :: int
  asEmitPlaceholderAudio :: bool
  asSpeechPlanner :: SpeechPlannerConfig

definition NewASRResponder :: "builtTranscriber \<Rightarrow> gostring \<Rightarrow> gostring \<Rightarrow> int \<Rightarrow> int \<Rightarrow> bool \<Rightarrow> ASRResponder" where
  "NewASRResponder transcriber language codec rate chans placeholder =
     \<lparr>asTranscriber = transcriber, asExecutor = None, asSemanticJudge = None, asSlotParser = None, asSynthesizer = None, asMemoryStore = None,
      asLanguage = TrimSpace language,
      asTurnDetection = \<lparr>cfgMinAudioMs = 0, cfgSilenceMs = 0, cfgLexicalEndpointMode = [], cfgIncompleteHoldMs = 0, cfgEndpointHintSilenceMs = 0\<rparr>,
      asSemanticJudgeTimeout = defaultSemanticJudgeTimeout, asSemanticJudgeMinRunes = defaultSemanticJudgeMinRunes,
      asSemanticJudgeMinStableFor = defaultSemanticJudgeMinStableFor,
      asSemanticJudgeRollout = NormalizeSemanticJudgeRolloutConfig \<lparr>rcMode = [], rcPercentage = 0\<rparr>,
      asSlotParserTimeout = defaultSemanticSlotParserTimeout, asSlotParserMinRunes = defaultSemanticSlotParserMinRunes,
      asSlotParserMinStableFor = defaultSemanticSlotParserMinStableFor,
      asOutputCodec = codec, asOutputSampleRate = rate, asOutputChannels = chans, asEmitPlaceholderAudio = placeholder,
      asSpeechPlanner = \<lparr>plEnabled = True, plMinChunkRunes = defaultSpeechPlannerMinChunkRunes,
        plTargetChunkRunes = defaultSpeechPlannerTargetChunkRunes\<rparr>\<rparr>"

definition WithSemanticJudge :: "chatClient option \<times> duration \<times> int \<times> duration \<Rightarrow> ASRResponder \<Rightarrow> ASRResponder" where
  "WithSemanticJudge judge r =
     (case judge of (model, timeout, minRunes, minStableFor) \<Rightarrow>
        r\<lparr>asSemanticJudge := model,
          asSemanticJudgeTimeout := (if timeout > 0 then timeout else asSemanticJudgeTimeout r),
          asSemanticJudgeMinRunes := (if minRunes > 0 then minRunes else asSemanticJudgeMinRunes r),
          asSemanticJudgeMinStableFor := (if minStableFor > 0 then minStableFor else asSemanticJudgeMinStableFor r)\<rparr>)"

definition WithSlotParser :: "builtSlotParser option \<times> duration \<times> int \<times> duration \<Rightarrow> ASRResponder \<Rightarrow> ASRResponder" where
  "WithSlotParser parser r =
     (case parser of (p, timeout, minRunes, minStableFor) \<Rightarrow>
        r\<lparr>asSlotParser := p,
          asSlotParserTimeout := (if timeout > 0 then timeout else asSlotParserTimeout r),
          asSlotParserMinRunes := (if minRunes > 0 then minRunes else asSlotParserMinRunes r),
          asSlotParserMinStableFor := (if minStableFor > 0 then minStableFor else asSlotParserMinStableFor r)\<rparr>)"

definition WithSpeechPlannerConfig :: "SpeechPlannerConfig \<Rightarrow> ASRResponder \<Rightarrow> ASRResponder" where
  "WithSpeechPlannerConfig cfg r = r\<lparr>asSpeechPlanner := NormalizeSpeechPlannerConfig cfg\<rparr>"

definition WithTurnDetectionConfig :: "SilenceTurnDetectorConfig \<Rightarrow> ASRResponder \<Rightarrow> ASRResponder" where
  "WithTurnDetectionConfig cfg r = r\<lparr>asTurnDetection := cfg\<rparr>"

definition WithSemanticJudgeRollout :: "SemanticJudgeRolloutConfig \<Rightarrow> ASRResponder \<Rightarrow> ASRResponder" where
  "WithSemanticJudgeRollout cfg r = r\<lparr>asSemanticJudgeRollout := NormalizeSemanticJudgeRolloutConfig cfg\<rparr>"

text \<open>\<open>WithTurnExecutor\<close>, \<open>WithMemoryStore\<close> and \<open>WithSynthesizer\<close>.\<close>

definition WithParts :: "builtExecutor \<Rightarrow> MemoryStore \<Rightarrow> builtSynthesizer option \<Rightarrow> ASRResponder \<Rightarrow> ASRResponder" where
  "WithParts executor store synthesizer r = r\<lparr>asExecutor := Some executor, asMemoryStore := Some store, asSynthesizer := synthesizer\<rparr>"

record bootstrapSetup =
  buExecutor :: builtExecutor
  buSynthesizer :: "builtSynthesizer option"
  buMemoryStore :: MemoryStore
  buSpeechPlanner :: SpeechPlannerConfig
  buOutputCodec :: gostring
  buOutputSampleRate :: int
  buOutputChannels :: int

datatype builtResponder = BootstrapAnswers bootstrapSetup | RecognisingAnswers ASRResponder

definition bootstrapResponderOf :: "Config \<Rightarrow> builtExecutor \<Rightarrow> MemoryStore \<Rightarrow> builtSynthesizer option \<Rightarrow> builtResponder" where
  "bootstrapResponderOf c executor store synthesizer = BootstrapAnswers
     \<lparr>buExecutor = executor, buSynthesizer = synthesizer, buMemoryStore = store,
      buSpeechPlanner = NormalizeSpeechPlannerConfig (buildSpeechPlannerConfig (cfVoice c)), buOutputCodec = rtcOutputCodec (cfRealtime c),
      buOutputSampleRate = rtcOutputSampleRate (cfRealtime c), buOutputChannels = rtcOutputChannels (cfRealtime c)\<rparr>"

definition rtasrConfigOf :: "VoiceConfig \<Rightarrow> IflytekRTASRConfig" where
  "rtasrConfigOf v =
     (let i = vcfIflytekRTASR v
      in \<lparr>irAppID = ircAppID i, irAccessKeyID = ircAccessKeyID i, irAccessKeySecret = ircAccessKeySecret i, irScheme = ircScheme i,
          irHost = ircHost i, irPort = ircPort i, irPath = ircPath i, irAudioEncode = ircAudioEncode i, irLanguage = ircLanguage i,
          irSampleRateHz = ircSampleRateHz i, irTimeout = vcfASRTimeoutMs v * Millisecond, irFrameBytes = ircFrameBytes i,
          irFrameInterval = ircFrameIntervalMs i * Millisecond\<rparr>)"

text \<open>What both recognisers are equipped with.\<close>

definition recognisingResponder ::
    "Config \<Rightarrow> builtExecutor \<Rightarrow> MemoryStore \<Rightarrow> builtSynthesizer option \<Rightarrow> builtTranscriber \<Rightarrow> gostring \<Rightarrow> builtResponder" where
  "recognisingResponder c executor store synthesizer transcriber language =
     (let v = cfVoice c; r = cfRealtime c
      in RecognisingAnswers
          (WithParts executor store synthesizer
          (WithSlotParser (buildVoiceSemanticSlotParser v)
          (WithSemanticJudgeRollout (buildVoiceSemanticJudgeRollout v)
          (WithSemanticJudge (buildVoiceSemanticJudge v)
          (WithSpeechPlannerConfig (buildSpeechPlannerConfig v)
          (WithTurnDetectionConfig (buildTurnDetectionConfig v)
          (NewASRResponder transcriber language (rtcOutputCodec r) (rtcOutputSampleRate r) (rtcOutputChannels r) (vcfEmitPlaceholderAudio v)))))))))"

definition buildResponder :: "Config \<Rightarrow> builtExecutor \<Rightarrow> MemoryStore \<Rightarrow> builtSynthesizer option \<Rightarrow> builtResponder" where
  "buildResponder c executor store synthesizer =
     (let v = cfVoice c; p = ToLower (TrimSpace (vcfProvider v)); bootstrap = bootstrapResponderOf c executor store synthesizer
      in if p \<in> set [[], lit ''bootstrap''] then bootstrap
         else if p = lit ''funasr_http'' then
           recognisingResponder c executor store synthesizer
             (HTTPRecogniser (NewHTTPTranscriber (vcfASRURL v) (vcfASRTimeoutMs v * Millisecond) (vcfASRLanguage v))) (vcfASRLanguage v)
         else if p = lit ''iflytek_rtasr'' then
           (if iflytekRTASRIncomplete (vcfIflytekRTASR v) then bootstrap
            else recognisingResponder c executor store synthesizer
              (BufferedIflytekRecogniser (NewIflytekRTASRTranscriber (rtasrConfigOf v))) (ircLanguage (vcfIflytekRTASR v)))
         else bootstrap)"

section \<open>What a client is told\<close>

record serverEndpointProfile =
  seAvailable :: bool
  seMainPathCandidate :: bool
  seEnabled :: bool
  seMode :: gostring
  seClientCommitCompatible :: bool
  seRequiresStreamingPreview :: bool
  seMinAudioMs :: int
  seSilenceMs :: int
  seHintSilenceMs :: int
  seIncompleteHoldMs :: int
  seLexicalMode :: gostring

text \<open>The fields of the realtime profile that only the discovery document reads, added to those of the handlers.\<close>

record discoveryProfile = RealtimeProfile +
  dpWSPath :: gostring
  dpSubprotocol :: gostring
  dpLLMProvider :: gostring
  dpVoiceProvider :: gostring
  dpTTSProvider :: gostring
  dpServerEndpointAvailable :: bool
  dpServerEndpointMinAudioMs :: int
  dpServerEndpointSilenceMs :: int
  dpServerEndpointLexicalMode :: gostring
  dpServerEndpointIncompleteHoldMs :: int
  dpServerEndpointHintSilenceMs :: int
  dpAuthMode :: gostring
  dpTurnMode :: gostring
  dpOutputCodec :: gostring
  dpOutputSampleRate :: int
  dpOutputChannels :: int
  dpAllowImageInput :: bool

definition serverEndpointProfileOf :: "discoveryProfile \<Rightarrow> serverEndpointProfile" where
  "serverEndpointProfileOf p =
     (let a = dpServerEndpointAvailable p
      in \<lparr>seAvailable = a, seMainPathCandidate = a, seEnabled = prServerEndpointEnabled p,
          seMode = (if \<not> a then lit ''unsupported'' else if prServerEndpointEnabled p then lit ''server_vad_assisted'' else lit ''client_commit_only''),
          seClientCommitCompatible = True, seRequiresStreamingPreview = a,
          seMinAudioMs = (if a then dpServerEndpointMinAudioMs p else 0), seSilenceMs = (if a then dpServerEndpointSilenceMs p else 0),
          seHintSilenceMs = (if a then dpServerEndpointHintSilenceMs p else 0),
          seIncompleteHoldMs = (if a then dpServerEndpointIncompleteHoldMs p else 0),
          seLexicalMode = (if a then dpServerEndpointLexicalMode p else [])\<rparr>)"

definition discoveryNotes :: "discoveryProfile \<Rightarrow> gostring list" where
  "discoveryNotes p =
     [lit ''session.start must be sent before the first inbound binary audio frame'',
      lit ''client and server may both terminate the dialog with session.end'',
      lit ''bootstrap websocket handler is available at the advertised ws_path'',
      lit ''idle timeout is enforced only while the session is active'',
      lit ''new inbound audio or session.update interrupt=true can barge into speaking state'',
      lit ''inbound audio barge-in now uses a shared adaptive threshold instead of interrupting on the very first frame'',
      lit ''clients may negotiate preview_events and playback_ack through session.start capabilities when voice_collaboration advertises them'',
      (if prServerEndpointEnabled p
       then lit ''audio turns may auto-commit through the shared server-endpoint candidate after preview silence; explicit audio.in.commit stays supported''
       else if dpServerEndpointAvailable p
       then lit ''shared server-endpointing is now a main-path candidate behind AGENT_SERVER_VOICE_SERVER_ENDPOINT_ENABLED, while explicit audio.in.commit remains the default''
       else lit ''user turns currently complete only after explicit audio.in.commit or text.in'')]"

record audioProfile =
  auCodec :: gostring
  auSampleRateHz :: int
  auChannels :: int

record realtimeInfo =
  riProfile :: discoveryProfile
  riServerEndpoint :: serverEndpointProfile
  riVoiceCollaboration :: voiceCollaborationProfile
  riInputAudio :: audioProfile
  riOutputAudio :: audioProfile
  riNotes :: "gostring list"

datatype discoveryReply = MethodNotAllowed gostring | DiscoveryDocument realtimeInfo

text \<open>The fields of the document that are constant, or copied from the profile, are those of \<open>riProfile\<close>.\<close>

definition serveDiscovery :: "discoveryProfile \<Rightarrow> gostring \<Rightarrow> discoveryReply" where
  "serveDiscovery p httpMethod =
     (if httpMethod \<noteq> lit ''GET'' then MethodNotAllowed (lit ''only GET is implemented in the bootstrap phase'')
      else DiscoveryDocument
       \<lparr>riProfile = p, riServerEndpoint = serverEndpointProfileOf p,
        riVoiceCollaboration = voiceCollaborationProfileOf (RealtimeProfile.truncate p),
        riInputAudio = \<lparr>auCodec = prInputCodec p, auSampleRateHz = prInputSampleRate p, auChannels = prInputChannels p\<rparr>,
        riOutputAudio = \<lparr>auCodec = dpOutputCodec p, auSampleRateHz = dpOutputSampleRate p, auChannels = dpOutputChannels p\<rparr>,
        riNotes = discoveryNotes p\<rparr>)"

record infoResponse =
  ifService :: gostring
  ifEnvironment :: gostring
  ifVersion :: gostring
  ifProtocolVersion :: gostring
  ifWSPath :: gostring
  ifSubprotocol :: gostring
  ifLLMProvider :: gostring
  ifAuthMode :: gostring
  ifTurnMode :: gostring
  ifServerEndpoint :: serverEndpointProfile

text \<open>\<open>ServerEndpointProfile\<close> of the control plane, from the fields of its own profile.\<close>

definition controlServerEndpoint :: "bool \<Rightarrow> bool \<Rightarrow> int \<Rightarrow> int \<Rightarrow> gostring \<Rightarrow> int \<Rightarrow> int \<Rightarrow> serverEndpointProfile" where
  "controlServerEndpoint available enabled minAudioMs silenceMs lexicalMode incompleteHoldMs hintSilenceMs =
     (let profile = \<lparr>seAvailable = available, seMainPathCandidate = available, seEnabled = enabled, seMode = [],
        seClientCommitCompatible = True, seRequiresStreamingPreview = False, seMinAudioMs = 0, seSilenceMs = 0, seHintSilenceMs = 0,
        seIncompleteHoldMs = 0, seLexicalMode = []\<rparr>
      in if \<not> available then profile\<lparr>seMode := lit ''unsupported''\<rparr>
         else profile\<lparr>seRequiresStreamingPreview := True, seMinAudioMs := minAudioMs, seSilenceMs := silenceMs,
           seHintSilenceMs := hintSilenceMs, seIncompleteHoldMs := incompleteHoldMs, seLexicalMode := lexicalMode,
           seMode := (if enabled then lit ''server_vad_assisted'' else lit ''client_commit_only'')\<rparr>)"

section \<open>The server\<close>

definition realtimeProfileOf :: "Config \<Rightarrow> discoveryProfile" where
  "realtimeProfileOf c =
     (let r = cfRealtime c; v = cfVoice c
      in \<lparr>prProtocolVersion = rtcProtocolVersion r, prServerEndpointEnabled = vcfServerEndpointEnabled v,
          prBargeInMinAudioMs = vcfBargeInMinAudioMs v, prBargeInHoldAudioMs = vcfBargeInHoldAudioMs v, prIdleTimeoutMs = rtcIdleTimeoutMs r,
          prMaxSessionMs = rtcMaxSessionMs r, prMaxFrameBytes = rtcMaxFrameBytes r, prInputCodec = rtcInputCodec r,
          prInputSampleRate = rtcInputSampleRate r, prInputChannels = rtcInputChannels r, prAllowOpus = rtcAllowOpus r,
          prAllowTextInput = rtcAllowTextInput r, dpWSPath = rtcWSPath r, dpSubprotocol = rtcSubprotocol r,
          dpLLMProvider = effectiveLLMProvider (cfAgent c), dpVoiceProvider = vcfProvider v, dpTTSProvider = ttcProvider (cfTTS c),
          dpServerEndpointAvailable = voiceProviderSupportsStreamingPreview (vcfProvider v),
          dpServerEndpointMinAudioMs = vcfServerEndpointMinAudioMs v, dpServerEndpointSilenceMs = vcfServerEndpointSilenceMs v,
          dpServerEndpointLexicalMode = vcfServerEndpointLexicalMode v, dpServerEndpointIncompleteHoldMs = vcfServerEndpointIncompleteHoldMs v,
          dpServerEndpointHintSilenceMs = vcfServerEndpointHintSilenceMs v, dpAuthMode = rtcAuthMode r, dpTurnMode = rtcTurnMode r,
          dpOutputCodec = rtcOutputCodec r, dpOutputSampleRate = rtcOutputSampleRate r, dpOutputChannels = rtcOutputChannels r,
          dpAllowImageInput = rtcAllowImageInput r\<rparr>)"

definition infoResponseOf :: "Config \<Rightarrow> infoResponse" where
  "infoResponseOf c =
     (let r = cfRealtime c; v = cfVoice c
      in \<lparr>ifService = cfServiceName c, ifEnvironment = cfEnvironment c, ifVersion = cfVersion c, ifProtocolVersion = rtcProtocolVersion r,
          ifWSPath = rtcWSPath r, ifSubprotocol = rtcSubprotocol r, ifLLMProvider = effectiveLLMProvider (cfAgent c), ifAuthMode = rtcAuthMode r,
          ifTurnMode = rtcTurnMode r,
          ifServerEndpoint = controlServerEndpoint (voiceProviderSupportsStreamingPreview (vcfProvider v)) (vcfServerEndpointEnabled v)
            (vcfServerEndpointMinAudioMs v) (vcfServerEndpointSilenceMs v) (vcfServerEndpointLexicalMode v)
            (vcfServerEndpointIncompleteHoldMs v) (vcfServerEndpointHintSilenceMs v)\<rparr>)"

definition buildXiaozhiProfile :: "Config \<Rightarrow> XiaozhiCompatProfile" where
  "buildXiaozhiProfile c =
     (let x = cfXiaozhi c; r = cfRealtime c
      in \<lparr>xpWSPath = xzcWSPath x, xpWelcomeVersion = xzcWelcomeVersion x, xpWelcomeTransport = xzcWelcomeTransport x,
          xpInputCodec = xzcInputCodec x, xpInputSampleRate = xzcInputSampleRate x, xpInputChannels = xzcInputChannels x,
          xpInputFrameDurationMs = xzcInputFrameDurationMs x, xpMaxFrameBytes = xzcMaxFrameBytes x, xpIdleTimeoutMs = xzcIdleTimeoutMs x,
          xpMaxSessionMs = xzcMaxSessionMs x, xpServerEndpointEnabled = vcfServerEndpointEnabled (cfVoice c),
          xpSourceOutputCodec = rtcOutputCodec r, xpSourceOutputRate = rtcOutputSampleRate r, xpSourceOutputChannels = rtcOutputChannels r,
          xpOutputCodec = xzcOutputCodec x, xpOutputSampleRate = xzcOutputSampleRate x, xpOutputChannels = xzcOutputChannels x,
          xpOutputFrameDurationMs = xzcOutputFrameDurationMs x\<rparr>)"

datatype route =
    HealthRoute gostring
  | InfoRoute infoResponse
  | DiscoveryRoute discoveryProfile
  | RealtimeRoute discoveryProfile builtResponder
  | DebugRedirect
  | DebugAssets
  | XiaozhiOTARoute XiaozhiCompatProfile
  | XiaozhiRoute XiaozhiCompatProfile builtResponder

type_synonym mux = "(gostring \<times> route) list"

definition routesOf :: "Config \<Rightarrow> builtResponder \<Rightarrow> mux" where
  "routesOf c responder =
     [(lit ''/healthz'', HealthRoute (cfServiceName c)), (lit ''/v1/info'', InfoRoute (infoResponseOf c)),
      (lit ''/v1/realtime'', DiscoveryRoute (realtimeProfileOf c)), (rtcWSPath (cfRealtime c), RealtimeRoute (realtimeProfileOf c) responder),
      (lit ''/debug/realtime-h5'', DebugRedirect), (lit ''/debug/realtime-h5/'', DebugAssets)]
     @ (if xzcEnabled (cfXiaozhi c)
        then [(xzcOTAPath (cfXiaozhi c), XiaozhiOTARoute (buildXiaozhiProfile c)), (xzcWSPath (cfXiaozhi c), XiaozhiRoute (buildXiaozhiProfile c) responder)]
        else [])"

text \<open>Registering the routes in their order; \<open>None\<close> is the panic of \<open>mux.Handle\<close>.\<close>

fun registerRoutes :: "(gostring \<Rightarrow> gostring \<Rightarrow> bool) \<Rightarrow> mux \<Rightarrow> mux \<Rightarrow> mux option" where
  "registerRoutes conflicts m [] = Some m"
| "registerRoutes conflicts m ((p, h) # rs) =
     (if p = [] \<or> list_ex (\<lambda>(q, _). conflicts q p) m then None else registerRoutes conflicts (m @ [(p, h)]) rs)"

record httpServer =
  hvAddr :: gostring
  hvRoutes :: mux

datatype serverOutcome = InvalidConfig gostring | RoutePanic | ServerReady httpServer

definition NewServer :: "(gostring \<Rightarrow> gostring \<Rightarrow> bool) \<Rightarrow> Config \<Rightarrow> serverOutcome" where
  "NewServer conflicts cfg =
     (let c = withRealtimeDefaults cfg
      in case Validate c of
           Some e \<Rightarrow> InvalidConfig (lit ''invalid app config: '' @ e)
         | None \<Rightarrow>
             (let runtime = buildAgentRuntime (cfAgent c); synthesizer = buildSynthesizer c;
                  responder = buildResponder c (arExecutor runtime) (arMemoryStore runtime) synthesizer
              in case registerRoutes conflicts [] (routesOf c responder) of
                   None \<Rightarrow> RoutePanic
                 | Some m \<Rightarrow> ServerReady \<lparr>hvAddr = cfListenAddr c, hvRoutes = m\<rparr>))"

section \<open>What runs\<close>

text \<open>The kinds of the parts of a responder, under the names that select them.\<close>

fun executorKind :: "builtExecutor \<Rightarrow> gostring" where
  "executorKind (BootstrapExecutor _ _) = lit ''bootstrap''"
| "executorKind (LLMExecutor _) = lit ''deepseek_chat''"

fun synthesizerKind :: "builtSynthesizer option \<Rightarrow> gostring" where
  "synthesizerKind None = lit ''none''"
| "synthesizerKind (Some (MimoTTSSynthesizer _)) = lit ''mimo_v2_tts''"
| "synthesizerKind (Some (CosyVoiceHTTPSynthesizer _)) = lit ''cosyvoice_http''"
| "synthesizerKind (Some (IflytekTTSSynthesizer _)) = lit ''iflytek_tts_ws''"
| "synthesizerKind (Some (VolcengineTTSSynthesizer _)) = lit ''volcengine_tts''"

fun recogniserKind :: "builtTranscriber \<Rightarrow> gostring" where
  "recogniserKind (HTTPRecogniser _) = lit ''funasr_http''"
| "recogniserKind (BufferedIflytekRecogniser _) = lit ''iflytek_rtasr''"

fun responderKind :: "builtResponder \<Rightarrow> gostring" where
  "responderKind (BootstrapAnswers _) = lit ''bootstrap''"
| "responderKind (RecognisingAnswers r) = recogniserKind (asTranscriber r)"

fun responderExecutor :: "builtResponder \<Rightarrow> builtExecutor option" where
  "responderExecutor (BootstrapAnswers b) = Some (buExecutor b)"
| "responderExecutor (RecognisingAnswers r) = asExecutor r"

fun responderSynthesizer :: "builtResponder \<Rightarrow> builtSynthesizer option" where
  "responderSynthesizer (BootstrapAnswers b) = buSynthesizer b"
| "responderSynthesizer (RecognisingAnswers r) = asSynthesizer r"

fun responderJudge :: "builtResponder \<Rightarrow> chatClient option" where
  "responderJudge (BootstrapAnswers b) = None"
| "responderJudge (RecognisingAnswers r) = asSemanticJudge r"

fun responderSlotParser :: "builtResponder \<Rightarrow> builtSlotParser option" where
  "responderSlotParser (BootstrapAnswers b) = None"
| "responderSlotParser (RecognisingAnswers r) = asSlotParser r"

definition asked :: "gostring \<Rightarrow> gostring \<Rightarrow> gostring" where
  "asked provider none = (let p = ToLower (TrimSpace provider) in if p = [] then none else p)"

lemma registered:
  assumes "registerRoutes conflicts m rs = Some m'" and "\<forall>p. conflicts p p" and "distinct (map fst m)"
  shows "m' = m @ rs \<and> distinct (map fst m')"
  using assms
proof (induction rs arbitrary: m)
  case (Cons r rs)
  obtain p h where r: "r = (p, h)" by (cases r)
  with Cons.prems have new: "\<not> list_ex (\<lambda>(q, _). conflicts q p) m" and rest: "registerRoutes conflicts (m @ [(p, h)]) rs = Some m'"
    by (auto split: if_split_asm)
  have "p \<notin> fst ` set m" using new Cons.prems(2) by (force simp: list_ex_iff)
  then have "distinct (map fst (m @ [(p, h)]))" using Cons.prems(3) by simp
  from Cons.IH [OF rest Cons.prems(2) this] have all: "m' = (m @ [(p, h)]) @ rs" "distinct (map fst m')" by blast+
  show ?case
  proof
    show "m' = m @ r # rs" using all(1) by (simp add: r)
  qed (rule all(2))
qed simp

lemma executor_as_effective: "executorKind (arExecutor (buildAgentRuntime a)) = effectiveLLMProvider a"
  by (simp add: buildAgentRuntime_def effectiveLLMProvider_def llmExecutor_def Let_def)

lemma problem_Nil_iff [simp]: "problem bad msg = [] \<longleftrightarrow> \<not> bad"
  by (simp add: problem_def)

lemma recognising_parts [simp]:
  "responderKind (recognisingResponder c e m s t l) = recogniserKind t"
  "responderExecutor (recognisingResponder c e m s t l) = Some e"
  "responderSynthesizer (recognisingResponder c e m s t l) = s"
  "responderJudge (recognisingResponder c e m s t l) = fst (buildVoiceSemanticJudge (cfVoice c))"
  "responderSlotParser (recognisingResponder c e m s t l) = fst (buildVoiceSemanticSlotParser (cfVoice c))"
  by (simp_all add: recognisingResponder_def WithParts_def WithSlotParser_def WithSemanticJudgeRollout_def WithSemanticJudge_def
      WithSpeechPlannerConfig_def WithTurnDetectionConfig_def NewASRResponder_def Let_def case_prod_beta)

lemma bootstrap_parts [simp]:
  "responderKind (bootstrapResponderOf c e m s) = lit ''bootstrap''" "responderExecutor (bootstrapResponderOf c e m s) = Some e"
  "responderSynthesizer (bootstrapResponderOf c e m s) = s" "responderJudge (bootstrapResponderOf c e m s) = None"
  "responderSlotParser (bootstrapResponderOf c e m s) = None"
  by (simp_all add: bootstrapResponderOf_def)

lemma responder_parts:
  "responderExecutor (buildResponder c e m s) = Some e" "responderSynthesizer (buildResponder c e m s) = s"
  by (simp_all add: buildResponder_def Let_def)

lemma voice_valid:
  assumes "validateVoiceConfig c = None"
  shows "ToLower (TrimSpace (vcfProvider (cfVoice c))) \<in> set [lit ''bootstrap'', lit ''funasr_http'', lit ''iflytek_rtasr'']"
    and "ToLower (TrimSpace (vcfProvider (cfVoice c))) = lit ''iflytek_rtasr'' \<Longrightarrow> \<not> iflytekRTASRIncomplete (vcfIflytekRTASR (cfVoice c))"
    and "vcfServerEndpointEnabled (cfVoice c) \<Longrightarrow> voiceProviderSupportsStreamingPreview (vcfProvider (cfVoice c))"
    and "vcfLLMSemanticJudgeEnabled (cfVoice c) \<Longrightarrow> validateVoiceLLMProvider (lit ''voice.llm_semantic_judge'') (vcfLLMSemanticJudgeLLM (cfVoice c)) = []"
    and "vcfLLMSlotParserEnabled (cfVoice c) \<Longrightarrow> validateVoiceLLMProvider (lit ''voice.llm_slot_parser'') (vcfLLMSlotParserLLM (cfVoice c)) = []"
  using assms unfolding validateVoiceConfig_def Let_def joinProblems_None_iff append_is_Nil_conv
  by (auto split: if_split_asm)

lemma responder_as_asked:
  assumes "validateVoiceConfig c = None"
  shows "responderKind (buildResponder c e m s) = ToLower (TrimSpace (vcfProvider (cfVoice c)))"
  using voice_valid(1,2) [OF assms] by (auto simp: buildResponder_def Let_def)

lemma helper_as_asked:
  assumes "enabled \<Longrightarrow> validateVoiceLLMProvider name v = []"
  shows "voiceHelperModel enabled v timeout \<noteq> None \<longleftrightarrow> enabled \<and> normalizeVoiceLLMProvider (vlcProvider v) \<notin> set [[], lit ''disabled'']"
  using assms unfolding voiceHelperModel_def buildVoiceChatModel_def validateVoiceLLMProvider_def Let_def
  by (auto split: if_split_asm)

lemma synthesizer_as_asked:
  assumes "validateTTSConfig c = None"
  shows "synthesizerKind (buildSynthesizer c) = asked (ttcProvider (cfTTS c)) (lit ''none'')"
  using assms unfolding validateTTSConfig_def buildSynthesizer_def asked_def cosyVoiceProblems_def Let_def joinProblems_None_iff
  by (auto simp: mimoSynthesizer_def cosyVoiceSynthesizer_def iflytekSynthesizer_def volcengineSynthesizer_def Let_def split: if_split_asm)

lemma agent_valid:
  assumes "validateAgentConfig c = None" and "ToLower (TrimSpace (agcLLMProvider (cfAgent c))) \<in> set [lit ''deepseek'', lit ''deepseek_chat'']"
  shows "effectiveLLMProvider (cfAgent c) = lit ''deepseek_chat''"
  using assms unfolding validateAgentConfig_def effectiveLLMProvider_def Let_def joinProblems_None_iff append_is_Nil_conv
  by (auto split: if_split_asm)

lemma endpoint_documents_agree: "ifServerEndpoint (infoResponseOf c) = serverEndpointProfileOf (realtimeProfileOf c)"
  by (simp add: infoResponseOf_def controlServerEndpoint_def serverEndpointProfileOf_def realtimeProfileOf_def Let_def)

lemma server_ready:
  assumes "NewServer conflicts cfg = ServerReady srv" and "\<forall>p. conflicts p p"
  shows "Validate (withRealtimeDefaults cfg) = None"
    and "hvRoutes srv = routesOf (withRealtimeDefaults cfg)
      (buildResponder (withRealtimeDefaults cfg) (arExecutor (buildAgentRuntime (cfAgent (withRealtimeDefaults cfg))))
         (arMemoryStore (buildAgentRuntime (cfAgent (withRealtimeDefaults cfg)))) (buildSynthesizer (withRealtimeDefaults cfg)))"
    and "distinct (map fst (hvRoutes srv))"
  using assms(1) registered [of conflicts "[]", OF _ assms(2)] unfolding NewServer_def Let_def
  by (auto split: option.split_asm)


section \<open>The server without configuration\<close>

definition defaultConfig :: Config where
  "defaultConfig = LoadConfig (\<lambda>_. None) (\<lambda>_. None)"

lemma default_again [simp]: "withRealtimeDefaults defaultConfig = defaultConfig"
  by (simp add: defaultConfig_def LoadConfig_def)

lemma empty_environment [simp]:
  "getenv (\<lambda>_. None) k d = d" "getenvInt (\<lambda>_. None) k n = n" "getenvBool (\<lambda>_. None) k b = b" "getenvFloat64 parse (\<lambda>_. None) k x = x"
  by (simp_all add: getenv_def getenvInt_def getenvBool_def getenvFloat64_def)

lemma default_realtime:
  "rtcWSPath (cfRealtime defaultConfig) = lit ''/v1/realtime/ws''" "rtcProtocolVersion (cfRealtime defaultConfig) = lit ''rtos-ws-v0''"
  "rtcSubprotocol (cfRealtime defaultConfig) = lit ''agent-server.realtime.v0''"
  by (simp_all add: defaultConfig_def LoadConfig_def defaulted_sections applyRealtimeDefaults_def loadRealtimeConfig_def Let_def orText_def)

lemma default_xiaozhi: "\<not> xzcEnabled (cfXiaozhi defaultConfig)"
  by (simp add: defaultConfig_def LoadConfig_def defaulted_sections applyXiaozhiDefaults_def applyRealtimeDefaults_def loadXiaozhiConfig_def Let_def)

lemma default_agent:
  "agcMemoryProvider (cfAgent defaultConfig) = lit ''in_memory''" "agcToolProvider (cfAgent defaultConfig) = lit ''builtin''"
  "agcSkills (cfAgent defaultConfig) = []" "agcLLMProvider (cfAgent defaultConfig) = lit ''auto''"
  "agcPersona (cfAgent defaultConfig) = NormalizeAgentPersona (lit ''general_assistant'')"
  "agcExecutionMode (cfAgent defaultConfig) = NormalizeAgentExecutionMode (lit ''dry_run'')"
  by (simp_all add: defaultConfig_def LoadConfig_def defaulted_sections applyAgentDefaults_def loadAgentConfig_def Let_def orText_def orBlank_def)

lemma default_voice:
  "vcfProvider (cfVoice defaultConfig) = lit ''bootstrap''" "\<not> vcfServerEndpointEnabled (cfVoice defaultConfig)"
  "vlcProvider (vcfLLMSemanticJudgeLLM (cfVoice defaultConfig)) = normalizeVoiceLLMProvider []"
  "vlcProvider (vcfLLMSlotParserLLM (cfVoice defaultConfig)) = normalizeVoiceLLMProvider []"
  "vcfLLMSemanticJudgeRolloutMode (cfVoice defaultConfig) = NormalizeSemanticJudgeRolloutMode SemanticJudgeRolloutModeControl"
  "vcfLLMSemanticJudgeRolloutPercent (cfVoice defaultConfig) = 0"
  "vcfEntityCatalogProfile (cfVoice defaultConfig) = orText (normalizeVoiceEntityCatalogProfile []) (lit ''off'')"
  by (simp_all add: defaultConfig_def LoadConfig_def defaulted_sections applyVoiceDefaults_def loadVoiceConfig_def voiceLLMDefaults_def
      semanticJudgeProviderOf_def Let_def orText_def)

lemma default_tts: "ttcProvider (cfTTS defaultConfig) = lit ''none''"
  by (simp add: defaultConfig_def LoadConfig_def defaulted_sections applyTTSDefaults_def loadTTSConfig_def Let_def orText_def)

lemma plain_names:
  "ToLower (TrimSpace (lit ''in_memory'')) = lit ''in_memory''" "ToLower (TrimSpace (lit ''builtin'')) = lit ''builtin''"
  "ToLower (TrimSpace (lit ''auto'')) = lit ''auto''" "ToLower (TrimSpace (lit ''bootstrap'')) = lit ''bootstrap''"
  "ToLower (TrimSpace (lit ''none'')) = lit ''none''"
  "TrimSpace (lit ''rtos-ws-v0'') \<noteq> []" "TrimSpace (lit ''agent-server.realtime.v0'') \<noteq> []"
  "TrimSpace (lit ''/v1/realtime/ws'') \<noteq> []" "TrimSpace (lit ''/v1/realtime'') \<noteq> []"
  "IsSupportedAgentPersona (NormalizeAgentPersona (lit ''general_assistant''))"
  "IsSupportedAgentExecutionMode (NormalizeAgentExecutionMode (lit ''dry_run''))" "splitAgentSkills [] = []"
  "normalizeVoiceLLMProvider [] = []" "IsSupportedSemanticJudgeRolloutMode SemanticJudgeRolloutModeControl"
  "IsSupportedSemanticJudgeRolloutMode (NormalizeSemanticJudgeRolloutMode SemanticJudgeRolloutModeControl)"
  "isSupportedVoiceEntityCatalogProfile (orText (normalizeVoiceEntityCatalogProfile []) (lit ''off''))"
  by code_simp+

lemma default_sections_valid:
  "validateAgentConfig defaultConfig = None" "validateVoiceConfig defaultConfig = None" "validateTTSConfig defaultConfig = None"
proof -
  have "0 < agcMemoryMaxTurns (cfAgent defaultConfig)"
    using defaults_ok [of defaultConfig] by (simp add: config_ok_def agent_ok_def)
  then show "validateAgentConfig defaultConfig = None"
    by (simp add: validateAgentConfig_def Let_def joinProblems_None_iff default_agent plain_names problem_def)
  show "validateVoiceConfig defaultConfig = None"
    by (simp add: validateVoiceConfig_def validateVoiceLLMProvider_def Let_def joinProblems_None_iff default_voice plain_names problem_def)
  show "validateTTSConfig defaultConfig = None"
    by (simp add: validateTTSConfig_def Let_def joinProblems_None_iff default_tts plain_names)
qed

text \<open>A configuration that differs from it in the path of the websocket.\<close>

lemma repathed_valid:
  assumes "TrimSpace path \<noteq> []"
  shows "Validate (defaultConfig\<lparr>cfRealtime := (cfRealtime defaultConfig)\<lparr>rtcWSPath := path\<rparr>\<rparr>) = None"
    and "rtcWSPath (cfRealtime (withRealtimeDefaults (defaultConfig\<lparr>cfRealtime := (cfRealtime defaultConfig)\<lparr>rtcWSPath := path\<rparr>\<rparr>))) = path"
proof -
  let ?d = "defaultConfig\<lparr>cfRealtime := (cfRealtime defaultConfig)\<lparr>rtcWSPath := path\<rparr>\<rparr>"
  let ?c = "withRealtimeDefaults ?d"
  have path: "path \<noteq> []" using assms by auto
  show p: "rtcWSPath (cfRealtime ?c) = path" by (simp add: defaulted_sections applyRealtimeDefaults_def Let_def orText_def path)
  have r: "rtcProtocolVersion (cfRealtime ?c) = lit ''rtos-ws-v0''" "rtcSubprotocol (cfRealtime ?c) = lit ''agent-server.realtime.v0''"
    by (simp_all add: defaulted_sections applyRealtimeDefaults_def Let_def orText_def default_realtime)
  have "realtime_ok (cfRealtime ?c)" using defaults_ok [of ?d] by (simp add: config_ok_def)
  then have realtime: "validateRealtimeConfig ?c = None"
    using assms by (simp add: validateRealtimeConfig_def Let_def joinProblems_None_iff p r plain_names realtime_ok_def)
  have same: "cfAgent ?c = cfAgent defaultConfig" "cfVoice ?c = cfVoice defaultConfig" "cfTTS ?c = cfTTS defaultConfig"
    using section_cong(3) [of ?d defaultConfig] section_cong(4) [of ?d defaultConfig] section_cong(5) [of ?d defaultConfig]
      defaulted_sections(3-5) [of ?d] defaulted_sections(3-5) [of defaultConfig] by simp_all
  have "\<not> xzcEnabled (cfXiaozhi ?c)"
    using default_xiaozhi by (simp add: defaulted_sections applyXiaozhiDefaults_def applyRealtimeDefaults_def Let_def)
  then have xiaozhi: "validateXiaozhiConfig ?c = None" by (simp add: validateXiaozhiConfig_def)
  have "validateAgentConfig ?c = None" "validateVoiceConfig ?c = None" "validateTTSConfig ?c = None"
    using default_sections_valid unfolding validateAgentConfig_def validateVoiceConfig_def validateTTSConfig_def same by blast+
  then show "Validate ?d = None" by (simp only: Validate_None realtime xiaozhi simp_thms)
qed

lemma default_valid: "Validate defaultConfig = None"
proof -
  have "defaultConfig\<lparr>cfRealtime := (cfRealtime defaultConfig)\<lparr>rtcWSPath := rtcWSPath (cfRealtime defaultConfig)\<rparr>\<rparr> = defaultConfig" by simp
  moreover have "TrimSpace (rtcWSPath (cfRealtime defaultConfig)) \<noteq> []" by (simp add: default_realtime plain_names)
  ultimately show ?thesis using repathed_valid(1) [of "rtcWSPath (cfRealtime defaultConfig)"] by simp
qed

lemma default_routes: "registerRoutes (=) [] (routesOf defaultConfig responder) = Some (routesOf defaultConfig responder)"
proof -
  have "map fst (routesOf defaultConfig responder) = [lit ''/healthz'', lit ''/v1/info'', lit ''/v1/realtime'', lit ''/v1/realtime/ws'',
      lit ''/debug/realtime-h5'', lit ''/debug/realtime-h5/'']"
    by (simp add: routesOf_def default_xiaozhi default_realtime)
  then show ?thesis by (auto simp: map_eq_Cons_conv)
qed

definition defaultServer :: httpServer where
  "defaultServer = \<lparr>hvAddr = cfListenAddr defaultConfig, hvRoutes = routesOf defaultConfig
     (buildResponder defaultConfig (arExecutor (buildAgentRuntime (cfAgent defaultConfig)))
       (arMemoryStore (buildAgentRuntime (cfAgent defaultConfig))) (buildSynthesizer defaultConfig))\<rparr>"

lemma default_ready: "NewServer (=) defaultConfig = ServerReady defaultServer"
  by (simp add: NewServer_def default_valid default_routes defaultServer_def Let_def)


text \<open>The paths are not validated against each other: a websocket on the path of the discovery document is a valid configuration.\<close>

definition collidingConfig :: Config where
  "collidingConfig = defaultConfig\<lparr>cfRealtime := (cfRealtime defaultConfig)\<lparr>rtcWSPath := lit ''/v1/realtime''\<rparr>\<rparr>"

lemma colliding_path_panics:
  assumes "\<forall>p. conflicts p p"
  shows "Validate collidingConfig = None \<and> NewServer conflicts collidingConfig = RoutePanic"
proof -
  note c = repathed_valid [OF plain_names(9), folded collidingConfig_def]
  have valid': "Validate (withRealtimeDefaults collidingConfig) = None" using c(1) by (simp add: Validate_None)
  have "registerRoutes conflicts [] (routesOf (withRealtimeDefaults collidingConfig) responder) = None" for responder
    using assms by (simp add: routesOf_def c(2))
  then show ?thesis using c(1) by (simp add: NewServer_def valid' Let_def)
qed

end
