(* ===== verification/Spec2Isabelle.thy ===== *)
theory Spec2Isabelle
  imports Session Channel_Bridge Input_Preview Speech_Synthesis Output_Effects Playback_Ack Playback_Memory Gateway_Turns App_Wiring
begin

text \<open>
  Verification library of agent-server, a Go server for realtime voice agents.

  \<^bold>\<open>The program.\<close> A device opens a websocket; the gateway (src/internal/gateway) owns one
  realtime session per connection (src/internal/session), feeds incoming audio to a preview recogniser,
  asks the voice runtime (src/internal/voice) whether the user has finished a turn, commits the turn,
  runs the agent (src/internal/agent) for an answer, has the answer synthesised clause by clause while it
  is still being generated, and plays it out. While it plays, the user may speak: an interruption policy
  decides between ignoring, ducking, acknowledging a backchannel and stopping. A session orchestrator
  records how much of the answer was really heard and stores that, not the generated text, in the
  conversation memory from which the next turn takes its context. A second protocol, of
  xiaozhi devices, drives the same runtime; a bridge (src/internal/channel) hands messages of chat channels to the agent;
  and src/internal/app reads the configuration and puts the server together.

  \<^bold>\<open>The theories\<close>, by the part of the program they model.

  The values of the language:
  \<^item> \<open>Go_Prelude\<close>: the Go values the models use and the lemmas about them. Texts are lists of runes
    (\<open>gostring\<close>; the code that depends on runes converts with []rune), \<open>TrimSpace\<close>, \<open>ToLower\<close>, \<open>HasPrefix\<close>,
    \<open>Contains\<close>, \<open>Itoa\<close> follow the strings and strconv packages; durations and instants are \<open>int\<close>
    nanoseconds, \<open>None\<close> is the zero time; \<open>int64\<close> is two's complement wrap-around, \<open>byte\<close> is \<open>8 word\<close>.
  \<^item> \<open>Go_Float\<close>: float64 as rationals with round-to-nearest-even after every operation (\<open>fl\<close>, \<open>fadd\<close>,
    \<open>fmul\<close>, \<open>fdiv\<close>), without overflow to infinity, subnormals or fused multiply-add, none of which the values
    in this program reach (scores in [0,1], durations and rune counts); \<open>Round\<close> and \<open>clampUnit\<close>.

  Sessions and the voice runtime, src/internal/session and src/internal/voice:
  \<^item> \<open>Session\<close>: \<open>RealtimeSession\<close> with every method as one function, because each method
    holds the mutex for its whole body. Time is an argument. The locale \<open>session_operation\<close> states the
    contract shared by the fallible methods (an error leaves the session as it is, the invariant is kept,
    the state shown is the derived one) and is interpreted for all seven of them.
  \<^item> \<open>Lexical\<close>: the word lists and lexical analysis of turn_detector.go, barge_in.go and
    semantic_task_family.go: completeness, pending corrections, stable prefixes, backchannels, takeovers.
  \<^item> \<open>Turn_Detector\<close>: turn_detector.go and the arbitration data of contracts.go. \<open>SilenceTurnDetector\<close> with its
    observations, snapshot and latch, the multi-signal arbitrator and its stages.
  \<^item> \<open>Semantic_Judge\<close>, \<open>Semantic_Slots\<close>, \<open>Entity_Catalog\<close>: semantic_judge.go with its rollout, the slot parser with the
    normalisation of spoken values, and entity_catalog.go: answers of a language model decoded and merged into a preview.
  \<^item> \<open>Input_Preview\<close>: the preview sessions of asr_responder.go and the recognition of a turn's audio. Requests that run in
    goroutines are returned by the call that launches them; their answers are steps of their own. The locale
    \<open>streaming_recogniser\<close> is the promise of a recogniser's stream, interpreted for the buffering recogniser.
  \<^item> \<open>Recognizers\<close>: http_transcriber.go and iflytek_rtasr.go, over a recognition service that is a parameter.
  \<^item> \<open>Barge_In\<close>: barge_in.go. \<open>EvaluateBargeIn\<close> with its float64 scores and the directive of a decision.
  \<^item> \<open>Speech_Planner\<close>: speech_planner.go. Streamed text is cut into clauses with boundary, prosody and duration.
  \<^item> \<open>Pcm_Audio\<close>, \<open>Audio_Stream\<close>: audio_output.go, audio_stream.go, synthesis_audio.go: frames, WAV files, resampling,
    streams, and speech synthesis by streaming with a buffered fallback.
  \<^item> \<open>Speech_Synthesis\<close>: the concurrent half of speech_planner.go: producer, synthesis worker and audio stream
    around two bounded channels, as a step relation over all interleavings.
  \<^item> \<open>Turn_Response\<close>: orchestrated_response.go and the gateway's output_outcome.go: the future through which a
    responder publishes early audio and its final response.
  \<^item> \<open>Spoken_Turns\<close>: speech_metadata.go, turn_executor.go and the two responders: from the audio of a turn to the clauses
    that are spoken.
  \<^item> \<open>Heard_Text\<close>: the estimate of the heard part of an answer (session_orchestrator.go). The locale
    \<open>heard_estimate\<close> states what an estimate promises (a prefix, empty before playback, all of it at the end,
    monotone in time).
  \<^item> \<open>Orchestrator\<close>: session_orchestrator.go and the turn data of turn_executor.go. The locale \<open>turn_update\<close>
    is the contract of the playback observations, interpreted for all seven of them. \<open>Playback_Memory\<close> connects it to
    the memory for the property below.
  \<^item> \<open>Input_Audio\<close>: input_audio.go: Opus packet headers and the normalisers; the codec is a parameter.

  The agent and the channel bridge, src/internal/agent and src/internal/channel:
  \<^item> \<open>Memory_Store\<close>: runtime_backends.go, memory_context.go and hooks.go. The locale
    \<open>memory_store\<close> is the promise of the interface MemoryStore (what a load returns was saved, bounded
    history), interpreted for the in-memory store, the no-op store and the dispatch between them.
  \<^item> \<open>Agent_Turns\<close>: contracts.go, playback_followup.go and bootstrap_executor.go. \<open>Agent_Tools\<close>: the builtin tools and the
    household skill. \<open>Agent_Prompts\<close>: the sections of the system prompt.
  \<^item> \<open>Llm_Executor\<close>: llm_executor.go: prepared work, messages, one step of the model and the loop over at most six of them.
    \<open>Deepseek_Chat\<close>: deepseek_chat.go: requests, completions and event streams of the chat service, which is a parameter.
  \<^item> \<open>Channel_Bridge\<close>: contracts.go and runtime_bridge.go of the channel bridge.

  The gateway, src/internal/gateway:
  \<^item> \<open>Playback_Ack\<close>: voice_collaboration.go: segment meta data, acknowledgement state and the
    heard text of a client mark; its estimate is the second interpretation of \<open>heard_estimate\<close>.
  \<^item> \<open>Output_Effects\<close>: output_effects.go: gain ramps and the scaling of PCM16 audio.
  \<^item> \<open>Turn_Flow\<close>: turn_flow.go: the loop that merges deltas,
    early audio and the response into one stream of events, over every order its \<open>select\<close> can choose; the hooks of
    the transport are the fields of \<open>turnExecutionOptions\<close>.
  \<^item> \<open>Gateway_Traces\<close>: turn_trace.go and preview_trace.go, with their latched times.
  \<^item> \<open>Gateway_Runtime\<close>: realtime_runtime.go, barge_in_runtime.go, turn_input_preview.go and output_flow.go: the state
    of a connection, \<open>connectionRuntime\<close>, and the operations the handlers share. An operation that can fail is a \<open>gop\<close>;
    \<open>gbind\<close> returns at the first error. Clock readings and the success of writes come from an oracle in the state.
  \<^item> \<open>Gateway_Handlers\<close>: realtime_ws.go: every handler of the realtime protocol, the endpoint timer and the playback
    goroutine, each one atomic; \<open>connection_step\<close> is one message, one tick or one step of the goroutine.
  \<^item> \<open>Gateway_Connection\<close>: the locale \<open>connection_frame\<close> is the contract of a predicate kept by the primitive
    operations of a connection, \<open>connection_invariant\<close> adds the staged audio, \<open>keeping_hooks\<close> the hooks of a turn; inside
    them every handler is shown to keep the predicate. They are interpreted for the invariants of the parts, for the
    numbers of the events and for the staged audio. \<open>Gateway_Turns\<close>: audio spoken over an answer, and deadlines.
  \<^item> \<open>Xiaozhi_Protocol\<close>: xiaozhi_protocol.go and xiaozhi_audio.go, binary frames and the packets of the encoder.
    \<open>Xiaozhi_Handlers\<close>: xiaozhi_ws.go and xiaozhi_ota.go, the handlers of the compatibility protocol over the
    connection runtime; the locale \<open>compat_contract\<close> extends \<open>connection_invariant\<close> to them.

  The process, src/internal/app:
  \<^item> \<open>App_Config\<close>: the configuration, its defaults and its validation. \<open>App_Wiring\<close>: app.go, the discovery documents of
    src/internal/gateway and src/internal/control: what \<open>NewServer\<close> builds and where it serves it.

  \<^bold>\<open>What is proved.\<close> For every stateful component an invariant of all reachable states (sessions,
  detectors, orchestrators, synthesis pipelines, acknowledgement states), with the step relation built
  from the component's own methods.
  \<^item> Listening. A commit returns exactly the bytes accepted since the last commit; when exactly a fresh commit suggestion
    appears, that it is latched and that drafts wait for evidence; a judgement of the language model only weights the
    acoustic decision, and slots are changed on evidence of the catalogue alone. Streaming recognition gives what recognition of the whole gives;
    streams announce their deltas in order; segments are assembled in the order of the speech whatever order they arrive in.
  \<^item> Answering. An answer is what was announced and what is saved; prepared work changes nothing but the time; every tool call
    is answered; the model is told what was missed, and an answer that was cut off is resumed with exactly the missed rest. The
    stream of the chat service is the completion its chunks stand for. A turn emits its events once and in order
    whatever the order of its channels. A bridge reports once, and a message that is sent again is remembered once.
  \<^item> Speaking. No rune is lost or duplicated by the planner; under every interleaving the pipeline is safe, makes progress and
    plays the clauses in the order in which they were planned; ducking never amplifies.
  \<^item> Interruption and memory. When exactly speech stops playback, that
    backchannels do not, that long speech always does; what an interruption reports as heard and what a completed playback
    leaves; the bounds and the upsert of memory, and that a context holds only what was saved.
  \<^item> Connections. For both protocols the invariants of all parts hold after any sequence of messages, ticks and
    playback steps; events are numbered increasingly; audio spoken over an answer reaches the next turn; frames
    are accepted exactly when they have the layout of the negotiated version and round trip; an abort silences the answer.
  \<^item> The process. The defaults are idempotent; a server that starts runs what it was configured with under the paths that it
    advertises; two routes on one path stop it at its start.
  This theory adds the property across components: an interrupted answer is remembered as far as it was heard.
  Some lemmas record where the code differs from its own comments or purpose (a whitespace delta is spoken again, a
  segment can be marked last too early, a takeover word is swallowed as a backchannel, staged audio outlives its
  session, the start of speech over an answer can go unreported, a failed answer leaves a compatibility session deaf,
  a turn with recognised words never finds its prepared work).

  \<^bold>\<open>Modelling choices.\<close> Mutex-protected methods are atomic functions on records; goroutines and channels
  are a step relation. Clones of maps and slices are identities, since the values are immutable here. Calls
  through interfaces whose implementations are outside the repository, or that a component takes as given, are parameters: their
  answers are arguments of the definitions. Formatting with %q is the parameter \<open>quote\<close>. Recursion follows the
  source's loops and terminates without fuel, the loop over the steps of a model by the source's own bound. Images of a
  turn input are left out, since no modelled code reads them.

  \<^bold>\<open>Not modelled:\<close> sockets, the upgrade to a websocket and the read pump; the codecs of JSON, HTTP, Opus and ffmpeg (parameters where
  the code uses their answers); the clients of the speech synthesis services; logging and the wrappers that only log; the start of the
  process, its signals and its static files. The manifest PROJECT.json lists them by file.
\<close>

section \<open>Properties across components\<close>

text \<open>
  C1: an interrupted answer is remembered as far as it was heard. Take an orchestrator on an in-memory
  store, prepare a turn that the session has not seen, play it with any sequence of observations and
  interrupt it while it plays. Then the context recalled for the session ends with the messages of
  this turn: the user text and, if anything was heard, exactly the heard text that the interruption
  reports; the part that was not heard is never recalled.
\<close>
theorem interrupted_turn_remembered_as_heard:
  assumes "store_inv s" and "orMemoryStore o0 = InMemory s" and "\<And>t. orTurn o0 = Some t \<Longrightarrow> rqTurnID (otRequest t) \<noteq> rqTurnID req"
    and "rqTurnID req \<noteq> []" and "TrimSpace (rqSessionID req) \<noteq> []"
    and "\<forall>x \<in> set (msRecordsByScope s (sessionKey (rqSessionID req))). recTurnID x \<noteq> rqTurnID req"
    and "list_all is_observation calls"
    and "o1 = fold orchestrator_step calls (PrepareTurn req input response o0)"
    and "orTurn o1 = Some t" and "otPlaybackActive t"
    and "InterruptPlaybackWithPolicy p r o1 = (res, o2)"
    and "TrimSpace (qSessionID q) = TrimSpace (rqSessionID req)"
  shows "suffix ((if TrimSpace (otInputText t) \<noteq> [] then [\<lparr>msgRole = lit ''user'', msgContent = otInputText t\<rparr>] else []) @
      (if TrimSpace (piHeardText res) \<noteq> [] then [\<lparr>msgRole = lit ''assistant'', msgContent = TrimSpace (piHeardText res)\<rparr>] else []))
    (ctxRecentMessages (storeLoadTurnContext quote q (orMemoryStore o2)))"
proof -
  have "playing req (InMemory s) o1"
    unfolding assms(8) using playing_prepare [of o0 req input response] assms(2,3,7) by (intro playing_run) simp_all
  from interrupted_store [OF this _ assms(4,9,10,11)] assms(1)
  obtain rec where rec: "orMemoryStore o2 = InMemory (SaveTurn rec s)" "record_of req rec" "recHeardText rec = piHeardText res"
    "\<not> recPlaybackCompleted rec" "recUserText rec = otInputText t" by auto
  have "suffix (turnMessages rec) (ctxRecentMessages (LoadTurnContext quote q (SaveTurn rec s)))"
    using rec(2) assms(1,5,6,12) by (intro recall_saved_turn) (simp_all add: record_of_def)
  moreover have "turnMessages rec = (if TrimSpace (otInputText t) \<noteq> [] then [\<lparr>msgRole = lit ''user'', msgContent = otInputText t\<rparr>] else []) @
      (if TrimSpace (piHeardText res) \<noteq> [] then [\<lparr>msgRole = lit ''assistant'', msgContent = TrimSpace (piHeardText res)\<rparr>] else [])"
    using rec by (simp add: turnMessages_def memoryAssistantText_def)
  ultimately show ?thesis using rec(1) by simp
qed

theorem interrupted_turn_remembered_as_heard_witness:
  "let i = InterruptPlaybackWithPolicy PolicyHardInterrupt []
        (fold orchestrator_step [CallStartPlayback (lit ''hello there'') 20000000 0 False, CallObserveChunk]
          (PrepareTurn sampleRequest (lit ''hi'') (lit ''hello there'') (NewSessionOrchestrator (Some (InMemory (NewInMemoryMemoryStore 8))))))
   in suffix ((if TrimSpace (lit ''hi'') \<noteq> [] then [\<lparr>msgRole = lit ''user'', msgContent = lit ''hi''\<rparr>] else []) @
      (if TrimSpace (piHeardText (fst i)) \<noteq> [] then [\<lparr>msgRole = lit ''assistant'', msgContent = TrimSpace (piHeardText (fst i))\<rparr>] else []))
    (ctxRecentMessages (storeLoadTurnContext id sampleQuery (orMemoryStore (snd i))))"
proof -
  let ?s = "NewInMemoryMemoryStore 8"
  let ?o0 = "NewSessionOrchestrator (Some (InMemory ?s))"
  let ?calls = "[CallStartPlayback (lit ''hello there'') 20000000 0 False, CallObserveChunk]"
  let ?o1 = "fold orchestrator_step ?calls (PrepareTurn sampleRequest (lit ''hi'') (lit ''hello there'') ?o0)"
  let ?i = "InterruptPlaybackWithPolicy PolicyHardInterrupt [] ?o1"
  have hi: "TrimSpace (lit ''hi'') = lit ''hi''" by code_simp
  obtain t where t: "orTurn ?o1 = Some t" "otPlaybackActive t" "otInputText t = lit ''hi''"
    by (simp add: ObservePlaybackChunk_def chunkTurn_def StartPlaybackWithOptions_def PrepareTurn_def
        NewSessionOrchestrator_def newTurn_def hi)
  have "suffix ((if TrimSpace (otInputText t) \<noteq> [] then [\<lparr>msgRole = lit ''user'', msgContent = otInputText t\<rparr>] else []) @
      (if TrimSpace (piHeardText (fst ?i)) \<noteq> [] then [\<lparr>msgRole = lit ''assistant'', msgContent = TrimSpace (piHeardText (fst ?i))\<rparr>] else []))
    (ctxRecentMessages (storeLoadTurnContext id sampleQuery (orMemoryStore (snd ?i))))"
  proof (rule interrupted_turn_remembered_as_heard [OF store_inv_New [of 8] _ _ _ _ _ _ refl t(1,2) prod.collapse [symmetric]])
    show "TrimSpace (rqSessionID sampleRequest) \<noteq> []" by code_simp
    show "TrimSpace (qSessionID sampleQuery) = TrimSpace (rqSessionID sampleRequest)" by code_simp
  qed (simp_all add: NewSessionOrchestrator_def sampleRequest_def NewInMemoryMemoryStore_def Let_def)
  then show ?thesis unfolding t(3) Let_def .
qed

end
